(* ===== verification/F64.thy ===== *)
theory F64
  imports Complex_Main "HOL-Library.Log_Nat"
begin

section \<open>IEEE 754 binary64 arithmetic\<close>

text \<open>
  Rust's \<open>f64\<close>, as the program uses it: addition, subtraction, multiplication and
  division rounded to nearest with ties to even, overflow to the infinities, gradual
  underflow, NaN, the IEEE comparisons, \<open>min\<close>, \<open>max\<close>, \<open>abs\<close>,
  \<open>floor\<close>, \<open>is_finite\<close> and the decimal \<open>Display\<close> form.

  A finite value is an integer significand and a binary exponent in lowest terms, so that
  equal values are equal terms and evaluation stays on integers. \<open>fval\<close> reads a finite
  value as a rational and \<open>f64_rnd\<close> rounds a rational; every operation on finite
  operands is \<open>f64_rnd\<close> of the exact result. The two zeros are one value (nothing in
  the modelled code reads the sign of a zero) and all NaNs are one value. A division by
  zero of a non-zero finite value is the infinity of the dividend's sign.
\<close>

subsection \<open>Powers of two and rounding to an integer\<close>


definition pow2 :: "int \<Rightarrow> rat" where
  "pow2 e = 2 powi e"

lemma pow2_pos [simp]: "0 < pow2 e"
  by (simp add: pow2_def)

lemma pow2_nonneg [simp]: "0 \<le> pow2 e" "pow2 e \<noteq> 0" "\<bar>pow2 e\<bar> = pow2 e"
  by (simp_all add: pow2_def)

lemma pow2_0 [simp]: "pow2 0 = 1" "pow2 1 = 2" "\<not> pow2 e \<le> 0" "\<not> pow2 e < 0"
  by (simp_all add: pow2_def not_le not_less)

lemma pow2_add: "pow2 (a + b) = pow2 a * pow2 b"
  by (simp add: pow2_def power_int_add)

lemma pow2_Suc: "pow2 (a + 1) = 2 * pow2 a"
  by (simp add: pow2_def power_int_add)

lemma pow2_diff: "pow2 (a - b) = pow2 a / pow2 b"
  by (simp add: pow2_def power_int_diff)

lemma pow2_less_iff [simp]: "pow2 a < pow2 b \<longleftrightarrow> a < b"
  unfolding pow2_def
  by (metis linorder_neqE_linordered_idom not_less_iff_gr_or_eq one_less_numeral_iff
      power_int_strict_increasing semiring_norm(76))

lemma pow2_le_iff [simp]: "pow2 a \<le> pow2 b \<longleftrightarrow> a \<le> b"
  by (simp flip: not_less)

lemma pow2_nat: "0 \<le> e \<Longrightarrow> pow2 e = of_int (2 ^ nat e)"
  by (simp add: pow2_def power_int_def)

lemma pow2_neg: "e \<le> 0 \<Longrightarrow> pow2 e = 1 / of_int (2 ^ nat (- e))"
  by (auto simp: pow2_def power_int_def power_one_over)

definition round_half_even :: "rat \<Rightarrow> int" where
  "round_half_even x =
     (let f = \<lfloor>x\<rfloor>; d = x - of_int f
      in if d < 1 / 2 then f else if 1 / 2 < d then f + 1
         else if even f then f else f + 1)"

definition rhe_div :: "int \<Rightarrow> int \<Rightarrow> int" where
  "rhe_div p n =
     (let f = p div n; r = 2 * (p mod n)
      in if r < n then f else if n < r then f + 1 else if even f then f else f + 1)"

lemma rhe_div_eq: "0 < n \<Longrightarrow> rhe_div p n = round_half_even (of_int p / of_int n)"
proof -
  assume n: "0 < n"
  have fl: "\<lfloor>(of_int p :: rat) / of_int n\<rfloor> = p div n" by (rule floor_divide_of_int_eq)
  have "(of_int p :: rat) = of_int (p div n) * of_int n + of_int (p mod n)"
    by (metis div_mult_mod_eq of_int_add of_int_mult)
  then have d: "(of_int p :: rat) / of_int n - of_int (p div n) = of_int (p mod n) / of_int n"
    using n by (simp add: field_simps)
  have "((of_int (p mod n) :: rat) / of_int n < 1 / 2) = (of_int (2 * (p mod n)) < (of_int n :: rat))"
    using n by (simp add: field_simps)
  then have lt: "((of_int (p mod n) :: rat) / of_int n < 1 / 2) = (2 * (p mod n) < n)"
    by (simp only: of_int_less_iff)
  have "(1 / 2 < (of_int (p mod n) :: rat) / of_int n) = (of_int n < (of_int (2 * (p mod n)) :: rat))"
    using n by (simp add: field_simps)
  then have gt: "(1 / 2 < (of_int (p mod n) :: rat) / of_int n) = (n < 2 * (p mod n))"
    by (simp only: of_int_less_iff)
  show ?thesis
    unfolding rhe_div_def round_half_even_def Let_def fl d lt gt by simp
qed

lemma round_half_even_err: "\<bar>of_int (round_half_even x) - x\<bar> \<le> 1 / 2"
proof -
  have "of_int \<lfloor>x\<rfloor> \<le> x" "x < of_int \<lfloor>x\<rfloor> + 1" by linarith+
  then show ?thesis
    by (auto simp: round_half_even_def Let_def)
qed

lemma round_half_even_of_int [simp]: "round_half_even (of_int n) = n"
  by (simp add: round_half_even_def)

lemma round_half_even_mono:
  assumes "x \<le> y" shows "round_half_even x \<le> round_half_even y"
proof (cases "\<lfloor>x\<rfloor> = \<lfloor>y\<rfloor>")
  case True
  with assms show ?thesis by (auto simp: round_half_even_def Let_def)
next
  case False
  with assms have "\<lfloor>x\<rfloor> + 1 \<le> \<lfloor>y\<rfloor>" using floor_mono [OF assms] by linarith
  then show ?thesis by (auto simp: round_half_even_def Let_def)
qed

lemma round_half_even_minus: "round_half_even (- x) = - round_half_even x"
proof (cases "x \<in> \<int>")
  case True
  then obtain n where "x = of_int n" by (auto elim: Ints_cases)
  then show ?thesis using round_half_even_of_int [of "- n"] by simp
next
  case False
  have fl: "\<lfloor>- x\<rfloor> = - \<lfloor>x\<rfloor> - 1"
    using False by (metis Ints_of_int ceiling_altdef ceiling_def diff_minus_eq_add minus_diff_eq minus_minus add_diff_cancel_right' uminus_add_conv_diff)
  show ?thesis
    unfolding round_half_even_def Let_def fl by auto
qed

subsection \<open>The binary logarithm of a ratio\<close>

definition ratio_log2 :: "int \<Rightarrow> int \<Rightarrow> int" where
  "ratio_log2 p n =
     (let k = bitlen p - bitlen n
      in if (if 0 \<le> k then n * 2 ^ nat k \<le> p else n \<le> p * 2 ^ nat (- k)) then k else k - 1)"

lemma powi_le_ratio:
  "0 < n \<Longrightarrow> (pow2 k \<le> (of_int p :: rat) / of_int n)
     = (if 0 \<le> k then n * 2 ^ nat k \<le> p else n \<le> p * 2 ^ nat (- k))"
proof -
  assume n: "0 < n"
  show ?thesis
  proof (cases "0 \<le> k")
    case True
    then have "pow2 k = (2::rat) ^ nat k" by (simp add: pow2_nat)
    moreover have "(2 ^ nat k \<le> (of_int p :: rat) / of_int n) = (of_int (n * 2 ^ nat k) \<le> (of_int p :: rat))"
      using n by (simp add: field_simps)
    ultimately show ?thesis using True by (simp only: of_int_le_iff if_True)
  next
    case False
    then have "pow2 k = 1 / (2::rat) ^ nat (- k)" by (simp add: pow2_neg)
    moreover have "(1 / 2 ^ nat (- k) \<le> (of_int p :: rat) / of_int n) = (of_int n \<le> (of_int (p * 2 ^ nat (- k)) :: rat))"
      using n by (simp add: field_simps)
    ultimately show ?thesis using False by (simp only: of_int_le_iff if_False)
  qed
qed

lemma bitlen_bounds_rat:
  assumes "0 < p" shows "pow2 (bitlen p - 1) \<le> (of_int p :: rat)" "(of_int p :: rat) < pow2 (bitlen p)"
proof -
  have b: "0 < bitlen p"
    using assms bitlen_nonneg [of p] bitlen_eq_zero_iff [of p] by linarith
  have "2 ^ nat (bitlen p - 1) \<le> p \<and> p < 2 ^ nat (bitlen p)"
    using bitlen_bounds [OF assms] .
  then have "(of_int (2 ^ nat (bitlen p - 1)) :: rat) \<le> of_int p" "(of_int p :: rat) < of_int (2 ^ nat (bitlen p))"
    by (simp_all only: of_int_le_iff of_int_less_iff)
  then show "pow2 (bitlen p - 1) \<le> (of_int p :: rat)" "(of_int p :: rat) < pow2 (bitlen p)"
    using b by (simp_all add: pow2_nat)
qed

lemma ratio_log2_spec:
  assumes "0 < p" "0 < n"
  shows "pow2 (ratio_log2 p n) \<le> (of_int p :: rat) / of_int n"
    "(of_int p :: rat) / of_int n < pow2 (ratio_log2 p n + 1)"
proof -
  let ?q = "(of_int p :: rat) / of_int n" and ?k = "bitlen p - bitlen n"
  have lo: "pow2 (?k - 1) \<le> ?q"
  proof -
    have "pow2 (?k - 1) = pow2 (bitlen p - 1) / pow2 (bitlen n)"
      by (simp add: pow2_diff)
    also have "\<dots> \<le> of_int p / of_int n"
      using bitlen_bounds_rat [OF assms(1)] bitlen_bounds_rat [OF assms(2)] assms
      by (intro frac_le) auto
    finally show ?thesis .
  qed
  have hi: "?q < pow2 (?k + 1)"
  proof -
    have "?q < pow2 (bitlen p) / pow2 (bitlen n - 1)"
      using bitlen_bounds_rat [OF assms(1)] bitlen_bounds_rat [OF assms(2)] assms
      by (intro frac_less) auto
    also have "\<dots> = pow2 (?k + 1)"
      by (simp add: pow2_diff pow2_Suc)
    finally show ?thesis .
  qed
  have r: "ratio_log2 p n = (if pow2 ?k \<le> ?q then ?k else ?k - 1)"
    unfolding ratio_log2_def Let_def powi_le_ratio [OF assms(2)] by simp
  show "pow2 (ratio_log2 p n) \<le> ?q" "?q < pow2 (ratio_log2 p n + 1)"
    using lo hi by (auto simp: r not_le)
qed

lemma powi_bracket_unique:
  assumes "pow2 a \<le> q" "q < pow2 (a + 1)" "pow2 b \<le> q" "q < pow2 (b + 1)"
  shows "a = b"
proof -
  have "pow2 a < pow2 (b + 1)" "pow2 b < pow2 (a + 1)"
    using assms by linarith+
  then have "a < b + 1" "b < a + 1"
    by simp_all
  then show ?thesis by simp
qed


subsection \<open>Rounding a ratio to 53 bits\<close>

text \<open>
  \<open>ulp_exp\<close> is the exponent of the last place of the result: 53 significant bits,
  never below the subnormal exponent. \<open>pack\<close> brings the rounded significand to lowest
  terms or overflows.
\<close>

definition ulp_exp :: "int \<Rightarrow> int" where
  "ulp_exp k = max (k - 52) (- 1074)"

fun strip2 :: "int \<Rightarrow> int \<Rightarrow> int \<times> int" where
  "strip2 m e = (if m = 0 then (0, 0) else if even m then strip2 (m div 2) (e + 1) else (m, e))"

declare strip2.simps [simp del]

datatype raw64 = RNaN | RInf bool | RFin int int

definition rval :: "int \<Rightarrow> int \<Rightarrow> rat" where
  "rval m e = of_int m * pow2 e"

fun wf_raw :: "raw64 \<Rightarrow> bool" where
  "wf_raw (RFin m e) = (if m = 0 then e = 0
     else odd m \<and> \<bar>m\<bar> < 2 ^ 53 \<and> - 1074 \<le> e \<and> \<bar>rval m e\<bar> < pow2 1024)"
| "wf_raw _ = True"

definition pack :: "int \<Rightarrow> int \<Rightarrow> raw64" where
  "pack r u = (if (if u \<le> 1024 then 2 ^ nat (1024 - u) \<le> \<bar>r\<bar> else r \<noteq> 0) then RInf (r < 0)
     else (case strip2 r u of (m, e) \<Rightarrow> RFin m e))"

definition round_ratio :: "int \<Rightarrow> int \<Rightarrow> int \<Rightarrow> raw64" where
  "round_ratio p n e =
     (if p = 0 then RFin 0 0
      else let u = ulp_exp (ratio_log2 \<bar>p\<bar> n + e); s = e - u;
               r = (if 0 \<le> s then rhe_div (p * 2 ^ nat s) n else rhe_div p (n * 2 ^ nat (- s)))
           in pack r u)"

lemma strip2_spec:
  assumes "strip2 m e = (m', e')" "m \<noteq> 0"
  shows "odd m' \<and> rval m' e' = rval m e \<and> \<bar>m'\<bar> \<le> \<bar>m\<bar> \<and> e \<le> e'"
  using assms
proof (induction m e rule: strip2.induct)
  case (1 m e)
  show ?case
  proof (cases "even m")
    case True
    then obtain k where k: "m = 2 * k" by (rule evenE)
    have "odd m' \<and> rval m' e' = rval k (e + 1) \<and> \<bar>m'\<bar> \<le> \<bar>k\<bar> \<and> e + 1 \<le> e'"
      using 1 k by (simp add: strip2.simps [of "2 * k" e])
    then show ?thesis using k by (auto simp: rval_def pow2_Suc)
  next
    case False
    then show ?thesis using 1 by (simp add: strip2.simps [of m e])
  qed
qed

lemma strip2_0 [simp]: "strip2 0 e = (0, 0)"
  by (simp add: strip2.simps)

lemma pack_inf_iff:
  "(if u \<le> 1024 then 2 ^ nat (1024 - u) \<le> \<bar>r\<bar> else r \<noteq> 0) \<longleftrightarrow> pow2 1024 \<le> \<bar>rval r u\<bar>"
proof (cases "u \<le> 1024")
  case True
  then have "pow2 1024 = of_int (2 ^ nat (1024 - u)) * pow2 u"
    by (subst pow2_nat [symmetric]) (simp_all flip: pow2_add)
  then have "pow2 1024 \<le> \<bar>rval r u\<bar> \<longleftrightarrow> of_int (2 ^ nat (1024 - u)) \<le> (of_int \<bar>r\<bar> :: rat)"
    by (simp add: rval_def abs_mult)
  then show ?thesis using True by (simp only: of_int_le_iff if_True)
next
  case False
  show ?thesis
  proof (cases "r = 0")
    case True
    then show ?thesis using False by (simp add: rval_def)
  next
    case r: False
    have "pow2 1024 \<le> 1 * pow2 u" using False by simp
    also have "\<dots> \<le> of_int \<bar>r\<bar> * pow2 u" using r by (intro mult_right_mono) auto
    finally show ?thesis using False r by (simp add: rval_def abs_mult)
  qed
qed

lemma pack_spec:
  "pow2 1024 \<le> \<bar>rval r u\<bar> \<Longrightarrow> pack r u = RInf (r < 0)"
  "\<bar>rval r u\<bar> < pow2 1024 \<Longrightarrow> \<exists>m e. pack r u = RFin m e \<and> rval m e = rval r u"
proof -
  show "pack r u = RInf (r < 0)" if "pow2 1024 \<le> \<bar>rval r u\<bar>"
    using that by (simp only: pack_def pack_inf_iff if_True)
next
  assume "\<bar>rval r u\<bar> < pow2 1024"
  then have p: "pack r u = (case strip2 r u of (m, e) \<Rightarrow> RFin m e)"
    by (simp only: pack_def pack_inf_iff not_le [symmetric] if_False)
  show "\<exists>m e. pack r u = RFin m e \<and> rval m e = rval r u"
  proof (cases "r = 0")
    case True
    with p show ?thesis by (simp add: rval_def)
  next
    case False
    then show ?thesis using strip2_spec [of r u] by (auto simp: p split: prod.splits)
  qed
qed

lemma wf_pack:
  assumes "\<bar>r\<bar> \<le> 2 ^ 53" "- 1074 \<le> u" shows "wf_raw (pack r u)"
proof (cases "pow2 1024 \<le> \<bar>rval r u\<bar>")
  case True
  then show ?thesis by (simp add: pack_spec)
next
  case False
  then have p: "pack r u = (case strip2 r u of (m, e) \<Rightarrow> RFin m e)"
    by (simp only: pack_def pack_inf_iff if_False)
  show ?thesis
  proof (cases "r = 0")
    case True
    with p show ?thesis by simp
  next
    case r: False
    obtain m e where me: "strip2 r u = (m, e)" by fastforce
    with strip2_spec [OF me r] assms False have *: "odd m" "rval m e = rval r u" "\<bar>m\<bar> \<le> 2 ^ 53" "- 1074 \<le> e"
      by auto
    have "\<bar>m\<bar> \<noteq> 2 ^ 53" using \<open>odd m\<close>
      by (metis dvd_abs_iff even_power even_numeral pos2 rel_simps(28) zero_less_numeral)
    with * False show ?thesis by (auto simp: p me)
  qed
qed

definition qlog2 :: "rat \<Rightarrow> int" where
  "qlog2 q = ratio_log2 \<bar>fst (quotient_of q)\<bar> (snd (quotient_of q))"

definition qulp :: "rat \<Rightarrow> int" where
  "qulp q = ulp_exp (qlog2 q)"

definition qrnd :: "rat \<Rightarrow> rat" where
  "qrnd q = (if q = 0 then 0 else of_int (round_half_even (q / pow2 (qulp q))) * pow2 (qulp q))"

lemma quotient_of_parts:
  "0 < snd (quotient_of q)" "q = of_int (fst (quotient_of q)) / of_int (snd (quotient_of q))"
  by (auto simp: quotient_of_denom_pos' intro: quotient_of_div)

lemma qlog2_spec:
  assumes "q \<noteq> 0" shows "pow2 (qlog2 q) \<le> \<bar>q\<bar>" "\<bar>q\<bar> < pow2 (qlog2 q + 1)"
proof -
  let ?p = "fst (quotient_of q)" and ?n = "snd (quotient_of q)"
  note q = quotient_of_parts [of q]
  have p: "0 < \<bar>?p\<bar>" using assms q(2) by auto
  have abs: "\<bar>q\<bar> = of_int \<bar>?p\<bar> / of_int ?n"
    using q by (metis abs_divide abs_of_pos of_int_0_less_iff of_int_abs)
  show "pow2 (qlog2 q) \<le> \<bar>q\<bar>" "\<bar>q\<bar> < pow2 (qlog2 q + 1)"
    using ratio_log2_spec [OF p q(1)] unfolding qlog2_def abs by auto
qed

lemma qlog2_ratio:
  assumes "0 < n" "p \<noteq> 0"
  shows "ratio_log2 \<bar>p\<bar> n + e = qlog2 (of_int p / of_int n * pow2 e)" (is "?l = qlog2 ?q")
proof (rule powi_bracket_unique)
  have q: "?q \<noteq> 0" using assms by simp
  show "pow2 (qlog2 ?q) \<le> \<bar>?q\<bar>" "\<bar>?q\<bar> < pow2 (qlog2 ?q + 1)"
    using qlog2_spec [OF q] by auto
  have "0 < \<bar>p\<bar>" using assms by simp
  note l = ratio_log2_spec [OF this assms(1)]
  have abs: "\<bar>?q\<bar> = of_int \<bar>p\<bar> / of_int n * pow2 e" using assms by (simp add: abs_mult)
  show "pow2 ?l \<le> \<bar>?q\<bar>" unfolding abs pow2_add using l(1) by (intro mult_right_mono) auto
  have "?l + 1 = (ratio_log2 \<bar>p\<bar> n + 1) + e" by simp
  then show "\<bar>?q\<bar> < pow2 (?l + 1)"
    unfolding abs using l(2) by (simp only: pow2_add) (intro mult_strict_right_mono, auto)
qed

lemma round_ratio_shift:
  assumes "0 < n"
  shows "(if 0 \<le> s then rhe_div (p * 2 ^ nat s) n else rhe_div p (n * 2 ^ nat (- s)))
    = round_half_even (of_int p / of_int n * pow2 s)"
proof (cases "0 \<le> s")
  case True
  then show ?thesis using assms by (simp add: rhe_div_eq pow2_nat)
next
  case False
  then show ?thesis using assms by (simp add: rhe_div_eq pow2_neg)
qed

lemma round_ratio_pack:
  fixes p n e :: int
  assumes "0 < n" "p \<noteq> 0"
  defines "q \<equiv> of_int p / of_int n * pow2 e"
  shows "round_ratio p n e = pack (round_half_even (q / pow2 (qulp q))) (qulp q)"
proof -
  have u: "ulp_exp (ratio_log2 \<bar>p\<bar> n + e) = qulp q"
    using qlog2_ratio [OF assms(1,2), of e] by (simp add: qulp_def q_def)
  have "of_int p / of_int n * pow2 (e - qulp q) = q / pow2 (qulp q)"
    by (simp add: q_def pow2_diff)
  then show ?thesis
    unfolding round_ratio_def Let_def u round_ratio_shift [OF assms(1)] using assms(2) by simp
qed

lemma qulp_bounds:
  assumes "q \<noteq> 0" shows "- 1074 \<le> qulp q" "\<bar>q / pow2 (qulp q)\<bar> < 2 ^ 53"
proof -
  show "- 1074 \<le> qulp q" by (simp add: qulp_def ulp_exp_def)
  have "\<bar>q\<bar> < pow2 (qlog2 q + 1)" using qlog2_spec [OF assms] by simp
  also have "\<dots> \<le> pow2 (53 + qulp q)" by (simp add: qulp_def ulp_exp_def)
  also have "\<dots> = 2 ^ 53 * pow2 (qulp q)" by (simp add: pow2_add pow2_nat)
  finally show "\<bar>q / pow2 (qulp q)\<bar> < 2 ^ 53" by (simp add: abs_divide field_simps)
qed

lemma round_half_even_abs_le:
  assumes "\<bar>x\<bar> \<le> of_int k" shows "\<bar>round_half_even x\<bar> \<le> k"
proof -
  have "x \<le> of_int k" "of_int (- k) \<le> x" using assms by auto
  from round_half_even_mono [OF this(1)] round_half_even_mono [OF this(2)]
  show ?thesis unfolding round_half_even_of_int by simp
qed

lemma round_half_even_sign: "round_half_even x < 0 \<Longrightarrow> x < 0"
  using round_half_even_mono [of 0 x] round_half_even_of_int [of 0] by (metis not_less of_int_0 order.strict_trans2 less_irrefl)

lemma rval_qrnd: "q \<noteq> 0 \<Longrightarrow> rval (round_half_even (q / pow2 (qulp q))) (qulp q) = qrnd q"
  by (simp add: rval_def qrnd_def)

theorem round_ratio_spec:
  fixes p n e :: int
  assumes "0 < n"
  defines "q \<equiv> of_int p / of_int n * pow2 e"
  shows "wf_raw (round_ratio p n e)"
    "pow2 1024 \<le> \<bar>qrnd q\<bar> \<Longrightarrow> round_ratio p n e = RInf (q < 0)"
    "\<bar>qrnd q\<bar> < pow2 1024 \<Longrightarrow> \<exists>m e'. round_ratio p n e = RFin m e' \<and> rval m e' = qrnd q"
proof -
  show "wf_raw (round_ratio p n e)"
  proof (cases "p = 0")
    case True
    then show ?thesis by (simp add: round_ratio_def)
  next
    case False
    then have q: "q \<noteq> 0" using assms by (simp add: q_def)
    have "\<bar>round_half_even (q / pow2 (qulp q))\<bar> \<le> 2 ^ 53"
      using qulp_bounds(2) [OF q] by (intro round_half_even_abs_le) simp
    then show ?thesis
      unfolding round_ratio_pack [OF assms(1) False] q_def [symmetric]
      using qulp_bounds(1) [OF q] by (intro wf_pack)
  qed
next
  assume big: "pow2 1024 \<le> \<bar>qrnd q\<bar>"
  have q: "q \<noteq> 0" using big by (auto simp: qrnd_def)
  then have p: "p \<noteq> 0" by (auto simp: q_def)
  have r: "round_half_even (q / pow2 (qulp q)) \<noteq> 0" using big q by (auto simp: qrnd_def)
  have "round_half_even (q / pow2 (qulp q)) < 0 \<longleftrightarrow> q < 0"
  proof
    assume "round_half_even (q / pow2 (qulp q)) < 0"
    then show "q < 0" using round_half_even_sign [of "q / pow2 (qulp q)"] by (simp add: divide_less_0_iff)
  next
    assume "q < 0"
    then have "q / pow2 (qulp q) \<le> of_int 0" by (simp add: divide_nonpos_pos)
    from round_half_even_mono [OF this] r show "round_half_even (q / pow2 (qulp q)) < 0"
      unfolding round_half_even_of_int by simp
  qed
  then show "round_ratio p n e = RInf (q < 0)"
    unfolding round_ratio_pack [OF assms(1) p] q_def [symmetric]
    using big by (subst pack_spec) (simp_all add: rval_qrnd q)
next
  assume small: "\<bar>qrnd q\<bar> < pow2 1024"
  show "\<exists>m e'. round_ratio p n e = RFin m e' \<and> rval m e' = qrnd q"
  proof (cases "p = 0")
    case True
    then show ?thesis by (simp add: round_ratio_def q_def qrnd_def rval_def)
  next
    case False
    then have q: "q \<noteq> 0" using assms by (simp add: q_def)
    show ?thesis
      unfolding round_ratio_pack [OF assms(1) False] q_def [symmetric]
      using pack_spec(2) [of "round_half_even (q / pow2 (qulp q))" "qulp q"] small
      by (simp add: rval_qrnd q)
  qed
qed

subsection \<open>Laws of the rounding\<close>

lemma qlog2_minus: "qlog2 (- q) = qlog2 q"
proof (cases "q = 0")
  case True
  then show ?thesis by simp
next
  case False
  then show ?thesis
    using qlog2_spec [OF False] qlog2_spec [of "- q"] by (intro powi_bracket_unique [where q = "\<bar>q\<bar>"]) auto
qed

lemma qrnd_0 [simp]: "qrnd 0 = 0"
  by (simp add: qrnd_def)

lemma qrnd_minus: "qrnd (- q) = - qrnd q"
  by (simp add: qrnd_def qulp_def qlog2_minus round_half_even_minus)

lemma qlog2_mono:
  assumes "0 < p" "p \<le> q" shows "qlog2 p \<le> qlog2 q"
proof -
  have "pow2 (qlog2 p) \<le> \<bar>p\<bar>" "\<bar>q\<bar> < pow2 (qlog2 q + 1)"
    using qlog2_spec(1) [of p] qlog2_spec(2) [of q] assms by auto
  then have "pow2 (qlog2 p) < pow2 (qlog2 q + 1)" using assms by linarith
  then show ?thesis by simp
qed

lemma qrnd_nonneg: "0 \<le> q \<Longrightarrow> 0 \<le> qrnd q"
  using round_half_even_mono [of 0 "q / pow2 (qulp q)"] round_half_even_of_int [of 0]
  by (auto simp: qrnd_def)

lemma qrnd_mono_pos:
  assumes "0 < p" "p \<le> q" shows "qrnd p \<le> qrnd q"
proof (cases "qulp p = qulp q")
  case True
  have "p / pow2 (qulp p) \<le> q / pow2 (qulp p)" using assms by (simp add: divide_right_mono)
  from round_half_even_mono [OF this] True assms show ?thesis
    by (simp add: qrnd_def mult_right_mono)
next
  case False
  have "qulp p \<le> qulp q" using qlog2_mono [OF assms] by (simp add: qulp_def ulp_exp_def)
  with False have lt: "qulp p < qulp q" by simp
  then have uq: "qulp q = qlog2 q - 52" by (auto simp: qulp_def ulp_exp_def)
  have "round_half_even (p / pow2 (qulp p)) \<le> round_half_even (of_int (2 ^ 53))"
    using qulp_bounds(2) [of p] assms by (intro round_half_even_mono) auto
  then have "of_int (round_half_even (p / pow2 (qulp p))) \<le> (of_int (2 ^ 53) :: rat)"
    unfolding round_half_even_of_int of_int_le_iff .
  then have "qrnd p \<le> of_int (2 ^ 53) * pow2 (qulp p)"
    using assms by (simp add: qrnd_def mult_right_mono)
  also have "\<dots> = pow2 (53 + qulp p)" by (simp add: pow2_add pow2_nat)
  also have "\<dots> \<le> pow2 (52 + qulp q)" using lt by simp
  also have "\<dots> = of_int (2 ^ 52) * pow2 (qulp q)" by (simp add: pow2_add pow2_nat)
  also have "\<dots> \<le> qrnd q"
  proof -
    have "of_int (2 ^ 52) * pow2 (qulp q) = pow2 (qlog2 q)"
      using pow2_add [of 52 "qulp q"] uq by (simp add: pow2_nat)
    also have "\<dots> \<le> q" using qlog2_spec [of q] assms by auto
    finally have "of_int (2 ^ 52) \<le> q / pow2 (qulp q)" by (simp add: field_simps)
    from round_half_even_mono [OF this]
    have "of_int (2 ^ 52) \<le> (of_int (round_half_even (q / pow2 (qulp q))) :: rat)"
      unfolding round_half_even_of_int of_int_le_iff .
    then show ?thesis using assms by (simp add: qrnd_def mult_right_mono)
  qed
  finally show ?thesis .
qed

theorem qrnd_mono:
  assumes "p \<le> q" shows "qrnd p \<le> qrnd q"
proof -
  consider "0 < p" | "p \<le> 0" "0 \<le> q" | "q < 0" by linarith
  then show ?thesis
  proof cases
    case 1
    then show ?thesis using assms by (rule qrnd_mono_pos)
  next
    case 2
    then show ?thesis using qrnd_nonneg [of "- p"] qrnd_nonneg [of q] by (simp add: qrnd_minus)
  next
    case 3
    then show ?thesis using qrnd_mono_pos [of "- q" "- p"] assms by (simp add: qrnd_minus)
  qed
qed

lemma qrnd_exact:
  assumes "wf_raw (RFin m e)" shows "qrnd (rval m e) = rval m e"
proof (cases "m = 0")
  case True
  then show ?thesis by (simp add: rval_def)
next
  case False
  let ?q = "rval m e"
  have q: "?q \<noteq> 0" using False by (simp add: rval_def)
  have "pow2 (qlog2 ?q) \<le> \<bar>?q\<bar>" using qlog2_spec [OF q] by simp
  also have "\<dots> = of_int \<bar>m\<bar> * pow2 e" by (simp add: rval_def abs_mult)
  also have "\<dots> < of_int (2 ^ 53) * pow2 e"
    using assms False by (intro mult_strict_right_mono) (auto simp del: of_int_power)
  also have "\<dots> = pow2 (53 + e)" by (simp add: pow2_add pow2_nat)
  finally have "qlog2 ?q - 52 \<le> e" by simp
  then have ue: "qulp ?q \<le> e" using assms False by (simp add: qulp_def ulp_exp_def)
  have "?q / pow2 (qulp ?q) = of_int m * pow2 (e - qulp ?q)"
    by (simp add: rval_def pow2_diff)
  also have "\<dots> = of_int (m * 2 ^ nat (e - qulp ?q))" using ue by (simp add: pow2_nat)
  finally have d: "?q / pow2 (qulp ?q) = of_int (m * 2 ^ nat (e - qulp ?q))" .
  have "qrnd ?q = (?q / pow2 (qulp ?q)) * pow2 (qulp ?q)"
    using q by (simp only: qrnd_def d round_half_even_of_int if_False)
  then show ?thesis by simp
qed

lemma qrnd_error: "\<bar>qrnd q - q\<bar> \<le> \<bar>q\<bar> * pow2 (- 53) + pow2 (- 1075)"
proof (cases "q = 0")
  case True
  then show ?thesis by simp
next
  case False
  let ?u = "pow2 (qulp q)"
  have "qrnd q - q = (of_int (round_half_even (q / ?u)) - q / ?u) * ?u"
    using False by (simp add: qrnd_def left_diff_distrib)
  then have "\<bar>qrnd q - q\<bar> = \<bar>of_int (round_half_even (q / ?u)) - q / ?u\<bar> * ?u"
    by (simp add: abs_mult)
  also have "\<dots> \<le> 1 / 2 * ?u" by (intro mult_right_mono round_half_even_err) simp
  finally have *: "\<bar>qrnd q - q\<bar> \<le> ?u / 2" by simp
  have "?u / 2 \<le> \<bar>q\<bar> * pow2 (- 53) + pow2 (- 1075)"
  proof (cases "qulp q = qlog2 q - 52")
    case True
    have "?u / 2 = pow2 (qlog2 q) * pow2 (- 53)"
      unfolding True by (simp add: pow2_diff flip: pow2_add) (simp add: pow2_diff pow2_nat)
    also have "\<dots> \<le> \<bar>q\<bar> * pow2 (- 53)"
      using qlog2_spec [OF False] by (intro mult_right_mono) auto
    finally show ?thesis by (simp add: add_increasing2)
  next
    case u: False
    then have "qulp q = - 1074" by (auto simp: qulp_def ulp_exp_def)
    then have "?u / 2 = pow2 (- 1075)" using pow2_Suc [of "- 1075"] by simp
    then show ?thesis by simp
  qed
  with * show ?thesis by simp
qed

subsection \<open>The type\<close>

typedef f64 = "{r. wf_raw r}" morphisms raw_of Raw64
  by (rule exI [of _ RNaN]) simp

setup_lifting type_definition_f64

lift_definition f64_nan :: f64 is RNaN by simp
lift_definition f64_inf :: "bool \<Rightarrow> f64" is RInf by simp
lift_definition f64_rnd :: "rat \<Rightarrow> f64" is
  "\<lambda>q. round_ratio (fst (quotient_of q)) (snd (quotient_of q)) 0"
  by (rule round_ratio_spec(1)) (rule quotient_of_parts(1))

fun raw_is_finite :: "raw64 \<Rightarrow> bool" where
  "raw_is_finite (RFin m e) = True"
| "raw_is_finite _ = False"

fun raw_val :: "raw64 \<Rightarrow> rat" where
  "raw_val (RFin m e) = rval m e"
| "raw_val _ = 0"

lift_definition is_finite :: "f64 \<Rightarrow> bool" is raw_is_finite .
lift_definition is_nan :: "f64 \<Rightarrow> bool" is "\<lambda>r. r = RNaN" .
lift_definition fval :: "f64 \<Rightarrow> rat" is raw_val .

fun raw_neg :: "raw64 \<Rightarrow> raw64" where
  "raw_neg RNaN = RNaN"
| "raw_neg (RInf s) = RInf (\<not> s)"
| "raw_neg (RFin m e) = RFin (- m) e"

fun raw_add :: "raw64 \<Rightarrow> raw64 \<Rightarrow> raw64" where
  "raw_add RNaN _ = RNaN"
| "raw_add _ RNaN = RNaN"
| "raw_add (RInf s) (RInf t) = (if s = t then RInf s else RNaN)"
| "raw_add (RInf s) (RFin _ _) = RInf s"
| "raw_add (RFin _ _) (RInf t) = RInf t"
| "raw_add (RFin m e) (RFin m' e') =
     (let k = min e e' in round_ratio (m * 2 ^ nat (e - k) + m' * 2 ^ nat (e' - k)) 1 k)"

fun raw_mul :: "raw64 \<Rightarrow> raw64 \<Rightarrow> raw64" where
  "raw_mul RNaN _ = RNaN"
| "raw_mul _ RNaN = RNaN"
| "raw_mul (RInf s) (RInf t) = RInf (s \<noteq> t)"
| "raw_mul (RInf s) (RFin m _) = (if m = 0 then RNaN else RInf (s \<noteq> (m < 0)))"
| "raw_mul (RFin m _) (RInf t) = (if m = 0 then RNaN else RInf ((m < 0) \<noteq> t))"
| "raw_mul (RFin m e) (RFin m' e') = round_ratio (m * m') 1 (e + e')"

fun raw_div :: "raw64 \<Rightarrow> raw64 \<Rightarrow> raw64" where
  "raw_div RNaN _ = RNaN"
| "raw_div _ RNaN = RNaN"
| "raw_div (RInf s) (RInf t) = RNaN"
| "raw_div (RInf s) (RFin m _) = RInf (s \<noteq> (m < 0))"
| "raw_div (RFin m _) (RInf t) = RFin 0 0"
| "raw_div (RFin m e) (RFin m' e') =
     (if m' = 0 then (if m = 0 then RNaN else RInf (m < 0))
      else round_ratio (m * sgn m') \<bar>m'\<bar> (e - e'))"

fun raw_less :: "raw64 \<Rightarrow> raw64 \<Rightarrow> bool" where
  "raw_less RNaN _ = False"
| "raw_less _ RNaN = False"
| "raw_less (RInf s) (RInf t) = (s \<and> \<not> t)"
| "raw_less (RInf s) (RFin _ _) = s"
| "raw_less (RFin _ _) (RInf t) = (\<not> t)"
| "raw_less (RFin m e) (RFin m' e') =
     (let k = min e e' in m * 2 ^ nat (e - k) < m' * 2 ^ nat (e' - k))"

fun raw_floor :: "raw64 \<Rightarrow> raw64" where
  "raw_floor (RFin m e) = (if 0 \<le> e then RFin m e else round_ratio (m div 2 ^ nat (- e)) 1 0)"
| "raw_floor r = r"

lemma wf_round_ratio [simp]: "0 < n \<Longrightarrow> wf_raw (round_ratio p n e)"
  by (rule round_ratio_spec(1))

lemma wf_raw_neg: "wf_raw a \<Longrightarrow> wf_raw (raw_neg a)"
  by (cases a) (auto simp: rval_def split: if_splits)

lemma wf_raw_add: "wf_raw a \<Longrightarrow> wf_raw b \<Longrightarrow> wf_raw (raw_add a b)"
  by (cases a; cases b) (auto simp: Let_def simp del: wf_raw.simps(1))

lemma wf_raw_mul: "wf_raw a \<Longrightarrow> wf_raw b \<Longrightarrow> wf_raw (raw_mul a b)"
  by (cases a; cases b) (auto simp: Let_def simp del: wf_raw.simps(1))

lemma wf_raw_div: "wf_raw a \<Longrightarrow> wf_raw b \<Longrightarrow> wf_raw (raw_div a b)"
  by (cases a; cases b) (auto simp: Let_def)

lemma wf_raw_floor: "wf_raw a \<Longrightarrow> wf_raw (raw_floor a)"
  by (cases a) (auto simp del: wf_raw.simps(1))

instantiation f64 :: "{zero, one, plus, minus, uminus, times, inverse, abs, ord, equal}"
begin

lift_definition zero_f64 :: f64 is "RFin 0 0" by simp
definition one_f64 :: f64 where "one_f64 = f64_rnd 1"
lift_definition plus_f64 :: "f64 \<Rightarrow> f64 \<Rightarrow> f64" is raw_add by (rule wf_raw_add)
lift_definition uminus_f64 :: "f64 \<Rightarrow> f64" is raw_neg by (rule wf_raw_neg)
definition minus_f64 :: "f64 \<Rightarrow> f64 \<Rightarrow> f64" where "minus_f64 x y = x + (- y)"
lift_definition times_f64 :: "f64 \<Rightarrow> f64 \<Rightarrow> f64" is raw_mul by (rule wf_raw_mul)
lift_definition divide_f64 :: "f64 \<Rightarrow> f64 \<Rightarrow> f64" is raw_div by (rule wf_raw_div)
lift_definition inverse_f64 :: "f64 \<Rightarrow> f64" is "\<lambda>r. raw_div (RFin 1 0) r"
  by (rule wf_raw_div) (use pow2_less_iff [of 0 1024] in \<open>simp_all add: rval_def\<close>)
lift_definition less_f64 :: "f64 \<Rightarrow> f64 \<Rightarrow> bool" is raw_less .
lift_definition less_eq_f64 :: "f64 \<Rightarrow> f64 \<Rightarrow> bool" is "\<lambda>a b. raw_less a b \<or> (a = b \<and> a \<noteq> RNaN)" .
definition abs_f64 :: "f64 \<Rightarrow> f64" where "abs_f64 x = (if x < 0 then - x else x)"
lift_definition equal_f64 :: "f64 \<Rightarrow> f64 \<Rightarrow> bool" is "(=)" .

instance by standard (transfer, rule refl)

end

lift_definition f64_floor :: "f64 \<Rightarrow> f64" is raw_floor by (rule wf_raw_floor)

definition f64_min :: "f64 \<Rightarrow> f64 \<Rightarrow> f64" where
  "f64_min x y = (if is_nan x then y else if is_nan y then x else if x \<le> y then x else y)"

definition f64_max :: "f64 \<Rightarrow> f64 \<Rightarrow> f64" where
  "f64_max x y = (if is_nan x then y else if is_nan y then x else if x \<le> y then y else x)"



lemma pow2_split: "k \<le> e \<Longrightarrow> pow2 e = of_int (2 ^ nat (e - k)) * pow2 k"
  by (subst pow2_nat [symmetric]) (simp_all flip: pow2_add)

lemma odd_scale_unique:
  assumes "odd m" "odd m'" "rval m e = rval m' e'" shows "m = m' \<and> e = e'"
proof -
  have *: "e = e'" if "e \<le> e'" "odd m" "rval m e = rval m' e'" for m m' e e'
  proof (rule ccontr)
    assume "e \<noteq> e'"
    with that(1) have d: "0 < e' - e" by simp
    have "pow2 e' = of_int (2 ^ nat (e' - e)) * pow2 e"
      using d by (intro pow2_split) simp
    then have "of_int m = (of_int (m' * 2 ^ nat (e' - e)) :: rat)"
      using that(3) by (simp add: rval_def)
    then have "m = m' * 2 ^ nat (e' - e)" by (simp only: of_int_eq_iff)
    then show False using d \<open>odd m\<close> by simp
  qed
  have "e = e'"
    using * [of e e' m m'] * [of e' e m' m] assms by (metis linear)
  with assms(3) show ?thesis by (simp add: rval_def)
qed

lemma f64_finite_eqI:
  assumes "is_finite x" "is_finite y" "fval x = fval y" shows "x = y"
  using assms
proof transfer
  fix x y
  assume wf: "wf_raw x" "wf_raw y" and fin: "raw_is_finite x" "raw_is_finite y" and eq: "raw_val x = raw_val y"
  obtain m e m' e' where xy: "x = RFin m e" "y = RFin m' e'" using fin by (cases x; cases y) auto
  show "x = y"
  proof (cases "m = 0")
    case True
    with wf eq xy show ?thesis by (auto simp: rval_def split: if_splits)
  next
    case False
    then have "m' \<noteq> 0" using eq xy by (auto simp: rval_def)
    with False wf xy have "odd m" "odd m'" by auto
    with eq xy show ?thesis using odd_scale_unique [of m m' e e'] by simp
  qed
qed

lemma f64_cases [case_names nan inf fin]:
  assumes "x = f64_nan \<Longrightarrow> P" "\<And>s. x = f64_inf s \<Longrightarrow> P" "is_finite x \<Longrightarrow> P"
  shows P
  using assms
proof transfer
  fix x P
  assume "x = RNaN \<Longrightarrow> P" "\<And>s. x = RInf s \<Longrightarrow> P" "raw_is_finite x \<Longrightarrow> P"
  then show P by (cases x) auto
qed

lemma f64_kind [simp]:
  "\<not> is_finite f64_nan" "\<not> is_finite (f64_inf s)" "is_nan f64_nan" "\<not> is_nan (f64_inf s)"
  "is_finite 0" "fval 0 = 0"
  by (transfer, simp add: rval_def)+

lemma is_finite_not_nan: "is_finite x \<Longrightarrow> \<not> is_nan x"
  by transfer auto

lemma is_nan_iff: "is_nan x \<longleftrightarrow> x = f64_nan"
  by transfer simp

lemma Raw64_round_ratio:
  assumes "0 < n" shows "Raw64 (round_ratio p n e) = f64_rnd (of_int p / of_int n * pow2 e)" (is "?l = f64_rnd ?q")
proof -
  have raw_l: "raw_of ?l = round_ratio p n e" using assms by (simp add: Raw64_inverse)
  have q: "of_int (fst (quotient_of ?q)) / of_int (snd (quotient_of ?q)) * pow2 0 = ?q"
    using quotient_of_parts(2) [of ?q] by simp
  note l = round_ratio_spec [OF assms, where p = p and e = e]
  note r = round_ratio_spec [OF quotient_of_parts(1), where e = 0 and p = "fst (quotient_of ?q)" and q1 = ?q, unfolded q]
  show ?thesis
  proof (cases "\<bar>qrnd ?q\<bar> < pow2 1024")
    case True
    obtain m e' where "round_ratio p n e = RFin m e'" "rval m e' = qrnd ?q" using l(3) True by blast
    moreover obtain m2 e2 where "raw_of (f64_rnd ?q) = RFin m2 e2" "rval m2 e2 = qrnd ?q"
      using r(3) True unfolding f64_rnd.rep_eq by blast
    ultimately show ?thesis
      using raw_l by (intro f64_finite_eqI) (simp_all add: is_finite.rep_eq fval.rep_eq)
  next
    case False
    then show ?thesis
      using raw_l l(2) r(2) by (intro raw_of_inject [THEN iffD1]) (simp add: f64_rnd.rep_eq not_less)
  qed
qed

lemma f64_rnd_finite:
  assumes "\<bar>qrnd q\<bar> < pow2 1024" shows "is_finite (f64_rnd q)" "fval (f64_rnd q) = qrnd q"
proof -
  have q: "of_int (fst (quotient_of q)) / of_int (snd (quotient_of q)) * pow2 0 = q"
    using quotient_of_parts(2) [of q] by simp
  obtain m e where "raw_of (f64_rnd q) = RFin m e" "rval m e = qrnd q"
    using round_ratio_spec(3) [OF quotient_of_parts(1), where e = 0 and p = "fst (quotient_of q)" and q1 = q, unfolded q] assms
    unfolding f64_rnd.rep_eq by blast
  then show "is_finite (f64_rnd q)" "fval (f64_rnd q) = qrnd q"
    by (simp_all add: is_finite.rep_eq fval.rep_eq)
qed

lemma f64_rnd_overflow:
  assumes "pow2 1024 \<le> \<bar>qrnd q\<bar>" shows "f64_rnd q = f64_inf (q < 0)"
proof -
  have q: "of_int (fst (quotient_of q)) / of_int (snd (quotient_of q)) * pow2 0 = q"
    using quotient_of_parts(2) [of q] by simp
  show ?thesis
    using round_ratio_spec(2) [OF quotient_of_parts(1), where e = 0 and p = "fst (quotient_of q)" and q1 = q, unfolded q] assms
    by (intro raw_of_inject [THEN iffD1]) (simp add: f64_rnd.rep_eq f64_inf.rep_eq)
qed

lemma fval_bounded: "is_finite x \<Longrightarrow> \<bar>fval x\<bar> < pow2 1024 \<and> qrnd (fval x) = fval x"
proof transfer
  fix x assume *: "wf_raw x" "raw_is_finite x"
  then obtain m e where x: "x = RFin m e" by (cases x) auto
  with * have "qrnd (rval m e) = rval m e" by (intro qrnd_exact) simp
  moreover have "\<bar>rval m e\<bar> < pow2 1024" using * x by (auto simp: rval_def split: if_splits)
  ultimately show "\<bar>raw_val x\<bar> < pow2 1024 \<and> qrnd (raw_val x) = raw_val x" by (simp add: x)
qed

lemma f64_rnd_fval: "is_finite x \<Longrightarrow> f64_rnd (fval x) = x"
  using fval_bounded [of x] by (intro f64_finite_eqI) (auto simp: f64_rnd_finite)

lemma f64_rnd_not_nan [simp]: "\<not> is_nan (f64_rnd q)"
  by (cases "\<bar>qrnd q\<bar> < pow2 1024")
    (auto simp: f64_rnd_finite f64_rnd_overflow is_finite_not_nan not_less)

lemma f64_rnd_0 [simp]: "f64_rnd 0 = 0"
  using f64_rnd_fval [of 0] by simp

subsection \<open>Arithmetic on finite values\<close>

lemma rval_align:
  "rval m e = of_int (m * 2 ^ nat (e - min e e')) * pow2 (min e e')"
  "rval m' e' = of_int (m' * 2 ^ nat (e' - min e e')) * pow2 (min e e')"
  using pow2_split [of "min e e'" e] pow2_split [of "min e e'" e'] by (simp_all add: rval_def)

lemma plus_f64_fin: "is_finite x \<Longrightarrow> is_finite y \<Longrightarrow> x + y = f64_rnd (fval x + fval y)"
proof -
  assume "is_finite x" "is_finite y"
  then obtain m e m' e' where r: "raw_of x = RFin m e" "raw_of y = RFin m' e'"
    by (auto simp: is_finite.rep_eq elim!: raw_is_finite.elims)
  let ?k = "min e e'"
  have "x + y = Raw64 (raw_of (x + y))" by (simp add: raw_of_inverse)
  also have "\<dots> = Raw64 (round_ratio (m * 2 ^ nat (e - ?k) + m' * 2 ^ nat (e' - ?k)) 1 ?k)"
    by (simp add: plus_f64.rep_eq r Let_def)
  also have "\<dots> = f64_rnd (fval x + fval y)"
    by (simp add: Raw64_round_ratio fval.rep_eq r rval_align(1) [of m e e'] rval_align(2) [of m' e' e] distrib_right)
  finally show ?thesis .
qed

lemma uminus_f64_fin: "is_finite x \<Longrightarrow> is_finite (- x) \<and> fval (- x) = - fval x"
  by transfer (auto simp: rval_def elim!: raw_is_finite.elims)

lemma minus_f64_fin: "is_finite x \<Longrightarrow> is_finite y \<Longrightarrow> x - y = f64_rnd (fval x - fval y)"
  by (simp add: minus_f64_def plus_f64_fin uminus_f64_fin)

lemma times_f64_fin: "is_finite x \<Longrightarrow> is_finite y \<Longrightarrow> x * y = f64_rnd (fval x * fval y)"
proof -
  assume "is_finite x" "is_finite y"
  then obtain m e m' e' where r: "raw_of x = RFin m e" "raw_of y = RFin m' e'"
    by (auto simp: is_finite.rep_eq elim!: raw_is_finite.elims)
  have "x * y = Raw64 (raw_of (x * y))" by (simp add: raw_of_inverse)
  also have "\<dots> = f64_rnd (fval x * fval y)"
    by (simp add: times_f64.rep_eq r Raw64_round_ratio fval.rep_eq rval_def pow2_add ac_simps)
  finally show ?thesis .
qed

lemma divide_f64_fin:
  assumes "is_finite x" "is_finite y" "fval y \<noteq> 0" shows "x / y = f64_rnd (fval x / fval y)"
proof -
  obtain m e m' e' where r: "raw_of x = RFin m e" "raw_of y = RFin m' e'"
    using assms by (auto simp: is_finite.rep_eq elim!: raw_is_finite.elims)
  have m': "m' \<noteq> 0" using assms(3) by (auto simp: fval.rep_eq r rval_def)
  have s: "(of_int (sgn m') :: rat) / of_int \<bar>m'\<bar> = 1 / of_int m'"
    using m' by (auto simp: sgn_if)
  have "x / y = Raw64 (raw_of (x / y))" by (simp add: raw_of_inverse)
  also have "\<dots> = f64_rnd (of_int (m * sgn m') / of_int \<bar>m'\<bar> * pow2 (e - e'))"
    using m' by (simp add: divide_f64.rep_eq r Raw64_round_ratio)
  also have "of_int (m * sgn m') / of_int \<bar>m'\<bar> = of_int m * (1 / (of_int m' :: rat))"
    by (simp only: of_int_mult flip: s) simp
  also have "of_int m * (1 / of_int m') * pow2 (e - e') = fval x / fval y"
    by (simp add: fval.rep_eq r rval_def pow2_diff)
  finally show ?thesis .
qed

subsection \<open>Order\<close>

lemma less_f64_fin: "is_finite x \<Longrightarrow> is_finite y \<Longrightarrow> x < y \<longleftrightarrow> fval x < fval y"
proof -
  assume "is_finite x" "is_finite y"
  then obtain m e m' e' where r: "raw_of x = RFin m e" "raw_of y = RFin m' e'"
    by (auto simp: is_finite.rep_eq elim!: raw_is_finite.elims)
  have "fval x < fval y \<longleftrightarrow>
    (of_int (m * 2 ^ nat (e - min e e')) :: rat) < of_int (m' * 2 ^ nat (e' - min e e'))"
    by (simp only: fval.rep_eq r raw_val.simps rval_align(1) [of m e e'] rval_align(2) [of m' e' e] mult_less_cancel_right_pos pow2_pos)
  then show ?thesis by (simp only: of_int_less_iff less_f64.rep_eq r raw_less.simps Let_def)
qed

lemma le_f64_iff: "x \<le> y \<longleftrightarrow> x < y \<or> (x = y \<and> \<not> is_nan x)" for x y :: f64
  by transfer auto

lemma le_f64_fin: "is_finite x \<Longrightarrow> is_finite y \<Longrightarrow> x \<le> y \<longleftrightarrow> fval x \<le> fval y"
  using f64_finite_eqI [of x y] is_finite_not_nan [of x]
  by (cases "x = y") (auto simp: le_f64_iff less_f64_fin order.order_iff_strict)

lemma f64_less_nan [simp]: "\<not> f64_nan < y" "\<not> x < f64_nan"
proof -
  show "\<not> f64_nan < y" by transfer simp
  show "\<not> x < f64_nan"
  proof transfer
    fix x show "\<not> raw_less x RNaN" by (cases x) auto
  qed
qed

lemma f64_le_nan [simp]: "\<not> f64_nan \<le> y" "\<not> x \<le> f64_nan"
  by (auto simp: le_f64_iff)

lemma f64_less_inf [simp]:
  "f64_inf s < f64_inf t \<longleftrightarrow> s \<and> \<not> t"
  "is_finite x \<Longrightarrow> f64_inf s < x \<longleftrightarrow> s"
  "is_finite x \<Longrightarrow> x < f64_inf t \<longleftrightarrow> \<not> t"
  by (transfer, auto elim!: raw_is_finite.elims)+

lemma f64_inf_inject [simp]: "f64_inf s = f64_inf t \<longleftrightarrow> s = t" "f64_inf s \<noteq> f64_nan" "f64_nan \<noteq> f64_inf s"
  by (transfer, simp)+

lemma f64_le_inf [simp]:
  "f64_inf s \<le> f64_inf t \<longleftrightarrow> (t \<longrightarrow> s)"
  "is_finite x \<Longrightarrow> f64_inf s \<le> x \<longleftrightarrow> s"
  "is_finite x \<Longrightarrow> x \<le> f64_inf t \<longleftrightarrow> \<not> t"
  by (auto simp: le_f64_iff)

text \<open>Away from NaN the comparisons form a linear order.\<close>

lemma f64_le_refl: "\<not> is_nan x \<Longrightarrow> x \<le> x" for x :: f64
  by (simp add: le_f64_iff)

lemma f64_less_le: "x < y \<Longrightarrow> x \<le> y" for x y :: f64
  by (simp add: le_f64_iff)

lemma f64_le_not_nan: "x \<le> y \<Longrightarrow> \<not> is_nan x \<and> \<not> is_nan y" for x y :: f64
  by (auto simp: is_nan_iff)

lemma f64_less_not_nan: "x < y \<Longrightarrow> \<not> is_nan x \<and> \<not> is_nan y" for x y :: f64
  by (auto simp: is_nan_iff)

lemma f64_le_trans: "x \<le> y \<Longrightarrow> y \<le> z \<Longrightarrow> x \<le> z" for x y z :: f64
  by (cases x rule: f64_cases; cases y rule: f64_cases; cases z rule: f64_cases) (auto simp: le_f64_fin)

lemma f64_le_less_trans: "x \<le> y \<Longrightarrow> y < z \<Longrightarrow> x < z" for x y z :: f64
  by (cases x rule: f64_cases; cases y rule: f64_cases; cases z rule: f64_cases)
    (auto simp: le_f64_fin less_f64_fin)

lemma f64_less_le_trans: "x < y \<Longrightarrow> y \<le> z \<Longrightarrow> x < z" for x y z :: f64
  by (cases x rule: f64_cases; cases y rule: f64_cases; cases z rule: f64_cases)
    (auto simp: le_f64_fin less_f64_fin)

lemma f64_not_le: "\<not> is_nan x \<Longrightarrow> \<not> is_nan y \<Longrightarrow> \<not> x \<le> y \<longleftrightarrow> y < x" for x y :: f64
  by (cases x rule: f64_cases; cases y rule: f64_cases) (auto simp: le_f64_fin less_f64_fin)

lemma f64_not_less: "\<not> is_nan x \<Longrightarrow> \<not> is_nan y \<Longrightarrow> \<not> x < y \<longleftrightarrow> y \<le> x" for x y :: f64
  by (cases x rule: f64_cases; cases y rule: f64_cases) (auto simp: le_f64_fin less_f64_fin)

lemma f64_antisym: "x \<le> y \<Longrightarrow> y \<le> x \<Longrightarrow> x = y" for x y :: f64
  by (cases x rule: f64_cases; cases y rule: f64_cases)
    (auto simp: le_f64_fin intro: f64_finite_eqI)

lemma f64_less_irrefl [simp]: "\<not> x < x" for x :: f64
  by (cases x rule: f64_cases) (auto simp: less_f64_fin)

subsection \<open>Rounding respects the order\<close>

lemma f64_rnd_cases:
  "is_finite (f64_rnd q) \<and> fval (f64_rnd q) = qrnd q \<and> \<bar>qrnd q\<bar> < pow2 1024
   \<or> f64_rnd q = f64_inf (q < 0) \<and> pow2 1024 \<le> \<bar>qrnd q\<bar>"
  using f64_rnd_finite [of q] f64_rnd_overflow [of q] by (metis not_le)

lemma qrnd_sign: "0 \<le> q \<Longrightarrow> 0 \<le> qrnd q" "q \<le> 0 \<Longrightarrow> qrnd q \<le> 0"
  using qrnd_mono [of 0 q] qrnd_mono [of q 0] by auto

lemma f64_rnd_mono: "p \<le> q \<Longrightarrow> f64_rnd p \<le> f64_rnd q"
  using f64_rnd_cases [of p] f64_rnd_cases [of q] qrnd_mono [of p q] qrnd_sign [of p] qrnd_sign [of q]
  by (cases "p < 0"; cases "q < 0") (auto simp: le_f64_fin)

text \<open>
  What the components use of the rounding: it is the identity on representable values
  and it respects the order, so an exact bound by a representable value survives it.
\<close>

locale order_rounding =
  fixes rnd :: "rat \<Rightarrow> 'f::ord" and fin :: "'f \<Rightarrow> bool" and val :: "'f \<Rightarrow> rat"
  assumes rnd_val: "fin x \<Longrightarrow> rnd (val x) = x"
    and rnd_mono: "p \<le> q \<Longrightarrow> rnd p \<le> rnd q"
begin

lemma rnd_le: "fin y \<Longrightarrow> q \<le> val y \<Longrightarrow> rnd q \<le> y"
  using rnd_mono [of q "val y"] by (simp add: rnd_val)

lemma rnd_ge: "fin y \<Longrightarrow> val y \<le> q \<Longrightarrow> y \<le> rnd q"
  using rnd_mono [of "val y" q] by (simp add: rnd_val)

end

interpretation f64r: order_rounding f64_rnd is_finite fval
  by unfold_locales (simp_all add: f64_rnd_fval f64_rnd_mono)

lemmas f64_rnd_le = f64r.rnd_le
lemmas f64_rnd_ge = f64r.rnd_ge

lemma f64_rnd_nonneg: "0 \<le> q \<Longrightarrow> 0 \<le> f64_rnd q"
  using f64_rnd_ge [of 0 q] by simp

lemma f64_rnd_finite_between:
  assumes "is_finite x" "is_finite y" "fval x \<le> q" "q \<le> fval y" shows "is_finite (f64_rnd q)"
  using f64_rnd_ge [OF assms(1,3)] f64_rnd_le [OF assms(2,4)] assms(1,2)
  by (cases "f64_rnd q" rule: f64_cases) auto

lemma fval_rnd_error:
  "is_finite (f64_rnd q) \<Longrightarrow> \<bar>fval (f64_rnd q) - q\<bar> \<le> \<bar>q\<bar> * pow2 (- 53) + pow2 (- 1075)"
  using f64_rnd_cases [of q] qrnd_error [of q] by auto


subsection \<open>Minimum, maximum, floor\<close>

lemma f64_floor_fin:
  assumes "is_finite x" shows "f64_floor x = f64_rnd (of_int \<lfloor>fval x\<rfloor>)"
proof -
  obtain m e where r: "raw_of x = RFin m e"
    using assms by (auto simp: is_finite.rep_eq elim!: raw_is_finite.elims)
  show ?thesis
  proof (cases "0 \<le> e")
    case True
    have "fval x = of_int (m * 2 ^ nat e)" using True by (simp add: fval.rep_eq r rval_def pow2_nat)
    then have "of_int \<lfloor>fval x\<rfloor> = fval x" by (simp only: floor_of_int)
    moreover have "f64_floor x = x" using True by (intro raw_of_inject [THEN iffD1]) (simp add: f64_floor.rep_eq r)
    ultimately show ?thesis using f64_rnd_fval [OF assms] by (simp only:)
  next
    case False
    have "fval x = of_int m / of_int (2 ^ nat (- e))" using False by (simp add: fval.rep_eq r rval_def pow2_neg)
    then have "\<lfloor>fval x\<rfloor> = m div 2 ^ nat (- e)" by (simp only: floor_divide_of_int_eq)
    moreover have "f64_floor x = Raw64 (raw_of (f64_floor x))" by (simp add: raw_of_inverse)
    ultimately show ?thesis using False by (simp add: f64_floor.rep_eq r Raw64_round_ratio)
  qed
qed

lemma f64_rnd_int_exact:
  assumes "\<bar>k\<bar> \<le> 2 ^ 53" shows "is_finite (f64_rnd (of_int k)) \<and> fval (f64_rnd (of_int k)) = of_int k"
proof -
  have r: "rval k 0 = of_int k" by (simp add: rval_def)
  have "\<bar>rval k 0\<bar> = of_int \<bar>k\<bar>" by (simp add: r)
  also have "\<dots> \<le> of_int (2 ^ 53)" using assms by (simp only: of_int_le_iff)
  also have "\<dots> = pow2 53" by (simp add: pow2_nat)
  also have "\<dots> < pow2 1024" by simp
  finally have small: "\<bar>rval k 0\<bar> < pow2 1024" .
  obtain m e where p: "pack k 0 = RFin m e" "rval m e = of_int k"
    using pack_spec(2) [OF small] r by metis
  have "wf_raw (RFin m e)" using wf_pack [OF assms, of 0] p by simp
  from qrnd_exact [OF this] p have "qrnd (of_int k) = of_int k" by simp
  with small r show ?thesis using f64_rnd_finite [of "of_int k"] by simp
qed

lemma fval_floor:
  assumes "is_finite x" shows "is_finite (f64_floor x) \<and> fval (f64_floor x) = of_int \<lfloor>fval x\<rfloor>"
proof -
  obtain m e where r: "raw_of x = RFin m e"
    using assms by (auto simp: is_finite.rep_eq elim!: raw_is_finite.elims)
  have wf: "wf_raw (RFin m e)" using raw_of [of x] r by simp
  show ?thesis
  proof (cases "0 \<le> e")
    case True
    then have "f64_floor x = x" by (intro raw_of_inject [THEN iffD1]) (simp add: f64_floor.rep_eq r)
    moreover have "fval x = of_int (m * 2 ^ nat e)" using True by (simp add: fval.rep_eq r rval_def pow2_nat)
    ultimately show ?thesis using assms by (metis floor_of_int)
  next
    case False
    let ?k = "m div 2 ^ nat (- e)"
    have "fval x = of_int m / of_int (2 ^ nat (- e))" using False by (simp add: fval.rep_eq r rval_def pow2_neg)
    then have fl: "\<lfloor>fval x\<rfloor> = ?k" by (simp only: floor_divide_of_int_eq)
    have m: "\<bar>m\<bar> \<le> 2 ^ 53" using wf by (auto split: if_splits)
    have "?k \<le> 2 ^ 53" "- (2 ^ 53) \<le> ?k"
    proof -
      have one: "1 \<le> (2::int) ^ nat (- e)" by simp
      show "?k \<le> 2 ^ 53"
      proof (cases "0 \<le> m")
        case True
        then have "?k \<le> m" using zdiv_mono2 [of m 1 "2 ^ nat (- e)"] one by simp
        then show ?thesis using m by simp
      next
        case False
        then have "?k < 0" by (simp add: div_neg_pos_less0)
        then show ?thesis by simp
      qed
      have "- (2 ^ 53) \<le> (- (2 ^ 53)) div (2 ^ nat (- e) :: int)"
        using one zdiv_mono2_neg [of "- (2 ^ 53)" 1 "2 ^ nat (- e)"] by simp
      also have "\<dots> \<le> ?k" using m by (intro zdiv_mono1) auto
      finally show "- (2 ^ 53) \<le> ?k" .
    qed
    then show ?thesis using f64_rnd_int_exact [of ?k] f64_floor_fin [OF assms] fl by simp
  qed
qed

lemma f64_floor_le: "is_finite x \<Longrightarrow> f64_floor x \<le> x"
  by (simp add: f64_floor_fin f64_rnd_le)

lemma f64_floor_nonneg: "is_finite x \<Longrightarrow> 0 \<le> x \<Longrightarrow> 0 \<le> f64_floor x"
  by (simp add: f64_floor_fin le_f64_fin f64_rnd_nonneg)

lemma f64_floor_finite: "is_finite x \<Longrightarrow> 0 \<le> x \<Longrightarrow> is_finite (f64_floor x)"
  using f64_floor_le [of x] f64_floor_nonneg [of x]
  by (cases "f64_floor x" rule: f64_cases) auto

lemma f64_min_le: "\<not> is_nan x \<Longrightarrow> \<not> is_nan y \<Longrightarrow> f64_min x y \<le> x \<and> f64_min x y \<le> y"
  using f64_not_le [of x y] by (auto simp: f64_min_def f64_le_refl f64_less_le)

lemma f64_max_ge: "\<not> is_nan x \<Longrightarrow> \<not> is_nan y \<Longrightarrow> x \<le> f64_max x y \<and> y \<le> f64_max x y"
  using f64_not_le [of x y] by (auto simp: f64_max_def f64_le_refl f64_less_le)

lemma f64_max_not_nan [simp]: "is_nan (f64_max x y) \<longleftrightarrow> is_nan x \<and> is_nan y"
  by (auto simp: f64_max_def)

lemma f64_min_not_nan [simp]: "is_nan (f64_min x y) \<longleftrightarrow> is_nan x \<and> is_nan y"
  by (auto simp: f64_min_def)

lemma is_nan_0 [simp]: "\<not> is_nan 0"
  by (simp add: is_finite_not_nan)

lemma f64_max0_nonneg [simp]: "0 \<le> f64_max x 0"
  using f64_max_ge [of x 0] by (cases "is_nan x") (auto simp: f64_max_def f64_le_refl)

lemma is_finite_min: "is_finite x \<Longrightarrow> 0 \<le> x \<Longrightarrow> 0 \<le> y \<Longrightarrow> is_finite (f64_min x y)"
  by (cases y rule: f64_cases) (auto simp: f64_min_def is_finite_not_nan)

lemma pos_add_ge:
  assumes "is_finite x" "is_finite y" "0 \<le> y" shows "x \<le> x + y"
  using assms by (simp add: plus_f64_fin f64_rnd_ge le_f64_fin)

lemma f64_diff_self: "is_finite x \<Longrightarrow> x - x = 0"
  by (simp add: minus_f64_fin)

lemma f64_add_0: "is_finite x \<Longrightarrow> x + 0 = x" "is_finite x \<Longrightarrow> 0 + x = x"
  by (simp_all add: plus_f64_fin f64_rnd_fval)

lemma f64_add_commute: "x + y = y + x" for x y :: f64
proof (cases "is_finite x \<and> is_finite y")
  case True
  then show ?thesis by (simp add: plus_f64_fin add.commute)
next
  case False
  then show ?thesis
  proof transfer
    fix x y assume "\<not> (raw_is_finite x \<and> raw_is_finite y)"
    then show "raw_add x y = raw_add y x" by (cases x; cases y) auto
  qed
qed

subsection \<open>Derived operations\<close>

definition f64_clamp :: "f64 \<Rightarrow> f64 \<Rightarrow> f64 \<Rightarrow> f64" where
  "f64_clamp x lo hi = (let y = (if x < lo then lo else x) in if hi < y then hi else y)"

definition f64_of_nat :: "nat \<Rightarrow> f64" where
  "f64_of_nat n = f64_rnd (of_nat n)"

definition f64_epsilon :: f64 where
  "f64_epsilon = f64_rnd (1 / 4503599627370496)"

text \<open>\<open>Iterator::sum\<close> adds from the left, in iteration order.\<close>

definition f64_sum :: "f64 list \<Rightarrow> f64" where
  "f64_sum xs = foldl (+) 0 xs"

lemma f64_of_nat_nonneg [simp]: "0 \<le> f64_of_nat n"
  by (simp add: f64_of_nat_def f64_rnd_nonneg)

lemma f64_clamp_bounds:
  "\<not> is_nan x \<Longrightarrow> lo \<le> hi \<Longrightarrow> lo \<le> f64_clamp x lo hi \<and> f64_clamp x lo hi \<le> hi"
  using f64_le_not_nan [of lo hi] f64_not_less [of x lo] f64_not_less [of hi x] f64_not_less [of hi lo]
  by (auto simp: f64_clamp_def Let_def f64_le_refl)

lemma f64_add_inf:
  "0 \<le> x \<Longrightarrow> x + f64_inf False = f64_inf False" "0 \<le> x \<Longrightarrow> f64_inf False + x = f64_inf False"
proof -
  assume "0 \<le> x"
  then show "x + f64_inf False = f64_inf False"
  proof transfer
    fix x assume "raw_less (RFin 0 0) x \<or> RFin 0 0 = x \<and> RFin 0 0 \<noteq> RNaN"
    then show "raw_add x (RInf False) = RInf False" by (cases x) auto
  qed
  then show "f64_inf False + x = f64_inf False" by (simp add: f64_add_commute)
qed

lemma nonneg_add_ge: "0 \<le> a \<Longrightarrow> 0 \<le> x \<Longrightarrow> a \<le> a + x" for a x :: f64
  by (cases a rule: f64_cases; cases x rule: f64_cases) (auto simp: pos_add_ge f64_add_inf)

lemma f64_add_nonneg: "0 \<le> a \<Longrightarrow> 0 \<le> b \<Longrightarrow> 0 \<le> a + b" for a b :: f64
  using nonneg_add_ge [of a b] f64_le_trans by blast

lemma f64_inf_add_fin [simp]: "is_finite z \<Longrightarrow> f64_inf s + z = f64_inf s" "is_finite z \<Longrightarrow> z + f64_inf s = f64_inf s"
  by (transfer, auto elim!: raw_is_finite.elims)+

lemma f64_inf_extreme: "\<not> is_nan w \<Longrightarrow> f64_inf True \<le> w" "\<not> is_nan w \<Longrightarrow> w \<le> f64_inf False"
  by (cases w rule: f64_cases; simp)+

lemma f64_add_fin_not_nan: "is_finite z \<Longrightarrow> \<not> is_nan x \<Longrightarrow> \<not> is_nan (x + z)"
  by (cases x rule: f64_cases) (auto simp: plus_f64_fin)

lemma f64_add_right_mono: "is_finite z \<Longrightarrow> x \<le> y \<Longrightarrow> x + z \<le> y + z" for x y z :: f64
  using f64_add_fin_not_nan [of z x] f64_add_fin_not_nan [of z y]
  by (cases x rule: f64_cases; cases y rule: f64_cases)
    (auto simp: f64_inf_extreme is_finite_not_nan plus_f64_fin f64_rnd_mono le_f64_fin)

lemma f64_div_pos:
  assumes "is_finite z" "0 < z" shows "f64_inf s / z = f64_inf s"
proof -
  obtain m e where r: "raw_of z = RFin m e"
    using assms(1) by (auto simp: is_finite.rep_eq elim!: raw_is_finite.elims)
  have "0 < fval z" using assms by (simp add: less_f64_fin)
  then have "\<not> m < 0" by (auto simp: fval.rep_eq r rval_def zero_less_mult_iff)
  then show ?thesis
    by (intro raw_of_inject [THEN iffD1]) (simp add: divide_f64.rep_eq f64_inf.rep_eq r)
qed

lemma f64_div_right_mono:
  assumes "is_finite z" "0 < z" "x \<le> y" shows "x / z \<le> y / z"
proof -
  have z: "0 < fval z" using assms by (simp add: less_f64_fin)
  have nan: "\<not> is_nan (w / z)" if "is_finite w" for w using that assms(1) z by (simp add: divide_f64_fin)
  show ?thesis using assms nan z
    by (cases x rule: f64_cases; cases y rule: f64_cases)
      (auto simp: f64_div_pos f64_inf_extreme divide_f64_fin f64_rnd_mono le_f64_fin divide_right_mono)
qed

lemma f64_mult_nonneg: "is_finite x \<Longrightarrow> is_finite y \<Longrightarrow> 0 \<le> x \<Longrightarrow> 0 \<le> y \<Longrightarrow> 0 \<le> x * y"
  by (simp add: times_f64_fin le_f64_fin f64_rnd_nonneg)

lemma f64_div_nonneg: "is_finite x \<Longrightarrow> is_finite y \<Longrightarrow> 0 \<le> x \<Longrightarrow> 0 < y \<Longrightarrow> 0 \<le> x / y"
  by (simp add: divide_f64_fin le_f64_fin less_f64_fin f64_rnd_nonneg)

lemma f64_fin_div_inf [simp]: "is_finite x \<Longrightarrow> x / f64_inf s = 0"
  by transfer (auto elim!: raw_is_finite.elims)

lemma f64_less_not_le: "x < y \<Longrightarrow> \<not> y \<le> x" for x y :: f64
  using f64_less_le_trans f64_less_irrefl by blast

lemma f64_max_lub: "x \<le> y \<Longrightarrow> z \<le> y \<Longrightarrow> f64_max x z \<le> y"
  by (auto simp: f64_max_def)

lemma f64_minus_nonneg_le: "is_finite x \<Longrightarrow> 0 \<le> c \<Longrightarrow> x - c \<le> x"
proof (cases c rule: f64_cases)
  case fin
  assume "is_finite x" "0 \<le> c"
  with fin show ?thesis by (simp add: minus_f64_fin f64_rnd_le le_f64_fin)
next
  case (inf s)
  assume x: "is_finite x" and "0 \<le> c"
  with inf have c: "c = f64_inf False" by simp
  have "x - c = f64_inf True"
    using x unfolding c minus_f64_def by transfer (auto elim!: raw_is_finite.elims)
  then show ?thesis using x by simp
qed simp

lemma f64_add_neg_le: "is_finite n \<Longrightarrow> 0 < n \<Longrightarrow> 0 \<le> v \<Longrightarrow> v + (- n) \<le> v"
proof (cases v rule: f64_cases)
  case fin
  assume "is_finite n" "0 < n"
  with fin show ?thesis by (simp add: plus_f64_fin uminus_f64_fin f64_rnd_le less_f64_fin)
qed (simp_all add: uminus_f64_fin)

lemma f64_foldl_nonneg:
  "0 \<le> a \<Longrightarrow> (\<And>x. x \<in> set xs \<Longrightarrow> 0 \<le> x) \<Longrightarrow> a \<le> foldl (+) a xs" for a :: f64
proof (induction xs arbitrary: a)
  case Nil
  then show ?case using f64_le_not_nan by (auto simp: f64_le_refl)
next
  case (Cons x xs)
  have le: "a \<le> a + x" using Cons.prems by (simp add: nonneg_add_ge)
  with Cons.prems(1) have "0 \<le> a + x" by (rule f64_le_trans)
  then have "a + x \<le> foldl (+) (a + x) xs" using Cons by simp
  with le show ?case by (simp add: f64_le_trans [OF le])
qed

lemma f64_sum_nonneg: "(\<And>x. x \<in> set xs \<Longrightarrow> 0 \<le> x) \<Longrightarrow> 0 \<le> f64_sum xs"
  unfolding f64_sum_def by (rule f64_foldl_nonneg) (simp_all add: f64_le_refl)

subsection \<open>The decimal form\<close>

fun dec_digits :: "int \<Rightarrow> string" where
  "dec_digits n = (if n < 10 then [char_of (48 + n)]
     else dec_digits (n div 10) @ [char_of (48 + n mod 10)])"

declare dec_digits.simps [simp del]

definition show_int :: "int \<Rightarrow> string" where
  "show_int k = (if k < 0 then ''-'' @ dec_digits (- k) else dec_digits k)"

text \<open>The decimal exponent: \<open>10 ^ k \<le> q < 10 ^ (k + 1)\<close> for positive \<open>q\<close>.\<close>

definition dec_exp :: "rat \<Rightarrow> int" where
  "dec_exp q = (if 1 \<le> q then int (length (dec_digits \<lfloor>q\<rfloor>)) - 1
     else - int (length (dec_digits (\<lceil>1 / q\<rceil> - 1))))"

definition pow10 :: "int \<Rightarrow> rat" where
  "pow10 k = (if 0 \<le> k then 10 ^ nat k else 1 / 10 ^ nat (- k))"

text \<open>
  The shortest decimal significand that reads back as the value: the digit counts are
  tried upwards, and among the two neighbours with that many digits the closer one that
  reads back is taken. 17 digits always read back.
\<close>

fun shortest_dec :: "nat \<Rightarrow> nat \<Rightarrow> int \<Rightarrow> f64 \<Rightarrow> rat \<Rightarrow> int \<times> int" where
  "shortest_dec 0 n k x q = (\<lfloor>q / pow10 (k - int n + 1)\<rfloor>, k - int n + 1)"
| "shortest_dec (Suc fuel) n k x q =
     (let t = k - int n + 1; lo = \<lfloor>q / pow10 t\<rfloor>; hi = lo + 1;
          lo_ok = f64_rnd (of_int lo * pow10 t) = x;
          hi_ok = f64_rnd (of_int hi * pow10 t) = x
      in if lo_ok \<and> (\<not> hi_ok \<or> q - of_int lo * pow10 t \<le> of_int hi * pow10 t - q) then (lo, t)
         else if hi_ok then (hi, t)
         else shortest_dec fuel (Suc n) k x q)"

definition place_point :: "string \<Rightarrow> int \<Rightarrow> string" where
  "place_point ds t =
     (if 0 \<le> t then ds @ replicate (nat t) (CHR ''0'')
      else let k = nat (- t) in
        if k < length ds then take (length ds - k) ds @ ''.'' @ drop (length ds - k) ds
        else ''0.'' @ replicate (k - length ds) (CHR ''0'') @ ds)"

definition show_f64 :: "f64 \<Rightarrow> string" where
  "show_f64 x =
     (if is_nan x then ''NaN''
      else if \<not> is_finite x then (if x < 0 then ''-inf'' else ''inf'')
      else if x = 0 then ''0''
      else let q = \<bar>fval x\<bar>; (c, t) = shortest_dec 17 1 (dec_exp q) (f64_rnd q) q
           in (if x < 0 then ''-'' else []) @ place_point (dec_digits c) t)"

end
