(* ===== verification/Core.thy ===== *)
theory Core
  imports Prelude "HOL-Library.Word"
begin

section \<open>Shared domain types (crate openticker-core)\<close>

text \<open>
  Identifiers, market types, bars, timeframes, signals and trade intents. Names follow the
  source; a constructor that would clash with a HOL constant carries its enum's initial.
  Timestamps (\<open>DateTime<Utc>\<close>) are integer nanoseconds since the epoch, durations are
  integer nanoseconds; \<open>timestamp_millis\<close> rounds down as chrono does.
\<close>

subsection \<open>Errors and identifiers\<close>

datatype CoreError =
    InvalidIdentifier string
  | InvalidTimeframe string

definition InstanceId_parse :: "string \<Rightarrow> CoreError + string" where
  "InstanceId_parse value =
     (if blank value then Inl (InvalidIdentifier ''instance id'') else Inr value)"

definition AccountId_parse :: "string \<Rightarrow> CoreError + string" where
  "AccountId_parse value =
     (if blank value then Inl (InvalidIdentifier ''account id'') else Inr value)"

record BotLaneKey =
  lane_bot_id :: string
  lane_symbol :: string

definition BotLaneKey_parse :: "string \<Rightarrow> string \<Rightarrow> CoreError + BotLaneKey" where
  "BotLaneKey_parse bot_id symbol =
     (if blank bot_id then Inl (InvalidIdentifier ''bot id'')
      else if blank symbol then Inl (InvalidIdentifier ''symbol'')
      else Inr \<lparr>lane_bot_id = bot_id, lane_symbol = symbol\<rparr>)"

definition BotLaneKey_encoded :: "BotLaneKey \<Rightarrow> string" where
  "BotLaneKey_encoded k = lane_bot_id k @ ''::'' @ lane_symbol k"

subsection \<open>Markets and bars\<close>

datatype MarketType = Equities | Crypto

datatype ExecutionMode = Paper | Live

type_synonym timestamp = int

definition timestamp_millis :: "timestamp \<Rightarrow> int" where
  "timestamp_millis t = t div 1000000"

record OhlcvBar =
  bar_timestamp :: timestamp
  bar_open :: f64
  bar_high :: f64
  bar_low :: f64
  bar_close :: f64
  bar_volume :: f64

subsection \<open>Timeframes\<close>

datatype Timeframe = M1 | M5 | M15 | M30 | H1 | H4 | D1

fun Timeframe_as_str :: "Timeframe \<Rightarrow> string" where
  "Timeframe_as_str M1 = ''1m''"
| "Timeframe_as_str M5 = ''5m''"
| "Timeframe_as_str M15 = ''15m''"
| "Timeframe_as_str M30 = ''30m''"
| "Timeframe_as_str H1 = ''1h''"
| "Timeframe_as_str H4 = ''4h''"
| "Timeframe_as_str D1 = ''1d''"

abbreviation minutes :: "int \<Rightarrow> int" where
  "minutes n \<equiv> n * 60000000000"

abbreviation hours :: "int \<Rightarrow> int" where
  "hours n \<equiv> n * 3600000000000"

fun Timeframe_duration :: "Timeframe \<Rightarrow> int" where
  "Timeframe_duration M1 = minutes 1"
| "Timeframe_duration M5 = minutes 5"
| "Timeframe_duration M15 = minutes 15"
| "Timeframe_duration M30 = minutes 30"
| "Timeframe_duration H1 = hours 1"
| "Timeframe_duration H4 = hours 4"
| "Timeframe_duration D1 = hours 24"

definition Timeframe_from_str :: "string \<Rightarrow> CoreError + Timeframe" where
  "Timeframe_from_str value =
     (if value = ''1m'' then Inr M1
      else if value = ''5m'' then Inr M5
      else if value = ''15m'' then Inr M15
      else if value = ''30m'' then Inr M30
      else if value = ''1h'' then Inr H1
      else if value = ''4h'' then Inr H4
      else if value = ''1d'' then Inr D1
      else Inl (InvalidTimeframe value))"

subsection \<open>Signals\<close>

datatype SignalPhase = Preview | Confirmed

datatype CrossType = NoCross | CrossOver | CrossUnder

datatype IndicatorSignal = NoSignal | BuyPreview | BuyConfirmed | SellPreview | SellConfirmed

datatype SignalStrength = Normal | Strong

record IndicatorTradeLevels =
  tl_entry :: "f64 option"
  tl_stop :: "f64 option"
  tl_trailing_stop :: "f64 option"
  tl_targets :: "f64 list"

datatype IndicatorFactValue = FBool bool | FInt int | FFloat f64 | FText string

definition i64_max :: int where
  "i64_max = 9223372036854775807"

text \<open>\<open>From<usize>\<close>: out-of-range counts saturate (the debug assertion is off in release builds).\<close>

definition fact_of_usize :: "nat \<Rightarrow> IndicatorFactValue" where
  "fact_of_usize n = FInt (if int n \<le> i64_max then int n else i64_max)"

record IndicatorMetadataCapabilities =
  supports_strength :: bool
  supports_reason_code :: bool
  supports_tags :: bool
  supports_facts :: bool
  supports_trade_levels :: bool

record SignalMetadata =
  md_strength :: "SignalStrength option"
  md_reason_code :: "string option"
  md_tags :: "string list"
  md_facts :: "(string \<times> IndicatorFactValue) list"
  md_trade_levels :: "IndicatorTradeLevels option"

definition SignalMetadata_is_empty :: "SignalMetadata \<Rightarrow> bool" where
  "SignalMetadata_is_empty m \<longleftrightarrow>
     md_strength m = None \<and> md_reason_code m = None \<and> md_tags m = []
     \<and> md_facts m = [] \<and> md_trade_levels m = None"

definition SignalMetadata_default :: SignalMetadata where
  "SignalMetadata_default = \<lparr>md_strength = None, md_reason_code = None, md_tags = [], md_facts = [], md_trade_levels = None\<rparr>"

record SignalMetadataFilter =
  allowed_strengths :: "SignalStrength list"
  allowed_reason_codes :: "string list"
  required_tags_all :: "string list"
  required_tags_any :: "string list"
  blocked_tags :: "string list"

definition SignalMetadataFilter_is_configured :: "SignalMetadataFilter \<Rightarrow> bool" where
  "SignalMetadataFilter_is_configured f \<longleftrightarrow>
     allowed_strengths f \<noteq> [] \<or> allowed_reason_codes f \<noteq> [] \<or> required_tags_all f \<noteq> []
     \<or> required_tags_any f \<noteq> [] \<or> blocked_tags f \<noteq> []"

definition SignalMetadataFilter_default :: SignalMetadataFilter where
  "SignalMetadataFilter_default = \<lparr>allowed_strengths = [], allowed_reason_codes = [],
     required_tags_all = [], required_tags_any = [], blocked_tags = []\<rparr>"

record IndicatorSignalMetadataFilters =
  flt_entry :: SignalMetadataFilter
  flt_exit :: SignalMetadataFilter

datatype IndicatorRole = PrimarySignal | Filter | Context | RiskHelper | ResearchOnly

datatype IndicatorStabilityClass =
  StableOnClose | PreviewOnly | PivotDelayed | ZigzagRevisable | ParityOnlyUnsafe

datatype IndicatorSignalPolicy = PreviewAllowed | ConfirmedRequired

datatype TradeIntent = NoOp | OpenLong | AddLong | ReduceLong | CloseLong

definition usize_to_f64 :: "nat \<Rightarrow> f64" where
  "usize_to_f64 value = f64_of_nat value"

subsection \<open>Round trips\<close>

lemma Timeframe_as_str_inject: "Timeframe_as_str t = Timeframe_as_str u \<longleftrightarrow> t = u"
  by (cases t; cases u) auto

lemma Timeframe_duration_pos: "0 < Timeframe_duration t"
  by (cases t) auto

end
