(* ===== verification/Risk.thy ===== *)
theory Risk
  imports Core
begin

section \<open>Risk policy (crate openticker-risk)\<close>

text \<open>
  The pure risk gate of an order: \<open>types.rs\<close> and \<open>policy.rs\<close>. \<open>u32\<close> and
  \<open>u64\<close> fields are words of that width. The lemmas give the exact set of contexts the
  policy allows and that exits pass every exposure limit.
\<close>

type_synonym u32 = "32 word"
type_synonym u64 = "64 word"

record RiskLimits =
  max_daily_loss_pct :: f64
  max_open_positions :: u32
  max_order_notional_usd :: f64
  max_spread_bps :: u32
  max_slippage_bps :: u32
  stale_data_ms :: u64
  cooldown_after_reject_ms :: u64

record RiskContext =
  rc_intent :: TradeIntent
  rc_price :: f64
  rc_quantity :: f64
  rc_stale_data :: bool
  rc_account_open_positions :: u32
  rc_account_daily_loss_pct :: f64
  rc_observed_spread_bps :: u32
  rc_estimated_slippage_bps :: u32
  rc_cooldown_active :: bool

datatype RiskDecision = Allow TradeIntent | Reject string

record BasicRiskPolicy =
  rp_limits :: RiskLimits
  kill_switch_active :: bool

definition is_open_intent :: "TradeIntent \<Rightarrow> bool" where
  "is_open_intent i \<longleftrightarrow> i = OpenLong \<or> i = AddLong"

definition evaluate :: "BasicRiskPolicy \<Rightarrow> RiskContext \<Rightarrow> RiskDecision" where
  "evaluate self context =
     (if kill_switch_active self then Reject ''kill switch enabled''
      else if rc_intent context \<noteq> NoOp
        \<and> (\<not> is_finite (rc_price context) \<or> rc_price context \<le> 0
           \<or> \<not> is_finite (rc_quantity context) \<or> rc_quantity context \<le> 0)
      then Reject ''order quantity must be positive''
      else if \<not> is_open_intent (rc_intent context) then Allow (rc_intent context)
      else if rc_cooldown_active context then Reject ''cooldown active''
      else if rc_stale_data context then Reject ''stale market data''
      else if max_spread_bps (rp_limits self) < rc_observed_spread_bps context
      then Reject ''spread exceeds max''
      else if max_slippage_bps (rp_limits self) < rc_estimated_slippage_bps context
      then Reject ''slippage exceeds max''
      else if max_daily_loss_pct (rp_limits self) \<le> rc_account_daily_loss_pct context
      then Reject ''daily loss exceeds max''
      else let notional = rc_price context * rc_quantity context in
        if max_order_notional_usd (rp_limits self) < notional
        then Reject ''order notional exceeds max''
      else if max_open_positions (rp_limits self) \<le> rc_account_open_positions context
      then Reject ''open positions exceeds max''
      else Allow (rc_intent context))"

subsection \<open>Lemmas\<close>

definition positive_order :: "RiskContext \<Rightarrow> bool" where
  "positive_order c \<longleftrightarrow> is_finite (rc_price c) \<and> 0 < rc_price c
     \<and> is_finite (rc_quantity c) \<and> 0 < rc_quantity c"

lemma positive_order_iff:
  "positive_order c \<longleftrightarrow> \<not> (\<not> is_finite (rc_price c) \<or> rc_price c \<le> 0
     \<or> \<not> is_finite (rc_quantity c) \<or> rc_quantity c \<le> 0)"
  using f64_not_le [of "rc_price c" 0] f64_not_le [of "rc_quantity c" 0]
  by (auto simp: positive_order_def is_finite_not_nan)

lemma evaluate_open:
  assumes "is_open_intent (rc_intent c)"
  shows "evaluate p c = Allow i \<longleftrightarrow>
     i = rc_intent c \<and> \<not> kill_switch_active p \<and> positive_order c
     \<and> \<not> rc_cooldown_active c \<and> \<not> rc_stale_data c
     \<and> rc_observed_spread_bps c \<le> max_spread_bps (rp_limits p)
     \<and> rc_estimated_slippage_bps c \<le> max_slippage_bps (rp_limits p)
     \<and> \<not> max_daily_loss_pct (rp_limits p) \<le> rc_account_daily_loss_pct c
     \<and> \<not> max_order_notional_usd (rp_limits p) < rc_price c * rc_quantity c
     \<and> rc_account_open_positions c < max_open_positions (rp_limits p)"
proof -
  have "rc_intent c \<noteq> NoOp" using assms by (auto simp: is_open_intent_def)
  then show ?thesis
    using assms positive_order_iff [of c]
    by (auto simp: evaluate_def Let_def not_less)
qed

lemma evaluate_exit:
  assumes "\<not> is_open_intent (rc_intent c)" "rc_intent c \<noteq> NoOp"
  shows "evaluate p c = Allow i \<longleftrightarrow> i = rc_intent c \<and> \<not> kill_switch_active p \<and> positive_order c"
  using assms positive_order_iff [of c] by (auto simp: evaluate_def)

subsection \<open>Properties\<close>

text \<open>C27: The policy lets an order that adds exposure through exactly when the kill switch is off,
  price and quantity are finite and positive, no cooldown is active, the data is fresh, spread and
  slippage are at most their limits, the daily loss is below its limit, the rounded notional does
  not exceed the order limit and the account has fewer open positions than allowed.\<close>
theorem open_allowed_iff:
  assumes "is_open_intent (rc_intent c)"
  shows "evaluate p c = Allow (rc_intent c) \<longleftrightarrow>
     \<not> kill_switch_active p \<and> positive_order c
     \<and> \<not> rc_cooldown_active c \<and> \<not> rc_stale_data c
     \<and> rc_observed_spread_bps c \<le> max_spread_bps (rp_limits p)
     \<and> rc_estimated_slippage_bps c \<le> max_slippage_bps (rp_limits p)
     \<and> \<not> max_daily_loss_pct (rp_limits p) \<le> rc_account_daily_loss_pct c
     \<and> \<not> max_order_notional_usd (rp_limits p) < rc_price c * rc_quantity c
     \<and> rc_account_open_positions c < max_open_positions (rp_limits p)"
  using evaluate_open [OF assms, of p "rc_intent c"] by simp

text \<open>An order that reduces exposure is decided by the kill switch and by the validity of its
  price and quantity alone: changing the limits, the data freshness, the cooldown, the spread, the
  slippage, the loss or the number of positions never changes the decision.\<close>
theorem exits_never_trapped:
  assumes "rc_intent c = ReduceLong \<or> rc_intent c = CloseLong"
    and "rc_intent d = rc_intent c" "rc_price d = rc_price c" "rc_quantity d = rc_quantity c"
    and "kill_switch_active q = kill_switch_active p"
  shows "(evaluate p c = Allow (rc_intent c) \<longleftrightarrow> \<not> kill_switch_active p \<and> positive_order c)
    \<and> evaluate q d = evaluate p c"
proof -
  have n: "\<not> is_open_intent (rc_intent c)" "rc_intent c \<noteq> NoOp"
    using assms(1) by (auto simp: is_open_intent_def)
  have "evaluate q d = evaluate p c" using n assms(2-) by (simp add: evaluate_def)
  then show ?thesis using evaluate_exit [OF n] by simp
qed

subsection \<open>Witnesses\<close>

definition demo_policy :: BasicRiskPolicy where
  "demo_policy = \<lparr>rp_limits = \<lparr>max_daily_loss_pct = f64_rnd 2, max_open_positions = 4,
     max_order_notional_usd = f64_rnd 1000, max_spread_bps = 20, max_slippage_bps = 15,
     stale_data_ms = 2000, cooldown_after_reject_ms = 1000\<rparr>, kill_switch_active = False\<rparr>"

definition demo_open :: RiskContext where
  "demo_open = \<lparr>rc_intent = OpenLong, rc_price = f64_rnd 100, rc_quantity = f64_rnd 1,
     rc_stale_data = False, rc_account_open_positions = 3, rc_account_daily_loss_pct = f64_rnd (1/2),
     rc_observed_spread_bps = 20, rc_estimated_slippage_bps = 15, rc_cooldown_active = False\<rparr>"

lemma demo_open_facts:
  "is_open_intent (rc_intent demo_open)" "positive_order demo_open"
  "\<not> max_daily_loss_pct (rp_limits demo_policy) \<le> rc_account_daily_loss_pct demo_open"
  "\<not> max_order_notional_usd (rp_limits demo_policy) < rc_price demo_open * rc_quantity demo_open"
  by code_simp+

theorem open_allowed_iff_witness: "evaluate demo_policy demo_open = Allow OpenLong"
  using open_allowed_iff [OF demo_open_facts(1), of demo_policy] demo_open_facts
  by (simp add: demo_policy_def demo_open_def)

definition demo_close :: RiskContext where
  "demo_close = demo_open\<lparr>rc_intent := CloseLong\<rparr>"

theorem exits_never_trapped_witness:
  "evaluate demo_policy (demo_close\<lparr>rc_stale_data := True, rc_cooldown_active := True\<rparr>) = Allow CloseLong"
  using exits_never_trapped [of demo_close "demo_close\<lparr>rc_stale_data := True, rc_cooldown_active := True\<rparr>" demo_policy demo_policy]
    demo_open_facts(2) by (simp add: positive_order_def demo_policy_def demo_close_def)

end
