(* ===== verification/Ledger.thy ===== *)
theory Ledger
  imports Core
begin

section \<open>Capital ledger (crate openticker-ledger)\<close>

text \<open>
  The account ledger that owns capital commitments (\<open>account_ledger.rs\<close>): per-lane open
  notional, per-lane reservations, unattributed notional and the exceptions that block new
  opens. Values are binary64, the two hash maps are association lists in iteration order.
\<close>

subsection \<open>Values (util.rs)\<close>

definition LEDGER_VALUE_TOLERANCE :: f64 where
  "LEDGER_VALUE_TOLERANCE = f64_rnd (1 / 1000000000)"

definition sanitize_value :: "f64 \<Rightarrow> f64" where
  "sanitize_value value = (if is_finite value \<and> 0 < value then value else 0)"

definition calculate_position_notional_usd :: "f64 \<Rightarrow> f64 \<Rightarrow> f64" where
  "calculate_position_notional_usd quantity price_usd =
     (if quantity \<le> LEDGER_VALUE_TOLERANCE \<or> \<not> is_finite quantity \<or> \<not> is_finite price_usd then 0
      else quantity * price_usd)"

subsection \<open>Owners and exceptions (ownership.rs, exceptions.rs)\<close>

record LedgerOwnerPath =
  op_account_id :: string
  op_bot_id :: string
  op_symbol :: string

datatype OwnershipPolicy = ExclusiveLanePerSymbol

datatype OwnershipResolution =
    Owned LedgerOwnerPath
  | Unmatched (unmatched_account_id: string) (unmatched_symbol: string)
  | Ambiguous (ambiguous_account_id: string) (ambiguous_symbol: string) (ambiguous_bot_ids: "string list")

datatype LedgerExceptionKind =
    UnmatchedConnectorPosition
  | AmbiguousSymbolOwner
  | ManagedPositionDeficit
  | UnmappedManagedOpenOrder
  | UnpricedInventory
  | FeeNormalizationMissing

fun LedgerExceptionKind_as_str :: "LedgerExceptionKind \<Rightarrow> string" where
  "LedgerExceptionKind_as_str UnmatchedConnectorPosition = ''unmatched_connector_position''"
| "LedgerExceptionKind_as_str AmbiguousSymbolOwner = ''ambiguous_symbol_owner''"
| "LedgerExceptionKind_as_str ManagedPositionDeficit = ''managed_position_deficit''"
| "LedgerExceptionKind_as_str UnmappedManagedOpenOrder = ''unmapped_managed_open_order''"
| "LedgerExceptionKind_as_str UnpricedInventory = ''unpriced_inventory''"
| "LedgerExceptionKind_as_str FeeNormalizationMissing = ''fee_normalization_missing''"

record LedgerException =
  ex_kind :: LedgerExceptionKind
  ex_owner :: "LedgerOwnerPath option"
  ex_symbol :: "string option"
  ex_detail :: string
  ex_blocks_new_opens :: bool

subsection \<open>Snapshots (portfolio.rs)\<close>

record LanePortfolioSnapshot =
  lps_owner :: LedgerOwnerPath
  lps_attributed_open_notional_usd :: f64
  lps_reserved_open_notional_usd :: f64
  lps_total_committed_notional_usd :: f64

record BotPortfolioSnapshot =
  bps_id :: string
  bps_account_id :: string
  bps_pct :: f64
  bps_allocated_usd :: f64
  bps_attributed_open_notional_usd :: f64
  bps_reserved_open_notional_usd :: f64
  bps_total_committed_notional_usd :: f64
  bps_blocked_open_room_usd :: f64
  bps_tradeable_open_room_usd :: f64

record AccountPortfolioSnapshot =
  aps_id :: string
  aps_declared_total_usd :: f64
  aps_live_balance_usd :: "f64 option"
  aps_effective_cap_usd :: f64
  aps_attributed_open_notional_usd :: f64
  aps_unattributed_open_notional_usd :: f64
  aps_reserved_open_notional_usd :: f64
  aps_total_committed_notional_usd :: f64
  aps_blocked_open_room_usd :: f64
  aps_tradeable_open_room_usd :: f64
  aps_exceptions :: "LedgerException list"

subsection \<open>The account ledger (account\_ledger.rs)\<close>

datatype ReservationError = BotCapacityExceeded | AccountCapacityExceeded

datatype LedgerError = InvalidReleaseAmount

type_synonym notional_map = "(LedgerOwnerPath, f64) hmap"

record AccountLedger =
  al_declared_total_usd :: f64
  al_live_balance_usd :: "f64 option"
  al_lane_open_notional_usd :: notional_map
  al_lane_reserved_notional_usd :: notional_map
  al_unattributed_open_notional_usd :: f64
  al_exceptions :: "LedgerException list"

definition AccountLedger_new :: "f64 \<Rightarrow> AccountLedger" where
  "AccountLedger_new declared_total_usd =
     \<lparr>al_declared_total_usd = sanitize_value declared_total_usd,
      al_live_balance_usd = None,
      al_lane_open_notional_usd = [],
      al_lane_reserved_notional_usd = [],
      al_unattributed_open_notional_usd = 0,
      al_exceptions = []\<rparr>"

definition owner_group_total :: "notional_map \<Rightarrow> string \<Rightarrow> f64" where
  "owner_group_total entries bot_id =
     f64_sum (map snd (filter (\<lambda>(owner, _). op_bot_id owner = bot_id) entries))"

definition adjust_owner_notional :: "notional_map \<Rightarrow> LedgerOwnerPath \<Rightarrow> f64 \<Rightarrow> notional_map" where
  "adjust_owner_notional entries owner delta_usd =
     (let next_value = (case hm_get entries owner of Some v \<Rightarrow> v | None \<Rightarrow> 0) + delta_usd
      in if LEDGER_VALUE_TOLERANCE < next_value then hm_insert owner next_value entries
         else hm_remove owner entries)"

definition effective_cap_usd :: "AccountLedger \<Rightarrow> f64" where
  "effective_cap_usd self =
     (case al_live_balance_usd self of
        Some live \<Rightarrow> f64_min (al_declared_total_usd self) (f64_max live 0)
      | None \<Rightarrow> al_declared_total_usd self)"

definition set_live_balance_usd :: "f64 option \<Rightarrow> AccountLedger \<Rightarrow> AccountLedger" where
  "set_live_balance_usd live self = self\<lparr>al_live_balance_usd := map_option sanitize_value live\<rparr>"

definition set_unattributed_open_notional_usd :: "f64 \<Rightarrow> AccountLedger \<Rightarrow> AccountLedger" where
  "set_unattributed_open_notional_usd notional_usd self =
     self\<lparr>al_unattributed_open_notional_usd := sanitize_value notional_usd\<rparr>"

definition replace_exceptions :: "LedgerException list \<Rightarrow> AccountLedger \<Rightarrow> AccountLedger" where
  "replace_exceptions exceptions self = self\<lparr>al_exceptions := exceptions\<rparr>"

definition replace_lane_open_notional :: "(LedgerOwnerPath \<times> f64) list \<Rightarrow> AccountLedger \<Rightarrow> AccountLedger" where
  "replace_lane_open_notional entries self =
     self\<lparr>al_lane_open_notional_usd :=
       hm_of_list (List.map_filter (\<lambda>(owner, notional_usd).
         let notional_usd = sanitize_value notional_usd
         in if LEDGER_VALUE_TOLERANCE < notional_usd then Some (owner, notional_usd) else None) entries)\<rparr>"

definition bot_allocated_usd :: "AccountLedger \<Rightarrow> f64 \<Rightarrow> f64" where
  "bot_allocated_usd self pct = f64_max (effective_cap_usd self * pct / f64_rnd 100) 0"

definition bot_attributed_open_notional_usd :: "AccountLedger \<Rightarrow> string \<Rightarrow> f64" where
  "bot_attributed_open_notional_usd self bot_id = owner_group_total (al_lane_open_notional_usd self) bot_id"

definition bot_reserved_open_notional_usd :: "AccountLedger \<Rightarrow> string \<Rightarrow> f64" where
  "bot_reserved_open_notional_usd self bot_id = owner_group_total (al_lane_reserved_notional_usd self) bot_id"

definition bot_committed_notional_usd :: "AccountLedger \<Rightarrow> string \<Rightarrow> f64" where
  "bot_committed_notional_usd self bot_id =
     bot_attributed_open_notional_usd self bot_id + bot_reserved_open_notional_usd self bot_id"

definition total_attributed_open_notional_usd :: "AccountLedger \<Rightarrow> f64" where
  "total_attributed_open_notional_usd self = f64_sum (hm_values (al_lane_open_notional_usd self))"

definition total_reserved_open_notional_usd :: "AccountLedger \<Rightarrow> f64" where
  "total_reserved_open_notional_usd self = f64_sum (hm_values (al_lane_reserved_notional_usd self))"

definition total_committed_notional_usd :: "AccountLedger \<Rightarrow> f64" where
  "total_committed_notional_usd self =
     total_attributed_open_notional_usd self + al_unattributed_open_notional_usd self
     + total_reserved_open_notional_usd self"

definition has_blocking_exceptions :: "AccountLedger \<Rightarrow> bool" where
  "has_blocking_exceptions self = list_ex ex_blocks_new_opens (al_exceptions self)"

definition account_available_open_room_usd :: "AccountLedger \<Rightarrow> f64" where
  "account_available_open_room_usd self =
     f64_max (effective_cap_usd self - total_committed_notional_usd self) 0"

definition account_tradeable_open_room_usd :: "AccountLedger \<Rightarrow> f64" where
  "account_tradeable_open_room_usd self =
     (if has_blocking_exceptions self then 0 else account_available_open_room_usd self)"

definition account_blocked_open_room_usd :: "AccountLedger \<Rightarrow> f64" where
  "account_blocked_open_room_usd self =
     account_available_open_room_usd self - account_tradeable_open_room_usd self"

definition bot_available_open_room_usd :: "AccountLedger \<Rightarrow> string \<Rightarrow> f64 \<Rightarrow> f64" where
  "bot_available_open_room_usd self bot_id pct =
     f64_max (bot_allocated_usd self pct - bot_committed_notional_usd self bot_id) 0"

definition bot_tradeable_open_room_usd :: "AccountLedger \<Rightarrow> string \<Rightarrow> f64 \<Rightarrow> f64" where
  "bot_tradeable_open_room_usd self bot_id pct =
     f64_min (bot_available_open_room_usd self bot_id pct) (account_tradeable_open_room_usd self)"

definition bot_blocked_open_room_usd :: "AccountLedger \<Rightarrow> string \<Rightarrow> f64 \<Rightarrow> f64" where
  "bot_blocked_open_room_usd self bot_id pct =
     bot_available_open_room_usd self bot_id pct - bot_tradeable_open_room_usd self bot_id pct"

text \<open>\<open>entry(owner).or_insert(0.0)\<close> followed by \<open>+=\<close>.\<close>

definition add_reserved :: "LedgerOwnerPath \<Rightarrow> f64 \<Rightarrow> AccountLedger \<Rightarrow> AccountLedger" where
  "add_reserved owner notional_usd self =
     (let m = al_lane_reserved_notional_usd self;
          entry = (case hm_get m owner of Some v \<Rightarrow> v | None \<Rightarrow> 0)
      in self\<lparr>al_lane_reserved_notional_usd := hm_insert owner (entry + notional_usd) m\<rparr>)"

definition try_reserve_open ::
    "LedgerOwnerPath \<Rightarrow> f64 \<Rightarrow> f64 \<Rightarrow> AccountLedger \<Rightarrow> ReservationError + AccountLedger" where
  "try_reserve_open owner notional bot_pct self =
     (let notional_usd = sanitize_value notional in
      if notional_usd \<le> LEDGER_VALUE_TOLERANCE then Inr self
      else let bot_tradeable = bot_tradeable_open_room_usd self (op_bot_id owner) bot_pct in
        if bot_tradeable + LEDGER_VALUE_TOLERANCE < notional_usd
        then (if bot_available_open_room_usd self (op_bot_id owner) bot_pct \<le> LEDGER_VALUE_TOLERANCE
              then Inl BotCapacityExceeded else Inl AccountCapacityExceeded)
        else Inr (add_reserved owner notional_usd self))"

definition release_reservation :: "LedgerOwnerPath \<Rightarrow> f64 \<Rightarrow> AccountLedger \<Rightarrow> LedgerError + AccountLedger" where
  "release_reservation owner notional_usd self =
     (if \<not> is_finite notional_usd \<or> notional_usd \<le> 0 then Inl InvalidReleaseAmount
      else Inr (self\<lparr>al_lane_reserved_notional_usd :=
        adjust_owner_notional (al_lane_reserved_notional_usd self) owner (- notional_usd)\<rparr>))"

definition reconcile_open_fill :: "LedgerOwnerPath \<Rightarrow> f64 \<Rightarrow> f64 \<Rightarrow> AccountLedger \<Rightarrow> AccountLedger" where
  "reconcile_open_fill owner filled reserved self =
     (let filled_notional_usd = sanitize_value filled;
          reserved_notional_usd = sanitize_value reserved;
          self1 = (if LEDGER_VALUE_TOLERANCE < reserved_notional_usd
                   then (case release_reservation owner reserved_notional_usd self of
                           Inr l \<Rightarrow> l | Inl _ \<Rightarrow> self)
                   else self)
      in if LEDGER_VALUE_TOLERANCE < filled_notional_usd
         then self1\<lparr>al_lane_open_notional_usd :=
           adjust_owner_notional (al_lane_open_notional_usd self1) owner filled_notional_usd\<rparr>
         else self1)"

definition release_position :: "LedgerOwnerPath \<Rightarrow> f64 \<Rightarrow> AccountLedger \<Rightarrow> LedgerError + AccountLedger" where
  "release_position owner notional_usd self =
     (if \<not> is_finite notional_usd \<or> notional_usd \<le> 0 then Inl InvalidReleaseAmount
      else Inr (self\<lparr>al_lane_open_notional_usd :=
        adjust_owner_notional (al_lane_open_notional_usd self) owner (- notional_usd)\<rparr>))"

definition exception_key :: "LedgerException \<Rightarrow> string option \<times> string \<times> string" where
  "exception_key e = (ex_symbol e, LedgerExceptionKind_as_str (ex_kind e), ex_detail e)"

definition account_snapshot :: "AccountLedger \<Rightarrow> string \<Rightarrow> AccountPortfolioSnapshot" where
  "account_snapshot self account_id =
     \<lparr>aps_id = account_id,
      aps_declared_total_usd = al_declared_total_usd self,
      aps_live_balance_usd = al_live_balance_usd self,
      aps_effective_cap_usd = effective_cap_usd self,
      aps_attributed_open_notional_usd = total_attributed_open_notional_usd self,
      aps_unattributed_open_notional_usd = al_unattributed_open_notional_usd self,
      aps_reserved_open_notional_usd = total_reserved_open_notional_usd self,
      aps_total_committed_notional_usd = total_committed_notional_usd self,
      aps_blocked_open_room_usd = account_blocked_open_room_usd self,
      aps_tradeable_open_room_usd = account_tradeable_open_room_usd self,
      aps_exceptions = sort_key exception_key (al_exceptions self)\<rparr>"

definition bot_snapshot :: "AccountLedger \<Rightarrow> string \<Rightarrow> string \<Rightarrow> f64 \<Rightarrow> BotPortfolioSnapshot" where
  "bot_snapshot self account_id bot_id pct =
     \<lparr>bps_id = bot_id,
      bps_account_id = account_id,
      bps_pct = pct,
      bps_allocated_usd = bot_allocated_usd self pct,
      bps_attributed_open_notional_usd = bot_attributed_open_notional_usd self bot_id,
      bps_reserved_open_notional_usd = bot_reserved_open_notional_usd self bot_id,
      bps_total_committed_notional_usd = bot_committed_notional_usd self bot_id,
      bps_blocked_open_room_usd = bot_blocked_open_room_usd self bot_id pct,
      bps_tradeable_open_room_usd = bot_tradeable_open_room_usd self bot_id pct\<rparr>"

definition owner_key :: "LedgerOwnerPath \<Rightarrow> string \<times> string \<times> string" where
  "owner_key o' = (op_account_id o', op_bot_id o', op_symbol o')"

definition lane_snapshots :: "AccountLedger \<Rightarrow> LanePortfolioSnapshot list" where
  "lane_snapshots self =
     (let owners = remdups_adj (sort_key owner_key
            (hm_keys (al_lane_open_notional_usd self) @ hm_keys (al_lane_reserved_notional_usd self)))
      in List.map_filter (\<lambda>owner.
        let attributed = (case hm_get (al_lane_open_notional_usd self) owner of Some v \<Rightarrow> v | None \<Rightarrow> 0);
            reserved = (case hm_get (al_lane_reserved_notional_usd self) owner of Some v \<Rightarrow> v | None \<Rightarrow> 0);
            total = attributed + reserved
        in if total \<le> LEDGER_VALUE_TOLERANCE then None
           else Some \<lparr>lps_owner = owner, lps_attributed_open_notional_usd = attributed,
             lps_reserved_open_notional_usd = reserved, lps_total_committed_notional_usd = total\<rparr>) owners)"

subsection \<open>Values above the tolerance\<close>

lemma tolerance_finite [simp]: "is_finite LEDGER_VALUE_TOLERANCE"
  by code_simp

lemma tolerance_pos [simp]: "0 < LEDGER_VALUE_TOLERANCE"
  by code_simp

lemma tolerance_not_nan [simp]: "\<not> is_nan LEDGER_VALUE_TOLERANCE"
  by (simp add: is_finite_not_nan)

lemma above_tolerance_nonneg: "LEDGER_VALUE_TOLERANCE < v \<Longrightarrow> 0 \<le> v"
  using f64_le_less_trans [OF f64_less_le [OF tolerance_pos]] by (blast intro: f64_less_le)

lemma sanitize_nonneg [simp]: "0 \<le> sanitize_value v" "is_finite (sanitize_value v)"
  by (auto simp: sanitize_value_def f64_less_le f64_le_refl)

lemma sanitize_idem [simp]: "sanitize_value (sanitize_value v) = sanitize_value v"
  by (simp add: sanitize_value_def)

lemma sanitize_above: "LEDGER_VALUE_TOLERANCE < sanitize_value v \<Longrightarrow> sanitize_value v = v \<and> is_finite v \<and> 0 < v"
  using above_tolerance_nonneg [of 0] f64_less_le_trans [of LEDGER_VALUE_TOLERANCE 0 LEDGER_VALUE_TOLERANCE]
  by (auto simp: sanitize_value_def f64_less_le split: if_splits)

lemma not_le_tolerance: "\<not> is_nan v \<Longrightarrow> \<not> v \<le> LEDGER_VALUE_TOLERANCE \<longleftrightarrow> LEDGER_VALUE_TOLERANCE < v"
  by (rule f64_not_le) simp_all

subsection \<open>The ledger invariant\<close>

text \<open>
  Both maps have distinct keys and only entries above the tolerance; the scalar amounts
  are finite and not negative.
\<close>

definition entries_wf :: "notional_map \<Rightarrow> bool" where
  "entries_wf m \<longleftrightarrow> hm_wf m \<and> (\<forall>v \<in> set (hm_values m). LEDGER_VALUE_TOLERANCE < v)"

definition ledger_wf :: "AccountLedger \<Rightarrow> bool" where
  "ledger_wf l \<longleftrightarrow> entries_wf (al_lane_open_notional_usd l) \<and> entries_wf (al_lane_reserved_notional_usd l)
     \<and> is_finite (al_declared_total_usd l) \<and> 0 \<le> al_declared_total_usd l
     \<and> is_finite (al_unattributed_open_notional_usd l) \<and> 0 \<le> al_unattributed_open_notional_usd l
     \<and> (\<forall>b. al_live_balance_usd l = Some b \<longrightarrow> is_finite b \<and> 0 \<le> b)"

lemma entries_wf_Nil [simp]: "entries_wf []"
  by (simp add: entries_wf_def hm_wf_def hm_values_def)

lemma entries_wf_insert:
  "entries_wf m \<Longrightarrow> LEDGER_VALUE_TOLERANCE < v \<Longrightarrow> entries_wf (hm_insert k v m)"
  using set_hm_insert [of k v m] by (force simp: entries_wf_def hm_wf_insert hm_values_def)

lemma entries_wf_remove: "entries_wf m \<Longrightarrow> entries_wf (hm_remove k m)"
  using set_hm_remove [of k m] by (force simp: entries_wf_def hm_wf_remove hm_values_def)

lemma entries_wf_adjust: "entries_wf m \<Longrightarrow> entries_wf (adjust_owner_notional m k d)"
  by (simp add: adjust_owner_notional_def Let_def entries_wf_insert entries_wf_remove)

lemma entries_wf_get: "entries_wf m \<Longrightarrow> hm_get m k = Some v \<Longrightarrow> LEDGER_VALUE_TOLERANCE < v"
  by (auto simp: entries_wf_def dest: hm_get_in_values)

lemma entries_wf_fold:
  "entries_wf m \<Longrightarrow> \<forall>e \<in> set es. LEDGER_VALUE_TOLERANCE < snd e
    \<Longrightarrow> entries_wf (fold (\<lambda>(k, v) m. hm_insert k v m) es m)"
  by (induction es arbitrary: m) (auto simp: entries_wf_insert split: prod.splits)

lemma entries_wf_of_list: "\<forall>e \<in> set es. LEDGER_VALUE_TOLERANCE < snd e \<Longrightarrow> entries_wf (hm_of_list es)"
  unfolding hm_of_list_def by (rule entries_wf_fold [OF entries_wf_Nil])

definition reserved_of :: "AccountLedger \<Rightarrow> LedgerOwnerPath \<Rightarrow> f64" where
  "reserved_of l owner = (case hm_get (al_lane_reserved_notional_usd l) owner of Some v \<Rightarrow> v | None \<Rightarrow> 0)"

definition open_of :: "AccountLedger \<Rightarrow> LedgerOwnerPath \<Rightarrow> f64" where
  "open_of l owner = (case hm_get (al_lane_open_notional_usd l) owner of Some v \<Rightarrow> v | None \<Rightarrow> 0)"

lemma reserved_of_nonneg: "ledger_wf l \<Longrightarrow> 0 \<le> reserved_of l owner"
  by (auto simp: reserved_of_def ledger_wf_def f64_le_refl above_tolerance_nonneg
      dest: entries_wf_get split: option.splits)

lemma wf_new [wf_intros]: "ledger_wf (AccountLedger_new t)"
  by (simp add: AccountLedger_new_def ledger_wf_def f64_le_refl)

lemma wf_set_live [wf_intros]: "ledger_wf l \<Longrightarrow> ledger_wf (set_live_balance_usd b l)"
  by (auto simp: set_live_balance_usd_def ledger_wf_def)

lemma wf_set_unattributed [wf_intros]: "ledger_wf l \<Longrightarrow> ledger_wf (set_unattributed_open_notional_usd n l)"
  by (auto simp: set_unattributed_open_notional_usd_def ledger_wf_def)

lemma wf_replace_exceptions [wf_intros]: "ledger_wf l \<Longrightarrow> ledger_wf (replace_exceptions es l)"
  by (auto simp: replace_exceptions_def ledger_wf_def)

lemma wf_replace_open [wf_intros]: "ledger_wf l \<Longrightarrow> ledger_wf (replace_lane_open_notional es l)"
  by (auto simp: replace_lane_open_notional_def ledger_wf_def Let_def List.map_filter_def
      intro!: entries_wf_of_list split: if_splits)

lemma wf_add_reserved:
  assumes "ledger_wf l" "LEDGER_VALUE_TOLERANCE < n" shows "ledger_wf (add_reserved owner n l)"
proof -
  have n: "0 \<le> n" using assms(2) by (rule above_tolerance_nonneg)
  have "n \<le> n + reserved_of l owner" using reserved_of_nonneg [OF assms(1)] n by (simp add: nonneg_add_ge)
  then have "LEDGER_VALUE_TOLERANCE < reserved_of l owner + n"
    using assms(2) by (simp add: f64_add_commute f64_less_le_trans)
  then show ?thesis using assms(1)
    by (simp add: add_reserved_def reserved_of_def ledger_wf_def Let_def entries_wf_insert)
qed

lemma wf_try_reserve [wf_intros]: "ledger_wf l \<Longrightarrow> try_reserve_open owner n pct l = Inr l' \<Longrightarrow> ledger_wf l'"
  using not_le_tolerance [of "sanitize_value n"] is_finite_not_nan [OF sanitize_nonneg(2), of n]
  by (auto simp: try_reserve_open_def Let_def wf_add_reserved split: if_splits)

lemma wf_release_reservation [wf_intros]: "ledger_wf l \<Longrightarrow> release_reservation owner n l = Inr l' \<Longrightarrow> ledger_wf l'"
  by (auto simp: release_reservation_def ledger_wf_def entries_wf_adjust split: if_splits)

lemma wf_release_position [wf_intros]: "ledger_wf l \<Longrightarrow> release_position owner n l = Inr l' \<Longrightarrow> ledger_wf l'"
  by (auto simp: release_position_def ledger_wf_def entries_wf_adjust split: if_splits)

lemma wf_reconcile [wf_intros]: "ledger_wf l \<Longrightarrow> ledger_wf (reconcile_open_fill owner f r l)"
  by (auto simp: reconcile_open_fill_def release_reservation_def ledger_wf_def Let_def entries_wf_adjust)

subsection \<open>Runs of the ledger\<close>

text \<open>One step per mutating call; a failed call leaves the ledger unchanged.\<close>

inductive ledger_step :: "AccountLedger \<Rightarrow> AccountLedger \<Rightarrow> bool" where
  step_live: "ledger_step l (set_live_balance_usd b l)"
| step_unattributed: "ledger_step l (set_unattributed_open_notional_usd n l)"
| step_exceptions: "ledger_step l (replace_exceptions es l)"
| step_replace_open: "ledger_step l (replace_lane_open_notional ns l)"
| step_reserve: "try_reserve_open owner n pct l = Inr l' \<Longrightarrow> ledger_step l l'"
| step_release: "release_reservation owner n l = Inr l' \<Longrightarrow> ledger_step l l'"
| step_fill: "ledger_step l (reconcile_open_fill owner f r l)"
| step_close: "release_position owner n l = Inr l' \<Longrightarrow> ledger_step l l'"

inductive ledger_reachable :: "f64 \<Rightarrow> AccountLedger \<Rightarrow> bool" for declared where
  reach_new: "ledger_reachable declared (AccountLedger_new declared)"
| reach_step: "ledger_reachable declared l \<Longrightarrow> ledger_step l l' \<Longrightarrow> ledger_reachable declared l'"

lemma ledger_step_wf: "ledger_step l l' \<Longrightarrow> ledger_wf l \<Longrightarrow> ledger_wf l'"
  by (induction rule: ledger_step.induct) (auto intro: wf_intros)

lemma declared_unchanged: "ledger_step l l' \<Longrightarrow> al_declared_total_usd l' = al_declared_total_usd l"
  by (induction rule: ledger_step.induct)
    (auto simp: set_live_balance_usd_def set_unattributed_open_notional_usd_def replace_exceptions_def
      replace_lane_open_notional_def try_reserve_open_def add_reserved_def release_reservation_def
      reconcile_open_fill_def release_position_def Let_def split: if_splits)

lemma reachable_wf: "ledger_reachable d l \<Longrightarrow> ledger_wf l \<and> al_declared_total_usd l = sanitize_value d"
proof (induction rule: ledger_reachable.induct)
  case reach_new
  show ?case using wf_new [of d] by (simp add: AccountLedger_new_def)
next
  case (reach_step l l')
  then show ?case by (simp add: ledger_step_wf declared_unchanged)
qed

subsection \<open>Releases\<close>

text \<open>
  Reservations and attributed positions follow one contract: a release of a finite positive
  amount succeeds, touches one owner only and stops at zero.
\<close>

lemma amount_adjust:
  assumes "hm_wf m"
  shows "(case hm_get (adjust_owner_notional m owner d) k of Some v \<Rightarrow> v | None \<Rightarrow> 0) =
    (if k = owner then (let v = (case hm_get m owner of Some v \<Rightarrow> v | None \<Rightarrow> 0) + d
       in if LEDGER_VALUE_TOLERANCE < v then v else 0)
     else (case hm_get m k of Some v \<Rightarrow> v | None \<Rightarrow> 0))"
  by (simp add: adjust_owner_notional_def Let_def hm_get_insert hm_get_remove)

lemma amount_range:
  "entries_wf m \<Longrightarrow> (case hm_get m k of Some v \<Rightarrow> v | None \<Rightarrow> 0) = 0
     \<or> LEDGER_VALUE_TOLERANCE < (case hm_get m k of Some v \<Rightarrow> v | None \<Rightarrow> 0)"
  by (auto dest: entries_wf_get split: option.splits)

locale owner_book =
  fixes amount :: "'l \<Rightarrow> LedgerOwnerPath \<Rightarrow> f64"
    and shrink :: "LedgerOwnerPath \<Rightarrow> f64 \<Rightarrow> 'l \<Rightarrow> LedgerError + 'l"
    and wf :: "'l \<Rightarrow> bool"
  assumes shrink_invalid: "\<not> is_finite n \<or> n \<le> 0 \<Longrightarrow> shrink owner n l = Inl InvalidReleaseAmount"
    and shrink_valid: "is_finite n \<Longrightarrow> \<not> n \<le> 0 \<Longrightarrow> \<exists>l'. shrink owner n l = Inr l'"
    and amount_shrink: "wf l \<Longrightarrow> shrink owner n l = Inr l' \<Longrightarrow>
      amount l' k = (if k = owner then (let v = amount l owner + (- n)
        in if LEDGER_VALUE_TOLERANCE < v then v else 0) else amount l k)"
    and amount_wf: "wf l \<Longrightarrow> amount l k = 0 \<or> LEDGER_VALUE_TOLERANCE < amount l k"
begin

lemma amount_nonneg: "wf l \<Longrightarrow> 0 \<le> amount l k"
  using amount_wf [of l k] by (auto simp: f64_le_refl above_tolerance_nonneg)

lemma shrink_ok_iff: "is_ok (shrink owner n l) \<longleftrightarrow> is_finite n \<and> 0 < n"
proof (cases "is_finite n \<and> 0 < n")
  case True
  then have "\<not> n \<le> 0" using f64_not_le [of n 0] by (simp add: is_finite_not_nan)
  with True show ?thesis using shrink_valid [of n owner l] by (auto simp: is_ok_iff)
next
  case False
  then have "\<not> is_finite n \<or> n \<le> 0" using f64_not_less [of 0 n] by (auto simp: is_finite_not_nan)
  with False show ?thesis using shrink_invalid [of n owner l] by auto
qed

lemma shrink_bounds:
  assumes "wf l" "shrink owner n l = Inr l'"
  shows "0 \<le> amount l' k \<and> amount l' k \<le> amount l k"
proof -
  have n: "is_finite n" "0 < n" using shrink_ok_iff [of owner n l] assms(2) by auto
  have nn: "0 \<le> amount l k" using assms(1) by (rule amount_nonneg)
  then have nan: "\<not> is_nan (amount l k)" using f64_le_not_nan by blast
  from amount_shrink [OF assms, of k] nn nan show ?thesis
    using f64_add_neg_le [OF n nn] by (auto simp: Let_def f64_le_refl above_tolerance_nonneg)
qed

lemma shrink_frame: "wf l \<Longrightarrow> shrink owner n l = Inr l' \<Longrightarrow> k \<noteq> owner \<Longrightarrow> amount l' k = amount l k"
  by (simp add: amount_shrink)

lemma shrink_over:
  assumes "wf l" "shrink owner n l = Inr l'" "amount l owner \<le> n"
  shows "amount l' owner = 0"
proof -
  have n: "is_finite n" "0 < n" using shrink_ok_iff [of owner n l] assms(2) by auto
  have nn: "0 \<le> amount l owner" using assms(1) by (rule amount_nonneg)
  then have fin: "is_finite (amount l owner)"
    using assms(3) n(1) by (cases "amount l owner" rule: f64_cases) auto
  have "amount l owner + (- n) \<le> 0"
    using fin n assms(3) by (simp add: plus_f64_fin uminus_f64_fin f64_rnd_le le_f64_fin)
  then have "\<not> LEDGER_VALUE_TOLERANCE < amount l owner + (- n)"
    using tolerance_pos f64_less_le_trans f64_less_irrefl f64_less_le by blast
  then show ?thesis using amount_shrink [OF assms(1,2), of owner] by (simp add: Let_def)
qed

end

interpretation reserved: owner_book reserved_of release_reservation ledger_wf
proof unfold_locales
  show "release_reservation owner n l = Inl InvalidReleaseAmount" if "\<not> is_finite n \<or> n \<le> 0" for owner n l
    using that by (simp add: release_reservation_def)
  show "\<exists>l'. release_reservation owner n l = Inr l'" if "is_finite n" "\<not> n \<le> 0" for owner n l
    using that by (simp add: release_reservation_def)
  show "reserved_of l' k = (if k = owner then (let v = reserved_of l owner + (- n)
      in if LEDGER_VALUE_TOLERANCE < v then v else 0) else reserved_of l k)"
    if "ledger_wf l" "release_reservation owner n l = Inr l'" for l owner n l' k
    using that amount_adjust [of "al_lane_reserved_notional_usd l" owner "- n" k]
    by (auto simp: release_reservation_def reserved_of_def ledger_wf_def entries_wf_def split: if_splits)
  show "reserved_of l k = 0 \<or> LEDGER_VALUE_TOLERANCE < reserved_of l k" if "ledger_wf l" for l k
    using that unfolding reserved_of_def by (intro amount_range) (simp add: ledger_wf_def)
qed

interpretation attributed: owner_book open_of release_position ledger_wf
proof unfold_locales
  show "release_position owner n l = Inl InvalidReleaseAmount" if "\<not> is_finite n \<or> n \<le> 0" for owner n l
    using that by (simp add: release_position_def)
  show "\<exists>l'. release_position owner n l = Inr l'" if "is_finite n" "\<not> n \<le> 0" for owner n l
    using that by (simp add: release_position_def)
  show "open_of l' k = (if k = owner then (let v = open_of l owner + (- n)
      in if LEDGER_VALUE_TOLERANCE < v then v else 0) else open_of l k)"
    if "ledger_wf l" "release_position owner n l = Inr l'" for l owner n l' k
    using that amount_adjust [of "al_lane_open_notional_usd l" owner "- n" k]
    by (auto simp: release_position_def open_of_def ledger_wf_def entries_wf_def split: if_splits)
  show "open_of l k = 0 \<or> LEDGER_VALUE_TOLERANCE < open_of l k" if "ledger_wf l" for l k
    using that unfolding open_of_def by (intro amount_range) (simp add: ledger_wf_def)
qed

subsection \<open>Rooms\<close>

lemma cap_finite:
  assumes "ledger_wf l" shows "is_finite (effective_cap_usd l)" "0 \<le> effective_cap_usd l"
  using assms
  by (auto simp: effective_cap_usd_def ledger_wf_def f64_min_def f64_max_def is_finite_not_nan f64_le_refl
      split: option.splits)

lemma sum_values_nonneg: "entries_wf m \<Longrightarrow> 0 \<le> f64_sum (hm_values m)"
  by (rule f64_sum_nonneg) (auto simp: entries_wf_def above_tolerance_nonneg)

lemma group_total_nonneg: "entries_wf m \<Longrightarrow> 0 \<le> owner_group_total m b"
  unfolding owner_group_total_def
  by (rule f64_sum_nonneg) (auto simp: entries_wf_def hm_values_def intro!: above_tolerance_nonneg)

lemma committed_nonneg: "ledger_wf l \<Longrightarrow> 0 \<le> total_committed_notional_usd l"
  by (simp add: total_committed_notional_usd_def total_attributed_open_notional_usd_def
      total_reserved_open_notional_usd_def ledger_wf_def sum_values_nonneg f64_add_nonneg)

lemma bot_committed_nonneg: "ledger_wf l \<Longrightarrow> 0 \<le> bot_committed_notional_usd l b"
  by (simp add: bot_committed_notional_usd_def bot_attributed_open_notional_usd_def
      bot_reserved_open_notional_usd_def ledger_wf_def group_total_nonneg f64_add_nonneg)

lemma available_bounds:
  assumes "ledger_wf l"
  shows "0 \<le> account_available_open_room_usd l" "account_available_open_room_usd l \<le> effective_cap_usd l"
    "is_finite (account_available_open_room_usd l)"
proof -
  let ?a = "account_available_open_room_usd l"
  show lo: "0 \<le> ?a" by (simp add: account_available_open_room_usd_def)
  show hi: "?a \<le> effective_cap_usd l"
    unfolding account_available_open_room_usd_def
    using cap_finite [OF assms] committed_nonneg [OF assms] by (intro f64_max_lub f64_minus_nonneg_le)
  show "is_finite ?a" using lo hi cap_finite(1) [OF assms] by (cases ?a rule: f64_cases) auto
qed

lemma tradeable_not_nan:
  "\<not> is_nan (account_tradeable_open_room_usd l)" "\<not> is_nan (bot_available_open_room_usd l b pct)"
  "\<not> is_nan (bot_tradeable_open_room_usd l b pct)"
  by (auto simp: account_tradeable_open_room_usd_def account_available_open_room_usd_def
      bot_available_open_room_usd_def bot_tradeable_open_room_usd_def)

lemma add_tolerance_mono: "x \<le> y \<Longrightarrow> x + LEDGER_VALUE_TOLERANCE \<le> y + LEDGER_VALUE_TOLERANCE"
  by (rule f64_add_right_mono) simp_all

lemma bot_tradeable_le:
  "bot_tradeable_open_room_usd l b pct \<le> bot_available_open_room_usd l b pct"
  "bot_tradeable_open_room_usd l b pct \<le> account_tradeable_open_room_usd l"
  unfolding bot_tradeable_open_room_usd_def using f64_min_le tradeable_not_nan by blast+

text \<open>
  The account's open room never exceeds its effective cap and splits exactly into the
  tradeable and the blocked part: one of the two is the whole room and the other is zero,
  according to whether a blocking exception is present.
\<close>

theorem account_room_partition:
  assumes "ledger_wf l"
  shows "0 \<le> account_tradeable_open_room_usd l
    \<and> account_tradeable_open_room_usd l \<le> account_available_open_room_usd l
    \<and> account_available_open_room_usd l \<le> effective_cap_usd l
    \<and> account_tradeable_open_room_usd l + account_blocked_open_room_usd l = account_available_open_room_usd l
    \<and> (account_blocked_open_room_usd l = (if has_blocking_exceptions l then account_available_open_room_usd l else 0))"
  using available_bounds [OF assms]
  by (auto simp: account_tradeable_open_room_usd_def account_blocked_open_room_usd_def f64_le_refl
      f64_add_0 f64_diff_self is_finite_not_nan) (simp_all add: minus_f64_fin f64_rnd_fval f64_add_0)

subsection \<open>Reservations\<close>

lemma try_reserve_granted_iff:
  assumes "LEDGER_VALUE_TOLERANCE < sanitize_value n"
  shows "is_ok (try_reserve_open owner n pct l) \<longleftrightarrow>
    n \<le> bot_tradeable_open_room_usd l (op_bot_id owner) pct + LEDGER_VALUE_TOLERANCE"
proof -
  let ?room = "bot_tradeable_open_room_usd l (op_bot_id owner) pct + LEDGER_VALUE_TOLERANCE"
  note n = sanitize_above [OF assms]
  have "\<not> sanitize_value n \<le> LEDGER_VALUE_TOLERANCE"
    using assms not_le_tolerance [of "sanitize_value n"] f64_less_not_nan [OF assms] by blast
  moreover have "\<not> ?room < n \<longleftrightarrow> n \<le> ?room"
    using n tradeable_not_nan(3) [of l "op_bot_id owner" pct]
    by (intro f64_not_less f64_add_fin_not_nan) (simp_all add: is_finite_not_nan)
  ultimately show ?thesis using n by (auto simp: try_reserve_open_def Let_def)
qed

lemma reserved_add_reserved:
  "reserved_of (add_reserved owner n l) k = (if k = owner then reserved_of l owner + n else reserved_of l k)"
  by (simp add: reserved_of_def add_reserved_def Let_def hm_get_insert)

lemma add_reserved_frame [simp]:
  "al_lane_open_notional_usd (add_reserved owner n l) = al_lane_open_notional_usd l"
  "al_exceptions (add_reserved owner n l) = al_exceptions l"
  "effective_cap_usd (add_reserved owner n l) = effective_cap_usd l"
  by (simp_all add: add_reserved_def Let_def effective_cap_usd_def split: option.split)

lemma try_reserve_Inr:
  assumes "LEDGER_VALUE_TOLERANCE < sanitize_value n" "try_reserve_open owner n pct l = Inr l'"
  shows "l' = add_reserved owner n l"
  using assms sanitize_above [OF assms(1)] f64_less_not_nan [OF assms(1)] not_le_tolerance [of "sanitize_value n"]
  by (auto simp: try_reserve_open_def Let_def split: if_splits)

lemma granted_bounds:
  assumes "try_reserve_open owner n pct l = Inr l'" "LEDGER_VALUE_TOLERANCE < sanitize_value n"
  shows "n \<le> bot_available_open_room_usd l (op_bot_id owner) pct + LEDGER_VALUE_TOLERANCE"
    "n \<le> account_tradeable_open_room_usd l + LEDGER_VALUE_TOLERANCE"
proof -
  let ?t = "bot_tradeable_open_room_usd l (op_bot_id owner) pct"
  have ok: "n \<le> ?t + LEDGER_VALUE_TOLERANCE"
    using try_reserve_granted_iff [OF assms(2)] assms(1) by (metis is_ok.simps(1))
  show "n \<le> bot_available_open_room_usd l (op_bot_id owner) pct + LEDGER_VALUE_TOLERANCE"
    "n \<le> account_tradeable_open_room_usd l + LEDGER_VALUE_TOLERANCE"
    using ok add_tolerance_mono [OF bot_tradeable_le(1)] add_tolerance_mono [OF bot_tradeable_le(2)] f64_le_trans
    by blast+
qed

lemma granted_unblocked:
  assumes "try_reserve_open owner n pct l = Inr l'" "LEDGER_VALUE_TOLERANCE < sanitize_value n"
  shows "\<not> has_blocking_exceptions l"
proof
  assume "has_blocking_exceptions l"
  with granted_bounds(2) [OF assms] have "n \<le> LEDGER_VALUE_TOLERANCE"
    by (simp add: account_tradeable_open_room_usd_def f64_add_0)
  moreover have "LEDGER_VALUE_TOLERANCE < n" using assms(2) sanitize_above [OF assms(2)] by simp
  ultimately show False using f64_less_le_trans f64_less_irrefl by blast
qed

text \<open>
  A granted reservation above the tolerance fits, up to the tolerance, both the bot's
  remaining allocation and the account's remaining room; no blocking exception is present;
  exactly the owner's reservation grows, by the requested amount, and no open notional
  changes.
\<close>

theorem reserve_granted_within_room:
  assumes "try_reserve_open owner n pct l = Inr l'" "LEDGER_VALUE_TOLERANCE < sanitize_value n"
  shows "n \<le> bot_available_open_room_usd l (op_bot_id owner) pct + LEDGER_VALUE_TOLERANCE
    \<and> n \<le> account_available_open_room_usd l + LEDGER_VALUE_TOLERANCE
    \<and> \<not> has_blocking_exceptions l
    \<and> reserved_of l' owner = reserved_of l owner + n
    \<and> (\<forall>k. k \<noteq> owner \<longrightarrow> reserved_of l' k = reserved_of l k)
    \<and> (\<forall>k. open_of l' k = open_of l k)"
  using granted_bounds [OF assms] granted_unblocked [OF assms] try_reserve_Inr [OF assms(2,1)]
  by (simp add: account_tradeable_open_room_usd_def reserved_add_reserved open_of_def)

text \<open>
  While a blocking exception is present every reservation above the tolerance is
  refused, and a refusal names the bot exactly when the bot's own allocation is used up.
\<close>

theorem reserve_blocked_by_exception:
  assumes "has_blocking_exceptions l" "LEDGER_VALUE_TOLERANCE < sanitize_value n"
  shows "try_reserve_open owner n pct l =
    Inl (if bot_available_open_room_usd l (op_bot_id owner) pct \<le> LEDGER_VALUE_TOLERANCE
         then BotCapacityExceeded else AccountCapacityExceeded)"
proof -
  have "\<not> is_ok (try_reserve_open owner n pct l)"
  proof
    assume "is_ok (try_reserve_open owner n pct l)"
    then obtain l' where "try_reserve_open owner n pct l = Inr l'" by (auto simp: is_ok_iff)
    then show False using granted_unblocked assms by blast
  qed
  then show ?thesis using assms(2)
    by (auto simp: try_reserve_open_def Let_def split: if_splits)
qed

subsection \<open>Rounding of the rooms\<close>

lemma tolerance_val_pos: "0 < fval LEDGER_VALUE_TOLERANCE"
  using less_f64_fin [of 0 LEDGER_VALUE_TOLERANCE] by simp

lemma rounded_bound:
  assumes "is_finite n" "n \<le> f64_rnd q" "0 \<le> q"
  shows "fval n \<le> q * (1 + pow2 (- 53)) + pow2 (- 1075)"
proof -
  have up: "qrnd q \<le> q * (1 + pow2 (- 53)) + pow2 (- 1075)"
    using qrnd_error [of q] assms(3) by (simp add: abs_le_iff distrib_left)
  have "fval n \<le> qrnd q"
  proof (cases "is_finite (f64_rnd q)")
    case True
    then show ?thesis using assms f64_rnd_cases [of q] by (auto simp: le_f64_fin)
  next
    case False
    then have "pow2 1024 \<le> qrnd q" using f64_rnd_cases [of q] qrnd_nonneg [OF assms(3)] by auto
    then show ?thesis using fval_bounded [OF assms(1)] by linarith
  qed
  with up show ?thesis by linarith
qed

text \<open>Two roundings of a difference \<open>d\<close> plus a tolerance \<open>t\<close>, bounded by the cap.\<close>

lemma two_roundings:
  fixes d r t cap :: rat
  assumes "0 < d" "d \<le> cap" "0 < t" "r \<le> d * (1 + pow2 (- 53)) + pow2 (- 1075)"
  shows "(r + t) * (1 + pow2 (- 53)) + pow2 (- 1075) \<le> d + t + (cap + t + 1) * pow2 (- 51)"
proof -
  let ?u = "pow2 (- 53)" and ?e = "pow2 (- 1075)"
  have u: "?u = 1 / 9007199254740992" "pow2 (- 51) = 1 / 2251799813685248" by (simp_all add: pow2_neg)
  have e: "0 < ?e" "?e \<le> ?u" by simp_all
  have "(r + t) * (1 + ?u) \<le> (d * (1 + ?u) + ?e + t) * (1 + ?u)"
    using assms(4) by (intro mult_right_mono) (simp_all add: u)
  then have "(r + t) * (1 + ?u) + ?e \<le> d + t + (2 * ?u + ?u * ?u) * d + ?u * t + (2 + ?u) * ?e"
    by (simp add: algebra_simps)
  moreover have "(2 * ?u + ?u * ?u) * d \<le> (3 * ?u) * cap"
    using assms by (intro mult_mono) (simp_all add: u)
  moreover have "?u * t \<le> (3 * ?u) * t" using assms by (intro mult_right_mono) (simp_all add: u)
  moreover have "(2 + ?u) * ?e \<le> 3 * ?u" using e by (intro mult_mono) (simp_all add: u)
  moreover have "3 * ?u * (cap + t + 1) \<le> pow2 (- 51) * (cap + t + 1)"
    using assms by (intro mult_right_mono) (simp_all add: u)
  ultimately show ?thesis by (simp add: algebra_simps)
qed

lemma room_positive:
  assumes "is_finite cap" "is_finite c" "LEDGER_VALUE_TOLERANCE < n"
    and "n \<le> f64_max (cap - c) 0 + LEDGER_VALUE_TOLERANCE"
  shows "0 < fval cap - fval c"
proof (rule ccontr)
  assume "\<not> 0 < fval cap - fval c"
  then have "cap - c \<le> 0" using assms by (simp add: minus_f64_fin f64_rnd_le)
  then have "f64_max (cap - c) 0 \<le> 0" by (intro f64_max_lub) (simp_all add: f64_le_refl)
  from f64_add_right_mono [OF tolerance_finite this] assms(4)
  have "n \<le> LEDGER_VALUE_TOLERANCE" using f64_le_trans by (fastforce simp: f64_add_0)
  then show False using assms(3) f64_less_le_trans f64_less_irrefl by blast
qed

lemma room_bound:
  assumes fin: "is_finite cap" "is_finite c" "is_finite n" "0 \<le> c" "LEDGER_VALUE_TOLERANCE < n"
    and le: "n \<le> f64_max (cap - c) 0 + LEDGER_VALUE_TOLERANCE"
  shows "fval c + fval n \<le> fval cap + fval LEDGER_VALUE_TOLERANCE
    + (fval cap + fval LEDGER_VALUE_TOLERANCE + 1) * pow2 (- 51)"
proof -
  let ?t = "fval LEDGER_VALUE_TOLERANCE"
  define d where "d = fval cap - fval c"
  have d: "0 < d" "d \<le> fval cap"
    using room_positive [OF fin(1,2,5) le] fin by (simp_all add: d_def le_f64_fin)
  have room: "cap - c = f64_rnd d" using fin by (simp add: minus_f64_fin d_def)
  have rfin: "is_finite (f64_rnd d)"
    using d fin by (intro f64_rnd_finite_between [of 0 cap]) simp_all
  have max: "f64_max (f64_rnd d) 0 = f64_rnd d"
    using f64_rnd_nonneg [of d] d f64_antisym [of "f64_rnd d" 0] by (auto simp: f64_max_def)
  let ?r = "fval (f64_rnd d)"
  have r: "?r \<le> d * (1 + pow2 (- 53)) + pow2 (- 1075)" "0 \<le> ?r"
    using rounded_bound [OF rfin f64_le_refl] f64_rnd_nonneg [of d] d rfin by (simp_all add: le_f64_fin)
  have "n \<le> f64_rnd (?r + ?t)" using le rfin by (simp add: room max plus_f64_fin)
  then have "fval n \<le> (?r + ?t) * (1 + pow2 (- 53)) + pow2 (- 1075)"
    using r tolerance_val_pos by (intro rounded_bound fin) simp_all
  with two_roundings [OF d tolerance_val_pos r(1)] show ?thesis by (simp add: d_def)
qed

definition rounding_slack :: "rat \<Rightarrow> rat" where
  "rounding_slack cap = fval LEDGER_VALUE_TOLERANCE + (cap + fval LEDGER_VALUE_TOLERANCE + 1) * pow2 (- 51)"

text \<open>
  C22: a granted reservation over-commits neither the bot's allocation nor the account's cap
  by more than the tolerance and the rounding of binary64: the exact sum of what was
  committed before and the amount granted stays below the cap plus the tolerance plus a
  relative error of \<open>2^-51\<close>.
\<close>

theorem reserve_never_overcommits:
  assumes "ledger_wf l" "try_reserve_open owner n pct l = Inr l'" "LEDGER_VALUE_TOLERANCE < sanitize_value n"
    and "is_finite (bot_allocated_usd l pct)" "is_finite (bot_committed_notional_usd l (op_bot_id owner))"
    and "is_finite (total_committed_notional_usd l)"
  shows "fval (bot_committed_notional_usd l (op_bot_id owner)) + fval n
      \<le> fval (bot_allocated_usd l pct) + rounding_slack (fval (bot_allocated_usd l pct))
    \<and> fval (total_committed_notional_usd l) + fval n
      \<le> fval (effective_cap_usd l) + rounding_slack (fval (effective_cap_usd l))"
proof -
  have n: "is_finite n" "LEDGER_VALUE_TOLERANCE < n" using sanitize_above [OF assms(3)] assms(3) by simp_all
  have acct: "n \<le> account_available_open_room_usd l + LEDGER_VALUE_TOLERANCE"
    using granted_bounds(2) [OF assms(2,3)] granted_unblocked [OF assms(2,3)]
    by (simp add: account_tradeable_open_room_usd_def)
  note bot = granted_bounds(1) [OF assms(2,3)]
  show ?thesis
    using room_bound [OF assms(4,5) n(1) bot_committed_nonneg [OF assms(1)] n(2)
        bot [unfolded bot_available_open_room_usd_def]]
      room_bound [OF cap_finite(1) [OF assms(1)] assms(6) n(1) committed_nonneg [OF assms(1)] n(2)
        acct [unfolded account_available_open_room_usd_def]]
    by (simp add: rounding_slack_def)
qed

text \<open>
  C24: a reservation that is released again leaves the owner's reserved notional as it was,
  when the sum of the two amounts is representable (in particular when the owner had no
  reservation), and other owners are untouched.
\<close>

theorem reserve_release_roundtrip:
  assumes "ledger_wf l" "try_reserve_open owner n pct l = Inr l'" "LEDGER_VALUE_TOLERANCE < sanitize_value n"
    and "is_finite (reserved_of l owner + n)" "fval (reserved_of l owner + n) = fval (reserved_of l owner) + fval n"
    and "is_finite (reserved_of l owner)"
  shows "\<exists>l''. release_reservation owner n l' = Inr l'' \<and> (\<forall>k. reserved_of l'' k = reserved_of l k)"
proof -
  have n: "is_finite n" "0 < n" "sanitize_value n = n" using sanitize_above [OF assms(3)] by simp_all
  have l': "l' = add_reserved owner n l" by (rule try_reserve_Inr) fact+
  have wf': "ledger_wf l'" using assms(1,2) by (rule wf_try_reserve)
  obtain l'' where l'': "release_reservation owner n l' = Inr l''"
    using reserved.shrink_ok_iff [of owner n l'] n by (auto simp: is_ok_iff)
  have "reserved_of l owner + n + (- n) = reserved_of l owner"
    using assms(4-6) n by (simp add: plus_f64_fin [of _ "- n"] uminus_f64_fin f64_rnd_fval)
  moreover have "reserved_of l owner = 0 \<or> LEDGER_VALUE_TOLERANCE < reserved_of l owner"
    using reserved.amount_wf [OF assms(1)] .
  ultimately have "reserved_of l'' k = reserved_of l k" for k
    using reserved.amount_shrink [OF wf' l'', of k] f64_less_le_trans f64_less_irrefl
    by (auto simp: l' reserved_add_reserved Let_def)
  with l'' show ?thesis by blast
qed

subsection \<open>Totals and snapshots\<close>

lemma foldl_filter_le:
  fixes a b :: f64
  assumes "\<forall>e \<in> set m. 0 \<le> snd e" "0 \<le> a" "a \<le> b"
  shows "foldl (+) a (map snd (filter P m)) \<le> foldl (+) b (map snd m)"
  using assms
proof (induction m arbitrary: a b)
  case Nil
  then show ?case by simp
next
  case (Cons e m)
  have b: "0 \<le> b" using Cons.prems(2,3) by (rule f64_le_trans)
  have v: "0 \<le> snd e" using Cons.prems(1) by simp
  show ?case
  proof (cases "P e")
    case True
    have "a + snd e \<le> b + snd e"
    proof (cases "is_finite (snd e)")
      case fin: True
      then show ?thesis using Cons.prems(3) by (rule f64_add_right_mono)
    next
      case False
      with v have "snd e = f64_inf False" by (cases "snd e" rule: f64_cases) auto
      with Cons.prems(2) b show ?thesis by (simp add: f64_add_inf)
    qed
    then show ?thesis using Cons.IH [of "a + snd e" "b + snd e"] Cons.prems v True
      by (simp add: f64_add_nonneg)
  next
    case False
    have "a \<le> b + snd e" using Cons.prems(3) nonneg_add_ge [OF b v] by (rule f64_le_trans)
    then show ?thesis using Cons.IH [of a "b + snd e"] Cons.prems False by simp
  qed
qed

lemma group_total_le: "entries_wf m \<Longrightarrow> owner_group_total m b \<le> f64_sum (hm_values m)"
  unfolding owner_group_total_def f64_sum_def hm_values_def
  by (rule foldl_filter_le) (auto simp: entries_wf_def hm_values_def f64_le_refl above_tolerance_nonneg)

text \<open>
  The per-bot totals never exceed the account totals, rounding included, because both
  are sums over the same iteration order.
\<close>

theorem bot_totals_within_account:
  assumes "ledger_wf l"
  shows "bot_attributed_open_notional_usd l b \<le> total_attributed_open_notional_usd l
    \<and> bot_reserved_open_notional_usd l b \<le> total_reserved_open_notional_usd l"
  using assms
  by (simp add: bot_attributed_open_notional_usd_def bot_reserved_open_notional_usd_def
      total_attributed_open_notional_usd_def total_reserved_open_notional_usd_def ledger_wf_def group_total_le)

lemma owner_key_inj: "owner_key a = owner_key b \<longleftrightarrow> a = b" for a b :: LedgerOwnerPath
  by (auto simp: owner_key_def)

lemma map_map_filter:
  "(\<And>x y. x \<in> set xs \<Longrightarrow> f x = Some y \<Longrightarrow> g y = h x) \<Longrightarrow>
   map g (List.map_filter f xs) = map h (filter (\<lambda>x. f x \<noteq> None) xs)"
  by (induction xs) (auto simp: map_filter_simps split: option.splits)

lemma distinct_remdups_adj_sorted: "sorted xs \<Longrightarrow> distinct (remdups_adj xs)"
proof (induction xs rule: remdups_adj.induct)
  case (3 x y xs)
  then show ?case using order.strict_trans1 [of x y] by (cases "x = y") force+
qed simp_all

lemma dedup_sorted:
  fixes xs :: "LedgerOwnerPath list"
  defines "ys \<equiv> remdups_adj (sort_key owner_key xs)"
  shows "sorted (map owner_key ys)" "distinct ys" "set ys = set xs"
proof -
  have s: "sorted (map owner_key (sort_key owner_key xs))" by simp
  have "map owner_key ys = remdups_adj (map owner_key (sort_key owner_key xs))"
    unfolding ys_def by (rule remdups_adj_map_injective [symmetric]) (auto simp: inj_def owner_key_inj)
  moreover have "sorted (remdups_adj (map owner_key (sort_key owner_key xs)))"
    using s by (rule sorted_remdups_adj)
  moreover have "distinct (remdups_adj (map owner_key (sort_key owner_key xs)))"
    using s by (rule distinct_remdups_adj_sorted)
  ultimately have "sorted (map owner_key ys)" "distinct (map owner_key ys)" by simp_all
  then show "sorted (map owner_key ys)" "distinct ys" by (simp_all only: distinct_map)
  show "set ys = set xs" by (simp add: ys_def)
qed


definition lane_total :: "AccountLedger \<Rightarrow> LedgerOwnerPath \<Rightarrow> f64" where
  "lane_total l owner = open_of l owner + reserved_of l owner"

lemma lane_snapshots_eq:
  "lane_snapshots l = List.map_filter (\<lambda>owner. if lane_total l owner \<le> LEDGER_VALUE_TOLERANCE then None
     else Some \<lparr>lps_owner = owner, lps_attributed_open_notional_usd = open_of l owner,
       lps_reserved_open_notional_usd = reserved_of l owner, lps_total_committed_notional_usd = lane_total l owner\<rparr>)
     (remdups_adj (sort_key owner_key (hm_keys (al_lane_open_notional_usd l) @ hm_keys (al_lane_reserved_notional_usd l))))"
  unfolding lane_snapshots_def Let_def lane_total_def open_of_def reserved_of_def by simp

lemma not_in_keys: "k \<notin> set (hm_keys m) \<Longrightarrow> hm_get m k = None"
  by (force simp: hm_keys_def hm_get_def map_of_eq_None_iff)

text \<open>
  The lane snapshots list exactly the lanes whose committed notional exceeds the
  tolerance, once each, ordered by account, bot and symbol, with the amounts the ledger
  holds for them.
\<close>

theorem lane_snapshots_complete:
  "sorted (map (owner_key \<circ> lps_owner) (lane_snapshots l))
   \<and> distinct (map lps_owner (lane_snapshots l))
   \<and> set (map lps_owner (lane_snapshots l)) = {owner. \<not> lane_total l owner \<le> LEDGER_VALUE_TOLERANCE}
   \<and> (\<forall>s \<in> set (lane_snapshots l). lps_attributed_open_notional_usd s = open_of l (lps_owner s)
        \<and> lps_reserved_open_notional_usd s = reserved_of l (lps_owner s)
        \<and> lps_total_committed_notional_usd s = lane_total l (lps_owner s))"
proof -
  let ?ks = "hm_keys (al_lane_open_notional_usd l) @ hm_keys (al_lane_reserved_notional_usd l)"
  let ?os = "remdups_adj (sort_key owner_key ?ks)"
  note os = dedup_sorted [of ?ks]
  have owners: "map lps_owner (lane_snapshots l) = filter (\<lambda>owner. \<not> lane_total l owner \<le> LEDGER_VALUE_TOLERANCE) ?os"
    unfolding lane_snapshots_eq
    by (subst map_map_filter [where h = id]) (auto split: if_splits)
  have zero: "lane_total l owner \<le> LEDGER_VALUE_TOLERANCE" if "owner \<notin> set ?ks" for owner
    using that by (simp add: not_in_keys lane_total_def open_of_def reserved_of_def f64_add_0 f64_less_le)
  have "sorted (map owner_key (map lps_owner (lane_snapshots l)))"
    unfolding owners using os(1) by (simp add: sorted_filter)
  then have "sorted (map (owner_key \<circ> lps_owner) (lane_snapshots l))" by simp
  moreover have "distinct (map lps_owner (lane_snapshots l))" unfolding owners using os(2) by simp
  moreover have "set (map lps_owner (lane_snapshots l)) = {owner. \<not> lane_total l owner \<le> LEDGER_VALUE_TOLERANCE}"
    unfolding owners using os(3) zero by auto
  moreover have "\<forall>s \<in> set (lane_snapshots l). lps_attributed_open_notional_usd s = open_of l (lps_owner s)
        \<and> lps_reserved_open_notional_usd s = reserved_of l (lps_owner s)
        \<and> lps_total_committed_notional_usd s = lane_total l (lps_owner s)"
    unfolding lane_snapshots_eq by (auto simp: List.map_filter_def split: if_splits)
  ultimately show ?thesis by blast
qed

lemma cap_within_declared:
  assumes "al_declared_total_usd l = sanitize_value declared"
  shows "effective_cap_usd l \<le> sanitize_value declared"
proof -
  have nan: "\<not> is_nan (sanitize_value declared)" by (simp add: is_finite_not_nan)
  show ?thesis
    using f64_min_le [OF nan, of "f64_max _ 0"] nan f64_le_refl [OF nan]
    by (auto simp: effective_cap_usd_def assms split: option.split)
qed

text \<open>
  C23: every ledger reached from a new one by any sequence of its operations satisfies the
  invariant (distinct owners, only amounts above the tolerance, finite non-negative scalars),
  keeps its declared total, and reports an effective cap between zero and that total.
\<close>

theorem reachable_ledger_invariant:
  assumes "ledger_reachable declared l"
  shows "ledger_wf l \<and> al_declared_total_usd l = sanitize_value declared
    \<and> 0 \<le> effective_cap_usd l \<and> effective_cap_usd l \<le> sanitize_value declared"
proof -
  have wf: "ledger_wf l" and d: "al_declared_total_usd l = sanitize_value declared"
    using reachable_wf [OF assms] by simp_all
  then show ?thesis using cap_within_declared [OF d] cap_finite(2) [OF wf] by simp
qed

text \<open>
  A release succeeds exactly on finite positive amounts; it never makes the owner's
  amount negative or larger, empties it when the amount covers it, and touches no other
  owner.
\<close>

theorem release_contract:
  assumes "ledger_wf l"
  shows "is_ok (release_reservation owner n l) = (is_finite n \<and> 0 < n)
    \<and> is_ok (release_position owner n l) = (is_finite n \<and> 0 < n)
    \<and> (\<forall>l'. release_reservation owner n l = Inr l' \<longrightarrow>
         ledger_wf l' \<and> 0 \<le> reserved_of l' owner \<and> reserved_of l' owner \<le> reserved_of l owner
         \<and> (reserved_of l owner \<le> n \<longrightarrow> reserved_of l' owner = 0)
         \<and> (\<forall>k. k \<noteq> owner \<longrightarrow> reserved_of l' k = reserved_of l k))
    \<and> (\<forall>l'. release_position owner n l = Inr l' \<longrightarrow>
         ledger_wf l' \<and> 0 \<le> open_of l' owner \<and> open_of l' owner \<le> open_of l owner
         \<and> (open_of l owner \<le> n \<longrightarrow> open_of l' owner = 0)
         \<and> (\<forall>k. k \<noteq> owner \<longrightarrow> open_of l' k = open_of l k))"
  using reserved.shrink_ok_iff attributed.shrink_ok_iff reserved.shrink_bounds [OF assms]
    attributed.shrink_bounds [OF assms] reserved.shrink_over [OF assms] attributed.shrink_over [OF assms]
    reserved.shrink_frame [OF assms] attributed.shrink_frame [OF assms]
    wf_release_reservation [OF assms] wf_release_position [OF assms]
  by (intro conjI allI impI) simp_all

text \<open>
  Reconciling an open fill releases the reservation and attributes the filled notional:
  the internal release never fails, the reservation shrinks by the reserved amount (to zero
  when it covers it) and the owner's open notional grows by the filled amount.
\<close>

theorem reconcile_open_fill_effect:
  assumes "ledger_wf l" "LEDGER_VALUE_TOLERANCE < sanitize_value filled" "LEDGER_VALUE_TOLERANCE < sanitize_value res"
  shows "\<exists>l'. release_reservation owner res l = Inr l'
    \<and> (\<forall>k. reserved_of (reconcile_open_fill owner filled res l) k = reserved_of l' k)
    \<and> open_of (reconcile_open_fill owner filled res l) owner = open_of l owner + filled
    \<and> (\<forall>k. k \<noteq> owner \<longrightarrow> open_of (reconcile_open_fill owner filled res l) k = open_of l k)
    \<and> ledger_wf (reconcile_open_fill owner filled res l)"
proof -
  have f: "sanitize_value filled = filled" "LEDGER_VALUE_TOLERANCE < filled"
    and r: "sanitize_value res = res" "is_finite res" "0 < res" "LEDGER_VALUE_TOLERANCE < res"
    using sanitize_above [OF assms(2)] sanitize_above [OF assms(3)] assms by simp_all
  obtain l' where l': "release_reservation owner res l = Inr l'"
    using reserved.shrink_ok_iff [of owner res l] r by (auto simp: is_ok_iff)
  have same: "al_lane_open_notional_usd l' = al_lane_open_notional_usd l"
    using l' by (auto simp: release_reservation_def split: if_splits)
  have rec: "reconcile_open_fill owner filled res l =
      l'\<lparr>al_lane_open_notional_usd := adjust_owner_notional (al_lane_open_notional_usd l) owner filled\<rparr>"
    using l' f r by (simp add: reconcile_open_fill_def Let_def same)
  have "filled \<le> filled + open_of l owner"
    using attributed.amount_nonneg [OF assms(1)] above_tolerance_nonneg [OF f(2)] by (simp add: nonneg_add_ge)
  then have "LEDGER_VALUE_TOLERANCE < open_of l owner + filled"
    using f(2) by (simp add: f64_add_commute f64_less_le_trans)
  then have "open_of (reconcile_open_fill owner filled res l) k = (if k = owner then open_of l owner + filled else open_of l k)" for k
    using amount_adjust [of "al_lane_open_notional_usd l" owner filled k] assms(1)
    by (simp add: rec open_of_def ledger_wf_def entries_wf_def Let_def)
  then show ?thesis using l' wf_reconcile [OF assms(1), of owner filled res]
    by (auto simp: rec reserved_of_def)
qed

subsection \<open>Concrete instances\<close>

definition demo_owner :: LedgerOwnerPath where
  "demo_owner = \<lparr>op_account_id = ''paper'', op_bot_id = ''swing'', op_symbol = ''AAPL''\<rparr>"

definition demo_ledger :: AccountLedger where
  "demo_ledger = set_live_balance_usd (Some (f64_rnd 800)) (AccountLedger_new (f64_rnd 1000))"

definition demo_reserved :: AccountLedger where
  "demo_reserved = add_reserved demo_owner (f64_rnd 100) demo_ledger"

definition demo_blocked :: AccountLedger where
  "demo_blocked = replace_exceptions [\<lparr>ex_kind = UnpricedInventory, ex_owner = None, ex_symbol = Some ''AAPL'',
     ex_detail = ''no mark'', ex_blocks_new_opens = True\<rparr>] demo_ledger"

lemma demo_wf: "ledger_wf demo_ledger" "ledger_wf demo_blocked"
  unfolding demo_ledger_def demo_blocked_def by (intro wf_intros)+

lemma demo_grant: "try_reserve_open demo_owner (f64_rnd 100) (f64_rnd 50) demo_ledger = Inr demo_reserved"
  by code_simp

lemma demo_above: "LEDGER_VALUE_TOLERANCE < sanitize_value (f64_rnd 100)"
  by code_simp

theorem account_room_partition_witness:
  "ledger_wf demo_ledger
   \<and> account_tradeable_open_room_usd demo_ledger + account_blocked_open_room_usd demo_ledger
     = account_available_open_room_usd demo_ledger"
  using account_room_partition [OF demo_wf(1)] demo_wf(1) by blast

theorem reserve_granted_within_room_witness:
  "try_reserve_open demo_owner (f64_rnd 100) (f64_rnd 50) demo_ledger = Inr demo_reserved
   \<and> LEDGER_VALUE_TOLERANCE < sanitize_value (f64_rnd 100)
   \<and> reserved_of demo_reserved demo_owner = reserved_of demo_ledger demo_owner + f64_rnd 100"
  using reserve_granted_within_room [OF demo_grant demo_above] demo_grant demo_above by simp

theorem reserve_blocked_by_exception_witness:
  "has_blocking_exceptions demo_blocked
   \<and> try_reserve_open demo_owner (f64_rnd 100) (f64_rnd 50) demo_blocked = Inl AccountCapacityExceeded"
proof -
  have h: "has_blocking_exceptions demo_blocked" by code_simp
  have a: "\<not> bot_available_open_room_usd demo_blocked (op_bot_id demo_owner) (f64_rnd 50) \<le> LEDGER_VALUE_TOLERANCE"
    by code_simp
  show ?thesis using h a reserve_blocked_by_exception [OF h demo_above, of demo_owner "f64_rnd 50"] by simp
qed

theorem reserve_never_overcommits_witness:
  "ledger_wf demo_ledger
   \<and> fval (bot_committed_notional_usd demo_ledger (op_bot_id demo_owner)) + fval (f64_rnd 100)
     \<le> fval (bot_allocated_usd demo_ledger (f64_rnd 50)) + rounding_slack (fval (bot_allocated_usd demo_ledger (f64_rnd 50)))"
proof -
  have f: "is_finite (bot_allocated_usd demo_ledger (f64_rnd 50))"
    "is_finite (bot_committed_notional_usd demo_ledger (op_bot_id demo_owner))"
    "is_finite (total_committed_notional_usd demo_ledger)"
    by code_simp+
  show ?thesis using reserve_never_overcommits [OF demo_wf(1) demo_grant demo_above f] demo_wf(1) by simp
qed

theorem reserve_release_roundtrip_witness:
  "\<exists>l''. release_reservation demo_owner (f64_rnd 100) demo_reserved = Inr l''
     \<and> (\<forall>k. reserved_of l'' k = reserved_of demo_ledger k)"
proof (rule reserve_release_roundtrip [OF demo_wf(1) demo_grant demo_above])
  show "is_finite (reserved_of demo_ledger demo_owner + f64_rnd 100)"
    "is_finite (reserved_of demo_ledger demo_owner)" by code_simp+
  show "fval (reserved_of demo_ledger demo_owner + f64_rnd 100)
    = fval (reserved_of demo_ledger demo_owner) + fval (f64_rnd 100)" by code_simp
qed

theorem bot_totals_within_account_witness:
  "ledger_wf demo_ledger
   \<and> bot_reserved_open_notional_usd demo_ledger ''swing'' \<le> total_reserved_open_notional_usd demo_ledger"
  using bot_totals_within_account [OF demo_wf(1), of "''swing''"] demo_wf(1) by simp

theorem lane_snapshots_complete_witness:
  "lane_snapshots demo_reserved \<noteq> []
   \<and> sorted (map (owner_key \<circ> lps_owner) (lane_snapshots demo_reserved))
   \<and> set (map lps_owner (lane_snapshots demo_reserved))
     = {owner. \<not> lane_total demo_reserved owner \<le> LEDGER_VALUE_TOLERANCE}"
proof -
  have "lane_snapshots demo_reserved \<noteq> []" by code_simp
  then show ?thesis using lane_snapshots_complete [of demo_reserved] by blast
qed

theorem reachable_ledger_invariant_witness:
  "ledger_reachable (f64_rnd 1000) demo_reserved \<and> ledger_wf demo_reserved"
proof -
  have "ledger_reachable (f64_rnd 1000) demo_ledger"
    unfolding demo_ledger_def by (rule reach_step [OF reach_new step_live])
  then have r: "ledger_reachable (f64_rnd 1000) demo_reserved"
    by (rule reach_step [OF _ step_reserve [OF demo_grant]])
  show ?thesis using r reachable_ledger_invariant [OF r] by simp
qed

theorem release_contract_witness:
  "ledger_wf demo_ledger \<and> is_ok (release_reservation demo_owner (f64_rnd 100) demo_ledger)"
proof -
  have "is_finite (f64_rnd 100) \<and> 0 < f64_rnd 100" by code_simp
  then show ?thesis using release_contract [OF demo_wf(1), of demo_owner "f64_rnd 100"] demo_wf(1) by simp
qed

theorem reconcile_open_fill_effect_witness:
  "open_of (reconcile_open_fill demo_owner (f64_rnd 100) (f64_rnd 100) demo_ledger) demo_owner
     = open_of demo_ledger demo_owner + f64_rnd 100"
  using reconcile_open_fill_effect [OF demo_wf(1) demo_above demo_above, of demo_owner] by blast

end
