(* ===== verification/Capital.thy ===== *)
theory Capital
  imports Ledger
begin

section \<open>The capital machine: what a service may do with a ledger (openticker-ledger/src/account\_ledger.rs)\<close>

text \<open>
  The account ledger offers single operations, and nothing in it says in which order a client calls them.
  The service is meant to use them in one way only: the capital of an order is taken while it fits into
  the rooms of its bot and its account, and it is given back or turned into an open position before
  anything else happens. The steps of the capital machine say this: taking capital is not a step of its
  own, and its guard is stated with the rooms, apart from the check of \<open>try_reserve_open\<close>.

  The lemmas show that the machine uses the operations of the ledger, that a ledger without reservations
  stays so, and that a granted reservation satisfies the guard.
\<close>

subsection \<open>The machine\<close>

text \<open>Amounts up to the tolerance reserve nothing; all others must fit.\<close>

definition within_rooms :: "LedgerOwnerPath \<Rightarrow> f64 \<Rightarrow> f64 \<Rightarrow> AccountLedger \<Rightarrow> bool" where
  "within_rooms owner n pct l \<longleftrightarrow> sanitize_value n \<le> LEDGER_VALUE_TOLERANCE
     \<or> \<not> has_blocking_exceptions l \<and> n \<le> account_available_open_room_usd l + LEDGER_VALUE_TOLERANCE
       \<and> n \<le> bot_available_open_room_usd l (op_bot_id owner) pct + LEDGER_VALUE_TOLERANCE"

text \<open>What trading does with a ledger, and what the service does with it in all.\<close>

inductive trade_step :: "AccountLedger \<Rightarrow> AccountLedger \<Rightarrow> bool" where
  trade_inventory: "trade_step l (replace_lane_open_notional ns l)"
| trade_close: "release_position owner n l = Inr l' \<Longrightarrow> trade_step l l'"
| trade_returned: "within_rooms owner n pct l \<Longrightarrow> try_reserve_open owner n pct l = Inr l1 \<Longrightarrow> release_reservation owner n l1 = Inr l2
    \<Longrightarrow> trade_step l l2"
| trade_filled: "within_rooms owner n pct l \<Longrightarrow> try_reserve_open owner n pct l = Inr l1
    \<Longrightarrow> trade_step l (reconcile_open_fill owner filled n l1)"

inductive capital_step :: "AccountLedger \<Rightarrow> AccountLedger \<Rightarrow> bool" where
  cap_trade: "trade_step l l' \<Longrightarrow> capital_step l l'"
| cap_live: "capital_step l (set_live_balance_usd b l)"
| cap_unattributed: "capital_step l (set_unattributed_open_notional_usd n l)"
| cap_exceptions: "capital_step l (replace_exceptions es l)"

inductive capital_reachable :: "f64 \<Rightarrow> AccountLedger \<Rightarrow> bool" for declared where
  capital_new: "capital_reachable declared (AccountLedger_new declared)"
| capital_steps: "capital_reachable declared l \<Longrightarrow> capital_step l l' \<Longrightarrow> capital_reachable declared l'"

subsection \<open>The machine and the ledger\<close>

lemma hm_insert_again: "hm_insert k v (hm_insert k u m) = hm_insert k v m"
  by (simp add: hm_insert_def)

lemma hm_insert_same: "hm_get m k = Some v \<Longrightarrow> hm_insert k v m = m"
  unfolding hm_insert_def hm_get_def by (induction m) (auto split: if_splits)

lemma granted_within_rooms: "try_reserve_open owner n pct l = Inr l' \<Longrightarrow> within_rooms owner n pct l"
proof -
  assume granted: "try_reserve_open owner n pct l = Inr l'"
  show ?thesis
  proof (cases "sanitize_value n \<le> LEDGER_VALUE_TOLERANCE")
    case False
    then have above: "LEDGER_VALUE_TOLERANCE < sanitize_value n"
      using not_le_tolerance [of "sanitize_value n"] is_finite_not_nan [OF sanitize_nonneg(2)] by blast
    from granted_bounds [OF granted above] granted_unblocked [OF granted above] show ?thesis
      by (simp add: within_rooms_def account_tradeable_open_room_usd_def)
  qed (simp add: within_rooms_def)
qed

text \<open>An amount that cannot be returned was never taken.\<close>

lemma granted_invalid: "try_reserve_open owner n pct l = Inr l' \<Longrightarrow> \<not> (is_finite n \<and> 0 < n) \<Longrightarrow> l' = l"
proof (cases "sanitize_value n \<le> LEDGER_VALUE_TOLERANCE")
  case False
  then have "LEDGER_VALUE_TOLERANCE < sanitize_value n"
    using not_le_tolerance [of "sanitize_value n"] is_finite_not_nan [OF sanitize_nonneg(2)] by blast
  moreover assume "\<not> (is_finite n \<and> 0 < n)"
  ultimately show ?thesis using sanitize_above by blast
qed (simp add: try_reserve_open_def)

lemma trade_uses_ledger: "trade_step l l' \<Longrightarrow> ledger_step\<^sup>*\<^sup>* l l'"
  by (induction rule: trade_step.induct)
    (blast intro: r_into_rtranclp converse_rtranclp_into_rtranclp ledger_step.intros)+

lemma capital_uses_ledger: "capital_step l l' \<Longrightarrow> ledger_step\<^sup>*\<^sup>* l l'"
  by (induction rule: capital_step.induct) (blast intro: trade_uses_ledger ledger_step.intros)+

lemma capital_run_uses_ledger: "capital_step\<^sup>*\<^sup>* l l' \<Longrightarrow> ledger_step\<^sup>*\<^sup>* l l'"
  by (induction rule: rtranclp_induct) (auto dest: capital_uses_ledger)

lemma ledger_run_reachable: "ledger_step\<^sup>*\<^sup>* l l' \<Longrightarrow> ledger_reachable declared l \<Longrightarrow> ledger_reachable declared l'"
  by (induction rule: rtranclp_induct) (auto intro: reach_step)

lemma capital_run_reachable: "capital_step\<^sup>*\<^sup>* l l' \<Longrightarrow> capital_reachable declared l \<Longrightarrow> capital_reachable declared l'"
  by (induction rule: rtranclp_induct) (auto intro: capital_steps)

lemma capital_reachable_ledger: "capital_reachable declared l \<Longrightarrow> ledger_reachable declared l"
  by (induction rule: capital_reachable.induct) (auto intro: reach_new ledger_run_reachable capital_uses_ledger)

text \<open>An invariant of all ledgers of a service that every step of trading keeps.\<close>

definition trade_closed :: "((string, AccountLedger) hmap \<Rightarrow> bool) \<Rightarrow> bool" where
  "trade_closed J \<longleftrightarrow> (\<forall>m a l l'. J m \<longrightarrow> hm_get m a = Some l \<longrightarrow> trade_step l l' \<longrightarrow> J (hm_insert a l' m))"

lemma trade_closedD: "trade_closed J \<Longrightarrow> J m \<Longrightarrow> hm_get m a = Some l \<Longrightarrow> trade_step l l' \<Longrightarrow> J (hm_insert a l' m)"
  by (auto simp: trade_closed_def)

subsection \<open>No capital is lost\<close>

definition unreserved :: "AccountLedger \<Rightarrow> bool" where
  "unreserved l \<longleftrightarrow> al_lane_reserved_notional_usd l = []"

lemma not_above_tolerance: "x \<le> 0 \<Longrightarrow> \<not> LEDGER_VALUE_TOLERANCE < x"
  using f64_le_less_trans f64_less_irrefl above_tolerance_nonneg f64_less_le_trans tolerance_pos by (metis f64_less_le f64_less_le_trans)

lemma taken_and_returned:
  assumes "is_finite n" "0 < n"
  shows "adjust_owner_notional [] owner (- n) = []" "adjust_owner_notional (hm_insert owner (0 + n) []) owner (- n) = []"
proof -
  have "(0 :: f64) + - n \<le> 0" using assms by (simp add: plus_f64_fin uminus_f64_fin f64_rnd_le less_f64_fin)
  from not_above_tolerance [OF this] show "adjust_owner_notional [] owner (- n) = []"
    by (simp add: adjust_owner_notional_def hm_get_def hm_remove_def)
  have "n + - n = 0" using assms f64_rnd_fval [of 0] by (simp add: plus_f64_fin uminus_f64_fin)
  with assms have "0 + n + - n = 0" by (simp only: f64_add_0)
  then show "adjust_owner_notional (hm_insert owner (0 + n) []) owner (- n) = []"
    using not_above_tolerance [of 0] by (simp add: adjust_owner_notional_def hm_get_insert f64_le_refl)
      (simp add: hm_insert_def hm_remove_def)
qed

lemma granted_unreserved:
  assumes "try_reserve_open owner n pct l = Inr l1" "unreserved l"
  shows "if sanitize_value n \<le> LEDGER_VALUE_TOLERANCE then l1 = l
    else is_finite n \<and> 0 < n \<and> sanitize_value n = n \<and> al_lane_reserved_notional_usd l1 = hm_insert owner (0 + n) []"
proof (cases "sanitize_value n \<le> LEDGER_VALUE_TOLERANCE")
  case False
  then have above: "LEDGER_VALUE_TOLERANCE < sanitize_value n"
    using not_le_tolerance [of "sanitize_value n"] is_finite_not_nan [OF sanitize_nonneg(2)] by blast
  from try_reserve_Inr [OF above assms(1)] sanitize_above [OF above] False assms(2) show ?thesis
    by (simp add: add_reserved_def unreserved_def hm_get_def)
qed (use assms in \<open>simp add: try_reserve_open_def\<close>)

lemma returned_unreserved:
  assumes "try_reserve_open owner n pct l = Inr l1" "unreserved l" "release_reservation owner n l1 = Inr l2"
  shows "unreserved l2"
proof -
  have n: "is_finite n" "0 < n" using reserved.shrink_ok_iff [of owner n l1] assms(3) by simp_all
  from granted_unreserved [OF assms(1,2)] assms(2) have "al_lane_reserved_notional_usd l1 \<in> {[], hm_insert owner (0 + n) []}"
    by (auto simp: unreserved_def split: if_splits)
  with assms(3) taken_and_returned [OF n] show ?thesis by (auto simp: release_reservation_def unreserved_def split: if_splits)
qed

lemma filled_unreserved:
  assumes "try_reserve_open owner n pct l = Inr l1" "unreserved l"
  shows "unreserved (reconcile_open_fill owner filled n l1)"
proof (cases "sanitize_value n \<le> LEDGER_VALUE_TOLERANCE")
  case True
  then have "\<not> LEDGER_VALUE_TOLERANCE < sanitize_value n" using f64_less_le_trans f64_less_irrefl by blast
  with granted_unreserved [OF assms] True assms(2) show ?thesis by (simp add: reconcile_open_fill_def unreserved_def Let_def)
next
  case False
  then have above: "LEDGER_VALUE_TOLERANCE < sanitize_value n"
    using not_le_tolerance [of "sanitize_value n"] is_finite_not_nan [OF sanitize_nonneg(2)] by blast
  from False granted_unreserved [OF assms] have n: "is_finite n" "0 < n" "sanitize_value n = n" by simp_all
  then obtain l2 where l2: "release_reservation owner n l1 = Inr l2"
    using reserved.shrink_ok_iff [of owner n l1] by (auto simp: is_ok_iff)
  from returned_unreserved [OF assms this] l2 n above show ?thesis by (simp add: reconcile_open_fill_def unreserved_def Let_def)
qed

lemma trade_step_unreserved: "trade_step l l' \<Longrightarrow> unreserved l \<Longrightarrow> unreserved l'"
proof (induction rule: trade_step.induct)
  case (trade_close owner n l l')
  then show ?case by (auto simp: release_position_def unreserved_def split: if_splits)
qed (simp_all add: returned_unreserved filled_unreserved, simp_all add: unreserved_def replace_lane_open_notional_def)

lemma capital_step_unreserved: "capital_step l l' \<Longrightarrow> unreserved l \<Longrightarrow> unreserved l'"
  by (induction rule: capital_step.induct) (auto simp: trade_step_unreserved, simp_all add: unreserved_def set_live_balance_usd_def
    set_unattributed_open_notional_usd_def replace_exceptions_def)

lemma trade_run_unreserved: "trade_step\<^sup>*\<^sup>* l l' \<Longrightarrow> unreserved l \<Longrightarrow> unreserved l'"
  by (induction rule: rtranclp_induct) (auto intro: trade_step_unreserved)

lemma trade_run_capital: "trade_step\<^sup>*\<^sup>* l l' \<Longrightarrow> capital_step\<^sup>*\<^sup>* l l'"
  by (induction rule: rtranclp_induct) (auto intro: cap_trade rtranclp.rtrancl_into_rtrancl)

lemma new_unreserved: "unreserved (AccountLedger_new declared)"
  by (simp add: unreserved_def AccountLedger_new_def)

lemma capital_reachable_unreserved: "capital_reachable declared l \<Longrightarrow> unreserved l"
  by (induction rule: capital_reachable.induct) (auto intro: new_unreserved capital_step_unreserved)

end
