(* ===== verification/Inventory.thy ===== *)
theory Inventory
  imports Ledger
begin

section \<open>Inventory accounting (crate openticker-ledger, inventory.rs)\<close>

text \<open>
  The position lot of one lane with its average cost and its realized profit and loss, and
  the buy and sell fills that move it. The debug assertions on finite accumulators are off
  in release builds and are stated as theorems where they hold.
\<close>

record PositionLot =
  lot_quantity :: f64
  lot_average_cost_usd :: f64

record FeeEntry =
  fee_asset :: string
  fee_amount :: f64
  fee_normalized_usd :: "f64 option"

definition normalized_usd_or_zero :: "FeeEntry \<Rightarrow> f64" where
  "normalized_usd_or_zero fee = (case fee_normalized_usd fee of Some v \<Rightarrow> sanitize_value v | None \<Rightarrow> 0)"

datatype InventoryFillSide = Buy | Sell

datatype InventoryError = InvalidQuantity | InvalidPrice | InsufficientQuantity

record RealizedPnl =
  rp_gross_usd :: f64
  rp_fees_usd :: f64
  rp_net_usd :: f64

record UnrealizedPnl =
  up_market_value_usd :: f64
  up_gross_usd :: f64
  up_fees_usd :: f64
  up_net_usd :: f64
  up_stale_mark :: bool

record ValuationMark =
  mark_symbol :: string
  mark_price_usd :: "f64 option"
  mark_stale :: bool

record InventoryState =
  inv_lot :: "PositionLot option"
  inv_realized_pnl :: RealizedPnl

definition InventoryState_default :: InventoryState where
  "InventoryState_default = \<lparr>inv_lot = None, inv_realized_pnl = \<lparr>rp_gross_usd = 0, rp_fees_usd = 0, rp_net_usd = 0\<rparr>\<rparr>"

definition from_position_state :: "f64 \<Rightarrow> f64 option \<Rightarrow> f64 \<Rightarrow> InventoryState" where
  "from_position_state position_quantity entry_price realized_pnl_usd =
     (let position_quantity = sanitize_value position_quantity;
          entry_price = (case entry_price of
            Some price \<Rightarrow> if is_finite price \<and> 0 < price then Some price else None | None \<Rightarrow> None);
          realized_pnl_usd = (if is_finite realized_pnl_usd then realized_pnl_usd else 0)
      in \<lparr>inv_lot = (if LEDGER_VALUE_TOLERANCE < position_quantity
            then map_option (\<lambda>average_cost_usd. \<lparr>lot_quantity = position_quantity,
                   lot_average_cost_usd = average_cost_usd\<rparr>) entry_price
            else None),
          inv_realized_pnl = \<lparr>rp_gross_usd = realized_pnl_usd, rp_fees_usd = 0, rp_net_usd = realized_pnl_usd\<rparr>\<rparr>)"

definition inv_quantity :: "InventoryState \<Rightarrow> f64" where
  "inv_quantity self = (case inv_lot self of Some lot \<Rightarrow> lot_quantity lot | None \<Rightarrow> 0)"

definition inv_average_cost_usd :: "InventoryState \<Rightarrow> f64 option" where
  "inv_average_cost_usd self = map_option lot_average_cost_usd (inv_lot self)"

definition inv_position_notional_usd :: "InventoryState \<Rightarrow> f64 option \<Rightarrow> f64" where
  "inv_position_notional_usd self valuation_price =
     (case map_option sanitize_value valuation_price of
        None \<Rightarrow> 0
      | Some price_usd \<Rightarrow>
          if price_usd \<le> LEDGER_VALUE_TOLERANCE then 0
          else calculate_position_notional_usd (inv_quantity self) price_usd)"

definition apply_fill ::
    "InventoryFillSide \<Rightarrow> f64 \<Rightarrow> f64 \<Rightarrow> FeeEntry option \<Rightarrow> InventoryState \<Rightarrow> InventoryError + InventoryState" where
  "apply_fill side quantity price fee self =
     (let quantity = sanitize_value quantity in
      if quantity \<le> LEDGER_VALUE_TOLERANCE then Inl InvalidQuantity
      else let price_usd = sanitize_value price in
      if price_usd \<le> LEDGER_VALUE_TOLERANCE then Inl InvalidPrice
      else let fee_usd = (case fee of Some f \<Rightarrow> normalized_usd_or_zero f | None \<Rightarrow> 0) in
      case side of
        Buy \<Rightarrow>
          (let previous_quantity = inv_quantity self;
               previous_cost_usd = (case inv_lot self of
                 Some lot \<Rightarrow> lot_quantity lot * lot_average_cost_usd lot | None \<Rightarrow> 0);
               next_quantity = previous_quantity + quantity;
               next_cost_usd = previous_cost_usd + quantity * price_usd + fee_usd
           in Inr (self\<lparr>inv_lot := Some \<lparr>lot_quantity = next_quantity,
                lot_average_cost_usd = next_cost_usd / next_quantity\<rparr>\<rparr>))
      | Sell \<Rightarrow>
          (case inv_lot self of
             None \<Rightarrow> Inl InsufficientQuantity
           | Some lot \<Rightarrow>
               if lot_quantity lot + LEDGER_VALUE_TOLERANCE < quantity then Inl InsufficientQuantity
               else let gross_pnl_usd = (price_usd - lot_average_cost_usd lot) * quantity;
                        pnl = inv_realized_pnl self;
                        pnl' = \<lparr>rp_gross_usd = rp_gross_usd pnl + gross_pnl_usd,
                                rp_fees_usd = rp_fees_usd pnl + fee_usd,
                                rp_net_usd = rp_net_usd pnl + (gross_pnl_usd - fee_usd)\<rparr>;
                        remaining_quantity = f64_max (lot_quantity lot - quantity) 0
                    in Inr (self\<lparr>inv_realized_pnl := pnl',
                         inv_lot := (if remaining_quantity \<le> LEDGER_VALUE_TOLERANCE then None
                           else Some \<lparr>lot_quantity = remaining_quantity,
                             lot_average_cost_usd = lot_average_cost_usd lot\<rparr>)\<rparr>)))"

definition unrealized_pnl :: "InventoryState \<Rightarrow> ValuationMark \<Rightarrow> UnrealizedPnl option" where
  "unrealized_pnl self mark =
     (case inv_lot self of None \<Rightarrow> None
      | Some lot \<Rightarrow>
          (case map_option sanitize_value (mark_price_usd mark) of None \<Rightarrow> None
           | Some price_usd \<Rightarrow>
               if price_usd \<le> LEDGER_VALUE_TOLERANCE then None
               else let gross_usd = (price_usd - lot_average_cost_usd lot) * lot_quantity lot
                    in Some \<lparr>up_market_value_usd = lot_quantity lot * price_usd,
                         up_gross_usd = gross_usd, up_fees_usd = 0, up_net_usd = gross_usd,
                         up_stale_mark = mark_stale mark\<rparr>))"

subsection \<open>Lemmas\<close>

definition lot_wf :: "InventoryState \<Rightarrow> bool" where
  "lot_wf s \<longleftrightarrow> (\<forall>lot. inv_lot s = Some lot \<longrightarrow> LEDGER_VALUE_TOLERANCE < lot_quantity lot)"

lemma lot_wf_quantity: "lot_wf s \<Longrightarrow> 0 \<le> inv_quantity s"
  by (auto simp: lot_wf_def inv_quantity_def f64_le_refl above_tolerance_nonneg split: option.splits)

lemma le_tolerance_iff: "sanitize_value v \<le> LEDGER_VALUE_TOLERANCE \<longleftrightarrow> \<not> LEDGER_VALUE_TOLERANCE < sanitize_value v"
  using not_le_tolerance [of "sanitize_value v"] is_finite_not_nan [OF sanitize_nonneg(2), of v] by blast

lemma above_not_le [simp]: "LEDGER_VALUE_TOLERANCE < v \<Longrightarrow> \<not> v \<le> LEDGER_VALUE_TOLERANCE"
  using f64_less_le_trans f64_less_irrefl by blast

lemma apply_fill_valid:
  assumes "LEDGER_VALUE_TOLERANCE < sanitize_value q" "LEDGER_VALUE_TOLERANCE < sanitize_value p"
  shows "apply_fill Buy q p fee s = Inr (s\<lparr>inv_lot := Some \<lparr>lot_quantity = inv_quantity s + q,
      lot_average_cost_usd = ((case inv_lot s of Some lot \<Rightarrow> lot_quantity lot * lot_average_cost_usd lot | None \<Rightarrow> 0)
        + q * p + (case fee of Some f \<Rightarrow> normalized_usd_or_zero f | None \<Rightarrow> 0)) / (inv_quantity s + q)\<rparr>\<rparr>)"
  using assms sanitize_above [OF assms(1)] sanitize_above [OF assms(2)]
  by (simp add: apply_fill_def Let_def le_tolerance_iff)

lemma buy_lot_wf:
  assumes "lot_wf s" "apply_fill Buy q p fee s = Inr s'" shows "lot_wf s'"
proof -
  have v: "LEDGER_VALUE_TOLERANCE < sanitize_value q" "LEDGER_VALUE_TOLERANCE < sanitize_value p"
    using assms(2) by (auto simp: apply_fill_def Let_def le_tolerance_iff split: if_splits)
  then have q: "LEDGER_VALUE_TOLERANCE < q" using sanitize_above by force
  have "q \<le> q + inv_quantity s"
    using lot_wf_quantity [OF assms(1)] above_tolerance_nonneg [OF q] by (simp add: nonneg_add_ge)
  then have "LEDGER_VALUE_TOLERANCE < inv_quantity s + q"
    using q by (simp add: f64_add_commute f64_less_le_trans)
  then show ?thesis using apply_fill_valid [OF v, of fee s] assms(2) by (auto simp: lot_wf_def)
qed

lemma sell_lot_wf:
  assumes "lot_wf s" "apply_fill Sell q p fee s = Inr s'" shows "lot_wf s'"
  using assms(2) not_le_tolerance
  by (auto simp: apply_fill_def lot_wf_def Let_def split: if_splits option.splits)

text \<open>
  every accepted fill keeps the inventory invariant (a lot is only ever kept with a
  quantity above the tolerance), so the held quantity is never negative.
\<close>

theorem apply_fill_keeps_lot:
  assumes "lot_wf s" "apply_fill side q p fee s = Inr s'"
  shows "lot_wf s' \<and> 0 \<le> inv_quantity s'"
  using assms buy_lot_wf sell_lot_wf lot_wf_quantity by (cases side) blast+

text \<open>
  A fill is refused exactly for a quantity or a price that is not finite and above the
  tolerance, or for a sell without a lot or of more than the lot and the tolerance; the
  quantity is checked first, the price second.
\<close>

theorem apply_fill_error_iff:
  "apply_fill side q p fee s = Inl e \<longleftrightarrow>
     (if \<not> LEDGER_VALUE_TOLERANCE < sanitize_value q then e = InvalidQuantity
      else if \<not> LEDGER_VALUE_TOLERANCE < sanitize_value p then e = InvalidPrice
      else side = Sell \<and> e = InsufficientQuantity
        \<and> (case inv_lot s of None \<Rightarrow> True | Some lot \<Rightarrow> lot_quantity lot + LEDGER_VALUE_TOLERANCE < q))"
proof (cases "LEDGER_VALUE_TOLERANCE < sanitize_value q")
  case q: True
  then have "sanitize_value q = q" by (rule sanitize_above [THEN conjunct1])
  with q show ?thesis
    by (cases side) (auto simp: apply_fill_def Let_def le_tolerance_iff split: option.splits)
next
  case False
  then show ?thesis by (auto simp: apply_fill_def Let_def le_tolerance_iff)
qed

text \<open>
  C26: an accepted sell keeps the average cost of what remains, drops the lot when at most
  the tolerance remains, removes exactly the sold quantity otherwise, and books the gross
  profit and the fee: net grows by gross minus fee.
\<close>

theorem sell_accounting:
  assumes "apply_fill Sell q p fee s = Inr s'"
  shows "\<exists>lot. inv_lot s = Some lot \<and> \<not> lot_quantity lot + LEDGER_VALUE_TOLERANCE < q
    \<and> (let gross = (p - lot_average_cost_usd lot) * q;
           fee_usd = (case fee of Some f \<Rightarrow> normalized_usd_or_zero f | None \<Rightarrow> 0);
           rest = f64_max (lot_quantity lot - q) 0
       in rp_gross_usd (inv_realized_pnl s') = rp_gross_usd (inv_realized_pnl s) + gross
        \<and> rp_fees_usd (inv_realized_pnl s') = rp_fees_usd (inv_realized_pnl s) + fee_usd
        \<and> rp_net_usd (inv_realized_pnl s') = rp_net_usd (inv_realized_pnl s) + (gross - fee_usd)
        \<and> inv_lot s' = (if rest \<le> LEDGER_VALUE_TOLERANCE then None
             else Some \<lparr>lot_quantity = rest, lot_average_cost_usd = lot_average_cost_usd lot\<rparr>))"
proof -
  have v: "LEDGER_VALUE_TOLERANCE < sanitize_value q" "LEDGER_VALUE_TOLERANCE < sanitize_value p"
    using assms by (auto simp: apply_fill_def Let_def le_tolerance_iff split: if_splits)
  note sq = sanitize_above [OF v(1), THEN conjunct1] and sp = sanitize_above [OF v(2), THEN conjunct1]
  have a: "\<not> q \<le> LEDGER_VALUE_TOLERANCE" "\<not> p \<le> LEDGER_VALUE_TOLERANCE"
    using v sq sp by auto
  obtain lot where lot: "inv_lot s = Some lot"
    using assms a by (auto simp: apply_fill_def Let_def sq sp split: option.splits)
  show ?thesis
    using assms a by (simp add: apply_fill_def Let_def sq sp lot split: if_splits)
      (auto simp: lot)
qed

text \<open>
  Buying and then selling the whole resulting lot closes the position: the sell is
  accepted and no lot remains.
\<close>

theorem buy_then_sell_all_closes:
  assumes "lot_wf s" "apply_fill Buy q p fee s = Inr s1" "is_finite (inv_quantity s1)"
    and "LEDGER_VALUE_TOLERANCE < sanitize_value p'"
  shows "\<exists>s2. apply_fill Sell (inv_quantity s1) p' fee' s1 = Inr s2 \<and> inv_lot s2 = None"
proof -
  have wf: "lot_wf s1" using assms(1,2) by (rule buy_lot_wf)
  obtain lot where lot: "inv_lot s1 = Some lot"
    using assms(2) by (auto simp: apply_fill_def Let_def split: if_splits)
  then have above: "LEDGER_VALUE_TOLERANCE < inv_quantity s1" and fin: "is_finite (lot_quantity lot)"
    using wf assms(3) by (simp_all add: lot_wf_def inv_quantity_def)
  have s: "sanitize_value (inv_quantity s1) = lot_quantity lot"
    using lot above assms(3) f64_le_less_trans [OF f64_less_le [OF tolerance_pos] above]
    by (simp add: sanitize_value_def inv_quantity_def)
  have "lot_quantity lot \<le> lot_quantity lot + LEDGER_VALUE_TOLERANCE"
    using fin by (simp add: pos_add_ge f64_less_le)
  then have "\<not> lot_quantity lot + LEDGER_VALUE_TOLERANCE < lot_quantity lot"
    using f64_le_less_trans f64_less_irrefl by blast
  moreover have "f64_max (lot_quantity lot - lot_quantity lot) 0 \<le> LEDGER_VALUE_TOLERANCE"
    using fin by (simp add: f64_diff_self f64_max_def f64_less_le)
  ultimately show ?thesis
    using lot s above assms(4) by (simp add: apply_fill_def Let_def le_tolerance_iff inv_quantity_def)
qed

subsection \<open>Concrete instances\<close>

definition demo_bought :: InventoryState where
  "demo_bought = InventoryState_default\<lparr>inv_lot := Some \<lparr>lot_quantity = f64_rnd 2, lot_average_cost_usd = f64_rnd 10\<rparr>\<rparr>"

lemma demo_buy: "apply_fill Buy (f64_rnd 2) (f64_rnd 10) None InventoryState_default = Inr demo_bought"
  by code_simp

lemma demo_default_wf: "lot_wf InventoryState_default"
  by (simp add: lot_wf_def InventoryState_default_def)

theorem apply_fill_keeps_lot_witness:
  "apply_fill Buy (f64_rnd 2) (f64_rnd 10) None InventoryState_default = Inr demo_bought \<and> lot_wf demo_bought"
  using apply_fill_keeps_lot [OF demo_default_wf demo_buy] demo_buy by simp

theorem sell_accounting_witness:
  "\<exists>s'. apply_fill Sell (f64_rnd 1) (f64_rnd 12) None demo_bought = Inr s'
     \<and> inv_lot s' = Some \<lparr>lot_quantity = f64_rnd 1, lot_average_cost_usd = f64_rnd 10\<rparr>"
proof -
  define s' where "s' = demo_bought\<lparr>inv_lot := Some \<lparr>lot_quantity = f64_rnd 1, lot_average_cost_usd = f64_rnd 10\<rparr>,
    inv_realized_pnl := \<lparr>rp_gross_usd = f64_rnd 2, rp_fees_usd = 0, rp_net_usd = f64_rnd 2\<rparr>\<rparr>"
  have h: "apply_fill Sell (f64_rnd 1) (f64_rnd 12) None demo_bought = Inr s'"
    unfolding s'_def by code_simp
  show ?thesis using h sell_accounting [OF h] by (auto simp: s'_def)
qed

theorem buy_then_sell_all_closes_witness:
  "\<exists>s2. apply_fill Sell (inv_quantity demo_bought) (f64_rnd 12) None demo_bought = Inr s2 \<and> inv_lot s2 = None"
proof (rule buy_then_sell_all_closes [OF demo_default_wf demo_buy])
  show "is_finite (inv_quantity demo_bought)" by code_simp
  show "LEDGER_VALUE_TOLERANCE < sanitize_value (f64_rnd 12)" by code_simp
qed

end
