(* ===== verification/Execution.thy ===== *)
theory Execution
  imports Risk
begin

section \<open>Order sizing and paper routing (crate openticker-execution)\<close>

text \<open>
  \<open>sizing.rs\<close> turns an intent and the remaining budgets into an order quantity under
  market and venue constraints; \<open>intent.rs\<close> and \<open>router.rs\<close> map intents to
  order sides and accept paper orders. \<open>ExecutionConstraintsConfig\<close> comes from the
  configuration crate.
\<close>

subsection \<open>Types\<close>

record ExecutionConstraintsConfig =
  quantity_step :: "f64 option"
  min_quantity :: "f64 option"
  min_notional_usd :: "f64 option"

definition ExecutionConstraintsConfig_default :: ExecutionConstraintsConfig where
  "ExecutionConstraintsConfig_default = \<lparr>quantity_step = None, min_quantity = None, min_notional_usd = None\<rparr>"

datatype OrderSide = BuySide | SellSide

datatype OrderType = Market

record ExecutionRequest =
  er_instance_id :: string
  er_symbol :: string
  er_timestamp :: timestamp
  er_intent :: TradeIntent
  er_price :: f64
  er_quantity :: f64

record AcceptedOrder =
  ao_client_order_id :: string
  ao_side :: OrderSide
  ao_order_type :: OrderType
  ao_price :: f64
  ao_quantity :: f64
  ao_fee_asset :: "string option"
  ao_fee_amount :: "f64 option"
  ao_fee_normalized_usd :: "f64 option"

datatype OrderLedgerOutcome = BotExhausted | AccountExhausted | Dust

record OrderQuantityResolution =
  oq_quantity :: f64
  oq_adjustment_reason :: "string option"
  oq_ledger_outcome :: "OrderLedgerOutcome option"

datatype ExecutionError = NonExecutableIntent | ExecInvalidQuantity | ExecInvalidPrice

subsection \<open>Intents and the paper router\<close>

fun trade_intent_label :: "TradeIntent \<Rightarrow> string" where
  "trade_intent_label NoOp = ''no_op''"
| "trade_intent_label OpenLong = ''open_long''"
| "trade_intent_label AddLong = ''add_long''"
| "trade_intent_label ReduceLong = ''reduce_long''"
| "trade_intent_label CloseLong = ''close_long''"

definition stable_client_order_id :: "string \<Rightarrow> string \<Rightarrow> timestamp \<Rightarrow> TradeIntent \<Rightarrow> string" where
  "stable_client_order_id instance_id symbol timestamp intent =
     instance_id @ ''-'' @ symbol @ ''-'' @ show_int (timestamp_millis timestamp) @ ''-'' @ trade_intent_label intent"

fun order_side_for_intent :: "TradeIntent \<Rightarrow> ExecutionError + OrderSide" where
  "order_side_for_intent OpenLong = Inr BuySide"
| "order_side_for_intent AddLong = Inr BuySide"
| "order_side_for_intent ReduceLong = Inr SellSide"
| "order_side_for_intent CloseLong = Inr SellSide"
| "order_side_for_intent NoOp = Inl NonExecutableIntent"

definition paper_submit :: "ExecutionRequest \<Rightarrow> ExecutionError + AcceptedOrder" where
  "paper_submit request =
     (if er_quantity request \<le> 0 then Inl ExecInvalidQuantity
      else if er_price request \<le> 0 then Inl ExecInvalidPrice
      else case order_side_for_intent (er_intent request) of
        Inl e \<Rightarrow> Inl e
      | Inr side \<Rightarrow> Inr \<lparr>ao_client_order_id = stable_client_order_id (er_instance_id request) (er_symbol request)
            (er_timestamp request) (er_intent request),
          ao_side = side, ao_order_type = Market, ao_price = er_price request, ao_quantity = er_quantity request,
          ao_fee_asset = None, ao_fee_amount = None, ao_fee_normalized_usd = None\<rparr>)"

subsection \<open>Sizing\<close>

definition QUANTITY_TOLERANCE :: f64 where
  "QUANTITY_TOLERANCE = f64_rnd (1 / 1000000000)"

definition is_exit_intent :: "TradeIntent \<Rightarrow> bool" where
  "is_exit_intent i \<longleftrightarrow> i = CloseLong \<or> i = ReduceLong"

definition floor_to_step :: "f64 \<Rightarrow> f64 \<Rightarrow> f64" where
  "floor_to_step value step =
     (if \<not> is_finite value \<or> \<not> is_finite step \<or> step \<le> 0 then 0
      else let step_units = f64_floor (value / step + QUANTITY_TOLERANCE) in
        if \<not> is_finite step_units \<or> step_units \<le> 0 then 0
        else let floored = step_units * step in
          if \<not> is_finite floored then 0 else f64_min floored value)"

definition sizing_notional_usd :: "f64 \<Rightarrow> f64 \<Rightarrow> f64" where
  "sizing_notional_usd quantity price_usd =
     (if quantity \<le> QUANTITY_TOLERANCE \<or> \<not> is_finite quantity \<or> \<not> is_finite price_usd then 0
      else quantity * price_usd)"

definition apply_market_order_quantity_policy :: "MarketType \<Rightarrow> TradeIntent \<Rightarrow> f64 \<Rightarrow> bool \<Rightarrow> f64" where
  "apply_market_order_quantity_policy market intent quantity fractional_equity_entry_supported =
     (if \<not> is_finite quantity \<or> quantity \<le> QUANTITY_TOLERANCE then 0
      else let normalized = (case market of
             Crypto \<Rightarrow> quantity
           | Equities \<Rightarrow>
               if is_open_intent intent
               then (if fractional_equity_entry_supported then quantity else f64_floor quantity)
               else if is_exit_intent intent
               then (if 1 \<le> quantity then f64_floor quantity else quantity)
               else 0)
           in if normalized \<le> QUANTITY_TOLERANCE then 0 else normalized)"

definition step_reasons :: "f64 \<Rightarrow> ExecutionConstraintsConfig \<Rightarrow> f64 \<times> string list" where
  "step_reasons quantity constraints =
     (case quantity_step constraints of
        None \<Rightarrow> (quantity, [])
      | Some step \<Rightarrow>
          (let stepped = floor_to_step quantity step in
           (stepped, if QUANTITY_TOLERANCE < \<bar>stepped - quantity\<bar>
              then [''step_floor(step='' @ show_f64 step @ '',from='' @ show_f64 quantity @ '',to='' @ show_f64 stepped @ '')'']
              else [])))"

definition apply_execution_constraints ::
    "TradeIntent \<Rightarrow> f64 \<Rightarrow> f64 \<Rightarrow> ExecutionConstraintsConfig \<Rightarrow> f64 \<times> string option" where
  "apply_execution_constraints intent price quantity constraints =
     (if quantity \<le> QUANTITY_TOLERANCE then (0, None)
      else let (adjusted, reasons) = step_reasons quantity constraints in
      if adjusted \<le> QUANTITY_TOLERANCE then
        (if is_exit_intent intent
         then (0, Some (join '','' (reasons @ [''residual_close_untradable'', ''quantity_zeroed_by_constraints''])))
         else (0, Some (join '','' (reasons @ [''quantity_zeroed_by_constraints'']))))
      else let min_quantity_violated = (case min_quantity constraints of Some m \<Rightarrow> adjusted < m | None \<Rightarrow> False);
               notional = sizing_notional_usd adjusted price;
               min_notional_violated = (case min_notional_usd constraints of Some m \<Rightarrow> notional < m | None \<Rightarrow> False)
      in if \<not> min_quantity_violated \<and> \<not> min_notional_violated then
           (if reasons = [] then (adjusted, None) else (adjusted, Some (join '','' reasons)))
         else if is_exit_intent intent \<and> min_quantity_violated then
           (0, Some (join '','' (reasons @ [''below_min_quantity'', ''residual_close_untradable'', ''quantity_zeroed_by_constraints''])))
         else if is_exit_intent intent \<and> min_notional_violated then
           (adjusted, Some (join '','' (reasons @ [''below_min_notional_usd'', ''close_min_notional_bypass''])))
         else
           (0, Some (join '','' (reasons @ (if min_quantity_violated then [''below_min_quantity''] else [])
              @ (if min_notional_violated then [''below_min_notional_usd''] else [])
              @ [''quantity_zeroed_by_constraints'']))))"

text \<open>
  The raw quantity of an intent: \<open>Inl\<close> is an early return with its reason and ledger
  outcome, \<open>Inr\<close> the quantity that goes on to the market policy.
\<close>

definition raw_order_quantity ::
    "TradeIntent \<Rightarrow> f64 \<Rightarrow> f64 \<Rightarrow> f64 \<Rightarrow> f64 \<Rightarrow> RiskLimits \<Rightarrow> f64
     \<Rightarrow> (string \<times> OrderLedgerOutcome option) + f64" where
  "raw_order_quantity intent price current_position_quantity remaining_bot_budget_usd
       remaining_account_budget_usd limits target_order_notional_usd =
     (if intent = NoOp then Inr 0
      else if is_exit_intent intent then
        (if \<not> is_finite current_position_quantity \<or> current_position_quantity < 0
         then Inl (''negative_position_quantity'', None)
         else Inr current_position_quantity)
      else let capped = f64_min target_order_notional_usd (max_order_notional_usd limits) in
        if \<not> is_finite capped \<or> capped \<le> 0 then Inl (''invalid_target_notional'', None)
        else let desired = f64_min (f64_min capped (f64_max remaining_bot_budget_usd 0))
                   (f64_max remaining_account_budget_usd 0) in
          if \<not> is_finite desired \<or> desired \<le> 0
          then Inl (''no_remaining_notional_room'',
            if remaining_bot_budget_usd \<le> f64_epsilon then Some BotExhausted
            else if remaining_account_budget_usd \<le> f64_epsilon then Some AccountExhausted else None)
          else Inr (desired / price))"

definition resolve_order_quantity_with_constraints ::
    "TradeIntent \<Rightarrow> MarketType \<Rightarrow> f64 \<Rightarrow> f64 \<Rightarrow> f64 \<Rightarrow> f64 \<Rightarrow> RiskLimits \<Rightarrow> f64
     \<Rightarrow> ExecutionConstraintsConfig \<Rightarrow> bool \<Rightarrow> OrderQuantityResolution" where
  "resolve_order_quantity_with_constraints intent market price current_position_quantity
       remaining_bot_budget_usd remaining_account_budget_usd limits target_order_notional_usd
       execution_constraints fractional_equity_entry_supported =
     (if \<not> is_finite price \<or> price \<le> 0
      then \<lparr>oq_quantity = 0, oq_adjustment_reason = Some ''invalid_price'', oq_ledger_outcome = None\<rparr>
      else case raw_order_quantity intent price current_position_quantity remaining_bot_budget_usd
             remaining_account_budget_usd limits target_order_notional_usd of
        Inl (reason, outcome) \<Rightarrow>
          \<lparr>oq_quantity = 0, oq_adjustment_reason = Some reason, oq_ledger_outcome = outcome\<rparr>
      | Inr raw_quantity \<Rightarrow>
          (let market_adjusted = apply_market_order_quantity_policy market intent raw_quantity
                 fractional_equity_entry_supported;
               (constrained, constraint_reason) = apply_execution_constraints intent price market_adjusted
                 execution_constraints;
               reasons = (if QUANTITY_TOLERANCE < \<bar>market_adjusted - raw_quantity\<bar>
                   then [''market_policy_adjustment(from='' @ show_f64 raw_quantity @ '',to='' @ show_f64 market_adjusted @ '')'']
                   else []) @ (case constraint_reason of Some r \<Rightarrow> [r] | None \<Rightarrow> [])
           in \<lparr>oq_quantity = constrained,
               oq_adjustment_reason = (if reasons = [] then None else Some (join '','' reasons)),
               oq_ledger_outcome = (if is_open_intent intent \<and> constrained \<le> QUANTITY_TOLERANCE
                   \<and> QUANTITY_TOLERANCE < raw_quantity then Some Dust else None)\<rparr>))"

subsection \<open>Bounds of each stage\<close>

lemma qtol_finite [simp]: "is_finite QUANTITY_TOLERANCE"
  by code_simp

lemma qtol_pos [simp]: "0 < QUANTITY_TOLERANCE"
  by code_simp

lemma above_qtol: "\<not> is_nan q \<Longrightarrow> \<not> q \<le> QUANTITY_TOLERANCE \<Longrightarrow> QUANTITY_TOLERANCE < q \<and> 0 \<le> q"
  using f64_not_le [of q QUANTITY_TOLERANCE] f64_le_less_trans [OF f64_less_le [OF qtol_pos], of q]
  by (auto simp: is_finite_not_nan f64_less_le)

lemma f64_min_nonneg: "0 \<le> x \<Longrightarrow> 0 \<le> y \<Longrightarrow> 0 \<le> f64_min x y"
  by (auto simp: f64_min_def)

lemma floor_to_step_bounds:
  assumes "is_finite v" "0 \<le> v"
  shows "is_finite (floor_to_step v s) \<and> 0 \<le> floor_to_step v s \<and> floor_to_step v s \<le> v"
proof -
  let ?u = "f64_floor (v / s + QUANTITY_TOLERANCE)"
  show ?thesis
  proof (cases "is_finite s \<and> \<not> s \<le> 0 \<and> is_finite ?u \<and> \<not> ?u \<le> 0 \<and> is_finite (?u * s)")
    case True
    then have nn: "0 \<le> ?u" "0 \<le> s"
      using f64_not_le [of ?u 0] f64_not_le [of s 0] by (auto simp: is_finite_not_nan f64_less_le)
    then have "0 \<le> ?u * s" using True by (intro f64_mult_nonneg) simp_all
    moreover have "f64_min (?u * s) v \<le> v"
      using f64_min_le [of "?u * s" v] True assms by (simp add: is_finite_not_nan)
    ultimately show ?thesis using True assms
      by (simp add: floor_to_step_def Let_def f64_min_nonneg is_finite_min)
  next
    case False
    then have "floor_to_step v s = 0" using assms by (auto simp: floor_to_step_def Let_def)
    then show ?thesis using assms by (simp add: f64_le_refl)
  qed
qed

lemma market_policy_bounds:
  fixes market intent frac_ok
  assumes "\<not> is_nan q" "0 \<le> q"
  defines "r \<equiv> apply_market_order_quantity_policy market intent q frac_ok"
  shows "is_finite r \<and> 0 \<le> r \<and> r \<le> q \<and> (r = 0 \<or> QUANTITY_TOLERANCE < r)"
proof (cases "is_finite q \<and> \<not> q \<le> QUANTITY_TOLERANCE")
  case True
  then have q: "is_finite q" "QUANTITY_TOLERANCE < q" using above_qtol [of q] by (auto simp: is_finite_not_nan)
  define n where "n = (case market of Crypto \<Rightarrow> q | Equities \<Rightarrow>
      if is_open_intent intent then (if frac_ok then q else f64_floor q)
      else if is_exit_intent intent then (if 1 \<le> q then f64_floor q else q) else 0)"
  have n: "is_finite n" "0 \<le> n" "n \<le> q"
    using q assms fval_floor [of q] f64_floor_le [of q] f64_floor_nonneg [of q]
    by (auto simp: n_def f64_le_refl is_finite_not_nan split: MarketType.splits)
  have "r = (if n \<le> QUANTITY_TOLERANCE then 0 else n)"
    using True by (simp add: r_def apply_market_order_quantity_policy_def n_def Let_def)
  then show ?thesis using n assms(2) above_qtol [of n] by (auto simp: f64_le_refl is_finite_not_nan)
next
  case False
  then have "r = 0" by (auto simp: r_def apply_market_order_quantity_policy_def)
  then show ?thesis using assms by (simp add: f64_le_refl)
qed

lemma step_reasons_bounds:
  assumes "is_finite q" "0 \<le> q" "step_reasons q c = (a, rs)"
  shows "is_finite a \<and> 0 \<le> a \<and> a \<le> q"
  using assms floor_to_step_bounds [OF assms(1,2)]
  by (auto simp: step_reasons_def Let_def f64_le_refl is_finite_not_nan split: option.splits)

text \<open>The outcome of the venue constraints: zero, or a stepped quantity that meets the minima.\<close>

definition meets_minima :: "TradeIntent \<Rightarrow> f64 \<Rightarrow> ExecutionConstraintsConfig \<Rightarrow> f64 \<Rightarrow> bool" where
  "meets_minima intent price c q \<longleftrightarrow> QUANTITY_TOLERANCE < q
     \<and> (\<forall>m. min_quantity c = Some m \<longrightarrow> \<not> q < m)
     \<and> (\<forall>m. is_open_intent intent \<longrightarrow> min_notional_usd c = Some m \<longrightarrow> \<not> sizing_notional_usd q price < m)"

lemma open_not_exit: "is_open_intent i \<Longrightarrow> \<not> is_exit_intent i"
  by (auto simp: is_open_intent_def is_exit_intent_def)

lemma constraints_outcome:
  assumes "is_finite q" "0 \<le> q"
  shows "fst (apply_execution_constraints intent price q c) = 0
    \<or> (fst (apply_execution_constraints intent price q c) = fst (step_reasons q c)
       \<and> meets_minima intent price c (fst (step_reasons q c)))"
proof (cases "step_reasons q c")
  case (Pair a rs)
  have "is_finite a" using step_reasons_bounds [OF assms Pair] by simp
  then have "\<not> a \<le> QUANTITY_TOLERANCE \<Longrightarrow> QUANTITY_TOLERANCE < a" using above_qtol by (simp add: is_finite_not_nan)
  then show ?thesis
    by (auto simp: apply_execution_constraints_def Pair Let_def meets_minima_def open_not_exit split: option.splits)
qed

lemma constraints_bounds:
  assumes "is_finite q" "0 \<le> q"
  shows "is_finite (fst (apply_execution_constraints intent price q c))
    \<and> 0 \<le> fst (apply_execution_constraints intent price q c)
    \<and> fst (apply_execution_constraints intent price q c) \<le> q"
  using constraints_outcome [OF assms, of intent price c] step_reasons_bounds [OF assms] assms(2)
  by (metis f64_kind(5) f64_le_refl is_nan_0 prod.collapse)

lemma raw_quantity_exit:
  "is_exit_intent i \<Longrightarrow> raw_order_quantity i price pos bb ab limits target = Inr raw
    \<Longrightarrow> raw = pos \<and> is_finite pos \<and> 0 \<le> pos"
  using f64_not_less [of pos 0]
  by (auto simp: raw_order_quantity_def is_exit_intent_def is_finite_not_nan split: if_splits)

lemma desired_notional_le:
  fixes target mx bb ab :: f64
  assumes "\<not> is_nan target" "\<not> is_nan mx"
  defines "d \<equiv> f64_min (f64_min (f64_min target mx) (f64_max bb 0)) (f64_max ab 0)"
  assumes "\<not> d \<le> 0"
  shows "d \<le> target" "d \<le> mx" "d \<le> bb" "d \<le> ab"
proof -
  let ?b = "f64_max bb 0" and ?a = "f64_max ab 0"
  have c: "f64_min target mx \<le> target" "f64_min target mx \<le> mx" using f64_min_le [OF assms(1,2)] by auto
  have 1: "f64_min (f64_min target mx) ?b \<le> f64_min target mx" "f64_min (f64_min target mx) ?b \<le> ?b"
    using f64_min_le [of "f64_min target mx" ?b] assms by auto
  have 2: "d \<le> f64_min (f64_min target mx) ?b" "d \<le> ?a"
    unfolding d_def using f64_min_le [of "f64_min (f64_min target mx) ?b" ?a] assms by auto
  show "d \<le> target" "d \<le> mx" using 1 2 c by (blast intro: f64_le_trans)+
  have "d \<le> ?b" using 1 2 by (blast intro: f64_le_trans)
  have pos: "x \<noteq> 0 \<Longrightarrow> f64_max y 0 = x \<Longrightarrow> x = y" for x y by (auto simp: f64_max_def split: if_splits)
  show "d \<le> bb" using \<open>d \<le> ?b\<close> assms(4) pos [of ?b bb] by metis
  show "d \<le> ab" using 2(2) assms(4) pos [of ?a ab] by metis
qed

lemma raw_quantity_open:
  assumes "is_open_intent i" "is_finite price" "0 < price"
    and "raw_order_quantity i price pos bb ab limits target = Inr raw"
    and "\<not> is_nan target" "\<not> is_nan (max_order_notional_usd limits)"
  shows "\<not> is_nan raw \<and> 0 \<le> raw
    \<and> (\<forall>b \<in> {target, max_order_notional_usd limits, bb, ab}. raw \<le> b / price)"
proof -
  let ?d = "f64_min (f64_min (f64_min target (max_order_notional_usd limits)) (f64_max bb 0)) (f64_max ab 0)"
  have d: "is_finite ?d" "\<not> ?d \<le> 0" "raw = ?d / price"
    using assms(1,4) by (auto simp: raw_order_quantity_def Let_def is_open_intent_def is_exit_intent_def split: if_splits)
  have "0 \<le> ?d" using d f64_not_le [of ?d 0] by (simp add: is_finite_not_nan f64_less_le)
  then have "0 \<le> raw" using d assms(2,3) by (simp add: f64_div_nonneg)
  moreover have "raw \<le> b / price" if "?d \<le> b" for b
    unfolding d(3) using assms(2,3) that by (rule f64_div_right_mono)
  ultimately show ?thesis
    using desired_notional_le [OF assms(5,6) d(2)] f64_le_not_nan [of 0 raw] by blast
qed

lemma raw_quantity_nonneg:
  assumes "is_finite price" "0 < price" "raw_order_quantity i price pos bb ab limits target = Inr raw"
  shows "\<not> is_nan raw \<and> 0 \<le> raw"
proof -
  consider "i = NoOp" | "is_exit_intent i" | "is_open_intent i"
    by (cases i) (auto simp: is_exit_intent_def is_open_intent_def)
  then have "0 \<le> raw"
  proof cases
    case 1
    then show ?thesis using assms(3) by (simp add: raw_order_quantity_def f64_le_refl)
  next
    case 2
    then show ?thesis using raw_quantity_exit [OF _ assms(3)] by simp
  next
    case 3
    then obtain d where "is_finite d" "\<not> d \<le> 0" "raw = d / price"
      using assms(3) by (auto simp: raw_order_quantity_def Let_def is_open_intent_def is_exit_intent_def split: if_splits)
    then show ?thesis
      using assms(1,2) f64_not_le [of d 0] by (simp add: f64_div_nonneg is_finite_not_nan f64_less_le)
  qed
  then show ?thesis using f64_le_not_nan by blast
qed

abbreviation sized :: "TradeIntent \<Rightarrow> MarketType \<Rightarrow> f64 \<Rightarrow> f64 \<Rightarrow> f64 \<Rightarrow> f64 \<Rightarrow> RiskLimits \<Rightarrow> f64
     \<Rightarrow> ExecutionConstraintsConfig \<Rightarrow> bool \<Rightarrow> f64" where
  "sized i mkt price pos bb ab limits target c frac_ok \<equiv>
     oq_quantity (resolve_order_quantity_with_constraints i mkt price pos bb ab limits target c frac_ok)"

lemma sized_eq:
  "sized i mkt price pos bb ab limits target c frac_ok =
     (if is_finite price \<and> 0 < price then
        (case raw_order_quantity i price pos bb ab limits target of Inl _ \<Rightarrow> 0
         | Inr raw \<Rightarrow> fst (apply_execution_constraints i price (apply_market_order_quantity_policy mkt i raw frac_ok) c))
      else 0)"
proof -
  have "(\<not> is_finite price \<or> price \<le> 0) \<longleftrightarrow> \<not> (is_finite price \<and> 0 < price)"
    using f64_not_le [of price 0] by (auto simp: is_finite_not_nan)
  then show ?thesis
    by (simp add: resolve_order_quantity_with_constraints_def Let_def case_prod_beta split: sum.split)
qed

lemma sized_cases:
  obtains (zero) "sized i mkt price pos bb ab limits target c frac_ok = 0"
  | (constrained) raw where "is_finite price" "0 < price" "raw_order_quantity i price pos bb ab limits target = Inr raw"
      "sized i mkt price pos bb ab limits target c frac_ok =
         fst (apply_execution_constraints i price (apply_market_order_quantity_policy mkt i raw frac_ok) c)"
proof (cases "is_finite price \<and> 0 < price")
  case price: True
  show thesis
  proof (cases "raw_order_quantity i price pos bb ab limits target")
    case (Inl e)
    then show thesis using zero sized_eq [of i mkt price pos bb ab limits target c frac_ok] price by simp
  next
    case (Inr raw)
    then show thesis
      using constrained [of raw] sized_eq [of i mkt price pos bb ab limits target c frac_ok] price by simp
  qed
next
  case False
  then show thesis using zero sized_eq [of i mkt price pos bb ab limits target c frac_ok] by auto
qed

lemma sized_le_raw:
  fixes mkt frac_ok c
  assumes "is_finite price" "0 < price" "raw_order_quantity i price pos bb ab limits target = Inr raw"
  defines "q \<equiv> fst (apply_execution_constraints i price (apply_market_order_quantity_policy mkt i raw frac_ok) c)"
  shows "is_finite q" "0 \<le> q" "q \<le> raw"
proof -
  let ?m = "apply_market_order_quantity_policy mkt i raw frac_ok"
  have m: "is_finite ?m" "0 \<le> ?m" "?m \<le> raw"
    using market_policy_bounds raw_quantity_nonneg [OF assms(1-3)] by blast+
  have "is_finite q \<and> 0 \<le> q \<and> q \<le> ?m" unfolding q_def using m(1,2) by (rule constraints_bounds)
  then show "is_finite q" "0 \<le> q" "q \<le> raw" using m(3) by (blast intro: f64_le_trans)+
qed

text \<open>
  C28: for every input the resolved order quantity is finite and not negative; an exit never
  sells more than the held position; an entry never buys more than any of its four budgets
  (target, per-order limit, bot room, account room) pays for at the order's price.
\<close>

theorem order_quantity_bounded:
  fixes i mkt price pos bb ab c frac_ok
  assumes "\<not> is_nan target" "\<not> is_nan (max_order_notional_usd limits)"
  defines "q \<equiv> oq_quantity (resolve_order_quantity_with_constraints i mkt price pos bb ab limits target c frac_ok)"
  shows "is_finite q \<and> 0 \<le> q
    \<and> (is_exit_intent i \<and> 0 \<le> pos \<longrightarrow> q \<le> pos)
    \<and> (is_open_intent i \<and> q \<noteq> 0 \<longrightarrow>
        (\<forall>b \<in> {target, max_order_notional_usd limits, bb, ab}. q \<le> b / price))"
proof (cases rule: sized_cases [of i mkt price pos bb ab limits target c frac_ok])
  case zero
  then show ?thesis by (simp add: q_def f64_le_refl)
next
  case (constrained raw)
  note b = sized_le_raw [OF constrained(1-3), of mkt frac_ok c]
  have q: "q = fst (apply_execution_constraints i price (apply_market_order_quantity_policy mkt i raw frac_ok) c)"
    using constrained(4) by (simp add: q_def)
  have "is_exit_intent i \<Longrightarrow> q \<le> pos" using raw_quantity_exit [OF _ constrained(3)] b(3) q by simp
  moreover have "is_open_intent i \<Longrightarrow> b' \<in> {target, max_order_notional_usd limits, bb, ab} \<Longrightarrow> q \<le> b' / price" for b'
    using raw_quantity_open [OF _ constrained(1-3) assms(1,2)] b(3) q f64_le_trans by blast
  ultimately show ?thesis using b(1,2) q by blast
qed

text \<open>
  A non-zero resolved quantity is above the tolerance and meets the venue's minimum
  quantity; for an entry its notional also meets the venue's minimum notional (exits may
  bypass only that one).
\<close>

theorem order_quantity_meets_minima:
  assumes "oq_quantity (resolve_order_quantity_with_constraints i mkt price pos bb ab limits target c frac_ok) \<noteq> 0"
  shows "meets_minima i price c
    (oq_quantity (resolve_order_quantity_with_constraints i mkt price pos bb ab limits target c frac_ok))"
proof (cases rule: sized_cases [of i mkt price pos bb ab limits target c frac_ok])
  case zero
  then show ?thesis using assms by simp
next
  case (constrained raw)
  have "is_finite (apply_market_order_quantity_policy mkt i raw frac_ok)"
    "0 \<le> apply_market_order_quantity_policy mkt i raw frac_ok"
    using market_policy_bounds raw_quantity_nonneg [OF constrained(1-3)] by blast+
  from constraints_outcome [OF this, of i price c] assms constrained(4) show ?thesis by auto
qed

text \<open>
  An equity entry without fractional support and without a venue step is a whole number
  of shares.
\<close>

theorem equity_entry_whole_shares:
  assumes "is_open_intent i" "quantity_step c = None"
  shows "fval (oq_quantity (resolve_order_quantity_with_constraints i Equities price pos bb ab limits target c False)) \<in> \<int>"
proof (cases rule: sized_cases [of i Equities price pos bb ab limits target c False])
  case zero
  then show ?thesis by simp
next
  case (constrained raw)
  let ?m = "apply_market_order_quantity_policy Equities i raw False"
  have int: "fval ?m \<in> \<int>"
    using assms(1) fval_floor [of raw]
    by (auto simp: apply_market_order_quantity_policy_def Let_def)
  have "is_finite ?m" "0 \<le> ?m" using market_policy_bounds raw_quantity_nonneg [OF constrained(1-3)] by blast+
  from constraints_outcome [OF this, of i price c] show ?thesis
    using int constrained(4) assms(2) by (auto simp: step_reasons_def)
qed

text \<open>
  The paper router accepts a request exactly when quantity and price are not at or
  below zero and the intent trades; the accepted order repeats the request's price and
  quantity, buys for entries and sells for exits, and carries no fee.
\<close>

theorem paper_submit_contract:
  "is_ok (paper_submit r) = (\<not> er_quantity r \<le> 0 \<and> \<not> er_price r \<le> 0 \<and> er_intent r \<noteq> NoOp)
   \<and> (\<forall>o'. paper_submit r = Inr o' \<longrightarrow> ao_price o' = er_price r \<and> ao_quantity o' = er_quantity r
        \<and> ao_side o' = (if is_open_intent (er_intent r) then BuySide else SellSide)
        \<and> ao_fee_normalized_usd o' = None
        \<and> ao_client_order_id o' = stable_client_order_id (er_instance_id r) (er_symbol r) (er_timestamp r) (er_intent r))"
  by (cases "er_intent r") (auto simp: paper_submit_def is_open_intent_def)

subsection \<open>Concrete instances\<close>

definition demo_limits :: RiskLimits where
  "demo_limits = \<lparr>max_daily_loss_pct = f64_rnd 5, max_open_positions = 5, max_order_notional_usd = f64_rnd 10000,
     max_spread_bps = 20, max_slippage_bps = 30, stale_data_ms = 3000, cooldown_after_reject_ms = 1000\<rparr>"

lemma demo_not_nan: "\<not> is_nan (f64_rnd 250)" "\<not> is_nan (max_order_notional_usd demo_limits)"
  by (simp_all add: demo_limits_def)

lemma demo_sized:
  "oq_quantity (resolve_order_quantity_with_constraints OpenLong Equities (f64_rnd 100) 0 (f64_rnd 10000) (f64_rnd 10000)
     demo_limits (f64_rnd 250) ExecutionConstraintsConfig_default False) = f64_rnd 2"
  by code_simp

theorem order_quantity_bounded_witness:
  "f64_rnd 2 \<noteq> 0 \<and> f64_rnd 2 \<le> f64_rnd 250 / f64_rnd 100"
proof -
  have "f64_rnd 2 \<noteq> 0" by code_simp
  then show ?thesis
    using order_quantity_bounded [OF demo_not_nan, of OpenLong Equities "f64_rnd 100" 0 "f64_rnd 10000" "f64_rnd 10000"
      ExecutionConstraintsConfig_default False]
    by (simp add: demo_sized is_open_intent_def)
qed

theorem order_quantity_meets_minima_witness:
  "f64_rnd 2 \<noteq> 0 \<and> meets_minima OpenLong (f64_rnd 100) ExecutionConstraintsConfig_default (f64_rnd 2)"
proof -
  have nz: "f64_rnd 2 \<noteq> 0" by code_simp
  show ?thesis
    using nz order_quantity_meets_minima [of OpenLong Equities "f64_rnd 100" 0 "f64_rnd 10000" "f64_rnd 10000"
      demo_limits "f64_rnd 250" ExecutionConstraintsConfig_default False]
    by (simp add: demo_sized)
qed

theorem equity_entry_whole_shares_witness:
  "is_open_intent OpenLong \<and> fval (f64_rnd 2) \<in> \<int>"
proof -
  have o: "is_open_intent OpenLong" by (simp add: is_open_intent_def)
  have s: "quantity_step ExecutionConstraintsConfig_default = None" by (simp add: ExecutionConstraintsConfig_default_def)
  show ?thesis
    using o equity_entry_whole_shares [OF o s, of "f64_rnd 100" 0 "f64_rnd 10000" "f64_rnd 10000" demo_limits "f64_rnd 250"]
    by (simp only: demo_sized)
qed

definition demo_request :: ExecutionRequest where
  "demo_request = \<lparr>er_instance_id = ''aapl'', er_symbol = ''AAPL'', er_timestamp = 0, er_intent = OpenLong,
     er_price = f64_rnd 100, er_quantity = 1\<rparr>"

theorem paper_submit_contract_witness: "is_ok (paper_submit demo_request)"
proof -
  have "\<not> er_quantity demo_request \<le> 0 \<and> \<not> er_price demo_request \<le> 0 \<and> er_intent demo_request \<noteq> NoOp"
    by code_simp
  then show ?thesis using paper_submit_contract [of demo_request] by blast
qed

end
