(* ===== verification/Strategy.thy ===== *)
theory Strategy
  imports Core
begin

section \<open>Strategies (crate openticker-strategy)\<close>

text \<open>
  The two long-only strategies: \<open>metadata.rs\<close> (the filters on a signal's metadata),
  \<open>single_indicator.rs\<close> and \<open>consensus.rs\<close> (weighted vote of the primary indicators
  with vetoes of the filter indicators), with the rationale text each decision carries. The
  closure of \<open>decide_consensus\<close> that pushes into \<open>metadata_filtered\<close> is a fold
  that threads the list. The lemmas give the exact conditions of every intent, that the
  strategies are long-only, that suppressed previews have no influence and that a consensus of
  one indicator is the single-indicator strategy.
\<close>

subsection \<open>Contexts and decisions\<close>

record StrategyContext =
  sc_indicator_id :: string
  sc_signal :: IndicatorSignal
  sc_signal_policy :: IndicatorSignalPolicy
  sc_metadata_capabilities :: IndicatorMetadataCapabilities
  sc_metadata_filters :: IndicatorSignalMetadataFilters
  sc_metadata :: SignalMetadata
  sc_has_position :: bool

record IndicatorObservation =
  obs_id :: string
  obs_role :: IndicatorRole
  obs_signal_policy :: IndicatorSignalPolicy
  obs_signal :: IndicatorSignal
  obs_metadata_capabilities :: IndicatorMetadataCapabilities
  obs_metadata_filters :: IndicatorSignalMetadataFilters
  obs_metadata :: SignalMetadata
  obs_weight :: f64

record ConsensusStrategyContext =
  cc_indicators :: "IndicatorObservation list"
  cc_has_position :: bool

record StrategyDecision =
  sd_intent :: TradeIntent
  sd_rationale :: "string option"

definition StrategyDecision_new :: "TradeIntent \<Rightarrow> string \<Rightarrow> StrategyDecision" where
  "StrategyDecision_new intent rationale = \<lparr>sd_intent = intent, sd_rationale = Some rationale\<rparr>"

definition StrategyDecision_no_op :: "string \<Rightarrow> StrategyDecision" where
  "StrategyDecision_no_op rationale = StrategyDecision_new NoOp rationale"

subsection \<open>Metadata filters\<close>

fun signal_label :: "IndicatorSignal \<Rightarrow> string" where
  "signal_label NoSignal = ''none''"
| "signal_label BuyPreview = ''buy_preview''"
| "signal_label BuyConfirmed = ''buy_confirmed''"
| "signal_label SellPreview = ''sell_preview''"
| "signal_label SellConfirmed = ''sell_confirmed''"

fun strength_label :: "SignalStrength \<Rightarrow> string" where
  "strength_label Normal = ''normal''"
| "strength_label Strong = ''strong''"

definition tag_block_reason :: "SignalMetadataFilter \<Rightarrow> SignalMetadata \<Rightarrow> string option" where
  "tag_block_reason flt metadata =
     (case find (\<lambda>tag. tag \<in> set (md_tags metadata)) (blocked_tags flt) of
        Some blocked_tag \<Rightarrow> Some (''blocked_tag='' @ blocked_tag)
      | None \<Rightarrow>
          (case find (\<lambda>tag. tag \<notin> set (md_tags metadata)) (required_tags_all flt) of
             Some missing_tag \<Rightarrow> Some (''missing_required_tag='' @ missing_tag)
           | None \<Rightarrow>
               if required_tags_any flt \<noteq> []
                 \<and> \<not> list_ex (\<lambda>tag. tag \<in> set (md_tags metadata)) (required_tags_any flt)
               then Some ''missing_any_required_tag'' else None))"

definition reason_code_and_tags ::
    "IndicatorMetadataCapabilities \<Rightarrow> SignalMetadataFilter \<Rightarrow> SignalMetadata \<Rightarrow> string option" where
  "reason_code_and_tags capabilities flt metadata =
     (let tags = (if supports_tags capabilities then tag_block_reason flt metadata else None) in
      if allowed_reason_codes flt \<noteq> [] \<and> supports_reason_code capabilities then
        (case md_reason_code metadata of
           None \<Rightarrow> None
         | Some reason_code \<Rightarrow>
             if reason_code \<notin> set (allowed_reason_codes flt)
             then Some (''reason_code='' @ reason_code @ '' not allowed'')
             else tags)
      else tags)"

fun filter_for_signal :: "IndicatorSignalMetadataFilters \<Rightarrow> IndicatorSignal \<Rightarrow> SignalMetadataFilter option" where
  "filter_for_signal filters NoSignal = None"
| "filter_for_signal filters BuyPreview = Some (flt_entry filters)"
| "filter_for_signal filters BuyConfirmed = Some (flt_entry filters)"
| "filter_for_signal filters SellPreview = Some (flt_exit filters)"
| "filter_for_signal filters SellConfirmed = Some (flt_exit filters)"

definition metadata_filter_block_reason ::
    "IndicatorMetadataCapabilities \<Rightarrow> IndicatorSignalMetadataFilters \<Rightarrow> SignalMetadata \<Rightarrow> IndicatorSignal
      \<Rightarrow> string option" where
  "metadata_filter_block_reason capabilities filters metadata signal =
     (case filter_for_signal filters signal of
        None \<Rightarrow> None
      | Some flt \<Rightarrow>
          if \<not> SignalMetadataFilter_is_configured flt then None
          else if allowed_strengths flt \<noteq> [] \<and> supports_strength capabilities then
            (case md_strength metadata of
               None \<Rightarrow> None
             | Some strength \<Rightarrow>
                 if strength \<notin> set (allowed_strengths flt)
                 then Some (''strength='' @ strength_label strength @ '' not allowed'')
                 else reason_code_and_tags capabilities flt metadata)
          else reason_code_and_tags capabilities flt metadata)"

subsection \<open>Single indicator\<close>

fun is_preview_signal :: "IndicatorSignal \<Rightarrow> bool" where
  "is_preview_signal BuyPreview = True"
| "is_preview_signal SellPreview = True"
| "is_preview_signal _ = False"

fun single_intent :: "IndicatorSignal \<Rightarrow> bool \<Rightarrow> TradeIntent" where
  "single_intent BuyPreview has_position = (if has_position then AddLong else OpenLong)"
| "single_intent BuyConfirmed has_position = (if has_position then AddLong else OpenLong)"
| "single_intent SellPreview has_position = (if has_position then CloseLong else NoOp)"
| "single_intent SellConfirmed has_position = (if has_position then CloseLong else NoOp)"
| "single_intent NoSignal has_position = NoOp"

definition single_decide :: "StrategyContext \<Rightarrow> StrategyDecision" where
  "single_decide context =
     (if sc_signal_policy context = ConfirmedRequired \<and> is_preview_signal (sc_signal context)
      then StrategyDecision_no_op (''indicator='' @ sc_indicator_id context @ '' preview_suppressed_by_policy'')
      else let effective_signal = sc_signal context in
        (case metadata_filter_block_reason (sc_metadata_capabilities context)
                (sc_metadata_filters context) (sc_metadata context) effective_signal of
           Some reason \<Rightarrow>
             StrategyDecision_no_op (''indicator='' @ sc_indicator_id context @ '' '' @ reason)
         | None \<Rightarrow>
             StrategyDecision_new (single_intent effective_signal (sc_has_position context))
               (''indicator='' @ sc_indicator_id context @ '' effective_signal='' @ signal_label effective_signal)))"

subsection \<open>Consensus\<close>

datatype ConsensusConfigError = InvalidThreshold string

record ConsensusLongOnlyStrategy =
  entry_threshold :: f64
  exit_threshold :: f64

definition ConsensusLongOnlyStrategy_default :: ConsensusLongOnlyStrategy where
  "ConsensusLongOnlyStrategy_default = \<lparr>entry_threshold = 1, exit_threshold = 1\<rparr>"

definition ConsensusLongOnlyStrategy_new :: "f64 \<Rightarrow> f64 \<Rightarrow> ConsensusConfigError + ConsensusLongOnlyStrategy" where
  "ConsensusLongOnlyStrategy_new entry exit =
     (if \<not> is_finite entry \<or> entry < 0 then Inl (InvalidThreshold ''entry_threshold'')
      else if \<not> is_finite exit \<or> exit < 0 then Inl (InvalidThreshold ''exit_threshold'')
      else Inr \<lparr>entry_threshold = entry, exit_threshold = exit\<rparr>)"

definition effective_signal :: "IndicatorObservation \<Rightarrow> IndicatorSignal" where
  "effective_signal observation =
     (if obs_signal_policy observation = ConfirmedRequired \<and> is_preview_signal (obs_signal observation)
      then NoSignal else obs_signal observation)"

fun signal_vote :: "IndicatorSignalPolicy \<Rightarrow> IndicatorSignal \<Rightarrow> f64" where
  "signal_vote policy BuyConfirmed = 1"
| "signal_vote policy SellConfirmed = - 1"
| "signal_vote policy BuyPreview = (if policy = PreviewAllowed then 1 else 0)"
| "signal_vote policy SellPreview = (if policy = PreviewAllowed then - 1 else 0)"
| "signal_vote policy NoSignal = 0"

definition intent_for_direction :: "bool \<Rightarrow> int \<Rightarrow> TradeIntent" where
  "intent_for_direction has_position direction =
     (if direction = 1 then if has_position then AddLong else OpenLong
      else if direction = - 1 then if has_position then CloseLong else NoOp
      else NoOp)"

definition obs_block_reason :: "IndicatorObservation \<Rightarrow> string option" where
  "obs_block_reason obs = metadata_filter_block_reason (obs_metadata_capabilities obs)
     (obs_metadata_filters obs) (obs_metadata obs) (effective_signal obs)"

text \<open>One step of the fold over the primary indicators: the score and the ids filtered out.\<close>

definition primary_step :: "f64 \<times> string list \<Rightarrow> IndicatorObservation \<Rightarrow> f64 \<times> string list" where
  "primary_step st obs =
     (case obs_block_reason obs of
        Some reason \<Rightarrow> (fst st, snd st @ [obs_id obs @ '':'' @ reason])
      | None \<Rightarrow> (fst st + obs_weight obs * signal_vote (obs_signal_policy obs) (effective_signal obs), snd st))"

text \<open>\<open>any\<close> over the filter indicators stops at the first veto, so later ids are not recorded.\<close>

fun filter_veto_scan :: "int \<Rightarrow> string list \<Rightarrow> IndicatorObservation list \<Rightarrow> bool \<times> string list" where
  "filter_veto_scan direction filtered [] = (False, filtered)"
| "filter_veto_scan direction filtered (obs # rest) =
     (case obs_block_reason obs of
        Some reason \<Rightarrow> filter_veto_scan direction (filtered @ [obs_id obs @ '':'' @ reason]) rest
      | None \<Rightarrow>
          let vote = signal_vote (obs_signal_policy obs) (effective_signal obs) in
          if (if 0 < direction then vote < 0 else 0 < vote) then (True, filtered)
          else filter_veto_scan direction filtered rest)"

definition filtered_suffix :: "string list \<Rightarrow> string" where
  "filtered_suffix filtered =
     (if filtered = [] then [] else '',metadata_filtered='' @ join '';'' filtered)"

definition primaries :: "ConsensusStrategyContext \<Rightarrow> IndicatorObservation list" where
  "primaries context = filter (\<lambda>obs. obs_role obs = PrimarySignal) (cc_indicators context)"

definition score_direction :: "ConsensusLongOnlyStrategy \<Rightarrow> f64 \<Rightarrow> int" where
  "score_direction self primary_score =
     (if entry_threshold self \<le> primary_score then 1
      else if primary_score \<le> - exit_threshold self then - 1 else 0)"

definition decide_consensus :: "ConsensusLongOnlyStrategy \<Rightarrow> ConsensusStrategyContext \<Rightarrow> StrategyDecision" where
  "decide_consensus self context =
     (let (primary_score, filtered) = foldl primary_step (0, []) (primaries context) in
      if \<not> list_ex (\<lambda>obs. obs_role obs = PrimarySignal) (cc_indicators context)
      then StrategyDecision_no_op ''no_primary_indicator''
      else
        let direction = score_direction self primary_score;
            thresholds = '',entry_threshold='' @ show_f64 (entry_threshold self)
              @ '',exit_threshold='' @ show_f64 (exit_threshold self) in
        if direction = 0 then
          StrategyDecision_no_op (''primary_score='' @ show_f64 primary_score @ thresholds @ filtered_suffix filtered)
        else
          let (filter_veto, filtered) = filter_veto_scan direction filtered
                (filter (\<lambda>obs. obs_role obs = Filter) (cc_indicators context)) in
          if filter_veto then StrategyDecision_no_op (''filter_veto'' @ filtered_suffix filtered)
          else StrategyDecision_new (intent_for_direction (cc_has_position context) direction)
            (''primary_score='' @ show_f64 primary_score @ '',direction='' @ show_int direction
              @ thresholds @ filtered_suffix filtered))"

subsection \<open>Lemmas\<close>

lemmas decision_simps [simp] = StrategyDecision_new_def StrategyDecision_no_op_def

text \<open>The reference score: the votes that pass the filters, folded in the order of the list.\<close>

definition counted :: "IndicatorObservation list \<Rightarrow> IndicatorObservation list" where
  "counted obs = filter (\<lambda>x. obs_block_reason x = None) obs"

definition weighted_vote :: "IndicatorObservation \<Rightarrow> f64" where
  "weighted_vote x = obs_weight x * signal_vote (obs_signal_policy x) (effective_signal x)"

definition consensus_score :: "ConsensusStrategyContext \<Rightarrow> f64" where
  "consensus_score c = foldl (+) 0 (map weighted_vote (counted (primaries c)))"

definition vetoes :: "int \<Rightarrow> IndicatorObservation \<Rightarrow> bool" where
  "vetoes d x \<longleftrightarrow> obs_role x = Filter \<and> obs_block_reason x = None
     \<and> (if 0 < d then effective_signal x = SellConfirmed \<or> effective_signal x = SellPreview
        else effective_signal x = BuyConfirmed \<or> effective_signal x = BuyPreview)"

lemma fst_primary_fold:
  "fst (foldl primary_step st xs) = foldl (+) (fst st) (map weighted_vote (counted xs))"
  by (induction xs arbitrary: st)
    (auto simp: primary_step_def counted_def weighted_vote_def split: option.splits)

lemma vote_signs:
  "signal_vote (obs_signal_policy x) (effective_signal x) < 0
     \<longleftrightarrow> effective_signal x = SellConfirmed \<or> effective_signal x = SellPreview"
  "0 < signal_vote (obs_signal_policy x) (effective_signal x)
     \<longleftrightarrow> effective_signal x = BuyConfirmed \<or> effective_signal x = BuyPreview"
proof -
  have c: "(- 1 :: f64) < 0" "\<not> (1 :: f64) < 0" "(0 :: f64) < 1" "\<not> (0 :: f64) < - 1" by code_simp+
  have p: "is_preview_signal (effective_signal x) \<Longrightarrow> obs_signal_policy x = PreviewAllowed"
    by (cases "obs_signal_policy x") (auto simp: effective_signal_def split: if_splits)
  show "signal_vote (obs_signal_policy x) (effective_signal x) < 0
     \<longleftrightarrow> effective_signal x = SellConfirmed \<or> effective_signal x = SellPreview"
    using p c by (cases "effective_signal x") (simp_all add: f64_less_irrefl)
  show "0 < signal_vote (obs_signal_policy x) (effective_signal x)
     \<longleftrightarrow> effective_signal x = BuyConfirmed \<or> effective_signal x = BuyPreview"
    using p c by (cases "effective_signal x") (simp_all add: f64_less_irrefl)
qed

lemma fst_filter_veto_scan:
  "fst (filter_veto_scan d fl (filter (\<lambda>x. obs_role x = Filter) xs)) \<longleftrightarrow> (\<exists>x \<in> set xs. vetoes d x)"
  by (induction xs arbitrary: fl)
    (auto simp: vetoes_def vote_signs Let_def split: option.splits)

lemma primaries_ex: "list_ex (\<lambda>x. obs_role x = PrimarySignal) (cc_indicators c) \<longleftrightarrow> primaries c \<noteq> []"
  by (auto simp: primaries_def list_ex_iff filter_empty_conv)

lemma consensus_intent:
  "sd_intent (decide_consensus s c) =
     (if primaries c = [] \<or> score_direction s (consensus_score c) = 0
         \<or> (\<exists>x \<in> set (cc_indicators c). vetoes (score_direction s (consensus_score c)) x)
      then NoOp
      else intent_for_direction (cc_has_position c) (score_direction s (consensus_score c)))"
proof -
  obtain sc fl where f: "foldl primary_step (0, []) (primaries c) = (sc, fl)" by fastforce
  then have sc: "sc = consensus_score c"
    using fst_primary_fold [of "(0, [])" "primaries c"] by (simp add: consensus_score_def)
  show ?thesis
    by (auto simp: decide_consensus_def f sc primaries_ex fst_filter_veto_scan [symmetric, of _ _ fl]
        Let_def split: prod.splits)
qed

lemma score_direction_cases: "score_direction s x \<in> {- 1, 0, 1}"
  by (simp add: score_direction_def)

lemma veto_list_ex: "(\<exists>x \<in> set xs. vetoes d x) \<longleftrightarrow> list_ex (vetoes d) xs"
  by (simp add: list_ex_iff)

text \<open>A preview signal that the policy suppresses, replaced by no signal at all.\<close>

definition suppress_preview :: "IndicatorObservation \<Rightarrow> IndicatorObservation" where
  "suppress_preview x =
     (if obs_signal_policy x = ConfirmedRequired \<and> is_preview_signal (obs_signal x)
      then x\<lparr>obs_signal := NoSignal\<rparr> else x)"

lemma suppress_preview_simps [simp]:
  "effective_signal (suppress_preview x) = effective_signal x"
  "obs_block_reason (suppress_preview x) = obs_block_reason x"
  "obs_role (suppress_preview x) = obs_role x" "obs_id (suppress_preview x) = obs_id x"
  "obs_weight (suppress_preview x) = obs_weight x"
  "obs_signal_policy (suppress_preview x) = obs_signal_policy x"
  by (auto simp: suppress_preview_def effective_signal_def obs_block_reason_def)

lemma primary_step_suppress: "primary_step st (suppress_preview x) = primary_step st x"
  by (cases "obs_block_reason x") (simp_all add: primary_step_def)

lemma foldl_primary_suppress:
  "foldl primary_step st (map suppress_preview xs) = foldl primary_step st xs"
  by (induction xs arbitrary: st) (simp_all add: primary_step_suppress)

lemma scan_suppress:
  "filter_veto_scan d fl (map suppress_preview xs) = filter_veto_scan d fl xs"
  by (induction xs arbitrary: fl) (auto simp: Let_def split: option.split)

lemma filter_role_suppress:
  "filter (\<lambda>x. obs_role x = r) (map suppress_preview xs) = map suppress_preview (filter (\<lambda>x. obs_role x = r) xs)"
  by (simp add: filter_map comp_def)

lemma list_ex_role_suppress:
  "list_ex (\<lambda>x. obs_role x = r) (map suppress_preview xs) = list_ex (\<lambda>x. obs_role x = r) xs"
  by (induction xs) auto

text \<open>The observation a consensus of one primary indicator of weight one makes of a context.\<close>

definition as_observation :: "StrategyContext \<Rightarrow> IndicatorObservation" where
  "as_observation c = \<lparr>obs_id = sc_indicator_id c, obs_role = PrimarySignal,
     obs_signal_policy = sc_signal_policy c, obs_signal = sc_signal c,
     obs_metadata_capabilities = sc_metadata_capabilities c,
     obs_metadata_filters = sc_metadata_filters c, obs_metadata = sc_metadata c, obs_weight = 1\<rparr>"

lemma unit_score_direction:
  "score_direction ConsensusLongOnlyStrategy_default 0 = 0"
  "score_direction ConsensusLongOnlyStrategy_default (0 + 1 * 1) = 1"
  "score_direction ConsensusLongOnlyStrategy_default (0 + 1 * - 1) = - 1"
  "score_direction ConsensusLongOnlyStrategy_default (0 + 1 * 0) = 0"
  by code_simp+

lemma policy_not_confirmed: "p \<noteq> ConfirmedRequired \<longleftrightarrow> p = PreviewAllowed"
  by (cases p) auto

lemma consensus_of_one:
  fixes c :: StrategyContext
  defines "x \<equiv> as_observation c"
  shows "sd_intent (decide_consensus s \<lparr>cc_indicators = [x], cc_has_position = pos\<rparr>) =
     intent_for_direction pos (score_direction s
       (if obs_block_reason x = None then 0 + weighted_vote x else 0))"
proof -
  have "\<not> vetoes d x" for d by (simp add: vetoes_def x_def as_observation_def)
  moreover have "primaries \<lparr>cc_indicators = [x], cc_has_position = b\<rparr> = [x]" for b
    by (simp add: primaries_def x_def as_observation_def)
  ultimately show ?thesis
    by (simp only: consensus_intent)
      (auto simp: consensus_score_def counted_def intent_for_direction_def)
qed

lemma find_None_iff_ex: "find P xs = None \<longleftrightarrow> \<not> list_ex P xs"
  by (auto simp: find_None_iff list_ex_iff)

lemma tag_block_reason_None:
  "tag_block_reason f m = None \<longleftrightarrow>
     \<not> list_ex (\<lambda>t. t \<in> set (md_tags m)) (blocked_tags f)
     \<and> list_all (\<lambda>t. t \<in> set (md_tags m)) (required_tags_all f)
     \<and> (required_tags_any f = [] \<or> list_ex (\<lambda>t. t \<in> set (md_tags m)) (required_tags_any f))"
  by (auto simp: tag_block_reason_def find_None_iff_ex [symmetric] list_ex_iff list_all_iff find_None_iff find_Some_iff
      split: option.splits)

text \<open>A signal without a strength skips every later check of a strength filter, the blocked tags included.\<close>

lemma missing_strength_skips_tag_filters:
  assumes "filter_for_signal fs sig = Some f" "allowed_strengths f \<noteq> []" "supports_strength caps"
    and "md_strength m = None"
  shows "metadata_filter_block_reason caps fs m sig = None"
  using assms by (simp add: metadata_filter_block_reason_def SignalMetadataFilter_is_configured_def)

lemma unit_consensus_intent:
  "sd_intent (decide_consensus ConsensusLongOnlyStrategy_default
      \<lparr>cc_indicators = [as_observation c], cc_has_position = sc_has_position c\<rparr>)
   = sd_intent (single_decide c)"
proof -
  note w = weighted_vote_def as_observation_def effective_signal_def obs_block_reason_def
  show ?thesis
    unfolding consensus_of_one
    by (cases "sc_signal c"; cases "sc_signal_policy c";
        cases "metadata_filter_block_reason (sc_metadata_capabilities c) (sc_metadata_filters c) (sc_metadata c) (sc_signal c)")
      (simp_all add: w single_decide_def unit_score_direction intent_for_direction_def
        metadata_filter_block_reason_def [of _ _ _ NoSignal] Let_def)
qed

subsection \<open>Properties\<close>

text \<open>C29: The consensus decision is exact: it opens (without a position) or adds (with one) exactly
  when there is a primary indicator, the weighted vote of the primary indicators that pass their
  metadata filters reaches the entry threshold and no filter indicator votes to sell; it closes
  exactly when a position is held, the vote is below the entry threshold and at or below the
  negated exit threshold, and no filter indicator votes to buy. It never reduces.\<close>
theorem consensus_decision_exact:
  "(sd_intent (decide_consensus s c) = OpenLong \<longleftrightarrow>
     \<not> cc_has_position c \<and> primaries c \<noteq> [] \<and> entry_threshold s \<le> consensus_score c
     \<and> \<not> list_ex (vetoes 1) (cc_indicators c))
   \<and> (sd_intent (decide_consensus s c) = AddLong \<longleftrightarrow>
     cc_has_position c \<and> primaries c \<noteq> [] \<and> entry_threshold s \<le> consensus_score c
     \<and> \<not> list_ex (vetoes 1) (cc_indicators c))
   \<and> (sd_intent (decide_consensus s c) = CloseLong \<longleftrightarrow>
     cc_has_position c \<and> primaries c \<noteq> [] \<and> \<not> entry_threshold s \<le> consensus_score c
     \<and> consensus_score c \<le> - exit_threshold s \<and> \<not> list_ex (vetoes (- 1)) (cc_indicators c))
   \<and> (sd_intent (decide_consensus s c) \<noteq> ReduceLong)"
  by (auto simp: consensus_intent veto_list_ex intent_for_direction_def score_direction_def)

text \<open>A consensus strategy built by its constructor never trades against its score: it opens or
  adds only on a non-negative score and closes only on a non-positive one.\<close>
theorem consensus_never_against_score:
  assumes "ConsensusLongOnlyStrategy_new en ex = Inr s"
  shows "(sd_intent (decide_consensus s c) \<in> {OpenLong, AddLong} \<longrightarrow> 0 \<le> consensus_score c)
    \<and> (sd_intent (decide_consensus s c) = CloseLong \<longrightarrow> consensus_score c \<le> 0)"
proof -
  have fin: "is_finite (entry_threshold s)" "is_finite (exit_threshold s)"
    and nn: "0 \<le> entry_threshold s" "0 \<le> exit_threshold s"
    using assms f64_not_less [of "entry_threshold s" 0] f64_not_less [of "exit_threshold s" 0]
    by (auto simp: ConsensusLongOnlyStrategy_new_def is_finite_not_nan split: if_splits)
  have neg: "- exit_threshold s \<le> 0"
    using fin(2) nn(2) by (simp add: uminus_f64_fin le_f64_fin)
  have "0 \<le> consensus_score c" if "sd_intent (decide_consensus s c) \<in> {OpenLong, AddLong}"
    using that f64_le_trans [OF nn(1), of "consensus_score c"]
    by (auto simp: consensus_intent intent_for_direction_def score_direction_def split: if_splits)
  moreover have "consensus_score c \<le> 0" if "sd_intent (decide_consensus s c) = CloseLong"
    using that f64_le_trans [OF _ neg, of "consensus_score c"]
    by (auto simp: consensus_intent intent_for_direction_def score_direction_def split: if_splits)
  ultimately show ?thesis by blast
qed

text \<open>A preview of an indicator that requires confirmation has no influence at all: replacing
  every such preview by no signal leaves the whole decision, rationale included, unchanged.\<close>
theorem suppressed_previews_have_no_influence:
  "decide_consensus s (c\<lparr>cc_indicators := map suppress_preview (cc_indicators c)\<rparr>) = decide_consensus s c"
proof -
  have "cc_indicators (c\<lparr>cc_indicators := xs\<rparr>) = xs" "cc_has_position (c\<lparr>cc_indicators := xs\<rparr>) = cc_has_position c" for xs
    by simp_all
  then show ?thesis
    unfolding decide_consensus_def primaries_def
    by (simp only: filter_role_suppress foldl_primary_suppress scan_suppress list_ex_role_suppress)
qed

text \<open>With the default thresholds, a consensus of one primary indicator of weight one takes the
  same trade intent as the single-indicator strategy, on every signal, policy and metadata.\<close>
theorem single_indicator_is_unit_consensus:
  "sd_intent (decide_consensus ConsensusLongOnlyStrategy_default
      \<lparr>cc_indicators = [as_observation c], cc_has_position = sc_has_position c\<rparr>)
   = sd_intent (single_decide c)"
  by (rule unit_consensus_intent)

text \<open>When an indicator reports strength, reason code and tags, a configured filter lets its
  signal pass exactly when the strength and the reason code are among the allowed ones (an empty
  list allows all), no tag is blocked, every required tag is present and, when alternatives are
  given, at least one of them is present.\<close>
theorem metadata_filter_passes_iff:
  assumes "filter_for_signal fs sig = Some f"
    and "supports_strength caps" "supports_reason_code caps" "supports_tags caps"
    and "md_strength m = Some str" "md_reason_code m = Some rc"
  shows "metadata_filter_block_reason caps fs m sig = None \<longleftrightarrow>
     (allowed_strengths f = [] \<or> str \<in> set (allowed_strengths f))
     \<and> (allowed_reason_codes f = [] \<or> rc \<in> set (allowed_reason_codes f))
     \<and> \<not> list_ex (\<lambda>t. t \<in> set (md_tags m)) (blocked_tags f)
     \<and> list_all (\<lambda>t. t \<in> set (md_tags m)) (required_tags_all f)
     \<and> (required_tags_any f = [] \<or> list_ex (\<lambda>t. t \<in> set (md_tags m)) (required_tags_any f))"
  using assms
  by (simp add: metadata_filter_block_reason_def reason_code_and_tags_def tag_block_reason_None
      SignalMetadataFilter_is_configured_def Let_def)

subsection \<open>Witnesses\<close>

definition demo_caps :: IndicatorMetadataCapabilities where
  "demo_caps = \<lparr>supports_strength = True, supports_reason_code = True, supports_tags = True,
     supports_facts = True, supports_trade_levels = False\<rparr>"

definition demo_filters :: IndicatorSignalMetadataFilters where
  "demo_filters = \<lparr>flt_entry = SignalMetadataFilter_default\<lparr>allowed_strengths := [Strong], blocked_tags := [''thin'']\<rparr>,
     flt_exit = SignalMetadataFilter_default\<rparr>"

definition demo_metadata :: SignalMetadata where
  "demo_metadata = SignalMetadata_default\<lparr>md_strength := Some Strong, md_reason_code := Some ''cross_up'', md_tags := [''buy'']\<rparr>"

definition demo_obs :: IndicatorObservation where
  "demo_obs = \<lparr>obs_id = ''sma'', obs_role = PrimarySignal, obs_signal_policy = ConfirmedRequired,
     obs_signal = BuyConfirmed, obs_metadata_capabilities = demo_caps, obs_metadata_filters = demo_filters,
     obs_metadata = demo_metadata, obs_weight = 1\<rparr>"

lemma demo_consensus_opens:
  "sd_intent (decide_consensus ConsensusLongOnlyStrategy_default \<lparr>cc_indicators = [demo_obs], cc_has_position = False\<rparr>) = OpenLong"
  "ConsensusLongOnlyStrategy_new 1 1 = Inr ConsensusLongOnlyStrategy_default"
  by code_simp+

theorem consensus_never_against_score_witness:
  "0 \<le> consensus_score \<lparr>cc_indicators = [demo_obs], cc_has_position = False\<rparr>"
  using consensus_never_against_score [OF demo_consensus_opens(2), of "\<lparr>cc_indicators = [demo_obs], cc_has_position = False\<rparr>"]
    demo_consensus_opens(1) by simp

theorem metadata_filter_passes_iff_witness:
  "metadata_filter_block_reason demo_caps demo_filters demo_metadata BuyConfirmed = None"
  using metadata_filter_passes_iff [of demo_filters BuyConfirmed "flt_entry demo_filters" demo_caps demo_metadata Strong "''cross_up''"]
  by (simp add: demo_filters_def demo_caps_def demo_metadata_def SignalMetadataFilter_default_def SignalMetadata_default_def)

end
