(* ===== verification/Signals.thy ===== *)
theory Signals
  imports Core
begin

section \<open>Indicators (crate openticker-signals)\<close>

text \<open>
  The rolling averages and crossings of \<open>common/\<close>, the two built-in indicators
  (\<open>indicators/sma_crossover.rs\<close>, \<open>indicators/rsi_threshold.rs\<close>), their manifests,
  the descriptor table and the engine builder. A stateful \<open>update(&mut self, ..)\<close> returns
  the result and the updated record. \<open>Box<dyn IndicatorEngine>\<close> is the sum of the two
  engine types. A \<open>toml::Table\<close> is not code of this repository: the builders take
  \<open>get\<close>, \<open>as_integer\<close> and \<open>as_float\<close> as arguments.

  The lemmas show that a moving-average window holds exactly the last samples, that the average
  of integer prices is the correctly rounded mean, that the RSI lies between 0 and 100, when the
  indicators signal, and the two-phase contract of every engine (locale \<open>two_phase_engine\<close>).
\<close>

subsection \<open>Crossings and parameters\<close>

fun crossover :: "f64 option \<Rightarrow> f64 option \<Rightarrow> f64 \<Rightarrow> f64 \<Rightarrow> bool" where
  "crossover (Some pl) (Some pr) left right = (pl < pr \<and> right < left)"
| "crossover _ _ left right = False"

fun crossunder :: "f64 option \<Rightarrow> f64 option \<Rightarrow> f64 \<Rightarrow> f64 \<Rightarrow> bool" where
  "crossunder (Some pl) (Some pr) left right = (pr < pl \<and> left < right)"
| "crossunder _ _ left right = False"

definition indicator_param_f64 ::
    "('v \<Rightarrow> f64 option) \<Rightarrow> ('v \<Rightarrow> int option) \<Rightarrow> (string \<Rightarrow> 'v option) \<Rightarrow> string \<Rightarrow> f64 option" where
  "indicator_param_f64 as_float as_integer params key =
     (case params key of
        None \<Rightarrow> None
      | Some value \<Rightarrow>
          (case as_float value of
             Some x \<Rightarrow> Some x
           | None \<Rightarrow> map_option (\<lambda>i. f64_rnd (of_int i)) (as_integer value)))"

definition indicator_param_usize :: "('v \<Rightarrow> int option) \<Rightarrow> (string \<Rightarrow> 'v option) \<Rightarrow> string \<Rightarrow> nat option" where
  "indicator_param_usize as_integer params key =
     (case params key of
        None \<Rightarrow> None
      | Some value \<Rightarrow>
          (case as_integer value of
             None \<Rightarrow> None
           | Some i \<Rightarrow> if 0 \<le> i then Some (nat i) else None))"

subsection \<open>Rolling averages\<close>

record Sma =
  sma_length :: nat
  sma_values :: "f64 list"
  sma_sum :: f64

definition Sma_new :: "nat \<Rightarrow> Sma" where
  "Sma_new len = \<lparr>sma_length = len, sma_values = [], sma_sum = 0\<rparr>"

definition Sma_update :: "Sma \<Rightarrow> f64 \<Rightarrow> f64 option \<times> Sma" where
  "Sma_update self value =
     (let values = sma_values self @ [value];
          sum = sma_sum self + value;
          (values, sum) =
            (if sma_length self < length values
             then (case values of removed # rest \<Rightarrow> (rest, sum - removed) | [] \<Rightarrow> (values, sum))
             else (values, sum));
          self = self\<lparr>sma_values := values, sma_sum := sum\<rparr> in
      (if length values = sma_length self then Some (sum / usize_to_f64 (sma_length self)) else None, self))"

record WilderRma =
  rma_length :: nat
  rma_samples :: nat
  rma_seed_sum :: f64
  rma_current :: "f64 option"

definition WilderRma_new :: "nat \<Rightarrow> WilderRma" where
  "WilderRma_new len = \<lparr>rma_length = len, rma_samples = 0, rma_seed_sum = 0, rma_current = None\<rparr>"

definition WilderRma_update :: "WilderRma \<Rightarrow> f64 \<Rightarrow> f64 option \<times> WilderRma" where
  "WilderRma_update self value =
     (case rma_current self of
        Some previous \<Rightarrow>
          (let len = usize_to_f64 (rma_length self);
               next_value = previous + (value - previous) / len in
           (Some next_value, self\<lparr>rma_current := Some next_value\<rparr>))
      | None \<Rightarrow>
          (let self = self\<lparr>rma_samples := rma_samples self + 1, rma_seed_sum := rma_seed_sum self + value\<rparr> in
           if rma_samples self < rma_length self then (None, self)
           else let seeded = rma_seed_sum self / usize_to_f64 (rma_length self) in
             (Some seeded, self\<lparr>rma_current := Some seeded\<rparr>)))"

record Rsi =
  rsi_up :: WilderRma
  rsi_down :: WilderRma
  rsi_prev :: "f64 option"

definition Rsi_new :: "nat \<Rightarrow> Rsi" where
  "Rsi_new len = \<lparr>rsi_up = WilderRma_new len, rsi_down = WilderRma_new len, rsi_prev = None\<rparr>"

definition rsi_value :: "f64 option \<Rightarrow> f64 option \<Rightarrow> f64 option" where
  "rsi_value up down =
     (case (up, down) of
        (Some up_value, Some down_value) \<Rightarrow>
          if down_value = 0 then Some (f64_rnd 100)
          else if up_value = 0 then Some 0
          else let rs = up_value / down_value in Some (f64_rnd 100 - f64_rnd 100 / (1 + rs))
      | _ \<Rightarrow> None)"

definition Rsi_update :: "Rsi \<Rightarrow> f64 \<Rightarrow> f64 option \<times> Rsi" where
  "Rsi_update self value =
     (case rsi_prev self of
        None \<Rightarrow> (None, self\<lparr>rsi_prev := Some value\<rparr>)
      | Some previous \<Rightarrow>
          (let change = value - previous;
               (up, up_state) = WilderRma_update (rsi_up self) (f64_max change 0);
               (down, down_state) = WilderRma_update (rsi_down self) (f64_max (- change) 0) in
           (rsi_value up down, self\<lparr>rsi_prev := Some value, rsi_up := up_state, rsi_down := down_state\<rparr>)))"

subsection \<open>Manifests\<close>

record IndicatorMarketSupport =
  equities :: bool
  crypto :: bool

definition IndicatorMarketSupport_BOTH :: IndicatorMarketSupport where
  "IndicatorMarketSupport_BOTH = \<lparr>equities = True, crypto = True\<rparr>"

fun market_supports :: "IndicatorMarketSupport \<Rightarrow> MarketType \<Rightarrow> bool" where
  "market_supports self Equities = equities self"
| "market_supports self Crypto = crypto self"

record IndicatorCapabilities =
  supports_intrabar :: bool
  supports_preview :: bool
  supports_confirmed :: bool

fun capabilities_supports_phase :: "IndicatorCapabilities \<Rightarrow> SignalPhase \<Rightarrow> bool" where
  "capabilities_supports_phase self Preview = supports_preview self"
| "capabilities_supports_phase self Confirmed = supports_confirmed self"

record IndicatorWarmupRequirements =
  minimum_confirmed_bars :: nat
  recommended_backfill_bars :: nat

record IndicatorManifest =
  im_type_id :: string
  im_family :: string
  im_role_default :: IndicatorRole
  im_allowed_roles :: "IndicatorRole list"
  im_stability_class :: IndicatorStabilityClass
  im_market_support :: IndicatorMarketSupport
  im_capabilities :: IndicatorCapabilities
  im_warmup :: IndicatorWarmupRequirements
  im_metadata :: IndicatorMetadataCapabilities

definition supports_market :: "IndicatorManifest \<Rightarrow> MarketType \<Rightarrow> bool" where
  "supports_market self market = market_supports (im_market_support self) market"

definition supports_phase :: "IndicatorManifest \<Rightarrow> SignalPhase \<Rightarrow> bool" where
  "supports_phase self phase = capabilities_supports_phase (im_capabilities self) phase"

definition sma_MANIFEST :: IndicatorManifest where
  "sma_MANIFEST = \<lparr>im_type_id = ''sma_crossover'', im_family = ''trend'', im_role_default = PrimarySignal,
     im_allowed_roles = [PrimarySignal], im_stability_class = StableOnClose,
     im_market_support = IndicatorMarketSupport_BOTH,
     im_capabilities = \<lparr>supports_intrabar = True, supports_preview = True, supports_confirmed = True\<rparr>,
     im_warmup = \<lparr>minimum_confirmed_bars = 50, recommended_backfill_bars = 200\<rparr>,
     im_metadata = \<lparr>supports_strength = False, supports_reason_code = True, supports_tags = False,
       supports_facts = True, supports_trade_levels = False\<rparr>\<rparr>"

definition rsi_MANIFEST :: IndicatorManifest where
  "rsi_MANIFEST = \<lparr>im_type_id = ''rsi_threshold'', im_family = ''momentum'', im_role_default = Filter,
     im_allowed_roles = [Filter, Context], im_stability_class = StableOnClose,
     im_market_support = IndicatorMarketSupport_BOTH,
     im_capabilities = \<lparr>supports_intrabar = True, supports_preview = True, supports_confirmed = True\<rparr>,
     im_warmup = \<lparr>minimum_confirmed_bars = 50, recommended_backfill_bars = 200\<rparr>,
     im_metadata = \<lparr>supports_strength = False, supports_reason_code = True, supports_tags = False,
       supports_facts = True, supports_trade_levels = False\<rparr>\<rparr>"

subsection \<open>SMA crossover\<close>

datatype SmaCrossoverError =
    InvalidFastLength nat
  | InvalidSlowLength nat
  | FastLengthTooLarge nat nat
  | SlowLengthTooLarge nat nat
  | InvalidWindowOrder nat nat

definition MAX_LENGTH :: nat where
  "MAX_LENGTH = 10000"

record SmaCrossoverParams =
  sp_fast_length :: nat
  sp_slow_length :: nat

definition SmaCrossoverParams_new :: "nat \<Rightarrow> nat \<Rightarrow> SmaCrossoverError + SmaCrossoverParams" where
  "SmaCrossoverParams_new fast_length slow_length =
     (if fast_length = 0 then Inl (InvalidFastLength fast_length)
      else if slow_length = 0 then Inl (InvalidSlowLength slow_length)
      else if MAX_LENGTH < fast_length then Inl (FastLengthTooLarge fast_length MAX_LENGTH)
      else if MAX_LENGTH < slow_length then Inl (SlowLengthTooLarge slow_length MAX_LENGTH)
      else if slow_length \<le> fast_length then Inl (InvalidWindowOrder fast_length slow_length)
      else Inr \<lparr>sp_fast_length = fast_length, sp_slow_length = slow_length\<rparr>)"

record SmaCrossoverSnapshot =
  ss_fast_sma :: "f64 option"
  ss_slow_sma :: "f64 option"
  ss_fast_length :: nat
  ss_slow_length :: nat
  ss_signal :: IndicatorSignal

record SmaCrossoverIndicator =
  sci_params :: SmaCrossoverParams
  sci_fast_sma :: Sma
  sci_slow_sma :: Sma
  sci_prev_fast_sma :: "f64 option"
  sci_prev_slow_sma :: "f64 option"
  sci_last_bar_timestamp_ms :: "int option"

definition SmaCrossoverIndicator_new :: "SmaCrossoverParams \<Rightarrow> SmaCrossoverIndicator" where
  "SmaCrossoverIndicator_new params = \<lparr>sci_params = params,
     sci_fast_sma = Sma_new (sp_fast_length params), sci_slow_sma = Sma_new (sp_slow_length params),
     sci_prev_fast_sma = None, sci_prev_slow_sma = None, sci_last_bar_timestamp_ms = None\<rparr>"

definition SmaCrossoverIndicator_try_new :: "nat \<Rightarrow> nat \<Rightarrow> SmaCrossoverError + SmaCrossoverIndicator" where
  "SmaCrossoverIndicator_try_new fast_length slow_length =
     (case SmaCrossoverParams_new fast_length slow_length of
        Inl e \<Rightarrow> Inl e | Inr params \<Rightarrow> Inr (SmaCrossoverIndicator_new params))"

definition sma_is_bar_out_of_order :: "SmaCrossoverIndicator \<Rightarrow> OhlcvBar \<Rightarrow> bool" where
  "sma_is_bar_out_of_order self bar =
     (case sci_last_bar_timestamp_ms self of
        None \<Rightarrow> False | Some previous_ms \<Rightarrow> timestamp_millis (bar_timestamp bar) < previous_ms)"

fun buy_signal :: "SignalPhase \<Rightarrow> IndicatorSignal" where
  "buy_signal Preview = BuyPreview"
| "buy_signal Confirmed = BuyConfirmed"

fun sell_signal :: "SignalPhase \<Rightarrow> IndicatorSignal" where
  "sell_signal Preview = SellPreview"
| "sell_signal Confirmed = SellConfirmed"

definition sma_signal :: "SmaCrossoverIndicator \<Rightarrow> f64 option \<Rightarrow> f64 option \<Rightarrow> SignalPhase \<Rightarrow> IndicatorSignal" where
  "sma_signal self fast_sma slow_sma phase =
     (case (fast_sma, slow_sma) of
        (Some fast, Some slow) \<Rightarrow>
          if crossover (sci_prev_fast_sma self) (sci_prev_slow_sma self) fast slow then buy_signal phase
          else if crossunder (sci_prev_fast_sma self) (sci_prev_slow_sma self) fast slow then sell_signal phase
          else NoSignal
      | _ \<Rightarrow> NoSignal)"

definition sma_update :: "SmaCrossoverIndicator \<Rightarrow> OhlcvBar \<Rightarrow> SignalPhase \<Rightarrow> SmaCrossoverSnapshot \<times> SmaCrossoverIndicator" where
  "sma_update self bar phase =
     (let (fast_sma, fast_state) = Sma_update (sci_fast_sma self) (bar_close bar);
          (slow_sma, slow_state) = Sma_update (sci_slow_sma self) (bar_close bar);
          signal = sma_signal self fast_sma slow_sma phase in
      (\<lparr>ss_fast_sma = fast_sma, ss_slow_sma = slow_sma, ss_fast_length = sp_fast_length (sci_params self),
        ss_slow_length = sp_slow_length (sci_params self), ss_signal = signal\<rparr>,
       self\<lparr>sci_fast_sma := fast_state, sci_slow_sma := slow_state, sci_prev_fast_sma := fast_sma,
         sci_prev_slow_sma := slow_sma,
         sci_last_bar_timestamp_ms := Some (timestamp_millis (bar_timestamp bar))\<rparr>))"

text \<open>A \<open>BTreeMap\<close> iterates in the order of its keys: the facts are listed in that order.\<close>

definition opt_fact :: "string \<Rightarrow> f64 option \<Rightarrow> (string \<times> IndicatorFactValue) list" where
  "opt_fact key v = (case v of None \<Rightarrow> [] | Some x \<Rightarrow> [(key, FFloat x)])"

definition sma_metadata :: "SmaCrossoverSnapshot \<Rightarrow> SignalMetadata" where
  "sma_metadata self = SignalMetadata_default
     \<lparr>md_reason_code := (case ss_signal self of
          BuyPreview \<Rightarrow> Some ''sma_cross_up'' | BuyConfirmed \<Rightarrow> Some ''sma_cross_up''
        | SellPreview \<Rightarrow> Some ''sma_cross_down'' | SellConfirmed \<Rightarrow> Some ''sma_cross_down''
        | NoSignal \<Rightarrow> None),
      md_facts := [(''fast_length'', fact_of_usize (ss_fast_length self))] @ opt_fact ''fast_sma'' (ss_fast_sma self)
        @ [(''slow_length'', fact_of_usize (ss_slow_length self))] @ opt_fact ''slow_sma'' (ss_slow_sma self)\<rparr>"

subsection \<open>RSI threshold\<close>

datatype RsiThresholdError =
    InvalidPeriod nat
  | PeriodTooLarge nat nat
  | InvalidOversold f64
  | InvalidOverbought f64
  | InvalidThresholdOrder f64 f64

definition MAX_PERIOD :: nat where
  "MAX_PERIOD = 10000"

record RsiThresholdParams =
  rp_period :: nat
  rp_oversold :: f64
  rp_overbought :: f64

definition RsiThresholdParams_new :: "nat \<Rightarrow> f64 \<Rightarrow> f64 \<Rightarrow> RsiThresholdError + RsiThresholdParams" where
  "RsiThresholdParams_new period oversold overbought =
     (if period = 0 then Inl (InvalidPeriod period)
      else if MAX_PERIOD < period then Inl (PeriodTooLarge period MAX_PERIOD)
      else if \<not> (0 \<le> oversold \<and> oversold < f64_rnd 100) then Inl (InvalidOversold oversold)
      else if \<not> (0 \<le> overbought \<and> overbought < f64_rnd 100) then Inl (InvalidOverbought overbought)
      else if overbought \<le> oversold then Inl (InvalidThresholdOrder oversold overbought)
      else Inr \<lparr>rp_period = period, rp_oversold = oversold, rp_overbought = overbought\<rparr>)"

record RsiThresholdSnapshot =
  rs_rsi :: "f64 option"
  rs_period :: nat
  rs_oversold :: f64
  rs_overbought :: f64
  rs_signal :: IndicatorSignal

record RsiThresholdIndicator =
  rti_params :: RsiThresholdParams
  rti_rsi :: Rsi
  rti_prev_rsi :: "f64 option"
  rti_last_bar_timestamp_ms :: "int option"

definition RsiThresholdIndicator_new :: "RsiThresholdParams \<Rightarrow> RsiThresholdIndicator" where
  "RsiThresholdIndicator_new params = \<lparr>rti_params = params, rti_rsi = Rsi_new (rp_period params),
     rti_prev_rsi = None, rti_last_bar_timestamp_ms = None\<rparr>"

definition RsiThresholdIndicator_try_new :: "nat \<Rightarrow> f64 \<Rightarrow> f64 \<Rightarrow> RsiThresholdError + RsiThresholdIndicator" where
  "RsiThresholdIndicator_try_new period oversold overbought =
     (case RsiThresholdParams_new period oversold overbought of
        Inl e \<Rightarrow> Inl e | Inr params \<Rightarrow> Inr (RsiThresholdIndicator_new params))"

definition rsi_is_bar_out_of_order :: "RsiThresholdIndicator \<Rightarrow> OhlcvBar \<Rightarrow> bool" where
  "rsi_is_bar_out_of_order self bar =
     (case rti_last_bar_timestamp_ms self of
        None \<Rightarrow> False | Some previous_ms \<Rightarrow> timestamp_millis (bar_timestamp bar) < previous_ms)"

definition rsi_signal :: "RsiThresholdIndicator \<Rightarrow> f64 option \<Rightarrow> SignalPhase \<Rightarrow> IndicatorSignal" where
  "rsi_signal self rsi phase =
     (case rsi of
        None \<Rightarrow> NoSignal
      | Some value \<Rightarrow>
          if crossover (rti_prev_rsi self) (Some (rp_oversold (rti_params self))) value (rp_oversold (rti_params self))
          then buy_signal phase
          else if crossunder (rti_prev_rsi self) (Some (rp_overbought (rti_params self))) value (rp_overbought (rti_params self))
          then sell_signal phase
          else NoSignal)"

definition rsi_update :: "RsiThresholdIndicator \<Rightarrow> OhlcvBar \<Rightarrow> SignalPhase \<Rightarrow> RsiThresholdSnapshot \<times> RsiThresholdIndicator" where
  "rsi_update self bar phase =
     (let (rsi, rsi_state) = Rsi_update (rti_rsi self) (bar_close bar);
          signal = rsi_signal self rsi phase in
      (\<lparr>rs_rsi = rsi, rs_period = rp_period (rti_params self), rs_oversold = rp_oversold (rti_params self),
        rs_overbought = rp_overbought (rti_params self), rs_signal = signal\<rparr>,
       self\<lparr>rti_rsi := rsi_state, rti_prev_rsi := rsi,
         rti_last_bar_timestamp_ms := Some (timestamp_millis (bar_timestamp bar))\<rparr>))"

definition rsi_metadata :: "RsiThresholdSnapshot \<Rightarrow> SignalMetadata" where
  "rsi_metadata self = SignalMetadata_default
     \<lparr>md_reason_code := (case rs_signal self of
          BuyPreview \<Rightarrow> Some ''rsi_recovery_from_oversold'' | BuyConfirmed \<Rightarrow> Some ''rsi_recovery_from_oversold''
        | SellPreview \<Rightarrow> Some ''rsi_drop_from_overbought'' | SellConfirmed \<Rightarrow> Some ''rsi_drop_from_overbought''
        | NoSignal \<Rightarrow> None),
      md_facts := [(''overbought'', FFloat (rs_overbought self)), (''oversold'', FFloat (rs_oversold self)),
        (''period'', fact_of_usize (rs_period self))] @ opt_fact ''rsi'' (rs_rsi self)\<rparr>"

subsection \<open>Engines\<close>

record IndicatorEvaluation =
  ie_signal :: IndicatorSignal
  ie_metadata :: SignalMetadata

datatype IndicatorBuildError = UnsupportedType string | InvalidParameters string

datatype IndicatorEngine = SmaEngine SmaCrossoverIndicator | RsiEngine RsiThresholdIndicator

fun engine_type_id :: "IndicatorEngine \<Rightarrow> string" where
  "engine_type_id (SmaEngine _) = im_type_id sma_MANIFEST"
| "engine_type_id (RsiEngine _) = im_type_id rsi_MANIFEST"

definition sma_evaluate :: "SmaCrossoverIndicator \<Rightarrow> OhlcvBar \<Rightarrow> SignalPhase \<Rightarrow> IndicatorEvaluation \<times> SmaCrossoverIndicator" where
  "sma_evaluate self bar phase =
     (let (snapshot, self) = sma_update self bar phase in
      (\<lparr>ie_signal = ss_signal snapshot, ie_metadata = sma_metadata snapshot\<rparr>, self))"

definition rsi_evaluate :: "RsiThresholdIndicator \<Rightarrow> OhlcvBar \<Rightarrow> SignalPhase \<Rightarrow> IndicatorEvaluation \<times> RsiThresholdIndicator" where
  "rsi_evaluate self bar phase =
     (let (snapshot, self) = rsi_update self bar phase in
      (\<lparr>ie_signal = rs_signal snapshot, ie_metadata = rsi_metadata snapshot\<rparr>, self))"

fun engine_evaluate :: "IndicatorEngine \<Rightarrow> OhlcvBar \<Rightarrow> SignalPhase \<Rightarrow> IndicatorEvaluation \<times> IndicatorEngine" where
  "engine_evaluate (SmaEngine self) bar phase = (let (ev, self) = sma_evaluate self bar phase in (ev, SmaEngine self))"
| "engine_evaluate (RsiEngine self) bar phase = (let (ev, self) = rsi_evaluate self bar phase in (ev, RsiEngine self))"

fun sma_error_text :: "SmaCrossoverError \<Rightarrow> string" where
  "sma_error_text (InvalidFastLength n) = ''fast_length must be greater than zero, got `'' @ show_int (int n) @ ''`''"
| "sma_error_text (InvalidSlowLength n) = ''slow_length must be greater than zero, got `'' @ show_int (int n) @ ''`''"
| "sma_error_text (FastLengthTooLarge n mx) = ''fast_length `'' @ show_int (int n) @ ''` must not exceed `'' @ show_int (int mx) @ ''`''"
| "sma_error_text (SlowLengthTooLarge n mx) = ''slow_length `'' @ show_int (int n) @ ''` must not exceed `'' @ show_int (int mx) @ ''`''"
| "sma_error_text (InvalidWindowOrder f s) = ''fast_length `'' @ show_int (int f) @ ''` must be less than slow_length `'' @ show_int (int s) @ ''`''"

fun rsi_error_text :: "RsiThresholdError \<Rightarrow> string" where
  "rsi_error_text (InvalidPeriod n) = ''period must be greater than zero, got `'' @ show_int (int n) @ ''`''"
| "rsi_error_text (PeriodTooLarge n mx) = ''period `'' @ show_int (int n) @ ''` must not exceed `'' @ show_int (int mx) @ ''`''"
| "rsi_error_text (InvalidOversold x) = ''oversold must be between 0 and 100, got `'' @ show_f64 x @ ''`''"
| "rsi_error_text (InvalidOverbought x) = ''overbought must be between 0 and 100, got `'' @ show_f64 x @ ''`''"
| "rsi_error_text (InvalidThresholdOrder x y) = ''oversold `'' @ show_f64 x @ ''` must be less than overbought `'' @ show_f64 y @ ''`''"

definition sma_build :: "('v \<Rightarrow> int option) \<Rightarrow> (string \<Rightarrow> 'v option) \<Rightarrow> IndicatorBuildError + IndicatorEngine" where
  "sma_build as_integer params =
     (let fast_length = (case indicator_param_usize as_integer params ''fast_length'' of None \<Rightarrow> 10 | Some n \<Rightarrow> n);
          slow_length = (case indicator_param_usize as_integer params ''slow_length'' of None \<Rightarrow> 30 | Some n \<Rightarrow> n) in
      case SmaCrossoverIndicator_try_new fast_length slow_length of
        Inr indicator \<Rightarrow> Inr (SmaEngine indicator)
      | Inl e \<Rightarrow> Inl (InvalidParameters (sma_error_text e)))"

definition rsi_build :: "('v \<Rightarrow> f64 option) \<Rightarrow> ('v \<Rightarrow> int option) \<Rightarrow> (string \<Rightarrow> 'v option) \<Rightarrow> IndicatorBuildError + IndicatorEngine" where
  "rsi_build as_float as_integer params =
     (let period = (case indicator_param_usize as_integer params ''period'' of None \<Rightarrow> 14 | Some n \<Rightarrow> n);
          oversold = (case indicator_param_f64 as_float as_integer params ''oversold'' of None \<Rightarrow> f64_rnd 30 | Some x \<Rightarrow> x);
          overbought = (case indicator_param_f64 as_float as_integer params ''overbought'' of None \<Rightarrow> f64_rnd 70 | Some x \<Rightarrow> x) in
      case RsiThresholdIndicator_try_new period oversold overbought of
        Inr indicator \<Rightarrow> Inr (RsiEngine indicator)
      | Inl e \<Rightarrow> Inl (InvalidParameters (rsi_error_text e)))"

definition builtin_manifests :: "IndicatorManifest list" where
  "builtin_manifests = [sma_MANIFEST, rsi_MANIFEST]"

definition indicator_manifest :: "string \<Rightarrow> IndicatorManifest option" where
  "indicator_manifest type_id = find (\<lambda>m. im_type_id m = type_id) builtin_manifests"

definition build_builtin_engine ::
    "('v \<Rightarrow> f64 option) \<Rightarrow> ('v \<Rightarrow> int option) \<Rightarrow> string \<Rightarrow> (string \<Rightarrow> 'v option) \<Rightarrow> IndicatorBuildError + IndicatorEngine" where
  "build_builtin_engine as_float as_integer type_id params =
     (case indicator_manifest type_id of
        None \<Rightarrow> Inl (UnsupportedType type_id)
      | Some manifest \<Rightarrow>
          if im_type_id manifest = im_type_id sma_MANIFEST then sma_build as_integer params
          else rsi_build as_float as_integer params)"

subsection \<open>Moving averages\<close>

text \<open>The state after feeding a list of samples, and the average after the last of them.\<close>

definition sma_feed :: "nat \<Rightarrow> f64 list \<Rightarrow> Sma" where
  "sma_feed n xs = foldl (\<lambda>s x. snd (Sma_update s x)) (Sma_new n) xs"

definition sma_at :: "nat \<Rightarrow> f64 list \<Rightarrow> f64 option" where
  "sma_at n xs = (if xs = [] then None else fst (Sma_update (sma_feed n (butlast xs)) (last xs)))"

lemma sma_feed_simps [simp]: "sma_feed n [] = Sma_new n" "sma_feed n (xs @ [x]) = snd (Sma_update (sma_feed n xs) x)"
  by (simp_all add: sma_feed_def)

lemma sma_at_snoc [simp]: "sma_at n [] = None" "sma_at n (xs @ [x]) = fst (Sma_update (sma_feed n xs) x)"
  by (simp_all add: sma_at_def)

lemma Sma_update_window:
  "sma_length (snd (Sma_update s x)) = sma_length s"
  "sma_values (snd (Sma_update s x)) =
     (if sma_length s < length (sma_values s) + 1 then tl (sma_values s @ [x]) else sma_values s @ [x])"
  "sma_sum (snd (Sma_update s x)) =
     (if sma_length s < length (sma_values s) + 1 then sma_sum s + x - hd (sma_values s @ [x]) else sma_sum s + x)"
  "fst (Sma_update s x) =
     (if length (sma_values (snd (Sma_update s x))) = sma_length s
      then Some (sma_sum (snd (Sma_update s x)) / usize_to_f64 (sma_length s)) else None)"
  by (cases "sma_values s"; simp add: Sma_update_def Let_def)+

lemma sma_feed_window: "sma_length (sma_feed n xs) = n \<and> sma_values (sma_feed n xs) = drop (length xs - n) xs"
proof (induction xs rule: rev_induct)
  case (snoc x xs)
  have "tl (drop (length xs - n) xs @ [x]) = drop (Suc (length xs) - n) (xs @ [x])" if "n < Suc (length xs)"
  proof -
    have "drop (Suc (length xs - n)) (xs @ [x]) = tl (drop (length xs - n) (xs @ [x]))"
      by (simp only: drop_Suc tl_drop)
    then show ?thesis using that by (simp add: Suc_diff_le)
  qed
  with snoc show ?case by (auto simp: Sma_update_window)
qed (simp add: Sma_new_def)

lemma sma_at_None_iff: "sma_at n xs = None \<longleftrightarrow> xs = [] \<or> length xs < n"
proof (cases xs rule: rev_cases)
  case (snoc ys y)
  have "length (sma_values (sma_feed n xs)) = min n (length xs)" by (simp add: sma_feed_window)
  then show ?thesis unfolding snoc sma_at_snoc
    by (auto simp: Sma_update_window(4) sma_feed_window simp del: sma_feed_simps
        simp: sma_feed_simps(2) [symmetric])
qed simp

text \<open>Prices in whole ticks: every partial sum is an integer below \<open>2^53\<close>, so nothing is rounded.\<close>

abbreviation ticks :: "int list \<Rightarrow> f64 list" where
  "ticks ks \<equiv> map (\<lambda>k. f64_rnd (of_int k)) ks"

lemma sum_list_abs_le: "(\<And>k. k \<in> set ks \<Longrightarrow> \<bar>k\<bar> \<le> B) \<Longrightarrow> \<bar>sum_list ks\<bar> \<le> int (length ks) * B"
  by (induction ks) (simp, fastforce simp: algebra_simps)

lemma tick_add: "\<bar>a\<bar> \<le> 2 ^ 53 \<Longrightarrow> \<bar>b\<bar> \<le> 2 ^ 53 \<Longrightarrow> f64_rnd (of_int a) + f64_rnd (of_int b) = f64_rnd (of_int (a + b))"
  "\<bar>a\<bar> \<le> 2 ^ 53 \<Longrightarrow> \<bar>b\<bar> \<le> 2 ^ 53 \<Longrightarrow> f64_rnd (of_int a) - f64_rnd (of_int b) = f64_rnd (of_int (a - b))"
  using f64_rnd_int_exact [of a] f64_rnd_int_exact [of b] by (simp_all add: plus_f64_fin minus_f64_fin)

lemma sma_feed_ticks:
  assumes "0 < n" "\<And>k. k \<in> set ks \<Longrightarrow> \<bar>k\<bar> \<le> B" "int (n + 1) * B \<le> 2 ^ 53"
  shows "sma_sum (sma_feed n (ticks ks)) = f64_rnd (of_int (sum_list (drop (length ks - n) ks)))"
  using assms(2)
proof (induction ks rule: rev_induct)
  case (snoc k ks)
  let ?w = "drop (length ks - n) ks"
  have "0 \<le> B" using snoc.prems [of k] by simp
  have kB: "\<bar>k\<bar> \<le> B" using snoc.prems by simp
  have "int (n + 1) * B = int n * B + B" "0 \<le> int n * B" using \<open>0 \<le> B\<close> by (simp_all add: algebra_simps)
  then have B53: "B \<le> 2 ^ 53" using assms(3) by linarith
  have w: "\<bar>sum_list ?w\<bar> \<le> int (length ?w) * B"
    by (rule sum_list_abs_le) (use snoc.prems in \<open>auto dest: in_set_dropD\<close>)
  have "int (length ?w) * B \<le> int n * B" using \<open>0 \<le> B\<close> by (intro mult_right_mono) auto
  then have b: "\<bar>sum_list ?w\<bar> \<le> 2 ^ 53" "\<bar>k\<bar> \<le> 2 ^ 53" "\<bar>sum_list ?w + k\<bar> \<le> 2 ^ 53"
    using w kB assms(3) \<open>0 \<le> B\<close> mult_nonneg_nonneg [of "int n" B] by (auto simp: algebra_simps)
  have IH: "sma_sum (sma_feed n (ticks ks)) = f64_rnd (of_int (sum_list ?w))" using snoc by simp
  show ?case
  proof (cases "n \<le> length ks")
    case True
    then obtain h t where ht: "?w = h # t" using assms(1) by (cases ?w) auto
    have "drop (Suc (length ks) - n) ks = t"
      using ht True by (metis Suc_diff_le drop_Suc list.sel(3) tl_drop)
    moreover have "h \<in> set ks" using ht by (metis in_set_dropD list.set_intros(1))
    then have h53: "\<bar>h\<bar> \<le> 2 ^ 53" using snoc.prems [of h] B53 by simp
    moreover have "length (h # t) = n" unfolding ht [symmetric] using True by simp
    moreover have "f64_rnd (of_int (sum_list ?w)) + f64_rnd (of_int k) - f64_rnd (of_int h)
        = f64_rnd (of_int (sum_list ?w + k - h))"
      using b h53 by (simp only: tick_add)
    ultimately show ?thesis
      using IH ht True assms(1)
      by (simp add: Sma_update_window sma_feed_window drop_map Suc_diff_le algebra_simps)
  next
    case False
    then show ?thesis using IH b by (simp add: Sma_update_window sma_feed_window tick_add)
  qed
qed (simp add: Sma_new_def)

subsection \<open>Relative strength\<close>

text \<open>The invariant of a smoothed average: sums and averages are non-negative, averages finite.\<close>

definition rma_ok :: "WilderRma \<Rightarrow> bool" where
  "rma_ok s \<longleftrightarrow> 0 < rma_length s \<and> rma_length s \<le> MAX_PERIOD \<and> 0 \<le> rma_seed_sum s
     \<and> (case rma_current s of None \<Rightarrow> True | Some c \<Rightarrow> is_finite c \<and> 0 \<le> c)"

definition rma_finite :: "WilderRma \<Rightarrow> bool" where
  "rma_finite s \<longleftrightarrow> (case rma_current s of None \<Rightarrow> True | Some c \<Rightarrow> is_finite c)"

definition rsi_ok :: "Rsi \<Rightarrow> bool" where
  "rsi_ok s \<longleftrightarrow> rma_ok (rsi_up s) \<and> rma_ok (rsi_down s)"

lemma period_f64:
  assumes "0 < n" "n \<le> MAX_PERIOD"
  shows "is_finite (usize_to_f64 n)" "fval (usize_to_f64 n) = of_nat n" "0 < usize_to_f64 n"
proof -
  have "\<bar>int n\<bar> \<le> 2 ^ 53" using assms by (simp add: MAX_PERIOD_def)
  then show f: "is_finite (usize_to_f64 n)" and v: "fval (usize_to_f64 n) = of_nat n"
    using f64_rnd_int_exact [of "int n"] by (simp_all add: usize_to_f64_def f64_of_nat_def)
  show "0 < usize_to_f64 n" using less_f64_fin [of 0 "usize_to_f64 n"] f v assms(1) by simp
qed

lemma rma_step_nonneg:
  assumes "is_finite c" "0 \<le> c" "is_finite v" "0 \<le> v" "is_finite l" "1 \<le> fval l"
  shows "0 \<le> c + (v - c) / l"
proof -
  let ?d = "v - c"
  have cv: "0 \<le> fval c" "0 \<le> fval v" using assms by (simp_all add: le_f64_fin)
  have d: "?d = f64_rnd (fval v - fval c)" using assms by (simp add: minus_f64_fin)
  have "- c \<le> ?d" "?d \<le> v" unfolding d using assms cv
    by (auto simp: uminus_f64_fin intro!: f64_rnd_ge f64_rnd_le)
  then have fd: "is_finite ?d" "- fval c \<le> fval ?d"
    using assms by (cases ?d rule: f64_cases; simp add: uminus_f64_fin le_f64_fin)+
  have "- fval c \<le> fval ?d / fval l"
  proof (cases "0 \<le> fval ?d")
    case True
    have "0 \<le> fval ?d / fval l" using True assms(6) by simp
    then show ?thesis using cv by simp
  next
    case False
    have "fval ?d * fval l \<le> fval ?d * 1" using False assms(6) by (intro mult_left_mono_neg) auto
    then have "fval ?d \<le> fval ?d / fval l" using assms(6) by (simp add: pos_le_divide_eq)
    then show ?thesis using fd(2) by simp
  qed
  then have "- c \<le> ?d / l" using fd(1) assms by (simp add: divide_f64_fin uminus_f64_fin f64_rnd_ge)
  then have "- c + c \<le> ?d / l + c" by (rule f64_add_right_mono [OF assms(1)])
  moreover have "- c + c = 0" using assms(1) by (simp add: plus_f64_fin uminus_f64_fin)
  ultimately show ?thesis by (simp add: f64_add_commute)
qed

lemma rma_update_ok:
  assumes "rma_ok s" "is_finite v" "0 \<le> v" "rma_finite (snd (WilderRma_update s v))"
  shows "rma_ok (snd (WilderRma_update s v))"
    and "fst (WilderRma_update s v) = rma_current (snd (WilderRma_update s v))"
proof -
  note l = period_f64 [of "rma_length s"]
  have "1 \<le> fval (usize_to_f64 (rma_length s))" using assms(1) l by (simp add: rma_ok_def)
  then have c: "0 \<le> c + (v - c) / usize_to_f64 (rma_length s)" if "rma_current s = Some c" for c
    using that assms l by (intro rma_step_nonneg) (auto simp: rma_ok_def)
  have "0 \<le> rma_seed_sum s + v" using assms by (simp add: rma_ok_def f64_add_nonneg)
  moreover from this have "0 \<le> (rma_seed_sum s + v) / usize_to_f64 (rma_length s)"
    using f64_div_right_mono [OF l(1,3), of 0 "rma_seed_sum s + v"] assms(1) l
    by (simp add: rma_ok_def divide_f64_fin)
  ultimately show "rma_ok (snd (WilderRma_update s v))"
    using assms c by (auto simp: rma_ok_def rma_finite_def WilderRma_update_def Let_def split: option.splits if_splits)
  show "fst (WilderRma_update s v) = rma_current (snd (WilderRma_update s v))"
    by (simp add: WilderRma_update_def Let_def split: option.splits)
qed

lemma hundred_facts: "is_finite (f64_rnd 100)" "0 \<le> f64_rnd 100" "is_finite (1::f64)" "fval (1::f64) = 1" "0 \<le> (1::f64)"
  using f64_rnd_int_exact [of 100] f64_rnd_int_exact [of 1] by (simp_all add: le_f64_fin) code_simp+

lemma rsi_value_range:
  assumes "is_finite u" "0 \<le> u" "is_finite d" "0 \<le> d" "rsi_value (Some u) (Some d) = Some r"
  shows "0 \<le> r \<and> r \<le> f64_rnd 100"
proof (cases "d = 0 \<or> u = 0")
  case True
  then show ?thesis using assms(5) hundred_facts by (auto simp: rsi_value_def f64_le_refl split: if_splits)
next
  case False
  define t where "t = f64_rnd 100 / (1 + u / d)"
  have r: "r = f64_rnd 100 - t" using assms(5) False by (simp add: rsi_value_def Let_def t_def)
  have "0 < d" using assms(4) False by (auto simp: le_f64_iff)
  then have q: "0 \<le> u / d" using f64_div_nonneg assms by blast
  have s: "1 \<le> 1 + u / d" by (rule nonneg_add_ge [OF hundred_facts(5) q])
  have "0 \<le> t \<and> t \<le> f64_rnd 100"
  proof (cases "1 + u / d" rule: f64_cases)
    case fin
    then have "1 \<le> fval (1 + u / d)" using s hundred_facts by (simp add: le_f64_fin)
    moreover from this have "fval (f64_rnd 100) / fval (1 + u / d) \<le> fval (f64_rnd 100)"
      using hundred_facts by (simp add: divide_le_eq le_f64_fin mult_le_cancel_left1)
    ultimately show ?thesis using fin hundred_facts
      by (simp add: t_def divide_f64_fin f64_rnd_nonneg f64_rnd_le le_f64_fin)
  qed (use s hundred_facts in \<open>auto simp: t_def f64_le_refl\<close>)
  then have t: "is_finite t" "0 \<le> t" "t \<le> f64_rnd 100"
    using hundred_facts(1) by (cases t rule: f64_cases; auto)+
  then show ?thesis unfolding r using f64_minus_nonneg_le [OF hundred_facts(1) t(2)] hundred_facts(1)
    by (simp add: minus_f64_fin f64_rnd_nonneg le_f64_fin)
qed

subsection \<open>The two-phase contract of an engine\<close>

fun as_preview :: "IndicatorSignal \<Rightarrow> IndicatorSignal" where
  "as_preview BuyConfirmed = BuyPreview"
| "as_preview SellConfirmed = SellPreview"
| "as_preview x = x"

text \<open>What the lanes rely on: the phase labels a signal but never changes the state, the metadata
  or whether there is a signal.\<close>

locale two_phase_engine =
  fixes ev :: "'s \<Rightarrow> OhlcvBar \<Rightarrow> SignalPhase \<Rightarrow> IndicatorEvaluation \<times> 's"
  assumes state_phase: "snd (ev s b p) = snd (ev s b q)"
    and metadata_phase: "ie_metadata (fst (ev s b p)) = ie_metadata (fst (ev s b q))"
    and confirmed_signal: "ie_signal (fst (ev s b Confirmed)) \<in> {NoSignal, BuyConfirmed, SellConfirmed}"
    and preview_signal: "ie_signal (fst (ev s b Preview)) = as_preview (ie_signal (fst (ev s b Confirmed)))"
begin

definition run :: "'s \<Rightarrow> (OhlcvBar \<times> SignalPhase) list \<Rightarrow> 's" where
  "run s steps = foldl (\<lambda>s (b, p). snd (ev s b p)) s steps"

lemma run_phase_independent: "map fst xs = map fst ys \<Longrightarrow> run s xs = run s ys"
proof (induction xs arbitrary: ys s)
  case (Cons x xs)
  then obtain y ys' where ys: "ys = y # ys'" "fst x = fst y" "map fst xs = map fst ys'" by (cases ys) auto
  have "snd (ev s (fst x) (snd x)) = snd (ev s (fst y) (snd y))" using ys(2) state_phase by metis
  with Cons.IH [OF ys(3)] show ?case unfolding ys(1) by (simp add: run_def case_prod_beta)
qed (simp add: run_def)

lemma preview_iff_confirmed:
  "ie_signal (fst (ev s b Preview)) = BuyPreview \<longleftrightarrow> ie_signal (fst (ev s b Confirmed)) = BuyConfirmed"
  "ie_signal (fst (ev s b Preview)) = SellPreview \<longleftrightarrow> ie_signal (fst (ev s b Confirmed)) = SellConfirmed"
  using confirmed_signal [of s b] by (auto simp: preview_signal)

end

definition engine_run :: "IndicatorEngine \<Rightarrow> (OhlcvBar \<times> SignalPhase) list \<Rightarrow> IndicatorEngine" where
  "engine_run e steps = foldl (\<lambda>e (b, p). snd (engine_evaluate e b p)) e steps"

lemma sma_signal_phase:
  "sma_signal self f s Preview = as_preview (sma_signal self f s Confirmed)"
  "sma_signal self f s Confirmed \<in> {NoSignal, BuyConfirmed, SellConfirmed}"
  by (auto simp: sma_signal_def split: option.splits)

lemma rsi_signal_phase:
  "rsi_signal self r Preview = as_preview (rsi_signal self r Confirmed)"
  "rsi_signal self r Confirmed \<in> {NoSignal, BuyConfirmed, SellConfirmed}"
  by (auto simp: rsi_signal_def split: option.splits)

lemma as_preview_reason:
  "x \<in> {NoSignal, BuyConfirmed, SellConfirmed} \<Longrightarrow>
     (case as_preview x of BuyPreview \<Rightarrow> a | BuyConfirmed \<Rightarrow> a | SellPreview \<Rightarrow> b | SellConfirmed \<Rightarrow> b | NoSignal \<Rightarrow> c)
   = (case x of BuyPreview \<Rightarrow> a | BuyConfirmed \<Rightarrow> a | SellPreview \<Rightarrow> b | SellConfirmed \<Rightarrow> b | NoSignal \<Rightarrow> c)"
  by auto

text \<open>A law that relates Preview to Confirmed extends to every pair of phases.\<close>

lemma all_phases: "f Preview = f Confirmed \<Longrightarrow> f p = f (q :: SignalPhase)"
  by (cases p; cases q) simp_all

interpretation sma_engine: two_phase_engine sma_evaluate
proof unfold_locales
  fix s b p q
  have r: "(case sma_signal self f sl Preview of BuyPreview \<Rightarrow> a | BuyConfirmed \<Rightarrow> a | SellPreview \<Rightarrow> b | SellConfirmed \<Rightarrow> b | NoSignal \<Rightarrow> c)
     = (case sma_signal self f sl Confirmed of BuyPreview \<Rightarrow> a | BuyConfirmed \<Rightarrow> a | SellPreview \<Rightarrow> b | SellConfirmed \<Rightarrow> b | NoSignal \<Rightarrow> c)"
    for self f sl and a b c :: "string option"
    unfolding sma_signal_phase(1) by (rule as_preview_reason [OF sma_signal_phase(2)])
  show "snd (sma_evaluate s b p) = snd (sma_evaluate s b q)"
    by (rule all_phases [of "\<lambda>p. snd (sma_evaluate s b p)"])
      (simp add: sma_evaluate_def sma_update_def case_prod_beta Let_def)
  show "ie_metadata (fst (sma_evaluate s b p)) = ie_metadata (fst (sma_evaluate s b q))"
    by (rule all_phases [of "\<lambda>p. ie_metadata (fst (sma_evaluate s b p))"])
      (simp add: sma_evaluate_def sma_update_def case_prod_beta Let_def sma_metadata_def r)
qed (simp_all add: sma_evaluate_def sma_update_def case_prod_beta Let_def sma_signal_phase(1)
    sma_signal_phase(2) [simplified])

interpretation rsi_engine: two_phase_engine rsi_evaluate
proof unfold_locales
  fix s b p q
  have r: "(case rsi_signal self v Preview of BuyPreview \<Rightarrow> a | BuyConfirmed \<Rightarrow> a | SellPreview \<Rightarrow> b | SellConfirmed \<Rightarrow> b | NoSignal \<Rightarrow> c)
     = (case rsi_signal self v Confirmed of BuyPreview \<Rightarrow> a | BuyConfirmed \<Rightarrow> a | SellPreview \<Rightarrow> b | SellConfirmed \<Rightarrow> b | NoSignal \<Rightarrow> c)"
    for self v and a b c :: "string option"
    unfolding rsi_signal_phase(1) by (rule as_preview_reason [OF rsi_signal_phase(2)])
  show "snd (rsi_evaluate s b p) = snd (rsi_evaluate s b q)"
    by (rule all_phases [of "\<lambda>p. snd (rsi_evaluate s b p)"])
      (simp add: rsi_evaluate_def rsi_update_def case_prod_beta Let_def)
  show "ie_metadata (fst (rsi_evaluate s b p)) = ie_metadata (fst (rsi_evaluate s b q))"
    by (rule all_phases [of "\<lambda>p. ie_metadata (fst (rsi_evaluate s b p))"])
      (simp add: rsi_evaluate_def rsi_update_def case_prod_beta Let_def rsi_metadata_def r)
qed (simp_all add: rsi_evaluate_def rsi_update_def case_prod_beta Let_def rsi_signal_phase(1)
    rsi_signal_phase(2) [simplified])

interpretation engine: two_phase_engine engine_evaluate
  rewrites "two_phase_engine.run engine_evaluate = engine_run"
proof -
  have e: "fst (engine_evaluate (SmaEngine a) b p) = fst (sma_evaluate a b p)"
    "snd (engine_evaluate (SmaEngine a) b p) = SmaEngine (snd (sma_evaluate a b p))"
    "fst (engine_evaluate (RsiEngine c) b p) = fst (rsi_evaluate c b p)"
    "snd (engine_evaluate (RsiEngine c) b p) = RsiEngine (snd (rsi_evaluate c b p))" for a b c p
    by (simp_all add: case_prod_beta Let_def)
  show tp: "two_phase_engine engine_evaluate"
  proof
    fix s b p q
    show "snd (engine_evaluate s b p) = snd (engine_evaluate s b q)"
      by (cases s) (simp_all only: e sma_engine.state_phase [of _ b p q] rsi_engine.state_phase [of _ b p q])
    show "ie_metadata (fst (engine_evaluate s b p)) = ie_metadata (fst (engine_evaluate s b q))"
      by (cases s) (simp_all only: e sma_engine.metadata_phase [of _ b p q] rsi_engine.metadata_phase [of _ b p q])
    show "ie_signal (fst (engine_evaluate s b Confirmed)) \<in> {NoSignal, BuyConfirmed, SellConfirmed}"
      by (cases s) (simp_all only: e sma_engine.confirmed_signal rsi_engine.confirmed_signal)
    show "ie_signal (fst (engine_evaluate s b Preview)) = as_preview (ie_signal (fst (engine_evaluate s b Confirmed)))"
      by (cases s) (simp_all only: e sma_engine.preview_signal rsi_engine.preview_signal)
  qed
  show "two_phase_engine.run engine_evaluate = engine_run"
    by (intro ext) (simp add: two_phase_engine.run_def [OF tp] engine_run_def)
qed

subsection \<open>Histories of the crossover indicator\<close>

definition sma_run :: "SmaCrossoverParams \<Rightarrow> OhlcvBar list \<Rightarrow> SmaCrossoverIndicator" where
  "sma_run params bars = foldl (\<lambda>s b. snd (sma_update s b Confirmed)) (SmaCrossoverIndicator_new params) bars"

lemma sma_run_state:
  "sci_params (sma_run ps bs) = ps
   \<and> sci_fast_sma (sma_run ps bs) = sma_feed (sp_fast_length ps) (map bar_close bs)
   \<and> sci_slow_sma (sma_run ps bs) = sma_feed (sp_slow_length ps) (map bar_close bs)
   \<and> sci_prev_fast_sma (sma_run ps bs) = sma_at (sp_fast_length ps) (map bar_close bs)
   \<and> sci_prev_slow_sma (sma_run ps bs) = sma_at (sp_slow_length ps) (map bar_close bs)"
proof (induction bs rule: rev_induct)
  case (snoc b bs)
  have "sma_run ps (bs @ [b]) = snd (sma_update (sma_run ps bs) b Confirmed)" by (simp add: sma_run_def)
  with snoc show ?case by (simp add: sma_update_def case_prod_beta Let_def)
qed (simp add: sma_run_def SmaCrossoverIndicator_new_def)

lemma sma_run_signal:
  "ss_signal (fst (sma_update (sma_run ps bs) b p)) =
     sma_signal (sma_run ps bs) (sma_at (sp_fast_length ps) (map bar_close (bs @ [b])))
       (sma_at (sp_slow_length ps) (map bar_close (bs @ [b]))) p"
  using sma_run_state [of ps bs] by (simp add: sma_update_def case_prod_beta Let_def)

subsection \<open>Properties\<close>

text \<open>The phase of an evaluation only labels its signal: for every engine, state and bar, Preview
  and Confirmed evaluations leave the same state and carry the same metadata, a buy or sell preview
  appears exactly where the confirmed evaluation would buy or sell, and two histories of the same
  bars end in the same state whatever their phases.\<close>
theorem engine_phase_contract:
  "snd (engine_evaluate e b Preview) = snd (engine_evaluate e b Confirmed)
   \<and> ie_metadata (fst (engine_evaluate e b Preview)) = ie_metadata (fst (engine_evaluate e b Confirmed))
   \<and> (ie_signal (fst (engine_evaluate e b Preview)) = BuyPreview
        \<longleftrightarrow> ie_signal (fst (engine_evaluate e b Confirmed)) = BuyConfirmed)
   \<and> (ie_signal (fst (engine_evaluate e b Preview)) = SellPreview
        \<longleftrightarrow> ie_signal (fst (engine_evaluate e b Confirmed)) = SellConfirmed)
   \<and> engine_run e (map (\<lambda>b. (b, f b)) bars) = engine_run e (map (\<lambda>b. (b, Confirmed)) bars)"
  using engine.state_phase [of e b Preview Confirmed] engine.metadata_phase [of e b Preview Confirmed]
    engine.preview_iff_confirmed [of e b]
    engine.run_phase_independent [of "map (\<lambda>b. (b, f b)) bars" "map (\<lambda>b. (b, Confirmed)) bars" e]
  by (simp only: map_map comp_def fst_conv simp_thms)

text \<open>C30: On prices in whole ticks the running sum never drifts: once the window is full, the moving
  average is the correctly rounded mean of exactly the last samples, and before that there is none.\<close>
theorem sma_exact_on_ticks:
  assumes "0 < n" "n \<le> MAX_LENGTH" "list_all (\<lambda>k. \<bar>k\<bar> \<le> B) ks" "int (n + 1) * B \<le> 2 ^ 53"
  shows "sma_at n (ticks ks) =
     (if n \<le> length ks then Some (f64_rnd (of_int (sum_list (drop (length ks - n) ks)) / of_nat n)) else None)"
proof (cases ks rule: rev_cases)
  case (snoc js k)
  have fd: "sma_feed n (ticks ks) = snd (Sma_update (sma_feed n (ticks js)) (f64_rnd (of_int k)))"
    by (simp add: snoc)
  note l = period_f64 [of n]
  let ?S = "sum_list (drop (length ks - n) ks)"
  have S: "sma_sum (sma_feed n (ticks ks)) = f64_rnd (of_int ?S)"
    using sma_feed_ticks [of n ks B] assms by (simp add: list_all_iff)
  have "\<bar>?S\<bar> \<le> int (length (drop (length ks - n) ks)) * B"
    by (rule sum_list_abs_le) (use assms(3) in \<open>auto simp: list_all_iff dest: in_set_dropD\<close>)
  also have "\<dots> \<le> int (n + 1) * B"
    using assms(3) by (intro mult_right_mono) (auto simp: snoc list_all_iff)
  finally have e: "is_finite (f64_rnd (of_int ?S)) \<and> fval (f64_rnd (of_int ?S)) = of_int ?S"
    using assms(4) by (intro f64_rnd_int_exact) linarith
  have "length (sma_values (sma_feed n (ticks ks))) = n \<longleftrightarrow> n \<le> length ks"
    using assms(1) by (auto simp: sma_feed_window)
  then show ?thesis using S e l assms(1,2)
    by (simp add: snoc sma_at_snoc Sma_update_window(4) sma_feed_window fd [unfolded snoc, symmetric, simplified] divide_f64_fin
        MAX_LENGTH_def MAX_PERIOD_def)
qed (use assms(1) in simp)

text \<open>After any history of bars, the crossover indicator buys on the next bar exactly when both
  averages existed on the last bar and exist now, the fast one was strictly below the slow one and
  is strictly above it now, and it sells exactly in the mirrored case; in particular it is silent
  until one bar after the slow window is full.\<close>
theorem sma_crossover_signal_exact:
  fixes bs :: "OhlcvBar list" and b :: OhlcvBar
  assumes "SmaCrossoverParams_new fast slow = Inr ps"
  defines "prev \<equiv> \<lambda>n. sma_at n (map bar_close bs)" and "now \<equiv> \<lambda>n. sma_at n (map bar_close (bs @ [b]))"
  shows "(ss_signal (fst (sma_update (sma_run ps bs) b Confirmed)) = BuyConfirmed \<longleftrightarrow>
      (\<exists>pf psl f s. prev fast = Some pf \<and> prev slow = Some psl \<and> now fast = Some f \<and> now slow = Some s \<and> pf < psl \<and> s < f))
    \<and> (ss_signal (fst (sma_update (sma_run ps bs) b Confirmed)) = SellConfirmed \<longleftrightarrow>
      (\<exists>pf psl f s. prev fast = Some pf \<and> prev slow = Some psl \<and> now fast = Some f \<and> now slow = Some s \<and> psl < pf \<and> f < s))
    \<and> (length bs < slow \<longrightarrow> ss_signal (fst (sma_update (sma_run ps bs) b p)) = NoSignal)"
proof -
  have ps: "sp_fast_length ps = fast" "sp_slow_length ps = slow" "0 < slow"
    using assms(1) by (auto simp: SmaCrossoverParams_new_def split: if_splits)
  note st = sma_run_state [of ps bs] and sg = sma_run_signal [of ps bs b]
  have ex: "\<not> (x < y \<and> y < x)" for x y :: f64 using f64_less_not_le f64_less_le by blast
  have "ss_signal (fst (sma_update (sma_run ps bs) b Confirmed)) = BuyConfirmed \<longleftrightarrow>
      (\<exists>pf psl f s. prev fast = Some pf \<and> prev slow = Some psl \<and> now fast = Some f \<and> now slow = Some s \<and> pf < psl \<and> s < f)"
    using st sg [of Confirmed] unfolding ps prev_def now_def
    by (cases "prev fast"; cases "prev slow") (auto simp: prev_def sma_signal_def split: option.splits)
  moreover have "ss_signal (fst (sma_update (sma_run ps bs) b Confirmed)) = SellConfirmed \<longleftrightarrow>
      (\<exists>pf psl f s. prev fast = Some pf \<and> prev slow = Some psl \<and> now fast = Some f \<and> now slow = Some s \<and> psl < pf \<and> f < s)"
    using st sg [of Confirmed] ex unfolding ps prev_def now_def
    by (cases "prev fast"; cases "prev slow") (auto simp: prev_def sma_signal_def split: option.splits)
  moreover have "ss_signal (fst (sma_update (sma_run ps bs) b p)) = NoSignal" if "length bs < slow"
  proof -
    have "prev slow = None" using that ps(3) by (simp add: prev_def sma_at_None_iff)
    then show ?thesis using st sg [of p] unfolding ps prev_def by (auto simp: sma_signal_def split: option.splits)
  qed
  ultimately show ?thesis by blast
qed

text \<open>As long as the smoothed averages do not overflow, the relative strength index lies between
  0 and 100 (never NaN), and the state keeps non-negative averages.\<close>
theorem rsi_within_range:
  assumes "rsi_ok s" "rsi_prev s = Some q" "is_finite (v - q)" "Rsi_update s v = (Some r, s')"
    and "rma_finite (rsi_up s')" "rma_finite (rsi_down s')"
  shows "0 \<le> r \<and> r \<le> f64_rnd 100 \<and> rsi_ok s'"
proof -
  let ?c = "v - q"
  let ?u = "WilderRma_update (rsi_up s) (f64_max ?c 0)" and ?d = "WilderRma_update (rsi_down s) (f64_max (- ?c) 0)"
  have s': "rsi_up s' = snd ?u" "rsi_down s' = snd ?d" and r: "rsi_value (fst ?u) (fst ?d) = Some r"
    using assms(2,4) by (auto simp: Rsi_update_def case_prod_beta Let_def)
  have fin: "is_finite (f64_max x 0)" if "is_finite x" for x using that by (auto simp: f64_max_def)
  have neg: "is_finite (- ?c)" using assms(3) by (simp add: uminus_f64_fin)
  have ok: "rma_ok (snd ?u)" "fst ?u = rma_current (snd ?u)" "rma_ok (snd ?d)" "fst ?d = rma_current (snd ?d)"
    using assms(1,3,5,6) neg fin unfolding s' rsi_ok_def by (auto intro!: rma_update_ok)
  obtain u d where ud: "fst ?u = Some u" "fst ?d = Some d"
    using r by (cases "fst ?u"; cases "fst ?d") (auto simp: rsi_value_def)
  then have "is_finite u" "0 \<le> u" "is_finite d" "0 \<le> d" using ok by (auto simp: rma_ok_def)
  then show ?thesis using rsi_value_range [of u d r] r ud ok s' by (simp add: rsi_ok_def)
qed

text \<open>The builder produces an engine of exactly the requested type, and refuses exactly the
  unknown types with the unsupported-type error.\<close>
theorem build_engine_type:
  "(build_builtin_engine af ai t params = Inr e \<longrightarrow> engine_type_id e = t)
   \<and> (build_builtin_engine af ai t params = Inl (UnsupportedType u)
        \<longleftrightarrow> t \<notin> {''sma_crossover'', ''rsi_threshold''} \<and> u = t)"
proof -
  note d = build_builtin_engine_def indicator_manifest_def builtin_manifests_def sma_build_def
      rsi_build_def sma_MANIFEST_def rsi_MANIFEST_def Let_def
  have "build_builtin_engine af ai t params = Inr e \<Longrightarrow> engine_type_id e = t"
    by (auto simp: d split: if_splits sum.splits option.splits)
  moreover have "build_builtin_engine af ai t params = Inl (UnsupportedType u)
        \<longleftrightarrow> t \<notin> {''sma_crossover'', ''rsi_threshold''} \<and> u = t"
    by (auto simp: d split: if_splits sum.splits option.splits)
  ultimately show ?thesis by blast
qed

subsection \<open>Witnesses\<close>

theorem sma_exact_on_ticks_witness: "sma_at 2 (ticks [3, 10, 21]) = Some (f64_rnd (31 / 2))"
  using sma_exact_on_ticks [of 2 21 "[3, 10, 21]"] by (simp add: MAX_LENGTH_def)

definition demo_bar :: "int \<Rightarrow> OhlcvBar" where
  "demo_bar k = \<lparr>bar_timestamp = minutes k, bar_open = f64_rnd (of_int k), bar_high = f64_rnd (of_int k),
     bar_low = f64_rnd (of_int k), bar_close = f64_rnd (of_int k), bar_volume = 1\<rparr>"

theorem sma_crossover_signal_exact_witness:
  "ss_signal (fst (sma_update (sma_run \<lparr>sp_fast_length = 1, sp_slow_length = 2\<rparr> (map demo_bar [9, 4])) (demo_bar 8) Confirmed)) = BuyConfirmed
   \<and> ss_signal (fst (sma_update (sma_run \<lparr>sp_fast_length = 1, sp_slow_length = 2\<rparr> [demo_bar 9]) (demo_bar 4) Confirmed)) = NoSignal"
proof -
  let ?ps = "\<lparr>sp_fast_length = 1, sp_slow_length = 2\<rparr> :: SmaCrossoverParams"
  have ok: "SmaCrossoverParams_new 1 2 = Inr ?ps" by (simp add: SmaCrossoverParams_new_def MAX_LENGTH_def)
  have v: "sma_at 1 (map bar_close (map demo_bar [9, 4])) = Some (f64_rnd 4)"
    "sma_at 2 (map bar_close (map demo_bar [9, 4])) = Some (f64_rnd (13/2))"
    "sma_at 1 (map bar_close (map demo_bar [9, 4] @ [demo_bar 8])) = Some (f64_rnd 8)"
    "sma_at 2 (map bar_close (map demo_bar [9, 4] @ [demo_bar 8])) = Some (f64_rnd 6)"
    "f64_rnd 4 < f64_rnd (13/2)" "f64_rnd 6 < f64_rnd 8"
    by code_simp+
  show ?thesis
    using sma_crossover_signal_exact [OF ok, of "map demo_bar [9, 4]" "demo_bar 8"]
      sma_crossover_signal_exact [OF ok, of "[demo_bar 9]" "demo_bar 4" Confirmed] v
    by (simp del: list.map)
qed

definition demo_rsi :: Rsi where
  "demo_rsi = snd (Rsi_update (snd (Rsi_update (Rsi_new 2) (f64_rnd 10))) (f64_rnd 12))"

definition demo_rsi_next :: "f64 option \<times> Rsi" where
  "demo_rsi_next = Rsi_update demo_rsi (f64_rnd 11)"

lemma demo_rsi_facts:
  "rsi_ok demo_rsi" "rsi_prev demo_rsi = Some (f64_rnd 12)" "is_finite (f64_rnd 11 - f64_rnd 12)"
  "fst demo_rsi_next = Some (the (fst demo_rsi_next))"
  "rma_finite (rsi_up (snd demo_rsi_next))" "rma_finite (rsi_down (snd demo_rsi_next))"
  by code_simp+

theorem rsi_within_range_witness:
  "0 \<le> the (fst (Rsi_update demo_rsi (f64_rnd 11))) \<and> the (fst (Rsi_update demo_rsi (f64_rnd 11))) \<le> f64_rnd 100"
  using rsi_within_range [OF demo_rsi_facts(1,2,3) _ demo_rsi_facts(5,6)] demo_rsi_facts(4)
  by (metis demo_rsi_next_def prod.collapse)

theorem build_engine_type_witness:
  "engine_type_id (the (case build_builtin_engine Some (\<lambda>_. None) ''rsi_threshold'' (\<lambda>_. None) of Inr e \<Rightarrow> Some e | Inl _ \<Rightarrow> None)) = ''rsi_threshold''"
proof -
  obtain e where e: "build_builtin_engine Some (\<lambda>_. None) ''rsi_threshold'' (\<lambda>_. None) = Inr e"
  proof -
    have "is_ok (build_builtin_engine Some (\<lambda>_. None) ''rsi_threshold'' (\<lambda>_. None))" by code_simp
    then show thesis using that by (auto simp: is_ok_iff)
  qed
  show ?thesis using build_engine_type [of Some "\<lambda>_. None" "''rsi_threshold''" "\<lambda>_. None" e] e by simp
qed

end
