(* ===== verification/MarketData.thy ===== *)
theory MarketData
  imports Core
begin

section \<open>Market data (crate openticker-data)\<close>

text \<open>
  Trades aggregated into bars (\<open>bar_builder.rs\<close>), the market session of a timestamp
  (\<open>market_session.rs\<close>) and the normalized events (\<open>normalized.rs\<close>). Timestamps are
  unbounded integers, so the out-of-range fallback of \<open>floor_to_timeframe\<close> never runs.
  The main result: on trades in time order the builder emits, as confirmed bars, exactly the
  candles of the reference definition, one per bucket.
\<close>

subsection \<open>Events\<close>

record NormalizedTrade =
  nt_symbol :: string
  nt_timestamp :: timestamp
  nt_price :: f64
  nt_quantity :: f64

record NormalizedQuote =
  nq_symbol :: string
  nq_timestamp :: timestamp
  nq_bid :: f64
  nq_ask :: f64

record NormalizedOrderEvent =
  no_symbol :: string
  no_client_order_id :: string
  no_status :: string
  no_side :: string
  no_order_quantity :: f64
  no_cumulative_filled_quantity :: f64
  no_last_fill_price :: "f64 option"

record NormalizedBarUpdate =
  bu_symbol :: string
  bu_phase :: SignalPhase
  bu_bar :: OhlcvBar

datatype DataError = DataInvalidPrice | DataInvalidQuantity

subsection \<open>Market sessions\<close>

datatype MarketSession = Continuous | PreMarket | Regular | AfterHours

definition unix_seconds :: "timestamp \<Rightarrow> int" where
  "unix_seconds t = t div 1000000000"

definition market_session_for :: "MarketType \<Rightarrow> timestamp \<Rightarrow> MarketSession" where
  "market_session_for market timestamp =
     (case market of
        Crypto \<Rightarrow> Continuous
      | Equities \<Rightarrow>
          (let hour = (unix_seconds timestamp mod 86400) div 3600;
               minute = (unix_seconds timestamp mod 3600) div 60;
               minutes_of_day = hour * 60 + minute in
           if 13 * 60 + 30 \<le> minutes_of_day \<and> minutes_of_day < 20 * 60 then Regular
           else if 8 * 60 \<le> minutes_of_day \<and> minutes_of_day < 13 * 60 + 30 then PreMarket
           else AfterHours))"

subsection \<open>The bar builder\<close>

record BarBuilder =
  bb_symbol :: string
  bb_timeframe :: Timeframe
  bb_current_start :: "timestamp option"
  bb_current_bar :: "OhlcvBar option"

definition BarBuilder_new :: "string \<Rightarrow> Timeframe \<Rightarrow> BarBuilder" where
  "BarBuilder_new symbol timeframe =
     \<lparr>bb_symbol = symbol, bb_timeframe = timeframe, bb_current_start = None, bb_current_bar = None\<rparr>"

definition new_bar_from_trade :: "timestamp \<Rightarrow> NormalizedTrade \<Rightarrow> OhlcvBar" where
  "new_bar_from_trade bucket_start trade =
     \<lparr>bar_timestamp = bucket_start, bar_open = nt_price trade, bar_high = nt_price trade,
      bar_low = nt_price trade, bar_close = nt_price trade, bar_volume = nt_quantity trade\<rparr>"

definition apply_trade_to_bar :: "OhlcvBar \<Rightarrow> NormalizedTrade \<Rightarrow> OhlcvBar" where
  "apply_trade_to_bar bar trade =
     bar\<lparr>bar_high := f64_max (bar_high bar) (nt_price trade), bar_low := f64_min (bar_low bar) (nt_price trade),
         bar_close := nt_price trade, bar_volume := bar_volume bar + nt_quantity trade\<rparr>"

definition floor_to_timeframe :: "timestamp \<Rightarrow> Timeframe \<Rightarrow> timestamp" where
  "floor_to_timeframe timestamp timeframe =
     (let timeframe_seconds = Timeframe_duration timeframe div 1000000000;
          unix = unix_seconds timestamp;
          offset = unix mod timeframe_seconds;
          floored_unix = unix - offset in
      floored_unix * 1000000000)"

definition push_trade :: "BarBuilder \<Rightarrow> NormalizedTrade \<Rightarrow> DataError + NormalizedBarUpdate list \<times> BarBuilder" where
  "push_trade self trade =
     (if nt_price trade \<le> 0 then Inl DataInvalidPrice
      else if nt_quantity trade < 0 then Inl DataInvalidQuantity
      else
        let bucket_start = floor_to_timeframe (nt_timestamp trade) (bb_timeframe self);
            update = (\<lambda>phase bar. \<lparr>bu_symbol = bb_symbol self, bu_phase = phase, bu_bar = bar\<rparr>) in
        if bb_current_start self = Some bucket_start then
          (case bb_current_bar self of
             Some bar \<Rightarrow>
               (let bar = apply_trade_to_bar bar trade in
                Inr ([update Preview bar], self\<lparr>bb_current_bar := Some bar\<rparr>))
           | None \<Rightarrow>
               (let bar = new_bar_from_trade bucket_start trade in
                Inr ([update Preview bar], self\<lparr>bb_current_bar := Some bar\<rparr>)))
        else
          let finalized = (if bb_current_start self \<noteq> None
                then (case bb_current_bar self of Some bar \<Rightarrow> [update Confirmed bar] | None \<Rightarrow> [])
                else []);
              bar = new_bar_from_trade bucket_start trade in
          Inr (finalized @ [update Preview bar],
               self\<lparr>bb_current_start := Some bucket_start, bb_current_bar := Some bar\<rparr>))"

definition flush_confirmed :: "BarBuilder \<Rightarrow> NormalizedBarUpdate option \<times> BarBuilder" where
  "flush_confirmed self =
     (case bb_current_bar self of
        None \<Rightarrow> (None, self)
      | Some bar \<Rightarrow> (Some \<lparr>bu_symbol = bb_symbol self, bu_phase = Confirmed, bu_bar = bar\<rparr>,
           self\<lparr>bb_current_start := None, bb_current_bar := None\<rparr>))"

subsection \<open>Buckets\<close>

lemma floor_to_timeframe_eq:
  "floor_to_timeframe t tf = t - t mod Timeframe_duration tf"
proof -
  obtain d :: int where d: "Timeframe_duration tf = d * 1000000000" "0 < d"
    by (cases tf) (auto intro: that [of 60] that [of 300] that [of 900] that [of 1800] that [of 3600] that [of 14400] that [of 86400])
  have "t mod (d * 1000000000) = t mod 1000000000 + 1000000000 * (t div 1000000000 mod d)"
    using zmod_zmult2_eq [of d t 1000000000] d(2) by (simp add: mult.commute)
  moreover have "t = t mod 1000000000 + 1000000000 * (t div 1000000000)" by simp
  ultimately show ?thesis
    using d by (simp add: floor_to_timeframe_def Let_def unix_seconds_def algebra_simps)
qed

lemma floor_to_timeframe_bounds:
  "floor_to_timeframe t tf \<le> t" "t < floor_to_timeframe t tf + Timeframe_duration tf"
  "Timeframe_duration tf dvd floor_to_timeframe t tf"
proof -
  have "0 \<le> t mod Timeframe_duration tf" "t mod Timeframe_duration tf < Timeframe_duration tf"
    using Timeframe_duration_pos [of tf] by simp_all
  then show "floor_to_timeframe t tf \<le> t" "t < floor_to_timeframe t tf + Timeframe_duration tf"
    unfolding floor_to_timeframe_eq by linarith+
  show "Timeframe_duration tf dvd floor_to_timeframe t tf" by (simp add: floor_to_timeframe_eq)
qed

lemma floor_to_timeframe_mono: "s \<le> t \<Longrightarrow> floor_to_timeframe s tf \<le> floor_to_timeframe t tf"
  using Timeframe_duration_pos [of tf]
  by (auto simp: floor_to_timeframe_eq minus_mod_eq_mult_div intro!: mult_left_mono zdiv_mono1)

subsection \<open>Reference candles\<close>

definition trade_ok :: "NormalizedTrade \<Rightarrow> bool" where
  "trade_ok t \<longleftrightarrow> \<not> nt_price t \<le> 0 \<and> \<not> nt_quantity t < 0"

abbreviation bucket :: "Timeframe \<Rightarrow> NormalizedTrade \<Rightarrow> timestamp" where
  "bucket tf t \<equiv> floor_to_timeframe (nt_timestamp t) tf"

text \<open>The candle of a bucket aggregates the trades of that bucket; there is one per bucket.\<close>

definition candle :: "Timeframe \<Rightarrow> NormalizedTrade list \<Rightarrow> timestamp \<Rightarrow> OhlcvBar" where
  "candle tf ts b = (case filter (\<lambda>t. bucket tf t = b) ts of
     [] \<Rightarrow> undefined | t # us \<Rightarrow> foldl apply_trade_to_bar (new_bar_from_trade b t) us)"

definition candles :: "Timeframe \<Rightarrow> NormalizedTrade list \<Rightarrow> OhlcvBar list" where
  "candles tf ts = map (candle tf ts) (remdups_adj (map (bucket tf) ts))"

text \<open>The builder run over a list of trades, collecting the updates.\<close>

fun push_all :: "BarBuilder \<Rightarrow> NormalizedTrade list \<Rightarrow> DataError + NormalizedBarUpdate list \<times> BarBuilder" where
  "push_all b [] = Inr ([], b)"
| "push_all b (t # ts) =
     (case push_trade b t of
        Inl e \<Rightarrow> Inl e
      | Inr (us, b') \<Rightarrow> (case push_all b' ts of Inl e \<Rightarrow> Inl e | Inr (vs, b'') \<Rightarrow> Inr (us @ vs, b'')))"

definition confirmed_bars :: "NormalizedBarUpdate list \<Rightarrow> OhlcvBar list" where
  "confirmed_bars us = map bu_bar (filter (\<lambda>u. bu_phase u = Confirmed) us)"

lemma push_all_snoc:
  "push_all b (ts @ [t]) =
     (case push_all b ts of
        Inl e \<Rightarrow> Inl e
      | Inr (us, b') \<Rightarrow> (case push_trade b' t of Inl e \<Rightarrow> Inl e | Inr (vs, b'') \<Rightarrow> Inr (us @ vs, b'')))"
  by (induction ts arbitrary: b) (auto split: sum.splits prod.splits)

lemma confirmed_bars_append [simp]: "confirmed_bars (us @ vs) = confirmed_bars us @ confirmed_bars vs"
  by (simp add: confirmed_bars_def)

lemma remdups_adj_snoc:
  "xs \<noteq> [] \<Longrightarrow> remdups_adj (xs @ [x]) = (if last xs = x then remdups_adj xs else remdups_adj xs @ [x])"
  by (induction xs rule: remdups_adj.induct) auto

lemma sorted_le_last: "sorted (xs :: int list) \<Longrightarrow> x \<in> set xs \<Longrightarrow> x \<le> last xs"
  by (induction xs) (auto split: if_splits)

lemma sorted_butlast_remdups:
  "sorted (xs :: int list) \<Longrightarrow> xs \<noteq> [] \<Longrightarrow> b \<in> set (butlast (remdups_adj xs)) \<Longrightarrow> b < last xs"
proof (induction xs rule: rev_induct)
  case (snoc x xs)
  show ?case
  proof (cases "xs = []")
    case False
    have s: "sorted xs" "last xs \<le> x" using snoc.prems(1) False by (auto simp: sorted_append)
    show ?thesis
    proof (cases "last xs = x")
      case True
      then show ?thesis using snoc.IH [OF s(1) False] snoc.prems(3) False by (simp add: remdups_adj_snoc)
    next
      case ne: False
      then have "b \<in> set xs" using snoc.prems(3) False by (simp add: remdups_adj_snoc)
      then have "b \<le> last xs" by (rule sorted_le_last [OF s(1)])
      then show ?thesis using s(2) ne by simp
    qed
  qed (use snoc.prems in simp)
qed simp

lemma strict_remdups_adj: "sorted (xs :: int list) \<Longrightarrow> sorted_wrt (<) (remdups_adj xs)"
proof (induction xs rule: rev_induct)
  case (snoc x xs)
  have s: "sorted xs" "xs = [] \<or> last xs \<le> x"
    using snoc.prems by (auto simp: sorted_append intro: last_in_set)
  show ?case
  proof (cases "xs = [] \<or> last xs = x")
    case False
    then have "b < x" if "b \<in> set xs" for b using sorted_le_last [OF s(1) that] s(2) by auto
    then show ?thesis using False snoc.IH [OF s(1)] by (simp add: remdups_adj_snoc sorted_wrt_append)
  next
    case True
    then show ?thesis using snoc.IH [OF s(1)] by (cases "xs = []") (simp_all add: remdups_adj_snoc)
  qed
qed simp

lemma last_remdups_adj: "xs \<noteq> [] \<Longrightarrow> last (remdups_adj xs) = last xs"
  by (induction xs rule: remdups_adj.induct) auto

lemma candle_other: "bucket tf t \<noteq> b \<Longrightarrow> candle tf (ts @ [t]) b = candle tf ts b"
  by (simp add: candle_def)

lemma candle_same:
  assumes "bucket tf t = b" "ts \<noteq> []" "bucket tf (last ts) = b"
  shows "candle tf (ts @ [t]) b = apply_trade_to_bar (candle tf ts b) t"
proof -
  have "filter (\<lambda>t. bucket tf t = b) ts \<noteq> []"
    unfolding filter_empty_conv using assms(2,3) last_in_set by blast
  then show ?thesis using assms(1) by (auto simp: candle_def split: list.splits)
qed

lemma candle_new:
  "bucket tf t = b \<Longrightarrow> (\<And>u. u \<in> set ts \<Longrightarrow> bucket tf u \<noteq> b) \<Longrightarrow> candle tf (ts @ [t]) b = new_bar_from_trade b t"
  by (simp add: candle_def filter_empty_conv)

lemma candles_snoc:
  assumes "sorted (map nt_timestamp (ts @ [t]))" "ts \<noteq> []"
  shows "candles tf (ts @ [t]) =
     (if bucket tf (last ts) = bucket tf t
      then butlast (candles tf ts) @ [apply_trade_to_bar (last (candles tf ts)) t]
      else candles tf ts @ [new_bar_from_trade (bucket tf t) t])"
proof -
  let ?bs = "map (bucket tf) ts" and ?b = "bucket tf t"
  have bs: "sorted ?bs" "\<And>u. u \<in> set ts \<Longrightarrow> bucket tf u \<le> ?b"
    using assms(1) by (auto simp: sorted_append floor_to_timeframe_mono sorted_map
        intro: sorted_wrt_mono_rel [of ts "\<lambda>x y. nt_timestamp x \<le> nt_timestamp y"])
  have ne: "remdups_adj ?bs \<noteq> []" and lb: "last ?bs = bucket tf (last ts)"
    using assms(2) by (auto simp: last_map)
  show ?thesis
  proof (cases "bucket tf (last ts) = ?b")
    case True
    obtain init where init: "remdups_adj ?bs = init @ [?b]"
      using ne True lb assms(2) by (metis append_butlast_last_id last_remdups_adj map_is_Nil_conv)
    have new: "remdups_adj (map (bucket tf) (ts @ [t])) = init @ [?b]"
      using True lb assms(2) init by (simp add: remdups_adj_snoc)
    have "map (candle tf (ts @ [t])) init = map (candle tf ts) init"
      using sorted_butlast_remdups [OF bs(1)] assms(2) True lb init
      by (intro map_cong) (auto intro!: candle_other)
    moreover have "candle tf (ts @ [t]) ?b = apply_trade_to_bar (candle tf ts ?b) t"
      using candle_same assms(2) True by simp
    ultimately show ?thesis using True unfolding candles_def new init by simp
  next
    case False
    have "bucket tf u \<noteq> ?b" if "u \<in> set ts" for u
    proof -
      have "bucket tf u \<le> bucket tf (last ts)"
        using that sorted_le_last [OF bs(1), of "bucket tf u"] lb by simp
      then show ?thesis using False bs(2) [OF last_in_set [OF assms(2)]] by simp
    qed
    then have "map (candle tf (ts @ [t])) (remdups_adj ?bs) = map (candle tf ts) (remdups_adj ?bs)"
      by (intro map_cong) (force intro!: candle_other)+
    moreover have "candle tf (ts @ [t]) ?b = new_bar_from_trade ?b t"
      using \<open>\<And>u. u \<in> set ts \<Longrightarrow> bucket tf u \<noteq> ?b\<close> by (intro candle_new) auto
    ultimately show ?thesis using False lb assms(2) by (simp add: candles_def remdups_adj_snoc)
  qed
qed

lemma push_all_invariant:
  assumes "list_all trade_ok ts" "sorted (map nt_timestamp ts)" "ts \<noteq> []"
  shows "\<exists>us. push_all (BarBuilder_new sy tf) ts =
      Inr (us, \<lparr>bb_symbol = sy, bb_timeframe = tf, bb_current_start = Some (bucket tf (last ts)),
                bb_current_bar = Some (last (candles tf ts))\<rparr>)
     \<and> confirmed_bars us = butlast (candles tf ts)"
  using assms
proof (induction ts rule: rev_induct)
  case (snoc t ts)
  have t: "trade_ok t" using snoc.prems(1) by simp
  show ?case
  proof (cases "ts = []")
    case True
    then show ?thesis using t
      by (simp add: push_trade_def BarBuilder_new_def trade_ok_def Let_def confirmed_bars_def candles_def candle_def)
  next
    case False
    obtain us where us: "push_all (BarBuilder_new sy tf) ts =
      Inr (us, \<lparr>bb_symbol = sy, bb_timeframe = tf, bb_current_start = Some (bucket tf (last ts)),
                bb_current_bar = Some (last (candles tf ts))\<rparr>)"
      and c: "confirmed_bars us = butlast (candles tf ts)"
      using snoc False by (auto simp: sorted_append)
    have "candles tf ts \<noteq> []" using False by (simp add: candles_def)
    then show ?thesis using us c t candles_snoc [OF snoc.prems(2) False, of tf]
      by (auto simp: push_all_snoc push_trade_def trade_ok_def Let_def confirmed_bars_def butlast_append)
  qed
qed simp

lemma foldl_apply_timestamp: "bar_timestamp (foldl apply_trade_to_bar c us) = bar_timestamp c"
  by (induction us arbitrary: c) (simp_all add: apply_trade_to_bar_def)

lemma candle_timestamp: "b \<in> bucket tf ` set ts \<Longrightarrow> bar_timestamp (candle tf ts b) = b"
  by (auto simp: candle_def foldl_apply_timestamp new_bar_from_trade_def filter_empty_conv split: list.splits)

lemma candles_timestamps: "map bar_timestamp (candles tf ts) = remdups_adj (map (bucket tf) ts)"
  by (simp add: candles_def) (rule map_idI, simp add: candle_timestamp)

lemma candles_increasing:
  assumes "sorted (map nt_timestamp ts)"
  shows "sorted_wrt (<) (map bar_timestamp (candles tf ts))"
proof -
  have "sorted (map (bucket tf) ts)"
    using assms by (auto simp: sorted_map intro: floor_to_timeframe_mono
        sorted_wrt_mono_rel [of ts "\<lambda>x y. nt_timestamp x \<le> nt_timestamp y"])
  then show ?thesis unfolding candles_timestamps by (rule strict_remdups_adj)
qed

subsection \<open>Bars\<close>

definition bar_sane :: "OhlcvBar \<Rightarrow> bool" where
  "bar_sane b \<longleftrightarrow> bar_low b \<le> bar_open b \<and> bar_open b \<le> bar_high b \<and> bar_low b \<le> bar_close b
     \<and> bar_close b \<le> bar_high b \<and> 0 \<le> bar_volume b"

lemma f64_min_le2: "\<not> is_nan x \<Longrightarrow> \<not> is_nan y \<Longrightarrow> f64_min x y \<le> x \<and> f64_min x y \<le> y"
  using f64_not_less [of x y] f64_less_le [of y x]
  by (cases x rule: f64_cases; cases y rule: f64_cases)
    (auto simp: f64_min_def f64_le_refl le_f64_fin less_f64_fin)

lemma f64_max_ge2: "\<not> is_nan x \<Longrightarrow> \<not> is_nan y \<Longrightarrow> x \<le> f64_max x y \<and> y \<le> f64_max x y"
  by (cases x rule: f64_cases; cases y rule: f64_cases)
    (auto simp: f64_max_def f64_le_refl le_f64_fin less_f64_fin)

lemma apply_trade_sane:
  assumes "bar_sane b" "trade_ok t" "\<not> is_nan (nt_price t)" "\<not> is_nan (nt_quantity t)"
  shows "bar_sane (apply_trade_to_bar b t)"
proof -
  have n: "\<not> is_nan (bar_low b)" "\<not> is_nan (bar_high b)" using assms(1) f64_le_not_nan by (auto simp: bar_sane_def)
  have "0 \<le> nt_quantity t" using assms(2,4) f64_not_less [of "nt_quantity t" 0] by (simp add: trade_ok_def)
  then show ?thesis
    using assms(1) f64_min_le2 [OF n(1) assms(3)] f64_max_ge2 [OF n(2) assms(3)]
    by (auto simp: bar_sane_def apply_trade_to_bar_def f64_add_nonneg intro: f64_le_trans)
qed

lemma candle_sane:
  assumes "b \<in> set (candles tf ts)" "list_all trade_ok ts"
    "list_all (\<lambda>t. \<not> is_nan (nt_price t) \<and> \<not> is_nan (nt_quantity t)) ts"
  shows "bar_sane b"
proof -
  obtain k where k: "k \<in> bucket tf ` set ts" "b = candle tf ts k"
    using assms(1) by (auto simp: candles_def)
  have fold: "bar_sane (foldl apply_trade_to_bar c us)" if "bar_sane c" "set us \<subseteq> set ts" for c us
    using that assms(2,3) by (induction us arbitrary: c) (auto simp: list_all_iff apply_trade_sane)
  obtain u us where f: "filter (\<lambda>t. bucket tf t = k) ts = u # us"
    using k(1) by (cases "filter (\<lambda>t. bucket tf t = k) ts") (auto simp: filter_empty_conv)
  then have sub: "set (u # us) \<subseteq> set ts" by (metis filter_is_subset)
  then have u: "trade_ok u" "\<not> is_nan (nt_price u)" "\<not> is_nan (nt_quantity u)"
    using assms(2,3) by (auto simp: list_all_iff)
  then have "bar_sane (new_bar_from_trade k u)"
    using f64_not_less [of "nt_quantity u" 0] by (auto simp: bar_sane_def new_bar_from_trade_def f64_le_refl trade_ok_def)
  then show ?thesis using fold sub k(2) f by (simp add: candle_def)
qed

subsection \<open>Properties\<close>

text \<open>C31: On valid trades in time order the builder accepts every trade, and the confirmed bars it
  emits, followed by the bar a final flush confirms, are exactly the candles of the trades: one bar
  per non-empty bucket, in order, with strictly increasing aligned timestamps, aggregating exactly
  the trades of that bucket.\<close>
theorem bar_builder_emits_candles:
  assumes "list_all trade_ok ts" "sorted (map nt_timestamp ts)"
  shows "\<exists>us b. push_all (BarBuilder_new sy tf) ts = Inr (us, b)
    \<and> confirmed_bars us @ (case fst (flush_confirmed b) of None \<Rightarrow> [] | Some u \<Rightarrow> [bu_bar u]) = candles tf ts
    \<and> bb_current_bar (snd (flush_confirmed b)) = None \<and> sorted_wrt (<) (map bar_timestamp (candles tf ts))"
proof (cases "ts = []")
  case True
  then show ?thesis
    by (simp add: flush_confirmed_def BarBuilder_new_def candles_def confirmed_bars_def)
next
  case False
  then have "candles tf ts \<noteq> []" by (simp add: candles_def)
  then show ?thesis using push_all_invariant [OF assms False, of sy tf] candles_increasing [OF assms(2)]
    by (auto simp: flush_confirmed_def)
qed

text \<open>Every candle of valid trades is well formed: its timestamp is the start of a bucket of the
  timeframe, low and high enclose open and close, and the volume is not negative.\<close>
theorem candles_well_formed:
  assumes "list_all trade_ok ts" "list_all (\<lambda>t. \<not> is_nan (nt_price t) \<and> \<not> is_nan (nt_quantity t)) ts"
  shows "list_all bar_sane (candles tf ts)"
  using candle_sane [OF _ assms] by (auto simp: list_all_iff)

text \<open>A bucket start is a multiple of the timeframe, at most the timestamp and less than one
  timeframe before it.\<close>
theorem bucket_contains_timestamp:
  "floor_to_timeframe t tf \<le> t \<and> t < floor_to_timeframe t tf + Timeframe_duration tf
   \<and> floor_to_timeframe t tf mod Timeframe_duration tf = 0"
  using floor_to_timeframe_bounds [where t = t and tf = tf] by (auto simp: dvd_eq_mod_eq_0)

subsection \<open>Witnesses\<close>

definition demo_trade :: "int \<Rightarrow> int \<Rightarrow> NormalizedTrade" where
  "demo_trade sec price = \<lparr>nt_symbol = ''BTC'', nt_timestamp = sec * 1000000000, nt_price = f64_rnd (of_int price), nt_quantity = 1\<rparr>"

definition demo_trades :: "NormalizedTrade list" where
  "demo_trades = [demo_trade 5 100, demo_trade 40 102, demo_trade 70 99]"

lemma demo_trades_ok:
  "list_all trade_ok demo_trades" "sorted (map nt_timestamp demo_trades)"
  "list_all (\<lambda>t. \<not> is_nan (nt_price t) \<and> \<not> is_nan (nt_quantity t)) demo_trades"
  by code_simp+

theorem bar_builder_emits_candles_witness: "is_ok (push_all (BarBuilder_new ''BTC'' M1) demo_trades)"
  using bar_builder_emits_candles [OF demo_trades_ok(1,2), of "''BTC''" M1] by (auto simp: is_ok_iff)

theorem candles_well_formed_witness: "length (candles M1 demo_trades) = 2 \<and> list_all bar_sane (candles M1 demo_trades)"
proof
  show "length (candles M1 demo_trades) = 2" unfolding candles_def length_map by code_simp
  show "list_all bar_sane (candles M1 demo_trades)" by (rule candles_well_formed [OF demo_trades_ok(1,3)])
qed

end
