(* ===== verification/DataPlane.thy ===== *)
theory DataPlane
  imports MarketData
begin

section \<open>Data plane (crate openticker-dataplane)\<close>

text \<open>
  The polled market-data streams: bounded bar buffers (\<open>buffer.rs\<close>), the registry that
  merges stream specifications (\<open>registry.rs\<close>, \<open>stream.rs\<close>), the stream entries with
  their polling schedule (\<open>dataplane/entry.rs\<close>), the data plane itself
  (\<open>dataplane.rs\<close>), its counters (\<open>metrics.rs\<close>) and one cycle of the polling loop
  (\<open>dataplane/run_loop.rs\<close>), whose callbacks are parameters.

  \<open>i64\<close> and \<open>u64\<close> values are integers with the saturation written out; the mutex makes
  every operation atomic, so concurrent use is any sequence of operations
  (\<open>plane_step\<close>). The lemmas show that the registry does not depend on the order of its
  specifications, that buffers stay sorted and bounded in every reachable state, that polling is
  rate-limited and what survives a reconfiguration.
\<close>

subsection \<open>Saturating integers\<close>

definition i64_min :: int where
  "i64_min = - 9223372036854775808"

definition u64_max :: int where
  "u64_max = 18446744073709551615"

definition sat_i64 :: "int \<Rightarrow> int" where
  "sat_i64 x = max i64_min (min i64_max x)"

definition sat_u64 :: "int \<Rightarrow> int" where
  "sat_u64 x = min u64_max x"

definition saturating_millis_to_i64 :: "int \<Rightarrow> int" where
  "saturating_millis_to_i64 millis = (if millis \<le> i64_max then millis else i64_max)"

definition i64_to_u64_or_zero :: "int \<Rightarrow> int" where
  "i64_to_u64_or_zero x = (if 0 \<le> x then x else 0)"

definition timeframe_ms :: "Timeframe \<Rightarrow> int" where
  "timeframe_ms tf = saturating_millis_to_i64 (Timeframe_duration tf div 1000000)"

subsection \<open>Buffers\<close>

record StreamBuffer =
  sb_retention :: nat
  sb_bars :: "OhlcvBar list"

definition StreamBuffer_new :: "nat \<Rightarrow> StreamBuffer" where
  "StreamBuffer_new retention = \<lparr>sb_retention = retention, sb_bars = []\<rparr>"

fun pop_front_while :: "nat \<Rightarrow> 'a list \<Rightarrow> 'a list" where
  "pop_front_while n [] = []"
| "pop_front_while n (x # xs) = (if n < length (x # xs) then pop_front_while n xs else x # xs)"

definition trim_to_retention :: "StreamBuffer \<Rightarrow> StreamBuffer" where
  "trim_to_retention self = self\<lparr>sb_bars := pop_front_while (sb_retention self) (sb_bars self)\<rparr>"

definition set_retention :: "StreamBuffer \<Rightarrow> nat \<Rightarrow> StreamBuffer" where
  "set_retention self retention = trim_to_retention (self\<lparr>sb_retention := retention\<rparr>)"

definition buffer_latest :: "StreamBuffer \<Rightarrow> OhlcvBar option" where
  "buffer_latest self = (if sb_bars self = [] then None else Some (last (sb_bars self)))"

definition push_if_newer :: "StreamBuffer \<Rightarrow> OhlcvBar \<Rightarrow> bool \<times> StreamBuffer" where
  "push_if_newer self bar =
     (if (case buffer_latest self of None \<Rightarrow> False | Some latest \<Rightarrow> bar_timestamp bar \<le> bar_timestamp latest)
      then (False, self)
      else (True, trim_to_retention (self\<lparr>sb_bars := sb_bars self @ [bar]\<rparr>)))"

definition buffer_snapshot :: "StreamBuffer \<Rightarrow> nat \<Rightarrow> OhlcvBar list" where
  "buffer_snapshot self limit =
     (let limit = max limit 1; skip = length (sb_bars self) - limit in drop skip (sb_bars self))"

definition sparkline :: "StreamBuffer \<Rightarrow> nat \<Rightarrow> f64 list" where
  "sparkline self limit = map bar_close (buffer_snapshot self limit)"

subsection \<open>Streams and the registry\<close>

record StreamKey =
  sk_account_id :: string
  sk_symbol :: string
  sk_timeframe :: Timeframe

definition key_rank :: "StreamKey \<Rightarrow> string \<times> string \<times> string" where
  "key_rank k = (sk_account_id k, sk_symbol k, Timeframe_as_str (sk_timeframe k))"

datatype StreamSource = Watchlist | Instance string

fun source_rank :: "StreamSource \<Rightarrow> string option" where
  "source_rank Watchlist = None"
| "source_rank (Instance s) = Some s"

datatype StreamPreviewConnectionState = Connecting | Connected | Disconnected

datatype StreamUpdateSource = Poll | PreviewStream

record StreamSpec =
  ss_key :: StreamKey
  ss_retention :: nat
  ss_polling_interval_ms :: int
  ss_close_poll_retry_ms :: "int option"
  ss_close_poll_grace_ms :: "int option"
  ss_preview_enabled :: bool
  ss_sources :: "StreamSource list"

definition compare_stream_key_sort :: "('a \<Rightarrow> StreamKey) \<Rightarrow> 'a list \<Rightarrow> 'a list" where
  "compare_stream_key_sort f xs = sort_key (\<lambda>x. key_rank (f x)) xs"

fun first_occurrences :: "'a list \<Rightarrow> 'a list \<Rightarrow> 'a list" where
  "first_occurrences seen [] = []"
| "first_occurrences seen (x # xs) =
     (if x \<in> set seen then first_occurrences seen xs else x # first_occurrences (x # seen) xs)"

definition normalized_sources :: "StreamSource list \<Rightarrow> StreamSource list" where
  "normalized_sources sources = sort_key source_rank (first_occurrences [] sources)"

definition normalized_stream_spec :: "StreamSpec \<Rightarrow> StreamSpec" where
  "normalized_stream_spec spec = spec\<lparr>ss_sources := normalized_sources (ss_sources spec)\<rparr>"

fun min_optional :: "int option \<Rightarrow> int option \<Rightarrow> int option" where
  "min_optional (Some left) (Some right) = Some (min left right)"
| "min_optional (Some x) None = Some x"
| "min_optional None (Some x) = Some x"
| "min_optional None None = None"

definition merge_stream_spec :: "StreamSpec \<Rightarrow> StreamSpec \<Rightarrow> StreamSpec" where
  "merge_stream_spec existing next_spec = existing
     \<lparr>ss_retention := max (ss_retention existing) (ss_retention next_spec),
      ss_polling_interval_ms := min (ss_polling_interval_ms existing) (ss_polling_interval_ms next_spec),
      ss_close_poll_retry_ms := min_optional (ss_close_poll_retry_ms existing) (ss_close_poll_retry_ms next_spec),
      ss_close_poll_grace_ms := min_optional (ss_close_poll_grace_ms existing) (ss_close_poll_grace_ms next_spec),
      ss_preview_enabled := ss_preview_enabled existing \<or> ss_preview_enabled next_spec,
      ss_sources := normalized_sources (ss_sources existing @ ss_sources next_spec)\<rparr>"

type_synonym StreamRegistry = "(StreamKey, StreamSpec) hmap"

definition registry_insert :: "StreamRegistry \<Rightarrow> StreamSpec \<Rightarrow> StreamRegistry" where
  "registry_insert self spec =
     (case hm_get self (ss_key spec) of
        Some existing \<Rightarrow> hm_insert (ss_key spec) (merge_stream_spec existing spec) self
      | None \<Rightarrow> hm_insert (ss_key spec) (normalized_stream_spec spec) self)"

definition registry_from_specs :: "StreamSpec list \<Rightarrow> StreamRegistry" where
  "registry_from_specs specs = foldl registry_insert [] specs"

definition registry_specs :: "StreamRegistry \<Rightarrow> StreamSpec list" where
  "registry_specs self = compare_stream_key_sort ss_key (hm_values self)"

subsection \<open>Metrics\<close>

record AtomicLatencyMetric =
  lm_last_ms :: int
  lm_max_ms :: int
  lm_total_ms :: int
  lm_samples :: int

record LatencyMetricSnapshot =
  ls_last_ms :: int
  ls_max_ms :: int
  ls_avg_ms :: f64
  ls_samples :: int

record DataPlaneMetrics =
  dm_cycle_latency :: AtomicLatencyMetric
  dm_connector_fetch_latency :: AtomicLatencyMetric
  dm_runtime_write_lock_wait :: AtomicLatencyMetric
  dm_due_requests_last :: int
  dm_due_requests_total :: int
  dm_fetches_total :: int
  dm_completions_total :: int
  dm_completion_errors_total :: int
  dm_dropped_error_records_total :: int

definition AtomicLatencyMetric_default :: AtomicLatencyMetric where
  "AtomicLatencyMetric_default = \<lparr>lm_last_ms = 0, lm_max_ms = 0, lm_total_ms = 0, lm_samples = 0\<rparr>"

definition DataPlaneMetrics_default :: DataPlaneMetrics where
  "DataPlaneMetrics_default = \<lparr>dm_cycle_latency = AtomicLatencyMetric_default,
     dm_connector_fetch_latency = AtomicLatencyMetric_default,
     dm_runtime_write_lock_wait = AtomicLatencyMetric_default, dm_due_requests_last = 0,
     dm_due_requests_total = 0, dm_fetches_total = 0, dm_completions_total = 0,
     dm_completion_errors_total = 0, dm_dropped_error_records_total = 0\<rparr>"

text \<open>Durations are whole nanoseconds. Without contention the compare-exchange loop stores the maximum.\<close>

definition record_duration :: "AtomicLatencyMetric \<Rightarrow> int \<Rightarrow> AtomicLatencyMetric" where
  "record_duration self duration =
     (let elapsed_ms = sat_u64 (duration div 1000000) in
      self\<lparr>lm_last_ms := elapsed_ms, lm_total_ms := sat_u64 (lm_total_ms self + elapsed_ms),
           lm_samples := sat_u64 (lm_samples self + 1),
           lm_max_ms := (if lm_max_ms self < elapsed_ms then elapsed_ms else lm_max_ms self)\<rparr>)"

definition latency_snapshot :: "AtomicLatencyMetric \<Rightarrow> LatencyMetricSnapshot" where
  "latency_snapshot self = \<lparr>ls_last_ms = lm_last_ms self, ls_max_ms = lm_max_ms self,
     ls_avg_ms = (if lm_samples self = 0 then 0
       else f64_rnd (of_int (lm_total_ms self)) / f64_rnd (of_int (lm_samples self))),
     ls_samples = lm_samples self\<rparr>"

definition metrics_record_due_requests :: "DataPlaneMetrics \<Rightarrow> nat \<Rightarrow> DataPlaneMetrics" where
  "metrics_record_due_requests self due_requests =
     (let due = sat_u64 (int due_requests) in
      self\<lparr>dm_due_requests_last := due, dm_due_requests_total := sat_u64 (dm_due_requests_total self + due)\<rparr>)"

definition metrics_record_fetch :: "DataPlaneMetrics \<Rightarrow> DataPlaneMetrics" where
  "metrics_record_fetch self = self\<lparr>dm_fetches_total := sat_u64 (dm_fetches_total self + 1)\<rparr>"

definition metrics_record_completion :: "DataPlaneMetrics \<Rightarrow> bool \<Rightarrow> DataPlaneMetrics" where
  "metrics_record_completion self is_error =
     (let self = self\<lparr>dm_completions_total := sat_u64 (dm_completions_total self + 1)\<rparr> in
      if is_error then self\<lparr>dm_completion_errors_total := sat_u64 (dm_completion_errors_total self + 1)\<rparr>
      else self)"

definition metrics_record_dropped_error_record :: "DataPlaneMetrics \<Rightarrow> DataPlaneMetrics" where
  "metrics_record_dropped_error_record self =
     self\<lparr>dm_dropped_error_records_total := sat_u64 (dm_dropped_error_records_total self + 1)\<rparr>"

subsection \<open>Stream entries\<close>

record StreamEntry =
  se_spec :: StreamSpec
  se_buffer :: StreamBuffer
  se_last_attempt_ms :: "int option"
  se_last_success_ms :: "int option"
  se_last_error :: "string option"
  se_preview_connection_state :: "StreamPreviewConnectionState option"
  se_last_preview_update_ms :: "int option"
  se_latest_preview_bar :: "OhlcvBar option"
  se_last_preview_error :: "string option"
  se_last_confirmed_update_source :: "StreamUpdateSource option"
  se_fetch_count :: int
  se_error_count :: int

definition StreamEntry_new :: "StreamSpec \<Rightarrow> StreamEntry" where
  "StreamEntry_new spec = \<lparr>se_spec = spec, se_buffer = StreamBuffer_new (ss_retention spec),
     se_last_attempt_ms = None, se_last_success_ms = None, se_last_error = None,
     se_preview_connection_state = None, se_last_preview_update_ms = None, se_latest_preview_bar = None,
     se_last_preview_error = None, se_last_confirmed_update_source = None, se_fetch_count = 0, se_error_count = 0\<rparr>"

record StreamStatus =
  st_key :: StreamKey
  st_retention :: nat
  st_polling_interval_ms :: int
  st_close_poll_retry_ms :: "int option"
  st_close_poll_grace_ms :: "int option"
  st_last_attempt_ms :: "int option"
  st_last_success_ms :: "int option"
  st_last_error :: "string option"
  st_latest_bar :: "OhlcvBar option"
  st_fetch_count :: int
  st_error_count :: int
  st_transport_staleness_ms :: "int option"
  st_staleness_ms :: "int option"
  st_confirmed_bar_close_ms :: "int option"
  st_confirmed_bar_staleness_ms :: "int option"
  st_confirmed_bar_stale_deadline_ms :: "int option"
  st_latest_preview_bar :: "OhlcvBar option"
  st_preview_enabled :: bool
  st_preview_connection_state :: "StreamPreviewConnectionState option"
  st_last_preview_update_ms :: "int option"
  st_last_preview_error :: "string option"
  st_last_confirmed_update_source :: "StreamUpdateSource option"
  st_attached_instances :: "string list"
  st_sparkline :: "f64 list"

definition expected_close_ms :: "StreamEntry \<Rightarrow> OhlcvBar \<Rightarrow> int" where
  "expected_close_ms self bar =
     sat_i64 (timestamp_millis (bar_timestamp bar) + timeframe_ms (sk_timeframe (ss_key (se_spec self))))"

definition entry_status :: "StreamEntry \<Rightarrow> int \<Rightarrow> nat \<Rightarrow> StreamStatus" where
  "entry_status self now_ms sparkline_limit =
     (let transport_staleness_ms = map_option (\<lambda>last_success_ms. i64_to_u64_or_zero (sat_i64 (now_ms - last_success_ms)))
            (se_last_success_ms self);
          latest_bar = buffer_latest (se_buffer self);
          confirmed_bar_close_ms = map_option (expected_close_ms self) latest_bar;
          confirmed_bar_staleness_ms = map_option (\<lambda>close_ms. i64_to_u64_or_zero (sat_i64 (now_ms - close_ms))) confirmed_bar_close_ms;
          confirmed_bar_stale_deadline_ms =
            (case (confirmed_bar_close_ms, ss_close_poll_grace_ms (se_spec self)) of
               (Some close_ms, Some grace_ms) \<Rightarrow> Some (sat_i64 (close_ms + saturating_millis_to_i64 grace_ms))
             | _ \<Rightarrow> None);
          attached_instances = List.map_filter (\<lambda>s. case s of Instance i \<Rightarrow> Some i | Watchlist \<Rightarrow> None) (ss_sources (se_spec self)) in
      \<lparr>st_key = ss_key (se_spec self), st_retention = ss_retention (se_spec self),
       st_polling_interval_ms = ss_polling_interval_ms (se_spec self),
       st_close_poll_retry_ms = ss_close_poll_retry_ms (se_spec self),
       st_close_poll_grace_ms = ss_close_poll_grace_ms (se_spec self), st_last_attempt_ms = se_last_attempt_ms self, st_last_success_ms = se_last_success_ms self,
       st_last_error = se_last_error self, st_latest_bar = latest_bar, st_fetch_count = se_fetch_count self,
       st_error_count = se_error_count self, st_transport_staleness_ms = transport_staleness_ms,
       st_staleness_ms = transport_staleness_ms, st_confirmed_bar_close_ms = confirmed_bar_close_ms,
       st_confirmed_bar_staleness_ms = confirmed_bar_staleness_ms,
       st_confirmed_bar_stale_deadline_ms = confirmed_bar_stale_deadline_ms,
       st_latest_preview_bar = se_latest_preview_bar self,
       st_preview_enabled = ss_preview_enabled (se_spec self),
       st_preview_connection_state = se_preview_connection_state self,
       st_last_preview_update_ms = se_last_preview_update_ms self, st_last_preview_error = se_last_preview_error self,
       st_last_confirmed_update_source = se_last_confirmed_update_source self,
       st_attached_instances = attached_instances, st_sparkline = sparkline (se_buffer self) sparkline_limit\<rparr>)"

definition attempt_elapsed :: "StreamEntry \<Rightarrow> int \<Rightarrow> int \<Rightarrow> bool" where
  "attempt_elapsed self now_ms interval =
     (case se_last_attempt_ms self of None \<Rightarrow> True | Some last_attempt_ms \<Rightarrow> interval \<le> sat_i64 (now_ms - last_attempt_ms))"

definition close_window_due :: "StreamEntry \<Rightarrow> int \<Rightarrow> bool" where
  "close_window_due self now_ms =
     (case (ss_close_poll_retry_ms (se_spec self), ss_close_poll_grace_ms (se_spec self), buffer_latest (se_buffer self)) of
        (Some retry_ms, Some grace_ms, Some latest_bar) \<Rightarrow>
          (let close_ms = expected_close_ms self latest_bar;
               stale_deadline_ms = sat_i64 (close_ms + saturating_millis_to_i64 grace_ms) in
           if now_ms < close_ms \<or> stale_deadline_ms < now_ms then False
           else attempt_elapsed self now_ms (saturating_millis_to_i64 retry_ms))
      | _ \<Rightarrow> False)"

definition is_due :: "StreamEntry \<Rightarrow> int \<Rightarrow> bool" where
  "is_due self now_ms =
     (attempt_elapsed self now_ms (saturating_millis_to_i64 (ss_polling_interval_ms (se_spec self)))
      \<or> close_window_due self now_ms)"

subsection \<open>The data plane\<close>

record DataPlane =
  dp_registry :: StreamRegistry
  dp_streams :: "(StreamKey, StreamEntry) hmap"
  dp_metrics :: DataPlaneMetrics

datatype DataPlaneError = UnknownStream StreamKey

definition DataPlane_new :: "StreamSpec list \<Rightarrow> DataPlane" where
  "DataPlane_new specs =
     (let registry = registry_from_specs specs in
      \<lparr>dp_registry = registry,
       dp_streams = hm_of_list (map (\<lambda>spec. (ss_key spec, StreamEntry_new spec)) (registry_specs registry)),
       dp_metrics = DataPlaneMetrics_default\<rparr>)"

definition replace_one ::
    "(StreamKey, StreamEntry) hmap \<times> (StreamKey, StreamEntry) hmap \<Rightarrow> StreamSpec
      \<Rightarrow> (StreamKey, StreamEntry) hmap \<times> (StreamKey, StreamEntry) hmap" where
  "replace_one st spec =
     (let (old, next_streams) = st;
          entry = (case hm_get old (ss_key spec) of Some e \<Rightarrow> e | None \<Rightarrow> StreamEntry_new spec);
          entry = entry\<lparr>se_spec := spec, se_buffer := set_retention (se_buffer entry) (ss_retention spec)\<rparr> in
      (hm_remove (ss_key spec) old, hm_insert (ss_key spec) entry next_streams))"

definition replace_streams :: "DataPlane \<Rightarrow> StreamSpec list \<Rightarrow> DataPlane" where
  "replace_streams self specs =
     (let registry = registry_from_specs specs;
          (old, next_streams) = foldl replace_one (dp_streams self, []) (registry_specs registry) in
      self\<lparr>dp_registry := registry, dp_streams := next_streams\<rparr>)"

definition registered_streams :: "DataPlane \<Rightarrow> StreamSpec list" where
  "registered_streams self = registry_specs (dp_registry self)"

definition mark_attempt :: "int \<Rightarrow> StreamEntry \<Rightarrow> StreamEntry" where
  "mark_attempt now_ms e = e\<lparr>se_last_attempt_ms := Some now_ms, se_fetch_count := sat_u64 (se_fetch_count e + 1)\<rparr>"

definition take_due_streams :: "DataPlane \<Rightarrow> int \<Rightarrow> StreamKey list \<times> DataPlane" where
  "take_due_streams self now_ms =
     (let due = compare_stream_key_sort id (map fst (filter (\<lambda>(k, e). is_due e now_ms) (dp_streams self)));
          streams = map (\<lambda>(k, e). (k, if is_due e now_ms then mark_attempt now_ms e else e)) (dp_streams self);
          metrics = metrics_record_due_requests (dp_metrics self) (length due);
          metrics = fold (\<lambda>_ m. metrics_record_fetch m) due metrics in
      (due, self\<lparr>dp_streams := streams, dp_metrics := metrics\<rparr>))"

definition update_entry :: "DataPlane \<Rightarrow> StreamKey \<Rightarrow> (StreamEntry \<Rightarrow> 'r \<times> StreamEntry) \<Rightarrow> DataPlaneError + 'r \<times> DataPlane" where
  "update_entry self key f =
     (case hm_get (dp_streams self) key of
        None \<Rightarrow> Inl (UnknownStream key)
      | Some entry \<Rightarrow> (let (r, entry) = f entry in
          Inr (r, self\<lparr>dp_streams := hm_insert key entry (dp_streams self)\<rparr>)))"

definition fetched_entry :: "int \<Rightarrow> OhlcvBar \<Rightarrow> StreamUpdateSource \<Rightarrow> StreamEntry \<Rightarrow> bool \<times> StreamEntry" where
  "fetched_entry now_ms bar source entry =
     (let entry = entry\<lparr>se_last_success_ms := Some now_ms, se_last_error := None\<rparr>;
          (appended, buffer) = push_if_newer (se_buffer entry) bar;
          entry = entry\<lparr>se_buffer := buffer\<rparr>;
          entry = (if appended then entry\<lparr>se_last_confirmed_update_source := Some source\<rparr> else entry) in
      (appended, entry))"

definition record_fetched_bar_from_source ::
    "DataPlane \<Rightarrow> StreamKey \<Rightarrow> int \<Rightarrow> OhlcvBar \<Rightarrow> StreamUpdateSource \<Rightarrow> DataPlaneError + bool \<times> DataPlane" where
  "record_fetched_bar_from_source self key now_ms bar source =
     update_entry self key (fetched_entry now_ms bar source)"

definition record_fetched_bar :: "DataPlane \<Rightarrow> StreamKey \<Rightarrow> int \<Rightarrow> OhlcvBar \<Rightarrow> DataPlaneError + bool \<times> DataPlane" where
  "record_fetched_bar self key now_ms bar = record_fetched_bar_from_source self key now_ms bar Poll"

definition fetch_error_entry :: "string \<Rightarrow> StreamEntry \<Rightarrow> unit \<times> StreamEntry" where
  "fetch_error_entry error entry =
     ((), entry\<lparr>se_error_count := sat_u64 (se_error_count entry + 1), se_last_error := Some error\<rparr>)"

definition record_fetch_error :: "DataPlane \<Rightarrow> StreamKey \<Rightarrow> string \<Rightarrow> DataPlaneError + unit \<times> DataPlane" where
  "record_fetch_error self key error = update_entry self key (fetch_error_entry error)"

definition preview_state_entry :: "StreamPreviewConnectionState \<Rightarrow> string option \<Rightarrow> StreamEntry \<Rightarrow> unit \<times> StreamEntry" where
  "preview_state_entry state_value detail entry =
     ((), entry\<lparr>se_preview_connection_state := Some state_value, se_last_preview_error := detail\<rparr>)"

definition record_preview_connection_state ::
    "DataPlane \<Rightarrow> StreamKey \<Rightarrow> StreamPreviewConnectionState \<Rightarrow> string option \<Rightarrow> DataPlaneError + unit \<times> DataPlane" where
  "record_preview_connection_state self key state_value detail =
     update_entry self key (preview_state_entry state_value detail)"

definition preview_update_entry :: "int \<Rightarrow> OhlcvBar \<Rightarrow> StreamEntry \<Rightarrow> unit \<times> StreamEntry" where
  "preview_update_entry now_ms bar entry =
     ((), entry\<lparr>se_last_preview_update_ms := Some now_ms, se_latest_preview_bar := Some bar,
        se_preview_connection_state := Some Connected, se_last_preview_error := None\<rparr>)"

definition record_preview_update :: "DataPlane \<Rightarrow> StreamKey \<Rightarrow> int \<Rightarrow> OhlcvBar \<Rightarrow> DataPlaneError + unit \<times> DataPlane" where
  "record_preview_update self key now_ms bar = update_entry self key (preview_update_entry now_ms bar)"

definition snapshot_bars :: "DataPlane \<Rightarrow> StreamKey \<Rightarrow> nat \<Rightarrow> DataPlaneError + OhlcvBar list" where
  "snapshot_bars self key limit =
     (case hm_get (dp_streams self) key of
        None \<Rightarrow> Inl (UnknownStream key)
      | Some entry \<Rightarrow> Inr (buffer_snapshot (se_buffer entry) (max (min limit (ss_retention (se_spec entry))) 1)))"

definition snapshot_streams :: "DataPlane \<Rightarrow> int \<Rightarrow> nat \<Rightarrow> StreamStatus list" where
  "snapshot_streams self now_ms sparkline_limit =
     compare_stream_key_sort st_key
       (map (\<lambda>e. entry_status e now_ms sparkline_limit) (hm_values (dp_streams self)))"

definition record_manual_poll_attempt :: "DataPlane \<Rightarrow> StreamKey \<Rightarrow> int \<Rightarrow> DataPlaneError + unit \<times> DataPlane" where
  "record_manual_poll_attempt self key now_ms =
     (case update_entry self key (\<lambda>entry. ((), mark_attempt now_ms entry)) of
        Inl e \<Rightarrow> Inl e
      | Inr (u, self) \<Rightarrow> Inr (u, self\<lparr>dp_metrics := metrics_record_fetch (dp_metrics self)\<rparr>))"

definition record_completion :: "DataPlane \<Rightarrow> bool \<Rightarrow> DataPlane" where
  "record_completion self is_error = self\<lparr>dp_metrics := metrics_record_completion (dp_metrics self) is_error\<rparr>"

definition record_dropped_error_record :: "DataPlane \<Rightarrow> DataPlane" where
  "record_dropped_error_record self = self\<lparr>dp_metrics := metrics_record_dropped_error_record (dp_metrics self)\<rparr>"

definition record_connector_fetch_latency :: "DataPlane \<Rightarrow> int \<Rightarrow> DataPlane" where
  "record_connector_fetch_latency self duration = self\<lparr>dp_metrics := (dp_metrics self)
     \<lparr>dm_connector_fetch_latency := record_duration (dm_connector_fetch_latency (dp_metrics self)) duration\<rparr>\<rparr>"

definition record_cycle_duration :: "DataPlane \<Rightarrow> int \<Rightarrow> DataPlane" where
  "record_cycle_duration self duration = self\<lparr>dp_metrics := (dp_metrics self)
     \<lparr>dm_cycle_latency := record_duration (dm_cycle_latency (dp_metrics self)) duration\<rparr>\<rparr>"

definition record_runtime_write_lock_wait :: "DataPlane \<Rightarrow> int \<Rightarrow> DataPlane" where
  "record_runtime_write_lock_wait self duration = self\<lparr>dp_metrics := (dp_metrics self)
     \<lparr>dm_runtime_write_lock_wait := record_duration (dm_runtime_write_lock_wait (dp_metrics self)) duration\<rparr>\<rparr>"

subsection \<open>One cycle of the polling loop\<close>

text \<open>The callbacks of \<open>run_forever\<close> and the measured durations are parameters.\<close>

record poll_callbacks =
  on_attempt :: "StreamKey \<Rightarrow> int \<Rightarrow> string + unit"
  fetcher :: "StreamKey \<Rightarrow> string + OhlcvBar"
  on_success :: "StreamKey \<Rightarrow> OhlcvBar \<Rightarrow> int \<Rightarrow> bool \<Rightarrow> string + unit"
  on_error :: "StreamKey \<Rightarrow> string \<Rightarrow> string + unit"
  fetch_elapsed :: "StreamKey \<Rightarrow> int"

definition unknown_stream_text :: "StreamKey \<Rightarrow> string" where
  "unknown_stream_text k = ''stream `'' @ sk_account_id k @ ''/'' @ sk_symbol k @ ''/''
     @ Timeframe_as_str (sk_timeframe k) @ ''` is not registered''"

definition note_fetch_error :: "DataPlane \<Rightarrow> StreamKey \<Rightarrow> string \<Rightarrow> DataPlane" where
  "note_fetch_error dp key error =
     (case record_fetch_error dp key error of Inr (_, dp) \<Rightarrow> dp | Inl _ \<Rightarrow> record_dropped_error_record dp)"

definition note_on_error :: "poll_callbacks \<Rightarrow> DataPlane \<Rightarrow> StreamKey \<Rightarrow> string \<Rightarrow> DataPlane" where
  "note_on_error cb dp key error =
     (case on_error cb key error of Inr _ \<Rightarrow> dp | Inl _ \<Rightarrow> record_dropped_error_record dp)"

definition poll_one :: "poll_callbacks \<Rightarrow> int \<Rightarrow> DataPlane \<Rightarrow> StreamKey \<Rightarrow> DataPlane" where
  "poll_one cb now_ms dp key =
     (case on_attempt cb key now_ms of
        Inl error \<Rightarrow>
          (let dp = note_fetch_error dp key error;
               dp = record_completion dp True in
           note_on_error cb dp key error)
      | Inr _ \<Rightarrow>
          (let dp = record_connector_fetch_latency dp (fetch_elapsed cb key);
               (completion_result, dp) =
                 (case fetcher cb key of
                    Inr bar \<Rightarrow>
                      (case record_fetched_bar dp key now_ms bar of
                         Inr (appended, dp) \<Rightarrow> (on_success cb key bar now_ms appended, dp)
                       | Inl (UnknownStream k) \<Rightarrow> (Inl (unknown_stream_text k), dp))
                  | Inl error \<Rightarrow>
                      (let dp = note_fetch_error dp key error;
                           dp = note_on_error cb dp key error in
                       (Inl error, dp))) in
           record_completion dp (\<not> is_ok completion_result)))"

definition poll_cycle :: "poll_callbacks \<Rightarrow> int \<Rightarrow> int \<Rightarrow> DataPlane \<Rightarrow> DataPlane" where
  "poll_cycle cb now_ms cycle_elapsed dp =
     (let (due, dp) = take_due_streams dp now_ms;
          dp = foldl (poll_one cb now_ms) dp due in
      record_cycle_duration dp cycle_elapsed)"

subsection \<open>Buffers stay sorted and bounded\<close>

definition buffer_ok :: "StreamBuffer \<Rightarrow> bool" where
  "buffer_ok b \<longleftrightarrow> sorted_wrt (<) (map bar_timestamp (sb_bars b)) \<and> length (sb_bars b) \<le> sb_retention b"

lemma pop_front_while_drop: "pop_front_while n xs = drop (length xs - n) xs"
  by (induction xs) (auto simp: Suc_diff_le)

lemma trim_ok: "sorted_wrt (<) (map bar_timestamp (sb_bars b)) \<Longrightarrow> buffer_ok (trim_to_retention b)"
  by (simp add: trim_to_retention_def buffer_ok_def pop_front_while_drop drop_map [symmetric] sorted_wrt_drop)

lemma sorted_wrt_snoc_last:
  "sorted_wrt (<) (xs :: int list) \<Longrightarrow> (xs \<noteq> [] \<Longrightarrow> last xs < x) \<Longrightarrow> sorted_wrt (<) (xs @ [x])"
  using sorted_le_last [of xs] strict_sorted_imp_sorted [of xs]
  by (auto simp: sorted_wrt_append) (metis empty_iff le_less_trans list.set(1))

lemma push_if_newer_ok:
  assumes "buffer_ok b" shows "buffer_ok (snd (push_if_newer b x))"
proof (cases "sb_bars b = []")
  case True
  then show ?thesis using assms
    by (auto simp: push_if_newer_def buffer_latest_def intro!: trim_ok)
next
  case False
  show ?thesis
  proof (cases "bar_timestamp x \<le> bar_timestamp (last (sb_bars b))")
    case True
    then show ?thesis using False assms by (simp add: push_if_newer_def buffer_latest_def)
  next
    case new: False
    have "sorted_wrt (<) (map bar_timestamp (sb_bars b) @ [bar_timestamp x])"
      using assms False new by (intro sorted_wrt_snoc_last) (auto simp: buffer_ok_def last_map)
    then show ?thesis using False new
      by (auto simp: push_if_newer_def buffer_latest_def intro!: trim_ok)
  qed
qed

lemma set_retention_ok: "buffer_ok b \<Longrightarrow> buffer_ok (set_retention b n)"
  unfolding set_retention_def by (rule trim_ok) (simp add: buffer_ok_def)

lemma retention_simps [simp]:
  "sb_retention (trim_to_retention b) = sb_retention b"
  "sb_retention (snd (push_if_newer b x)) = sb_retention b"
  "sb_retention (set_retention b n) = n"
  "sb_bars (set_retention b n) = drop (length (sb_bars b) - n) (sb_bars b)"
  by (simp_all add: trim_to_retention_def push_if_newer_def set_retention_def pop_front_while_drop)

subsection \<open>The registry\<close>

lemma first_occurrences_set:
  "set (first_occurrences seen xs) = set xs - set seen \<and> distinct (first_occurrences seen xs)"
  by (induction seen xs rule: first_occurrences.induct) auto

lemma source_rank_inject: "source_rank x = source_rank y \<longleftrightarrow> x = y"
  by (cases x; cases y) auto

text \<open>Two lists sorted by an injective key, without duplicates and with the same elements, are equal.\<close>

lemma sorted_key_unique:
  assumes "inj_on f (set xs)" "sorted (map f xs)" "sorted (map f ys)" "distinct xs" "distinct ys" "set xs = set ys"
  shows "xs = ys"
proof -
  have "distinct (map f xs)" "distinct (map f ys)" using assms by (auto simp: distinct_map)
  then have "map f xs = map f ys"
    using sorted_distinct_set_unique [of "map f xs" "map f ys"] assms by simp
  then show ?thesis using assms(1,6) by (metis Un_absorb map_inj_on)
qed

lemma normalized_sources_cong: "set xs = set ys \<Longrightarrow> normalized_sources xs = normalized_sources ys"
  unfolding normalized_sources_def
  by (rule sorted_key_unique [of source_rank])
    (auto simp: first_occurrences_set inj_on_def source_rank_inject)

lemma normalized_sources_set [simp]: "set (normalized_sources xs) = set xs"
  by (simp add: normalized_sources_def first_occurrences_set)

lemma min_optional_ac:
  "min_optional a b = min_optional b a"
  "min_optional a (min_optional b c) = min_optional b (min_optional a c)"
  by (cases a; cases b; cases c; simp add: min.commute min.left_commute min.assoc)+

lemma key_rank_inject: "key_rank k = key_rank l \<longleftrightarrow> k = l"
  by (cases k; cases l) (auto simp: key_rank_def Timeframe_as_str_inject)

text \<open>The registry as a function: what a lookup finds.\<close>

definition reg_insert :: "(StreamKey \<rightharpoonup> StreamSpec) \<Rightarrow> StreamSpec \<Rightarrow> (StreamKey \<rightharpoonup> StreamSpec)" where
  "reg_insert f spec = f(ss_key spec \<mapsto>
     (case f (ss_key spec) of Some e \<Rightarrow> merge_stream_spec e spec | None \<Rightarrow> normalized_stream_spec spec))"

lemma registry_insert_refines: "hm_get (registry_insert r s) = reg_insert (hm_get r) s"
  by (auto simp: registry_insert_def reg_insert_def hm_get_insert fun_eq_iff split: option.splits)

lemma merge_commute:
  "merge_stream_spec (merge_stream_spec e a) b = merge_stream_spec (merge_stream_spec e b) a"
  "ss_key a = ss_key b \<Longrightarrow> merge_stream_spec (normalized_stream_spec a) b = merge_stream_spec (normalized_stream_spec b) a"
  by (auto simp: merge_stream_spec_def normalized_stream_spec_def max.commute max.left_commute min.commute
      min.left_commute min_optional_ac intro!: StreamSpec.equality normalized_sources_cong)

lemma reg_insert_commute: "reg_insert (reg_insert f a) b = reg_insert (reg_insert f b) a"
  by (auto simp: reg_insert_def fun_eq_iff merge_commute split: option.splits)

definition registry_ok :: "StreamRegistry \<Rightarrow> bool" where
  "registry_ok r \<longleftrightarrow> hm_wf r \<and> (\<forall>k s. hm_get r k = Some s \<longrightarrow> ss_key s = k)"

lemma registry_insert_ok: "registry_ok r \<Longrightarrow> registry_ok (registry_insert r s)"
  by (auto simp: registry_ok_def registry_insert_def hm_wf_insert hm_get_insert merge_stream_spec_def
      normalized_stream_spec_def split: option.splits if_splits)

lemma from_specs_props:
  "registry_ok (registry_from_specs xs) \<and> hm_get (registry_from_specs xs) = foldl reg_insert Map.empty xs"
proof -
  have "registry_ok r \<Longrightarrow> registry_ok (foldl registry_insert r xs)
     \<and> hm_get (foldl registry_insert r xs) = foldl reg_insert (hm_get r) xs" for r
    by (induction xs arbitrary: r) (auto simp: registry_insert_ok registry_insert_refines)
  moreover have "registry_ok []" "hm_get [] = (Map.empty :: StreamKey \<rightharpoonup> StreamSpec)"
    by (simp_all add: registry_ok_def hm_wf_def hm_get_def fun_eq_iff)
  ultimately show ?thesis by (metis registry_from_specs_def)
qed

lemma registry_values_keys: "registry_ok r \<Longrightarrow> map ss_key (hm_values r) = hm_keys r"
  by (auto simp: registry_ok_def hm_values_def hm_keys_def hm_get_Some_iff)

lemma registry_specs_props:
  assumes "registry_ok r"
  shows "s \<in> set (registry_specs r) \<longleftrightarrow> hm_get r (ss_key s) = Some s"
    and "distinct (map ss_key (registry_specs r))" "sorted (map (\<lambda>s. key_rank (ss_key s)) (registry_specs r))"
proof -
  show "s \<in> set (registry_specs r) \<longleftrightarrow> hm_get r (ss_key s) = Some s"
    using assms by (auto simp: registry_specs_def compare_stream_key_sort_def registry_ok_def hm_values_iff)
  have "distinct (map ss_key (hm_values r))" using assms registry_values_keys [OF assms]
    by (simp add: registry_ok_def hm_wf_def hm_keys_def)
  then show "distinct (map ss_key (registry_specs r))"
    by (simp add: registry_specs_def compare_stream_key_sort_def distinct_map)
  show "sorted (map (\<lambda>s. key_rank (ss_key s)) (registry_specs r))"
    by (simp add: registry_specs_def compare_stream_key_sort_def)
qed

lemma registry_specs_cong:
  assumes "registry_ok r" "registry_ok q" "hm_get r = hm_get q"
  shows "registry_specs r = registry_specs q"
proof (rule sorted_key_unique [of "\<lambda>s. key_rank (ss_key s)"])
  show "set (registry_specs r) = set (registry_specs q)"
    using registry_specs_props(1) [OF assms(1)] registry_specs_props(1) [OF assms(2)] assms(3) by auto
  show "sorted (map (\<lambda>s. key_rank (ss_key s)) (registry_specs r))" by (rule registry_specs_props(3) [OF assms(1)])
  show "sorted (map (\<lambda>s. key_rank (ss_key s)) (registry_specs q))" by (rule registry_specs_props(3) [OF assms(2)])
  show "distinct (registry_specs r)" using registry_specs_props(2) [OF assms(1)] by (simp add: distinct_map)
  show "distinct (registry_specs q)" using registry_specs_props(2) [OF assms(2)] by (simp add: distinct_map)
  show "inj_on (\<lambda>s. key_rank (ss_key s)) (set (registry_specs r))"
    using registry_specs_props(2) [OF assms(1)] by (auto simp: inj_on_def key_rank_inject distinct_map)
qed

subsection \<open>The invariant of the data plane\<close>

definition entry_ok :: "StreamEntry \<Rightarrow> bool" where
  "entry_ok e \<longleftrightarrow> buffer_ok (se_buffer e) \<and> sb_retention (se_buffer e) = ss_retention (se_spec e)"

definition plane_ok :: "DataPlane \<Rightarrow> bool" where
  "plane_ok dp \<longleftrightarrow> registry_ok (dp_registry dp) \<and> hm_wf (dp_streams dp)
     \<and> (\<forall>k. map_option se_spec (hm_get (dp_streams dp) k) = hm_get (dp_registry dp) k)
     \<and> (\<forall>k e. hm_get (dp_streams dp) k = Some e \<longrightarrow> entry_ok e)"

text \<open>What every update of a single entry guarantees: it keeps the specification and a sorted,
  bounded buffer. The data plane's own lemmas follow once for all of them.\<close>

locale entry_operation =
  fixes f :: "StreamEntry \<Rightarrow> 'r \<times> StreamEntry"
  assumes keeps_spec: "se_spec (snd (f e)) = se_spec e"
    and keeps_ok: "entry_ok e \<Longrightarrow> entry_ok (snd (f e))"
begin

lemma update_ok: "plane_ok dp \<Longrightarrow> update_entry dp k f = Inr (r, dp') \<Longrightarrow> plane_ok dp'"
  using keeps_spec keeps_ok
  by (auto simp: update_entry_def plane_ok_def hm_wf_insert hm_get_insert case_prod_beta Let_def
      split: option.splits if_splits) (metis option.simps(9))+

lemma update_get:
  "update_entry dp k f = Inr (r, dp') \<Longrightarrow>
     hm_get (dp_streams dp') k' = (if k' = k then map_option (\<lambda>e. snd (f e)) (hm_get (dp_streams dp) k) else hm_get (dp_streams dp) k')"
  by (auto simp: update_entry_def hm_get_insert case_prod_beta Let_def split: option.splits)

lemma update_error_iff: "update_entry dp k f = Inl e \<longleftrightarrow> hm_get (dp_streams dp) k = None \<and> e = UnknownStream k"
  by (auto simp: update_entry_def case_prod_beta Let_def split: option.splits)

end

text \<open>Operations that also leave the polling schedule alone.\<close>

locale unscheduled_operation = entry_operation +
  assumes keeps_attempt: "se_last_attempt_ms (snd (f e)) = se_last_attempt_ms e"
begin

lemma update_schedule:
  "update_entry dp k f = Inr (r, dp') \<Longrightarrow>
     map_option (\<lambda>e. (se_spec e, se_last_attempt_ms e)) (hm_get (dp_streams dp') k')
     = map_option (\<lambda>e. (se_spec e, se_last_attempt_ms e)) (hm_get (dp_streams dp) k')"
  using update_get [of dp k r dp' k'] keeps_spec keeps_attempt by (auto simp: option.map_comp comp_def)

end

interpretation fetched: unscheduled_operation "fetched_entry now bar src" for now bar src
  by unfold_locales
    (auto simp: fetched_entry_def entry_ok_def case_prod_beta Let_def push_if_newer_ok)

interpretation fetch_error: unscheduled_operation "fetch_error_entry err" for err
  by unfold_locales (auto simp: fetch_error_entry_def entry_ok_def)

interpretation preview_state: unscheduled_operation "preview_state_entry st d" for st d
  by unfold_locales (auto simp: preview_state_entry_def entry_ok_def)

interpretation preview_update: unscheduled_operation "preview_update_entry now bar" for now bar
  by unfold_locales (auto simp: preview_update_entry_def entry_ok_def)

interpretation attempt: entry_operation "\<lambda>e. ((), mark_attempt now e)" for now
  by unfold_locales (auto simp: mark_attempt_def entry_ok_def)

lemma hm_get_map_values: "hm_get (map (\<lambda>(k, e). (k, g e)) m) k = map_option g (hm_get m k)"
  by (induction m) (auto simp: hm_get_def)

lemma hm_wf_map_values: "hm_wf (map (\<lambda>(k, e). (k, g e)) m) = hm_wf m"
  by (simp add: hm_wf_def comp_def case_prod_beta)

lemma take_due_get:
  "hm_get (dp_streams (snd (take_due_streams dp now))) k =
     map_option (\<lambda>e. if is_due e now then mark_attempt now e else e) (hm_get (dp_streams dp) k)"
  by (simp add: take_due_streams_def Let_def hm_get_map_values)

lemma take_due_iff:
  assumes "hm_wf (dp_streams dp)"
  shows "k \<in> set (fst (take_due_streams dp now)) \<longleftrightarrow> (\<exists>e. hm_get (dp_streams dp) k = Some e \<and> is_due e now)"
  using assms by (force simp: take_due_streams_def Let_def compare_stream_key_sort_def hm_get_Some_iff)

lemma take_due_ok: "plane_ok dp \<Longrightarrow> plane_ok (snd (take_due_streams dp now))"
  unfolding plane_ok_def take_due_get
  by (auto simp: take_due_streams_def Let_def hm_wf_map_values option.map_comp comp_def mark_attempt_def
      entry_ok_def if_distrib [of se_spec] cong: if_cong)

subsection \<open>Reconfiguration\<close>

definition refit :: "StreamSpec \<Rightarrow> StreamEntry \<Rightarrow> StreamEntry" where
  "refit s e = e\<lparr>se_spec := s, se_buffer := set_retention (se_buffer e) (ss_retention s)\<rparr>"

lemma replace_fold:
  assumes "distinct (map ss_key specs)" "hm_wf old" "hm_wf next"
  shows "hm_wf (snd (foldl replace_one (old, next) specs))
    \<and> hm_get (snd (foldl replace_one (old, next) specs)) k =
       (case find (\<lambda>s. ss_key s = k) specs of
          None \<Rightarrow> hm_get next k
        | Some s \<Rightarrow> Some (refit s (case hm_get old k of Some e \<Rightarrow> e | None \<Rightarrow> StreamEntry_new s)))"
  using assms
proof (induction specs arbitrary: old "next")
  case (Cons s specs)
  let ?r = "replace_one (old, next) s"
  have wf: "hm_wf (fst ?r)" "hm_wf (snd ?r)"
    using Cons.prems by (simp_all add: replace_one_def Let_def hm_wf_remove hm_wf_insert)
  have g: "hm_get (snd ?r) k = (if k = ss_key s
      then Some (refit s (case hm_get old k of Some e \<Rightarrow> e | None \<Rightarrow> StreamEntry_new s)) else hm_get next k)"
    "hm_get (fst ?r) k = (if k = ss_key s then None else hm_get old k)"
    by (auto simp: replace_one_def Let_def hm_get_insert hm_get_remove refit_def split: option.splits)
  have nf: "find (\<lambda>x. ss_key x = ss_key s) specs = None"
    using Cons.prems(1) by (auto simp: find_None_iff image_iff)
  show ?case
    using Cons.IH [of "fst ?r" "snd ?r"] wf Cons.prems(1) g nf by (auto split: option.splits)
qed simp

lemma replace_streams_get:
  assumes "plane_ok dp"
  shows "hm_get (dp_streams (replace_streams dp specs)) k =
     (case hm_get (registry_from_specs specs) k of
        None \<Rightarrow> None
      | Some s \<Rightarrow> Some (refit s (case hm_get (dp_streams dp) k of Some e \<Rightarrow> e | None \<Rightarrow> StreamEntry_new s)))"
    and "hm_wf (dp_streams (replace_streams dp specs))"
proof -
  let ?r = "registry_from_specs specs"
  have ok: "registry_ok ?r" using from_specs_props by blast
  note sp = registry_specs_props [OF ok]
  have f: "find (\<lambda>s. ss_key s = k) (registry_specs ?r) = hm_get ?r k"
  proof (cases "hm_get ?r k")
    case None
    then show ?thesis using sp(1) by (auto simp: find_None_iff)
  next
    case (Some s)
    then have s: "s \<in> set (registry_specs ?r)" "ss_key s = k" using ok sp(1) by (auto simp: registry_ok_def)
    then obtain s' where s': "find (\<lambda>s. ss_key s = k) (registry_specs ?r) = Some s'"
      by (cases "find (\<lambda>s. ss_key s = k) (registry_specs ?r)") (auto simp: find_None_iff)
    then have "s' \<in> set (registry_specs ?r)" "ss_key s' = k" by (auto simp: find_Some_iff)
    then have "hm_get ?r k = Some s'" using sp(1) [of s'] by auto
    then show ?thesis using s' by simp
  qed
  have wf: "hm_wf (dp_streams dp)" "hm_wf []" using assms by (simp_all add: plane_ok_def hm_wf_def)
  note R = replace_fold [OF sp(2) wf, of k]
  show "hm_get (dp_streams (replace_streams dp specs)) k =
     (case hm_get ?r k of
        None \<Rightarrow> None
      | Some s \<Rightarrow> Some (refit s (case hm_get (dp_streams dp) k of Some e \<Rightarrow> e | None \<Rightarrow> StreamEntry_new s)))"
    using R by (auto simp: replace_streams_def Let_def case_prod_beta f hm_get_def split: option.splits)
  show "hm_wf (dp_streams (replace_streams dp specs))"
    using R by (simp add: replace_streams_def Let_def case_prod_beta)
qed

lemma StreamEntry_new_ok: "entry_ok (StreamEntry_new s)"
  by (simp add: entry_ok_def StreamEntry_new_def StreamBuffer_new_def buffer_ok_def)

lemma replace_streams_ok: "plane_ok dp \<Longrightarrow> plane_ok (replace_streams dp specs)"
proof -
  assume ok: "plane_ok dp"
  have r: "dp_registry (replace_streams dp specs) = registry_from_specs specs"
    by (simp add: replace_streams_def Let_def case_prod_beta)
  have e: "entry_ok (refit s e)" if "entry_ok e" for s e
    using that by (simp add: refit_def entry_ok_def set_retention_ok)
  have "entry_ok (case hm_get (dp_streams dp) k of Some e \<Rightarrow> e | None \<Rightarrow> StreamEntry_new s)" for k s
    using ok by (auto simp: plane_ok_def StreamEntry_new_ok split: option.splits)
  then show ?thesis using e from_specs_props [of specs] replace_streams_get [OF ok, of specs]
    unfolding plane_ok_def r by (auto simp: refit_def split: option.splits)
qed

lemma DataPlane_new_ok: "plane_ok (DataPlane_new specs)"
proof -
  let ?r = "registry_from_specs specs"
  have ok: "registry_ok ?r" using from_specs_props by blast
  let ?es = "map (\<lambda>s. (ss_key s, StreamEntry_new s)) (registry_specs ?r)"
  have d: "distinct (map fst ?es)" using registry_specs_props(2) [OF ok] by (simp add: comp_def)
  have g: "hm_get (hm_of_list ?es) k = map_option StreamEntry_new (hm_get ?r k)" for k
  proof -
    have "distinct (map fst (rev ?es))" using d by (simp add: rev_map [symmetric])
    then have g: "hm_get (hm_of_list ?es) k = Some e \<longleftrightarrow> (k, e) \<in> set ?es" for e
      using hm.get_build [of ?es k] map_of_eq_Some_iff [of "rev ?es" k e] by simp
    have "(k, e) \<in> set ?es \<longleftrightarrow> (\<exists>s. hm_get ?r k = Some s \<and> e = StreamEntry_new s)" for e
    proof
      assume "(k, e) \<in> set ?es"
      then obtain s where "s \<in> set (registry_specs ?r)" "k = ss_key s" "e = StreamEntry_new s" by auto
      then show "\<exists>s. hm_get ?r k = Some s \<and> e = StreamEntry_new s" using registry_specs_props(1) [OF ok] by blast
    next
      assume "\<exists>s. hm_get ?r k = Some s \<and> e = StreamEntry_new s"
      then obtain s where "hm_get ?r k = Some s" "e = StreamEntry_new s" by blast
      moreover from this have "ss_key s = k" using ok by (simp add: registry_ok_def)
      ultimately show "(k, e) \<in> set ?es" using registry_specs_props(1) [OF ok, of s] by (auto simp: image_iff)
    qed
    then show ?thesis using g by (cases "hm_get ?r k"; cases "hm_get (hm_of_list ?es) k") auto
  qed
  show ?thesis using ok hm.wf_build [of ?es]
    by (auto simp: plane_ok_def DataPlane_new_def Let_def g option.map_comp comp_def StreamEntry_new_ok)
      (simp add: StreamEntry_new_def option.map_ident)
qed

subsection \<open>Reachable states\<close>

text \<open>Every sequence of lock-protected operations, by any number of threads.\<close>

inductive plane_step :: "DataPlane \<Rightarrow> DataPlane \<Rightarrow> bool" where
  step_replace: "plane_step dp (replace_streams dp specs)"
| step_due: "plane_step dp (snd (take_due_streams dp now))"
| step_fetched: "record_fetched_bar_from_source dp k now bar src = Inr (appended, dp') \<Longrightarrow> plane_step dp dp'"
| step_fetch_error: "record_fetch_error dp k err = Inr (u, dp') \<Longrightarrow> plane_step dp dp'"
| step_preview_state: "record_preview_connection_state dp k st d = Inr (u, dp') \<Longrightarrow> plane_step dp dp'"
| step_preview_update: "record_preview_update dp k now bar = Inr (u, dp') \<Longrightarrow> plane_step dp dp'"
| step_manual: "record_manual_poll_attempt dp k now = Inr (u, dp') \<Longrightarrow> plane_step dp dp'"
| step_completion: "plane_step dp (record_completion dp is_error)"
| step_dropped: "plane_step dp (record_dropped_error_record dp)"
| step_fetch_latency: "plane_step dp (record_connector_fetch_latency dp d)"
| step_cycle: "plane_step dp (record_cycle_duration dp d)"
| step_lock_wait: "plane_step dp (record_runtime_write_lock_wait dp d)"

inductive plane_reachable :: "DataPlane \<Rightarrow> bool" where
  plane_init: "plane_reachable (DataPlane_new specs)"
| plane_next: "plane_reachable dp \<Longrightarrow> plane_step dp dp' \<Longrightarrow> plane_reachable dp'"

lemma metrics_ok [simp]:
  "plane_ok (record_completion dp b) = plane_ok dp" "plane_ok (record_dropped_error_record dp) = plane_ok dp"
  "plane_ok (record_connector_fetch_latency dp d) = plane_ok dp" "plane_ok (record_cycle_duration dp d) = plane_ok dp"
  "plane_ok (record_runtime_write_lock_wait dp d) = plane_ok dp" "plane_ok (dp\<lparr>dp_metrics := m\<rparr>) = plane_ok dp"
  by (simp_all add: plane_ok_def record_completion_def record_dropped_error_record_def
      record_connector_fetch_latency_def record_cycle_duration_def record_runtime_write_lock_wait_def)

lemma manual_ok:
  assumes "plane_ok dp" "record_manual_poll_attempt dp k now = Inr (u, dp')" shows "plane_ok dp'"
proof -
  obtain dp1 where "update_entry dp k (\<lambda>e. ((), mark_attempt now e)) = Inr (u, dp1)"
    and "dp' = dp1\<lparr>dp_metrics := metrics_record_fetch (dp_metrics dp1)\<rparr>"
    using assms(2) by (auto simp: record_manual_poll_attempt_def split: sum.splits)
  then show ?thesis using attempt.update_ok [OF assms(1)] by simp
qed

lemma fetched_ok: "plane_ok dp \<Longrightarrow> record_fetched_bar_from_source dp k now bar src = Inr (a, dp') \<Longrightarrow> plane_ok dp'"
  unfolding record_fetched_bar_from_source_def by (rule fetched.update_ok)

lemma fetch_error_ok: "plane_ok dp \<Longrightarrow> record_fetch_error dp k err = Inr (u, dp') \<Longrightarrow> plane_ok dp'"
  unfolding record_fetch_error_def by (rule fetch_error.update_ok)

lemma plane_step_ok: "plane_step dp dp' \<Longrightarrow> plane_ok dp \<Longrightarrow> plane_ok dp'"
proof (induction rule: plane_step.induct)
  case (step_preview_state dp k st d u dp')
  then show ?case unfolding record_preview_connection_state_def by (metis preview_state.update_ok)
next
  case (step_preview_update dp k now bar u dp')
  then show ?case unfolding record_preview_update_def by (metis preview_update.update_ok)
next
  case (step_manual dp k now u dp')
  then show ?case using manual_ok by blast
next
  case (step_fetched dp k now bar src appended dp')
  then show ?case using fetched_ok by blast
next
  case (step_fetch_error dp k err u dp')
  then show ?case using fetch_error_ok by blast
qed (simp_all add: replace_streams_ok take_due_ok)

lemma note_ok:
  "plane_ok dp \<Longrightarrow> plane_ok (note_fetch_error dp k err)" "plane_ok dp \<Longrightarrow> plane_ok (note_on_error cb dp k err)"
  by (auto simp: note_fetch_error_def note_on_error_def split: sum.splits intro: fetch_error_ok [rotated])

lemma poll_one_ok: "plane_ok dp \<Longrightarrow> plane_ok (poll_one cb now dp k)"
  by (auto simp: poll_one_def Let_def note_ok record_fetched_bar_def
      split: sum.splits prod.splits DataPlaneError.splits intro: fetched_ok [rotated])

lemma poll_cycle_ok: "plane_ok dp \<Longrightarrow> plane_ok (poll_cycle cb now el dp)"
proof -
  have "plane_ok dp' \<Longrightarrow> plane_ok (foldl (poll_one cb now) dp' ks)" for dp' ks
    by (induction ks arbitrary: dp') (simp_all add: poll_one_ok)
  then show "plane_ok dp \<Longrightarrow> plane_ok (poll_cycle cb now el dp)"
    by (simp add: poll_cycle_def Let_def case_prod_beta take_due_ok)
qed

lemma reachable_ok: "plane_reachable dp \<Longrightarrow> plane_ok dp"
  by (induction rule: plane_reachable.induct) (auto intro: DataPlane_new_ok plane_step_ok)

subsection \<open>The polling schedule\<close>

abbreviation schedule_of :: "DataPlane \<Rightarrow> StreamKey \<Rightarrow> (StreamSpec \<times> int option) option" where
  "schedule_of dp k \<equiv> map_option (\<lambda>e. (se_spec e, se_last_attempt_ms e)) (hm_get (dp_streams dp) k)"

lemma metrics_streams [simp]:
  "dp_streams (record_completion dp b) = dp_streams dp"
  "dp_streams (record_dropped_error_record dp) = dp_streams dp"
  "dp_streams (record_connector_fetch_latency dp d) = dp_streams dp"
  "dp_streams (record_cycle_duration dp d) = dp_streams dp"
  by (simp_all add: record_completion_def record_dropped_error_record_def
      record_connector_fetch_latency_def record_cycle_duration_def)

lemma note_schedule [simp]:
  "schedule_of (note_fetch_error dp k err) j = schedule_of dp j"
  "schedule_of (note_on_error cb dp k err) j = schedule_of dp j"
  using fetch_error.update_schedule [of dp k err _ _ j]
  by (auto simp: note_fetch_error_def note_on_error_def record_fetch_error_def split: sum.splits prod.splits)

lemma poll_one_schedule: "schedule_of (poll_one cb now dp k) j = schedule_of dp j"
proof (cases "on_attempt cb k now")
  case (Inr u)
  let ?dp = "record_connector_fetch_latency dp (fetch_elapsed cb k)"
  show ?thesis
  proof (cases "fetcher cb k")
    case f: (Inr bar)
    show ?thesis
    proof (cases "record_fetched_bar ?dp k now bar")
      case (Inl e)
      then show ?thesis using Inr f by (cases e) (simp add: poll_one_def)
    next
      case r: (Inr p)
      obtain a dp' where p: "p = (a, dp')" by fastforce
      then have "schedule_of dp' j = schedule_of ?dp j"
        using r fetched.update_schedule [of ?dp k now bar Poll a dp' j]
        by (simp add: record_fetched_bar_def record_fetched_bar_from_source_def)
      then show ?thesis using Inr f r p by (simp add: poll_one_def)
    qed
  qed (use Inr in \<open>simp add: poll_one_def Let_def\<close>)
qed (simp add: poll_one_def Let_def)

lemma poll_cycle_schedule:
  "schedule_of (poll_cycle cb now el dp) j = schedule_of (snd (take_due_streams dp now)) j"
proof -
  have "schedule_of (foldl (poll_one cb now) dp' ks) j = schedule_of dp' j" for dp' ks
    by (induction ks arbitrary: dp') (simp_all add: poll_one_schedule)
  then show ?thesis by (simp add: poll_cycle_def Let_def case_prod_beta)
qed

lemma not_due_soon:
  assumes "se_last_attempt_ms e = Some t" "t \<le> t'" "t' - t < i64_max"
    and "t' - t < ss_polling_interval_ms (se_spec e)"
    and "\<And>r. ss_close_poll_retry_ms (se_spec e) = Some r \<Longrightarrow> t' - t < r"
  shows "\<not> is_due e t'"
proof -
  have "i64_min \<le> 0" by (simp add: i64_min_def)
  then have "\<not> attempt_elapsed e t' (saturating_millis_to_i64 i)" if "t' - t < i" for i
    using that assms(1-3) by (auto simp: attempt_elapsed_def sat_i64_def saturating_millis_to_i64_def)
  then show ?thesis using assms(4,5)
    by (auto simp: is_due_def close_window_due_def Let_def split: option.splits)
qed

subsection \<open>Properties\<close>

text \<open>C32: In every state the data plane can reach, by any interleaving of its operations, exactly the
  registered streams have an entry with exactly their merged specification, and every buffer holds
  at most its retention of bars in strictly increasing time order.\<close>
theorem reachable_plane_invariant:
  assumes "plane_reachable dp"
  shows "plane_ok dp"
  using assms by (rule reachable_ok)

text \<open>The registered streams do not depend on the order in which bots and watchlists ask for
  them: any permutation of the specifications gives the same merged list.\<close>
theorem registry_order_independent:
  assumes "mset xs = mset ys"
  shows "registered_streams (DataPlane_new xs) = registered_streams (DataPlane_new ys)"
proof -
  have "foldl reg_insert Map.empty xs = foldl reg_insert Map.empty ys"
    unfolding foldl_conv_fold using assms reg_insert_commute
    by (intro fun_cong [OF fold_multiset_equiv [of xs "\<lambda>x s. reg_insert s x" ys]]) (auto simp: fun_eq_iff)
  then show ?thesis
    using registry_specs_cong from_specs_props
    by (simp add: registered_streams_def DataPlane_new_def Let_def)
qed

text \<open>Polling is rate-limited: a stream polled in a cycle is not due again in a later cycle
  before its polling interval and, where one is set, its close-window retry interval have passed,
  whatever the fetches and callbacks of the first cycle did.\<close>
theorem polling_rate_limited:
  assumes "plane_ok dp" "k \<in> set (fst (take_due_streams dp t))"
    and "hm_get (dp_streams dp) k = Some e" "t \<le> t'" "t' - t < i64_max"
    and "t' - t < ss_polling_interval_ms (se_spec e)"
    and "case ss_close_poll_retry_ms (se_spec e) of None \<Rightarrow> True | Some r \<Rightarrow> t' - t < r"
  shows "k \<notin> set (fst (take_due_streams (poll_cycle cb t el dp) t'))"
proof
  let ?dp = "poll_cycle cb t el dp"
  assume "k \<in> set (fst (take_due_streams ?dp t'))"
  then obtain e' where e': "hm_get (dp_streams ?dp) k = Some e'" "is_due e' t'"
    using take_due_iff poll_cycle_ok [OF assms(1), of cb t el] by (auto simp: plane_ok_def)
  have "is_due e t" using assms(1,2,3) take_due_iff by (auto simp: plane_ok_def)
  then have "schedule_of ?dp k = Some (se_spec e, Some t)"
    unfolding poll_cycle_schedule take_due_get assms(3) by (simp add: mark_attempt_def)
  then have "se_spec e' = se_spec e" "se_last_attempt_ms e' = Some t" using e'(1) by auto
  then have "\<not> is_due e' t'" using assms(4-7) by (intro not_due_soon [of _ t]) (auto split: option.splits)
  with e'(2) show False by simp
qed

text \<open>Reconfiguring the streams loses no data that still fits: a stream that stays registered
  keeps its whole entry with the newest bars up to the new retention, a new stream starts empty and
  a stream that is no longer registered disappears.\<close>
theorem replace_streams_keeps_history:
  assumes "plane_ok dp"
  shows "(case hm_get (registry_from_specs specs) k of
      None \<Rightarrow> hm_get (dp_streams (replace_streams dp specs)) k = None
    | Some s \<Rightarrow>
        (case hm_get (dp_streams dp) k of
           None \<Rightarrow> hm_get (dp_streams (replace_streams dp specs)) k = Some (refit s (StreamEntry_new s))
         | Some e \<Rightarrow> hm_get (dp_streams (replace_streams dp specs)) k = Some (refit s e)
             \<and> sb_bars (se_buffer (refit s e))
               = drop (length (sb_bars (se_buffer e)) - ss_retention s) (sb_bars (se_buffer e))))"
  using replace_streams_get(1) [OF assms, of specs k] by (auto simp: refit_def split: option.splits)

subsection \<open>Witnesses\<close>

definition demo_key :: StreamKey where
  "demo_key = \<lparr>sk_account_id = ''acct'', sk_symbol = ''BTC'', sk_timeframe = M1\<rparr>"

definition demo_spec :: "int \<Rightarrow> string \<Rightarrow> StreamSpec" where
  "demo_spec interval inst = \<lparr>ss_key = demo_key, ss_retention = 10, ss_polling_interval_ms = interval,
     ss_close_poll_retry_ms = Some 250, ss_close_poll_grace_ms = Some 5000, ss_preview_enabled = False,
     ss_sources = [Instance inst]\<rparr>"

definition demo_plane :: DataPlane where
  "demo_plane = DataPlane_new [demo_spec 1000 ''a'', demo_spec 500 ''b'']"

definition demo_callbacks :: poll_callbacks where
  "demo_callbacks = \<lparr>on_attempt = (\<lambda>_ _. Inr ()), fetcher = (\<lambda>_. Inl ''timeout''), on_success = (\<lambda>_ _ _ _. Inr ()),
     on_error = (\<lambda>_ _. Inr ()), fetch_elapsed = (\<lambda>_. 0)\<rparr>"

theorem reachable_plane_invariant_witness: "plane_ok demo_plane"
  by (rule reachable_plane_invariant) (simp add: demo_plane_def plane_init)

theorem registry_order_independent_witness:
  "registered_streams (DataPlane_new [demo_spec 1000 ''a'', demo_spec 500 ''b''])
   = registered_streams (DataPlane_new [demo_spec 500 ''b'', demo_spec 1000 ''a''])"
  by (rule registry_order_independent) (simp add: add_mset_commute)

lemma demo_plane_facts:
  "plane_ok demo_plane" "demo_key \<in> set (fst (take_due_streams demo_plane 0))"
  "hm_get (dp_streams demo_plane) demo_key = Some (the (hm_get (dp_streams demo_plane) demo_key))"
  "ss_polling_interval_ms (se_spec (the (hm_get (dp_streams demo_plane) demo_key))) = 500"
  "ss_close_poll_retry_ms (se_spec (the (hm_get (dp_streams demo_plane) demo_key))) = Some 250"
  by (rule reachable_ok, simp add: demo_plane_def plane_init) code_simp+

theorem polling_rate_limited_witness:
  "demo_key \<notin> set (fst (take_due_streams (poll_cycle demo_callbacks 0 0 demo_plane) 200))"
  by (rule polling_rate_limited [OF demo_plane_facts(1,2,3)])
    (simp_all add: demo_plane_facts(4,5) i64_max_def)

theorem replace_streams_keeps_history_witness:
  "hm_get (dp_streams (replace_streams demo_plane [])) demo_key = None"
  using replace_streams_keeps_history [OF demo_plane_facts(1), of "[]" demo_key]
  by (simp add: registry_from_specs_def hm_get_def)

end
