(* ===== verification/Portfolio.thy ===== *)
theory Portfolio
  imports Ledger
begin

section \<open>Portfolio reconciliation (crate openticker-portfolio)\<close>

text \<open>
  What the account really holds against what the bots believe: which lane owns a connector
  position (\<open>exposure.rs\<close>, \<open>positions.rs\<close>, \<open>symbols.rs\<close>), which remote orders are
  managed (\<open>orders.rs\<close>), the assessment a lane gets before it may trade
  (\<open>reconciliation.rs\<close>), the exceptions that block new opens (\<open>exceptions.rs\<close>) and
  the refresh of the capital ledger (\<open>balances.rs\<close>, \<open>lanes.rs\<close>,
  \<open>ledger_sync.rs\<close>, \<open>rejections.rs\<close>). The snapshot types come from
  \<open>openticker-connectors/types.rs\<close>, the records from \<open>openticker-storage/records.rs\<close>.
\<close>

definition POSITION_QUANTITY_TOLERANCE :: f64 where
  "POSITION_QUANTITY_TOLERANCE = f64_rnd (1 / 1000000000)"

subsection \<open>Connector snapshots and journal records\<close>

record ConnectorOpenOrder =
  co_client_order_id :: string
  co_symbol :: string
  co_status :: string
  co_quantity :: f64

record ConnectorPosition =
  cp_symbol :: string
  cp_quantity :: f64

record ConnectorPrivateBalance =
  cb_asset :: string
  cb_free :: f64
  cb_locked :: f64

record ConnectorAccountSnapshot =
  cs_open_orders :: "ConnectorOpenOrder list"
  cs_positions :: "ConnectorPosition list"
  cs_balances :: "ConnectorPrivateBalance list"

record OrderRecord =
  or_id :: int
  or_bot_id :: string
  or_symbol :: "string option"
  or_trace_id :: "string option"
  or_bar_timestamp :: "string option"
  or_client_order_id :: string
  or_intent :: string
  or_status :: string
  or_price :: f64
  or_quantity :: f64
  or_created_at_ms :: int

record PositionRecord =
  pr_id :: int
  pr_bot_id :: string
  pr_symbol :: "string option"
  pr_trace_id :: "string option"
  pr_bar_timestamp :: "string option"
  pr_has_position :: bool
  pr_quantity :: f64
  pr_entry_price :: "f64 option"
  pr_realized_pnl_usd :: f64
  pr_reason :: string
  pr_created_at_ms :: int

subsection \<open>Symbols\<close>

definition QUOTE_SUFFIXES :: "string list" where
  "QUOTE_SUFFIXES = [''FDUSD'', ''USDT'', ''USDC'', ''BUSD'', ''USD'', ''BTC'']"

definition ends_with :: "string \<Rightarrow> string \<Rightarrow> bool" where
  "ends_with s suf = (length suf \<le> length s \<and> drop (length s - length suf) s = suf)"

definition symbol_base_asset :: "string \<Rightarrow> string option" where
  "symbol_base_asset symbol =
     (case find (\<lambda>suffix. length suffix < length symbol \<and> ends_with symbol suffix) QUOTE_SUFFIXES of
        None \<Rightarrow> None
      | Some suffix \<Rightarrow> Some (take (length symbol - length suffix) symbol))"

definition connector_position_matches_symbol :: "string \<Rightarrow> string \<Rightarrow> bool" where
  "connector_position_matches_symbol connector_symbol symbol =
     (connector_symbol = symbol
      \<or> (case symbol_base_asset symbol of None \<Rightarrow> False | Some asset \<Rightarrow> eq_ignore_ascii_case connector_symbol asset))"

subsection \<open>Positions\<close>

record LatestLanePosition =
  llp_lane_id :: string
  llp_position :: "PositionRecord option"

definition position_reason_is_close_requested :: "string \<Rightarrow> bool" where
  "position_reason_is_close_requested reason = (reason = ''close_requested'')"

definition position_reason_is_reconciliation_sync :: "string \<Rightarrow> bool" where
  "position_reason_is_reconciliation_sync reason = ends_with reason ''_reconciliation_sync''"

definition position_record_is_authoritative :: "PositionRecord \<Rightarrow> bool" where
  "position_record_is_authoritative position =
     (\<not> position_reason_is_close_requested (pr_reason position)
      \<and> \<not> position_reason_is_reconciliation_sync (pr_reason position))"

definition latest_authoritative_position :: "string \<Rightarrow> PositionRecord list \<Rightarrow> PositionRecord option" where
  "latest_authoritative_position symbol positions =
     find (\<lambda>position. position_record_is_authoritative position \<and> pr_symbol position = Some symbol) (rev positions)"

definition latest_position_for_lane :: "LatestLanePosition list \<Rightarrow> string \<Rightarrow> PositionRecord option" where
  "latest_position_for_lane latest_positions lane_id =
     (case find (\<lambda>latest. llp_lane_id latest = lane_id) latest_positions of
        None \<Rightarrow> None | Some latest \<Rightarrow> llp_position latest)"

definition authoritative_position_quantity :: "PositionRecord \<Rightarrow> f64" where
  "authoritative_position_quantity position =
     (if \<not> position_record_is_authoritative position then 0
      else if POSITION_QUANTITY_TOLERANCE < pr_quantity position then f64_max (pr_quantity position) 0
      else if pr_has_position position then 1 else 0)"

definition position_record_indicates_open :: "PositionRecord \<Rightarrow> bool" where
  "position_record_indicates_open position =
     (POSITION_QUANTITY_TOLERANCE < authoritative_position_quantity position
      \<or> (position_record_is_authoritative position \<and> pr_has_position position))"

subsection \<open>Lanes and account risk\<close>

record PortfolioLaneView =
  plv_lane_id :: string
  plv_bot_id :: string
  plv_account_id :: string
  plv_symbol :: string
  plv_budget_pct :: f64
  plv_effective_position_quantity :: f64
  plv_position_notional_usd :: f64
  plv_daily_loss_pct_accumulated :: f64

record AccountRiskSnapshot =
  ars_open_positions :: int
  ars_daily_loss_pct :: f64

definition u32_max :: int where
  "u32_max = 4294967295"

definition account_risk_step :: "AccountRiskSnapshot \<Rightarrow> PortfolioLaneView \<Rightarrow> AccountRiskSnapshot" where
  "account_risk_step acc lane =
     \<lparr>ars_open_positions =
        (if POSITION_QUANTITY_TOLERANCE < plv_effective_position_quantity lane
         then min (ars_open_positions acc + 1) u32_max else ars_open_positions acc),
      ars_daily_loss_pct = ars_daily_loss_pct acc + plv_daily_loss_pct_accumulated lane\<rparr>"

definition account_risk_snapshot :: "PortfolioLaneView list \<Rightarrow> AccountRiskSnapshot" where
  "account_risk_snapshot lanes = foldl account_risk_step \<lparr>ars_open_positions = 0, ars_daily_loss_pct = 0\<rparr> lanes"

subsection \<open>Exposure\<close>

datatype ConnectorPositionOwner = NoOwner | UniqueOwner string | AmbiguousOwner "string list"

record AccountSymbolExposure =
  ase_symbol :: string
  ase_remote_net_qty :: f64
  ase_aggregate_managed_qty :: f64
  ase_external_delta_qty :: f64

definition sanitize_quantity_delta :: "f64 \<Rightarrow> f64" where
  "sanitize_quantity_delta value = (if \<bar>value\<bar> \<le> POSITION_QUANTITY_TOLERANCE then 0 else value)"

definition position_quantity_for_symbol :: "ConnectorAccountSnapshot \<Rightarrow> string \<Rightarrow> f64" where
  "position_quantity_for_symbol snapshot symbol =
     f64_sum (List.map_filter (\<lambda>position.
       if \<bar>cp_quantity position\<bar> \<le> POSITION_QUANTITY_TOLERANCE then None
       else if connector_position_matches_symbol (cp_symbol position) symbol
       then Some \<bar>cp_quantity position\<bar> else None) (cs_positions snapshot))"

definition account_symbol_exposure ::
    "string \<Rightarrow> string \<Rightarrow> ConnectorAccountSnapshot \<Rightarrow> PortfolioLaneView list \<Rightarrow> LatestLanePosition list
      \<Rightarrow> AccountSymbolExposure" where
  "account_symbol_exposure account_id symbol snapshot lanes latest_positions =
     (let remote_net_qty = position_quantity_for_symbol snapshot symbol;
          aggregate_managed_qty = f64_sum (map authoritative_position_quantity
            (List.map_filter (\<lambda>lane. latest_position_for_lane latest_positions (plv_lane_id lane))
              (filter (\<lambda>lane. plv_account_id lane = account_id
                  \<and> connector_position_matches_symbol symbol (plv_symbol lane)) lanes))) in
      \<lparr>ase_symbol = symbol, ase_remote_net_qty = remote_net_qty, ase_aggregate_managed_qty = aggregate_managed_qty,
       ase_external_delta_qty = sanitize_quantity_delta (remote_net_qty - aggregate_managed_qty)\<rparr>)"

definition lane_ids_matching :: "string \<Rightarrow> string \<Rightarrow> PortfolioLaneView list \<Rightarrow> string list" where
  "lane_ids_matching account_id connector_symbol lanes =
     sort (map plv_lane_id (filter (\<lambda>lane. plv_account_id lane = account_id
       \<and> connector_position_matches_symbol connector_symbol (plv_symbol lane)) lanes))"

definition local_holders :: "LatestLanePosition list \<Rightarrow> string list \<Rightarrow> string list \<times> string list" where
  "local_holders latest_positions lane_ids = foldl (\<lambda>(strong, anyh) lane_id.
     case latest_position_for_lane latest_positions lane_id of
       None \<Rightarrow> (strong, anyh)
     | Some position \<Rightarrow>
         if \<not> position_record_indicates_open position then (strong, anyh)
         else (if \<not> position_reason_is_reconciliation_sync (pr_reason position) then strong @ [lane_id] else strong,
               anyh @ [lane_id])) ([], []) lane_ids"

definition connector_position_owner ::
    "string \<Rightarrow> string \<Rightarrow> PortfolioLaneView list \<Rightarrow> LatestLanePosition list \<Rightarrow> ConnectorPositionOwner" where
  "connector_position_owner account_id connector_symbol lanes latest_positions =
     (let matching_lane_ids = lane_ids_matching account_id connector_symbol lanes in
      case matching_lane_ids of
        [] \<Rightarrow> NoOwner
      | [lane_id] \<Rightarrow> UniqueOwner lane_id
      | _ \<Rightarrow>
          (let (strong_local_holders, any_local_holders) = local_holders latest_positions matching_lane_ids in
           if length strong_local_holders = 1 then UniqueOwner (hd strong_local_holders)
           else if 1 < length strong_local_holders then AmbiguousOwner strong_local_holders
           else if length any_local_holders = 1 then UniqueOwner (hd any_local_holders)
           else AmbiguousOwner matching_lane_ids))"

subsection \<open>Orders\<close>

record LocalOpenOrderIdentity =
  lo_bot_id :: string
  lo_symbol :: "string option"

definition identity_key :: "LocalOpenOrderIdentity \<Rightarrow> string \<times> string option" where
  "identity_key i = (lo_bot_id i, lo_symbol i)"

record ManagedRemoteOpenOrder =
  mo_bot_id :: string
  mo_order :: ConnectorOpenOrder

record ClassifiedRemoteOpenOrders =
  cl_managed_orders :: "ManagedRemoteOpenOrder list"
  cl_external_orders :: "ConnectorOpenOrder list"
  cl_unsafe_reasons :: "string list"

definition order_status_terminal :: "string \<Rightarrow> bool" where
  "order_status_terminal status =
     (status \<in> {''filled'', ''cancelled'', ''rejected'', ''expired'', ''done'', ''cancel_requested''})"

definition open_orders_for_symbol :: "ConnectorAccountSnapshot \<Rightarrow> string \<Rightarrow> ConnectorOpenOrder list" where
  "open_orders_for_symbol snapshot symbol =
     filter (\<lambda>order. co_symbol order = symbol \<and> \<not> order_status_terminal (co_status order)) (cs_open_orders snapshot)"

definition local_open_order_ids :: "OrderRecord list \<Rightarrow> string list \<Rightarrow> string list" where
  "local_open_order_ids orders filled_client_order_ids =
     map or_client_order_id (filter (\<lambda>order. \<not> order_status_terminal (or_status order)
       \<and> or_client_order_id order \<notin> set filled_client_order_ids) orders)"

definition describe_local_open_order_identities :: "LocalOpenOrderIdentity list \<Rightarrow> string" where
  "describe_local_open_order_identities identities =
     join '','' (remdups_adj (sort (map (\<lambda>i. lo_bot_id i @ '':''
       @ (case lo_symbol i of None \<Rightarrow> ''<unknown-symbol>'' | Some s \<Rightarrow> s)) identities)))"

datatype remote_order_class = Managed string | External | Unsafe string

text \<open>The body of the loop: what one remote order is.\<close>

definition classify_one ::
    "string \<Rightarrow> string \<Rightarrow> (string, LocalOpenOrderIdentity list) hmap \<Rightarrow> string list \<Rightarrow> ConnectorOpenOrder \<Rightarrow> remote_order_class" where
  "classify_one account_id symbol matches_by_client_order_id eligible_bot_ids order =
     (case hm_get matches_by_client_order_id (co_client_order_id order) of
        None \<Rightarrow> External
      | Some matches \<Rightarrow>
          if matches = [] then External
          else
            (case remdups_adj (sort_key identity_key matches) of
               [identity] \<Rightarrow>
                 (case lo_symbol identity of
                    None \<Rightarrow> Unsafe (''client_order_id='' @ co_client_order_id order @ '' matched multiple local orders (''
                      @ describe_local_open_order_identities matches @ '')'')
                  | Some local_symbol \<Rightarrow>
                      if local_symbol \<noteq> symbol then
                        Unsafe (''client_order_id='' @ co_client_order_id order @ '' matched local symbol ''
                          @ local_symbol @ '' but remote symbol is '' @ symbol)
                      else if lo_bot_id identity \<notin> set eligible_bot_ids then
                        Unsafe (''client_order_id='' @ co_client_order_id order @ '' matched bot '' @ lo_bot_id identity
                          @ '' but not account '' @ account_id @ '' symbol '' @ symbol)
                      else Managed (lo_bot_id identity))
             | _ \<Rightarrow> Unsafe (''client_order_id='' @ co_client_order_id order @ '' matched multiple local orders (''
                 @ describe_local_open_order_identities matches @ '')'')))"

definition classify_push :: "ClassifiedRemoteOpenOrders \<Rightarrow> ConnectorOpenOrder \<Rightarrow> remote_order_class \<Rightarrow> ClassifiedRemoteOpenOrders" where
  "classify_push classified order c =
     (case c of
        Managed bot_id \<Rightarrow> classified\<lparr>cl_managed_orders := cl_managed_orders classified @ [\<lparr>mo_bot_id = bot_id, mo_order = order\<rparr>]\<rparr>
      | External \<Rightarrow> classified\<lparr>cl_external_orders := cl_external_orders classified @ [order]\<rparr>
      | Unsafe reason \<Rightarrow> classified\<lparr>cl_unsafe_reasons := cl_unsafe_reasons classified @ [reason]\<rparr>)"

definition classify_remote_open_orders ::
    "string \<Rightarrow> string \<Rightarrow> ConnectorOpenOrder list \<Rightarrow> (string, LocalOpenOrderIdentity list) hmap \<Rightarrow> string list
      \<Rightarrow> ClassifiedRemoteOpenOrders" where
  "classify_remote_open_orders account_id symbol orders matches_by_client_order_id eligible_bot_ids =
     foldl (\<lambda>classified order. classify_push classified order
         (classify_one account_id symbol matches_by_client_order_id eligible_bot_ids order))
       \<lparr>cl_managed_orders = [], cl_external_orders = [], cl_unsafe_reasons = []\<rparr> orders"

subsection \<open>Reconciliation\<close>

record ReconciliationPositions =
  rp_local_has_position :: bool
  rp_connector_has_position :: bool
  rp_resolved_has_position :: bool
  rp_resolved_position_quantity :: f64
  rp_resolved_entry_price :: "f64 option"

record ReconciliationAssessmentSummary =
  ras_local_open_orders :: nat
  ras_local_open_order_ids :: "string list"
  ras_connector_open_orders :: nat
  ras_connector_open_orders_detail :: "ConnectorOpenOrder list"
  ras_managed_remote_open_orders :: nat
  ras_external_remote_open_orders :: nat
  ras_positions :: ReconciliationPositions
  ras_remote_net_qty :: "f64 option"
  ras_aggregate_managed_qty :: f64
  ras_external_delta_qty :: "f64 option"
  ras_safe_to_trade :: bool
  ras_reason :: string

record ReconciliationAssessment =
  ra_symbol :: string
  ra_local_open_orders :: nat
  ra_local_open_order_ids :: "string list"
  ra_connector_open_orders :: nat
  ra_connector_open_orders_detail :: "ConnectorOpenOrder list"
  ra_managed_remote_open_orders :: nat
  ra_external_remote_open_orders :: nat
  ra_connector_snapshot_available :: bool
  ra_connector_snapshot :: "ConnectorAccountSnapshot option"
  ra_positions :: ReconciliationPositions
  ra_remote_net_qty :: "f64 option"
  ra_aggregate_managed_qty :: f64
  ra_external_delta_qty :: "f64 option"
  ra_safe_to_trade :: bool
  ra_reason :: string

definition local_record_has_position :: "PositionRecord option \<Rightarrow> bool" where
  "local_record_has_position latest = (case latest of None \<Rightarrow> False
     | Some position \<Rightarrow> pr_has_position position \<or> POSITION_QUANTITY_TOLERANCE < pr_quantity position)"

definition resolve_position_quantity :: "f64 \<Rightarrow> PositionRecord option \<Rightarrow> f64" where
  "resolve_position_quantity instance_position_quantity latest =
     (let persisted_position_quantity = (case latest of None \<Rightarrow> 0 | Some position \<Rightarrow> f64_max (pr_quantity position) 0) in
      if POSITION_QUANTITY_TOLERANCE < instance_position_quantity then instance_position_quantity
      else if POSITION_QUANTITY_TOLERANCE < persisted_position_quantity then persisted_position_quantity
      else if local_record_has_position latest then 1 else 0)"

definition resolve_entry_price :: "f64 \<Rightarrow> PositionRecord option \<Rightarrow> f64 option" where
  "resolve_entry_price resolved_position_quantity latest =
     (if POSITION_QUANTITY_TOLERANCE < resolved_position_quantity then
        (case latest of
           Some position \<Rightarrow>
             (if pr_has_position position then
                (case pr_entry_price position of
                   Some price \<Rightarrow> if is_finite price \<and> 0 < price then Some price else None
                 | None \<Rightarrow> None)
              else None)
         | None \<Rightarrow> None)
      else None)"

definition exposure_warnings :: "AccountSymbolExposure option \<Rightarrow> string list" where
  "exposure_warnings exposure =
     (case exposure of
        None \<Rightarrow> []
      | Some e \<Rightarrow>
          (let managed_deficit_qty = ase_aggregate_managed_qty e - ase_remote_net_qty e in
           if POSITION_QUANTITY_TOLERANCE < managed_deficit_qty then
             [''managed_position_deficit(remote_net_qty='' @ show_f64 (ase_remote_net_qty e) @ '',aggregate_managed_qty=''
               @ show_f64 (ase_aggregate_managed_qty e) @ '',deficit_qty='' @ show_f64 managed_deficit_qty @ '')'']
           else if POSITION_QUANTITY_TOLERANCE < ase_external_delta_qty e then
             [''external_position_surplus(remote_net_qty='' @ show_f64 (ase_remote_net_qty e) @ '',aggregate_managed_qty=''
               @ show_f64 (ase_aggregate_managed_qty e) @ '',surplus_qty='' @ show_f64 (ase_external_delta_qty e) @ '')'']
           else []))"

definition blocking_differences :: "ClassifiedRemoteOpenOrders \<Rightarrow> string option \<Rightarrow> string list" where
  "blocking_differences classified_orders connector_unavailable_reason =
     (case connector_unavailable_reason of None \<Rightarrow> [] | Some r \<Rightarrow> [r]) @ cl_unsafe_reasons classified_orders"

definition reconciliation_assessment_summary ::
    "string \<Rightarrow> f64 \<Rightarrow> PositionRecord option \<Rightarrow> string list \<Rightarrow> ClassifiedRemoteOpenOrders \<Rightarrow> string option
      \<Rightarrow> AccountSymbolExposure option \<Rightarrow> f64 \<Rightarrow> ReconciliationAssessmentSummary" where
  "reconciliation_assessment_summary bot_id instance_position_quantity latest_local_position order_ids
       classified_orders connector_unavailable_reason exposure aggregate_managed_qty =
     (let local_has_position = local_record_has_position latest_local_position;
          resolved_position_quantity = resolve_position_quantity instance_position_quantity latest_local_position;
          resolved_entry_price = resolve_entry_price resolved_position_quantity latest_local_position;
          connector_open_orders_detail = map mo_order (filter (\<lambda>managed. mo_bot_id managed = bot_id) (cl_managed_orders classified_orders));
          blocking = blocking_differences classified_orders connector_unavailable_reason;
          warnings = exposure_warnings exposure;
          safe_to_trade = (blocking = []);
          reason = (if blocking = [] \<and> warnings = [] then ''state_aligned'' else join '';'' (blocking @ warnings)) in
      \<lparr>ras_local_open_orders = length order_ids, ras_local_open_order_ids = order_ids,
       ras_connector_open_orders = length connector_open_orders_detail,
       ras_connector_open_orders_detail = connector_open_orders_detail,
       ras_managed_remote_open_orders = length (cl_managed_orders classified_orders),
       ras_external_remote_open_orders = length (cl_external_orders classified_orders),
       ras_positions = \<lparr>rp_local_has_position = local_has_position,
         rp_connector_has_position =
           (case exposure of Some e \<Rightarrow> POSITION_QUANTITY_TOLERANCE < ase_remote_net_qty e | None \<Rightarrow> local_has_position),
         rp_resolved_has_position = (POSITION_QUANTITY_TOLERANCE < resolved_position_quantity),
         rp_resolved_position_quantity = resolved_position_quantity,
         rp_resolved_entry_price = resolved_entry_price\<rparr>,
       ras_remote_net_qty = map_option ase_remote_net_qty exposure,
       ras_aggregate_managed_qty = (case exposure of Some e \<Rightarrow> ase_aggregate_managed_qty e | None \<Rightarrow> aggregate_managed_qty),
       ras_external_delta_qty = map_option ase_external_delta_qty exposure,
       ras_safe_to_trade = safe_to_trade, ras_reason = reason\<rparr>)"

definition build_reconciliation_assessment ::
    "string \<Rightarrow> bool \<Rightarrow> ConnectorAccountSnapshot option \<Rightarrow> ReconciliationAssessmentSummary \<Rightarrow> ReconciliationAssessment" where
  "build_reconciliation_assessment symbol connector_snapshot_available connector_snapshot summary =
     \<lparr>ra_symbol = symbol, ra_local_open_orders = ras_local_open_orders summary,
      ra_local_open_order_ids = ras_local_open_order_ids summary,
      ra_connector_open_orders = ras_connector_open_orders summary,
      ra_connector_open_orders_detail = ras_connector_open_orders_detail summary,
      ra_managed_remote_open_orders = ras_managed_remote_open_orders summary,
      ra_external_remote_open_orders = ras_external_remote_open_orders summary,
      ra_connector_snapshot_available = connector_snapshot_available, ra_connector_snapshot = connector_snapshot,
      ra_positions = ras_positions summary, ra_remote_net_qty = ras_remote_net_qty summary,
      ra_aggregate_managed_qty = ras_aggregate_managed_qty summary,
      ra_external_delta_qty = ras_external_delta_qty summary,
      ra_safe_to_trade = ras_safe_to_trade summary, ra_reason = ras_reason summary\<rparr>"

fun split_on :: "char \<Rightarrow> string \<Rightarrow> string list" where
  "split_on c [] = [[]]"
| "split_on c (x # xs) = (if x = c then [] # split_on c xs
     else (case split_on c xs of [] \<Rightarrow> [[x]] | y # ys \<Rightarrow> (x # y) # ys))"

definition reconciliation_differences :: "string \<Rightarrow> string list" where
  "reconciliation_differences reason =
     (if reason = ''state_aligned'' then [] else filter (\<lambda>value. value \<noteq> []) (split_on (CHR '';'') reason))"

subsection \<open>Exceptions\<close>

definition deficit_exception ::
    "string \<Rightarrow> ConnectorAccountSnapshot \<Rightarrow> PortfolioLaneView list \<Rightarrow> LatestLanePosition list \<Rightarrow> string \<Rightarrow> LedgerException option" where
  "deficit_exception account_id snapshot lanes latest_positions symbol =
     (let exposure = account_symbol_exposure account_id symbol snapshot lanes latest_positions;
          deficit_qty = sanitize_quantity_delta (ase_aggregate_managed_qty exposure - ase_remote_net_qty exposure) in
      if deficit_qty \<le> POSITION_QUANTITY_TOLERANCE then None
      else Some \<lparr>ex_kind = ManagedPositionDeficit, ex_owner = None, ex_symbol = Some symbol,
        ex_detail = ''remote_net_qty='' @ show_f64 (ase_remote_net_qty exposure) @ '',aggregate_managed_qty=''
          @ show_f64 (ase_aggregate_managed_qty exposure) @ '',deficit_qty='' @ show_f64 deficit_qty,
        ex_blocks_new_opens = True\<rparr>)"

definition managed_position_deficit_exceptions ::
    "string \<Rightarrow> ConnectorAccountSnapshot \<Rightarrow> PortfolioLaneView list \<Rightarrow> LatestLanePosition list \<Rightarrow> LedgerException list" where
  "managed_position_deficit_exceptions account_id snapshot lanes latest_positions =
     (let symbols = remdups_adj (sort (map plv_symbol (filter (\<lambda>lane. plv_account_id lane = account_id) lanes))) in
      sort_key ex_symbol (List.map_filter (deficit_exception account_id snapshot lanes latest_positions) symbols))"

definition unmapped_managed_open_order_exceptions :: "string \<Rightarrow> ClassifiedRemoteOpenOrders \<Rightarrow> LedgerException list" where
  "unmapped_managed_open_order_exceptions symbol classified_orders =
     map (\<lambda>detail. \<lparr>ex_kind = UnmappedManagedOpenOrder, ex_owner = None, ex_symbol = Some symbol,
        ex_detail = detail, ex_blocks_new_opens = True\<rparr>) (cl_unsafe_reasons classified_orders)"

subsection \<open>Balances and the ledger\<close>

definition DEFAULT_BINANCE_CASH_BALANCE_ASSETS :: "string list" where
  "DEFAULT_BINANCE_CASH_BALANCE_ASSETS = [''USD'', ''USDT'', ''USDC'', ''BUSD'', ''FDUSD'']"

definition is_binance_cash_balance_asset :: "string \<Rightarrow> string list \<Rightarrow> bool" where
  "is_binance_cash_balance_asset asset cash_balance_assets =
     (if cash_balance_assets = [] then list_ex (\<lambda>configured. eq_ignore_ascii_case asset configured) DEFAULT_BINANCE_CASH_BALANCE_ASSETS
      else list_ex (\<lambda>configured. let configured = trim configured in configured \<noteq> [] \<and> eq_ignore_ascii_case asset configured)
        cash_balance_assets)"

definition live_balance_from_snapshot :: "string \<Rightarrow> ConnectorAccountSnapshot \<Rightarrow> f64 \<Rightarrow> string list \<Rightarrow> f64 option" where
  "live_balance_from_snapshot account_kind snapshot known_open_notional_usd cash_balance_assets =
     (if account_kind = ''alpaca'' then
        map_option (\<lambda>balance. sanitize_value (cb_free balance + cb_locked balance))
          (find (\<lambda>balance. eq_ignore_ascii_case (cb_asset balance) ''EQUITY'') (cs_balances snapshot))
      else if account_kind = ''binance'' then
        (let quote_cash_usd = f64_sum (map (\<lambda>balance. sanitize_value (cb_free balance + cb_locked balance))
               (filter (\<lambda>balance. is_binance_cash_balance_asset (cb_asset balance) cash_balance_assets) (cs_balances snapshot)));
             computed = quote_cash_usd + known_open_notional_usd in
         if POSITION_QUANTITY_TOLERANCE < computed then Some computed else None)
      else None)"

record LedgerRooms =
  lr_remaining_bot_usd :: f64
  lr_remaining_account_usd :: f64

record AccountLedgerRefreshState =
  rf_lane_open_notionals :: "(LedgerOwnerPath \<times> f64) list"
  rf_live_balance_usd :: "f64 option"
  rf_exceptions :: "LedgerException list"

record LedgerSnapshot =
  lsn_accounts :: "AccountPortfolioSnapshot list"
  lsn_bots :: "BotPortfolioSnapshot list"
  lsn_lanes :: "LanePortfolioSnapshot list"

definition ledger_snapshot ::
    "AccountPortfolioSnapshot list \<Rightarrow> BotPortfolioSnapshot list \<Rightarrow> LanePortfolioSnapshot list \<Rightarrow> LedgerSnapshot" where
  "ledger_snapshot accounts bots lanes =
     \<lparr>lsn_accounts = sort_key aps_id accounts, lsn_bots = sort_key bps_id bots,
      lsn_lanes = sort_key (\<lambda>l. owner_key (lps_owner l)) lanes\<rparr>"

definition lane_open_notionals :: "PortfolioLaneView list \<Rightarrow> (LedgerOwnerPath \<times> f64) list" where
  "lane_open_notionals lanes = map (\<lambda>lane.
     (\<lparr>op_account_id = plv_account_id lane, op_bot_id = plv_bot_id lane, op_symbol = plv_symbol lane\<rparr>,
      plv_position_notional_usd lane)) lanes"

definition ledger_rooms :: "AccountLedger \<Rightarrow> string \<Rightarrow> f64 \<Rightarrow> LedgerRooms" where
  "ledger_rooms ledger bot_id bot_pct =
     \<lparr>lr_remaining_bot_usd = bot_tradeable_open_room_usd ledger bot_id bot_pct,
      lr_remaining_account_usd = account_tradeable_open_room_usd ledger\<rparr>"

definition account_ledger_refresh_state ::
    "string \<Rightarrow> string \<Rightarrow> ConnectorAccountSnapshot \<Rightarrow> PortfolioLaneView list \<Rightarrow> LatestLanePosition list \<Rightarrow> f64 \<Rightarrow> string list
      \<Rightarrow> AccountLedgerRefreshState" where
  "account_ledger_refresh_state account_id account_kind snapshot lanes latest_positions known_open_notional_usd cash_balance_assets =
     \<lparr>rf_lane_open_notionals = lane_open_notionals lanes,
      rf_live_balance_usd = live_balance_from_snapshot account_kind snapshot known_open_notional_usd cash_balance_assets,
      rf_exceptions = managed_position_deficit_exceptions account_id snapshot lanes latest_positions\<rparr>"

definition apply_account_ledger_refresh_state ::
    "AccountLedgerRefreshState \<Rightarrow> LedgerException list \<Rightarrow> AccountLedger \<Rightarrow> AccountLedger" where
  "apply_account_ledger_refresh_state refresh_state exceptions ledger =
     (let ledger = replace_lane_open_notional (rf_lane_open_notionals refresh_state) ledger;
          ledger = set_unattributed_open_notional_usd 0 ledger;
          ledger = replace_exceptions exceptions ledger in
      set_live_balance_usd (rf_live_balance_usd refresh_state) ledger)"

definition sync_account_ledger_from_lanes :: "PortfolioLaneView list \<Rightarrow> AccountLedger \<Rightarrow> AccountLedger" where
  "sync_account_ledger_from_lanes lanes ledger = replace_lane_open_notional (lane_open_notionals lanes) ledger"

subsection \<open>Rejection payloads\<close>

record LedgerRejectionPayload =
  lrp_intent :: string
  lrp_decision :: string
  lrp_reason :: string
  lrp_committed_usd :: "f64 option"
  lrp_allocated_usd :: "f64 option"
  lrp_effective_cap_usd :: "f64 option"
  lrp_tradeable_room_usd :: "f64 option"
  lrp_blocked_room_usd :: "f64 option"
  lrp_exceptions :: "LedgerException list option"

record LedgerRejectionEventPayload = LedgerRejectionPayload +
  lrp_symbol :: string
  lrp_bar_timestamp :: string

definition bot_ledger_rejection_payload ::
    "AccountLedger \<Rightarrow> string \<Rightarrow> string \<Rightarrow> f64 \<Rightarrow> string \<Rightarrow> string \<Rightarrow> LedgerRejectionPayload" where
  "bot_ledger_rejection_payload ledger account_id bot_id bot_pct intent_label reason_code =
     (let snapshot = bot_snapshot ledger account_id bot_id bot_pct in
      \<lparr>lrp_intent = intent_label, lrp_decision = ''rejected'', lrp_reason = reason_code,
       lrp_committed_usd = Some (bps_total_committed_notional_usd snapshot),
       lrp_allocated_usd = Some (bps_allocated_usd snapshot), lrp_effective_cap_usd = None,
       lrp_tradeable_room_usd = Some (bps_tradeable_open_room_usd snapshot),
       lrp_blocked_room_usd = Some (bps_blocked_open_room_usd snapshot), lrp_exceptions = None\<rparr>)"

definition account_ledger_rejection_payload :: "AccountLedger \<Rightarrow> string \<Rightarrow> string \<Rightarrow> string \<Rightarrow> LedgerRejectionPayload" where
  "account_ledger_rejection_payload ledger account_id intent_label reason_code =
     (let snapshot = account_snapshot ledger account_id in
      \<lparr>lrp_intent = intent_label, lrp_decision = ''rejected'', lrp_reason = reason_code,
       lrp_committed_usd = Some (aps_total_committed_notional_usd snapshot), lrp_allocated_usd = None,
       lrp_effective_cap_usd = Some (aps_effective_cap_usd snapshot),
       lrp_tradeable_room_usd = Some (aps_tradeable_open_room_usd snapshot),
       lrp_blocked_room_usd = Some (aps_blocked_open_room_usd snapshot),
       lrp_exceptions = Some (aps_exceptions snapshot)\<rparr>)"

definition dust_ledger_rejection_payload :: "string \<Rightarrow> LedgerRejectionPayload" where
  "dust_ledger_rejection_payload intent_label =
     \<lparr>lrp_intent = intent_label, lrp_decision = ''skipped'', lrp_reason = ''ledger_dust'', lrp_committed_usd = None,
      lrp_allocated_usd = None, lrp_effective_cap_usd = None, lrp_tradeable_room_usd = None,
      lrp_blocked_room_usd = None, lrp_exceptions = None\<rparr>"

definition ledger_rejection_event_payload :: "LedgerRejectionPayload \<Rightarrow> string \<Rightarrow> string \<Rightarrow> LedgerRejectionEventPayload" where
  "ledger_rejection_event_payload payload symbol bar_ts =
     LedgerRejectionPayload.extend payload (LedgerRejectionEventPayload.fields symbol bar_ts)"

subsection \<open>Classified orders\<close>

lemma remdups_adj_single_iff: "remdups_adj xs = [i] \<longleftrightarrow> xs \<noteq> [] \<and> list_all (\<lambda>x. x = i) xs"
proof
  assume r: "remdups_adj xs = [i]"
  then have "set xs = {i}" by (metis empty_set list.simps(15) remdups_adj_set)
  with r show "xs \<noteq> [] \<and> list_all (\<lambda>x. x = i) xs" by (auto simp: list_all_iff)
next
  assume "xs \<noteq> [] \<and> list_all (\<lambda>x. x = i) xs"
  then have "xs = replicate (length xs) i" "xs \<noteq> []" by (auto simp: list_all_iff intro!: replicate_eqI)
  then show "remdups_adj xs = [i]" by (metis length_greater_0_conv remdups_adj_replicate not_less0)
qed

lemma identities_single_iff:
  "remdups_adj (sort_key identity_key ms) = [i] \<longleftrightarrow> ms \<noteq> [] \<and> list_all (\<lambda>m. m = i) ms"
  unfolding remdups_adj_single_iff list_all_iff by (simp, metis length_sort length_0_conv)

text \<open>The local orders a remote order is matched to, and when it belongs to one bot's lane.\<close>

definition local_matches :: "(string, LocalOpenOrderIdentity list) hmap \<Rightarrow> ConnectorOpenOrder \<Rightarrow> LocalOpenOrderIdentity list" where
  "local_matches m order = (case hm_get m (co_client_order_id order) of None \<Rightarrow> [] | Some ms \<Rightarrow> ms)"

definition belongs_to :: "string \<Rightarrow> (string, LocalOpenOrderIdentity list) hmap \<Rightarrow> string list \<Rightarrow> ConnectorOpenOrder \<Rightarrow> string \<Rightarrow> bool" where
  "belongs_to symbol m eligible order b \<longleftrightarrow> local_matches m order \<noteq> [] \<and> b \<in> set eligible
     \<and> list_all (\<lambda>i. i = \<lparr>lo_bot_id = b, lo_symbol = Some symbol\<rparr>) (local_matches m order)"

lemma classify_one_cases:
  "classify_one acc symbol m eligible order = External \<longleftrightarrow> local_matches m order = []"
  "classify_one acc symbol m eligible order = Managed b \<longleftrightarrow> belongs_to symbol m eligible order b"
proof -
  show "classify_one acc symbol m eligible order = External \<longleftrightarrow> local_matches m order = []"
    by (auto simp: classify_one_def local_matches_def split: option.splits list.splits)
  let ?i = "\<lparr>lo_bot_id = b, lo_symbol = Some symbol\<rparr> :: LocalOpenOrderIdentity"
  have "classify_one acc symbol m eligible order = Managed b \<longleftrightarrow>
     (\<exists>ms. hm_get m (co_client_order_id order) = Some ms \<and> remdups_adj (sort_key identity_key ms) = [?i] \<and> b \<in> set eligible)"
    by (auto simp: classify_one_def split: option.splits list.splits if_splits)
  then show "classify_one acc symbol m eligible order = Managed b \<longleftrightarrow> belongs_to symbol m eligible order b"
    unfolding identities_single_iff by (auto simp: belongs_to_def local_matches_def split: option.splits)
qed

lemma belongs_unique: "belongs_to symbol m eligible order b \<Longrightarrow> belongs_to symbol m eligible order b' \<Longrightarrow> b = b'"
  using classify_one_cases(2) by (metis remote_order_class.inject(1))

lemma classify_push_simps:
  "cl_external_orders (classify_push c order k) = cl_external_orders c @ (if k = External then [order] else [])"
  "cl_managed_orders (classify_push c order k) = cl_managed_orders c
     @ (case k of Managed b \<Rightarrow> [\<lparr>mo_bot_id = b, mo_order = order\<rparr>] | _ \<Rightarrow> [])"
  "length (cl_managed_orders (classify_push c order k)) + length (cl_external_orders (classify_push c order k))
     + length (cl_unsafe_reasons (classify_push c order k))
   = Suc (length (cl_managed_orders c) + length (cl_external_orders c) + length (cl_unsafe_reasons c))"
  by (cases k; simp add: classify_push_def)+

lemma classify_fold:
  "let r = foldl (\<lambda>c order. classify_push c order (classify_one acc symbol m eligible order)) c orders in
     cl_external_orders r = cl_external_orders c @ filter (\<lambda>order. local_matches m order = []) orders
     \<and> set (cl_managed_orders r) = set (cl_managed_orders c)
         \<union> {\<lparr>mo_bot_id = b, mo_order = order\<rparr> | b order. order \<in> set orders \<and> belongs_to symbol m eligible order b}
     \<and> length (cl_managed_orders r) + length (cl_external_orders r) + length (cl_unsafe_reasons r)
       = length (cl_managed_orders c) + length (cl_external_orders c) + length (cl_unsafe_reasons c) + length orders"
proof (induction orders arbitrary: c)
  case (Cons order orders)
  let ?k = "classify_one acc symbol m eligible order"
  note cases = classify_one_cases [of acc symbol m eligible order]
  have man: "set (case ?k of Managed b \<Rightarrow> [\<lparr>mo_bot_id = b, mo_order = order\<rparr>] | _ \<Rightarrow> [])
      = {\<lparr>mo_bot_id = b, mo_order = order\<rparr> | b. belongs_to symbol m eligible order b}"
  proof (cases "\<exists>b. belongs_to symbol m eligible order b")
    case True
    then obtain b where b: "belongs_to symbol m eligible order b" by blast
    then have "?k = Managed b" using cases(2) by blast
    then show ?thesis using b belongs_unique by fastforce
  next
    case False
    then have "?k \<noteq> Managed b" for b using cases(2) by blast
    then show ?thesis using False by (cases ?k) auto
  qed
  define r where "r = foldl (\<lambda>c order. classify_push c order (classify_one acc symbol m eligible order)) (classify_push c order ?k) orders"
  have IH: "cl_external_orders r = cl_external_orders (classify_push c order ?k) @ filter (\<lambda>order. local_matches m order = []) orders"
    "set (cl_managed_orders r) = set (cl_managed_orders (classify_push c order ?k))
         \<union> {\<lparr>mo_bot_id = b, mo_order = order\<rparr> | b order. order \<in> set orders \<and> belongs_to symbol m eligible order b}"
    "length (cl_managed_orders r) + length (cl_external_orders r) + length (cl_unsafe_reasons r)
       = length (cl_managed_orders (classify_push c order ?k)) + length (cl_external_orders (classify_push c order ?k))
         + length (cl_unsafe_reasons (classify_push c order ?k)) + length orders"
    using Cons [of "classify_push c order ?k"] unfolding r_def Let_def by blast+
  have "cl_external_orders r = cl_external_orders c @ filter (\<lambda>order. local_matches m order = []) (order # orders)"
    using IH(1) cases(1) by (simp add: classify_push_simps)
  moreover have "set (cl_managed_orders r) = set (cl_managed_orders c)
      \<union> {\<lparr>mo_bot_id = b, mo_order = order'\<rparr> | b order'. order' \<in> set (order # orders) \<and> belongs_to symbol m eligible order' b}"
    unfolding IH(2) classify_push_simps set_append man by auto
  moreover have "length (cl_managed_orders r) + length (cl_external_orders r) + length (cl_unsafe_reasons r)
      = length (cl_managed_orders c) + length (cl_external_orders c) + length (cl_unsafe_reasons c) + length (order # orders)"
    unfolding IH(3) classify_push_simps(3) by simp
  ultimately show ?case unfolding Let_def foldl.simps r_def [symmetric] by blast
qed simp

lemma blocking_empty_iff:
  "blocking_differences cl u = [] \<longleftrightarrow> u = None \<and> cl_unsafe_reasons cl = []"
  by (auto simp: blocking_differences_def split: option.splits)

subsection \<open>Splitting and joining\<close>

lemma split_on_nonempty: "split_on c xs \<noteq> []"
  by (induction xs) (auto split: list.splits)

lemma split_on_none: "c \<notin> set xs \<Longrightarrow> split_on c xs = [xs]"
  by (induction xs) auto

lemma split_on_append: "c \<notin> set xs \<Longrightarrow> split_on c (xs @ c # ys) = xs # split_on c ys"
  by (induction xs) auto

lemma split_join:
  "ds \<noteq> [] \<Longrightarrow> list_all (\<lambda>d. c \<notin> set d) ds \<Longrightarrow> split_on c (join [c] ds) = ds"
  by (induction "[c]" ds rule: join.induct) (simp_all add: split_on_none split_on_append)

subsection \<open>Owners\<close>

lemma open_not_sync: "position_record_indicates_open p \<Longrightarrow> \<not> position_reason_is_reconciliation_sync (pr_reason p)"
proof -
  have "\<not> POSITION_QUANTITY_TOLERANCE < 0" by code_simp
  then show "position_record_indicates_open p \<Longrightarrow> \<not> position_reason_is_reconciliation_sync (pr_reason p)"
    by (auto simp: position_record_indicates_open_def authoritative_position_quantity_def
        position_record_is_authoritative_def split: if_splits)
qed

definition holds_open :: "LatestLanePosition list \<Rightarrow> string \<Rightarrow> bool" where
  "holds_open latest lane_id =
     (case latest_position_for_lane latest lane_id of None \<Rightarrow> False | Some p \<Rightarrow> position_record_indicates_open p)"

lemma local_holders_eq: "local_holders latest ids = (filter (holds_open latest) ids, filter (holds_open latest) ids)"
proof -
  have "foldl (\<lambda>(strong, anyh) lane_id. case latest_position_for_lane latest lane_id of None \<Rightarrow> (strong, anyh)
     | Some position \<Rightarrow> if \<not> position_record_indicates_open position then (strong, anyh)
         else (if \<not> position_reason_is_reconciliation_sync (pr_reason position) then strong @ [lane_id] else strong,
               anyh @ [lane_id])) (s, t) ids = (s @ filter (holds_open latest) ids, t @ filter (holds_open latest) ids)" for s t
    by (induction ids arbitrary: s t) (auto simp: holds_open_def open_not_sync split: option.splits)
  then show ?thesis by (simp add: local_holders_def)
qed

subsection \<open>Deficits\<close>

lemma pos_tolerance_finite [simp]: "is_finite POSITION_QUANTITY_TOLERANCE"
  by code_simp

lemma pos_tolerance_nonneg: "0 \<le> POSITION_QUANTITY_TOLERANCE"
  by code_simp

lemma f64_abs_nonneg: "0 \<le> x \<Longrightarrow> \<bar>x\<bar> = x" for x :: f64
  using f64_less_not_le [of x 0] by (auto simp: abs_f64_def)

lemma deficit_blocks:
  assumes "lane \<in> set lanes" "plv_account_id lane = acc"
    and "POSITION_QUANTITY_TOLERANCE < ase_aggregate_managed_qty (account_symbol_exposure acc (plv_symbol lane) snap lanes latest)
       - ase_remote_net_qty (account_symbol_exposure acc (plv_symbol lane) snap lanes latest)"
  shows "list_ex ex_blocks_new_opens (managed_position_deficit_exceptions acc snap lanes latest)"
proof -
  let ?e = "account_symbol_exposure acc (plv_symbol lane) snap lanes latest"
  let ?d = "ase_aggregate_managed_qty ?e - ase_remote_net_qty ?e"
  have "0 \<le> ?d" by (rule f64_le_trans [OF pos_tolerance_nonneg f64_less_le [OF assms(3)]])
  then have "\<bar>?d\<bar> = ?d" by (rule f64_abs_nonneg)
  then have "\<not> sanitize_quantity_delta ?d \<le> POSITION_QUANTITY_TOLERANCE"
    using f64_less_not_le [OF assms(3)] by (simp add: sanitize_quantity_delta_def)
  then obtain x where x: "deficit_exception acc snap lanes latest (plv_symbol lane) = Some x" "ex_blocks_new_opens x"
    by (auto simp: deficit_exception_def Let_def)
  then have "x \<in> set (managed_position_deficit_exceptions acc snap lanes latest)"
    using assms(1,2) by (force simp: managed_position_deficit_exceptions_def Let_def List.map_filter_def image_iff)
  with x(2) show ?thesis by (auto simp: list_ex_iff)
qed

lemma one_nonneg: "(0 :: f64) \<le> 1"
  by code_simp

subsection \<open>Properties\<close>

text \<open>C21: Every remote order of a symbol is classified exactly once. It is external exactly when no
  local order has its client id; it is managed by a bot exactly when every local order with that
  client id is of this bot and this symbol and the bot trades the symbol on this account; every
  other order yields one unsafe reason.\<close>
theorem remote_orders_classified:
  "let r = classify_remote_open_orders acc symbol orders m eligible
   in cl_external_orders r = filter (\<lambda>order. local_matches m order = []) orders
    \<and> (\<lparr>mo_bot_id = b, mo_order = order\<rparr> \<in> set (cl_managed_orders r)
        \<longleftrightarrow> order \<in> set orders \<and> belongs_to symbol m eligible order b)
    \<and> length (cl_managed_orders r) + length (cl_external_orders r) + length (cl_unsafe_reasons r) = length orders"
  using classify_fold [of acc symbol m eligible "\<lparr>cl_managed_orders = [], cl_external_orders = [], cl_unsafe_reasons = []\<rparr>" orders]
  by (auto simp: classify_remote_open_orders_def Let_def)

text \<open>A lane may trade exactly when the connector snapshot is available and no remote order is
  unsafe; position deficits and surpluses are warnings only. The resolved position never is
  negative, and the report lists the blocking differences and warnings in order, recoverable from
  the reason text.\<close>
theorem assessment_safe_iff:
  fixes bid :: string and q agg :: f64 and latest :: "PositionRecord option" and ids :: "string list"
    and ex :: "AccountSymbolExposure option" and cl :: ClassifiedRemoteOpenOrders and unavailable :: "string option"
  defines "s \<equiv> reconciliation_assessment_summary bid q latest ids cl unavailable ex agg"
  assumes "list_all (\<lambda>d. d \<noteq> [] \<and> CHR '';'' \<notin> set d \<and> d \<noteq> ''state_aligned'')
      (blocking_differences cl unavailable @ exposure_warnings ex)"
  shows "(ras_safe_to_trade s \<longleftrightarrow> unavailable = None \<and> cl_unsafe_reasons cl = [])
    \<and> 0 \<le> rp_resolved_position_quantity (ras_positions s)
    \<and> reconciliation_differences (ras_reason s) = blocking_differences cl unavailable @ exposure_warnings ex"
proof -
  let ?ds = "blocking_differences cl unavailable @ exposure_warnings ex"
  have "0 \<le> resolve_position_quantity q latest"
    using f64_le_trans [OF pos_tolerance_nonneg f64_less_le, of q] one_nonneg
    by (auto simp: resolve_position_quantity_def Let_def f64_le_refl split: option.splits)
  moreover have "reconciliation_differences (join '';'' ?ds) = ?ds" if ne: "?ds \<noteq> []"
  proof -
    have sp: "split_on (CHR '';'') (join '';'' ?ds) = ?ds"
      using split_join [of ?ds "CHR '';''"] ne assms(2) by (simp add: list_all_iff)
    have "join '';'' ?ds \<noteq> ''state_aligned''"
    proof
      assume "join '';'' ?ds = ''state_aligned''"
      then have "?ds = [''state_aligned'']" using sp by simp
      then show False using assms(2) by simp
    qed
    moreover have "filter (\<lambda>d. d \<noteq> []) ?ds = ?ds" using assms(2) by (auto simp: list_all_iff intro: filter_True)
    ultimately show ?thesis unfolding reconciliation_differences_def sp by simp
  qed
  moreover have "ras_reason s = (if ?ds = [] then ''state_aligned'' else join '';'' ?ds)"
    "ras_safe_to_trade s \<longleftrightarrow> blocking_differences cl unavailable = []"
    "rp_resolved_position_quantity (ras_positions s) = resolve_position_quantity q latest"
    by (simp_all add: s_def reconciliation_assessment_summary_def Let_def)
  ultimately show ?thesis
    by (cases "?ds = []") (simp_all only: blocking_empty_iff reconciliation_differences_def simp_thms if_True if_False)
qed

text \<open>A connector position has a unique owner exactly when one lane of the account trades its
  symbol, or several do and exactly one of them holds an open authoritative position; with several
  lanes and no single holder it is ambiguous and never assigned.\<close>
theorem connector_position_owner_exact:
  "connector_position_owner acc cs lanes latest =
     (case lane_ids_matching acc cs lanes of
        [] \<Rightarrow> NoOwner
      | [l] \<Rightarrow> UniqueOwner l
      | ls \<Rightarrow> (case filter (holds_open latest) ls of
                 [] \<Rightarrow> AmbiguousOwner ls | [h] \<Rightarrow> UniqueOwner h | hs \<Rightarrow> AmbiguousOwner hs))"
  by (auto simp: connector_position_owner_def local_holders_eq Let_def split: list.splits)

text \<open>A managed position deficit stops new exposure: when the bots of an account believe to hold
  more of a symbol than the account does, the refreshed ledger of that account refuses every
  reservation above the tolerance.\<close>
theorem deficit_blocks_new_opens:
  assumes "lane \<in> set lanes" "plv_account_id lane = acc"
    and "POSITION_QUANTITY_TOLERANCE < ase_aggregate_managed_qty (account_symbol_exposure acc (plv_symbol lane) snap lanes latest)
       - ase_remote_net_qty (account_symbol_exposure acc (plv_symbol lane) snap lanes latest)"
    and "st = account_ledger_refresh_state acc kind snap lanes latest known assets"
    and "LEDGER_VALUE_TOLERANCE < sanitize_value n"
  shows "\<not> is_ok (try_reserve_open owner n pct (apply_account_ledger_refresh_state st (rf_exceptions st) l))"
proof
  let ?l = "apply_account_ledger_refresh_state st (rf_exceptions st) l"
  assume "is_ok (try_reserve_open owner n pct ?l)"
  then obtain l' where "try_reserve_open owner n pct ?l = Inr l'" by (auto simp: is_ok_iff)
  then have "\<not> has_blocking_exceptions ?l" using granted_unblocked assms(5) by blast
  moreover have "has_blocking_exceptions ?l"
    using deficit_blocks [OF assms(1-3)] assms(4)
    by (simp add: apply_account_ledger_refresh_state_def account_ledger_refresh_state_def Let_def
        has_blocking_exceptions_def set_live_balance_usd_def replace_exceptions_def)
  ultimately show False by simp
qed

subsection \<open>Witnesses\<close>

definition demo_lane :: PortfolioLaneView where
  "demo_lane = \<lparr>plv_lane_id = ''b1::BTCUSDT'', plv_bot_id = ''b1'', plv_account_id = ''acct'', plv_symbol = ''BTCUSDT'',
     plv_budget_pct = f64_rnd 50, plv_effective_position_quantity = 1, plv_position_notional_usd = f64_rnd 100,
     plv_daily_loss_pct_accumulated = 0\<rparr>"

definition demo_position :: PositionRecord where
  "demo_position = \<lparr>pr_id = 1, pr_bot_id = ''b1'', pr_symbol = Some ''BTCUSDT'', pr_trace_id = None, pr_bar_timestamp = None,
     pr_has_position = True, pr_quantity = 1, pr_entry_price = None, pr_realized_pnl_usd = 0, pr_reason = ''fill'', pr_created_at_ms = 0\<rparr>"

definition demo_empty_snapshot :: ConnectorAccountSnapshot where
  "demo_empty_snapshot = \<lparr>cs_open_orders = [], cs_positions = [], cs_balances = []\<rparr>"

lemma demo_deficit:
  "POSITION_QUANTITY_TOLERANCE
     < ase_aggregate_managed_qty (account_symbol_exposure ''acct'' (plv_symbol demo_lane) demo_empty_snapshot [demo_lane]
         [\<lparr>llp_lane_id = ''b1::BTCUSDT'', llp_position = Some demo_position\<rparr>])
       - ase_remote_net_qty (account_symbol_exposure ''acct'' (plv_symbol demo_lane) demo_empty_snapshot [demo_lane]
         [\<lparr>llp_lane_id = ''b1::BTCUSDT'', llp_position = Some demo_position\<rparr>])"
  by code_simp

theorem deficit_blocks_new_opens_witness:
  "\<not> is_ok (try_reserve_open demo_owner (f64_rnd 100) (f64_rnd 50)
     (apply_account_ledger_refresh_state
       (account_ledger_refresh_state ''acct'' ''binance'' demo_empty_snapshot [demo_lane]
         [\<lparr>llp_lane_id = ''b1::BTCUSDT'', llp_position = Some demo_position\<rparr>] 0 [])
       (rf_exceptions (account_ledger_refresh_state ''acct'' ''binance'' demo_empty_snapshot [demo_lane]
         [\<lparr>llp_lane_id = ''b1::BTCUSDT'', llp_position = Some demo_position\<rparr>] 0 []))
       demo_ledger))"
  by (rule deficit_blocks_new_opens [OF _ _ demo_deficit refl demo_above]) (simp_all add: demo_lane_def)

theorem assessment_safe_iff_witness:
  "reconciliation_differences (ras_reason (reconciliation_assessment_summary ''b1'' 1 None []
     \<lparr>cl_managed_orders = [], cl_external_orders = [], cl_unsafe_reasons = [''order x'']\<rparr> (Some ''offline'') None 0))
   = [''offline'', ''order x'']"
  using assessment_safe_iff [of "\<lparr>cl_managed_orders = [], cl_external_orders = [], cl_unsafe_reasons = [''order x'']\<rparr>"
      "Some ''offline''" None "''b1''" 1 None "[]" 0]
  by (simp add: blocking_differences_def exposure_warnings_def)

end
