(* ===== verification/Instance.thy ===== *)
theory Instance
  imports Execution Strategy Signals
begin

section \<open>Instances (crates openticker-config, openticker-registry and openticker-instance)\<close>

text \<open>
  The configuration of a bot (\<open>openticker-config/src/model.rs\<close>), the indicator registry and
  the functions of \<open>openticker-instance/src/lib.rs\<close> that build a bot's indicators and
  strategy and evaluate them on a bar. A preview is evaluated on a clone of the engine
  (\<open>clone_engine\<close>), so the engine itself is unchanged. The indicator parameters are a
  \<open>toml::Table\<close>: the type of its values and their readers (\<open>as_float\<close>,
  \<open>as_integer\<close>) are parameters. The registry is the one of the default build, without the
  optional crate of further indicators. Log output is left out.

  The lemmas show that the state of the indicators is a function of the confirmed bars alone,
  that a confirmed-only bot holds no preview policy, and that a preview bar never makes such a
  bot trade.
\<close>

subsection \<open>Configuration\<close>

datatype SignalMode = Intrabar | ConfirmedOnly

record 'v IndicatorInstanceConfig =
  ii_id :: string
  ii_indicator_type :: string
  ii_enabled :: bool
  ii_role :: "IndicatorRole option"
  ii_signal_policy :: "IndicatorSignalPolicy option"
  ii_weight :: "f64 option"
  ii_metadata_filters :: IndicatorSignalMetadataFilters
  ii_params :: "string \<Rightarrow> 'v option"

record RiskOverrides =
  ro_max_daily_loss_pct :: "f64 option"
  ro_max_open_positions :: "u32 option"
  ro_target_order_notional_usd :: "f64 option"
  ro_max_order_notional_usd :: "f64 option"
  ro_max_spread_bps :: "u32 option"
  ro_max_slippage_bps :: "u32 option"
  ro_stale_data_ms :: "u64 option"
  ro_cooldown_after_reject_ms :: "u64 option"

record InstanceRiskConfig =
  irc_profile :: string
  irc_overrides :: RiskOverrides

record 'v InstanceConfig =
  ic_id :: string
  ic_enabled :: bool
  ic_market :: MarketType
  ic_symbols :: "string list"
  ic_timeframe :: Timeframe
  ic_account :: string
  ic_data_connector :: string
  ic_execution_connector :: string
  ic_strategy :: string
  ic_signal_mode :: SignalMode
  ic_polling_enabled :: bool
  ic_polling_interval_ms :: u64
  ic_indicators :: "'v IndicatorInstanceConfig list"
  ic_execution_constraints :: ExecutionConstraintsConfig
  ic_budget_pct :: f64
  ic_risk :: InstanceRiskConfig
  ic_warmup_target_bars :: "nat option"
  ic_allow_live :: bool

subsection \<open>Registry\<close>

text \<open>The aggregated manifests, sorted by type id; the assertion against duplicates panics.\<close>

definition registry_manifests :: "IndicatorManifest list" where
  "registry_manifests = sort_key im_type_id builtin_manifests"

fun assert_no_duplicate_type_ids :: "string option \<Rightarrow> string list \<Rightarrow> string + unit" where
  "assert_no_duplicate_type_ids last_type_id [] = Inr ()"
| "assert_no_duplicate_type_ids last_type_id (type_id # rest) =
     (if last_type_id = Some type_id
      then Inl (''duplicate indicator descriptor registered for `'' @ type_id @ ''`'')
      else assert_no_duplicate_type_ids (Some type_id) rest)"

definition registry_manifest :: "string \<Rightarrow> IndicatorManifest option" where
  "registry_manifest type_id = find (\<lambda>m. im_type_id m = type_id) registry_manifests"

definition build_engine ::
    "('v \<Rightarrow> f64 option) \<Rightarrow> ('v \<Rightarrow> int option) \<Rightarrow> string \<Rightarrow> (string \<Rightarrow> 'v option) \<Rightarrow> IndicatorBuildError + IndicatorEngine" where
  "build_engine as_float as_integer type_id params =
     (case registry_manifest type_id of
        None \<Rightarrow> Inl (UnsupportedType type_id)
      | Some manifest \<Rightarrow>
          if im_type_id manifest = im_type_id sma_MANIFEST then sma_build as_integer params
          else rsi_build as_float as_integer params)"

subsection \<open>Indicators of an instance\<close>

datatype InstanceError = InvalidConfiguration string

record EvaluatedIndicatorSignal =
  ev_id :: string
  ev_role :: IndicatorRole
  ev_signal_policy :: IndicatorSignalPolicy
  ev_signal :: IndicatorSignal
  ev_metadata_capabilities :: IndicatorMetadataCapabilities
  ev_metadata_filters :: IndicatorSignalMetadataFilters
  ev_metadata :: SignalMetadata
  ev_weight :: f64

record ConfiguredIndicatorRuntime =
  ci_id :: string
  ci_role :: IndicatorRole
  ci_signal_policy :: IndicatorSignalPolicy
  ci_metadata_capabilities :: IndicatorMetadataCapabilities
  ci_metadata_filters :: IndicatorSignalMetadataFilters
  ci_weight :: f64
  ci_engine :: IndicatorEngine

datatype RuntimeStrategyEngine = Single | Consensus ConsensusLongOnlyStrategy

definition unknown_indicator_error :: "'v InstanceConfig \<Rightarrow> 'v IndicatorInstanceConfig \<Rightarrow> InstanceError" where
  "unknown_indicator_error instance indicator = InvalidConfiguration
     (''instance `'' @ ic_id instance @ ''` references unknown indicator type `'' @ ii_indicator_type indicator @ ''`'')"

fun warmup_target :: "'v InstanceConfig \<Rightarrow> nat \<Rightarrow> 'v IndicatorInstanceConfig list \<Rightarrow> InstanceError + nat" where
  "warmup_target instance recommended [] = Inr recommended"
| "warmup_target instance recommended (indicator # rest) =
     (if \<not> ii_enabled indicator then warmup_target instance recommended rest
      else case registry_manifest (ii_indicator_type indicator) of
        None \<Rightarrow> Inl (unknown_indicator_error instance indicator)
      | Some manifest \<Rightarrow>
          warmup_target instance (max recommended (recommended_backfill_bars (im_warmup manifest))) rest)"

definition required_warmup_bars :: "'v InstanceConfig \<Rightarrow> InstanceError + nat" where
  "required_warmup_bars instance =
     (case warmup_target instance 0 (ic_indicators instance) of
        Inl e \<Rightarrow> Inl e
      | Inr recommended \<Rightarrow>
          Inr (case ic_warmup_target_bars instance of Some n \<Rightarrow> n | None \<Rightarrow> recommended))"

fun default_signal_policy :: "SignalMode \<Rightarrow> IndicatorSignalPolicy" where
  "default_signal_policy Intrabar = PreviewAllowed"
| "default_signal_policy ConfirmedOnly = ConfirmedRequired"

fun build_error_text :: "IndicatorBuildError \<Rightarrow> string" where
  "build_error_text (UnsupportedType t) = ''unsupported indicator type `'' @ t"
| "build_error_text (InvalidParameters t) = t"

definition build_runtime_indicator_engine ::
    "('v \<Rightarrow> f64 option) \<Rightarrow> ('v \<Rightarrow> int option) \<Rightarrow> string \<Rightarrow> 'v IndicatorInstanceConfig \<Rightarrow> InstanceError + IndicatorEngine" where
  "build_runtime_indicator_engine as_float as_integer instance_id indicator =
     (case build_engine as_float as_integer (ii_indicator_type indicator) (ii_params indicator) of
        Inr engine \<Rightarrow> Inr engine
      | Inl e \<Rightarrow> Inl (InvalidConfiguration
          (''instance `'' @ instance_id @ ''` indicator `'' @ ii_id indicator @ ''`: '' @ build_error_text e)))"

definition resolved_signal_policy :: "SignalMode \<Rightarrow> IndicatorSignalPolicy option \<Rightarrow> IndicatorSignalPolicy" where
  "resolved_signal_policy signal_mode configured =
     (let signal_policy = (case configured of Some p \<Rightarrow> p | None \<Rightarrow> default_signal_policy signal_mode) in
      if signal_mode = ConfirmedOnly then ConfirmedRequired else signal_policy)"

definition build_one_indicator ::
    "('v \<Rightarrow> f64 option) \<Rightarrow> ('v \<Rightarrow> int option) \<Rightarrow> 'v InstanceConfig \<Rightarrow> 'v IndicatorInstanceConfig
     \<Rightarrow> InstanceError + ConfiguredIndicatorRuntime" where
  "build_one_indicator as_float as_integer instance indicator =
     (case registry_manifest (ii_indicator_type indicator) of
        None \<Rightarrow> Inl (unknown_indicator_error instance indicator)
      | Some manifest \<Rightarrow>
          (case build_runtime_indicator_engine as_float as_integer (ic_id instance) indicator of
             Inl e \<Rightarrow> Inl e
           | Inr engine \<Rightarrow> Inr \<lparr>ci_id = ii_id indicator,
               ci_role = (case ii_role indicator of Some r \<Rightarrow> r | None \<Rightarrow> im_role_default manifest),
               ci_signal_policy = resolved_signal_policy (ic_signal_mode instance) (ii_signal_policy indicator),
               ci_metadata_capabilities = im_metadata manifest,
               ci_metadata_filters = ii_metadata_filters indicator,
               ci_weight = (case ii_weight indicator of Some w \<Rightarrow> w | None \<Rightarrow> 1),
               ci_engine = engine\<rparr>))"

fun collect_indicators ::
    "('i \<Rightarrow> 'e + 'r) \<Rightarrow> ('i \<Rightarrow> bool) \<Rightarrow> 'i list \<Rightarrow> 'e + 'r list" where
  "collect_indicators f enabled [] = Inr []"
| "collect_indicators f enabled (x # xs) =
     (if \<not> enabled x then collect_indicators f enabled xs
      else case f x of Inl e \<Rightarrow> Inl e
        | Inr r \<Rightarrow> (case collect_indicators f enabled xs of Inl e \<Rightarrow> Inl e | Inr rs \<Rightarrow> Inr (r # rs)))"

definition build_runtime_indicators ::
    "('v \<Rightarrow> f64 option) \<Rightarrow> ('v \<Rightarrow> int option) \<Rightarrow> 'v InstanceConfig \<Rightarrow> InstanceError + ConfiguredIndicatorRuntime list" where
  "build_runtime_indicators as_float as_integer instance =
     (case collect_indicators (build_one_indicator as_float as_integer instance) ii_enabled (ic_indicators instance) of
        Inl e \<Rightarrow> Inl e
      | Inr indicators \<Rightarrow>
          if indicators = [] then Inl (InvalidConfiguration
            (''instance `'' @ ic_id instance @ ''` must define at least one enabled indicator''))
          else Inr indicators)"

definition build_runtime_strategy :: "'v InstanceConfig \<Rightarrow> InstanceError + RuntimeStrategyEngine" where
  "build_runtime_strategy instance =
     (if ic_strategy instance = ''single_indicator_signal'' then Inr Single
      else if ic_strategy instance = ''consensus'' then Inr (Consensus ConsensusLongOnlyStrategy_default)
      else Inl (InvalidConfiguration (''instance `'' @ ic_id instance @ ''` uses unsupported strategy `''
        @ ic_strategy instance @ ''`'')))"

subsection \<open>Evaluation\<close>

definition evaluate_indicator_engine ::
    "IndicatorEngine \<Rightarrow> OhlcvBar \<Rightarrow> SignalPhase \<Rightarrow> IndicatorEvaluation \<times> IndicatorEngine" where
  "evaluate_indicator_engine engine bar phase =
     (case phase of
        Preview \<Rightarrow> (let (evaluation, preview_engine) = engine_evaluate engine bar phase in (evaluation, engine))
      | Confirmed \<Rightarrow> engine_evaluate engine bar phase)"

definition evaluate_one ::
    "OhlcvBar \<Rightarrow> SignalPhase \<Rightarrow> ConfiguredIndicatorRuntime \<Rightarrow> EvaluatedIndicatorSignal \<times> ConfiguredIndicatorRuntime" where
  "evaluate_one bar phase indicator =
     (let (evaluation, engine) = evaluate_indicator_engine (ci_engine indicator) bar phase in
      (\<lparr>ev_id = ci_id indicator, ev_role = ci_role indicator, ev_signal_policy = ci_signal_policy indicator,
        ev_signal = ie_signal evaluation, ev_metadata_capabilities = ci_metadata_capabilities indicator,
        ev_metadata_filters = ci_metadata_filters indicator, ev_metadata = ie_metadata evaluation,
        ev_weight = ci_weight indicator\<rparr>,
       indicator\<lparr>ci_engine := engine\<rparr>))"

definition evaluate_indicator_signals ::
    "ConfiguredIndicatorRuntime list \<Rightarrow> OhlcvBar \<Rightarrow> SignalPhase
     \<Rightarrow> EvaluatedIndicatorSignal list \<times> ConfiguredIndicatorRuntime list" where
  "evaluate_indicator_signals indicators bar phase =
     (let results = map (evaluate_one bar phase) indicators in (map fst results, map snd results))"

definition representative_indicator :: "EvaluatedIndicatorSignal list \<Rightarrow> EvaluatedIndicatorSignal option" where
  "representative_indicator indicators =
     (case find (\<lambda>indicator. ev_role indicator = PrimarySignal) indicators of
        Some indicator \<Rightarrow> Some indicator
      | None \<Rightarrow> (case indicators of [] \<Rightarrow> None | indicator # _ \<Rightarrow> Some indicator))"

subsection \<open>Lemmas\<close>

lemma builtin_manifests_sorted: "registry_manifests = [rsi_MANIFEST, sma_MANIFEST]"
  by (simp add: registry_manifests_def builtin_manifests_def sma_MANIFEST_def rsi_MANIFEST_def insort_key_def
      less_char_def)

text \<open>Sorting the registry changes no lookup: it agrees with the built-in table.\<close>

lemma registry_manifest_builtin: "registry_manifest type_id = indicator_manifest type_id"
  by (auto simp: registry_manifest_def indicator_manifest_def builtin_manifests_sorted builtin_manifests_def
      sma_MANIFEST_def rsi_MANIFEST_def)

lemma registry_type_ids_distinct: "assert_no_duplicate_type_ids None (map im_type_id registry_manifests) = Inr ()"
  by (simp add: builtin_manifests_sorted sma_MANIFEST_def rsi_MANIFEST_def)

lemma build_engine_builtin: "build_engine as_float as_integer = build_builtin_engine as_float as_integer"
  by (intro ext) (simp add: build_engine_def build_builtin_engine_def registry_manifest_builtin)

text \<open>The failing map of the builder, as a relation between inputs and outputs.\<close>

lemma collect_indicators_Inr:
  "collect_indicators f enabled xs = Inr rs \<longleftrightarrow> list_all2 (\<lambda>x r. f x = Inr r) (filter enabled xs) rs"
  by (induction f enabled xs arbitrary: rs rule: collect_indicators.induct)
    (auto simp: list_all2_Cons1 split: sum.splits)

lemma collect_indicators_set:
  assumes "collect_indicators f enabled xs = Inr rs" "r \<in> set rs"
  obtains x where "x \<in> set xs" "enabled x" "f x = Inr r"
proof -
  from assms obtain i where i: "i < length rs" "rs ! i = r" by (auto simp: in_set_conv_nth)
  note l = assms(1) [unfolded collect_indicators_Inr]
  from l i have "f (filter enabled xs ! i) = Inr r" by (auto simp: list_all2_conv_all_nth)
  moreover from l i(1) have "filter enabled xs ! i \<in> set (filter enabled xs)"
    by (metis list_all2_lengthD nth_mem)
  ultimately show thesis by (auto intro: that)
qed

lemma build_runtime_indicatorsD:
  assumes "build_runtime_indicators as_float as_integer instance = Inr indicators"
  shows "collect_indicators (build_one_indicator as_float as_integer instance) ii_enabled (ic_indicators instance) = Inr indicators"
    and "indicators \<noteq> []"
  using assms by (auto simp: build_runtime_indicators_def split: sum.splits if_splits)

lemma evaluate_one_preview [simp]: "snd (evaluate_one bar Preview indicator) = indicator"
  by (simp add: evaluate_one_def evaluate_indicator_engine_def case_prod_beta)

lemma evaluate_preview_unchanged [simp]: "snd (evaluate_indicator_signals indicators bar Preview) = indicators"
  by (simp add: evaluate_indicator_signals_def comp_def)

lemma evaluate_one_fields:
  "ev_role (fst (evaluate_one bar phase i)) = ci_role i"
  "ev_signal_policy (fst (evaluate_one bar phase i)) = ci_signal_policy i"
  "ev_weight (fst (evaluate_one bar phase i)) = ci_weight i"
  "ev_signal (fst (evaluate_one bar phase i)) = ie_signal (fst (engine_evaluate (ci_engine i) bar phase))"
  by (cases phase; simp add: evaluate_one_def evaluate_indicator_engine_def case_prod_beta)+

definition indicators_after ::
    "ConfiguredIndicatorRuntime list \<Rightarrow> (OhlcvBar \<times> SignalPhase) list \<Rightarrow> ConfiguredIndicatorRuntime list" where
  "indicators_after indicators steps = foldl (\<lambda>is (b, p). snd (evaluate_indicator_signals is b p)) indicators steps"

lemma indicators_after_confirmed:
  "indicators_after indicators steps = indicators_after indicators (filter (\<lambda>(b, p). p = Confirmed) steps)"
proof (induction steps arbitrary: indicators)
  case (Cons s steps)
  then show ?case
    by (cases s; cases "snd s") (auto simp: indicators_after_def)
qed (simp add: indicators_after_def)

text \<open>A preview evaluation yields no confirmed signal.\<close>

lemma preview_signals: "ie_signal (fst (engine_evaluate e bar Preview)) \<in> {NoSignal, BuyPreview, SellPreview}"
  using engine.confirmed_signal [of e bar] by (auto simp: engine.preview_signal)

subsection \<open>Properties\<close>

text \<open>C33: Preview bars never leave a trace in the indicators: after any interleaving of preview and
  confirmed evaluations, every later evaluation (signals and state) is the one after the confirmed
  bars alone.\<close>
theorem previews_leave_no_trace:
  "evaluate_indicator_signals (indicators_after indicators steps) bar phase
   = evaluate_indicator_signals (indicators_after indicators (filter (\<lambda>(b, p). p = Confirmed) steps)) bar phase"
  using indicators_after_confirmed [of indicators steps] by simp

text \<open>Building the indicators of an instance yields one runtime per enabled indicator, in order,
  each with an engine of the configured type, the configured role or the default one of its manifest, and the
  metadata capabilities of its manifest; a confirmed-only instance gets no indicator that acts on
  previews, whatever the indicator configures.\<close>
theorem built_indicators_exact:
  assumes "build_runtime_indicators as_float as_integer instance = Inr indicators"
  shows "list_all2 (\<lambda>c r. ci_id r = ii_id c \<and> engine_type_id (ci_engine r) = ii_indicator_type c
      \<and> ci_weight r = (case ii_weight c of Some w \<Rightarrow> w | None \<Rightarrow> 1)
      \<and> (\<exists>m. registry_manifest (ii_indicator_type c) = Some m \<and> ci_metadata_capabilities r = im_metadata m
          \<and> ci_role r = (case ii_role c of Some x \<Rightarrow> x | None \<Rightarrow> im_role_default m))
      \<and> ci_signal_policy r = (if ic_signal_mode instance = ConfirmedOnly then ConfirmedRequired
          else case ii_signal_policy c of Some p \<Rightarrow> p | None \<Rightarrow> PreviewAllowed))
     (filter ii_enabled (ic_indicators instance)) indicators \<and> indicators \<noteq> []"
proof -
  have one: "ci_id r = ii_id c \<and> engine_type_id (ci_engine r) = ii_indicator_type c
      \<and> ci_weight r = (case ii_weight c of Some w \<Rightarrow> w | None \<Rightarrow> 1)
      \<and> (\<exists>m. registry_manifest (ii_indicator_type c) = Some m \<and> ci_metadata_capabilities r = im_metadata m
          \<and> ci_role r = (case ii_role c of Some x \<Rightarrow> x | None \<Rightarrow> im_role_default m))
      \<and> ci_signal_policy r = (if ic_signal_mode instance = ConfirmedOnly then ConfirmedRequired
          else case ii_signal_policy c of Some p \<Rightarrow> p | None \<Rightarrow> PreviewAllowed)"
    if "build_one_indicator as_float as_integer instance c = Inr r" for c r
  proof -
    from that obtain m e where m: "registry_manifest (ii_indicator_type c) = Some m"
      and e: "build_engine as_float as_integer (ii_indicator_type c) (ii_params c) = Inr e"
      and r: "ci_engine r = e" "ci_id r = ii_id c"
        "ci_weight r = (case ii_weight c of Some w \<Rightarrow> w | None \<Rightarrow> 1)"
        "ci_metadata_capabilities r = im_metadata m"
        "ci_role r = (case ii_role c of Some x \<Rightarrow> x | None \<Rightarrow> im_role_default m)"
        "ci_signal_policy r = resolved_signal_policy (ic_signal_mode instance) (ii_signal_policy c)"
      by (auto simp: build_one_indicator_def build_runtime_indicator_engine_def split: option.splits sum.splits)
    from e have "engine_type_id e = ii_indicator_type c"
      unfolding build_engine_builtin using build_engine_type by blast
    with m r show ?thesis
      by (cases "ic_signal_mode instance") (auto simp: resolved_signal_policy_def split: option.splits)
  qed
  from build_runtime_indicatorsD [OF assms] one show ?thesis
    by (auto simp: collect_indicators_Inr elim!: list_all2_mono)
qed

subsection \<open>Witness\<close>

definition demo_filters_off :: IndicatorSignalMetadataFilters where
  "demo_filters_off = \<lparr>flt_entry = SignalMetadataFilter_default, flt_exit = SignalMetadataFilter_default\<rparr>"

definition demo_indicator :: "int IndicatorInstanceConfig" where
  "demo_indicator = \<lparr>ii_id = ''sma'', ii_indicator_type = ''sma_crossover'', ii_enabled = True, ii_role = None,
     ii_signal_policy = Some PreviewAllowed, ii_weight = None, ii_metadata_filters = demo_filters_off,
     ii_params = (\<lambda>_. None)\<rparr>"

definition demo_instance :: "int InstanceConfig" where
  "demo_instance = \<lparr>ic_id = ''aapl'', ic_enabled = True, ic_market = Equities, ic_symbols = [''AAPL''],
     ic_timeframe = M1, ic_account = ''paper'', ic_data_connector = ''alpaca'', ic_execution_connector = ''alpaca'',
     ic_strategy = ''consensus'', ic_signal_mode = ConfirmedOnly, ic_polling_enabled = True,
     ic_polling_interval_ms = 1000, ic_indicators = [demo_indicator],
     ic_execution_constraints = ExecutionConstraintsConfig_default, ic_budget_pct = f64_rnd 100,
     ic_risk = \<lparr>irc_profile = ''default'', irc_overrides = \<lparr>ro_max_daily_loss_pct = None, ro_max_open_positions = None,
       ro_target_order_notional_usd = None, ro_max_order_notional_usd = None, ro_max_spread_bps = None,
       ro_max_slippage_bps = None, ro_stale_data_ms = None, ro_cooldown_after_reject_ms = None\<rparr>\<rparr>,
     ic_warmup_target_bars = None, ic_allow_live = False\<rparr>"

definition demo_indicators :: "ConfiguredIndicatorRuntime list" where
  "demo_indicators = (case build_runtime_indicators (\<lambda>_. None) Some demo_instance of Inr r \<Rightarrow> r | Inl _ \<Rightarrow> [])"

lemma demo_indicators_built: "build_runtime_indicators (\<lambda>_. None) Some demo_instance = Inr demo_indicators"
proof -
  have "is_ok (build_runtime_indicators (\<lambda>_. None) Some demo_instance)" by code_simp
  then show ?thesis by (auto simp: is_ok_iff demo_indicators_def)
qed

theorem built_indicators_exact_witness:
  "map ci_signal_policy demo_indicators = [ConfirmedRequired]"
proof -
  obtain z where "demo_indicators = [z]" "ci_signal_policy z = ConfirmedRequired"
    using built_indicators_exact [OF demo_indicators_built]
    by (auto simp: demo_instance_def demo_indicator_def list_all2_Cons1)
  note z = this
  have "map ci_signal_policy [z] = [ConfirmedRequired]" using z(2) by simp
  then show ?thesis unfolding z(1) by simp
qed

end
