(* ===== verification/Lane.thy ===== *)
theory Lane
  imports Instance Inventory Portfolio DataPlane
begin

section \<open>Lanes (crate openticker-lane: state, signals, position and build)\<close>

text \<open>
  A lane is one bot on one symbol. \<open>LaneRuntime\<close> is its whole mutable state. The
  theory models \<open>state.rs\<close>, \<open>signals.rs\<close> (from a bar to a risk decision),
  \<open>position.rs\<close> (what an accepted order does to the position) and \<open>build.rs\<close>
  (the lanes a configuration starts with). A function that mutates the lane returns it.
  Dates (\<open>NaiveDate\<close>) are day numbers. The debug assertion of
  \<open>sync_runtime_fields_from_inventory\<close> is off in release builds; it is a lemma here.
  The time of \<open>market_data_is_stale\<close> is an argument.

  The lemmas show the decision table of the evaluation kernel, that a fill keeps the cached
  fields and the inventory of a lane consistent, and what a lane is after a restart.
\<close>

subsection \<open>State\<close>

datatype LaneRuntimeState = Stopped | Running | Paused | Reconciling

fun as_storage_value :: "LaneRuntimeState \<Rightarrow> string" where
  "as_storage_value Stopped = ''stopped''"
| "as_storage_value Running = ''running''"
| "as_storage_value Paused = ''paused''"
| "as_storage_value Reconciling = ''reconciling''"

definition from_storage_value :: "string \<Rightarrow> LaneRuntimeState option" where
  "from_storage_value value =
     (if value = ''stopped'' then Some Stopped
      else if value = ''running'' then Some Running
      else if value = ''paused'' then Some Paused
      else if value = ''reconciling'' then Some Reconciling
      else None)"

datatype LaneRecoveryState = Healthy | CatchingUp | OutOfSync

record InstanceWarmupState =
  wu_required_bars :: nat
  wu_loaded_bars :: nat
  wu_ready :: bool
  wu_last_error :: "string option"
  wu_last_warmup_timestamp :: "timestamp option"

definition InstanceWarmupState_new :: "nat \<Rightarrow> InstanceWarmupState" where
  "InstanceWarmupState_new required_bars = \<lparr>wu_required_bars = required_bars, wu_loaded_bars = 0,
     wu_ready = (required_bars = 0), wu_last_error = None, wu_last_warmup_timestamp = None\<rparr>"

record 'v LaneRuntime =
  lr_config :: "'v InstanceConfig"
  lr_lane_symbol :: string
  lr_execution_mode :: ExecutionMode
  lr_state :: LaneRuntimeState
  lr_resume_after_startup_reconcile :: bool
  lr_indicators :: "ConfiguredIndicatorRuntime list"
  lr_strategy :: RuntimeStrategyEngine
  lr_bar_builder :: BarBuilder
  lr_risk_limits :: RiskLimits
  lr_target_order_notional_usd :: f64
  lr_inventory :: InventoryState
  lr_has_position :: bool
  lr_position_quantity :: f64
  lr_position_notional_usd :: f64
  lr_entry_price :: "f64 option"
  lr_realized_pnl_usd :: f64
  lr_daily_loss_pct_accumulated :: f64
  lr_last_loss_reset_date :: "int option"
  lr_cooldown_until_ms :: "int option"
  lr_reconciliation_blocked :: bool
  lr_remote_net_qty :: "f64 option"
  lr_aggregate_managed_qty :: f64
  lr_external_delta_qty :: "f64 option"
  lr_managed_remote_open_orders :: nat
  lr_external_remote_open_orders :: nat
  lr_warmup :: InstanceWarmupState
  lr_recovery_state :: LaneRecoveryState
  lr_recovery_started_at_ms :: "int option"
  lr_recovery_target_timestamp :: "timestamp option"
  lr_recovery_last_progress_timestamp :: "timestamp option"
  lr_recovery_last_error :: "string option"
  lr_recovery_consecutive_no_progress_cycles :: int
  lr_last_recovered_at_timestamp :: "timestamp option"
  lr_last_dispatched_bar_timestamp :: "timestamp option"
  lr_last_stream_update :: "NormalizedBarUpdate option"
  lr_connector_execution_constraints :: "ExecutionConstraintsConfig option"
  lr_connector_fractional_entry_supported :: "bool option"
  lr_connector_execution_constraints_initialized :: bool

definition aggregate_bot_state :: "'v LaneRuntime list \<Rightarrow> LaneRuntimeState" where
  "aggregate_bot_state lanes =
     (if \<exists>lane \<in> set lanes. lr_state lane = Reconciling then Reconciling
      else if \<exists>lane \<in> set lanes. lr_state lane = Running then Running
      else if \<exists>lane \<in> set lanes. lr_state lane = Paused then Paused
      else Stopped)"

subsection \<open>Positions\<close>

definition LANE_QUANTITY_TOLERANCE :: f64 where
  "LANE_QUANTITY_TOLERANCE = f64_rnd (1 / 1000000000)"

record PositionRecordState =
  prs_has_position :: bool
  prs_quantity :: f64
  prs_entry_price :: "f64 option"
  prs_realized_pnl_usd :: f64

record ProcessBarStateMutation =
  psm_position_record :: "PositionRecordState option"
  psm_released_notional_usd :: "f64 option"

record InventoryTransitionFailure =
  itf_action :: string
  itf_error :: InventoryError

definition lane_ledger_owner_path :: "'v LaneRuntime \<Rightarrow> LedgerOwnerPath" where
  "lane_ledger_owner_path instance = \<lparr>op_account_id = ic_account (lr_config instance),
     op_bot_id = ic_id (lr_config instance), op_symbol = lr_lane_symbol instance\<rparr>"

definition inventory_state_from_runtime_fields :: "f64 \<Rightarrow> f64 option \<Rightarrow> f64 \<Rightarrow> InventoryState" where
  "inventory_state_from_runtime_fields position_quantity entry_price realized_pnl_usd =
     from_position_state position_quantity entry_price realized_pnl_usd"

definition sync_inventory_from_runtime_fields :: "'v LaneRuntime \<Rightarrow> 'v LaneRuntime" where
  "sync_inventory_from_runtime_fields instance = instance\<lparr>lr_inventory :=
     inventory_state_from_runtime_fields (lr_position_quantity instance) (lr_entry_price instance)
       (lr_realized_pnl_usd instance)\<rparr>"

definition sync_anomaly_text :: "'v LaneRuntime \<Rightarrow> string" where
  "sync_anomaly_text instance =
     ''lane position-quantity invariant violated during inventory sync: account='' @ ic_account (lr_config instance)
     @ '' instance='' @ ic_id (lr_config instance) @ '' symbol='' @ lr_lane_symbol instance
     @ '' had has_position=true while both quantity sources were ~0 (inventory_quantity=''
     @ show_f64 (inv_quantity (lr_inventory instance)) @ '', cached_position_quantity=''
     @ show_f64 (lr_position_quantity instance) @ ''); reset to flat''"

definition sync_runtime_fields_from_inventory :: "f64 option \<Rightarrow> 'v LaneRuntime \<Rightarrow> 'v LaneRuntime" where
  "sync_runtime_fields_from_inventory valuation_price instance =
     (let inventory = lr_inventory instance;
          inconsistent_on_entry = (lr_has_position instance
            \<and> inv_quantity inventory \<le> LANE_QUANTITY_TOLERANCE
            \<and> lr_position_quantity instance \<le> LANE_QUANTITY_TOLERANCE);
          position_quantity = inv_quantity inventory;
          has_position = (LANE_QUANTITY_TOLERANCE < position_quantity);
          entry_price = inv_average_cost_usd inventory;
          valuation = (case valuation_price of
              Some price \<Rightarrow> if is_finite price \<and> 0 < price then Some price else entry_price
            | None \<Rightarrow> entry_price)
      in instance\<lparr>lr_position_quantity := position_quantity,
           lr_has_position := has_position,
           lr_entry_price := entry_price,
           lr_realized_pnl_usd := rp_net_usd (inv_realized_pnl inventory),
           lr_position_notional_usd := (if has_position then inv_position_notional_usd inventory valuation else 0),
           lr_recovery_last_error := (if inconsistent_on_entry then Some (sync_anomaly_text instance)
             else lr_recovery_last_error instance)\<rparr>)"

definition effective_position_quantity :: "'v LaneRuntime \<Rightarrow> f64" where
  "effective_position_quantity instance =
     (if LANE_QUANTITY_TOLERANCE < inv_quantity (lr_inventory instance) then inv_quantity (lr_inventory instance)
      else if LANE_QUANTITY_TOLERANCE < lr_position_quantity instance then lr_position_quantity instance
      else 0)"

definition sync_remote_position_quantity :: "f64 \<Rightarrow> 'v LaneRuntime \<Rightarrow> bool \<times> 'v LaneRuntime" where
  "sync_remote_position_quantity remote_quantity instance =
     (let has_position = (LANE_QUANTITY_TOLERANCE < remote_quantity);
          local_quantity = effective_position_quantity instance;
          changed = (lr_has_position instance \<noteq> has_position
            \<or> LANE_QUANTITY_TOLERANCE < \<bar>local_quantity - remote_quantity\<bar>)
      in if \<not> changed then (False, instance)
         else let instance = instance\<lparr>lr_has_position := has_position, lr_position_quantity := remote_quantity\<rparr>;
                  instance = (if has_position
                    then instance\<lparr>lr_position_notional_usd := (case lr_entry_price instance of None \<Rightarrow> 0
                           | Some entry_price \<Rightarrow> calculate_position_notional_usd remote_quantity entry_price)\<rparr>
                    else instance\<lparr>lr_position_notional_usd := 0, lr_entry_price := None\<rparr>)
              in (True, sync_inventory_from_runtime_fields instance))"

definition positive_or_none :: "f64 option \<Rightarrow> f64 option" where
  "positive_or_none x = (case x of Some value \<Rightarrow> if is_finite value \<and> 0 < value then Some value else None | None \<Rightarrow> None)"

definition accepted_order_fee_entry :: "AcceptedOrder \<Rightarrow> FeeEntry option" where
  "accepted_order_fee_entry order =
     (case ao_fee_asset order of None \<Rightarrow> None
      | Some asset \<Rightarrow>
          (case positive_or_none (ao_fee_amount order) of None \<Rightarrow> None
           | Some amount \<Rightarrow> Some \<lparr>fee_asset = asset, fee_amount = amount,
               fee_normalized_usd = positive_or_none (ao_fee_normalized_usd order)\<rparr>))"

definition current_instance_open_notional_usd :: "'v LaneRuntime \<Rightarrow> f64" where
  "current_instance_open_notional_usd instance = sanitize_value (lr_position_notional_usd instance)"

definition position_record_state :: "'v LaneRuntime \<Rightarrow> PositionRecordState" where
  "position_record_state instance = \<lparr>prs_has_position = lr_has_position instance,
     prs_quantity = effective_position_quantity instance, prs_entry_price = lr_entry_price instance,
     prs_realized_pnl_usd = lr_realized_pnl_usd instance\<rparr>"

text \<open>On an error the lane keeps the changes made before it: the result carries the lane on both sides.\<close>

definition apply_open_long_fill ::
    "OhlcvBar \<Rightarrow> AcceptedOrder \<Rightarrow> 'v LaneRuntime \<Rightarrow> (InventoryTransitionFailure + unit) \<times> 'v LaneRuntime" where
  "apply_open_long_fill bar order instance =
     (let fill_quantity = f64_max (ao_quantity order) 0 in
      if fill_quantity \<le> f64_epsilon then (Inr (), instance)
      else let previous_quantity = effective_position_quantity instance;
               fee_entry = accepted_order_fee_entry order;
               instance = sync_inventory_from_runtime_fields instance;
               average_cost = inv_average_cost_usd (lr_inventory instance)
      in if average_cost \<noteq> None \<or> previous_quantity \<le> LANE_QUANTITY_TOLERANCE then
           (case apply_fill Buy fill_quantity (ao_price order) fee_entry (lr_inventory instance) of
              Inl error \<Rightarrow> (Inl \<lparr>itf_action = ''open_fill'', itf_error = error\<rparr>, instance)
            | Inr inventory \<Rightarrow>
                (Inr (), sync_runtime_fields_from_inventory (Some (bar_close bar)) (instance\<lparr>lr_inventory := inventory\<rparr>)))
         else
           (let previous_entry_price = (case lr_entry_price instance of Some p \<Rightarrow> p | None \<Rightarrow> ao_price order);
                new_quantity = previous_quantity + fill_quantity;
                new_entry_price = (previous_quantity * previous_entry_price + fill_quantity * ao_price order) / new_quantity
            in (Inr (), sync_inventory_from_runtime_fields
                 (instance\<lparr>lr_position_quantity := new_quantity,
                    lr_position_notional_usd := calculate_position_notional_usd new_quantity (bar_close bar),
                    lr_entry_price := Some new_entry_price,
                    lr_has_position := f64_epsilon < new_quantity\<rparr>))))"

definition close_loss_pct :: "f64 option \<Rightarrow> f64 \<Rightarrow> f64 \<Rightarrow> f64 \<Rightarrow> f64 \<Rightarrow> f64" where
  "close_loss_pct average_cost price previous_quantity fill_quantity accumulated =
     (case average_cost of
        Some entry_price \<Rightarrow>
          if 0 < entry_price \<and> f64_epsilon < previous_quantity \<and> f64_epsilon < fill_quantity then
            (let pnl_pct = ((price - entry_price) / entry_price) * f64_rnd 100 in
             if pnl_pct < 0
             then accumulated + (- pnl_pct) * f64_clamp (fill_quantity / previous_quantity) 0 1
             else accumulated)
          else accumulated
      | None \<Rightarrow> accumulated)"

definition apply_close_long_fill ::
    "OhlcvBar \<Rightarrow> AcceptedOrder \<Rightarrow> 'v LaneRuntime \<Rightarrow> (InventoryTransitionFailure + f64) \<times> 'v LaneRuntime" where
  "apply_close_long_fill bar order instance =
     (let previous_quantity = effective_position_quantity instance;
          fee_entry = accepted_order_fee_entry order;
          instance = sync_inventory_from_runtime_fields instance;
          fill_quantity = f64_min (f64_max (ao_quantity order) 0) previous_quantity;
          released_notional_usd = calculate_position_notional_usd fill_quantity (bar_close bar);
          average_cost = inv_average_cost_usd (lr_inventory instance);
          instance = instance\<lparr>lr_daily_loss_pct_accumulated := close_loss_pct average_cost (ao_price order)
            previous_quantity fill_quantity (lr_daily_loss_pct_accumulated instance)\<rparr>
      in if \<not> f64_epsilon < fill_quantity then (Inr released_notional_usd, instance)
         else if average_cost \<noteq> None then
           (case apply_fill Sell fill_quantity (ao_price order) fee_entry (lr_inventory instance) of
              Inl error \<Rightarrow> (Inl \<lparr>itf_action = ''close_fill'', itf_error = error\<rparr>, instance)
            | Inr inventory \<Rightarrow>
                (Inr released_notional_usd,
                 sync_runtime_fields_from_inventory (Some (bar_close bar)) (instance\<lparr>lr_inventory := inventory\<rparr>)))
         else
           (let remaining_quantity = f64_max (previous_quantity - fill_quantity) 0;
                has_position = (f64_epsilon < remaining_quantity)
            in (Inr released_notional_usd, sync_inventory_from_runtime_fields
                 (instance\<lparr>lr_position_quantity := remaining_quantity,
                    lr_position_notional_usd := calculate_position_notional_usd remaining_quantity (bar_close bar),
                    lr_has_position := has_position,
                    lr_entry_price := (if has_position then lr_entry_price instance else None)\<rparr>))))"

definition u64_to_i64 :: "u64 \<Rightarrow> int" where
  "u64_to_i64 x = (if uint x \<le> i64_max then uint x else i64_max)"

definition no_mutation :: ProcessBarStateMutation where
  "no_mutation = \<lparr>psm_position_record = None, psm_released_notional_usd = None\<rparr>"

definition apply_process_bar_fill_state ::
    "OhlcvBar \<Rightarrow> bool \<Rightarrow> AcceptedOrder option \<Rightarrow> OrderLedgerOutcome option \<Rightarrow> RiskDecision \<Rightarrow> 'v LaneRuntime
     \<Rightarrow> (InventoryTransitionFailure + ProcessBarStateMutation) \<times> 'v LaneRuntime" where
  "apply_process_bar_fill_state bar next_has_position accepted_order order_ledger_outcome risk_decision instance =
     (case risk_decision of
        Allow allowed_intent \<Rightarrow>
          if is_open_intent allowed_intent then
            (case accepted_order of
               None \<Rightarrow> (Inr no_mutation, instance\<lparr>lr_cooldown_until_ms := None\<rparr>)
             | Some order \<Rightarrow>
                 (case apply_open_long_fill bar order instance of
                    (Inl e, instance) \<Rightarrow> (Inl e, instance)
                  | (Inr _, instance) \<Rightarrow>
                      (Inr \<lparr>psm_position_record = Some (position_record_state instance), psm_released_notional_usd = None\<rparr>,
                       instance\<lparr>lr_cooldown_until_ms := None\<rparr>)))
          else if is_exit_intent allowed_intent then
            (case accepted_order of
               None \<Rightarrow> (Inr no_mutation, instance\<lparr>lr_cooldown_until_ms := None\<rparr>)
             | Some order \<Rightarrow>
                 (case apply_close_long_fill bar order instance of
                    (Inl e, instance) \<Rightarrow> (Inl e, instance)
                  | (Inr released, instance) \<Rightarrow>
                      (Inr \<lparr>psm_position_record = Some (position_record_state instance), psm_released_notional_usd = Some released\<rparr>,
                       instance\<lparr>lr_cooldown_until_ms := None\<rparr>)))
          else (Inr no_mutation, instance\<lparr>lr_has_position := next_has_position\<rparr>)
      | Reject reason \<Rightarrow>
          (Inr no_mutation,
           (let instance = instance\<lparr>lr_has_position := next_has_position\<rparr> in
            if order_ledger_outcome = None
            then instance\<lparr>lr_cooldown_until_ms := Some (sat_i64 (timestamp_millis (bar_timestamp bar)
                   + u64_to_i64 (cooldown_after_reject_ms (lr_risk_limits instance))))\<rparr>
            else instance)))"

subsection \<open>Signals\<close>

fun apply_position_transition :: "bool \<Rightarrow> TradeIntent \<Rightarrow> bool" where
  "apply_position_transition has_position OpenLong = True"
| "apply_position_transition has_position AddLong = True"
| "apply_position_transition has_position ReduceLong = False"
| "apply_position_transition has_position CloseLong = False"
| "apply_position_transition has_position NoOp = has_position"

datatype StrategySignalSource = Representative | IntentFallback | Manual

definition resolved_strategy_signal ::
    "IndicatorSignal \<Rightarrow> TradeIntent \<Rightarrow> SignalPhase \<Rightarrow> IndicatorSignal \<times> StrategySignalSource" where
  "resolved_strategy_signal representative_signal intent phase =
     (if representative_signal \<noteq> NoSignal then (representative_signal, Representative)
      else let signal = (if is_open_intent intent then buy_signal phase
             else if is_exit_intent intent then sell_signal phase else NoSignal)
           in (signal, if signal = NoSignal then Representative else IntentFallback))"

record BudgetRoomContext =
  br_remaining_bot_usd :: f64
  br_remaining_account_usd :: f64

record StaleDataDiagnostics =
  sdd_bar_timestamp_ms :: int
  sdd_close_timestamp_ms :: int
  sdd_stale_deadline_ms :: int
  sdd_evaluated_at_ms :: int

record ProcessBarEvaluation =
  pe_signal :: IndicatorSignal
  pe_signal_metadata :: SignalMetadata
  pe_signal_source :: StrategySignalSource
  pe_intent :: TradeIntent
  pe_strategy_rationale :: "string option"
  pe_order_quantity :: f64
  pe_order_quantity_adjustment_reason :: "string option"
  pe_order_ledger_outcome :: "OrderLedgerOutcome option"
  pe_risk_decision :: RiskDecision
  pe_stale_data :: bool
  pe_stale_data_diagnostics :: "StaleDataDiagnostics option"
  pe_cooldown_active :: bool
  pe_account_open_positions :: u32
  pe_account_daily_loss_pct :: f64
  pe_observed_spread_bps :: u32
  pe_estimated_slippage_bps :: u32
  pe_budget_room :: BudgetRoomContext
  pe_has_position_before :: bool
  pe_next_has_position :: bool

record PreparedLaneEvaluation =
  ple_bot_id :: string
  ple_account_id :: string
  ple_market :: MarketType
  ple_bot_budget_pct :: f64
  ple_timeframe :: Timeframe
  ple_risk_limits :: RiskLimits
  ple_target_order_notional_usd :: f64
  ple_current_position_quantity :: f64
  ple_has_position_before :: bool
  ple_cooldown_active :: bool
  ple_instance_execution_constraints :: ExecutionConstraintsConfig
  ple_connector_execution_constraints :: "ExecutionConstraintsConfig option"
  ple_connector_fractional_entry_supported :: "bool option"
  ple_signal :: IndicatorSignal
  ple_signal_metadata :: SignalMetadata
  ple_signal_source :: StrategySignalSource
  ple_intent :: TradeIntent
  ple_strategy_rationale :: "string option"

record SignalEvaluationKernelInput =
  ki_signal :: IndicatorSignal
  ki_signal_metadata :: SignalMetadata
  ki_signal_source :: StrategySignalSource
  ki_intent :: TradeIntent
  ki_strategy_rationale :: "string option"
  ki_bar_close :: f64
  ki_stale_data :: bool
  ki_stale_data_diagnostics :: "StaleDataDiagnostics option"
  ki_account_open_positions :: u32
  ki_account_daily_loss_pct :: f64
  ki_risk_limits :: RiskLimits
  ki_order_quantity_resolution :: OrderQuantityResolution
  ki_budget_room :: BudgetRoomContext
  ki_kill_switch_active :: bool
  ki_has_position_before :: bool
  ki_cooldown_active :: bool

definition as_consensus_observation :: "EvaluatedIndicatorSignal \<Rightarrow> IndicatorObservation" where
  "as_consensus_observation indicator = \<lparr>obs_id = ev_id indicator, obs_role = ev_role indicator,
     obs_signal_policy = ev_signal_policy indicator, obs_signal = ev_signal indicator,
     obs_metadata_capabilities = ev_metadata_capabilities indicator,
     obs_metadata_filters = ev_metadata_filters indicator, obs_metadata = ev_metadata indicator,
     obs_weight = ev_weight indicator\<rparr>"

definition capabilities_default :: IndicatorMetadataCapabilities where
  "capabilities_default = \<lparr>supports_strength = False, supports_reason_code = False, supports_tags = False,
     supports_facts = False, supports_trade_levels = False\<rparr>"

definition filters_default :: IndicatorSignalMetadataFilters where
  "filters_default = \<lparr>flt_entry = SignalMetadataFilter_default, flt_exit = SignalMetadataFilter_default\<rparr>"

text \<open>The strategy's decision on the evaluated indicators, as both strategies see them.\<close>

definition representative_context ::
    "SignalMode \<Rightarrow> bool \<Rightarrow> EvaluatedIndicatorSignal option \<Rightarrow> StrategyContext" where
  "representative_context signal_mode has_position representative =
     (case representative of
        Some indicator \<Rightarrow> \<lparr>sc_indicator_id = ev_id indicator, sc_signal = ev_signal indicator,
          sc_signal_policy = ev_signal_policy indicator,
          sc_metadata_capabilities = ev_metadata_capabilities indicator,
          sc_metadata_filters = ev_metadata_filters indicator, sc_metadata = ev_metadata indicator,
          sc_has_position = has_position\<rparr>
      | None \<Rightarrow> \<lparr>sc_indicator_id = ''representative_fallback'', sc_signal = NoSignal,
          sc_signal_policy = default_signal_policy signal_mode,
          sc_metadata_capabilities = capabilities_default,
          sc_metadata_filters = filters_default, sc_metadata = SignalMetadata_default,
          sc_has_position = has_position\<rparr>)"

definition strategy_decision ::
    "RuntimeStrategyEngine \<Rightarrow> StrategyContext \<Rightarrow> IndicatorObservation list \<Rightarrow> StrategyDecision" where
  "strategy_decision strategy context observations =
     (case strategy of
        Single \<Rightarrow> single_decide context
      | Consensus consensus \<Rightarrow> decide_consensus consensus
          \<lparr>cc_indicators = observations, cc_has_position = sc_has_position context\<rparr>)"

definition cooldown_active_at :: "'v LaneRuntime \<Rightarrow> OhlcvBar \<Rightarrow> bool" where
  "cooldown_active_at instance bar =
     (case lr_cooldown_until_ms instance of None \<Rightarrow> False
      | Some until_ms \<Rightarrow> timestamp_millis (bar_timestamp bar) < until_ms)"

definition prepared_evaluation ::
    "'v LaneRuntime \<Rightarrow> OhlcvBar \<Rightarrow> f64 \<Rightarrow> IndicatorSignal \<times> StrategySignalSource \<Rightarrow> SignalMetadata \<Rightarrow> StrategyDecision
     \<Rightarrow> PreparedLaneEvaluation" where
  "prepared_evaluation instance bar current_position_quantity signal_and_source metadata decision =
     \<lparr>ple_bot_id = ic_id (lr_config instance), ple_account_id = ic_account (lr_config instance),
      ple_market = ic_market (lr_config instance), ple_bot_budget_pct = ic_budget_pct (lr_config instance),
      ple_timeframe = ic_timeframe (lr_config instance), ple_risk_limits = lr_risk_limits instance,
      ple_target_order_notional_usd = lr_target_order_notional_usd instance,
      ple_current_position_quantity = current_position_quantity,
      ple_has_position_before = lr_has_position instance,
      ple_cooldown_active = cooldown_active_at instance bar,
      ple_instance_execution_constraints = ic_execution_constraints (lr_config instance),
      ple_connector_execution_constraints = lr_connector_execution_constraints instance,
      ple_connector_fractional_entry_supported = lr_connector_fractional_entry_supported instance,
      ple_signal = fst signal_and_source, ple_signal_metadata = metadata, ple_signal_source = snd signal_and_source,
      ple_intent = sd_intent decision, ple_strategy_rationale = sd_rationale decision\<rparr>"

definition prepare_process_bar_evaluation ::
    "'v LaneRuntime \<Rightarrow> OhlcvBar \<Rightarrow> SignalPhase \<Rightarrow> PreparedLaneEvaluation \<times> 'v LaneRuntime" where
  "prepare_process_bar_evaluation instance bar phase =
     (let (evaluated_signals, indicators) = evaluate_indicator_signals (lr_indicators instance) bar phase;
          representative = representative_indicator evaluated_signals;
          context = representative_context (ic_signal_mode (lr_config instance)) (lr_has_position instance) representative;
          current_position_quantity = effective_position_quantity instance;
          decision = strategy_decision (lr_strategy instance) context (map as_consensus_observation evaluated_signals);
          signal_and_source = resolved_strategy_signal (sc_signal context) (sd_intent decision) phase;
          instance = instance\<lparr>lr_indicators := indicators, lr_position_notional_usd :=
            calculate_position_notional_usd current_position_quantity (bar_close bar)\<rparr>
      in (prepared_evaluation instance bar current_position_quantity signal_and_source (sc_metadata context) decision,
          instance))"

definition manual_observation :: "IndicatorSignal \<Rightarrow> IndicatorObservation" where
  "manual_observation signal = \<lparr>obs_id = ''manual_signal'', obs_role = PrimarySignal,
     obs_signal_policy = PreviewAllowed, obs_signal = signal, obs_metadata_capabilities = capabilities_default,
     obs_metadata_filters = filters_default, obs_metadata = SignalMetadata_default, obs_weight = 1\<rparr>"

definition manual_context :: "IndicatorSignal \<Rightarrow> bool \<Rightarrow> StrategyContext" where
  "manual_context signal has_position = \<lparr>sc_indicator_id = ''manual_signal'', sc_signal = signal,
     sc_signal_policy = PreviewAllowed, sc_metadata_capabilities = capabilities_default,
     sc_metadata_filters = filters_default, sc_metadata = SignalMetadata_default, sc_has_position = has_position\<rparr>"

definition prepare_manual_signal_evaluation ::
    "'v LaneRuntime \<Rightarrow> OhlcvBar \<Rightarrow> IndicatorSignal \<Rightarrow> PreparedLaneEvaluation \<times> 'v LaneRuntime" where
  "prepare_manual_signal_evaluation instance bar signal =
     (let current_position_quantity = effective_position_quantity instance;
          decision = strategy_decision (lr_strategy instance) (manual_context signal (lr_has_position instance))
            [manual_observation signal];
          instance = instance\<lparr>lr_position_notional_usd :=
            calculate_position_notional_usd current_position_quantity (bar_close bar)\<rparr>
      in (prepared_evaluation instance bar current_position_quantity (signal, Manual) SignalMetadata_default decision,
          instance))"

definition apply_state_only_confirmed_bar :: "OhlcvBar \<Rightarrow> 'v LaneRuntime \<Rightarrow> bool \<times> 'v LaneRuntime" where
  "apply_state_only_confirmed_bar bar instance =
     (if (case lr_last_dispatched_bar_timestamp instance of None \<Rightarrow> False
          | Some previous \<Rightarrow> bar_timestamp bar \<le> previous) then (False, instance)
      else (True, instance\<lparr>lr_indicators := map (\<lambda>indicator. indicator\<lparr>ci_engine :=
              snd (engine_evaluate (ci_engine indicator) bar Confirmed)\<rparr>) (lr_indicators instance),
            lr_last_dispatched_bar_timestamp := Some (bar_timestamp bar)\<rparr>))"

definition kernel_risk_decision :: "SignalEvaluationKernelInput \<Rightarrow> RiskDecision" where
  "kernel_risk_decision input =
     (let order_quantity = oq_quantity (ki_order_quantity_resolution input);
          risk_decision = evaluate \<lparr>rp_limits = ki_risk_limits input, kill_switch_active = ki_kill_switch_active input\<rparr>
            \<lparr>rc_intent = ki_intent input, rc_price = ki_bar_close input, rc_quantity = order_quantity,
             rc_stale_data = ki_stale_data input, rc_account_open_positions = ki_account_open_positions input,
             rc_account_daily_loss_pct = ki_account_daily_loss_pct input, rc_observed_spread_bps = 0,
             rc_estimated_slippage_bps = 0, rc_cooldown_active = ki_cooldown_active input\<rparr>
      in case oq_ledger_outcome (ki_order_quantity_resolution input) of
           Some BotExhausted \<Rightarrow> Reject ''bot ledger exhausted''
         | Some AccountExhausted \<Rightarrow> Reject ''account ledger exhausted''
         | Some Dust \<Rightarrow> if is_open_intent (ki_intent input) then Allow NoOp else risk_decision
         | None \<Rightarrow> risk_decision)"

definition build_process_bar_evaluation :: "SignalEvaluationKernelInput \<Rightarrow> ProcessBarEvaluation" where
  "build_process_bar_evaluation input =
     (let resolution = ki_order_quantity_resolution input;
          risk_decision = kernel_risk_decision input;
          next_has_position = (case risk_decision of
              Allow allowed_intent \<Rightarrow> apply_position_transition (ki_has_position_before input) allowed_intent
            | Reject _ \<Rightarrow> ki_has_position_before input)
      in \<lparr>pe_signal = ki_signal input, pe_signal_metadata = ki_signal_metadata input,
          pe_signal_source = ki_signal_source input, pe_intent = ki_intent input,
          pe_strategy_rationale = ki_strategy_rationale input, pe_order_quantity = oq_quantity resolution,
          pe_order_quantity_adjustment_reason = oq_adjustment_reason resolution,
          pe_order_ledger_outcome = oq_ledger_outcome resolution, pe_risk_decision = risk_decision,
          pe_stale_data = ki_stale_data input, pe_stale_data_diagnostics = ki_stale_data_diagnostics input,
          pe_cooldown_active = ki_cooldown_active input,
          pe_account_open_positions = ki_account_open_positions input,
          pe_account_daily_loss_pct = ki_account_daily_loss_pct input,
          pe_observed_spread_bps = 0, pe_estimated_slippage_bps = 0,
          pe_budget_room = ki_budget_room input, pe_has_position_before = ki_has_position_before input,
          pe_next_has_position = next_has_position\<rparr>)"

definition market_data_freshness :: "OhlcvBar \<Rightarrow> Timeframe \<Rightarrow> u64 \<Rightarrow> int \<Rightarrow> bool \<times> StaleDataDiagnostics" where
  "market_data_freshness bar timeframe stale_ms evaluated_at_ms =
     (let bar_ms = timestamp_millis (bar_timestamp bar);
          close_timestamp_ms = sat_i64 (bar_ms + timeframe_ms timeframe);
          stale_deadline_ms = sat_i64 (close_timestamp_ms + u64_to_i64 stale_ms)
      in (stale_deadline_ms < evaluated_at_ms,
          \<lparr>sdd_bar_timestamp_ms = bar_ms, sdd_close_timestamp_ms = close_timestamp_ms,
           sdd_stale_deadline_ms = stale_deadline_ms, sdd_evaluated_at_ms = evaluated_at_ms\<rparr>))"

definition market_data_is_stale :: "int \<Rightarrow> OhlcvBar \<Rightarrow> Timeframe \<Rightarrow> u64 \<Rightarrow> bool" where
  "market_data_is_stale now_ms bar timeframe stale_ms = fst (market_data_freshness bar timeframe stale_ms now_ms)"

subsection \<open>Building lanes\<close>

record RecoveredInstanceState =
  ris_state :: LaneRuntimeState
  ris_resume_after_startup_reconcile :: bool

record RiskProfileRuntimeConfig =
  rpr_limits :: RiskLimits
  rpr_target_order_notional_usd :: f64

definition recover_lane_state :: "LaneRuntimeState \<Rightarrow> bool \<Rightarrow> LaneRuntimeState" where
  "recover_lane_state recovered default_start_paused_if_recovery_uncertain =
     (if default_start_paused_if_recovery_uncertain \<and> recovered = Running then Reconciling else recovered)"

fun core_error_text :: "CoreError \<Rightarrow> string" where
  "core_error_text (InvalidIdentifier what) = what @ '' cannot be empty''"
| "core_error_text (InvalidTimeframe what) = ''unsupported timeframe `'' @ what @ ''`''"

definition lane_instance_id :: "'v InstanceConfig \<Rightarrow> string \<Rightarrow> InstanceError + string" where
  "lane_instance_id instance symbol =
     (if length (ic_symbols instance) = 1 then Inr (ic_id instance)
      else case BotLaneKey_parse (ic_id instance) symbol of
        Inr lane_key \<Rightarrow> Inr (BotLaneKey_encoded lane_key)
      | Inl e \<Rightarrow> Inl (InvalidConfiguration (''invalid lane identity for instance `'' @ ic_id instance
          @ ''` symbol `'' @ symbol @ ''`: '' @ core_error_text e)))"

definition resolved_instance_state ::
    "'v InstanceConfig \<Rightarrow> (string, string) hmap \<Rightarrow> bool \<Rightarrow> RecoveredInstanceState" where
  "resolved_instance_state instance snapshot_states default_start_paused_if_recovery_uncertain =
     (let default_state = (if ic_enabled instance then Stopped else Paused);
          snapshot = hm_get snapshot_states (ic_id instance);
          persisted_state = Option.bind snapshot from_storage_value;
          recovered_state = (case persisted_state of
              Some parsed \<Rightarrow> recover_lane_state parsed default_start_paused_if_recovery_uncertain
            | None \<Rightarrow> if snapshot \<noteq> None \<and> default_start_paused_if_recovery_uncertain then Reconciling
                else default_state);
          state = (if ic_enabled instance then recovered_state else Paused)
      in \<lparr>ris_state = state,
          ris_resume_after_startup_reconcile = (ic_enabled instance \<and> default_start_paused_if_recovery_uncertain
            \<and> persisted_state = Some Running \<and> state = Reconciling)\<rparr>)"

definition unknown_profile_error :: "'v InstanceConfig \<Rightarrow> InstanceError" where
  "unknown_profile_error instance = InvalidConfiguration (''instance `'' @ ic_id instance
     @ ''` references unknown risk profile `'' @ irc_profile (ic_risk instance) @ ''`'')"

definition override :: "'a option \<Rightarrow> 'a \<Rightarrow> 'a" where
  "override configured base = (case configured of Some x \<Rightarrow> x | None \<Rightarrow> base)"

definition resolved_risk_limits ::
    "'v InstanceConfig \<Rightarrow> (string, RiskProfileRuntimeConfig) hmap \<Rightarrow> InstanceError + RiskLimits" where
  "resolved_risk_limits instance risk_profiles_by_id =
     (case hm_get risk_profiles_by_id (irc_profile (ic_risk instance)) of
        None \<Rightarrow> Inl (unknown_profile_error instance)
      | Some profile \<Rightarrow>
          (let base_limits = rpr_limits profile; overrides = irc_overrides (ic_risk instance) in
           Inr \<lparr>max_daily_loss_pct = override (ro_max_daily_loss_pct overrides) (max_daily_loss_pct base_limits),
             max_open_positions = override (ro_max_open_positions overrides) (max_open_positions base_limits),
             max_order_notional_usd = override (ro_max_order_notional_usd overrides) (max_order_notional_usd base_limits),
             max_spread_bps = override (ro_max_spread_bps overrides) (max_spread_bps base_limits),
             max_slippage_bps = override (ro_max_slippage_bps overrides) (max_slippage_bps base_limits),
             stale_data_ms = override (ro_stale_data_ms overrides) (stale_data_ms base_limits),
             cooldown_after_reject_ms = override (ro_cooldown_after_reject_ms overrides)
               (cooldown_after_reject_ms base_limits)\<rparr>))"

definition resolved_target_order_notional_usd ::
    "'v InstanceConfig \<Rightarrow> (string, RiskProfileRuntimeConfig) hmap \<Rightarrow> InstanceError + f64" where
  "resolved_target_order_notional_usd instance risk_profiles_by_id =
     (case hm_get risk_profiles_by_id (irc_profile (ic_risk instance)) of
        None \<Rightarrow> Inl (unknown_profile_error instance)
      | Some profile \<Rightarrow> Inr (override (ro_target_order_notional_usd (irc_overrides (ic_risk instance)))
          (rpr_target_order_notional_usd profile)))"

definition build_lane_runtime ::
    "('v \<Rightarrow> f64 option) \<Rightarrow> ('v \<Rightarrow> int option) \<Rightarrow> 'v InstanceConfig \<Rightarrow> string \<Rightarrow> LaneRuntimeState \<Rightarrow> bool \<Rightarrow> ExecutionMode
     \<Rightarrow> (string, RiskProfileRuntimeConfig) hmap \<Rightarrow> f64 \<Rightarrow> InstanceError + 'v LaneRuntime" where
  "build_lane_runtime as_float as_integer instance symbol state resume_after_startup_reconcile execution_mode
       risk_profiles_by_id recovered_realized_pnl_usd =
     (case resolved_risk_limits instance risk_profiles_by_id of Inl e \<Rightarrow> Inl e | Inr risk_limits \<Rightarrow>
      case resolved_target_order_notional_usd instance risk_profiles_by_id of Inl e \<Rightarrow> Inl e | Inr target \<Rightarrow>
      case required_warmup_bars instance of Inl e \<Rightarrow> Inl e | Inr required \<Rightarrow>
      case build_runtime_indicators as_float as_integer instance of Inl e \<Rightarrow> Inl e | Inr indicators \<Rightarrow>
      case build_runtime_strategy instance of Inl e \<Rightarrow> Inl e | Inr strategy \<Rightarrow>
        Inr \<lparr>lr_config = instance, lr_lane_symbol = symbol, lr_execution_mode = execution_mode,
          lr_state = state, lr_resume_after_startup_reconcile = resume_after_startup_reconcile,
          lr_indicators = indicators, lr_strategy = strategy,
          lr_bar_builder = BarBuilder_new symbol (ic_timeframe instance),
          lr_risk_limits = risk_limits, lr_target_order_notional_usd = target,
          lr_inventory = inventory_state_from_runtime_fields 0 None recovered_realized_pnl_usd,
          lr_has_position = False, lr_position_quantity = 0, lr_position_notional_usd = 0,
          lr_entry_price = None, lr_realized_pnl_usd = recovered_realized_pnl_usd,
          lr_daily_loss_pct_accumulated = 0, lr_last_loss_reset_date = None, lr_cooldown_until_ms = None,
          lr_reconciliation_blocked = (state = Reconciling), lr_remote_net_qty = None,
          lr_aggregate_managed_qty = 0, lr_external_delta_qty = None, lr_managed_remote_open_orders = 0,
          lr_external_remote_open_orders = 0, lr_warmup = InstanceWarmupState_new required,
          lr_recovery_state = Healthy, lr_recovery_started_at_ms = None, lr_recovery_target_timestamp = None,
          lr_recovery_last_progress_timestamp = None, lr_recovery_last_error = None,
          lr_recovery_consecutive_no_progress_cycles = 0, lr_last_recovered_at_timestamp = None,
          lr_last_dispatched_bar_timestamp = None, lr_last_stream_update = None,
          lr_connector_execution_constraints = None, lr_connector_fractional_entry_supported = None,
          lr_connector_execution_constraints_initialized = False\<rparr>)"

text \<open>The loops over instances and symbols; maps keep the last lane inserted under an id.\<close>

fun build_symbol_lanes ::
    "(string \<Rightarrow> InstanceError + string) \<Rightarrow> (string \<Rightarrow> string \<Rightarrow> InstanceError + 'v LaneRuntime) \<Rightarrow> string list
     \<Rightarrow> (string, 'v LaneRuntime) hmap \<Rightarrow> InstanceError + (string, 'v LaneRuntime) hmap \<times> string list" where
  "build_symbol_lanes lane_id_of mk [] runtimes = Inr (runtimes, [])"
| "build_symbol_lanes lane_id_of mk (symbol # rest) runtimes =
     (case lane_id_of symbol of Inl e \<Rightarrow> Inl e | Inr lane_id \<Rightarrow>
      case mk lane_id symbol of Inl e \<Rightarrow> Inl e | Inr runtime \<Rightarrow>
      case build_symbol_lanes lane_id_of mk rest (hm_insert lane_id runtime runtimes) of
        Inl e \<Rightarrow> Inl e | Inr (runtimes, lane_ids) \<Rightarrow> Inr (runtimes, lane_id # lane_ids))"

definition build_instance_lanes ::
    "('v \<Rightarrow> f64 option) \<Rightarrow> ('v \<Rightarrow> int option) \<Rightarrow> (string, ExecutionMode) hmap \<Rightarrow> (string, RiskProfileRuntimeConfig) hmap
     \<Rightarrow> (string, string) hmap \<Rightarrow> (string, f64) hmap \<Rightarrow> bool \<Rightarrow> 'v InstanceConfig
     \<Rightarrow> (string, 'v LaneRuntime) hmap \<Rightarrow> InstanceError + (string, 'v LaneRuntime) hmap \<times> string list" where
  "build_instance_lanes as_float as_integer account_modes risk_profiles_by_id snapshot_states
       recovered_realized_pnl_by_lane default_start_paused_if_recovery_uncertain instance runtimes =
     (let recovered = resolved_instance_state instance snapshot_states default_start_paused_if_recovery_uncertain;
          execution_mode = override (hm_get account_modes (ic_account instance)) Paper
      in build_symbol_lanes (lane_instance_id instance)
           (\<lambda>lane_id symbol. build_lane_runtime as_float as_integer instance symbol (ris_state recovered)
              (ris_resume_after_startup_reconcile recovered) execution_mode risk_profiles_by_id
              (override (hm_get recovered_realized_pnl_by_lane lane_id) 0))
           (ic_symbols instance) runtimes)"

fun build_all_lanes ::
    "('v InstanceConfig \<Rightarrow> (string, 'v LaneRuntime) hmap \<Rightarrow> InstanceError + (string, 'v LaneRuntime) hmap \<times> string list)
     \<Rightarrow> 'v InstanceConfig list \<Rightarrow> (string, 'v LaneRuntime) hmap \<times> (string, string list) hmap
     \<Rightarrow> InstanceError + (string, 'v LaneRuntime) hmap \<times> (string, string list) hmap" where
  "build_all_lanes lanes_of [] acc = Inr acc"
| "build_all_lanes lanes_of (instance # rest) (runtimes, lanes_by_bot) =
     (case lanes_of instance runtimes of Inl e \<Rightarrow> Inl e
      | Inr (runtimes, lane_ids) \<Rightarrow>
          build_all_lanes lanes_of rest (runtimes, hm_insert (ic_id instance) lane_ids lanes_by_bot))"

definition build_runtime_lanes ::
    "('v \<Rightarrow> f64 option) \<Rightarrow> ('v \<Rightarrow> int option) \<Rightarrow> 'v InstanceConfig list \<Rightarrow> (string, ExecutionMode) hmap
     \<Rightarrow> (string, RiskProfileRuntimeConfig) hmap \<Rightarrow> (string, string) hmap \<Rightarrow> (string, f64) hmap \<Rightarrow> bool
     \<Rightarrow> InstanceError + (string, 'v LaneRuntime) hmap \<times> (string, string list) hmap" where
  "build_runtime_lanes as_float as_integer instances account_modes risk_profiles_by_id snapshot_states
       recovered_realized_pnl_by_lane default_start_paused_if_recovery_uncertain =
     build_all_lanes (build_instance_lanes as_float as_integer account_modes risk_profiles_by_id snapshot_states
       recovered_realized_pnl_by_lane default_start_paused_if_recovery_uncertain) instances ([], [])"

subsection \<open>Lemmas on quantities\<close>

lemma lane_tolerance_eq: "LANE_QUANTITY_TOLERANCE = LEDGER_VALUE_TOLERANCE"
  by (simp add: LANE_QUANTITY_TOLERANCE_def LEDGER_VALUE_TOLERANCE_def)

lemma lane_tolerance [simp]:
  "is_finite LANE_QUANTITY_TOLERANCE" "0 < LANE_QUANTITY_TOLERANCE" "\<not> is_nan LANE_QUANTITY_TOLERANCE"
  "\<not> LANE_QUANTITY_TOLERANCE < 0"
  using f64_less_not_le [of 0 LANE_QUANTITY_TOLERANCE] f64_less_le
  by (auto simp: lane_tolerance_eq)

lemma epsilon_below_tolerance: "f64_epsilon < LANE_QUANTITY_TOLERANCE"
  by code_simp

lemma above_tolerance_epsilon: "LANE_QUANTITY_TOLERANCE < q \<Longrightarrow> f64_epsilon < q"
  using epsilon_below_tolerance f64_less_le f64_le_less_trans by blast

lemma sum_above_tolerance: "LANE_QUANTITY_TOLERANCE < q \<Longrightarrow> 0 \<le> x \<Longrightarrow> LANE_QUANTITY_TOLERANCE < q + x"
  using nonneg_add_ge [of q x] above_tolerance_nonneg [of q] f64_less_le_trans
  by (simp add: lane_tolerance_eq)

lemma effective_above_iff:
  "LANE_QUANTITY_TOLERANCE < effective_position_quantity l \<longleftrightarrow>
     LANE_QUANTITY_TOLERANCE < inv_quantity (lr_inventory l) \<or> LANE_QUANTITY_TOLERANCE < lr_position_quantity l"
  by (simp add: effective_position_quantity_def)

lemma from_position_state_lot:
  "inv_lot (from_position_state q e r) = Some lot \<longleftrightarrow>
     LEDGER_VALUE_TOLERANCE < sanitize_value q \<and> e = Some (lot_average_cost_usd lot) \<and> lot_quantity lot = q
     \<and> is_finite (lot_average_cost_usd lot) \<and> 0 < lot_average_cost_usd lot"
  using sanitize_above [of q]
  by (cases lot) (auto simp: from_position_state_def Let_def split: option.splits if_splits)

lemma from_position_state_quantity:
  "inv_quantity (from_position_state q e r) =
     (if LEDGER_VALUE_TOLERANCE < sanitize_value q \<and> (\<exists>c. e = Some c \<and> is_finite c \<and> 0 < c) then q else 0)"
  using sanitize_above [of q]
  by (auto simp: from_position_state_def inv_quantity_def Let_def split: option.splits)

subsection \<open>Consistency of a lane\<close>

text \<open>
  The lane has a position exactly when one of its quantity sources is above the tolerance,
  and a lot agrees with the cached quantity and entry price.
\<close>

definition lane_consistent :: "'v LaneRuntime \<Rightarrow> bool" where
  "lane_consistent l \<longleftrightarrow>
     (lr_has_position l \<longleftrightarrow> LANE_QUANTITY_TOLERANCE < effective_position_quantity l)
     \<and> (\<forall>lot. inv_lot (lr_inventory l) = Some lot \<longrightarrow>
          lot_quantity lot = lr_position_quantity l \<and> lr_entry_price l = Some (lot_average_cost_usd lot))"

lemma synced_consistent: "lane_consistent (sync_runtime_fields_from_inventory v l)"
  by (auto simp: lane_consistent_def sync_runtime_fields_from_inventory_def Let_def effective_position_quantity_def
      inv_quantity_def inv_average_cost_usd_def split: option.splits)

lemma synced_effective:
  "effective_position_quantity (sync_runtime_fields_from_inventory v l) =
     (if LANE_QUANTITY_TOLERANCE < inv_quantity (lr_inventory l) then inv_quantity (lr_inventory l) else 0)"
  by (simp add: sync_runtime_fields_from_inventory_def Let_def effective_position_quantity_def)

lemma sync_inventory_effective:
  "LANE_QUANTITY_TOLERANCE < effective_position_quantity (sync_inventory_from_runtime_fields l)
     \<longleftrightarrow> LANE_QUANTITY_TOLERANCE < lr_position_quantity l"
  by (auto simp: effective_above_iff sync_inventory_from_runtime_fields_def inventory_state_from_runtime_fields_def
      from_position_state_quantity)

lemma sync_inventory_consistent:
  "lane_consistent (sync_inventory_from_runtime_fields l) \<longleftrightarrow>
     (lr_has_position l \<longleftrightarrow> LANE_QUANTITY_TOLERANCE < lr_position_quantity l)"
proof -
  have "inv_lot (lr_inventory (sync_inventory_from_runtime_fields l)) = Some lot \<Longrightarrow>
      lot_quantity lot = lr_position_quantity l \<and> lr_entry_price l = Some (lot_average_cost_usd lot)" for lot
    by (simp add: sync_inventory_from_runtime_fields_def inventory_state_from_runtime_fields_def from_position_state_lot)
  moreover have "lr_has_position (sync_inventory_from_runtime_fields l) = lr_has_position l"
    "lr_position_quantity (sync_inventory_from_runtime_fields l) = lr_position_quantity l"
    "lr_entry_price (sync_inventory_from_runtime_fields l) = lr_entry_price l"
    by (simp_all add: sync_inventory_from_runtime_fields_def)
  ultimately show ?thesis
    unfolding lane_consistent_def sync_inventory_effective by auto
qed

lemma consistent_cooldown [simp]: "lane_consistent (l\<lparr>lr_cooldown_until_ms := c\<rparr>) = lane_consistent l"
  by (simp add: lane_consistent_def effective_position_quantity_def)

lemma consistent_same_position: "lane_consistent l \<Longrightarrow> lane_consistent (l\<lparr>lr_has_position := lr_has_position l\<rparr>)"
  by (simp add: lane_consistent_def effective_position_quantity_def)

lemma open_fill_consistent:
  assumes "apply_open_long_fill bar order l = (Inr u, l')" "lane_consistent l"
  shows "lane_consistent l'"
proof -
  let ?q = "f64_max (ao_quantity order) 0" and ?p = "effective_position_quantity l"
  let ?s = "sync_inventory_from_runtime_fields l"
  consider "?q \<le> f64_epsilon"
    | "\<not> ?q \<le> f64_epsilon" "inv_average_cost_usd (lr_inventory ?s) \<noteq> None \<or> ?p \<le> LANE_QUANTITY_TOLERANCE"
    | "\<not> ?q \<le> f64_epsilon" "inv_average_cost_usd (lr_inventory ?s) = None" "\<not> ?p \<le> LANE_QUANTITY_TOLERANCE"
    by blast
  then show ?thesis
  proof cases
    case 1
    with assms show ?thesis by (simp add: apply_open_long_fill_def Let_def)
  next
    case 2
    with assms(1) show ?thesis
      by (auto simp: apply_open_long_fill_def Let_def synced_consistent split: sum.splits)
  next
    case 3
    have "\<not> is_nan ?p" using lane_tolerance(3) f64_less_not_nan
      by (auto simp: effective_position_quantity_def)
    then have "LANE_QUANTITY_TOLERANCE < ?p" using 3(3) f64_not_le [of ?p LANE_QUANTITY_TOLERANCE] by simp
    then have "LANE_QUANTITY_TOLERANCE < ?p + ?q" by (rule sum_above_tolerance) simp
    with 3 assms(1) show ?thesis
      by (auto simp: apply_open_long_fill_def Let_def sync_inventory_consistent above_tolerance_epsilon)
  qed
qed

text \<open>
  A close fill is consistent whenever the lane has a cost basis, or the order fills nothing, or
  what remains is not between machine epsilon and the tolerance.
\<close>

definition close_residual :: "AcceptedOrder \<Rightarrow> 'v LaneRuntime \<Rightarrow> f64" where
  "close_residual order l =
     f64_max (effective_position_quantity l - f64_min (f64_max (ao_quantity order) 0) (effective_position_quantity l)) 0"

definition has_cost_basis :: "'v LaneRuntime \<Rightarrow> bool" where
  "has_cost_basis l \<longleftrightarrow> inv_average_cost_usd (lr_inventory (sync_inventory_from_runtime_fields l)) \<noteq> None"

definition untracked_dust :: "AcceptedOrder \<Rightarrow> 'v LaneRuntime \<Rightarrow> bool" where
  "untracked_dust order l \<longleftrightarrow> \<not> has_cost_basis l
     \<and> f64_epsilon < close_residual order l \<and> \<not> LANE_QUANTITY_TOLERANCE < close_residual order l"

lemma consistent_loss [simp]: "lane_consistent (l\<lparr>lr_daily_loss_pct_accumulated := d\<rparr>) = lane_consistent l"
  by (simp add: lane_consistent_def effective_position_quantity_def)

lemma sync_inventory_keeps:
  assumes "lane_consistent l"
  shows "lr_has_position (sync_inventory_from_runtime_fields l) = lr_has_position l"
    "lr_position_quantity (sync_inventory_from_runtime_fields l) = lr_position_quantity l"
  by (simp_all add: sync_inventory_from_runtime_fields_def)

lemma consistent_has_cached:
  assumes "lane_consistent l"
  shows "lr_has_position l \<longleftrightarrow> LANE_QUANTITY_TOLERANCE < lr_position_quantity l"
proof (cases "inv_lot (lr_inventory l)")
  case None
  with assms show ?thesis by (simp add: lane_consistent_def effective_above_iff inv_quantity_def)
next
  case (Some lot)
  with assms have "inv_quantity (lr_inventory l) = lr_position_quantity l"
    by (simp add: lane_consistent_def inv_quantity_def)
  with assms show ?thesis by (simp add: lane_consistent_def effective_above_iff)
qed

lemma close_fill_consistent:
  assumes "apply_close_long_fill bar order l = (Inr r, l')" "lane_consistent l" "\<not> untracked_dust order l"
  shows "lane_consistent l'"
proof -
  let ?p = "effective_position_quantity l"
  let ?q = "f64_min (f64_max (ao_quantity order) 0) ?p"
  let ?s = "sync_inventory_from_runtime_fields l"
  have s: "lane_consistent ?s" using assms(2) by (simp add: sync_inventory_consistent consistent_has_cached)
  consider "\<not> f64_epsilon < ?q" | "f64_epsilon < ?q" "has_cost_basis l" | "f64_epsilon < ?q" "\<not> has_cost_basis l"
    by blast
  then show ?thesis
  proof cases
    case 1
    with assms(1) s show ?thesis by (auto simp: apply_close_long_fill_def Let_def)
  next
    case 2
    with assms(1) show ?thesis
      by (auto simp: apply_close_long_fill_def Let_def has_cost_basis_def synced_consistent split: sum.splits)
  next
    case 3
    with assms(3) have "f64_epsilon < close_residual order l \<longleftrightarrow> LANE_QUANTITY_TOLERANCE < close_residual order l"
      using above_tolerance_epsilon by (auto simp: untracked_dust_def)
    with 3 assms(1) show ?thesis
      by (auto simp: apply_close_long_fill_def Let_def has_cost_basis_def close_residual_def sync_inventory_consistent)
  qed
qed

subsection \<open>Lemmas on decisions\<close>

lemma storage_value_roundtrip: "from_storage_value v = Some st \<longleftrightarrow> v = as_storage_value st"
  by (cases st) (auto simp: from_storage_value_def)

text \<open>An evaluation kernel allows an order that adds exposure exactly under the risk policy's conditions and
  with no ledger outcome.\<close>

definition kernel_order_valid :: "SignalEvaluationKernelInput \<Rightarrow> bool" where
  "kernel_order_valid k \<longleftrightarrow> is_finite (ki_bar_close k) \<and> 0 < ki_bar_close k
     \<and> is_finite (oq_quantity (ki_order_quantity_resolution k)) \<and> 0 < oq_quantity (ki_order_quantity_resolution k)"

lemma kernel_open:
  assumes "is_open_intent i"
  shows "kernel_risk_decision k = Allow i \<longleftrightarrow> i = ki_intent k
     \<and> oq_ledger_outcome (ki_order_quantity_resolution k) = None
     \<and> \<not> ki_kill_switch_active k \<and> kernel_order_valid k \<and> \<not> ki_cooldown_active k \<and> \<not> ki_stale_data k
     \<and> \<not> max_daily_loss_pct (ki_risk_limits k) \<le> ki_account_daily_loss_pct k
     \<and> \<not> max_order_notional_usd (ki_risk_limits k) < ki_bar_close k * oq_quantity (ki_order_quantity_resolution k)
     \<and> ki_account_open_positions k < max_open_positions (ki_risk_limits k)"
proof (cases "is_open_intent (ki_intent k)")
  case True
  then show ?thesis
    using assms
    by (auto simp: kernel_risk_decision_def Let_def evaluate_open positive_order_def kernel_order_valid_def
        is_open_intent_def split: option.splits OrderLedgerOutcome.splits)
next
  case False
  with assms have "i \<noteq> ki_intent k" by auto
  moreover from False assms have "kernel_risk_decision k \<noteq> Allow i"
    by (auto simp: kernel_risk_decision_def Let_def evaluate_def split: option.splits OrderLedgerOutcome.splits if_splits)
  ultimately show ?thesis by simp
qed

lemma kernel_exit:
  assumes "is_exit_intent (ki_intent k)"
  shows "kernel_risk_decision k = Allow (ki_intent k) \<longleftrightarrow>
     oq_ledger_outcome (ki_order_quantity_resolution k) \<in> {None, Some Dust}
     \<and> \<not> ki_kill_switch_active k \<and> kernel_order_valid k"
proof -
  have "\<not> is_open_intent (ki_intent k)" "ki_intent k \<noteq> NoOp"
    using assms by (auto simp: is_open_intent_def is_exit_intent_def)
  then show ?thesis
    by (auto simp: kernel_risk_decision_def Let_def evaluate_exit positive_order_def kernel_order_valid_def
        split: option.splits OrderLedgerOutcome.splits)
qed

lemma evaluate_allows: "evaluate p c = Allow j \<Longrightarrow> j = rc_intent c"
  by (simp add: evaluate_def Let_def split: if_splits)

lemma kernel_allows: "kernel_risk_decision k = Allow j \<Longrightarrow> j = ki_intent k \<or> j = NoOp"
  by (auto simp: kernel_risk_decision_def Let_def dest: evaluate_allows split: option.splits OrderLedgerOutcome.splits if_splits)

text \<open>Suppressed signals give a score that is zero or not a number, which no threshold reaches.\<close>

definition silent :: "f64 \<Rightarrow> bool" where
  "silent x \<longleftrightarrow> x = 0 \<or> is_nan x"

lemma nonfinite_mult_0: "f64_nan * 0 = f64_nan" "f64_inf s * 0 = f64_nan"
  by (transfer, simp)+

lemma silent_mult_0: "silent (w * 0)"
  by (cases w rule: f64_cases) (simp_all add: silent_def nonfinite_mult_0 times_f64_fin)

lemma nan_add_left: "f64_nan + y = f64_nan"
  by transfer simp

lemma nan_add: "f64_nan + y = f64_nan" "y + f64_nan = f64_nan"
  by (rule nan_add_left) (simp only: f64_add_commute [of y f64_nan] nan_add_left)

lemma silent_add: "silent x \<Longrightarrow> silent y \<Longrightarrow> silent (x + y)"
  using f64_add_0 [of 0] by (auto simp: silent_def is_nan_iff nan_add)

lemma silent_direction: "silent x \<Longrightarrow> score_direction ConsensusLongOnlyStrategy_default x = 0"
  unfolding silent_def is_nan_iff
proof (elim disjE)
  assume "x = f64_nan"
  then show ?thesis by (simp add: score_direction_def)
qed (simp add: unit_score_direction)

lemma silent_score:
  assumes "\<And>x. x \<in> set (cc_indicators c) \<Longrightarrow> effective_signal x = NoSignal"
  shows "silent (consensus_score c)"
proof -
  have "silent (foldl (+) z (map weighted_vote xs))"
    if "silent z" "\<And>x. x \<in> set xs \<Longrightarrow> effective_signal x = NoSignal" for z xs
    using that
  proof (induction xs arbitrary: z)
    case (Cons x xs)
    then have "silent (weighted_vote x)" by (simp add: weighted_vote_def silent_mult_0)
    with Cons show ?case by (simp add: silent_add)
  qed simp
  from this [of 0 "counted (primaries c)"] assms show ?thesis
    by (auto simp: consensus_score_def silent_def counted_def primaries_def)
qed

lemma suppressed_no_intent:
  assumes "strategy \<in> {Single, Consensus ConsensusLongOnlyStrategy_default}"
    and "sc_signal context = NoSignal \<or> sc_signal_policy context = ConfirmedRequired \<and> is_preview_signal (sc_signal context)"
    and "\<And>x. x \<in> set observations \<Longrightarrow> effective_signal x = NoSignal"
  shows "sd_intent (strategy_decision strategy context observations) = NoOp"
proof -
  have "sd_intent (single_decide context) = NoOp"
    using assms(2) by (auto simp: single_decide_def Let_def split: option.split)
  moreover have "sd_intent (decide_consensus ConsensusLongOnlyStrategy_default
      \<lparr>cc_indicators = observations, cc_has_position = b\<rparr>) = NoOp" for b
  proof -
    have "score_direction ConsensusLongOnlyStrategy_default
        (consensus_score \<lparr>cc_indicators = observations, cc_has_position = b\<rparr>) = 0"
      by (rule silent_direction, rule silent_score) (simp add: assms(3))
    then show ?thesis by (simp add: consensus_intent)
  qed
  ultimately show ?thesis using assms(1) by (auto simp: strategy_decision_def)
qed

lemma representative_in: "representative_indicator xs = Some r \<Longrightarrow> r \<in> set xs"
  by (auto simp: representative_indicator_def find_Some_iff split: option.splits list.splits)

lemma evaluated_preview_policy:
  assumes "\<And>i. i \<in> set inds \<Longrightarrow> ci_signal_policy i = ConfirmedRequired"
    and "e \<in> set (fst (evaluate_indicator_signals inds bar Preview))"
  shows "ev_signal_policy e = ConfirmedRequired" "ev_signal e \<in> {NoSignal, BuyPreview, SellPreview}"
proof -
  obtain x where x: "x \<in> set inds" "e = fst (evaluate_one bar Preview x)"
    using assms(2) by (auto simp: evaluate_indicator_signals_def Let_def)
  with assms(1) show "ev_signal_policy e = ConfirmedRequired" by (simp add: evaluate_one_fields)
  from preview_signals [of "ci_engine x" bar] show "ev_signal e \<in> {NoSignal, BuyPreview, SellPreview}"
    unfolding x(2) evaluate_one_fields .
qed

lemma indicators_after_policy:
  "map ci_signal_policy (indicators_after inds steps) = map ci_signal_policy inds"
proof (induction steps arbitrary: inds)
  case (Cons s steps)
  have "map ci_signal_policy (snd (evaluate_indicator_signals inds b p)) = map ci_signal_policy inds" for b p
    by (simp add: evaluate_indicator_signals_def Let_def evaluate_one_def case_prod_beta)
  with Cons show ?case by (simp add: indicators_after_def case_prod_beta)
qed (simp add: indicators_after_def)

lemma built_strategy: "build_runtime_strategy i = Inr s \<Longrightarrow> s \<in> {Single, Consensus ConsensusLongOnlyStrategy_default}"
  by (auto simp: build_runtime_strategy_def split: if_splits)

lemma built_lane:
  assumes "build_lane_runtime af ai i symbol st resume mode profiles pnl = Inr l"
  shows "build_runtime_indicators af ai i = Inr (lr_indicators l)" "build_runtime_strategy i = Inr (lr_strategy l)"
    "lr_config l = i" "lr_lane_symbol l = symbol" "lr_state l = st" "\<not> lr_has_position l"
    "lr_position_quantity l = 0" "lr_position_notional_usd l = 0" "lr_recovery_state l = Healthy" "lr_reconciliation_blocked l = (st = Reconciling)"
    "\<exists>n. required_warmup_bars i = Inr n \<and> lr_warmup l = InstanceWarmupState_new n"
    "resolved_risk_limits i profiles = Inr (lr_risk_limits l)"
    "lr_inventory l = from_position_state 0 None pnl" "lr_entry_price l = None" "lr_realized_pnl_usd l = pnl"
  using assms by (auto simp: build_lane_runtime_def inventory_state_from_runtime_fields_def split: sum.splits)

lemma built_lane_consistent:
  assumes "build_lane_runtime af ai i symbol st resume mode profiles pnl = Inr l"
  shows "lane_consistent l"
  unfolding lane_consistent_def effective_above_iff using built_lane [OF assms]
  by (simp add: from_position_state_quantity from_position_state_lot)

lemma build_symbol_lanes_Inr:
  assumes "build_symbol_lanes idf mk symbols m = Inr (m', ids)"
  shows "(hm_wf m \<longrightarrow> hm_wf m') \<and> list_all2 (\<lambda>symbol lane_id. idf symbol = Inr lane_id) symbols ids
    \<and> set (hm_keys m') = set (hm_keys m) \<union> set ids
    \<and> (\<forall>(k, l) \<in> set m'. (k, l) \<in> set m \<or> (\<exists>symbol \<in> set symbols. idf symbol = Inr k \<and> mk k symbol = Inr l))"
  using assms
proof (induction idf mk symbols m arbitrary: m' ids rule: build_symbol_lanes.induct)
  case (2 idf mk symbol rest m)
  from "2.prems" obtain lane_id l ids' where st: "idf symbol = Inr lane_id" "mk lane_id symbol = Inr l"
    "build_symbol_lanes idf mk rest (hm_insert lane_id l m) = Inr (m', ids')" "ids = lane_id # ids'"
    by (auto split: sum.splits)
  have k: "set (hm_keys (hm_insert lane_id l m)) = insert lane_id (set (hm_keys m))"
    by (simp add: hm_keys_def hm_insert_def dom_update)
  note ih = "2.IH" [OF st(1,2,3)]
  have "(k', l') \<in> set m \<or> (\<exists>symbol' \<in> set (symbol # rest). idf symbol' = Inr k' \<and> mk k' symbol' = Inr l')"
    if "(k', l') \<in> set m'" for k' l'
  proof -
    from ih that have "(k', l') \<in> set (hm_insert lane_id l m) \<or> (\<exists>symbol' \<in> set rest. idf symbol' = Inr k' \<and> mk k' symbol' = Inr l')"
      by blast
    with set_hm_insert [of lane_id l m] st(1,2) show ?thesis by auto
  qed
  moreover have "hm_wf m \<Longrightarrow> hm_wf m'" using ih hm_wf_insert [of m lane_id l] by blast
  ultimately show ?case using ih k st(1,4) by auto
qed simp

definition fresh_lane :: "(string, string) hmap \<Rightarrow> bool \<Rightarrow> 'v InstanceConfig list \<Rightarrow> string \<Rightarrow> 'v LaneRuntime \<Rightarrow> bool" where
  "fresh_lane snapshots flag instances k l \<longleftrightarrow>
     lane_consistent l \<and> \<not> lr_has_position l \<and> lr_recovery_state l = Healthy
     \<and> lr_config l \<in> set instances \<and> lr_lane_symbol l \<in> set (ic_symbols (lr_config l))
     \<and> lane_instance_id (lr_config l) (lr_lane_symbol l) = Inr k
     \<and> lr_state l = ris_state (resolved_instance_state (lr_config l) snapshots flag)
     \<and> lr_reconciliation_blocked l = (lr_state l = Reconciling)"

lemma build_instance_lanes_fresh:
  assumes "build_instance_lanes af ai modes profiles snapshots pnls flag i m = Inr (m', ids)" "i \<in> set instances"
    and "hm_wf m" "\<forall>(k, l) \<in> set m. fresh_lane snapshots flag instances k l"
  shows "hm_wf m' \<and> (\<forall>(k, l) \<in> set m'. fresh_lane snapshots flag instances k l)
    \<and> set (hm_keys m') = set (hm_keys m) \<union> set ids
    \<and> list_all2 (\<lambda>symbol lane_id. lane_instance_id i symbol = Inr lane_id) (ic_symbols i) ids"
proof -
  note b = build_symbol_lanes_Inr [OF assms(1) [unfolded build_instance_lanes_def Let_def]]
  have "fresh_lane snapshots flag instances k l" if kl: "(k, l) \<in> set m'" for k l
  proof -
    from b kl have "(k, l) \<in> set m \<or> (\<exists>symbol \<in> set (ic_symbols i). lane_instance_id i symbol = Inr k \<and>
        build_lane_runtime af ai i symbol (ris_state (resolved_instance_state i snapshots flag))
          (ris_resume_after_startup_reconcile (resolved_instance_state i snapshots flag))
          (override (hm_get modes (ic_account i)) Paper) profiles (override (hm_get pnls k) 0) = Inr l)"
      by blast
    then show ?thesis
    proof (elim disjE bexE conjE)
      assume "(k, l) \<in> set m" with assms(4) show ?thesis by blast
    next
      fix symbol
      assume sy: "symbol \<in> set (ic_symbols i)" "lane_instance_id i symbol = Inr k"
        and l: "build_lane_runtime af ai i symbol (ris_state (resolved_instance_state i snapshots flag))
          (ris_resume_after_startup_reconcile (resolved_instance_state i snapshots flag))
          (override (hm_get modes (ic_account i)) Paper) profiles (override (hm_get pnls k) 0) = Inr l"
      show ?thesis
        using built_lane [OF l] built_lane_consistent [OF l] sy assms(2) by (simp add: fresh_lane_def)
    qed
  qed
  with b assms(3) show ?thesis by blast
qed

definition bot_lane_ids :: "(string, string list) hmap \<Rightarrow> string set" where
  "bot_lane_ids by_bot = \<Union> (set ` set (hm_values by_bot))"

lemma bot_lane_ids_insert: "k \<notin> set (hm_keys m) \<Longrightarrow> bot_lane_ids (hm_insert k v m) = set v \<union> bot_lane_ids m"
proof -
  assume "k \<notin> set (hm_keys m)"
  then have "hm_insert k v m = m @ [(k, v)]"
    by (induction m) (auto simp: hm_insert_def hm_keys_def)
  then show ?thesis by (auto simp: bot_lane_ids_def hm_values_def)
qed

lemma build_all_lanes_fresh:
  assumes "build_all_lanes (build_instance_lanes af ai modes profiles snapshots pnls flag) is (m, bb) = Inr (m', bb')"
    and "set is \<subseteq> set instances" "hm_wf m" "\<forall>(k, l) \<in> set m. fresh_lane snapshots flag instances k l"
    and "distinct (map ic_id is)" "set (map ic_id is) \<inter> set (hm_keys bb) = {}" "set (hm_keys m) = bot_lane_ids bb"
    and "\<forall>(b, ids) \<in> set bb. P b ids"
    and "\<And>i ids. i \<in> set is \<Longrightarrow> list_all2 (\<lambda>symbol lane_id. lane_instance_id i symbol = Inr lane_id) (ic_symbols i) ids \<Longrightarrow> P (ic_id i) ids"
  shows "hm_wf m' \<and> (\<forall>(k, l) \<in> set m'. fresh_lane snapshots flag instances k l)
    \<and> set (hm_keys bb') = set (hm_keys bb) \<union> set (map ic_id is) \<and> set (hm_keys m') = bot_lane_ids bb'
    \<and> (\<forall>(b, ids) \<in> set bb'. P b ids)"
  using assms
proof (induction "is" arbitrary: m bb)
  case (Cons i rest)
  from Cons.prems(1) obtain m1 ids where
    o: "build_instance_lanes af ai modes profiles snapshots pnls flag i m = Inr (m1, ids)"
    and r: "build_all_lanes (build_instance_lanes af ai modes profiles snapshots pnls flag) rest
      (m1, hm_insert (ic_id i) ids bb) = Inr (m', bb')"
    by (auto split: sum.splits)
  have f: "hm_wf m1 \<and> (\<forall>(k, l) \<in> set m1. fresh_lane snapshots flag instances k l)
    \<and> set (hm_keys m1) = set (hm_keys m) \<union> set ids
    \<and> list_all2 (\<lambda>symbol lane_id. lane_instance_id i symbol = Inr lane_id) (ic_symbols i) ids"
    using Cons.prems(2-4) by (intro build_instance_lanes_fresh [OF o]) auto
  have new: "ic_id i \<notin> set (hm_keys bb)" using Cons.prems(6) by auto
  have keys: "set (hm_keys (hm_insert (ic_id i) ids bb)) = insert (ic_id i) (set (hm_keys bb))"
    by (simp add: hm_keys_def hm_insert_def dom_update)
  have "P (ic_id i) ids" using Cons.prems(9) f by auto
  then have P: "\<forall>(b, ids) \<in> set (hm_insert (ic_id i) ids bb). P b ids"
    using Cons.prems(8) set_hm_insert [of "ic_id i" ids bb] by auto
  have ih: "hm_wf m' \<and> (\<forall>(k, l) \<in> set m'. fresh_lane snapshots flag instances k l)
    \<and> set (hm_keys bb') = set (hm_keys (hm_insert (ic_id i) ids bb)) \<union> set (map ic_id rest)
    \<and> set (hm_keys m') = bot_lane_ids bb' \<and> (\<forall>(b, ids) \<in> set bb'. P b ids)"
  proof (rule Cons.IH [OF r])
    show "set (hm_keys m1) = bot_lane_ids (hm_insert (ic_id i) ids bb)"
      using f Cons.prems(7) by (simp add: bot_lane_ids_insert [OF new] Un_commute)
    show "set (map ic_id rest) \<inter> set (hm_keys (hm_insert (ic_id i) ids bb)) = {}"
      using Cons.prems(5,6) by (auto simp: keys)
    show "P (ic_id j) ids'" if "j \<in> set rest"
      "list_all2 (\<lambda>symbol lane_id. lane_instance_id j symbol = Inr lane_id) (ic_symbols j) ids'" for j ids'
      using Cons.prems(9) [of j ids'] that by simp
  qed (use Cons.prems(2,5) f P in simp_all)
  have all: "insert (ic_id i) (set (hm_keys bb)) \<union> set (map ic_id rest) = set (hm_keys bb) \<union> set (map ic_id (i # rest))"
    by auto
  from ih show ?case unfolding keys all .
qed simp

subsection \<open>Properties\<close>

text \<open>C34: A fill keeps the lane consistent: when the outcome of a cycle is applied successfully to a lane whose
  position flag agrees with its quantities, with the next flag that the decision asks for, the flag
  agrees afterwards, and the position record written to the journal, if any, is the state of the lane. The
  accepted order must not close a lane without cost basis down to a remainder between machine epsilon and
  the quantity tolerance, where the code does break the agreement.\<close>
theorem fill_keeps_lane_consistent:
  assumes "apply_process_bar_fill_state bar next_has accepted outcome decision l = (Inr m, l')" "lane_consistent l"
    and "next_has = (case decision of Allow i \<Rightarrow> apply_position_transition (lr_has_position l) i | Reject _ \<Rightarrow> lr_has_position l)"
    and "\<And>order. accepted = Some order \<Longrightarrow> \<not> untracked_dust order l"
  shows "lane_consistent l' \<and> psm_position_record m \<in> {None, Some (position_record_state l')}"
proof (cases decision)
  case (Reject r)
  with assms(1-3) show ?thesis
    by (auto simp: apply_process_bar_fill_state_def Let_def no_mutation_def consistent_same_position split: if_splits)
next
  case (Allow i)
  have rec: "position_record_state (l\<lparr>lr_cooldown_until_ms := c\<rparr>) = position_record_state l" for l :: "'a LaneRuntime" and c
    by (simp add: position_record_state_def effective_position_quantity_def)
  consider "is_open_intent i" | "is_exit_intent i" "\<not> is_open_intent i" | "i = NoOp"
    by (cases i) (auto simp: is_open_intent_def is_exit_intent_def)
  then show ?thesis
  proof cases
    case 1
    with Allow assms show ?thesis
      by (auto simp: apply_process_bar_fill_state_def no_mutation_def rec dest: open_fill_consistent
          split: option.splits prod.splits sum.splits)
  next
    case 2
    with Allow assms show ?thesis
      by (auto simp: apply_process_bar_fill_state_def no_mutation_def rec dest: close_fill_consistent
          split: option.splits prod.splits sum.splits)
  next
    case 3
    with Allow assms(1-3) show ?thesis
      by (auto simp: apply_process_bar_fill_state_def no_mutation_def is_open_intent_def is_exit_intent_def
          consistent_same_position)
  qed
qed

text \<open>C35: The evaluation kernel trades exactly under the risk policy and the ledger: it lets an order
  that adds exposure through only without a ledger outcome and under every limit, an exit under the
  kill switch and the validity of price and quantity alone; it allows nothing but the strategy's
  intent or no operation, and the position it predicts follows the intent exactly when it is allowed.\<close>
theorem kernel_trades_exactly:
  "let e = build_process_bar_evaluation k; i = ki_intent k; q = oq_quantity (ki_order_quantity_resolution k);
       allowed = (pe_risk_decision e = Allow i); outcome = oq_ledger_outcome (ki_order_quantity_resolution k) in
   (allowed \<and> is_open_intent i \<longleftrightarrow> is_open_intent i \<and> outcome = None
      \<and> \<not> ki_kill_switch_active k \<and> kernel_order_valid k \<and> \<not> ki_cooldown_active k \<and> \<not> ki_stale_data k
      \<and> \<not> max_daily_loss_pct (ki_risk_limits k) \<le> ki_account_daily_loss_pct k
      \<and> \<not> max_order_notional_usd (ki_risk_limits k) < ki_bar_close k * q
      \<and> ki_account_open_positions k < max_open_positions (ki_risk_limits k))
   \<and> (allowed \<and> is_exit_intent i \<longleftrightarrow> is_exit_intent i \<and> outcome \<in> {None, Some Dust}
      \<and> \<not> ki_kill_switch_active k \<and> kernel_order_valid k)
   \<and> (case pe_risk_decision e of Allow j \<Rightarrow> j = i \<or> j = NoOp | Reject r \<Rightarrow> True)
   \<and> pe_next_has_position e = (if allowed then apply_position_transition (ki_has_position_before k) i
        else ki_has_position_before k)"
proof -
  have d: "pe_risk_decision (build_process_bar_evaluation k) = kernel_risk_decision k"
    by (simp add: build_process_bar_evaluation_def Let_def)
  have allowed: "case kernel_risk_decision k of Allow j \<Rightarrow> j = ki_intent k \<or> j = NoOp | Reject r \<Rightarrow> True"
    using kernel_allows [of k] by (auto split: RiskDecision.splits)
  then have "pe_next_has_position (build_process_bar_evaluation k) =
      (if kernel_risk_decision k = Allow (ki_intent k)
       then apply_position_transition (ki_has_position_before k) (ki_intent k) else ki_has_position_before k)"
    by (auto simp: build_process_bar_evaluation_def Let_def split: RiskDecision.splits)
  with allowed show ?thesis
    using kernel_open [of "ki_intent k" k] kernel_exit [of k] unfolding Let_def d by blast
qed

text \<open>A confirmed-only bot never trades on a preview: after any history of bars, a preview bar makes
  neither strategy intend anything but no operation, and it leaves the indicators as they were.\<close>
theorem confirmed_only_ignores_previews:
  assumes "build_lane_runtime af ai i symbol st resume mode profiles pnl = Inr l0" "ic_signal_mode i = ConfirmedOnly"
    and "lr_indicators l = indicators_after (lr_indicators l0) steps" "lr_strategy l = lr_strategy l0"
  shows "ple_intent (fst (prepare_process_bar_evaluation l bar Preview)) = NoOp
    \<and> lr_indicators (snd (prepare_process_bar_evaluation l bar Preview)) = lr_indicators l"
proof -
  have "ci_signal_policy r = ConfirmedRequired" if r: "r \<in> set (lr_indicators l0)" for r
  proof -
    obtain c where "build_one_indicator af ai i c = Inr r"
      using collect_indicators_set [OF build_runtime_indicatorsD(1) [OF built_lane(1) [OF assms(1)]] r] .
    with assms(2) show ?thesis
      by (auto simp: build_one_indicator_def resolved_signal_policy_def split: option.splits sum.splits)
  qed
  then have "set (map ci_signal_policy (lr_indicators l)) \<subseteq> {ConfirmedRequired}"
    unfolding assms(3) indicators_after_policy by auto
  then have pol: "ci_signal_policy r = ConfirmedRequired" if "r \<in> set (lr_indicators l)" for r using that by auto
  define evs where "evs = fst (evaluate_indicator_signals (lr_indicators l) bar Preview)"
  have evs: "ev_signal_policy e = ConfirmedRequired" "ev_signal e \<in> {NoSignal, BuyPreview, SellPreview}" if "e \<in> set evs" for e
    using evaluated_preview_policy [OF pol] that by (auto simp: evs_def)
  define ctx where "ctx = representative_context (ic_signal_mode (lr_config l)) (lr_has_position l) (representative_indicator evs)"
  have "sc_signal ctx = NoSignal \<or> sc_signal_policy ctx = ConfirmedRequired \<and> is_preview_signal (sc_signal ctx)"
  proof (cases "representative_indicator evs")
    case (Some r)
    from evs [OF representative_in [OF this]] Some show ?thesis by (auto simp: ctx_def representative_context_def)
  qed (simp add: ctx_def representative_context_def)
  moreover have "effective_signal x = NoSignal" if "x \<in> set (map as_consensus_observation evs)" for x
  proof -
    from that obtain e where "e \<in> set evs" "x = as_consensus_observation e" by auto
    with evs [of e] show ?thesis by (auto simp: effective_signal_def as_consensus_observation_def)
  qed
  ultimately have "sd_intent (strategy_decision (lr_strategy l) ctx (map as_consensus_observation evs)) = NoOp"
    using built_strategy [OF built_lane(2) [OF assms(1)]] assms(4) by (intro suppressed_no_intent) simp_all
  then show ?thesis
    using evaluate_preview_unchanged [of "lr_indicators l" bar]
    by (simp add: prepare_process_bar_evaluation_def prepared_evaluation_def case_prod_beta Let_def evs_def ctx_def)
qed

text \<open>After a restart nothing trades unreconciled: with the safety setting on, a lane that ran before
  the restart, or whose stored state is unreadable, starts in reconciliation; a disabled lane is
  paused; and only lanes that were running resume by themselves after the startup reconciliation.\<close>
theorem restart_requires_reconciliation:
  "ris_state (resolved_instance_state i snapshots True) =
     (if \<not> ic_enabled i then Paused
      else case hm_get snapshots (ic_id i) of
        None \<Rightarrow> Stopped
      | Some v \<Rightarrow> if v = ''stopped'' then Stopped else if v = ''paused'' then Paused else Reconciling)
   \<and> (ris_resume_after_startup_reconcile (resolved_instance_state i snapshots True) \<longleftrightarrow>
        ic_enabled i \<and> hm_get snapshots (ic_id i) = Some ''running'')"
  by (auto simp: resolved_instance_state_def Let_def from_storage_value_def recover_lane_state_def
      split: option.splits)

text \<open>Synchronising a lane with the remote quantity makes its position flag agree with the remote
  position. When it reports a change the lane is consistent and its effective quantity is exactly
  the remote one (zero within the tolerance); otherwise the lane is untouched and its quantity was
  already within the tolerance.\<close>
theorem remote_sync_exact:
  "let (changed, l') = sync_remote_position_quantity q l in
   (lr_has_position l' \<longleftrightarrow> LANE_QUANTITY_TOLERANCE < q)
   \<and> (if changed then lane_consistent l'
        \<and> effective_position_quantity l' = (if LANE_QUANTITY_TOLERANCE < q then q else 0)
      else l' = l \<and> \<not> LANE_QUANTITY_TOLERANCE < \<bar>effective_position_quantity l - q\<bar>)"
proof -
  have e: "effective_position_quantity (sync_inventory_from_runtime_fields k) =
      (if LANE_QUANTITY_TOLERANCE < lr_position_quantity k then lr_position_quantity k else 0)" for k :: "'a LaneRuntime"
    by (auto simp: effective_position_quantity_def sync_inventory_from_runtime_fields_def
        inventory_state_from_runtime_fields_def from_position_state_quantity lane_tolerance(4) [unfolded lane_tolerance_eq] lane_tolerance_eq)
  have h: "lr_has_position (sync_inventory_from_runtime_fields k) = lr_has_position k" for k :: "'a LaneRuntime"
    by (simp add: sync_inventory_from_runtime_fields_def)
  show ?thesis
    by (auto simp: sync_remote_position_quantity_def Let_def e h sync_inventory_consistent)
qed

text \<open>A manual signal is taken at face value by both strategies: buys open a flat lane and add to a
  held one, sells close a held lane and do nothing on a flat one; the lane's indicators are not
  touched.\<close>
theorem manual_signal_intent:
  assumes "build_lane_runtime af ai i symbol st resume mode profiles pnl = Inr l0" "lr_strategy l = lr_strategy l0"
  shows "ple_intent (fst (prepare_manual_signal_evaluation l bar signal)) = single_intent signal (lr_has_position l)
    \<and> ple_signal (fst (prepare_manual_signal_evaluation l bar signal)) = signal
    \<and> lr_indicators (snd (prepare_manual_signal_evaluation l bar signal)) = lr_indicators l"
proof -
  have m: "manual_observation signal = as_observation (manual_context signal b)" for b
    by (simp add: manual_observation_def as_observation_def manual_context_def)
  have f: "metadata_filter_block_reason capabilities_default filters_default SignalMetadata_default signal = None"
    by (cases signal) (simp_all add: metadata_filter_block_reason_def filters_default_def
        SignalMetadataFilter_is_configured_def SignalMetadataFilter_default_def)
  have single: "sd_intent (single_decide (manual_context signal b)) = single_intent signal b" for b
    by (simp add: single_decide_def manual_context_def f)
  have "sd_intent (strategy_decision s (manual_context signal b) [manual_observation signal]) = single_intent signal b"
    if "s \<in> {Single, Consensus ConsensusLongOnlyStrategy_default}" for s b
    using that unit_consensus_intent [of "manual_context signal b"] single [of b] m [of b]
    by (auto simp: strategy_decision_def)
  then show ?thesis
    using built_strategy [OF built_lane(2) [OF assms(1)]] assms(2)
    by (simp add: prepare_manual_signal_evaluation_def prepared_evaluation_def Let_def)
qed

text \<open>Building the lanes of a configuration with distinct bot ids succeeds or fails as a whole; on
  success every bot has one lane per symbol under its own lane ids, no other lane exists, and every
  lane is flat, consistent, healthy, of a configured symbol, in the state its bot recovers to, and
  blocked exactly while it reconciles.\<close>
theorem built_lanes_complete:
  assumes "build_runtime_lanes af ai instances modes profiles snapshots pnls flag = Inr (runtimes, by_bot)"
    and "distinct (map ic_id instances)"
  shows "hm_wf runtimes \<and> (\<forall>(k, l) \<in> set runtimes. fresh_lane snapshots flag instances k l)
    \<and> set (hm_keys by_bot) = set (map ic_id instances) \<and> set (hm_keys runtimes) = bot_lane_ids by_bot
    \<and> (\<forall>(b, ids) \<in> set by_bot. \<exists>i \<in> set instances. ic_id i = b
         \<and> list_all2 (\<lambda>symbol lane_id. lane_instance_id i symbol = Inr lane_id) (ic_symbols i) ids)"
proof -
  let ?P = "\<lambda>b ids. \<exists>i \<in> set instances. ic_id i = b
        \<and> list_all2 (\<lambda>symbol lane_id. lane_instance_id i symbol = Inr lane_id) (ic_symbols i) ids"
  have "hm_wf runtimes \<and> (\<forall>(k, l) \<in> set runtimes. fresh_lane snapshots flag instances k l)
    \<and> set (hm_keys by_bot) = set (hm_keys ([] :: (string, string list) hmap)) \<union> set (map ic_id instances)
    \<and> set (hm_keys runtimes) = bot_lane_ids by_bot \<and> (\<forall>(b, ids) \<in> set by_bot. ?P b ids)"
  proof (rule build_all_lanes_fresh [OF assms(1) [unfolded build_runtime_lanes_def]])
    show "?P (ic_id i) ids" if "i \<in> set instances"
      "list_all2 (\<lambda>symbol lane_id. lane_instance_id i symbol = Inr lane_id) (ic_symbols i) ids" for i ids
      using that by blast
  qed (use assms(2) in \<open>simp_all add: hm_wf_def hm_keys_def bot_lane_ids_def hm_values_def\<close>)
  then show ?thesis by (simp add: hm_keys_def)
qed

subsection \<open>Witnesses\<close>

definition demo_profiles :: "(string, RiskProfileRuntimeConfig) hmap" where
  "demo_profiles = [(''default'', \<lparr>rpr_limits = demo_limits, rpr_target_order_notional_usd = f64_rnd 1000\<rparr>)]"

definition demo_build :: "InstanceError + int LaneRuntime" where
  "demo_build = build_lane_runtime (\<lambda>_. None) Some demo_instance ''AAPL'' Running False Paper demo_profiles 0"

definition demo_lane_runtime :: "int LaneRuntime" where
  "demo_lane_runtime = (case demo_build of Inr l \<Rightarrow> l)"

lemma demo_parts_ok:
  "is_ok (resolved_risk_limits demo_instance demo_profiles)"
  "is_ok (resolved_target_order_notional_usd demo_instance demo_profiles)"
  "is_ok (required_warmup_bars demo_instance)" "is_ok (build_runtime_strategy demo_instance)"
  by code_simp+

lemma demo_lane_ok:
  "is_ok (build_lane_runtime (\<lambda>_. None) Some demo_instance symbol st resume mode demo_profiles pnl)"
  using demo_parts_ok demo_indicators_built by (auto simp: is_ok_iff build_lane_runtime_def)

lemma demo_lane_built:
  "build_lane_runtime (\<lambda>_. None) Some demo_instance ''AAPL'' Running False Paper demo_profiles 0 = Inr demo_lane_runtime"
  using demo_lane_ok [of "''AAPL''" Running False Paper 0]
  by (auto simp: is_ok_iff demo_lane_runtime_def demo_build_def)

lemma demo_instance_mode: "ic_signal_mode demo_instance = ConfirmedOnly"
  by (simp add: demo_instance_def)

theorem confirmed_only_ignores_previews_witness:
  "ple_intent (fst (prepare_process_bar_evaluation demo_lane_runtime (demo_bar 5) Preview)) = NoOp"
  using confirmed_only_ignores_previews [OF demo_lane_built demo_instance_mode, of demo_lane_runtime "[]" "demo_bar 5"]
  by (simp add: indicators_after_def)

theorem manual_signal_intent_witness:
  "ple_intent (fst (prepare_manual_signal_evaluation demo_lane_runtime (demo_bar 5) BuyConfirmed)) = OpenLong"
  using manual_signal_intent [OF demo_lane_built refl, of "demo_bar 5" BuyConfirmed] built_lane(6) [OF demo_lane_built]
  by simp

definition demo_order :: "int \<Rightarrow> AcceptedOrder" where
  "demo_order q = \<lparr>ao_client_order_id = ''order'', ao_side = BuySide, ao_order_type = Market, ao_price = f64_rnd 100,
     ao_quantity = f64_rnd (of_int q), ao_fee_asset = None, ao_fee_amount = None, ao_fee_normalized_usd = None\<rparr>"

definition demo_open_fill :: "(InventoryTransitionFailure + ProcessBarStateMutation) \<times> int LaneRuntime" where
  "demo_open_fill = apply_process_bar_fill_state (demo_bar 5) True (Some (demo_order 3)) None (Allow OpenLong) demo_lane_runtime"

lemma demo_lane_no_dust: "\<not> untracked_dust order demo_lane_runtime"
proof -
  have "effective_position_quantity demo_lane_runtime = 0"
    using built_lane(7,13) [OF demo_lane_built]
    by (simp add: effective_position_quantity_def from_position_state_quantity)
  then have "close_residual order demo_lane_runtime = 0"
    using f64_antisym [OF f64_max_lub, of _ 0 0] f64_minus_nonneg_le [of 0 "f64_min (f64_max (ao_quantity order) 0) 0"]
    by (cases "0 \<le> f64_min (f64_max (ao_quantity order) 0) 0") (auto simp: close_residual_def f64_min_def f64_max_def f64_diff_self)
  then show ?thesis by (simp add: untracked_dust_def) code_simp
qed

lemma demo_first_buy:
  "is_ok (apply_fill Buy (f64_max (f64_rnd 3) 0) (f64_rnd 100) None (from_position_state 0 None 0))"
  "\<not> f64_max (f64_rnd 3) 0 \<le> f64_epsilon" "(0::f64) \<le> LANE_QUANTITY_TOLERANCE"
  by code_simp+

lemma demo_open_fill_ok: "is_ok (fst demo_open_fill)"
proof -
  note l = built_lane [OF demo_lane_built]
  have e: "effective_position_quantity demo_lane_runtime = 0"
    using l(7,13) by (simp add: effective_position_quantity_def from_position_state_quantity)
  obtain inv where "apply_fill Buy (f64_max (f64_rnd 3) 0) (f64_rnd 100) None (from_position_state 0 None 0) = Inr inv"
    using demo_first_buy(1) by (auto simp: is_ok_iff)
  then have "is_ok (fst (apply_open_long_fill (demo_bar 5) (demo_order 3) demo_lane_runtime))"
    using demo_first_buy(2,3) l(7,14,15) e
    by (simp add: apply_open_long_fill_def Let_def demo_order_def accepted_order_fee_entry_def
        sync_inventory_from_runtime_fields_def inventory_state_from_runtime_fields_def)
  then show ?thesis
    by (auto simp: demo_open_fill_def apply_process_bar_fill_state_def is_open_intent_def is_ok_iff split: prod.splits sum.splits)
qed

theorem fill_keeps_lane_consistent_witness:
  "lane_consistent (snd demo_open_fill)"
proof -
  obtain m l' where ok: "demo_open_fill = (Inr m, l')" using demo_open_fill_ok by (metis is_ok_iff prod.collapse)
  from fill_keeps_lane_consistent [OF ok [unfolded demo_open_fill_def] built_lane_consistent [OF demo_lane_built]]
  show ?thesis unfolding ok using demo_lane_no_dust by simp
qed

definition demo_lanes :: "InstanceError + (string, int LaneRuntime) hmap \<times> (string, string list) hmap" where
  "demo_lanes = build_runtime_lanes (\<lambda>_. None) Some [demo_instance] [(''paper'', Paper)] demo_profiles
     [(''aapl'', ''running'')] [] True"

theorem built_lanes_complete_witness:
  "\<exists>runtimes by_bot. demo_lanes = Inr (runtimes, by_bot) \<and> set (hm_keys by_bot) = {''aapl''}
     \<and> set (hm_keys runtimes) = bot_lane_ids by_bot"
proof -
  have i: "ic_id demo_instance = ''aapl''" "ic_symbols demo_instance = [''AAPL'']" by (simp_all add: demo_instance_def)
  obtain l where "build_lane_runtime (\<lambda>_. None) Some demo_instance ''AAPL''
      (ris_state (resolved_instance_state demo_instance [(''aapl'', ''running'')] True))
      (ris_resume_after_startup_reconcile (resolved_instance_state demo_instance [(''aapl'', ''running'')] True))
      (override (hm_get [(''paper'', Paper)] (ic_account demo_instance)) Paper) demo_profiles
      (override (hm_get [] ''aapl'') 0) = Inr l"
    using demo_lane_ok by (metis is_ok_iff)
  then have "is_ok demo_lanes"
    by (simp add: demo_lanes_def build_runtime_lanes_def build_instance_lanes_def Let_def i lane_instance_id_def)
  then obtain runtimes by_bot where ok: "demo_lanes = Inr (runtimes, by_bot)" by (auto simp: is_ok_iff)
  have "set (hm_keys by_bot) = set (map ic_id [demo_instance]) \<and> set (hm_keys runtimes) = bot_lane_ids by_bot"
    using built_lanes_complete [OF ok [unfolded demo_lanes_def]] by simp
  with i ok show ?thesis by (intro exI [of _ runtimes] exI [of _ by_bot]) simp
qed

text \<open>The exception of the fill property is real: closing almost all of a position without cost basis leaves a
  lane that claims a position of quantity zero.\<close>

lemma dust_facts:
  "f64_min (f64_max (f64_rnd (1 - 1 / 2000000000)) 0) 1 = f64_rnd (1 - 1 / 2000000000)"
  "f64_epsilon < f64_rnd (1 - 1 / 2000000000)" "LANE_QUANTITY_TOLERANCE < (1::f64)"
  "f64_epsilon < f64_max (1 - f64_rnd (1 - 1 / 2000000000)) 0"
  "\<not> LANE_QUANTITY_TOLERANCE < f64_max (1 - f64_rnd (1 - 1 / 2000000000)) 0"
  by code_simp+

lemma costless_dust_claims_position:
  assumes "lr_position_quantity l = 1" "lr_entry_price l = None" "inv_lot (lr_inventory l) = None"
    and "ao_quantity order = f64_rnd (1 - 1 / 2000000000)"
  shows "is_ok (fst (apply_close_long_fill bar order l)) \<and> lr_has_position (snd (apply_close_long_fill bar order l))
    \<and> effective_position_quantity (snd (apply_close_long_fill bar order l)) = 0"
proof -
  have "effective_position_quantity l = 1"
    using assms dust_facts(3) by (simp add: effective_position_quantity_def inv_quantity_def)
  then show ?thesis
    using assms dust_facts
    by (simp add: apply_close_long_fill_def Let_def sync_inventory_from_runtime_fields_def
        inventory_state_from_runtime_fields_def inv_average_cost_usd_def effective_position_quantity_def
        from_position_state_def inv_quantity_def)
qed

end
