(* ===== verification/Storage.thy ===== *)
theory Storage
  imports Lane
begin

section \<open>The runtime journal (crate openticker-storage)\<close>

text \<open>
  The journal's records and writes (\<open>records.rs\<close>), the in-memory journal
  (\<open>in_memory.rs\<close>) with every operation of the \<open>RuntimeJournal\<close> trait (\<open>journal.rs\<close>) and
  the monotonic clock of \<open>support.rs\<close>. Every operation of the in-memory journal holds one mutex,
  so it is a function from the journal to its result and the new journal; the clock reading is an
  argument. The SQLite journal runs in a third-party engine and is not modelled; the runtime is
  modelled over any journal (\<open>Ports\<close>).

  The lemmas show that ids stay positive, bounded and increasing, that orders, fills and cycle
  traces are written at most once under their key, what each query returns after an append, and
  exactly what pruning removes.
\<close>

subsection \<open>Records and writes\<close>

record RuntimeEvent =
  re_id :: int
  re_scope :: string
  re_entity_id :: "string option"
  re_trace_id :: "string option"
  re_kind :: string
  re_payload :: string
  re_created_at_ms :: int

record EventWrite =
  ew_scope :: string
  ew_entity_id :: "string option"
  ew_trace_id :: "string option"
  ew_kind :: string
  ew_payload :: string

record BotSnapshot =
  bs_bot_id :: string
  bs_state :: string
  bs_execution_mode :: string
  bs_enabled :: bool
  bs_updated_at_ms :: int

record BotSnapshotWrite =
  bsw_bot_id :: string
  bsw_state :: string
  bsw_execution_mode :: string
  bsw_enabled :: bool

record SignalRecord =
  sr_id :: int
  sr_bot_id :: string
  sr_symbol :: "string option"
  sr_trace_id :: "string option"
  sr_bar_timestamp :: string
  sr_phase :: string
  sr_signal :: string
  sr_close :: f64
  sr_metadata_json :: "string option"
  sr_created_at_ms :: int

record SignalWrite =
  sw_bot_id :: string
  sw_symbol :: string
  sw_trace_id :: "string option"
  sw_bar_timestamp :: string
  sw_phase :: string
  sw_signal :: string
  sw_close :: f64
  sw_metadata_json :: "string option"

record IntentRecord =
  ir_id :: int
  ir_bot_id :: string
  ir_symbol :: "string option"
  ir_trace_id :: "string option"
  ir_bar_timestamp :: string
  ir_signal :: string
  ir_intent :: string
  ir_metadata_json :: "string option"
  ir_strategy_rationale :: "string option"
  ir_has_position_before :: bool
  ir_created_at_ms :: int

record IntentWrite =
  iw_bot_id :: string
  iw_symbol :: string
  iw_trace_id :: "string option"
  iw_bar_timestamp :: string
  iw_signal :: string
  iw_intent :: string
  iw_metadata_json :: "string option"
  iw_strategy_rationale :: "string option"
  iw_has_position_before :: bool

record RiskDecisionRecord =
  rdr_id :: int
  rdr_bot_id :: string
  rdr_symbol :: "string option"
  rdr_trace_id :: "string option"
  rdr_bar_timestamp :: string
  rdr_intent :: string
  rdr_decision :: string
  rdr_reason :: "string option"
  rdr_created_at_ms :: int

record RiskDecisionWrite =
  rdw_bot_id :: string
  rdw_symbol :: string
  rdw_trace_id :: "string option"
  rdw_bar_timestamp :: string
  rdw_intent :: string
  rdw_decision :: string
  rdw_reason :: "string option"

record OrderWrite =
  ow_bot_id :: string
  ow_symbol :: string
  ow_trace_id :: "string option"
  ow_bar_timestamp :: "string option"
  ow_client_order_id :: string
  ow_intent :: string
  ow_status :: string
  ow_price :: f64
  ow_quantity :: f64

record FillRecord =
  fr_id :: int
  fr_bot_id :: string
  fr_symbol :: "string option"
  fr_trace_id :: "string option"
  fr_bar_timestamp :: "string option"
  fr_client_order_id :: string
  fr_price :: f64
  fr_quantity :: f64
  fr_fee_asset :: "string option"
  fr_fee_amount :: "f64 option"
  fr_fee_normalized_usd :: "f64 option"
  fr_created_at_ms :: int

record FillWrite =
  fw_bot_id :: string
  fw_symbol :: string
  fw_trace_id :: "string option"
  fw_bar_timestamp :: "string option"
  fw_client_order_id :: string
  fw_price :: f64
  fw_quantity :: f64
  fw_fee_asset :: "string option"
  fw_fee_amount :: "f64 option"
  fw_fee_normalized_usd :: "f64 option"

record PositionWrite =
  pw_bot_id :: string
  pw_symbol :: string
  pw_trace_id :: "string option"
  pw_bar_timestamp :: "string option"
  pw_has_position :: bool
  pw_quantity :: f64
  pw_entry_price :: "f64 option"
  pw_realized_pnl_usd :: f64
  pw_reason :: string

record BotEventRecord =
  ber_id :: int
  ber_bot_id :: string
  ber_kind :: string
  ber_payload :: string
  ber_created_at_ms :: int

record BotEventWrite =
  bew_bot_id :: string
  bew_kind :: string
  bew_payload :: string

record ServiceEventRecord =
  ser_id :: int
  ser_kind :: string
  ser_payload :: string
  ser_created_at_ms :: int

record ServiceEventWrite =
  sew_kind :: string
  sew_payload :: string

record ReconciliationRecord =
  rr_id :: int
  rr_bot_id :: string
  rr_source :: string
  rr_symbol :: string
  rr_safe_to_trade :: bool
  rr_local_open_orders :: int
  rr_connector_open_orders :: int
  rr_local_has_position :: bool
  rr_connector_has_position :: bool
  rr_reason :: string
  rr_created_at_ms :: int

record ReconciliationWrite =
  rw_bot_id :: string
  rw_source :: string
  rw_symbol :: string
  rw_safe_to_trade :: bool
  rw_local_open_orders :: int
  rw_connector_open_orders :: int
  rw_local_has_position :: bool
  rw_connector_has_position :: bool
  rw_reason :: string

record CycleTraceRecord =
  ctr_id :: int
  ctr_trace_id :: string
  ctr_bot_id :: string
  ctr_symbol :: string
  ctr_bar_timestamp :: string
  ctr_phase :: string
  ctr_trigger_kind :: string
  ctr_signal :: string
  ctr_intent :: string
  ctr_risk_decision :: string
  ctr_outcome :: string
  ctr_created_at_ms :: int
  ctr_payload_json :: string

record CycleTraceWrite =
  ctw_trace_id :: string
  ctw_bot_id :: string
  ctw_symbol :: string
  ctw_bar_timestamp :: string
  ctw_phase :: string
  ctw_trigger_kind :: string
  ctw_signal :: string
  ctw_intent :: string
  ctw_risk_decision :: string
  ctw_outcome :: string
  ctw_payload_json :: string

subsection \<open>The clock\<close>

text \<open>\<open>fetch_max\<close> on the process-wide floor and its returned value; the new floor is the result.\<close>

fun monotonic_timestamp_ms :: "int \<Rightarrow> int option \<Rightarrow> int" where
  "monotonic_timestamp_ms last_ms (Some raw) = max last_ms raw"
| "monotonic_timestamp_ms last_ms None = last_ms"

subsection \<open>The in-memory journal\<close>

datatype StorageError = CreateDirectory string string | UnsupportedBackend string
  | IncompatibleSchemaVersion int int | Internal string | Migration int string string | Sqlite string

record InMemoryRuntimeJournal =
  ij_events :: "RuntimeEvent list"
  ij_signals :: "SignalRecord list"
  ij_intents :: "IntentRecord list"
  ij_risk_decisions :: "RiskDecisionRecord list"
  ij_orders :: "OrderRecord list"
  ij_fills :: "FillRecord list"
  ij_positions :: "PositionRecord list"
  ij_cycle_traces :: "CycleTraceRecord list"
  ij_reconciliations :: "ReconciliationRecord list"
  ij_bot_events :: "BotEventRecord list"
  ij_service_events :: "ServiceEventRecord list"
  ij_bot_snapshots :: "(string, BotSnapshot) hmap"

definition InMemoryRuntimeJournal_default :: InMemoryRuntimeJournal where
  "InMemoryRuntimeJournal_default = \<lparr>ij_events = [], ij_signals = [], ij_intents = [],
     ij_risk_decisions = [], ij_orders = [], ij_fills = [], ij_positions = [], ij_cycle_traces = [],
     ij_reconciliations = [], ij_bot_events = [], ij_service_events = [], ij_bot_snapshots = []\<rparr>"

type_synonym 'a journal_op = "InMemoryRuntimeJournal \<Rightarrow> (StorageError + 'a) \<times> InMemoryRuntimeJournal"

definition next_record_id :: "('r \<Rightarrow> int) \<Rightarrow> 'r list \<Rightarrow> int" where
  "next_record_id id_of records = (if records = [] then 1 else sat_i64 (id_of (last records) + 1))"

definition recent_records :: "nat \<Rightarrow> 'r list \<Rightarrow> 'r list" where
  "recent_records limit records = (if limit = 0 then [] else drop (length records - limit) records)"

definition push_record :: "('r \<Rightarrow> int) \<Rightarrow> (int \<Rightarrow> int \<Rightarrow> 'w \<Rightarrow> 'r) \<Rightarrow> int \<Rightarrow> 'w \<Rightarrow> 'r list \<Rightarrow> 'r list" where
  "push_record id_of mk now_ms w records = records @ [mk (next_record_id id_of records) now_ms w]"

definition event_record :: "int \<Rightarrow> int \<Rightarrow> EventWrite \<Rightarrow> RuntimeEvent" where
  "event_record rid now_ms w =
     \<lparr>re_id = rid, re_scope = ew_scope w, re_entity_id = ew_entity_id w,
      re_trace_id = ew_trace_id w, re_kind = ew_kind w, re_payload = ew_payload w,
      re_created_at_ms = now_ms\<rparr>"

definition signal_record :: "int \<Rightarrow> int \<Rightarrow> SignalWrite \<Rightarrow> SignalRecord" where
  "signal_record rid now_ms w =
     \<lparr>sr_id = rid, sr_bot_id = sw_bot_id w, sr_symbol = Some (sw_symbol w),
      sr_trace_id = sw_trace_id w, sr_bar_timestamp = sw_bar_timestamp w, sr_phase = sw_phase w,
      sr_signal = sw_signal w, sr_close = sw_close w, sr_metadata_json = sw_metadata_json w,
      sr_created_at_ms = now_ms\<rparr>"

definition intent_record :: "int \<Rightarrow> int \<Rightarrow> IntentWrite \<Rightarrow> IntentRecord" where
  "intent_record rid now_ms w =
     \<lparr>ir_id = rid, ir_bot_id = iw_bot_id w, ir_symbol = Some (iw_symbol w),
      ir_trace_id = iw_trace_id w, ir_bar_timestamp = iw_bar_timestamp w, ir_signal = iw_signal w,
      ir_intent = iw_intent w, ir_metadata_json = iw_metadata_json w,
      ir_strategy_rationale = iw_strategy_rationale w,
      ir_has_position_before = iw_has_position_before w, ir_created_at_ms = now_ms\<rparr>"

definition risk_decision_record :: "int \<Rightarrow> int \<Rightarrow> RiskDecisionWrite \<Rightarrow> RiskDecisionRecord" where
  "risk_decision_record rid now_ms w =
     \<lparr>rdr_id = rid, rdr_bot_id = rdw_bot_id w, rdr_symbol = Some (rdw_symbol w),
      rdr_trace_id = rdw_trace_id w, rdr_bar_timestamp = rdw_bar_timestamp w,
      rdr_intent = rdw_intent w, rdr_decision = rdw_decision w, rdr_reason = rdw_reason w,
      rdr_created_at_ms = now_ms\<rparr>"

definition order_record :: "int \<Rightarrow> int \<Rightarrow> OrderWrite \<Rightarrow> OrderRecord" where
  "order_record rid now_ms w =
     \<lparr>or_id = rid, or_bot_id = ow_bot_id w, or_symbol = Some (ow_symbol w),
      or_trace_id = ow_trace_id w, or_bar_timestamp = ow_bar_timestamp w,
      or_client_order_id = ow_client_order_id w, or_intent = ow_intent w, or_status = ow_status w,
      or_price = ow_price w, or_quantity = ow_quantity w, or_created_at_ms = now_ms\<rparr>"

definition reconciliation_record :: "int \<Rightarrow> int \<Rightarrow> ReconciliationWrite \<Rightarrow> ReconciliationRecord" where
  "reconciliation_record rid now_ms w =
     \<lparr>rr_id = rid, rr_bot_id = rw_bot_id w, rr_source = rw_source w, rr_symbol = rw_symbol w,
      rr_safe_to_trade = rw_safe_to_trade w, rr_local_open_orders = rw_local_open_orders w,
      rr_connector_open_orders = rw_connector_open_orders w,
      rr_local_has_position = rw_local_has_position w,
      rr_connector_has_position = rw_connector_has_position w, rr_reason = rw_reason w,
      rr_created_at_ms = now_ms\<rparr>"

definition bot_event_record :: "int \<Rightarrow> int \<Rightarrow> BotEventWrite \<Rightarrow> BotEventRecord" where
  "bot_event_record rid now_ms w =
     \<lparr>ber_id = rid, ber_bot_id = bew_bot_id w, ber_kind = bew_kind w, ber_payload = bew_payload w,
      ber_created_at_ms = now_ms\<rparr>"

definition service_event_record :: "int \<Rightarrow> int \<Rightarrow> ServiceEventWrite \<Rightarrow> ServiceEventRecord" where
  "service_event_record rid now_ms w =
     \<lparr>ser_id = rid, ser_kind = sew_kind w, ser_payload = sew_payload w, ser_created_at_ms = now_ms\<rparr>"

definition cycle_trace_record :: "int \<Rightarrow> int \<Rightarrow> CycleTraceWrite \<Rightarrow> CycleTraceRecord" where
  "cycle_trace_record rid now_ms w =
     \<lparr>ctr_id = rid, ctr_trace_id = ctw_trace_id w, ctr_bot_id = ctw_bot_id w,
      ctr_symbol = ctw_symbol w, ctr_bar_timestamp = ctw_bar_timestamp w, ctr_phase = ctw_phase w,
      ctr_trigger_kind = ctw_trigger_kind w, ctr_signal = ctw_signal w, ctr_intent = ctw_intent w,
      ctr_risk_decision = ctw_risk_decision w, ctr_outcome = ctw_outcome w,
      ctr_created_at_ms = now_ms, ctr_payload_json = ctw_payload_json w\<rparr>"

definition fill_record :: "int \<Rightarrow> int \<Rightarrow> FillWrite \<Rightarrow> FillRecord" where
  "fill_record rid now_ms w =
     \<lparr>fr_id = rid, fr_bot_id = fw_bot_id w, fr_symbol = Some (fw_symbol w),
      fr_trace_id = fw_trace_id w, fr_bar_timestamp = fw_bar_timestamp w,
      fr_client_order_id = fw_client_order_id w, fr_price = fw_price w,
      fr_quantity = fw_quantity w, fr_fee_asset = fw_fee_asset w,
      fr_fee_amount = positive_or_none (fw_fee_amount w),
      fr_fee_normalized_usd = positive_or_none (fw_fee_normalized_usd w), fr_created_at_ms = now_ms\<rparr>"

definition position_record :: "int \<Rightarrow> int \<Rightarrow> PositionWrite \<Rightarrow> PositionRecord" where
  "position_record rid now_ms w =
     \<lparr>pr_id = rid, pr_bot_id = pw_bot_id w, pr_symbol = Some (pw_symbol w),
      pr_trace_id = pw_trace_id w, pr_bar_timestamp = pw_bar_timestamp w,
      pr_has_position = pw_has_position w,
      pr_quantity = (if is_finite (pw_quantity w) \<and> 0 < pw_quantity w then pw_quantity w else 0),
      pr_entry_price = positive_or_none (pw_entry_price w),
      pr_realized_pnl_usd = (if is_finite (pw_realized_pnl_usd w) then pw_realized_pnl_usd w else 0),
      pr_reason = pw_reason w, pr_created_at_ms = now_ms\<rparr>"

subsubsection \<open>Appending\<close>

definition append_event :: "int \<Rightarrow> EventWrite \<Rightarrow> unit journal_op" where
  "append_event now_ms event self =
     (Inr (), self\<lparr>ij_events := push_record re_id event_record now_ms event (ij_events self)\<rparr>)"

definition append_signal :: "int \<Rightarrow> SignalWrite \<Rightarrow> unit journal_op" where
  "append_signal now_ms signal self =
     (Inr (), self\<lparr>ij_signals := push_record sr_id signal_record now_ms signal (ij_signals self)\<rparr>)"

definition append_intent :: "int \<Rightarrow> IntentWrite \<Rightarrow> unit journal_op" where
  "append_intent now_ms intent self =
     (Inr (), self\<lparr>ij_intents := push_record ir_id intent_record now_ms intent (ij_intents self)\<rparr>)"

definition append_risk_decision :: "int \<Rightarrow> RiskDecisionWrite \<Rightarrow> unit journal_op" where
  "append_risk_decision now_ms decision self =
     (Inr (), self\<lparr>ij_risk_decisions :=
        push_record rdr_id risk_decision_record now_ms decision (ij_risk_decisions self)\<rparr>)"

text \<open>Orders, fills and cycle traces are written once: a second write under the same key is accepted
  and changes nothing.\<close>

definition order_exists :: "OrderWrite \<Rightarrow> OrderRecord list \<Rightarrow> bool" where
  "order_exists order orders = (\<exists>existing \<in> set orders. or_bot_id existing = ow_bot_id order
     \<and> or_symbol existing = Some (ow_symbol order) \<and> or_client_order_id existing = ow_client_order_id order)"

definition append_order :: "int \<Rightarrow> OrderWrite \<Rightarrow> unit journal_op" where
  "append_order now_ms order self =
     (if order_exists order (ij_orders self) then (Inr (), self)
      else (Inr (), self\<lparr>ij_orders := push_record or_id order_record now_ms order (ij_orders self)\<rparr>))"

definition fill_exists :: "FillWrite \<Rightarrow> FillRecord list \<Rightarrow> bool" where
  "fill_exists fill fills = (\<exists>existing \<in> set fills. fr_bot_id existing = fw_bot_id fill
     \<and> fr_symbol existing = Some (fw_symbol fill) \<and> fr_client_order_id existing = fw_client_order_id fill)"

definition append_fill :: "int \<Rightarrow> FillWrite \<Rightarrow> unit journal_op" where
  "append_fill now_ms fill self =
     (if fill_exists fill (ij_fills self) then (Inr (), self)
      else (Inr (), self\<lparr>ij_fills := push_record fr_id fill_record now_ms fill (ij_fills self)\<rparr>))"

definition append_position :: "int \<Rightarrow> PositionWrite \<Rightarrow> unit journal_op" where
  "append_position now_ms position self =
     (Inr (), self\<lparr>ij_positions := push_record pr_id position_record now_ms position (ij_positions self)\<rparr>)"

definition append_cycle_trace :: "int \<Rightarrow> CycleTraceWrite \<Rightarrow> unit journal_op" where
  "append_cycle_trace now_ms trace self =
     (if \<exists>existing \<in> set (ij_cycle_traces self). ctr_trace_id existing = ctw_trace_id trace then (Inr (), self)
      else (Inr (), self\<lparr>ij_cycle_traces :=
        push_record ctr_id cycle_trace_record now_ms trace (ij_cycle_traces self)\<rparr>))"

definition append_reconciliation :: "int \<Rightarrow> ReconciliationWrite \<Rightarrow> unit journal_op" where
  "append_reconciliation now_ms record self =
     (Inr (), self\<lparr>ij_reconciliations :=
        push_record rr_id reconciliation_record now_ms record (ij_reconciliations self)\<rparr>)"

definition append_bot_event :: "int \<Rightarrow> BotEventWrite \<Rightarrow> unit journal_op" where
  "append_bot_event now_ms event self =
     (Inr (), self\<lparr>ij_bot_events := push_record ber_id bot_event_record now_ms event (ij_bot_events self)\<rparr>)"

definition append_service_event :: "int \<Rightarrow> ServiceEventWrite \<Rightarrow> unit journal_op" where
  "append_service_event now_ms event self =
     (Inr (), self\<lparr>ij_service_events :=
        push_record ser_id service_event_record now_ms event (ij_service_events self)\<rparr>)"

subsubsection \<open>Queries\<close>

definition recent_events :: "nat \<Rightarrow> InMemoryRuntimeJournal \<Rightarrow> StorageError + RuntimeEvent list" where
  "recent_events limit self = Inr (recent_records limit (ij_events self))"

definition recent_events_by_scope :: "string \<Rightarrow> nat \<Rightarrow> InMemoryRuntimeJournal \<Rightarrow> StorageError + RuntimeEvent list" where
  "recent_events_by_scope scope limit self =
     Inr (recent_records limit (filter (\<lambda>event. re_scope event = scope) (ij_events self)))"

definition recent_events_for_entity :: "string \<Rightarrow> nat \<Rightarrow> InMemoryRuntimeJournal \<Rightarrow> StorageError + RuntimeEvent list" where
  "recent_events_for_entity entity_id limit self =
     Inr (recent_records limit (filter (\<lambda>event. re_entity_id event = Some entity_id) (ij_events self)))"

definition recent_events_by_scope_and_entity ::
    "string \<Rightarrow> string \<Rightarrow> nat \<Rightarrow> InMemoryRuntimeJournal \<Rightarrow> StorageError + RuntimeEvent list" where
  "recent_events_by_scope_and_entity scope entity_id limit self =
     Inr (recent_records limit
       (filter (\<lambda>event. re_scope event = scope \<and> re_entity_id event = Some entity_id) (ij_events self)))"

definition recent_signals :: "nat \<Rightarrow> InMemoryRuntimeJournal \<Rightarrow> StorageError + SignalRecord list" where
  "recent_signals limit self = Inr (recent_records limit (ij_signals self))"

definition recent_intents :: "nat \<Rightarrow> InMemoryRuntimeJournal \<Rightarrow> StorageError + IntentRecord list" where
  "recent_intents limit self = Inr (recent_records limit (ij_intents self))"

definition recent_risk_decisions :: "nat \<Rightarrow> InMemoryRuntimeJournal \<Rightarrow> StorageError + RiskDecisionRecord list" where
  "recent_risk_decisions limit self = Inr (recent_records limit (ij_risk_decisions self))"

definition recent_orders :: "nat \<Rightarrow> InMemoryRuntimeJournal \<Rightarrow> StorageError + OrderRecord list" where
  "recent_orders limit self = Inr (recent_records limit (ij_orders self))"

definition recent_orders_for_bot :: "string \<Rightarrow> nat \<Rightarrow> InMemoryRuntimeJournal \<Rightarrow> StorageError + OrderRecord list" where
  "recent_orders_for_bot bot_id limit self =
     Inr (recent_records limit (filter (\<lambda>order. or_bot_id order = bot_id) (ij_orders self)))"

definition orders_by_client_order_id :: "string \<Rightarrow> InMemoryRuntimeJournal \<Rightarrow> StorageError + OrderRecord list" where
  "orders_by_client_order_id client_order_id self =
     Inr (filter (\<lambda>order. or_client_order_id order = client_order_id) (ij_orders self))"

definition recent_fills :: "nat \<Rightarrow> InMemoryRuntimeJournal \<Rightarrow> StorageError + FillRecord list" where
  "recent_fills limit self = Inr (recent_records limit (ij_fills self))"

definition recent_fills_for_bot :: "string \<Rightarrow> nat \<Rightarrow> InMemoryRuntimeJournal \<Rightarrow> StorageError + FillRecord list" where
  "recent_fills_for_bot bot_id limit self =
     Inr (recent_records limit (filter (\<lambda>fill. fr_bot_id fill = bot_id) (ij_fills self)))"

definition recent_positions :: "nat \<Rightarrow> InMemoryRuntimeJournal \<Rightarrow> StorageError + PositionRecord list" where
  "recent_positions limit self = Inr (recent_records limit (ij_positions self))"

definition recent_positions_for_bot :: "string \<Rightarrow> nat \<Rightarrow> InMemoryRuntimeJournal \<Rightarrow> StorageError + PositionRecord list" where
  "recent_positions_for_bot bot_id limit self =
     Inr (recent_records limit (filter (\<lambda>position. pr_bot_id position = bot_id) (ij_positions self)))"

definition selects :: "'a option \<Rightarrow> 'a \<Rightarrow> bool" where
  "selects wanted actual = (case wanted of None \<Rightarrow> True | Some v \<Rightarrow> actual = v)"

definition recent_cycle_traces_for_bot ::
    "string \<Rightarrow> string option \<Rightarrow> string option \<Rightarrow> string option \<Rightarrow> string option \<Rightarrow> nat \<Rightarrow> InMemoryRuntimeJournal
     \<Rightarrow> StorageError + CycleTraceRecord list" where
  "recent_cycle_traces_for_bot bot_id symbol phase outcome bar_time limit self =
     Inr (recent_records limit (filter (\<lambda>trace. ctr_bot_id trace = bot_id \<and> selects symbol (ctr_symbol trace)
       \<and> selects phase (ctr_phase trace) \<and> selects outcome (ctr_outcome trace)
       \<and> selects bar_time (ctr_bar_timestamp trace)) (ij_cycle_traces self)))"

definition cycle_trace_by_id :: "string \<Rightarrow> InMemoryRuntimeJournal \<Rightarrow> StorageError + CycleTraceRecord option" where
  "cycle_trace_by_id trace_id self = Inr (find (\<lambda>trace. ctr_trace_id trace = trace_id) (ij_cycle_traces self))"

definition latest_position_for_bot :: "string \<Rightarrow> InMemoryRuntimeJournal \<Rightarrow> StorageError + PositionRecord option" where
  "latest_position_for_bot bot_id self =
     Inr (find (\<lambda>position. pr_bot_id position = bot_id) (rev (ij_positions self)))"

definition journal_latest_position_for_lane ::
    "string \<Rightarrow> string \<Rightarrow> InMemoryRuntimeJournal \<Rightarrow> StorageError + PositionRecord option" where
  "journal_latest_position_for_lane bot_id symbol self =
     Inr (find (\<lambda>position. pr_bot_id position = bot_id \<and> pr_symbol position = Some symbol) (rev (ij_positions self)))"

definition recent_reconciliations :: "nat \<Rightarrow> InMemoryRuntimeJournal \<Rightarrow> StorageError + ReconciliationRecord list" where
  "recent_reconciliations limit self = Inr (recent_records limit (ij_reconciliations self))"

definition recent_reconciliations_for_bot ::
    "string \<Rightarrow> nat \<Rightarrow> InMemoryRuntimeJournal \<Rightarrow> StorageError + ReconciliationRecord list" where
  "recent_reconciliations_for_bot bot_id limit self =
     Inr (recent_records limit (filter (\<lambda>record. rr_bot_id record = bot_id) (ij_reconciliations self)))"

definition latest_reconciliation_for_bot ::
    "string \<Rightarrow> InMemoryRuntimeJournal \<Rightarrow> StorageError + ReconciliationRecord option" where
  "latest_reconciliation_for_bot bot_id self =
     Inr (find (\<lambda>record. rr_bot_id record = bot_id) (rev (ij_reconciliations self)))"

definition latest_reconciliation_for_lane ::
    "string \<Rightarrow> string \<Rightarrow> InMemoryRuntimeJournal \<Rightarrow> StorageError + ReconciliationRecord option" where
  "latest_reconciliation_for_lane bot_id symbol self =
     Inr (find (\<lambda>record. rr_bot_id record = bot_id \<and> rr_symbol record = symbol) (rev (ij_reconciliations self)))"

definition recent_bot_events :: "nat \<Rightarrow> InMemoryRuntimeJournal \<Rightarrow> StorageError + BotEventRecord list" where
  "recent_bot_events limit self = Inr (recent_records limit (ij_bot_events self))"

definition recent_service_events :: "nat \<Rightarrow> InMemoryRuntimeJournal \<Rightarrow> StorageError + ServiceEventRecord list" where
  "recent_service_events limit self = Inr (recent_records limit (ij_service_events self))"

subsubsection \<open>Snapshots and pruning\<close>

definition upsert_bot_snapshot :: "int \<Rightarrow> BotSnapshotWrite \<Rightarrow> unit journal_op" where
  "upsert_bot_snapshot now_ms snapshot self =
     (Inr (), self\<lparr>ij_bot_snapshots := hm_insert (bsw_bot_id snapshot)
        \<lparr>bs_bot_id = bsw_bot_id snapshot, bs_state = bsw_state snapshot,
         bs_execution_mode = bsw_execution_mode snapshot, bs_enabled = bsw_enabled snapshot,
         bs_updated_at_ms = now_ms\<rparr> (ij_bot_snapshots self)\<rparr>)"

definition load_bot_snapshots :: "InMemoryRuntimeJournal \<Rightarrow> StorageError + BotSnapshot list" where
  "load_bot_snapshots self = Inr (sort_key bs_bot_id (hm_values (ij_bot_snapshots self)))"

definition event_kept :: "string list \<Rightarrow> RuntimeEvent \<Rightarrow> bool" where
  "event_kept active_bot_ids event =
     (case re_entity_id event of Some bot_id \<Rightarrow> bot_id \<in> set active_bot_ids | None \<Rightarrow> True)"

definition prune_bots_except :: "string list \<Rightarrow> unit journal_op" where
  "prune_bots_except active_bot_ids self =
     (let active = (\<lambda>bot_id. bot_id \<in> set active_bot_ids) in
      (Inr (), self\<lparr>ij_events := filter (event_kept active_bot_ids) (ij_events self),
        ij_signals := filter (active \<circ> sr_bot_id) (ij_signals self),
        ij_intents := filter (active \<circ> ir_bot_id) (ij_intents self),
        ij_risk_decisions := filter (active \<circ> rdr_bot_id) (ij_risk_decisions self),
        ij_orders := filter (active \<circ> or_bot_id) (ij_orders self),
        ij_fills := filter (active \<circ> fr_bot_id) (ij_fills self),
        ij_positions := filter (active \<circ> pr_bot_id) (ij_positions self),
        ij_cycle_traces := filter (active \<circ> ctr_bot_id) (ij_cycle_traces self),
        ij_reconciliations := filter (active \<circ> rr_bot_id) (ij_reconciliations self),
        ij_bot_events := filter (active \<circ> ber_bot_id) (ij_bot_events self),
        ij_bot_snapshots := filter (active \<circ> fst) (ij_bot_snapshots self)\<rparr>))"

subsection \<open>The journal interface\<close>

text \<open>The trait \<open>RuntimeJournal\<close> over the states \<open>'j\<close> of a backend; any operation may fail and any write may
  change the state, also when it fails. The in-memory journal is one instance.\<close>

record 'j RuntimeJournal =
  jn_append_event :: "EventWrite \<Rightarrow> 'j \<Rightarrow> (StorageError + unit) \<times> 'j"
  jn_append_signal :: "SignalWrite \<Rightarrow> 'j \<Rightarrow> (StorageError + unit) \<times> 'j"
  jn_append_intent :: "IntentWrite \<Rightarrow> 'j \<Rightarrow> (StorageError + unit) \<times> 'j"
  jn_append_risk_decision :: "RiskDecisionWrite \<Rightarrow> 'j \<Rightarrow> (StorageError + unit) \<times> 'j"
  jn_append_order :: "OrderWrite \<Rightarrow> 'j \<Rightarrow> (StorageError + unit) \<times> 'j"
  jn_append_fill :: "FillWrite \<Rightarrow> 'j \<Rightarrow> (StorageError + unit) \<times> 'j"
  jn_append_position :: "PositionWrite \<Rightarrow> 'j \<Rightarrow> (StorageError + unit) \<times> 'j"
  jn_append_cycle_trace :: "CycleTraceWrite \<Rightarrow> 'j \<Rightarrow> (StorageError + unit) \<times> 'j"
  jn_append_reconciliation :: "ReconciliationWrite \<Rightarrow> 'j \<Rightarrow> (StorageError + unit) \<times> 'j"
  jn_append_bot_event :: "BotEventWrite \<Rightarrow> 'j \<Rightarrow> (StorageError + unit) \<times> 'j"
  jn_append_service_event :: "ServiceEventWrite \<Rightarrow> 'j \<Rightarrow> (StorageError + unit) \<times> 'j"
  jn_upsert_bot_snapshot :: "BotSnapshotWrite \<Rightarrow> 'j \<Rightarrow> (StorageError + unit) \<times> 'j"
  jn_prune_bots_except :: "string list \<Rightarrow> 'j \<Rightarrow> (StorageError + unit) \<times> 'j"
  jn_recent_events :: "nat \<Rightarrow> 'j \<Rightarrow> StorageError + RuntimeEvent list"
  jn_recent_events_by_scope :: "string \<Rightarrow> nat \<Rightarrow> 'j \<Rightarrow> StorageError + RuntimeEvent list"
  jn_recent_events_for_entity :: "string \<Rightarrow> nat \<Rightarrow> 'j \<Rightarrow> StorageError + RuntimeEvent list"
  jn_recent_events_by_scope_and_entity :: "string \<Rightarrow> string \<Rightarrow> nat \<Rightarrow> 'j \<Rightarrow> StorageError + RuntimeEvent list"
  jn_recent_signals :: "nat \<Rightarrow> 'j \<Rightarrow> StorageError + SignalRecord list"
  jn_recent_intents :: "nat \<Rightarrow> 'j \<Rightarrow> StorageError + IntentRecord list"
  jn_recent_risk_decisions :: "nat \<Rightarrow> 'j \<Rightarrow> StorageError + RiskDecisionRecord list"
  jn_recent_orders :: "nat \<Rightarrow> 'j \<Rightarrow> StorageError + OrderRecord list"
  jn_recent_orders_for_bot :: "string \<Rightarrow> nat \<Rightarrow> 'j \<Rightarrow> StorageError + OrderRecord list"
  jn_orders_by_client_order_id :: "string \<Rightarrow> 'j \<Rightarrow> StorageError + OrderRecord list"
  jn_recent_fills :: "nat \<Rightarrow> 'j \<Rightarrow> StorageError + FillRecord list"
  jn_recent_fills_for_bot :: "string \<Rightarrow> nat \<Rightarrow> 'j \<Rightarrow> StorageError + FillRecord list"
  jn_recent_positions :: "nat \<Rightarrow> 'j \<Rightarrow> StorageError + PositionRecord list"
  jn_recent_positions_for_bot :: "string \<Rightarrow> nat \<Rightarrow> 'j \<Rightarrow> StorageError + PositionRecord list"
  jn_recent_cycle_traces_for_bot :: "string \<Rightarrow> string option \<Rightarrow> string option \<Rightarrow> string option \<Rightarrow> string option \<Rightarrow> nat \<Rightarrow> 'j \<Rightarrow> StorageError + CycleTraceRecord list"
  jn_cycle_trace_by_id :: "string \<Rightarrow> 'j \<Rightarrow> StorageError + CycleTraceRecord option"
  jn_latest_position_for_bot :: "string \<Rightarrow> 'j \<Rightarrow> StorageError + PositionRecord option"
  jn_latest_position_for_lane :: "string \<Rightarrow> string \<Rightarrow> 'j \<Rightarrow> StorageError + PositionRecord option"
  jn_recent_reconciliations :: "nat \<Rightarrow> 'j \<Rightarrow> StorageError + ReconciliationRecord list"
  jn_recent_reconciliations_for_bot :: "string \<Rightarrow> nat \<Rightarrow> 'j \<Rightarrow> StorageError + ReconciliationRecord list"
  jn_latest_reconciliation_for_bot :: "string \<Rightarrow> 'j \<Rightarrow> StorageError + ReconciliationRecord option"
  jn_latest_reconciliation_for_lane :: "string \<Rightarrow> string \<Rightarrow> 'j \<Rightarrow> StorageError + ReconciliationRecord option"
  jn_recent_bot_events :: "nat \<Rightarrow> 'j \<Rightarrow> StorageError + BotEventRecord list"
  jn_recent_service_events :: "nat \<Rightarrow> 'j \<Rightarrow> StorageError + ServiceEventRecord list"
  jn_load_bot_snapshots :: "'j \<Rightarrow> StorageError + BotSnapshot list"

definition in_memory_journal :: "int \<Rightarrow> InMemoryRuntimeJournal RuntimeJournal" where
  "in_memory_journal now_ms =
     \<lparr>jn_append_event = append_event now_ms, jn_append_signal = append_signal now_ms,
      jn_append_intent = append_intent now_ms, jn_append_risk_decision = append_risk_decision now_ms,
      jn_append_order = append_order now_ms, jn_append_fill = append_fill now_ms,
      jn_append_position = append_position now_ms, jn_append_cycle_trace = append_cycle_trace now_ms,
      jn_append_reconciliation = append_reconciliation now_ms,
      jn_append_bot_event = append_bot_event now_ms,
      jn_append_service_event = append_service_event now_ms,
      jn_upsert_bot_snapshot = upsert_bot_snapshot now_ms, jn_prune_bots_except = prune_bots_except,
      jn_recent_events = recent_events, jn_recent_events_by_scope = recent_events_by_scope,
      jn_recent_events_for_entity = recent_events_for_entity,
      jn_recent_events_by_scope_and_entity = recent_events_by_scope_and_entity,
      jn_recent_signals = recent_signals, jn_recent_intents = recent_intents,
      jn_recent_risk_decisions = recent_risk_decisions, jn_recent_orders = recent_orders,
      jn_recent_orders_for_bot = recent_orders_for_bot,
      jn_orders_by_client_order_id = orders_by_client_order_id, jn_recent_fills = recent_fills,
      jn_recent_fills_for_bot = recent_fills_for_bot, jn_recent_positions = recent_positions,
      jn_recent_positions_for_bot = recent_positions_for_bot,
      jn_recent_cycle_traces_for_bot = recent_cycle_traces_for_bot,
      jn_cycle_trace_by_id = cycle_trace_by_id, jn_latest_position_for_bot = latest_position_for_bot,
      jn_latest_position_for_lane = journal_latest_position_for_lane,
      jn_recent_reconciliations = recent_reconciliations,
      jn_recent_reconciliations_for_bot = recent_reconciliations_for_bot,
      jn_latest_reconciliation_for_bot = latest_reconciliation_for_bot,
      jn_latest_reconciliation_for_lane = latest_reconciliation_for_lane,
      jn_recent_bot_events = recent_bot_events, jn_recent_service_events = recent_service_events,
      jn_load_bot_snapshots = load_bot_snapshots\<rparr>"

subsection \<open>Lemmas on records\<close>

lemma recent_records_all: "length rs \<le> limit \<Longrightarrow> recent_records limit rs = rs"
  by (auto simp: recent_records_def)

lemma recent_records_length: "length (recent_records limit rs) = min limit (length rs)"
  by (auto simp: recent_records_def)

lemma recent_records_append: "0 < limit \<Longrightarrow> recent_records limit (rs @ [r]) = recent_records (limit - 1) rs @ [r]"
  by (cases "length rs \<le> limit - 1") (auto simp: recent_records_def Suc_diff_le)

definition ids_ok :: "('r \<Rightarrow> int) \<Rightarrow> 'r list \<Rightarrow> bool" where
  "ids_ok id_of rs \<longleftrightarrow> sorted_wrt (\<lambda>a b. id_of a < id_of b \<or> id_of b = i64_max) rs
     \<and> (\<forall>r \<in> set rs. 1 \<le> id_of r \<and> id_of r \<le> i64_max)"

lemma ids_ok_Nil [simp]: "ids_ok id_of []"
  by (simp add: ids_ok_def)

lemma ids_ok_filter: "ids_ok id_of rs \<Longrightarrow> ids_ok id_of (filter P rs)"
  by (auto simp: ids_ok_def sorted_wrt_filter)

lemma ids_ok_le_last: "ids_ok id_of rs \<Longrightarrow> a \<in> set rs \<Longrightarrow> id_of a \<le> id_of (last rs)"
  by (induction rs rule: rev_induct) (force simp: ids_ok_def sorted_wrt_append)+

lemma next_record_id_range:
  assumes "ids_ok id_of rs"
  shows "1 \<le> next_record_id id_of rs" "next_record_id id_of rs \<le> i64_max"
    "a \<in> set rs \<Longrightarrow> id_of a < next_record_id id_of rs \<or> next_record_id id_of rs = i64_max"
proof -
  have last: "rs \<noteq> [] \<Longrightarrow> 1 \<le> id_of (last rs) \<and> id_of (last rs) \<le> i64_max"
    using assms by (simp add: ids_ok_def)
  then show "1 \<le> next_record_id id_of rs" "next_record_id id_of rs \<le> i64_max"
    by (auto simp: next_record_id_def sat_i64_def i64_max_def i64_min_def)
  assume a: "a \<in> set rs"
  then show "id_of a < next_record_id id_of rs \<or> next_record_id id_of rs = i64_max"
    using last ids_ok_le_last [OF assms a]
    by (auto simp: next_record_id_def sat_i64_def i64_max_def i64_min_def)
qed

text \<open>What the logs rely on of the records they store: a record carries the id it is built with.\<close>

locale identified_records =
  fixes id_of :: "'r \<Rightarrow> int" and mk :: "int \<Rightarrow> int \<Rightarrow> 'w \<Rightarrow> 'r"
  assumes id_of_mk: "id_of (mk rid now_ms w) = rid"
begin

lemma push_ids: "ids_ok id_of rs \<Longrightarrow> ids_ok id_of (push_record id_of mk now_ms w rs)"
  using next_record_id_range [of id_of rs]
  by (auto simp: push_record_def ids_ok_def sorted_wrt_append id_of_mk)

lemma push_key:
  assumes key: "\<And>rid. key (mk rid now_ms w) = k" and rs: "distinct (map key rs)" "k \<notin> key ` set rs"
  shows "distinct (map key (push_record id_of mk now_ms w rs))"
  using rs by (simp add: push_record_def key)

end

interpretation events: identified_records re_id event_record
  by unfold_locales (simp add: event_record_def)
interpretation signals: identified_records sr_id signal_record
  by unfold_locales (simp add: signal_record_def)
interpretation intents: identified_records ir_id intent_record
  by unfold_locales (simp add: intent_record_def)
interpretation risk_decisions: identified_records rdr_id risk_decision_record
  by unfold_locales (simp add: risk_decision_record_def)
interpretation orders: identified_records or_id order_record
  by unfold_locales (simp add: order_record_def)
interpretation fills: identified_records fr_id fill_record
  by unfold_locales (simp add: fill_record_def)
interpretation positions: identified_records pr_id position_record
  by unfold_locales (simp add: position_record_def)
interpretation cycle_traces: identified_records ctr_id cycle_trace_record
  by unfold_locales (simp add: cycle_trace_record_def)
interpretation reconciliations: identified_records rr_id reconciliation_record
  by unfold_locales (simp add: reconciliation_record_def)
interpretation bot_events: identified_records ber_id bot_event_record
  by unfold_locales (simp add: bot_event_record_def)
interpretation service_events: identified_records ser_id service_event_record
  by unfold_locales (simp add: service_event_record_def)

lemmas push_ids = events.push_ids signals.push_ids intents.push_ids risk_decisions.push_ids
  orders.push_ids fills.push_ids positions.push_ids cycle_traces.push_ids reconciliations.push_ids
  bot_events.push_ids service_events.push_ids

subsection \<open>The invariant of the journal\<close>

definition order_key :: "OrderRecord \<Rightarrow> string \<times> string option \<times> string" where
  "order_key r = (or_bot_id r, or_symbol r, or_client_order_id r)"

definition order_write_key :: "OrderWrite \<Rightarrow> string \<times> string option \<times> string" where
  "order_write_key w = (ow_bot_id w, Some (ow_symbol w), ow_client_order_id w)"

definition fill_key :: "FillRecord \<Rightarrow> string \<times> string option \<times> string" where
  "fill_key r = (fr_bot_id r, fr_symbol r, fr_client_order_id r)"

definition fill_write_key :: "FillWrite \<Rightarrow> string \<times> string option \<times> string" where
  "fill_write_key w = (fw_bot_id w, Some (fw_symbol w), fw_client_order_id w)"

lemma order_exists_iff: "order_exists w rs \<longleftrightarrow> order_write_key w \<in> order_key ` set rs"
  unfolding order_exists_def order_key_def order_write_key_def image_iff by (simp add: eq_commute)

lemma fill_exists_iff: "fill_exists w rs \<longleftrightarrow> fill_write_key w \<in> fill_key ` set rs"
  unfolding fill_exists_def fill_key_def fill_write_key_def image_iff by (simp add: eq_commute)

lemma order_key_record [simp]: "order_key (order_record i now_ms w) = order_write_key w"
  by (simp add: order_key_def order_write_key_def order_record_def)

lemma fill_key_record [simp]: "fill_key (fill_record i now_ms w) = fill_write_key w"
  by (simp add: fill_key_def fill_write_key_def fill_record_def)

lemma trace_id_record [simp]: "ctr_trace_id (cycle_trace_record i now_ms w) = ctw_trace_id w"
  by (simp add: cycle_trace_record_def)

definition logs_ok :: "InMemoryRuntimeJournal \<Rightarrow> bool" where
  "logs_ok j \<longleftrightarrow> ids_ok re_id (ij_events j) \<and> ids_ok sr_id (ij_signals j) \<and> ids_ok ir_id (ij_intents j)
     \<and> ids_ok rdr_id (ij_risk_decisions j) \<and> ids_ok or_id (ij_orders j) \<and> ids_ok fr_id (ij_fills j)
     \<and> ids_ok pr_id (ij_positions j) \<and> ids_ok ctr_id (ij_cycle_traces j)
     \<and> ids_ok rr_id (ij_reconciliations j) \<and> ids_ok ber_id (ij_bot_events j)
     \<and> ids_ok ser_id (ij_service_events j)"

definition snapshots_ok :: "(string, BotSnapshot) hmap \<Rightarrow> bool" where
  "snapshots_ok m \<longleftrightarrow> (\<forall>(k, s) \<in> set m. bs_bot_id s = k)"

definition keys_ok :: "InMemoryRuntimeJournal \<Rightarrow> bool" where
  "keys_ok j \<longleftrightarrow> distinct (map order_key (ij_orders j)) \<and> distinct (map fill_key (ij_fills j))
     \<and> distinct (map ctr_trace_id (ij_cycle_traces j))
     \<and> hm_wf (ij_bot_snapshots j) \<and> snapshots_ok (ij_bot_snapshots j)"

definition journal_wf :: "InMemoryRuntimeJournal \<Rightarrow> bool" where
  "journal_wf j \<longleftrightarrow> logs_ok j \<and> keys_ok j"

inductive journal_step :: "InMemoryRuntimeJournal \<Rightarrow> InMemoryRuntimeJournal \<Rightarrow> bool" where
  "journal_step j (snd (append_event now_ms event j))"
| "journal_step j (snd (append_signal now_ms signal j))"
| "journal_step j (snd (append_intent now_ms intent j))"
| "journal_step j (snd (append_risk_decision now_ms decision j))"
| "journal_step j (snd (append_order now_ms order j))"
| "journal_step j (snd (append_fill now_ms fill j))"
| "journal_step j (snd (append_position now_ms position j))"
| "journal_step j (snd (append_cycle_trace now_ms trace j))"
| "journal_step j (snd (append_reconciliation now_ms record j))"
| "journal_step j (snd (append_bot_event now_ms bot_event j))"
| "journal_step j (snd (append_service_event now_ms service_event j))"
| "journal_step j (snd (upsert_bot_snapshot now_ms snapshot j))"
| "journal_step j (snd (prune_bots_except active_bot_ids j))"

inductive journal_reachable :: "InMemoryRuntimeJournal \<Rightarrow> bool" where
  "journal_reachable InMemoryRuntimeJournal_default"
| "journal_reachable j \<Longrightarrow> journal_step j j' \<Longrightarrow> journal_reachable j'"

lemmas append_defs = append_event_def append_signal_def append_intent_def append_risk_decision_def
  append_order_def append_fill_def append_position_def append_cycle_trace_def append_reconciliation_def
  append_bot_event_def append_service_event_def upsert_bot_snapshot_def

lemma default_ok: "logs_ok InMemoryRuntimeJournal_default" "keys_ok InMemoryRuntimeJournal_default"
  by (simp_all add: logs_ok_def keys_ok_def snapshots_ok_def InMemoryRuntimeJournal_default_def hm_wf_def)

lemma step_logs_ok:
  assumes "journal_step j j'" "logs_ok j" shows "logs_ok j'"
  using assms
  by (cases rule: journal_step.cases)
    (simp_all add: append_defs logs_ok_def push_ids prune_bots_except_def Let_def ids_ok_filter)

lemma hm_wf_filter: "hm_wf m \<Longrightarrow> hm_wf (filter P m)"
  by (simp add: hm_wf_def distinct_map_filter)

lemma snapshots_ok_insert: "snapshots_ok m \<Longrightarrow> bs_bot_id s = k \<Longrightarrow> snapshots_ok (hm_insert k s m)"
  using set_hm_insert [of k s m] by (auto simp: snapshots_ok_def)

lemma snapshots_ok_filter: "snapshots_ok m \<Longrightarrow> snapshots_ok (filter P m)"
  by (auto simp: snapshots_ok_def)

lemma step_keys_ok:
  assumes "journal_step j j'" "keys_ok j" shows "keys_ok j'"
  using assms
  by (cases rule: journal_step.cases)
    (auto simp: append_defs keys_ok_def prune_bots_except_def Let_def distinct_map_filter hm_wf_filter hm_wf_insert
      order_exists_iff fill_exists_iff push_record_def snapshots_ok_insert snapshots_ok_filter)

text \<open>C36: Every journal reached from an empty one by appends, snapshot upserts and prunings is well
  formed: in each of its eleven logs the ids are positive, fit an \<open>i64\<close> and increase strictly (until
  they saturate), no two orders or fills share bot, symbol and client order id, no two cycle traces
  share a trace id, and each bot has at most one snapshot, stored under its own id.\<close>

theorem reachable_journal_invariant: "journal_reachable j \<Longrightarrow> journal_wf j"
proof (induction rule: journal_reachable.induct)
  case 1
  show ?case by (simp add: journal_wf_def default_ok)
next
  case 2
  then show ?case by (simp add: journal_wf_def step_logs_ok step_keys_ok)
qed

definition demo_order_write :: "string \<Rightarrow> OrderWrite" where
  "demo_order_write coid = \<lparr>ow_bot_id = ''bot-a'', ow_symbol = ''BTCUSDT'', ow_trace_id = None,
     ow_bar_timestamp = None, ow_client_order_id = coid, ow_intent = ''open_long'',
     ow_status = ''accepted'', ow_price = 1, ow_quantity = 1\<rparr>"

definition demo_journal :: InMemoryRuntimeJournal where
  "demo_journal = snd (append_order 7 (demo_order_write ''c1'') InMemoryRuntimeJournal_default)"

lemma demo_journal_reachable: "journal_reachable demo_journal"
  unfolding demo_journal_def
  by (rule journal_reachable.intros(2) [OF journal_reachable.intros(1) journal_step.intros(5)])

lemma demo_journal_orders: "length (ij_orders demo_journal) = 1"
  by (simp add: demo_journal_def append_order_def order_exists_def InMemoryRuntimeJournal_default_def push_record_def)

theorem reachable_journal_invariant_witness: "journal_wf demo_journal \<and> length (ij_orders demo_journal) = 1"
  using reachable_journal_invariant [OF demo_journal_reachable] demo_journal_orders by simp

subsection \<open>Order writes are idempotent\<close>

fun append_orders :: "(int \<times> OrderWrite) list \<Rightarrow> InMemoryRuntimeJournal \<Rightarrow> InMemoryRuntimeJournal" where
  "append_orders [] j = j"
| "append_orders ((now_ms, w) # ws) j = append_orders ws (snd (append_order now_ms w j))"

definition first_write :: "(int \<times> OrderWrite) list \<Rightarrow> OrderRecord \<Rightarrow> (int \<times> OrderWrite) option" where
  "first_write ws r = find (\<lambda>(now_ms, w). order_write_key w = order_key r) ws"

text \<open>\<open>extends_by ws old added\<close>: the added orders are those the writes bring to the old ones.\<close>

definition extends_by :: "(int \<times> OrderWrite) list \<Rightarrow> OrderRecord list \<Rightarrow> OrderRecord list \<Rightarrow> bool" where
  "extends_by ws old added \<longleftrightarrow>
     order_key ` set (old @ added) = order_key ` set old \<union> (order_write_key \<circ> snd) ` set ws
   \<and> (\<forall>r \<in> set added. order_key r \<notin> order_key ` set old
        \<and> (\<exists>now_ms w. first_write ws r = Some (now_ms, w) \<and> r = order_record (or_id r) now_ms w))"

lemma extends_by_known:
  assumes known: "order_write_key w \<in> order_key ` set old" and ext: "extends_by ws old added"
  shows "extends_by ((now_ms, w) # ws) old added"
proof -
  have "first_write ((now_ms, w) # ws) r = first_write ws r" if "r \<in> set added" for r
  proof -
    have "order_key r \<noteq> order_write_key w" using that known ext unfolding extends_by_def by auto
    then show ?thesis by (simp add: first_write_def)
  qed
  then show ?thesis using known ext unfolding extends_by_def by auto
qed

lemma extends_by_new:
  assumes fresh: "order_write_key w \<notin> order_key ` set old" and ext: "extends_by ws (old @ [order_record rid now_ms w]) added"
  shows "extends_by ((now_ms, w) # ws) old (order_record rid now_ms w # added)"
proof -
  have first: "first_write ((now_ms, w) # ws) r = first_write ws r" if "r \<in> set added" for r
  proof -
    have "order_key r \<noteq> order_write_key w" using that ext unfolding extends_by_def by auto
    then show ?thesis by (simp add: first_write_def)
  qed
  have head: "first_write ((now_ms, w) # ws) (order_record rid now_ms w) = Some (now_ms, w)"
    by (simp add: first_write_def)
  show ?thesis using fresh ext first head unfolding extends_by_def by (auto simp: orders.id_of_mk)
qed

lemma append_orders_extend:
  "\<exists>added. ij_orders (append_orders ws j) = ij_orders j @ added \<and> extends_by ws (ij_orders j) added"
proof (induction ws j rule: append_orders.induct)
  case (1 j)
  show ?case by (simp add: extends_by_def)
next
  case (2 now_ms w ws j)
  show ?case
  proof (cases "order_exists w (ij_orders j)")
    case True
    then have "snd (append_order now_ms w j) = j" by (simp add: append_order_def)
    then show ?thesis using 2 extends_by_known True by (fastforce simp: order_exists_iff)
  next
    case False
    then have more: "ij_orders (snd (append_order now_ms w j))
        = ij_orders j @ [order_record (next_record_id or_id (ij_orders j)) now_ms w]"
      by (simp add: append_order_def push_record_def)
    from 2 obtain added where "ij_orders (append_orders ((now_ms, w) # ws) j)
          = ij_orders (snd (append_order now_ms w j)) @ added"
        "extends_by ws (ij_orders (snd (append_order now_ms w j))) added" by auto
    then show ?thesis using extends_by_new [of w "ij_orders j"] False
      unfolding more order_exists_iff by auto
  qed
qed

lemma append_orders_keys: "keys_ok j \<Longrightarrow> keys_ok (append_orders ws j)"
  by (induction ws j rule: append_orders.induct) (auto intro: step_keys_ok journal_step.intros)

text \<open>Writing orders is idempotent. After any sequence of order writes, with retries in any order, the
  journal keeps the orders it had, in place, and has exactly one order for every key (bot, symbol,
  client order id) that was written: the first write under the key wins, later ones change nothing.\<close>

theorem orders_written_once:
  assumes "journal_reachable j"
  shows "\<exists>new. ij_orders (append_orders ws j) = ij_orders j @ new
     \<and> distinct (map order_key (ij_orders j @ new))
     \<and> order_key ` set (ij_orders j @ new) = order_key ` set (ij_orders j) \<union> (order_write_key \<circ> snd) ` set ws
     \<and> (\<forall>r \<in> set new. order_key r \<notin> order_key ` set (ij_orders j)
          \<and> (\<exists>now_ms w. first_write ws r = Some (now_ms, w) \<and> r = order_record (or_id r) now_ms w))"
proof -
  have "keys_ok j" using assms
    by induction (auto intro: step_keys_ok default_ok)
  then have "distinct (map order_key (ij_orders (append_orders ws j)))"
    using append_orders_keys [of j ws] by (simp add: keys_ok_def)
  then show ?thesis using append_orders_extend [of ws j] unfolding extends_by_def by auto
qed

theorem orders_written_once_witness:
  "\<exists>new. ij_orders (append_orders [(8, demo_order_write ''c1''), (9, demo_order_write ''c2'')] demo_journal)
       = ij_orders demo_journal @ new \<and> distinct (map order_key (ij_orders demo_journal @ new))
     \<and> order_key ` set (ij_orders demo_journal @ new)
       = order_key ` set (ij_orders demo_journal) \<union> {order_write_key (demo_order_write ''c1''), order_write_key (demo_order_write ''c2'')}"
  using orders_written_once [OF demo_journal_reachable,
      of "[(8, demo_order_write ''c1''), (9, demo_order_write ''c2'')]"] by auto

subsection \<open>Queries after an append\<close>

lemma find_rev_snoc: "find P (rev (xs @ [x])) = (if P x then Some x else find P (rev xs))"
  by simp

text \<open>The latest position and the latest reconciliation of a lane are those appended last for
  exactly that bot and symbol: an append answers the next query for its own lane with the sanitised
  record, and leaves the answer for every other lane as it was.\<close>

theorem latest_after_append:
  "journal_latest_position_for_lane bot_id symbol (snd (append_position now_ms w j)) =
     (if pw_bot_id w = bot_id \<and> pw_symbol w = symbol
      then Inr (Some (position_record (next_record_id pr_id (ij_positions j)) now_ms w))
      else journal_latest_position_for_lane bot_id symbol j)
   \<and> latest_reconciliation_for_lane bot_id symbol (snd (append_reconciliation now_ms w' j)) =
     (if rw_bot_id w' = bot_id \<and> rw_symbol w' = symbol
      then Inr (Some (reconciliation_record (next_record_id rr_id (ij_reconciliations j)) now_ms w'))
      else latest_reconciliation_for_lane bot_id symbol j)"
proof -
  have keys: "pr_bot_id (position_record i now_ms w) = pw_bot_id w" "pr_symbol (position_record i now_ms w) = Some (pw_symbol w)"
    "rr_bot_id (reconciliation_record i now_ms w') = rw_bot_id w'" "rr_symbol (reconciliation_record i now_ms w') = rw_symbol w'" for i
    by (simp_all add: position_record_def reconciliation_record_def)
  show ?thesis
    unfolding journal_latest_position_for_lane_def append_position_def latest_reconciliation_for_lane_def
      append_reconciliation_def push_record_def
    by (simp add: keys)
qed

subsection \<open>Pruning\<close>

lemma filter_active:
  "filter (\<lambda>r. key r = b) (filter ((\<lambda>b. b \<in> A) \<circ> key) rs) = (if b \<in> A then filter (\<lambda>r. key r = b) rs else [])"
  by (induction rs) auto

lemma filter_active_and:
  "filter (\<lambda>r. key r = b \<and> Q r) (filter ((\<lambda>b. b \<in> A) \<circ> key) rs) = (if b \<in> A then filter (\<lambda>r. key r = b \<and> Q r) rs else [])"
  by (induction rs) auto

definition if_active :: "string list \<Rightarrow> string \<Rightarrow> 'e + 'r list \<Rightarrow> 'e + 'r list" where
  "if_active active_bot_ids bot_id answer = (if bot_id \<in> set active_bot_ids then answer else Inr [])"

text \<open>Pruning forgets exactly the bots that are not configured: every query by bot answers for a
  configured bot as it did before and for any other bot with nothing, runtime events without an
  entity are kept, and service events are untouched.\<close>

theorem prune_exact:
  "let j' = snd (prune_bots_except active_bot_ids j)
   in recent_orders_for_bot bot_id limit j' = if_active active_bot_ids bot_id (recent_orders_for_bot bot_id limit j)
    \<and> recent_fills_for_bot bot_id limit j' = if_active active_bot_ids bot_id (recent_fills_for_bot bot_id limit j)
    \<and> recent_positions_for_bot bot_id limit j' = if_active active_bot_ids bot_id (recent_positions_for_bot bot_id limit j)
    \<and> recent_reconciliations_for_bot bot_id limit j' = if_active active_bot_ids bot_id (recent_reconciliations_for_bot bot_id limit j)
    \<and> recent_cycle_traces_for_bot bot_id symbol phase outcome bar_time limit j'
      = if_active active_bot_ids bot_id (recent_cycle_traces_for_bot bot_id symbol phase outcome bar_time limit j)
    \<and> recent_events_for_entity bot_id limit j' = if_active active_bot_ids bot_id (recent_events_for_entity bot_id limit j)
    \<and> filter (\<lambda>e. re_entity_id e = None) (ij_events j') = filter (\<lambda>e. re_entity_id e = None) (ij_events j)
    \<and> hm_get (ij_bot_snapshots j') bot_id = (if bot_id \<in> set active_bot_ids then hm_get (ij_bot_snapshots j) bot_id else None)
    \<and> recent_service_events limit j' = recent_service_events limit j"
proof -
  have entity: "filter (\<lambda>e. re_entity_id e = Some bot_id) (filter (event_kept active_bot_ids) es)
      = (if bot_id \<in> set active_bot_ids then filter (\<lambda>e. re_entity_id e = Some bot_id) es else [])" for es
    by (induction es) (auto simp: event_kept_def)
  have global: "filter (\<lambda>e. re_entity_id e = None) (filter (event_kept active_bot_ids) es)
      = filter (\<lambda>e. re_entity_id e = None) es" for es
    by (induction es) (auto simp: event_kept_def split: option.splits)
  have snapshots: "hm_get (filter ((\<lambda>b. b \<in> set active_bot_ids) \<circ> fst) m) bot_id
      = (if bot_id \<in> set active_bot_ids then hm_get m bot_id else None)" for m :: "(string, BotSnapshot) hmap"
    by (induction m) (auto simp: hm_get_def)
  show ?thesis
    unfolding Let_def
    by (intro conjI) (simp_all add: prune_bots_except_def recent_orders_for_bot_def recent_fills_for_bot_def
        recent_positions_for_bot_def recent_reconciliations_for_bot_def recent_cycle_traces_for_bot_def
        recent_events_for_entity_def recent_service_events_def filter_active filter_active_and entity global
        snapshots recent_records_def if_active_def Let_def del: filter_filter)
qed

lemma monotonic_clock:
  "last_ms \<le> monotonic_timestamp_ms last_ms raw" "raw = Some t \<Longrightarrow> t \<le> monotonic_timestamp_ms last_ms raw"
  by (cases raw; auto)+

end
