(* ===== verification/ReadModels.thy ===== *)
theory ReadModels
  imports Storage
begin

section \<open>Operator read models (openticker-storage/src/operator_read_models.rs)\<close>

text \<open>
  The bounded in-memory projections that answer the operator's queries: global feeds, feeds by bot,
  scope and entity, and the latest position and reconciliation by bot and lane. The abstract
  specification is the history of the records ingested (\<open>OperatorHistory\<close>): every query is a
  window of a filter of that history. The lemmas show that the projections implement this
  specification after any sequence of ingests and writes, and that a bootstrapped projection answers
  as the journal does within its capacity. A read-write lock makes every operation atomic.
\<close>

subsection \<open>Bounded feeds and indexes\<close>

definition GLOBAL_FEED_CAPACITY :: nat where "GLOBAL_FEED_CAPACITY = 2048"
definition BOT_FEED_CAPACITY :: nat where "BOT_FEED_CAPACITY = 512"
definition ENTITY_TIMELINE_CAPACITY :: nat where "ENTITY_TIMELINE_CAPACITY = 512"

definition next_id :: "int \<Rightarrow> int \<times> int" where
  "next_id counter = (counter, sat_i64 (counter + 1))"

function pop_excess :: "nat \<Rightarrow> 'r list \<Rightarrow> 'r list" where
  "pop_excess capacity records =
     (if capacity < length records then pop_excess capacity (tl records) else records)"
  by pat_completeness auto
termination by (relation "measure (\<lambda>(_, records). length records)") auto

declare pop_excess.simps [simp del]

definition push_bounded :: "nat \<Rightarrow> 'r \<Rightarrow> 'r list \<Rightarrow> 'r list" where
  "push_bounded capacity record records = pop_excess capacity (records @ [record])"

definition or_empty :: "'a list option \<Rightarrow> 'a list" where
  "or_empty x = (case x of Some xs \<Rightarrow> xs | None \<Rightarrow> [])"

definition push_to_index :: "nat \<Rightarrow> 'k \<Rightarrow> 'r \<Rightarrow> ('k, 'r list) hmap \<Rightarrow> ('k, 'r list) hmap" where
  "push_to_index capacity key record index =
     hm_insert key (push_bounded capacity record (or_empty (hm_get index key))) index"

definition recent_from_deque :: "nat \<Rightarrow> 'r list \<Rightarrow> 'r list" where
  "recent_from_deque limit records = (if limit = 0 then [] else drop (length records - limit) records)"

definition upsert_latest_by_id :: "('r \<Rightarrow> int) \<Rightarrow> 'k \<Rightarrow> 'r \<Rightarrow> ('k, 'r) hmap \<Rightarrow> ('k, 'r) hmap" where
  "upsert_latest_by_id id_of key v m =
     (if (case hm_get m key of None \<Rightarrow> True | Some current \<Rightarrow> id_of current \<le> id_of v)
      then hm_insert key v m else m)"

subsection \<open>State\<close>

record OperatorReadModelsState =
  rm_events :: "RuntimeEvent list"
  rm_events_by_scope :: "(string, RuntimeEvent list) hmap"
  rm_events_by_entity :: "(string, RuntimeEvent list) hmap"
  rm_signals :: "SignalRecord list"
  rm_intents :: "IntentRecord list"
  rm_risk_decisions :: "RiskDecisionRecord list"
  rm_orders :: "OrderRecord list"
  rm_orders_by_bot :: "(string, OrderRecord list) hmap"
  rm_fills :: "FillRecord list"
  rm_fills_by_bot :: "(string, FillRecord list) hmap"
  rm_positions :: "PositionRecord list"
  rm_positions_by_bot :: "(string, PositionRecord list) hmap"
  rm_latest_position_by_bot :: "(string, PositionRecord) hmap"
  rm_latest_position_by_lane :: "(string \<times> string, PositionRecord) hmap"
  rm_reconciliations :: "ReconciliationRecord list"
  rm_reconciliations_by_bot :: "(string, ReconciliationRecord list) hmap"
  rm_latest_reconciliation_by_bot :: "(string, ReconciliationRecord) hmap"
  rm_latest_reconciliation_by_lane :: "(string \<times> string, ReconciliationRecord) hmap"
  rm_next_event_id :: int
  rm_next_signal_id :: int
  rm_next_intent_id :: int
  rm_next_risk_decision_id :: int
  rm_next_order_id :: int
  rm_next_fill_id :: int
  rm_next_position_id :: int
  rm_next_reconciliation_id :: int

definition OperatorReadModelsState_default :: OperatorReadModelsState where
  "OperatorReadModelsState_default = \<lparr>rm_events = [], rm_events_by_scope = [], rm_events_by_entity = [],
     rm_signals = [], rm_intents = [], rm_risk_decisions = [], rm_orders = [], rm_orders_by_bot = [],
     rm_fills = [], rm_fills_by_bot = [], rm_positions = [], rm_positions_by_bot = [],
     rm_latest_position_by_bot = [], rm_latest_position_by_lane = [], rm_reconciliations = [],
     rm_reconciliations_by_bot = [], rm_latest_reconciliation_by_bot = [],
     rm_latest_reconciliation_by_lane = [], rm_next_event_id = 1, rm_next_signal_id = 1,
     rm_next_intent_id = 1, rm_next_risk_decision_id = 1, rm_next_order_id = 1, rm_next_fill_id = 1,
     rm_next_position_id = 1, rm_next_reconciliation_id = 1\<rparr>"

subsection \<open>Pushing\<close>

definition push_runtime_event :: "RuntimeEvent \<Rightarrow> OperatorReadModelsState \<Rightarrow> OperatorReadModelsState" where
  "push_runtime_event record self =
     (let self = self\<lparr>rm_events := push_bounded GLOBAL_FEED_CAPACITY record (rm_events self)\<rparr>;
          self = self\<lparr>rm_events_by_scope :=
            push_to_index GLOBAL_FEED_CAPACITY (re_scope record) record (rm_events_by_scope self)\<rparr>
      in case re_entity_id record of
           Some entity_id \<Rightarrow> self\<lparr>rm_events_by_entity :=
             push_to_index ENTITY_TIMELINE_CAPACITY entity_id record (rm_events_by_entity self)\<rparr>
         | None \<Rightarrow> self)"

definition push_signal :: "SignalRecord \<Rightarrow> OperatorReadModelsState \<Rightarrow> OperatorReadModelsState" where
  "push_signal record self = self\<lparr>rm_signals := push_bounded GLOBAL_FEED_CAPACITY record (rm_signals self)\<rparr>"

definition push_intent :: "IntentRecord \<Rightarrow> OperatorReadModelsState \<Rightarrow> OperatorReadModelsState" where
  "push_intent record self = self\<lparr>rm_intents := push_bounded GLOBAL_FEED_CAPACITY record (rm_intents self)\<rparr>"

definition push_risk_decision :: "RiskDecisionRecord \<Rightarrow> OperatorReadModelsState \<Rightarrow> OperatorReadModelsState" where
  "push_risk_decision record self =
     self\<lparr>rm_risk_decisions := push_bounded GLOBAL_FEED_CAPACITY record (rm_risk_decisions self)\<rparr>"

definition push_order :: "OrderRecord \<Rightarrow> OperatorReadModelsState \<Rightarrow> OperatorReadModelsState" where
  "push_order record self =
     self\<lparr>rm_orders := push_bounded GLOBAL_FEED_CAPACITY record (rm_orders self),
       rm_orders_by_bot := push_to_index BOT_FEED_CAPACITY (or_bot_id record) record (rm_orders_by_bot self)\<rparr>"

definition push_fill :: "FillRecord \<Rightarrow> OperatorReadModelsState \<Rightarrow> OperatorReadModelsState" where
  "push_fill record self =
     self\<lparr>rm_fills := push_bounded GLOBAL_FEED_CAPACITY record (rm_fills self),
       rm_fills_by_bot := push_to_index BOT_FEED_CAPACITY (fr_bot_id record) record (rm_fills_by_bot self)\<rparr>"

definition push_position :: "PositionRecord \<Rightarrow> OperatorReadModelsState \<Rightarrow> OperatorReadModelsState" where
  "push_position record self =
     (let self = self\<lparr>rm_positions := push_bounded GLOBAL_FEED_CAPACITY record (rm_positions self),
            rm_positions_by_bot := push_to_index BOT_FEED_CAPACITY (pr_bot_id record) record (rm_positions_by_bot self),
            rm_latest_position_by_bot :=
              upsert_latest_by_id pr_id (pr_bot_id record) record (rm_latest_position_by_bot self)\<rparr>
      in case pr_symbol record of
           Some symbol \<Rightarrow> self\<lparr>rm_latest_position_by_lane :=
             upsert_latest_by_id pr_id (pr_bot_id record, symbol) record (rm_latest_position_by_lane self)\<rparr>
         | None \<Rightarrow> self)"

definition push_reconciliation :: "ReconciliationRecord \<Rightarrow> OperatorReadModelsState \<Rightarrow> OperatorReadModelsState" where
  "push_reconciliation record self =
     self\<lparr>rm_reconciliations := push_bounded GLOBAL_FEED_CAPACITY record (rm_reconciliations self),
       rm_reconciliations_by_bot :=
         push_to_index BOT_FEED_CAPACITY (rr_bot_id record) record (rm_reconciliations_by_bot self),
       rm_latest_reconciliation_by_bot :=
         upsert_latest_by_id rr_id (rr_bot_id record) record (rm_latest_reconciliation_by_bot self),
       rm_latest_reconciliation_by_lane :=
         upsert_latest_by_id rr_id (rr_bot_id record, rr_symbol record) record (rm_latest_reconciliation_by_lane self)\<rparr>"

subsection \<open>Ingesting\<close>

definition ingest_runtime_event :: "RuntimeEvent \<Rightarrow> OperatorReadModelsState \<Rightarrow> OperatorReadModelsState" where
  "ingest_runtime_event record self = push_runtime_event record
     (self\<lparr>rm_next_event_id := max (rm_next_event_id self) (sat_i64 (re_id record + 1))\<rparr>)"

definition ingest_signal :: "SignalRecord \<Rightarrow> OperatorReadModelsState \<Rightarrow> OperatorReadModelsState" where
  "ingest_signal record self = push_signal record
     (self\<lparr>rm_next_signal_id := max (rm_next_signal_id self) (sat_i64 (sr_id record + 1))\<rparr>)"

definition ingest_intent :: "IntentRecord \<Rightarrow> OperatorReadModelsState \<Rightarrow> OperatorReadModelsState" where
  "ingest_intent record self = push_intent record
     (self\<lparr>rm_next_intent_id := max (rm_next_intent_id self) (sat_i64 (ir_id record + 1))\<rparr>)"

definition ingest_risk_decision :: "RiskDecisionRecord \<Rightarrow> OperatorReadModelsState \<Rightarrow> OperatorReadModelsState" where
  "ingest_risk_decision record self = push_risk_decision record
     (self\<lparr>rm_next_risk_decision_id := max (rm_next_risk_decision_id self) (sat_i64 (rdr_id record + 1))\<rparr>)"

definition ingest_order :: "OrderRecord \<Rightarrow> OperatorReadModelsState \<Rightarrow> OperatorReadModelsState" where
  "ingest_order record self = push_order record
     (self\<lparr>rm_next_order_id := max (rm_next_order_id self) (sat_i64 (or_id record + 1))\<rparr>)"

definition ingest_fill :: "FillRecord \<Rightarrow> OperatorReadModelsState \<Rightarrow> OperatorReadModelsState" where
  "ingest_fill record self = push_fill record
     (self\<lparr>rm_next_fill_id := max (rm_next_fill_id self) (sat_i64 (fr_id record + 1))\<rparr>)"

definition ingest_position :: "PositionRecord \<Rightarrow> OperatorReadModelsState \<Rightarrow> OperatorReadModelsState" where
  "ingest_position record self = push_position record
     (self\<lparr>rm_next_position_id := max (rm_next_position_id self) (sat_i64 (pr_id record + 1))\<rparr>)"

definition ingest_reconciliation :: "ReconciliationRecord \<Rightarrow> OperatorReadModelsState \<Rightarrow> OperatorReadModelsState" where
  "ingest_reconciliation record self = push_reconciliation record
     (self\<lparr>rm_next_reconciliation_id := max (rm_next_reconciliation_id self) (sat_i64 (rr_id record + 1))\<rparr>)"

definition ingest_reconciliations :: "ReconciliationRecord list \<Rightarrow> OperatorReadModelsState \<Rightarrow> OperatorReadModelsState" where
  "ingest_reconciliations records self = fold ingest_reconciliation records self"

definition bootstrap :: "'j RuntimeJournal \<Rightarrow> 'j \<Rightarrow> StorageError + OperatorReadModelsState" where
  "bootstrap jn j =
     (case jn_recent_events jn GLOBAL_FEED_CAPACITY j of Inl e \<Rightarrow> Inl e | Inr events \<Rightarrow>
      case jn_recent_signals jn GLOBAL_FEED_CAPACITY j of Inl e \<Rightarrow> Inl e | Inr signals \<Rightarrow>
      case jn_recent_intents jn GLOBAL_FEED_CAPACITY j of Inl e \<Rightarrow> Inl e | Inr intents \<Rightarrow>
      case jn_recent_risk_decisions jn GLOBAL_FEED_CAPACITY j of Inl e \<Rightarrow> Inl e | Inr risk_decisions \<Rightarrow>
      case jn_recent_orders jn GLOBAL_FEED_CAPACITY j of Inl e \<Rightarrow> Inl e | Inr orders \<Rightarrow>
      case jn_recent_fills jn GLOBAL_FEED_CAPACITY j of Inl e \<Rightarrow> Inl e | Inr fills \<Rightarrow>
      case jn_recent_positions jn GLOBAL_FEED_CAPACITY j of Inl e \<Rightarrow> Inl e | Inr positions \<Rightarrow>
      case jn_recent_reconciliations jn GLOBAL_FEED_CAPACITY j of Inl e \<Rightarrow> Inl e | Inr reconciliations \<Rightarrow>
        Inr (fold ingest_reconciliation reconciliations (fold ingest_position positions
          (fold ingest_fill fills (fold ingest_order orders (fold ingest_risk_decision risk_decisions
          (fold ingest_intent intents (fold ingest_signal signals
          (fold ingest_runtime_event events OperatorReadModelsState_default)))))))))"

subsection \<open>Recording writes\<close>

text \<open>Unlike the journal, the projection stores fees and positions as they are written.\<close>

definition raw_fill_record :: "int \<Rightarrow> int \<Rightarrow> FillWrite \<Rightarrow> FillRecord" where
  "raw_fill_record rid now_ms w =
     \<lparr>fr_id = rid, fr_bot_id = fw_bot_id w, fr_symbol = Some (fw_symbol w), fr_trace_id = fw_trace_id w,
      fr_bar_timestamp = fw_bar_timestamp w, fr_client_order_id = fw_client_order_id w, fr_price = fw_price w,
      fr_quantity = fw_quantity w, fr_fee_asset = fw_fee_asset w, fr_fee_amount = fw_fee_amount w,
      fr_fee_normalized_usd = fw_fee_normalized_usd w, fr_created_at_ms = now_ms\<rparr>"

definition raw_position_record :: "int \<Rightarrow> int \<Rightarrow> PositionWrite \<Rightarrow> PositionRecord" where
  "raw_position_record rid now_ms w =
     \<lparr>pr_id = rid, pr_bot_id = pw_bot_id w, pr_symbol = Some (pw_symbol w), pr_trace_id = pw_trace_id w,
      pr_bar_timestamp = pw_bar_timestamp w, pr_has_position = pw_has_position w, pr_quantity = pw_quantity w,
      pr_entry_price = pw_entry_price w, pr_realized_pnl_usd = pw_realized_pnl_usd w, pr_reason = pw_reason w,
      pr_created_at_ms = now_ms\<rparr>"

definition record_runtime_event_write :: "int \<Rightarrow> EventWrite \<Rightarrow> OperatorReadModelsState \<Rightarrow> OperatorReadModelsState" where
  "record_runtime_event_write now_ms w self =
     (let (rid, counter) = next_id (rm_next_event_id self) in
      push_runtime_event (event_record rid now_ms w) (self\<lparr>rm_next_event_id := counter\<rparr>))"

definition record_signal_write :: "int \<Rightarrow> SignalWrite \<Rightarrow> OperatorReadModelsState \<Rightarrow> OperatorReadModelsState" where
  "record_signal_write now_ms w self =
     (let (rid, counter) = next_id (rm_next_signal_id self) in
      push_signal (signal_record rid now_ms w) (self\<lparr>rm_next_signal_id := counter\<rparr>))"

definition record_intent_write :: "int \<Rightarrow> IntentWrite \<Rightarrow> OperatorReadModelsState \<Rightarrow> OperatorReadModelsState" where
  "record_intent_write now_ms w self =
     (let (rid, counter) = next_id (rm_next_intent_id self) in
      push_intent (intent_record rid now_ms w) (self\<lparr>rm_next_intent_id := counter\<rparr>))"

definition record_risk_decision_write :: "int \<Rightarrow> RiskDecisionWrite \<Rightarrow> OperatorReadModelsState \<Rightarrow> OperatorReadModelsState" where
  "record_risk_decision_write now_ms w self =
     (let (rid, counter) = next_id (rm_next_risk_decision_id self) in
      push_risk_decision (risk_decision_record rid now_ms w) (self\<lparr>rm_next_risk_decision_id := counter\<rparr>))"

definition record_order_write :: "int \<Rightarrow> OrderWrite \<Rightarrow> OperatorReadModelsState \<Rightarrow> OperatorReadModelsState" where
  "record_order_write now_ms w self =
     (let (rid, counter) = next_id (rm_next_order_id self) in
      push_order (order_record rid now_ms w) (self\<lparr>rm_next_order_id := counter\<rparr>))"

definition record_fill_write :: "int \<Rightarrow> FillWrite \<Rightarrow> OperatorReadModelsState \<Rightarrow> OperatorReadModelsState" where
  "record_fill_write now_ms w self =
     (let (rid, counter) = next_id (rm_next_fill_id self) in
      push_fill (raw_fill_record rid now_ms w) (self\<lparr>rm_next_fill_id := counter\<rparr>))"

definition record_position_write :: "int \<Rightarrow> PositionWrite \<Rightarrow> OperatorReadModelsState \<Rightarrow> OperatorReadModelsState" where
  "record_position_write now_ms w self =
     (let (rid, counter) = next_id (rm_next_position_id self) in
      push_position (raw_position_record rid now_ms w) (self\<lparr>rm_next_position_id := counter\<rparr>))"

definition record_reconciliation_write :: "int \<Rightarrow> ReconciliationWrite \<Rightarrow> OperatorReadModelsState \<Rightarrow> OperatorReadModelsState" where
  "record_reconciliation_write now_ms w self =
     (let (rid, counter) = next_id (rm_next_reconciliation_id self) in
      push_reconciliation (reconciliation_record rid now_ms w) (self\<lparr>rm_next_reconciliation_id := counter\<rparr>))"

subsection \<open>Queries\<close>

definition rm_recent_events :: "nat \<Rightarrow> OperatorReadModelsState \<Rightarrow> RuntimeEvent list" where
  "rm_recent_events limit self = recent_from_deque limit (rm_events self)"

definition rm_recent_events_by_scope :: "string \<Rightarrow> nat \<Rightarrow> OperatorReadModelsState \<Rightarrow> RuntimeEvent list" where
  "rm_recent_events_by_scope scope limit self =
     (case hm_get (rm_events_by_scope self) scope of None \<Rightarrow> [] | Some records \<Rightarrow> recent_from_deque limit records)"

definition rm_recent_events_for_entity :: "string \<Rightarrow> nat \<Rightarrow> OperatorReadModelsState \<Rightarrow> RuntimeEvent list" where
  "rm_recent_events_for_entity entity_id limit self =
     (case hm_get (rm_events_by_entity self) entity_id of None \<Rightarrow> [] | Some records \<Rightarrow> recent_from_deque limit records)"

definition rm_recent_signals :: "nat \<Rightarrow> OperatorReadModelsState \<Rightarrow> SignalRecord list" where
  "rm_recent_signals limit self = recent_from_deque limit (rm_signals self)"

definition rm_recent_intents :: "nat \<Rightarrow> OperatorReadModelsState \<Rightarrow> IntentRecord list" where
  "rm_recent_intents limit self = recent_from_deque limit (rm_intents self)"

definition rm_recent_risk_decisions :: "nat \<Rightarrow> OperatorReadModelsState \<Rightarrow> RiskDecisionRecord list" where
  "rm_recent_risk_decisions limit self = recent_from_deque limit (rm_risk_decisions self)"

definition rm_recent_orders :: "nat \<Rightarrow> OperatorReadModelsState \<Rightarrow> OrderRecord list" where
  "rm_recent_orders limit self = recent_from_deque limit (rm_orders self)"

definition rm_recent_orders_for_bot :: "string \<Rightarrow> nat \<Rightarrow> OperatorReadModelsState \<Rightarrow> OrderRecord list" where
  "rm_recent_orders_for_bot bot_id limit self =
     (case hm_get (rm_orders_by_bot self) bot_id of None \<Rightarrow> [] | Some records \<Rightarrow> recent_from_deque limit records)"

definition rm_recent_fills :: "nat \<Rightarrow> OperatorReadModelsState \<Rightarrow> FillRecord list" where
  "rm_recent_fills limit self = recent_from_deque limit (rm_fills self)"

definition rm_recent_fills_for_bot :: "string \<Rightarrow> nat \<Rightarrow> OperatorReadModelsState \<Rightarrow> FillRecord list" where
  "rm_recent_fills_for_bot bot_id limit self =
     (case hm_get (rm_fills_by_bot self) bot_id of None \<Rightarrow> [] | Some records \<Rightarrow> recent_from_deque limit records)"

definition rm_recent_positions :: "nat \<Rightarrow> OperatorReadModelsState \<Rightarrow> PositionRecord list" where
  "rm_recent_positions limit self = recent_from_deque limit (rm_positions self)"

definition rm_recent_positions_for_bot :: "string \<Rightarrow> nat \<Rightarrow> OperatorReadModelsState \<Rightarrow> PositionRecord list" where
  "rm_recent_positions_for_bot bot_id limit self =
     (case hm_get (rm_positions_by_bot self) bot_id of None \<Rightarrow> [] | Some records \<Rightarrow> recent_from_deque limit records)"

definition rm_recent_reconciliations :: "nat \<Rightarrow> OperatorReadModelsState \<Rightarrow> ReconciliationRecord list" where
  "rm_recent_reconciliations limit self = recent_from_deque limit (rm_reconciliations self)"

definition rm_recent_reconciliations_for_bot :: "string \<Rightarrow> nat \<Rightarrow> OperatorReadModelsState \<Rightarrow> ReconciliationRecord list" where
  "rm_recent_reconciliations_for_bot bot_id limit self =
     (case hm_get (rm_reconciliations_by_bot self) bot_id of None \<Rightarrow> [] | Some records \<Rightarrow> recent_from_deque limit records)"

definition rm_latest_position_for_bot :: "string \<Rightarrow> OperatorReadModelsState \<Rightarrow> PositionRecord option" where
  "rm_latest_position_for_bot bot_id self = hm_get (rm_latest_position_by_bot self) bot_id"

definition rm_latest_position_for_lane :: "string \<Rightarrow> string \<Rightarrow> OperatorReadModelsState \<Rightarrow> PositionRecord option" where
  "rm_latest_position_for_lane bot_id symbol self = hm_get (rm_latest_position_by_lane self) (bot_id, symbol)"

definition rm_latest_reconciliation_for_bot :: "string \<Rightarrow> OperatorReadModelsState \<Rightarrow> ReconciliationRecord option" where
  "rm_latest_reconciliation_for_bot bot_id self = hm_get (rm_latest_reconciliation_by_bot self) bot_id"

definition rm_latest_reconciliation_for_lane ::
    "string \<Rightarrow> string \<Rightarrow> OperatorReadModelsState \<Rightarrow> ReconciliationRecord option" where
  "rm_latest_reconciliation_for_lane bot_id symbol self =
     hm_get (rm_latest_reconciliation_by_lane self) (bot_id, symbol)"

subsection \<open>Lemmas on windows and indexes\<close>

lemma pop_excess_eq: "pop_excess capacity rs = drop (length rs - capacity) rs"
proof (induction capacity rs rule: pop_excess.induct)
  case (1 capacity rs)
  show ?case
  proof (cases "capacity < length rs")
    case True
    then have "drop (length rs - capacity) rs = drop (length (tl rs) - capacity) (tl rs)"
      by (cases rs) (auto simp: Suc_diff_le)
    then show ?thesis using 1 True by (subst pop_excess.simps) simp
  qed (subst pop_excess.simps, simp)
qed

definition window :: "nat \<Rightarrow> 'r list \<Rightarrow> 'r list" where
  "window capacity h = drop (length h - capacity) h"

lemma window_Nil [simp]: "window capacity [] = []"
  by (simp add: window_def)

lemma push_bounded_window: "push_bounded capacity r (window capacity h) = window capacity (h @ [r])"
  by (cases "length h \<le> capacity") (auto simp: push_bounded_def pop_excess_eq window_def Suc_diff_le)

lemma recent_from_window: "recent_from_deque limit (window capacity h) = recent_records (min limit capacity) h"
  by (cases "length h \<le> capacity") (auto simp: recent_from_deque_def recent_records_def window_def min_def)

definition by_key :: "('r \<Rightarrow> 'k option) \<Rightarrow> 'k \<Rightarrow> 'r list \<Rightarrow> 'r list" where
  "by_key key k h = filter (\<lambda>r. key r = Some k) h"

lemma by_key_snoc: "by_key key k (h @ [r]) = (if key r = Some k then by_key key k h @ [r] else by_key key k h)"
  by (simp add: by_key_def)

definition indexes :: "nat \<Rightarrow> ('r \<Rightarrow> 'k option) \<Rightarrow> ('k, 'r list) hmap \<Rightarrow> 'r list \<Rightarrow> bool" where
  "indexes capacity key index h \<longleftrightarrow> (\<forall>k. or_empty (hm_get index k) = window capacity (by_key key k h))"

lemma indexes_empty: "indexes capacity key [] []"
  by (simp add: indexes_def by_key_def or_empty_def hm.get_empty)

lemma indexes_push:
  assumes "indexes capacity key index h" "key r = Some k"
  shows "indexes capacity key (push_to_index capacity k r index) (h @ [r])"
  unfolding indexes_def
proof
  fix k'
  have "or_empty (hm_get index k') = window capacity (by_key key k' h)" for k'
    using assms(1) by (simp add: indexes_def)
  then show "or_empty (hm_get (push_to_index capacity k r index) k') = window capacity (by_key key k' (h @ [r]))"
    using assms(2) by (auto simp: push_to_index_def hm_get_insert by_key_snoc push_bounded_window)
      (simp_all add: or_empty_def push_bounded_window)
qed

lemma indexes_skip: "indexes capacity key index h \<Longrightarrow> key r = None \<Longrightarrow> indexes capacity key index (h @ [r])"
  by (simp add: indexes_def by_key_snoc)

lemma index_query:
  "indexes capacity key index h \<Longrightarrow>
   (case hm_get index k of None \<Rightarrow> [] | Some records \<Rightarrow> recent_from_deque limit records)
     = recent_records (min limit capacity) (by_key key k h)"
  unfolding indexes_def recent_from_window [symmetric]
  by (auto simp: or_empty_def recent_from_deque_def split: option.split dest!: spec [of _ k])

text \<open>The latest record: the greatest id, and of several with that id the one ingested last.\<close>

definition latest_of :: "('r \<Rightarrow> int) \<Rightarrow> 'r list \<Rightarrow> 'r option" where
  "latest_of id_of rs = find (\<lambda>r. \<forall>r' \<in> set rs. id_of r' \<le> id_of r) (rev rs)"

lemma latest_of_Nil [simp]: "latest_of id_of [] = None"
  by (simp add: latest_of_def)

lemma find_some: "find P xs = Some x \<Longrightarrow> x \<in> set xs \<and> P x"
  by (induction xs) (auto split: if_splits)

lemma latest_of_max: "latest_of id_of rs = Some c \<Longrightarrow> c \<in> set rs \<and> (\<forall>r \<in> set rs. id_of r \<le> id_of c)"
  unfolding latest_of_def using find_some [of _ "rev rs" c] by force

lemma latest_of_snoc:
  "latest_of id_of (rs @ [r]) =
     (case latest_of id_of rs of None \<Rightarrow> Some r | Some c \<Rightarrow> if id_of c \<le> id_of r then Some r else Some c)"
proof (cases "\<forall>r' \<in> set rs. id_of r' \<le> id_of r")
  case True
  then have "latest_of id_of (rs @ [r]) = Some r" by (simp add: latest_of_def)
  moreover have "latest_of id_of rs = Some c \<Longrightarrow> id_of c \<le> id_of r" for c
    using True latest_of_max [of id_of rs c] by simp
  ultimately show ?thesis by (auto split: option.split)
next
  case False
  then obtain r' where r': "r' \<in> set rs" "id_of r < id_of r'" by (meson not_le)
  have same: "(\<forall>q \<in> set (rs @ [r]). id_of q \<le> id_of p) \<longleftrightarrow> (\<forall>q \<in> set rs. id_of q \<le> id_of p)" for p
    using r' by (auto intro: less_imp_le order_trans)
  have "latest_of id_of (rs @ [r]) = latest_of id_of rs"
    using False unfolding latest_of_def same by auto
  moreover have "\<not> id_of c \<le> id_of r" if "latest_of id_of rs = Some c" for c
    using latest_of_max [OF that] r' by fastforce
  moreover have "latest_of id_of rs \<noteq> None"
  proof -
    have "\<exists>m \<in> set rs. \<forall>q \<in> set rs. id_of q \<le> id_of m"
      using Max_in [of "id_of ` set rs"] Max_ge [of "id_of ` set rs"] r'(1)
      by (metis List.finite_set empty_iff finite_imageI image_iff)
    then show ?thesis by (auto simp: latest_of_def find_None_iff)
  qed
  ultimately show ?thesis by (auto split: option.split)
qed

lemma latest_of_sorted: "sorted_wrt (\<lambda>a b. id_of a \<le> id_of b) rs \<Longrightarrow> rs \<noteq> [] \<Longrightarrow> latest_of id_of rs = Some (last rs)"
  by (induction rs rule: rev_induct) (auto simp: latest_of_snoc sorted_wrt_append dest: latest_of_max split: option.split)

definition latests :: "('r \<Rightarrow> int) \<Rightarrow> ('r \<Rightarrow> 'k option) \<Rightarrow> ('k, 'r) hmap \<Rightarrow> 'r list \<Rightarrow> bool" where
  "latests id_of key m h \<longleftrightarrow> (\<forall>k. hm_get m k = latest_of id_of (by_key key k h))"

lemma latests_empty: "latests id_of key [] []"
  by (simp add: latests_def by_key_def hm.get_empty)

lemma latests_push:
  "latests id_of key m h \<Longrightarrow> key r = Some k \<Longrightarrow> latests id_of key (upsert_latest_by_id id_of k r m) (h @ [r])"
  by (auto simp: latests_def upsert_latest_by_id_def by_key_snoc latest_of_snoc hm_get_insert split: option.splits)

lemma latests_skip: "latests id_of key m h \<Longrightarrow> key r = None \<Longrightarrow> latests id_of key m (h @ [r])"
  by (simp add: latests_def by_key_snoc)

subsection \<open>The specification: the ingested history\<close>

record OperatorHistory =
  oh_events :: "RuntimeEvent list"
  oh_signals :: "SignalRecord list"
  oh_intents :: "IntentRecord list"
  oh_risk_decisions :: "RiskDecisionRecord list"
  oh_orders :: "OrderRecord list"
  oh_fills :: "FillRecord list"
  oh_positions :: "PositionRecord list"
  oh_reconciliations :: "ReconciliationRecord list"

definition empty_history :: OperatorHistory where
  "empty_history = \<lparr>oh_events = [], oh_signals = [], oh_intents = [], oh_risk_decisions = [], oh_orders = [],
     oh_fills = [], oh_positions = [], oh_reconciliations = []\<rparr>"

definition position_lane :: "PositionRecord \<Rightarrow> (string \<times> string) option" where
  "position_lane r = map_option (\<lambda>symbol. (pr_bot_id r, symbol)) (pr_symbol r)"

definition event_feeds :: "OperatorReadModelsState \<Rightarrow> RuntimeEvent list \<Rightarrow> bool" where
  "event_feeds s h \<longleftrightarrow> rm_events s = window GLOBAL_FEED_CAPACITY h
     \<and> indexes GLOBAL_FEED_CAPACITY (Some \<circ> re_scope) (rm_events_by_scope s) h
     \<and> indexes ENTITY_TIMELINE_CAPACITY re_entity_id (rm_events_by_entity s) h"

definition order_feeds :: "OperatorReadModelsState \<Rightarrow> OrderRecord list \<Rightarrow> bool" where
  "order_feeds s h \<longleftrightarrow> rm_orders s = window GLOBAL_FEED_CAPACITY h
     \<and> indexes BOT_FEED_CAPACITY (Some \<circ> or_bot_id) (rm_orders_by_bot s) h"

definition fill_feeds :: "OperatorReadModelsState \<Rightarrow> FillRecord list \<Rightarrow> bool" where
  "fill_feeds s h \<longleftrightarrow> rm_fills s = window GLOBAL_FEED_CAPACITY h
     \<and> indexes BOT_FEED_CAPACITY (Some \<circ> fr_bot_id) (rm_fills_by_bot s) h"

definition position_feeds :: "OperatorReadModelsState \<Rightarrow> PositionRecord list \<Rightarrow> bool" where
  "position_feeds s h \<longleftrightarrow> rm_positions s = window GLOBAL_FEED_CAPACITY h
     \<and> indexes BOT_FEED_CAPACITY (Some \<circ> pr_bot_id) (rm_positions_by_bot s) h
     \<and> latests pr_id (Some \<circ> pr_bot_id) (rm_latest_position_by_bot s) h
     \<and> latests pr_id position_lane (rm_latest_position_by_lane s) h"

definition reconciliation_feeds :: "OperatorReadModelsState \<Rightarrow> ReconciliationRecord list \<Rightarrow> bool" where
  "reconciliation_feeds s h \<longleftrightarrow> rm_reconciliations s = window GLOBAL_FEED_CAPACITY h
     \<and> indexes BOT_FEED_CAPACITY (Some \<circ> rr_bot_id) (rm_reconciliations_by_bot s) h
     \<and> latests rr_id (Some \<circ> rr_bot_id) (rm_latest_reconciliation_by_bot s) h
     \<and> latests rr_id (\<lambda>r. Some (rr_bot_id r, rr_symbol r)) (rm_latest_reconciliation_by_lane s) h"

definition projects :: "OperatorReadModelsState \<Rightarrow> OperatorHistory \<Rightarrow> bool" where
  "projects s h \<longleftrightarrow> event_feeds s (oh_events h)
     \<and> rm_signals s = window GLOBAL_FEED_CAPACITY (oh_signals h)
     \<and> rm_intents s = window GLOBAL_FEED_CAPACITY (oh_intents h)
     \<and> rm_risk_decisions s = window GLOBAL_FEED_CAPACITY (oh_risk_decisions h)
     \<and> order_feeds s (oh_orders h) \<and> fill_feeds s (oh_fills h)
     \<and> position_feeds s (oh_positions h) \<and> reconciliation_feeds s (oh_reconciliations h)"

lemmas feed_defs = event_feeds_def order_feeds_def fill_feeds_def position_feeds_def reconciliation_feeds_def

lemma default_projects: "projects OperatorReadModelsState_default empty_history"
  by (simp add: projects_def feed_defs OperatorReadModelsState_default_def empty_history_def indexes_empty latests_empty)

lemma push_event_projects:
  "projects s h \<Longrightarrow> projects (push_runtime_event r s) (h\<lparr>oh_events := oh_events h @ [r]\<rparr>)"
  by (auto simp: projects_def feed_defs push_runtime_event_def Let_def push_bounded_window indexes_push indexes_skip
      split: option.split)

lemma push_signal_projects: "projects s h \<Longrightarrow> projects (push_signal r s) (h\<lparr>oh_signals := oh_signals h @ [r]\<rparr>)"
  by (simp add: projects_def feed_defs push_signal_def push_bounded_window)

lemma push_intent_projects: "projects s h \<Longrightarrow> projects (push_intent r s) (h\<lparr>oh_intents := oh_intents h @ [r]\<rparr>)"
  by (simp add: projects_def feed_defs push_intent_def push_bounded_window)

lemma push_risk_decision_projects:
  "projects s h \<Longrightarrow> projects (push_risk_decision r s) (h\<lparr>oh_risk_decisions := oh_risk_decisions h @ [r]\<rparr>)"
  by (simp add: projects_def feed_defs push_risk_decision_def push_bounded_window)

lemma push_order_projects: "projects s h \<Longrightarrow> projects (push_order r s) (h\<lparr>oh_orders := oh_orders h @ [r]\<rparr>)"
  by (simp add: projects_def feed_defs push_order_def push_bounded_window indexes_push)

lemma push_fill_projects: "projects s h \<Longrightarrow> projects (push_fill r s) (h\<lparr>oh_fills := oh_fills h @ [r]\<rparr>)"
  by (simp add: projects_def feed_defs push_fill_def push_bounded_window indexes_push)

lemma push_position_projects:
  "projects s h \<Longrightarrow> projects (push_position r s) (h\<lparr>oh_positions := oh_positions h @ [r]\<rparr>)"
  by (cases "pr_symbol r")
    (simp_all add: projects_def feed_defs push_position_def Let_def push_bounded_window indexes_push latests_push
      latests_skip position_lane_def)

lemma push_reconciliation_projects:
  "projects s h \<Longrightarrow> projects (push_reconciliation r s) (h\<lparr>oh_reconciliations := oh_reconciliations h @ [r]\<rparr>)"
  by (simp add: projects_def feed_defs push_reconciliation_def push_bounded_window indexes_push latests_push)

lemma projects_counters [simp]:
  "projects (s\<lparr>rm_next_event_id := i\<rparr>) h = projects s h" "projects (s\<lparr>rm_next_signal_id := i\<rparr>) h = projects s h"
  "projects (s\<lparr>rm_next_intent_id := i\<rparr>) h = projects s h" "projects (s\<lparr>rm_next_risk_decision_id := i\<rparr>) h = projects s h"
  "projects (s\<lparr>rm_next_order_id := i\<rparr>) h = projects s h" "projects (s\<lparr>rm_next_fill_id := i\<rparr>) h = projects s h"
  "projects (s\<lparr>rm_next_position_id := i\<rparr>) h = projects s h" "projects (s\<lparr>rm_next_reconciliation_id := i\<rparr>) h = projects s h"
  by (simp_all add: projects_def feed_defs)

lemmas push_projects = push_event_projects push_signal_projects push_intent_projects push_risk_decision_projects
  push_order_projects push_fill_projects push_position_projects push_reconciliation_projects

text \<open>The projections reached from empty ones by ingests and recorded writes, with the history they saw.\<close>

inductive projected :: "OperatorReadModelsState \<Rightarrow> OperatorHistory \<Rightarrow> bool" where
  "projected OperatorReadModelsState_default empty_history"
| "projected s h \<Longrightarrow> projected (ingest_runtime_event e s) (h\<lparr>oh_events := oh_events h @ [e]\<rparr>)"
| "projected s h \<Longrightarrow> projected (ingest_signal sg s) (h\<lparr>oh_signals := oh_signals h @ [sg]\<rparr>)"
| "projected s h \<Longrightarrow> projected (ingest_intent i s) (h\<lparr>oh_intents := oh_intents h @ [i]\<rparr>)"
| "projected s h \<Longrightarrow> projected (ingest_risk_decision d s) (h\<lparr>oh_risk_decisions := oh_risk_decisions h @ [d]\<rparr>)"
| "projected s h \<Longrightarrow> projected (ingest_order ord s) (h\<lparr>oh_orders := oh_orders h @ [ord]\<rparr>)"
| "projected s h \<Longrightarrow> projected (ingest_fill f s) (h\<lparr>oh_fills := oh_fills h @ [f]\<rparr>)"
| "projected s h \<Longrightarrow> projected (ingest_position p s) (h\<lparr>oh_positions := oh_positions h @ [p]\<rparr>)"
| "projected s h \<Longrightarrow> projected (ingest_reconciliation r s) (h\<lparr>oh_reconciliations := oh_reconciliations h @ [r]\<rparr>)"
| "projected s h \<Longrightarrow> projected (record_runtime_event_write now_ms ew s)
     (h\<lparr>oh_events := oh_events h @ [event_record (rm_next_event_id s) now_ms ew]\<rparr>)"
| "projected s h \<Longrightarrow> projected (record_signal_write now_ms sw s)
     (h\<lparr>oh_signals := oh_signals h @ [signal_record (rm_next_signal_id s) now_ms sw]\<rparr>)"
| "projected s h \<Longrightarrow> projected (record_intent_write now_ms iw s)
     (h\<lparr>oh_intents := oh_intents h @ [intent_record (rm_next_intent_id s) now_ms iw]\<rparr>)"
| "projected s h \<Longrightarrow> projected (record_risk_decision_write now_ms dw s)
     (h\<lparr>oh_risk_decisions := oh_risk_decisions h @ [risk_decision_record (rm_next_risk_decision_id s) now_ms dw]\<rparr>)"
| "projected s h \<Longrightarrow> projected (record_order_write now_ms ow s)
     (h\<lparr>oh_orders := oh_orders h @ [order_record (rm_next_order_id s) now_ms ow]\<rparr>)"
| "projected s h \<Longrightarrow> projected (record_fill_write now_ms fw s)
     (h\<lparr>oh_fills := oh_fills h @ [raw_fill_record (rm_next_fill_id s) now_ms fw]\<rparr>)"
| "projected s h \<Longrightarrow> projected (record_position_write now_ms pw s)
     (h\<lparr>oh_positions := oh_positions h @ [raw_position_record (rm_next_position_id s) now_ms pw]\<rparr>)"
| "projected s h \<Longrightarrow> projected (record_reconciliation_write now_ms rw s)
     (h\<lparr>oh_reconciliations := oh_reconciliations h @ [reconciliation_record (rm_next_reconciliation_id s) now_ms rw]\<rparr>)"

lemmas ingest_defs = ingest_runtime_event_def ingest_signal_def ingest_intent_def ingest_risk_decision_def
  ingest_order_def ingest_fill_def ingest_position_def ingest_reconciliation_def
lemmas write_defs = record_runtime_event_write_def record_signal_write_def record_intent_write_def
  record_risk_decision_write_def record_order_write_def record_fill_write_def record_position_write_def
  record_reconciliation_write_def

lemma projected_projects: "projected s h \<Longrightarrow> projects s h"
  by (induction rule: projected.induct)
    (simp_all add: default_projects ingest_defs write_defs next_id_def push_projects)

lemma projected_queries:
  assumes "projected s h"
  shows "rm_recent_events limit s = recent_records (min limit GLOBAL_FEED_CAPACITY) (oh_events h)
   \<and> rm_recent_events_by_scope scope limit s
      = recent_records (min limit GLOBAL_FEED_CAPACITY) (filter (\<lambda>e. re_scope e = scope) (oh_events h))
   \<and> rm_recent_events_for_entity entity_id limit s
      = recent_records (min limit ENTITY_TIMELINE_CAPACITY) (filter (\<lambda>e. re_entity_id e = Some entity_id) (oh_events h))
   \<and> rm_recent_signals limit s = recent_records (min limit GLOBAL_FEED_CAPACITY) (oh_signals h)
   \<and> rm_recent_intents limit s = recent_records (min limit GLOBAL_FEED_CAPACITY) (oh_intents h)
   \<and> rm_recent_risk_decisions limit s = recent_records (min limit GLOBAL_FEED_CAPACITY) (oh_risk_decisions h)
   \<and> rm_recent_orders limit s = recent_records (min limit GLOBAL_FEED_CAPACITY) (oh_orders h)
   \<and> rm_recent_orders_for_bot bot_id limit s
      = recent_records (min limit BOT_FEED_CAPACITY) (filter (\<lambda>r. or_bot_id r = bot_id) (oh_orders h))
   \<and> rm_recent_fills limit s = recent_records (min limit GLOBAL_FEED_CAPACITY) (oh_fills h)
   \<and> rm_recent_fills_for_bot bot_id limit s
      = recent_records (min limit BOT_FEED_CAPACITY) (filter (\<lambda>r. fr_bot_id r = bot_id) (oh_fills h))
   \<and> rm_recent_positions limit s = recent_records (min limit GLOBAL_FEED_CAPACITY) (oh_positions h)
   \<and> rm_recent_positions_for_bot bot_id limit s
      = recent_records (min limit BOT_FEED_CAPACITY) (filter (\<lambda>r. pr_bot_id r = bot_id) (oh_positions h))
   \<and> rm_recent_reconciliations limit s = recent_records (min limit GLOBAL_FEED_CAPACITY) (oh_reconciliations h)
   \<and> rm_recent_reconciliations_for_bot bot_id limit s
      = recent_records (min limit BOT_FEED_CAPACITY) (filter (\<lambda>r. rr_bot_id r = bot_id) (oh_reconciliations h))
   \<and> rm_latest_position_for_bot bot_id s = latest_of pr_id (filter (\<lambda>r. pr_bot_id r = bot_id) (oh_positions h))
   \<and> rm_latest_position_for_lane bot_id symbol s
      = latest_of pr_id (filter (\<lambda>r. position_lane r = Some (bot_id, symbol)) (oh_positions h))
   \<and> rm_latest_reconciliation_for_bot bot_id s
      = latest_of rr_id (filter (\<lambda>r. rr_bot_id r = bot_id) (oh_reconciliations h))
   \<and> rm_latest_reconciliation_for_lane bot_id symbol s
      = latest_of rr_id (filter (\<lambda>r. rr_bot_id r = bot_id \<and> rr_symbol r = symbol) (oh_reconciliations h))"
proof -
  have p: "projects s h" using assms by (rule projected_projects)
  show ?thesis
    using p unfolding projects_def feed_defs
    by (intro conjI; (elim conjE)?)
      (simp_all add: rm_recent_events_def rm_recent_events_by_scope_def rm_recent_events_for_entity_def
        rm_recent_signals_def rm_recent_intents_def rm_recent_risk_decisions_def rm_recent_orders_def
        rm_recent_orders_for_bot_def rm_recent_fills_def rm_recent_fills_for_bot_def rm_recent_positions_def
        rm_recent_positions_for_bot_def rm_recent_reconciliations_def rm_recent_reconciliations_for_bot_def
        rm_latest_position_for_bot_def rm_latest_position_for_lane_def rm_latest_reconciliation_for_bot_def
        rm_latest_reconciliation_for_lane_def recent_from_window index_query latests_def by_key_def)
qed

text \<open>C37: After any sequence of ingests and recorded writes, every query of the read models is the query
  of the ingested history: the last records of a global feed, of a scope, of an entity or of a bot, up
  to the requested limit and the feed's capacity, and the position or reconciliation with the greatest
  id of a bot or of a lane.\<close>

theorem read_models_refine_history:
  assumes "projected s h"
  shows "rm_recent_events limit s = recent_records (min limit GLOBAL_FEED_CAPACITY) (oh_events h)
   \<and> rm_recent_events_by_scope scope limit s
      = recent_records (min limit GLOBAL_FEED_CAPACITY) (filter (\<lambda>e. re_scope e = scope) (oh_events h))
   \<and> rm_recent_events_for_entity entity_id limit s
      = recent_records (min limit ENTITY_TIMELINE_CAPACITY) (filter (\<lambda>e. re_entity_id e = Some entity_id) (oh_events h))
   \<and> rm_recent_signals limit s = recent_records (min limit GLOBAL_FEED_CAPACITY) (oh_signals h)
   \<and> rm_recent_intents limit s = recent_records (min limit GLOBAL_FEED_CAPACITY) (oh_intents h)
   \<and> rm_recent_risk_decisions limit s = recent_records (min limit GLOBAL_FEED_CAPACITY) (oh_risk_decisions h)
   \<and> rm_recent_orders limit s = recent_records (min limit GLOBAL_FEED_CAPACITY) (oh_orders h)
   \<and> rm_recent_orders_for_bot bot_id limit s
      = recent_records (min limit BOT_FEED_CAPACITY) (filter (\<lambda>r. or_bot_id r = bot_id) (oh_orders h))
   \<and> rm_recent_fills limit s = recent_records (min limit GLOBAL_FEED_CAPACITY) (oh_fills h)
   \<and> rm_recent_fills_for_bot bot_id limit s
      = recent_records (min limit BOT_FEED_CAPACITY) (filter (\<lambda>r. fr_bot_id r = bot_id) (oh_fills h))
   \<and> rm_recent_positions limit s = recent_records (min limit GLOBAL_FEED_CAPACITY) (oh_positions h)
   \<and> rm_recent_positions_for_bot bot_id limit s
      = recent_records (min limit BOT_FEED_CAPACITY) (filter (\<lambda>r. pr_bot_id r = bot_id) (oh_positions h))
   \<and> rm_recent_reconciliations limit s = recent_records (min limit GLOBAL_FEED_CAPACITY) (oh_reconciliations h)
   \<and> rm_recent_reconciliations_for_bot bot_id limit s
      = recent_records (min limit BOT_FEED_CAPACITY) (filter (\<lambda>r. rr_bot_id r = bot_id) (oh_reconciliations h))
   \<and> rm_latest_position_for_bot bot_id s = latest_of pr_id (filter (\<lambda>r. pr_bot_id r = bot_id) (oh_positions h))
   \<and> rm_latest_position_for_lane bot_id symbol s
      = latest_of pr_id (filter (\<lambda>r. position_lane r = Some (bot_id, symbol)) (oh_positions h))
   \<and> rm_latest_reconciliation_for_bot bot_id s
      = latest_of rr_id (filter (\<lambda>r. rr_bot_id r = bot_id) (oh_reconciliations h))
   \<and> rm_latest_reconciliation_for_lane bot_id symbol s
      = latest_of rr_id (filter (\<lambda>r. rr_bot_id r = bot_id \<and> rr_symbol r = symbol) (oh_reconciliations h))"
  by (rule projected_queries) fact

definition demo_write_s :: OperatorReadModelsState where
  "demo_write_s = record_order_write 5 (demo_order_write ''c1'') OperatorReadModelsState_default"

theorem read_models_refine_history_witness:
  "rm_recent_orders_for_bot ''bot-a'' 10 demo_write_s = [order_record 1 5 (demo_order_write ''c1'')]"
proof -
  have "projected demo_write_s (empty_history\<lparr>oh_orders := oh_orders empty_history
      @ [order_record (rm_next_order_id OperatorReadModelsState_default) 5 (demo_order_write ''c1'')]\<rparr>)"
    unfolding demo_write_s_def by (rule projected.intros(14) [OF projected.intros(1)])
  from read_models_refine_history [OF this, of 10]
  have "rm_recent_orders_for_bot ''bot-a'' 10 demo_write_s = recent_records (min 10 BOT_FEED_CAPACITY)
      (filter (\<lambda>r. or_bot_id r = ''bot-a'') [order_record 1 5 (demo_order_write ''c1'')])"
    by (simp add: empty_history_def OperatorReadModelsState_default_def)
  then show ?thesis
    by (simp add: BOT_FEED_CAPACITY_def recent_records_def order_record_def demo_order_write_def)
qed

subsection \<open>Bootstrap from the journal\<close>

lemma fold_events_projected:
  "projected s h \<Longrightarrow> projected (fold ingest_runtime_event rs s) (h\<lparr>oh_events := oh_events h @ rs\<rparr>)"
proof (induction rs arbitrary: s h)
  case (Cons r rs)
  from Cons.IH [OF projected.intros(2) [OF Cons.prems, of r]] show ?case by simp
qed simp

lemma fold_signals_projected:
  "projected s h \<Longrightarrow> projected (fold ingest_signal rs s) (h\<lparr>oh_signals := oh_signals h @ rs\<rparr>)"
proof (induction rs arbitrary: s h)
  case (Cons r rs)
  from Cons.IH [OF projected.intros(3) [OF Cons.prems, of r]] show ?case by simp
qed simp

lemma fold_intents_projected:
  "projected s h \<Longrightarrow> projected (fold ingest_intent rs s) (h\<lparr>oh_intents := oh_intents h @ rs\<rparr>)"
proof (induction rs arbitrary: s h)
  case (Cons r rs)
  from Cons.IH [OF projected.intros(4) [OF Cons.prems, of r]] show ?case by simp
qed simp

lemma fold_risk_decisions_projected:
  "projected s h \<Longrightarrow> projected (fold ingest_risk_decision rs s) (h\<lparr>oh_risk_decisions := oh_risk_decisions h @ rs\<rparr>)"
proof (induction rs arbitrary: s h)
  case (Cons r rs)
  from Cons.IH [OF projected.intros(5) [OF Cons.prems, of r]] show ?case by simp
qed simp

lemma fold_orders_projected:
  "projected s h \<Longrightarrow> projected (fold ingest_order rs s) (h\<lparr>oh_orders := oh_orders h @ rs\<rparr>)"
proof (induction rs arbitrary: s h)
  case (Cons r rs)
  from Cons.IH [OF projected.intros(6) [OF Cons.prems, of r]] show ?case by simp
qed simp

lemma fold_fills_projected:
  "projected s h \<Longrightarrow> projected (fold ingest_fill rs s) (h\<lparr>oh_fills := oh_fills h @ rs\<rparr>)"
proof (induction rs arbitrary: s h)
  case (Cons r rs)
  from Cons.IH [OF projected.intros(7) [OF Cons.prems, of r]] show ?case by simp
qed simp

lemma fold_positions_projected:
  "projected s h \<Longrightarrow> projected (fold ingest_position rs s) (h\<lparr>oh_positions := oh_positions h @ rs\<rparr>)"
proof (induction rs arbitrary: s h)
  case (Cons r rs)
  from Cons.IH [OF projected.intros(8) [OF Cons.prems, of r]] show ?case by simp
qed simp

lemma fold_reconciliations_projected:
  "projected s h \<Longrightarrow> projected (fold ingest_reconciliation rs s) (h\<lparr>oh_reconciliations := oh_reconciliations h @ rs\<rparr>)"
proof (induction rs arbitrary: s h)
  case (Cons r rs)
  from Cons.IH [OF projected.intros(9) [OF Cons.prems, of r]] show ?case by simp
qed simp

lemma bootstrap_projected:
  "\<exists>s. bootstrap (in_memory_journal now_ms) j = Inr s
     \<and> projected s \<lparr>oh_events = recent_records GLOBAL_FEED_CAPACITY (ij_events j),
         oh_signals = recent_records GLOBAL_FEED_CAPACITY (ij_signals j),
         oh_intents = recent_records GLOBAL_FEED_CAPACITY (ij_intents j),
         oh_risk_decisions = recent_records GLOBAL_FEED_CAPACITY (ij_risk_decisions j),
         oh_orders = recent_records GLOBAL_FEED_CAPACITY (ij_orders j),
         oh_fills = recent_records GLOBAL_FEED_CAPACITY (ij_fills j),
         oh_positions = recent_records GLOBAL_FEED_CAPACITY (ij_positions j),
         oh_reconciliations = recent_records GLOBAL_FEED_CAPACITY (ij_reconciliations j)\<rparr>"
  using fold_reconciliations_projected [OF fold_positions_projected [OF fold_fills_projected [OF fold_orders_projected
      [OF fold_risk_decisions_projected [OF fold_intents_projected [OF fold_signals_projected
      [OF fold_events_projected [OF projected.intros(1)]]]]]]]]
  by (simp add: bootstrap_def in_memory_journal_def recent_events_def recent_signals_def recent_intents_def
      recent_risk_decisions_def recent_orders_def recent_fills_def recent_positions_def recent_reconciliations_def
      empty_history_def)

lemma find_rev_last: "find P (rev xs) = (if filter P xs = [] then None else Some (last (filter P xs)))"
  by (induction xs rule: rev_induct) auto

lemma ids_ok_sorted: "ids_ok id_of rs \<Longrightarrow> sorted_wrt (\<lambda>a b. id_of a \<le> id_of b) rs"
  unfolding ids_ok_def by (induction rs) fastforce+

lemma latest_of_ids_ok: "ids_ok id_of rs \<Longrightarrow> latest_of id_of (filter P rs) = find P (rev rs)"
  using latest_of_sorted [of id_of "filter P rs"] ids_ok_sorted [OF ids_ok_filter [of id_of rs P]]
  by (simp add: find_rev_last)

lemma reachable_ids:
  assumes "journal_reachable j"
  shows "ids_ok pr_id (ij_positions j)" "ids_ok rr_id (ij_reconciliations j)"
proof -
  have "logs_ok j" using assms by induction (auto intro: step_logs_ok default_ok)
  then show "ids_ok pr_id (ij_positions j)" "ids_ok rr_id (ij_reconciliations j)" by (simp_all add: logs_ok_def)
qed

text \<open>The logs from which the projections build their indexes fit the feeds.\<close>

definition within_feeds :: "InMemoryRuntimeJournal \<Rightarrow> bool" where
  "within_feeds j \<longleftrightarrow> length (ij_events j) \<le> GLOBAL_FEED_CAPACITY
     \<and> length (ij_orders j) \<le> GLOBAL_FEED_CAPACITY \<and> length (ij_fills j) \<le> GLOBAL_FEED_CAPACITY
     \<and> length (ij_positions j) \<le> GLOBAL_FEED_CAPACITY \<and> length (ij_reconciliations j) \<le> GLOBAL_FEED_CAPACITY"

lemma recent_of_recent: "recent_records (min limit n) (recent_records n rs) = recent_records (min limit n) rs"
  by (auto simp: recent_records_def min_def intro!: arg_cong [where f = "\<lambda>k. drop k rs"])

lemma position_lane_iff: "position_lane r = Some (bot_id, symbol) \<longleftrightarrow> pr_bot_id r = bot_id \<and> pr_symbol r = Some symbol"
  by (auto simp: position_lane_def)

lemmas journal_queries = recent_events_def recent_events_by_scope_def recent_events_for_entity_def recent_signals_def
  recent_intents_def recent_risk_decisions_def recent_orders_def recent_orders_for_bot_def recent_fills_def
  recent_fills_for_bot_def recent_positions_def recent_positions_for_bot_def recent_reconciliations_def
  recent_reconciliations_for_bot_def latest_position_for_bot_def journal_latest_position_for_lane_def
  latest_reconciliation_for_bot_def latest_reconciliation_for_lane_def

text \<open>C38: Bootstrapping the read models from an in-memory journal whose event, order, fill, position and
  reconciliation logs fit the feeds succeeds, and then every query of the read models answers as the
  journal does, up to the capacity of the feed that is asked: the recent events, also of a scope or of an
  entity, the recent signals, intents, risk decisions, orders, fills, positions and reconciliations, also
  of a bot, and the latest position and reconciliation of a bot and of a lane. Signals, intents and risk
  decisions have no index, so their logs may be of any length.\<close>

theorem bootstrap_answers_as_journal:
  assumes j: "journal_reachable j" and fit: "within_feeds j"
  shows "\<exists>s. bootstrap (in_memory_journal now_ms) j = Inr s
     \<and> Inr (rm_recent_events limit s) = recent_events (min limit GLOBAL_FEED_CAPACITY) j
     \<and> Inr (rm_recent_events_by_scope scope limit s) = recent_events_by_scope scope (min limit GLOBAL_FEED_CAPACITY) j
     \<and> Inr (rm_recent_events_for_entity entity_id limit s) = recent_events_for_entity entity_id (min limit ENTITY_TIMELINE_CAPACITY) j
     \<and> Inr (rm_recent_signals limit s) = recent_signals (min limit GLOBAL_FEED_CAPACITY) j
     \<and> Inr (rm_recent_intents limit s) = recent_intents (min limit GLOBAL_FEED_CAPACITY) j
     \<and> Inr (rm_recent_risk_decisions limit s) = recent_risk_decisions (min limit GLOBAL_FEED_CAPACITY) j
     \<and> Inr (rm_recent_orders limit s) = recent_orders (min limit GLOBAL_FEED_CAPACITY) j
     \<and> Inr (rm_recent_orders_for_bot bot_id limit s) = recent_orders_for_bot bot_id (min limit BOT_FEED_CAPACITY) j
     \<and> Inr (rm_recent_fills limit s) = recent_fills (min limit GLOBAL_FEED_CAPACITY) j
     \<and> Inr (rm_recent_fills_for_bot bot_id limit s) = recent_fills_for_bot bot_id (min limit BOT_FEED_CAPACITY) j
     \<and> Inr (rm_recent_positions limit s) = recent_positions (min limit GLOBAL_FEED_CAPACITY) j
     \<and> Inr (rm_recent_positions_for_bot bot_id limit s) = recent_positions_for_bot bot_id (min limit BOT_FEED_CAPACITY) j
     \<and> Inr (rm_recent_reconciliations limit s) = recent_reconciliations (min limit GLOBAL_FEED_CAPACITY) j
     \<and> Inr (rm_recent_reconciliations_for_bot bot_id limit s) = recent_reconciliations_for_bot bot_id (min limit BOT_FEED_CAPACITY) j
     \<and> Inr (rm_latest_position_for_bot bot_id s) = latest_position_for_bot bot_id j
     \<and> Inr (rm_latest_position_for_lane bot_id symbol s) = journal_latest_position_for_lane bot_id symbol j
     \<and> Inr (rm_latest_reconciliation_for_bot bot_id s) = latest_reconciliation_for_bot bot_id j
     \<and> Inr (rm_latest_reconciliation_for_lane bot_id symbol s) = latest_reconciliation_for_lane bot_id symbol j"
proof -
  obtain s where s: "bootstrap (in_memory_journal now_ms) j = Inr s"
    and h: "projected s \<lparr>oh_events = ij_events j,
         oh_signals = recent_records GLOBAL_FEED_CAPACITY (ij_signals j),
         oh_intents = recent_records GLOBAL_FEED_CAPACITY (ij_intents j),
         oh_risk_decisions = recent_records GLOBAL_FEED_CAPACITY (ij_risk_decisions j),
         oh_orders = ij_orders j, oh_fills = ij_fills j, oh_positions = ij_positions j,
         oh_reconciliations = ij_reconciliations j\<rparr>"
    using bootstrap_projected [of now_ms j] fit by (auto simp: within_feeds_def recent_records_all)
  note queries = projected_queries [OF h, of limit scope entity_id bot_id symbol]
  show ?thesis
    using s queries reachable_ids [OF j]
    by (intro exI [of _ s] conjI; (elim conjE)?)
      (simp_all add: journal_queries recent_of_recent latest_of_ids_ok position_lane_iff)
qed

lemma demo_journal_fits: "within_feeds demo_journal"
  by (simp add: within_feeds_def demo_journal_def append_order_def order_exists_def InMemoryRuntimeJournal_default_def
      push_record_def GLOBAL_FEED_CAPACITY_def)

theorem bootstrap_answers_as_journal_witness:
  "\<exists>s. bootstrap (in_memory_journal 1) demo_journal = Inr s
     \<and> Inr (rm_recent_orders_for_bot ''bot-a'' 5 s) = recent_orders_for_bot ''bot-a'' 5 demo_journal"
proof -
  have "min 5 BOT_FEED_CAPACITY = 5" by (simp add: BOT_FEED_CAPACITY_def)
  with bootstrap_answers_as_journal [OF demo_journal_reachable demo_journal_fits, of 1 5 "''runtime''" "''bot-a''" "''bot-a''" "''BTCUSDT''"]
  show ?thesis by auto
qed

text \<open>A retried order is written once to the journal but twice to the projection: after the retry the two
  answer differently, until the next bootstrap.\<close>

lemma retried_order_diverges:
  "let w = demo_order_write ''c1'';
       j = snd (append_order 2 w (snd (append_order 1 w InMemoryRuntimeJournal_default)));
       s = record_order_write 2 w (record_order_write 1 w OperatorReadModelsState_default)
   in map or_id (ij_orders j) = [1] \<and> map or_id (rm_recent_orders_for_bot ''bot-a'' 5 s) = [1, 2]"
  by code_simp

end
