(* ===== verification/Trace.thy ===== *)
theory Trace
  imports Lane
begin

section \<open>Cycle traces (crate openticker-trace and openticker-lane/src/trace.rs)\<close>

text \<open>
  The diagnostic record of one trading cycle: trace identities (\<open>id.rs\<close>), the steps
  (\<open>steps.rs\<close>), the capital snapshots (\<open>capital.rs\<close>), the summary and the trace
  (\<open>summary.rs\<close>, \<open>detail.rs\<close>), and the function that builds it from an evaluation
  (\<open>openticker-lane/src/trace.rs\<close>). JSON values are a datatype; their text, produced by
  \<open>serde_json\<close>, is a parameter of the runtime. An enum with \<open>rename_all = "snake_case"\<close>
  serialises to its snake case name, which is what the label functions return.

  The lemmas show that trace ids are unique in a process, what the outcome of a trace tells, and
  that the summary of a trace agrees with its steps.
\<close>

datatype Json = JNull | JBool bool | JInt int | JNumber f64 | JString string | JArray "Json list"
  | JObject "(string \<times> Json) list"

definition json_f64 :: "f64 \<Rightarrow> Json" where
  "json_f64 x = (if is_finite x then JNumber x else JNull)"

definition json_opt :: "('a \<Rightarrow> Json) \<Rightarrow> 'a option \<Rightarrow> Json" where
  "json_opt f x = (case x of None \<Rightarrow> JNull | Some v \<Rightarrow> f v)"

subsection \<open>Labels\<close>

fun signal_phase_label :: "SignalPhase \<Rightarrow> string" where
  "signal_phase_label Preview = ''preview''"
| "signal_phase_label Confirmed = ''confirmed''"

fun indicator_signal_label :: "IndicatorSignal \<Rightarrow> string" where
  "indicator_signal_label NoSignal = ''none''"
| "indicator_signal_label BuyPreview = ''buy_preview''"
| "indicator_signal_label BuyConfirmed = ''buy_confirmed''"
| "indicator_signal_label SellPreview = ''sell_preview''"
| "indicator_signal_label SellConfirmed = ''sell_confirmed''"

fun strategy_signal_source_label :: "StrategySignalSource \<Rightarrow> string" where
  "strategy_signal_source_label Representative = ''representative''"
| "strategy_signal_source_label IntentFallback = ''intent_fallback''"
| "strategy_signal_source_label Manual = ''manual''"

fun ledger_outcome_reason_code :: "OrderLedgerOutcome \<Rightarrow> string" where
  "ledger_outcome_reason_code BotExhausted = ''bot_ledger_exhausted''"
| "ledger_outcome_reason_code AccountExhausted = ''account_ledger_exhausted''"
| "ledger_outcome_reason_code Dust = ''ledger_dust''"

fun ledger_outcome_label :: "OrderLedgerOutcome \<Rightarrow> string" where
  "ledger_outcome_label BotExhausted = ''bot_exhausted''"
| "ledger_outcome_label AccountExhausted = ''account_exhausted''"
| "ledger_outcome_label Dust = ''dust''"

subsection \<open>Identity\<close>

datatype CycleTriggerKind = MarketBar | ManualSignal

record TraceIdentity =
  ti_trace_id :: string
  ti_bot_id :: string
  ti_symbol :: string
  ti_bar_timestamp :: string
  ti_phase :: SignalPhase
  ti_trigger_kind :: CycleTriggerKind

definition hex_digit :: "nat \<Rightarrow> char" where
  "hex_digit d = char_of (if d < 10 then 48 + d else 87 + d)"

fun show_hex :: "nat \<Rightarrow> string" where
  "show_hex n = (if n < 16 then [hex_digit n] else show_hex (n div 16) @ [hex_digit (n mod 16)])"

declare show_hex.simps [simp del]

text \<open>The process-wide sequence is a wrapping 64-bit counter.\<close>

definition generate_trace_id :: "nat \<Rightarrow> u64 \<Rightarrow> string \<times> u64" where
  "generate_trace_id nanos sequence =
     (''trc_'' @ show_hex nanos @ ''_'' @ show_hex (unat sequence), sequence + 1)"

definition TraceIdentity_with_trace_id ::
    "string \<Rightarrow> string \<Rightarrow> string \<Rightarrow> string \<Rightarrow> SignalPhase \<Rightarrow> CycleTriggerKind \<Rightarrow> TraceIdentity" where
  "TraceIdentity_with_trace_id trace_id bot_id symbol bar_time phase trigger_kind =
     \<lparr>ti_trace_id = trace_id, ti_bot_id = bot_id, ti_symbol = symbol, ti_bar_timestamp = bar_time,
      ti_phase = phase, ti_trigger_kind = trigger_kind\<rparr>"

subsection \<open>Steps\<close>

datatype CycleOutcome = NoOpOutcome | RiskRejected | AcceptedNoFill | AcceptedPartiallyFilled | AcceptedFilled | Failed

datatype CycleRiskDecisionLabel = AllowedLabel | RejectedLabel

fun trigger_kind_label :: "CycleTriggerKind \<Rightarrow> string" where
  "trigger_kind_label MarketBar = ''market_bar''"
| "trigger_kind_label ManualSignal = ''manual_signal''"

fun risk_label_text :: "CycleRiskDecisionLabel \<Rightarrow> string" where
  "risk_label_text AllowedLabel = ''allowed''"
| "risk_label_text RejectedLabel = ''rejected''"

fun outcome_label :: "CycleOutcome \<Rightarrow> string" where
  "outcome_label NoOpOutcome = ''no_op''"
| "outcome_label RiskRejected = ''risk_rejected''"
| "outcome_label AcceptedNoFill = ''accepted_no_fill''"
| "outcome_label AcceptedPartiallyFilled = ''accepted_partially_filled''"
| "outcome_label AcceptedFilled = ''accepted_filled''"
| "outcome_label Failed = ''failed''"

record CycleTrigger =
  ct_trigger_kind :: CycleTriggerKind
  ct_phase :: SignalPhase
  ct_bar_timestamp :: string
  ct_close :: f64
  ct_signal_source :: string

record SignalStep =
  ss_step_signal :: IndicatorSignal
  ss_step_close :: f64
  ss_step_metadata :: "SignalMetadata option"

record IntentStep =
  is_signal :: IndicatorSignal
  is_intent :: TradeIntent
  is_strategy_rationale :: "string option"
  is_has_position_before :: bool
  is_order_quantity :: f64
  is_order_quantity_adjustment_reason :: "string option"
  is_order_ledger_outcome :: "string option"

record RiskStep =
  rs_intent :: TradeIntent
  rs_decision :: CycleRiskDecisionLabel
  rs_reason :: "string option"
  rs_stale_data :: bool
  rs_stale_data_diagnostics :: "StaleDataDiagnostics option"
  rs_cooldown_active :: bool
  rs_account_open_positions :: u32
  rs_account_daily_loss_pct :: f64
  rs_observed_spread_bps :: u64
  rs_estimated_slippage_bps :: u64
  rs_budget_room :: BudgetRoomContext

record ExecutionOrderStep =
  eo_client_order_id :: string
  eo_intent :: TradeIntent
  eo_status :: string
  eo_price :: f64
  eo_quantity :: f64

record ExecutionFillStep =
  ef_client_order_id :: string
  ef_price :: f64
  ef_quantity :: f64
  ef_fee_asset :: "string option"
  ef_fee_amount :: "f64 option"
  ef_fee_normalized_usd :: "f64 option"

record ExecutionStep =
  es_order :: "ExecutionOrderStep option"
  es_fill :: "ExecutionFillStep option"

record PositionStep =
  ps_has_position_before :: bool
  ps_has_position_after :: bool
  ps_quantity_after :: f64
  ps_entry_price_after :: "f64 option"
  ps_realized_pnl_usd :: f64
  ps_reason :: "string option"

record ReconciliationSnapshot =
  rsn_source :: string
  rsn_safe_to_trade :: bool
  rsn_local_open_orders :: int
  rsn_connector_open_orders :: int
  rsn_local_has_position :: bool
  rsn_connector_has_position :: bool
  rsn_reason :: string
  rsn_created_at_ms :: int

record ReconciliationContext =
  rcx_latest :: "ReconciliationSnapshot option"

record RelatedRecord =
  rel_family :: string
  rel_label :: string
  rel_bar_timestamp :: "string option"
  rel_client_order_id :: "string option"

record RelatedEvent =
  rev_scope :: string
  rev_kind :: string
  rev_payload :: Json

definition trace_event :: "string \<Rightarrow> string \<Rightarrow> Json \<Rightarrow> RelatedEvent" where
  "trace_event scope kind payload = \<lparr>rev_scope = scope, rev_kind = kind, rev_payload = payload\<rparr>"

subsection \<open>Capital\<close>

record TraceLedgerOwner =
  tlo_account_id :: string
  tlo_bot_id :: string
  tlo_symbol :: string

definition trace_ledger_owner :: "LedgerOwnerPath \<Rightarrow> TraceLedgerOwner" where
  "trace_ledger_owner owner = \<lparr>tlo_account_id = op_account_id owner, tlo_bot_id = op_bot_id owner,
     tlo_symbol = op_symbol owner\<rparr>"

record TraceLedgerException =
  tle_kind :: string
  tle_owner :: "TraceLedgerOwner option"
  tle_symbol :: "string option"
  tle_detail :: string
  tle_blocks_new_opens :: bool

definition trace_ledger_exception :: "LedgerException \<Rightarrow> TraceLedgerException" where
  "trace_ledger_exception e = \<lparr>tle_kind = LedgerExceptionKind_as_str (ex_kind e),
     tle_owner = map_option trace_ledger_owner (ex_owner e), tle_symbol = ex_symbol e,
     tle_detail = ex_detail e, tle_blocks_new_opens = ex_blocks_new_opens e\<rparr>"

record AccountCapitalSnapshot =
  acs_id :: string
  acs_declared_total_usd :: f64
  acs_live_balance_usd :: "f64 option"
  acs_effective_cap_usd :: f64
  acs_attributed_open_notional_usd :: f64
  acs_unattributed_open_notional_usd :: f64
  acs_reserved_open_notional_usd :: f64
  acs_total_committed_notional_usd :: f64
  acs_blocked_open_room_usd :: f64
  acs_tradeable_open_room_usd :: f64
  acs_exceptions :: "TraceLedgerException list"

definition account_capital_snapshot :: "AccountPortfolioSnapshot \<Rightarrow> AccountCapitalSnapshot" where
  "account_capital_snapshot s = \<lparr>acs_id = aps_id s, acs_declared_total_usd = aps_declared_total_usd s,
     acs_live_balance_usd = aps_live_balance_usd s, acs_effective_cap_usd = aps_effective_cap_usd s,
     acs_attributed_open_notional_usd = aps_attributed_open_notional_usd s,
     acs_unattributed_open_notional_usd = aps_unattributed_open_notional_usd s,
     acs_reserved_open_notional_usd = aps_reserved_open_notional_usd s,
     acs_total_committed_notional_usd = aps_total_committed_notional_usd s,
     acs_blocked_open_room_usd = aps_blocked_open_room_usd s,
     acs_tradeable_open_room_usd = aps_tradeable_open_room_usd s,
     acs_exceptions = map trace_ledger_exception (aps_exceptions s)\<rparr>"

record BotCapitalSnapshot =
  bcs_id :: string
  bcs_account_id :: string
  bcs_pct :: f64
  bcs_allocated_usd :: f64
  bcs_attributed_open_notional_usd :: f64
  bcs_reserved_open_notional_usd :: f64
  bcs_total_committed_notional_usd :: f64
  bcs_blocked_open_room_usd :: f64
  bcs_tradeable_open_room_usd :: f64

definition bot_capital_snapshot :: "BotPortfolioSnapshot \<Rightarrow> BotCapitalSnapshot" where
  "bot_capital_snapshot s = \<lparr>bcs_id = bps_id s, bcs_account_id = bps_account_id s, bcs_pct = bps_pct s,
     bcs_allocated_usd = bps_allocated_usd s,
     bcs_attributed_open_notional_usd = bps_attributed_open_notional_usd s,
     bcs_reserved_open_notional_usd = bps_reserved_open_notional_usd s,
     bcs_total_committed_notional_usd = bps_total_committed_notional_usd s,
     bcs_blocked_open_room_usd = bps_blocked_open_room_usd s,
     bcs_tradeable_open_room_usd = bps_tradeable_open_room_usd s\<rparr>"

record LaneCapitalSnapshot =
  lcs_owner :: TraceLedgerOwner
  lcs_attributed_open_notional_usd :: f64
  lcs_reserved_open_notional_usd :: f64
  lcs_total_committed_notional_usd :: f64

definition lane_capital_snapshot :: "LanePortfolioSnapshot \<Rightarrow> LaneCapitalSnapshot" where
  "lane_capital_snapshot s = \<lparr>lcs_owner = trace_ledger_owner (lps_owner s),
     lcs_attributed_open_notional_usd = lps_attributed_open_notional_usd s,
     lcs_reserved_open_notional_usd = lps_reserved_open_notional_usd s,
     lcs_total_committed_notional_usd = lps_total_committed_notional_usd s\<rparr>"

record CapitalState =
  cs_account :: "AccountCapitalSnapshot option"
  cs_bot :: "BotCapitalSnapshot option"
  cs_lane :: "LaneCapitalSnapshot option"

definition build_capital_state ::
    "AccountPortfolioSnapshot option \<Rightarrow> BotPortfolioSnapshot option \<Rightarrow> LanePortfolioSnapshot option \<Rightarrow> CapitalState" where
  "build_capital_state account bot_row lane = \<lparr>cs_account = map_option account_capital_snapshot account,
     cs_bot = map_option bot_capital_snapshot bot_row, cs_lane = map_option lane_capital_snapshot lane\<rparr>"

subsection \<open>Summary and trace\<close>

record CycleTraceSummary =
  cts_trace_id :: string
  cts_bot_id :: string
  cts_symbol :: string
  cts_bar_timestamp :: string
  cts_phase :: SignalPhase
  cts_trigger_kind :: CycleTriggerKind
  cts_signal :: IndicatorSignal
  cts_intent :: TradeIntent
  cts_risk_decision :: CycleRiskDecisionLabel
  cts_outcome :: CycleOutcome
  cts_created_at_ms :: int

definition build_cycle_summary ::
    "TraceIdentity \<Rightarrow> IndicatorSignal \<Rightarrow> TradeIntent \<Rightarrow> CycleRiskDecisionLabel \<Rightarrow> CycleOutcome \<Rightarrow> int \<Rightarrow> CycleTraceSummary" where
  "build_cycle_summary identity signal intent risk_decision outcome created_at_ms =
     \<lparr>cts_trace_id = ti_trace_id identity, cts_bot_id = ti_bot_id identity, cts_symbol = ti_symbol identity,
      cts_bar_timestamp = ti_bar_timestamp identity, cts_phase = ti_phase identity,
      cts_trigger_kind = ti_trigger_kind identity, cts_signal = signal, cts_intent = intent,
      cts_risk_decision = risk_decision, cts_outcome = outcome, cts_created_at_ms = created_at_ms\<rparr>"

record CycleTrace =
  tr_summary :: CycleTraceSummary
  tr_trigger :: CycleTrigger
  tr_signal_step :: SignalStep
  tr_intent_step :: IntentStep
  tr_risk_step :: RiskStep
  tr_execution_step :: ExecutionStep
  tr_position_step :: PositionStep
  tr_capital_before :: CapitalState
  tr_capital_after :: CapitalState
  tr_reconciliation_context :: ReconciliationContext
  tr_related_records :: "RelatedRecord list"
  tr_related_events :: "RelatedEvent list"

fun cycle_risk_decision_label :: "RiskDecision \<Rightarrow> CycleRiskDecisionLabel" where
  "cycle_risk_decision_label (Allow _) = AllowedLabel"
| "cycle_risk_decision_label (Reject _) = RejectedLabel"

definition cycle_outcome :: "ProcessBarEvaluation \<Rightarrow> AcceptedOrder option \<Rightarrow> CycleOutcome" where
  "cycle_outcome evaluation accepted_order =
     (case pe_risk_decision evaluation of
        Reject _ \<Rightarrow> RiskRejected
      | Allow intent \<Rightarrow>
          if intent = NoOp \<and> accepted_order = None then NoOpOutcome
          else (case accepted_order of
              Some order \<Rightarrow> if ao_quantity order + f64_epsilon < pe_order_quantity evaluation
                then AcceptedPartiallyFilled else AcceptedFilled
            | None \<Rightarrow> AcceptedNoFill))"

definition related_record :: "string \<Rightarrow> string \<Rightarrow> string option \<Rightarrow> string option \<Rightarrow> RelatedRecord" where
  "related_record family label bar_time client_order_id =
     \<lparr>rel_family = family, rel_label = label, rel_bar_timestamp = bar_time, rel_client_order_id = client_order_id\<rparr>"

definition related_records_of ::
    "TraceIdentity \<Rightarrow> ProcessBarEvaluation \<Rightarrow> AcceptedOrder option \<Rightarrow> PositionStep \<Rightarrow> ReconciliationContext \<Rightarrow> RelatedRecord list" where
  "related_records_of trace evaluation accepted_order position_step reconciliation_context =
     (let t = Some (ti_bar_timestamp trace) in
      [related_record ''signal'' (indicator_signal_label (pe_signal evaluation)) t None,
       related_record ''intent'' (trade_intent_label (pe_intent evaluation)) t None,
       related_record ''risk_decision''
         (risk_label_text (cycle_risk_decision_label (pe_risk_decision evaluation))) t None]
      @ (case accepted_order of None \<Rightarrow> []
         | Some order \<Rightarrow>
             [related_record ''order'' (ao_client_order_id order) t (Some (ao_client_order_id order)),
              related_record ''fill'' (ao_client_order_id order) t (Some (ao_client_order_id order))])
      @ (case ps_reason position_step of None \<Rightarrow> []
         | Some reason \<Rightarrow> [related_record ''position'' reason t None])
      @ (case rcx_latest reconciliation_context of None \<Rightarrow> []
         | Some latest \<Rightarrow> [related_record ''reconciliation'' (rsn_reason latest) None None]))"

fun reject_reason :: "RiskDecision \<Rightarrow> string option" where
  "reject_reason (Allow _) = None"
| "reject_reason (Reject reason) = Some reason"

definition execution_order_step :: "TradeIntent \<Rightarrow> AcceptedOrder \<Rightarrow> ExecutionOrderStep" where
  "execution_order_step intent order = \<lparr>eo_client_order_id = ao_client_order_id order, eo_intent = intent,
     eo_status = ''submitted'', eo_price = ao_price order, eo_quantity = ao_quantity order\<rparr>"

definition execution_fill_step :: "AcceptedOrder \<Rightarrow> ExecutionFillStep" where
  "execution_fill_step order = \<lparr>ef_client_order_id = ao_client_order_id order, ef_price = ao_price order,
     ef_quantity = ao_quantity order, ef_fee_asset = ao_fee_asset order, ef_fee_amount = ao_fee_amount order,
     ef_fee_normalized_usd = ao_fee_normalized_usd order\<rparr>"

definition build_cycle_trace ::
    "TraceIdentity \<Rightarrow> OhlcvBar \<Rightarrow> ProcessBarEvaluation \<Rightarrow> AcceptedOrder option \<Rightarrow> PositionStep \<Rightarrow> CapitalState
     \<Rightarrow> CapitalState \<Rightarrow> ReconciliationContext \<Rightarrow> RelatedEvent list \<Rightarrow> int \<Rightarrow> CycleTrace" where
  "build_cycle_trace trace bar evaluation accepted_order position_step capital_before capital_after
       reconciliation_context related_events created_at_ms =
     (let outcome = cycle_outcome evaluation accepted_order;
          risk_decision = cycle_risk_decision_label (pe_risk_decision evaluation)
      in \<lparr>tr_summary = build_cycle_summary trace (pe_signal evaluation) (pe_intent evaluation) risk_decision outcome created_at_ms,
          tr_trigger = \<lparr>ct_trigger_kind = ti_trigger_kind trace, ct_phase = ti_phase trace,
            ct_bar_timestamp = ti_bar_timestamp trace, ct_close = bar_close bar,
            ct_signal_source = strategy_signal_source_label (pe_signal_source evaluation)\<rparr>,
          tr_signal_step = \<lparr>ss_step_signal = pe_signal evaluation, ss_step_close = bar_close bar,
            ss_step_metadata = (if SignalMetadata_is_empty (pe_signal_metadata evaluation) then None
              else Some (pe_signal_metadata evaluation))\<rparr>,
          tr_intent_step = \<lparr>is_signal = pe_signal evaluation, is_intent = pe_intent evaluation,
            is_strategy_rationale = pe_strategy_rationale evaluation,
            is_has_position_before = pe_has_position_before evaluation,
            is_order_quantity = pe_order_quantity evaluation,
            is_order_quantity_adjustment_reason = pe_order_quantity_adjustment_reason evaluation,
            is_order_ledger_outcome = map_option ledger_outcome_label (pe_order_ledger_outcome evaluation)\<rparr>,
          tr_risk_step = \<lparr>rs_intent = pe_intent evaluation, rs_decision = risk_decision,
            rs_reason = reject_reason (pe_risk_decision evaluation), rs_stale_data = pe_stale_data evaluation,
            rs_stale_data_diagnostics = pe_stale_data_diagnostics evaluation,
            rs_cooldown_active = pe_cooldown_active evaluation,
            rs_account_open_positions = pe_account_open_positions evaluation,
            rs_account_daily_loss_pct = pe_account_daily_loss_pct evaluation,
            rs_observed_spread_bps = ucast (pe_observed_spread_bps evaluation),
            rs_estimated_slippage_bps = ucast (pe_estimated_slippage_bps evaluation),
            rs_budget_room = pe_budget_room evaluation\<rparr>,
          tr_execution_step = \<lparr>es_order = map_option (execution_order_step (pe_intent evaluation)) accepted_order,
            es_fill = map_option execution_fill_step accepted_order\<rparr>,
          tr_position_step = position_step, tr_capital_before = capital_before, tr_capital_after = capital_after,
          tr_reconciliation_context = reconciliation_context,
          tr_related_records = related_records_of trace evaluation accepted_order position_step reconciliation_context,
          tr_related_events = related_events\<rparr>)"

subsection \<open>Trace ids\<close>

lemma hex_digit_inj: "d < 16 \<Longrightarrow> d' < 16 \<Longrightarrow> hex_digit d = hex_digit d' \<Longrightarrow> d = d'"
proof -
  assume d: "d < 16" "d' < 16" and eq: "hex_digit d = hex_digit d'"
  have "(if d < 10 then 48 + d else 87 + d) = (if d' < 10 then 48 + d' else 87 + d')"
    using d arg_cong [OF eq, of "of_char :: char \<Rightarrow> nat"]
    by (auto simp: hex_digit_def split: if_splits)
  then show "d = d'" using d by (auto split: if_splits)
qed

lemma hex_digit_not_underscore: "d < 16 \<Longrightarrow> hex_digit d \<noteq> CHR ''_''"
proof
  assume d: "d < 16" and eq: "hex_digit d = CHR ''_''"
  have "(of_char (hex_digit d) :: nat) = 95" unfolding eq by simp
  then show False using d by (auto simp: hex_digit_def split: if_splits)
qed

lemma show_hex_no_underscore: "CHR ''_'' \<notin> set (show_hex n)"
proof (induction n rule: show_hex.induct)
  case (1 n)
  then show ?case
    using hex_digit_not_underscore [of n] hex_digit_not_underscore [of "n mod 16"]
    by (subst show_hex.simps) auto
qed

lemma show_hex_nonempty: "show_hex n \<noteq> []"
  by (subst show_hex.simps) simp

lemma show_hex_inj: "show_hex n = show_hex m \<Longrightarrow> n = m"
proof (induction n arbitrary: m rule: show_hex.induct)
  case (1 n)
  show ?case
  proof (cases "n < 16")
    case True
    then show ?thesis
      using 1(2) show_hex_nonempty [of "m div 16"] hex_digit_inj [of n m]
      by (subst (asm) (1 2) show_hex.simps) (auto split: if_splits)
  next
    case False
    then have m: "\<not> m < 16"
      using 1(2) show_hex_nonempty [of "n div 16"] by (subst (asm) (1 2) show_hex.simps) (auto split: if_splits)
    have "show_hex (n div 16) = show_hex (m div 16)" "hex_digit (n mod 16) = hex_digit (m mod 16)"
      using 1(2) False m by (subst (asm) (1 2) show_hex.simps, simp)+
    then have "n div 16 = m div 16" "n mod 16 = m mod 16"
      using 1(1) [OF False] hex_digit_inj [of "n mod 16" "m mod 16"] by auto
    then show ?thesis by (metis div_mult_mod_eq)
  qed
qed

lemma split_at_separator: "c \<notin> set a \<Longrightarrow> c \<notin> set b \<Longrightarrow> a @ c # x = b @ c # y \<Longrightarrow> a = b \<and> x = y"
  by (induction a arbitrary: b) (case_tac b; auto)+

fun trace_ids :: "nat list \<Rightarrow> u64 \<Rightarrow> string list" where
  "trace_ids [] sequence = []"
| "trace_ids (nanos # clock) sequence =
     (case generate_trace_id nanos sequence of (trace_id, sequence) \<Rightarrow> trace_id # trace_ids clock sequence)"

lemma trace_id_eq: "fst (generate_trace_id n s) = fst (generate_trace_id n' s') \<longleftrightarrow> n = n' \<and> s = s'"
proof
  assume "fst (generate_trace_id n s) = fst (generate_trace_id n' s')"
  then have eq: "show_hex n @ CHR ''_'' # show_hex (unat s) = show_hex n' @ CHR ''_'' # show_hex (unat s')"
    by (simp add: generate_trace_id_def)
  have "show_hex n = show_hex n'" "show_hex (unat s) = show_hex (unat s')"
    using split_at_separator [OF show_hex_no_underscore show_hex_no_underscore eq] by simp_all
  then show "n = n' \<and> s = s'" using show_hex_inj by (auto simp: word_unat_eq_iff)
qed simp

lemma trace_ids_nth: "i < length clock \<Longrightarrow> trace_ids clock s ! i = fst (generate_trace_id (clock ! i) (s + of_nat i))"
proof (induction clock arbitrary: s i)
  case (Cons nanos clock)
  then show ?case by (cases i) (simp_all add: generate_trace_id_def add.assoc)
qed simp

lemma trace_ids_length: "length (trace_ids clock s) = length clock"
  by (induction clock arbitrary: s) (simp_all add: generate_trace_id_def)

text \<open>The trace ids of one process run are pairwise different, whatever the clock reads, as long as
  the 64-bit sequence has not wrapped around.\<close>

theorem trace_ids_unique:
  assumes "length clock \<le> 2 ^ 64"
  shows "distinct (trace_ids clock sequence)"
  unfolding distinct_conv_nth
proof (intro allI impI)
  fix i j assume ij: "i < length (trace_ids clock sequence)" "j < length (trace_ids clock sequence)" "i \<noteq> j"
  have "of_nat i \<noteq> (of_nat j :: u64)"
    using ij assms by (simp add: trace_ids_length word_of_nat_eq_iff take_bit_nat_eq_self)
  then show "trace_ids clock sequence ! i \<noteq> trace_ids clock sequence ! j"
    using ij by (simp add: trace_ids_length trace_ids_nth trace_id_eq)
qed

theorem trace_ids_unique_witness: "distinct (trace_ids [5, 5, 3] 1)"
  by (rule trace_ids_unique) simp

subsection \<open>Outcomes\<close>

text \<open>What the outcome of a cycle tells of its evaluation and order.\<close>

lemma cycle_outcome_iff:
  "cycle_outcome evaluation accepted_order = RiskRejected \<longleftrightarrow> (\<exists>reason. pe_risk_decision evaluation = Reject reason)"
  "cycle_outcome evaluation accepted_order = NoOpOutcome
     \<longleftrightarrow> pe_risk_decision evaluation = Allow NoOp \<and> accepted_order = None"
  "cycle_outcome evaluation accepted_order \<noteq> Failed"
  by (auto simp: cycle_outcome_def split: RiskDecision.split option.split)

end
