(* ===== verification/Workflow.thy ===== *)
theory Workflow
  imports Prelude
begin

section \<open>Fallible state-changing workflows\<close>

text \<open>
  Rust methods on \<open>&mut self\<close> that return a \<open>Result\<close> are functions from the state to the
  result and the new state: an early return through \<open>?\<close> keeps the changes made before it. This
  theory has the sequencing operators, the frame and invariant judgements
  (\<open>keeps f m\<close>: the workflow never changes \<open>f\<close> of the state; \<open>preserves I m\<close>: it keeps the
  invariant on success and on failure) and their rules, collected in \<open>frame_rules\<close> and
  \<open>invariant_rules\<close>.
\<close>

named_theorems frame_rules \<open>what a workflow leaves unchanged\<close>
named_theorems invariant_rules \<open>what a workflow preserves\<close>

type_synonym ('s, 'e, 'a) workflow = "'s \<Rightarrow> ('e + 'a) \<times> 's"

definition ok :: "'a \<Rightarrow> ('s, 'e, 'a) workflow" where
  "ok a s = (Inr a, s)"

definition fail :: "'e \<Rightarrow> ('s, 'e, 'a) workflow" where
  "fail e s = (Inl e, s)"

text \<open>\<open>m?\<close> followed by the rest.\<close>

definition then_do :: "('s, 'e, 'a) workflow \<Rightarrow> ('a \<Rightarrow> ('s, 'e, 'b) workflow) \<Rightarrow> ('s, 'e, 'b) workflow" where
  "then_do m k s = (case m s of (Inl e, s') \<Rightarrow> (Inl e, s') | (Inr a, s') \<Rightarrow> k a s')"

text \<open>Matching on the result instead of propagating the error.\<close>

definition handle :: "('s, 'e, 'a) workflow \<Rightarrow> ('e \<Rightarrow> ('s, 'f, 'b) workflow) \<Rightarrow> ('a \<Rightarrow> ('s, 'f, 'b) workflow)
    \<Rightarrow> ('s, 'f, 'b) workflow" where
  "handle m on_error on_ok s = (case m s of (Inl e, s') \<Rightarrow> on_error e s' | (Inr a, s') \<Rightarrow> on_ok a s')"

text \<open>Reading the state, a fallible read, and an infallible update.\<close>

definition reads :: "('s \<Rightarrow> 'a) \<Rightarrow> ('s, 'e, 'a) workflow" where
  "reads f s = (Inr (f s), s)"

definition tries :: "('s \<Rightarrow> 'e + 'a) \<Rightarrow> ('s, 'e, 'a) workflow" where
  "tries f s = (f s, s)"

definition updates :: "('s \<Rightarrow> 's) \<Rightarrow> ('s, 'e, unit) workflow" where
  "updates f s = (Inr (), f s)"

text \<open>A \<open>for\<close> loop with \<open>?\<close> in its body, and one that carries a value.\<close>

fun for_each :: "('x \<Rightarrow> ('s, 'e, unit) workflow) \<Rightarrow> 'x list \<Rightarrow> ('s, 'e, unit) workflow" where
  "for_each f [] = ok ()"
| "for_each f (x # xs) = then_do (f x) (\<lambda>_. for_each f xs)"

text \<open>
  An operation that may panic returns an option: \<open>None\<close> is the panic, and nothing runs after it.
  The operators continue with the value, repeat such an operation over a list, and end in a unit.
\<close>

definition expect_do :: "('s, 'e, 'a option) workflow \<Rightarrow> ('a \<Rightarrow> ('s, 'e, 'b option) workflow) \<Rightarrow> ('s, 'e, 'b option) workflow" where
  "expect_do m k = then_do m (\<lambda>r. case r of None \<Rightarrow> ok None | Some a \<Rightarrow> k a)"

fun expect_each :: "('x \<Rightarrow> ('s, 'e, 'a option) workflow) \<Rightarrow> 'x list \<Rightarrow> ('s, 'e, unit option) workflow" where
  "expect_each f [] = ok (Some ())"
| "expect_each f (x # xs) = expect_do (f x) (\<lambda>_. expect_each f xs)"

definition done_do :: "('s, 'e, unit) workflow \<Rightarrow> ('s, 'e, unit option) workflow" where
  "done_do m = then_do m (\<lambda>_. ok (Some ()))"

lemma then_do_ok [simp]: "then_do (ok a) k = k a"
  by (simp add: then_do_def ok_def fun_eq_iff)

lemma then_do_fail [simp]: "then_do (fail e) k = fail e"
  by (simp add: then_do_def fail_def fun_eq_iff)

lemma then_do_assoc: "then_do (then_do m k) l = then_do m (\<lambda>x. then_do (k x) l)"
  by (auto simp: then_do_def fun_eq_iff split: sum.splits prod.splits)

lemma run_simps [simp]:
  "ok a s = (Inr a, s)" "fail e s = (Inl e, s)" "reads f s = (Inr (f s), s)" "tries g s = (g s, s)"
  "updates u s = (Inr (), u s)"
  by (simp_all add: ok_def fail_def reads_def tries_def updates_def)

lemma then_do_cases:
  obtains (error) e s' where "m s = (Inl e, s')" "then_do m k s = (Inl e, s')"
  | (proceeds) a s' where "m s = (Inr a, s')" "then_do m k s = k a s'"
proof (cases "m s")
  case (Pair r s')
  then show ?thesis using that by (cases r) (auto simp: then_do_def)
qed

subsection \<open>Frames\<close>

definition keeps :: "('s \<Rightarrow> 'c) \<Rightarrow> ('s, 'e, 'a) workflow \<Rightarrow> bool" where
  "keeps f m \<longleftrightarrow> (\<forall>s. f (snd (m s)) = f s)"

lemma keepsD: "keeps f m \<Longrightarrow> f (snd (m s)) = f s"
  by (simp add: keeps_def)

lemma keeps_run: "keeps f m \<Longrightarrow> m s = (r, s') \<Longrightarrow> f s' = f s"
  using keepsD [of f m s] by simp

lemma keeps_ok [frame_rules]: "keeps f (ok a)"
  by (simp add: keeps_def)

lemma keeps_fail [frame_rules]: "keeps f (fail e)"
  by (simp add: keeps_def)

lemma keeps_reads [frame_rules]: "keeps f (reads g)"
  by (simp add: keeps_def)

lemma keeps_tries [frame_rules]: "keeps f (tries g)"
  by (simp add: keeps_def)

lemma keeps_updates: "(\<And>s. f (u s) = f s) \<Longrightarrow> keeps f (updates u)"
  by (simp add: keeps_def)

lemma keeps_then_do [frame_rules]: "keeps f m \<Longrightarrow> (\<And>x. keeps f (k x)) \<Longrightarrow> keeps f (then_do m k)"
  unfolding keeps_def then_do_def by (auto split: sum.split prod.split) (metis snd_conv)+

lemma keeps_handle [frame_rules]:
  "keeps f m \<Longrightarrow> (\<And>e. keeps f (h e)) \<Longrightarrow> (\<And>x. keeps f (k x)) \<Longrightarrow> keeps f (handle m h k)"
  unfolding keeps_def handle_def by (auto split: sum.split prod.split) (metis snd_conv)+

lemma keeps_for_each [frame_rules]: "(\<And>x. keeps f (g x)) \<Longrightarrow> keeps f (for_each g xs)"
  by (induction xs) (auto intro: frame_rules)

lemma keeps_if [frame_rules]: "(c \<Longrightarrow> keeps f m) \<Longrightarrow> (\<not> c \<Longrightarrow> keeps f n) \<Longrightarrow> keeps f (if c then m else n)"
  by simp

lemma keeps_option [frame_rules]:
  "(keeps f m) \<Longrightarrow> (\<And>x. keeps f (k x)) \<Longrightarrow> keeps f (case opt of None \<Rightarrow> m | Some x \<Rightarrow> k x)"
  by (cases opt) auto

lemma keeps_sum [frame_rules]:
  "(\<And>e. keeps f (h e)) \<Longrightarrow> (\<And>x. keeps f (k x)) \<Longrightarrow> keeps f (case r of Inl e \<Rightarrow> h e | Inr x \<Rightarrow> k x)"
  by (cases r) auto

lemma keeps_prod [frame_rules]: "(\<And>x y. keeps f (k x y)) \<Longrightarrow> keeps f (case p of (x, y) \<Rightarrow> k x y)"
  by (cases p) auto

lemma keeps_bool [frame_rules]: "keeps f m \<Longrightarrow> keeps f n \<Longrightarrow> keeps f (case b of True \<Rightarrow> m | False \<Rightarrow> n)"
  by (cases b) auto

lemma keeps_expect_do [frame_rules]: "keeps f m \<Longrightarrow> (\<And>x. keeps f (k x)) \<Longrightarrow> keeps f (expect_do m k)"
  unfolding expect_do_def by (intro frame_rules)

lemma keeps_expect_each [frame_rules]: "(\<And>x. keeps f (g x)) \<Longrightarrow> keeps f (expect_each g xs)"
  by (induction xs) (auto intro: frame_rules)

lemma keeps_done_do [frame_rules]: "keeps f m \<Longrightarrow> keeps f (done_do m)"
  unfolding done_do_def by (intro frame_rules)

subsection \<open>Invariants\<close>

definition preserves :: "('s \<Rightarrow> bool) \<Rightarrow> ('s, 'e, 'a) workflow \<Rightarrow> bool" where
  "preserves I m \<longleftrightarrow> (\<forall>s. I s \<longrightarrow> I (snd (m s)))"

lemma preservesD: "preserves I m \<Longrightarrow> I s \<Longrightarrow> I (snd (m s))"
  by (simp add: preserves_def)

lemma preserves_ok [invariant_rules]: "preserves I (ok a)"
  by (simp add: preserves_def)

lemma preserves_fail [invariant_rules]: "preserves I (fail e)"
  by (simp add: preserves_def)

lemma preserves_reads [invariant_rules]: "preserves I (reads g)"
  by (simp add: preserves_def)

lemma preserves_tries [invariant_rules]: "preserves I (tries g)"
  by (simp add: preserves_def)

lemma preserves_updates: "(\<And>s. I s \<Longrightarrow> I (u s)) \<Longrightarrow> preserves I (updates u)"
  by (simp add: preserves_def)

lemma preserves_then_do [invariant_rules]:
  "preserves I m \<Longrightarrow> (\<And>x. preserves I (k x)) \<Longrightarrow> preserves I (then_do m k)"
  unfolding preserves_def then_do_def by (fastforce split: sum.split prod.split)

lemma preserves_handle [invariant_rules]:
  "preserves I m \<Longrightarrow> (\<And>e. preserves I (h e)) \<Longrightarrow> (\<And>x. preserves I (k x)) \<Longrightarrow> preserves I (handle m h k)"
  unfolding preserves_def handle_def by (fastforce split: sum.split prod.split)

lemma preserves_for_each [invariant_rules]: "(\<And>x. preserves I (g x)) \<Longrightarrow> preserves I (for_each g xs)"
  by (induction xs) (auto intro: invariant_rules)

lemma preserves_if [invariant_rules]:
  "(c \<Longrightarrow> preserves I m) \<Longrightarrow> (\<not> c \<Longrightarrow> preserves I n) \<Longrightarrow> preserves I (if c then m else n)"
  by simp

lemma preserves_option [invariant_rules]:
  "(preserves I m) \<Longrightarrow> (\<And>x. preserves I (k x)) \<Longrightarrow> preserves I (case opt of None \<Rightarrow> m | Some x \<Rightarrow> k x)"
  by (cases opt) auto

lemma preserves_sum [invariant_rules]:
  "(\<And>e. preserves I (h e)) \<Longrightarrow> (\<And>x. preserves I (k x)) \<Longrightarrow> preserves I (case r of Inl e \<Rightarrow> h e | Inr x \<Rightarrow> k x)"
  by (cases r) auto

lemma preserves_prod [invariant_rules]: "(\<And>x y. preserves I (k x y)) \<Longrightarrow> preserves I (case p of (x, y) \<Rightarrow> k x y)"
  by (cases p) auto

lemma preserves_expect_do [invariant_rules]: "preserves I m \<Longrightarrow> (\<And>x. preserves I (k x)) \<Longrightarrow> preserves I (expect_do m k)"
  unfolding expect_do_def by (intro invariant_rules)

lemma preserves_expect_each [invariant_rules]: "(\<And>x. preserves I (g x)) \<Longrightarrow> preserves I (expect_each g xs)"
  by (induction xs) (auto intro: invariant_rules)

lemma preserves_done_do [invariant_rules]: "preserves I m \<Longrightarrow> preserves I (done_do m)"
  unfolding done_do_def by (intro invariant_rules)

lemma keeps_preserves: "keeps f m \<Longrightarrow> preserves (\<lambda>s. P (f s)) m"
  by (simp add: keeps_def preserves_def)

subsection \<open>Partial correctness\<close>

text \<open>Started where \<open>P\<close> holds, the workflow fails only into \<open>E\<close> and succeeds only into \<open>Q\<close>.\<close>

definition runs :: "('s \<Rightarrow> bool) \<Rightarrow> ('s, 'e, 'a) workflow \<Rightarrow> ('s \<Rightarrow> bool) \<Rightarrow> ('a \<Rightarrow> 's \<Rightarrow> bool) \<Rightarrow> bool" where
  "runs P m E Q \<longleftrightarrow> (\<forall>s. P s \<longrightarrow> (case m s of (Inl e, s') \<Rightarrow> E s' | (Inr a, s') \<Rightarrow> Q a s'))"

lemma runs_then_do: "runs P m E Q \<Longrightarrow> (\<And>a. runs (Q a) (k a) E R) \<Longrightarrow> runs P (then_do m k) E R"
  unfolding runs_def then_do_def by (fastforce split: sum.splits prod.splits)

lemma runs_weaken:
  "runs P m E Q \<Longrightarrow> (\<And>s. P' s \<Longrightarrow> P s) \<Longrightarrow> (\<And>s. E s \<Longrightarrow> E' s) \<Longrightarrow> (\<And>a s. Q a s \<Longrightarrow> Q' a s) \<Longrightarrow> runs P' m E' Q'"
  unfolding runs_def by (fastforce split: sum.splits prod.splits)

lemma runs_preserves: "preserves I m \<Longrightarrow> (\<And>s. I s \<Longrightarrow> E s) \<Longrightarrow> runs I m E (\<lambda>_. I)"
  unfolding runs_def preserves_def by (auto split: sum.split prod.split)

lemma runs_ok: "(\<And>s. P s \<Longrightarrow> Q a s) \<Longrightarrow> runs P (ok a) E Q"
  by (simp add: runs_def)

lemma runs_tries: "(\<And>s a. P s \<Longrightarrow> f s = Inr a \<Longrightarrow> Q a s) \<Longrightarrow> (\<And>s. P s \<Longrightarrow> E s) \<Longrightarrow> runs P (tries f) E Q"
  by (auto simp: runs_def split: sum.split)

lemma runs_reads: "(\<And>s. P s \<Longrightarrow> Q (f s) s) \<Longrightarrow> runs P (reads f) E Q"
  by (simp add: runs_def)

lemma runs_if: "(c \<Longrightarrow> runs P m E Q) \<Longrightarrow> (\<not> c \<Longrightarrow> runs P n E Q) \<Longrightarrow> runs P (if c then m else n) E Q"
  by simp

lemma runs_both: "runs P m E Q \<Longrightarrow> runs P' m E' Q' \<Longrightarrow> runs (\<lambda>s. P s \<and> P' s) m (\<lambda>s. E s \<and> E' s) (\<lambda>a s. Q a s \<and> Q' a s)"
  unfolding runs_def by (auto split: sum.splits prod.splits)

lemma runsD: "runs P m E (\<lambda>_. E) \<Longrightarrow> P s \<Longrightarrow> E (snd (m s))"
  unfolding runs_def by (auto split: sum.splits prod.splits) (metis sum.exhaust surjective_pairing)

end
