(* ===== verification/LaneExecution.thy ===== *)
theory LaneExecution
  imports Trace Workflow Capital
begin

section \<open>Lane execution (openticker-lane/src/execution.rs)\<close>

text \<open>
  What a completed evaluation does: its journal records, the effects of the risk decision (ledger
  reservation, order submission, reconciliation of the fill) and the effects on the lane. The code is
  generic in an engine (the trait \<open>LaneExecutionEngine\<close>); here the engine is a record of
  workflows over a state type, and the measured submission time is an argument. The runtime's engine
  is the instance the theory \<open>Processing\<close> builds.

  The locale \<open>execution_ledger\<close> states what the workflow relies on of an engine's ledgers. Its lemmas show
  that the workflow refines the trading machine of the theory \<open>Capital\<close>, on success and on every error:
  capital that was reserved for an order is given back or turned into a fill before the workflow returns.
  The locale \<open>execution_world\<close> shows that an order is submitted only for an allowed, executable intent.
\<close>

text \<open>Text that third-party code produces: JSON (\<open>serde_json\<close>) and timestamps (\<open>chrono\<close>).\<close>

record Texts =
  tx_json :: "Json \<Rightarrow> string"
  tx_rfc3339 :: "timestamp \<Rightarrow> string"

record ('s, 'e, 'r) LaneExecutionEngine =
  xe_append_signal_record :: "string \<Rightarrow> OhlcvBar \<Rightarrow> SignalPhase \<Rightarrow> IndicatorSignal \<Rightarrow> SignalMetadata \<Rightarrow> string
    \<Rightarrow> ('s, 'e, unit) workflow"
  xe_append_intent_record :: "string \<Rightarrow> OhlcvBar \<Rightarrow> ProcessBarEvaluation \<Rightarrow> string \<Rightarrow> ('s, 'e, unit) workflow"
  xe_append_risk_decision_record :: "string \<Rightarrow> OhlcvBar \<Rightarrow> TradeIntent \<Rightarrow> RiskDecision \<Rightarrow> string \<Rightarrow> ('s, 'e, unit) workflow"
  xe_append_runtime_event :: "string \<Rightarrow> string \<Rightarrow> string \<Rightarrow> string \<Rightarrow> string \<Rightarrow> ('s, 'e, unit) workflow"
  xe_append_order_record :: "string \<Rightarrow> string \<Rightarrow> TradeIntent \<Rightarrow> string \<Rightarrow> f64 \<Rightarrow> f64 \<Rightarrow> OhlcvBar \<Rightarrow> string
    \<Rightarrow> ('s, 'e, unit) workflow"
  xe_append_fill_record :: "string \<Rightarrow> AcceptedOrder \<Rightarrow> OhlcvBar \<Rightarrow> string \<Rightarrow> ('s, 'e, unit) workflow"
  xe_append_position_record :: "string \<Rightarrow> PositionRecordState \<Rightarrow> OhlcvBar \<Rightarrow> string \<Rightarrow> ('s, 'e, unit) workflow"
  xe_record_ledger_rejection_with_trace :: "string \<Rightarrow> string \<Rightarrow> string \<Rightarrow> OhlcvBar \<Rightarrow> TradeIntent \<Rightarrow> OrderLedgerOutcome
    \<Rightarrow> string \<Rightarrow> ('s, 'e, Json) workflow"
  xe_record_ledger_rejection :: "string \<Rightarrow> string \<Rightarrow> string \<Rightarrow> OhlcvBar \<Rightarrow> TradeIntent \<Rightarrow> OrderLedgerOutcome
    \<Rightarrow> ('s, 'e, unit) workflow"
  xe_increment_ledger_reserve_attempts :: "'s \<Rightarrow> 's"
  xe_increment_risk_rejects_total :: "'s \<Rightarrow> 's"
  xe_bot_budget_pct :: "string \<Rightarrow> 's \<Rightarrow> 'e + f64"
  xe_ledger_owner_path_for_instance :: "string \<Rightarrow> 's \<Rightarrow> 'e + LedgerOwnerPath"
  xe_try_reserve_open :: "string \<Rightarrow> LedgerOwnerPath \<Rightarrow> f64 \<Rightarrow> f64 \<Rightarrow> ('s, 'e, ReservationError + unit) workflow"
  xe_release_reservation :: "string \<Rightarrow> LedgerOwnerPath \<Rightarrow> f64 \<Rightarrow> ('s, 'e, unit) workflow"
  xe_reconcile_open_fill :: "string \<Rightarrow> LedgerOwnerPath \<Rightarrow> f64 \<Rightarrow> f64 \<Rightarrow> ('s, 'e, unit) workflow"
  xe_submit_order :: "string \<Rightarrow> string \<Rightarrow> string \<Rightarrow> ExecutionRequest \<Rightarrow> ('s, 'e, AcceptedOrder) workflow"
  xe_record_execution_submit_latency :: "int \<Rightarrow> 's \<Rightarrow> 's"
  xe_apply_fill_state_mutation :: "string \<Rightarrow> OhlcvBar \<Rightarrow> bool \<Rightarrow> AcceptedOrder option \<Rightarrow> OrderLedgerOutcome option
    \<Rightarrow> RiskDecision \<Rightarrow> ('s, 'e, ProcessBarStateMutation) workflow"
  xe_release_position :: "string \<Rightarrow> LedgerOwnerPath \<Rightarrow> f64 \<Rightarrow> ('s, 'e, unit) workflow"
  xe_sync_account_ledger_from_instances :: "string \<Rightarrow> ('s, 'e, unit) workflow"
  xe_position_record_state :: "string \<Rightarrow> 's \<Rightarrow> 'e + PositionRecordState"
  xe_allowed_risk :: 'r
  xe_rejected_risk :: "string \<Rightarrow> 'r"

subsection \<open>Records of an evaluation\<close>

definition show_bool :: "bool \<Rightarrow> string" where
  "show_bool b = (if b then ''true'' else ''false'')"

definition intent_payload_text :: "ProcessBarEvaluation \<Rightarrow> string" where
  "intent_payload_text evaluation = ''signal='' @ indicator_signal_label (pe_signal evaluation)
     @ '',signal_source='' @ strategy_signal_source_label (pe_signal_source evaluation)
     @ '',intent='' @ trade_intent_label (pe_intent evaluation)
     @ '',has_position_before='' @ show_bool (pe_has_position_before evaluation)"

definition signal_payload_text :: "SignalPhase \<Rightarrow> ProcessBarEvaluation \<Rightarrow> OhlcvBar \<Rightarrow> string" where
  "signal_payload_text phase evaluation bar = ''phase='' @ signal_phase_label phase
     @ '',signal='' @ indicator_signal_label (pe_signal evaluation)
     @ '',signal_source='' @ strategy_signal_source_label (pe_signal_source evaluation)
     @ '',close='' @ show_f64 (bar_close bar)"

text \<open>A runtime event and the related event of the trace that mirrors it.\<close>

definition emit :: "('s, 'e, 'r) LaneExecutionEngine \<Rightarrow> string \<Rightarrow> string \<Rightarrow> string \<Rightarrow> string \<Rightarrow> string \<Rightarrow> Json
    \<Rightarrow> ('s, 'e, RelatedEvent) workflow" where
  "emit engine scope instance_id kind text trace_id payload =
     then_do (xe_append_runtime_event engine scope instance_id kind text trace_id)
       (\<lambda>_. ok (trace_event scope kind payload))"

definition append_process_bar_records ::
    "('s, 'e, 'r) LaneExecutionEngine \<Rightarrow> string \<Rightarrow> OhlcvBar \<Rightarrow> SignalPhase \<Rightarrow> ProcessBarEvaluation \<Rightarrow> string
     \<Rightarrow> ('s, 'e, RelatedEvent list) workflow" where
  "append_process_bar_records engine instance_id bar phase evaluation trace_id =
     then_do (if pe_signal evaluation \<noteq> NoSignal
              then xe_append_signal_record engine instance_id bar phase (pe_signal evaluation)
                (pe_signal_metadata evaluation) trace_id
              else ok ()) (\<lambda>_.
     then_do (xe_append_intent_record engine instance_id bar evaluation trace_id) (\<lambda>_.
     then_do (emit engine ''intent'' instance_id ''intent.generated'' (intent_payload_text evaluation) trace_id
       (JString (intent_payload_text evaluation))) (\<lambda>intent_event.
     then_do (xe_append_risk_decision_record engine instance_id bar (pe_intent evaluation)
       (pe_risk_decision evaluation) trace_id) (\<lambda>_.
     then_do (case pe_order_quantity_adjustment_reason evaluation of
                None \<Rightarrow> ok []
              | Some reason \<Rightarrow> then_do (emit engine ''order'' instance_id ''order.quantity_adjusted'' reason trace_id
                  (JString reason)) (\<lambda>e. ok [e])) (\<lambda>adjusted_events.
     then_do (if pe_signal evaluation \<noteq> NoSignal
              then then_do (emit engine ''signal'' instance_id ''signal.emitted''
                (signal_payload_text phase evaluation bar) trace_id
                (JString (signal_payload_text phase evaluation bar))) (\<lambda>e. ok [e])
              else ok []) (\<lambda>signal_events.
     ok (intent_event # adjusted_events @ signal_events)))))))"

subsection \<open>Effects of the risk decision\<close>

fun adds_exposure :: "TradeIntent \<Rightarrow> bool" where
  "adds_exposure OpenLong = True"
| "adds_exposure AddLong = True"
| "adds_exposure _ = False"

definition risk_payload :: "Texts \<Rightarrow> string \<Rightarrow> OhlcvBar \<Rightarrow> TradeIntent \<Rightarrow> string \<Rightarrow> Json \<Rightarrow> Json" where
  "risk_payload tx symbol bar intent decision reason =
     JObject [(''symbol'', JString symbol), (''bar_timestamp'', JString (tx_rfc3339 tx (bar_timestamp bar))),
       (''intent'', JString (trade_intent_label intent)), (''decision'', JString decision), (''reason'', reason)]"

definition dust_payload :: "Texts \<Rightarrow> string \<Rightarrow> OhlcvBar \<Rightarrow> TradeIntent \<Rightarrow> Json" where
  "dust_payload tx symbol bar intent =
     JObject [(''intent'', JString (trade_intent_label intent)), (''symbol'', JString symbol),
       (''bar_timestamp'', JString (tx_rfc3339 tx (bar_timestamp bar))), (''price'', json_f64 (bar_close bar)),
       (''reason'', JString ''remaining ledger room fell below exchange minimum'')]"

definition order_payload :: "Texts \<Rightarrow> string \<Rightarrow> string \<Rightarrow> string \<Rightarrow> OhlcvBar \<Rightarrow> TradeIntent \<Rightarrow> AcceptedOrder \<Rightarrow> (string \<times> Json) list" where
  "order_payload tx account_id connector_kind symbol bar intent order =
     [(''account_id'', JString account_id), (''connector_kind'', JString connector_kind),
      (''client_order_id'', JString (ao_client_order_id order)), (''symbol'', JString symbol),
      (''bar_timestamp'', JString (tx_rfc3339 tx (bar_timestamp bar))),
      (''intent'', JString (trade_intent_label intent)), (''price'', json_f64 (ao_price order)),
      (''quantity'', json_f64 (ao_quantity order))]"

definition position_payload :: "Texts \<Rightarrow> string \<Rightarrow> OhlcvBar \<Rightarrow> bool \<Rightarrow> Json" where
  "position_payload tx symbol bar next_has_position =
     JObject [(''symbol'', JString symbol), (''bar_timestamp'', JString (tx_rfc3339 tx (bar_timestamp bar))),
       (''has_position'', JBool next_has_position)]"

fun outcome_of_reservation_error :: "ReservationError \<Rightarrow> OrderLedgerOutcome" where
  "outcome_of_reservation_error BotCapacityExceeded = BotExhausted"
| "outcome_of_reservation_error AccountCapacityExceeded = AccountExhausted"

text \<open>The reservation of an order that adds exposure; exits reserve nothing.\<close>

definition reserve_for_order ::
    "('s, 'e, 'r) LaneExecutionEngine \<Rightarrow> string \<Rightarrow> string \<Rightarrow> TradeIntent \<Rightarrow> f64 \<Rightarrow> ('s, 'e, ReservationError + unit) workflow" where
  "reserve_for_order engine instance_id account_id allowed_intent reserve_notional_usd =
     (if adds_exposure allowed_intent
      then then_do (updates (xe_increment_ledger_reserve_attempts engine)) (\<lambda>_.
           then_do (tries (xe_bot_budget_pct engine instance_id)) (\<lambda>bot_budget_pct.
           then_do (tries (xe_ledger_owner_path_for_instance engine instance_id)) (\<lambda>owner.
           xe_try_reserve_open engine account_id owner reserve_notional_usd bot_budget_pct)))
      else ok (Inr ()))"

definition submit_reserved_order ::
    "('s, 'e, 'r) LaneExecutionEngine \<Rightarrow> string \<Rightarrow> string \<Rightarrow> string \<Rightarrow> ExecutionRequest \<Rightarrow> f64 \<Rightarrow> ('s, 'e, AcceptedOrder) workflow" where
  "submit_reserved_order engine instance_id account_id connector_kind request reserve_notional_usd =
     handle (xe_submit_order engine instance_id account_id connector_kind request)
       (\<lambda>error.
          then_do (if adds_exposure (er_intent request)
                   then then_do (tries (xe_ledger_owner_path_for_instance engine instance_id)) (\<lambda>owner.
                        xe_release_reservation engine account_id owner reserve_notional_usd)
                   else ok ()) (\<lambda>_. fail error))
       ok"

definition settle_open_fill ::
    "('s, 'e, 'r) LaneExecutionEngine \<Rightarrow> string \<Rightarrow> string \<Rightarrow> TradeIntent \<Rightarrow> AcceptedOrder \<Rightarrow> f64 \<Rightarrow> ('s, 'e, unit) workflow" where
  "settle_open_fill engine instance_id account_id allowed_intent accepted_order reserve_notional_usd =
     (if adds_exposure allowed_intent
      then then_do (tries (xe_ledger_owner_path_for_instance engine instance_id)) (\<lambda>owner.
           xe_reconcile_open_fill engine account_id owner
             (calculate_position_notional_usd (ao_quantity accepted_order) (ao_price accepted_order)) reserve_notional_usd)
      else ok ())"

definition record_accepted_order ::
    "('s, 'e, 'r) LaneExecutionEngine \<Rightarrow> Texts \<Rightarrow> string \<Rightarrow> string \<Rightarrow> string \<Rightarrow> string \<Rightarrow> OhlcvBar \<Rightarrow> TradeIntent \<Rightarrow> bool
     \<Rightarrow> AcceptedOrder \<Rightarrow> string \<Rightarrow> ('s, 'e, RelatedEvent list) workflow" where
  "record_accepted_order engine tx instance_id account_id connector_kind symbol bar allowed_intent next_has_position
       accepted_order trace_id =
     (let order_fields = order_payload tx account_id connector_kind symbol bar allowed_intent accepted_order;
          submitted = JObject (order_fields @ [(''bar_close'', json_f64 (bar_close bar))]);
          filled = JObject order_fields;
          updated = position_payload tx symbol bar next_has_position
      in then_do (xe_append_order_record engine instance_id (ao_client_order_id accepted_order) allowed_intent
           ''submitted'' (ao_price accepted_order) (ao_quantity accepted_order) bar trace_id) (\<lambda>_.
         then_do (xe_append_fill_record engine instance_id accepted_order bar trace_id) (\<lambda>_.
         then_do (emit engine ''order'' instance_id ''order.submitted'' (tx_json tx submitted) trace_id submitted) (\<lambda>e1.
         then_do (emit engine ''order'' instance_id ''order.filled'' (tx_json tx filled) trace_id filled) (\<lambda>e2.
         then_do (emit engine ''position'' instance_id ''position.updated'' (tx_json tx updated) trace_id updated) (\<lambda>e3.
         ok [e1, e2, e3]))))))"

definition execute_allowed_intent ::
    "('s, 'e, 'r) LaneExecutionEngine \<Rightarrow> Texts \<Rightarrow> int \<Rightarrow> string \<Rightarrow> string \<Rightarrow> string \<Rightarrow> string \<Rightarrow> OhlcvBar \<Rightarrow> TradeIntent \<Rightarrow> bool \<Rightarrow> f64
     \<Rightarrow> TradeIntent \<Rightarrow> string \<Rightarrow> RelatedEvent list \<Rightarrow> ('s, 'e, 'r \<times> AcceptedOrder option \<times> RelatedEvent list) workflow" where
  "execute_allowed_intent engine tx submit_elapsed instance_id account_id connector_kind symbol bar intent
       next_has_position order_quantity allowed_intent trace_id related_events =
     (let reserve_notional_usd = calculate_position_notional_usd order_quantity (bar_close bar) in
      then_do (reserve_for_order engine instance_id account_id allowed_intent reserve_notional_usd) (\<lambda>reservation.
      case reservation of
        Inl error \<Rightarrow>
          then_do (xe_record_ledger_rejection engine instance_id account_id symbol bar intent
            (outcome_of_reservation_error error)) (\<lambda>_.
          ok (xe_rejected_risk engine (ledger_outcome_reason_code (outcome_of_reservation_error error)), None, related_events))
      | Inr _ \<Rightarrow>
          then_do (submit_reserved_order engine instance_id account_id connector_kind
            \<lparr>er_instance_id = instance_id, er_symbol = symbol, er_timestamp = bar_timestamp bar,
             er_intent = allowed_intent, er_price = bar_close bar, er_quantity = order_quantity\<rparr>
            reserve_notional_usd) (\<lambda>accepted_order.
          then_do (updates (xe_record_execution_submit_latency engine submit_elapsed)) (\<lambda>_.
          then_do (settle_open_fill engine instance_id account_id allowed_intent accepted_order reserve_notional_usd) (\<lambda>_.
          then_do (record_accepted_order engine tx instance_id account_id connector_kind symbol bar allowed_intent
            next_has_position accepted_order trace_id) (\<lambda>events.
          ok (xe_allowed_risk engine, Some accepted_order, related_events @ events)))))))"

definition apply_risk_decision_effects ::
    "('s, 'e, 'r) LaneExecutionEngine \<Rightarrow> Texts \<Rightarrow> int \<Rightarrow> string \<Rightarrow> string \<Rightarrow> string \<Rightarrow> string \<Rightarrow> OhlcvBar \<Rightarrow> TradeIntent \<Rightarrow> bool \<Rightarrow> f64
     \<Rightarrow> OrderLedgerOutcome option \<Rightarrow> RiskDecision \<Rightarrow> string
     \<Rightarrow> ('s, 'e, 'r \<times> AcceptedOrder option \<times> RelatedEvent list) workflow" where
  "apply_risk_decision_effects engine tx submit_elapsed instance_id account_id connector_kind symbol bar intent
       next_has_position order_quantity order_ledger_outcome risk_decision trace_id =
     (if order_ledger_outcome \<in> {Some BotExhausted, Some AccountExhausted} then
        then_do (xe_record_ledger_rejection_with_trace engine instance_id account_id symbol bar intent
          (the order_ledger_outcome) trace_id) (\<lambda>payload.
        ok (xe_rejected_risk engine (ledger_outcome_reason_code (the order_ledger_outcome)), None,
          [trace_event ''risk'' ''risk.rejected'' payload]))
      else case risk_decision of
        Allow allowed_intent \<Rightarrow>
          (let allowed = risk_payload tx symbol bar allowed_intent ''allowed'' JNull in
           then_do (emit engine ''risk'' instance_id ''risk.allowed'' (tx_json tx allowed) trace_id allowed) (\<lambda>e.
           if order_ledger_outcome = Some Dust then
             (let dust = dust_payload tx symbol bar intent in
              then_do (emit engine ''order'' instance_id ''order.ledger_dust'' (tx_json tx dust) trace_id dust) (\<lambda>e'.
              ok (xe_allowed_risk engine, None, [e, e'])))
           else if allowed_intent \<noteq> NoOp then
             execute_allowed_intent engine tx submit_elapsed instance_id account_id connector_kind symbol bar intent
               next_has_position order_quantity allowed_intent trace_id [e]
           else ok (xe_allowed_risk engine, None, [e])))
      | Reject reason \<Rightarrow>
          (let rejected = risk_payload tx symbol bar intent ''rejected'' (JString reason) in
           then_do (updates (xe_increment_risk_rejects_total engine)) (\<lambda>_.
           then_do (emit engine ''risk'' instance_id ''risk.rejected'' (tx_json tx rejected) trace_id rejected) (\<lambda>e.
           ok (xe_rejected_risk engine reason, None, [e])))))"

subsection \<open>Effects on the lane\<close>

definition apply_process_bar_state_effects ::
    "('s, 'e, 'r) LaneExecutionEngine \<Rightarrow> string \<Rightarrow> string \<Rightarrow> OhlcvBar \<Rightarrow> bool \<Rightarrow> bool \<Rightarrow> OrderLedgerOutcome option
     \<Rightarrow> RiskDecision \<Rightarrow> AcceptedOrder option \<Rightarrow> string \<Rightarrow> ('s, 'e, PositionStep) workflow" where
  "apply_process_bar_state_effects engine instance_id account_id bar has_position_before next_has_position
       order_ledger_outcome risk_decision accepted_order trace_id =
     then_do (xe_apply_fill_state_mutation engine instance_id bar next_has_position accepted_order
       order_ledger_outcome risk_decision) (\<lambda>mutation.
     then_do (case psm_position_record mutation of None \<Rightarrow> ok ()
       | Some position_record \<Rightarrow> xe_append_position_record engine instance_id position_record bar trace_id) (\<lambda>_.
     then_do (case psm_released_notional_usd mutation of None \<Rightarrow> ok ()
       | Some released_notional_usd \<Rightarrow>
           then_do (tries (xe_ledger_owner_path_for_instance engine instance_id)) (\<lambda>owner.
           xe_release_position engine account_id owner released_notional_usd)) (\<lambda>_.
     then_do (xe_sync_account_ledger_from_instances engine account_id) (\<lambda>_.
     then_do (tries (xe_position_record_state engine instance_id)) (\<lambda>position_record.
     ok \<lparr>ps_has_position_before = has_position_before, ps_has_position_after = prs_has_position position_record,
       ps_quantity_after = prs_quantity position_record, ps_entry_price_after = prs_entry_price position_record,
       ps_realized_pnl_usd = prs_realized_pnl_usd position_record,
       ps_reason = (if psm_position_record mutation \<noteq> None then Some ''order_filled'' else None)\<rparr>)))))"

subsection \<open>What the workflow relies on of an engine\<close>

text \<open>Logging operations leave a view of the state alone.\<close>

locale execution_logging =
  fixes engine :: "('s, 'e, 'r) LaneExecutionEngine" and view :: "'s \<Rightarrow> 'c"
  assumes log_signal: "keeps view (xe_append_signal_record engine i b ph sg md t)"
    and log_intent: "keeps view (xe_append_intent_record engine i b ev t)"
    and log_risk: "keeps view (xe_append_risk_decision_record engine i b intent d t)"
    and log_event: "keeps view (xe_append_runtime_event engine sc i k txt t)"
    and log_order: "keeps view (xe_append_order_record engine i c intent st p q b t)"
    and log_fill: "keeps view (xe_append_fill_record engine i order b t)"
    and log_position: "keeps view (xe_append_position_record engine i pos b t)"
    and log_rejection_trace: "keeps view (xe_record_ledger_rejection_with_trace engine i a sy b intent lo t)"
    and log_rejection: "keeps view (xe_record_ledger_rejection engine i a sy b intent lo)"
    and count_attempt: "view (xe_increment_ledger_reserve_attempts engine s) = view s"
    and count_reject: "view (xe_increment_risk_rejects_total engine s) = view s"
    and log_latency: "view (xe_record_execution_submit_latency engine ms s) = view s"
begin

lemma emit_keeps: "keeps view (emit engine sc i k txt t payload)"
  unfolding emit_def by (intro frame_rules log_event)

lemma records_keep: "keeps view (append_process_bar_records engine i b ph ev t)"
  unfolding append_process_bar_records_def
  by (intro frame_rules log_signal log_intent log_risk emit_keeps)

lemma accepted_order_keeps: "keeps view (record_accepted_order engine tx i a ck sy b intent nhp order t)"
  unfolding record_accepted_order_def Let_def
  by (intro frame_rules log_order log_fill emit_keeps)

lemma counters_keep:
  "keeps view (updates (xe_increment_ledger_reserve_attempts engine))"
  "keeps view (updates (xe_increment_risk_rejects_total engine))"
  "keeps view (updates (xe_record_execution_submit_latency engine ms))"
  by (simp_all add: keeps_updates count_attempt count_reject log_latency)

lemmas logs_preserve = emit_keeps [THEN keeps_preserves] log_rejection [THEN keeps_preserves]
  log_rejection_trace [THEN keeps_preserves] accepted_order_keeps [THEN keeps_preserves] counters_keep [THEN keeps_preserves]

end

text \<open>Everything but a submission leaves the outside world alone.\<close>

locale execution_world = execution_logging engine world
  for engine :: "('s, 'e, 'r) LaneExecutionEngine" and world :: "'s \<Rightarrow> 'w" +
  assumes world_reserve: "keeps world (xe_try_reserve_open engine a ow n pct)"
    and world_release: "keeps world (xe_release_reservation engine a ow n)"
    and world_reconcile: "keeps world (xe_reconcile_open_fill engine a ow f n)"
    and world_mutation: "keeps world (xe_apply_fill_state_mutation engine i b nhp ord lo d)"
    and world_release_position: "keeps world (xe_release_position engine a ow n)"
    and world_sync: "keeps world (xe_sync_account_ledger_from_instances engine a)"
begin

lemma reserve_keeps_world: "keeps world (reserve_for_order engine i a intent n)"
  unfolding reserve_for_order_def by (intro frame_rules counters_keep world_reserve)

lemma settle_keeps_world: "keeps world (settle_open_fill engine i a intent order n)"
  unfolding settle_open_fill_def by (intro frame_rules world_reconcile)

lemma state_effects_keep_world:
  "keeps world (apply_process_bar_state_effects engine i a b hpb nhp lo d order t)"
  unfolding apply_process_bar_state_effects_def
  by (intro frame_rules world_mutation log_position world_release_position world_sync)

lemma no_submission_unless_executable:
  assumes "\<not> (order_ledger_outcome = None \<and> (\<exists>allowed. risk_decision = Allow allowed \<and> allowed \<noteq> NoOp))"
  shows "keeps world (apply_risk_decision_effects engine tx ms i a ck sy b intent nhp q order_ledger_outcome risk_decision t)"
proof (cases risk_decision)
  case (Allow allowed)
  from assms Allow have "order_ledger_outcome \<noteq> None \<or> allowed = NoOp" by auto
  then show ?thesis
    unfolding apply_risk_decision_effects_def Allow RiskDecision.case Let_def
    by (intro frame_rules emit_keeps log_rejection_trace) (auto, metis OrderLedgerOutcome.exhaust)
next
  case (Reject reason)
  show ?thesis
    unfolding apply_risk_decision_effects_def Reject RiskDecision.case Let_def
    by (intro frame_rules emit_keeps log_rejection_trace counters_keep)
qed

end

text \<open>The ledgers of an engine: operations on an account are those of its ledger, all else leaves them alone.\<close>

locale execution_ledger = execution_logging engine ledgers
  for engine :: "('s, 'e, 'r) LaneExecutionEngine" and ledgers :: "'s \<Rightarrow> (string, AccountLedger) hmap" +
  fixes put :: "string \<Rightarrow> AccountLedger \<Rightarrow> 's \<Rightarrow> 's" and missing :: "string \<Rightarrow> 'e"
    and bad_reservation :: "string \<Rightarrow> f64 \<Rightarrow> 'e" and bad_position :: "string \<Rightarrow> f64 \<Rightarrow> 'e"
    and lane_notionals :: "string \<Rightarrow> 's \<Rightarrow> (LedgerOwnerPath \<times> f64) list"
  assumes ledgers_put: "ledgers (put a l s) = hm_insert a l (ledgers s)"
    and reserve: "xe_try_reserve_open engine a ow n pct s = (case hm_get (ledgers s) a of
        None \<Rightarrow> (Inl (missing a), s)
      | Some l \<Rightarrow> (case try_reserve_open ow n pct l of Inl e \<Rightarrow> (Inr (Inl e), s) | Inr l' \<Rightarrow> (Inr (Inr ()), put a l' s)))"
    and release: "xe_release_reservation engine a ow n s = (case hm_get (ledgers s) a of
        None \<Rightarrow> (Inl (missing a), s)
      | Some l \<Rightarrow> (case release_reservation ow n l of
            Inl InvalidReleaseAmount \<Rightarrow> (Inl (bad_reservation a n), s) | Inr l' \<Rightarrow> (Inr (), put a l' s)))"
    and reconcile: "xe_reconcile_open_fill engine a ow f n s = (case hm_get (ledgers s) a of
        None \<Rightarrow> (Inl (missing a), s) | Some l \<Rightarrow> (Inr (), put a (reconcile_open_fill ow f n l) s))"
    and close: "xe_release_position engine a ow n s = (case hm_get (ledgers s) a of
        None \<Rightarrow> (Inl (missing a), s)
      | Some l \<Rightarrow> (case release_position ow n l of
            Inl InvalidReleaseAmount \<Rightarrow> (Inl (bad_position a n), s) | Inr l' \<Rightarrow> (Inr (), put a l' s)))"
    and sync: "xe_sync_account_ledger_from_instances engine a s = (case hm_get (ledgers s) a of
        None \<Rightarrow> (Inl (missing a), s)
      | Some l \<Rightarrow> (Inr (), put a (replace_lane_open_notional (lane_notionals a s) l) s))"
    and submit_ledgers: "keeps ledgers (xe_submit_order engine i a ck request)"
    and mutation_ledgers: "keeps ledgers (xe_apply_fill_state_mutation engine i b nhp ord lo d)"
    and owner_put: "xe_ledger_owner_path_for_instance engine i (put a l s) = xe_ledger_owner_path_for_instance engine i s"
    and owner_submit: "keeps (xe_ledger_owner_path_for_instance engine i) (xe_submit_order engine i a ck request)"
    and owner_latency: "xe_ledger_owner_path_for_instance engine i (xe_record_execution_submit_latency engine ms s)
      = xe_ledger_owner_path_for_instance engine i s"
begin

text \<open>
  Whatever an order ends in, the ledgers have moved along steps of trading: a granted
  reservation is gone when the workflow returns, on success and on every failure. In between, the
  state holds the capital of the order:
\<close>

definition holding :: "((string, AccountLedger) hmap \<Rightarrow> bool) \<Rightarrow> string \<Rightarrow> string \<Rightarrow> f64 \<Rightarrow> 's \<Rightarrow> bool" where
  "holding J i a n s \<longleftrightarrow> (\<exists>m ow pct l l1. J m \<and> hm_get m a = Some l \<and> try_reserve_open ow n pct l = Inr l1
     \<and> ledgers s = hm_insert a l1 m \<and> xe_ledger_owner_path_for_instance engine i s = Inr ow)"

lemma holding_same:
  "holding J i a n s \<Longrightarrow> ledgers s' = ledgers s \<Longrightarrow> xe_ledger_owner_path_for_instance engine i s' = xe_ledger_owner_path_for_instance engine i s
   \<Longrightarrow> holding J i a n s'"
  by (simp add: holding_def)

lemma reserved_holds:
  assumes J: "J (ledgers s)" and entry: "adds_exposure intent"
    and run: "reserve_for_order engine i a intent n s = (r, s')"
  shows "if r = Inr (Inr ()) then holding J i a n s' else J (ledgers s')"
proof -
  let ?s = "xe_increment_ledger_reserve_attempts engine s"
  have "J (ledgers ?s)" by (simp add: J count_attempt)
  with run entry show ?thesis
    by (auto simp: reserve_for_order_def then_do_def reserve holding_def ledgers_put owner_put
        split: sum.splits option.splits) blast
qed

lemma release_settles:
  assumes "trade_closed J" "holding J i a n s" "xe_ledger_owner_path_for_instance engine i s = Inr ow"
    and run: "xe_release_reservation engine a ow n s = (r, s')"
  shows "J (ledgers s')"
proof -
  from assms(2,3) obtain m pct l l1 where held: "J m" "hm_get m a = Some l" "try_reserve_open ow n pct l = Inr l1"
    "ledgers s = hm_insert a l1 m" by (auto simp: holding_def)
  show ?thesis
  proof (cases "release_reservation ow n l1")
    case (Inl e)
    then have "\<not> (is_finite n \<and> 0 < n)" using reserved.shrink_ok_iff [of ow n l1] by (auto simp: is_ok_iff)
    with granted_invalid [OF held(3)] have "l1 = l" by simp
    with run Inl held show ?thesis by (cases e) (auto simp: release hm_get_insert hm_insert_same)
  next
    case (Inr l2)
    with held have "trade_step l l2" using trade_returned granted_within_rooms by blast
    from trade_closedD [OF assms(1) held(1,2) this] run Inr held show ?thesis
      by (auto simp: release hm_get_insert ledgers_put hm_insert_again)
  qed
qed

lemma reconcile_settles:
  assumes "trade_closed J" "holding J i a n s" "xe_ledger_owner_path_for_instance engine i s = Inr ow"
    and run: "xe_reconcile_open_fill engine a ow f n s = (r, s')"
  shows "J (ledgers s')"
proof -
  from assms(2,3) obtain m pct l l1 where held: "J m" "hm_get m a = Some l" "try_reserve_open ow n pct l = Inr l1"
    "ledgers s = hm_insert a l1 m" by (auto simp: holding_def)
  then have "trade_step l (reconcile_open_fill ow f n l1)" using trade_filled granted_within_rooms by blast
  from trade_closedD [OF assms(1) held(1,2) this] run held show ?thesis
    by (auto simp: reconcile hm_get_insert ledgers_put hm_insert_again)
qed

lemma submission_settles:
  assumes "trade_closed J" "holding J i a n s" "adds_exposure (er_intent request)"
    and run: "submit_reserved_order engine i a ck request n s = (r, s')"
  shows "case r of Inl _ \<Rightarrow> J (ledgers s') | Inr _ \<Rightarrow> holding J i a n s'"
proof -
  obtain r1 s1 where submit: "xe_submit_order engine i a ck request s = (r1, s1)" by fastforce
  from keeps_run [OF submit_ledgers submit] keeps_run [OF owner_submit submit] assms(2)
  have held: "holding J i a n s1" by (rule_tac holding_same)
  show ?thesis
  proof (cases r1)
    case (Inl e)
    from held obtain ow where ow: "xe_ledger_owner_path_for_instance engine i s1 = Inr ow" by (auto simp: holding_def)
    obtain r2 s2 where released: "xe_release_reservation engine a ow n s1 = (r2, s2)" by fastforce
    from release_settles [OF assms(1) held ow released] run submit Inl ow released assms(3) show ?thesis
      by (cases r2) (auto simp: submit_reserved_order_def handle_def then_do_def)
  qed (use run submit held in \<open>auto simp: submit_reserved_order_def handle_def\<close>)
qed

lemma fill_settles:
  assumes "trade_closed J" "holding J i a n s" "adds_exposure intent"
    and run: "settle_open_fill engine i a intent order n s = (r, s')"
  shows "J (ledgers s')"
proof -
  from assms(2) obtain ow where ow: "xe_ledger_owner_path_for_instance engine i s = Inr ow" by (auto simp: holding_def)
  with run assms(3) have "xe_reconcile_open_fill engine a ow (calculate_position_notional_usd (ao_quantity order) (ao_price order)) n s = (r, s')"
    by (simp add: settle_open_fill_def then_do_def)
  from reconcile_settles [OF assms(1,2) ow this] show ?thesis .
qed

lemma granted_execution_settles:
  assumes "trade_closed J" and entry: "adds_exposure allowed"
    and reserved: "reserve_for_order engine i a allowed (calculate_position_notional_usd q (bar_close b)) s = (Inr (Inr ()), s1)"
    and held: "holding J i a (calculate_position_notional_usd q (bar_close b)) s1"
    and run: "execute_allowed_intent engine tx ms i a ck sy b intent nhp q allowed t es s = (r, s')"
  shows "J (ledgers s')"
proof -
  let ?n = "calculate_position_notional_usd q (bar_close b)"
  let ?request = "\<lparr>er_instance_id = i, er_symbol = sy, er_timestamp = bar_timestamp b, er_intent = allowed,
    er_price = bar_close b, er_quantity = q\<rparr>"
  obtain r2 s2 where submitted: "submit_reserved_order engine i a ck ?request ?n s1 = (r2, s2)" by fastforce
  note settled = submission_settles [of J, OF assms(1) held _ submitted]
  show ?thesis
  proof (cases r2)
    case (Inl e)
    with settled entry run reserved submitted show ?thesis by (auto simp: execute_allowed_intent_def Let_def then_do_def)
  next
    case (Inr order)
    let ?s = "xe_record_execution_submit_latency engine ms s2"
    from Inr settled entry have "holding J i a ?n ?s" by (auto intro: holding_same simp: log_latency owner_latency)
    moreover obtain r3 s3 where filled: "settle_open_fill engine i a allowed order ?n ?s = (r3, s3)" by fastforce
    ultimately have "J (ledgers s3)" by (rule fill_settles [OF assms(1) _ entry])
    with run reserved submitted Inr filled keeps_run [OF accepted_order_keeps, of tx i a ck sy b allowed nhp order t s3]
    show ?thesis by (auto simp: execute_allowed_intent_def Let_def then_do_def split: sum.splits prod.splits)
  qed
qed

lemma entry_execution_settles:
  assumes "trade_closed J" and entry: "adds_exposure allowed" and J: "J (ledgers s)"
    and run: "execute_allowed_intent engine tx ms i a ck sy b intent nhp q allowed t es s = (r, s')"
  shows "J (ledgers s')"
proof -
  obtain r1 s1 where reserved: "reserve_for_order engine i a allowed (calculate_position_notional_usd q (bar_close b)) s = (r1, s1)"
    by fastforce
  from reserved_holds [of J, OF J entry this]
  consider (refused) "J (ledgers s1)" "r1 \<noteq> Inr (Inr ())"
    | (granted) "holding J i a (calculate_position_notional_usd q (bar_close b)) s1" "r1 = Inr (Inr ())" by (auto split: if_splits)
  then show ?thesis
  proof cases
    case refused
    then show ?thesis
      using run reserved keeps_run [OF log_rejection, of i a sy b intent _ s1]
      by (cases r1) (auto simp: execute_allowed_intent_def Let_def then_do_def split: sum.splits prod.splits)
  next
    case granted
    with reserved show ?thesis by (blast intro: granted_execution_settles [OF assms(1) entry _ _ run])
  qed
qed

lemma execution_settles:
  assumes "trade_closed J"
  shows "preserves (\<lambda>s. J (ledgers s)) (execute_allowed_intent engine tx ms i a ck sy b intent nhp q allowed t es)"
proof (cases "adds_exposure allowed")
  case False
  have "keeps ledgers (execute_allowed_intent engine tx ms i a ck sy b intent nhp q allowed t es)"
    unfolding execute_allowed_intent_def reserve_for_order_def submit_reserved_order_def settle_open_fill_def Let_def
    by (simp only: False if_False ExecutionRequest.simps)
      (intro frame_rules counters_keep submit_ledgers log_rejection accepted_order_keeps)
  then show ?thesis by (rule keeps_preserves)
qed (auto simp: preserves_def intro: entry_execution_settles [OF assms] surjective_pairing)

lemma effects_settle:
  assumes "trade_closed J"
  shows "preserves (\<lambda>s. J (ledgers s)) (apply_risk_decision_effects engine tx ms i a ck sy b intent nhp q lo d t)"
  using execution_settles [OF assms] unfolding apply_risk_decision_effects_def Let_def
  by (cases d) (auto intro!: invariant_rules logs_preserve)

lemma state_effects_settle:
  assumes "trade_closed J"
  shows "preserves (\<lambda>s. J (ledgers s)) (apply_process_bar_state_effects engine i a b hpb nhp lo d order t)"
proof -
  have step: "J (ledgers (put a l' s))" if "J (ledgers s)" "hm_get (ledgers s) a = Some l" "trade_step l l'" for a l l' s
    using trade_closedD [OF assms that] by (simp add: ledgers_put)
  have ops: "preserves (\<lambda>s. J (ledgers s)) (xe_release_position engine a ow n)"
    "preserves (\<lambda>s. J (ledgers s)) (xe_sync_account_ledger_from_instances engine a)" for ow n
    unfolding preserves_def close sync
    by (auto split: option.split sum.split LedgerError.split intro: step trade_step.intros)
  show ?thesis
    unfolding apply_process_bar_state_effects_def
    by (intro invariant_rules ops keeps_preserves [where P = J, OF mutation_ledgers] keeps_preserves [where P = J, OF log_position])
qed

text \<open>A submission that fails gives back what was reserved for it and reports the submission's error.\<close>

lemma failed_submission:
  assumes l: "hm_get (ledgers s1) a = Some l" and n: "is_finite n" "0 < n"
    and submit: "xe_submit_order engine i a ck request s1 = (Inl e, s2)"
    and owner: "xe_ledger_owner_path_for_instance engine i s2 = Inr ow" and entry: "adds_exposure (er_intent request)"
  shows "\<exists>l'. release_reservation ow n l = Inr l' \<and> submit_reserved_order engine i a ck request n s1 = (Inl e, put a l' s2)"
proof -
  have "hm_get (ledgers s2) a = Some l" using l keeps_run [OF submit_ledgers submit] by simp
  moreover obtain l' where "release_reservation ow n l = Inr l'"
    using reserved.shrink_ok_iff [of ow n l] n by (auto simp: is_ok_iff)
  ultimately show ?thesis
    using submit owner entry by (simp add: submit_reserved_order_def handle_def then_do_def release)
qed

end

text \<open>What the operations on ledgers, provider and lane preserve of a view that logging ignores, the workflow preserves.\<close>

locale execution_invariant = execution_logging engine view
  for engine :: "('s, 'e, 'r) LaneExecutionEngine" and view :: "'s \<Rightarrow> 'c" +
  fixes J :: "'c \<Rightarrow> bool"
  assumes inv_reserve: "preserves (\<lambda>s. J (view s)) (xe_try_reserve_open engine a ow n pct)"
    and inv_release: "preserves (\<lambda>s. J (view s)) (xe_release_reservation engine a ow n)"
    and inv_reconcile: "preserves (\<lambda>s. J (view s)) (xe_reconcile_open_fill engine a ow f n)"
    and inv_submit: "preserves (\<lambda>s. J (view s)) (xe_submit_order engine i a ck request)"
    and inv_mutation: "preserves (\<lambda>s. J (view s)) (xe_apply_fill_state_mutation engine i b nhp ord lo d)"
    and inv_close: "preserves (\<lambda>s. J (view s)) (xe_release_position engine a ow n)"
    and inv_sync: "preserves (\<lambda>s. J (view s)) (xe_sync_account_ledger_from_instances engine a)"
begin

lemma records_preserve: "preserves (\<lambda>s. J (view s)) (append_process_bar_records engine i b ph ev t)"
  by (rule keeps_preserves [OF records_keep])

lemma effects_preserve:
  "preserves (\<lambda>s. J (view s)) (apply_risk_decision_effects engine tx ms i acc ck sy b intent nhp q lo d t)"
proof -
  have "preserves (\<lambda>s. J (view s)) (execute_allowed_intent engine tx ms i acc ck sy b intent nhp q allowed t es)" for allowed es
    unfolding execute_allowed_intent_def reserve_for_order_def submit_reserved_order_def settle_open_fill_def Let_def
    by (intro invariant_rules inv_reserve inv_release inv_reconcile inv_submit logs_preserve)
  then show ?thesis
    unfolding apply_risk_decision_effects_def Let_def
    by (cases d) (auto intro!: invariant_rules logs_preserve)
qed

lemma state_effects_preserve:
  "preserves (\<lambda>s. J (view s)) (apply_process_bar_state_effects engine i acc b hpb nhp lo d order t)"
  unfolding apply_process_bar_state_effects_def
  by (intro invariant_rules inv_mutation inv_close inv_sync keeps_preserves [where P = J, OF log_position])

end

end
