(* ===== verification/Connectors.thy ===== *)
theory Connectors
  imports LaneRecovery "HOL-Library.Signed_Division"
begin

section \<open>Connectors (crate openticker-connectors)\<close>

text \<open>
  Connector kinds and their capabilities, the resilience state with its backoff and throttle windows,
  the offline \<open>StubConnector\<close>, the two connectors (an offline core, the account configuration and
  the resilience state; every operation goes to the offline core or to the remote provider), and the
  registry of accounts.

  \<open>AlpacaConnector\<close> and \<open>BinanceConnector\<close> have the same fields and dispatch in the same way, so
  both are the record \<open>Connector\<close>. Their remote operations are HTTP calls: the parameter
  \<open>RemoteProvider\<close>, workflows over the outside world. The clock is an arbitrary sequence of
  readings, consumed one by one, and the range of representable timestamps belongs to \<open>chrono\<close>:
  both are the parameter \<open>Clock\<close>. Locks are not modelled: an operation is one step. Client handles
  are shared references to the registry's client, so an operation looks the client up.

  The lemmas show that the reconnect delay never exceeds the policy's maximum and grows with the
  failures, and that the offline connector serves pages that a recovery accepts.
\<close>

subsection \<open>Kinds, states and errors\<close>

datatype ConnectorKind = Alpaca | Binance

definition ConnectorKind_parse :: "string \<Rightarrow> ConnectorKind option" where
  "ConnectorKind_parse raw = (if raw = ''alpaca'' then Some Alpaca else if raw = ''binance'' then Some Binance else None)"

fun ConnectorKind_as_str :: "ConnectorKind \<Rightarrow> string" where
  "ConnectorKind_as_str Alpaca = ''alpaca''"
| "ConnectorKind_as_str Binance = ''binance''"

datatype ConnectorRole = DataRole | ExecutionRole | DualRole

datatype ConnectionState = Connected | Disconnected | Degraded

datatype ConnectorError = ConnUnknownAccount string
  | DuplicateAccountId string
  | DemoModeRequired ConnectorKind
  | UnsupportedMode ConnectorKind ExecutionMode
  | MissingCredentialReference ConnectorKind string
  | MissingCredentialValue ConnectorKind string
  | OrderSubmission ConnectorKind string
  | StreamDecode ConnectorKind string
  | PreviewStream ConnectorKind string
  | RemoteSnapshot ConnectorKind string
  | RateLimited ConnectorKind "int option" string
  | Unavailable ConnectorKind ConnectionState

fun kind_debug :: "ConnectorKind \<Rightarrow> string" where
  "kind_debug Alpaca = ''Alpaca''"
| "kind_debug Binance = ''Binance''"

fun connection_debug :: "ConnectionState \<Rightarrow> string" where
  "connection_debug Connected = ''Connected''"
| "connection_debug Disconnected = ''Disconnected''"
| "connection_debug Degraded = ''Degraded''"

fun mode_debug :: "ExecutionMode \<Rightarrow> string" where
  "mode_debug Paper = ''Paper''"
| "mode_debug Live = ''Live''"

fun connector_error_text :: "ConnectorError \<Rightarrow> string" where
  "connector_error_text (ConnUnknownAccount account_id) = ''connector account `'' @ account_id @ ''` is not registered''"
| "connector_error_text (DuplicateAccountId account_id) = ''connector account `'' @ account_id @ ''` is configured more than once''"
| "connector_error_text (DemoModeRequired kind) = ''connector `'' @ kind_debug kind @ ''` requires demo mode for paper operation''"
| "connector_error_text (UnsupportedMode kind mode) =
     ''connector `'' @ kind_debug kind @ ''` does not support `'' @ mode_debug mode @ ''` mode''"
| "connector_error_text (MissingCredentialReference kind field) =
     ''connector `'' @ kind_debug kind @ ''` requires credential reference `'' @ field @ ''`''"
| "connector_error_text (MissingCredentialValue kind env_var) =
     ''connector `'' @ kind_debug kind @ ''` is missing environment value for `'' @ env_var @ ''`''"
| "connector_error_text (OrderSubmission kind detail) = ''connector `'' @ kind_debug kind @ ''` failed to submit order: '' @ detail"
| "connector_error_text (StreamDecode kind detail) =
     ''connector `'' @ kind_debug kind @ ''` failed to decode market stream payload: '' @ detail"
| "connector_error_text (PreviewStream kind detail) =
     ''connector `'' @ kind_debug kind @ ''` failed to start preview stream: '' @ detail"
| "connector_error_text (RemoteSnapshot kind detail) =
     ''connector `'' @ kind_debug kind @ ''` cannot fetch remote snapshot: '' @ detail"
| "connector_error_text (RateLimited kind retry_after_ms detail) = ''connector `'' @ kind_debug kind @ ''` is rate limited: '' @ detail"
| "connector_error_text (Unavailable kind state) = ''connector `'' @ kind_debug kind @ ''` is `'' @ connection_debug state
     @ ''` and cannot serve reconciliation state''"

subsection \<open>Resilience\<close>

record ConnectorResiliencePolicy =
  rp_reconnect_base_backoff_ms :: int
  rp_reconnect_max_backoff_ms :: int
  rp_reconnect_jitter_bps :: int
  rp_requires_ping_pong_keepalive :: bool
  rp_max_connection_lifetime_secs :: "int option"
  rp_max_messages_per_second :: "int option"
  rp_single_connection_per_api_key :: bool

definition reconnect_delay_ms :: "ConnectorResiliencePolicy \<Rightarrow> int \<Rightarrow> int" where
  "reconnect_delay_ms self consecutive_failures =
     (let capped_failures = max 1 (min 16 consecutive_failures);
          exponent = max 0 (capped_failures - 1);
          multiplier = 2 ^ nat exponent;
          raw_delay = min (sat_u64 (rp_reconnect_base_backoff_ms self * multiplier)) (rp_reconnect_max_backoff_ms self);
          jitter = sat_u64 (raw_delay * rp_reconnect_jitter_bps self) div 10000
      in min (sat_u64 (raw_delay + jitter)) (rp_reconnect_max_backoff_ms self))"

record ConnectorResilienceState =
  rs_consecutive_failures :: int
  rs_last_disconnect_at_ms :: "int option"
  rs_next_reconnect_at_ms :: "int option"
  rs_throttled_until_ms :: "int option"

definition ConnectorResilienceState_default :: ConnectorResilienceState where
  "ConnectorResilienceState_default = \<lparr>rs_consecutive_failures = 0, rs_last_disconnect_at_ms = None,
     rs_next_reconnect_at_ms = None, rs_throttled_until_ms = None\<rparr>"

definition note_disconnect :: "int \<Rightarrow> ConnectorResiliencePolicy \<Rightarrow> ConnectorResilienceState \<Rightarrow> ConnectorResilienceState" where
  "note_disconnect now_ms policy self =
     (let failures = min (rs_consecutive_failures self + 1) u32_max;
          delay_ms = saturating_millis_to_i64 (reconnect_delay_ms policy failures)
      in self\<lparr>rs_consecutive_failures := failures, rs_last_disconnect_at_ms := Some now_ms,
           rs_next_reconnect_at_ms := Some (sat_i64 (now_ms + delay_ms))\<rparr>)"

definition note_reconnect_success :: "ConnectorResilienceState \<Rightarrow> ConnectorResilienceState" where
  "note_reconnect_success self = self\<lparr>rs_consecutive_failures := 0, rs_last_disconnect_at_ms := None,
     rs_next_reconnect_at_ms := None, rs_throttled_until_ms := None\<rparr>"

definition note_rate_limit :: "int \<Rightarrow> int \<Rightarrow> ConnectorResilienceState \<Rightarrow> ConnectorResilienceState" where
  "note_rate_limit now_ms throttle_window_ms self =
     self\<lparr>rs_throttled_until_ms := Some (sat_i64 (now_ms + saturating_millis_to_i64 throttle_window_ms))\<rparr>"

definition can_attempt_reconnect :: "ConnectorResilienceState \<Rightarrow> int \<Rightarrow> bool" where
  "can_attempt_reconnect self now_ms =
     (if (case rs_throttled_until_ms self of None \<Rightarrow> False | Some until_ms \<Rightarrow> now_ms < until_ms) then False
      else case rs_next_reconnect_at_ms self of None \<Rightarrow> True | Some next_ms \<Rightarrow> next_ms \<le> now_ms)"

record ConnectorDescriptor =
  cd_kind :: ConnectorKind
  cd_role :: ConnectorRole
  cd_supports_paper :: bool
  cd_supports_live :: bool
  cd_supports_demo :: bool
  cd_resilience :: ConnectorResiliencePolicy

fun descriptor_for :: "ConnectorKind \<Rightarrow> ConnectorDescriptor" where
  "descriptor_for Alpaca = \<lparr>cd_kind = Alpaca, cd_role = DualRole, cd_supports_paper = True, cd_supports_live = True,
     cd_supports_demo = False, cd_resilience = \<lparr>rp_reconnect_base_backoff_ms = 500, rp_reconnect_max_backoff_ms = 30000,
       rp_reconnect_jitter_bps = 2000, rp_requires_ping_pong_keepalive = True, rp_max_connection_lifetime_secs = None,
       rp_max_messages_per_second = None, rp_single_connection_per_api_key = False\<rparr>\<rparr>"
| "descriptor_for Binance = \<lparr>cd_kind = Binance, cd_role = DualRole, cd_supports_paper = False, cd_supports_live = True,
     cd_supports_demo = True, cd_resilience = \<lparr>rp_reconnect_base_backoff_ms = 250, rp_reconnect_max_backoff_ms = 30000,
       rp_reconnect_jitter_bps = 2000, rp_requires_ping_pong_keepalive = True, rp_max_connection_lifetime_secs = Some 86400,
       rp_max_messages_per_second = Some 5, rp_single_connection_per_api_key = False\<rparr>\<rparr>"

definition connector_matrix :: "ConnectorDescriptor list" where
  "connector_matrix = [descriptor_for Alpaca, descriptor_for Binance]"

subsection \<open>Accounts, statuses and the outside\<close>

record ConnectorAccount =
  ca_account_id :: string
  ca_kind :: ConnectorKind
  ca_mode :: ExecutionMode
  ca_use_demo_mode :: bool
  ca_api_key_env :: "string option"
  ca_api_secret_env :: "string option"
  ca_passphrase_env :: "string option"
  ca_reconciliation_remote_snapshot :: bool
  ca_execution_remote_submission :: bool
  ca_reconciliation_base_url :: "string option"

record ConnectorStatus =
  cst_kind :: ConnectorKind
  cst_state :: ConnectionState
  cst_message :: string

record ConnectorAccountStatus =
  cas_account_id :: string
  cas_kind :: ConnectorKind
  cas_mode :: ExecutionMode
  cas_state :: ConnectionState
  cas_message :: string
  cas_resilience_policy :: ConnectorResiliencePolicy
  cas_resilience_state :: ConnectorResilienceState

record ConnectorSymbolConstraints =
  csc_fractional_entry_supported :: "bool option"
  csc_quantity_step :: "f64 option"
  csc_min_quantity :: "f64 option"
  csc_min_notional_usd :: "f64 option"
  csc_source :: "string option"

definition ConnectorSymbolConstraints_default :: ConnectorSymbolConstraints where
  "ConnectorSymbolConstraints_default = \<lparr>csc_fractional_entry_supported = None, csc_quantity_step = None,
     csc_min_quantity = None, csc_min_notional_usd = None, csc_source = None\<rparr>"

record Clock =
  ck_now_ms :: "nat \<Rightarrow> int"
  ck_now_nanos :: "nat \<Rightarrow> nat"
  ck_representable_ms :: "int \<Rightarrow> bool"

record 'w Outside =
  ow_world :: 'w
  ow_ticks :: nat

definition unix_now_ms :: "Clock \<Rightarrow> ('w Outside, 'e, int) workflow" where
  "unix_now_ms clock o' = (Inr (ck_now_ms clock (ow_ticks o')), o'\<lparr>ow_ticks := ow_ticks o' + 1\<rparr>)"

definition timestamp_of_millis :: "Clock \<Rightarrow> int \<Rightarrow> timestamp option" where
  "timestamp_of_millis clock ms = (if ck_representable_ms clock ms then Some (ms * 1000000) else None)"

text \<open>The remote operations of the connectors.\<close>

record 'w RemoteProvider =
  rem_fetch_snapshot :: "ConnectorAccount \<Rightarrow> ('w Outside, ConnectorError, ConnectorAccountSnapshot) workflow"
  rem_fetch_latest_bar :: "ConnectorAccount \<Rightarrow> string \<Rightarrow> Timeframe \<Rightarrow> ('w Outside, ConnectorError, OhlcvBar) workflow"
  rem_fetch_recent_bars :: "ConnectorAccount \<Rightarrow> string \<Rightarrow> Timeframe \<Rightarrow> nat \<Rightarrow> ('w Outside, ConnectorError, OhlcvBar list) workflow"
  rem_fetch_latest_confirmed_bar_timestamp :: "ConnectorAccount \<Rightarrow> string \<Rightarrow> Timeframe
    \<Rightarrow> ('w Outside, ConnectorError, timestamp option) workflow"
  rem_fetch_confirmed_bars_range :: "ConnectorAccount \<Rightarrow> string \<Rightarrow> Timeframe \<Rightarrow> timestamp option \<Rightarrow> timestamp \<Rightarrow> nat
    \<Rightarrow> ('w Outside, ConnectorError, ConfirmedBarPage) workflow"
  rem_submit_order :: "ConnectorAccount \<Rightarrow> ExecutionRequest \<Rightarrow> ('w Outside, ConnectorError, AcceptedOrder) workflow"
  rem_fetch_symbol_constraints :: "ConnectorAccount \<Rightarrow> string \<Rightarrow> ('w Outside, ConnectorError, ConnectorSymbolConstraints) workflow"
  rem_normalize_market_data_event :: "string \<Rightarrow> ConnectorError + NormalizedBarUpdate option"

subsection \<open>The offline connector\<close>

record StubConnector =
  sc_kind :: ConnectorKind
  sc_mode :: ExecutionMode
  sc_use_demo_mode :: bool
  sc_state :: ConnectionState
  sc_resilience_state :: ConnectorResilienceState

definition StubConnector_new :: "ConnectorKind \<Rightarrow> ExecutionMode \<Rightarrow> bool \<Rightarrow> StubConnector" where
  "StubConnector_new kind mode use_demo_mode = \<lparr>sc_kind = kind, sc_mode = mode, sc_use_demo_mode = use_demo_mode,
     sc_state = Connected, sc_resilience_state = ConnectorResilienceState_default\<rparr>"

definition validate_mode :: "StubConnector \<Rightarrow> ConnectorError + unit" where
  "validate_mode self =
     (let descriptor = descriptor_for (sc_kind self) in
      if sc_mode self = Paper \<and> cd_supports_paper descriptor then Inr ()
      else if sc_mode self = Paper \<and> cd_supports_demo descriptor \<and> sc_use_demo_mode self then Inr ()
      else if sc_mode self = Paper \<and> cd_supports_demo descriptor then Inl (DemoModeRequired (sc_kind self))
      else if sc_mode self = Live \<and> cd_supports_live descriptor then Inr ()
      else Inl (UnsupportedMode (sc_kind self) (sc_mode self)))"

fun execution_mode_label :: "ExecutionMode \<Rightarrow> string" where
  "execution_mode_label Paper = ''paper''"
| "execution_mode_label Live = ''live''"

definition stub_health :: "StubConnector \<Rightarrow> ConnectorStatus" where
  "stub_health self = \<lparr>cst_kind = sc_kind self, cst_state = sc_state self,
     cst_message = ''mode='' @ execution_mode_label (sc_mode self)\<rparr>"

definition stub_fetch_account_snapshot :: "StubConnector \<Rightarrow> ConnectorError + ConnectorAccountSnapshot" where
  "stub_fetch_account_snapshot self =
     (if sc_state self = Connected then Inr \<lparr>cs_open_orders = [], cs_positions = [], cs_balances = []\<rparr>
      else Inl (Unavailable (sc_kind self) (sc_state self)))"

definition stub_timeframe_ms :: "Timeframe \<Rightarrow> int" where
  "stub_timeframe_ms timeframe =
     (let ms = Timeframe_duration timeframe div 1000000 in max (if ms \<le> i64_max then ms else 60000) 1)"

definition latest_confirmed_start_ms :: "int \<Rightarrow> int \<Rightarrow> int" where
  "latest_confirmed_start_ms now_ms timeframe_ms' = sat_i64 (now_ms - now_ms mod timeframe_ms' - timeframe_ms')"

fun stub_anchor :: "ConnectorKind \<Rightarrow> f64" where
  "stub_anchor Alpaca = f64_rnd 150"
| "stub_anchor Binance = f64_rnd 50000"

text \<open>The synthetic bar at a time: integer division truncates, the remainder is Euclidean.\<close>

definition stub_bar :: "StubConnector \<Rightarrow> int \<Rightarrow> timestamp \<Rightarrow> int \<Rightarrow> OhlcvBar" where
  "stub_bar self timeframe_ms' time timestamp_ms =
     (let wave = f64_rnd (of_int ((timestamp_ms sdiv timeframe_ms') mod 10));
          close = stub_anchor (sc_kind self) + wave
      in \<lparr>bar_timestamp = time, bar_open = close - f64_rnd (1 / 5), bar_high = close + f64_rnd (2 / 5),
           bar_low = close - f64_rnd (1 / 2), bar_close = close, bar_volume = f64_rnd 1000\<rparr>)"

definition stub_fetch_latest_bar :: "Clock \<Rightarrow> StubConnector \<Rightarrow> Timeframe \<Rightarrow> ('w Outside, ConnectorError, OhlcvBar) workflow" where
  "stub_fetch_latest_bar clock self timeframe =
     then_do (unix_now_ms clock) (\<lambda>now_ms.
     let start_ms = latest_confirmed_start_ms now_ms (stub_timeframe_ms timeframe) in
     case timestamp_of_millis clock start_ms of
       None \<Rightarrow> fail (RemoteSnapshot (sc_kind self) ''failed to construct stub bar timestamp'')
     | Some time \<Rightarrow> ok (stub_bar self (stub_timeframe_ms timeframe) time start_ms))"

fun stub_bars_back :: "Clock \<Rightarrow> StubConnector \<Rightarrow> int \<Rightarrow> int \<Rightarrow> nat \<Rightarrow> ConnectorError + OhlcvBar list" where
  "stub_bars_back clock self timeframe_ms' start_ms 0 = Inr []"
| "stub_bars_back clock self timeframe_ms' start_ms (Suc offset) =
     (let offset_i64 = saturating_millis_to_i64 (int offset);
          timestamp_ms = sat_i64 (start_ms - sat_i64 (timeframe_ms' * offset_i64)) in
      case timestamp_of_millis clock timestamp_ms of
        None \<Rightarrow> Inl (RemoteSnapshot (sc_kind self) ''failed to construct stub historical bar timestamp'')
      | Some time \<Rightarrow> (case stub_bars_back clock self timeframe_ms' start_ms offset of
            Inl e \<Rightarrow> Inl e
          | Inr bars \<Rightarrow> Inr (stub_bar self timeframe_ms' time timestamp_ms # bars)))"

definition stub_fetch_recent_bars ::
    "Clock \<Rightarrow> StubConnector \<Rightarrow> Timeframe \<Rightarrow> nat \<Rightarrow> ('w Outside, ConnectorError, OhlcvBar list) workflow" where
  "stub_fetch_recent_bars clock self timeframe limit =
     (if limit = 0 then ok []
      else then_do (unix_now_ms clock) (\<lambda>now_ms.
        let tf = stub_timeframe_ms timeframe in
        tries (\<lambda>_. stub_bars_back clock self tf (latest_confirmed_start_ms now_ms tf) limit)))"

text \<open>The loop of the page: bars from \<open>current_ms\<close> on, at most \<open>requested\<close> of them, up to \<open>end_ms\<close>.\<close>

fun stub_page_bars :: "Clock \<Rightarrow> StubConnector \<Rightarrow> int \<Rightarrow> int \<Rightarrow> nat \<Rightarrow> int \<Rightarrow> ConnectorError + OhlcvBar list" where
  "stub_page_bars clock self timeframe_ms' end_ms 0 current_ms = Inr []"
| "stub_page_bars clock self timeframe_ms' end_ms (Suc requested) current_ms =
     (if end_ms < current_ms then Inr []
      else case timestamp_of_millis clock current_ms of
        None \<Rightarrow> Inl (RemoteSnapshot (sc_kind self) ''failed to construct stub recovery bar timestamp'')
      | Some time \<Rightarrow> (case stub_page_bars clock self timeframe_ms' end_ms requested (sat_i64 (current_ms + timeframe_ms')) of
            Inl e \<Rightarrow> Inl e
          | Inr bars \<Rightarrow> Inr (stub_bar self timeframe_ms' time current_ms # bars)))"

definition stub_fetch_confirmed_bars_range ::
    "Clock \<Rightarrow> StubConnector \<Rightarrow> Timeframe \<Rightarrow> timestamp option \<Rightarrow> timestamp \<Rightarrow> nat
     \<Rightarrow> ('w Outside, ConnectorError, ConfirmedBarPage) workflow" where
  "stub_fetch_confirmed_bars_range clock self timeframe start_after end_at limit =
     (if limit = 0 then ok \<lparr>cbp_bars = [], cbp_exhausted = False\<rparr>
      else if (case start_after of None \<Rightarrow> False | Some start \<Rightarrow> end_at \<le> start)
      then ok \<lparr>cbp_bars = [], cbp_exhausted = True\<rparr>
      else then_do (unix_now_ms clock) (\<lambda>now_ms.
        let tf = stub_timeframe_ms timeframe;
            effective_end_ms = min (timestamp_millis end_at) (latest_confirmed_start_ms now_ms tf);
            requested = max limit 1;
            first_timestamp_ms = (case start_after of
                None \<Rightarrow> sat_i64 (effective_end_ms - sat_i64 (tf * saturating_millis_to_i64 (int (requested - 1))))
              | Some start \<Rightarrow> sat_i64 (timestamp_millis start + tf)) in
        if effective_end_ms < first_timestamp_ms then ok \<lparr>cbp_bars = [], cbp_exhausted = True\<rparr>
        else then_do (tries (\<lambda>_. stub_page_bars clock self tf effective_end_ms requested first_timestamp_ms)) (\<lambda>bars.
          ok \<lparr>cbp_bars = bars,
            cbp_exhausted = (bars \<noteq> [] \<and> effective_end_ms \<le> timestamp_millis (bar_timestamp (last bars)))\<rparr>)))"

fun execution_error_text :: "ExecutionError \<Rightarrow> string" where
  "execution_error_text NonExecutableIntent = ''intent is not executable''"
| "execution_error_text ExecInvalidQuantity = ''order quantity must be greater than zero''"
| "execution_error_text ExecInvalidPrice = ''order price must be greater than zero''"

definition stub_submit_order :: "StubConnector \<Rightarrow> ExecutionRequest \<Rightarrow> ConnectorError + AcceptedOrder" where
  "stub_submit_order self request =
     (if sc_state self \<noteq> Connected then Inl (Unavailable (sc_kind self) (sc_state self))
      else case paper_submit request of
        Inl error \<Rightarrow> Inl (OrderSubmission (sc_kind self) (execution_error_text error))
      | Inr accepted \<Rightarrow> Inr (accepted\<lparr>ao_client_order_id :=
          ConnectorKind_as_str (sc_kind self) @ ''-'' @ ao_client_order_id accepted\<rparr>))"

subsection \<open>Connectors\<close>

record Connector =
  cn_inner :: StubConnector
  cn_account :: ConnectorAccount
  cn_resilience :: ConnectorResilienceState

definition Connector_new :: "ConnectorAccount \<Rightarrow> Connector" where
  "Connector_new account = \<lparr>cn_inner = StubConnector_new (ca_kind account) (ca_mode account) (ca_use_demo_mode account),
     cn_account = account, cn_resilience = ConnectorResilienceState_default\<rparr>"

definition cn_kind :: "Connector \<Rightarrow> ConnectorKind" where
  "cn_kind self = sc_kind (cn_inner self)"

definition cn_resilience_policy :: "Connector \<Rightarrow> ConnectorResiliencePolicy" where
  "cn_resilience_policy self = cd_resilience (descriptor_for (cn_kind self))"

definition cn_note_disconnect :: "int \<Rightarrow> Connector \<Rightarrow> Connector" where
  "cn_note_disconnect now_ms self = self\<lparr>cn_resilience := note_disconnect now_ms (cn_resilience_policy self) (cn_resilience self)\<rparr>"

definition cn_note_reconnect_success :: "Connector \<Rightarrow> Connector" where
  "cn_note_reconnect_success self = self\<lparr>cn_resilience := note_reconnect_success (cn_resilience self)\<rparr>"

definition cn_note_rate_limit :: "int \<Rightarrow> int \<Rightarrow> Connector \<Rightarrow> Connector" where
  "cn_note_rate_limit now_ms throttle_window_ms self =
     self\<lparr>cn_resilience := note_rate_limit now_ms throttle_window_ms (cn_resilience self)\<rparr>"

definition cn_fetch_account_snapshot ::
    "'w RemoteProvider \<Rightarrow> Connector \<Rightarrow> ('w Outside, ConnectorError, ConnectorAccountSnapshot) workflow" where
  "cn_fetch_account_snapshot remote self =
     (if \<not> ca_reconciliation_remote_snapshot (cn_account self) then tries (\<lambda>_. stub_fetch_account_snapshot (cn_inner self))
      else rem_fetch_snapshot remote (cn_account self))"

definition cn_fetch_latest_bar ::
    "Clock \<Rightarrow> 'w RemoteProvider \<Rightarrow> Connector \<Rightarrow> string \<Rightarrow> Timeframe \<Rightarrow> ('w Outside, ConnectorError, OhlcvBar) workflow" where
  "cn_fetch_latest_bar clock remote self symbol timeframe =
     (if \<not> ca_reconciliation_remote_snapshot (cn_account self) then stub_fetch_latest_bar clock (cn_inner self) timeframe
      else rem_fetch_latest_bar remote (cn_account self) symbol timeframe)"

definition cn_fetch_recent_bars ::
    "Clock \<Rightarrow> 'w RemoteProvider \<Rightarrow> Connector \<Rightarrow> string \<Rightarrow> Timeframe \<Rightarrow> nat \<Rightarrow> ('w Outside, ConnectorError, OhlcvBar list) workflow" where
  "cn_fetch_recent_bars clock remote self symbol timeframe limit =
     (if \<not> ca_reconciliation_remote_snapshot (cn_account self) then stub_fetch_recent_bars clock (cn_inner self) timeframe limit
      else rem_fetch_recent_bars remote (cn_account self) symbol timeframe limit)"

definition cn_fetch_latest_confirmed_bar_timestamp ::
    "Clock \<Rightarrow> 'w RemoteProvider \<Rightarrow> Connector \<Rightarrow> string \<Rightarrow> Timeframe \<Rightarrow> ('w Outside, ConnectorError, timestamp option) workflow" where
  "cn_fetch_latest_confirmed_bar_timestamp clock remote self symbol timeframe =
     (if \<not> ca_reconciliation_remote_snapshot (cn_account self)
      then then_do (stub_fetch_latest_bar clock (cn_inner self) timeframe) (\<lambda>bar. ok (Some (bar_timestamp bar)))
      else rem_fetch_latest_confirmed_bar_timestamp remote (cn_account self) symbol timeframe)"

definition cn_fetch_confirmed_bars_range ::
    "Clock \<Rightarrow> 'w RemoteProvider \<Rightarrow> Connector \<Rightarrow> string \<Rightarrow> Timeframe \<Rightarrow> timestamp option \<Rightarrow> timestamp \<Rightarrow> nat
     \<Rightarrow> ('w Outside, ConnectorError, ConfirmedBarPage) workflow" where
  "cn_fetch_confirmed_bars_range clock remote self symbol timeframe start_after end_at limit =
     (if \<not> ca_reconciliation_remote_snapshot (cn_account self)
      then stub_fetch_confirmed_bars_range clock (cn_inner self) timeframe start_after end_at limit
      else rem_fetch_confirmed_bars_range remote (cn_account self) symbol timeframe start_after end_at limit)"

definition cn_submit_order ::
    "'w RemoteProvider \<Rightarrow> Connector \<Rightarrow> ExecutionRequest \<Rightarrow> ('w Outside, ConnectorError, AcceptedOrder) workflow" where
  "cn_submit_order remote self request =
     (if \<not> ca_execution_remote_submission (cn_account self) then tries (\<lambda>_. stub_submit_order (cn_inner self) request)
      else rem_submit_order remote (cn_account self) request)"

definition cn_fetch_symbol_constraints ::
    "'w RemoteProvider \<Rightarrow> Connector \<Rightarrow> string \<Rightarrow> ('w Outside, ConnectorError, ConnectorSymbolConstraints) workflow" where
  "cn_fetch_symbol_constraints remote self symbol =
     (if \<not> ca_reconciliation_remote_snapshot (cn_account self) then ok ConnectorSymbolConstraints_default
      else rem_fetch_symbol_constraints remote (cn_account self) symbol)"

definition cn_normalize_market_data_event ::
    "'w RemoteProvider \<Rightarrow> Connector \<Rightarrow> string \<Rightarrow> ConnectorError + NormalizedBarUpdate option" where
  "cn_normalize_market_data_event remote self payload =
     (case cn_kind self of Alpaca \<Rightarrow> Inr None | Binance \<Rightarrow> rem_normalize_market_data_event remote payload)"

subsection \<open>The registry\<close>

record ConnectorRegistryEntry =
  ce_account :: ConnectorAccount
  ce_validation_error :: "string option"
  ce_client :: Connector

type_synonym ConnectorRegistry = "(string, ConnectorRegistryEntry) hmap"

fun register_accounts :: "ConnectorRegistry \<Rightarrow> ConnectorAccount list \<Rightarrow> ConnectorError + ConnectorRegistry" where
  "register_accounts entries [] = Inr entries"
| "register_accounts entries (account # accounts) =
     (if hm_get entries (ca_account_id account) \<noteq> None then Inl (DuplicateAccountId (ca_account_id account))
      else let client = Connector_new account;
               validation_error = (case validate_mode (cn_inner client) of Inl error \<Rightarrow> Some (connector_error_text error) | Inr _ \<Rightarrow> None)
           in register_accounts (hm_insert (ca_account_id account)
                \<lparr>ce_account = account, ce_validation_error = validation_error, ce_client = client\<rparr> entries) accounts)"

definition registry_from_accounts :: "ConnectorAccount list \<Rightarrow> ConnectorError + ConnectorRegistry" where
  "registry_from_accounts accounts = register_accounts [] accounts"

definition status_from_entry :: "ConnectorRegistryEntry \<Rightarrow> ConnectorAccountStatus" where
  "status_from_entry entry =
     (let health = stub_health (cn_inner (ce_client entry));
          health = (if ca_use_demo_mode (ce_account entry)
            then health\<lparr>cst_message := cst_message health @ '',demo=true''\<rparr> else health);
          health = (case ce_validation_error entry of None \<Rightarrow> health
            | Some error \<Rightarrow> health\<lparr>cst_state := Degraded, cst_message := cst_message health @ '','' @ error\<rparr>)
      in \<lparr>cas_account_id = ca_account_id (ce_account entry), cas_kind = ca_kind (ce_account entry),
           cas_mode = ca_mode (ce_account entry), cas_state = cst_state health, cas_message = cst_message health,
           cas_resilience_policy = cn_resilience_policy (ce_client entry),
           cas_resilience_state = cn_resilience (ce_client entry)\<rparr>)"

definition registry_statuses :: "ConnectorRegistry \<Rightarrow> ConnectorAccountStatus list" where
  "registry_statuses entries = sort_key cas_account_id (map status_from_entry (hm_values entries))"

definition status_for_account :: "string \<Rightarrow> ConnectorRegistry \<Rightarrow> ConnectorError + ConnectorAccountStatus" where
  "status_for_account account_id entries =
     (case hm_get entries account_id of None \<Rightarrow> Inl (ConnUnknownAccount account_id)
      | Some entry \<Rightarrow> Inr (status_from_entry entry))"

definition client_unchecked :: "string \<Rightarrow> ConnectorRegistry \<Rightarrow> ConnectorError + Connector" where
  "client_unchecked account_id entries =
     (case hm_get entries account_id of None \<Rightarrow> Inl (ConnUnknownAccount account_id)
      | Some entry \<Rightarrow> Inr (ce_client entry))"

definition connected_client :: "string \<Rightarrow> ConnectorRegistry \<Rightarrow> ConnectorError + Connector" where
  "connected_client account_id entries =
     (case status_for_account account_id entries of Inl e \<Rightarrow> Inl e
      | Inr status \<Rightarrow> if cas_state status \<noteq> Connected then Inl (Unavailable (cas_kind status) (cas_state status))
          else client_unchecked account_id entries)"

definition update_client :: "string \<Rightarrow> (Connector \<Rightarrow> Connector) \<Rightarrow> ConnectorRegistry \<Rightarrow> (ConnectorError + unit) \<times> ConnectorRegistry" where
  "update_client account_id f entries =
     (case hm_get entries account_id of None \<Rightarrow> (Inl (ConnUnknownAccount account_id), entries)
      | Some entry \<Rightarrow> (Inr (), hm_insert account_id (entry\<lparr>ce_client := f (ce_client entry)\<rparr>) entries))"

definition note_account_disconnect :: "string \<Rightarrow> int \<Rightarrow> ConnectorRegistry \<Rightarrow> (ConnectorError + unit) \<times> ConnectorRegistry" where
  "note_account_disconnect account_id now_ms = update_client account_id (cn_note_disconnect now_ms)"

definition note_account_reconnect_success :: "string \<Rightarrow> ConnectorRegistry \<Rightarrow> (ConnectorError + unit) \<times> ConnectorRegistry" where
  "note_account_reconnect_success account_id = update_client account_id cn_note_reconnect_success"

definition note_account_rate_limit :: "string \<Rightarrow> int \<Rightarrow> int \<Rightarrow> ConnectorRegistry \<Rightarrow> (ConnectorError + unit) \<times> ConnectorRegistry" where
  "note_account_rate_limit account_id now_ms throttle_window_ms =
     update_client account_id (cn_note_rate_limit now_ms throttle_window_ms)"

definition registry_is_ready :: "ConnectorRegistry \<Rightarrow> bool" where
  "registry_is_ready entries = (\<forall>entry \<in> set (hm_values entries). cas_state (status_from_entry entry) = Connected)"

subsection \<open>Backoff\<close>

lemma reconnect_multiplier_mono:
  assumes "a \<le> b"
  shows "(2::int) ^ nat (max 0 (max 1 (min 16 a) - 1)) \<le> 2 ^ nat (max 0 (max 1 (min 16 b) - 1))"
  by (rule power_increasing) (use assms in auto)

lemma sat_u64_mono: "a \<le> b \<Longrightarrow> sat_u64 a \<le> sat_u64 b"
  by (auto simp: sat_u64_def)

lemma sat_u64_nonneg: "0 \<le> a \<Longrightarrow> 0 \<le> sat_u64 a"
  by (simp add: sat_u64_def u64_max_def)

text \<open>The delay before a reconnect: at least the base delay, at most the policy's maximum, and never
  shorter after more failures.\<close>

lemma reconnect_delay_mono:
  assumes "0 \<le> rp_reconnect_base_backoff_ms p" "0 \<le> rp_reconnect_jitter_bps p" "0 \<le> rp_reconnect_max_backoff_ms p" "a \<le> b"
  shows "reconnect_delay_ms p a \<le> reconnect_delay_ms p b"
proof -
  define raw where "raw k = min (sat_u64 (rp_reconnect_base_backoff_ms p * 2 ^ nat (max 0 (max 1 (min 16 k) - 1))))
    (rp_reconnect_max_backoff_ms p)" for k
  have raw: "raw a \<le> raw b" "0 \<le> raw k" for k
    subgoal unfolding raw_def using assms reconnect_multiplier_mono [OF assms(4)]
      by (intro min.mono sat_u64_mono mult_left_mono) auto
    subgoal unfolding raw_def using assms by (simp add: sat_u64_nonneg)
    done
  have jitter: "sat_u64 (raw a * rp_reconnect_jitter_bps p) div 10000 \<le> sat_u64 (raw b * rp_reconnect_jitter_bps p) div 10000"
    using raw assms(2) by (intro zdiv_mono1 sat_u64_mono mult_right_mono) auto
  have delay: "reconnect_delay_ms p k = min (sat_u64 (raw k + sat_u64 (raw k * rp_reconnect_jitter_bps p) div 10000))
    (rp_reconnect_max_backoff_ms p)" for k
    by (simp add: reconnect_delay_ms_def raw_def Let_def)
  show ?thesis
    unfolding delay using raw(1) jitter by (intro min.mono sat_u64_mono add_mono) auto
qed

lemma reconnect_delay_le_max: "reconnect_delay_ms p k \<le> rp_reconnect_max_backoff_ms p"
  by (simp add: reconnect_delay_ms_def Let_def)

subsection \<open>Pages of the offline connector\<close>

lemma stub_timeframe_bounds: "60000 \<le> stub_timeframe_ms timeframe" "stub_timeframe_ms timeframe \<le> 86400000"
  by (cases timeframe; simp add: stub_timeframe_ms_def i64_max_def)+

lemma sat_i64_step: "cur < i64_max \<Longrightarrow> 0 < d \<Longrightarrow> i64_min \<le> cur \<Longrightarrow> cur < sat_i64 (cur + d)"
  by (auto simp: sat_i64_def)

lemma stub_page_bars_ascending:
  assumes "\<not> ck_representable_ms clock i64_max" "\<And>ms. ck_representable_ms clock ms \<Longrightarrow> i64_min \<le> ms \<and> ms \<le> i64_max"
    "60000 \<le> tf" "stub_page_bars clock self tf end_ms n cur = Inr bars" "prev < cur * 1000000" "end_ms * 1000000 \<le> end_at"
  shows "validate_bars_from tx (Some prev) end_at bars = Inr ()"
  using assms(4,5)
proof (induction n arbitrary: cur prev bars)
  case 0
  then show ?case by simp
next
  case (Suc n)
  show ?case
  proof (cases "end_ms < cur")
    case True
    then show ?thesis using Suc.prems by simp
  next
    case False
    then obtain rest where rep: "ck_representable_ms clock cur"
      and rest: "stub_page_bars clock self tf end_ms n (sat_i64 (cur + tf)) = Inr rest"
      and bars: "bars = stub_bar self tf (cur * 1000000) cur # rest"
      using Suc.prems(1) by (auto simp: timestamp_of_millis_def split: if_splits sum.splits)
    have "cur < i64_max" using rep assms(1) assms(2) [OF rep] by (cases "cur = i64_max") auto
    then have step: "cur < sat_i64 (cur + tf)" using sat_i64_step [of cur tf] assms(2) [OF rep] assms(3) by simp
    have time: "bar_timestamp (stub_bar self tf (cur * 1000000) cur) = cur * 1000000"
      by (simp add: stub_bar_def Let_def)
    have "cur * 1000000 < sat_i64 (cur + tf) * 1000000" using step by simp
    then have "validate_bars_from tx (Some (cur * 1000000)) end_at rest = Inr ()"
      using Suc.IH [OF rest] by simp
    moreover have "cur * 1000000 \<le> end_at" using False assms(6) by simp
    ultimately show ?thesis using Suc.prems(2) by (simp add: bars time)
  qed
qed

text \<open>Whatever the clock reads, a recovery accepts every page an offline account serves for a window
  that starts after a dispatched bar.\<close>

lemma stub_pages_accepted:
  assumes "\<not> ck_representable_ms clock i64_max" "\<And>ms. ck_representable_ms clock ms \<Longrightarrow> i64_min \<le> ms \<and> ms \<le> i64_max"
    "timestamp_millis start + 86400000 \<le> i64_max" "i64_min \<le> timestamp_millis start"
    "stub_fetch_confirmed_bars_range clock self timeframe (Some start) end_at limit o' = (Inr page, o'')"
  shows "validate_recovery_bars tx (Some start) end_at (cbp_bars page) = Inr ()"
proof (cases "limit = 0 \<or> end_at \<le> start")
  case True
  then show ?thesis using assms(5) by (auto simp: stub_fetch_confirmed_bars_range_def validate_recovery_bars_def split: if_splits)
next
  case False
  define tf where "tf = stub_timeframe_ms timeframe"
  define eff where "eff = min (timestamp_millis end_at) (latest_confirmed_start_ms (ck_now_ms clock (ow_ticks o')) tf)"
  have tf: "60000 \<le> tf" "tf \<le> 86400000" using stub_timeframe_bounds [of timeframe] by (simp_all add: tf_def)
  have first: "sat_i64 (timestamp_millis start + tf) = timestamp_millis start + tf"
    using tf assms(3,4) by (auto simp: sat_i64_def i64_min_def)
  have after_start: "start < (timestamp_millis start + tf) * 1000000"
    using tf(1) by (simp add: timestamp_millis_def)
  have end_at: "eff * 1000000 \<le> end_at"
    by (auto simp: eff_def timestamp_millis_def min_def)
  have run: "stub_fetch_confirmed_bars_range clock self timeframe (Some start) end_at limit o'
      = (if eff < timestamp_millis start + tf then ok \<lparr>cbp_bars = [], cbp_exhausted = True\<rparr>
         else then_do (tries (\<lambda>_. stub_page_bars clock self tf eff (max limit 1) (timestamp_millis start + tf))) (\<lambda>bars.
           ok \<lparr>cbp_bars = bars, cbp_exhausted = (bars \<noteq> [] \<and> eff \<le> timestamp_millis (bar_timestamp (last bars)))\<rparr>))
         (o'\<lparr>ow_ticks := ow_ticks o' + 1\<rparr>)"
    using False first
    by (simp add: stub_fetch_confirmed_bars_range_def then_do_def unix_now_ms_def Let_def tf_def eff_def)
  show ?thesis
  proof (cases "eff < timestamp_millis start + tf")
    case True
    then show ?thesis using assms(5) run by (auto simp: validate_recovery_bars_def)
  next
    case False
    then have "stub_page_bars clock self tf eff (max limit 1) (timestamp_millis start + tf) = Inr (cbp_bars page)"
      using assms(5) run by (auto simp: then_do_def split: sum.splits)
    from stub_page_bars_ascending [OF assms(1) assms(2) tf(1) this after_start end_at]
    show ?thesis by (simp add: validate_recovery_bars_def)
  qed
qed

end
