(* ===== verification/Gateway.thy ===== *)
theory Gateway
  imports Connectors
begin

section \<open>The connector gateway (crate openticker-gateway)\<close>

text \<open>
  The gateway is the only way to the connectors: it checks that an account is ready, looks its client up,
  calls it, and throttles the account when the provider reports a rate limit. Its state is the registry
  and the outside (the world the remote providers act on and the clock readings consumed). A poisoned
  registry lock follows a panic of another thread and is not modelled: \<open>LockPoisoned\<close> is a value of
  the error type that no operation here returns.

  The lemmas show that a throttled account is not contacted until its window has passed, and what the
  readiness check answers and records.
\<close>

subsection \<open>Errors and constraints\<close>

datatype GatewayError = LockPoisoned
  | UnsupportedConnectorKind string string
  | UnknownAccount string
  | GwConnectorNotReady string ConnectionState string
  | ConnectorFailure ConnectorError

fun gateway_error_of :: "ConnectorError \<Rightarrow> GatewayError" where
  "gateway_error_of (ConnUnknownAccount account_id) = UnknownAccount account_id"
| "gateway_error_of other = ConnectorFailure other"

fun gateway_error_text :: "GatewayError \<Rightarrow> string" where
  "gateway_error_text LockPoisoned = ''connector registry lock poisoned''"
| "gateway_error_text (UnsupportedConnectorKind account_id kind) =
     ''account `'' @ account_id @ ''` has unsupported connector kind `'' @ kind @ ''`''"
| "gateway_error_text (UnknownAccount account_id) = ''connector account `'' @ account_id @ ''` is not registered''"
| "gateway_error_text (GwConnectorNotReady account_id state reason) =
     ''connector account `'' @ account_id @ ''` is not ready (`'' @ connection_debug state @ ''`): '' @ reason"
| "gateway_error_text (ConnectorFailure error) = connector_error_text error"

record NormalizedSymbolConstraints =
  nsc_execution_constraints :: ExecutionConstraintsConfig
  nsc_fractional_entry_supported :: "bool option"
  nsc_source :: "string option"

definition has_numeric_constraints :: "NormalizedSymbolConstraints \<Rightarrow> bool" where
  "has_numeric_constraints self \<longleftrightarrow> quantity_step (nsc_execution_constraints self) \<noteq> None
     \<or> min_quantity (nsc_execution_constraints self) \<noteq> None \<or> min_notional_usd (nsc_execution_constraints self) \<noteq> None"

definition execution_constraints_are_complete :: "ExecutionConstraintsConfig \<Rightarrow> bool" where
  "execution_constraints_are_complete constraints \<longleftrightarrow> quantity_step constraints \<noteq> None
     \<and> min_quantity constraints \<noteq> None \<and> min_notional_usd constraints \<noteq> None"

definition or_else :: "'a option \<Rightarrow> 'a option \<Rightarrow> 'a option" where
  "or_else x y = (case x of None \<Rightarrow> y | Some v \<Rightarrow> Some v)"

definition resolve_effective_execution_constraints ::
    "ExecutionConstraintsConfig \<Rightarrow> ExecutionConstraintsConfig option \<Rightarrow> ExecutionConstraintsConfig" where
  "resolve_effective_execution_constraints configured connector =
     \<lparr>quantity_step = or_else (quantity_step configured) (Option.bind connector quantity_step),
       min_quantity = or_else (min_quantity configured) (Option.bind connector min_quantity),
       min_notional_usd = or_else (min_notional_usd configured) (Option.bind connector min_notional_usd)\<rparr>"

definition sanitize_positive_constraint :: "f64 option \<Rightarrow> f64 option" where
  "sanitize_positive_constraint value =
     (case value of None \<Rightarrow> None | Some candidate \<Rightarrow> if is_finite candidate \<and> 0 < candidate then Some candidate else None)"

definition normalize_symbol_constraints :: "ConnectorSymbolConstraints \<Rightarrow> NormalizedSymbolConstraints" where
  "normalize_symbol_constraints constraints =
     \<lparr>nsc_execution_constraints = \<lparr>quantity_step = sanitize_positive_constraint (csc_quantity_step constraints),
         min_quantity = sanitize_positive_constraint (csc_min_quantity constraints),
         min_notional_usd = sanitize_positive_constraint (csc_min_notional_usd constraints)\<rparr>,
       nsc_fractional_entry_supported = csc_fractional_entry_supported constraints,
       nsc_source = csc_source constraints\<rparr>"

subsection \<open>Accounts\<close>

record AccountConfig =
  ac_id :: string
  ac_kind :: string
  ac_mode :: ExecutionMode
  ac_api_key_env :: "string option"
  ac_api_secret_env :: "string option"
  ac_passphrase_env :: "string option"
  ac_use_demo_mode :: bool
  ac_reconciliation_remote_snapshot :: bool
  ac_execution_remote_submission :: "bool option"
  ac_reconciliation_base_url :: "string option"
  ac_cash_balance_assets :: "string list"
  ac_total_budget_usd :: f64

definition execution_remote_submission_enabled :: "AccountConfig \<Rightarrow> bool" where
  "execution_remote_submission_enabled self =
     (case ac_execution_remote_submission self of None \<Rightarrow> ac_reconciliation_remote_snapshot self | Some enabled \<Rightarrow> enabled)"

definition connector_account :: "AccountConfig \<Rightarrow> GatewayError + ConnectorAccount" where
  "connector_account account =
     (case ConnectorKind_parse (ac_kind account) of
        None \<Rightarrow> Inl (UnsupportedConnectorKind (ac_id account) (ac_kind account))
      | Some kind \<Rightarrow> Inr \<lparr>ca_account_id = ac_id account, ca_kind = kind, ca_mode = ac_mode account,
          ca_use_demo_mode = ac_use_demo_mode account, ca_api_key_env = ac_api_key_env account,
          ca_api_secret_env = ac_api_secret_env account, ca_passphrase_env = ac_passphrase_env account,
          ca_reconciliation_remote_snapshot = ac_reconciliation_remote_snapshot account,
          ca_execution_remote_submission = execution_remote_submission_enabled account,
          ca_reconciliation_base_url = ac_reconciliation_base_url account\<rparr>)"

fun collect_ok :: "('e + 'a) list \<Rightarrow> 'e + 'a list" where
  "collect_ok [] = Inr []"
| "collect_ok (Inl e # rs) = Inl e"
| "collect_ok (Inr a # rs) = (case collect_ok rs of Inl e \<Rightarrow> Inl e | Inr as \<Rightarrow> Inr (a # as))"

definition build_connector_registry :: "AccountConfig list \<Rightarrow> GatewayError + ConnectorRegistry" where
  "build_connector_registry accounts =
     (case collect_ok (map connector_account accounts) of Inl e \<Rightarrow> Inl e
      | Inr connector_accounts \<Rightarrow> (case registry_from_accounts connector_accounts of
            Inl e \<Rightarrow> Inl (gateway_error_of e) | Inr entries \<Rightarrow> Inr entries))"

subsection \<open>Operations\<close>

record 'w Gateway =
  gw_connectors :: ConnectorRegistry
  gw_outside :: "'w Outside"

type_synonym ('w, 'a) gateway_op = "('w Gateway, GatewayError, 'a) workflow"

text \<open>A connector call on the outside, a registry update whose error is only logged, and the clock.\<close>

definition on_outside :: "('w Outside, 'e, 'a) workflow \<Rightarrow> ('w Gateway, 'e, 'a) workflow" where
  "on_outside m g = (case m (gw_outside g) of (r, o') \<Rightarrow> (r, g\<lparr>gw_outside := o'\<rparr>))"

definition take_note :: "(ConnectorRegistry \<Rightarrow> (ConnectorError + unit) \<times> ConnectorRegistry) \<Rightarrow> ('w, unit) gateway_op" where
  "take_note f g = (Inr (), g\<lparr>gw_connectors := snd (f (gw_connectors g))\<rparr>)"

definition lookup :: "(ConnectorRegistry \<Rightarrow> ConnectorError + 'a) \<Rightarrow> ('w, 'a) gateway_op" where
  "lookup f g = (case f (gw_connectors g) of Inl e \<Rightarrow> (Inl (gateway_error_of e), g) | Inr a \<Rightarrow> (Inr a, g))"

definition DEFAULT_THROTTLE_WINDOW_MS :: int where
  "DEFAULT_THROTTLE_WINDOW_MS = 60000"

fun rate_limit_window :: "ConnectorError \<Rightarrow> int option" where
  "rate_limit_window (RateLimited kind retry_after_ms detail) =
     Some (case retry_after_ms of None \<Rightarrow> DEFAULT_THROTTLE_WINDOW_MS | Some ms \<Rightarrow> ms)"
| "rate_limit_window _ = None"

definition track_rate_limit :: "Clock \<Rightarrow> string \<Rightarrow> ('w Gateway, ConnectorError, 'a) workflow \<Rightarrow> ('w, 'a) gateway_op" where
  "track_rate_limit clock account_id call =
     handle call
       (\<lambda>error. then_do (case rate_limit_window error of None \<Rightarrow> ok ()
            | Some window_ms \<Rightarrow> then_do (on_outside (unix_now_ms clock)) (\<lambda>now_ms.
                take_note (note_account_rate_limit account_id now_ms window_ms)))
          (\<lambda>_. fail (gateway_error_of error)))
       ok"

definition readiness_reason :: "ConnectorAccountStatus \<Rightarrow> string" where
  "readiness_reason status =
     cas_message status
     @ (if 0 < rs_consecutive_failures (cas_resilience_state status)
        then '',consecutive_failures='' @ show_int (rs_consecutive_failures (cas_resilience_state status)) else '''')
     @ (case rs_next_reconnect_at_ms (cas_resilience_state status) of None \<Rightarrow> ''''
        | Some ms \<Rightarrow> '',next_reconnect_at_ms='' @ show_int ms)
     @ (case rs_throttled_until_ms (cas_resilience_state status) of None \<Rightarrow> ''''
        | Some ms \<Rightarrow> '',throttled_until_ms='' @ show_int ms)"

text \<open>The clock is read only when the account has a throttle window, as the code's let-chain does.\<close>

definition throttled :: "Clock \<Rightarrow> ConnectorAccountStatus \<Rightarrow> ('w, int option) gateway_op" where
  "throttled clock status =
     (case rs_throttled_until_ms (cas_resilience_state status) of None \<Rightarrow> ok None
      | Some until_ms \<Rightarrow> then_do (on_outside (unix_now_ms clock)) (\<lambda>now_ms.
          ok (if now_ms < until_ms then Some until_ms else None)))"

definition ensure_account_ready :: "Clock \<Rightarrow> string \<Rightarrow> ('w, unit) gateway_op" where
  "ensure_account_ready clock account_id =
     then_do (lookup (status_for_account account_id)) (\<lambda>status.
     then_do (throttled clock status) (\<lambda>active.
     case active of
       Some until_ms \<Rightarrow> fail (GwConnectorNotReady account_id (cas_state status)
         (''provider rate limit active until '' @ show_int until_ms))
     | None \<Rightarrow>
         if cas_state status = Connected
         then (if 0 < rs_consecutive_failures (cas_resilience_state status)
                 \<or> rs_next_reconnect_at_ms (cas_resilience_state status) \<noteq> None
                 \<or> rs_throttled_until_ms (cas_resilience_state status) \<noteq> None
               then take_note (note_account_reconnect_success account_id) else ok ())
         else then_do (on_outside (unix_now_ms clock)) (\<lambda>now_ms.
              then_do (take_note (note_account_disconnect account_id now_ms)) (\<lambda>_.
              then_do (lookup (status_for_account account_id)) (\<lambda>status.
              fail (GwConnectorNotReady account_id (cas_state status) (readiness_reason status)))))))"

definition account_kind :: "string \<Rightarrow> ('w, string) gateway_op" where
  "account_kind account_id =
     then_do (lookup (status_for_account account_id)) (\<lambda>status. ok (ConnectorKind_as_str (cas_kind status)))"

definition checked_call ::
    "Clock \<Rightarrow> string \<Rightarrow> (Connector \<Rightarrow> ('w Outside, ConnectorError, 'a) workflow) \<Rightarrow> ('w, 'a) gateway_op" where
  "checked_call clock account_id call =
     then_do (ensure_account_ready clock account_id) (\<lambda>_.
     then_do (lookup (connected_client account_id)) (\<lambda>client.
     track_rate_limit clock account_id (on_outside (call client))))"

definition unchecked_call ::
    "Clock \<Rightarrow> string \<Rightarrow> (Connector \<Rightarrow> ('w Outside, ConnectorError, 'a) workflow) \<Rightarrow> ('w, 'a) gateway_op" where
  "unchecked_call clock account_id call =
     then_do (lookup (client_unchecked account_id)) (\<lambda>client.
     track_rate_limit clock account_id (on_outside (call client)))"

definition gw_fetch_account_snapshot_unchecked ::
    "Clock \<Rightarrow> 'w RemoteProvider \<Rightarrow> string \<Rightarrow> ('w, ConnectorAccountSnapshot) gateway_op" where
  "gw_fetch_account_snapshot_unchecked clock remote account_id =
     unchecked_call clock account_id (cn_fetch_account_snapshot remote)"

definition gw_normalize_market_stream_payload ::
    "Clock \<Rightarrow> 'w RemoteProvider \<Rightarrow> string \<Rightarrow> string \<Rightarrow> ('w, NormalizedBarUpdate option) gateway_op" where
  "gw_normalize_market_stream_payload clock remote account_id payload =
     then_do (ensure_account_ready clock account_id) (\<lambda>_.
     then_do (lookup (connected_client account_id)) (\<lambda>client.
     lookup (\<lambda>_. cn_normalize_market_data_event remote client payload)))"

definition gw_fetch_latest_bar :: "Clock \<Rightarrow> 'w RemoteProvider \<Rightarrow> string \<Rightarrow> string \<Rightarrow> Timeframe \<Rightarrow> ('w, OhlcvBar) gateway_op" where
  "gw_fetch_latest_bar clock remote account_id symbol timeframe =
     checked_call clock account_id (\<lambda>client. cn_fetch_latest_bar clock remote client symbol timeframe)"

definition gw_fetch_recent_bars ::
    "Clock \<Rightarrow> 'w RemoteProvider \<Rightarrow> string \<Rightarrow> string \<Rightarrow> Timeframe \<Rightarrow> nat \<Rightarrow> ('w, OhlcvBar list) gateway_op" where
  "gw_fetch_recent_bars clock remote account_id symbol timeframe limit =
     checked_call clock account_id (\<lambda>client. cn_fetch_recent_bars clock remote client symbol timeframe limit)"

definition gw_fetch_latest_confirmed_bar_timestamp ::
    "Clock \<Rightarrow> 'w RemoteProvider \<Rightarrow> string \<Rightarrow> string \<Rightarrow> Timeframe \<Rightarrow> ('w, timestamp option) gateway_op" where
  "gw_fetch_latest_confirmed_bar_timestamp clock remote account_id symbol timeframe =
     checked_call clock account_id (\<lambda>client. cn_fetch_latest_confirmed_bar_timestamp clock remote client symbol timeframe)"

definition gw_fetch_confirmed_bars_range ::
    "Clock \<Rightarrow> 'w RemoteProvider \<Rightarrow> string \<Rightarrow> string \<Rightarrow> Timeframe \<Rightarrow> timestamp option \<Rightarrow> timestamp \<Rightarrow> nat
     \<Rightarrow> ('w, ConfirmedBarPage) gateway_op" where
  "gw_fetch_confirmed_bars_range clock remote account_id symbol timeframe start_after end_at limit =
     checked_call clock account_id (\<lambda>client. cn_fetch_confirmed_bars_range clock remote client symbol timeframe start_after end_at limit)"

definition gw_fetch_normalized_symbol_constraints_unchecked ::
    "Clock \<Rightarrow> 'w RemoteProvider \<Rightarrow> string \<Rightarrow> string \<Rightarrow> ('w, NormalizedSymbolConstraints) gateway_op" where
  "gw_fetch_normalized_symbol_constraints_unchecked clock remote account_id symbol =
     then_do (unchecked_call clock account_id (\<lambda>client. cn_fetch_symbol_constraints remote client symbol)) (\<lambda>constraints.
     ok (normalize_symbol_constraints constraints))"

definition gw_submit_order :: "Clock \<Rightarrow> 'w RemoteProvider \<Rightarrow> string \<Rightarrow> ExecutionRequest \<Rightarrow> ('w, AcceptedOrder) gateway_op" where
  "gw_submit_order clock remote account_id request =
     checked_call clock account_id (\<lambda>client. cn_submit_order remote client request)"

definition gw_statuses :: "'w Gateway \<Rightarrow> ConnectorAccountStatus list" where
  "gw_statuses g = registry_statuses (gw_connectors g)"

definition gw_is_ready :: "'w Gateway \<Rightarrow> bool" where
  "gw_is_ready g = registry_is_ready (gw_connectors g)"

subsection \<open>Throttling\<close>

definition throttled_until :: "string \<Rightarrow> 'w Gateway \<Rightarrow> int option" where
  "throttled_until account_id g =
     (case hm_get (gw_connectors g) account_id of None \<Rightarrow> None
      | Some entry \<Rightarrow> rs_throttled_until_ms (cn_resilience (ce_client entry)))"

definition gw_now :: "Clock \<Rightarrow> 'w Gateway \<Rightarrow> int" where
  "gw_now clock g = ck_now_ms clock (ow_ticks (gw_outside g))"

lemma status_resilience: "cas_resilience_state (status_from_entry entry) = cn_resilience (ce_client entry)"
  by (simp add: status_from_entry_def Let_def)

lemma ensure_ready_throttled:
  assumes "throttled_until account_id g = Some until_ms" "gw_now clock g < until_ms"
  shows "\<exists>state. ensure_account_ready clock account_id g
    = (Inl (GwConnectorNotReady account_id state (''provider rate limit active until '' @ show_int until_ms)),
       g\<lparr>gw_outside := gw_outside g\<lparr>ow_ticks := ow_ticks (gw_outside g) + 1\<rparr>\<rparr>)"
proof -
  obtain entry where entry: "hm_get (gw_connectors g) account_id = Some entry"
    "rs_throttled_until_ms (cn_resilience (ce_client entry)) = Some until_ms"
    using assms(1) by (auto simp: throttled_until_def split: option.splits)
  show ?thesis
    using entry assms(2)
    by (auto simp: ensure_account_ready_def then_do_def lookup_def status_for_account_def throttled_def on_outside_def
        unix_now_ms_def gw_now_def status_resilience)
qed

lemma checked_call_throttled:
  assumes "throttled_until account_id g = Some until_ms" "gw_now clock g < until_ms"
  shows "\<exists>state. checked_call clock account_id call g
    = (Inl (GwConnectorNotReady account_id state (''provider rate limit active until '' @ show_int until_ms)),
       g\<lparr>gw_outside := gw_outside g\<lparr>ow_ticks := ow_ticks (gw_outside g) + 1\<rparr>\<rparr>)"
proof -
  obtain state where "ensure_account_ready clock account_id g
    = (Inl (GwConnectorNotReady account_id state (''provider rate limit active until '' @ show_int until_ms)),
       g\<lparr>gw_outside := gw_outside g\<lparr>ow_ticks := ow_ticks (gw_outside g) + 1\<rparr>\<rparr>)"
    using ensure_ready_throttled [OF assms] by blast
  then show ?thesis by (auto simp: checked_call_def then_do_def)
qed

lemma connected_client_known: "connected_client account_id entries = Inr client \<Longrightarrow> hm_get entries account_id \<noteq> None"
  by (auto simp: connected_client_def client_unchecked_def status_for_account_def split: sum.splits if_splits option.splits)

lemma track_rate_limit_throttles:
  assumes "call g = (Inl (RateLimited kind retry detail), g1)" "hm_get (gw_connectors g1) account_id \<noteq> None"
  shows "\<exists>g2. track_rate_limit clock account_id call g = (Inl (ConnectorFailure (RateLimited kind retry detail)), g2)
    \<and> throttled_until account_id g2 = Some (sat_i64 (gw_now clock g1
        + saturating_millis_to_i64 (case retry of None \<Rightarrow> DEFAULT_THROTTLE_WINDOW_MS | Some ms \<Rightarrow> ms)))
    \<and> ow_world (gw_outside g2) = ow_world (gw_outside g1)"
  using assms
  by (auto simp: track_rate_limit_def handle_def then_do_def on_outside_def unix_now_ms_def take_note_def
      note_account_rate_limit_def update_client_def cn_note_rate_limit_def note_rate_limit_def throttled_until_def gw_now_def hm.get_insert)

lemma status_lookup_error: "lookup (status_for_account account_id) g = (Inl error, g') \<Longrightarrow> error = UnknownAccount account_id"
  by (auto simp: lookup_def status_for_account_def split: sum.splits option.splits)

lemma client_lookup_error:
  "lookup (connected_client account_id) g = (Inl error, g') \<Longrightarrow> error \<noteq> ConnectorFailure (RateLimited kind retry detail)"
  by (auto simp: lookup_def connected_client_def client_unchecked_def status_for_account_def
      split: sum.splits option.splits if_splits)

lemma client_lookup_ok:
  "lookup (connected_client account_id) g = (Inr client, g') \<Longrightarrow> g' = g \<and> hm_get (gw_connectors g) account_id \<noteq> None"
  by (auto simp: lookup_def split: sum.splits dest: connected_client_known)

lemma ensure_ready_not_rate_limited:
  "ensure_account_ready clock account_id g = (Inl error, g') \<Longrightarrow> error \<noteq> ConnectorFailure (RateLimited kind retry detail)"
  by (auto simp: ensure_account_ready_def then_do_def throttled_def on_outside_def unix_now_ms_def take_note_def
      split: prod.splits sum.splits option.splits if_splits dest!: status_lookup_error)

lemma on_outside_connectors: "on_outside m g = (r, g') \<Longrightarrow> gw_connectors g' = gw_connectors g"
  by (auto simp: on_outside_def split: prod.splits)

lemma checked_call_rate_limited:
  assumes "checked_call clock account_id call g = (Inl (ConnectorFailure (RateLimited kind retry detail)), g2)"
  shows "throttled_until account_id g2 = Some (sat_i64 (ck_now_ms clock (ow_ticks (gw_outside g2) - 1)
    + saturating_millis_to_i64 (case retry of None \<Rightarrow> DEFAULT_THROTTLE_WINDOW_MS | Some ms \<Rightarrow> ms)))"
proof -
  from assms obtain g1 client where client: "lookup (connected_client account_id) g1 = (Inr client, g1)"
    and run: "track_rate_limit clock account_id (on_outside (call client)) g1
      = (Inl (ConnectorFailure (RateLimited kind retry detail)), g2)"
    by (auto simp: checked_call_def then_do_def split: prod.splits sum.splits
        dest: ensure_ready_not_rate_limited client_lookup_error client_lookup_ok)
  from run obtain error g' where call: "on_outside (call client) g1 = (Inl error, g')"
    by (auto simp: track_rate_limit_def handle_def split: prod.splits sum.splits)
  have known: "hm_get (gw_connectors g') account_id \<noteq> None"
    using client_lookup_ok [OF client] on_outside_connectors [OF call] by simp
  have "gateway_error_of error = ConnectorFailure (RateLimited kind retry detail)"
    using run call by (auto simp: track_rate_limit_def handle_def then_do_def on_outside_def unix_now_ms_def take_note_def
        split: option.splits)
  then have "error = RateLimited kind retry detail" by (cases error) auto
  with known show ?thesis
    using run call
    by (auto simp: track_rate_limit_def handle_def then_do_def on_outside_def [of "unix_now_ms clock"] unix_now_ms_def
        take_note_def note_account_rate_limit_def update_client_def cn_note_rate_limit_def note_rate_limit_def
        throttled_until_def hm_get_insert)
qed

text \<open>C40: Rate limits are respected. After a call of an account was answered with a rate limit, every
  further checked call of that account, whatever it wants to do, is refused without contacting the
  provider as long as the clock has not passed the throttle window the provider asked for (or one
  minute). Other state of the gateway may change in between, but not the throttle of this account: a
  reset removes it, and a call that is not checked and is limited again replaces it, also by a shorter
  window.\<close>

theorem rate_limited_account_not_contacted:
  assumes "checked_call clock account_id call g = (Inl (ConnectorFailure (RateLimited kind retry detail)), g1)"
    "throttled_until account_id g2 = throttled_until account_id g1"
    "gw_now clock g2 < sat_i64 (ck_now_ms clock (ow_ticks (gw_outside g1) - 1)
       + saturating_millis_to_i64 (case retry of None \<Rightarrow> DEFAULT_THROTTLE_WINDOW_MS | Some ms \<Rightarrow> ms))"
  shows "(\<exists>state reason. fst (checked_call clock account_id call2 g2) = Inl (GwConnectorNotReady account_id state reason))
    \<and> ow_world (gw_outside (snd (checked_call clock account_id call2 g2))) = ow_world (gw_outside g2)
    \<and> gw_connectors (snd (checked_call clock account_id call2 g2)) = gw_connectors g2"
proof -
  obtain state where "checked_call clock account_id call2 g2
    = (Inl (GwConnectorNotReady account_id state (''provider rate limit active until ''
        @ show_int (sat_i64 (ck_now_ms clock (ow_ticks (gw_outside g1) - 1)
            + saturating_millis_to_i64 (case retry of None \<Rightarrow> DEFAULT_THROTTLE_WINDOW_MS | Some ms \<Rightarrow> ms))))),
       g2\<lparr>gw_outside := gw_outside g2\<lparr>ow_ticks := ow_ticks (gw_outside g2) + 1\<rparr>\<rparr>)"
    using checked_call_throttled [of account_id g2 _ clock] checked_call_rate_limited [OF assms(1)] assms(2,3) by metis
  then show ?thesis by auto
qed

definition demo_account :: ConnectorAccount where
  "demo_account = \<lparr>ca_account_id = ''acct'', ca_kind = Alpaca, ca_mode = Paper, ca_use_demo_mode = False,
     ca_api_key_env = None, ca_api_secret_env = None, ca_passphrase_env = None,
     ca_reconciliation_remote_snapshot = False, ca_execution_remote_submission = False, ca_reconciliation_base_url = None\<rparr>"

definition demo_gateway :: "unit Gateway" where
  "demo_gateway = \<lparr>gw_connectors = [(''acct'', \<lparr>ce_account = demo_account, ce_validation_error = None,
     ce_client = Connector_new demo_account\<rparr>)], gw_outside = \<lparr>ow_world = (), ow_ticks = 0\<rparr>\<rparr>"

definition demo_clock :: Clock where
  "demo_clock = \<lparr>ck_now_ms = (\<lambda>n. 1000 * int n), ck_now_nanos = (\<lambda>n. n),
     ck_representable_ms = (\<lambda>ms. - 8000000000000 \<le> ms \<and> ms \<le> 8000000000000)\<rparr>"

definition demo_remote :: "unit RemoteProvider" where
  "demo_remote = \<lparr>rem_fetch_snapshot = (\<lambda>a. fail (Unavailable (ca_kind a) Disconnected)),
     rem_fetch_latest_bar = (\<lambda>a s t. fail (Unavailable (ca_kind a) Disconnected)),
     rem_fetch_recent_bars = (\<lambda>a s t n. fail (Unavailable (ca_kind a) Disconnected)),
     rem_fetch_latest_confirmed_bar_timestamp = (\<lambda>a s t. fail (Unavailable (ca_kind a) Disconnected)),
     rem_fetch_confirmed_bars_range = (\<lambda>a s t b e n. fail (Unavailable (ca_kind a) Disconnected)),
     rem_submit_order = (\<lambda>a r. fail (Unavailable (ca_kind a) Disconnected)),
     rem_fetch_symbol_constraints = (\<lambda>a s. fail (Unavailable (ca_kind a) Disconnected)),
     rem_normalize_market_data_event = (\<lambda>p. Inr None)\<rparr>"

definition demo_limited_call :: "Connector \<Rightarrow> (unit Outside, ConnectorError, unit) workflow" where
  "demo_limited_call client = fail (RateLimited (cn_kind client) None ''slow down'')"

lemma demo_limited:
  "checked_call demo_clock ''acct'' demo_limited_call demo_gateway
   = (Inl (ConnectorFailure (RateLimited Alpaca None ''slow down'')),
      snd (checked_call demo_clock ''acct'' demo_limited_call demo_gateway))"
  by code_simp

theorem rate_limited_account_not_contacted_witness:
  "\<exists>state reason. fst (gw_submit_order demo_clock demo_remote ''acct'' demo_request
     (snd (checked_call demo_clock ''acct'' demo_limited_call demo_gateway)))
   = Inl (GwConnectorNotReady ''acct'' state reason)"
proof -
  have "gw_now demo_clock (snd (checked_call demo_clock ''acct'' demo_limited_call demo_gateway))
    < sat_i64 (ck_now_ms demo_clock (ow_ticks (gw_outside (snd (checked_call demo_clock ''acct''
        demo_limited_call demo_gateway))) - 1)
      + saturating_millis_to_i64 (case None of None \<Rightarrow> DEFAULT_THROTTLE_WINDOW_MS | Some ms \<Rightarrow> ms))"
    by code_simp
  from rate_limited_account_not_contacted [OF demo_limited refl this] show ?thesis
    unfolding gw_submit_order_def by blast
qed

end
