(* ===== verification/Config.thy ===== *)
theory Config
  imports Lane Gateway
begin

section \<open>Configuration (openticker-config/src)\<close>

text \<open>
  The configuration bundle (\<open>model.rs\<close>), its validation (\<open>validation/\<close>), the redacted projection
  that is shown to the outside (\<open>effective.rs\<close>) and the account update that is read back
  (\<open>AccountConfigUpdate\<close>). The process environment is a parameter: a variable that is set to text the
  code can read has a value. \<open>{:.4}\<close> of a float is a parameter too. Paths are texts.

  The lemmas show what a bundle that validates satisfies, and that saving an account as it was shown
  changes nothing.
\<close>

subsection \<open>The bundle (model.rs)\<close>

record ServiceConfig =
  svc_environment :: string
  svc_data_dir :: string
  svc_bot_dir :: string

record HttpConfig =
  hc_enabled :: bool
  hc_bind :: string
  hc_request_log :: bool
  hc_openapi_enabled :: bool
  hc_openapi_path :: string

record StorageConfig =
  sc_kind :: string
  sc_path :: string
  sc_busy_timeout_ms :: u64
  sc_prune_removed_bots_on_startup :: bool

record ObservabilityConfig =
  oc_log_level :: string
  oc_metrics_enabled :: bool
  oc_metrics_path :: string

record SafetyConfig =
  sf_require_explicit_live_enable :: bool
  sf_default_start_paused_if_recovery_uncertain :: bool

record DataPlaneWatchlistEntry =
  dw_account :: string
  dw_symbol :: string
  dw_timeframe :: Timeframe
  dw_polling_interval_ms :: "u64 option"
  dw_retention :: "nat option"

record DataPlaneConfig =
  dpc_default_polling_interval_ms :: u64
  dpc_default_retention :: nat
  dpc_watchlist :: "DataPlaneWatchlistEntry list"

record GlobalConfig =
  gc_service :: ServiceConfig
  gc_http :: HttpConfig
  gc_storage :: StorageConfig
  gc_observability :: ObservabilityConfig
  gc_safety :: SafetyConfig
  gc_data_plane :: DataPlaneConfig

record RiskProfileConfig =
  rpc_id :: string
  rpc_max_daily_loss_pct :: f64
  rpc_max_open_positions :: u32
  rpc_target_order_notional_usd :: "f64 option"
  rpc_max_order_notional_usd :: f64
  rpc_max_spread_bps :: u32
  rpc_max_slippage_bps :: u32
  rpc_stale_data_ms :: u64
  rpc_cooldown_after_reject_ms :: u64

record 'v ConfigBundle =
  cb_global :: GlobalConfig
  cb_accounts :: "AccountConfig list"
  cb_risk_profiles :: "RiskProfileConfig list"
  cb_instances :: "'v InstanceConfig list"

definition default_data_plane_polling_interval_ms :: u64 where
  "default_data_plane_polling_interval_ms = 5000"

definition default_data_plane_retention :: nat where
  "default_data_plane_retention = 500"

definition DataPlaneConfig_default :: DataPlaneConfig where
  "DataPlaneConfig_default = \<lparr>dpc_default_polling_interval_ms = default_data_plane_polling_interval_ms,
     dpc_default_retention = default_data_plane_retention, dpc_watchlist = []\<rparr>"

subsection \<open>Checks in sequence\<close>

text \<open>A failed check ends the validation with its error; a loop over checks ends at the first failure.\<close>

datatype ConfigError =
    ConfigIo (ce_path: string) (ce_source: string)
  | ConfigToml (ce_path: string) (ce_source: string)
  | ConfigValidation (ce_message: string)
  | ConfigRender (ce_message: string)
  | ConfigDotenv (ce_path: string) (ce_source: string)

fun config_error_text :: "ConfigError \<Rightarrow> string" where
  "config_error_text (ConfigIo path source) = ''failed to read `'' @ path @ ''`: '' @ source"
| "config_error_text (ConfigToml path source) = ''failed to parse TOML `'' @ path @ ''`: '' @ source"
| "config_error_text (ConfigValidation message) = ''configuration validation failed: '' @ message"
| "config_error_text (ConfigRender message) = ''failed to render TOML: '' @ message"
| "config_error_text (ConfigDotenv path source) = ''failed to load environment file `'' @ path @ ''`: '' @ source"

type_synonym check = "ConfigError + unit"

definition require :: "bool \<Rightarrow> string \<Rightarrow> check" where
  "require holds message = (if holds then Inr () else Inl (ConfigValidation message))"

definition and_then :: "check \<Rightarrow> check \<Rightarrow> check" where
  "and_then first rest = (case first of Inl e \<Rightarrow> Inl e | Inr _ \<Rightarrow> rest)"

fun checks :: "check list \<Rightarrow> check" where
  "checks [] = Inr ()"
| "checks (c # cs) = and_then c (checks cs)"

definition check_each :: "('a \<Rightarrow> check) \<Rightarrow> 'a list \<Rightarrow> check" where
  "check_each f xs = checks (map f xs)"

lemma require_ok [simp]: "require holds message = Inr u \<longleftrightarrow> holds"
  by (simp add: require_def)

lemma and_then_ok [simp]: "and_then first rest = Inr u \<longleftrightarrow> first = Inr () \<and> rest = Inr ()"
  by (simp add: and_then_def split: sum.split)

lemma checks_ok: "checks cs = Inr u \<longleftrightarrow> list_all (\<lambda>c. c = Inr ()) cs"
  by (induction cs) simp_all

lemma check_each_ok [simp]: "check_each f xs = Inr u \<longleftrightarrow> list_all (\<lambda>x. f x = Inr ()) xs"
  by (simp add: check_each_def checks_ok list_all_length)

definition positive_finite :: "f64 \<Rightarrow> bool" where
  "positive_finite x \<longleftrightarrow> is_finite x \<and> \<not> x \<le> 0"

definition option_holds :: "('a \<Rightarrow> bool) \<Rightarrow> 'a option \<Rightarrow> bool" where
  "option_holds P x = (case x of None \<Rightarrow> True | Some v \<Rightarrow> P v)"

subsection \<open>Connectors (validation/connectors.rs)\<close>

record ConnectorRoleCapabilities =
  rcap_data :: bool
  rcap_execution :: bool

record ConnectorMarketCapabilities =
  mcap_equities :: bool
  mcap_crypto :: bool

record ConnectorSecretRequirements =
  sreq_api_key :: bool
  sreq_api_secret :: bool
  sreq_passphrase :: bool

record ConfigConnectorCapabilities =
  ccap_roles :: ConnectorRoleCapabilities
  ccap_markets :: ConnectorMarketCapabilities
  ccap_secrets :: ConnectorSecretRequirements

definition config_connector_capabilities :: "string \<Rightarrow> ConfigConnectorCapabilities option" where
  "config_connector_capabilities kind =
     (if kind = ''alpaca'' then Some \<lparr>ccap_roles = \<lparr>rcap_data = True, rcap_execution = True\<rparr>,
        ccap_markets = \<lparr>mcap_equities = True, mcap_crypto = False\<rparr>,
        ccap_secrets = \<lparr>sreq_api_key = True, sreq_api_secret = True, sreq_passphrase = False\<rparr>\<rparr>
      else if kind = ''binance'' then Some \<lparr>ccap_roles = \<lparr>rcap_data = True, rcap_execution = True\<rparr>,
        ccap_markets = \<lparr>mcap_equities = False, mcap_crypto = True\<rparr>,
        ccap_secrets = \<lparr>sreq_api_key = True, sreq_api_secret = True, sreq_passphrase = False\<rparr>\<rparr>
      else None)"

fun connector_supports_market :: "ConfigConnectorCapabilities \<Rightarrow> MarketType \<Rightarrow> bool" where
  "connector_supports_market caps Equities = mcap_equities (ccap_markets caps)"
| "connector_supports_market caps Crypto = mcap_crypto (ccap_markets caps)"

definition connector_supports_preview_market_stream :: "string \<Rightarrow> bool" where
  "connector_supports_preview_market_stream kind \<longleftrightarrow> kind = ''binance''"

fun market_type_label :: "MarketType \<Rightarrow> string" where
  "market_type_label Equities = ''equities''"
| "market_type_label Crypto = ''crypto''"

subsection \<open>Global sections (validation/global.rs)\<close>

definition validate_storage :: "StorageConfig \<Rightarrow> check" where
  "validate_storage storage = checks
     [require (sc_kind storage = ''sqlite'')
        (''unsupported storage kind `'' @ sc_kind storage @ ''`; only `sqlite` is currently supported''),
      require (sc_path storage \<noteq> []) ''storage path cannot be empty for sqlite backend'',
      require (sc_busy_timeout_ms storage \<noteq> 0) ''storage busy_timeout_ms must be greater than zero'']"

definition validate_watch :: "DataPlaneConfig \<Rightarrow> string list \<Rightarrow> DataPlaneWatchlistEntry \<Rightarrow> check" where
  "validate_watch data_plane account_ids watch =
     (let polling_interval_ms = override (dw_polling_interval_ms watch) (dpc_default_polling_interval_ms data_plane);
          retention = override (dw_retention watch) (dpc_default_retention data_plane);
          entry = ''data-plane watchlist entry `'' @ dw_account watch @ ''/'' @ dw_symbol watch @ ''` has invalid '' in
      checks
       [require (dw_account watch \<in> set account_ids)
          (''data-plane watchlist entry references unknown account `'' @ dw_account watch @ ''`''),
        require (1000 \<le> polling_interval_ms) (entry @ ''`polling_interval_ms` `'' @ show_int (uint polling_interval_ms) @ ''`''),
        require (10 \<le> retention) (entry @ ''`retention` `'' @ show_int (int retention) @ ''`'')])"

definition validate_data_plane :: "DataPlaneConfig \<Rightarrow> string list \<Rightarrow> check" where
  "validate_data_plane data_plane account_ids = checks
     [require (1000 \<le> dpc_default_polling_interval_ms data_plane)
        (''`data_plane.default_polling_interval_ms` must be at least 1000, got '' @ show_int (uint (dpc_default_polling_interval_ms data_plane))),
      require (10 \<le> dpc_default_retention data_plane)
        (''`data_plane.default_retention` must be at least 10, got '' @ show_int (int (dpc_default_retention data_plane))),
      check_each (validate_watch data_plane account_ids) (dpc_watchlist data_plane)]"

subsection \<open>Accounts (validation/account.rs)\<close>

type_synonym environment = "string \<Rightarrow> string option"

definition BINANCE_ALLOWED_CASH_BALANCE_ASSETS :: "string list" where
  "BINANCE_ALLOWED_CASH_BALANCE_ASSETS = [''USD'', ''USDT'', ''USDC'', ''BUSD'', ''FDUSD'']"

definition validate_secret_reference :: "environment \<Rightarrow> string option \<Rightarrow> check" where
  "validate_secret_reference vars secret_env =
     (case secret_env of None \<Rightarrow> Inr ()
      | Some name \<Rightarrow> checks
          [require (\<not> blank name) ''secret environment variable name cannot be empty'',
           require (vars name \<noteq> None) (''required secret env var `'' @ name @ ''` is not set'')])"

definition about_account :: "AccountConfig \<Rightarrow> string" where
  "about_account account = ''account `'' @ ac_id account @ ''` ''"

definition validate_account_mode :: "AccountConfig \<Rightarrow> check" where
  "validate_account_mode account =
     require (\<not> (ac_kind account = ''binance'' \<and> ac_mode account = Paper \<and> \<not> ac_use_demo_mode account))
       (about_account account @ ''uses binance paper mode but `use_demo_mode` is false'')"

definition unsupported_kind :: "AccountConfig \<Rightarrow> string" where
  "unsupported_kind account = about_account account @ ''has unsupported connector kind `'' @ ac_kind account @ ''`''"

definition config_account_connector_kind :: "AccountConfig \<Rightarrow> check" where
  "config_account_connector_kind account =
     require (config_connector_capabilities (ac_kind account) \<noteq> None) (unsupported_kind account)"

definition validate_account_secret_field :: "environment \<Rightarrow> AccountConfig \<Rightarrow> string \<Rightarrow> string option \<Rightarrow> bool \<Rightarrow> check" where
  "validate_account_secret_field vars account field secret_env required = checks
     [require (\<not> (required \<and> secret_env = None))
        (about_account account @ ''kind `'' @ ac_kind account @ ''` requires `'' @ field @ ''`''),
      validate_secret_reference vars secret_env]"

definition validate_account_secret_requirements :: "environment \<Rightarrow> AccountConfig \<Rightarrow> check" where
  "validate_account_secret_requirements vars account =
     (case config_connector_capabilities (ac_kind account) of
        None \<Rightarrow> Inl (ConfigValidation (unsupported_kind account))
      | Some caps \<Rightarrow> checks
          [validate_account_secret_field vars account ''api_key_env'' (ac_api_key_env account) (sreq_api_key (ccap_secrets caps)),
           validate_account_secret_field vars account ''api_secret_env'' (ac_api_secret_env account) (sreq_api_secret (ccap_secrets caps)),
           validate_account_secret_field vars account ''passphrase_env'' (ac_passphrase_env account) (sreq_passphrase (ccap_secrets caps))])"

definition validate_account_total_budget :: "AccountConfig \<Rightarrow> check" where
  "validate_account_total_budget account =
     require (positive_finite (ac_total_budget_usd account))
       (about_account account @ ''has invalid `total_budget_usd` `'' @ show_f64 (ac_total_budget_usd account)
        @ ''`; must be a positive finite number'')"

fun validate_cash_assets :: "AccountConfig \<Rightarrow> string list \<Rightarrow> string list \<Rightarrow> check" where
  "validate_cash_assets account seen [] = Inr ()"
| "validate_cash_assets account seen (raw_asset # assets) =
     (let asset = to_ascii_uppercase (trim raw_asset) in
      checks
       [require (asset \<noteq> []) (about_account account @ ''has blank `cash_balance_assets` entries''),
        require (asset \<notin> set seen) (about_account account @ ''has duplicate `cash_balance_assets` entry `'' @ asset @ ''`''),
        require (asset \<in> set BINANCE_ALLOWED_CASH_BALANCE_ASSETS)
          (about_account account @ ''has unsupported `cash_balance_assets` entry `'' @ asset
           @ ''`; allowed values for binance are: '' @ join '','' BINANCE_ALLOWED_CASH_BALANCE_ASSETS),
        validate_cash_assets account (asset # seen) assets])"

definition validate_account_cash_balance_assets :: "AccountConfig \<Rightarrow> check" where
  "validate_account_cash_balance_assets account =
     (if ac_cash_balance_assets account = [] then Inr ()
      else checks
       [require (ac_kind account = ''binance'')
          (about_account account @ ''kind `'' @ ac_kind account
           @ ''` does not support `cash_balance_assets`; currently only `binance` supports this setting''),
        validate_cash_assets account [] (ac_cash_balance_assets account)])"

definition starts_with :: "string \<Rightarrow> string \<Rightarrow> bool" where
  "starts_with s pre \<longleftrightarrow> take (length pre) s = pre"

definition validate_account_reconciliation_settings :: "AccountConfig \<Rightarrow> check" where
  "validate_account_reconciliation_settings account = checks
     [require (\<not> (ac_reconciliation_base_url account \<noteq> None \<and> \<not> ac_reconciliation_remote_snapshot account
          \<and> \<not> execution_remote_submission_enabled account))
        (about_account account @ ''sets `reconciliation_base_url` but both `reconciliation_remote_snapshot` and `execution_remote_submission` are disabled''),
      (case ac_reconciliation_base_url account of None \<Rightarrow> Inr ()
       | Some base_url \<Rightarrow> require (starts_with base_url ''https://'' \<or> starts_with base_url ''http://'')
           (about_account account @ ''has invalid `reconciliation_base_url` `'' @ base_url @ ''`; expected http:// or https://''))]"

definition validate_account :: "environment \<Rightarrow> AccountConfig \<Rightarrow> check" where
  "validate_account vars account = checks
     [config_account_connector_kind account, validate_account_mode account, validate_account_secret_requirements vars account,
      validate_account_reconciliation_settings account, validate_account_cash_balance_assets account,
      validate_account_total_budget account]"

subsection \<open>Instances (validation/instance.rs)\<close>

definition about_instance :: "'v InstanceConfig \<Rightarrow> string" where
  "about_instance inst = ''instance `'' @ ic_id inst @ ''` ''"

definition validate_instance_budget :: "'v InstanceConfig \<Rightarrow> check" where
  "validate_instance_budget inst =
     (let pct = ic_budget_pct inst in
      checks
       [require (positive_finite pct) (about_instance inst @ ''has invalid `budget.pct` `'' @ show_f64 pct
          @ ''`; must be a positive finite number (set `enabled = false` to disable a bot)''),
        require (\<not> f64_rnd 100 < pct) (about_instance inst @ ''has `budget.pct` `'' @ show_f64 pct @ ''` exceeding 100.0'')])"

definition add_allocation :: "'v InstanceConfig \<Rightarrow> (string, f64 \<times> string list) hmap \<Rightarrow> (string, f64 \<times> string list) hmap" where
  "add_allocation inst totals =
     (if \<not> ic_enabled inst then totals
      else let entry = override (hm_get totals (ic_account inst)) (0, []) in
        hm_insert (ic_account inst) (fst entry + ic_budget_pct inst, snd entry @ [ic_id inst]) totals)"

definition account_allocations :: "'v InstanceConfig list \<Rightarrow> (string, f64 \<times> string list) hmap" where
  "account_allocations instances = fold add_allocation instances []"

definition validate_account_budget_allocations ::
    "(f64 \<Rightarrow> string) \<Rightarrow> 'v InstanceConfig list \<Rightarrow> AccountConfig list \<Rightarrow> check" where
  "validate_account_budget_allocations fixed4 instances accounts =
     check_each (\<lambda>account.
       let (sum, bot_ids) = override (hm_get (account_allocations instances) (ac_id account)) (0, []) in
       require (\<not> f64_rnd 100 + f64_epsilon < sum)
         (about_account account @ ''has bots whose `budget.pct` sums to '' @ fixed4 sum
          @ ''%, exceeding 100%. Contributing bots: '' @ join '', '' bot_ids)) accounts"

definition validate_binding :: "'v InstanceConfig \<Rightarrow> string \<Rightarrow> string \<Rightarrow> string \<Rightarrow> (ConfigConnectorCapabilities \<Rightarrow> bool) \<Rightarrow> check" where
  "validate_binding inst field connector role has_role =
     (case config_connector_capabilities connector of
        None \<Rightarrow> Inl (ConfigValidation (about_instance inst @ ''has unsupported '' @ field @ '' `'' @ connector @ ''`''))
      | Some caps \<Rightarrow> checks
          [require (has_role caps) (about_instance inst @ field @ '' `'' @ connector @ ''` does not support '' @ role @ '' role''),
           require (connector_supports_market caps (ic_market inst))
             (about_instance inst @ field @ '' `'' @ connector @ ''` does not support market `'' @ market_type_label (ic_market inst) @ ''`'')])"

definition validate_instance_connector_bindings :: "'v InstanceConfig \<Rightarrow> AccountConfig \<Rightarrow> check" where
  "validate_instance_connector_bindings inst account = checks
     [validate_binding inst ''data_connector'' (ic_data_connector inst) ''data'' (\<lambda>caps. rcap_data (ccap_roles caps)),
      validate_binding inst ''execution_connector'' (ic_execution_connector inst) ''execution'' (\<lambda>caps. rcap_execution (ccap_roles caps)),
      require (ic_execution_connector inst = ac_kind account)
        (about_instance inst @ ''execution_connector `'' @ ic_execution_connector inst @ ''` does not match account `''
         @ ac_id account @ ''` kind `'' @ ac_kind account @ ''`'')]"

definition validate_positive_option :: "'v InstanceConfig \<Rightarrow> string \<Rightarrow> f64 option \<Rightarrow> check" where
  "validate_positive_option inst field limit =
     (case limit of None \<Rightarrow> Inr ()
      | Some v \<Rightarrow> require (positive_finite v) (about_instance inst @ ''has invalid `'' @ field @ ''` `'' @ show_f64 v @ ''`''))"

definition validate_execution_constraints :: "'v InstanceConfig \<Rightarrow> check" where
  "validate_execution_constraints inst = checks
     [validate_positive_option inst ''execution_constraints.quantity_step'' (quantity_step (ic_execution_constraints inst)),
      validate_positive_option inst ''execution_constraints.min_quantity'' (min_quantity (ic_execution_constraints inst)),
      validate_positive_option inst ''execution_constraints.min_notional_usd'' (min_notional_usd (ic_execution_constraints inst))]"

definition validate_signal_delivery_mode :: "'v InstanceConfig \<Rightarrow> AccountConfig \<Rightarrow> check" where
  "validate_signal_delivery_mode inst account =
     (if ic_signal_mode inst \<noteq> Intrabar then Inr ()
      else checks
       [require (ac_mode account \<noteq> Live)
          (about_instance inst @ ''cannot use signal_mode `intrabar` with live account `'' @ ic_account inst
           @ ''`; live intrabar trading is hard-rejected until parity is proven''),
        require (connector_supports_preview_market_stream (ic_data_connector inst))
          (about_instance inst @ ''signal_mode `intrabar` requires data_connector `'' @ ic_data_connector inst
           @ ''` to support preview market-stream bars'')])"

subsection \<open>Indicators (validation/indicators.rs)\<close>

fun indicator_role_label :: "IndicatorRole \<Rightarrow> string" where
  "indicator_role_label PrimarySignal = ''primary_signal''"
| "indicator_role_label Filter = ''filter''"
| "indicator_role_label Context = ''context''"
| "indicator_role_label RiskHelper = ''risk_helper''"
| "indicator_role_label ResearchOnly = ''research_only''"

fun indicator_stability_class_label :: "IndicatorStabilityClass \<Rightarrow> string" where
  "indicator_stability_class_label StableOnClose = ''stable_on_close''"
| "indicator_stability_class_label PreviewOnly = ''preview_only''"
| "indicator_stability_class_label PivotDelayed = ''pivot_delayed''"
| "indicator_stability_class_label ZigzagRevisable = ''zigzag_revisable''"
| "indicator_stability_class_label ParityOnlyUnsafe = ''parity_only_unsafe''"

definition revisable :: "IndicatorStabilityClass \<Rightarrow> bool" where
  "revisable class \<longleftrightarrow> class = ParityOnlyUnsafe \<or> class = ZigzagRevisable"

definition previews :: "IndicatorManifest \<Rightarrow> bool" where
  "previews manifest \<longleftrightarrow> supports_intrabar (im_capabilities manifest) \<and> supports_preview (im_capabilities manifest)"

definition about_indicator :: "'v InstanceConfig \<Rightarrow> 'v IndicatorInstanceConfig \<Rightarrow> string" where
  "about_indicator inst indicator = about_instance inst @ ''indicator `'' @ ii_id indicator @ ''` ''"

definition about_indicator_type :: "'v InstanceConfig \<Rightarrow> 'v IndicatorInstanceConfig \<Rightarrow> string" where
  "about_indicator_type inst indicator = about_indicator inst indicator @ ''type `'' @ ii_indicator_type indicator @ ''` ''"

definition validate_signal_mode :: "'v InstanceConfig \<Rightarrow> 'v IndicatorInstanceConfig \<Rightarrow> IndicatorManifest \<Rightarrow> check" where
  "validate_signal_mode inst indicator manifest =
     (case ic_signal_mode inst of
        Intrabar \<Rightarrow> require (previews manifest) (about_indicator_type inst indicator @ ''does not support intrabar preview mode'')
      | ConfirmedOnly \<Rightarrow> require (supports_confirmed (im_capabilities manifest))
          (about_indicator_type inst indicator @ ''does not support confirmed-only mode''))"

definition validate_signal_policy :: "'v InstanceConfig \<Rightarrow> 'v IndicatorInstanceConfig \<Rightarrow> IndicatorManifest \<Rightarrow> check" where
  "validate_signal_policy inst indicator manifest =
     (case ii_signal_policy indicator of None \<Rightarrow> Inr ()
      | Some signal_policy \<Rightarrow> checks
          [require (\<not> (ic_signal_mode inst = ConfirmedOnly \<and> signal_policy = PreviewAllowed))
             (about_indicator inst indicator @ ''cannot use signal_policy `preview_allowed` when signal_mode is `confirmed_only`''),
           (case signal_policy of
              PreviewAllowed \<Rightarrow> require (previews manifest)
                (about_indicator_type inst indicator @ ''cannot use signal_policy `preview_allowed`'')
            | ConfirmedRequired \<Rightarrow> require (supports_confirmed (im_capabilities manifest))
                (about_indicator_type inst indicator @ ''cannot use signal_policy `confirmed_required`''))])"

definition validate_weight :: "'v InstanceConfig \<Rightarrow> 'v IndicatorInstanceConfig \<Rightarrow> check" where
  "validate_weight inst indicator =
     (case ii_weight indicator of None \<Rightarrow> Inr ()
      | Some weight \<Rightarrow> checks
          [require (positive_finite weight) (about_indicator inst indicator @ ''has invalid weight `'' @ show_f64 weight @ ''`''),
           require (ic_strategy inst = ''consensus'')
             (about_indicator inst indicator @ ''sets weight but strategy `'' @ ic_strategy inst @ ''` is not `consensus`'')])"

definition validate_against_manifest :: "'v InstanceConfig \<Rightarrow> bool \<Rightarrow> 'v IndicatorInstanceConfig \<Rightarrow> IndicatorManifest \<Rightarrow> check" where
  "validate_against_manifest inst live_account indicator manifest =
     (let effective_role = override (ii_role indicator) (im_role_default manifest) in
      checks
       [require (effective_role \<in> set (im_allowed_roles manifest))
          (about_indicator_type inst indicator @ ''does not allow configured role `'' @ indicator_role_label effective_role @ ''`''),
        require (supports_market manifest (ic_market inst))
          (about_indicator_type inst indicator @ ''does not support market `'' @ market_type_label (ic_market inst) @ ''`''),
        validate_signal_mode inst indicator manifest,
        require (\<not> (effective_role = PrimarySignal \<and> live_account \<and> revisable (im_stability_class manifest)))
          (about_indicator_type inst indicator @ ''with stability_class `''
           @ indicator_stability_class_label (im_stability_class manifest) @ ''` cannot run as `primary_signal` in live mode''),
        validate_signal_policy inst indicator manifest,
        validate_weight inst indicator])"

text \<open>The loop carries the ids seen so far and the longest warmup any indicator needs.\<close>

fun validate_indicator_list ::
    "'v InstanceConfig \<Rightarrow> bool \<Rightarrow> string list \<Rightarrow> nat \<Rightarrow> 'v IndicatorInstanceConfig list \<Rightarrow> ConfigError + nat" where
  "validate_indicator_list inst live_account seen minimum_warmup_bars [] = Inr minimum_warmup_bars"
| "validate_indicator_list inst live_account seen minimum_warmup_bars (indicator # indicators) =
     (case checks
        [require (\<not> blank (ii_id indicator)) (about_instance inst @ ''has an indicator with an empty id''),
         require (ii_id indicator \<notin> set seen) (about_instance inst @ ''has duplicate indicator id `'' @ ii_id indicator @ ''`''),
         require (registry_manifest (ii_indicator_type indicator) \<noteq> None)
           (about_instance inst @ ''has unsupported indicator type `'' @ ii_indicator_type indicator @ ''`'')] of
        Inl e \<Rightarrow> Inl e
      | Inr _ \<Rightarrow>
          (case validate_against_manifest inst live_account indicator (the (registry_manifest (ii_indicator_type indicator))) of
             Inl e \<Rightarrow> Inl e
           | Inr _ \<Rightarrow> validate_indicator_list inst live_account (ii_id indicator # seen)
               (max minimum_warmup_bars (minimum_confirmed_bars (im_warmup (the (registry_manifest (ii_indicator_type indicator))))))
               indicators))"

definition validate_indicators :: "'v InstanceConfig \<Rightarrow> bool \<Rightarrow> check" where
  "validate_indicators inst live_account =
     (case validate_indicator_list inst live_account [] 0 (ic_indicators inst) of Inl e \<Rightarrow> Inl e
      | Inr minimum_warmup_bars \<Rightarrow>
          (case ic_warmup_target_bars inst of None \<Rightarrow> Inr ()
           | Some target_bars \<Rightarrow> require (minimum_warmup_bars \<le> target_bars)
               (about_instance inst @ ''warmup_target_bars `'' @ show_int (int target_bars)
                @ ''` is below the required minimum `'' @ show_int (int minimum_warmup_bars) @ ''` for its enabled indicators'')))"

subsection \<open>The bundle (validation/mod.rs)\<close>

fun unique_ids :: "string \<Rightarrow> string list \<Rightarrow> string list \<Rightarrow> check" where
  "unique_ids label seen [] = Inr ()"
| "unique_ids label seen (i # ids) = checks
     [require (\<not> blank i) (label @ '' id cannot be empty''),
      require (i \<notin> set seen) (''duplicate '' @ label @ '' id `'' @ i @ ''`''),
      unique_ids label (i # seen) ids]"

definition validate_unique_ids :: "string list \<Rightarrow> string \<Rightarrow> check" where
  "validate_unique_ids ids label = unique_ids label [] ids"

definition normalized_symbol_key :: "string \<Rightarrow> string" where
  "normalized_symbol_key symbol = to_ascii_uppercase (trim symbol)"

fun validate_symbols :: "'v InstanceConfig \<Rightarrow> string list \<Rightarrow> string list \<Rightarrow> check" where
  "validate_symbols inst seen [] = Inr ()"
| "validate_symbols inst seen (symbol # symbols) = checks
     [require (normalized_symbol_key symbol \<noteq> []) (about_instance inst @ ''has a blank symbol entry''),
      require (normalized_symbol_key symbol \<notin> set seen)
        (about_instance inst @ ''has duplicate symbol `'' @ normalized_symbol_key symbol @ ''` after normalization''),
      validate_symbols inst (normalized_symbol_key symbol # seen) symbols]"

definition validate_risk_profile :: "RiskProfileConfig \<Rightarrow> check" where
  "validate_risk_profile risk =
     (case rpc_target_order_notional_usd risk of None \<Rightarrow> Inr ()
      | Some target \<Rightarrow> require (positive_finite target)
          (''risk profile `'' @ rpc_id risk @ ''` has invalid `target_order_notional_usd` `'' @ show_f64 target @ ''`''))"

definition validate_bound_instance :: "SafetyConfig \<Rightarrow> string list \<Rightarrow> 'v InstanceConfig \<Rightarrow> AccountConfig \<Rightarrow> check" where
  "validate_bound_instance safety risk_ids inst account = checks
     [validate_instance_connector_bindings inst account,
      require (irc_profile (ic_risk inst) \<in> set risk_ids)
        (about_instance inst @ ''references unknown risk profile `'' @ irc_profile (ic_risk inst) @ ''`''),
      require (ic_indicators inst \<noteq> []) (about_instance inst @ ''must define at least one indicator''),
      require (ic_polling_interval_ms inst \<noteq> 0) (about_instance inst @ ''has invalid `polling_interval_ms` of 0''),
      validate_positive_option inst ''risk.overrides.target_order_notional_usd''
        (ro_target_order_notional_usd (irc_overrides (ic_risk inst))),
      validate_execution_constraints inst, validate_instance_budget inst, validate_signal_delivery_mode inst account,
      validate_indicators inst (ac_mode account = Live),
      require (\<not> (sf_require_explicit_live_enable safety \<and> ac_mode account = Live \<and> \<not> ic_allow_live inst))
        (about_instance inst @ ''uses live account `'' @ ic_account inst @ ''` but `allow_live` is false'')]"

definition accounts_by_id :: "AccountConfig list \<Rightarrow> (string, AccountConfig) hmap" where
  "accounts_by_id accounts = hm_of_list (map (\<lambda>account. (ac_id account, account)) accounts)"

definition validate_instance :: "SafetyConfig \<Rightarrow> AccountConfig list \<Rightarrow> string list \<Rightarrow> 'v InstanceConfig \<Rightarrow> check" where
  "validate_instance safety accounts risk_ids inst = checks
     [require (\<not> blank (ic_id inst)) ''instance id cannot be empty'',
      require (ic_symbols inst \<noteq> []) (about_instance inst @ ''must have at least one symbol''),
      validate_symbols inst [] (ic_symbols inst),
      (case hm_get (accounts_by_id accounts) (ic_account inst) of
         None \<Rightarrow> Inl (ConfigValidation (about_instance inst @ ''references unknown account `'' @ ic_account inst @ ''`''))
       | Some account \<Rightarrow> validate_bound_instance safety risk_ids inst account)]"

definition validate :: "environment \<Rightarrow> (f64 \<Rightarrow> string) \<Rightarrow> 'v ConfigBundle \<Rightarrow> check" where
  "validate vars fixed4 self = checks
     [validate_storage (gc_storage (cb_global self)),
      validate_unique_ids (map ac_id (cb_accounts self)) ''account'',
      validate_unique_ids (map rpc_id (cb_risk_profiles self)) ''risk profile'',
      validate_unique_ids (map ic_id (cb_instances self)) ''instance'',
      validate_data_plane (gc_data_plane (cb_global self)) (map ac_id (cb_accounts self)),
      check_each (validate_account vars) (cb_accounts self),
      check_each validate_risk_profile (cb_risk_profiles self),
      check_each (validate_instance (gc_safety (cb_global self)) (cb_accounts self) (map rpc_id (cb_risk_profiles self)))
        (cb_instances self),
      validate_account_budget_allocations fixed4 (cb_instances self) (cb_accounts self)]"

subsection \<open>The projection for the outside (effective.rs) and updates (model.rs)\<close>

record AccountSecretStatus =
  ss_api_key_present :: bool
  ss_api_secret_present :: bool
  ss_passphrase_present :: bool

record EffectiveAccountConfig =
  ea_id :: string
  ea_kind :: string
  ea_mode :: ExecutionMode
  ea_use_demo_mode :: bool
  ea_reconciliation_remote_snapshot :: bool
  ea_execution_remote_submission :: bool
  ea_reconciliation_base_url :: "string option"
  ea_cash_balance_assets :: "string list"
  ea_total_budget_usd :: f64
  ea_secret_status :: AccountSecretStatus

record 'v EffectiveConfig =
  ef_global :: GlobalConfig
  ef_accounts :: "EffectiveAccountConfig list"
  ef_risk_profiles :: "RiskProfileConfig list"
  ef_instances :: "'v InstanceConfig list"

definition secret_present :: "environment \<Rightarrow> string option \<Rightarrow> bool" where
  "secret_present vars secret_env = (case secret_env of None \<Rightarrow> False
     | Some name \<Rightarrow> (case vars name of None \<Rightarrow> False | Some v \<Rightarrow> v \<noteq> []))"

definition effective_account :: "environment \<Rightarrow> AccountConfig \<Rightarrow> EffectiveAccountConfig" where
  "effective_account vars account =
     \<lparr>ea_id = ac_id account, ea_kind = ac_kind account, ea_mode = ac_mode account, ea_use_demo_mode = ac_use_demo_mode account,
      ea_reconciliation_remote_snapshot = ac_reconciliation_remote_snapshot account,
      ea_execution_remote_submission = execution_remote_submission_enabled account,
      ea_reconciliation_base_url = ac_reconciliation_base_url account, ea_cash_balance_assets = ac_cash_balance_assets account,
      ea_total_budget_usd = ac_total_budget_usd account,
      ea_secret_status = \<lparr>ss_api_key_present = secret_present vars (ac_api_key_env account),
        ss_api_secret_present = secret_present vars (ac_api_secret_env account),
        ss_passphrase_present = secret_present vars (ac_passphrase_env account)\<rparr>\<rparr>"

definition effective_config :: "environment \<Rightarrow> 'v ConfigBundle \<Rightarrow> 'v EffectiveConfig" where
  "effective_config vars self =
     \<lparr>ef_global = cb_global self, ef_accounts = map (effective_account vars) (cb_accounts self),
      ef_risk_profiles = cb_risk_profiles self, ef_instances = cb_instances self\<rparr>"

record AccountConfigUpdate =
  au_kind :: string
  au_mode :: ExecutionMode
  au_use_demo_mode :: bool
  au_reconciliation_remote_snapshot :: bool
  au_execution_remote_submission :: "bool option"
  au_reconciliation_base_url :: "string option"
  au_cash_balance_assets :: "string list"
  au_total_budget_usd :: f64

definition into_account :: "AccountConfigUpdate \<Rightarrow> AccountConfig \<Rightarrow> AccountConfig" where
  "into_account self existing =
     \<lparr>ac_id = ac_id existing, ac_kind = au_kind self, ac_mode = au_mode self, ac_api_key_env = ac_api_key_env existing,
      ac_api_secret_env = ac_api_secret_env existing, ac_passphrase_env = ac_passphrase_env existing,
      ac_use_demo_mode = au_use_demo_mode self, ac_reconciliation_remote_snapshot = au_reconciliation_remote_snapshot self,
      ac_execution_remote_submission = (case au_execution_remote_submission self of
          Some requested \<Rightarrow> if requested \<noteq> execution_remote_submission_enabled existing then Some requested
            else ac_execution_remote_submission existing
        | None \<Rightarrow> ac_execution_remote_submission existing),
      ac_reconciliation_base_url = au_reconciliation_base_url self, ac_cash_balance_assets = au_cash_balance_assets self,
      ac_total_budget_usd = au_total_budget_usd self\<rparr>"

subsection \<open>Lemmas\<close>

lemma unique_ids_ok: "unique_ids label seen ids = Inr u \<longleftrightarrow> distinct ids \<and> set ids \<inter> set seen = {} \<and> list_all (\<lambda>i. \<not> blank i) ids"
  by (induction ids arbitrary: seen) (auto simp: checks_ok)

lemma validate_symbols_ok:
  "validate_symbols inst seen symbols = Inr u \<longleftrightarrow> distinct (map normalized_symbol_key symbols)
     \<and> set (map normalized_symbol_key symbols) \<inter> set seen = {} \<and> list_all (\<lambda>s. normalized_symbol_key s \<noteq> []) symbols"
  by (induction symbols arbitrary: seen) (auto simp: checks_ok)

lemma set_hm_of_list: "set (hm_of_list es) \<subseteq> set es"
proof -
  have "set (fold (\<lambda>(k, v) m. hm_insert k v m) es m) \<subseteq> set es \<union> set m" for m
  proof (induction es arbitrary: m)
    case (Cons e es)
    then show ?case using Cons.IH [of "hm_insert (fst e) (snd e) m"] set_hm_insert [of "fst e" "snd e" m] by (cases e) auto
  qed simp
  from this [of "[]"] show ?thesis by (simp add: hm_of_list_def)
qed

lemma accounts_by_id_member: "hm_get (accounts_by_id accounts) i = Some a \<Longrightarrow> a \<in> set accounts \<and> ac_id a = i"
  using set_hm_of_list [of "map (\<lambda>account. (ac_id account, account)) accounts"]
  by (auto simp: accounts_by_id_def hm_get_def dest!: map_of_SomeD)

text \<open>Each supported connector serves one market, so the market fixes the connector.\<close>

lemma market_fixes_connector:
  assumes "validate_binding inst f1 c1 r1 p1 = Inr ()" "validate_binding inst f2 c2 r2 p2 = Inr ()"
  shows "c1 = c2"
  using assms by (cases "ic_market inst")
    (auto simp: validate_binding_def config_connector_capabilities_def checks_ok split: if_splits option.splits)

definition instance_admitted :: "SafetyConfig \<Rightarrow> AccountConfig list \<Rightarrow> 'v InstanceConfig \<Rightarrow> bool" where
  "instance_admitted safety accounts inst =
     (case hm_get (accounts_by_id accounts) (ic_account inst) of None \<Rightarrow> False
      | Some account \<Rightarrow> ic_data_connector inst = ac_kind account \<and> ic_execution_connector inst = ac_kind account
          \<and> ic_symbols inst \<noteq> [] \<and> distinct (map normalized_symbol_key (ic_symbols inst)) \<and> ic_indicators inst \<noteq> []
          \<and> positive_finite (ic_budget_pct inst) \<and> ic_budget_pct inst \<le> f64_rnd 100
          \<and> (if ac_mode account = Live then ic_signal_mode inst = ConfirmedOnly \<and> (if sf_require_explicit_live_enable safety then ic_allow_live inst else True)
             else True))"

lemma validated_instance:
  assumes "validate_instance safety accounts risk_ids inst = Inr ()"
  shows "instance_admitted safety accounts inst"
proof -
  from assms obtain account where account: "hm_get (accounts_by_id accounts) (ic_account inst) = Some account"
    and bound: "validate_bound_instance safety risk_ids inst account = Inr ()"
    and symbols: "ic_symbols inst \<noteq> []" "distinct (map normalized_symbol_key (ic_symbols inst))"
    by (auto simp: validate_instance_def checks_ok validate_symbols_ok split: option.splits)
  from bound have bindings: "validate_instance_connector_bindings inst account = Inr ()"
    and indicators: "ic_indicators inst \<noteq> []" and budget: "validate_instance_budget inst = Inr ()"
    and delivery: "validate_signal_delivery_mode inst account = Inr ()"
    and live: "\<not> (sf_require_explicit_live_enable safety \<and> ac_mode account = Live \<and> \<not> ic_allow_live inst)"
    by (auto simp: validate_bound_instance_def checks_ok)
  from bindings have connectors: "ic_data_connector inst = ac_kind account" "ic_execution_connector inst = ac_kind account"
    by (auto simp: validate_instance_connector_bindings_def checks_ok dest: market_fixes_connector)
  from budget have pct: "positive_finite (ic_budget_pct inst)" "\<not> f64_rnd 100 < ic_budget_pct inst"
    by (simp_all add: validate_instance_budget_def checks_ok Let_def)
  from delivery have mode: "ac_mode account = Live \<Longrightarrow> ic_signal_mode inst = ConfirmedOnly"
    by (cases "ic_signal_mode inst") (auto simp: validate_signal_delivery_mode_def checks_ok split: if_splits)
  from pct have "ic_budget_pct inst \<le> f64_rnd 100"
    by (simp add: f64_not_less is_finite_not_nan positive_finite_def)
  with account symbols connectors indicators pct(1) mode live show ?thesis by (simp add: instance_admitted_def)
qed


text \<open>What the operator's form sends back when nothing was edited.\<close>

definition shown_update :: "EffectiveAccountConfig \<Rightarrow> AccountConfigUpdate" where
  "shown_update shown = \<lparr>au_kind = ea_kind shown, au_mode = ea_mode shown, au_use_demo_mode = ea_use_demo_mode shown,
     au_reconciliation_remote_snapshot = ea_reconciliation_remote_snapshot shown,
     au_execution_remote_submission = Some (ea_execution_remote_submission shown),
     au_reconciliation_base_url = ea_reconciliation_base_url shown, au_cash_balance_assets = ea_cash_balance_assets shown,
     au_total_budget_usd = ea_total_budget_usd shown\<rparr>"

text \<open>
  Saving an account as it was shown changes nothing, an inherited submission setting included; and
  an update that leaves the snapshot setting alone resolves the submission setting to what it asked for.
\<close>

theorem account_update_roundtrip:
  "into_account (shown_update (effective_account vars account)) account = account
   \<and> (case au_execution_remote_submission update of
        Some requested \<Rightarrow> if au_reconciliation_remote_snapshot update = ac_reconciliation_remote_snapshot account
          then execution_remote_submission_enabled (into_account update account) = requested else True
      | None \<Rightarrow> ac_execution_remote_submission (into_account update account) = ac_execution_remote_submission account)"
  by (cases account; cases "au_execution_remote_submission update")
    (auto simp: into_account_def shown_update_def effective_account_def execution_remote_submission_enabled_def split: option.splits)

end
