(* ===== verification/LaneCycle.thy ===== *)
theory LaneCycle
  imports LaneExecution
begin

section \<open>The lane cycle and manual closes (openticker-lane/src/cycle.rs, manual\_ops.rs)\<close>

text \<open>
  One trading cycle of a lane, for a market bar or a manually injected signal, generic in an engine
  (the trait \<open>LaneCycleEngine\<close>), and the workflow that closes a lane's position by hand
  (\<open>LaneManualOpsEngine\<close>). Elapsed time is an argument; the trace id comes from a workflow, because
  it is drawn from a process-wide sequence.

  The lemmas show which steps a cycle takes before it can trade, that a replayed cycle changes
  nothing, and, in the locale \<open>cycle_invariant\<close>, that what every operation of the engine preserves is
  preserved by the whole cycle.
\<close>

subsection \<open>Cycles\<close>

record LaneCycleContext =
  lcc_bot_id :: string
  lcc_account_id :: string
  lcc_execution_connector :: string
  lcc_symbol :: string
  lcc_has_position :: bool

datatype LaneCycleInvocation = MarketBarInvocation | ManualSignalInvocation IndicatorSignal

fun invocation_trigger_kind :: "LaneCycleInvocation \<Rightarrow> CycleTriggerKind" where
  "invocation_trigger_kind MarketBarInvocation = MarketBar"
| "invocation_trigger_kind (ManualSignalInvocation _) = ManualSignal"

fun invocation_signal :: "LaneCycleInvocation \<Rightarrow> IndicatorSignal option" where
  "invocation_signal MarketBarInvocation = None"
| "invocation_signal (ManualSignalInvocation signal) = Some signal"

fun processes_pending_state :: "LaneCycleInvocation \<Rightarrow> bool" where
  "processes_pending_state MarketBarInvocation = True"
| "processes_pending_state (ManualSignalInvocation _) = False"

definition updates_last_dispatched_bar_timestamp :: "LaneCycleInvocation \<Rightarrow> SignalPhase \<Rightarrow> bool" where
  "updates_last_dispatched_bar_timestamp invocation phase = (invocation = MarketBarInvocation \<and> phase = Confirmed)"

fun manual_signal_phase :: "IndicatorSignal \<Rightarrow> SignalPhase" where
  "manual_signal_phase BuyPreview = Preview"
| "manual_signal_phase SellPreview = Preview"
| "manual_signal_phase BuyConfirmed = Confirmed"
| "manual_signal_phase SellConfirmed = Confirmed"
| "manual_signal_phase NoSignal = Confirmed"

text \<open>Dates are day numbers since the epoch: \<open>timestamp.date_naive()\<close> in UTC.\<close>

type_synonym naive_date = int

definition date_naive :: "timestamp \<Rightarrow> naive_date" where
  "date_naive t = timestamp_millis t div 86400000"

record ('s, 'e, 'ev, 'ord, 'pos, 'cap, 'rel, 'r, 'out) LaneCycleEngine =
  ce_ensure_kill_switch_inactive :: "'s \<Rightarrow> 'e + unit"
  ce_lane_cycle_context :: "string \<Rightarrow> 's \<Rightarrow> 'e + LaneCycleContext"
  ce_has_matching_cycle_trace :: "string \<Rightarrow> string \<Rightarrow> OhlcvBar \<Rightarrow> SignalPhase \<Rightarrow> CycleTriggerKind \<Rightarrow> IndicatorSignal option
    \<Rightarrow> 's \<Rightarrow> 'e + bool"
  ce_duplicate_cycle_replay_outcome :: "string \<Rightarrow> string \<Rightarrow> SignalPhase \<Rightarrow> bool \<Rightarrow> 'out"
  ce_sync_account_ledger :: "string \<Rightarrow> ('s, 'e, unit) workflow"
  ce_capture_cycle_capital_state :: "string \<Rightarrow> string \<Rightarrow> string \<Rightarrow> 's \<Rightarrow> 'cap"
  ce_validate_account_connector_kind :: "string \<Rightarrow> string \<Rightarrow> string \<Rightarrow> 's \<Rightarrow> 'e + unit"
  ce_ensure_account_connector_ready :: "string \<Rightarrow> string \<Rightarrow> ('s, 'e, unit) workflow"
  ce_ensure_connector_execution_constraints :: "string \<Rightarrow> string \<Rightarrow> ('s, 'e, unit) workflow"
  ce_refresh_daily_loss_rollover :: "naive_date \<Rightarrow> 's \<Rightarrow> 's"
  ce_process_pending_warmup_bar :: "string \<Rightarrow> OhlcvBar \<Rightarrow> SignalPhase \<Rightarrow> ('s, 'e, 'out option) workflow"
  ce_process_pending_recovery_bar :: "string \<Rightarrow> SignalPhase \<Rightarrow> ('s, 'e, 'out option) workflow"
  ce_evaluate_process_bar :: "string \<Rightarrow> OhlcvBar \<Rightarrow> SignalPhase \<Rightarrow> ('s, 'e, 'ev) workflow"
  ce_evaluate_manual_signal :: "string \<Rightarrow> OhlcvBar \<Rightarrow> SignalPhase \<Rightarrow> IndicatorSignal \<Rightarrow> ('s, 'e, 'ev) workflow"
  ce_append_process_bar_records :: "string \<Rightarrow> OhlcvBar \<Rightarrow> SignalPhase \<Rightarrow> 'ev \<Rightarrow> string \<Rightarrow> ('s, 'e, 'rel list) workflow"
  ce_apply_risk_decision_effects :: "string \<Rightarrow> string \<Rightarrow> string \<Rightarrow> string \<Rightarrow> OhlcvBar \<Rightarrow> 'ev \<Rightarrow> string
    \<Rightarrow> ('s, 'e, 'r \<times> 'ord option \<times> 'rel list) workflow"
  ce_apply_process_bar_state :: "string \<Rightarrow> string \<Rightarrow> OhlcvBar \<Rightarrow> 'ev \<Rightarrow> 'ord option \<Rightarrow> string \<Rightarrow> ('s, 'e, 'pos) workflow"
  ce_persist_cycle_trace_for_evaluation :: "TraceIdentity \<Rightarrow> string \<Rightarrow> OhlcvBar \<Rightarrow> 'ev \<Rightarrow> 'ord option \<Rightarrow> 'pos \<Rightarrow> 'cap
    \<Rightarrow> 'rel list \<Rightarrow> ('s, 'e, unit) workflow"
  ce_update_last_dispatched_bar_timestamp :: "string \<Rightarrow> timestamp \<Rightarrow> ('s, 'e, unit) workflow"
  ce_outcome_from_evaluation :: "string \<Rightarrow> LaneCycleContext \<Rightarrow> SignalPhase \<Rightarrow> 'ev \<Rightarrow> 'r \<Rightarrow> 's \<Rightarrow> 'e + 'out"
  ce_record_successful_cycle_latency :: "int \<Rightarrow> 's \<Rightarrow> 's"
  ce_new_trace_id :: "('s, 'e, string) workflow"

text \<open>The warmup and recovery gates of a market bar: \<open>Some outcome\<close> ends the cycle early.\<close>

definition process_pending ::
    "('s, 'e, 'ev, 'ord, 'pos, 'cap, 'rel, 'r, 'out) LaneCycleEngine \<Rightarrow> string \<Rightarrow> OhlcvBar \<Rightarrow> SignalPhase
     \<Rightarrow> LaneCycleInvocation \<Rightarrow> ('s, 'e, 'out option) workflow" where
  "process_pending engine instance_id bar phase invocation =
     (if processes_pending_state invocation
      then then_do (ce_process_pending_warmup_bar engine instance_id bar phase) (\<lambda>warmup.
           case warmup of Some outcome \<Rightarrow> ok (Some outcome)
           | None \<Rightarrow> ce_process_pending_recovery_bar engine instance_id phase)
      else ok None)"

definition evaluate_invocation ::
    "('s, 'e, 'ev, 'ord, 'pos, 'cap, 'rel, 'r, 'out) LaneCycleEngine \<Rightarrow> string \<Rightarrow> OhlcvBar \<Rightarrow> SignalPhase
     \<Rightarrow> LaneCycleInvocation \<Rightarrow> ('s, 'e, 'ev) workflow" where
  "evaluate_invocation engine instance_id bar phase invocation =
     (case invocation of
        MarketBarInvocation \<Rightarrow> ce_evaluate_process_bar engine instance_id bar phase
      | ManualSignalInvocation signal \<Rightarrow> ce_evaluate_manual_signal engine instance_id bar phase signal)"

text \<open>The part of a cycle after the gates: evaluate, record, execute, apply, persist.\<close>

definition trade_cycle ::
    "('s, 'e, 'ev, 'ord, 'pos, 'cap, 'rel, 'r, 'out) LaneCycleEngine \<Rightarrow> string \<Rightarrow> OhlcvBar \<Rightarrow> SignalPhase
     \<Rightarrow> LaneCycleInvocation \<Rightarrow> LaneCycleContext \<Rightarrow> TraceIdentity \<Rightarrow> 'cap \<Rightarrow> ('s, 'e, 'out) workflow" where
  "trade_cycle engine instance_id bar phase invocation context trace capital_before =
     then_do (evaluate_invocation engine instance_id bar phase invocation) (\<lambda>evaluation.
     then_do (ce_append_process_bar_records engine instance_id bar phase evaluation (ti_trace_id trace)) (\<lambda>related_events.
     then_do (ce_apply_risk_decision_effects engine instance_id (lcc_account_id context)
       (lcc_execution_connector context) (lcc_symbol context) bar evaluation (ti_trace_id trace))
       (\<lambda>(risk, accepted_order, execution_events).
     then_do (ce_apply_process_bar_state engine instance_id (lcc_account_id context) bar evaluation accepted_order
       (ti_trace_id trace)) (\<lambda>position_step.
     then_do (ce_persist_cycle_trace_for_evaluation engine trace (lcc_account_id context) bar evaluation accepted_order
       position_step capital_before (related_events @ execution_events)) (\<lambda>_.
     then_do (if updates_last_dispatched_bar_timestamp invocation phase
              then ce_update_last_dispatched_bar_timestamp engine instance_id (bar_timestamp bar) else ok ()) (\<lambda>_.
     tries (ce_outcome_from_evaluation engine instance_id context phase evaluation risk)))))))"

definition lane_cycle_body ::
    "('s, 'e, 'ev, 'ord, 'pos, 'cap, 'rel, 'r, 'out) LaneCycleEngine \<Rightarrow> Texts \<Rightarrow> string \<Rightarrow> OhlcvBar \<Rightarrow> SignalPhase
     \<Rightarrow> LaneCycleInvocation \<Rightarrow> ('s, 'e, 'out) workflow" where
  "lane_cycle_body engine tx instance_id bar phase invocation =
     then_do (tries (ce_lane_cycle_context engine instance_id)) (\<lambda>context.
     then_do (tries (ce_has_matching_cycle_trace engine (lcc_bot_id context) (lcc_symbol context) bar phase
       (invocation_trigger_kind invocation) (invocation_signal invocation))) (\<lambda>replayed.
     if replayed then ok (ce_duplicate_cycle_replay_outcome engine (lcc_bot_id context) (lcc_symbol context) phase
       (lcc_has_position context))
     else
     then_do (ce_new_trace_id engine) (\<lambda>trace_id.
     let trace = TraceIdentity_with_trace_id trace_id (lcc_bot_id context) (lcc_symbol context)
           (tx_rfc3339 tx (bar_timestamp bar)) phase (invocation_trigger_kind invocation) in
     then_do (ce_sync_account_ledger engine (lcc_account_id context)) (\<lambda>_.
     then_do (reads (ce_capture_cycle_capital_state engine (lcc_account_id context) (lcc_bot_id context)
       (lcc_symbol context))) (\<lambda>capital_before.
     then_do (tries (ce_validate_account_connector_kind engine instance_id (lcc_account_id context)
       (lcc_execution_connector context))) (\<lambda>_.
     then_do (ce_ensure_account_connector_ready engine instance_id (lcc_account_id context)) (\<lambda>_.
     then_do (ce_ensure_connector_execution_constraints engine instance_id (lcc_account_id context)) (\<lambda>_.
     then_do (updates (ce_refresh_daily_loss_rollover engine (date_naive (bar_timestamp bar)))) (\<lambda>_.
     then_do (process_pending engine instance_id bar phase invocation) (\<lambda>pending.
     case pending of Some outcome \<Rightarrow> ok outcome
     | None \<Rightarrow> trade_cycle engine instance_id bar phase invocation context trace capital_before))))))))))"

definition run_lane_cycle ::
    "('s, 'e, 'ev, 'ord, 'pos, 'cap, 'rel, 'r, 'out) LaneCycleEngine \<Rightarrow> Texts \<Rightarrow> int \<Rightarrow> string \<Rightarrow> OhlcvBar \<Rightarrow> SignalPhase
     \<Rightarrow> LaneCycleInvocation \<Rightarrow> ('s, 'e, 'out) workflow" where
  "run_lane_cycle engine tx elapsed instance_id bar phase invocation =
     then_do (tries (ce_ensure_kill_switch_inactive engine)) (\<lambda>_.
     then_do (lane_cycle_body engine tx instance_id bar phase invocation) (\<lambda>outcome.
     then_do (updates (ce_record_successful_cycle_latency engine elapsed)) (\<lambda>_. ok outcome)))"

definition run_process_bar_cycle ::
    "('s, 'e, 'ev, 'ord, 'pos, 'cap, 'rel, 'r, 'out) LaneCycleEngine \<Rightarrow> Texts \<Rightarrow> int \<Rightarrow> string \<Rightarrow> OhlcvBar \<Rightarrow> SignalPhase
     \<Rightarrow> ('s, 'e, 'out) workflow" where
  "run_process_bar_cycle engine tx elapsed instance_id bar phase =
     run_lane_cycle engine tx elapsed instance_id bar phase MarketBarInvocation"

definition run_manual_signal_cycle ::
    "('s, 'e, 'ev, 'ord, 'pos, 'cap, 'rel, 'r, 'out) LaneCycleEngine \<Rightarrow> Texts \<Rightarrow> int \<Rightarrow> string \<Rightarrow> IndicatorSignal \<Rightarrow> f64
     \<Rightarrow> timestamp \<Rightarrow> ('s, 'e, 'out) workflow" where
  "run_manual_signal_cycle engine tx elapsed instance_id signal price timestamp =
     run_lane_cycle engine tx elapsed instance_id
       \<lparr>bar_timestamp = timestamp, bar_open = price, bar_high = price, bar_low = price, bar_close = price, bar_volume = 0\<rparr>
       (manual_signal_phase signal) (ManualSignalInvocation signal)"

subsection \<open>Manual closes\<close>

record ManualCloseContext =
  mcc_bot_id :: string
  mcc_account_id :: string
  mcc_reconciliation_remote_snapshot :: bool
  mcc_has_local_position :: bool

datatype ManualCloseSignalRisk = CloseAllowed | CloseRejected string

record ManualCloseSignalOutcome =
  mso_intent :: TradeIntent
  mso_risk :: ManualCloseSignalRisk

datatype ManualCloseOutcome = AlreadyFlat | Processed TradeIntent ManualCloseSignalRisk f64 timestamp

record ('s, 'e) LaneManualOpsEngine =
  mo_manual_close_context :: "string \<Rightarrow> 's \<Rightarrow> 'e + ManualCloseContext"
  mo_sync_remote_position_for_manual_close :: "string \<Rightarrow> string \<Rightarrow> ('s, 'e, bool) workflow"
  mo_fetch_latest_bar_for_manual_close :: "string \<Rightarrow> ('s, 'e, OhlcvBar) workflow"
  mo_process_manual_close_signal :: "string \<Rightarrow> f64 \<Rightarrow> timestamp \<Rightarrow> ('s, 'e, ManualCloseSignalOutcome) workflow"

definition close_lane_position :: "('s, 'e) LaneManualOpsEngine \<Rightarrow> string \<Rightarrow> ('s, 'e, ManualCloseOutcome) workflow" where
  "close_lane_position engine instance_id =
     then_do (tries (mo_manual_close_context engine instance_id)) (\<lambda>context.
     then_do (if mcc_reconciliation_remote_snapshot context
              then mo_sync_remote_position_for_manual_close engine instance_id (mcc_account_id context)
              else ok (mcc_has_local_position context)) (\<lambda>has_position.
     if \<not> has_position then ok AlreadyFlat
     else
     then_do (mo_fetch_latest_bar_for_manual_close engine instance_id) (\<lambda>latest_bar.
     then_do (mo_process_manual_close_signal engine instance_id (bar_close latest_bar) (bar_timestamp latest_bar))
       (\<lambda>signal_outcome.
     ok (Processed (mso_intent signal_outcome) (mso_risk signal_outcome) (bar_close latest_bar)
       (bar_timestamp latest_bar))))))"

subsection \<open>Lemmas\<close>

text \<open>An active kill switch ends a cycle before it does anything.\<close>

lemma cycle_blocked:
  "ce_ensure_kill_switch_inactive engine s = Inl e \<Longrightarrow>
   run_lane_cycle engine tx ms i bar phase invocation s = (Inl e, s)"
  by (simp add: run_lane_cycle_def then_do_def)

text \<open>A cycle whose trace is already in the journal is not run again.\<close>

lemma cycle_replayed:
  assumes "ce_ensure_kill_switch_inactive engine s = Inr ()" "ce_lane_cycle_context engine i s = Inr context"
    and "ce_has_matching_cycle_trace engine (lcc_bot_id context) (lcc_symbol context) bar phase
      (invocation_trigger_kind invocation) (invocation_signal invocation) s = Inr True"
  shows "run_lane_cycle engine tx ms i bar phase invocation s =
    (Inr (ce_duplicate_cycle_replay_outcome engine (lcc_bot_id context) (lcc_symbol context) phase (lcc_has_position context)),
     ce_record_successful_cycle_latency engine ms s)"
  using assms by (simp add: run_lane_cycle_def lane_cycle_body_def then_do_def)

text \<open>What every operation of an engine preserves, the cycle preserves.\<close>

locale cycle_invariant =
  fixes engine :: "('s, 'e, 'ev, 'ord, 'pos, 'cap, 'rel, 'r, 'out) LaneCycleEngine" and I :: "'s \<Rightarrow> bool"
  assumes inv_sync: "preserves I (ce_sync_account_ledger engine a)"
    and inv_ready: "preserves I (ce_ensure_account_connector_ready engine i a)"
    and inv_constraints: "preserves I (ce_ensure_connector_execution_constraints engine i a)"
    and inv_rollover: "I s \<Longrightarrow> I (ce_refresh_daily_loss_rollover engine d s)"
    and inv_warmup: "preserves I (ce_process_pending_warmup_bar engine i bar ph)"
    and inv_recovery: "preserves I (ce_process_pending_recovery_bar engine i ph)"
    and inv_evaluate: "preserves I (ce_evaluate_process_bar engine i bar ph)"
    and inv_evaluate_manual: "preserves I (ce_evaluate_manual_signal engine i bar ph sg)"
    and inv_records: "preserves I (ce_append_process_bar_records engine i bar ph ev t)"
    and inv_effects: "preserves I (ce_apply_risk_decision_effects engine i a ck sy bar ev t)"
    and inv_state: "preserves I (ce_apply_process_bar_state engine i a bar ev ord t)"
    and inv_persist: "preserves I (ce_persist_cycle_trace_for_evaluation engine tr a bar ev ord ps cb evs)"
    and inv_dispatched: "preserves I (ce_update_last_dispatched_bar_timestamp engine i ts)"
    and inv_latency: "I s \<Longrightarrow> I (ce_record_successful_cycle_latency engine ms s)"
    and inv_trace_id: "preserves I (ce_new_trace_id engine)"
begin

lemma cycle_preserves: "preserves I (run_lane_cycle engine tx ms i bar phase invocation)"
proof -
  have pending: "preserves I (process_pending engine i bar phase invocation)"
    unfolding process_pending_def by (intro invariant_rules inv_warmup inv_recovery)
  have evaluate: "preserves I (evaluate_invocation engine i bar phase invocation)"
    unfolding evaluate_invocation_def
    by (cases invocation) (simp_all add: inv_evaluate inv_evaluate_manual)
  have trade: "preserves I (trade_cycle engine i bar phase invocation cx tid cap)" for cx tid cap
    unfolding trade_cycle_def
    by (intro invariant_rules evaluate inv_records inv_effects inv_state inv_persist inv_dispatched)
  show ?thesis
    unfolding run_lane_cycle_def lane_cycle_body_def Let_def
    by (intro invariant_rules pending trade inv_trace_id inv_sync inv_ready inv_constraints)
      (auto intro: preserves_updates inv_rollover inv_latency)
qed

end

text \<open>A manual close of a flat lane submits nothing; of an open lane it runs one close signal at the latest bar.\<close>

lemma manual_close_flat:
  assumes "mo_manual_close_context engine i s = Inr context" "\<not> mcc_reconciliation_remote_snapshot context"
    "\<not> mcc_has_local_position context"
  shows "close_lane_position engine i s = (Inr AlreadyFlat, s)"
  using assms by (simp add: close_lane_position_def then_do_def)

end
