(* ===== verification/RuntimeState.thy ===== *)
theory RuntimeState
  imports LaneCycle ReadModels Gateway
begin

section \<open>Runtime state and repository (crate openticker-runtime: model, shared, repo)\<close>

text \<open>
  The runtime: lanes, kill switch, counters, the catalog (lanes of each bot, accounts, account ledgers),
  the connector gateway, the journal and the read models, as one record; the repository operations over
  it. \<open>RuntimeEnv\<close> holds what the runtime calls and this development does not define: the journal
  backend, the remote providers, the clock, and the text that \<open>serde_json\<close> and \<open>chrono\<close>
  produce or read. Shared handles (\<open>Arc<Mutex<_>>\<close>) are fields of the record; lock poisoning,
  which follows a panic, is not modelled. Serialising the values written here cannot fail, so
  \<open>ServiceError::Json\<close> is a value of the error type that no operation returns.

  The lemmas are frames: what each repository operation leaves unchanged. The later theories build the
  engines of the lane workflows from these operations.
\<close>

subsection \<open>Errors\<close>

datatype ServiceError = InstanceNotFound string
  | InstanceDisabled string
  | ReconciliationRequired string string
  | KillSwitchEnabled
  | InvalidTransition string LaneRuntimeState string
  | TradeSymbolMismatch string string string
  | SymbolSelectionRequired string string
  | SymbolNotConfigured string string
  | ConnectorNotReady string string ConnectionState string
  | DataConnectorUnavailable string string string
  | ExecutionConnectorUnavailable string string string
  | InvalidServiceConfiguration string
  | LedgerInvariantViolation string
  | DataFailure DataError
  | ExecutionFailure ExecutionError
  | StorageFailure StorageError
  | JsonFailure string

fun state_debug :: "LaneRuntimeState \<Rightarrow> string" where
  "state_debug Stopped = ''Stopped''"
| "state_debug Running = ''Running''"
| "state_debug Paused = ''Paused''"
| "state_debug Reconciling = ''Reconciling''"

fun data_error_text :: "DataError \<Rightarrow> string" where
  "data_error_text DataInvalidPrice = ''trade price must be greater than zero''"
| "data_error_text DataInvalidQuantity = ''trade quantity cannot be negative''"

fun storage_error_text :: "StorageError \<Rightarrow> string" where
  "storage_error_text (CreateDirectory path source) = ''failed to create storage directory `'' @ path @ ''`: '' @ source"
| "storage_error_text (UnsupportedBackend kind) = ''storage backend `'' @ kind @ ''` is not supported''"
| "storage_error_text (IncompatibleSchemaVersion actual expected) = ''sqlite schema version '' @ show_int actual
     @ '' is incompatible with expected version '' @ show_int expected @ ''; recreate the database''"
| "storage_error_text (Internal detail) = ''internal storage error: '' @ detail"
| "storage_error_text (Migration version name source) =
     ''sqlite migration '' @ show_int version @ '' `'' @ name @ ''` failed: '' @ source"
| "storage_error_text (Sqlite source) = ''sqlite operation failed: '' @ source"

fun service_error_text :: "ServiceError \<Rightarrow> string" where
  "service_error_text (InstanceNotFound i) = ''instance `'' @ i @ ''` does not exist''"
| "service_error_text (InstanceDisabled i) = ''instance `'' @ i @ ''` is disabled''"
| "service_error_text (ReconciliationRequired i reason) =
     ''instance `'' @ i @ ''` cannot trade until reconciliation succeeds: '' @ reason"
| "service_error_text KillSwitchEnabled = ''kill switch is active''"
| "service_error_text (InvalidTransition i state action) =
     ''cannot '' @ action @ '' instance `'' @ i @ ''` while state is `'' @ state_debug state @ ''`''"
| "service_error_text (TradeSymbolMismatch i expected received) =
     ''trade symbol mismatch for instance `'' @ i @ ''`: expected `'' @ expected @ ''`, got `'' @ received @ ''`''"
| "service_error_text (SymbolSelectionRequired i action) = ''instance `'' @ i @ ''` requires a symbol selector to '' @ action"
| "service_error_text (SymbolNotConfigured i symbol) = ''instance `'' @ i @ ''` does not configure symbol `'' @ symbol @ ''`''"
| "service_error_text (ConnectorNotReady i a state reason) =
     ''connector for instance `'' @ i @ ''` account `'' @ a @ ''` is not ready (`'' @ connection_debug state @ ''`): '' @ reason"
| "service_error_text (DataConnectorUnavailable i a reason) =
     ''data connector for instance `'' @ i @ ''` account `'' @ a @ ''` failed to fetch latest bar: '' @ reason"
| "service_error_text (ExecutionConnectorUnavailable i a reason) =
     ''execution connector for instance `'' @ i @ ''` account `'' @ a @ ''` failed to submit order: '' @ reason"
| "service_error_text (InvalidServiceConfiguration detail) = ''invalid service configuration: '' @ detail"
| "service_error_text (LedgerInvariantViolation detail) = ''ledger invariant violation: '' @ detail"
| "service_error_text (DataFailure e) = ''data error: '' @ data_error_text e"
| "service_error_text (ExecutionFailure e) = ''execution error: '' @ execution_error_text e"
| "service_error_text (StorageFailure e) = ''storage error: '' @ storage_error_text e"
| "service_error_text (JsonFailure e) = ''json serialization error: '' @ e"

subsection \<open>Observability\<close>

record LatencyAccumulator =
  la_last_ms :: "int option"
  la_max_ms :: int
  la_total_ms :: int
  la_samples :: int

record ServiceObservability =
  so_risk_rejects_total :: int
  so_ledger_reserve_attempts_total :: int
  so_ledger_bot_rejects_total :: int
  so_ledger_account_rejects_total :: int
  so_process_bar_latency :: LatencyAccumulator
  so_execution_submit_latency :: LatencyAccumulator

definition LatencyAccumulator_default :: LatencyAccumulator where
  "LatencyAccumulator_default = \<lparr>la_last_ms = None, la_max_ms = 0, la_total_ms = 0, la_samples = 0\<rparr>"

definition ServiceObservability_default :: ServiceObservability where
  "ServiceObservability_default = \<lparr>so_risk_rejects_total = 0, so_ledger_reserve_attempts_total = 0,
     so_ledger_bot_rejects_total = 0, so_ledger_account_rejects_total = 0,
     so_process_bar_latency = LatencyAccumulator_default, so_execution_submit_latency = LatencyAccumulator_default\<rparr>"

definition u128_max :: int where
  "u128_max = 340282366920938463463374607431768211455"

text \<open>\<open>elapsed\<close> is a duration in nanoseconds, as elsewhere.\<close>

definition record_elapsed :: "int \<Rightarrow> LatencyAccumulator \<Rightarrow> LatencyAccumulator" where
  "record_elapsed elapsed self =
     (let elapsed_ms = sat_u64 (elapsed div 1000000) in
      \<lparr>la_last_ms = Some elapsed_ms, la_max_ms = max (la_max_ms self) elapsed_ms,
        la_total_ms = min u128_max (la_total_ms self + elapsed_ms), la_samples = sat_u64 (la_samples self + 1)\<rparr>)"

definition average_ms :: "LatencyAccumulator \<Rightarrow> f64 option" where
  "average_ms self = (if la_samples self = 0 then None
     else Some (f64_rnd (of_int (la_total_ms self)) / f64_rnd (of_int (la_samples self))))"

subsection \<open>State and environment\<close>

record ('v, 'j, 'w) Runtime =
  rt_lanes :: "(string, 'v LaneRuntime) hmap"
  rt_kill_switch_active :: bool
  rt_observability :: ServiceObservability
  rt_lanes_by_bot :: "(string, string list) hmap"
  rt_accounts :: "(string, AccountConfig) hmap"
  rt_account_ledgers :: "(string, AccountLedger) hmap"
  rt_gateway :: "'w Gateway"
  rt_journal :: 'j
  rt_read_models :: OperatorReadModelsState
  rt_trace_sequence :: u64

record ('j, 'w) RuntimeEnv =
  env_journal :: "'j RuntimeJournal"
  env_clock :: Clock
  env_remote :: "'w RemoteProvider"
  env_texts :: Texts
  env_metadata_json :: "SignalMetadata \<Rightarrow> string"
  env_trace_json :: "CycleTrace \<Rightarrow> string"
  env_parse_trace :: "string \<Rightarrow> CycleTrace option"
  env_request_json :: "ExecutionRequest \<Rightarrow> Json"
  env_order_json :: "AcceptedOrder \<Rightarrow> Json"
  env_rejection_json :: "LedgerRejectionEventPayload \<Rightarrow> Json"
  env_bar_json :: "OhlcvBar \<Rightarrow> Json"
  env_fixed4 :: "f64 \<Rightarrow> string"

type_synonym ('v, 'j, 'w, 'a) runtime_op = "(('v, 'j, 'w) Runtime, ServiceError, 'a) workflow"

text \<open>Calling the gateway, the journal and the clock from the runtime.\<close>

definition gateway_call :: "(GatewayError \<Rightarrow> ServiceError) \<Rightarrow> ('w, 'a) gateway_op \<Rightarrow> ('v, 'j, 'w, 'a) runtime_op" where
  "gateway_call map_error call s =
     (case call (rt_gateway s) of (Inl e, g) \<Rightarrow> (Inl (map_error e), s\<lparr>rt_gateway := g\<rparr>)
      | (Inr a, g) \<Rightarrow> (Inr a, s\<lparr>rt_gateway := g\<rparr>))"

definition journal_write :: "('j \<Rightarrow> (StorageError + unit) \<times> 'j) \<Rightarrow> ('v, 'j, 'w, unit) runtime_op" where
  "journal_write write s =
     (case write (rt_journal s) of (Inl e, j) \<Rightarrow> (Inl (StorageFailure e), s\<lparr>rt_journal := j\<rparr>)
      | (Inr u, j) \<Rightarrow> (Inr u, s\<lparr>rt_journal := j\<rparr>))"

definition journal_read :: "('j \<Rightarrow> StorageError + 'a) \<Rightarrow> ('v, 'j, 'w) Runtime \<Rightarrow> ServiceError + 'a" where
  "journal_read query s = (case query (rt_journal s) of Inl e \<Rightarrow> Inl (StorageFailure e) | Inr a \<Rightarrow> Inr a)"

definition runtime_now_ms :: "('j, 'w) RuntimeEnv \<Rightarrow> ('v, 'j, 'w, int) runtime_op" where
  "runtime_now_ms env s =
     (case unix_now_ms (env_clock env) (gw_outside (rt_gateway s)) of
        (r, o') \<Rightarrow> (r, s\<lparr>rt_gateway := (rt_gateway s)\<lparr>gw_outside := o'\<rparr>\<rparr>))"

text \<open>A read-model write, which stamps the record with the clock.\<close>

definition read_model_write ::
    "('j, 'w) RuntimeEnv \<Rightarrow> (int \<Rightarrow> OperatorReadModelsState \<Rightarrow> OperatorReadModelsState) \<Rightarrow> ('v, 'j, 'w, unit) runtime_op" where
  "read_model_write env write =
     then_do (runtime_now_ms env) (\<lambda>now_ms. updates (\<lambda>s. s\<lparr>rt_read_models := write now_ms (rt_read_models s)\<rparr>))"

subsection \<open>Lanes (repo/lanes.rs)\<close>

definition rt_instance :: "string \<Rightarrow> ('v, 'j, 'w) Runtime \<Rightarrow> ServiceError + 'v LaneRuntime" where
  "rt_instance lane_id s =
     (case hm_get (rt_lanes s) lane_id of None \<Rightarrow> Inl (InstanceNotFound lane_id) | Some lane \<Rightarrow> Inr lane)"

text \<open>\<open>instance_mut\<close> followed by an update of the lane that returns a value.\<close>

definition with_instance :: "string \<Rightarrow> ('v LaneRuntime \<Rightarrow> 'a \<times> 'v LaneRuntime) \<Rightarrow> ('v, 'j, 'w, 'a) runtime_op" where
  "with_instance lane_id f s =
     (case hm_get (rt_lanes s) lane_id of None \<Rightarrow> (Inl (InstanceNotFound lane_id), s)
      | Some lane \<Rightarrow> (Inr (fst (f lane)), s\<lparr>rt_lanes := hm_insert lane_id (snd (f lane)) (rt_lanes s)\<rparr>))"

definition update_instance :: "string \<Rightarrow> ('v LaneRuntime \<Rightarrow> 'v LaneRuntime) \<Rightarrow> ('v, 'j, 'w, unit) runtime_op" where
  "update_instance lane_id f = with_instance lane_id (\<lambda>lane. ((), f lane))"

definition lane_ids_for_bot :: "string \<Rightarrow> ('v, 'j, 'w) Runtime \<Rightarrow> ServiceError + string list" where
  "lane_ids_for_bot bot_id s =
     (case hm_get (rt_lanes_by_bot s) bot_id of None \<Rightarrow> Inl (InstanceNotFound bot_id) | Some ids \<Rightarrow> Inr ids)"

definition lanes_for_bot :: "string \<Rightarrow> ('v, 'j, 'w) Runtime \<Rightarrow> ServiceError + 'v LaneRuntime list" where
  "lanes_for_bot bot_id s =
     (case lane_ids_for_bot bot_id s of Inl e \<Rightarrow> Inl e
      | Inr ids \<Rightarrow> collect_ok (map (\<lambda>lane_id. rt_instance lane_id s) ids))"

fun find_symbol_lane :: "string \<Rightarrow> string \<Rightarrow> string list \<Rightarrow> ('v, 'j, 'w) Runtime \<Rightarrow> ServiceError + string" where
  "find_symbol_lane bot_id symbol [] s = Inl (SymbolNotConfigured bot_id symbol)"
| "find_symbol_lane bot_id symbol (lane_id # lane_ids) s =
     (case rt_instance lane_id s of Inl e \<Rightarrow> Inl e
      | Inr lane \<Rightarrow> if lr_lane_symbol lane = symbol then Inr lane_id else find_symbol_lane bot_id symbol lane_ids s)"

definition resolve_lane_id :: "string \<Rightarrow> string \<Rightarrow> ('v, 'j, 'w) Runtime \<Rightarrow> ServiceError + string" where
  "resolve_lane_id bot_id symbol s =
     (if trim symbol = [] then Inl (SymbolNotConfigured bot_id symbol)
      else case lane_ids_for_bot bot_id s of Inl e \<Rightarrow> Inl e
        | Inr lane_ids \<Rightarrow> find_symbol_lane bot_id (trim symbol) lane_ids s)"

definition single_lane_id_for_bot :: "string \<Rightarrow> string \<Rightarrow> ('v, 'j, 'w) Runtime \<Rightarrow> ServiceError + string" where
  "single_lane_id_for_bot bot_id action s =
     (case lane_ids_for_bot bot_id s of Inl e \<Rightarrow> Inl e
      | Inr lane_ids \<Rightarrow> (case lane_ids of [lane_id] \<Rightarrow> Inr lane_id | _ \<Rightarrow> Inl (SymbolSelectionRequired bot_id action)))"

subsection \<open>Ledgers (repo/ledgers.rs)\<close>

definition account_ledger_handle :: "string \<Rightarrow> ('v, 'j, 'w) Runtime \<Rightarrow> ServiceError + AccountLedger" where
  "account_ledger_handle account_id s =
     (case hm_get (rt_account_ledgers s) account_id of
        None \<Rightarrow> Inl (InvalidServiceConfiguration (''missing capital ledger for account `'' @ account_id @ ''`''))
      | Some ledger \<Rightarrow> Inr ledger)"

definition with_ledger :: "string \<Rightarrow> (AccountLedger \<Rightarrow> 'a \<times> AccountLedger) \<Rightarrow> ('v, 'j, 'w, 'a) runtime_op" where
  "with_ledger account_id f s =
     (case account_ledger_handle account_id s of Inl e \<Rightarrow> (Inl e, s)
      | Inr ledger \<Rightarrow> (Inr (fst (f ledger)), s\<lparr>rt_account_ledgers := hm_insert account_id (snd (f ledger)) (rt_account_ledgers s)\<rparr>))"

definition ledger_owner_path_for_instance :: "string \<Rightarrow> ('v, 'j, 'w) Runtime \<Rightarrow> ServiceError + LedgerOwnerPath" where
  "ledger_owner_path_for_instance instance_id s =
     (case rt_instance instance_id s of Inl e \<Rightarrow> Inl e | Inr lane \<Rightarrow> Inr (lane_ledger_owner_path lane))"

end
