(* ===== verification/RuntimeRepo.thy ===== *)
theory RuntimeRepo
  imports RuntimeState
begin

section \<open>Repository writes (openticker-runtime/src/repo)\<close>

text \<open>
  Every record goes to the journal first and then, when the journal accepted it, to the read models
  (\<open>journal.rs\<close>); provider calls are bracketed by provider events (\<open>provider_events.rs\<close>).
  The log output of an event is not modelled. What these operations leave unchanged is stated once,
  for every view of the runtime that ignores the journal, the read models and the clock readings,
  in the locale \<open>quiet_view\<close> of the theory Accounting.
\<close>

subsection \<open>Records (repo/journal.rs)\<close>

abbreviation rfc :: "('j, 'w) RuntimeEnv \<Rightarrow> OhlcvBar \<Rightarrow> string" where
  "rfc env bar \<equiv> tx_rfc3339 (env_texts env) (bar_timestamp bar)"

definition metadata_text :: "('j, 'w) RuntimeEnv \<Rightarrow> SignalMetadata \<Rightarrow> string option" where
  "metadata_text env metadata = (if SignalMetadata_is_empty metadata then None else Some (env_metadata_json env metadata))"

text \<open>A write is journaled and then projected; a failed journal write projects nothing.\<close>

definition journaled ::
    "('j, 'w) RuntimeEnv \<Rightarrow> ('j \<Rightarrow> (StorageError + unit) \<times> 'j) \<Rightarrow> (int \<Rightarrow> OperatorReadModelsState \<Rightarrow> OperatorReadModelsState)
     \<Rightarrow> ('v, 'j, 'w, unit) runtime_op" where
  "journaled env write project = then_do (journal_write write) (\<lambda>_. read_model_write env project)"

definition append_signal_record_with_trace ::
    "('j, 'w) RuntimeEnv \<Rightarrow> string \<Rightarrow> OhlcvBar \<Rightarrow> SignalPhase \<Rightarrow> IndicatorSignal \<Rightarrow> SignalMetadata \<Rightarrow> string option
     \<Rightarrow> ('v, 'j, 'w, unit) runtime_op" where
  "append_signal_record_with_trace env lane_id bar phase signal metadata trace_id =
     then_do (tries (rt_instance lane_id)) (\<lambda>inst.
     let w = \<lparr>sw_bot_id = ic_id (lr_config inst), sw_symbol = lr_lane_symbol inst, sw_trace_id = trace_id,
           sw_bar_timestamp = rfc env bar, sw_phase = signal_phase_label phase, sw_signal = indicator_signal_label signal,
           sw_close = bar_close bar, sw_metadata_json = metadata_text env metadata\<rparr> in
     journaled env (jn_append_signal (env_journal env) w) (\<lambda>now. record_signal_write now w))"

definition append_intent_record_with_trace ::
    "('j, 'w) RuntimeEnv \<Rightarrow> string \<Rightarrow> OhlcvBar \<Rightarrow> IndicatorSignal \<Rightarrow> SignalMetadata \<Rightarrow> TradeIntent \<Rightarrow> string option \<Rightarrow> bool
     \<Rightarrow> string option \<Rightarrow> ('v, 'j, 'w, unit) runtime_op" where
  "append_intent_record_with_trace env lane_id bar signal metadata intent strategy_rationale has_position_before trace_id =
     then_do (tries (rt_instance lane_id)) (\<lambda>inst.
     let w = \<lparr>iw_bot_id = ic_id (lr_config inst), iw_symbol = lr_lane_symbol inst, iw_trace_id = trace_id,
           iw_bar_timestamp = rfc env bar, iw_signal = indicator_signal_label signal, iw_intent = trade_intent_label intent,
           iw_metadata_json = metadata_text env metadata, iw_strategy_rationale = strategy_rationale,
           iw_has_position_before = has_position_before\<rparr> in
     journaled env (jn_append_intent (env_journal env) w) (\<lambda>now. record_intent_write now w))"

definition append_risk_decision_record_with_trace ::
    "('j, 'w) RuntimeEnv \<Rightarrow> string \<Rightarrow> OhlcvBar \<Rightarrow> TradeIntent \<Rightarrow> RiskDecision \<Rightarrow> string option \<Rightarrow> ('v, 'j, 'w, unit) runtime_op" where
  "append_risk_decision_record_with_trace env lane_id bar intent decision trace_id =
     then_do (tries (rt_instance lane_id)) (\<lambda>inst.
     let w = \<lparr>rdw_bot_id = ic_id (lr_config inst), rdw_symbol = lr_lane_symbol inst, rdw_trace_id = trace_id,
           rdw_bar_timestamp = rfc env bar, rdw_intent = trade_intent_label intent,
           rdw_decision = (case decision of Allow _ \<Rightarrow> ''allowed'' | Reject _ \<Rightarrow> ''rejected''),
           rdw_reason = (case decision of Allow _ \<Rightarrow> None | Reject reason \<Rightarrow> Some reason)\<rparr> in
     journaled env (jn_append_risk_decision (env_journal env) w) (\<lambda>now. record_risk_decision_write now w))"

definition append_order_record_with_trace ::
    "('j, 'w) RuntimeEnv \<Rightarrow> string \<Rightarrow> string \<Rightarrow> TradeIntent \<Rightarrow> string \<Rightarrow> f64 \<Rightarrow> f64 \<Rightarrow> OhlcvBar option \<Rightarrow> string option
     \<Rightarrow> ('v, 'j, 'w, unit) runtime_op" where
  "append_order_record_with_trace env lane_id client_order_id intent status price quantity bar trace_id =
     then_do (tries (rt_instance lane_id)) (\<lambda>inst.
     let w = \<lparr>ow_bot_id = ic_id (lr_config inst), ow_symbol = lr_lane_symbol inst, ow_trace_id = trace_id,
           ow_bar_timestamp = map_option (rfc env) bar, ow_client_order_id = client_order_id,
           ow_intent = trade_intent_label intent, ow_status = status, ow_price = price, ow_quantity = quantity\<rparr> in
     journaled env (jn_append_order (env_journal env) w) (\<lambda>now. record_order_write now w))"

definition append_fill_record_with_trace ::
    "('j, 'w) RuntimeEnv \<Rightarrow> string \<Rightarrow> string \<Rightarrow> f64 \<Rightarrow> f64 \<Rightarrow> string option \<Rightarrow> f64 option \<Rightarrow> f64 option \<Rightarrow> OhlcvBar option
     \<Rightarrow> string option \<Rightarrow> ('v, 'j, 'w, unit) runtime_op" where
  "append_fill_record_with_trace env lane_id client_order_id price quantity asset amount normalized_usd bar trace_id =
     then_do (tries (rt_instance lane_id)) (\<lambda>inst.
     let w = \<lparr>fw_bot_id = ic_id (lr_config inst), fw_symbol = lr_lane_symbol inst, fw_trace_id = trace_id,
           fw_bar_timestamp = map_option (rfc env) bar, fw_client_order_id = client_order_id, fw_price = price,
           fw_quantity = quantity, fw_fee_asset = asset, fw_fee_amount = amount,
           fw_fee_normalized_usd = normalized_usd\<rparr> in
     journaled env (jn_append_fill (env_journal env) w) (\<lambda>now. record_fill_write now w))"

definition append_position_record_with_trace ::
    "('j, 'w) RuntimeEnv \<Rightarrow> string \<Rightarrow> bool \<Rightarrow> f64 \<Rightarrow> f64 option \<Rightarrow> f64 \<Rightarrow> string \<Rightarrow> OhlcvBar option \<Rightarrow> string option
     \<Rightarrow> ('v, 'j, 'w, unit) runtime_op" where
  "append_position_record_with_trace env lane_id has_position quantity entry_price realized_pnl_usd reason bar trace_id =
     then_do (tries (rt_instance lane_id)) (\<lambda>inst.
     let w = \<lparr>pw_bot_id = ic_id (lr_config inst), pw_symbol = lr_lane_symbol inst, pw_trace_id = trace_id,
           pw_bar_timestamp = map_option (rfc env) bar, pw_has_position = has_position,
           pw_quantity = (if is_finite quantity \<and> POSITION_QUANTITY_TOLERANCE < quantity then quantity else 0),
           pw_entry_price = positive_or_none entry_price,
           pw_realized_pnl_usd = (if is_finite realized_pnl_usd then realized_pnl_usd else 0), pw_reason = reason\<rparr> in
     journaled env (jn_append_position (env_journal env) w) (\<lambda>now. record_position_write now w))"

definition append_reconciliation_record ::
    "('j, 'w) RuntimeEnv \<Rightarrow> string \<Rightarrow> string \<Rightarrow> ReconciliationAssessment \<Rightarrow> ('v, 'j, 'w, unit) runtime_op" where
  "append_reconciliation_record env lane_id source assessment =
     (let w = \<lparr>rw_bot_id = lane_id, rw_source = source, rw_symbol = ra_symbol assessment,
            rw_safe_to_trade = ra_safe_to_trade assessment,
            rw_local_open_orders = saturating_millis_to_i64 (int (ra_local_open_orders assessment)),
            rw_connector_open_orders = saturating_millis_to_i64 (int (ra_connector_open_orders assessment)),
            rw_local_has_position = rp_local_has_position (ra_positions assessment),
            rw_connector_has_position = rp_connector_has_position (ra_positions assessment),
            rw_reason = ra_reason assessment\<rparr> in
      journaled env (jn_append_reconciliation (env_journal env) w) (\<lambda>now. record_reconciliation_write now w))"

definition append_runtime_event_with_trace ::
    "('j, 'w) RuntimeEnv \<Rightarrow> string \<Rightarrow> string option \<Rightarrow> string \<Rightarrow> string \<Rightarrow> string option \<Rightarrow> ('v, 'j, 'w, unit) runtime_op" where
  "append_runtime_event_with_trace env scope entity_id kind payload trace_id =
     (let w = \<lparr>ew_scope = scope, ew_entity_id = entity_id, ew_trace_id = trace_id, ew_kind = kind, ew_payload = payload\<rparr> in
      journaled env (jn_append_event (env_journal env) w) (\<lambda>now. record_runtime_event_write now w))"

definition append_runtime_event ::
    "('j, 'w) RuntimeEnv \<Rightarrow> string \<Rightarrow> string option \<Rightarrow> string \<Rightarrow> string \<Rightarrow> ('v, 'j, 'w, unit) runtime_op" where
  "append_runtime_event env scope entity_id kind payload = append_runtime_event_with_trace env scope entity_id kind payload None"

definition append_provider_event :: "('j, 'w) RuntimeEnv \<Rightarrow> string \<Rightarrow> string \<Rightarrow> Json \<Rightarrow> ('v, 'j, 'w, unit) runtime_op" where
  "append_provider_event env lane_id kind payload =
     append_runtime_event env ''provider'' (Some lane_id) kind (tx_json (env_texts env) payload)"

definition append_instance_event ::
    "('j, 'w) RuntimeEnv \<Rightarrow> string \<Rightarrow> string \<Rightarrow> LaneRuntimeState \<Rightarrow> string \<Rightarrow> ('v, 'j, 'w, unit) runtime_op" where
  "append_instance_event env lane_id kind state detail =
     (let payload = ''state='' @ as_storage_value state @ (if detail = [] then [] else '',detail='' @ detail) in
      then_do (journal_write (jn_append_bot_event (env_journal env)
        \<lparr>bew_bot_id = lane_id, bew_kind = kind, bew_payload = payload\<rparr>)) (\<lambda>_.
      append_runtime_event env ''instance'' (Some lane_id) kind payload))"

definition rt_append_service_event :: "('j, 'w) RuntimeEnv \<Rightarrow> string \<Rightarrow> string \<Rightarrow> ('v, 'j, 'w, unit) runtime_op" where
  "rt_append_service_event env kind payload =
     then_do (journal_write (jn_append_service_event (env_journal env) \<lparr>sew_kind = kind, sew_payload = payload\<rparr>)) (\<lambda>_.
     append_runtime_event env ''service'' None kind payload)"

definition rt_append_cycle_trace :: "('j, 'w) RuntimeEnv \<Rightarrow> CycleTrace \<Rightarrow> ('v, 'j, 'w, unit) runtime_op" where
  "rt_append_cycle_trace env trace =
     (let summary = tr_summary trace in
      journal_write (jn_append_cycle_trace (env_journal env)
        \<lparr>ctw_trace_id = cts_trace_id summary, ctw_bot_id = cts_bot_id summary, ctw_symbol = cts_symbol summary,
          ctw_bar_timestamp = cts_bar_timestamp summary, ctw_phase = signal_phase_label (cts_phase summary),
          ctw_trigger_kind = trigger_kind_label (cts_trigger_kind summary),
          ctw_signal = indicator_signal_label (cts_signal summary), ctw_intent = trade_intent_label (cts_intent summary),
          ctw_risk_decision = risk_label_text (cts_risk_decision summary), ctw_outcome = outcome_label (cts_outcome summary),
          ctw_payload_json = env_trace_json env trace\<rparr>))"

subsection \<open>Provider operations (repo/provider_events.rs)\<close>

record ProviderOperationLog =
  pol_lane_id :: string
  pol_kind_prefix :: string
  pol_account_id :: string
  pol_connector_kind :: string
  pol_operation :: string

definition provider_operation :: "string \<Rightarrow> string \<Rightarrow> string \<Rightarrow> string \<Rightarrow> string \<Rightarrow> ProviderOperationLog" where
  "provider_operation lane_id kind_prefix account_id connector_kind operation =
     \<lparr>pol_lane_id = lane_id, pol_kind_prefix = kind_prefix, pol_account_id = account_id,
       pol_connector_kind = connector_kind, pol_operation = operation\<rparr>"

definition stage_payload :: "ProviderOperationLog \<Rightarrow> string \<Rightarrow> string \<Rightarrow> (string \<times> Json) list \<Rightarrow> Json" where
  "stage_payload plog stage summary extra =
     JObject ([(''account_id'', JString (pol_account_id plog)), (''connector_kind'', JString (pol_connector_kind plog)),
       (''operation'', JString (pol_operation plog)), (''stage'', JString stage), (''summary'', JString summary)] @ extra)"

definition record_stage ::
    "('j, 'w) RuntimeEnv \<Rightarrow> ProviderOperationLog \<Rightarrow> string \<Rightarrow> string \<Rightarrow> (string \<times> Json) list \<Rightarrow> ('v, 'j, 'w, unit) runtime_op" where
  "record_stage env plog stage summary extra =
     append_provider_event env (pol_lane_id plog) (pol_kind_prefix plog @ ''.'' @ stage) (stage_payload plog stage summary extra)"

text \<open>\<open>let _ = workflow\<close>: the error is dropped, the effects stay.\<close>

definition ignoring_errors :: "('s, 'e, 'a) workflow \<Rightarrow> ('s, 'e, unit) workflow" where
  "ignoring_errors m = handle m (\<lambda>_. ok ()) (\<lambda>_. ok ())"

definition record_call ::
    "('j, 'w) RuntimeEnv \<Rightarrow> ProviderOperationLog \<Rightarrow> string \<Rightarrow> string \<Rightarrow> (string \<times> Json) list \<Rightarrow> ('w, 'a) gateway_op
     \<Rightarrow> ('a \<Rightarrow> string \<times> string \<times> (string \<times> Json) list) \<Rightarrow> (GatewayError \<Rightarrow> string \<times> (string \<times> Json) list)
     \<Rightarrow> (GatewayError \<Rightarrow> ServiceError) \<Rightarrow> ('v, 'j, 'w, 'a) runtime_op" where
  "record_call env plog request_stage request_summary request_extra call success failure map_error =
     then_do (record_stage env plog request_stage request_summary request_extra) (\<lambda>_.
     \<lambda>s. case call (rt_gateway s) of
       (Inr result, g) \<Rightarrow>
         then_do (case success result of (stage, summary, extra) \<Rightarrow> record_stage env plog stage summary extra) (\<lambda>_. ok result)
           (s\<lparr>rt_gateway := g\<rparr>)
     | (Inl error, g) \<Rightarrow>
         then_do (ignoring_errors (case failure error of (summary, extra) \<Rightarrow> record_stage env plog ''failed'' summary extra))
           (\<lambda>_. fail (map_error error)) (s\<lparr>rt_gateway := g\<rparr>))"

end
