(* ===== verification/Accounting.thy ===== *)
theory Accounting
  imports RuntimeRepo Summaries
begin

section \<open>Accounting, connector access and lane transitions (openticker-runtime/src/repo)\<close>

text \<open>
  The accounting views of lanes and their ledgers (\<open>accounting.rs\<close>), the classification of remote
  orders against the journal (\<open>reconciliation.rs\<close>), the recovery of profit and loss at start
  (\<open>bootstrap.rs\<close>), the error mapping of connector calls (\<open>connector_gateway.rs\<close>), ledger
  rejections (\<open>portfolio_adapter.rs\<close>), and the state transition of a lane with its rollback
  (\<open>journal.rs\<close>). \<open>RuntimeRepoRead\<close> methods are functions of the runtime, those of
  \<open>RuntimeRepo\<close> and the ledger writes behind a mutex are workflows over it.

  The lemmas: what the journal writes leave unchanged (\<open>frame_rules\<close>), that a synchronised
  ledger attributes to each lane exactly its open notional, and what remains of a failed transition.
\<close>

subsection \<open>Views of the lanes (accounting.rs)\<close>

definition RECONCILIATION_JOURNAL_SCAN_LIMIT :: nat where
  "RECONCILIATION_JOURNAL_SCAN_LIMIT = 2000"

definition portfolio_lane_view_from_runtime :: "string \<Rightarrow> 'v LaneRuntime \<Rightarrow> PortfolioLaneView" where
  "portfolio_lane_view_from_runtime lane_id runtime =
     \<lparr>plv_lane_id = lane_id, plv_bot_id = ic_id (lr_config runtime), plv_account_id = ic_account (lr_config runtime),
       plv_symbol = lr_lane_symbol runtime, plv_budget_pct = ic_budget_pct (lr_config runtime),
       plv_effective_position_quantity = effective_position_quantity runtime,
       plv_position_notional_usd = current_instance_open_notional_usd runtime,
       plv_daily_loss_pct_accumulated = lr_daily_loss_pct_accumulated runtime\<rparr>"

definition accounting_lane :: "string \<Rightarrow> ('v, 'j, 'w) Runtime \<Rightarrow> ServiceError + PortfolioLaneView" where
  "accounting_lane lane_id s =
     (case rt_instance lane_id s of Inl e \<Rightarrow> Inl e | Inr runtime \<Rightarrow> Inr (portfolio_lane_view_from_runtime lane_id runtime))"

definition accounting_lanes_for_account :: "string \<Rightarrow> ('v, 'j, 'w) Runtime \<Rightarrow> PortfolioLaneView list" where
  "accounting_lanes_for_account account_id s =
     sort_key plv_lane_id (map (\<lambda>(lane_id, runtime). portfolio_lane_view_from_runtime lane_id runtime)
       (filter (\<lambda>(_, runtime). ic_account (lr_config runtime) = account_id) (rt_lanes s)))"

definition latest_authoritative_position_for_lane ::
    "('j, 'w) RuntimeEnv \<Rightarrow> string \<Rightarrow> nat \<Rightarrow> ('v, 'j, 'w) Runtime \<Rightarrow> ServiceError + PositionRecord option" where
  "latest_authoritative_position_for_lane env lane_id limit s =
     (case accounting_lane lane_id s of Inl e \<Rightarrow> Inl e
      | Inr lane \<Rightarrow>
          (case journal_read (jn_recent_positions_for_bot (env_journal env) (plv_bot_id lane) limit) s of Inl e \<Rightarrow> Inl e
           | Inr positions \<Rightarrow> Inr (latest_authoritative_position (plv_symbol lane) positions)))"

definition latest_authoritative_position_for_instance ::
    "('j, 'w) RuntimeEnv \<Rightarrow> string \<Rightarrow> ('v, 'j, 'w) Runtime \<Rightarrow> ServiceError + PositionRecord option" where
  "latest_authoritative_position_for_instance env instance_id =
     latest_authoritative_position_for_lane env instance_id RECONCILIATION_JOURNAL_SCAN_LIMIT"

definition latest_accounting_positions_for_account ::
    "('j, 'w) RuntimeEnv \<Rightarrow> string \<Rightarrow> nat \<Rightarrow> ('v, 'j, 'w) Runtime \<Rightarrow> ServiceError + LatestLanePosition list" where
  "latest_accounting_positions_for_account env account_id limit s =
     collect_ok (map (\<lambda>lane.
       case latest_authoritative_position_for_lane env (plv_lane_id lane) limit s of Inl e \<Rightarrow> Inl e
       | Inr position \<Rightarrow> Inr \<lparr>llp_lane_id = plv_lane_id lane, llp_position = position\<rparr>)
       (accounting_lanes_for_account account_id s))"

record AccountLedgerRefreshInputs =
  ri_account_kind :: string
  ri_cash_balance_assets :: "string list"
  ri_reconciliation_remote_snapshot :: bool
  ri_account_lanes :: "PortfolioLaneView list"
  ri_latest_positions :: "LatestLanePosition list"
  ri_reconciliation_symbols :: "string list"

definition account_ledger_refresh_inputs ::
    "('j, 'w) RuntimeEnv \<Rightarrow> string \<Rightarrow> nat \<Rightarrow> ('v, 'j, 'w) Runtime \<Rightarrow> ServiceError + AccountLedgerRefreshInputs" where
  "account_ledger_refresh_inputs env account_id limit s =
     (case hm_get (rt_accounts s) account_id of
        None \<Rightarrow> Inl (InvalidServiceConfiguration (''missing account config for `'' @ account_id @ ''`''))
      | Some account \<Rightarrow>
          (case latest_accounting_positions_for_account env account_id limit s of Inl e \<Rightarrow> Inl e
           | Inr latest_positions \<Rightarrow>
               let account_lanes = accounting_lanes_for_account account_id s in
               Inr \<lparr>ri_account_kind = ac_kind account, ri_cash_balance_assets = ac_cash_balance_assets account,
                 ri_reconciliation_remote_snapshot = ac_reconciliation_remote_snapshot account,
                 ri_account_lanes = account_lanes, ri_latest_positions = latest_positions,
                 ri_reconciliation_symbols = remdups_adj (sort (map plv_symbol account_lanes))\<rparr>))"

record PortfolioSnapshotParts =
  psp_accounts :: "AccountPortfolioSnapshot list"
  psp_bots :: "BotPortfolioSnapshot list"
  psp_lanes :: "LanePortfolioSnapshot list"

text \<open>The bots of one account: the first lane of a bot carries its budget share.\<close>

definition account_bot_snapshots ::
    "InstanceSummary list \<Rightarrow> AccountConfig \<Rightarrow> AccountLedger \<Rightarrow> ('v, 'j, 'w) Runtime \<Rightarrow> BotPortfolioSnapshot list" where
  "account_bot_snapshots summaries account ledger s =
     List.map_filter (\<lambda>summary.
       case lanes_for_bot (is_id summary) s of
         Inr (primary_lane # _) \<Rightarrow>
           Some (bot_snapshot ledger (is_account summary) (is_id summary) (ic_budget_pct (lr_config primary_lane)))
       | _ \<Rightarrow> None)
     (filter (\<lambda>summary. is_account summary = ac_id account) summaries)"

definition add_account_parts ::
    "InstanceSummary list \<Rightarrow> ('v, 'j, 'w) Runtime \<Rightarrow> PortfolioSnapshotParts \<Rightarrow> AccountConfig \<Rightarrow> PortfolioSnapshotParts" where
  "add_account_parts summaries s parts account =
     (case account_ledger_handle (ac_id account) s of
        Inl _ \<Rightarrow> parts
      | Inr ledger \<Rightarrow>
          \<lparr>psp_accounts = psp_accounts parts @ [account_snapshot ledger (ac_id account)],
            psp_bots = psp_bots parts @ account_bot_snapshots summaries account ledger s,
            psp_lanes = psp_lanes parts @ lane_snapshots ledger\<rparr>)"

definition portfolio_snapshot_parts :: "Texts \<Rightarrow> ('v, 'j, 'w) Runtime \<Rightarrow> PortfolioSnapshotParts" where
  "portfolio_snapshot_parts tx s =
     foldl (add_account_parts (list_instances tx s) s) \<lparr>psp_accounts = [], psp_bots = [], psp_lanes = []\<rparr>
       (hm_values (rt_accounts s))"

definition rt_ledger_snapshot :: "Texts \<Rightarrow> ('v, 'j, 'w) Runtime \<Rightarrow> LedgerSnapshot" where
  "rt_ledger_snapshot tx s =
     (let parts = portfolio_snapshot_parts tx s in ledger_snapshot (psp_accounts parts) (psp_bots parts) (psp_lanes parts))"

subsection \<open>Remote orders (repo/reconciliation.rs)\<close>

definition local_identity :: "OrderRecord \<Rightarrow> LocalOpenOrderIdentity" where
  "local_identity record = \<lparr>lo_bot_id = or_bot_id record, lo_symbol = or_symbol record\<rparr>"

fun local_open_order_matches_from ::
    "('j, 'w) RuntimeEnv \<Rightarrow> ConnectorOpenOrder list \<Rightarrow> (string, LocalOpenOrderIdentity list) hmap \<Rightarrow> ('v, 'j, 'w) Runtime
     \<Rightarrow> ServiceError + (string, LocalOpenOrderIdentity list) hmap" where
  "local_open_order_matches_from env [] found s = Inr found"
| "local_open_order_matches_from env (order # orders) found s =
     (if hm_get found (co_client_order_id order) \<noteq> None then local_open_order_matches_from env orders found s
      else case journal_read (jn_orders_by_client_order_id (env_journal env) (co_client_order_id order)) s of
        Inl e \<Rightarrow> Inl e
      | Inr records \<Rightarrow> local_open_order_matches_from env orders
          (hm_insert (co_client_order_id order) (map local_identity records) found) s)"

definition local_open_order_matches_by_client_order_id ::
    "('j, 'w) RuntimeEnv \<Rightarrow> ConnectorOpenOrder list \<Rightarrow> ('v, 'j, 'w) Runtime
     \<Rightarrow> ServiceError + (string, LocalOpenOrderIdentity list) hmap" where
  "local_open_order_matches_by_client_order_id env orders = local_open_order_matches_from env orders []"

definition managed_bot_ids_for_account_symbol :: "string \<Rightarrow> string \<Rightarrow> ('v, 'j, 'w) Runtime \<Rightarrow> string list" where
  "managed_bot_ids_for_account_symbol account_id symbol s =
     map plv_bot_id (filter (\<lambda>lane. plv_symbol lane = symbol) (accounting_lanes_for_account account_id s))"

definition rt_classify_remote_open_orders ::
    "('j, 'w) RuntimeEnv \<Rightarrow> string \<Rightarrow> string \<Rightarrow> ConnectorOpenOrder list \<Rightarrow> ('v, 'j, 'w) Runtime
     \<Rightarrow> ServiceError + ClassifiedRemoteOpenOrders" where
  "rt_classify_remote_open_orders env account_id symbol orders s =
     (case local_open_order_matches_by_client_order_id env orders s of Inl e \<Rightarrow> Inl e
      | Inr found \<Rightarrow> Inr (classify_remote_open_orders account_id symbol orders found
          (managed_bot_ids_for_account_symbol account_id symbol s)))"

definition unmapped_managed_open_order_exceptions_for_snapshot ::
    "('j, 'w) RuntimeEnv \<Rightarrow> string \<Rightarrow> ConnectorAccountSnapshot \<Rightarrow> string list \<Rightarrow> ('v, 'j, 'w) Runtime
     \<Rightarrow> ServiceError + LedgerException list" where
  "unmapped_managed_open_order_exceptions_for_snapshot env account_id snapshot symbols s =
     (case collect_ok (map (\<lambda>symbol.
        case rt_classify_remote_open_orders env account_id symbol (open_orders_for_symbol snapshot symbol) s of
          Inl e \<Rightarrow> Inl e
        | Inr classified \<Rightarrow> Inr (unmapped_managed_open_order_exceptions symbol classified)) symbols) of
        Inl e \<Rightarrow> Inl e
      | Inr exceptions \<Rightarrow> Inr (concat exceptions))"

subsection \<open>Ledgers (accounting.rs)\<close>

definition sync_account_ledger_from_instances :: "string \<Rightarrow> ('v, 'j, 'w, unit) runtime_op" where
  "sync_account_ledger_from_instances account_id =
     then_do (reads (accounting_lanes_for_account account_id)) (\<lambda>account_lanes.
     with_ledger account_id (\<lambda>ledger. ((), sync_account_ledger_from_lanes account_lanes ledger)))"

definition sync_all_account_ledgers_from_instances :: "('v, 'j, 'w, unit) runtime_op" where
  "sync_all_account_ledgers_from_instances =
     then_do (reads (\<lambda>s. hm_keys (rt_account_ledgers s))) (for_each sync_account_ledger_from_instances)"

definition snapshot_exceptions ::
    "('j, 'w) RuntimeEnv \<Rightarrow> string \<Rightarrow> ConnectorAccountSnapshot \<Rightarrow> AccountLedgerRefreshInputs \<Rightarrow> AccountLedgerRefreshState
     \<Rightarrow> ('v, 'j, 'w) Runtime \<Rightarrow> ServiceError + LedgerException list" where
  "snapshot_exceptions env account_id snapshot inputs refresh_state s =
     (if ri_reconciliation_remote_snapshot inputs
      then (case unmapped_managed_open_order_exceptions_for_snapshot env account_id snapshot
              (ri_reconciliation_symbols inputs) s of
              Inl e \<Rightarrow> Inl e | Inr unmapped \<Rightarrow> Inr (rf_exceptions refresh_state @ unmapped))
      else Inr [])"

definition refresh_account_ledger_from_snapshot ::
    "('j, 'w) RuntimeEnv \<Rightarrow> string \<Rightarrow> ConnectorAccountSnapshot \<Rightarrow> ('v, 'j, 'w, unit) runtime_op" where
  "refresh_account_ledger_from_snapshot env account_id snapshot =
     then_do (tries (account_ledger_refresh_inputs env account_id RECONCILIATION_JOURNAL_SCAN_LIMIT)) (\<lambda>inputs.
     then_do (tries (account_ledger_handle account_id)) (\<lambda>ledger.
     let known_open_notional_usd = (if ri_account_kind inputs = ''binance''
           then total_attributed_open_notional_usd ledger else 0);
         refresh_state = account_ledger_refresh_state account_id (ri_account_kind inputs) snapshot (ri_account_lanes inputs)
           (ri_latest_positions inputs) known_open_notional_usd (ri_cash_balance_assets inputs) in
     then_do (tries (snapshot_exceptions env account_id snapshot inputs refresh_state)) (\<lambda>exceptions.
     with_ledger account_id (\<lambda>ledger. ((), apply_account_ledger_refresh_state refresh_state exceptions ledger)))))"

definition account_ledger_rooms :: "string \<Rightarrow> string \<Rightarrow> f64 \<Rightarrow> ('v, 'j, 'w) Runtime \<Rightarrow> ServiceError + LedgerRooms" where
  "account_ledger_rooms bot_id account_id bot_pct s =
     (case account_ledger_handle account_id s of Inl e \<Rightarrow> Inl e | Inr ledger \<Rightarrow> Inr (ledger_rooms ledger bot_id bot_pct))"

definition rt_account_risk_snapshot :: "string \<Rightarrow> ('v, 'j, 'w) Runtime \<Rightarrow> AccountRiskSnapshot" where
  "rt_account_risk_snapshot account_id s = account_risk_snapshot (accounting_lanes_for_account account_id s)"

definition rt_ledger_rejection_event_payload ::
    "('j, 'w) RuntimeEnv \<Rightarrow> string \<Rightarrow> string \<Rightarrow> string \<Rightarrow> OhlcvBar \<Rightarrow> TradeIntent \<Rightarrow> OrderLedgerOutcome \<Rightarrow> ('v, 'j, 'w) Runtime
     \<Rightarrow> ServiceError + Json" where
  "rt_ledger_rejection_event_payload env lane_id account_id symbol bar intent ledger_outcome s =
     (case account_ledger_handle account_id s of Inl e \<Rightarrow> Inl e
      | Inr ledger \<Rightarrow>
          (case accounting_lane lane_id s of Inl e \<Rightarrow> Inl e
           | Inr lane \<Rightarrow>
               let reason_code = ledger_outcome_reason_code ledger_outcome;
                   intent_label = trade_intent_label intent;
                   payload = (case ledger_outcome of
                       BotExhausted \<Rightarrow> bot_ledger_rejection_payload ledger account_id (plv_bot_id lane) (plv_budget_pct lane)
                         intent_label reason_code
                     | AccountExhausted \<Rightarrow> account_ledger_rejection_payload ledger account_id intent_label reason_code
                     | Dust \<Rightarrow> dust_ledger_rejection_payload intent_label)
               in Inr (env_rejection_json env (ledger_rejection_event_payload payload symbol (rfc env bar)))))"

subsection \<open>Ledger rejections (portfolio_adapter.rs)\<close>

definition saturating_count :: "int \<Rightarrow> int" where
  "saturating_count n = min (n + 1) u64_max"

definition update_observability :: "(ServiceObservability \<Rightarrow> ServiceObservability) \<Rightarrow> ('v, 'j, 'w) Runtime \<Rightarrow> ('v, 'j, 'w) Runtime" where
  "update_observability f s = s\<lparr>rt_observability := f (rt_observability s)\<rparr>"

definition count_risk_reject :: "('v, 'j, 'w) Runtime \<Rightarrow> ('v, 'j, 'w) Runtime" where
  "count_risk_reject = update_observability (\<lambda>o'. o'\<lparr>so_risk_rejects_total := saturating_count (so_risk_rejects_total o')\<rparr>)"

definition count_ledger_reject :: "OrderLedgerOutcome \<Rightarrow> ('v, 'j, 'w) Runtime \<Rightarrow> ('v, 'j, 'w) Runtime" where
  "count_ledger_reject ledger_outcome =
     (case ledger_outcome of
        BotExhausted \<Rightarrow> update_observability (\<lambda>o'. o'\<lparr>so_ledger_bot_rejects_total := saturating_count (so_ledger_bot_rejects_total o')\<rparr>)
      | AccountExhausted \<Rightarrow> update_observability (\<lambda>o'. o'\<lparr>so_ledger_account_rejects_total := saturating_count (so_ledger_account_rejects_total o')\<rparr>)
      | Dust \<Rightarrow> (\<lambda>s. s))"

definition record_ledger_rejection_with_trace ::
    "('j, 'w) RuntimeEnv \<Rightarrow> string \<Rightarrow> string \<Rightarrow> string \<Rightarrow> OhlcvBar \<Rightarrow> TradeIntent \<Rightarrow> OrderLedgerOutcome \<Rightarrow> string option
     \<Rightarrow> ('v, 'j, 'w, Json) runtime_op" where
  "record_ledger_rejection_with_trace env instance_id account_id symbol bar intent ledger_outcome trace_id =
     then_do (tries (rt_ledger_rejection_event_payload env instance_id account_id symbol bar intent ledger_outcome)) (\<lambda>payload.
     then_do (updates (\<lambda>s. count_ledger_reject ledger_outcome (count_risk_reject s))) (\<lambda>_.
     then_do (append_runtime_event_with_trace env ''risk'' (Some instance_id) ''risk.rejected''
       (tx_json (env_texts env) payload) trace_id) (\<lambda>_.
     ok payload)))"

definition record_ledger_rejection ::
    "('j, 'w) RuntimeEnv \<Rightarrow> string \<Rightarrow> string \<Rightarrow> string \<Rightarrow> OhlcvBar \<Rightarrow> TradeIntent \<Rightarrow> OrderLedgerOutcome \<Rightarrow> ('v, 'j, 'w, unit) runtime_op" where
  "record_ledger_rejection env instance_id account_id symbol bar intent ledger_outcome =
     then_do (record_ledger_rejection_with_trace env instance_id account_id symbol bar intent ledger_outcome None) (\<lambda>_. ok ())"

subsection \<open>Connector errors (connector_gateway.rs)\<close>

definition references_unknown_account :: "string \<Rightarrow> string \<Rightarrow> ServiceError" where
  "references_unknown_account lane_id account_id =
     InvalidServiceConfiguration (''instance `'' @ lane_id @ ''` references unknown account `'' @ account_id @ ''`'')"

definition missing_connector_status :: "string \<Rightarrow> ServiceError" where
  "missing_connector_status account_id =
     InvalidServiceConfiguration (''missing connector status for account `'' @ account_id @ ''`'')"

definition cg_account_kind :: "string \<Rightarrow> string \<Rightarrow> ('v, 'j, 'w, string) runtime_op" where
  "cg_account_kind lane_id account_id =
     gateway_call (\<lambda>error. case error of UnknownAccount _ \<Rightarrow> references_unknown_account lane_id account_id
       | other \<Rightarrow> InvalidServiceConfiguration (gateway_error_text other)) (account_kind account_id)"

definition validate_connector_kind :: "string \<Rightarrow> string \<Rightarrow> string \<Rightarrow> string \<Rightarrow> ('v, 'j, 'w, unit) runtime_op" where
  "validate_connector_kind lane_id account_id expected_connector_kind cx =
     then_do (cg_account_kind lane_id account_id) (\<lambda>account_kind.
     if account_kind \<noteq> expected_connector_kind
     then fail (InvalidServiceConfiguration (''instance `'' @ lane_id @ ''` '' @ cx @ '' `'' @ expected_connector_kind
       @ ''` does not match account `'' @ account_id @ ''` kind `'' @ account_kind @ ''`''))
     else ok ())"

fun map_status_error :: "string \<Rightarrow> string \<Rightarrow> GatewayError \<Rightarrow> ServiceError" where
  "map_status_error lane_id account_id (GwConnectorNotReady _ state reason) = ConnectorNotReady lane_id account_id state reason"
| "map_status_error lane_id account_id (UnknownAccount _) = missing_connector_status account_id"
| "map_status_error lane_id account_id other = InvalidServiceConfiguration (gateway_error_text other)"

fun map_data_error :: "string \<Rightarrow> string \<Rightarrow> GatewayError \<Rightarrow> ServiceError" where
  "map_data_error instance_id account_id LockPoisoned = InvalidServiceConfiguration (gateway_error_text LockPoisoned)"
| "map_data_error instance_id account_id (GwConnectorNotReady _ state reason) =
     ConnectorNotReady instance_id account_id state reason"
| "map_data_error instance_id account_id other = DataConnectorUnavailable instance_id account_id (gateway_error_text other)"

fun map_execution_error :: "string \<Rightarrow> string \<Rightarrow> GatewayError \<Rightarrow> ServiceError" where
  "map_execution_error instance_id account_id LockPoisoned = InvalidServiceConfiguration (gateway_error_text LockPoisoned)"
| "map_execution_error instance_id account_id other =
     ExecutionConnectorUnavailable instance_id account_id (gateway_error_text other)"

definition ensure_account_connector_ready :: "('j, 'w) RuntimeEnv \<Rightarrow> string \<Rightarrow> string \<Rightarrow> ('v, 'j, 'w, unit) runtime_op" where
  "ensure_account_connector_ready env lane_id account_id =
     gateway_call (map_status_error lane_id account_id) (ensure_account_ready (env_clock env) account_id)"

definition map_refresh_error :: "string \<Rightarrow> GatewayError \<Rightarrow> ServiceError" where
  "map_refresh_error account_id error =
     (case error of UnknownAccount _ \<Rightarrow> missing_connector_status account_id
      | LockPoisoned \<Rightarrow> InvalidServiceConfiguration ''connector registry lock poisoned''
      | other \<Rightarrow> ExecutionConnectorUnavailable account_id account_id (gateway_error_text other))"

definition fetch_account_snapshot_for_refresh ::
    "('j, 'w) RuntimeEnv \<Rightarrow> string \<Rightarrow> ('v, 'j, 'w, ConnectorAccountSnapshot) runtime_op" where
  "fetch_account_snapshot_for_refresh env account_id =
     gateway_call (map_refresh_error account_id)
       (gw_fetch_account_snapshot_unchecked (env_clock env) (env_remote env) account_id)"

definition connectors_ready :: "('v, 'j, 'w) Runtime \<Rightarrow> bool" where
  "connectors_ready s = gw_is_ready (rt_gateway s)"

text \<open>A ledger is refreshed from the connector or, when its snapshot is unavailable, from the lanes.\<close>

definition refresh_account_ledger_from_connector :: "('j, 'w) RuntimeEnv \<Rightarrow> string \<Rightarrow> ('v, 'j, 'w, unit) runtime_op" where
  "refresh_account_ledger_from_connector env account_id =
     handle (fetch_account_snapshot_for_refresh env account_id)
       (\<lambda>error. if error = missing_connector_status account_id then fail error
          else sync_account_ledger_from_instances account_id)
       (refresh_account_ledger_from_snapshot env account_id)"

definition refresh_all_account_ledgers_from_connectors :: "('j, 'w) RuntimeEnv \<Rightarrow> ('v, 'j, 'w, unit) runtime_op" where
  "refresh_all_account_ledgers_from_connectors env =
     then_do (reads (\<lambda>s. sort (hm_keys (rt_accounts s)))) (for_each (refresh_account_ledger_from_connector env))"

subsection \<open>Persisted lane states (repo/journal.rs)\<close>

fun execution_mode_to_storage :: "ExecutionMode \<Rightarrow> string" where
  "execution_mode_to_storage Paper = ''paper''"
| "execution_mode_to_storage Live = ''live''"

definition persist_instance_state :: "('j, 'w) RuntimeEnv \<Rightarrow> InstanceSummary \<Rightarrow> ('v, 'j, 'w, unit) runtime_op" where
  "persist_instance_state env summary =
     journal_write (jn_upsert_bot_snapshot (env_journal env)
       \<lparr>bsw_bot_id = is_id summary, bsw_state = as_storage_value (is_state summary),
         bsw_execution_mode = execution_mode_to_storage (is_execution_mode summary), bsw_enabled = is_enabled summary\<rparr>)"

definition persist_boot_state :: "('j, 'w) RuntimeEnv \<Rightarrow> ('v, 'j, 'w, unit) runtime_op" where
  "persist_boot_state env =
     then_do (reads (\<lambda>s. length (rt_lanes s))) (\<lambda>instances.
     then_do (rt_append_service_event env ''service.started'' (''instances='' @ show_int (int instances))) (\<lambda>_.
     then_do (reads (list_instances (env_texts env))) (for_each (persist_instance_state env))))"

text \<open>
  The state of a lane changes, the bot's summary is persisted and an event appended; when either of
  these fails the previous state is restored. \<open>None\<close> is the panic of \<open>summary_from_bot\<close> on a bot
  without lanes.
\<close>

definition set_lane_state :: "string \<Rightarrow> LaneRuntimeState \<Rightarrow> ('v, 'j, 'w, unit) runtime_op" where
  "set_lane_state lane_id state = update_instance lane_id (\<lambda>lane. lane\<lparr>lr_state := state\<rparr>)"

definition transition_instance ::
    "('j, 'w) RuntimeEnv \<Rightarrow> string \<Rightarrow> LaneRuntimeState \<Rightarrow> string \<Rightarrow> ('v, 'j, 'w, InstanceSummary option) runtime_op" where
  "transition_instance env lane_id target_state event_kind =
     then_do (tries (rt_instance lane_id)) (\<lambda>inst.
     then_do (set_lane_state lane_id target_state) (\<lambda>_.
     then_do (tries (get_instance (env_texts env) (ic_id (lr_config inst)))) (\<lambda>summary.
     case summary of None \<Rightarrow> ok None
     | Some summary \<Rightarrow>
         handle (then_do (persist_instance_state env summary) (\<lambda>_. append_instance_event env lane_id event_kind target_state []))
           (\<lambda>error. then_do (ignoring_errors (set_lane_state lane_id (lr_state inst))) (\<lambda>_. fail error))
           (\<lambda>_. ok (Some summary)))))"

subsection \<open>Bootstrap (repo/bootstrap.rs)\<close>

definition snapshot_states :: "'j RuntimeJournal \<Rightarrow> 'j \<Rightarrow> ServiceError + (string, string) hmap" where
  "snapshot_states journal j =
     (case jn_load_bot_snapshots journal j of Inl e \<Rightarrow> Inl (StorageFailure e)
      | Inr snapshots \<Rightarrow> Inr (hm_of_list (map (\<lambda>snapshot. (bs_bot_id snapshot, bs_state snapshot)) snapshots)))"

definition recovered_position ::
    "'j RuntimeJournal \<Rightarrow> 'v InstanceConfig \<Rightarrow> string \<Rightarrow> 'j \<Rightarrow> StorageError + PositionRecord option" where
  "recovered_position journal inst symbol j =
     (case jn_latest_position_for_lane journal (ic_id inst) symbol j of Inl e \<Rightarrow> Inl e
      | Inr (Some position) \<Rightarrow> Inr (Some position)
      | Inr None \<Rightarrow> if length (ic_symbols inst) = 1 then jn_latest_position_for_bot journal (ic_id inst) j else Inr None)"

fun recover_symbols ::
    "'j RuntimeJournal \<Rightarrow> 'j \<Rightarrow> 'v InstanceConfig \<Rightarrow> string list \<Rightarrow> (string, f64) hmap \<Rightarrow> ServiceError + (string, f64) hmap" where
  "recover_symbols journal j inst [] recovered = Inr recovered"
| "recover_symbols journal j inst (symbol # symbols) recovered =
     (case lane_instance_id inst symbol of
        Inl (InvalidConfiguration message) \<Rightarrow> Inl (InvalidServiceConfiguration message)
      | Inr lane_id \<Rightarrow>
          (case recovered_position journal inst symbol j of Inl e \<Rightarrow> Inl (StorageFailure e)
           | Inr None \<Rightarrow> recover_symbols journal j inst symbols recovered
           | Inr (Some position) \<Rightarrow> recover_symbols journal j inst symbols
               (if is_finite (pr_realized_pnl_usd position) then hm_insert lane_id (pr_realized_pnl_usd position) recovered
                else recovered)))"

fun recovered_realized_pnl_by_lane ::
    "'j RuntimeJournal \<Rightarrow> 'j \<Rightarrow> 'v InstanceConfig list \<Rightarrow> (string, f64) hmap \<Rightarrow> ServiceError + (string, f64) hmap" where
  "recovered_realized_pnl_by_lane journal j [] recovered = Inr recovered"
| "recovered_realized_pnl_by_lane journal j (inst # instances) recovered =
     (case recover_symbols journal j inst (ic_symbols inst) recovered of Inl e \<Rightarrow> Inl e
      | Inr recovered \<Rightarrow> recovered_realized_pnl_by_lane journal j instances recovered)"

record BootstrapJournalState =
  bj_snapshot_states :: "(string, string) hmap"
  bj_recovered_realized_pnl_by_lane :: "(string, f64) hmap"

definition bootstrap_journal_state :: "'v InstanceConfig list \<Rightarrow> 'j RuntimeJournal \<Rightarrow> 'j \<Rightarrow> ServiceError + BootstrapJournalState" where
  "bootstrap_journal_state instances journal j =
     (case snapshot_states journal j of Inl e \<Rightarrow> Inl e
      | Inr states \<Rightarrow>
          (case recovered_realized_pnl_by_lane journal j instances [] of Inl e \<Rightarrow> Inl e
           | Inr recovered \<Rightarrow> Inr \<lparr>bj_snapshot_states = states, bj_recovered_realized_pnl_by_lane = recovered\<rparr>))"

subsection \<open>What logging leaves unchanged\<close>

text \<open>A view of the runtime that ignores the journal, the read models and the clock readings taken.\<close>

locale quiet_view =
  fixes view :: "('v, 'j, 'w) Runtime \<Rightarrow> 'c"
  assumes view_journal: "view (s\<lparr>rt_journal := j\<rparr>) = view s"
    and view_read_models: "view (s\<lparr>rt_read_models := m\<rparr>) = view s"
    and view_clock: "view (s\<lparr>rt_gateway := (rt_gateway s)\<lparr>gw_outside := (gw_outside (rt_gateway s))\<lparr>ow_ticks := t\<rparr>\<rparr>\<rparr>) = view s"
begin

lemma journal_write_quiet: "keeps view (journal_write w)"
  by (simp add: keeps_def journal_write_def view_journal split: prod.split sum.split)

lemma now_quiet: "keeps view (runtime_now_ms env)"
  by (simp add: keeps_def runtime_now_ms_def unix_now_ms_def view_clock)

lemma read_model_write_quiet: "keeps view (read_model_write env w)"
  unfolding read_model_write_def by (intro frame_rules now_quiet keeps_updates) (simp add: view_read_models)

lemma journaled_quiet: "keeps view (journaled env w p)"
  unfolding journaled_def by (intro frame_rules journal_write_quiet read_model_write_quiet)

lemma record_writes_quiet:
  "keeps view (append_signal_record_with_trace env i bar ph sg md t)"
  "keeps view (append_intent_record_with_trace env i bar sg md intent why hp t)"
  "keeps view (append_risk_decision_record_with_trace env i bar intent d t)"
  "keeps view (append_order_record_with_trace env i c intent st p q obar t)"
  "keeps view (append_fill_record_with_trace env i c p q fa fm fu obar t)"
  "keeps view (append_position_record_with_trace env i hp q ep pnl reason obar t)"
  "keeps view (append_reconciliation_record env i src assessment)"
  unfolding append_signal_record_with_trace_def append_intent_record_with_trace_def
    append_risk_decision_record_with_trace_def append_order_record_with_trace_def append_fill_record_with_trace_def
    append_position_record_with_trace_def append_reconciliation_record_def Let_def
  by (intro frame_rules journaled_quiet)+

lemma event_writes_quiet:
  "keeps view (append_runtime_event_with_trace env sc ent k payload t)"
  "keeps view (append_runtime_event env sc ent k payload)"
  "keeps view (append_provider_event env i k json)"
  "keeps view (append_instance_event env i k st d)"
  "keeps view (rt_append_service_event env k payload)"
  "keeps view (rt_append_cycle_trace env tr)"
  "keeps view (record_stage env plog stage summary extra)"
  "keeps view (persist_instance_state env isum)"
  unfolding append_runtime_event_with_trace_def append_runtime_event_def append_provider_event_def
    append_instance_event_def rt_append_service_event_def rt_append_cycle_trace_def record_stage_def
    persist_instance_state_def Let_def
  by (intro frame_rules journaled_quiet journal_write_quiet)+

end

definition runtime_world :: "('v, 'j, 'w) Runtime \<Rightarrow> 'w" where
  "runtime_world s = ow_world (gw_outside (rt_gateway s))"

interpretation quiet_lanes: quiet_view rt_lanes
  by unfold_locales simp_all

interpretation quiet_ledgers: quiet_view rt_account_ledgers
  by unfold_locales simp_all

interpretation quiet_world: quiet_view runtime_world
  by unfold_locales (simp_all add: runtime_world_def)

interpretation quiet_kill_switch: quiet_view rt_kill_switch_active
  by unfold_locales simp_all

subsection \<open>Transitions\<close>

lemma set_lane_state_run:
  "hm_get (rt_lanes s) lane_id = Some lane \<Longrightarrow>
   set_lane_state lane_id state s = (Inr (), s\<lparr>rt_lanes := hm_insert lane_id (lane\<lparr>lr_state := state\<rparr>) (rt_lanes s)\<rparr>)"
  by (simp add: set_lane_state_def update_instance_def with_instance_def)

lemma collect_ok_error: "collect_ok rs = Inl e \<Longrightarrow> Inl e \<in> set rs"
  by (induction rs rule: collect_ok.induct) (auto split: sum.splits)

lemma get_instance_error: "get_instance tx bot_id s = Inl e \<Longrightarrow> \<exists>x. e = InstanceNotFound x"
  by (auto simp: get_instance_def lanes_for_bot_def lane_ids_for_bot_def rt_instance_def
      split: sum.splits option.splits dest!: collect_ok_error)

lemma get_instance_id: "get_instance tx bot_id s = Inr found \<Longrightarrow> found = Some summary \<Longrightarrow> is_id summary = bot_id"
  by (auto simp: get_instance_def split: sum.splits dest: summary_from_bot_some)

lemma transition_lanes:
  assumes lane: "hm_get (rt_lanes s) lane_id = Some lane"
  shows "case transition_instance env lane_id target kind s of
      (Inr (Some summary), s') \<Rightarrow> rt_lanes s' = hm_insert lane_id (lane\<lparr>lr_state := target\<rparr>) (rt_lanes s)
        \<and> is_id summary = ic_id (lr_config lane)
    | (Inl (StorageFailure e), s') \<Rightarrow> rt_lanes s' = rt_lanes s
    | _ \<Rightarrow> True"
proof -
  let ?s = "s\<lparr>rt_lanes := hm_insert lane_id (lane\<lparr>lr_state := target\<rparr>) (rt_lanes s)\<rparr>"
  let ?log = "\<lambda>summary. then_do (persist_instance_state env summary) (\<lambda>_. append_instance_event env lane_id kind target [])"
  have inst: "rt_instance lane_id s = Inr lane" using lane by (simp add: rt_instance_def)
  have quiet: "keeps rt_lanes (?log summary)" for summary
    by (intro frame_rules quiet_lanes.event_writes_quiet)
  note run = transition_instance_def then_do_def [of "tries _"] then_do_def [of "set_lane_state _ _"] inst set_lane_state_run [OF lane]
  show ?thesis
  proof (cases "get_instance (env_texts env) (ic_id (lr_config lane)) ?s")
    case (Inl e)
    then obtain x where "e = InstanceNotFound x" using get_instance_error by blast
    with Inl show ?thesis by (simp add: run)
  next
    case (Inr found)
    show ?thesis
    proof (cases found)
      case None
      with Inr show ?thesis by (simp add: run)
    next
      case (Some summary)
      from Inr Some have bot: "is_id summary = ic_id (lr_config lane)" by (rule get_instance_id)
      obtain r s' where log: "?log summary ?s = (r, s')" by fastforce
      from keeps_run [OF quiet log] have lanes: "rt_lanes s' = rt_lanes ?s" by simp
      then have "hm_get (rt_lanes s') lane_id = Some (lane\<lparr>lr_state := target\<rparr>)" by (simp add: hm_get_insert)
      from set_lane_state_run [OF this, of "lr_state lane"] lane lanes Inr Some log bot show ?thesis
        by (cases r) (simp_all add: run handle_def ignoring_errors_def hm_insert_again hm_insert_same
            then_do_def [of "handle _ _ _"] split: ServiceError.split)
    qed
  qed
qed

text \<open>
  A transition is all or nothing: on success the lane is in the target state and nothing else
  of the lanes changed, and when the journal refuses the snapshot or the event every lane is as
  before.
\<close>

theorem transition_all_or_nothing:
  assumes lane: "hm_get (rt_lanes s) lane_id = Some lane"
  shows "case transition_instance env lane_id target kind s of
      (Inr (Some summary), s') \<Rightarrow> rt_lanes s' = hm_insert lane_id (lane\<lparr>lr_state := target\<rparr>) (rt_lanes s)
        \<and> is_id summary = ic_id (lr_config lane)
    | (Inl (StorageFailure e), s') \<Rightarrow> rt_lanes s' = rt_lanes s
    | _ \<Rightarrow> True"
  using lane by (rule transition_lanes)

subsection \<open>A concrete runtime\<close>

text \<open>One paper account with one lane, an empty in-memory journal, and a journal that refuses snapshots.\<close>

definition paper_account :: ConnectorAccount where
  "paper_account = demo_account\<lparr>ca_account_id := ''paper''\<rparr>"

definition demo_runtime :: "(int, InMemoryRuntimeJournal, unit) Runtime" where
  "demo_runtime = \<lparr>rt_lanes = [(''aapl'', demo_lane_runtime)], rt_kill_switch_active = False,
     rt_observability = ServiceObservability_default, rt_lanes_by_bot = [(''aapl'', [''aapl''])],
     rt_accounts = [(''paper'', \<lparr>ac_id = ''paper'', ac_kind = ''alpaca'', ac_mode = Paper, ac_api_key_env = None,
       ac_api_secret_env = None, ac_passphrase_env = None, ac_use_demo_mode = False,
       ac_reconciliation_remote_snapshot = False, ac_execution_remote_submission = None,
       ac_reconciliation_base_url = None, ac_cash_balance_assets = [], ac_total_budget_usd = f64_rnd 1000\<rparr>)],
     rt_account_ledgers = [(''paper'', AccountLedger_new (f64_rnd 1000))],
     rt_gateway = demo_gateway\<lparr>gw_connectors := [(''paper'', \<lparr>ce_account = paper_account, ce_validation_error = None,
       ce_client = Connector_new paper_account\<rparr>)]\<rparr>,
     rt_journal = InMemoryRuntimeJournal_default, rt_read_models = OperatorReadModelsState_default, rt_trace_sequence = 0\<rparr>"

definition demo_env :: "(InMemoryRuntimeJournal, unit) RuntimeEnv" where
  "demo_env = \<lparr>env_journal = in_memory_journal 0, env_clock = demo_clock, env_remote = demo_remote,
     env_texts = \<lparr>tx_json = (\<lambda>_. ''{}''), tx_rfc3339 = show_int\<rparr>, env_metadata_json = (\<lambda>_. ''{}''),
     env_trace_json = (\<lambda>_. ''{}''), env_parse_trace = (\<lambda>_. None), env_request_json = (\<lambda>_. JNull),
     env_order_json = (\<lambda>_. JNull), env_rejection_json = (\<lambda>_. JNull), env_bar_json = (\<lambda>_. JNull), env_fixed4 = (\<lambda>_. ''0'')\<rparr>"

definition refusing_env :: "(InMemoryRuntimeJournal, unit) RuntimeEnv" where
  "refusing_env = demo_env\<lparr>env_journal := (env_journal demo_env)
     \<lparr>jn_upsert_bot_snapshot := (\<lambda>_ j. (Inl (Internal ''disk full''), j))\<rparr>\<rparr>"

lemma demo_runtime_lane: "hm_get (rt_lanes demo_runtime) ''aapl'' = Some demo_lane_runtime"
  by (simp add: demo_runtime_def hm_get_def)

lemma built_lane_fields:
  "build_lane_runtime af ai inst symbol state resume mode profiles pnl = Inr lane \<Longrightarrow>
   lr_config lane = inst \<and> lr_lane_symbol lane = symbol \<and> lr_state lane = state \<and> lr_recovery_state lane = Healthy"
  by (auto simp: build_lane_runtime_def split: sum.splits)

lemma demo_lane_config: "lr_config demo_lane_runtime = demo_instance"
  using built_lane_fields [OF demo_lane_built] by simp

lemma refused_transition:
  "fst (transition_instance refusing_env ''aapl'' Paused ''instance.paused'' demo_runtime)
   = Inl (StorageFailure (Internal ''disk full''))"
  using demo_runtime_lane demo_lane_config
  by (simp add: transition_instance_def then_do_def rt_instance_def set_lane_state_def update_instance_def with_instance_def
      get_instance_def lanes_for_bot_def lane_ids_for_bot_def demo_runtime_def hm_get_def hm_insert_def demo_instance_def
      summary_from_bot_def Let_def handle_def ignoring_errors_def persist_instance_state_def journal_write_def refusing_env_def)

theorem transition_all_or_nothing_witness:
  "fst (transition_instance refusing_env ''aapl'' Paused ''instance.paused'' demo_runtime)
     = Inl (StorageFailure (Internal ''disk full''))
   \<and> rt_lanes (snd (transition_instance refusing_env ''aapl'' Paused ''instance.paused'' demo_runtime)) = rt_lanes demo_runtime"
  using transition_all_or_nothing [OF demo_runtime_lane, where env = refusing_env and target = Paused and kind = "''instance.paused''"] refused_transition
  by (cases "transition_instance refusing_env ''aapl'' Paused ''instance.paused'' demo_runtime") simp

end
