(* ===== verification/RuntimeData.thy ===== *)
theory RuntimeData
  imports Accounting
begin

section \<open>Market data access, warmup and recovery state (openticker-runtime/src/market\_data)\<close>

text \<open>
  The recorded provider calls for bars (\<open>gateway.rs\<close>), the targets of a poll (\<open>targets.rs\<close>), the
  warmup engine of the runtime and its entry points (\<open>warmup_engine.rs\<close>, \<open>warmup.rs\<close>), the
  recovery transitions with their events (\<open>recovery_state.rs\<close>) and the gate of a recovering lane
  (\<open>recovery.rs\<close>).

  The lemmas show which views of the runtime these operations leave unchanged and that every one of
  them keeps the lanes well formed: a lane that is catching up has a recovery target.
\<close>

subsection \<open>Outcomes (model/api.rs)\<close>

datatype ProcessBarRisk = Allowed | Rejected string

record ProcessBarOutcome =
  pbo_instance_id :: string
  pbo_bot_id :: string
  pbo_symbol :: string
  pbo_phase :: SignalPhase
  pbo_signal :: IndicatorSignal
  pbo_signal_metadata :: "SignalMetadata option"
  pbo_intent :: TradeIntent
  pbo_strategy_rationale :: "string option"
  pbo_has_position :: bool
  pbo_risk :: ProcessBarRisk

definition idle_outcome :: "string \<Rightarrow> string \<Rightarrow> SignalPhase \<Rightarrow> bool \<Rightarrow> string \<Rightarrow> ProcessBarOutcome" where
  "idle_outcome bot_id symbol phase has_position rationale =
     \<lparr>pbo_instance_id = bot_id, pbo_bot_id = bot_id, pbo_symbol = symbol, pbo_phase = phase, pbo_signal = NoSignal,
       pbo_signal_metadata = None, pbo_intent = NoOp, pbo_strategy_rationale = Some rationale,
       pbo_has_position = has_position, pbo_risk = Allowed\<rparr>"

subsection \<open>Recorded provider calls (market\_data/gateway.rs)\<close>

definition truncate_event_text :: "string \<Rightarrow> nat \<Rightarrow> string \<times> bool" where
  "truncate_event_text value max_bytes =
     (if length value \<le> max_bytes then (value, False) else (take max_bytes value @ ''...'', True))"

definition PROVIDER_EVENT_PAYLOAD_PREVIEW_LIMIT :: nat where
  "PROVIDER_EVENT_PAYLOAD_PREVIEW_LIMIT = 4096"

definition provider_payload_preview :: "string \<Rightarrow> Json" where
  "provider_payload_preview payload =
     (let (shown, truncated) = truncate_event_text payload PROVIDER_EVENT_PAYLOAD_PREVIEW_LIMIT in
      JObject [(''text'', JString shown), (''truncated'', JBool truncated), (''original_bytes'', JInt (int (length payload)))])"

abbreviation time_text :: "('j, 'w) RuntimeEnv \<Rightarrow> timestamp \<Rightarrow> string" where
  "time_text env \<equiv> tx_rfc3339 (env_texts env)"

definition json_time :: "('j, 'w) RuntimeEnv \<Rightarrow> timestamp option \<Rightarrow> Json" where
  "json_time env = json_opt (\<lambda>time. JString (time_text env time))"

definition bars_response :: "('j, 'w) RuntimeEnv \<Rightarrow> OhlcvBar list \<Rightarrow> (string \<times> Json) list" where
  "bars_response env bars =
     [(''returned_count'', JInt (int (length bars))), (''first_bar_timestamp'', json_time env (first_timestamp bars)),
      (''last_bar_timestamp'', json_time env (last_timestamp bars))]"

text \<open>A fetch of market data: the connector kind is validated before anything is recorded.\<close>

definition recorded_fetch ::
    "('j, 'w) RuntimeEnv \<Rightarrow> string \<Rightarrow> string \<Rightarrow> string \<Rightarrow> string \<Rightarrow> string \<Rightarrow> Json \<Rightarrow> string \<Rightarrow> ('w, 'a) gateway_op
     \<Rightarrow> ('a \<Rightarrow> string \<times> Json) \<Rightarrow> string \<Rightarrow> ('v, 'j, 'w, 'a) runtime_op" where
  "recorded_fetch env lane_id kind_prefix account_id data_connector operation request summary call success failure_summary =
     then_do (validate_connector_kind lane_id account_id data_connector ''data_connector'') (\<lambda>_.
     record_call env (provider_operation lane_id kind_prefix account_id data_connector operation)
       ''requested'' summary [(''request'', request)] call
       (\<lambda>result. (''succeeded'', fst (success result), [(''request'', request), (''response'', snd (success result))]))
       (\<lambda>error. (failure_summary, [(''request'', request), (''error'', JString (gateway_error_text error))]))
       (map_data_error lane_id account_id))"

definition symbol_request :: "string \<Rightarrow> Timeframe \<Rightarrow> (string \<times> Json) list" where
  "symbol_request symbol timeframe = [(''symbol'', JString symbol), (''timeframe'', JString (Timeframe_as_str timeframe))]"

definition rt_fetch_latest_bar ::
    "('j, 'w) RuntimeEnv \<Rightarrow> string \<Rightarrow> string \<Rightarrow> string \<Rightarrow> string \<Rightarrow> Timeframe \<Rightarrow> ('v, 'j, 'w, OhlcvBar) runtime_op" where
  "rt_fetch_latest_bar env lane_id account_id data_connector symbol timeframe =
     recorded_fetch env lane_id ''provider.market_data.latest'' account_id data_connector ''fetch_latest_bar''
       (JObject (symbol_request symbol timeframe))
       (''requesting latest '' @ Timeframe_as_str timeframe @ '' bar for '' @ symbol)
       (gw_fetch_latest_bar (env_clock env) (env_remote env) account_id symbol timeframe)
       (\<lambda>bar. (''latest '' @ Timeframe_as_str timeframe @ '' bar for '' @ symbol @ '' received at '' @ rfc env bar,
          JObject [(''bar'', env_bar_json env bar)]))
       (''latest '' @ Timeframe_as_str timeframe @ '' bar request failed for '' @ symbol)"

definition rt_fetch_recent_bars ::
    "('j, 'w) RuntimeEnv \<Rightarrow> string \<Rightarrow> string \<Rightarrow> string \<Rightarrow> string \<Rightarrow> Timeframe \<Rightarrow> nat \<Rightarrow> ('v, 'j, 'w, OhlcvBar list) runtime_op" where
  "rt_fetch_recent_bars env lane_id account_id data_connector symbol timeframe limit =
     recorded_fetch env lane_id ''provider.market_data.history'' account_id data_connector ''fetch_recent_bars''
       (JObject (symbol_request symbol timeframe @ [(''limit'', JInt (int limit))]))
       (''requesting '' @ show_int (int limit) @ '' recent '' @ Timeframe_as_str timeframe @ '' bars for '' @ symbol)
       (gw_fetch_recent_bars (env_clock env) (env_remote env) account_id symbol timeframe limit)
       (\<lambda>bars. (''received '' @ show_int (int (length bars)) @ '' recent '' @ Timeframe_as_str timeframe @ '' bars for '' @ symbol,
          JObject (bars_response env bars)))
       (''recent '' @ Timeframe_as_str timeframe @ '' bar request failed for '' @ symbol)"

definition fetch_recent_bars_for_stream ::
    "('j, 'w) RuntimeEnv \<Rightarrow> string \<Rightarrow> string \<Rightarrow> Timeframe \<Rightarrow> nat \<Rightarrow> ('v, 'j, 'w, OhlcvBar list) runtime_op" where
  "fetch_recent_bars_for_stream env account_id symbol timeframe limit =
     gateway_call (map_data_error (''stream:'' @ account_id @ ''/'' @ symbol @ ''/'' @ Timeframe_as_str timeframe) account_id)
       (gw_fetch_recent_bars (env_clock env) (env_remote env) account_id symbol timeframe limit)"

definition rt_fetch_latest_confirmed_bar_timestamp ::
    "('j, 'w) RuntimeEnv \<Rightarrow> string \<Rightarrow> string \<Rightarrow> string \<Rightarrow> string \<Rightarrow> Timeframe \<Rightarrow> ('v, 'j, 'w, timestamp option) runtime_op" where
  "rt_fetch_latest_confirmed_bar_timestamp env lane_id account_id data_connector symbol timeframe =
     recorded_fetch env lane_id ''provider.market_data.confirmed_target'' account_id data_connector
       ''fetch_latest_confirmed_bar_timestamp'' (JObject (symbol_request symbol timeframe))
       (''requesting latest confirmed '' @ Timeframe_as_str timeframe @ '' bar timestamp for '' @ symbol)
       (gw_fetch_latest_confirmed_bar_timestamp (env_clock env) (env_remote env) account_id symbol timeframe)
       (\<lambda>time. (case time of
            Some time \<Rightarrow> ''latest confirmed '' @ Timeframe_as_str timeframe @ '' bar for '' @ symbol @ '' is '' @ time_text env time
          | None \<Rightarrow> ''no latest confirmed '' @ Timeframe_as_str timeframe @ '' bar available for '' @ symbol,
          JObject [(''timestamp'', json_time env time)]))
       (''latest confirmed '' @ Timeframe_as_str timeframe @ '' target request failed for '' @ symbol)"

definition rt_fetch_confirmed_bars_range ::
    "('j, 'w) RuntimeEnv \<Rightarrow> string \<Rightarrow> string \<Rightarrow> string \<Rightarrow> string \<Rightarrow> Timeframe \<Rightarrow> timestamp option \<Rightarrow> timestamp \<Rightarrow> nat
     \<Rightarrow> ('v, 'j, 'w, ConfirmedBarPage) runtime_op" where
  "rt_fetch_confirmed_bars_range env lane_id account_id data_connector symbol timeframe start_after end_at limit =
     recorded_fetch env lane_id ''provider.market_data.confirmed_range'' account_id data_connector ''fetch_confirmed_bars_range''
       (JObject (symbol_request symbol timeframe @ [(''start_after'', json_time env start_after),
         (''end_at'', JString (time_text env end_at)), (''limit'', JInt (int limit))]))
       (''requesting confirmed '' @ Timeframe_as_str timeframe @ '' bars for '' @ symbol @ '' up to '' @ time_text env end_at)
       (gw_fetch_confirmed_bars_range (env_clock env) (env_remote env) account_id symbol timeframe start_after end_at limit)
       (\<lambda>page. (''received '' @ show_int (int (length (cbp_bars page))) @ '' confirmed '' @ Timeframe_as_str timeframe
            @ '' bars for '' @ symbol @ '' up to '' @ time_text env end_at,
          JObject (bars_response env (cbp_bars page) @ [(''exhausted'', JBool (cbp_exhausted page))])))
       (''confirmed '' @ Timeframe_as_str timeframe @ '' range request failed for '' @ symbol)"

definition rt_normalize_market_stream_payload ::
    "('j, 'w) RuntimeEnv \<Rightarrow> string \<Rightarrow> string \<Rightarrow> string \<Rightarrow> string \<Rightarrow> ('v, 'j, 'w, NormalizedBarUpdate option) runtime_op" where
  "rt_normalize_market_stream_payload env lane_id account_id data_connector payload =
     then_do (validate_connector_kind lane_id account_id data_connector ''data_connector'') (\<lambda>_.
     record_call env (provider_operation lane_id ''provider.market_stream'' account_id data_connector ''market_stream'')
       ''received'' ''connector market-stream payload received''
       [(''incoming_payload'', provider_payload_preview payload)]
       (gw_normalize_market_stream_payload (env_clock env) (env_remote env) account_id payload)
       (\<lambda>update. case update of
            Some update \<Rightarrow> (''normalized'', bu_symbol update @ '' '' @ signal_phase_label (bu_phase update)
                @ '' bar normalized at '' @ rfc env (bu_bar update),
              [(''normalized'', JObject [(''symbol'', JString (bu_symbol update)),
                (''phase'', JString (signal_phase_label (bu_phase update))), (''bar'', env_bar_json env (bu_bar update))])])
          | None \<Rightarrow> (''ignored'', ''connector market-stream payload produced no normalized update'', []))
       (\<lambda>error. (''connector market-stream payload failed to normalize'',
          [(''error'', JString (gateway_error_text error)), (''incoming_payload'', provider_payload_preview payload)]))
       (map_data_error lane_id account_id))"

subsection \<open>Poll targets (market\_data/targets.rs)\<close>

definition manual_poll_target_for_instance ::
    "string \<Rightarrow> string \<Rightarrow> ('v, 'j, 'w) Runtime \<Rightarrow> ServiceError + (string \<times> string \<times> string \<times> Timeframe)" where
  "manual_poll_target_for_instance instance_id action s =
     (case rt_instance instance_id s of Inl e \<Rightarrow> Inl e
      | Inr inst \<Rightarrow>
          if \<not> ic_enabled (lr_config inst) then Inl (InstanceDisabled instance_id)
          else if lr_state inst \<noteq> Running then Inl (InvalidTransition instance_id (lr_state inst) action)
          else Inr (ic_account (lr_config inst), ic_data_connector (lr_config inst), lr_lane_symbol inst,
            ic_timeframe (lr_config inst)))"

definition fetch_latest_bar_for_lane :: "('j, 'w) RuntimeEnv \<Rightarrow> string \<Rightarrow> ('v, 'j, 'w, StreamKey \<times> OhlcvBar) runtime_op" where
  "fetch_latest_bar_for_lane env instance_id =
     then_do (tries (manual_poll_target_for_instance instance_id ''poll_instance_once''))
       (\<lambda>(account_id, data_connector, symbol, timeframe).
     then_do (ensure_account_connector_ready env instance_id account_id) (\<lambda>_.
     then_do (rt_fetch_latest_bar env instance_id account_id data_connector symbol timeframe) (\<lambda>latest_bar.
     ok (\<lparr>sk_account_id = account_id, sk_symbol = symbol, sk_timeframe = timeframe\<rparr>, latest_bar))))"

definition fetch_latest_bar_for_instance :: "('j, 'w) RuntimeEnv \<Rightarrow> string \<Rightarrow> ('v, 'j, 'w, StreamKey \<times> OhlcvBar) runtime_op" where
  "fetch_latest_bar_for_instance env instance_id =
     then_do (tries (single_lane_id_for_bot instance_id ''poll_instance_once'')) (fetch_latest_bar_for_lane env)"

definition fetch_latest_bar_for_symbol ::
    "('j, 'w) RuntimeEnv \<Rightarrow> string \<Rightarrow> string \<Rightarrow> ('v, 'j, 'w, StreamKey \<times> OhlcvBar) runtime_op" where
  "fetch_latest_bar_for_symbol env instance_id symbol =
     then_do (tries (resolve_lane_id instance_id symbol)) (fetch_latest_bar_for_lane env)"

definition fetch_recent_bars_for_instance ::
    "('j, 'w) RuntimeEnv \<Rightarrow> string \<Rightarrow> nat \<Rightarrow> ('v, 'j, 'w, StreamKey \<times> OhlcvBar list) runtime_op" where
  "fetch_recent_bars_for_instance env instance_id limit =
     then_do (tries (rt_instance instance_id)) (\<lambda>inst.
     if \<not> ic_enabled (lr_config inst) then fail (InstanceDisabled instance_id)
     else then_do (rt_fetch_recent_bars env instance_id (ic_account (lr_config inst)) (ic_data_connector (lr_config inst))
         (lr_lane_symbol inst) (ic_timeframe (lr_config inst)) limit) (\<lambda>bars.
       ok (\<lparr>sk_account_id = ic_account (lr_config inst), sk_symbol = lr_lane_symbol inst,
         sk_timeframe = ic_timeframe (lr_config inst)\<rparr>, bars)))"

definition stream_key_for_lane :: "string \<Rightarrow> ('v, 'j, 'w) Runtime \<Rightarrow> ServiceError + StreamKey" where
  "stream_key_for_lane instance_id s =
     (case manual_poll_target_for_instance instance_id ''poll_instance_once'' s of Inl e \<Rightarrow> Inl e
      | Inr (account_id, _, symbol, timeframe) \<Rightarrow>
          Inr \<lparr>sk_account_id = account_id, sk_symbol = symbol, sk_timeframe = timeframe\<rparr>)"

definition stream_key_for_instance :: "string \<Rightarrow> ('v, 'j, 'w) Runtime \<Rightarrow> ServiceError + StreamKey" where
  "stream_key_for_instance instance_id s =
     (case single_lane_id_for_bot instance_id ''poll_instance_once'' s of Inl e \<Rightarrow> Inl e
      | Inr lane_id \<Rightarrow> stream_key_for_lane lane_id s)"

definition stream_key_for_symbol :: "string \<Rightarrow> string \<Rightarrow> ('v, 'j, 'w) Runtime \<Rightarrow> ServiceError + StreamKey" where
  "stream_key_for_symbol instance_id symbol s =
     (case resolve_lane_id instance_id symbol s of Inl e \<Rightarrow> Inl e | Inr lane_id \<Rightarrow> stream_key_for_lane lane_id s)"

subsection \<open>Recovery transitions (market\_data/recovery\_state.rs)\<close>

definition MAX_RECOVERY_NO_PROGRESS_CYCLES :: int where
  "MAX_RECOVERY_NO_PROGRESS_CYCLES = 3"

fun recovery_state_label :: "LaneRecoveryState \<Rightarrow> string" where
  "recovery_state_label Healthy = ''healthy''"
| "recovery_state_label CatchingUp = ''catching_up''"
| "recovery_state_label OutOfSync = ''out_of_sync''"

definition json_event :: "('j, 'w) RuntimeEnv \<Rightarrow> string \<Rightarrow> string \<Rightarrow> string \<Rightarrow> (string \<times> Json) list \<Rightarrow> ('v, 'j, 'w, unit) runtime_op" where
  "json_event env scope instance_id kind payload =
     append_runtime_event env scope (Some instance_id) kind (tx_json (env_texts env) (JObject payload))"

text \<open>The replay of a confirmed bar that only moves the lane's indicators and its dispatch mark.\<close>

definition rt_apply_state_only_confirmed_bar :: "string \<Rightarrow> OhlcvBar \<Rightarrow> ('v, 'j, 'w, bool) runtime_op" where
  "rt_apply_state_only_confirmed_bar instance_id bar = with_instance instance_id (apply_state_only_confirmed_bar bar)"

fun apply_bars :: "string \<Rightarrow> OhlcvBar list \<Rightarrow> nat \<Rightarrow> ('v, 'j, 'w, nat) runtime_op" where
  "apply_bars instance_id [] applied = ok applied"
| "apply_bars instance_id (bar # bars) applied =
     then_do (rt_apply_state_only_confirmed_bar instance_id bar) (\<lambda>replayed.
     apply_bars instance_id bars (if replayed then min (applied + 1) usize_max else applied))"

definition apply_recovery_page :: "string \<Rightarrow> OhlcvBar list \<Rightarrow> ('v, 'j, 'w, nat) runtime_op" where
  "apply_recovery_page instance_id bars =
     then_do (apply_bars instance_id bars 0) (\<lambda>applied.
     then_do (if bars = [] then ok ()
              else update_instance instance_id (mark_recovery_page_progress (bar_timestamp (last bars)))) (\<lambda>_.
     ok applied))"

definition record_recovery_page_applied ::
    "('j, 'w) RuntimeEnv \<Rightarrow> string \<Rightarrow> RecoveryPageApplied \<Rightarrow> ('v, 'j, 'w, unit) runtime_op" where
  "record_recovery_page_applied env instance_id detail =
     then_do (tries (rt_instance instance_id)) (\<lambda>inst.
     json_event env ''poll'' instance_id ''poll.recovery.page_applied''
       [(''account'', JString (rpa_account_id detail)), (''symbol'', JString (rpa_symbol detail)),
        (''timeframe'', JString (Timeframe_as_str (rpa_timeframe detail))),
        (''recovery_state'', JString (recovery_state_label (lr_recovery_state inst))),
        (''recovery_target_timestamp'', JString (time_text env (rpa_recovery_target_timestamp detail))),
        (''first_bar_timestamp'', json_time env (rpa_first_bar_timestamp detail)),
        (''last_bar_timestamp'', json_time env (rpa_last_bar_timestamp detail)),
        (''bars_applied'', JInt (int (rpa_bars_applied detail))), (''page_limit'', JInt (int (rpa_page_limit detail))),
        (''exhausted'', JBool (rpa_exhausted detail))])"

definition start_lane_recovery :: "('j, 'w) RuntimeEnv \<Rightarrow> string \<Rightarrow> timestamp \<Rightarrow> int \<Rightarrow> ('v, 'j, 'w, unit) runtime_op" where
  "start_lane_recovery env instance_id target now_ms =
     then_do (with_instance instance_id (start_lane_recovery_state target now_ms)) (\<lambda>kind.
     json_event env ''poll'' instance_id (RecoveryStartKind_event_kind kind)
       [(''recovery_state'', JString (recovery_state_label CatchingUp)),
        (''recovery_target_timestamp'', JString (time_text env target)), (''recovery_started_at_ms'', JInt now_ms)])"

definition complete_lane_recovery :: "('j, 'w) RuntimeEnv \<Rightarrow> string \<Rightarrow> string \<Rightarrow> ('v, 'j, 'w, unit) runtime_op" where
  "complete_lane_recovery env instance_id reason =
     then_do (with_instance instance_id complete_lane_recovery_state) (\<lambda>last_progress.
     json_event env ''poll'' instance_id ''poll.recovery.completed''
       [(''recovery_state'', JString (recovery_state_label Healthy)),
        (''recovery_last_progress_timestamp'', json_time env last_progress), (''reason'', JString reason)])"

definition mark_lane_out_of_sync :: "('j, 'w) RuntimeEnv \<Rightarrow> string \<Rightarrow> string \<Rightarrow> ('v, 'j, 'w, unit) runtime_op" where
  "mark_lane_out_of_sync env instance_id reason =
     then_do (update_instance instance_id (mark_lane_out_of_sync_state reason)) (\<lambda>_.
     json_event env ''poll'' instance_id ''poll.recovery.failed''
       [(''recovery_state'', JString (recovery_state_label OutOfSync)), (''failure_reason'', JString reason)])"

definition record_recovery_no_progress :: "('j, 'w) RuntimeEnv \<Rightarrow> string \<Rightarrow> timestamp \<Rightarrow> bool \<Rightarrow> ('v, 'j, 'w, unit) runtime_op" where
  "record_recovery_no_progress env instance_id target exhausted =
     then_do (with_instance instance_id (record_recovery_no_progress_state exhausted MAX_RECOVERY_NO_PROGRESS_CYCLES)) (\<lambda>no_progress.
     then_do (tries (rt_instance instance_id)) (\<lambda>inst.
     then_do (json_event env ''poll'' instance_id ''poll.recovery.page_applied''
       [(''recovery_state'', JString (recovery_state_label (lr_recovery_state inst))),
        (''recovery_target_timestamp'', JString (time_text env target)), (''bars_applied'', JInt 0),
        (''exhausted'', JBool exhausted)]) (\<lambda>_.
     if rn_should_fail no_progress
     then mark_lane_out_of_sync env instance_id
       (if exhausted then ''connector exhausted confirmed history before reaching recovery target '' @ time_text env target
        else ''recovery made no progress for '' @ show_int (rn_cycles no_progress) @ '' consecutive cycles toward ''
          @ time_text env target)
     else ok ())))"

text \<open>A bar of a lane that is not healthy is answered without evaluating it (\<open>recovery.rs\<close>).\<close>

definition process_pending_recovery_bar :: "string \<Rightarrow> SignalPhase \<Rightarrow> ('v, 'j, 'w) Runtime \<Rightarrow> ServiceError + ProcessBarOutcome option" where
  "process_pending_recovery_bar instance_id phase s =
     (case rt_instance instance_id s of Inl e \<Rightarrow> Inl e
      | Inr inst \<Rightarrow>
          if lr_recovery_state inst = Healthy then Inr None
          else Inr (Some (idle_outcome (ic_id (lr_config inst)) (lr_lane_symbol inst) phase (lr_has_position inst)
            ''recovery_pending'')))"

subsection \<open>Warmup (market\_data/warmup\_engine.rs, warmup.rs)\<close>

definition rt_record_warmup_failure :: "('j, 'w) RuntimeEnv \<Rightarrow> string \<Rightarrow> string \<Rightarrow> ('v, 'j, 'w, unit) runtime_op" where
  "rt_record_warmup_failure env instance_id detail =
     then_do (update_instance instance_id (\<lambda>lane. lane\<lparr>lr_warmup := record_warmup_failure detail (lr_warmup lane)\<rparr>)) (\<lambda>_.
     append_runtime_event env ''warmup'' (Some instance_id) ''warmup.failed'' detail)"

definition rt_advance_warmup_state :: "string \<Rightarrow> timestamp \<Rightarrow> ('v, 'j, 'w, WarmupAdvance option) runtime_op" where
  "rt_advance_warmup_state instance_id time =
     with_instance instance_id (\<lambda>lane. case advance_warmup_state time (lr_warmup lane) of
       (progress, warmup) \<Rightarrow> (progress, lane\<lparr>lr_warmup := warmup\<rparr>))"

definition warmup_event ::
    "('j, 'w) RuntimeEnv \<Rightarrow> string \<Rightarrow> string \<Rightarrow> WarmupProgressDetail \<Rightarrow> ('v, 'j, 'w, unit) runtime_op" where
  "warmup_event env kind instance_id detail =
     json_event env ''warmup'' instance_id kind
       [(''source'', JString (wp_source detail)), (''loaded_bars'', JInt (int (wp_loaded_bars detail))),
        (''required_bars'', JInt (int (wp_required_bars detail))),
        (''bar_timestamp'', JString (time_text env (wp_bar_timestamp detail)))]"

definition pending_warmup_outcome :: "string \<Rightarrow> SignalPhase \<Rightarrow> ('v, 'j, 'w) Runtime \<Rightarrow> ServiceError + ProcessBarOutcome" where
  "pending_warmup_outcome instance_id phase s =
     (case rt_instance instance_id s of Inl e \<Rightarrow> Inl e
      | Inr inst \<Rightarrow> Inr (idle_outcome (ic_id (lr_config inst)) (lr_lane_symbol inst) phase (lr_has_position inst) ''warmup_pending''))"

definition warmup_context :: "string \<Rightarrow> ('v, 'j, 'w) Runtime \<Rightarrow> ServiceError + LaneWarmupContext" where
  "warmup_context instance_id s =
     (case rt_instance instance_id s of Inl e \<Rightarrow> Inl e
      | Inr inst \<Rightarrow> Inr \<lparr>wc_required_bars = wu_required_bars (lr_warmup inst), wc_ready = wu_ready (lr_warmup inst)\<rparr>)"

definition runtime_warmup_engine ::
    "('j, 'w) RuntimeEnv \<Rightarrow> (('v, 'j, 'w) Runtime, ServiceError, ProcessBarOutcome) LaneWarmupEngine" where
  "runtime_warmup_engine env =
     \<lparr>we_warmup_context = warmup_context,
       we_fetch_recent_bars_for_warmup = (\<lambda>instance_id limit.
         then_do (fetch_recent_bars_for_instance env instance_id limit) (\<lambda>(_, bars). ok bars)),
       we_replay_confirmed_warmup_bar = rt_apply_state_only_confirmed_bar,
       we_advance_warmup_state = rt_advance_warmup_state,
       we_record_warmup_started = (\<lambda>instance_id source required_bars. json_event env ''warmup'' instance_id ''warmup.started''
         [(''source'', JString source), (''required_bars'', JInt (int required_bars))]),
       we_record_warmup_failure = rt_record_warmup_failure env,
       we_record_warmup_progress = warmup_event env ''warmup.progress'',
       we_record_warmup_ready = warmup_event env ''warmup.ready'',
       we_pending_warmup_outcome = pending_warmup_outcome, we_error_text = service_error_text\<rparr>"

definition attempt_instance_warmup_backfill :: "('j, 'w) RuntimeEnv \<Rightarrow> string \<Rightarrow> string \<Rightarrow> ('v, 'j, 'w, unit) runtime_op" where
  "attempt_instance_warmup_backfill env = attempt_lane_warmup_backfill (runtime_warmup_engine env)"

definition rt_process_pending_warmup_bar ::
    "('j, 'w) RuntimeEnv \<Rightarrow> string \<Rightarrow> OhlcvBar \<Rightarrow> SignalPhase \<Rightarrow> ('v, 'j, 'w, ProcessBarOutcome option) runtime_op" where
  "rt_process_pending_warmup_bar env = process_pending_warmup_bar (runtime_warmup_engine env)"

definition startup_warmup :: "('j, 'w) RuntimeEnv \<Rightarrow> string \<Rightarrow> ('v, 'j, 'w, unit) runtime_op" where
  "startup_warmup env instance_id =
     handle (attempt_instance_warmup_backfill env instance_id ''startup'')
       (\<lambda>error. ignoring_errors (rt_record_warmup_failure env instance_id (''startup warmup failed: '' @ service_error_text error)))
       ok"

definition run_startup_warmup :: "('j, 'w) RuntimeEnv \<Rightarrow> ('v, 'j, 'w, unit) runtime_op" where
  "run_startup_warmup env =
     then_do (reads (\<lambda>s. map fst (filter (\<lambda>(_, inst). ic_enabled (lr_config inst)) (rt_lanes s)))) (for_each (startup_warmup env))"

subsection \<open>How the lanes move\<close>

text \<open>
  A runtime operation moves the lanes along \<open>R\<close> when it keeps the lane ids and each lane is related
  to what it was. Stated as an invariant relative to a start state, it composes with the rules for
  workflows.
\<close>

definition lanes_rel :: "('v LaneRuntime \<Rightarrow> 'v LaneRuntime \<Rightarrow> bool) \<Rightarrow> ('v, 'j, 'w) Runtime \<Rightarrow> ('v, 'j, 'w) Runtime \<Rightarrow> bool" where
  "lanes_rel R s0 s \<longleftrightarrow> list_all2 (\<lambda>(k, l) (k', l'). k = k' \<and> R l l') (rt_lanes s0) (rt_lanes s)"

lemma keeps_lanes_rel: "keeps rt_lanes m \<Longrightarrow> preserves (lanes_rel R s0) m"
  by (simp add: keeps_def preserves_def lanes_rel_def)

lemma update_moves:
  assumes trans: "\<And>a b c. R a b \<Longrightarrow> R b c \<Longrightarrow> R a c"
    and "list_all2 (\<lambda>(k, l) (k', l'). k = k' \<and> R l l') ls0 ls" "map_of ls i = Some l" "R l l'"
  shows "list_all2 (\<lambda>(k, l) (k', l'). k = k' \<and> R l l') ls0 (AList.update i l' ls)"
  using assms(2-4)
proof (induction ls0 ls rule: list_all2_induct)
  case (Cons x xs y ys)
  then show ?case by (cases x; cases y) (auto split: if_splits dest: trans)
qed simp

lemma with_instance_moves:
  assumes trans: "\<And>a b c. R a b \<Longrightarrow> R b c \<Longrightarrow> R a c" and f: "\<And>l. R l (snd (f l))"
  shows "preserves (lanes_rel R s0) (with_instance i f)"
  unfolding preserves_def
proof (intro allI impI)
  fix s assume "lanes_rel R s0 s"
  then show "lanes_rel R s0 (snd (with_instance i f s))"
    using update_moves [of R "rt_lanes s0" "rt_lanes s" i] trans f
    by (simp add: with_instance_def lanes_rel_def hm_get_def hm_insert_def split: option.split)
qed

lemma list_rel_get:
  "list_all2 (\<lambda>(k, l) (k', l'). k = k' \<and> R l l') ls0 ls \<Longrightarrow> map_of ls0 i = Some l \<Longrightarrow> \<exists>l'. map_of ls i = Some l' \<and> R l l'"
  by (induction ls0 ls rule: list_all2_induct) (auto split: if_splits)

lemma lanes_rel_get:
  "lanes_rel R s0 s \<Longrightarrow> hm_get (rt_lanes s0) i = Some l \<Longrightarrow> \<exists>l'. hm_get (rt_lanes s) i = Some l' \<and> R l l'"
  unfolding lanes_rel_def hm_get_def by (rule list_rel_get)

text \<open>Gateway calls, as workflows over the runtime.\<close>

definition on_gateway :: "('w, 'a) gateway_op \<Rightarrow> (('v, 'j, 'w) Runtime, GatewayError, 'a) workflow" where
  "on_gateway call s = (case call (rt_gateway s) of (r, g) \<Rightarrow> (r, s\<lparr>rt_gateway := g\<rparr>))"

lemma gateway_call_unfold: "gateway_call map_error call = handle (on_gateway call) (\<lambda>error. fail (map_error error)) ok"
  by (simp add: fun_eq_iff gateway_call_def on_gateway_def handle_def split: prod.split sum.split)

lemma record_call_unfold:
  "record_call env plog request_stage request_summary request_extra call success failure map_error =
     then_do (record_stage env plog request_stage request_summary request_extra) (\<lambda>_.
     handle (on_gateway call)
       (\<lambda>error. then_do (ignoring_errors (case failure error of (summary, extra) \<Rightarrow> record_stage env plog ''failed'' summary extra))
         (\<lambda>_. fail (map_error error)))
       (\<lambda>result. then_do (case success result of (stage, summary, extra) \<Rightarrow> record_stage env plog stage summary extra)
         (\<lambda>_. ok result)))"
  unfolding record_call_def
  by (rule arg_cong [where f = "then_do _"]) (simp add: fun_eq_iff on_gateway_def handle_def split: prod.split sum.split)

context quiet_view
begin

lemma ignoring_quiet: "keeps view m \<Longrightarrow> keeps view (ignoring_errors m)"
  unfolding ignoring_errors_def by (intro frame_rules)

lemma gateway_call_quiet: "keeps view (on_gateway call) \<Longrightarrow> keeps view (gateway_call me call)"
  unfolding gateway_call_unfold by (intro frame_rules)

lemma record_call_quiet: "keeps view (on_gateway call) \<Longrightarrow> keeps view (record_call env plog st su ex call good bad me)"
  unfolding record_call_unfold by (intro frame_rules ignoring_quiet event_writes_quiet)

lemma json_event_quiet: "keeps view (json_event env sc i k payload)" "keeps view (warmup_event env k i detail)"
  unfolding warmup_event_def json_event_def by (intro event_writes_quiet)+

end

text \<open>Views that ignore the gateway too.\<close>

locale gateway_free = quiet_view view
  for view :: "('v, 'j, 'w) Runtime \<Rightarrow> 'c" +
  assumes view_gateway: "view (s\<lparr>rt_gateway := g\<rparr>) = view s"
begin

lemma on_gateway_free: "keeps view (on_gateway call)"
  by (simp add: keeps_def on_gateway_def view_gateway split: prod.split)

lemma gateway_call_free: "keeps view (gateway_call me call)"
  by (intro gateway_call_quiet on_gateway_free)

lemma ready_free: "keeps view (ensure_account_connector_ready env i a)"
  unfolding ensure_account_connector_ready_def by (rule gateway_call_free)

lemma validate_free: "keeps view (validate_connector_kind i a k cx)"
  unfolding validate_connector_kind_def cg_account_kind_def by (intro frame_rules gateway_call_free)

lemma recorded_fetch_free: "keeps view (recorded_fetch env i kp a dc op req su call good bad)"
  unfolding recorded_fetch_def by (intro frame_rules validate_free record_call_quiet on_gateway_free)

lemma fetch_free:
  "keeps view (rt_normalize_market_stream_payload env i a dc p)"
  "keeps view (fetch_latest_bar_for_lane env i)"
  "keeps view (fetch_recent_bars_for_instance env i n)"
  "keeps view (fetch_recent_bars_for_stream env a sy tf n)"
  unfolding rt_normalize_market_stream_payload_def fetch_latest_bar_for_lane_def rt_fetch_latest_bar_def
    fetch_recent_bars_for_instance_def rt_fetch_recent_bars_def fetch_recent_bars_for_stream_def
  by (intro frame_rules validate_free recorded_fetch_free record_call_quiet on_gateway_free gateway_call_free ready_free)+

end

interpretation free_lanes: gateway_free rt_lanes
  by unfold_locales simp_all

interpretation free_ledgers: gateway_free rt_account_ledgers
  by unfold_locales simp_all

interpretation free_kill_switch: gateway_free rt_kill_switch_active
  by unfold_locales simp_all

subsection \<open>Lane moves of warmup and recovery\<close>

text \<open>A relation that every change warmup and recovery make to a lane respects.\<close>

locale lane_moves =
  fixes R :: "'v LaneRuntime \<Rightarrow> 'v LaneRuntime \<Rightarrow> bool"
  assumes refl: "R l l" and trans: "R a b \<Longrightarrow> R b c \<Longrightarrow> R a c"
    and state_only: "R l (snd (apply_state_only_confirmed_bar bar l))"
    and page_progress: "R l (mark_recovery_page_progress time l)"
    and recovery_start: "R l (snd (start_lane_recovery_state target now l))"
    and recovery_complete: "R l (snd (complete_lane_recovery_state l))"
    and out_of_sync: "R l (mark_lane_out_of_sync_state reason l)"
    and no_progress: "R l (snd (record_recovery_no_progress_state exhausted limit l))"
    and warmup: "R l (l\<lparr>lr_warmup := w\<rparr>)"
begin

lemma with_lane: "(\<And>l. R l (snd (f l))) \<Longrightarrow> preserves (lanes_rel R s0) (with_instance i f)"
  by (rule with_instance_moves) (blast intro: trans)+

lemma update_lane: "(\<And>l. R l (f l)) \<Longrightarrow> preserves (lanes_rel R s0) (update_instance i f)"
  unfolding update_instance_def by (rule with_lane) simp

lemma events_move: "preserves (lanes_rel R s0) (json_event env sc i k payload)"
  "preserves (lanes_rel R s0) (append_runtime_event env sc ent k txt)" "preserves (lanes_rel R s0) (warmup_event env k i detail)"
  by (intro keeps_lanes_rel quiet_lanes.json_event_quiet quiet_lanes.event_writes_quiet)+

lemma bars_move: "preserves (lanes_rel R s0) (apply_bars i bars n)"
proof (induction bars arbitrary: n)
  case (Cons bar bars)
  show ?case
    unfolding apply_bars.simps rt_apply_state_only_confirmed_bar_def
    by (intro invariant_rules with_lane state_only Cons.IH)
qed (simp add: invariant_rules)

lemma out_of_sync_moves: "preserves (lanes_rel R s0) (mark_lane_out_of_sync env i reason)"
  unfolding mark_lane_out_of_sync_def by (intro invariant_rules update_lane out_of_sync events_move)

lemma page_moves: "preserves (lanes_rel R s0) (apply_recovery_page i bars)"
  unfolding apply_recovery_page_def by (intro invariant_rules bars_move update_lane page_progress)

lemma page_event_moves: "preserves (lanes_rel R s0) (record_recovery_page_applied env i detail)"
  unfolding record_recovery_page_applied_def by (intro invariant_rules events_move)

lemma start_moves: "preserves (lanes_rel R s0) (start_lane_recovery env i target now)"
  unfolding start_lane_recovery_def by (intro invariant_rules with_lane recovery_start events_move)

lemma complete_moves: "preserves (lanes_rel R s0) (complete_lane_recovery env i reason)"
  unfolding complete_lane_recovery_def by (intro invariant_rules with_lane recovery_complete events_move)

lemma no_progress_moves: "preserves (lanes_rel R s0) (record_recovery_no_progress env i target exhausted)"
  unfolding record_recovery_no_progress_def
  by (intro invariant_rules with_lane no_progress events_move out_of_sync_moves)

lemmas recovery_moves = page_moves page_event_moves start_moves complete_moves no_progress_moves out_of_sync_moves

lemma warmup_failure_moves: "preserves (lanes_rel R s0) (rt_record_warmup_failure env i detail)"
  unfolding rt_record_warmup_failure_def by (intro invariant_rules update_lane warmup events_move)

lemma advance_warmup_moves: "preserves (lanes_rel R s0) (rt_advance_warmup_state i time)"
  unfolding rt_advance_warmup_state_def by (rule with_lane) (simp add: warmup split_beta)

lemma warmup_bar_moves: "preserves (lanes_rel R s0) (apply_confirmed_warmup_bar (runtime_warmup_engine env) i bar source)"
  unfolding apply_confirmed_warmup_bar_def Let_def
  by (auto simp: runtime_warmup_engine_def rt_apply_state_only_confirmed_bar_def
      intro!: invariant_rules with_lane state_only advance_warmup_moves events_move)

lemma pending_warmup_moves: "preserves (lanes_rel R s0) (rt_process_pending_warmup_bar env i bar phase)"
  unfolding rt_process_pending_warmup_bar_def process_pending_warmup_bar_def
  by (intro invariant_rules warmup_bar_moves)

lemma warmup_bars_move: "preserves (lanes_rel R s0) (warmup_bars (runtime_warmup_engine env) i source bars)"
proof (induction bars)
  case (Cons bar bars)
  show ?case unfolding warmup_bars.simps by (intro invariant_rules warmup_bar_moves Cons.IH)
qed (simp only: warmup_bars.simps preserves_ok)

lemma backfill_moves: "preserves (lanes_rel R s0) (attempt_instance_warmup_backfill env i source)"
proof -
  have "preserves (lanes_rel R s0) (we_fetch_recent_bars_for_warmup (runtime_warmup_engine env) i n)" for n
    unfolding runtime_warmup_engine_def LaneWarmupEngine.simps
    by (intro invariant_rules keeps_lanes_rel free_lanes.fetch_free)
  then show ?thesis
    unfolding attempt_instance_warmup_backfill_def attempt_lane_warmup_backfill_def
    by (auto simp: runtime_warmup_engine_def [THEN arg_cong, of we_record_warmup_failure]
        runtime_warmup_engine_def [THEN arg_cong, of we_record_warmup_started]
        intro!: invariant_rules warmup_failure_moves events_move warmup_bars_move)
qed

lemma startup_warmup_moves: "preserves (lanes_rel R s0) (run_startup_warmup env)"
  unfolding run_startup_warmup_def startup_warmup_def ignoring_errors_def
  by (intro invariant_rules backfill_moves warmup_failure_moves)

end

text \<open>Two such relations: what identifies and types a lane, and its position and run state.\<close>

definition recovery_wf :: "'v LaneRuntime \<Rightarrow> bool" where
  "recovery_wf l \<longleftrightarrow> (lr_recovery_state l = CatchingUp \<longrightarrow> lr_recovery_target_timestamp l \<noteq> None)"

definition lane_typed :: "'v LaneRuntime \<Rightarrow> 'v LaneRuntime \<Rightarrow> bool" where
  "lane_typed l l' \<longleftrightarrow> lr_config l' = lr_config l \<and> lr_lane_symbol l' = lr_lane_symbol l
     \<and> lr_execution_mode l' = lr_execution_mode l \<and> lr_strategy l' = lr_strategy l
     \<and> lr_risk_limits l' = lr_risk_limits l \<and> (recovery_wf l \<longrightarrow> recovery_wf l')"

definition same_position :: "'v LaneRuntime \<Rightarrow> 'v LaneRuntime \<Rightarrow> bool" where
  "same_position l l' \<longleftrightarrow> lr_config l' = lr_config l \<and> lr_lane_symbol l' = lr_lane_symbol l \<and> lr_state l' = lr_state l
     \<and> lr_inventory l' = lr_inventory l \<and> lr_has_position l' = lr_has_position l
     \<and> lr_position_quantity l' = lr_position_quantity l \<and> lr_position_notional_usd l' = lr_position_notional_usd l
     \<and> lr_entry_price l' = lr_entry_price l \<and> lr_realized_pnl_usd l' = lr_realized_pnl_usd l"

lemmas recovery_state_defs = apply_state_only_confirmed_bar_def mark_recovery_page_progress_def start_lane_recovery_state_def
  complete_lane_recovery_state_def mark_lane_out_of_sync_state_def record_recovery_no_progress_state_def Let_def

interpretation typed: lane_moves lane_typed
  by unfold_locales (auto simp: lane_typed_def recovery_wf_def recovery_state_defs)

interpretation position: lane_moves same_position
  by unfold_locales (auto simp: same_position_def recovery_state_defs)

subsection \<open>How the ledgers move\<close>

text \<open>
  Along steps: every account keeps its ledger, and what the runtime does with it are steps of the
  given machine; those of the capital machine take no capital that is not given back or filled.
\<close>

definition ledgers_moved :: "(AccountLedger \<Rightarrow> AccountLedger \<Rightarrow> bool) \<Rightarrow> ('v, 'j, 'w) Runtime \<Rightarrow> ('v, 'j, 'w) Runtime \<Rightarrow> bool" where
  "ledgers_moved step s0 s \<longleftrightarrow>
     list_all2 (\<lambda>(k, l) (k', l'). k = k' \<and> step\<^sup>*\<^sup>* l l') (rt_account_ledgers s0) (rt_account_ledgers s)"

abbreviation ledgers_rel :: "('v, 'j, 'w) Runtime \<Rightarrow> ('v, 'j, 'w) Runtime \<Rightarrow> bool" where
  "ledgers_rel \<equiv> ledgers_moved capital_step"

lemma keeps_ledgers_rel: "keeps rt_account_ledgers m \<Longrightarrow> preserves (ledgers_moved step s0) m"
  by (simp add: keeps_def preserves_def ledgers_moved_def)

lemma ledgers_rel_put:
  assumes "ledgers_moved step s0 s" "hm_get (rt_account_ledgers s) a = Some l" "step\<^sup>*\<^sup>* l l'"
  shows "ledgers_moved step s0 (s\<lparr>rt_account_ledgers := hm_insert a l' (rt_account_ledgers s)\<rparr>)"
  using assms update_moves [of "step\<^sup>*\<^sup>*" "rt_account_ledgers s0" "rt_account_ledgers s" a l l']
  by (simp add: ledgers_moved_def hm_get_def hm_insert_def)

lemma with_ledger_moves:
  assumes "\<And>l. step\<^sup>*\<^sup>* l (snd (f l))"
  shows "preserves (ledgers_moved step s0) (with_ledger a f)"
  using assms
  by (auto simp: preserves_def with_ledger_def account_ledger_handle_def ledgers_rel_put split: option.split)

lemma sync_trades: "preserves (ledgers_moved trade_step s0) (sync_account_ledger_from_instances a)"
  and sync_moves_ledger: "preserves (ledgers_rel s0) (sync_account_ledger_from_instances a)"
  unfolding sync_account_ledger_from_instances_def sync_account_ledger_from_lanes_def
  by (intro invariant_rules with_ledger_moves; auto intro: capital_step.intros trade_step.intros)+

lemma refresh_state_steps: "capital_step\<^sup>*\<^sup>* l (apply_account_ledger_refresh_state state exceptions l)"
  unfolding apply_account_ledger_refresh_state_def Let_def
  by (rule rtranclp.rtrancl_into_rtrancl, rule rtranclp.rtrancl_into_rtrancl, rule rtranclp.rtrancl_into_rtrancl,
      rule r_into_rtranclp) (rule cap_trade [OF trade_inventory] cap_unattributed cap_exceptions cap_live)+

lemma refresh_moves_ledger: "preserves (ledgers_rel s0) (refresh_account_ledger_from_snapshot env a snapshot)"
  unfolding refresh_account_ledger_from_snapshot_def Let_def
  by (intro invariant_rules with_ledger_moves) (simp add: refresh_state_steps)

lemma ledgers_rel_refl: "ledgers_moved step s s"
  by (auto simp: ledgers_moved_def list_all2_conv_all_nth)

lemma ledgers_rel_traded: "ledgers_rel s0 s \<Longrightarrow> ledgers_moved trade_step s s' \<Longrightarrow> ledgers_rel s0 s'"
  unfolding ledgers_moved_def list_all2_conv_all_nth
  by (auto simp: case_prod_beta) (meson rtranclp_trans trade_run_capital)

lemma trading_moves_ledgers: "(\<And>s. preserves (ledgers_moved trade_step s) m) \<Longrightarrow> preserves (ledgers_rel s0) m"
  unfolding preserves_def using ledgers_rel_refl ledgers_rel_traded by blast

lemma lanes_rel_refl: "(\<And>l. R l l) \<Longrightarrow> lanes_rel R s s"
  by (auto simp: lanes_rel_def list_all2_conv_all_nth)

end
