(* ===== verification/Processing.thy ===== *)
theory Processing
  imports RuntimeData
begin

section \<open>Processing bars (openticker-runtime/src/processing)\<close>

text \<open>
  The planner that evaluates a bar (\<open>planner.rs\<close>), the symbol constraints of the connector
  (\<open>constraints.rs\<close>), the order submission (\<open>gateway.rs\<close>), the execution engine and the cycle
  engine of the runtime (\<open>executor_engine.rs\<close>, \<open>executor.rs\<close>, \<open>cycle.rs\<close>) and the entry points
  (\<open>pipeline.rs\<close>). The engines instantiate the interfaces of the lane workflows: the locales of
  LaneExecution and LaneCycle are interpreted on them.

  The lemmas show that a cycle uses every ledger only as the trading machine of the theory Capital does,
  that nothing but an executable decision reaches the provider, that a refused or gated bar moves no
  position, and that a failed submission gives its reservation back.
\<close>

subsection \<open>Planning (planner.rs)\<close>

definition finalize_signal_evaluation ::
    "('j, 'w) RuntimeEnv \<Rightarrow> OhlcvBar \<Rightarrow> AccountRiskSnapshot \<Rightarrow> bool \<Rightarrow> PreparedLaneEvaluation
     \<Rightarrow> ('v, 'j, 'w, ProcessBarEvaluation) runtime_op" where
  "finalize_signal_evaluation env bar account_risk kill_switch prepared =
     (let constraints = resolve_effective_execution_constraints (ple_instance_execution_constraints prepared)
            (ple_connector_execution_constraints prepared) in
      then_do (sync_account_ledger_from_instances (ple_account_id prepared)) (\<lambda>_.
      then_do (tries (account_ledger_rooms (ple_bot_id prepared) (ple_account_id prepared) (ple_bot_budget_pct prepared))) (\<lambda>rooms.
      let resolution = resolve_order_quantity_with_constraints (ple_intent prepared) (ple_market prepared) (bar_close bar)
            (ple_current_position_quantity prepared) (lr_remaining_bot_usd rooms) (lr_remaining_account_usd rooms)
            (ple_risk_limits prepared) (ple_target_order_notional_usd prepared) constraints
            (ple_connector_fractional_entry_supported prepared = Some True) in
      then_do (runtime_now_ms env) (\<lambda>now_ms.
      let (stale_data, diagnostics) = market_data_freshness bar (ple_timeframe prepared)
            (stale_data_ms (ple_risk_limits prepared)) now_ms in
      ok (build_process_bar_evaluation
        \<lparr>ki_signal = ple_signal prepared, ki_signal_metadata = ple_signal_metadata prepared,
          ki_signal_source = ple_signal_source prepared, ki_intent = ple_intent prepared,
          ki_strategy_rationale = ple_strategy_rationale prepared, ki_bar_close = bar_close bar, ki_stale_data = stale_data,
          ki_stale_data_diagnostics = Some diagnostics,
          ki_account_open_positions = word_of_int (ars_open_positions account_risk),
          ki_account_daily_loss_pct = ars_daily_loss_pct account_risk, ki_risk_limits = ple_risk_limits prepared,
          ki_order_quantity_resolution = resolution,
          ki_budget_room = \<lparr>br_remaining_bot_usd = lr_remaining_bot_usd rooms,
            br_remaining_account_usd = lr_remaining_account_usd rooms\<rparr>,
          ki_kill_switch_active = kill_switch, ki_has_position_before = ple_has_position_before prepared,
          ki_cooldown_active = ple_cooldown_active prepared\<rparr>)))))"

text \<open>Only a lane that is enabled and running evaluates; \<open>prepare\<close> updates it.\<close>

definition prepare_running ::
    "string \<Rightarrow> string \<Rightarrow> ('v LaneRuntime \<Rightarrow> PreparedLaneEvaluation \<times> 'v LaneRuntime) \<Rightarrow> ('v, 'j, 'w, PreparedLaneEvaluation) runtime_op" where
  "prepare_running instance_id action prepare =
     then_do (tries (rt_instance instance_id)) (\<lambda>inst.
     if \<not> ic_enabled (lr_config inst) then fail (InstanceDisabled instance_id)
     else if lr_state inst \<noteq> Running then fail (InvalidTransition instance_id (lr_state inst) action)
     else with_instance instance_id prepare)"

definition evaluate_process_bar ::
    "('j, 'w) RuntimeEnv \<Rightarrow> string \<Rightarrow> OhlcvBar \<Rightarrow> SignalPhase \<Rightarrow> AccountRiskSnapshot \<Rightarrow> ('v, 'j, 'w, ProcessBarEvaluation) runtime_op" where
  "evaluate_process_bar env instance_id bar phase account_risk =
     then_do (prepare_running instance_id ''process_bar'' (\<lambda>inst. prepare_process_bar_evaluation inst bar phase)) (\<lambda>prepared.
     then_do (reads rt_kill_switch_active) (\<lambda>kill_switch.
     finalize_signal_evaluation env bar account_risk kill_switch prepared))"

definition evaluate_manual_signal ::
    "('j, 'w) RuntimeEnv \<Rightarrow> string \<Rightarrow> OhlcvBar \<Rightarrow> SignalPhase \<Rightarrow> IndicatorSignal \<Rightarrow> AccountRiskSnapshot \<Rightarrow> ('v, 'j, 'w, ProcessBarEvaluation) runtime_op" where
  "evaluate_manual_signal env instance_id bar phase signal account_risk =
     then_do (prepare_running instance_id ''process_manual_signal'' (\<lambda>inst. prepare_manual_signal_evaluation inst bar signal)) (\<lambda>prepared.
     then_do (reads rt_kill_switch_active) (\<lambda>kill_switch.
     finalize_signal_evaluation env bar account_risk kill_switch prepared))"

subsection \<open>Symbol constraints (constraints.rs)\<close>

definition constraints_operation :: "string \<Rightarrow> string \<Rightarrow> string \<Rightarrow> ProviderOperationLog" where
  "constraints_operation lane_id account_id connector_kind =
     provider_operation lane_id ''provider.symbol_constraints'' account_id connector_kind ''fetch_symbol_constraints''"

definition constraints_fields :: "NormalizedSymbolConstraints \<Rightarrow> (string \<times> Json) list" where
  "constraints_fields n =
     [(''fractional_entry_supported'', json_opt JBool (nsc_fractional_entry_supported n)),
      (''quantity_step'', json_opt json_f64 (quantity_step (nsc_execution_constraints n))),
      (''min_quantity'', json_opt json_f64 (min_quantity (nsc_execution_constraints n))),
      (''min_notional_usd'', json_opt json_f64 (min_notional_usd (nsc_execution_constraints n))),
      (''source'', json_opt JString (nsc_source n))]"

definition store_constraints :: "NormalizedSymbolConstraints \<Rightarrow> 'v LaneRuntime \<Rightarrow> 'v LaneRuntime" where
  "store_constraints n lane =
     lane\<lparr>lr_connector_execution_constraints_initialized := True,
       lr_connector_fractional_entry_supported := nsc_fractional_entry_supported n,
       lr_connector_execution_constraints := (if has_numeric_constraints n then Some (nsc_execution_constraints n) else None)\<rparr>"

definition mark_constraints_initialized :: "'v LaneRuntime \<Rightarrow> 'v LaneRuntime" where
  "mark_constraints_initialized lane = lane\<lparr>lr_connector_execution_constraints_initialized := True\<rparr>"

definition fetch_connector_constraints :: "('j, 'w) RuntimeEnv \<Rightarrow> string \<Rightarrow> string \<Rightarrow> string \<Rightarrow> string \<Rightarrow> ('v, 'j, 'w, unit) runtime_op" where
  "fetch_connector_constraints env lane_id account_id connector_kind symbol =
     (let plog = constraints_operation lane_id account_id connector_kind;
          request = (''request'', JObject [(''symbol'', JString symbol)]) in
      then_do (record_stage env plog ''requested'' (''requesting symbol constraints for '' @ symbol) [request]) (\<lambda>_.
      handle (on_gateway (gw_fetch_normalized_symbol_constraints_unchecked (env_clock env) (env_remote env) account_id symbol))
        (\<lambda>error. if error = LockPoisoned then fail (InvalidServiceConfiguration ''connector registry lock poisoned'')
           else
           then_do (update_instance lane_id mark_constraints_initialized) (\<lambda>_.
           then_do (append_runtime_event env ''order'' (Some lane_id) ''order.quantity_constraints_unavailable''
             (''account_id='' @ account_id @ '',symbol='' @ symbol @ '',reason='' @ gateway_error_text error)) (\<lambda>_.
           ignoring_errors (record_stage env plog ''failed'' (''symbol constraints unavailable for '' @ symbol)
             [request, (''error'', JString (gateway_error_text error))]))))
        (\<lambda>n.
           then_do (update_instance lane_id (store_constraints n)) (\<lambda>_.
           then_do (if has_numeric_constraints n \<or> nsc_fractional_entry_supported n \<noteq> None
              then json_event env ''order'' lane_id ''order.quantity_constraints_resolved''
                ([(''symbol'', JString symbol), (''account_id'', JString account_id)] @ constraints_fields n)
              else ok ()) (\<lambda>_.
           record_stage env plog ''succeeded'' (''resolved symbol constraints for '' @ symbol)
             [request, (''response'', JObject (constraints_fields n))])))))"

definition ensure_lane_connector_execution_constraints ::
    "('j, 'w) RuntimeEnv \<Rightarrow> string \<Rightarrow> string \<Rightarrow> ('v, 'j, 'w, unit) runtime_op" where
  "ensure_lane_connector_execution_constraints env lane_id account_id =
     then_do (reads (\<lambda>s. hm_get (rt_accounts s) account_id)) (\<lambda>found.
     case found of None \<Rightarrow> fail (references_unknown_account lane_id account_id)
     | Some account \<Rightarrow>
         then_do (tries (rt_instance lane_id)) (\<lambda>lane.
         if lr_connector_execution_constraints_initialized lane then ok ()
         else if \<not> ac_reconciliation_remote_snapshot account
           \<or> execution_constraints_are_complete (ic_execution_constraints (lr_config lane)) \<and> ic_market (lr_config lane) \<noteq> Equities
         then update_instance lane_id mark_constraints_initialized
         else fetch_connector_constraints env lane_id account_id (ac_kind account) (lr_lane_symbol lane)))"

subsection \<open>Submission (processing/gateway.rs)\<close>

definition rt_submit_order ::
    "('j, 'w) RuntimeEnv \<Rightarrow> string \<Rightarrow> string \<Rightarrow> string \<Rightarrow> ExecutionRequest \<Rightarrow> ('v, 'j, 'w, AcceptedOrder) runtime_op" where
  "rt_submit_order env lane_id account_id connector_kind request =
     record_call env (provider_operation lane_id ''provider.order_submission'' account_id connector_kind ''submit_order'')
       ''requested'' (''submitting '' @ trade_intent_label (er_intent request) @ '' '' @ er_symbol request @ '' @ ''
         @ env_fixed4 env (er_price request))
       [(''request'', env_request_json env request)]
       (gw_submit_order (env_clock env) (env_remote env) account_id request)
       (\<lambda>accepted. (''succeeded'', connector_kind @ '' accepted '' @ er_symbol request @ '' ''
            @ env_fixed4 env (ao_quantity accepted) @ '' @ '' @ env_fixed4 env (ao_price accepted),
          [(''request'', env_request_json env request), (''response'', env_order_json env accepted)]))
       (\<lambda>error. (''order submission failed for '' @ er_symbol request,
          [(''request'', env_request_json env request), (''error'', JString (gateway_error_text error))]))
       (map_execution_error lane_id account_id)"

subsection \<open>The execution engine (executor_engine.rs, executor.rs)\<close>

fun inventory_error_debug :: "InventoryError \<Rightarrow> string" where
  "inventory_error_debug InvalidQuantity = ''InvalidQuantity''"
| "inventory_error_debug InvalidPrice = ''InvalidPrice''"
| "inventory_error_debug InsufficientQuantity = ''InsufficientQuantity''"

definition inventory_transition_error :: "string \<Rightarrow> string \<Rightarrow> InventoryError \<Rightarrow> ServiceError" where
  "inventory_transition_error instance_id action error =
     InvalidServiceConfiguration (''instance `'' @ instance_id @ ''` inventory transition `'' @ action @ ''` failed: ''
       @ inventory_error_debug error)"

text \<open>An operation on a ledger that may refuse: a refusal leaves the ledger alone.\<close>

definition try_ledger :: "string \<Rightarrow> (AccountLedger \<Rightarrow> 'r + AccountLedger) \<Rightarrow> ('v, 'j, 'w, 'r + unit) runtime_op" where
  "try_ledger account_id f s =
     (case account_ledger_handle account_id s of Inl e \<Rightarrow> (Inl e, s)
      | Inr ledger \<Rightarrow>
          (case f ledger of Inl refused \<Rightarrow> (Inr (Inl refused), s)
           | Inr ledger \<Rightarrow> (Inr (Inr ()), s\<lparr>rt_account_ledgers := hm_insert account_id ledger (rt_account_ledgers s)\<rparr>)))"

definition rt_try_reserve_open ::
    "string \<Rightarrow> LedgerOwnerPath \<Rightarrow> f64 \<Rightarrow> f64 \<Rightarrow> ('v, 'j, 'w, ReservationError + unit) runtime_op" where
  "rt_try_reserve_open account_id owner reserve_notional_usd bot_budget_pct =
     try_ledger account_id (try_reserve_open owner reserve_notional_usd bot_budget_pct)"

definition bad_release :: "string \<Rightarrow> string \<Rightarrow> f64 \<Rightarrow> ServiceError" where
  "bad_release what account_id amount =
     LedgerInvariantViolation (''invalid '' @ what @ '' release amount '' @ show_f64 amount @ '' for account `'' @ account_id @ ''`'')"

definition rt_release_reservation :: "string \<Rightarrow> LedgerOwnerPath \<Rightarrow> f64 \<Rightarrow> ('v, 'j, 'w, unit) runtime_op" where
  "rt_release_reservation account_id owner reserve_notional_usd =
     then_do (try_ledger account_id (release_reservation owner reserve_notional_usd)) (\<lambda>released.
     case released of Inl InvalidReleaseAmount \<Rightarrow> fail (bad_release ''reservation'' account_id reserve_notional_usd) | Inr _ \<Rightarrow> ok ())"

definition rt_reconcile_open_fill :: "string \<Rightarrow> LedgerOwnerPath \<Rightarrow> f64 \<Rightarrow> f64 \<Rightarrow> ('v, 'j, 'w, unit) runtime_op" where
  "rt_reconcile_open_fill account_id owner filled_notional_usd reserve_notional_usd =
     with_ledger account_id (\<lambda>ledger. ((), reconcile_open_fill owner filled_notional_usd reserve_notional_usd ledger))"

definition rt_release_position :: "string \<Rightarrow> LedgerOwnerPath \<Rightarrow> f64 \<Rightarrow> ('v, 'j, 'w, unit) runtime_op" where
  "rt_release_position account_id owner released_notional_usd =
     then_do (try_ledger account_id (release_position owner released_notional_usd)) (\<lambda>released.
     case released of Inl InvalidReleaseAmount \<Rightarrow> fail (bad_release ''position'' account_id released_notional_usd) | Inr _ \<Rightarrow> ok ())"

definition rt_apply_fill_state_mutation ::
    "string \<Rightarrow> OhlcvBar \<Rightarrow> bool \<Rightarrow> AcceptedOrder option \<Rightarrow> OrderLedgerOutcome option \<Rightarrow> RiskDecision
     \<Rightarrow> ('v, 'j, 'w, ProcessBarStateMutation) runtime_op" where
  "rt_apply_fill_state_mutation instance_id bar next_has_position accepted_order order_ledger_outcome risk_decision =
     then_do (with_instance instance_id
       (apply_process_bar_fill_state bar next_has_position accepted_order order_ledger_outcome risk_decision)) (\<lambda>result.
     case result of Inl failure \<Rightarrow> fail (inventory_transition_error instance_id (itf_action failure) (itf_error failure))
     | Inr mutation \<Rightarrow> ok mutation)"

definition rt_position_record_state :: "string \<Rightarrow> ('v, 'j, 'w) Runtime \<Rightarrow> ServiceError + PositionRecordState" where
  "rt_position_record_state instance_id s =
     (case rt_instance instance_id s of Inl e \<Rightarrow> Inl e | Inr inst \<Rightarrow> Inr (position_record_state inst))"

definition rt_bot_budget_pct :: "string \<Rightarrow> ('v, 'j, 'w) Runtime \<Rightarrow> ServiceError + f64" where
  "rt_bot_budget_pct instance_id s =
     (case rt_instance instance_id s of Inl e \<Rightarrow> Inl e | Inr inst \<Rightarrow> Inr (ic_budget_pct (lr_config inst)))"

definition count_reserve_attempt :: "('v, 'j, 'w) Runtime \<Rightarrow> ('v, 'j, 'w) Runtime" where
  "count_reserve_attempt =
     update_observability (\<lambda>obs. obs\<lparr>so_ledger_reserve_attempts_total := saturating_count (so_ledger_reserve_attempts_total obs)\<rparr>)"

definition runtime_execution_engine ::
    "('j, 'w) RuntimeEnv \<Rightarrow> (('v, 'j, 'w) Runtime, ServiceError, ProcessBarRisk) LaneExecutionEngine" where
  "runtime_execution_engine env =
     \<lparr>xe_append_signal_record = (\<lambda>i bar phase signal metadata trace_id.
        append_signal_record_with_trace env i bar phase signal metadata (Some trace_id)),
      xe_append_intent_record = (\<lambda>i bar evaluation trace_id.
        append_intent_record_with_trace env i bar (pe_signal evaluation) (pe_signal_metadata evaluation) (pe_intent evaluation)
          (pe_strategy_rationale evaluation) (pe_has_position_before evaluation) (Some trace_id)),
      xe_append_risk_decision_record = (\<lambda>i bar intent decision trace_id.
        append_risk_decision_record_with_trace env i bar intent decision (Some trace_id)),
      xe_append_runtime_event = (\<lambda>scope i kind payload trace_id.
        append_runtime_event_with_trace env scope (Some i) kind payload (Some trace_id)),
      xe_append_order_record = (\<lambda>i client_order_id intent status price quantity bar trace_id.
        append_order_record_with_trace env i client_order_id intent status price quantity (Some bar) (Some trace_id)),
      xe_append_fill_record = (\<lambda>i order bar trace_id.
        append_fill_record_with_trace env i (ao_client_order_id order) (ao_price order) (ao_quantity order)
          (ao_fee_asset order) (ao_fee_amount order) (ao_fee_normalized_usd order) (Some bar) (Some trace_id)),
      xe_append_position_record = (\<lambda>i position bar trace_id.
        append_position_record_with_trace env i (prs_has_position position) (prs_quantity position)
          (prs_entry_price position) (prs_realized_pnl_usd position) ''order_filled'' (Some bar) (Some trace_id)),
      xe_record_ledger_rejection_with_trace = (\<lambda>i a symbol bar intent outcome trace_id.
        record_ledger_rejection_with_trace env i a symbol bar intent outcome (Some trace_id)),
      xe_record_ledger_rejection = record_ledger_rejection env,
      xe_increment_ledger_reserve_attempts = count_reserve_attempt,
      xe_increment_risk_rejects_total = count_risk_reject,
      xe_bot_budget_pct = rt_bot_budget_pct,
      xe_ledger_owner_path_for_instance = ledger_owner_path_for_instance,
      xe_try_reserve_open = rt_try_reserve_open,
      xe_release_reservation = rt_release_reservation,
      xe_reconcile_open_fill = rt_reconcile_open_fill,
      xe_submit_order = rt_submit_order env,
      xe_record_execution_submit_latency = (\<lambda>elapsed. update_observability
        (\<lambda>obs. obs\<lparr>so_execution_submit_latency := record_elapsed elapsed (so_execution_submit_latency obs)\<rparr>)),
      xe_apply_fill_state_mutation = rt_apply_fill_state_mutation,
      xe_release_position = rt_release_position,
      xe_sync_account_ledger_from_instances = sync_account_ledger_from_instances,
      xe_position_record_state = rt_position_record_state,
      xe_allowed_risk = ProcessBarRisk.Allowed,
      xe_rejected_risk = ProcessBarRisk.Rejected\<rparr>"

subsection \<open>The cycle engine (cycle.rs)\<close>

definition capture_cycle_capital_state :: "('j, 'w) RuntimeEnv \<Rightarrow> string \<Rightarrow> string \<Rightarrow> string \<Rightarrow> ('v, 'j, 'w) Runtime \<Rightarrow> CapitalState" where
  "capture_cycle_capital_state env account_id bot_id symbol s =
     (let snapshot = rt_ledger_snapshot (env_texts env) s in
      build_capital_state
        (find (\<lambda>entry. aps_id entry = account_id) (lsn_accounts snapshot))
        (find (\<lambda>entry. bps_id entry = bot_id \<and> bps_account_id entry = account_id) (lsn_bots snapshot))
        (find (\<lambda>entry. op_account_id (lps_owner entry) = account_id \<and> op_bot_id (lps_owner entry) = bot_id
           \<and> op_symbol (lps_owner entry) = symbol) (lsn_lanes snapshot)))"

definition duplicate_cycle_replay_outcome :: "string \<Rightarrow> string \<Rightarrow> SignalPhase \<Rightarrow> bool \<Rightarrow> ProcessBarOutcome" where
  "duplicate_cycle_replay_outcome bot_id symbol phase has_position =
     idle_outcome bot_id symbol phase has_position ''duplicate_cycle_replay_skipped''"

text \<open>Payloads that do not parse as traces are skipped.\<close>

definition has_matching_cycle_trace ::
    "('j, 'w) RuntimeEnv \<Rightarrow> string \<Rightarrow> string \<Rightarrow> OhlcvBar \<Rightarrow> SignalPhase \<Rightarrow> CycleTriggerKind \<Rightarrow> IndicatorSignal option
     \<Rightarrow> ('v, 'j, 'w) Runtime \<Rightarrow> ServiceError + bool" where
  "has_matching_cycle_trace env bot_id symbol bar phase trigger_kind signal s =
     (case journal_read (jn_recent_cycle_traces_for_bot (env_journal env) bot_id (Some symbol)
        (Some (signal_phase_label phase)) None (Some (rfc env bar)) 50) s of
        Inl e \<Rightarrow> Inl e
      | Inr traces \<Rightarrow>
          Inr (list_ex (\<lambda>trace.
            ct_trigger_kind (tr_trigger trace) = trigger_kind \<and> ct_phase (tr_trigger trace) = phase
            \<and> ct_bar_timestamp (tr_trigger trace) = rfc env bar
            \<and> abs (ct_close (tr_trigger trace) - bar_close bar) < f64_epsilon
            \<and> (case signal of None \<Rightarrow> True | Some expected \<Rightarrow> ss_step_signal (tr_signal_step trace) = expected))
            (List.map_filter (\<lambda>r. env_parse_trace env (ctr_payload_json r)) traces)))"

definition capture_cycle_reconciliation_context ::
    "('j, 'w) RuntimeEnv \<Rightarrow> string \<Rightarrow> string \<Rightarrow> ('v, 'j, 'w) Runtime \<Rightarrow> ServiceError + ReconciliationContext" where
  "capture_cycle_reconciliation_context env bot_id symbol s =
     (case journal_read (jn_latest_reconciliation_for_lane (env_journal env) bot_id symbol) s of Inl e \<Rightarrow> Inl e
      | Inr latest \<Rightarrow> Inr \<lparr>rcx_latest = map_option (\<lambda>r.
          \<lparr>rsn_source = rr_source r, rsn_safe_to_trade = rr_safe_to_trade r, rsn_local_open_orders = rr_local_open_orders r,
           rsn_connector_open_orders = rr_connector_open_orders r, rsn_local_has_position = rr_local_has_position r,
           rsn_connector_has_position = rr_connector_has_position r, rsn_reason = rr_reason r,
           rsn_created_at_ms = rr_created_at_ms r\<rparr>) latest\<rparr>)"

definition persist_cycle_trace_for_evaluation ::
    "('j, 'w) RuntimeEnv \<Rightarrow> TraceIdentity \<Rightarrow> string \<Rightarrow> OhlcvBar \<Rightarrow> ProcessBarEvaluation \<Rightarrow> AcceptedOrder option \<Rightarrow> PositionStep
     \<Rightarrow> CapitalState \<Rightarrow> RelatedEvent list \<Rightarrow> ('v, 'j, 'w, unit) runtime_op" where
  "persist_cycle_trace_for_evaluation env trace account_id bar evaluation accepted_order position_step capital_before related_events =
     then_do (reads (capture_cycle_capital_state env account_id (ti_bot_id trace) (ti_symbol trace))) (\<lambda>capital_after.
     then_do (tries (capture_cycle_reconciliation_context env (ti_bot_id trace) (ti_symbol trace))) (\<lambda>reconciliation_context.
     then_do (runtime_now_ms env) (\<lambda>now_ms.
     rt_append_cycle_trace env (build_cycle_trace trace bar evaluation accepted_order position_step capital_before
       capital_after reconciliation_context related_events now_ms))))"

definition lane_loss_rollover :: "naive_date \<Rightarrow> 'v LaneRuntime \<Rightarrow> 'v LaneRuntime" where
  "lane_loss_rollover current_date lane =
     (if lr_last_loss_reset_date lane \<noteq> Some current_date
      then lane\<lparr>lr_daily_loss_pct_accumulated := 0, lr_last_loss_reset_date := Some current_date\<rparr> else lane)"

definition refresh_daily_loss_rollover :: "naive_date \<Rightarrow> ('v, 'j, 'w) Runtime \<Rightarrow> ('v, 'j, 'w) Runtime" where
  "refresh_daily_loss_rollover current_date s =
     s\<lparr>rt_lanes := map (\<lambda>(lane_id, lane). (lane_id, lane_loss_rollover current_date lane)) (rt_lanes s)\<rparr>"

definition lane_cycle_context :: "string \<Rightarrow> ('v, 'j, 'w) Runtime \<Rightarrow> ServiceError + LaneCycleContext" where
  "lane_cycle_context instance_id s =
     (case rt_instance instance_id s of Inl e \<Rightarrow> Inl e
      | Inr inst \<Rightarrow> Inr \<lparr>lcc_bot_id = ic_id (lr_config inst), lcc_account_id = ic_account (lr_config inst),
          lcc_execution_connector = ic_execution_connector (lr_config inst), lcc_symbol = lr_lane_symbol inst,
          lcc_has_position = lr_has_position inst\<rparr>)"

definition validate_account_connector_kind :: "string \<Rightarrow> string \<Rightarrow> string \<Rightarrow> ('v, 'j, 'w) Runtime \<Rightarrow> ServiceError + unit" where
  "validate_account_connector_kind instance_id account_id execution_connector s =
     (case hm_get (rt_accounts s) account_id of None \<Rightarrow> Inl (references_unknown_account instance_id account_id)
      | Some account \<Rightarrow>
          if ac_kind account \<noteq> execution_connector
          then Inl (InvalidServiceConfiguration (''instance `'' @ instance_id @ ''` execution_connector `''
            @ execution_connector @ ''` does not match account `'' @ account_id @ ''` kind `'' @ ac_kind account @ ''`''))
          else Inr ())"

text \<open>The risk snapshot of the lane's account is taken before the evaluation touches the lane.\<close>

definition with_account_risk ::
    "string \<Rightarrow> (AccountRiskSnapshot \<Rightarrow> ('v, 'j, 'w, 'a) runtime_op) \<Rightarrow> ('v, 'j, 'w, 'a) runtime_op" where
  "with_account_risk instance_id run =
     then_do (tries (rt_instance instance_id)) (\<lambda>inst.
     then_do (reads (rt_account_risk_snapshot (ic_account (lr_config inst)))) run)"

definition outcome_from_evaluation ::
    "string \<Rightarrow> LaneCycleContext \<Rightarrow> SignalPhase \<Rightarrow> ProcessBarEvaluation \<Rightarrow> ProcessBarRisk \<Rightarrow> ('v, 'j, 'w) Runtime
     \<Rightarrow> ServiceError + ProcessBarOutcome" where
  "outcome_from_evaluation instance_id cx phase evaluation risk s =
     (case rt_instance instance_id s of Inl e \<Rightarrow> Inl e
      | Inr inst \<Rightarrow> Inr
          \<lparr>pbo_instance_id = lcc_bot_id cx, pbo_bot_id = lcc_bot_id cx, pbo_symbol = lcc_symbol cx, pbo_phase = phase,
           pbo_signal = pe_signal evaluation,
           pbo_signal_metadata = (if SignalMetadata_is_empty (pe_signal_metadata evaluation) then None
             else Some (pe_signal_metadata evaluation)),
           pbo_intent = pe_intent evaluation, pbo_strategy_rationale = pe_strategy_rationale evaluation,
           pbo_has_position = lr_has_position inst, pbo_risk = risk\<rparr>)"

text \<open>\<open>TraceIdentity::new\<close> draws the id from the clock and the process-wide sequence.\<close>

definition new_trace_id :: "('j, 'w) RuntimeEnv \<Rightarrow> ('v, 'j, 'w, string) runtime_op" where
  "new_trace_id env s =
     (let outside = gw_outside (rt_gateway s) in
      case generate_trace_id (ck_now_nanos (env_clock env) (ow_ticks outside)) (rt_trace_sequence s) of
        (trace_id, sequence) \<Rightarrow>
          (Inr trace_id, s\<lparr>rt_gateway := (rt_gateway s)\<lparr>gw_outside := outside\<lparr>ow_ticks := ow_ticks outside + 1\<rparr>\<rparr>,
            rt_trace_sequence := sequence\<rparr>))"

text \<open>\<open>submit_elapsed\<close> is the time the submission of the cycle takes.\<close>

definition runtime_cycle_engine ::
    "('j, 'w) RuntimeEnv \<Rightarrow> int \<Rightarrow> (('v, 'j, 'w) Runtime, ServiceError, ProcessBarEvaluation, AcceptedOrder, PositionStep, CapitalState,
       RelatedEvent, ProcessBarRisk, ProcessBarOutcome) LaneCycleEngine" where
  "runtime_cycle_engine env submit_elapsed =
     \<lparr>ce_ensure_kill_switch_inactive = (\<lambda>s. if rt_kill_switch_active s then Inl KillSwitchEnabled else Inr ()),
      ce_lane_cycle_context = lane_cycle_context,
      ce_has_matching_cycle_trace = has_matching_cycle_trace env,
      ce_duplicate_cycle_replay_outcome = duplicate_cycle_replay_outcome,
      ce_sync_account_ledger = sync_account_ledger_from_instances,
      ce_capture_cycle_capital_state = capture_cycle_capital_state env,
      ce_validate_account_connector_kind = validate_account_connector_kind,
      ce_ensure_account_connector_ready = ensure_account_connector_ready env,
      ce_ensure_connector_execution_constraints = ensure_lane_connector_execution_constraints env,
      ce_refresh_daily_loss_rollover = refresh_daily_loss_rollover,
      ce_process_pending_warmup_bar = rt_process_pending_warmup_bar env,
      ce_process_pending_recovery_bar = (\<lambda>i phase. tries (process_pending_recovery_bar i phase)),
      ce_evaluate_process_bar = (\<lambda>i bar phase. with_account_risk i (evaluate_process_bar env i bar phase)),
      ce_evaluate_manual_signal = (\<lambda>i bar phase signal. with_account_risk i (evaluate_manual_signal env i bar phase signal)),
      ce_append_process_bar_records = append_process_bar_records (runtime_execution_engine env),
      ce_apply_risk_decision_effects = (\<lambda>i account_id connector_kind symbol bar evaluation trace_id.
        apply_risk_decision_effects (runtime_execution_engine env) (env_texts env) submit_elapsed i account_id connector_kind
          symbol bar (pe_intent evaluation) (pe_next_has_position evaluation) (pe_order_quantity evaluation)
          (pe_order_ledger_outcome evaluation) (pe_risk_decision evaluation) trace_id),
      ce_apply_process_bar_state = (\<lambda>i account_id bar evaluation accepted_order trace_id.
        apply_process_bar_state_effects (runtime_execution_engine env) i account_id bar (pe_has_position_before evaluation)
          (pe_next_has_position evaluation) (pe_order_ledger_outcome evaluation) (pe_risk_decision evaluation)
          accepted_order trace_id),
      ce_persist_cycle_trace_for_evaluation = persist_cycle_trace_for_evaluation env,
      ce_update_last_dispatched_bar_timestamp = (\<lambda>i timestamp.
        update_instance i (\<lambda>inst. inst\<lparr>lr_last_dispatched_bar_timestamp := Some timestamp\<rparr>)),
      ce_outcome_from_evaluation = outcome_from_evaluation,
      ce_record_successful_cycle_latency = (\<lambda>elapsed. update_observability
        (\<lambda>obs. obs\<lparr>so_process_bar_latency := record_elapsed elapsed (so_process_bar_latency obs)\<rparr>)),
      ce_new_trace_id = new_trace_id env\<rparr>"

subsection \<open>Entry points (pipeline.rs)\<close>

text \<open>The two measured times of a cycle: of its submission and of the whole.\<close>

record CycleTimes =
  cy_submit :: int
  cy_cycle :: int

definition process_bar_for_lane ::
    "('j, 'w) RuntimeEnv \<Rightarrow> CycleTimes \<Rightarrow> string \<Rightarrow> OhlcvBar \<Rightarrow> SignalPhase \<Rightarrow> ('v, 'j, 'w, ProcessBarOutcome) runtime_op" where
  "process_bar_for_lane env spent instance_id bar phase =
     run_process_bar_cycle (runtime_cycle_engine env (cy_submit spent)) (env_texts env) (cy_cycle spent) instance_id bar phase"

definition process_bar ::
    "('j, 'w) RuntimeEnv \<Rightarrow> CycleTimes \<Rightarrow> string \<Rightarrow> OhlcvBar \<Rightarrow> SignalPhase \<Rightarrow> ('v, 'j, 'w, ProcessBarOutcome) runtime_op" where
  "process_bar env spent instance_id bar phase =
     then_do (tries (single_lane_id_for_bot instance_id ''process_bar'')) (\<lambda>lane_id.
     process_bar_for_lane env spent lane_id bar phase)"

definition process_bar_for_symbol ::
    "('j, 'w) RuntimeEnv \<Rightarrow> CycleTimes \<Rightarrow> string \<Rightarrow> string \<Rightarrow> OhlcvBar \<Rightarrow> SignalPhase \<Rightarrow> ('v, 'j, 'w, ProcessBarOutcome) runtime_op" where
  "process_bar_for_symbol env spent instance_id symbol bar phase =
     then_do (tries (resolve_lane_id instance_id symbol)) (\<lambda>lane_id. process_bar_for_lane env spent lane_id bar phase)"

definition process_manual_signal_for_lane ::
    "('j, 'w) RuntimeEnv \<Rightarrow> CycleTimes \<Rightarrow> string \<Rightarrow> IndicatorSignal \<Rightarrow> f64 \<Rightarrow> timestamp \<Rightarrow> ('v, 'j, 'w, ProcessBarOutcome) runtime_op" where
  "process_manual_signal_for_lane env spent instance_id signal price timestamp =
     (if signal = NoSignal then fail (InvalidServiceConfiguration ''manual signal injection requires a non-none signal'')
      else if \<not> is_finite price \<or> price \<le> 0
      then fail (InvalidServiceConfiguration ''manual signal injection requires a finite positive price'')
      else run_manual_signal_cycle (runtime_cycle_engine env (cy_submit spent)) (env_texts env) (cy_cycle spent) instance_id
        signal price timestamp)"

definition process_manual_signal ::
    "('j, 'w) RuntimeEnv \<Rightarrow> CycleTimes \<Rightarrow> string \<Rightarrow> IndicatorSignal \<Rightarrow> f64 \<Rightarrow> timestamp \<Rightarrow> ('v, 'j, 'w, ProcessBarOutcome) runtime_op" where
  "process_manual_signal env spent instance_id signal price timestamp =
     then_do (tries (single_lane_id_for_bot instance_id ''process_manual_signal'')) (\<lambda>lane_id.
     process_manual_signal_for_lane env spent lane_id signal price timestamp)"

definition process_manual_signal_for_symbol ::
    "('j, 'w) RuntimeEnv \<Rightarrow> CycleTimes \<Rightarrow> string \<Rightarrow> string \<Rightarrow> IndicatorSignal \<Rightarrow> f64 \<Rightarrow> timestamp \<Rightarrow> ('v, 'j, 'w, ProcessBarOutcome) runtime_op" where
  "process_manual_signal_for_symbol env spent instance_id symbol signal price timestamp =
     then_do (tries (resolve_lane_id instance_id symbol)) (\<lambda>lane_id.
     process_manual_signal_for_lane env spent lane_id signal price timestamp)"

subsection \<open>What the engines leave unchanged\<close>

text \<open>Views that ignore the counters too: the execution engine's logging keeps them.\<close>

locale logged_view = quiet_view view
  for view :: "('v, 'j, 'w) Runtime \<Rightarrow> 'c" +
  assumes view_counters: "view (s\<lparr>rt_observability := counters\<rparr>) = view s"
begin

lemma counting_quiet: "view (update_observability f s) = view s" "view (count_risk_reject s) = view s"
    "view (count_ledger_reject outcome s) = view s" "view (count_reserve_attempt s) = view s"
  by (simp_all add: update_observability_def count_risk_reject_def count_ledger_reject_def count_reserve_attempt_def view_counters
      split: OrderLedgerOutcome.split)

lemma rejection_quiet:
  "keeps view (record_ledger_rejection_with_trace env i a sy b intent lo t)"
  "keeps view (record_ledger_rejection env i a sy b intent lo)"
  unfolding record_ledger_rejection_def record_ledger_rejection_with_trace_def
  by (intro frame_rules keeps_updates event_writes_quiet; simp add: counting_quiet)+

end

sublocale logged_view < logged: execution_logging "runtime_execution_engine env" view for env
  by unfold_locales
    (simp_all add: runtime_execution_engine_def record_writes_quiet event_writes_quiet rejection_quiet counting_quiet)

interpretation logged_ledgers: logged_view rt_account_ledgers
  by unfold_locales simp

interpretation logged_lanes: logged_view rt_lanes
  by unfold_locales simp

interpretation logged_world: logged_view runtime_world
  by unfold_locales (simp add: runtime_world_def)

interpretation logged_kill_switch: logged_view rt_kill_switch_active
  by unfold_locales simp

text \<open>Ledger operations and lane updates keep every view that ignores the ledgers or the lanes.\<close>

lemma try_ledger_keeps: "(\<And>s ls. view (s\<lparr>rt_account_ledgers := ls\<rparr>) = view s) \<Longrightarrow> keeps view (try_ledger a f)"
  by (simp add: keeps_def try_ledger_def split: sum.split)

lemma with_ledger_keeps: "(\<And>s ls. view (s\<lparr>rt_account_ledgers := ls\<rparr>) = view s) \<Longrightarrow> keeps view (with_ledger a f)"
  by (simp add: keeps_def with_ledger_def split: sum.split)

lemma with_instance_keeps: "(\<And>s ls. view (s\<lparr>rt_lanes := ls\<rparr>) = view s) \<Longrightarrow> keeps view (with_instance i f)"
  by (simp add: keeps_def with_instance_def split: option.split)

lemma keeps_released:
  "keeps view m \<Longrightarrow> keeps view (then_do m (\<lambda>released. case released of Inl InvalidReleaseAmount \<Rightarrow> fail e | Inr _ \<Rightarrow> ok ()))"
  by (intro frame_rules) (auto split: LedgerError.split intro: frame_rules)

lemma ledger_ops_keep:
  assumes "\<And>s ls. view (s\<lparr>rt_account_ledgers := ls\<rparr>) = view s"
  shows "keeps view (rt_try_reserve_open a ow n pct)" "keeps view (rt_release_reservation a ow n)"
    "keeps view (rt_reconcile_open_fill a ow f n)" "keeps view (rt_release_position a ow n)"
    "keeps view (sync_account_ledger_from_instances a)"
  unfolding rt_try_reserve_open_def rt_release_reservation_def rt_reconcile_open_fill_def rt_release_position_def
    sync_account_ledger_from_instances_def
  using assms by (intro frame_rules keeps_released try_ledger_keeps with_ledger_keeps; simp)+

lemma fill_state_keeps:
  "(\<And>s ls. view (s\<lparr>rt_lanes := ls\<rparr>) = view s) \<Longrightarrow> keeps view (rt_apply_fill_state_mutation i b nhp ord lo d)"
  unfolding rt_apply_fill_state_mutation_def by (intro frame_rules with_instance_keeps)

interpretation runtime_world: execution_world "runtime_execution_engine env" runtime_world for env
  by unfold_locales (simp_all add: runtime_execution_engine_def ledger_ops_keep fill_state_keeps runtime_world_def)

lemma submit_quiet: "keeps rt_account_ledgers (rt_submit_order env i a ck request)" "keeps rt_lanes (rt_submit_order env i a ck request)"
  unfolding rt_submit_order_def
  by (intro quiet_ledgers.record_call_quiet free_ledgers.on_gateway_free quiet_lanes.record_call_quiet free_lanes.on_gateway_free)+

lemma owner_of_lanes: "rt_lanes s' = rt_lanes s \<Longrightarrow> ledger_owner_path_for_instance i s' = ledger_owner_path_for_instance i s"
  by (simp add: ledger_owner_path_for_instance_def rt_instance_def)

lemma owner_keeps: "keeps rt_lanes m \<Longrightarrow> keeps (ledger_owner_path_for_instance i) m"
  by (auto simp: keeps_def intro: owner_of_lanes)

definition missing_ledger :: "string \<Rightarrow> ServiceError" where
  "missing_ledger a = InvalidServiceConfiguration (''missing capital ledger for account `'' @ a @ ''`'')"

interpretation runtime_ledger: execution_ledger
    "runtime_execution_engine env :: (('v, 'j, 'w) Runtime, ServiceError, ProcessBarRisk) LaneExecutionEngine" rt_account_ledgers
    "\<lambda>a l s. s\<lparr>rt_account_ledgers := hm_insert a l (rt_account_ledgers s)\<rparr>" missing_ledger
    "bad_release ''reservation''" "bad_release ''position''" "\<lambda>a s. lane_open_notionals (accounting_lanes_for_account a s)"
  for env :: "('j, 'w) RuntimeEnv"
proof unfold_locales
  show "keeps (xe_ledger_owner_path_for_instance (runtime_execution_engine env) i)
      (xe_submit_order (runtime_execution_engine env) i a ck request)" for i a ck request
    by (simp add: runtime_execution_engine_def owner_keeps submit_quiet)
  show "xe_ledger_owner_path_for_instance (runtime_execution_engine env) i
      (xe_record_execution_submit_latency (runtime_execution_engine env) ms s)
    = xe_ledger_owner_path_for_instance (runtime_execution_engine env) i s" for i ms and s :: "('v, 'j, 'w) Runtime"
    by (auto simp: runtime_execution_engine_def update_observability_def intro: owner_of_lanes)
  show "xe_ledger_owner_path_for_instance (runtime_execution_engine env) i (s\<lparr>rt_account_ledgers := hm_insert a l (rt_account_ledgers s)\<rparr>)
    = xe_ledger_owner_path_for_instance (runtime_execution_engine env) i s" for i a l and s :: "('v, 'j, 'w) Runtime"
    by (auto simp: runtime_execution_engine_def intro: owner_of_lanes)
qed (auto simp: runtime_execution_engine_def rt_try_reserve_open_def rt_release_reservation_def rt_release_position_def
      rt_reconcile_open_fill_def sync_account_ledger_from_instances_def try_ledger_def with_ledger_def account_ledger_handle_def
      missing_ledger_def then_do_def sync_account_ledger_from_lanes_def submit_quiet fill_state_keeps
      split: option.split sum.split LedgerError.split)

subsection \<open>What a cycle keeps\<close>

abbreviation ledgers_from :: "('v, 'j, 'w) Runtime \<Rightarrow> (string, AccountLedger) hmap \<Rightarrow> bool" where
  "ledgers_from s0 \<equiv> list_all2 (\<lambda>(k, l) (k', l'). k = k' \<and> trade_step\<^sup>*\<^sup>* l l') (rt_account_ledgers s0)"

abbreviation lanes_from :: "('v LaneRuntime \<Rightarrow> 'v LaneRuntime \<Rightarrow> bool) \<Rightarrow> ('v, 'j, 'w) Runtime \<Rightarrow> (string, 'v LaneRuntime) hmap \<Rightarrow> bool" where
  "lanes_from R s0 \<equiv> list_all2 (\<lambda>(k, l) (k', l'). k = k' \<and> R l l') (rt_lanes s0)"

lemma ledgers_rel_view:
  "preserves (\<lambda>s. ledgers_from s0 (rt_account_ledgers s)) m \<longleftrightarrow> preserves (ledgers_moved trade_step s0) m"
  by (simp add: preserves_def ledgers_moved_def)

lemma ledgers_from_closed: "trade_closed (ledgers_from s0)"
  unfolding trade_closed_def hm_get_def hm_insert_def
  by (intro allI impI update_moves [where R = "trade_step\<^sup>*\<^sup>*"]) (auto intro: rtranclp_trans)

lemma lanes_rel_view:
  "preserves (\<lambda>s. lanes_from R s0 (rt_lanes s)) m \<longleftrightarrow> preserves (lanes_rel R s0) m"
  by (simp add: preserves_def lanes_rel_def)

text \<open>Lane updates of the planner, the constraints and the executor, for a relation they respect.\<close>

locale cycle_lanes = lane_moves R
  for R :: "'v LaneRuntime \<Rightarrow> 'v LaneRuntime \<Rightarrow> bool" +
  assumes prepare_bar: "R l (snd (prepare_process_bar_evaluation l bar phase))"
    and prepare_manual: "R l (snd (prepare_manual_signal_evaluation l bar signal))"
    and constraints_known: "R l (store_constraints n l)" "R l (mark_constraints_initialized l)"
    and rollover: "R l (lane_loss_rollover date l)"
    and dispatched: "R l (l\<lparr>lr_last_dispatched_bar_timestamp := Some time\<rparr>)"
begin

lemma constraints_move: "preserves (lanes_rel R s0) (ensure_lane_connector_execution_constraints env i a)"
proof -
  have "preserves (lanes_rel R s0) (fetch_connector_constraints env i a k symbol)" for k symbol
    unfolding fetch_connector_constraints_def Let_def ignoring_errors_def
    by (intro invariant_rules events_move update_lane constraints_known keeps_lanes_rel quiet_lanes.event_writes_quiet
        free_lanes.on_gateway_free)
  then show ?thesis
    unfolding ensure_lane_connector_execution_constraints_def
    by (intro invariant_rules update_lane constraints_known)
qed

lemma rollover_moves: "lanes_rel R s0 s \<Longrightarrow> lanes_rel R s0 (refresh_daily_loss_rollover date s)"
  by (simp add: lanes_rel_def refresh_daily_loss_rollover_def list_all2_map2, erule list_all2_mono)
    (auto intro: trans rollover)

lemma finalize_moves: "preserves (lanes_rel R s0) (finalize_signal_evaluation env bar risk kill prepared)"
  unfolding finalize_signal_evaluation_def Let_def
  by (intro invariant_rules keeps_lanes_rel quiet_lanes.now_quiet ledger_ops_keep) simp_all

lemma evaluation_moves:
  "preserves (lanes_rel R s0) (with_account_risk i (evaluate_process_bar env i bar phase))"
  "preserves (lanes_rel R s0) (with_account_risk i (evaluate_manual_signal env i bar phase signal))"
  unfolding with_account_risk_def evaluate_process_bar_def evaluate_manual_signal_def prepare_running_def
  by (intro invariant_rules finalize_moves with_lane prepare_bar prepare_manual)+

end

lemmas inventory_sync_defs = sync_inventory_from_runtime_fields_def sync_runtime_fields_from_inventory_def

lemma open_fill_typed: "apply_open_long_fill bar order l = (r, l') \<Longrightarrow> lane_typed l l'"
  by (auto simp: lane_typed_def recovery_wf_def apply_open_long_fill_def inventory_sync_defs Let_def split: sum.splits if_splits)

lemma close_fill_typed: "apply_close_long_fill bar order l = (r, l') \<Longrightarrow> lane_typed l l'"
  by (auto simp: lane_typed_def recovery_wf_def apply_close_long_fill_def inventory_sync_defs Let_def split: sum.splits if_splits)

lemma flag_typed:
  "lane_typed l (l'\<lparr>lr_cooldown_until_ms := c\<rparr>) \<longleftrightarrow> lane_typed l l'" "lane_typed l (l'\<lparr>lr_has_position := b\<rparr>) \<longleftrightarrow> lane_typed l l'"
  by (simp_all add: lane_typed_def recovery_wf_def)

lemma fill_typed: "lane_typed l (snd (apply_process_bar_fill_state bar nhp accepted outcome decision l))"
proof (cases decision)
  case (Allow i)
  then show ?thesis
    by (cases accepted) (auto simp: apply_process_bar_fill_state_def flag_typed typed.refl split: prod.split sum.split
        dest: open_fill_typed close_fill_typed)
qed (simp add: apply_process_bar_fill_state_def Let_def flag_typed typed.refl)

locale trading_lanes = cycle_lanes R
  for R :: "'v LaneRuntime \<Rightarrow> 'v LaneRuntime \<Rightarrow> bool" +
  assumes fill: "R l (snd (apply_process_bar_fill_state bar nhp accepted outcome decision l))"

sublocale trading_lanes < executing: execution_invariant
  "runtime_execution_engine env :: (('v, 'j, 'w) Runtime, ServiceError, ProcessBarRisk) LaneExecutionEngine" rt_lanes "lanes_from R s0"
  for env :: "('j, 'w) RuntimeEnv" and s0 :: "('v, 'j, 'w) Runtime"
  by unfold_locales
    (simp_all add: lanes_rel_view runtime_execution_engine_def rt_apply_fill_state_mutation_def keeps_lanes_rel ledger_ops_keep submit_quiet
      invariant_rules with_lane fill)

interpretation typed: trading_lanes lane_typed
proof unfold_locales
  show "lane_typed l (snd (apply_process_bar_fill_state bar nhp accepted outcome decision l))" for bar nhp accepted outcome decision and l :: "'v LaneRuntime"
    by (rule fill_typed)
qed (auto simp: lane_typed_def recovery_wf_def prepare_process_bar_evaluation_def prepare_manual_signal_evaluation_def
    store_constraints_def mark_constraints_initialized_def lane_loss_rollover_def Let_def split: prod.split)

text \<open>Views that ignore the lanes as well: what happens before a trade, and the bookkeeping after it, keeps them.\<close>

locale lane_free = gateway_free view
  for view :: "('v, 'j, 'w) Runtime \<Rightarrow> 'c" +
  assumes view_lanes: "view (s\<lparr>rt_lanes := ls\<rparr>) = view s"
begin

lemma instance_free: "keeps view (with_instance i f)" "keeps view (update_instance i g)"
  unfolding update_instance_def by (intro with_instance_keeps view_lanes)+

lemma constraints_free: "keeps view (ensure_lane_connector_execution_constraints env i a)"
  unfolding ensure_lane_connector_execution_constraints_def fetch_connector_constraints_def Let_def
  by (intro frame_rules instance_free on_gateway_free ignoring_quiet event_writes_quiet json_event_quiet)

lemma rollover_free: "view (refresh_daily_loss_rollover date s) = view s"
  by (simp add: refresh_daily_loss_rollover_def view_lanes)

lemma warmup_free: "keeps view (rt_process_pending_warmup_bar env i bar phase)"
  unfolding rt_process_pending_warmup_bar_def process_pending_warmup_bar_def apply_confirmed_warmup_bar_def Let_def
  by (auto simp: runtime_warmup_engine_def rt_apply_state_only_confirmed_bar_def rt_advance_warmup_state_def
      intro!: frame_rules instance_free json_event_quiet)

lemma persist_free: "keeps view (persist_cycle_trace_for_evaluation env tr a bar ev ord ps cb evs)"
  unfolding persist_cycle_trace_for_evaluation_def by (intro frame_rules now_quiet event_writes_quiet)

end

interpretation lane_free_ledgers: lane_free rt_account_ledgers
  by unfold_locales simp

interpretation lane_free_kill_switch: lane_free rt_kill_switch_active
  by unfold_locales simp

lemma persist_keeps_lanes: "keeps rt_lanes (persist_cycle_trace_for_evaluation env tr a bar ev ord ps cb evs)"
  unfolding persist_cycle_trace_for_evaluation_def by (intro frame_rules quiet_lanes.now_quiet quiet_lanes.event_writes_quiet)

lemma new_trace_id_keeps:
  "keeps rt_lanes (new_trace_id env)" "keeps rt_account_ledgers (new_trace_id env)" "keeps rt_kill_switch_active (new_trace_id env)"
  by (simp_all add: keeps_def new_trace_id_def Let_def split: prod.split)

lemma counted_same: "ledgers_moved step s0 (update_observability f s) = ledgers_moved step s0 s" "lanes_rel R s0 (update_observability f s) = lanes_rel R s0 s"
  by (simp_all add: ledgers_moved_def lanes_rel_def update_observability_def)

lemma rollover_same: "ledgers_moved step s0 (refresh_daily_loss_rollover date s) = ledgers_moved step s0 s"
  by (simp add: ledgers_moved_def lane_free_ledgers.rollover_free)

lemma effects_trade:
  "preserves (ledgers_moved trade_step s0) (append_process_bar_records (runtime_execution_engine env) i b ph ev t)"
  "preserves (ledgers_moved trade_step s0) (apply_risk_decision_effects (runtime_execution_engine env) tx ms i a ck sy b intent nhp q lo d t)"
  "preserves (ledgers_moved trade_step s0) (apply_process_bar_state_effects (runtime_execution_engine env) i a b hpb nhp lo d order t)"
  unfolding ledgers_rel_view [symmetric]
  by (rule keeps_preserves [OF logged_ledgers.logged.records_keep] runtime_ledger.effects_settle [OF ledgers_from_closed]
      runtime_ledger.state_effects_settle [OF ledgers_from_closed])+

lemma evaluation_trades:
  "preserves (ledgers_moved trade_step s0) (with_account_risk i (evaluate_process_bar env i bar phase))"
  "preserves (ledgers_moved trade_step s0) (with_account_risk i (evaluate_manual_signal env i bar phase signal))"
  unfolding with_account_risk_def evaluate_process_bar_def evaluate_manual_signal_def prepare_running_def
    finalize_signal_evaluation_def Let_def
  by (intro invariant_rules sync_trades keeps_ledgers_rel lane_free_ledgers.instance_free quiet_ledgers.now_quiet)+

interpretation cycle_ledgers: cycle_invariant
  "runtime_cycle_engine env ms :: (('v, 'j, 'w) Runtime, _, _, _, _, _, _, _, _) LaneCycleEngine" "ledgers_moved trade_step s0"
  for env :: "('j, 'w) RuntimeEnv" and ms and s0 :: "('v, 'j, 'w) Runtime"
  by unfold_locales
    (simp_all add: runtime_cycle_engine_def effects_trade sync_trades keeps_ledgers_rel free_ledgers.ready_free
      lane_free_ledgers.constraints_free lane_free_ledgers.warmup_free lane_free_ledgers.persist_free
      lane_free_ledgers.instance_free keeps_tries evaluation_trades new_trace_id_keeps counted_same rollover_same)

sublocale trading_lanes < cycling: cycle_invariant
  "runtime_cycle_engine env ms :: (('v, 'j, 'w) Runtime, _, _, _, _, _, _, _, _) LaneCycleEngine" "lanes_rel R s0"
  for env :: "('j, 'w) RuntimeEnv" and ms and s0 :: "('v, 'j, 'w) Runtime"
proof unfold_locales
  show "preserves (lanes_rel R s0) (ce_update_last_dispatched_bar_timestamp (runtime_cycle_engine env ms) i ts)" for i ts
    by (simp add: runtime_cycle_engine_def update_lane dispatched)
qed (simp_all add: runtime_cycle_engine_def executing.records_preserve [unfolded lanes_rel_view]
      executing.effects_preserve [unfolded lanes_rel_view] executing.state_effects_preserve [unfolded lanes_rel_view]
      ledger_ops_keep keeps_lanes_rel free_lanes.ready_free constraints_move pending_warmup_moves persist_keeps_lanes keeps_tries
      evaluation_moves new_trace_id_keeps counted_same rollover_moves)

lemma cycles_trade:
  "preserves (ledgers_moved trade_step s0) (process_bar_for_lane env spent i bar phase)"
  "preserves (ledgers_moved trade_step s0) (process_manual_signal_for_lane env spent i signal price timestamp)"
  unfolding process_bar_for_lane_def run_process_bar_cycle_def process_manual_signal_for_lane_def run_manual_signal_cycle_def
  by (intro invariant_rules cycle_ledgers.cycle_preserves)+

lemmas cycles_move_ledgers = trading_moves_ledgers [OF cycles_trade(1)] trading_moves_ledgers [OF cycles_trade(2)]

definition no_capital_reserved :: "('v, 'j, 'w) Runtime \<Rightarrow> bool" where
  "no_capital_reserved s \<longleftrightarrow> list_all unreserved (hm_values (rt_account_ledgers s))"

lemma trading_returns_capital: "ledgers_moved trade_step s s' \<Longrightarrow> no_capital_reserved s \<Longrightarrow> no_capital_reserved s'"
  unfolding ledgers_moved_def no_capital_reserved_def hm_values_def
  by (induction rule: list_all2_induct) (auto dest: trade_run_unreserved)


subsection \<open>Gated bars\<close>

text \<open>What the steps before the gates keep of a lane: everything the gates look at, and its position.\<close>

definition same_gates :: "'v LaneRuntime \<Rightarrow> 'v LaneRuntime \<Rightarrow> bool" where
  "same_gates l l' \<longleftrightarrow> same_position l l' \<and> lr_warmup l' = lr_warmup l \<and> lr_recovery_state l' = lr_recovery_state l"

definition gated :: "'v LaneRuntime \<Rightarrow> bool" where
  "gated l \<longleftrightarrow> \<not> ic_enabled (lr_config l) \<or> lr_state l \<noteq> Running \<or> \<not> wu_ready (lr_warmup l) \<or> lr_recovery_state l \<noteq> Healthy"

lemma same_gates_refl: "same_gates l l"
  by (simp add: same_gates_def position.refl)

lemma same_gates_trans: "same_gates a b \<Longrightarrow> same_gates b c \<Longrightarrow> same_gates a c"
  using position.trans by (auto simp: same_gates_def)

lemma gates_position: "lanes_rel same_gates s0 s \<Longrightarrow> lanes_rel same_position s0 s"
  unfolding lanes_rel_def by (erule list_all2_mono) (auto simp: same_gates_def)

lemma gates_update: "(\<And>l. same_gates l (f l)) \<Longrightarrow> preserves (lanes_rel same_gates s0) (update_instance i f)"
  unfolding update_instance_def by (rule with_instance_moves) (auto intro: same_gates_trans)

lemma constraints_keep_gates: "preserves (lanes_rel same_gates s0) (ensure_lane_connector_execution_constraints env i a)"
proof -
  have known: "same_gates l (store_constraints n l)" "same_gates l (mark_constraints_initialized l)" for n and l :: "'a LaneRuntime"
    by (simp_all add: same_gates_def same_position_def store_constraints_def mark_constraints_initialized_def)
  have "preserves (lanes_rel same_gates s0) (fetch_connector_constraints env i a k symbol)" for k symbol
    unfolding fetch_connector_constraints_def Let_def ignoring_errors_def
    by (intro invariant_rules gates_update known keeps_lanes_rel quiet_lanes.event_writes_quiet quiet_lanes.json_event_quiet
        free_lanes.on_gateway_free)
  then show ?thesis
    unfolding ensure_lane_connector_execution_constraints_def by (intro invariant_rules gates_update known)
qed

lemma rollover_keeps_gates: "lanes_rel same_gates s0 s \<Longrightarrow> lanes_rel same_gates s0 (refresh_daily_loss_rollover date s)"
  by (simp add: lanes_rel_def refresh_daily_loss_rollover_def list_all2_map2, erule list_all2_mono)
    (auto simp: same_gates_def same_position_def lane_loss_rollover_def split: if_splits)

text \<open>The gates pass only a lane that is warmed up and healthy, and then they change nothing.\<close>

lemma pending_passes:
  assumes l: "hm_get (rt_lanes s0) i = Some l"
  shows "runs (lanes_rel same_gates s0) (process_pending (runtime_cycle_engine env ms) i bar phase MarketBarInvocation)
    (lanes_rel same_position s0)
    (\<lambda>pending s. lanes_rel same_position s0 s \<and> (pending = None \<longrightarrow> lanes_rel same_gates s0 s \<and> wu_ready (lr_warmup l) \<and> lr_recovery_state l = Healthy))"
proof -
  have lane: "\<exists>l'. hm_get (rt_lanes s) i = Some l' \<and> same_gates l l'" if "lanes_rel same_gates s0 s" for s :: "('a, 'b, 'c) Runtime"
    using that l by (rule lanes_rel_get)
  have warm: "runs (lanes_rel same_gates s0) (rt_process_pending_warmup_bar env i bar phase) (lanes_rel same_position s0)
    (\<lambda>pending s. lanes_rel same_position s0 s \<and> (pending = None \<longrightarrow> lanes_rel same_gates s0 s \<and> wu_ready (lr_warmup l)))"
    unfolding runs_def
  proof (intro allI impI)
    fix s assume s: "lanes_rel same_gates s0 s"
    have moves: "lanes_rel same_position s0 (snd (rt_process_pending_warmup_bar env i bar phase s))"
      using preservesD [OF position.pending_warmup_moves] gates_position [OF s] .
    obtain l' where l': "hm_get (rt_lanes s) i = Some l'" "same_gates l l'" using lane [OF s] by blast
    have "rt_process_pending_warmup_bar env i bar phase s = (Inr None, s)" if "wu_ready (lr_warmup l')"
      using that l' by (simp add: rt_process_pending_warmup_bar_def process_pending_warmup_bar_def runtime_warmup_engine_def
          warmup_context_def rt_instance_def then_do_def)
    moreover have "fst (rt_process_pending_warmup_bar env i bar phase s) \<noteq> Inr None" if "\<not> wu_ready (lr_warmup l')"
      using that l' by (auto simp: rt_process_pending_warmup_bar_def process_pending_warmup_bar_def runtime_warmup_engine_def
          warmup_context_def rt_instance_def then_do_def split: sum.splits prod.splits)
    ultimately show "case rt_process_pending_warmup_bar env i bar phase s of (Inl e, s') \<Rightarrow> lanes_rel same_position s0 s'
      | (Inr pending, s') \<Rightarrow> lanes_rel same_position s0 s' \<and> (pending = None \<longrightarrow> lanes_rel same_gates s0 s' \<and> wu_ready (lr_warmup l))"
      using moves l'(2) s by (cases "wu_ready (lr_warmup l')") (auto simp: same_gates_def split: sum.split prod.split)
  qed
  have healthy: "runs (\<lambda>s. lanes_rel same_gates s0 s \<and> wu_ready (lr_warmup l)) (tries (process_pending_recovery_bar i phase))
    (lanes_rel same_position s0)
    (\<lambda>pending s. lanes_rel same_position s0 s \<and> (pending = None \<longrightarrow> lanes_rel same_gates s0 s \<and> wu_ready (lr_warmup l) \<and> lr_recovery_state l = Healthy))"
    by (rule runs_tries) (auto simp: process_pending_recovery_bar_def rt_instance_def gates_position same_gates_def
        dest!: lane split: if_splits)
  show ?thesis
    unfolding process_pending_def processes_pending_state.simps if_True
  proof (rule runs_then_do, unfold runtime_cycle_engine_def LaneCycleEngine.simps, rule warm)
    fix pending :: "ProcessBarOutcome option"
    show "runs (\<lambda>s. lanes_rel same_position s0 s \<and> (pending = None \<longrightarrow> lanes_rel same_gates s0 s \<and> wu_ready (lr_warmup l)))
      (case pending of None \<Rightarrow> tries (process_pending_recovery_bar i phase) | Some outcome \<Rightarrow> ok (Some outcome))
      (lanes_rel same_position s0)
      (\<lambda>pending s. lanes_rel same_position s0 s \<and> (pending = None \<longrightarrow> lanes_rel same_gates s0 s \<and> wu_ready (lr_warmup l) \<and> lr_recovery_state l = Healthy))"
      by (cases pending) (auto intro: runs_weaken [OF healthy] runs_ok)
  qed
qed

text \<open>A lane that is disabled or not running is not evaluated.\<close>

lemma evaluation_refused:
  assumes "hm_get (rt_lanes s) i = Some l" "\<not> ic_enabled (lr_config l) \<or> lr_state l \<noteq> Running"
  shows "\<exists>e. evaluate_invocation (runtime_cycle_engine env ms) i bar phase MarketBarInvocation s = (Inl e, s)"
  using assms by (auto simp: evaluate_invocation_def runtime_cycle_engine_def with_account_risk_def evaluate_process_bar_def
      prepare_running_def rt_instance_def then_do_def)

lemma trade_refused:
  assumes l: "hm_get (rt_lanes s0) i = Some l" and blocked: "\<not> ic_enabled (lr_config l) \<or> lr_state l \<noteq> Running"
  shows "runs (lanes_rel same_gates s0) (trade_cycle (runtime_cycle_engine env ms) i bar phase MarketBarInvocation cx tr cap)
    (lanes_rel same_position s0) Q"
  unfolding runs_def
proof (intro allI impI)
  fix s assume s: "lanes_rel same_gates s0 s"
  then obtain l' where "hm_get (rt_lanes s) i = Some l'" "same_gates l l'" using lanes_rel_get [OF _ l] by blast
  moreover from this blocked have "\<not> ic_enabled (lr_config l') \<or> lr_state l' \<noteq> Running"
    by (simp add: same_gates_def same_position_def)
  ultimately show "case trade_cycle (runtime_cycle_engine env ms) i bar phase MarketBarInvocation cx tr cap s of
      (Inl e, s') \<Rightarrow> lanes_rel same_position s0 s' | (Inr a, s') \<Rightarrow> Q a s'"
    using evaluation_refused [of s i l' env ms bar phase] gates_position [OF s] by (auto simp: trade_cycle_def then_do_def)
qed

lemma gated_body:
  assumes l: "hm_get (rt_lanes s0) i = Some l" and gated: "gated l"
  shows "runs (lanes_rel same_gates s0) (lane_cycle_body (runtime_cycle_engine env ms) tx i bar phase MarketBarInvocation)
    (lanes_rel same_position s0) (\<lambda>_. lanes_rel same_position s0)"
proof -
  note step = runs_then_do [OF runs_preserves [OF _ gates_position]]
  have pending: "runs (lanes_rel same_gates s0)
      (then_do (process_pending (runtime_cycle_engine env ms) i bar phase MarketBarInvocation)
        (\<lambda>pending. case pending of None \<Rightarrow> trade_cycle (runtime_cycle_engine env ms) i bar phase MarketBarInvocation cx tr cap
           | Some outcome \<Rightarrow> ok outcome))
      (lanes_rel same_position s0) (\<lambda>_. lanes_rel same_position s0)" for cx tr cap
  proof (rule runs_then_do [OF pending_passes [OF l]])
    fix pending
    show "runs (\<lambda>s. lanes_rel same_position s0 s \<and> (pending = None \<longrightarrow> lanes_rel same_gates s0 s \<and> wu_ready (lr_warmup l) \<and> lr_recovery_state l = Healthy))
      (case pending of None \<Rightarrow> trade_cycle (runtime_cycle_engine env ms) i bar phase MarketBarInvocation cx tr cap
       | Some outcome \<Rightarrow> ok outcome) (lanes_rel same_position s0) (\<lambda>_. lanes_rel same_position s0)"
    proof (cases pending)
      case None
      show ?thesis
      proof (cases "wu_ready (lr_warmup l) \<and> lr_recovery_state l = Healthy")
        case True
        with gated have "\<not> ic_enabled (lr_config l) \<or> lr_state l \<noteq> Running" by (auto simp: gated_def)
        then show ?thesis unfolding None option.case by (intro runs_weaken [OF trade_refused [OF l]]) simp_all
      qed (use None in \<open>auto simp: runs_def\<close>)
    qed (auto intro: runs_ok)
  qed
  show ?thesis
    unfolding lane_cycle_body_def Let_def
    by (intro step runs_if runs_ok pending invariant_rules)
      (simp_all add: gates_position preserves_updates runtime_cycle_engine_def keeps_lanes_rel new_trace_id_keeps ledger_ops_keep
        free_lanes.ready_free constraints_keep_gates rollover_keeps_gates)
qed

text \<open>C4: A gated bar moves no position: while the kill switch is on, or the lane is disabled, not
  running, still warming up or not healthy, processing a market bar leaves the position, quantity,
  entry price, realised result and run state of every lane as they were, whatever it returns.\<close>
theorem gated_bar_moves_no_position:
  assumes "hm_get (rt_lanes s) i = Some l" "rt_kill_switch_active s \<or> gated l"
  shows "lanes_rel same_position s (snd (process_bar_for_lane env spent i bar phase s))"
proof (cases "rt_kill_switch_active s")
  case True
  then show ?thesis
    by (simp add: process_bar_for_lane_def run_process_bar_cycle_def run_lane_cycle_def then_do_def runtime_cycle_engine_def
        lanes_rel_refl position.refl)
next
  case False
  with assms have gated: "gated l" by simp
  have "runs (lanes_rel same_gates s) (process_bar_for_lane env spent i bar phase)
      (lanes_rel same_position s) (\<lambda>_. lanes_rel same_position s)"
    unfolding process_bar_for_lane_def run_process_bar_cycle_def run_lane_cycle_def
    by (intro runs_then_do [OF runs_preserves [OF _ gates_position]] runs_then_do [OF gated_body [OF assms(1) gated]]
        runs_then_do [OF runs_preserves] runs_ok invariant_rules preserves_updates)
      (simp_all add: runtime_cycle_engine_def counted_same)
  then show ?thesis by (rule runsD) (simp add: lanes_rel_refl same_gates_refl)
qed

definition paused_runtime :: "(int, InMemoryRuntimeJournal, unit) Runtime" where
  "paused_runtime = demo_runtime\<lparr>rt_lanes := [(''aapl'', demo_lane_runtime\<lparr>lr_state := Paused\<rparr>)]\<rparr>"

theorem gated_bar_moves_no_position_witness:
  "gated (demo_lane_runtime\<lparr>lr_state := Paused\<rparr>)
   \<and> lanes_rel same_position paused_runtime (snd (process_bar_for_lane demo_env \<lparr>cy_submit = 0, cy_cycle = 0\<rparr> ''aapl''
       (demo_bar 5) Confirmed paused_runtime))"
proof
  show gated: "gated (demo_lane_runtime\<lparr>lr_state := Paused\<rparr>)" by (simp add: gated_def)
  have "hm_get (rt_lanes paused_runtime) ''aapl'' = Some (demo_lane_runtime\<lparr>lr_state := Paused\<rparr>)"
    by (simp add: paused_runtime_def hm_get_def)
  from gated_bar_moves_no_position [OF this] gated
  show "lanes_rel same_position paused_runtime (snd (process_bar_for_lane demo_env \<lparr>cy_submit = 0, cy_cycle = 0\<rparr> ''aapl''
       (demo_bar 5) Confirmed paused_runtime))" by simp
qed

subsection \<open>Orders and capital\<close>

definition capital_granted :: "('v, 'j, 'w) Runtime \<Rightarrow> string \<Rightarrow> string \<Rightarrow> f64 \<Rightarrow> bool" where
  "capital_granted s i account_id notional_usd \<longleftrightarrow>
     (case (hm_get (rt_lanes s) i, hm_get (rt_account_ledgers s) account_id) of
        (Some lane, Some ledger) \<Rightarrow>
          (case try_reserve_open (lane_ledger_owner_path lane) notional_usd (ic_budget_pct (lr_config lane)) ledger of
             Inl _ \<Rightarrow> False | Inr _ \<Rightarrow> True)
      | _ \<Rightarrow> False)"

text \<open>The reservation of an entry: counted, and granted exactly when the ledger grants it.\<close>

lemma reservation_of_entry:
  assumes entry: "adds_exposure allowed" and refused: "\<not> capital_granted s i a n"
  shows "\<exists>r s'. reserve_for_order (runtime_execution_engine env) i a allowed n s = (r, s') \<and> (case r of Inr (Inr _) \<Rightarrow> False | _ \<Rightarrow> True)"
  using refused entry
  by (auto simp: capital_granted_def reserve_for_order_def runtime_execution_engine_def then_do_def update_observability_def count_reserve_attempt_def
      rt_bot_budget_pct_def ledger_owner_path_for_instance_def rt_instance_def rt_try_reserve_open_def try_ledger_def
      account_ledger_handle_def split: option.splits sum.splits)

lemma unfunded_entry_keeps_world:
  assumes "adds_exposure allowed" "\<not> capital_granted s i a (calculate_position_notional_usd q (bar_close bar))"
  shows "runtime_world (snd (execute_allowed_intent (runtime_execution_engine env) tx ms i a ck sy bar intent nhp q allowed t es s))
    = runtime_world s"
proof -
  from reservation_of_entry [OF assms, of env] obtain r s' where
    r: "reserve_for_order (runtime_execution_engine env) i a allowed (calculate_position_notional_usd q (bar_close bar)) s = (r, s')"
      "case r of Inr (Inr _) \<Rightarrow> False | _ \<Rightarrow> True" by blast
  have w: "runtime_world s' = runtime_world s" by (rule keeps_run [OF runtime_world.reserve_keeps_world r(1)])
  have rejected: "keeps runtime_world (then_do (xe_record_ledger_rejection (runtime_execution_engine env) i a sy bar intent lo) (\<lambda>_. ok v))"
    for lo and v :: "ProcessBarRisk \<times> AcceptedOrder option \<times> RelatedEvent list"
    by (intro frame_rules logged_world.logged.log_rejection)
  show ?thesis
  proof (cases r)
    case (Inr reservation)
    with r(2) obtain e where "reservation = Inl e" by (cases reservation) auto
    with Inr r(1) w show ?thesis
      by (simp add: execute_allowed_intent_def Let_def then_do_def [of "reserve_for_order _ _ _ _ _"] keepsD [OF rejected])
  qed (use r w in \<open>simp add: execute_allowed_intent_def Let_def then_do_def\<close>)
qed

text \<open>C3: No order without capital: carrying out a risk decision touches the provider only for an
  executable decision (no ledger outcome, an allowed intent other than no operation), and, when the
  intent adds exposure, only after the account's ledger granted the reservation of the order's notional.\<close>
theorem no_order_without_capital:
  "runtime_world (snd (apply_risk_decision_effects (runtime_execution_engine env) tx ms i a ck sy bar intent nhp q outcome decision t s))
     = runtime_world s
   \<or> outcome = None \<and> (\<exists>allowed. decision = Allow allowed \<and> allowed \<noteq> NoOp
      \<and> (if adds_exposure allowed then capital_granted s i a (calculate_position_notional_usd q (bar_close bar)) else True))"
proof (cases "outcome = None \<and> (\<exists>allowed. decision = Allow allowed \<and> allowed \<noteq> NoOp)")
  case False
  then have "keeps runtime_world (apply_risk_decision_effects (runtime_execution_engine env) tx ms i a ck sy bar intent nhp q outcome decision t)"
    by (rule runtime_world.no_submission_unless_executable)
  from keepsD [OF this, of s] show ?thesis by (rule disjI1)
next
  case True
  then obtain allowed where allowed: "outcome = None" "decision = Allow allowed" "allowed \<noteq> NoOp" by blast
  show ?thesis
  proof (cases "adds_exposure allowed \<and> \<not> capital_granted s i a (calculate_position_notional_usd q (bar_close bar))")
    case True
    obtain r s1 where e: "emit (runtime_execution_engine env) ''risk'' i ''risk.allowed''
        (tx_json tx (risk_payload tx sy bar allowed ''allowed'' JNull)) t (risk_payload tx sy bar allowed ''allowed'' JNull) s = (r, s1)"
      by (cases "emit (runtime_execution_engine env) ''risk'' i ''risk.allowed''
        (tx_json tx (risk_payload tx sy bar allowed ''allowed'' JNull)) t (risk_payload tx sy bar allowed ''allowed'' JNull) s") auto
    have same: "runtime_world s1 = runtime_world s" "rt_lanes s1 = rt_lanes s" "rt_account_ledgers s1 = rt_account_ledgers s"
      using keeps_run [OF logged_world.logged.emit_keeps e] keeps_run [OF logged_lanes.logged.emit_keeps e]
        keeps_run [OF logged_ledgers.logged.emit_keeps e] by auto
    with True have "\<not> capital_granted s1 i a (calculate_position_notional_usd q (bar_close bar))" by (simp add: capital_granted_def)
    from unfunded_entry_keeps_world [OF _ this] True allowed e same show ?thesis
      by (cases r) (simp_all add: apply_risk_decision_effects_def Let_def then_do_def)
  qed (use allowed in auto)
qed

text \<open>The runtime after an entry's capital was reserved.\<close>

definition with_reservation :: "string \<Rightarrow> AccountLedger \<Rightarrow> ('v, 'j, 'w) Runtime \<Rightarrow> ('v, 'j, 'w) Runtime" where
  "with_reservation a ledger s =
     (count_reserve_attempt s)\<lparr>rt_account_ledgers := hm_insert a ledger (rt_account_ledgers s)\<rparr>"

lemma reservation_granted:
  assumes "hm_get (rt_lanes s) i = Some lane" "hm_get (rt_account_ledgers s) a = Some l" "adds_exposure allowed"
    and "try_reserve_open (lane_ledger_owner_path lane) n (ic_budget_pct (lr_config lane)) l = Inr l'"
  shows "reserve_for_order (runtime_execution_engine env) i a allowed n s = (Inr (Inr ()), with_reservation a l' s)"
  using assms by (simp add: reserve_for_order_def runtime_execution_engine_def then_do_def update_observability_def
      count_reserve_attempt_def with_reservation_def rt_bot_budget_pct_def ledger_owner_path_for_instance_def rt_instance_def
      rt_try_reserve_open_def try_ledger_def account_ledger_handle_def)

lemma hm_get_with_reservation: "hm_get (rt_account_ledgers (with_reservation a l s)) a = Some l"
    "rt_lanes (with_reservation a l s) = rt_lanes s"
  by (simp_all add: with_reservation_def count_reserve_attempt_def update_observability_def hm_get_insert)

text \<open>C8: A refused order gives its capital back: when the submission of an entry fails after its
  capital was reserved, the workflow returns the submission's error, the reservation is released from
  the account's ledger, and no lane has changed.\<close>
theorem failed_order_returns_capital:
  fixes s :: "('v, 'j, 'w) Runtime"
  assumes lane: "hm_get (rt_lanes s) i = Some lane" and ledger: "hm_get (rt_account_ledgers s) a = Some l"
    and entry: "adds_exposure allowed" and n: "n = calculate_position_notional_usd q (bar_close bar)" "is_finite n" "0 < n"
    and granted: "try_reserve_open (lane_ledger_owner_path lane) n (ic_budget_pct (lr_config lane)) l = Inr l1"
    and submit: "rt_submit_order env i a ck \<lparr>er_instance_id = i, er_symbol = sy, er_timestamp = bar_timestamp bar,
        er_intent = allowed, er_price = bar_close bar, er_quantity = q\<rparr> (with_reservation a l1 s) = (Inl e, s2)"
  shows "\<exists>l2. release_reservation (lane_ledger_owner_path lane) n l1 = Inr l2
    \<and> execute_allowed_intent (runtime_execution_engine env) tx ms i a ck sy bar intent nhp q allowed t es s
        = (Inl e, s2\<lparr>rt_account_ledgers := hm_insert a l2 (rt_account_ledgers s2)\<rparr>)
    \<and> rt_lanes s2 = rt_lanes s"
proof -
  have lanes: "rt_lanes s2 = rt_lanes s" using keeps_run [OF submit_quiet(2) submit] by (simp add: hm_get_with_reservation)
  have engine: "xe_submit_order (runtime_execution_engine env) = rt_submit_order env"
    "xe_ledger_owner_path_for_instance (runtime_execution_engine env) = ledger_owner_path_for_instance"
    by (simp_all add: runtime_execution_engine_def)
  have owner: "ledger_owner_path_for_instance i s2 = Inr (lane_ledger_owner_path lane)"
    using lane lanes by (simp add: ledger_owner_path_for_instance_def rt_instance_def)
  from runtime_ledger.failed_submission [OF hm_get_with_reservation(1) n(2,3)
      submit [folded engine(1)] owner [folded engine(2)]] entry
  obtain l2 where "release_reservation (lane_ledger_owner_path lane) n l1 = Inr l2"
    "submit_reserved_order (runtime_execution_engine env) i a ck \<lparr>er_instance_id = i, er_symbol = sy, er_timestamp = bar_timestamp bar,
        er_intent = allowed, er_price = bar_close bar, er_quantity = q\<rparr> n (with_reservation a l1 s)
      = (Inl e, s2\<lparr>rt_account_ledgers := hm_insert a l2 (rt_account_ledgers s2)\<rparr>)" by auto
  with reservation_granted [OF lane ledger entry granted, of env] n(1) lanes show ?thesis
    by (simp add: execute_allowed_intent_def Let_def then_do_def)
qed

text \<open>A journal that refuses events: the submission fails before the provider is reached.\<close>

definition mute_env :: "(InMemoryRuntimeJournal, unit) RuntimeEnv" where
  "mute_env = demo_env\<lparr>env_journal := (env_journal demo_env)\<lparr>jn_append_event := (\<lambda>_ j. (Inl (Internal ''disk full''), j))\<rparr>\<rparr>"

lemma mute_submit: "rt_submit_order mute_env i a ck request s = (Inl (StorageFailure (Internal ''disk full'')), s)"
  by (simp add: rt_submit_order_def record_call_def then_do_def record_stage_def append_provider_event_def
      append_runtime_event_def append_runtime_event_with_trace_def Let_def journaled_def journal_write_def mute_env_def)

definition demo_ledger :: AccountLedger where
  "demo_ledger = AccountLedger_new (f64_rnd 1000)"

definition demo_notional :: f64 where
  "demo_notional = calculate_position_notional_usd (f64_rnd 2) (bar_close (demo_bar 5))"

lemma demo_notional_facts: "is_finite demo_notional" "0 < demo_notional"
    "is_ok (try_reserve_open \<lparr>op_account_id = ''paper'', op_bot_id = ''aapl'', op_symbol = ''AAPL''\<rparr> demo_notional (f64_rnd 100) demo_ledger)"
  by code_simp+

lemma demo_lane_owner: "lane_ledger_owner_path demo_lane_runtime = \<lparr>op_account_id = ''paper'', op_bot_id = ''aapl'', op_symbol = ''AAPL''\<rparr>"
    "ic_budget_pct (lr_config demo_lane_runtime) = f64_rnd 100"
  using built_lane_fields [OF demo_lane_built] by (simp_all add: lane_ledger_owner_path_def demo_instance_def)

definition reserved_demo :: AccountLedger where
  "reserved_demo = projr (try_reserve_open (lane_ledger_owner_path demo_lane_runtime) demo_notional
     (ic_budget_pct (lr_config demo_lane_runtime)) demo_ledger)"

theorem failed_order_returns_capital_witness:
  "\<exists>l2. release_reservation (lane_ledger_owner_path demo_lane_runtime) demo_notional reserved_demo = Inr l2
    \<and> fst (execute_allowed_intent (runtime_execution_engine mute_env) (env_texts mute_env) 0 ''aapl'' ''paper'' ''alpaca'' ''AAPL''
        (demo_bar 5) OpenLong True (f64_rnd 2) OpenLong ''t'' [] demo_runtime) = Inl (StorageFailure (Internal ''disk full''))"
proof -
  have ledger: "hm_get (rt_account_ledgers demo_runtime) ''paper'' = Some demo_ledger"
    by (simp add: demo_runtime_def hm_get_def demo_ledger_def)
  have granted: "try_reserve_open (lane_ledger_owner_path demo_lane_runtime) demo_notional (ic_budget_pct (lr_config demo_lane_runtime))
      demo_ledger = Inr reserved_demo"
    using demo_notional_facts(3) unfolding reserved_demo_def demo_lane_owner by (auto simp: is_ok_iff)
  from failed_order_returns_capital [where allowed = OpenLong and tx = "env_texts mute_env" and ms = 0 and ck = "''alpaca''"
      and sy = "''AAPL''" and intent = OpenLong and nhp = True and t = "''t''" and es = "[]",
      OF demo_runtime_lane ledger _ demo_notional_def demo_notional_facts(1,2) granted mute_submit]
  show ?thesis by auto
qed

subsection \<open>Replayed bars\<close>

text \<open>A stored trace reads back as the cycle of a market bar: what the replay guard compares.\<close>

definition reads_back :: "('j, 'w) RuntimeEnv \<Rightarrow> OhlcvBar \<Rightarrow> SignalPhase \<Rightarrow> CycleTraceRecord \<Rightarrow> bool" where
  "reads_back env bar phase r = (case env_parse_trace env (ctr_payload_json r) of None \<Rightarrow> False
     | Some tr \<Rightarrow> ct_trigger_kind (tr_trigger tr) = MarketBar \<and> ct_phase (tr_trigger tr) = phase
         \<and> ct_bar_timestamp (tr_trigger tr) = rfc env bar \<and> abs (ct_close (tr_trigger tr) - bar_close bar) < f64_epsilon)"

lemma journaled_trace_found:
  assumes "env_journal env = in_memory_journal now"
    and fresh: "ti_trace_id trace \<notin> ctr_trace_id ` set (ij_cycle_traces (rt_journal s))"
    and tr: "tr = build_cycle_trace trace bar ev ord ps cb ca rc evs ms"
    and ids: "ti_phase trace = phase" "ti_bar_timestamp trace = rfc env bar" "ti_trigger_kind trace = MarketBar"
    and run: "rt_append_cycle_trace env tr s = (Inr (), s')"
  shows "ctr_trace_id (last (ij_cycle_traces (rt_journal s'))) = ti_trace_id trace"
    "reads_back env bar phase (last (ij_cycle_traces (rt_journal s'))) \<Longrightarrow>
     has_matching_cycle_trace env (ti_bot_id trace) (ti_symbol trace) bar phase MarketBar None s' = Inr True"
proof -
  define w where "w = \<lparr>ctw_trace_id = ti_trace_id trace, ctw_bot_id = ti_bot_id trace, ctw_symbol = ti_symbol trace,
          ctw_bar_timestamp = ti_bar_timestamp trace, ctw_phase = signal_phase_label phase,
          ctw_trigger_kind = trigger_kind_label (ti_trigger_kind trace),
          ctw_signal = indicator_signal_label (pe_signal ev), ctw_intent = trade_intent_label (pe_intent ev),
          ctw_risk_decision = risk_label_text (cycle_risk_decision_label (pe_risk_decision ev)),
          ctw_outcome = outcome_label (cycle_outcome ev ord), ctw_payload_json = env_trace_json env tr\<rparr>"
  have appended: "rt_append_cycle_trace env tr = journal_write (append_cycle_trace now w)"
    by (simp add: rt_append_cycle_trace_def assms(1) in_memory_journal_def w_def tr build_cycle_trace_def build_cycle_summary_def Let_def ids)
  have "append_cycle_trace now w (rt_journal s) = (Inr (), (rt_journal s)\<lparr>ij_cycle_traces :=
      push_record ctr_id cycle_trace_record now w (ij_cycle_traces (rt_journal s))\<rparr>)"
    using fresh by (force simp: append_cycle_trace_def w_def)
  with run have pushed: "ij_cycle_traces (rt_journal s') = push_record ctr_id cycle_trace_record now w (ij_cycle_traces (rt_journal s))"
    by (auto simp: appended journal_write_def)
  then have stored: "last (ij_cycle_traces (rt_journal s')) \<in>
      set (recent_records 50 (filter (\<lambda>t. ctr_bot_id t = ti_bot_id trace \<and> selects (Some (ti_symbol trace)) (ctr_symbol t)
       \<and> selects (Some (signal_phase_label phase)) (ctr_phase t) \<and> selects None (ctr_outcome t)
       \<and> selects (Some (rfc env bar)) (ctr_bar_timestamp t)) (ij_cycle_traces (rt_journal s'))))"
    by (simp add: recent_records_def push_record_def cycle_trace_record_def w_def ids selects_def)
  from pushed show "ctr_trace_id (last (ij_cycle_traces (rt_journal s'))) = ti_trace_id trace"
    by (simp add: push_record_def cycle_trace_record_def w_def)
  show "has_matching_cycle_trace env (ti_bot_id trace) (ti_symbol trace) bar phase MarketBar None s' = Inr True"
    if "reads_back env bar phase (last (ij_cycle_traces (rt_journal s')))"
    using that stored by (auto simp: reads_back_def has_matching_cycle_trace_def journal_read_def assms(1) in_memory_journal_def
        recent_cycle_traces_for_bot_def list_ex_iff map_filter_def split: option.splits)
qed

text \<open>C10: A completed cycle is not repeated. When the cycle of a market bar has persisted its trace in the
  in-memory journal, under a trace id that the journal does not have yet, the trace is the last one of the
  journal; and if its text reads back as a trace of that bar (same trigger, phase and timestamp, and a
  close within the machine epsilon of the bar's), then with the kill switch off, processing the same bar
  again on the same lane returns the replay outcome and changes nothing but the latency counter. Nothing
  is assumed of the JSON format: a text whose close comes back further off is not a match for the code
  either.\<close>
theorem completed_cycle_not_repeated:
  assumes "env_journal env = in_memory_journal now"
    and fresh: "ti_trace_id trace \<notin> ctr_trace_id ` set (ij_cycle_traces (rt_journal s))"
    and trace: "trace = TraceIdentity_with_trace_id trace_id (ic_id (lr_config l)) (lr_lane_symbol l) (rfc env bar) phase MarketBar"
    and persisted: "persist_cycle_trace_for_evaluation env trace a bar evaluation accepted position_step capital_before events s = (Inr (), s')"
    and lane: "hm_get (rt_lanes s') i = Some l" and live: "\<not> rt_kill_switch_active s'"
  shows "ctr_trace_id (last (ij_cycle_traces (rt_journal s'))) = ti_trace_id trace
    \<and> (if reads_back env bar phase (last (ij_cycle_traces (rt_journal s')))
       then process_bar_for_lane env spent i bar phase s' =
         (Inr (duplicate_cycle_replay_outcome (ic_id (lr_config l)) (lr_lane_symbol l) phase (lr_has_position l)),
          update_observability (\<lambda>obs. obs\<lparr>so_process_bar_latency := record_elapsed (cy_cycle spent) (so_process_bar_latency obs)\<rparr>) s')
       else True)"
proof -
  obtain rc s1 ms where rc: "capture_cycle_reconciliation_context env (ti_bot_id trace) (ti_symbol trace) s = Inr rc"
    and s1: "runtime_now_ms env s = (Inr ms, s1)" "rt_journal s1 = rt_journal s"
    using persisted by (auto simp: persist_cycle_trace_for_evaluation_def then_do_def runtime_now_ms_def unix_now_ms_def split: sum.splits)
  have appended: "rt_append_cycle_trace env (build_cycle_trace trace bar evaluation accepted position_step capital_before
      (capture_cycle_capital_state env a (ti_bot_id trace) (ti_symbol trace) s) rc events ms) s1 = (Inr (), s')"
    using persisted rc s1(1) by (simp add: persist_cycle_trace_for_evaluation_def then_do_def)
  have fields: "ti_phase trace = phase" "ti_bar_timestamp trace = rfc env bar" "ti_trigger_kind trace = MarketBar"
    "ti_bot_id trace = ic_id (lr_config l)" "ti_symbol trace = lr_lane_symbol l"
    by (simp_all add: trace TraceIdentity_with_trace_id_def)
  note found = journaled_trace_found [OF assms(1) fresh [folded s1(2)] refl fields(1-3) appended]
  have "process_bar_for_lane env spent i bar phase s' =
      (Inr (duplicate_cycle_replay_outcome (ic_id (lr_config l)) (lr_lane_symbol l) phase (lr_has_position l)),
       update_observability (\<lambda>obs. obs\<lparr>so_process_bar_latency := record_elapsed (cy_cycle spent) (so_process_bar_latency obs)\<rparr>) s')"
    if match: "reads_back env bar phase (last (ij_cycle_traces (rt_journal s')))"
  proof -
    from found(2) [OF match]
    have replayed: "ce_has_matching_cycle_trace (runtime_cycle_engine env (cy_submit spent)) (ic_id (lr_config l)) (lr_lane_symbol l) bar phase
        (invocation_trigger_kind MarketBarInvocation) (invocation_signal MarketBarInvocation) s' = Inr True"
      by (simp add: runtime_cycle_engine_def fields)
    have "ce_lane_cycle_context (runtime_cycle_engine env (cy_submit spent)) i s' = Inr \<lparr>lcc_bot_id = ic_id (lr_config l),
        lcc_account_id = ic_account (lr_config l), lcc_execution_connector = ic_execution_connector (lr_config l),
        lcc_symbol = lr_lane_symbol l, lcc_has_position = lr_has_position l\<rparr>"
      "ce_ensure_kill_switch_inactive (runtime_cycle_engine env (cy_submit spent)) s' = Inr ()"
      using lane live by (simp_all add: runtime_cycle_engine_def lane_cycle_context_def rt_instance_def)
    from cycle_replayed [OF this(2,1)] replayed show ?thesis
      by (simp add: process_bar_for_lane_def run_process_bar_cycle_def) (simp add: runtime_cycle_engine_def)
  qed
  with found(1) show ?thesis by simp
qed

text \<open>A journal format for one cycle: the trace of the demonstration bar is the text \<open>{}\<close>.\<close>

definition demo_evaluation :: ProcessBarEvaluation where
  "demo_evaluation = \<lparr>pe_signal = NoSignal, pe_signal_metadata = SignalMetadata_default, pe_signal_source = Representative,
     pe_intent = NoOp, pe_strategy_rationale = None, pe_order_quantity = 0, pe_order_quantity_adjustment_reason = None,
     pe_order_ledger_outcome = None, pe_risk_decision = Allow NoOp, pe_stale_data = False, pe_stale_data_diagnostics = None,
     pe_cooldown_active = False, pe_account_open_positions = 0, pe_account_daily_loss_pct = 0, pe_observed_spread_bps = 0,
     pe_estimated_slippage_bps = 0, pe_budget_room = \<lparr>br_remaining_bot_usd = 0, br_remaining_account_usd = 0\<rparr>,
     pe_has_position_before = False, pe_next_has_position = False\<rparr>"

definition demo_step :: PositionStep where
  "demo_step = \<lparr>ps_has_position_before = False, ps_has_position_after = False, ps_quantity_after = 0, ps_entry_price_after = None,
     ps_realized_pnl_usd = 0, ps_reason = None\<rparr>"

definition demo_identity :: TraceIdentity where
  "demo_identity = TraceIdentity_with_trace_id ''trc'' (ic_id (lr_config demo_lane_runtime)) (lr_lane_symbol demo_lane_runtime)
     (show_int (minutes 5)) Confirmed MarketBar"

definition no_capital :: CapitalState where
  "no_capital = \<lparr>cs_account = None, cs_bot = None, cs_lane = None\<rparr>"

definition replay_env :: "(InMemoryRuntimeJournal, unit) RuntimeEnv" where
  "replay_env = demo_env\<lparr>env_parse_trace := (\<lambda>text. if text = ''{}''
     then Some (build_cycle_trace demo_identity (demo_bar 5) demo_evaluation None demo_step no_capital no_capital \<lparr>rcx_latest = None\<rparr> [] 0)
     else None)\<rparr>"

definition after_demo_cycle :: "(int, InMemoryRuntimeJournal, unit) Runtime" where
  "after_demo_cycle = snd (persist_cycle_trace_for_evaluation replay_env demo_identity ''paper'' (demo_bar 5) demo_evaluation None
     demo_step no_capital [] demo_runtime)"

theorem completed_cycle_not_repeated_witness:
  "reads_back replay_env (demo_bar 5) Confirmed (last (ij_cycle_traces (rt_journal after_demo_cycle)))
   \<and> process_bar_for_lane replay_env \<lparr>cy_submit = 0, cy_cycle = 0\<rparr> ''aapl'' (demo_bar 5) Confirmed after_demo_cycle =
    (Inr (duplicate_cycle_replay_outcome (ic_id (lr_config demo_lane_runtime)) (lr_lane_symbol demo_lane_runtime) Confirmed
       (lr_has_position demo_lane_runtime)),
     update_observability (\<lambda>obs. obs\<lparr>so_process_bar_latency := record_elapsed 0 (so_process_bar_latency obs)\<rparr>) after_demo_cycle)"
proof -
  have time: "rfc replay_env (demo_bar 5) = show_int (minutes 5)" by (simp add: replay_env_def demo_env_def demo_bar_def)
  have "fst (persist_cycle_trace_for_evaluation replay_env demo_identity ''paper'' (demo_bar 5) demo_evaluation None demo_step no_capital []
      demo_runtime) = Inr ()"
    by (simp add: persist_cycle_trace_for_evaluation_def then_do_def capture_cycle_reconciliation_context_def journal_read_def
        replay_env_def demo_env_def in_memory_journal_def latest_reconciliation_for_lane_def runtime_now_ms_def unix_now_ms_def
        rt_append_cycle_trace_def Let_def journal_write_def append_cycle_trace_def)
  then have persisted: "persist_cycle_trace_for_evaluation replay_env demo_identity ''paper'' (demo_bar 5) demo_evaluation None demo_step
      no_capital [] demo_runtime = (Inr (), after_demo_cycle)"
    by (simp add: after_demo_cycle_def prod_eq_iff)
  have lane: "hm_get (rt_lanes after_demo_cycle) ''aapl'' = Some demo_lane_runtime"
    using keeps_run [OF persist_keeps_lanes persisted] demo_runtime_lane by simp
  have live: "\<not> rt_kill_switch_active after_demo_cycle"
    using keeps_run [OF lane_free_kill_switch.persist_free persisted] by (simp add: demo_runtime_def)
  have close: "abs (bar_close (demo_bar 5) - bar_close (demo_bar 5)) < f64_epsilon" by code_simp
  have match: "reads_back replay_env (demo_bar 5) Confirmed (last (ij_cycle_traces (rt_journal after_demo_cycle)))"
    using time close
    by (simp add: after_demo_cycle_def persist_cycle_trace_for_evaluation_def then_do_def capture_cycle_reconciliation_context_def
        journal_read_def replay_env_def demo_env_def in_memory_journal_def latest_reconciliation_for_lane_def runtime_now_ms_def
        unix_now_ms_def rt_append_cycle_trace_def Let_def journal_write_def append_cycle_trace_def push_record_def reads_back_def
        cycle_trace_record_def build_cycle_trace_def demo_identity_def TraceIdentity_with_trace_id_def demo_runtime_def
        InMemoryRuntimeJournal_default_def)
  have fresh: "ti_trace_id demo_identity \<notin> ctr_trace_id ` set (ij_cycle_traces (rt_journal demo_runtime))"
    by (simp add: demo_runtime_def InMemoryRuntimeJournal_default_def)
  have journal: "env_journal replay_env = in_memory_journal 0" by (simp add: replay_env_def demo_env_def)
  show ?thesis
    using completed_cycle_not_repeated [where spent = "\<lparr>cy_submit = 0, cy_cycle = 0\<rparr>",
      OF journal fresh demo_identity_def [folded time] persisted lane live] match by simp
qed

end
