(* ===== verification/Polling.thy ===== *)
theory Polling
  imports Processing
begin

section \<open>Polling and recovery (openticker-runtime/src/market\_data)\<close>

text \<open>
  One poll of a lane: plan what to fetch from the lane's state, fetch it through the gateway (collecting
  the provider events instead of writing them), apply the result, and go on with the plan that follows
  (\<open>recovery_engine.rs\<close>, \<open>pending_provider_events.rs\<close>, \<open>recovery.rs\<close>); the poll entry points
  (\<open>polling.rs\<close>). The loop over plans is a \<open>partial_function\<close> into \<open>option\<close>: \<open>None\<close> would be a
  poll that never returns. A \<open>usize\<close> is a natural number; the page counter stays below the page bound,
  so its saturation never shows.

  The lemmas show that every poll returns, after at most two fetches more than the page bound; that it
  moves the ledgers and lanes as a cycle does; that a page of recovered bars moves no position and
  reaches its target exactly when recovery ends; and that planning never meets the panic of a lane that
  catches up without a target.
\<close>

subsection \<open>Provider events of a fetch (pending\_provider\_events.rs)\<close>

record PendingProviderEvent =
  ppe_lane_id :: string
  ppe_kind :: string
  ppe_payload :: Json

record GatewayFetchFailure =
  gff_error :: ServiceError
  gff_provider_events :: "PendingProviderEvent list"

type_synonym ('v, 'j, 'w, 'a) fetch_op = "(('v, 'j, 'w) Runtime, GatewayFetchFailure, 'a) workflow"

definition append_pending_provider_events :: "('j, 'w) RuntimeEnv \<Rightarrow> PendingProviderEvent list \<Rightarrow> ('v, 'j, 'w, unit) runtime_op" where
  "append_pending_provider_events env =
     for_each (\<lambda>event. append_runtime_event env ''provider'' (Some (ppe_lane_id event)) (ppe_kind event)
       (tx_json (env_texts env) (ppe_payload event)))"

definition provider_stage_event :: "ProviderOperationLog \<Rightarrow> string \<Rightarrow> string \<Rightarrow> (string \<times> Json) list \<Rightarrow> PendingProviderEvent" where
  "provider_stage_event plog stage summary extra =
     \<lparr>ppe_lane_id = pol_lane_id plog, ppe_kind = pol_kind_prefix plog @ ''.'' @ stage,
      ppe_payload = stage_payload plog stage summary extra\<rparr>"

text \<open>The connector kind is checked before anything is requested; that failure carries no events.\<close>

definition validate_gateway_connector_kind :: "string \<Rightarrow> string \<Rightarrow> string \<Rightarrow> string \<Rightarrow> ('v, 'j, 'w, unit) fetch_op" where
  "validate_gateway_connector_kind lane_id account_id expected_connector_kind cx =
     handle (validate_connector_kind lane_id account_id expected_connector_kind cx)
       (\<lambda>error. fail \<lparr>gff_error = error, gff_provider_events = []\<rparr>) ok"

definition fetch_with_events ::
    "string \<Rightarrow> string \<Rightarrow> string \<Rightarrow> string \<Rightarrow> string \<Rightarrow> Json \<Rightarrow> string \<Rightarrow> ('w, 'a) gateway_op \<Rightarrow> ('a \<Rightarrow> string \<times> Json) \<Rightarrow> string
     \<Rightarrow> ('v, 'j, 'w, 'a \<times> PendingProviderEvent list) fetch_op" where
  "fetch_with_events lane_id kind_prefix account_id data_connector operation request summary call success failure_summary =
     (let plog = provider_operation lane_id kind_prefix account_id data_connector operation;
          requested = provider_stage_event plog ''requested'' summary [(''request'', request)] in
      then_do (validate_gateway_connector_kind lane_id account_id data_connector ''data_connector'') (\<lambda>_.
      handle (on_gateway call)
        (\<lambda>error. fail \<lparr>gff_error = map_data_error lane_id account_id error,
           gff_provider_events = [requested, provider_stage_event plog ''failed'' failure_summary
             [(''request'', request), (''error'', JString (gateway_error_text error))]]\<rparr>)
        (\<lambda>result. ok (result, [requested, provider_stage_event plog ''succeeded'' (fst (success result))
           [(''request'', request), (''response'', snd (success result))]]))))"

definition gateway_fetch_latest_bar_with_events ::
    "('j, 'w) RuntimeEnv \<Rightarrow> string \<Rightarrow> string \<Rightarrow> string \<Rightarrow> string \<Rightarrow> Timeframe \<Rightarrow> ('v, 'j, 'w, OhlcvBar \<times> PendingProviderEvent list) fetch_op" where
  "gateway_fetch_latest_bar_with_events env lane_id account_id data_connector symbol timeframe =
     fetch_with_events lane_id ''provider.market_data.latest'' account_id data_connector ''fetch_latest_bar''
       (JObject (symbol_request symbol timeframe))
       (''requesting latest '' @ Timeframe_as_str timeframe @ '' bar for '' @ symbol)
       (gw_fetch_latest_bar (env_clock env) (env_remote env) account_id symbol timeframe)
       (\<lambda>bar. (''latest '' @ Timeframe_as_str timeframe @ '' bar for '' @ symbol @ '' received at '' @ rfc env bar,
          JObject [(''bar'', env_bar_json env bar)]))
       (''latest '' @ Timeframe_as_str timeframe @ '' bar request failed for '' @ symbol)"

definition gateway_fetch_latest_confirmed_bar_timestamp_with_events ::
    "('j, 'w) RuntimeEnv \<Rightarrow> string \<Rightarrow> string \<Rightarrow> string \<Rightarrow> string \<Rightarrow> Timeframe
     \<Rightarrow> ('v, 'j, 'w, timestamp option \<times> PendingProviderEvent list) fetch_op" where
  "gateway_fetch_latest_confirmed_bar_timestamp_with_events env lane_id account_id data_connector symbol timeframe =
     fetch_with_events lane_id ''provider.market_data.confirmed_target'' account_id data_connector
       ''fetch_latest_confirmed_bar_timestamp'' (JObject (symbol_request symbol timeframe))
       (''requesting latest confirmed '' @ Timeframe_as_str timeframe @ '' bar timestamp for '' @ symbol)
       (gw_fetch_latest_confirmed_bar_timestamp (env_clock env) (env_remote env) account_id symbol timeframe)
       (\<lambda>time. (case time of
            Some time \<Rightarrow> ''latest confirmed '' @ Timeframe_as_str timeframe @ '' bar for '' @ symbol @ '' is '' @ time_text env time
          | None \<Rightarrow> ''no latest confirmed '' @ Timeframe_as_str timeframe @ '' bar available for '' @ symbol,
          JObject [(''timestamp'', json_time env time)]))
       (''latest confirmed '' @ Timeframe_as_str timeframe @ '' target request failed for '' @ symbol)"

definition gateway_fetch_confirmed_bars_range_with_events ::
    "('j, 'w) RuntimeEnv \<Rightarrow> string \<Rightarrow> string \<Rightarrow> string \<Rightarrow> string \<Rightarrow> Timeframe \<Rightarrow> timestamp option \<Rightarrow> timestamp \<Rightarrow> nat
     \<Rightarrow> ('v, 'j, 'w, ConfirmedBarPage \<times> PendingProviderEvent list) fetch_op" where
  "gateway_fetch_confirmed_bars_range_with_events env lane_id account_id data_connector symbol timeframe start_after end_at limit =
     fetch_with_events lane_id ''provider.market_data.confirmed_range'' account_id data_connector ''fetch_confirmed_bars_range''
       (JObject (symbol_request symbol timeframe @ [(''start_after'', json_time env start_after),
         (''end_at'', JString (time_text env end_at)), (''limit'', JInt (int limit))]))
       (''requesting confirmed '' @ Timeframe_as_str timeframe @ '' bars for '' @ symbol @ '' up to '' @ time_text env end_at)
       (gw_fetch_confirmed_bars_range (env_clock env) (env_remote env) account_id symbol timeframe start_after end_at limit)
       (\<lambda>page. (''received '' @ show_int (int (length (cbp_bars page))) @ '' confirmed '' @ Timeframe_as_str timeframe
            @ '' bars for '' @ symbol @ '' up to '' @ time_text env end_at,
          JObject (bars_response env (cbp_bars page) @ [(''exhausted'', JBool (cbp_exhausted page))])))
       (''confirmed '' @ Timeframe_as_str timeframe @ '' range request failed for '' @ symbol)"

subsection \<open>Plans (recovery\_engine.rs)\<close>

definition RECOVERY_PAGE_LIMIT :: nat where
  "RECOVERY_PAGE_LIMIT = 200"

definition MAX_RECOVERY_PAGES_PER_CYCLE :: nat where
  "MAX_RECOVERY_PAGES_PER_CYCLE = 4"

text \<open>What every plan names: the lane and where its bars come from.\<close>

record PollTarget =
  pt_lane_id :: string
  pt_account_id :: string
  pt_data_connector :: string
  pt_symbol :: string
  pt_timeframe :: Timeframe

datatype LatestBarPlanMode = BootstrapTradable | DuplicateOnly

datatype LanePollPlan =
    LatestBar PollTarget (plan_mode: LatestBarPlanMode) (expected_last_dispatched: "timestamp option")
  | LatestConfirmedTarget PollTarget (plan_last_dispatched: timestamp) (plan_recovery_state: LaneRecoveryState)
      (target_page_limit: nat) (target_now_ms: int)
  | ConfirmedRange PollTarget (plan_start_after: "timestamp option") (plan_target: timestamp) (plan_page_limit: nat)
      (plan_now_ms: int) (start_recovery: bool) (allow_live_confirmed_shortcut: bool)

datatype LanePollFetchResult = LatestBarFetched OhlcvBar | ConfirmedTargetFetched "timestamp option" | ConfirmedRangeFetched ConfirmedBarPage

record LanePollExecution =
  lpe_fetch_result :: LanePollFetchResult
  lpe_provider_events :: "PendingProviderEvent list"

record LanePollApplyOutcome =
  lpo_advance :: "ProcessBarOutcome LanePollingAdvance"
  lpo_next_plan :: "LanePollPlan option"

definition LanePollApplyOutcome_default :: LanePollApplyOutcome where
  "LanePollApplyOutcome_default = \<lparr>lpo_advance = LanePollingAdvance_default, lpo_next_plan = None\<rparr>"

definition lane_polling_context :: "string \<Rightarrow> ('v, 'j, 'w) Runtime \<Rightarrow> ServiceError + LanePollingContext" where
  "lane_polling_context instance_id s =
     (if rt_kill_switch_active s then Inl KillSwitchEnabled
      else case manual_poll_target_for_instance instance_id ''poll_instance_once'' s of Inl e \<Rightarrow> Inl e
        | Inr (account_id, data_connector, symbol, timeframe) \<Rightarrow>
            (case rt_instance instance_id s of Inl e \<Rightarrow> Inl e
             | Inr inst \<Rightarrow>
                 if lr_recovery_state inst = CatchingUp \<and> lr_recovery_target_timestamp inst = None
                 then Inl (InvalidServiceConfiguration (''lane `'' @ instance_id @ ''` entered recovery without a target timestamp''))
                 else Inr \<lparr>lpc_account_id = account_id, lpc_data_connector = data_connector, lpc_symbol = symbol,
                   lpc_timeframe = timeframe, lpc_recovery_state = lr_recovery_state inst,
                   lpc_last_dispatched = lr_last_dispatched_bar_timestamp inst,
                   lpc_recovery_target = lr_recovery_target_timestamp inst\<rparr>))"

definition poll_target :: "string \<Rightarrow> LanePollingContext \<Rightarrow> PollTarget" where
  "poll_target instance_id cx = \<lparr>pt_lane_id = instance_id, pt_account_id = lpc_account_id cx, pt_data_connector = lpc_data_connector cx,
     pt_symbol = lpc_symbol cx, pt_timeframe = lpc_timeframe cx\<rparr>"

text \<open>The two \<open>expect\<close>s read options that are \<open>Some\<close> there (lemma \<open>plan_never_panics\<close>).\<close>

definition plan_for_context :: "string \<Rightarrow> nat \<Rightarrow> int \<Rightarrow> LanePollingContext \<Rightarrow> LanePollPlan" where
  "plan_for_context instance_id page_limit now_ms cx =
     (if lpc_recovery_state cx = CatchingUp
      then ConfirmedRange (poll_target instance_id cx) (lpc_last_dispatched cx) (the (lpc_recovery_target cx)) (max page_limit 1)
        now_ms False False
      else if lpc_last_dispatched cx = None then LatestBar (poll_target instance_id cx) BootstrapTradable None
      else LatestConfirmedTarget (poll_target instance_id cx) (the (lpc_last_dispatched cx)) (lpc_recovery_state cx) page_limit now_ms)"

definition plan_lane_polling :: "string \<Rightarrow> nat \<Rightarrow> int \<Rightarrow> ('v, 'j, 'w) Runtime \<Rightarrow> ServiceError + LanePollPlan" where
  "plan_lane_polling instance_id page_limit now_ms s =
     (case lane_polling_context instance_id s of Inl e \<Rightarrow> Inl e | Inr cx \<Rightarrow> Inr (plan_for_context instance_id page_limit now_ms cx))"

text \<open>A fetch together with its events, as the result of executing a plan.\<close>

definition fetched :: "('a \<Rightarrow> LanePollFetchResult) \<Rightarrow> ('v, 'j, 'w, 'a \<times> PendingProviderEvent list) fetch_op
    \<Rightarrow> ('v, 'j, 'w, LanePollExecution) fetch_op" where
  "fetched wrap fetch = then_do fetch (\<lambda>(result, events). ok \<lparr>lpe_fetch_result = wrap result, lpe_provider_events = events\<rparr>)"

fun execute_lane_poll_plan :: "('j, 'w) RuntimeEnv \<Rightarrow> LanePollPlan \<Rightarrow> ('v, 'j, 'w, LanePollExecution) fetch_op" where
  "execute_lane_poll_plan env (LatestBar t mode expected) =
     fetched LatestBarFetched (gateway_fetch_latest_bar_with_events env (pt_lane_id t) (pt_account_id t) (pt_data_connector t)
       (pt_symbol t) (pt_timeframe t))"
| "execute_lane_poll_plan env (LatestConfirmedTarget t last_dispatched recovery_state page_limit now_ms) =
     fetched ConfirmedTargetFetched (gateway_fetch_latest_confirmed_bar_timestamp_with_events env (pt_lane_id t) (pt_account_id t)
       (pt_data_connector t) (pt_symbol t) (pt_timeframe t))"
| "execute_lane_poll_plan env (ConfirmedRange t start_after target page_limit now_ms start shortcut) =
     fetched ConfirmedRangeFetched (gateway_fetch_confirmed_bars_range_with_events env (pt_lane_id t) (pt_account_id t)
       (pt_data_connector t) (pt_symbol t) (pt_timeframe t) start_after target page_limit)"

subsection \<open>Applying a fetch\<close>

definition rt_replay_confirmed_bar_for_lane ::
    "('j, 'w) RuntimeEnv \<Rightarrow> CycleTimes \<Rightarrow> string \<Rightarrow> OhlcvBar \<Rightarrow> ConfirmedBarReplayMode
     \<Rightarrow> ('v, 'j, 'w, ProcessBarOutcome ConfirmedBarReplayResult) runtime_op" where
  "rt_replay_confirmed_bar_for_lane env spent instance_id bar mode =
     (case mode of
        LiveConfirmedTradable \<Rightarrow>
          then_do (tries (rt_instance instance_id)) (\<lambda>inst.
          if (case lr_last_dispatched_bar_timestamp inst of None \<Rightarrow> False | Some previous \<Rightarrow> bar_timestamp bar \<le> previous)
          then ok \<lparr>cr_applied = False, cr_outcome = None\<rparr>
          else then_do (process_bar_for_lane env spent instance_id bar Confirmed) (\<lambda>outcome.
               ok \<lparr>cr_applied = True, cr_outcome = Some outcome\<rparr>))
      | _ \<Rightarrow> then_do (rt_apply_state_only_confirmed_bar instance_id bar) (\<lambda>applied.
               ok \<lparr>cr_applied = applied, cr_outcome = None\<rparr>))"

text \<open>A live bar is recorded when it was applied, its outcome reported when there is one.\<close>

definition apply_live_bar :: "('j, 'w) RuntimeEnv \<Rightarrow> CycleTimes \<Rightarrow> string \<Rightarrow> OhlcvBar \<Rightarrow> ('v, 'j, 'w, LanePollApplyOutcome) runtime_op" where
  "apply_live_bar env spent lane_id bar =
     then_do (rt_replay_confirmed_bar_for_lane env spent lane_id bar LiveConfirmedTradable) (\<lambda>replay.
     ok (LanePollApplyOutcome_default\<lparr>lpo_advance := \<lparr>pa_recorded_bars = (if cr_applied replay then [bar] else []),
       pa_outcomes = (case cr_outcome replay of None \<Rightarrow> [] | Some outcome \<Rightarrow> [outcome])\<rparr>\<rparr>))"

definition apply_latest_bar_plan ::
    "('j, 'w) RuntimeEnv \<Rightarrow> CycleTimes \<Rightarrow> string \<Rightarrow> LatestBarPlanMode \<Rightarrow> timestamp option \<Rightarrow> OhlcvBar
     \<Rightarrow> ('v, 'j, 'w, LanePollApplyOutcome) runtime_op" where
  "apply_latest_bar_plan env spent lane_id mode expected bar =
     then_do (tries (rt_instance lane_id)) (\<lambda>inst.
     if lr_last_dispatched_bar_timestamp inst \<noteq> expected then ok LanePollApplyOutcome_default
     else (case mode of
        BootstrapTradable \<Rightarrow> apply_live_bar env spent lane_id bar
      | DuplicateOnly \<Rightarrow> ok (LanePollApplyOutcome_default\<lparr>lpo_advance :=
          \<lparr>pa_recorded_bars = (if lr_last_dispatched_bar_timestamp inst = Some (bar_timestamp bar) then [bar] else []), pa_outcomes = []\<rparr>\<rparr>)))"

definition apply_latest_confirmed_target_plan ::
    "('j, 'w) RuntimeEnv \<Rightarrow> PollTarget \<Rightarrow> timestamp \<Rightarrow> LaneRecoveryState \<Rightarrow> nat \<Rightarrow> int \<Rightarrow> timestamp option
     \<Rightarrow> ('v, 'j, 'w, LanePollApplyOutcome) runtime_op" where
  "apply_latest_confirmed_target_plan env t last_dispatched recovery_state page_limit now_ms latest_target =
     then_do (tries (rt_instance (pt_lane_id t))) (\<lambda>inst.
     if lr_last_dispatched_bar_timestamp inst \<noteq> Some last_dispatched \<or> lr_recovery_state inst \<noteq> recovery_state
     then ok LanePollApplyOutcome_default
     else case latest_target of None \<Rightarrow> ok LanePollApplyOutcome_default
       | Some latest \<Rightarrow>
           if latest \<le> last_dispatched then
             then_do (if recovery_state \<noteq> Healthy then complete_lane_recovery env (pt_lane_id t) ''target already current'' else ok ()) (\<lambda>_.
             ok (LanePollApplyOutcome_default\<lparr>lpo_next_plan := Some (LatestBar t DuplicateOnly (Some last_dispatched))\<rparr>))
           else ok (LanePollApplyOutcome_default\<lparr>lpo_next_plan := Some (ConfirmedRange t (Some last_dispatched) latest
             (max page_limit 2) now_ms True (recovery_state = Healthy))\<rparr>))"

text \<open>What follows a page of recovered bars: done, exhausted too early, or the next page.\<close>

definition after_recovery_page ::
    "('j, 'w) RuntimeEnv \<Rightarrow> PollTarget \<Rightarrow> timestamp \<Rightarrow> nat \<Rightarrow> int \<Rightarrow> ConfirmedBarPage \<Rightarrow> ('v, 'j, 'w, LanePollPlan option) runtime_op" where
  "after_recovery_page env t target page_limit now_ms page =
     then_do (tries (rt_instance (pt_lane_id t))) (\<lambda>inst.
     if (case lr_last_dispatched_bar_timestamp inst of None \<Rightarrow> False | Some time \<Rightarrow> target \<le> time)
     then then_do (complete_lane_recovery env (pt_lane_id t) ''recovery target reached'') (\<lambda>_. ok None)
     else if cbp_exhausted page
     then then_do (mark_lane_out_of_sync env (pt_lane_id t)
       (''confirmed history exhausted before reaching recovery target '' @ time_text env target)) (\<lambda>_. ok None)
     else case lr_last_dispatched_bar_timestamp inst of
       None \<Rightarrow> then_do (mark_lane_out_of_sync env (pt_lane_id t)
         ''recovery lost the authoritative last dispatched timestamp'') (\<lambda>_. ok None)
     | Some next_start_after \<Rightarrow> ok (Some (ConfirmedRange t (Some next_start_after) target (max page_limit 1) now_ms False False)))"

definition apply_recovered_page ::
    "('j, 'w) RuntimeEnv \<Rightarrow> PollTarget \<Rightarrow> timestamp \<Rightarrow> nat \<Rightarrow> int \<Rightarrow> ConfirmedBarPage \<Rightarrow> ('v, 'j, 'w, LanePollApplyOutcome) runtime_op" where
  "apply_recovered_page env t target page_limit now_ms page =
     then_do (apply_recovery_page (pt_lane_id t) (cbp_bars page)) (\<lambda>bars_applied.
     then_do (record_recovery_page_applied env (pt_lane_id t)
       \<lparr>rpa_account_id = pt_account_id t, rpa_symbol = pt_symbol t, rpa_timeframe = pt_timeframe t,
        rpa_recovery_target_timestamp = target, rpa_first_bar_timestamp = first_timestamp (cbp_bars page),
        rpa_last_bar_timestamp = last_timestamp (cbp_bars page), rpa_bars_applied = bars_applied,
        rpa_page_limit = page_limit, rpa_exhausted = cbp_exhausted page\<rparr>) (\<lambda>_.
     then_do (after_recovery_page env t target page_limit now_ms page) (\<lambda>next_plan.
     ok \<lparr>lpo_advance = \<lparr>pa_recorded_bars = cbp_bars page, pa_outcomes = []\<rparr>, lpo_next_plan = next_plan\<rparr>)))"

definition apply_confirmed_range_plan ::
    "('j, 'w) RuntimeEnv \<Rightarrow> CycleTimes \<Rightarrow> PollTarget \<Rightarrow> timestamp option \<Rightarrow> timestamp \<Rightarrow> nat \<Rightarrow> int \<Rightarrow> bool \<Rightarrow> bool \<Rightarrow> ConfirmedBarPage
     \<Rightarrow> ('v, 'j, 'w, LanePollApplyOutcome) runtime_op" where
  "apply_confirmed_range_plan env spent t start_after target page_limit now_ms start shortcut page =
     then_do (tries (rt_instance (pt_lane_id t))) (\<lambda>inst.
     if lr_last_dispatched_bar_timestamp inst \<noteq> start_after then ok LanePollApplyOutcome_default
     else case lr_last_dispatched_bar_timestamp inst of
       None \<Rightarrow> then_do (mark_lane_out_of_sync env (pt_lane_id t)
         ''recovery lost the authoritative last dispatched timestamp'') (\<lambda>_. ok LanePollApplyOutcome_default)
     | Some start_after_timestamp \<Rightarrow>
         (case validate_recovery_bars (env_texts env) (Some start_after_timestamp) target (cbp_bars page) of
            Inl reason \<Rightarrow> then_do (mark_lane_out_of_sync env (pt_lane_id t) reason) (\<lambda>_. ok LanePollApplyOutcome_default)
          | Inr _ \<Rightarrow>
              if shortcut \<and> cbp_exhausted page \<and> length (cbp_bars page) = 1 \<and> bar_timestamp (hd (cbp_bars page)) = target
              then apply_live_bar env spent (pt_lane_id t) (hd (cbp_bars page))
              else then_do (if start then start_lane_recovery env (pt_lane_id t) target now_ms else ok ()) (\<lambda>_.
                if cbp_bars page = []
                then then_do (record_recovery_no_progress env (pt_lane_id t) target (cbp_exhausted page)) (\<lambda>_.
                  ok LanePollApplyOutcome_default)
                else apply_recovered_page env t target page_limit now_ms page)))"

fun apply_fetched :: "('j, 'w) RuntimeEnv \<Rightarrow> CycleTimes \<Rightarrow> LanePollPlan \<Rightarrow> LanePollFetchResult \<Rightarrow> ('v, 'j, 'w, LanePollApplyOutcome) runtime_op" where
  "apply_fetched env spent (LatestBar t mode expected) (LatestBarFetched bar) =
     apply_latest_bar_plan env spent (pt_lane_id t) mode expected bar"
| "apply_fetched env spent (LatestConfirmedTarget t last_dispatched recovery_state page_limit now_ms) (ConfirmedTargetFetched latest) =
     apply_latest_confirmed_target_plan env t last_dispatched recovery_state page_limit now_ms latest"
| "apply_fetched env spent (ConfirmedRange t start_after target page_limit now_ms start shortcut) (ConfirmedRangeFetched page) =
     apply_confirmed_range_plan env spent t start_after target page_limit now_ms start shortcut page"
| "apply_fetched env spent plan result = fail (InvalidServiceConfiguration ''lane polling plan/fetch mismatch'')"

definition apply_lane_poll_plan ::
    "('j, 'w) RuntimeEnv \<Rightarrow> CycleTimes \<Rightarrow> LanePollPlan \<Rightarrow> LanePollExecution \<Rightarrow> ('v, 'j, 'w, LanePollApplyOutcome) runtime_op" where
  "apply_lane_poll_plan env spent plan execution =
     then_do (append_pending_provider_events env (lpe_provider_events execution)) (\<lambda>_.
     apply_fetched env spent plan (lpe_fetch_result execution))"

subsection \<open>One poll\<close>

definition poll_plan :: "('j, 'w) RuntimeEnv \<Rightarrow> CycleTimes \<Rightarrow> LanePollPlan \<Rightarrow> ('v, 'j, 'w, LanePollApplyOutcome) runtime_op" where
  "poll_plan env spent plan =
     handle (execute_lane_poll_plan env plan)
       (\<lambda>failure. then_do (append_pending_provider_events env (gff_provider_events failure)) (\<lambda>_. fail (gff_error failure)))
       (apply_lane_poll_plan env spent plan)"

fun is_recovery_page :: "LanePollPlan \<Rightarrow> bool" where
  "is_recovery_page (ConfirmedRange _ _ _ _ _ _ _) = True"
| "is_recovery_page _ = False"

definition extend_advance :: "'out LanePollingAdvance \<Rightarrow> 'out LanePollingAdvance \<Rightarrow> 'out LanePollingAdvance" where
  "extend_advance advance added = \<lparr>pa_recorded_bars = pa_recorded_bars advance @ pa_recorded_bars added,
     pa_outcomes = pa_outcomes advance @ pa_outcomes added\<rparr>"

partial_function (option) poll_loop ::
    "('j, 'w) RuntimeEnv \<Rightarrow> CycleTimes \<Rightarrow> nat \<Rightarrow> LanePollPlan option \<Rightarrow> nat \<Rightarrow> ProcessBarOutcome LanePollingAdvance \<Rightarrow> ('v, 'j, 'w) Runtime
     \<Rightarrow> ((ServiceError + ProcessBarOutcome LanePollingAdvance) \<times> ('v, 'j, 'w) Runtime) option" where
  "poll_loop env spent max_pages next_plan pages advance s =
     (case next_plan of None \<Rightarrow> Some (Inr advance, s)
      | Some plan \<Rightarrow>
          if is_recovery_page plan \<and> max max_pages 1 \<le> pages then Some (Inr advance, s)
          else (case poll_plan env spent plan s of
              (Inl error, s) \<Rightarrow> Some (Inl error, s)
            | (Inr outcome, s) \<Rightarrow>
                poll_loop env spent max_pages (lpo_next_plan outcome)
                  (if is_recovery_page plan then pages + 1 else pages)
                  (extend_advance advance (lpo_advance outcome)) s))"

definition rt_advance_lane_polling_once ::
    "('j, 'w) RuntimeEnv \<Rightarrow> CycleTimes \<Rightarrow> string \<Rightarrow> nat \<Rightarrow> nat \<Rightarrow> ('v, 'j, 'w) Runtime
     \<Rightarrow> ((ServiceError + ProcessBarOutcome LanePollingAdvance) \<times> ('v, 'j, 'w) Runtime) option" where
  "rt_advance_lane_polling_once env spent instance_id page_limit max_pages s =
     (case then_do (runtime_now_ms env) (\<lambda>now_ms. tries (plan_lane_polling instance_id page_limit now_ms)) s of
        (Inl error, s) \<Rightarrow> Some (Inl error, s)
      | (Inr plan, s) \<Rightarrow> poll_loop env spent max_pages (Some plan) 0 LanePollingAdvance_default s)"

subsection \<open>Entry points (polling.rs)\<close>

definition record_poll_result_events ::
    "('j, 'w) RuntimeEnv \<Rightarrow> string \<Rightarrow> ProcessBarOutcome list \<Rightarrow> ServiceError option \<Rightarrow> ('v, 'j, 'w, unit) runtime_op" where
  "record_poll_result_events env instance_id outcomes error =
     then_do (if outcomes \<noteq> [] then ignoring_errors (append_runtime_event env ''poll'' (Some instance_id) ''poll.processed''
         (''outcomes='' @ show_int (int (length outcomes)))) else ok ()) (\<lambda>_.
     case error of None \<Rightarrow> ok ()
     | Some error \<Rightarrow> ignoring_errors (append_runtime_event env ''poll'' (Some instance_id) ''poll.failed''
         (''error='' @ service_error_text error)))"

definition poll_instance_once_internal ::
    "('j, 'w) RuntimeEnv \<Rightarrow> CycleTimes \<Rightarrow> string \<Rightarrow> ('v, 'j, 'w) Runtime
     \<Rightarrow> ((ServiceError + ProcessBarOutcome LanePollingAdvance) \<times> ('v, 'j, 'w) Runtime) option" where
  "poll_instance_once_internal env spent instance_id =
     rt_advance_lane_polling_once env spent instance_id RECOVERY_PAGE_LIMIT MAX_RECOVERY_PAGES_PER_CYCLE"

text \<open>The unused clock reading that every entry point takes for its \<open>_now_ms\<close> argument is taken here too.\<close>

definition poll_instance_once_at ::
    "('j, 'w) RuntimeEnv \<Rightarrow> CycleTimes \<Rightarrow> string \<Rightarrow> ('v, 'j, 'w) Runtime
     \<Rightarrow> ((ServiceError + ProcessBarOutcome list) \<times> ('v, 'j, 'w) Runtime) option" where
  "poll_instance_once_at env spent instance_id s =
     map_option (\<lambda>(result, s).
       (case result of Inl error \<Rightarrow> Inl error | Inr advance \<Rightarrow> Inr (pa_outcomes advance),
        snd (record_poll_result_events env instance_id (case result of Inl _ \<Rightarrow> [] | Inr advance \<Rightarrow> pa_outcomes advance)
          (case result of Inl error \<Rightarrow> Some error | Inr _ \<Rightarrow> None) s)))
     (poll_instance_once_internal env spent instance_id (snd (runtime_now_ms env s)))"

definition poll_instance_once_detailed_at ::
    "('j, 'w) RuntimeEnv \<Rightarrow> CycleTimes \<Rightarrow> string \<Rightarrow> ('v, 'j, 'w) Runtime
     \<Rightarrow> ((ServiceError + ProcessBarOutcome LanePollingAdvance) \<times> ('v, 'j, 'w) Runtime) option" where
  "poll_instance_once_detailed_at env spent instance_id s = poll_instance_once_internal env spent instance_id s"

text \<open>Resolving the lane of a poll, then polling it at a clock reading.\<close>

definition poll_resolved ::
    "('j, 'w) RuntimeEnv \<Rightarrow> (('v, 'j, 'w) Runtime \<Rightarrow> ServiceError + string)
     \<Rightarrow> (string \<Rightarrow> ('v, 'j, 'w) Runtime \<Rightarrow> ((ServiceError + 'a) \<times> ('v, 'j, 'w) Runtime) option)
     \<Rightarrow> ('v, 'j, 'w) Runtime \<Rightarrow> ((ServiceError + 'a) \<times> ('v, 'j, 'w) Runtime) option" where
  "poll_resolved env resolve poll s =
     (case resolve s of Inl error \<Rightarrow> Some (Inl error, s) | Inr lane_id \<Rightarrow> poll lane_id (snd (runtime_now_ms env s)))"

definition poll_instance_once ::
    "('j, 'w) RuntimeEnv \<Rightarrow> CycleTimes \<Rightarrow> string \<Rightarrow> ('v, 'j, 'w) Runtime
     \<Rightarrow> ((ServiceError + ProcessBarOutcome list) \<times> ('v, 'j, 'w) Runtime) option" where
  "poll_instance_once env spent instance_id =
     poll_resolved env (single_lane_id_for_bot instance_id ''poll_instance_once'') (poll_instance_once_at env spent)"

definition poll_instance_once_detailed ::
    "('j, 'w) RuntimeEnv \<Rightarrow> CycleTimes \<Rightarrow> string \<Rightarrow> ('v, 'j, 'w) Runtime
     \<Rightarrow> ((ServiceError + ProcessBarOutcome LanePollingAdvance) \<times> ('v, 'j, 'w) Runtime) option" where
  "poll_instance_once_detailed env spent instance_id =
     poll_resolved env (single_lane_id_for_bot instance_id ''poll_instance_once'') (poll_instance_once_detailed_at env spent)"

definition poll_instance_symbol_once ::
    "('j, 'w) RuntimeEnv \<Rightarrow> CycleTimes \<Rightarrow> string \<Rightarrow> string \<Rightarrow> ('v, 'j, 'w) Runtime
     \<Rightarrow> ((ServiceError + ProcessBarOutcome list) \<times> ('v, 'j, 'w) Runtime) option" where
  "poll_instance_symbol_once env spent instance_id symbol =
     poll_resolved env (resolve_lane_id instance_id symbol) (poll_instance_once_at env spent)"

definition poll_instance_symbol_once_detailed ::
    "('j, 'w) RuntimeEnv \<Rightarrow> CycleTimes \<Rightarrow> string \<Rightarrow> string \<Rightarrow> ('v, 'j, 'w) Runtime
     \<Rightarrow> ((ServiceError + ProcessBarOutcome LanePollingAdvance) \<times> ('v, 'j, 'w) Runtime) option" where
  "poll_instance_symbol_once_detailed env spent instance_id symbol =
     poll_resolved env (resolve_lane_id instance_id symbol) (poll_instance_once_detailed_at env spent)"

subsection \<open>Planning\<close>

lemma plan_never_panics:
  "lane_polling_context i s = Inr cx \<Longrightarrow> lpc_recovery_state cx = CatchingUp \<Longrightarrow> lpc_recovery_target cx \<noteq> None"
  by (auto simp: lane_polling_context_def split: if_splits sum.splits)

text \<open>Which plans can follow which: a latest bar ends the poll, a target leads to the latest bar or to a
  page, a page only to a page.\<close>

fun may_follow :: "LanePollPlan \<Rightarrow> LanePollPlan option \<Rightarrow> bool" where
  "may_follow plan None = True"
| "may_follow (LatestBar _ _ _) (Some next_plan) = False"
| "may_follow (LatestConfirmedTarget _ _ _ _ _) (Some next_plan) =
     (case next_plan of LatestConfirmedTarget _ _ _ _ _ \<Rightarrow> False | _ \<Rightarrow> True)"
| "may_follow (ConfirmedRange _ _ _ _ _ _ _) (Some next_plan) = is_recovery_page next_plan"

abbreviation yields :: "('s, 'e, 'a) workflow \<Rightarrow> ('a \<Rightarrow> bool) \<Rightarrow> bool" where
  "yields m Q \<equiv> runs (\<lambda>_. True) m (\<lambda>_. True) (\<lambda>a _. Q a)"

lemma yields_then_do: "(\<And>a. yields (k a) Q) \<Longrightarrow> yields (then_do m k) Q"
  by (rule runs_then_do [where Q = "\<lambda>_ _. True"]) (auto simp: runs_def split: prod.split sum.split)

lemma yields_last: "yields (ok a) Q \<longleftrightarrow> Q a" "yields (fail e) Q" "yields (Pair (Inr a)) Q \<longleftrightarrow> Q a" "yields (Pair (Inl e)) Q"
  by (auto simp: runs_def)

lemma yieldsD: "yields m Q \<Longrightarrow> m s = (Inr a, s') \<Longrightarrow> Q a"
  by (auto simp: runs_def split: prod.splits sum.splits)

lemma live_bar_follow: "yields (apply_live_bar env spent i bar) (\<lambda>outcome. lpo_next_plan outcome = None)"
  unfolding apply_live_bar_def by (rule yields_then_do) (simp add: yields_last LanePollApplyOutcome_default_def)

lemma recovered_page_follow:
  "yields (apply_recovered_page env t target limit now page)
     (\<lambda>outcome. case lpo_next_plan outcome of None \<Rightarrow> True | Some plan \<Rightarrow> is_recovery_page plan)"
proof -
  have after: "yields (after_recovery_page env t target limit now page) (\<lambda>next_plan. case next_plan of None \<Rightarrow> True | Some plan \<Rightarrow> is_recovery_page plan)"
    unfolding after_recovery_page_def by (auto simp: yields_last intro!: yields_then_do split: option.split)
  show ?thesis
    unfolding apply_recovered_page_def
    by (rule yields_then_do, rule yields_then_do, rule runs_then_do [OF after]) (simp add: runs_def)
qed

lemma apply_follow: "yields (apply_fetched env spent plan result) (\<lambda>outcome. may_follow plan (lpo_next_plan outcome))"
proof (cases "(env, spent, plan, result)" rule: apply_fetched.cases)
  case (1 env spent t mode expected bar)
  then show ?thesis
    by (auto simp: apply_latest_bar_plan_def yields_last LanePollApplyOutcome_default_def
        intro!: yields_then_do runs_weaken [OF live_bar_follow] split: LatestBarPlanMode.split)
next
  case (2 env spent t last_dispatched recovery_state page_limit now_ms latest)
  then show ?thesis
    by (auto simp: apply_latest_confirmed_target_plan_def yields_last LanePollApplyOutcome_default_def
        intro!: yields_then_do split: option.split)
next
  case (3 env spent t start_after target page_limit now_ms start shortcut page)
  have "may_follow (ConfirmedRange t start_after target page_limit now_ms start shortcut) next_plan"
    if "case next_plan of None \<Rightarrow> True | Some plan \<Rightarrow> is_recovery_page plan" for next_plan
    using that by (cases next_plan) auto
  with 3 show ?thesis
    by (auto simp: apply_confirmed_range_plan_def yields_last LanePollApplyOutcome_default_def
        intro!: yields_then_do runs_weaken [OF live_bar_follow] runs_weaken [OF recovered_page_follow] split: option.split sum.split)
qed (simp_all add: yields_last)

lemma poll_follow: "poll_plan env spent plan s = (Inr outcome, s') \<Longrightarrow> may_follow plan (lpo_next_plan outcome)"
proof -
  have applied: "yields (apply_lane_poll_plan env spent plan execution) (\<lambda>outcome. may_follow plan (lpo_next_plan outcome))" for execution
    unfolding apply_lane_poll_plan_def by (rule yields_then_do) (rule apply_follow)
  show "poll_plan env spent plan s = (Inr outcome, s') \<Longrightarrow> may_follow plan (lpo_next_plan outcome)"
    using yieldsD [OF applied] by (auto simp: poll_plan_def handle_def then_do_def split: prod.splits sum.splits)
qed

subsection \<open>Polls return\<close>

text \<open>The run of the loop, with the number of plans it executes.\<close>

inductive poll_run ::
    "('j, 'w) RuntimeEnv \<Rightarrow> CycleTimes \<Rightarrow> nat \<Rightarrow> LanePollPlan option \<Rightarrow> nat \<Rightarrow> ProcessBarOutcome LanePollingAdvance \<Rightarrow> ('v, 'j, 'w) Runtime
     \<Rightarrow> nat \<Rightarrow> (ServiceError + ProcessBarOutcome LanePollingAdvance) \<times> ('v, 'j, 'w) Runtime \<Rightarrow> bool"
  for env spent max_pages where
  run_done: "poll_run env spent max_pages None pages advance s 0 (Inr advance, s)"
| run_page_bound: "is_recovery_page plan \<Longrightarrow> max max_pages 1 \<le> pages \<Longrightarrow> poll_run env spent max_pages (Some plan) pages advance s 0 (Inr advance, s)"
| run_failed: "\<not> (is_recovery_page plan \<and> max max_pages 1 \<le> pages) \<Longrightarrow> poll_plan env spent plan s = (Inl error, s')
    \<Longrightarrow> poll_run env spent max_pages (Some plan) pages advance s 1 (Inl error, s')"
| run_next: "\<not> (is_recovery_page plan \<and> max max_pages 1 \<le> pages) \<Longrightarrow> poll_plan env spent plan s = (Inr outcome, s')
    \<Longrightarrow> poll_run env spent max_pages (lpo_next_plan outcome) (if is_recovery_page plan then pages + 1 else pages)
      (extend_advance advance (lpo_advance outcome)) s' n r
    \<Longrightarrow> poll_run env spent max_pages (Some plan) pages advance s (Suc n) r"

lemma run_is_loop: "poll_run env spent max_pages next_plan pages advance s n r \<Longrightarrow> poll_loop env spent max_pages next_plan pages advance s = Some r"
proof (induction rule: poll_run.induct)
  case (run_next plan pages s outcome s' advance n r)
  then show ?case by (subst poll_loop.simps) auto
qed (subst poll_loop.simps, simp)+

text \<open>How many plans a poll may still execute.\<close>

fun plans_left :: "nat \<Rightarrow> LanePollPlan option \<Rightarrow> nat \<Rightarrow> nat" where
  "plans_left max_pages None pages = 0"
| "plans_left max_pages (Some (LatestBar _ _ _)) pages = 1"
| "plans_left max_pages (Some (LatestConfirmedTarget _ _ _ _ _)) pages = Suc (max 1 (max max_pages 1 - pages))"
| "plans_left max_pages (Some (ConfirmedRange _ _ _ _ _ _ _)) pages = max max_pages 1 - pages"

lemma follow_decreases:
  assumes "may_follow plan next_plan" "\<not> (is_recovery_page plan \<and> max max_pages 1 \<le> pages)"
  shows "plans_left max_pages next_plan (if is_recovery_page plan then pages + 1 else pages) < plans_left max_pages (Some plan) pages"
  using assms by (cases plan; cases next_plan) (auto split: LanePollPlan.splits, auto elim: is_recovery_page.elims)

lemma poll_run_exists:
  "\<exists>n r. n \<le> plans_left max_pages next_plan pages \<and> poll_run env spent max_pages next_plan pages advance s n r"
proof (induction "plans_left max_pages next_plan pages" arbitrary: next_plan pages advance s rule: less_induct)
  case less
  show ?case
  proof (cases next_plan)
    case None
    then show ?thesis by (auto intro: run_done)
  next
    case (Some plan)
    show ?thesis
    proof (cases "is_recovery_page plan \<and> max max_pages 1 \<le> pages")
      case True
      with run_page_bound [of plan max_pages pages env spent advance s] Some show ?thesis by blast
    next
      case False
      obtain result s' where run: "poll_plan env spent plan s = (result, s')" by fastforce
      show ?thesis
      proof (cases result)
        case (Inl error)
        from False Some have "1 \<le> plans_left max_pages next_plan pages" by (cases plan) auto
        with run_failed [OF False run [unfolded Inl]] Some show ?thesis by blast
      next
        case (Inr outcome)
        have "plans_left max_pages (lpo_next_plan outcome) (if is_recovery_page plan then pages + 1 else pages) < plans_left max_pages next_plan pages"
          using follow_decreases [OF poll_follow [OF run [unfolded Inr]] False] Some by simp
        from less [OF this] this run_next [OF False run [unfolded Inr]] Some show ?thesis
          by (metis Suc_leI le_trans not_less_eq_eq)
      qed
    qed
  qed
qed

lemma loop_returns:
  "\<exists>n r. n \<le> max m 1 + 1 \<and> poll_run env spent m (Some p) 0 adv s n r \<and> poll_loop env spent m (Some p) 0 adv s = Some r"
proof -
  have "plans_left m (Some p) 0 \<le> max m 1 + 1" by (cases p) auto
  then show ?thesis using poll_run_exists [of m "Some p" 0 env spent adv s] by (meson le_trans run_is_loop)
qed

lemma advance_returns: "\<exists>r. rt_advance_lane_polling_once env spent i page_limit m s = Some r"
proof (cases "then_do (runtime_now_ms env) (\<lambda>now_ms. tries (plan_lane_polling i page_limit now_ms)) s")
  case (Pair result s')
  with loop_returns [of m env spent "projr result" LanePollingAdvance_default s'] show ?thesis
    by (cases result) (auto simp: rt_advance_lane_polling_once_def)
qed

text \<open>C14: Every poll returns: whatever the provider answers and whatever the state, one poll of a lane
  executes at most one plan more than its page bound and then ends with a result or an error; so every
  poll entry point returns.\<close>
theorem polling_terminates:
  "(\<exists>n r. n \<le> max max_pages 1 + 1 \<and> poll_run env spent max_pages (Some plan) 0 LanePollingAdvance_default s n r
      \<and> poll_loop env spent max_pages (Some plan) 0 LanePollingAdvance_default s = Some r)
   \<and> (\<exists>r. rt_advance_lane_polling_once env spent i page_limit max_pages s = Some r)
   \<and> (\<exists>r. poll_instance_once env spent i s = Some r) \<and> (\<exists>r. poll_instance_symbol_once_detailed env spent i symbol s = Some r)"
proof -
  have "\<exists>r. poll_instance_once_at env spent i s = Some r" "\<exists>r. poll_instance_once_detailed_at env spent i s = Some r" for i s
    unfolding poll_instance_once_at_def poll_instance_once_detailed_at_def poll_instance_once_internal_def
    using advance_returns by (fastforce simp: split_paired_all)+
  then show ?thesis
    using loop_returns advance_returns by (auto simp: poll_instance_once_def poll_instance_symbol_once_detailed_def poll_resolved_def split: sum.split)
qed

subsection \<open>What a poll keeps\<close>

lemma pending_events_quiet: "(\<And>sc i k t. keeps view (append_runtime_event env sc i k t)) \<Longrightarrow> keeps view (append_pending_provider_events env events)"
  unfolding append_pending_provider_events_def by (intro frame_rules)

context gateway_free
begin

lemma fetched_free: "keeps view (execute_lane_poll_plan env plan)"
  by (cases plan) (auto simp: fetched_def gateway_fetch_latest_bar_with_events_def
      gateway_fetch_latest_confirmed_bar_timestamp_with_events_def gateway_fetch_confirmed_bars_range_with_events_def
      fetch_with_events_def validate_gateway_connector_kind_def Let_def
      intro!: frame_rules validate_free on_gateway_free)

end

text \<open>An invariant that events keep, that cycles preserve and that the recovery bookkeeping preserves is
  preserved by a poll, on success and on failure.\<close>

locale poll_invariant =
  fixes env :: "('j, 'w) RuntimeEnv" and spent :: CycleTimes and I :: "('v, 'j, 'w) Runtime \<Rightarrow> bool"
  assumes inv_fetch: "preserves I (execute_lane_poll_plan env plan)"
    and inv_events: "preserves I (append_runtime_event env sc ent k txt)"
    and inv_cycle: "preserves I (process_bar_for_lane env spent i bar phase)"
    and inv_state_only: "preserves I (rt_apply_state_only_confirmed_bar i bar)"
    and inv_complete: "preserves I (complete_lane_recovery env i reason)"
    and inv_start: "preserves I (start_lane_recovery env i target now)"
    and inv_out_of_sync: "preserves I (mark_lane_out_of_sync env i reason)"
    and inv_no_progress: "preserves I (record_recovery_no_progress env i target exhausted)"
    and inv_page: "preserves I (apply_recovery_page i bars)"
    and inv_page_event: "preserves I (record_recovery_page_applied env i detail)"
    and inv_now: "preserves I (runtime_now_ms env)"
begin

lemma pending_preserves: "preserves I (append_pending_provider_events env events)"
  unfolding append_pending_provider_events_def by (intro invariant_rules inv_events)

lemma replay_preserves: "preserves I (rt_replay_confirmed_bar_for_lane env spent i bar mode)"
  unfolding rt_replay_confirmed_bar_for_lane_def
  by (cases mode) (auto intro!: invariant_rules inv_cycle inv_state_only)

lemma live_bar_preserves: "preserves I (apply_live_bar env spent i bar)"
  unfolding apply_live_bar_def by (intro invariant_rules replay_preserves)

lemma recovered_page_preserves: "preserves I (apply_recovered_page env t target limit now page)"
  unfolding apply_recovered_page_def after_recovery_page_def
  by (intro invariant_rules inv_page inv_page_event inv_complete inv_out_of_sync)

lemma latest_bar_preserves: "preserves I (apply_latest_bar_plan env spent i mode expected bar)"
  unfolding apply_latest_bar_plan_def by (cases mode) (auto intro!: invariant_rules live_bar_preserves)

lemma target_preserves: "preserves I (apply_latest_confirmed_target_plan env t last_dispatched state limit now latest)"
  unfolding apply_latest_confirmed_target_plan_def by (intro invariant_rules inv_complete)

lemma range_preserves: "preserves I (apply_confirmed_range_plan env spent t after target limit now start shortcut page)"
  unfolding apply_confirmed_range_plan_def
  by (intro invariant_rules live_bar_preserves recovered_page_preserves inv_start inv_no_progress inv_out_of_sync)

lemma fetched_preserves: "preserves I (apply_fetched env spent plan result)"
  by (cases plan; cases result)
    (simp_all only: apply_fetched.simps latest_bar_preserves target_preserves range_preserves preserves_fail)

lemma plan_preserves: "preserves I (poll_plan env spent plan)"
  unfolding poll_plan_def apply_lane_poll_plan_def
  by (intro invariant_rules inv_fetch pending_preserves fetched_preserves)

lemma run_preserves: "poll_run env spent max_pages next_plan pages advance s n r \<Longrightarrow> I s \<Longrightarrow> I (snd r)"
proof (induction rule: poll_run.induct)
  case (run_failed plan pages s error s' advance)
  then show ?case using preservesD [OF plan_preserves, of s plan] by simp
next
  case (run_next plan pages s outcome s' advance n r)
  then show ?case using preservesD [OF plan_preserves, of s plan] by simp
qed simp_all

lemma poll_preserves:
  assumes "rt_advance_lane_polling_once env spent i page_limit max_pages s = Some (r, s')" "I s"
  shows "I s'"
proof (cases "then_do (runtime_now_ms env) (\<lambda>now_ms. tries (plan_lane_polling i page_limit now_ms)) s")
  case (Pair planned s1)
  have "preserves I (then_do (runtime_now_ms env) (\<lambda>now_ms. tries (plan_lane_polling i page_limit now_ms)))"
    by (intro invariant_rules inv_now)
  from preservesD [OF this assms(2)] Pair have s1: "I s1" by simp
  show ?thesis
  proof (cases planned)
    case (Inr plan)
    obtain n r' where "poll_run env spent max_pages (Some plan) 0 LanePollingAdvance_default s1 n r'" using poll_run_exists by blast
    from run_is_loop [OF this] run_preserves [OF this s1] assms(1) Pair Inr show ?thesis
      by (simp add: rt_advance_lane_polling_once_def)
  qed (use assms(1) Pair s1 in \<open>simp add: rt_advance_lane_polling_once_def\<close>)
qed

end

lemma recovery_keeps_ledgers:
  "keeps rt_account_ledgers (rt_apply_state_only_confirmed_bar i bar)" "keeps rt_account_ledgers (complete_lane_recovery env i reason)"
  "keeps rt_account_ledgers (start_lane_recovery env i target now)" "keeps rt_account_ledgers (mark_lane_out_of_sync env i reason)"
  "keeps rt_account_ledgers (record_recovery_no_progress env i target exhausted)" "keeps rt_account_ledgers (record_recovery_page_applied env i detail)"
  unfolding rt_apply_state_only_confirmed_bar_def complete_lane_recovery_def start_lane_recovery_def mark_lane_out_of_sync_def
    record_recovery_no_progress_def record_recovery_page_applied_def
  by (intro frame_rules lane_free_ledgers.instance_free quiet_ledgers.json_event_quiet quiet_ledgers.event_writes_quiet)+

lemma page_keeps_ledgers: "keeps rt_account_ledgers (apply_recovery_page i bars)"
proof -
  have "keeps rt_account_ledgers (apply_bars i bars n)" for n
  proof (induction bars arbitrary: n)
    case (Cons bar bars)
    show ?case unfolding apply_bars.simps by (intro frame_rules recovery_keeps_ledgers Cons.IH)
  qed (simp only: apply_bars.simps keeps_ok)
  then show ?thesis unfolding apply_recovery_page_def by (intro frame_rules lane_free_ledgers.instance_free)
qed

interpretation poll_ledgers: poll_invariant env spent "ledgers_rel s0" for env spent s0
proof unfold_locales
  show "preserves (ledgers_rel s0) (process_bar_for_lane env spent i bar phase)" for i bar phase
    by (rule cycles_move_ledgers)
qed (simp_all add: keeps_ledgers_rel free_ledgers.fetched_free quiet_ledgers.event_writes_quiet recovery_keeps_ledgers
    page_keeps_ledgers quiet_ledgers.now_quiet)

interpretation poll_lanes: poll_invariant env spent "lanes_rel lane_typed s0" for env spent s0
proof unfold_locales
  show "preserves (lanes_rel lane_typed s0) (process_bar_for_lane env spent i bar phase)" for i bar phase
    unfolding process_bar_for_lane_def run_process_bar_cycle_def by (rule typed.cycling.cycle_preserves)
  show "preserves (lanes_rel lane_typed s0) (rt_apply_state_only_confirmed_bar i bar)" for i bar
    unfolding rt_apply_state_only_confirmed_bar_def by (intro typed.with_lane typed.state_only)
qed (simp_all add: keeps_lanes_rel free_lanes.fetched_free quiet_lanes.event_writes_quiet quiet_lanes.now_quiet typed.recovery_moves)

text \<open>The page of a lane that is up to date: one bar, the target itself, with nothing behind it.\<close>

definition lone_live_bar :: "bool \<Rightarrow> timestamp \<Rightarrow> ConfirmedBarPage \<Rightarrow> bool" where
  "lone_live_bar shortcut target page \<longleftrightarrow> shortcut \<and> cbp_exhausted page \<and> map bar_timestamp (cbp_bars page) = [target]"

lemma shortcut_taken_iff:
  "(shortcut \<and> cbp_exhausted page \<and> length (cbp_bars page) = 1 \<and> bar_timestamp (hd (cbp_bars page)) = target)
   = lone_live_bar shortcut target page"
  by (cases "cbp_bars page") (auto simp: lone_live_bar_def)

text \<open>C15: Recovered history never trades: applying a page of confirmed bars, with the live shortcut of a
  healthy lane allowed or not, leaves the position and run state of every lane and all ledgers as they
  were, whatever the page holds and whatever the application returns, unless the shortcut is allowed and
  the page is exhausted and holds one bar only, the target that the lane was asked to reach.\<close>
theorem recovered_bars_never_trade:
  "let s' = snd (apply_confirmed_range_plan env spent t start_after target limit now start shortcut page s)
   in if lone_live_bar shortcut target page then True
      else lanes_rel same_position s s' \<and> rt_account_ledgers s' = rt_account_ledgers s"
proof (cases "lone_live_bar shortcut target page")
  case False
  let ?apply = "apply_confirmed_range_plan env spent t start_after target limit now start shortcut page"
  have "preserves (lanes_rel same_position s) ?apply"
    unfolding apply_confirmed_range_plan_def shortcut_taken_iff if_not_P [OF False] apply_recovered_page_def after_recovery_page_def
    by (intro invariant_rules position.recovery_moves)
  from preservesD [OF this lanes_rel_refl] have "lanes_rel same_position s (snd (?apply s))" by (simp add: position.refl)
  moreover have ledgers: "keeps rt_account_ledgers ?apply"
    unfolding apply_confirmed_range_plan_def shortcut_taken_iff if_not_P [OF False] apply_recovered_page_def after_recovery_page_def
    by (intro frame_rules recovery_keeps_ledgers page_keeps_ledgers)
  ultimately show ?thesis using False keepsD [OF ledgers, of s] by simp
qed simp

end
