(* ===== verification/Reconciliation.thy ===== *)
theory Reconciliation
  imports Polling
begin

section \<open>Reconciliation (openticker-runtime/src/reconciliation)\<close>

text \<open>
  How the runtime compares a lane with the journal and the provider and decides whether it may trade
  (\<open>assessment.rs\<close>, \<open>gateway.rs\<close>), brings the journal and the lane up to date with what it found
  (\<open>apply.rs\<close>), and runs this for one lane or for every lane that waits for it at startup
  (\<open>orchestrator.rs\<close>). A bot summary is an option, as in Summaries.

  The lemmas show what a reconciliation may touch and in which state it leaves a lane: only a startup
  reconciliation that found the lane safe and was asked to resume it makes the lane run.
\<close>

subsection \<open>Records without a bar (repo/journal.rs)\<close>

definition rt_append_order_record ::
    "('j, 'w) RuntimeEnv \<Rightarrow> string \<Rightarrow> string \<Rightarrow> TradeIntent \<Rightarrow> string \<Rightarrow> f64 \<Rightarrow> f64 \<Rightarrow> ('v, 'j, 'w, unit) runtime_op" where
  "rt_append_order_record env lane_id client_order_id intent status price quantity =
     append_order_record_with_trace env lane_id client_order_id intent status price quantity None None"

definition rt_append_fill_record ::
    "('j, 'w) RuntimeEnv \<Rightarrow> string \<Rightarrow> string \<Rightarrow> f64 \<Rightarrow> f64 \<Rightarrow> string option \<Rightarrow> f64 option \<Rightarrow> f64 option \<Rightarrow> ('v, 'j, 'w, unit) runtime_op" where
  "rt_append_fill_record env lane_id client_order_id price quantity asset amount normalized_usd =
     append_fill_record_with_trace env lane_id client_order_id price quantity asset amount normalized_usd None None"

definition rt_append_position_record ::
    "('j, 'w) RuntimeEnv \<Rightarrow> string \<Rightarrow> bool \<Rightarrow> f64 \<Rightarrow> f64 option \<Rightarrow> f64 \<Rightarrow> string \<Rightarrow> ('v, 'j, 'w, unit) runtime_op" where
  "rt_append_position_record env lane_id has_position quantity entry_price realized_pnl_usd reason =
     append_position_record_with_trace env lane_id has_position quantity entry_price realized_pnl_usd reason None None"

subsection \<open>The account snapshot (reconciliation/gateway.rs)\<close>

record ConnectorSnapshotOutcome =
  cso_snapshot :: "ConnectorAccountSnapshot option"
  cso_unavailable_reason :: "string option"

definition snapshot_counts :: "ConnectorAccountSnapshot \<Rightarrow> (string \<times> Json) list" where
  "snapshot_counts snapshot =
     [(''open_orders_count'', JInt (int (length (cs_open_orders snapshot)))),
      (''positions_count'', JInt (int (length (cs_positions snapshot)))),
      (''balances_count'', JInt (int (length (cs_balances snapshot))))]"

text \<open>An unavailable provider is an outcome; an unknown account is an error.\<close>

definition fetch_account_snapshot_outcome ::
    "('j, 'w) RuntimeEnv \<Rightarrow> string \<Rightarrow> string \<Rightarrow> ('v, 'j, 'w, ConnectorSnapshotOutcome) runtime_op" where
  "fetch_account_snapshot_outcome env lane_id account_id =
     then_do (cg_account_kind lane_id account_id) (\<lambda>connector_kind.
     let plog = provider_operation lane_id ''provider.account_snapshot'' account_id connector_kind ''fetch_account_snapshot'' in
     then_do (record_stage env plog ''requested'' ''requesting remote account snapshot'' []) (\<lambda>_.
     handle (on_gateway (gw_fetch_account_snapshot_unchecked (env_clock env) (env_remote env) account_id))
       (\<lambda>error. case error of
            UnknownAccount _ \<Rightarrow> fail (missing_connector_status account_id)
          | LockPoisoned \<Rightarrow> fail (InvalidServiceConfiguration ''connector registry lock poisoned'')
          | _ \<Rightarrow> then_do (ignoring_errors (record_stage env plog ''failed'' ''remote account snapshot unavailable''
                   [(''error'', JString (gateway_error_text error))])) (\<lambda>_.
                 ok \<lparr>cso_snapshot = None,
                   cso_unavailable_reason = Some (''connector_snapshot_unavailable('' @ gateway_error_text error @ '')'')\<rparr>))
       (\<lambda>snapshot.
          then_do (record_stage env plog ''succeeded''
            (''snapshot received with '' @ show_int (int (length (cs_open_orders snapshot))) @ '' open orders, ''
              @ show_int (int (length (cs_positions snapshot))) @ '' positions, ''
              @ show_int (int (length (cs_balances snapshot))) @ '' balances'')
            [(''response'', JObject (snapshot_counts snapshot))]) (\<lambda>_.
          ok \<lparr>cso_snapshot = Some snapshot, cso_unavailable_reason = None\<rparr>))))"

subsection \<open>Assessment (reconciliation/assessment.rs)\<close>

definition ConnectorAccountSnapshot_default :: ConnectorAccountSnapshot where
  "ConnectorAccountSnapshot_default = \<lparr>cs_open_orders = [], cs_positions = [], cs_balances = []\<rparr>"

text \<open>What the journal knows of a lane: the open orders of its symbol.\<close>

definition lane_open_order_ids ::
    "('j, 'w) RuntimeEnv \<Rightarrow> string \<Rightarrow> string \<Rightarrow> ('v, 'j, 'w) Runtime \<Rightarrow> ServiceError + string list" where
  "lane_open_order_ids env bot_id symbol s =
     (case journal_read (jn_recent_orders_for_bot (env_journal env) bot_id RECONCILIATION_JOURNAL_SCAN_LIMIT) s of Inl e \<Rightarrow> Inl e
      | Inr orders \<Rightarrow>
          (case journal_read (jn_recent_fills_for_bot (env_journal env) bot_id RECONCILIATION_JOURNAL_SCAN_LIMIT) s of Inl e \<Rightarrow> Inl e
           | Inr fills \<Rightarrow> Inr (local_open_order_ids (filter (\<lambda>order. or_symbol order = Some symbol) orders)
               (map fr_client_order_id (filter (\<lambda>fill. fr_symbol fill = Some symbol) fills)))))"

definition assess_reconciliation :: "('j, 'w) RuntimeEnv \<Rightarrow> string \<Rightarrow> ('v, 'j, 'w, ReconciliationAssessment) runtime_op" where
  "assess_reconciliation env instance_id =
     then_do (tries (rt_instance instance_id)) (\<lambda>inst.
     let account_id = ic_account (lr_config inst); bot_id = ic_id (lr_config inst); symbol = lr_lane_symbol inst in
     then_do (reads (\<lambda>s. case hm_get (rt_accounts s) account_id of None \<Rightarrow> False
       | Some account \<Rightarrow> ac_reconciliation_remote_snapshot account)) (\<lambda>use_remote.
     then_do (tries (latest_authoritative_position_for_instance env instance_id)) (\<lambda>latest_local_position.
     then_do (tries (lane_open_order_ids env bot_id symbol)) (\<lambda>order_ids.
     then_do (reads (accounting_lanes_for_account account_id)) (\<lambda>account_lanes.
     then_do (tries (latest_accounting_positions_for_account env account_id RECONCILIATION_JOURNAL_SCAN_LIMIT)) (\<lambda>latest_positions.
     let aggregate_managed_qty = ase_aggregate_managed_qty (account_symbol_exposure account_id symbol
           ConnectorAccountSnapshot_default account_lanes latest_positions) in
     then_do (fetch_account_snapshot_outcome env instance_id account_id) (\<lambda>connector.
     let remote_open_orders = (if use_remote then (case cso_snapshot connector of None \<Rightarrow> []
           | Some snapshot \<Rightarrow> open_orders_for_symbol snapshot symbol) else []) in
     then_do (tries (rt_classify_remote_open_orders env account_id symbol remote_open_orders)) (\<lambda>classified_orders.
     let exposure = (if use_remote then map_option (\<lambda>snapshot. account_symbol_exposure account_id symbol snapshot account_lanes
           latest_positions) (cso_snapshot connector) else None);
         summary = reconciliation_assessment_summary bot_id (lr_position_quantity inst) latest_local_position order_ids
           classified_orders (if use_remote then cso_unavailable_reason connector else None) exposure aggregate_managed_qty in
     ok (build_reconciliation_assessment symbol (use_remote \<and> cso_snapshot connector \<noteq> None) (cso_snapshot connector) summary)))))))))"

subsection \<open>Summaries\<close>

definition rt_get_instance :: "('j, 'w) RuntimeEnv \<Rightarrow> string \<Rightarrow> ('v, 'j, 'w, InstanceSummary option) runtime_op" where
  "rt_get_instance env bot_id = tries (get_instance (env_texts env) bot_id)"

subsection \<open>The decimal debug form\<close>

text \<open>
  \<open>{:?}\<close> of a float: the shortest digits that read back, in exponential form from \<open>1e16\<close> on and
  below \<open>1e-4\<close>, and with at least one digit after the point otherwise.
\<close>

definition exponential_form :: "string \<Rightarrow> int \<Rightarrow> string" where
  "exponential_form ds t =
     (let e = t + int (length ds) - 1 in
      take 1 ds @ (if 1 < length ds then ''.'' @ drop 1 ds else []) @ ''e'' @ show_int e)"

definition show_f64_debug :: "f64 \<Rightarrow> string" where
  "show_f64_debug x =
     (if is_nan x then ''NaN''
      else if \<not> is_finite x then (if x < 0 then ''-inf'' else ''inf'')
      else if x = 0 then ''0.0''
      else let q = \<bar>fval x\<bar>; (c, t) = shortest_dec 17 1 (dec_exp q) (f64_rnd q) q; ds = dec_digits c
           in (if x < 0 then ''-'' else [])
              @ (if 10 ^ 16 \<le> q \<or> q < 1 / 10 ^ 4 then exponential_form ds t
                 else if 0 \<le> t then place_point ds t @ ''.0'' else place_point ds t))"

definition show_f64_option_debug :: "f64 option \<Rightarrow> string" where
  "show_f64_option_debug x = (case x of None \<Rightarrow> ''None'' | Some v \<Rightarrow> ''Some('' @ show_f64_debug v @ '')'')"

text \<open>\<open>==\<close> on optional floats: a NaN equals nothing.\<close>

definition f64_option_eq :: "f64 option \<Rightarrow> f64 option \<Rightarrow> bool" where
  "f64_option_eq x y = (case (x, y) of (None, None) \<Rightarrow> True | (Some u, Some v) \<Rightarrow> \<not> is_nan u \<and> u = v | _ \<Rightarrow> False)"

subsection \<open>Bringing the journal up to date (reconciliation/apply.rs)\<close>

record ReconciliationSyncOutcome =
  rso_position_synced :: bool
  rso_stale_local_open_orders_closed_count :: nat
  rso_remote_open_orders_backfilled_count :: nat

definition ReconciliationSyncOutcome_default :: ReconciliationSyncOutcome where
  "ReconciliationSyncOutcome_default = \<lparr>rso_position_synced = False, rso_stale_local_open_orders_closed_count = 0,
     rso_remote_open_orders_backfilled_count = 0\<rparr>"

definition mark_startup_reconciliation_failed ::
    "('j, 'w) RuntimeEnv \<Rightarrow> string \<Rightarrow> ServiceError \<Rightarrow> ('v, 'j, 'w, unit option) runtime_op" where
  "mark_startup_reconciliation_failed env instance_id error =
     then_do (update_instance instance_id (\<lambda>inst. inst\<lparr>lr_state := Paused, lr_reconciliation_blocked := True,
       lr_resume_after_startup_reconcile := False\<rparr>)) (\<lambda>_.
     then_do (tries (rt_instance instance_id)) (\<lambda>inst.
     expect_do (rt_get_instance env (ic_id (lr_config inst))) (\<lambda>summary.
     then_do (persist_instance_state env summary) (\<lambda>_.
     let detail = ''source=startup,error='' @ service_error_text error in
     then_do (append_instance_event env instance_id ''instance.reconcile_failed'' (is_state summary) detail) (\<lambda>_.
     done_do (append_runtime_event env ''reconcile'' (Some instance_id) ''reconcile.failed'' detail))))))"

definition reconciliation_sync_is_stale :: "ReconciliationAssessment \<Rightarrow> PositionRecord \<Rightarrow> bool" where
  "reconciliation_sync_is_stale assessment position \<longleftrightarrow>
     ends_with (pr_reason position) ''_reconciliation_sync''
     \<and> (pr_has_position position \<noteq> rp_resolved_has_position (ra_positions assessment)
        \<or> POSITION_QUANTITY_TOLERANCE < \<bar>pr_quantity position - rp_resolved_position_quantity (ra_positions assessment)\<bar>
        \<or> \<not> f64_option_eq (pr_entry_price position) (rp_resolved_entry_price (ra_positions assessment)))"

definition sync_realized_pnl :: "('j, 'w) RuntimeEnv \<Rightarrow> string \<Rightarrow> ('v, 'j, 'w, f64) runtime_op" where
  "sync_realized_pnl env instance_id =
     then_do (tries (latest_authoritative_position_for_instance env instance_id)) (\<lambda>latest.
     then_do (tries (rt_instance instance_id)) (\<lambda>inst.
     let realized = (case latest of None \<Rightarrow> lr_realized_pnl_usd inst | Some position \<Rightarrow> pr_realized_pnl_usd position) in
     then_do (update_instance instance_id (\<lambda>inst. sync_inventory_from_runtime_fields (inst\<lparr>lr_realized_pnl_usd := realized\<rparr>)))
       (\<lambda>_. ok realized)))"

definition refresh_position_record ::
    "('j, 'w) RuntimeEnv \<Rightarrow> string \<Rightarrow> string \<Rightarrow> ReconciliationAssessment \<Rightarrow> f64 \<Rightarrow> PositionRecord option \<Rightarrow> ('v, 'j, 'w, bool) runtime_op" where
  "refresh_position_record env instance_id source assessment realized latest_raw =
     (if (case latest_raw of None \<Rightarrow> False | Some position \<Rightarrow> reconciliation_sync_is_stale assessment position)
      then then_do (rt_append_position_record env instance_id (rp_resolved_has_position (ra_positions assessment))
             (rp_resolved_position_quantity (ra_positions assessment)) (rp_resolved_entry_price (ra_positions assessment))
             realized (source @ ''_managed_state_refresh'')) (\<lambda>_. ok True)
      else ok False)"

text \<open>The two loops count what they wrote.\<close>

fun close_stale_orders ::
    "('j, 'w) RuntimeEnv \<Rightarrow> string \<Rightarrow> string list \<Rightarrow> string list \<Rightarrow> nat \<Rightarrow> ('v, 'j, 'w, nat) runtime_op" where
  "close_stale_orders env instance_id connector_ids [] stale = ok stale"
| "close_stale_orders env instance_id connector_ids (client_order_id # ids) stale =
     (if client_order_id \<in> set connector_ids then close_stale_orders env instance_id connector_ids ids stale
      else then_do (rt_append_fill_record env instance_id client_order_id 0 0 None None None) (\<lambda>_.
        close_stale_orders env instance_id connector_ids ids (min (stale + 1) usize_max)))"

fun backfill_orders ::
    "('j, 'w) RuntimeEnv \<Rightarrow> string \<Rightarrow> string \<Rightarrow> string \<Rightarrow> string list \<Rightarrow> ConnectorOpenOrder list \<Rightarrow> nat
     \<Rightarrow> ('v, 'j, 'w, nat) runtime_op" where
  "backfill_orders env instance_id bot_id symbol local_ids [] backfilled = ok backfilled"
| "backfill_orders env instance_id bot_id symbol local_ids (order # orders) backfilled =
     (if co_client_order_id order \<in> set local_ids
      then backfill_orders env instance_id bot_id symbol local_ids orders backfilled
      else then_do (tries (journal_read (jn_orders_by_client_order_id (env_journal env) (co_client_order_id order)))) (\<lambda>records.
        if \<exists>r \<in> set records. or_bot_id r = bot_id \<and> or_symbol r = Some symbol
        then backfill_orders env instance_id bot_id symbol local_ids orders backfilled
        else then_do (rt_append_order_record env instance_id (co_client_order_id order) NoOp (co_status order) 0 (co_quantity order)) (\<lambda>_.
          backfill_orders env instance_id bot_id symbol local_ids orders (min (backfilled + 1) usize_max))))"

definition sync_reconciliation_state ::
    "('j, 'w) RuntimeEnv \<Rightarrow> string \<Rightarrow> string \<Rightarrow> ReconciliationAssessment \<Rightarrow> ('v, 'j, 'w, ReconciliationSyncOutcome) runtime_op" where
  "sync_reconciliation_state env instance_id source assessment =
     (if source \<noteq> ''manual'' \<and> source \<noteq> ''startup'' \<or> \<not> ra_connector_snapshot_available assessment
      then ok ReconciliationSyncOutcome_default
      else
      then_do (sync_realized_pnl env instance_id) (\<lambda>realized.
      then_do (tries (rt_instance instance_id)) (\<lambda>inst.
      let bot_id = ic_id (lr_config inst); symbol = lr_lane_symbol inst in
      then_do (tries (journal_read (jn_latest_position_for_lane (env_journal env) bot_id symbol))) (\<lambda>latest_raw.
      then_do (refresh_position_record env instance_id source assessment realized latest_raw) (\<lambda>synced.
      then_do (close_stale_orders env instance_id (map co_client_order_id (ra_connector_open_orders_detail assessment))
        (ra_local_open_order_ids assessment) 0) (\<lambda>stale.
      then_do (backfill_orders env instance_id bot_id symbol (ra_local_open_order_ids assessment)
        (ra_connector_open_orders_detail assessment) 0) (\<lambda>backfilled.
      ok \<lparr>rso_position_synced = synced, rso_stale_local_open_orders_closed_count = stale,
        rso_remote_open_orders_backfilled_count = backfilled\<rparr>)))))))"

definition assessment_notional :: "'v LaneRuntime \<Rightarrow> 'v LaneRuntime" where
  "assessment_notional inst =
     (if lr_position_notional_usd inst \<le> 0
      then inst\<lparr>lr_position_notional_usd := (case lr_entry_price inst of
             Some entry_price \<Rightarrow> calculate_position_notional_usd (lr_position_quantity inst) entry_price
           | None \<Rightarrow> lr_position_quantity inst)\<rparr>
      else inst)"

definition apply_assessment :: "ReconciliationAssessment \<Rightarrow> 'v LaneRuntime \<Rightarrow> 'v LaneRuntime" where
  "apply_assessment assessment inst =
     (let inst = inst\<lparr>lr_has_position := rp_resolved_has_position (ra_positions assessment),
            lr_position_quantity := rp_resolved_position_quantity (ra_positions assessment)\<rparr>;
          inst = (if lr_has_position inst
            then assessment_notional (inst\<lparr>lr_entry_price := rp_resolved_entry_price (ra_positions assessment)\<rparr>)
            else inst\<lparr>lr_position_notional_usd := 0, lr_entry_price := None\<rparr>)
      in (sync_inventory_from_runtime_fields inst)\<lparr>lr_reconciliation_blocked := \<not> ra_safe_to_trade assessment,
           lr_remote_net_qty := ra_remote_net_qty assessment, lr_aggregate_managed_qty := ra_aggregate_managed_qty assessment,
           lr_external_delta_qty := ra_external_delta_qty assessment,
           lr_managed_remote_open_orders := ra_managed_remote_open_orders assessment,
           lr_external_remote_open_orders := ra_external_remote_open_orders assessment\<rparr>)"

definition apply_reconciliation_assessment_state :: "string \<Rightarrow> ReconciliationAssessment \<Rightarrow> ('v, 'j, 'w, unit) runtime_op" where
  "apply_reconciliation_assessment_state instance_id assessment = update_instance instance_id (apply_assessment assessment)"

definition refresh_account_ledger_for_assessment ::
    "('j, 'w) RuntimeEnv \<Rightarrow> string \<Rightarrow> ReconciliationAssessment \<Rightarrow> ('v, 'j, 'w, unit) runtime_op" where
  "refresh_account_ledger_for_assessment env account_id assessment =
     (case ra_connector_snapshot assessment of
        Some snapshot \<Rightarrow> refresh_account_ledger_from_snapshot env account_id snapshot
      | None \<Rightarrow> sync_account_ledger_from_instances account_id)"

definition reconcile_detail :: "string \<Rightarrow> ReconciliationAssessment \<Rightarrow> ReconciliationSyncOutcome \<Rightarrow> string" where
  "reconcile_detail source a sync =
     ''source='' @ source @ '',symbol='' @ ra_symbol a @ '',safe_to_trade='' @ show_bool (ra_safe_to_trade a)
     @ '',local_open_orders='' @ show_int (int (ra_local_open_orders a))
     @ '',connector_open_orders='' @ show_int (int (ra_connector_open_orders a))
     @ '',managed_remote_open_orders='' @ show_int (int (ra_managed_remote_open_orders a))
     @ '',external_remote_open_orders='' @ show_int (int (ra_external_remote_open_orders a))
     @ '',remote_net_qty='' @ show_f64_option_debug (ra_remote_net_qty a)
     @ '',aggregate_managed_qty='' @ show_f64 (ra_aggregate_managed_qty a)
     @ '',external_delta_qty='' @ show_f64_option_debug (ra_external_delta_qty a)
     @ '',local_has_position='' @ show_bool (rp_local_has_position (ra_positions a))
     @ '',connector_has_position='' @ show_bool (rp_connector_has_position (ra_positions a))
     @ '',position_synced='' @ show_bool (rso_position_synced sync)
     @ '',stale_local_open_orders_closed_count='' @ show_int (int (rso_stale_local_open_orders_closed_count sync))
     @ '',remote_open_orders_backfilled_count='' @ show_int (int (rso_remote_open_orders_backfilled_count sync))
     @ '',reason='' @ ra_reason a"

text \<open>Only a startup reconciliation that found the lane safe, of a lane that ran before, makes it run.\<close>

definition reconciled_target_state :: "string \<Rightarrow> ReconciliationAssessment \<Rightarrow> string \<Rightarrow> ('v, 'j, 'w) Runtime \<Rightarrow> ServiceError + LaneRuntimeState" where
  "reconciled_target_state source assessment instance_id s =
     (if source = ''startup'' \<and> ra_safe_to_trade assessment
      then (case rt_instance instance_id s of Inl e \<Rightarrow> Inl e
            | Inr inst \<Rightarrow> Inr (if lr_resume_after_startup_reconcile inst then Running else Paused))
      else Inr Paused)"

definition record_reconciliation_result ::
    "('j, 'w) RuntimeEnv \<Rightarrow> string \<Rightarrow> string \<Rightarrow> ReconciliationAssessment \<Rightarrow> ReconciliationSyncOutcome \<Rightarrow> InstanceSummary
     \<Rightarrow> ('v, 'j, 'w, InstanceSummary option) runtime_op" where
  "record_reconciliation_result env instance_id source assessment sync summary =
     then_do (if source = ''startup'' then update_instance instance_id (\<lambda>inst. inst\<lparr>lr_resume_after_startup_reconcile := False\<rparr>) else ok ()) (\<lambda>_.
     then_do (append_reconciliation_record env instance_id source assessment) (\<lambda>_.
     let detail = reconcile_detail source assessment sync in
     then_do (append_instance_event env instance_id ''instance.reconcile_result'' (is_state summary) detail) (\<lambda>_.
     then_do (append_runtime_event env ''reconcile'' (Some instance_id)
       (if ra_safe_to_trade assessment then ''reconcile.ok'' else ''reconcile.blocked'') detail) (\<lambda>_.
     ok (Some summary)))))"

definition finalize_reconciliation_result ::
    "('j, 'w) RuntimeEnv \<Rightarrow> string \<Rightarrow> string \<Rightarrow> ReconciliationAssessment \<Rightarrow> ReconciliationSyncOutcome
     \<Rightarrow> ('v, 'j, 'w, InstanceSummary option) runtime_op" where
  "finalize_reconciliation_result env instance_id source assessment sync =
     then_do (tries (reconciled_target_state source assessment instance_id)) (\<lambda>target_state.
     expect_do (transition_instance env instance_id target_state
       (if ra_safe_to_trade assessment then ''instance.reconciled'' else ''instance.reconcile_unresolved''))
       (record_reconciliation_result env instance_id source assessment sync))"

subsection \<open>Reconciling a lane (reconciliation/orchestrator.rs)\<close>

definition begin_reconcile :: "('j, 'w) RuntimeEnv \<Rightarrow> string \<Rightarrow> 'v LaneRuntime \<Rightarrow> ('v, 'j, 'w, unit option) runtime_op" where
  "begin_reconcile env instance_id inst =
     (if \<not> ic_enabled (lr_config inst) then fail (InstanceDisabled instance_id)
      else if lr_state inst \<noteq> Reconciling
      then expect_do (transition_instance env instance_id Reconciling ''instance.reconcile_started'') (\<lambda>_. ok (Some ()))
      else ok (Some ()))"

definition sync_changed :: "ReconciliationSyncOutcome \<Rightarrow> bool" where
  "sync_changed sync \<longleftrightarrow> rso_position_synced sync \<or> 0 < rso_stale_local_open_orders_closed_count sync
     \<or> 0 < rso_remote_open_orders_backfilled_count sync"

definition reconcile_instance_internal ::
    "('j, 'w) RuntimeEnv \<Rightarrow> string \<Rightarrow> string \<Rightarrow> ('v, 'j, 'w, InstanceSummary option) runtime_op" where
  "reconcile_instance_internal env instance_id source =
     then_do (tries (rt_instance instance_id)) (\<lambda>inst.
     expect_do (begin_reconcile env instance_id inst) (\<lambda>_.
     then_do (assess_reconciliation env instance_id) (\<lambda>first.
     then_do (sync_reconciliation_state env instance_id source first) (\<lambda>sync.
     then_do (if sync_changed sync then assess_reconciliation env instance_id else ok first) (\<lambda>assessment.
     then_do (apply_reconciliation_assessment_state instance_id assessment) (\<lambda>_.
     then_do (refresh_account_ledger_for_assessment env (ic_account (lr_config inst)) assessment) (\<lambda>_.
     finalize_reconciliation_result env instance_id source assessment sync)))))))"

definition startup_reconcile :: "('j, 'w) RuntimeEnv \<Rightarrow> string \<Rightarrow> ('v, 'j, 'w, unit option) runtime_op" where
  "startup_reconcile env instance_id =
     handle (reconcile_instance_internal env instance_id ''startup'')
       (\<lambda>error. mark_startup_reconciliation_failed env instance_id error)
       (\<lambda>summary. ok (map_option (\<lambda>_. ()) summary))"

definition run_startup_reconciliation :: "('j, 'w) RuntimeEnv \<Rightarrow> ('v, 'j, 'w, unit option) runtime_op" where
  "run_startup_reconciliation env =
     then_do (reads (\<lambda>s. map fst (filter (\<lambda>(_, lane). lr_state lane = Reconciling) (rt_lanes s)))) (\<lambda>pending.
     expect_each (startup_reconcile env) pending)"

subsection \<open>What a reconciliation leaves unchanged\<close>

context quiet_view
begin

lemma plain_records_quiet:
  "keeps view (rt_append_order_record env i c intent status p q)"
  "keeps view (rt_append_fill_record env i c p q asset amount usd)"
  "keeps view (rt_append_position_record env i has q entry pnl reason)"
  unfolding rt_append_order_record_def rt_append_fill_record_def rt_append_position_record_def
  by (intro record_writes_quiet)+

lemma close_stale_quiet: "keeps view (close_stale_orders env i remote ids n)"
proof (induction ids arbitrary: n)
  case (Cons c ids)
  show ?case unfolding close_stale_orders.simps by (intro frame_rules plain_records_quiet Cons.IH)
qed (simp only: close_stale_orders.simps keeps_ok)

lemma backfill_quiet: "keeps view (backfill_orders env i b sy ids orders n)"
proof (induction orders arbitrary: n)
  case (Cons order orders)
  show ?case unfolding backfill_orders.simps by (intro frame_rules plain_records_quiet Cons.IH)
qed (simp only: backfill_orders.simps keeps_ok)

lemma refresh_record_quiet: "keeps view (refresh_position_record env i src a pnl latest)"
  unfolding refresh_position_record_def by (intro frame_rules plain_records_quiet)

end

context gateway_free
begin

lemma snapshot_outcome_free: "keeps view (fetch_account_snapshot_outcome env i a)"
  unfolding fetch_account_snapshot_outcome_def cg_account_kind_def Let_def
proof (intro frame_rules gateway_call_free on_gateway_free event_writes_quiet, goal_cases)
  case (1 kind _ error)
  show ?case by (cases error) (auto intro!: frame_rules ignoring_quiet event_writes_quiet)
qed

lemma assess_free: "keeps view (assess_reconciliation env i)"
  unfolding assess_reconciliation_def Let_def by (intro frame_rules snapshot_outcome_free)

end

lemma transition_keeps: "(\<And>s ls. view (s\<lparr>rt_lanes := ls\<rparr>) = view s) \<Longrightarrow> quiet_view view \<Longrightarrow> keeps view (transition_instance env i target kind)"
  unfolding transition_instance_def set_lane_state_def update_instance_def ignoring_errors_def
  by (intro frame_rules with_instance_keeps quiet_view.event_writes_quiet)

lemma refresh_keeps_lanes:
  "keeps rt_lanes (sync_account_ledger_from_instances a)" "keeps rt_lanes (refresh_account_ledger_from_snapshot env a snapshot)"
  "keeps rt_lanes (refresh_account_ledger_from_connector env a)" "keeps rt_lanes (refresh_account_ledger_for_assessment env a assessment)"
proof -
  show sync: "keeps rt_lanes (sync_account_ledger_from_instances a)"
    unfolding sync_account_ledger_from_instances_def by (intro frame_rules with_ledger_keeps) simp
  show refresh: "keeps rt_lanes (refresh_account_ledger_from_snapshot env a snapshot)" for snapshot
    unfolding refresh_account_ledger_from_snapshot_def Let_def by (intro frame_rules with_ledger_keeps) simp
  show "keeps rt_lanes (refresh_account_ledger_from_connector env a)"
    unfolding refresh_account_ledger_from_connector_def fetch_account_snapshot_for_refresh_def
    by (intro frame_rules free_lanes.gateway_call_free sync refresh)
  show "keeps rt_lanes (refresh_account_ledger_for_assessment env a assessment)"
    unfolding refresh_account_ledger_for_assessment_def by (intro frame_rules sync refresh)
qed

lemma connector_refresh_moves_ledger: "preserves (ledgers_rel s0) (refresh_account_ledger_from_connector env a)"
  unfolding refresh_account_ledger_from_connector_def fetch_account_snapshot_for_refresh_def
  by (intro invariant_rules keeps_ledgers_rel free_ledgers.gateway_call_free sync_moves_ledger refresh_moves_ledger)

lemma assessment_refresh_moves_ledger: "preserves (ledgers_rel s0) (refresh_account_ledger_for_assessment env a assessment)"
  unfolding refresh_account_ledger_for_assessment_def by (intro invariant_rules sync_moves_ledger refresh_moves_ledger)

subsection \<open>How a reconciliation moves lanes and ledgers\<close>

lemma state_typed:
  "lane_typed l (l\<lparr>lr_state := st\<rparr>)" "lane_typed l (l\<lparr>lr_resume_after_startup_reconcile := b\<rparr>)"
  "lane_typed l (l\<lparr>lr_state := st, lr_reconciliation_blocked := c, lr_resume_after_startup_reconcile := b\<rparr>)"
  "lane_typed l (sync_inventory_from_runtime_fields (l\<lparr>lr_realized_pnl_usd := x\<rparr>))"
  by (simp_all add: lane_typed_def recovery_wf_def sync_inventory_from_runtime_fields_def)

lemma assessment_typed: "lane_typed l (apply_assessment a l)"
  by (simp add: lane_typed_def recovery_wf_def apply_assessment_def assessment_notional_def sync_inventory_from_runtime_fields_def Let_def)

lemma transition_typed: "preserves (lanes_rel lane_typed s0) (transition_instance env i target kind)"
  unfolding transition_instance_def set_lane_state_def ignoring_errors_def
  by (intro invariant_rules typed.update_lane state_typed keeps_lanes_rel quiet_lanes.event_writes_quiet)

lemma transition_keeps_ledgers: "keeps rt_account_ledgers (transition_instance env i target kind)"
  by (rule transition_keeps) (simp, rule quiet_ledgers.quiet_view_axioms)

lemma sync_state_typed: "preserves (lanes_rel lane_typed s0) (sync_reconciliation_state env i src a)"
  unfolding sync_reconciliation_state_def sync_realized_pnl_def Let_def
  by (intro invariant_rules typed.update_lane state_typed keeps_lanes_rel quiet_lanes.refresh_record_quiet
      quiet_lanes.close_stale_quiet quiet_lanes.backfill_quiet)

lemma sync_state_keeps_ledgers: "keeps rt_account_ledgers (sync_reconciliation_state env i src a)"
  unfolding sync_reconciliation_state_def sync_realized_pnl_def Let_def
  by (intro frame_rules lane_free_ledgers.instance_free quiet_ledgers.refresh_record_quiet
      quiet_ledgers.close_stale_quiet quiet_ledgers.backfill_quiet)

lemma finalize_typed: "preserves (lanes_rel lane_typed s0) (finalize_reconciliation_result env i src a sync)"
  unfolding finalize_reconciliation_result_def record_reconciliation_result_def Let_def
  by (intro invariant_rules transition_typed typed.update_lane state_typed keeps_lanes_rel quiet_lanes.record_writes_quiet
      quiet_lanes.event_writes_quiet)

lemma finalize_keeps_ledgers: "keeps rt_account_ledgers (finalize_reconciliation_result env i src a sync)"
  unfolding finalize_reconciliation_result_def record_reconciliation_result_def Let_def
  by (intro frame_rules transition_keeps_ledgers lane_free_ledgers.instance_free quiet_ledgers.record_writes_quiet
      quiet_ledgers.event_writes_quiet)

lemma reconcile_typed: "preserves (lanes_rel lane_typed s0) (reconcile_instance_internal env i src)"
  unfolding reconcile_instance_internal_def begin_reconcile_def apply_reconciliation_assessment_state_def
  by (intro invariant_rules transition_typed sync_state_typed typed.update_lane assessment_typed finalize_typed
      keeps_lanes_rel free_lanes.assess_free refresh_keeps_lanes)

lemma reconcile_moves_ledgers: "preserves (ledgers_rel s0) (reconcile_instance_internal env i src)"
  unfolding reconcile_instance_internal_def begin_reconcile_def apply_reconciliation_assessment_state_def
  by (intro invariant_rules keeps_ledgers_rel [OF transition_keeps_ledgers] keeps_ledgers_rel [OF sync_state_keeps_ledgers]
      keeps_ledgers_rel [OF finalize_keeps_ledgers] keeps_ledgers_rel [OF free_ledgers.assess_free]
      keeps_ledgers_rel [OF lane_free_ledgers.instance_free(2)] assessment_refresh_moves_ledger)

lemma mark_failed_typed: "preserves (lanes_rel lane_typed s0) (mark_startup_reconciliation_failed env i error)"
  unfolding mark_startup_reconciliation_failed_def rt_get_instance_def Let_def
  by (intro invariant_rules typed.update_lane state_typed keeps_lanes_rel quiet_lanes.event_writes_quiet)

lemma mark_failed_keeps_ledgers: "keeps rt_account_ledgers (mark_startup_reconciliation_failed env i error)"
  unfolding mark_startup_reconciliation_failed_def rt_get_instance_def Let_def
  by (intro frame_rules lane_free_ledgers.instance_free quiet_ledgers.event_writes_quiet)

lemma startup_typed: "preserves (lanes_rel lane_typed s0) (run_startup_reconciliation env)"
  unfolding run_startup_reconciliation_def startup_reconcile_def by (intro invariant_rules reconcile_typed mark_failed_typed)

lemma startup_moves_ledgers: "preserves (ledgers_rel s0) (run_startup_reconciliation env)"
  unfolding run_startup_reconciliation_def startup_reconcile_def
  by (intro invariant_rules reconcile_moves_ledgers keeps_ledgers_rel [OF mark_failed_keeps_ledgers])

subsection \<open>The state a reconciliation leaves a lane in\<close>

text \<open>A property of the lane \<open>i\<close>, and what operations on it and around it make of the property.\<close>

definition lane_has :: "string \<Rightarrow> ('v LaneRuntime \<Rightarrow> bool) \<Rightarrow> ('v, 'j, 'w) Runtime \<Rightarrow> bool" where
  "lane_has i Q s \<longleftrightarrow> (case hm_get (rt_lanes s) i of None \<Rightarrow> False | Some l \<Rightarrow> Q l)"

abbreviation expects :: "('a \<Rightarrow> 's \<Rightarrow> bool) \<Rightarrow> 'a option \<Rightarrow> 's \<Rightarrow> bool" where
  "expects Q r s \<equiv> case r of None \<Rightarrow> True | Some a \<Rightarrow> Q a s"

abbreviation any_state :: "'s \<Rightarrow> bool" where
  "any_state \<equiv> \<lambda>_. True"

lemma runs_expect_do:
  "runs P m E (expects Q) \<Longrightarrow> (\<And>a. runs (Q a) (k a) E (expects R)) \<Longrightarrow> runs P (expect_do m k) E (expects R)"
  unfolding expect_do_def
  by (rule runs_then_do, assumption) (auto simp: runs_def split: option.split)

lemma runs_stable: "runs P m E (\<lambda>_. P) \<Longrightarrow> (\<And>a. runs P (k a) E R) \<Longrightarrow> runs P (then_do m k) E R"
  by (rule runs_then_do)

lemma lane_has_keeps: "keeps rt_lanes m \<Longrightarrow> runs (lane_has i Q) m any_state (\<lambda>_. lane_has i Q)"
  by (rule runs_preserves) (simp_all add: keeps_def preserves_def lane_has_def)

lemma lane_has_tries: "runs (lane_has i Q) (tries f) any_state (\<lambda>_. lane_has i Q)"
  by (rule runs_tries) simp_all

lemma lane_has_update:
  "(\<And>l. Q l \<Longrightarrow> Q' (f l)) \<Longrightarrow> runs (lane_has i Q) (update_instance i f) any_state (\<lambda>_. lane_has i Q')"
  by (auto simp: runs_def lane_has_def update_instance_def with_instance_def hm_get_insert split: option.splits)

lemma lane_has_transition:
  assumes "\<And>l. Q l \<Longrightarrow> Q' (l\<lparr>lr_state := target\<rparr>)"
  shows "runs (lane_has i Q :: ('v, 'j, 'w) Runtime \<Rightarrow> bool) (transition_instance env i target kind) any_state (expects (\<lambda>_. lane_has i Q'))"
  unfolding runs_def
proof (intro allI impI)
  fix s :: "('v, 'j, 'w) Runtime" assume "lane_has i Q s"
  then obtain l where l: "hm_get (rt_lanes s) i = Some l" and Q: "Q l" by (auto simp: lane_has_def split: option.splits)
  obtain r s' where run: "transition_instance env i target kind s = (r, s')" by fastforce
  show "case transition_instance env i target kind s of (Inl e, s') \<Rightarrow> any_state s'
      | (Inr a, s') \<Rightarrow> expects (\<lambda>_. lane_has i Q') a s'"
    using transition_lanes [OF l, where env = env and target = target and kind = kind] run assms [OF Q]
    by (auto simp: lane_has_def hm_get_insert split: sum.split option.splits)
qed

lemma lane_has_sync:
  assumes "\<And>l x. Q l \<Longrightarrow> Q (sync_inventory_from_runtime_fields (l\<lparr>lr_realized_pnl_usd := x\<rparr>))"
  shows "runs (lane_has i Q) (sync_reconciliation_state env i src a) any_state (\<lambda>_. lane_has i Q)"
  unfolding sync_reconciliation_state_def sync_realized_pnl_def Let_def then_do_assoc
  by (intro runs_if runs_stable lane_has_tries lane_has_update assms lane_has_keeps keeps_ok
      quiet_lanes.refresh_record_quiet quiet_lanes.close_stale_quiet quiet_lanes.backfill_quiet)

definition reconciled_state :: "string \<Rightarrow> bool \<Rightarrow> bool \<Rightarrow> LaneRuntimeState" where
  "reconciled_state source was_running blocked = (if source = ''startup'' \<and> was_running \<and> \<not> blocked then Running else Paused)"

lemma lane_has_target:
  "runs (lane_has i (\<lambda>l. lr_resume_after_startup_reconcile l = was_running \<and> lr_reconciliation_blocked l = (\<not> ra_safe_to_trade a)))
     (tries (reconciled_target_state source a i)) any_state
     (\<lambda>target. lane_has i (\<lambda>l. target = reconciled_state source was_running (lr_reconciliation_blocked l)))"
  by (rule runs_tries) (auto simp: lane_has_def reconciled_target_state_def reconciled_state_def rt_instance_def split: option.splits if_splits)

lemma finalized_state:
  "runs (lane_has i (\<lambda>l. lr_resume_after_startup_reconcile l = was_running \<and> lr_reconciliation_blocked l = (\<not> ra_safe_to_trade a)))
     (finalize_reconciliation_result env i source a sync) any_state
     (expects (\<lambda>_. lane_has i (\<lambda>l. lr_state l = reconciled_state source was_running (lr_reconciliation_blocked l))))"
proof -
  have recorded: "runs (lane_has i (\<lambda>l. lr_state l = reconciled_state source was_running (lr_reconciliation_blocked l)))
      (record_reconciliation_result env i source a sync summary) any_state
      (expects (\<lambda>_. lane_has i (\<lambda>l. lr_state l = reconciled_state source was_running (lr_reconciliation_blocked l))))" for summary
    unfolding record_reconciliation_result_def Let_def
    by (intro runs_stable runs_if lane_has_update lane_has_keeps quiet_lanes.record_writes_quiet quiet_lanes.event_writes_quiet
        keeps_ok runs_ok) simp_all
  show ?thesis
    unfolding finalize_reconciliation_result_def
    by (rule runs_then_do [OF lane_has_target], rule runs_expect_do [OF lane_has_transition recorded]) simp
qed

lemma reconciled_lane:
  "runs (lane_has i (\<lambda>l. lr_resume_after_startup_reconcile l = was_running)) (reconcile_instance_internal env i source) any_state
     (expects (\<lambda>_. lane_has i (\<lambda>l. lr_state l = reconciled_state source was_running (lr_reconciliation_blocked l))))"
proof -
  let ?flag = "lane_has i (\<lambda>l. lr_resume_after_startup_reconcile l = was_running)"
  have started: "runs ?flag (begin_reconcile env i inst) any_state (expects (\<lambda>_. ?flag))" for inst
    unfolding begin_reconcile_def
    by (intro runs_if runs_expect_do [OF lane_has_transition
        [where Q' = "\<lambda>l. lr_resume_after_startup_reconcile l = was_running"]]) (auto simp: runs_def)
  have applied: "runs ?flag (apply_reconciliation_assessment_state i a) any_state (\<lambda>_. lane_has i (\<lambda>l.
      lr_resume_after_startup_reconcile l = was_running \<and> lr_reconciliation_blocked l = (\<not> ra_safe_to_trade a)))" for a
    unfolding apply_reconciliation_assessment_state_def
    by (rule lane_has_update) (simp add: apply_assessment_def assessment_notional_def sync_inventory_from_runtime_fields_def Let_def)
  show ?thesis
    unfolding reconcile_instance_internal_def
  proof (rule runs_then_do [OF lane_has_tries], rule runs_expect_do [OF started],
      rule runs_then_do [OF lane_has_keeps [OF free_lanes.assess_free]])
    fix first
    show "runs ?flag (then_do (sync_reconciliation_state env i source first) (\<lambda>sync.
        then_do (if sync_changed sync then assess_reconciliation env i else ok first) (\<lambda>assessment.
        then_do (apply_reconciliation_assessment_state i assessment) (\<lambda>_.
        then_do (refresh_account_ledger_for_assessment env (ic_account (lr_config inst)) assessment) (\<lambda>_.
        finalize_reconciliation_result env i source assessment sync))))) any_state
      (expects (\<lambda>_. lane_has i (\<lambda>l. lr_state l = reconciled_state source was_running (lr_reconciliation_blocked l))))" for inst
      by (rule runs_then_do [OF lane_has_sync], simp add: sync_inventory_from_runtime_fields_def,
          rule runs_then_do [OF lane_has_keeps], intro frame_rules free_lanes.assess_free, rule runs_then_do [OF applied],
          rule runs_then_do [OF lane_has_keeps [OF refresh_keeps_lanes(4)] finalized_state])
  qed
qed

text \<open>
  C6: A lane that was reconciled runs only when this was a startup reconciliation, the lane ran before
  the restart and the reconciliation found nothing that blocks it; otherwise it is paused. In
  particular a manual reconciliation never makes a lane run, and no reconciliation that succeeds
  leaves a lane reconciling.
\<close>

theorem reconciled_lane_runs_only_if_safe:
  "case hm_get (rt_lanes s) i of None \<Rightarrow> True
   | Some lane \<Rightarrow> (case reconcile_instance_internal env i source s of
        (Inr (Some summary), s') \<Rightarrow> (case hm_get (rt_lanes s') i of None \<Rightarrow> False
          | Some lane' \<Rightarrow> lr_state lane' = (if source = ''startup'' \<and> lr_resume_after_startup_reconcile lane
              \<and> \<not> lr_reconciliation_blocked lane' then Running else Paused))
      | _ \<Rightarrow> True)"
proof (cases "hm_get (rt_lanes s) i")
  case (Some lane)
  with reconciled_lane [of i "lr_resume_after_startup_reconcile lane" env source] show ?thesis
    by (auto simp: runs_def lane_has_def reconciled_state_def split: option.splits sum.split prod.split dest!: spec [of _ s])
qed simp

end
