(* ===== verification/Lifecycle.thy ===== *)
theory Lifecycle
  imports Reconciliation
begin

section \<open>Operator operations (openticker-runtime/src/lifecycle.rs, manual_ops.rs)\<close>

text \<open>
  The operations an operator calls on a bot: start, resume, stop, pause, reconcile, the kill switch,
  cancelling orders and closing positions. Each returns the bot's summary, as an option.

  The lemmas show that a bot is started or resumed only when the kill switch is off, no lane is blocked
  or reconciling and the bot is enabled, that the kill switch leaves no lane running, and that the
  life-cycle operations move no position.
\<close>

subsection \<open>Life cycle (lifecycle.rs)\<close>

definition live_reconciliation_required :: "string \<Rightarrow> string \<Rightarrow> string \<Rightarrow> ReconciliationRecord option \<Rightarrow> ServiceError + unit" where
  "live_reconciliation_required bot_id action symbol latest =
     (case latest of
        None \<Rightarrow> Inl (ReconciliationRequired bot_id
          (''live mode requires successful manual reconciliation before '' @ action @ '' for '' @ symbol))
      | Some r \<Rightarrow>
          if rr_source r \<noteq> ''manual'' then Inl (ReconciliationRequired bot_id
            (''live mode requires manual reconciliation before '' @ action @ '' for '' @ symbol
             @ '' (latest source='' @ rr_source r @ '')''))
          else if \<not> rr_safe_to_trade r then Inl (ReconciliationRequired bot_id
            (''live mode manual reconciliation before '' @ action @ '' for '' @ symbol @ '' is unresolved: '' @ rr_reason r))
          else Inr ())"

definition latest_live_reconciliation ::
    "('j, 'w) RuntimeEnv \<Rightarrow> string \<Rightarrow> bool \<Rightarrow> string \<Rightarrow> ('v, 'j, 'w) Runtime \<Rightarrow> ServiceError + ReconciliationRecord option" where
  "latest_live_reconciliation env bot_id single symbol s =
     (case journal_read (jn_latest_reconciliation_for_lane (env_journal env) bot_id symbol) s of Inl e \<Rightarrow> Inl e
      | Inr (Some latest) \<Rightarrow> Inr (Some latest)
      | Inr None \<Rightarrow> if single then journal_read (jn_latest_reconciliation_for_bot (env_journal env) bot_id) s else Inr None)"

definition live_lane_ready ::
    "('j, 'w) RuntimeEnv \<Rightarrow> string \<Rightarrow> string \<Rightarrow> bool \<Rightarrow> 'v LaneRuntime \<Rightarrow> ('v, 'j, 'w) Runtime \<Rightarrow> ServiceError + unit" where
  "live_lane_ready env bot_id action single lane s =
     (case latest_live_reconciliation env bot_id single (lr_lane_symbol lane) s of Inl e \<Rightarrow> Inl e
      | Inr latest \<Rightarrow> live_reconciliation_required bot_id action (lr_lane_symbol lane) latest)"

definition ensure_live_reconciliation_ready :: "('j, 'w) RuntimeEnv \<Rightarrow> string \<Rightarrow> string \<Rightarrow> ('v, 'j, 'w, unit option) runtime_op" where
  "ensure_live_reconciliation_ready env bot_id action =
     expect_do (rt_get_instance env bot_id) (\<lambda>summary.
     if \<not> execution_mode_is_live (is_execution_mode summary) then ok (Some ())
     else
     then_do (tries (lanes_for_bot bot_id)) (\<lambda>lanes.
     done_do (for_each (\<lambda>lane. tries (live_lane_ready env bot_id action (length (is_symbols summary) = 1) lane)) lanes)))"

text \<open>\<open>start_instance\<close> and \<open>resume_instance\<close> have the same body with their own texts.\<close>

record RunRequest =
  rq_action :: string
  rq_blocked_reason :: string
  rq_event_kind :: string

definition start_request :: RunRequest where
  "start_request = \<lparr>rq_action = ''start'', rq_blocked_reason = ''startup reconciliation has unresolved differences'',
     rq_event_kind = ''instance.started''\<rparr>"

definition resume_request :: RunRequest where
  "resume_request = \<lparr>rq_action = ''resume'', rq_blocked_reason = ''instance must reconcile successfully before resume'',
     rq_event_kind = ''instance.resumed''\<rparr>"

definition check_lanes_runnable :: "RunRequest \<Rightarrow> string \<Rightarrow> 'v LaneRuntime list \<Rightarrow> ServiceError + unit" where
  "check_lanes_runnable request bot_id lanes =
     (if list_ex lr_reconciliation_blocked lanes then Inl (ReconciliationRequired bot_id (rq_blocked_reason request))
      else if list_ex (\<lambda>lane. lr_state lane = Reconciling) lanes
      then Inl (InvalidTransition bot_id Reconciling (rq_action request)) else Inr ())"

definition admit_run :: "RunRequest \<Rightarrow> string \<Rightarrow> ('v, 'j, 'w) Runtime \<Rightarrow> ServiceError + (string list \<times> string \<times> string)" where
  "admit_run request bot_id s =
     (if rt_kill_switch_active s then Inl KillSwitchEnabled
      else case lane_ids_for_bot bot_id s of Inl e \<Rightarrow> Inl e
      | Inr [] \<Rightarrow> Inl (InstanceNotFound bot_id)
      | Inr (primary_lane_id # lane_ids) \<Rightarrow>
          (case rt_instance primary_lane_id s of Inl e \<Rightarrow> Inl e
           | Inr inst \<Rightarrow>
               if \<not> ic_enabled (lr_config inst) then Inl (InstanceDisabled bot_id)
               else case lanes_for_bot bot_id s of Inl e \<Rightarrow> Inl e
               | Inr lanes \<Rightarrow> (case check_lanes_runnable request bot_id lanes of Inl e \<Rightarrow> Inl e
                   | Inr _ \<Rightarrow> Inr (primary_lane_id # lane_ids, primary_lane_id, ic_account (lr_config inst)))))"

definition run_lanes :: "('j, 'w) RuntimeEnv \<Rightarrow> RunRequest \<Rightarrow> string \<Rightarrow> ('v, 'j, 'w, InstanceSummary option) runtime_op" where
  "run_lanes env request bot_id =
     then_do (tries (admit_run request bot_id)) (\<lambda>(lane_ids, primary_lane_id, account_id).
     expect_do (ensure_live_reconciliation_ready env bot_id (rq_action request)) (\<lambda>_.
     then_do (ensure_account_connector_ready env primary_lane_id account_id) (\<lambda>_.
     then_do (refresh_account_ledger_from_connector env account_id) (\<lambda>_.
     then_do (for_each (\<lambda>lane_id. attempt_instance_warmup_backfill env lane_id (rq_action request)) lane_ids) (\<lambda>_.
     expect_do (expect_each (\<lambda>lane_id. transition_instance env lane_id Running (rq_event_kind request)) lane_ids) (\<lambda>_.
     rt_get_instance env bot_id))))))"

definition start_instance :: "('j, 'w) RuntimeEnv \<Rightarrow> string \<Rightarrow> ('v, 'j, 'w, InstanceSummary option) runtime_op" where
  "start_instance env = run_lanes env start_request"

definition resume_instance :: "('j, 'w) RuntimeEnv \<Rightarrow> string \<Rightarrow> ('v, 'j, 'w, InstanceSummary option) runtime_op" where
  "resume_instance env = run_lanes env resume_request"

definition park_lanes ::
    "('j, 'w) RuntimeEnv \<Rightarrow> LaneRuntimeState \<Rightarrow> string \<Rightarrow> string \<Rightarrow> ('v, 'j, 'w, InstanceSummary option) runtime_op" where
  "park_lanes env target_state event_kind bot_id =
     then_do (tries (lane_ids_for_bot bot_id)) (\<lambda>lane_ids.
     expect_do (expect_each (\<lambda>lane_id. transition_instance env lane_id target_state event_kind) lane_ids) (\<lambda>_.
     rt_get_instance env bot_id))"

definition stop_instance :: "('j, 'w) RuntimeEnv \<Rightarrow> string \<Rightarrow> ('v, 'j, 'w, InstanceSummary option) runtime_op" where
  "stop_instance env = park_lanes env Stopped ''instance.stopped''"

definition pause_instance :: "('j, 'w) RuntimeEnv \<Rightarrow> string \<Rightarrow> ('v, 'j, 'w, InstanceSummary option) runtime_op" where
  "pause_instance env = park_lanes env Paused ''instance.paused''"

definition running_lane_ids :: "('v, 'j, 'w) Runtime \<Rightarrow> string list" where
  "running_lane_ids s = map fst (filter (\<lambda>(_, lane). lr_state lane = Running) (rt_lanes s))"

definition set_kill_switch :: "('j, 'w) RuntimeEnv \<Rightarrow> bool \<Rightarrow> ('v, 'j, 'w, unit option) runtime_op" where
  "set_kill_switch env active =
     then_do (reads rt_kill_switch_active) (\<lambda>current.
     if current = active then ok (Some ())
     else
     then_do (updates (\<lambda>s. s\<lparr>rt_kill_switch_active := active\<rparr>)) (\<lambda>_.
     then_do (rt_append_service_event env (if active then ''risk.kill_switch_enabled'' else ''risk.kill_switch_cleared'')
       (''active='' @ show_bool active)) (\<lambda>_.
     if active then then_do (reads running_lane_ids) (\<lambda>running_ids.
       expect_each (\<lambda>lane_id. transition_instance env lane_id Paused ''instance.paused_by_kill_switch'') running_ids)
     else ok (Some ()))))"

definition reconcile_instance :: "('j, 'w) RuntimeEnv \<Rightarrow> string \<Rightarrow> ('v, 'j, 'w, InstanceSummary option) runtime_op" where
  "reconcile_instance env bot_id =
     then_do (tries (lane_ids_for_bot bot_id)) (\<lambda>lane_ids.
     expect_do (expect_each (\<lambda>lane_id. reconcile_instance_internal env lane_id ''manual'') lane_ids) (\<lambda>_.
     rt_get_instance env bot_id))"

subsection \<open>Manual operations (manual_ops.rs)\<close>

definition rt_manual_close_context :: "string \<Rightarrow> ('v, 'j, 'w) Runtime \<Rightarrow> ServiceError + ManualCloseContext" where
  "rt_manual_close_context instance_id s =
     (case rt_instance instance_id s of Inl e \<Rightarrow> Inl e
      | Inr inst \<Rightarrow> Inr \<lparr>mcc_bot_id = ic_id (lr_config inst), mcc_account_id = ic_account (lr_config inst),
          mcc_reconciliation_remote_snapshot = (case hm_get (rt_accounts s) (ic_account (lr_config inst)) of None \<Rightarrow> False
            | Some account \<Rightarrow> ac_reconciliation_remote_snapshot account),
          mcc_has_local_position = (POSITION_QUANTITY_TOLERANCE < effective_position_quantity inst)\<rparr>)"

definition rt_sync_remote_position_for_manual_close ::
    "('j, 'w) RuntimeEnv \<Rightarrow> string \<Rightarrow> string \<Rightarrow> ('v, 'j, 'w, bool) runtime_op" where
  "rt_sync_remote_position_for_manual_close env instance_id account_id =
     then_do (tries (rt_instance instance_id)) (\<lambda>inst.
     then_do (ensure_account_connector_ready env instance_id account_id) (\<lambda>_.
     then_do (fetch_account_snapshot_outcome env instance_id account_id) (\<lambda>outcome.
     case cso_snapshot outcome of
       None \<Rightarrow> fail (ExecutionConnectorUnavailable (ic_id (lr_config inst)) account_id
         (case cso_unavailable_reason outcome of None \<Rightarrow> ''connector snapshot unavailable'' | Some reason \<Rightarrow> reason))
     | Some snapshot \<Rightarrow>
         let remote_quantity = position_quantity_for_symbol snapshot (lr_lane_symbol inst);
             has_position = (POSITION_QUANTITY_TOLERANCE < remote_quantity) in
         then_do (with_instance instance_id (sync_remote_position_quantity remote_quantity)) (\<lambda>changed.
         then_do (if changed then then_do (tries (rt_instance instance_id)) (\<lambda>inst.
             rt_append_position_record env instance_id has_position remote_quantity (lr_entry_price inst)
               (lr_realized_pnl_usd inst) ''close_positions_sync'')
           else ok ()) (\<lambda>_.
         then_do (refresh_account_ledger_from_snapshot env account_id snapshot) (\<lambda>_.
         ok has_position))))))"

fun manual_close_risk :: "ProcessBarRisk \<Rightarrow> ManualCloseSignalRisk" where
  "manual_close_risk Allowed = CloseAllowed"
| "manual_close_risk (Rejected reason) = CloseRejected reason"

definition runtime_manual_ops_engine ::
    "('j, 'w) RuntimeEnv \<Rightarrow> CycleTimes \<Rightarrow> (('v, 'j, 'w) Runtime, ServiceError) LaneManualOpsEngine" where
  "runtime_manual_ops_engine env spent =
     \<lparr>mo_manual_close_context = rt_manual_close_context,
      mo_sync_remote_position_for_manual_close = rt_sync_remote_position_for_manual_close env,
      mo_fetch_latest_bar_for_manual_close = (\<lambda>instance_id.
        then_do (fetch_latest_bar_for_lane env instance_id) (\<lambda>(_, latest_bar). ok latest_bar)),
      mo_process_manual_close_signal = (\<lambda>instance_id price timestamp.
        then_do (process_manual_signal_for_lane env spent instance_id SellConfirmed price timestamp) (\<lambda>outcome.
        ok \<lparr>mso_intent = pbo_intent outcome, mso_risk = manual_close_risk (pbo_risk outcome)\<rparr>))\<rparr>"

definition cancel_open_orders :: "('j, 'w) RuntimeEnv \<Rightarrow> string \<Rightarrow> ('v, 'j, 'w, InstanceSummary option) runtime_op" where
  "cancel_open_orders env bot_id =
     expect_do (rt_get_instance env bot_id) (\<lambda>summary.
     then_do (tries (lane_ids_for_bot bot_id)) (\<lambda>lane_ids.
     then_do (for_each (\<lambda>lane_id.
       then_do (rt_append_order_record env lane_id (lane_id @ ''-manual-cancel'') NoOp ''cancel_requested'' 0 0) (\<lambda>_.
       append_instance_event env lane_id ''instance.cancel_open_orders'' (is_state summary) ''manual request'')) lane_ids) (\<lambda>_.
     then_do (append_runtime_event env ''order'' (Some bot_id) ''order.cancel_all_requested'' ''source=manual'') (\<lambda>_.
     rt_get_instance env bot_id))))"

definition close_submitted :: "TradeIntent \<Rightarrow> bool" where
  "close_submitted intent \<longleftrightarrow> intent = CloseLong \<or> intent = ReduceLong"

definition close_texts :: "('j, 'w) RuntimeEnv \<Rightarrow> TradeIntent \<Rightarrow> f64 \<Rightarrow> timestamp \<Rightarrow> string \<times> string \<times> string" where
  "close_texts env intent price timestamp =
     (if close_submitted intent
      then ''manual close submitted intent='' @ trade_intent_label intent @ '' price='' @ show_f64 price
        @ '' timestamp='' @ time_text env timestamp
      else ''already flat'',
      if close_submitted intent then ''position.close_all_submitted'' else ''position.close_all_skipped'',
      ''source=manual,intent='' @ trade_intent_label intent @ '',price='' @ show_f64 price @ '',timestamp='' @ time_text env timestamp)"

definition record_close ::
    "('j, 'w) RuntimeEnv \<Rightarrow> string \<Rightarrow> string \<Rightarrow> LaneRuntimeState \<Rightarrow> string \<times> string \<times> string \<Rightarrow> ('v, 'j, 'w, InstanceSummary option) runtime_op" where
  "record_close env lane_id bot_id state texts =
     (case texts of (detail, kind, payload) \<Rightarrow>
        then_do (append_instance_event env lane_id ''instance.close_positions'' state detail) (\<lambda>_.
        then_do (append_runtime_event env ''position'' (Some bot_id) kind payload) (\<lambda>_.
        rt_get_instance env bot_id)))"

definition rt_close_lane_position ::
    "('j, 'w) RuntimeEnv \<Rightarrow> CycleTimes \<Rightarrow> string \<Rightarrow> ('v, 'j, 'w, InstanceSummary option) runtime_op" where
  "rt_close_lane_position env spent lane_id =
     then_do (tries (rt_instance lane_id)) (\<lambda>inst.
     let bot_id = ic_id (lr_config inst) in
     expect_do (rt_get_instance env bot_id) (\<lambda>summary.
     then_do (close_lane_position (runtime_manual_ops_engine env spent) lane_id) (\<lambda>outcome.
     case outcome of
       AlreadyFlat \<Rightarrow> record_close env lane_id bot_id (is_state summary)
         (''already flat (connector)'', ''position.close_all_skipped'', ''source=manual,reason=already_flat_connector'')
     | Processed intent (CloseRejected reason) price timestamp \<Rightarrow>
         fail (InvalidServiceConfiguration (''close positions rejected for instance `'' @ bot_id @ ''`: '' @ reason))
     | Processed intent CloseAllowed price timestamp \<Rightarrow>
         record_close env lane_id bot_id (is_state summary) (close_texts env intent price timestamp))))"

definition close_positions ::
    "('j, 'w) RuntimeEnv \<Rightarrow> (string \<Rightarrow> CycleTimes) \<Rightarrow> string \<Rightarrow> ('v, 'j, 'w, InstanceSummary option) runtime_op" where
  "close_positions env spent bot_id =
     then_do (tries (lane_ids_for_bot bot_id)) (\<lambda>lane_ids.
     expect_do (expect_each (\<lambda>lane_id. rt_close_lane_position env (spent lane_id) lane_id) lane_ids) (\<lambda>_.
     rt_get_instance env bot_id))"

subsection \<open>What the operator operations leave unchanged\<close>

context lane_free
begin

lemma transition_free: "keeps view (transition_instance env i target kind)"
  by (rule transition_keeps [OF view_lanes]) (rule quiet_view_axioms)

lemma backfill_free: "keeps view (attempt_instance_warmup_backfill env i source)"
proof -
  have bar: "keeps view (apply_confirmed_warmup_bar (runtime_warmup_engine env) i bar source)" for bar
    unfolding apply_confirmed_warmup_bar_def Let_def
    by (auto simp: runtime_warmup_engine_def rt_apply_state_only_confirmed_bar_def rt_advance_warmup_state_def
        intro!: frame_rules instance_free json_event_quiet)
  have bars: "keeps view (warmup_bars (runtime_warmup_engine env) i source bars)" for bars
  proof (induction bars)
    case (Cons bar bars)
    show ?case unfolding warmup_bars.simps by (intro frame_rules bar Cons.IH)
  qed (simp only: warmup_bars.simps keeps_ok)
  have fetch: "keeps view (we_fetch_recent_bars_for_warmup (runtime_warmup_engine env) i n)" for n
    unfolding runtime_warmup_engine_def LaneWarmupEngine.simps by (intro frame_rules fetch_free)
  have failure: "keeps view (rt_record_warmup_failure env i detail)" for detail
    unfolding rt_record_warmup_failure_def by (intro frame_rules instance_free event_writes_quiet json_event_quiet)
  show ?thesis
    unfolding attempt_instance_warmup_backfill_def attempt_lane_warmup_backfill_def
    by (auto simp: runtime_warmup_engine_def [THEN arg_cong, of we_record_warmup_failure]
        runtime_warmup_engine_def [THEN arg_cong, of we_record_warmup_started]
        intro!: frame_rules failure json_event_quiet bars fetch)
qed

lemma live_ready_free: "keeps view (ensure_live_reconciliation_ready env bot_id action)"
  unfolding ensure_live_reconciliation_ready_def rt_get_instance_def by (intro frame_rules)

lemma park_free: "keeps view (park_lanes env target kind bot_id)"
  unfolding park_lanes_def rt_get_instance_def by (intro frame_rules transition_free)

lemma cancel_free: "keeps view (cancel_open_orders env bot_id)"
  unfolding cancel_open_orders_def rt_get_instance_def by (intro frame_rules plain_records_quiet event_writes_quiet)

end

interpretation lane_free_bots: lane_free rt_lanes_by_bot
  by unfold_locales simp_all

lemma refresh_keeps_bots: "keeps rt_lanes_by_bot (refresh_account_ledger_from_connector env a)"
  unfolding refresh_account_ledger_from_connector_def fetch_account_snapshot_for_refresh_def
    sync_account_ledger_from_instances_def refresh_account_ledger_from_snapshot_def Let_def
  by (intro frame_rules lane_free_bots.gateway_call_free with_ledger_keeps) simp_all

lemma refresh_keeps_kill_switch: "keeps rt_kill_switch_active (refresh_account_ledger_from_connector env a)"
  unfolding refresh_account_ledger_from_connector_def fetch_account_snapshot_for_refresh_def
    sync_account_ledger_from_instances_def refresh_account_ledger_from_snapshot_def Let_def
  by (intro frame_rules free_kill_switch.gateway_call_free with_ledger_keeps) simp_all

subsection \<open>The kill switch\<close>

text \<open>Every lane in the given run state is one of the given lanes.\<close>

definition state_within :: "LaneRuntimeState \<Rightarrow> string set \<Rightarrow> ('v, 'j, 'w) Runtime \<Rightarrow> bool" where
  "state_within st ids s \<longleftrightarrow> (\<forall>i l. hm_get (rt_lanes s) i = Some l \<and> lr_state l = st \<longrightarrow> i \<in> ids)"

lemma state_within_keeps: "keeps rt_lanes m \<Longrightarrow> runs (state_within st ids) m any_state (\<lambda>_. state_within st ids)"
  by (rule runs_preserves) (simp_all add: keeps_def preserves_def state_within_def)

lemma pause_one:
  "runs (state_within Running (insert i ids) :: ('v, 'j, 'w) Runtime \<Rightarrow> bool) (transition_instance env i Paused kind) any_state (expects (\<lambda>_. state_within Running ids))"
  unfolding runs_def
proof (intro allI impI)
  fix s :: "('v, 'j, 'w) Runtime" assume within: "state_within Running (insert i ids) s"
  show "case transition_instance env i Paused kind s of (Inl e, s') \<Rightarrow> any_state s' | (Inr a, s') \<Rightarrow> expects (\<lambda>_. state_within Running ids) a s'"
  proof (cases "hm_get (rt_lanes s) i")
    case None
    then show ?thesis by (simp add: transition_instance_def then_do_def rt_instance_def)
  next
    case (Some l)
    from transition_lanes [OF this, where env = env and target = Paused and kind = kind] within show ?thesis
      by (auto simp: state_within_def hm_get_insert split: sum.split option.splits if_splits) blast
  qed
qed

lemma pause_each:
  "runs (state_within Running (set ids)) (expect_each (\<lambda>i. transition_instance env i Paused kind) ids) any_state (expects (\<lambda>_. state_within Running {}))"
proof (induction ids)
  case (Cons i ids)
  then show ?case using runs_expect_do [OF pause_one Cons.IH] by simp
qed (simp add: runs_def)

lemma running_ids_within: "state_within Running (set (running_lane_ids s)) s"
  by (force simp: state_within_def running_lane_ids_def hm_get_def dest: map_of_SomeD)

lemma cycle_refused: "rt_kill_switch_active s \<Longrightarrow> process_bar_for_lane env spent i bar phase s = (Inl KillSwitchEnabled, s)"
  unfolding process_bar_for_lane_def run_process_bar_cycle_def by (rule cycle_blocked) (simp add: runtime_cycle_engine_def)

lemma kill_switch_set: "rt_kill_switch_active (snd (set_kill_switch env active s)) = active"
proof (cases "rt_kill_switch_active s = active")
  case False
  let ?on = "s\<lparr>rt_kill_switch_active := active\<rparr>"
  have "keeps rt_kill_switch_active (then_do (rt_append_service_event env k payload) (\<lambda>_.
      if active then then_do (reads running_lane_ids) (\<lambda>running_ids.
        expect_each (\<lambda>lane_id. transition_instance env lane_id Paused ''instance.paused_by_kill_switch'') running_ids)
      else ok (Some ())))" for k payload
    by (intro frame_rules quiet_kill_switch.event_writes_quiet lane_free_kill_switch.transition_free)
  from keepsD [OF this, of _ _ ?on] False show ?thesis by (simp add: set_kill_switch_def then_do_def [of "reads _"] then_do_def [of "updates _"])
qed (simp add: set_kill_switch_def then_do_def)

lemma kill_switch_pauses:
  "runs (\<lambda>s. \<not> rt_kill_switch_active s) (set_kill_switch env True) any_state (expects (\<lambda>_. state_within Running {}))"
proof -
  have pause: "runs any_state (then_do (reads running_lane_ids) (expect_each (\<lambda>i. transition_instance env i Paused kind))) any_state
      (expects (\<lambda>_. state_within Running {}))" for kind
    by (rule runs_then_do [OF runs_reads pause_each]) (rule running_ids_within)
  have service: "runs any_state (rt_append_service_event env k payload) any_state (\<lambda>_. any_state)" for k payload
    by (rule runs_preserves) (simp_all add: preserves_def)
  show ?thesis
    unfolding set_kill_switch_def
    by (rule runs_then_do [OF runs_reads [where Q = "\<lambda>c _. c = False"]], simp)
      (auto simp: runs_def [of _ "updates _"] intro!: runs_then_do [where Q = "\<lambda>_. any_state"] service pause
        simp: runs_def [of _ "ok _"])
qed

text \<open>
  C5: Setting the kill switch stops trading: in every outcome, a journal error in the middle included,
  the switch is on and every lane refuses a bar without a change of state. When the call itself turned
  the switch on and succeeds, no lane is left running. When the switch was on before, the call returns
  at once and changes nothing, also where an earlier call failed midway and left lanes running; these
  refuse bars too.
\<close>

theorem kill_switch_stops_trading:
  "case set_kill_switch env True s of (r, s') \<Rightarrow>
     rt_kill_switch_active s' \<and> process_bar_for_lane env' spent i bar phase s' = (Inl KillSwitchEnabled, s')
     \<and> (if rt_kill_switch_active s then r = Inr (Some ()) \<and> s' = s
        else case (r, hm_get (rt_lanes s') i) of (Inr (Some _), Some lane) \<Rightarrow> lr_state lane \<noteq> Running | _ \<Rightarrow> True)"
proof (cases "set_kill_switch env True s")
  case (Pair r s')
  have on: "rt_kill_switch_active s'" using kill_switch_set [of env True s] Pair by simp
  show ?thesis
  proof (cases "rt_kill_switch_active s")
    case True
    with Pair on show ?thesis by (auto simp: set_kill_switch_def then_do_def cycle_refused)
  next
    case False
    with kill_switch_pauses [of env] Pair have "case r of Inr (Some _) \<Rightarrow> state_within Running {} s' | _ \<Rightarrow> True"
      by (auto simp: runs_def split: sum.split option.split dest!: spec [of _ s])
    with Pair on False show ?thesis by (auto simp: cycle_refused state_within_def split: sum.split option.split)
  qed
qed

subsection \<open>Starting and resuming\<close>

lemma run_one:
  "runs (\<lambda>s. \<forall>j \<in> ids. lane_has j (\<lambda>l. lr_state l = target) (s :: ('v, 'j, 'w) Runtime)) (transition_instance env i target kind) any_state
     (expects (\<lambda>_ s. \<forall>j \<in> insert i ids. lane_has j (\<lambda>l. lr_state l = target) s))"
  unfolding runs_def
proof (intro allI impI)
  fix s :: "('v, 'j, 'w) Runtime" assume already: "\<forall>j \<in> ids. lane_has j (\<lambda>l. lr_state l = target) s"
  show "case transition_instance env i target kind s of (Inl e, s') \<Rightarrow> any_state s'
      | (Inr a, s') \<Rightarrow> expects (\<lambda>_ s. \<forall>j \<in> insert i ids. lane_has j (\<lambda>l. lr_state l = target) s) a s'"
  proof (cases "hm_get (rt_lanes s) i")
    case None
    then show ?thesis by (simp add: transition_instance_def then_do_def rt_instance_def)
  next
    case (Some l)
    from transition_lanes [OF this, where env = env and target = target and kind = kind] already show ?thesis
      by (auto simp: lane_has_def hm_get_insert split: sum.split option.splits if_splits)
  qed
qed

lemma run_each:
  "runs (\<lambda>s. \<forall>j \<in> done_ids. lane_has j (\<lambda>l. lr_state l = target) s) (expect_each (\<lambda>i. transition_instance env i target kind) ids) any_state
     (expects (\<lambda>_ s. \<forall>j \<in> done_ids \<union> set ids. lane_has j (\<lambda>l. lr_state l = target) s))"
proof (induction ids arbitrary: done_ids)
  case (Cons i ids)
  have ids: "insert i done_ids \<union> set ids = done_ids \<union> set (i # ids)" by simp
  show ?case
    unfolding expect_each.simps ids [symmetric] by (rule runs_expect_do [OF run_one Cons.IH])
qed (simp add: runs_def)

lemma admitted:
  assumes "admit_run request bot_id s = Inr (ids, primary, account)"
  shows "\<not> rt_kill_switch_active s \<and> lane_ids_for_bot bot_id s = Inr ids \<and> ids \<noteq> []
    \<and> (\<exists>lanes. lanes_for_bot bot_id s = Inr lanes \<and> list_all (\<lambda>l. \<not> lr_reconciliation_blocked l \<and> lr_state l \<noteq> Reconciling) lanes)"
  using assms
  by (auto simp: admit_run_def check_lanes_runnable_def list_ex_iff list_all_iff split: if_splits sum.splits list.splits)

lemma collected_lanes:
  "\<forall>j \<in> set ids. lane_has j Q s \<Longrightarrow> \<exists>lanes. collect_ok (map (\<lambda>i. rt_instance i s) ids) = Inr lanes \<and> list_all Q lanes \<and> length lanes = length ids"
proof (induction ids)
  case (Cons i ids)
  then show ?case by (auto simp: lane_has_def rt_instance_def split: option.splits)
qed simp

lemma running_summary:
  assumes "lane_ids_for_bot bot_id s = Inr ids" "ids \<noteq> []" "\<forall>j \<in> set ids. lane_has j (\<lambda>l. lr_state l = Running) s"
    and "get_instance tx bot_id s = Inr (Some summary)"
  shows "is_state summary = Running \<and> (\<exists>lanes. lanes_for_bot bot_id s = Inr lanes \<and> list_all (\<lambda>l. lr_state l = Running) lanes)"
proof -
  from collected_lanes [OF assms(3)] obtain lanes where
    lanes: "collect_ok (map (\<lambda>i. rt_instance i s) ids) = Inr lanes" "list_all (\<lambda>l. lr_state l = Running) lanes" "length lanes = length ids" by blast
  then have "lanes \<noteq> []" using assms(2) by auto
  with lanes assms(1, 4) show ?thesis
    by (cases lanes) (auto simp: get_instance_def lanes_for_bot_def summary_from_bot_def aggregate_bot_state_def list_all_iff Let_def)
qed

lemma bots_kept: "keeps rt_lanes_by_bot m \<Longrightarrow> runs (\<lambda>s. lane_ids_for_bot b s = Inr ids) m any_state (\<lambda>_ s. lane_ids_for_bot b s = Inr ids)"
  by (rule runs_preserves) (simp_all add: keeps_def preserves_def lane_ids_for_bot_def)

lemma started_lanes:
  assumes "ids \<noteq> []"
  shows "runs (\<lambda>s. lane_ids_for_bot bot_id s = Inr ids)
    (expect_do (ensure_live_reconciliation_ready env bot_id (rq_action request)) (\<lambda>_.
     then_do (ensure_account_connector_ready env primary account) (\<lambda>_.
     then_do (refresh_account_ledger_from_connector env account) (\<lambda>_.
     then_do (for_each (\<lambda>lane_id. attempt_instance_warmup_backfill env lane_id (rq_action request)) ids) (\<lambda>_.
     expect_do (expect_each (\<lambda>lane_id. transition_instance env lane_id Running (rq_event_kind request)) ids) (\<lambda>_.
     rt_get_instance env bot_id)))))) any_state
    (expects (\<lambda>summary s. is_state summary = Running
       \<and> (\<exists>lanes. lanes_for_bot bot_id s = Inr lanes \<and> list_all (\<lambda>l. lr_state l = Running) lanes)))"
proof -
  let ?bots = "\<lambda>s. lane_ids_for_bot bot_id s = Inr ids" and ?running = "\<lambda>s. \<forall>j \<in> set ids. lane_has j (\<lambda>l. lr_state l = Running) s"
  have live: "runs ?bots (ensure_live_reconciliation_ready env bot_id (rq_action request)) any_state (expects (\<lambda>_. ?bots))"
    by (rule runs_weaken [OF bots_kept [OF lane_free_bots.live_ready_free]]) (auto split: option.split)
  have turn: "runs ?bots (expect_each (\<lambda>i. transition_instance env i Running (rq_event_kind request)) ids) any_state
      (expects (\<lambda>_ s. ?bots s \<and> ?running s))"
    by (rule runs_weaken [OF runs_both [OF bots_kept [OF keeps_expect_each [OF lane_free_bots.transition_free]]
          run_each [where done_ids = "{}"]]]) (auto split: option.splits)
  have summary: "runs (\<lambda>s. ?bots s \<and> ?running s) (rt_get_instance env bot_id) any_state
      (expects (\<lambda>summary s. is_state summary = Running
         \<and> (\<exists>lanes. lanes_for_bot bot_id s = Inr lanes \<and> list_all (\<lambda>l. lr_state l = Running) lanes)))"
    unfolding rt_get_instance_def
    by (rule runs_tries) (auto split: option.split dest!: running_summary [OF _ assms])
  show ?thesis
    by (rule runs_expect_do [OF live], rule runs_then_do [OF bots_kept [OF lane_free_bots.ready_free]],
        rule runs_then_do [OF bots_kept [OF refresh_keeps_bots]],
        rule runs_then_do [OF bots_kept [OF keeps_for_each [OF lane_free_bots.backfill_free]]],
        rule runs_expect_do [OF turn summary])
qed

text \<open>
  C7: A bot is started or resumed only when the kill switch is off and no lane of it waits for a
  reconciliation, blocked or in progress; then every lane of the bot runs, and the summary says so.
\<close>

theorem started_bot_runs:
  "case run_lanes env request bot_id s of
     (Inr (Some summary), s') \<Rightarrow> \<not> rt_kill_switch_active s \<and> is_state summary = Running
       \<and> (case (lanes_for_bot bot_id s, lanes_for_bot bot_id s') of
            (Inr lanes, Inr lanes') \<Rightarrow> list_all (\<lambda>l. \<not> lr_reconciliation_blocked l \<and> lr_state l \<noteq> Reconciling) lanes
              \<and> list_all (\<lambda>l. lr_state l = Running) lanes'
          | _ \<Rightarrow> False)
   | _ \<Rightarrow> True"
proof (cases "admit_run request bot_id s")
  case (Inl e)
  then show ?thesis by (simp add: run_lanes_def then_do_def)
next
  case (Inr admission)
  obtain ids primary account where adm: "admission = (ids, primary, account)" by (cases admission)
  note ok = admitted [OF Inr [unfolded adm]]
  from started_lanes [of ids bot_id env request primary account] ok Inr adm show ?thesis
    by (auto simp: run_lanes_def then_do_def [of "tries _"] runs_def split: sum.split option.split prod.split dest!: spec [of _ s])
qed

subsection \<open>Positions\<close>

text \<open>The position of a lane without its run state.\<close>

definition same_holding :: "'v LaneRuntime \<Rightarrow> 'v LaneRuntime \<Rightarrow> bool" where
  "same_holding l l' \<longleftrightarrow> lr_config l' = lr_config l \<and> lr_lane_symbol l' = lr_lane_symbol l \<and> lr_inventory l' = lr_inventory l
     \<and> lr_has_position l' = lr_has_position l \<and> lr_position_quantity l' = lr_position_quantity l
     \<and> lr_position_notional_usd l' = lr_position_notional_usd l \<and> lr_entry_price l' = lr_entry_price l
     \<and> lr_realized_pnl_usd l' = lr_realized_pnl_usd l"

interpretation holding: lane_moves same_holding
  by unfold_locales (auto simp: same_holding_def recovery_state_defs)

lemma transition_holding: "preserves (lanes_rel same_holding s0) (transition_instance env i target kind)"
  unfolding transition_instance_def set_lane_state_def ignoring_errors_def
  by (intro invariant_rules holding.update_lane keeps_lanes_rel quiet_lanes.event_writes_quiet) (simp_all add: same_holding_def)

lemma parked_holding: "preserves (lanes_rel same_holding s0) (park_lanes env target kind bot_id)"
  unfolding park_lanes_def rt_get_instance_def by (intro invariant_rules transition_holding)

lemma run_holding: "preserves (lanes_rel same_holding s0) (run_lanes env request bot_id)"
  unfolding run_lanes_def ensure_live_reconciliation_ready_def rt_get_instance_def
  by (intro invariant_rules transition_holding holding.backfill_moves keeps_lanes_rel free_lanes.ready_free refresh_keeps_lanes)

lemma kill_switch_holding: "preserves (lanes_rel same_holding s0) (set_kill_switch env active)"
  unfolding set_kill_switch_def
  by (intro invariant_rules transition_holding keeps_lanes_rel quiet_lanes.event_writes_quiet preserves_updates) (simp_all add: lanes_rel_def)

text \<open>
  The life-cycle operations move no position: starting, resuming, stopping or pausing a bot and
  setting or clearing the kill switch leave the inventory, the quantity, the entry price and the
  realized result of every lane as they were, whatever the journal and the provider answer.
\<close>

theorem lifecycle_moves_no_position:
  "lanes_rel same_holding s (snd (start_instance env bot_id s)) \<and> lanes_rel same_holding s (snd (resume_instance env bot_id s))
   \<and> lanes_rel same_holding s (snd (stop_instance env bot_id s)) \<and> lanes_rel same_holding s (snd (pause_instance env bot_id s))
   \<and> lanes_rel same_holding s (snd (set_kill_switch env active s))"
proof -
  have start: "lanes_rel same_holding s s" by (rule lanes_rel_refl) (rule holding.refl)
  show ?thesis
    unfolding start_instance_def resume_instance_def stop_instance_def pause_instance_def
    by (intro conjI preservesD [OF run_holding start] preservesD [OF parked_holding start] preservesD [OF kill_switch_holding start])
qed

subsection \<open>How the operator operations move lanes and ledgers\<close>

lemma parked_typed: "preserves (lanes_rel lane_typed s0) (park_lanes env target kind bot_id)"
  unfolding park_lanes_def rt_get_instance_def by (intro invariant_rules transition_typed)

lemma run_typed: "preserves (lanes_rel lane_typed s0) (run_lanes env request bot_id)"
  unfolding run_lanes_def ensure_live_reconciliation_ready_def rt_get_instance_def
  by (intro invariant_rules transition_typed typed.backfill_moves keeps_lanes_rel free_lanes.ready_free refresh_keeps_lanes)

lemma run_moves_ledgers: "preserves (ledgers_rel s0) (run_lanes env request bot_id)"
  unfolding run_lanes_def rt_get_instance_def
  by (intro invariant_rules keeps_ledgers_rel [OF lane_free_ledgers.live_ready_free] keeps_ledgers_rel [OF transition_keeps_ledgers]
      keeps_ledgers_rel [OF lane_free_ledgers.backfill_free] keeps_ledgers_rel [OF free_ledgers.ready_free] connector_refresh_moves_ledger)

lemma kill_switch_typed: "preserves (lanes_rel lane_typed s0) (set_kill_switch env active)"
  unfolding set_kill_switch_def
  by (intro invariant_rules transition_typed keeps_lanes_rel quiet_lanes.event_writes_quiet preserves_updates) (simp_all add: lanes_rel_def)

lemma kill_switch_keeps_ledgers: "keeps rt_account_ledgers (set_kill_switch env active)"
  unfolding set_kill_switch_def
  by (intro frame_rules transition_keeps_ledgers quiet_ledgers.event_writes_quiet keeps_updates) simp_all

lemma manual_reconcile_typed: "preserves (lanes_rel lane_typed s0) (reconcile_instance env bot_id)"
  unfolding reconcile_instance_def rt_get_instance_def by (intro invariant_rules reconcile_typed)

lemma manual_reconcile_moves_ledgers: "preserves (ledgers_rel s0) (reconcile_instance env bot_id)"
  unfolding reconcile_instance_def rt_get_instance_def by (intro invariant_rules reconcile_moves_ledgers)

lemma cancel_keeps_lanes: "keeps rt_lanes (cancel_open_orders env bot_id)"
  unfolding cancel_open_orders_def rt_get_instance_def
  by (intro frame_rules quiet_lanes.plain_records_quiet quiet_lanes.event_writes_quiet)

lemma remote_quantity_typed: "lane_typed l (snd (sync_remote_position_quantity q l))"
  by (simp add: lane_typed_def recovery_wf_def sync_remote_position_quantity_def sync_inventory_from_runtime_fields_def Let_def)

lemma manual_signal_typed: "preserves (lanes_rel lane_typed s0) (process_manual_signal_for_lane env spent i signal price time)"
  unfolding process_manual_signal_for_lane_def run_manual_signal_cycle_def
  by (intro invariant_rules typed.cycling.cycle_preserves)

lemma remote_close_sync_typed: "preserves (lanes_rel lane_typed s0) (rt_sync_remote_position_for_manual_close env i a)"
  unfolding rt_sync_remote_position_for_manual_close_def Let_def
  by (intro invariant_rules typed.with_lane remote_quantity_typed keeps_lanes_rel free_lanes.ready_free
      free_lanes.snapshot_outcome_free quiet_lanes.plain_records_quiet refresh_keeps_lanes)

lemma remote_close_sync_moves_ledgers: "preserves (ledgers_rel s0) (rt_sync_remote_position_for_manual_close env i a)"
  unfolding rt_sync_remote_position_for_manual_close_def Let_def
  by (intro invariant_rules keeps_ledgers_rel [OF lane_free_ledgers.instance_free(1)] keeps_ledgers_rel [OF free_ledgers.ready_free]
      keeps_ledgers_rel [OF free_ledgers.snapshot_outcome_free] keeps_ledgers_rel [OF quiet_ledgers.plain_records_quiet(3)]
      refresh_moves_ledger)

text \<open>A manual close keeps what its four operations keep.\<close>

locale manual_close_invariant =
  fixes engine :: "('s, 'e) LaneManualOpsEngine" and I :: "'s \<Rightarrow> bool"
  assumes inv_sync: "preserves I (mo_sync_remote_position_for_manual_close engine i a)"
    and inv_fetch: "preserves I (mo_fetch_latest_bar_for_manual_close engine i)"
    and inv_signal: "preserves I (mo_process_manual_close_signal engine i price time)"
begin

lemma close_preserves: "preserves I (close_lane_position engine i)"
  unfolding close_lane_position_def by (intro invariant_rules inv_sync inv_fetch inv_signal)

end

interpretation close_lanes: manual_close_invariant "runtime_manual_ops_engine env spent" "lanes_rel lane_typed s0" for env spent s0
  by unfold_locales (auto simp: runtime_manual_ops_engine_def intro!: invariant_rules remote_close_sync_typed manual_signal_typed
      keeps_lanes_rel [OF free_lanes.fetch_free(2)])

interpretation close_ledgers: manual_close_invariant "runtime_manual_ops_engine env spent" "ledgers_rel s0" for env spent s0
  by unfold_locales (auto simp: runtime_manual_ops_engine_def intro!: invariant_rules remote_close_sync_moves_ledgers
      cycles_move_ledgers(2) keeps_ledgers_rel [OF free_ledgers.fetch_free(2)])

lemma record_close_keeps: "quiet_view view \<Longrightarrow> keeps view (record_close env i b st texts)"
  unfolding record_close_def rt_get_instance_def by (intro frame_rules quiet_view.event_writes_quiet)

lemma close_lane_typed: "preserves (lanes_rel lane_typed s0) (rt_close_lane_position env spent i)"
  unfolding rt_close_lane_position_def rt_get_instance_def Let_def
  by (intro invariant_rules close_lanes.close_preserves)
    (auto split: ManualCloseOutcome.split ManualCloseSignalRisk.split
      intro!: invariant_rules keeps_lanes_rel record_close_keeps quiet_lanes.quiet_view_axioms)

lemma close_lane_moves_ledgers: "preserves (ledgers_rel s0) (rt_close_lane_position env spent i)"
  unfolding rt_close_lane_position_def rt_get_instance_def Let_def
  by (intro invariant_rules close_ledgers.close_preserves)
    (auto split: ManualCloseOutcome.split ManualCloseSignalRisk.split
      intro!: invariant_rules keeps_ledgers_rel record_close_keeps quiet_ledgers.quiet_view_axioms)

lemma close_typed: "preserves (lanes_rel lane_typed s0) (close_positions env spent bot_id)"
  unfolding close_positions_def rt_get_instance_def by (intro invariant_rules close_lane_typed)

lemma close_moves_ledgers: "preserves (ledgers_rel s0) (close_positions env spent bot_id)"
  unfolding close_positions_def rt_get_instance_def by (intro invariant_rules close_lane_moves_ledgers)

end
