(* ===== verification/Startup.thy ===== *)
theory Startup
  imports Config Lifecycle
begin

section \<open>Startup (openticker-runtime/src/construction.rs)\<close>

text \<open>
  A runtime is built from a configuration bundle and a journal: one ledger per account, the lanes of
  every instance with what the journal knows of them, the connector registry and the read models. Then
  the ledgers are synchronised and refreshed, the boot is recorded, lanes that wait for it are
  reconciled, and the enabled lanes warm up. Opening a persistent journal is a parameter. The journal
  outlives a failed start, so it is part of the result; \<open>None\<close> is the panic on a bot without lanes.

  The lemmas show the state a start ends in: the kill switch is off, every ledger comes from a ledger
  with the configured budget, and no lane is left reconciling.
\<close>

subsection \<open>The parts (construction.rs)\<close>

definition account_modes :: "'v ConfigBundle \<Rightarrow> (string, ExecutionMode) hmap" where
  "account_modes config = hm_of_list (map (\<lambda>account. (ac_id account, ac_mode account)) (cb_accounts config))"

definition build_account_ledgers :: "'v ConfigBundle \<Rightarrow> (string, AccountLedger) hmap" where
  "build_account_ledgers config =
     hm_of_list (map (\<lambda>account. (ac_id account, AccountLedger_new (ac_total_budget_usd account))) (cb_accounts config))"

definition risk_profile_runtime :: "RiskProfileConfig \<Rightarrow> RiskProfileRuntimeConfig" where
  "risk_profile_runtime profile =
     \<lparr>rpr_limits = \<lparr>max_daily_loss_pct = rpc_max_daily_loss_pct profile, max_open_positions = rpc_max_open_positions profile,
        max_order_notional_usd = rpc_max_order_notional_usd profile, max_spread_bps = rpc_max_spread_bps profile,
        max_slippage_bps = rpc_max_slippage_bps profile, stale_data_ms = rpc_stale_data_ms profile,
        cooldown_after_reject_ms = rpc_cooldown_after_reject_ms profile\<rparr>,
      rpr_target_order_notional_usd = override (rpc_target_order_notional_usd profile) (rpc_max_order_notional_usd profile)\<rparr>"

definition risk_profiles_by_id :: "'v ConfigBundle \<Rightarrow> (string, RiskProfileRuntimeConfig) hmap" where
  "risk_profiles_by_id config =
     hm_of_list (map (\<lambda>profile. (rpc_id profile, risk_profile_runtime profile)) (cb_risk_profiles config))"

text \<open>What the process has outside a runtime: the world behind the connectors and the trace counter.\<close>

definition assemble_runtime ::
    "('v \<Rightarrow> f64 option) \<Rightarrow> ('v \<Rightarrow> int option) \<Rightarrow> ('j, 'w) RuntimeEnv \<Rightarrow> 'w Outside \<Rightarrow> u64 \<Rightarrow> 'v ConfigBundle \<Rightarrow> 'j
     \<Rightarrow> ServiceError + ('v, 'j, 'w) Runtime" where
  "assemble_runtime as_float as_integer env outside sequence config j =
     (case bootstrap_journal_state (cb_instances config) (env_journal env) j of Inl e \<Rightarrow> Inl e
      | Inr boot \<Rightarrow>
          (case build_runtime_lanes as_float as_integer (cb_instances config) (account_modes config) (risk_profiles_by_id config)
              (bj_snapshot_states boot) (bj_recovered_realized_pnl_by_lane boot)
              (sf_default_start_paused_if_recovery_uncertain (gc_safety (cb_global config))) of
             Inl (InvalidConfiguration message) \<Rightarrow> Inl (InvalidServiceConfiguration message)
           | Inr (lanes, lanes_by_bot) \<Rightarrow>
               (case build_connector_registry (cb_accounts config) of
                  Inl error \<Rightarrow> Inl (InvalidServiceConfiguration (gateway_error_text error))
                | Inr connectors \<Rightarrow>
                    (case bootstrap (env_journal env) j of Inl e \<Rightarrow> Inl (StorageFailure e)
                     | Inr read_models \<Rightarrow> Inr
                         \<lparr>rt_lanes = lanes, rt_kill_switch_active = False, rt_observability = ServiceObservability_default,
                          rt_lanes_by_bot = lanes_by_bot, rt_accounts = accounts_by_id (cb_accounts config),
                          rt_account_ledgers = build_account_ledgers config,
                          rt_gateway = \<lparr>gw_connectors = connectors, gw_outside = outside\<rparr>, rt_journal = j,
                          rt_read_models = read_models, rt_trace_sequence = sequence\<rparr>))))"

definition boot :: "('j, 'w) RuntimeEnv \<Rightarrow> ('v, 'j, 'w, unit option) runtime_op" where
  "boot env =
     then_do sync_all_account_ledgers_from_instances (\<lambda>_.
     then_do (refresh_all_account_ledgers_from_connectors env) (\<lambda>_.
     then_do (persist_boot_state env) (\<lambda>_.
     expect_do (run_startup_reconciliation env) (\<lambda>_.
     done_do (run_startup_warmup env)))))"

definition from_config_with_journal ::
    "('v \<Rightarrow> f64 option) \<Rightarrow> ('v \<Rightarrow> int option) \<Rightarrow> ('j, 'w) RuntimeEnv \<Rightarrow> 'w Outside \<Rightarrow> u64 \<Rightarrow> 'v ConfigBundle \<Rightarrow> 'j
     \<Rightarrow> (ServiceError + ('v, 'j, 'w) Runtime option) \<times> 'j" where
  "from_config_with_journal as_float as_integer env outside sequence config j =
     (case assemble_runtime as_float as_integer env outside sequence config j of Inl e \<Rightarrow> (Inl e, j)
      | Inr s \<Rightarrow> (case boot env s of (Inl e, s') \<Rightarrow> (Inl e, rt_journal s')
          | (Inr None, s') \<Rightarrow> (Inr None, rt_journal s')
          | (Inr (Some _), s') \<Rightarrow> (Inr (Some s'), rt_journal s')))"

definition prune_removed_bots :: "'j RuntimeJournal \<Rightarrow> bool \<Rightarrow> 'v ConfigBundle \<Rightarrow> 'j \<Rightarrow> (StorageError + unit) \<times> 'j" where
  "prune_removed_bots journal allow_prune config j =
     (if allow_prune \<and> sc_prune_removed_bots_on_startup (gc_storage (cb_global config))
      then jn_prune_bots_except journal (map ic_id (cb_instances config)) j else (Inr (), j))"

text \<open>The journal is opened after the bundle was validated; \<open>None\<close> in the journal's place means it never was.\<close>

definition from_config_with_storage_impl ::
    "(string \<Rightarrow> u64 \<Rightarrow> StorageError + 'j) \<Rightarrow> environment \<Rightarrow> ('v \<Rightarrow> f64 option) \<Rightarrow> ('v \<Rightarrow> int option) \<Rightarrow> ('j, 'w) RuntimeEnv
     \<Rightarrow> 'w Outside \<Rightarrow> u64 \<Rightarrow> 'v ConfigBundle \<Rightarrow> bool \<Rightarrow> (ServiceError + ('v, 'j, 'w) Runtime option) \<times> 'j option" where
  "from_config_with_storage_impl open_sqlite vars as_float as_integer env outside sequence config allow_prune =
     (case validate vars (env_fixed4 env) config of Inl error \<Rightarrow> (Inl (InvalidServiceConfiguration (config_error_text error)), None)
      | Inr _ \<Rightarrow>
          let storage = gc_storage (cb_global config) in
          if sc_kind storage \<noteq> ''sqlite'' then (Inl (StorageFailure (UnsupportedBackend (sc_kind storage))), None)
          else (case open_sqlite (sc_path storage) (sc_busy_timeout_ms storage) of Inl e \<Rightarrow> (Inl (StorageFailure e), None)
            | Inr j \<Rightarrow>
                (case prune_removed_bots (env_journal env) allow_prune config j of (Inl e, j') \<Rightarrow> (Inl (StorageFailure e), Some j')
                 | (Inr _, j') \<Rightarrow>
                     (case from_config_with_journal as_float as_integer env outside sequence config j' of (r, j'') \<Rightarrow> (r, Some j'')))))"

definition from_config_with_storage where
  "from_config_with_storage open_sqlite vars as_float as_integer env outside sequence config =
     from_config_with_storage_impl open_sqlite vars as_float as_integer env outside sequence config True"

definition from_config_with_storage_without_prune where
  "from_config_with_storage_without_prune open_sqlite vars as_float as_integer env outside sequence config =
     from_config_with_storage_impl open_sqlite vars as_float as_integer env outside sequence config False"

subsection \<open>Lanes other than the one reconciled\<close>

interpretation other_lane: gateway_free "\<lambda>s. hm_get (rt_lanes s) j" for j
  by unfold_locales simp_all

lemma keeps_one_lane: "keeps rt_lanes m \<Longrightarrow> keeps (\<lambda>s. hm_get (rt_lanes s) j) m"
  by (simp add: keeps_def)

lemma other_instance:
  "i \<noteq> j \<Longrightarrow> keeps (\<lambda>s. hm_get (rt_lanes s) j) (with_instance i f)" "i \<noteq> j \<Longrightarrow> keeps (\<lambda>s. hm_get (rt_lanes s) j) (update_instance i g)"
  by (auto simp: keeps_def update_instance_def with_instance_def hm_get_insert split: option.split)

lemma transition_others: "i \<noteq> j \<Longrightarrow> keeps (\<lambda>s. hm_get (rt_lanes s) j) (transition_instance env i target kind)"
  unfolding transition_instance_def set_lane_state_def ignoring_errors_def
  by (intro frame_rules other_instance other_lane.event_writes_quiet)

lemma reconcile_others: "i \<noteq> j \<Longrightarrow> keeps (\<lambda>s. hm_get (rt_lanes s) j) (reconcile_instance_internal env i src)"
  unfolding reconcile_instance_internal_def begin_reconcile_def apply_reconciliation_assessment_state_def
    sync_reconciliation_state_def sync_realized_pnl_def finalize_reconciliation_result_def record_reconciliation_result_def Let_def
  by (intro frame_rules transition_others other_instance other_lane.assess_free keeps_one_lane [OF refresh_keeps_lanes(4)]
      other_lane.refresh_record_quiet other_lane.close_stale_quiet other_lane.backfill_quiet other_lane.record_writes_quiet
      other_lane.event_writes_quiet)

lemma startup_reconcile_others: "i \<noteq> j \<Longrightarrow> keeps (\<lambda>s. hm_get (rt_lanes s) j) (startup_reconcile env i)"
  unfolding startup_reconcile_def mark_startup_reconciliation_failed_def rt_get_instance_def Let_def
  by (intro frame_rules reconcile_others other_instance other_lane.event_writes_quiet)

subsection \<open>No lane is left reconciling\<close>

lemma runs_handle:
  "runs P m E' Q \<Longrightarrow> (\<And>e. runs E' (h e) E R) \<Longrightarrow> (\<And>a. runs (Q a) (k a) E R) \<Longrightarrow> runs P (handle m h k) E R"
  unfolding runs_def handle_def by (fastforce split: sum.splits prod.splits)

lemma update_any: "(\<And>l. Q (f l)) \<Longrightarrow> runs any_state (update_instance i f) any_state (\<lambda>_. lane_has i Q)"
  by (simp add: runs_def lane_has_def update_instance_def with_instance_def hm_get_insert split: option.split)

lemma marked_paused:
  "runs any_state (mark_startup_reconciliation_failed env i error) any_state (expects (\<lambda>_. lane_has i (\<lambda>l. lr_state l \<noteq> Reconciling)))"
proof -
  let ?P = "lane_has i (\<lambda>l. lr_state l \<noteq> Reconciling)"
  have set: "runs any_state (update_instance i (\<lambda>l. l\<lparr>lr_state := Paused, lr_reconciliation_blocked := True,
      lr_resume_after_startup_reconcile := False\<rparr>)) any_state (\<lambda>_. ?P)"
    by (rule update_any) simp
  have summary: "runs ?P (rt_get_instance env b) any_state (expects (\<lambda>_. ?P))" for b
    unfolding rt_get_instance_def by (rule runs_tries) (auto split: option.split)
  have last: "runs ?P (done_do m) any_state (expects (\<lambda>_. ?P))" if "keeps rt_lanes m" for m
    unfolding done_do_def by (rule runs_stable [OF lane_has_keeps [OF that]]) (simp add: runs_def)
  show ?thesis
    unfolding mark_startup_reconciliation_failed_def Let_def
    by (rule runs_then_do [OF set], rule runs_stable [OF lane_has_tries], rule runs_expect_do [OF summary],
        (rule runs_stable [OF lane_has_keeps [OF quiet_lanes.event_writes_quiet(8)]]),
        (rule runs_stable [OF lane_has_keeps [OF quiet_lanes.event_writes_quiet(4)]]),
        rule last [OF quiet_lanes.event_writes_quiet(2)])
qed

lemma startup_reconciled:
  "runs any_state (startup_reconcile env i) any_state (expects (\<lambda>_. lane_has i (\<lambda>l. lr_state l \<noteq> Reconciling)))"
proof -
  have settled: "runs any_state (reconcile_instance_internal env i ''startup'') any_state
      (expects (\<lambda>_. lane_has i (\<lambda>l. lr_state l \<noteq> Reconciling)))"
    unfolding runs_def
  proof (intro allI impI)
    fix s
    show "case reconcile_instance_internal env i ''startup'' s of (Inl e, s') \<Rightarrow> any_state s'
      | (Inr a, s') \<Rightarrow> expects (\<lambda>_. lane_has i (\<lambda>l. lr_state l \<noteq> Reconciling)) a s'"
    proof (cases "hm_get (rt_lanes s) i")
      case None
      then show ?thesis by (simp add: reconcile_instance_internal_def then_do_def rt_instance_def)
    next
      case (Some lane)
      with reconciled_lane [of i "lr_resume_after_startup_reconcile lane" env "''startup''"] show ?thesis
        by (auto simp: runs_def lane_has_def reconciled_state_def split: option.splits sum.split prod.split if_splits dest!: spec [of _ s])
    qed
  qed
  show ?thesis
    unfolding startup_reconcile_def
    by (rule runs_handle [OF settled marked_paused]) (auto simp: runs_def split: option.splits)
qed

lemma startup_one:
  "runs (state_within Reconciling (insert i ids) :: ('v, 'j, 'w) Runtime \<Rightarrow> bool) (startup_reconcile env i) any_state (expects (\<lambda>_. state_within Reconciling ids))"
  unfolding runs_def
proof (intro allI impI)
  fix s :: "('v, 'j, 'w) Runtime" assume within: "state_within Reconciling (insert i ids) s"
  obtain r s' where run: "startup_reconcile env i s = (r, s')" by fastforce
  have others: "hm_get (rt_lanes s') j = hm_get (rt_lanes s) j" if "i \<noteq> j" for j
    using keeps_run [OF startup_reconcile_others [OF that] run] .
  have "case r of Inr (Some _) \<Rightarrow> lane_has i (\<lambda>l. lr_state l \<noteq> Reconciling) s' | _ \<Rightarrow> True"
    using startup_reconciled [of env i] run by (auto simp: runs_def split: sum.split option.split dest!: spec [of _ s])
  then have "case r of Inr (Some _) \<Rightarrow> state_within Reconciling ids s' | _ \<Rightarrow> True"
    using within others by (auto simp: state_within_def lane_has_def split: sum.splits option.splits) (metis option.inject)+
  with run show "case startup_reconcile env i s of (Inl e, s') \<Rightarrow> any_state s'
    | (Inr a, s') \<Rightarrow> expects (\<lambda>_. state_within Reconciling ids) a s'"
    by (auto split: sum.split option.split)
qed

lemma startup_each:
  "runs (state_within Reconciling (set ids)) (expect_each (startup_reconcile env) ids) any_state (expects (\<lambda>_. state_within Reconciling {}))"
proof (induction ids)
  case (Cons i ids)
  then show ?case using runs_expect_do [OF startup_one Cons.IH] by simp
qed (simp add: runs_def)

lemma startup_settles: "runs any_state (run_startup_reconciliation env) any_state (expects (\<lambda>_. state_within Reconciling {}))"
  unfolding run_startup_reconciliation_def
  by (rule runs_then_do [OF runs_reads startup_each]) (force simp: state_within_def hm_get_def dest: map_of_SomeD)

lemma list_rel_back:
  "list_all2 (\<lambda>(k, l) (k', l'). k = k' \<and> R l l') ls0 ls \<Longrightarrow> map_of ls i = Some l \<Longrightarrow> \<exists>l0. map_of ls0 i = Some l0 \<and> R l0 l"
  by (induction ls0 ls rule: list_all2_induct) (auto split: if_splits)

lemma lanes_rel_back: "lanes_rel R s0 s \<Longrightarrow> hm_get (rt_lanes s) i = Some l \<Longrightarrow> \<exists>l0. hm_get (rt_lanes s0) i = Some l0 \<and> R l0 l"
  unfolding lanes_rel_def hm_get_def by (rule list_rel_back)

lemma position_keeps_states:
  "preserves (lanes_rel same_position s0) m \<Longrightarrow> state_within st ids s0 \<Longrightarrow> state_within st ids (snd (m s0))" for m :: "('v, 'j, 'w, 'a) runtime_op"
proof -
  assume m: "preserves (lanes_rel same_position s0) m" and within: "state_within st ids s0"
  have rel: "lanes_rel same_position s0 (snd (m s0))" using preservesD [OF m lanes_rel_refl] position.refl by blast
  show "state_within st ids (snd (m s0))"
    unfolding state_within_def
  proof (intro allI impI)
    fix i l assume l: "hm_get (rt_lanes (snd (m s0))) i = Some l \<and> lr_state l = st"
    with rel obtain l0 where "hm_get (rt_lanes s0) i = Some l0" "same_position l0 l"
      using lanes_rel_back by blast
    with l within show "i \<in> ids" by (auto simp: state_within_def same_position_def)
  qed
qed

lemma position_runs:
  fixes m :: "('v, 'j, 'w, 'a) runtime_op"
  assumes "\<And>s0. preserves (lanes_rel same_position s0) m"
  shows "runs (state_within st ids) m any_state (\<lambda>_. state_within st ids)"
  using position_keeps_states [OF assms] by (fastforce simp: runs_def split: sum.split prod.split)

lemma runs_any: "runs any_state m any_state (\<lambda>_. any_state)"
  by (auto simp: runs_def split: sum.split prod.split)

lemma boot_settles: "runs any_state (boot env) any_state (expects (\<lambda>_. state_within Reconciling {}))"
proof -
  have warm: "runs (state_within Reconciling {}) (done_do (run_startup_warmup env)) any_state (expects (\<lambda>_. state_within Reconciling {}))"
    unfolding done_do_def
    by (rule runs_stable [OF position_runs [OF position.startup_warmup_moves]]) (simp add: runs_def)
  show ?thesis
    unfolding boot_def
    by (rule runs_then_do [OF runs_any], rule runs_then_do [OF runs_any], rule runs_then_do [OF runs_any], rule runs_expect_do [OF startup_settles warm])
qed

subsection \<open>How a start moves lanes and ledgers\<close>

lemma boot_typed: "preserves (lanes_rel lane_typed s0) (boot env)"
  unfolding boot_def sync_all_account_ledgers_from_instances_def refresh_all_account_ledgers_from_connectors_def persist_boot_state_def
  by (intro invariant_rules keeps_lanes_rel [OF refresh_keeps_lanes(1)] keeps_lanes_rel [OF refresh_keeps_lanes(3)]
      keeps_lanes_rel [OF quiet_lanes.event_writes_quiet(5)] keeps_lanes_rel [OF quiet_lanes.event_writes_quiet(8)]
      startup_typed typed.startup_warmup_moves)

lemma startup_warmup_keeps_ledgers: "keeps rt_account_ledgers (run_startup_warmup env)"
  unfolding run_startup_warmup_def startup_warmup_def ignoring_errors_def rt_record_warmup_failure_def
  by (intro frame_rules lane_free_ledgers.backfill_free lane_free_ledgers.instance_free quiet_ledgers.event_writes_quiet
      quiet_ledgers.json_event_quiet)

lemma boot_moves_ledgers: "preserves (ledgers_rel s0) (boot env)"
  unfolding boot_def sync_all_account_ledgers_from_instances_def refresh_all_account_ledgers_from_connectors_def persist_boot_state_def
  by (intro invariant_rules sync_moves_ledger connector_refresh_moves_ledger startup_moves_ledgers
      keeps_ledgers_rel [OF quiet_ledgers.event_writes_quiet(5)] keeps_ledgers_rel [OF quiet_ledgers.event_writes_quiet(8)]
      keeps_ledgers_rel [OF startup_warmup_keeps_ledgers])

lemma ledger_refresh_keeps_kill_switch:
  "keeps rt_kill_switch_active (sync_account_ledger_from_instances a)"
  "keeps rt_kill_switch_active (refresh_account_ledger_from_snapshot env a snapshot)"
  unfolding sync_account_ledger_from_instances_def refresh_account_ledger_from_snapshot_def Let_def
  by (intro frame_rules with_ledger_keeps; simp)+

lemma reconcile_keeps_kill_switch: "keeps rt_kill_switch_active (reconcile_instance_internal env i src)"
  unfolding reconcile_instance_internal_def begin_reconcile_def apply_reconciliation_assessment_state_def
    sync_reconciliation_state_def sync_realized_pnl_def finalize_reconciliation_result_def record_reconciliation_result_def
    refresh_account_ledger_for_assessment_def Let_def
  by (intro frame_rules lane_free_kill_switch.transition_free lane_free_kill_switch.instance_free free_kill_switch.assess_free
      ledger_refresh_keeps_kill_switch quiet_kill_switch.refresh_record_quiet quiet_kill_switch.close_stale_quiet
      quiet_kill_switch.backfill_quiet quiet_kill_switch.record_writes_quiet quiet_kill_switch.event_writes_quiet)

lemma boot_keeps_kill_switch: "keeps rt_kill_switch_active (boot env)"
  unfolding boot_def sync_all_account_ledgers_from_instances_def refresh_all_account_ledgers_from_connectors_def persist_boot_state_def
    run_startup_reconciliation_def startup_reconcile_def mark_startup_reconciliation_failed_def rt_get_instance_def
    run_startup_warmup_def startup_warmup_def ignoring_errors_def rt_record_warmup_failure_def Let_def
  by (intro frame_rules ledger_refresh_keeps_kill_switch refresh_keeps_kill_switch reconcile_keeps_kill_switch
      lane_free_kill_switch.instance_free lane_free_kill_switch.backfill_free quiet_kill_switch.event_writes_quiet
      quiet_kill_switch.json_event_quiet)

text \<open>Every ledger of a runtime comes from a new ledger with the budget of its account.\<close>

definition ledgers_declared :: "AccountConfig list \<Rightarrow> ('v, 'j, 'w) Runtime \<Rightarrow> bool" where
  "ledgers_declared accounts s \<longleftrightarrow> (\<forall>(a, ledger) \<in> set (rt_account_ledgers s).
     \<exists>account \<in> set accounts. ac_id account = a \<and> capital_reachable (ac_total_budget_usd account) ledger)"

lemma assembled:
  assumes "assemble_runtime af ai env outside sequence config j = Inr s"
  shows "\<not> rt_kill_switch_active s" "ledgers_declared (cb_accounts config) s" "rt_journal s = j"
proof -
  from assms have s: "rt_account_ledgers s = build_account_ledgers config" "\<not> rt_kill_switch_active s" "rt_journal s = j"
    by (auto simp: assemble_runtime_def split: sum.splits InstanceError.splits)
  then show "\<not> rt_kill_switch_active s" "rt_journal s = j" by simp_all
  show "ledgers_declared (cb_accounts config) s"
    using set_hm_of_list [of "map (\<lambda>account. (ac_id account, AccountLedger_new (ac_total_budget_usd account))) (cb_accounts config)"]
    by (force simp: ledgers_declared_def s build_account_ledgers_def intro: capital_new)
qed

lemma list_rel_closed:
  assumes closed: "\<And>k l l'. R l l' \<Longrightarrow> D k l \<Longrightarrow> D k l'"
  shows "list_all2 (\<lambda>(k, l) (k', l'). k = k' \<and> R l l') ls0 ls \<Longrightarrow> \<forall>(k, l) \<in> set ls0. D k l \<Longrightarrow> \<forall>(k, l) \<in> set ls. D k l"
  by (induction ls0 ls rule: list_all2_induct) (auto intro: closed)

lemma declared_moves: "ledgers_rel s0 s \<Longrightarrow> ledgers_declared accounts s0 \<Longrightarrow> ledgers_declared accounts s"
  unfolding ledgers_moved_def ledgers_declared_def
  by (rule list_rel_closed [where D = "\<lambda>a ledger. \<exists>account \<in> set accounts. ac_id account = a
        \<and> capital_reachable (ac_total_budget_usd account) ledger"]) (auto intro: capital_run_reachable)

lemma started:
  assumes "from_config_with_journal af ai env outside sequence config j = (Inr (Some s), j')"
  shows "\<not> rt_kill_switch_active s" "state_within Reconciling {} s" "ledgers_declared (cb_accounts config) s" "j' = rt_journal s"
    "\<exists>s0. assemble_runtime af ai env outside sequence config j = Inr s0 \<and> lanes_rel lane_typed s0 s"
proof -
  from assms obtain s0 where s0: "assemble_runtime af ai env outside sequence config j = Inr s0"
    and boot: "boot env s0 = (Inr (Some ()), s)" and j': "j' = rt_journal s"
    by (auto simp: from_config_with_journal_def split: sum.splits option.splits prod.splits)
  show "j' = rt_journal s" by (fact j')
  show "\<not> rt_kill_switch_active s" using keeps_run [OF boot_keeps_kill_switch boot] assembled(1) [OF s0] by simp
  show "state_within Reconciling {} s"
    using boot_settles [of env] boot by (auto simp: runs_def dest!: spec [of _ s0])
  show "ledgers_declared (cb_accounts config) s"
    using preservesD [OF boot_moves_ledgers ledgers_rel_refl, of s0 env] boot declared_moves assembled(2) [OF s0] by fastforce
  show "\<exists>s0. assemble_runtime af ai env outside sequence config j = Inr s0 \<and> lanes_rel lane_typed s0 s"
    using s0 preservesD [OF boot_typed lanes_rel_refl, of s0 env] typed.refl boot by fastforce
qed

text \<open>
  C11: A runtime that starts is settled: its kill switch is off, no lane is left waiting for a
  reconciliation, one that failed included, and every capital ledger was reached by steps of the capital
  machine from a new ledger with the declared budget of its account.
\<close>

theorem started_runtime_is_settled:
  "case from_config_with_journal af ai env outside sequence config j of
     (Inr (Some s), j') \<Rightarrow> \<not> rt_kill_switch_active s \<and> j' = rt_journal s
       \<and> (case hm_get (rt_lanes s) i of None \<Rightarrow> True | Some lane \<Rightarrow> lr_state lane \<noteq> Reconciling)
       \<and> (case hm_get (rt_account_ledgers s) a of None \<Rightarrow> True
          | Some ledger \<Rightarrow> list_ex (\<lambda>account. ac_id account = a \<and> capital_reachable (ac_total_budget_usd account) ledger) (cb_accounts config))
   | _ \<Rightarrow> True"
proof (cases "from_config_with_journal af ai env outside sequence config j")
  case (Pair r j')
  show ?thesis
  proof (cases "\<exists>s. r = Inr (Some s)")
    case True
    then obtain s where r: "r = Inr (Some s)" by blast
    note facts = started [OF Pair [unfolded r]]
    then show ?thesis
      using Pair r
      by (auto simp: state_within_def ledgers_declared_def list_ex_iff hm_get_def split: option.split dest: map_of_SomeD)
  qed (use Pair in \<open>auto split: sum.split option.split\<close>)
qed

end
