(* ===== verification/Web.thy ===== *)
theory Web
  imports Connectors
begin

section \<open>Remote calls of the connectors (openticker-connectors/src/helpers.rs, connectors/*/http.rs, de.rs)\<close>

text \<open>
  What the Alpaca and Binance connectors share: requests and responses, credentials, client order ids,
  decimal texts, the classification of rate limits, and the decoding of JSON numbers. The HTTP client,
  the system threads, SHA-256, HMAC and the code that \<open>serde\<close> derives for a payload type are not part
  of the repository: they are fields of the record \<open>Web\<close> or arguments (\<open>decode\<close>). Sleeping between two
  requests changes nothing that is modelled. The text functions of the standard library (\<open>parse\<close> for
  numbers, \<open>{:.n}\<close>) are defined here; texts are ASCII, and the ellipsis is its three UTF-8 bytes.
\<close>

subsection \<open>Numbers as text\<close>

definition is_digit :: "char \<Rightarrow> bool" where
  "is_digit c \<longleftrightarrow> 48 \<le> (of_char c :: nat) \<and> (of_char c :: nat) \<le> 57"

definition digits_value :: "string \<Rightarrow> nat" where
  "digits_value s = foldl (\<lambda>n c. 10 * n + (of_char c - 48)) 0 s"

definition sat_i64 :: "int \<Rightarrow> int" where
  "sat_i64 x = max (- 9223372036854775808) (min 9223372036854775807 x)"

text \<open>\<open>str::parse\<close> for integers: an optional sign (a minus only for signed types), digits, in range.\<close>

definition parse_bounded :: "bool \<Rightarrow> int \<Rightarrow> int \<Rightarrow> string \<Rightarrow> int option" where
  "parse_bounded negatable low high s =
     (let negative = (negatable \<and> s \<noteq> [] \<and> hd s = CHR ''-'');
          digits = (if s \<noteq> [] \<and> (negative \<or> hd s = CHR ''+'') then tl s else s);
          v = (if negative then - int (digits_value digits) else int (digits_value digits)) in
      if digits \<noteq> [] \<and> list_all is_digit digits \<and> low \<le> v \<and> v \<le> high then Some v else None)"

definition parse_i64 :: "string \<Rightarrow> int option" where
  "parse_i64 = parse_bounded True (- 9223372036854775808) 9223372036854775807"

definition parse_u64 :: "string \<Rightarrow> int option" where
  "parse_u64 = parse_bounded False 0 18446744073709551615"

text \<open>\<open>str::parse::<f64>\<close>: the decimal value, correctly rounded; \<open>inf\<close>, \<open>infinity\<close> and \<open>nan\<close> in any case.\<close>

fun parse_exponent :: "string \<Rightarrow> int option" where
  "parse_exponent [] = Some 0"
| "parse_exponent (c # s) =
     (if c \<noteq> CHR ''e'' \<and> c \<noteq> CHR ''E'' then None
      else let digits = (if s \<noteq> [] \<and> hd s \<in> {CHR ''+'', CHR ''-''} then tl s else s) in
        if digits = [] \<or> \<not> list_all is_digit digits then None
        else Some (if s \<noteq> [] \<and> hd s = CHR ''-'' then - int (digits_value digits) else int (digits_value digits)))"

definition parse_decimal :: "string \<Rightarrow> rat option" where
  "parse_decimal s =
     (let whole = takeWhile is_digit s; rest = dropWhile is_digit s;
          dotted = (rest \<noteq> [] \<and> hd rest = CHR ''.'');
          decimals = (if dotted then takeWhile is_digit (tl rest) else []);
          tail = (if dotted then dropWhile is_digit (tl rest) else rest) in
      if whole = [] \<and> decimals = [] then None
      else map_option (\<lambda>e. of_nat (digits_value (whole @ decimals)) * 10 powi (e - int (length decimals))) (parse_exponent tail))"

definition parse_f64 :: "string \<Rightarrow> f64 option" where
  "parse_f64 s =
     (let negative = (s \<noteq> [] \<and> hd s = CHR ''-'');
          body = (if s \<noteq> [] \<and> hd s \<in> {CHR ''+'', CHR ''-''} then tl s else s);
          magnitude = (if to_ascii_lowercase body = ''nan'' then Some f64_nan
            else if to_ascii_lowercase body \<in> {''inf'', ''infinity''} then Some (f64_inf False)
            else map_option f64_rnd (parse_decimal body)) in
      map_option (\<lambda>x. if negative then - x else x) magnitude)"

text \<open>\<open>format!("{:.n}")\<close>: the exact value rounded to n decimals, ties to even; a negative value keeps its sign.\<close>

definition pad_left :: "nat \<Rightarrow> string \<Rightarrow> string" where
  "pad_left n s = replicate (n - length s) (CHR ''0'') @ s"

definition format_fixed :: "nat \<Rightarrow> f64 \<Rightarrow> string" where
  "format_fixed n x =
     (if is_nan x then ''NaN'' else if \<not> is_finite x then (if x < 0 then ''-inf'' else ''inf'')
      else let scaled = round_half_even (\<bar>fval x\<bar> * 10 ^ n); ds = pad_left (n + 1) (show_int scaled);
               whole = take (length ds - n) ds; decimals = drop (length ds - n) ds in
        (if x < 0 then ''-'' else []) @ whole @ (if n = 0 then [] else ''.'' @ decimals))"

text \<open>The loop that drops trailing zeros of a decimal, and the point when it is last.\<close>

definition trim_decimal :: "string \<Rightarrow> string" where
  "trim_decimal s =
     (let t = (if CHR ''.'' \<in> set s then rev (dropWhile (\<lambda>c. c = CHR ''0'') (rev s)) else s) in
      if t \<noteq> [] \<and> last t = CHR ''.'' then butlast t else t)"

definition format_decimal_quantity :: "f64 \<Rightarrow> string" where
  "format_decimal_quantity x = trim_decimal (format_fixed 12 x)"

definition MAX_ERROR_SYMBOL_LEN :: nat where
  "MAX_ERROR_SYMBOL_LEN = 32"

definition sanitize_symbol_for_error :: "string \<Rightarrow> string" where
  "sanitize_symbol_for_error symbol =
     map (\<lambda>c. if (of_char c :: nat) < 32 \<or> (of_char c :: nat) = 127 then CHR ''?'' else c) (take MAX_ERROR_SYMBOL_LEN symbol)
     @ (if MAX_ERROR_SYMBOL_LEN < length symbol then [CHR 0xE2, CHR 0x80, CHR 0xA6] else [])"

subsection \<open>JSON numbers (connectors/alpaca/de.rs, connectors/binance/de.rs)\<close>

definition json_as_i64 :: "int \<Rightarrow> int option" where
  "json_as_i64 n = (if - 9223372036854775808 \<le> n \<and> n \<le> 9223372036854775807 then Some n else None)"

fun deserialize_f64_from_string_or_number :: "Json \<Rightarrow> string + f64" where
  "deserialize_f64_from_string_or_number (JString raw) =
     (case parse_f64 raw of None \<Rightarrow> Inl (''expected numeric string, received `'' @ raw @ ''`'') | Some x \<Rightarrow> Inr x)"
| "deserialize_f64_from_string_or_number (JInt n) = Inr (f64_rnd (of_int n))"
| "deserialize_f64_from_string_or_number (JNumber x) = Inr x"
| "deserialize_f64_from_string_or_number _ = Inl ''expected string or number''"

text \<open>An absent field is \<open>None\<close>; the connectors differ in which decoded values count as absent.\<close>

definition deserialize_option_f64 :: "(f64 \<Rightarrow> bool) \<Rightarrow> Json option \<Rightarrow> string + f64 option" where
  "deserialize_option_f64 absent field =
     (case field of None \<Rightarrow> Inr None | Some JNull \<Rightarrow> Inr None
      | Some (JString raw) \<Rightarrow> (case parse_f64 raw of None \<Rightarrow> Inl (''expected numeric string, received `'' @ raw @ ''`'')
          | Some x \<Rightarrow> Inr (if absent x then None else Some x))
      | Some (JInt n) \<Rightarrow> Inr (if absent (f64_rnd (of_int n)) then None else Some (f64_rnd (of_int n)))
      | Some (JNumber x) \<Rightarrow> Inr (if absent x then None else Some x)
      | Some _ \<Rightarrow> Inl ''expected string, number, or null'')"

definition alpaca_option_f64 :: "Json option \<Rightarrow> string + f64 option" where
  "alpaca_option_f64 = deserialize_option_f64 (\<lambda>x. \<not> is_finite x \<or> x \<le> f64_epsilon)"

definition binance_option_f64 :: "Json option \<Rightarrow> string + f64 option" where
  "binance_option_f64 = deserialize_option_f64 (\<lambda>x. \<bar>x\<bar> \<le> f64_epsilon)"

subsection \<open>Subscriptions of a market stream (types.rs)\<close>

record ConnectorMarketStreamSubscription =
  ms_symbol :: string
  ms_timeframe :: Timeframe

text \<open>A \<open>BTreeSet\<close> of subscriptions, as the list of its elements in the order of \<open>Ord::cmp\<close>.\<close>

definition subscription_set :: "ConnectorMarketStreamSubscription list \<Rightarrow> ConnectorMarketStreamSubscription list" where
  "subscription_set subs = sort_key (\<lambda>sub. (ms_symbol sub, Timeframe_as_str (ms_timeframe sub))) (remdups subs)"

subsection \<open>Requests\<close>

record HttpRequest =
  hr_method :: string
  hr_url :: string
  hr_query :: "(string \<times> string) list"
  hr_headers :: "(string \<times> string) list"
  hr_json :: "Json option"

text \<open>A body that cannot be read is \<open>None\<close>.\<close>

record HttpResponse =
  hs_status :: int
  hs_retry_after :: "string option"
  hs_body :: "string option"

text \<open>
  \<open>web_client\<close> and \<open>web_spawn\<close> are the texts of a failure to build the shared client and to spawn a
  thread, where they fail; \<open>web_send\<close> is the exchange with the provider, with the text of a transport
  error; \<open>web_hmac\<close> signs a text with a secret of any length.
\<close>

record 'w Web =
  web_environment :: "string \<Rightarrow> string option"
  web_client :: "'w \<Rightarrow> string option"
  web_spawn :: "string \<Rightarrow> 'w \<Rightarrow> string option"
  web_send :: "HttpRequest \<Rightarrow> 'w \<Rightarrow> (string + HttpResponse) \<times> 'w"
  web_status_text :: "int \<Rightarrow> string"
  web_now :: "nat \<Rightarrow> timestamp"
  web_rfc3339 :: "timestamp \<Rightarrow> string"
  web_sha256 :: "string \<Rightarrow> string"
  web_hmac :: "string \<Rightarrow> string \<Rightarrow> string"

type_synonym ('w, 'a) remote_op = "('w Outside, ConnectorError, 'a) workflow"

definition exchange :: "'w Web \<Rightarrow> HttpRequest \<Rightarrow> ('w Outside, string, HttpResponse) workflow" where
  "exchange web request o' = (case web_send web request (ow_world o') of (r, w) \<Rightarrow> (r, o'\<lparr>ow_world := w\<rparr>))"

definition utc_now :: "'w Web \<Rightarrow> ('w, timestamp) remote_op" where
  "utc_now web o' = (Inr (web_now web (ow_ticks o')), o'\<lparr>ow_ticks := ow_ticks o' + 1\<rparr>)"

definition default_blocking_http_client :: "'w Web \<Rightarrow> ConnectorKind \<Rightarrow> ('w, unit) remote_op" where
  "default_blocking_http_client web kind o' =
     (case web_client web (ow_world o') of None \<Rightarrow> (Inr (), o') | Some detail \<Rightarrow> (Inl (RemoteSnapshot kind detail), o'))"

definition run_in_blocking_thread :: "'w Web \<Rightarrow> ConnectorKind \<Rightarrow> string \<Rightarrow> ('w, 'a) remote_op \<Rightarrow> ('w, 'a) remote_op" where
  "run_in_blocking_thread web kind operation task o' =
     (case web_spawn web operation (ow_world o') of
        Some error \<Rightarrow> (Inl (RemoteSnapshot kind (''failed to spawn `'' @ operation @ ''` thread: '' @ error)), o')
      | None \<Rightarrow> task o')"

definition resolve_secret_env_value :: "'w Web \<Rightarrow> ConnectorKind \<Rightarrow> string \<Rightarrow> string option \<Rightarrow> ConnectorError + string" where
  "resolve_secret_env_value web kind field env_var =
     (case env_var of None \<Rightarrow> Inl (MissingCredentialReference kind field)
      | Some env_var \<Rightarrow> (case web_environment web env_var of None \<Rightarrow> Inl (MissingCredentialValue kind env_var) | Some v \<Rightarrow> Inr v))"

text \<open>Both keys of an account, looked up in this order.\<close>

definition credentials :: "'w Web \<Rightarrow> ConnectorKind \<Rightarrow> ConnectorAccount \<Rightarrow> ConnectorError + string \<times> string" where
  "credentials web kind account =
     (case resolve_secret_env_value web kind ''api_key_env'' (ca_api_key_env account) of Inl e \<Rightarrow> Inl e
      | Inr key \<Rightarrow> (case resolve_secret_env_value web kind ''api_secret_env'' (ca_api_secret_env account) of Inl e \<Rightarrow> Inl e
          | Inr secret \<Rightarrow> Inr (key, secret)))"

fun intent_debug :: "TradeIntent \<Rightarrow> string" where
  "intent_debug NoOp = ''NoOp''"
| "intent_debug OpenLong = ''OpenLong''"
| "intent_debug AddLong = ''AddLong''"
| "intent_debug ReduceLong = ''ReduceLong''"
| "intent_debug CloseLong = ''CloseLong''"

definition deterministic_remote_client_order_id :: "'w Web \<Rightarrow> ConnectorKind \<Rightarrow> ExecutionRequest \<Rightarrow> string" where
  "deterministic_remote_client_order_id web kind request =
     ConnectorKind_as_str kind @ ''-'' @ take 24 (web_sha256 web
       (ConnectorKind_as_str kind @ '':'' @ er_instance_id request @ '':'' @ er_symbol request @ '':''
        @ show_int (timestamp_millis (er_timestamp request)) @ '':'' @ intent_debug (er_intent request) @ '':''
        @ format_fixed 10 (er_quantity request)))"

subsection \<open>Rate limits and responses (helpers.rs, http.rs)\<close>

text \<open>\<open>str::find\<close>: what follows the first occurrence.\<close>

fun after_first :: "string \<Rightarrow> string \<Rightarrow> string option" where
  "after_first marker [] = (if marker = [] then Some [] else None)"
| "after_first marker (c # s) =
     (if take (length marker) (c # s) = marker then Some (drop (length marker) (c # s)) else after_first marker s)"

definition parse_banned_until_ms :: "string \<Rightarrow> int option" where
  "parse_banned_until_ms detail =
     (case after_first ''banned until '' detail of None \<Rightarrow> None | Some rest \<Rightarrow> parse_i64 (takeWhile is_digit rest))"

definition retry_window_ms :: "int \<Rightarrow> int \<Rightarrow> int option" where
  "retry_window_ms until_ms now_ms =
     (let window_ms = sat_i64 (until_ms - now_ms) in
      if 0 < window_ms then Some window_ms else None)"

definition header_window_ms :: "string option \<Rightarrow> int option" where
  "header_window_ms header =
     (case header of None \<Rightarrow> None | Some text \<Rightarrow> map_option (\<lambda>seconds. sat_u64 (seconds * 1000)) (parse_u64 (trim text)))"

text \<open>The clock is read only when the response names the end of a ban.\<close>

definition rate_limit_error ::
    "Clock \<Rightarrow> ConnectorKind \<Rightarrow> int \<Rightarrow> string option \<Rightarrow> string \<Rightarrow> ('w, ConnectorError option) remote_op" where
  "rate_limit_error clock kind status header detail =
     (if status \<noteq> 418 \<and> status \<noteq> 429 then ok None
      else case parse_banned_until_ms detail of
        None \<Rightarrow> ok (Some (RateLimited kind (header_window_ms header) detail))
      | Some until_ms \<Rightarrow> then_do (unix_now_ms clock) (\<lambda>now_ms.
          ok (Some (RateLimited kind (case retry_window_ms until_ms now_ms of Some w \<Rightarrow> Some w | None \<Rightarrow> header_window_ms header) detail))))"

text \<open>The two decoders differ in the error they build: a snapshot error or a submission error.\<close>

definition decode_response ::
    "'w Web \<Rightarrow> Clock \<Rightarrow> (ConnectorKind \<Rightarrow> string \<Rightarrow> ConnectorError) \<Rightarrow> ConnectorKind \<Rightarrow> string \<Rightarrow> (string option \<Rightarrow> string + 'p)
     \<Rightarrow> HttpResponse \<Rightarrow> ('w, 'p) remote_op" where
  "decode_response web clock failure kind operation decode response =
     (if 200 \<le> hs_status response \<and> hs_status response < 300
      then (case decode (hs_body response) of
          Inl error \<Rightarrow> fail (failure kind (''failed to decode '' @ operation @ '' response: '' @ error))
        | Inr payload \<Rightarrow> ok payload)
      else let detail = operation @ '' request returned '' @ web_status_text web (hs_status response) @ '': ''
                 @ override (hs_body response) ''<response body unavailable>'' in
        then_do (rate_limit_error clock kind (hs_status response) (hs_retry_after response) detail) (\<lambda>limited.
        case limited of Some error \<Rightarrow> fail error | None \<Rightarrow> fail (failure kind detail)))"

definition decode_json_response where
  "decode_json_response web clock = decode_response web clock RemoteSnapshot"

definition decode_order_submission_json where
  "decode_order_submission_json web clock = decode_response web clock OrderSubmission"

text \<open>A request whose transport error becomes a connector error, then its decoded response.\<close>

definition request_json ::
    "'w Web \<Rightarrow> Clock \<Rightarrow> (ConnectorKind \<Rightarrow> string \<Rightarrow> ConnectorError) \<Rightarrow> ConnectorKind \<Rightarrow> string \<Rightarrow> string \<Rightarrow> (string option \<Rightarrow> string + 'p)
     \<Rightarrow> HttpRequest \<Rightarrow> ('w, 'p) remote_op" where
  "request_json web clock failure kind sent operation decode request =
     handle (exchange web request)
       (\<lambda>error. fail (failure kind (sent @ '' request failed: '' @ error)))
       (decode_response web clock failure kind operation decode)"

text \<open>What both connectors do around a request: look up the keys, have a client, and run the task in a thread.\<close>

definition with_credentials ::
    "'w Web \<Rightarrow> ConnectorKind \<Rightarrow> ConnectorAccount \<Rightarrow> string \<Rightarrow> (string \<Rightarrow> string \<Rightarrow> ('w, 'a) remote_op) \<Rightarrow> ('w, 'a) remote_op" where
  "with_credentials web kind account operation task =
     (case credentials web kind account of Inl e \<Rightarrow> fail e
      | Inr (api_key, api_secret) \<Rightarrow> then_do (default_blocking_http_client web kind) (\<lambda>_.
          run_in_blocking_thread web kind operation (task api_key api_secret)))"

definition without_credentials :: "'w Web \<Rightarrow> ConnectorKind \<Rightarrow> string \<Rightarrow> ('w, 'a) remote_op \<Rightarrow> ('w, 'a) remote_op" where
  "without_credentials web kind operation task =
     then_do (default_blocking_http_client web kind) (\<lambda>_. run_in_blocking_thread web kind operation task)"

subsection \<open>Waiting for an order\<close>

definition ORDER_STATUS_POLL_ATTEMPTS :: nat where
  "ORDER_STATUS_POLL_ATTEMPTS = 20"

text \<open>
  The loop of both connectors: an order in a terminal state is accepted with what was filled, or refused
  when nothing was; otherwise its status is fetched again, until the attempts are used up. The wait
  between two fetches is not modelled.
\<close>

fun await_order ::
    "ConnectorKind \<Rightarrow> ('p \<Rightarrow> string) \<Rightarrow> ('p \<Rightarrow> string) \<Rightarrow> (string \<Rightarrow> bool) \<Rightarrow> ('p \<Rightarrow> AcceptedOrder option) \<Rightarrow> ('p \<Rightarrow> ('w, 'p) remote_op)
     \<Rightarrow> nat \<Rightarrow> 'p \<Rightarrow> ('w, AcceptedOrder) remote_op" where
  "await_order kind order_id status terminal accept refetch attempts payload =
     (if terminal (status payload) then
        (case accept payload of Some accepted \<Rightarrow> ok accepted
         | None \<Rightarrow> fail (OrderSubmission kind (''order `'' @ order_id payload @ ''` reached terminal status `'' @ status payload
             @ ''` without any fill quantity'')))
      else case attempts of
        0 \<Rightarrow> fail (OrderSubmission kind (''order `'' @ order_id payload @ ''` did not reach terminal status within ''
          @ show_int (int ORDER_STATUS_POLL_ATTEMPTS) @ '' polling attempts (latest status `'' @ status payload @ ''`)''))
      | Suc remaining \<Rightarrow> then_do (refetch payload) (await_order kind order_id status terminal accept refetch remaining))"

text \<open>An accepted order was accepted from a payload in a terminal state.\<close>

lemma await_order_accepts:
  assumes "await_order kind order_id status terminal accept refetch attempts payload o' = (Inr accepted, o'')"
  shows "\<exists>p. terminal (status p) \<and> accept p = Some accepted"
  using assms
proof (induction attempts arbitrary: payload o')
  case 0
  then show ?case by (auto split: if_splits option.splits)
next
  case (Suc n)
  show ?case
  proof (cases "terminal (status payload)")
    case True
    with Suc.prems show ?thesis by (auto split: option.splits)
  next
    case False
    with Suc.prems obtain p o1 where "await_order kind order_id status terminal accept refetch n p o1 = (Inr accepted, o'')"
      by (auto simp: then_do_def split: sum.splits prod.splits)
    then show ?thesis by (rule Suc.IH)
  qed
qed

end
