(* ===== verification/Dispatch.thy ===== *)
theory Dispatch
  imports Reconciliation Config Web
begin

section \<open>Streams into lanes (openticker-runtime/src/market\_data: ingest, dispatch, dataplane)\<close>

text \<open>
  How bars, trades and stream payloads reach the lanes (\<open>ingest.rs\<close>, \<open>dispatch.rs\<close>), how a stream
  of the data plane is polled, with or without lanes on it, and which streams and preview subscriptions
  the lanes and the watchlist ask for (\<open>dataplane.rs\<close>). Every cycle takes its own elapsed times, so
  \<open>spent\<close> is a function: of the lane where an operation runs one cycle per lane, of the position of
  the bar where one trade completes several. The data plane section of the configuration, fixed when the
  runtime is built, is an argument. An option result is \<open>None\<close> for a panic, or for a poll that does not
  return, which \<open>stream_poll_returns\<close> excludes.

  The lemmas show that delivering a stream update again changes nothing, that the kill switch and an
  unknown lane are refused before anything happens, that stream polls return, and that the data plane
  polls exactly the streams of the lanes and of the watchlist.
\<close>

text \<open>A \<open>for\<close> loop with \<open>?\<close> whose body pushes a value or skips.\<close>

fun gather :: "('x \<Rightarrow> ('s, 'e, 'a option) workflow) \<Rightarrow> 'x list \<Rightarrow> ('s, 'e, 'a list) workflow" where
  "gather f [] = ok []"
| "gather f (x # xs) = then_do (f x) (\<lambda>r. then_do (gather f xs) (\<lambda>rs. ok (case r of None \<Rightarrow> rs | Some a \<Rightarrow> a # rs)))"

lemma keeps_gather [frame_rules]: "(\<And>x. keeps f (g x)) \<Longrightarrow> keeps f (gather g xs)"
  by (induction xs) (auto intro!: frame_rules)

lemma preserves_gather [invariant_rules]: "(\<And>x. preserves I (g x)) \<Longrightarrow> preserves I (gather g xs)"
  by (induction xs) (auto intro!: invariant_rules)

subsection \<open>Matching lanes (shared/lanes.rs)\<close>

definition instance_matches_stream_key :: "'v LaneRuntime \<Rightarrow> StreamKey \<Rightarrow> bool" where
  "instance_matches_stream_key inst key \<longleftrightarrow> ic_account (lr_config inst) = sk_account_id key
     \<and> ic_timeframe (lr_config inst) = sk_timeframe key \<and> lr_lane_symbol inst = sk_symbol key"

definition running_on_stream :: "StreamKey \<Rightarrow> ('v, 'j, 'w) Runtime \<Rightarrow> string list" where
  "running_on_stream key s =
     map fst (filter (\<lambda>(lane_id, inst). lr_state inst = Running \<and> instance_matches_stream_key inst key) (rt_lanes s))"

definition already_dispatched :: "'v LaneRuntime \<Rightarrow> OhlcvBar \<Rightarrow> bool" where
  "already_dispatched inst bar =
     (case lr_last_dispatched_bar_timestamp inst of None \<Rightarrow> False | Some previous \<Rightarrow> bar_timestamp bar \<le> previous)"

text \<open>\<open>PartialEq\<close> of an update compares its prices and volume as \<open>f64\<close>: a NaN differs from itself.\<close>

definition no_nan :: "NormalizedBarUpdate \<Rightarrow> bool" where
  "no_nan update = list_all (\<lambda>read. \<not> is_nan (read (bu_bar update))) [bar_open, bar_high, bar_low, bar_close, bar_volume]"

definition same_update :: "NormalizedBarUpdate \<Rightarrow> NormalizedBarUpdate \<Rightarrow> bool" where
  "same_update a b \<longleftrightarrow> a = b \<and> no_nan a"

subsection \<open>Stream updates, trades and payloads (ingest.rs)\<close>

definition offer_stream_update ::
    "('j, 'w) RuntimeEnv \<Rightarrow> (string \<Rightarrow> CycleTimes) \<Rightarrow> NormalizedBarUpdate \<Rightarrow> string \<Rightarrow> ('v, 'j, 'w, ProcessBarOutcome option) runtime_op" where
  "offer_stream_update env spent stream_update lane_id =
     then_do (tries (rt_instance lane_id)) (\<lambda>inst.
     if bu_phase stream_update = Confirmed \<and> already_dispatched inst (bu_bar stream_update) then ok None
     else if (case lr_last_stream_update inst of None \<Rightarrow> False | Some previous \<Rightarrow> same_update previous stream_update) then ok None
     else then_do (update_instance lane_id (\<lambda>lane. lane\<lparr>lr_last_stream_update := Some stream_update\<rparr>)) (\<lambda>_.
          then_do (process_bar_for_lane env (spent lane_id) lane_id (bu_bar stream_update) (bu_phase stream_update)) (\<lambda>outcome.
          ok (Some outcome))))"

definition process_market_stream_update_for_stream ::
    "('j, 'w) RuntimeEnv \<Rightarrow> (string \<Rightarrow> CycleTimes) \<Rightarrow> StreamKey \<Rightarrow> NormalizedBarUpdate \<Rightarrow> ('v, 'j, 'w, ProcessBarOutcome list) runtime_op" where
  "process_market_stream_update_for_stream env spent key stream_update s =
     (if rt_kill_switch_active s then (Inl KillSwitchEnabled, s)
      else gather (offer_stream_update env spent stream_update) (running_on_stream key s) s)"

definition push_trade_for_lane :: "string \<Rightarrow> string \<Rightarrow> NormalizedTrade \<Rightarrow> ('v, 'j, 'w, NormalizedBarUpdate list) runtime_op" where
  "push_trade_for_lane instance_id lane_id trade =
     then_do (tries (rt_instance lane_id)) (\<lambda>inst.
     if \<not> ic_enabled (lr_config inst) then fail (InstanceDisabled instance_id)
     else if lr_state inst \<noteq> Running then fail (InvalidTransition instance_id (lr_state inst) ''process_trade'')
     else if nt_symbol trade \<noteq> lr_lane_symbol inst then fail (TradeSymbolMismatch instance_id (lr_lane_symbol inst) (nt_symbol trade))
     else case push_trade (lr_bar_builder inst) trade of
         Inl e \<Rightarrow> fail (DataFailure e)
       | Inr (bar_updates, builder) \<Rightarrow>
           then_do (update_instance lane_id (\<lambda>lane. lane\<lparr>lr_bar_builder := builder\<rparr>)) (\<lambda>_. ok bar_updates))"

definition ingest_trade ::
    "('j, 'w) RuntimeEnv \<Rightarrow> (nat \<Rightarrow> CycleTimes) \<Rightarrow> string \<Rightarrow> NormalizedTrade \<Rightarrow> string \<Rightarrow> ('v, 'j, 'w, ProcessBarOutcome list) runtime_op" where
  "ingest_trade env spent instance_id trade lane_id =
     then_do (tries (rt_instance lane_id)) (\<lambda>inst.
     then_do (ensure_account_connector_ready env lane_id (ic_account (lr_config inst))) (\<lambda>_.
     then_do (push_trade_for_lane instance_id lane_id trade) (\<lambda>bar_updates.
     gather (\<lambda>(n, update). then_do (process_bar_for_lane env (spent n) lane_id (bu_bar update) (bu_phase update)) (\<lambda>outcome.
       ok (Some outcome))) (enumerate 0 bar_updates))))"

definition process_trade ::
    "('j, 'w) RuntimeEnv \<Rightarrow> (nat \<Rightarrow> CycleTimes) \<Rightarrow> string \<Rightarrow> NormalizedTrade \<Rightarrow> ('v, 'j, 'w, ProcessBarOutcome list option) runtime_op" where
  "process_trade env spent instance_id trade =
     handle (tries (resolve_lane_id instance_id (nt_symbol trade)))
       (\<lambda>error. case error of
            SymbolNotConfigured _ _ \<Rightarrow> expect_do (rt_get_instance env instance_id) (\<lambda>summary.
              fail (TradeSymbolMismatch instance_id (join '','' (is_symbols summary)) (nt_symbol trade)))
          | _ \<Rightarrow> fail error)
       (\<lambda>lane_id. then_do (ingest_trade env spent instance_id trade lane_id) (\<lambda>outcomes. ok (Some outcomes)))"

definition process_market_stream_payload ::
    "('j, 'w) RuntimeEnv \<Rightarrow> (string \<Rightarrow> CycleTimes) \<Rightarrow> string \<Rightarrow> string \<Rightarrow> ('v, 'j, 'w, ProcessBarOutcome list) runtime_op" where
  "process_market_stream_payload env spent instance_id payload =
     then_do (tries (\<lambda>s. if rt_kill_switch_active s then Inl KillSwitchEnabled else Inr ())) (\<lambda>_.
     then_do (tries (single_lane_id_for_bot instance_id ''process_market_stream_payload'')) (\<lambda>lane_id.
     then_do (tries (rt_instance lane_id)) (\<lambda>inst.
     if \<not> ic_enabled (lr_config inst) then fail (InstanceDisabled instance_id)
     else if lr_state inst \<noteq> Running then fail (InvalidTransition instance_id (lr_state inst) ''process_market_stream_payload'')
     else
       then_do (ensure_account_connector_ready env lane_id (ic_account (lr_config inst))) (\<lambda>_.
       then_do (rt_normalize_market_stream_payload env lane_id (ic_account (lr_config inst)) (ic_data_connector (lr_config inst)) payload) (\<lambda>update.
       case update of None \<Rightarrow> ok []
       | Some stream_update \<Rightarrow>
           if bu_symbol stream_update \<noteq> lr_lane_symbol inst
           then fail (TradeSymbolMismatch instance_id (lr_lane_symbol inst) (bu_symbol stream_update))
           else then_do (tries (rt_instance lane_id)) (\<lambda>lane.
             process_market_stream_update_for_stream env spent
               \<lparr>sk_account_id = ic_account (lr_config inst), sk_symbol = lr_lane_symbol inst, sk_timeframe = ic_timeframe (lr_config lane)\<rparr>
               stream_update))))))"

subsection \<open>Fetched bars and stream polls (dispatch.rs)\<close>

definition process_fetched_confirmed_bar ::
    "('j, 'w) RuntimeEnv \<Rightarrow> (string \<Rightarrow> CycleTimes) \<Rightarrow> string \<Rightarrow> OhlcvBar \<Rightarrow> string \<Rightarrow> ('v, 'j, 'w, ProcessBarOutcome option) runtime_op" where
  "process_fetched_confirmed_bar env spent symbol latest_bar instance_id =
     then_do (tries (rt_instance instance_id)) (\<lambda>inst.
     if already_dispatched inst latest_bar then ok None
     else then_do (append_runtime_event env ''poll'' (Some instance_id) ''poll.bar_received''
            (''symbol='' @ symbol @ '',bar_timestamp='' @ rfc env latest_bar @ '',close='' @ show_f64 (bar_close latest_bar))) (\<lambda>_.
          then_do (process_bar_for_lane env (spent instance_id) instance_id latest_bar Confirmed) (\<lambda>outcome. ok (Some outcome))))"

definition dispatch_bar ::
    "('j, 'w) RuntimeEnv \<Rightarrow> (string \<Rightarrow> CycleTimes) \<Rightarrow> StreamKey \<Rightarrow> OhlcvBar \<Rightarrow> ('v, 'j, 'w, ProcessBarOutcome list) runtime_op" where
  "dispatch_bar env spent key bar s =
     (if rt_kill_switch_active s then (Inr [], s)
      else gather (process_fetched_confirmed_bar env spent (sk_symbol key) bar) (running_on_stream key s) s)"

datatype StreamPollPlan =
    BareFetch (bare_stream_id: string) (bare_account_id: string) (bare_account_kind: string) (bare_symbol: string)
      (bare_timeframe: Timeframe)
  | LaneFanOut (fan_out_ids: "string list")

definition stream_path :: "StreamKey \<Rightarrow> string" where
  "stream_path key = sk_account_id key @ ''/'' @ sk_symbol key @ ''/'' @ Timeframe_as_str (sk_timeframe key)"

definition plan_stream_polling :: "StreamKey \<Rightarrow> ('v, 'j, 'w) Runtime \<Rightarrow> ServiceError + StreamPollPlan" where
  "plan_stream_polling key s =
     (if rt_kill_switch_active s \<or> running_on_stream key s = []
      then (case hm_get (rt_accounts s) (sk_account_id key) of
          None \<Rightarrow> Inl (InvalidServiceConfiguration
            (''stream `'' @ stream_path key @ ''` references unknown account `'' @ sk_account_id key @ ''`''))
        | Some account \<Rightarrow> Inr (BareFetch (''stream:'' @ stream_path key) (sk_account_id key) (ac_kind account) (sk_symbol key)
            (sk_timeframe key)))
      else Inr (LaneFanOut (running_on_stream key s)))"

definition apply_bare_fetched_bar ::
    "('j, 'w) RuntimeEnv \<Rightarrow> OhlcvBar \<Rightarrow> PendingProviderEvent list \<Rightarrow> ('v, 'j, 'w, ProcessBarOutcome LanePollingAdvance) runtime_op" where
  "apply_bare_fetched_bar env bar provider_events =
     then_do (append_pending_provider_events env provider_events) (\<lambda>_. ok \<lparr>pa_recorded_bars = [bar], pa_outcomes = []\<rparr>)"

text \<open>The fetch of a stream without running lanes: its events are written whether it succeeds or fails.\<close>

definition fetch_bare_stream :: "('j, 'w) RuntimeEnv \<Rightarrow> string \<Rightarrow> string \<Rightarrow> string \<Rightarrow> string \<Rightarrow> Timeframe
    \<Rightarrow> ('v, 'j, 'w, ProcessBarOutcome LanePollingAdvance) runtime_op" where
  "fetch_bare_stream env stream_id account_id kind symbol timeframe =
     handle (gateway_fetch_latest_bar_with_events env stream_id account_id kind symbol timeframe)
       (\<lambda>failure. then_do (append_pending_provider_events env (gff_provider_events failure)) (\<lambda>_. fail (gff_error failure)))
       (\<lambda>(bar, provider_events). apply_bare_fetched_bar env bar provider_events)"

text \<open>A \<open>BTreeMap\<close> of bars by time: a later bar of the same time replaces the earlier one.\<close>

definition insert_bars :: "OhlcvBar list \<Rightarrow> (timestamp, OhlcvBar) hmap \<Rightarrow> (timestamp, OhlcvBar) hmap" where
  "insert_bars bars m = foldl (\<lambda>m bar. hm_insert (bar_timestamp bar) bar m) m bars"

definition bars_in_order :: "(timestamp, OhlcvBar) hmap \<Rightarrow> OhlcvBar list" where
  "bars_in_order m = map snd (sort_key fst m)"

fun fan_out ::
    "('j, 'w) RuntimeEnv \<Rightarrow> (string \<Rightarrow> CycleTimes) \<Rightarrow> string list \<Rightarrow> (timestamp, OhlcvBar) hmap \<Rightarrow> ProcessBarOutcome list \<Rightarrow> ('v, 'j, 'w) Runtime
     \<Rightarrow> ((ServiceError + ProcessBarOutcome LanePollingAdvance) \<times> ('v, 'j, 'w) Runtime) option" where
  "fan_out env spent [] bars outcomes s = Some (Inr \<lparr>pa_recorded_bars = bars_in_order bars, pa_outcomes = outcomes\<rparr>, s)"
| "fan_out env spent (instance_id # instance_ids) bars outcomes s =
     (case rt_advance_lane_polling_once env (spent instance_id) instance_id RECOVERY_PAGE_LIMIT MAX_RECOVERY_PAGES_PER_CYCLE s of
        None \<Rightarrow> None
      | Some (Inl error, s) \<Rightarrow> Some (Inl error, s)
      | Some (Inr advance, s) \<Rightarrow> fan_out env spent instance_ids (insert_bars (pa_recorded_bars advance) bars)
          (outcomes @ pa_outcomes advance) s)"

definition apply_lane_fanout where
  "apply_lane_fanout env spent instance_ids = fan_out env spent instance_ids [] []"

definition advance_stream_polling_once ::
    "('j, 'w) RuntimeEnv \<Rightarrow> (string \<Rightarrow> CycleTimes) \<Rightarrow> StreamKey \<Rightarrow> ('v, 'j, 'w) Runtime
     \<Rightarrow> ((ServiceError + ProcessBarOutcome LanePollingAdvance) \<times> ('v, 'j, 'w) Runtime) option" where
  "advance_stream_polling_once env spent key s =
     (case plan_stream_polling key s of Inl error \<Rightarrow> Some (Inl error, s)
      | Inr (BareFetch stream_id account_id kind symbol timeframe) \<Rightarrow>
          Some (fetch_bare_stream env stream_id account_id kind symbol timeframe s)
      | Inr (LaneFanOut instance_ids) \<Rightarrow> apply_lane_fanout env spent instance_ids s)"

subsection \<open>The streams of the data plane (dataplane.rs)\<close>

definition CLOSE_POLL_RETRY_MS :: int where
  "CLOSE_POLL_RETRY_MS = 2000"

definition MAX_CONFIRMED_POLL_INTERVAL_MS :: int where
  "MAX_CONFIRMED_POLL_INTERVAL_MS = 60000"

definition effective_confirmed_polling_interval_ms :: "u64 \<Rightarrow> Timeframe \<Rightarrow> int" where
  "effective_confirmed_polling_interval_ms configured_ms timeframe =
     max (uint configured_ms) (min (Timeframe_duration timeframe div 1000000 div 4) MAX_CONFIRMED_POLL_INTERVAL_MS)"

definition instance_preview_enabled :: "'v LaneRuntime \<Rightarrow> bool" where
  "instance_preview_enabled inst \<longleftrightarrow> ic_signal_mode (lr_config inst) = Intrabar \<and> lr_execution_mode inst = Paper
     \<and> ic_data_connector (lr_config inst) = ''binance''"

definition lane_stream_key :: "'v LaneRuntime \<Rightarrow> StreamKey" where
  "lane_stream_key inst = \<lparr>sk_account_id = ic_account (lr_config inst), sk_symbol = lr_lane_symbol inst,
     sk_timeframe = ic_timeframe (lr_config inst)\<rparr>"

definition lane_stream :: "DataPlaneConfig \<Rightarrow> string \<Rightarrow> 'v LaneRuntime \<Rightarrow> StreamSpec" where
  "lane_stream config instance_id inst = \<lparr>ss_key = lane_stream_key inst, ss_retention = dpc_default_retention config,
     ss_polling_interval_ms = effective_confirmed_polling_interval_ms (ic_polling_interval_ms (lr_config inst)) (ic_timeframe (lr_config inst)),
     ss_close_poll_retry_ms = Some CLOSE_POLL_RETRY_MS, ss_close_poll_grace_ms = Some (uint (stale_data_ms (lr_risk_limits inst))),
     ss_preview_enabled = instance_preview_enabled inst, ss_sources = [Instance instance_id]\<rparr>"

definition watch_stream :: "DataPlaneConfig \<Rightarrow> DataPlaneWatchlistEntry \<Rightarrow> StreamSpec" where
  "watch_stream config watch =
     \<lparr>ss_key = \<lparr>sk_account_id = dw_account watch, sk_symbol = dw_symbol watch, sk_timeframe = dw_timeframe watch\<rparr>,
      ss_retention = override (dw_retention watch) (dpc_default_retention config),
      ss_polling_interval_ms = uint (override (dw_polling_interval_ms watch) (dpc_default_polling_interval_ms config)),
      ss_close_poll_retry_ms = None, ss_close_poll_grace_ms = None, ss_preview_enabled = False, ss_sources = [Watchlist]\<rparr>"

definition requested_streams :: "DataPlaneConfig \<Rightarrow> ('v, 'j, 'w) Runtime \<Rightarrow> StreamSpec list" where
  "requested_streams config s =
     map (\<lambda>(instance_id, inst). lane_stream config instance_id inst) (rt_lanes s) @ map (watch_stream config) (dpc_watchlist config)"

definition effective_streams_for_dataplane :: "DataPlaneConfig \<Rightarrow> ('v, 'j, 'w) Runtime \<Rightarrow> StreamSpec list" where
  "effective_streams_for_dataplane config s = registry_specs (registry_from_specs (requested_streams config s))"

definition add_subscription :: "(string, ConnectorMarketStreamSubscription list) hmap \<Rightarrow> 'v LaneRuntime
    \<Rightarrow> (string, ConnectorMarketStreamSubscription list) hmap" where
  "add_subscription m inst =
     (if lr_state inst \<noteq> Running \<or> \<not> instance_preview_enabled inst then m
      else hm_insert (ic_account (lr_config inst)) (override (hm_get m (ic_account (lr_config inst))) []
        @ [\<lparr>ms_symbol = lr_lane_symbol inst, ms_timeframe = ic_timeframe (lr_config inst)\<rparr>]) m)"

text \<open>\<open>sort_by\<close> is stable and \<open>dedup\<close> removes equal neighbours.\<close>

definition sorted_subscriptions :: "ConnectorMarketStreamSubscription list \<Rightarrow> ConnectorMarketStreamSubscription list" where
  "sorted_subscriptions subs = remdups_adj (sort_key (\<lambda>sub. (ms_symbol sub, Timeframe_as_str (ms_timeframe sub))) subs)"

definition effective_preview_streams_by_account ::
    "('v, 'j, 'w) Runtime \<Rightarrow> (string, ConnectorMarketStreamSubscription list) hmap" where
  "effective_preview_streams_by_account s =
     map (\<lambda>(account, subs). (account, sorted_subscriptions subs))
       (sort_key fst (foldl add_subscription [] (hm_values (rt_lanes s))))"

definition stream_history ::
    "('j, 'w) RuntimeEnv \<Rightarrow> DataPlaneConfig \<Rightarrow> StreamKey \<Rightarrow> nat \<Rightarrow> ('v, 'j, 'w, OhlcvBar list) runtime_op" where
  "stream_history env config key limit =
     then_do (tries (\<lambda>s. if list_ex (\<lambda>spec. ss_key spec = key) (effective_streams_for_dataplane config s) then Inr ()
        else Inl (InvalidServiceConfiguration (''stream `'' @ stream_path key @ ''` is not registered'')))) (\<lambda>_.
     fetch_recent_bars_for_stream env (sk_account_id key) (sk_symbol key) (sk_timeframe key) (max limit 1))"

subsection \<open>Delivering an update again\<close>

text \<open>What a cycle keeps of every lane: where it belongs, whether it runs, and the update it saw last.\<close>

definition same_delivery :: "'v LaneRuntime \<Rightarrow> 'v LaneRuntime \<Rightarrow> bool" where
  "same_delivery l l' \<longleftrightarrow> lr_config l' = lr_config l \<and> lr_lane_symbol l' = lr_lane_symbol l \<and> lr_state l' = lr_state l
     \<and> lr_last_stream_update l' = lr_last_stream_update l"

lemma fill_delivery: "same_delivery l (snd (apply_process_bar_fill_state bar nhp accepted outcome decision l))"
proof -
  have fills: "apply_open_long_fill bar order l = (r, l') \<Longrightarrow> same_delivery l l'" "apply_close_long_fill bar order l = (q, l') \<Longrightarrow> same_delivery l l'"
    for order r q l'
    by (auto simp: same_delivery_def apply_open_long_fill_def apply_close_long_fill_def inventory_sync_defs Let_def split: sum.splits if_splits)
  have flags: "same_delivery l (l'\<lparr>lr_cooldown_until_ms := c\<rparr>) \<longleftrightarrow> same_delivery l l'" "same_delivery l (l'\<lparr>lr_has_position := b\<rparr>) \<longleftrightarrow> same_delivery l l'"
    "same_delivery l l" for l' c b
    by (simp_all add: same_delivery_def)
  show ?thesis
  proof (cases decision)
    case (Allow i)
    then show ?thesis
      by (cases accepted) (auto simp: apply_process_bar_fill_state_def flags split: prod.split sum.split dest: fills)
  qed (simp add: apply_process_bar_fill_state_def Let_def flags)
qed

interpretation delivery: trading_lanes same_delivery
proof unfold_locales
  show "same_delivery l (snd (apply_process_bar_fill_state bar nhp accepted outcome decision l))"
    for bar nhp accepted outcome decision and l :: "'v LaneRuntime"
    by (rule fill_delivery)
qed (auto simp: same_delivery_def recovery_state_defs prepare_process_bar_evaluation_def prepare_manual_signal_evaluation_def
    store_constraints_def mark_constraints_initialized_def lane_loss_rollover_def Let_def split: prod.split)

lemma bar_keeps_delivery: "preserves (lanes_rel same_delivery s0) (process_bar_for_lane env spent i bar phase)"
  unfolding process_bar_for_lane_def run_process_bar_cycle_def by (rule delivery.cycling.cycle_preserves)

lemma seen_update_skipped:
  assumes "hm_get (rt_lanes s) i = Some l" "lr_last_stream_update l = Some u" "no_nan u"
  shows "offer_stream_update env spent u i s = (Inr None, s)"
  using assms by (simp add: offer_stream_update_def then_do_def rt_instance_def same_update_def)

text \<open>C19:
  A stream update is taken at most once in a row by a lane: whatever the first delivery did, a cycle
  that failed included, delivering the same update to the same lane again changes nothing and reports
  no outcome. Only an update with a NaN in its bar, which differs from itself, would be taken again.
\<close>

theorem stream_update_delivered_once:
  "case (hm_get (rt_lanes s) i, offer_stream_update env spent u i s) of
     (Some lane, (r, s')) \<Rightarrow> (if no_nan u then offer_stream_update env spent' u i s' = (Inr None, s') else True)
   | _ \<Rightarrow> True"
proof (cases "hm_get (rt_lanes s) i")
  case (Some lane)
  define skipped where "skipped \<longleftrightarrow> bu_phase u = Confirmed \<and> already_dispatched lane (bu_bar u)
    \<or> (case lr_last_stream_update lane of None \<Rightarrow> False | Some previous \<Rightarrow> same_update previous u)"
  show ?thesis
  proof (cases skipped)
    case True
    with Some have "offer_stream_update env spent u i s = (Inr None, s)" for spent
      by (auto simp: offer_stream_update_def then_do_def rt_instance_def skipped_def)
    with Some show ?thesis by simp
  next
    case False
    define s1 where "s1 = s\<lparr>rt_lanes := hm_insert i (lane\<lparr>lr_last_stream_update := Some u\<rparr>) (rt_lanes s)\<rparr>"
    obtain r s' where run: "process_bar_for_lane env (spent i) i (bu_bar u) (bu_phase u) s1 = (r, s')" by fastforce
    from False Some run have offered: "offer_stream_update env spent u i s = (map_sum id Some r, s')"
      by (cases r) (auto simp: offer_stream_update_def then_do_def rt_instance_def skipped_def update_instance_def with_instance_def s1_def)
    have "lanes_rel same_delivery s1 s'"
      using preservesD [OF bar_keeps_delivery lanes_rel_refl, of s1 env "spent i" i "bu_bar u" "bu_phase u"] run by (simp add: delivery.refl)
    then obtain l' where "hm_get (rt_lanes s') i = Some l'" "lr_last_stream_update l' = Some u"
      using lanes_rel_get [of same_delivery s1 s' i] by (auto simp: s1_def hm_get_insert same_delivery_def)
    then show ?thesis using Some offered by (simp add: seen_update_skipped)
  qed
qed simp

subsection \<open>Stream polls return\<close>

lemma stream_poll_returns: "\<exists>r. advance_stream_polling_once env spent key s = Some r"
proof -
  have "\<exists>r. fan_out env spent ids bars outcomes s = Some r" for ids bars outcomes
  proof (induction ids arbitrary: bars outcomes s)
    case (Cons i ids)
    obtain result s' where "rt_advance_lane_polling_once env (spent i) i RECOVERY_PAGE_LIMIT MAX_RECOVERY_PAGES_PER_CYCLE s = Some (result, s')"
      using advance_returns by fastforce
    with Cons.IH show ?case by (cases result) simp_all
  qed simp
  then show ?thesis by (auto simp: advance_stream_polling_once_def apply_lane_fanout_def split: sum.split StreamPollPlan.split)
qed

subsection \<open>Which streams the data plane serves\<close>

text \<open>A merged stream serves a requested one: kept as long, polled as often, with previews where asked, for its source.\<close>

definition serves :: "StreamSpec \<Rightarrow> StreamSpec \<Rightarrow> bool" where
  "serves spec requested \<longleftrightarrow> ss_key spec = ss_key requested \<and> ss_retention requested \<le> ss_retention spec
     \<and> ss_polling_interval_ms spec \<le> ss_polling_interval_ms requested \<and> ss_preview_enabled requested \<le> ss_preview_enabled spec
     \<and> set (ss_sources requested) \<subseteq> set (ss_sources spec)"

lemma merge_serves: "ss_key a = ss_key b \<Longrightarrow> serves (merge_stream_spec a b) b" "serves a c \<Longrightarrow> serves (merge_stream_spec a b) c"
  "serves (normalized_stream_spec b) b"
  by (auto simp: serves_def merge_stream_spec_def normalized_stream_spec_def)

lemma inserted_serves:
  assumes "\<forall>k spec. f k = Some spec \<longrightarrow> ss_key spec = k"
    and "(\<exists>spec. f (ss_key c) = Some spec \<and> serves spec c) \<or> c \<in> set xs"
  shows "\<exists>spec. foldl reg_insert f xs (ss_key c) = Some spec \<and> serves spec c"
  using assms
proof (induction xs arbitrary: f)
  case (Cons x xs)
  have keys: "\<forall>k spec. reg_insert f x k = Some spec \<longrightarrow> ss_key spec = k"
    using Cons.prems(1) by (auto simp: reg_insert_def merge_stream_spec_def normalized_stream_spec_def split: option.splits)
  have "(\<exists>spec. reg_insert f x (ss_key c) = Some spec \<and> serves spec c) \<or> c \<in> set xs"
    using Cons.prems by (auto simp: reg_insert_def merge_serves split: option.splits)
  from Cons.IH [OF keys this] show ?case by simp
qed auto

lemma inserted_keys: "foldl reg_insert f xs k \<noteq> None \<longleftrightarrow> f k \<noteq> None \<or> k \<in> ss_key ` set xs"
  by (induction xs arbitrary: f) (auto simp: reg_insert_def split: if_splits)

text \<open>C20:
  The data plane serves exactly the streams that are asked for: it has one stream per distinct key, the
  keys are those of the lanes and of the watchlist, and every lane and every watchlist entry is served by
  a stream of its key that keeps at least as many bars, is polled at least as often, has previews when it
  asks for them and names it as a source.
\<close>

theorem data_plane_serves_requests:
  "distinct (map ss_key (effective_streams_for_dataplane config s))
   \<and> set (map ss_key (effective_streams_for_dataplane config s)) = set (map ss_key (requested_streams config s))
   \<and> list_all (\<lambda>requested. list_ex (\<lambda>spec. serves spec requested) (effective_streams_for_dataplane config s)) (requested_streams config s)"
proof -
  let ?r = "registry_from_specs (requested_streams config s)"
  note props = from_specs_props [of "requested_streams config s"]
  note ok = conjunct1 [OF props] and found = conjunct2 [OF props]
  have served: "\<exists>spec \<in> set (registry_specs ?r). serves spec c" if "c \<in> set (requested_streams config s)" for c
    using inserted_serves [of Map.empty c "requested_streams config s"] that registry_specs_props(1) [OF ok]
    by (auto simp: found serves_def)
  have "ss_key spec \<in> ss_key ` set (requested_streams config s)" if "spec \<in> set (registry_specs ?r)" for spec
    using that registry_specs_props(1) [OF ok, of spec] inserted_keys [of Map.empty "requested_streams config s" "ss_key spec"]
    by (simp add: found)
  moreover have "ss_key c \<in> ss_key ` set (registry_specs ?r)" if "c \<in> set (requested_streams config s)" for c
    using served [OF that] by (metis image_eqI serves_def)
  ultimately have "ss_key ` set (registry_specs ?r) = ss_key ` set (requested_streams config s)" by blast
  with served show ?thesis
    by (simp add: effective_streams_for_dataplane_def registry_specs_props(2) [OF ok] list_all_iff list_ex_iff)
qed

subsection \<open>What delivery keeps\<close>

context gateway_free
begin

lemma bare_fetch_free: "keeps view (fetch_bare_stream env stream_id account_id kind symbol timeframe)"
  unfolding fetch_bare_stream_def apply_bare_fetched_bar_def gateway_fetch_latest_bar_with_events_def fetch_with_events_def
    validate_gateway_connector_kind_def Let_def split_beta
  by (intro frame_rules validate_free on_gateway_free pending_events_quiet event_writes_quiet)

end

text \<open>An invariant of polls that the two lane fields written here respect is an invariant of every delivery.\<close>

locale delivery_invariant =
  fixes env :: "('j, 'w) RuntimeEnv" and I :: "('v, 'j, 'w) Runtime \<Rightarrow> bool"
  assumes inv_poll: "poll_invariant env spent I"
    and inv_seen: "preserves I (update_instance i (\<lambda>lane. lane\<lparr>lr_last_stream_update := seen\<rparr>))"
    and inv_builder: "preserves I (update_instance i (\<lambda>lane. lane\<lparr>lr_bar_builder := builder\<rparr>))"
    and inv_ready: "preserves I (ensure_account_connector_ready env i a)"
    and inv_normalize: "preserves I (rt_normalize_market_stream_payload env i a dc payload)"
    and inv_bare: "preserves I (fetch_bare_stream env stream_id account_id kind symbol timeframe)"
begin

lemma inv_bar: "preserves I (process_bar_for_lane env spent i bar phase)"
  and inv_event: "preserves I (append_runtime_event env sc ent k txt)"
  using inv_poll by (simp_all add: poll_invariant_def)

lemma update_preserves: "preserves I (process_market_stream_update_for_stream env spent key u)"
proof -
  have "preserves I (gather (offer_stream_update env spent u) ids)" for ids
    unfolding offer_stream_update_def by (intro invariant_rules inv_seen inv_bar)
  then show ?thesis by (simp add: preserves_def process_market_stream_update_for_stream_def)
qed

lemma dispatch_preserves: "preserves I (dispatch_bar env spent key bar)"
proof -
  have "preserves I (gather (process_fetched_confirmed_bar env spent symbol bar) ids)" for symbol ids
    unfolding process_fetched_confirmed_bar_def by (intro invariant_rules inv_event inv_bar)
  then show ?thesis by (simp add: preserves_def dispatch_bar_def)
qed

lemma trade_preserves: "preserves I (process_trade env spent i trade)"
proof -
  have ingest: "preserves I (ingest_trade env spent i trade lane)" for lane
    unfolding ingest_trade_def push_trade_for_lane_def split_beta by (intro invariant_rules inv_ready inv_builder inv_bar)
  show ?thesis
    unfolding process_trade_def rt_get_instance_def
    by (intro invariant_rules ingest) (auto split: ServiceError.split intro!: invariant_rules)
qed

lemma payload_preserves: "preserves I (process_market_stream_payload env spent i payload)"
  unfolding process_market_stream_payload_def by (intro invariant_rules inv_ready inv_normalize update_preserves)

lemma stream_poll_preserves:
  assumes "advance_stream_polling_once env spent key s = Some (r, s')" "I s"
  shows "I s'"
proof -
  have fan: "I s'" if "fan_out env spent ids bars outcomes s = Some (r, s')" "I s" for ids bars outcomes s
    using that
  proof (induction ids arbitrary: bars outcomes s)
    case (Cons i ids)
    then show ?case
      using poll_invariant.poll_preserves [OF inv_poll, of "spent i" i RECOVERY_PAGE_LIMIT MAX_RECOVERY_PAGES_PER_CYCLE s]
      by (auto split: option.splits sum.splits prod.splits)
  qed simp
  show ?thesis
    using assms fan preservesD [OF inv_bare, of s]
    by (auto simp: advance_stream_polling_once_def apply_lane_fanout_def split: sum.splits StreamPollPlan.splits)
      (metis snd_conv)
qed

end

interpretation delivery_ledgers: delivery_invariant env "ledgers_rel s0" for env s0
  by unfold_locales (intro poll_ledgers.poll_invariant_axioms keeps_ledgers_rel lane_free_ledgers.instance_free
      free_ledgers.ready_free free_ledgers.fetch_free(1) free_ledgers.bare_fetch_free)+

interpretation delivery_lanes: delivery_invariant env "lanes_rel lane_typed s0" for env s0
proof unfold_locales
  show "preserves (lanes_rel lane_typed s0) (update_instance i (\<lambda>lane. lane\<lparr>lr_last_stream_update := seen\<rparr>))" for i seen
    by (rule typed.update_lane) (simp add: lane_typed_def recovery_wf_def)
  show "preserves (lanes_rel lane_typed s0) (update_instance i (\<lambda>lane. lane\<lparr>lr_bar_builder := builder\<rparr>))" for i builder
    by (rule typed.update_lane) (simp add: lane_typed_def recovery_wf_def)
qed (intro poll_lanes.poll_invariant_axioms keeps_lanes_rel
      free_lanes.ready_free free_lanes.fetch_free(1) free_lanes.bare_fetch_free)+

end
