(* ===== verification/System.thy ===== *)
theory System
  imports Startup Dispatch
begin

section \<open>The running service\<close>

text \<open>
  The public operations of the runtime as one datatype, and what a sequence of them does to a runtime.
  The service holds the runtime behind one mutex, so operations of different tasks (HTTP requests, the
  polling supervisor, the stream sessions) take effect one after the other, in any order. An operation
  that panics poisons the mutex and ends the run: its result, and that of everything after it, is
  \<open>None\<close>.

  The lemmas compose those of the parts: an invariant that every part keeps holds after any sequence of
  operations, starting from a runtime built from a configuration that validates.
\<close>

subsection \<open>Operations\<close>

datatype RuntimeOperation =
    StartBot string
  | ResumeBot string
  | StopBot string
  | PauseBot string
  | SetKillSwitch bool
  | ReconcileBot string
  | CancelOpenOrders string
  | ClosePositions "string \<Rightarrow> CycleTimes" string
  | ProcessBar CycleTimes string OhlcvBar SignalPhase
  | ProcessBarForSymbol CycleTimes string string OhlcvBar SignalPhase
  | ProcessManualSignal CycleTimes string IndicatorSignal f64 timestamp
  | ProcessManualSignalForSymbol CycleTimes string string IndicatorSignal f64 timestamp
  | PollInstance CycleTimes string
  | PollInstanceDetailed CycleTimes string
  | PollSymbol CycleTimes string string
  | PollSymbolDetailed CycleTimes string string
  | DispatchBar "string \<Rightarrow> CycleTimes" StreamKey OhlcvBar
  | StreamUpdate "string \<Rightarrow> CycleTimes" StreamKey NormalizedBarUpdate
  | StreamPayload "string \<Rightarrow> CycleTimes" string string
  | IngestTrade "nat \<Rightarrow> CycleTimes" string NormalizedTrade
  | PollStream "string \<Rightarrow> CycleTimes" StreamKey
  | StreamHistory DataPlaneConfig StreamKey nat

text \<open>The state after an operation that cannot panic, and after one whose \<open>None\<close> result is a panic.\<close>

definition afterwards :: "(ServiceError + 'a) \<times> 's \<Rightarrow> 's option" where
  "afterwards result = Some (snd result)"

definition unless_panic :: "(ServiceError + 'a option) \<times> 's \<Rightarrow> 's option" where
  "unless_panic result = (if fst result = Inr None then None else Some (snd result))"

fun perform :: "('j, 'w) RuntimeEnv \<Rightarrow> RuntimeOperation \<Rightarrow> ('v, 'j, 'w) Runtime \<Rightarrow> ('v, 'j, 'w) Runtime option" where
  "perform env (StartBot b) s = unless_panic (start_instance env b s)"
| "perform env (ResumeBot b) s = unless_panic (resume_instance env b s)"
| "perform env (StopBot b) s = unless_panic (stop_instance env b s)"
| "perform env (PauseBot b) s = unless_panic (pause_instance env b s)"
| "perform env (SetKillSwitch active) s = unless_panic (set_kill_switch env active s)"
| "perform env (ReconcileBot b) s = unless_panic (reconcile_instance env b s)"
| "perform env (CancelOpenOrders b) s = unless_panic (cancel_open_orders env b s)"
| "perform env (ClosePositions spent b) s = unless_panic (close_positions env spent b s)"
| "perform env (ProcessBar spent b bar phase) s = afterwards (process_bar env spent b bar phase s)"
| "perform env (ProcessBarForSymbol spent b symbol bar phase) s = afterwards (process_bar_for_symbol env spent b symbol bar phase s)"
| "perform env (ProcessManualSignal spent b signal price time) s = afterwards (process_manual_signal env spent b signal price time s)"
| "perform env (ProcessManualSignalForSymbol spent b symbol signal price time) s =
     afterwards (process_manual_signal_for_symbol env spent b symbol signal price time s)"
| "perform env (PollInstance spent b) s = map_option snd (poll_instance_once env spent b s)"
| "perform env (PollInstanceDetailed spent b) s = map_option snd (poll_instance_once_detailed env spent b s)"
| "perform env (PollSymbol spent b symbol) s = map_option snd (poll_instance_symbol_once env spent b symbol s)"
| "perform env (PollSymbolDetailed spent b symbol) s = map_option snd (poll_instance_symbol_once_detailed env spent b symbol s)"
| "perform env (DispatchBar spent key bar) s = afterwards (dispatch_bar env spent key bar s)"
| "perform env (StreamUpdate spent key update) s = afterwards (process_market_stream_update_for_stream env spent key update s)"
| "perform env (StreamPayload spent b payload) s = afterwards (process_market_stream_payload env spent b payload s)"
| "perform env (IngestTrade spent b trade) s = unless_panic (process_trade env spent b trade s)"
| "perform env (PollStream spent key) s = map_option snd (advance_stream_polling_once env spent key s)"
| "perform env (StreamHistory config key limit) s = afterwards (stream_history env config key limit s)"

fun run_operations :: "('j, 'w) RuntimeEnv \<Rightarrow> RuntimeOperation list \<Rightarrow> ('v, 'j, 'w) Runtime \<Rightarrow> ('v, 'j, 'w) Runtime option" where
  "run_operations env [] s = Some s"
| "run_operations env (operation # operations) s =
     (case perform env operation s of None \<Rightarrow> None | Some s' \<Rightarrow> run_operations env operations s')"

subsection \<open>Invariants of every run\<close>

text \<open>What the operator operations, the deliveries and the polls keep, every sequence of operations keeps.\<close>

locale runtime_invariant = delivery_invariant env I
  for env :: "('j, 'w) RuntimeEnv" and I :: "('v, 'j, 'w) Runtime \<Rightarrow> bool" +
  assumes inv_run: "preserves I (run_lanes env request b)"
    and inv_park: "preserves I (park_lanes env target kind b)"
    and inv_kill: "preserves I (set_kill_switch env active)"
    and inv_reconcile: "preserves I (reconcile_instance env b)"
    and inv_cancel: "preserves I (cancel_open_orders env b)"
    and inv_close: "preserves I (close_positions env by_lane b)"
    and inv_signal: "preserves I (process_manual_signal_for_lane env spent i signal price time)"
    and inv_history: "preserves I (fetch_recent_bars_for_stream env a symbol timeframe limit)"
    and inv_clock: "preserves I (runtime_now_ms env)"
begin

lemma afterwards_keeps: "preserves I m \<Longrightarrow> I s \<Longrightarrow> afterwards (m s) = Some s' \<Longrightarrow> I s'"
  using preservesD [of I m s] by (simp add: afterwards_def)

lemma unless_panic_keeps: "preserves I m \<Longrightarrow> I s \<Longrightarrow> unless_panic (m s) = Some s' \<Longrightarrow> I s'"
  using preservesD [of I m s] by (simp add: unless_panic_def split: if_splits)

lemma poll_keeps:
  "poll_instance_once_at env spent i s = Some (r, s') \<Longrightarrow> I s \<Longrightarrow> I s'"
  "poll_instance_once_detailed_at env spent i s = Some (q, s') \<Longrightarrow> I s \<Longrightarrow> I s'"
proof -
  have events: "preserves I (record_poll_result_events env i outcomes error)" for outcomes error
    unfolding record_poll_result_events_def ignoring_errors_def by (intro invariant_rules inv_event)
  note poll = poll_invariant.poll_preserves [OF inv_poll]
  show "I s'" if "poll_instance_once_at env spent i s = Some (r, s')" "I s"
    using that preservesD [OF inv_clock, of s] poll preservesD [OF events]
    by (force simp: poll_instance_once_at_def poll_instance_once_internal_def)
  show "I s'" if "poll_instance_once_detailed_at env spent i s = Some (q, s')" "I s"
    using that poll by (simp add: poll_instance_once_detailed_at_def poll_instance_once_internal_def)
qed

lemma poll_resolved_keeps:
  assumes "poll_resolved env resolve poll s = Some (r, s')" "I s" "\<And>i s. poll i s = Some (r, s') \<Longrightarrow> I s \<Longrightarrow> I s'"
  shows "I s'"
  using assms preservesD [OF inv_clock, of s] by (auto simp: poll_resolved_def split: sum.splits)

lemmas poll_entry_defs = poll_instance_once_def poll_instance_once_detailed_def poll_instance_symbol_once_def
  poll_instance_symbol_once_detailed_def

lemma bar_entries_preserve:
  "preserves I (process_bar env spent b bar phase)" "preserves I (process_bar_for_symbol env spent b symbol bar phase)"
  "preserves I (process_manual_signal env spent b signal price time)"
  "preserves I (process_manual_signal_for_symbol env spent b symbol signal price time)"
  "preserves I (stream_history env config key limit)"
  unfolding process_bar_def process_bar_for_symbol_def process_manual_signal_def process_manual_signal_for_symbol_def stream_history_def
  by (intro invariant_rules inv_bar inv_signal inv_history)+

lemma perform_keeps:
  assumes "perform env operation s = Some s'" "I s"
  shows "I s'"
  using assms
proof (cases operation)
  case (PollInstance spent b)
  with assms show ?thesis using poll_resolved_keeps poll_keeps(1) by (force simp: poll_entry_defs)
next
  case (PollInstanceDetailed spent b)
  with assms show ?thesis using poll_resolved_keeps poll_keeps(2) by (force simp: poll_entry_defs)
next
  case (PollSymbol spent b symbol)
  with assms show ?thesis using poll_resolved_keeps poll_keeps(1) by (force simp: poll_entry_defs)
next
  case (PollSymbolDetailed spent b symbol)
  with assms show ?thesis using poll_resolved_keeps poll_keeps(2) by (force simp: poll_entry_defs)
next
  case (PollStream spent key)
  with assms show ?thesis using stream_poll_preserves by auto
qed (auto simp: start_instance_def resume_instance_def stop_instance_def pause_instance_def
    elim!: afterwards_keeps [rotated 2] unless_panic_keeps [rotated 2]
    intro: inv_run inv_park inv_kill inv_reconcile inv_cancel inv_close bar_entries_preserve
      dispatch_preserves update_preserves payload_preserves trade_preserves)

lemma run_keeps: "run_operations env operations s = Some s' \<Longrightarrow> I s \<Longrightarrow> I s'"
  by (induction operations arbitrary: s) (auto split: option.splits dest: perform_keeps)

end

interpretation run_ledgers: runtime_invariant env "ledgers_rel s0" for env s0
  by unfold_locales (intro run_moves_ledgers manual_reconcile_moves_ledgers close_moves_ledgers cycles_move_ledgers(2)
      keeps_ledgers_rel [OF kill_switch_keeps_ledgers] keeps_ledgers_rel [OF lane_free_ledgers.park_free]
      keeps_ledgers_rel [OF lane_free_ledgers.cancel_free] keeps_ledgers_rel [OF free_ledgers.fetch_free(4)]
      keeps_ledgers_rel [OF quiet_ledgers.now_quiet])+

interpretation run_typed_lanes: runtime_invariant env "lanes_rel lane_typed s0" for env s0
  by unfold_locales (intro run_typed parked_typed kill_switch_typed manual_reconcile_typed close_typed manual_signal_typed
      keeps_lanes_rel [OF cancel_keeps_lanes] keeps_lanes_rel [OF free_lanes.fetch_free(4)] keeps_lanes_rel [OF quiet_lanes.now_quiet])+

subsection \<open>Capital and lanes of a running service\<close>

text \<open>
  The capital of an account is accounted for: its ledger is the configured budget moved by steps of the
  capital machine, so every order took capital only within the rooms of its bot and account, and none of
  it is still reserved. The fills that turn capital into open notional are those the providers report,
  and nothing in the code bounds them by what was reserved.
\<close>

definition capital_accounted :: "AccountConfig list \<Rightarrow> string \<times> AccountLedger \<Rightarrow> bool" where
  "capital_accounted accounts = (\<lambda>(account_id, ledger). ledger_wf ledger \<and> unreserved ledger
     \<and> list_ex (\<lambda>account. ac_id account = account_id
         \<and> capital_reachable (ac_total_budget_usd account) ledger
         \<and> al_declared_total_usd ledger = ac_total_budget_usd account
         \<and> effective_cap_usd ledger \<le> ac_total_budget_usd account) accounts)"

definition configured_lane :: "'v InstanceConfig list \<Rightarrow> string \<times> 'v LaneRuntime \<Rightarrow> bool" where
  "configured_lane instances = (\<lambda>(lane_id, lane). lr_config lane \<in> set instances
     \<and> lr_lane_symbol lane \<in> set (ic_symbols (lr_config lane))
     \<and> lane_instance_id (lr_config lane) (lr_lane_symbol lane) = Inr lane_id \<and> recovery_wf lane)"

lemma validated:
  assumes "validate vars fixed4 config = Inr u"
  shows "distinct (map ic_id (cb_instances config))" "account \<in> set (cb_accounts config) \<Longrightarrow> positive_finite (ac_total_budget_usd account)"
  using assms
  by (auto simp: validate_def checks_ok validate_unique_ids_def unique_ids_ok list_all_iff validate_account_def
      validate_account_total_budget_def)

lemma declared_accounted:
  assumes "ledgers_declared accounts s" "\<And>account. account \<in> set accounts \<Longrightarrow> positive_finite (ac_total_budget_usd account)"
  shows "list_all (capital_accounted accounts) (rt_account_ledgers s)"
proof -
  have budget: "sanitize_value x = x" if "positive_finite x" for x
    using that by (auto simp: positive_finite_def sanitize_value_def f64_less_le is_finite_not_nan f64_not_le)
  have "capital_accounted accounts (a, ledger)"
    if "account \<in> set accounts" "ac_id account = a" "capital_reachable (ac_total_budget_usd account) ledger" for a ledger account
    using reachable_wf [OF capital_reachable_ledger [OF that(3)]] capital_reachable_unreserved [OF that(3)] cap_within_declared [of ledger "ac_total_budget_usd account"] assms(2) [OF that(1)] that
    by (auto simp: capital_accounted_def list_ex_iff budget)
  with assms(1) show ?thesis by (fastforce simp: ledgers_declared_def list_all_iff)
qed

lemma assembled_lanes:
  assumes "assemble_runtime af ai env outside sequence config j = Inr s" "distinct (map ic_id (cb_instances config))"
  shows "hm_wf (rt_lanes s)" "list_all (configured_lane (cb_instances config)) (rt_lanes s)"
proof -
  from assms(1) obtain snapshots pnls by_bot where
    "build_runtime_lanes af ai (cb_instances config) (account_modes config) (risk_profiles_by_id config)
       snapshots pnls
       (sf_default_start_paused_if_recovery_uncertain (gc_safety (cb_global config))) = Inr (rt_lanes s, by_bot)"
    by (auto simp: assemble_runtime_def split: sum.splits InstanceError.splits)
  from built_lanes_complete [OF this assms(2)] show "hm_wf (rt_lanes s)" "list_all (configured_lane (cb_instances config)) (rt_lanes s)"
    by (auto simp: list_all_iff configured_lane_def fresh_lane_def recovery_wf_def)
qed

lemma typed_lanes_configured:
  assumes "lanes_rel lane_typed s0 s"
  shows "hm_wf (rt_lanes s0) \<Longrightarrow> hm_wf (rt_lanes s)"
    "list_all (configured_lane instances) (rt_lanes s0) \<Longrightarrow> list_all (configured_lane instances) (rt_lanes s)"
proof -
  have "map fst (rt_lanes s0) = map fst (rt_lanes s)"
    using assms unfolding lanes_rel_def by (induction rule: list_all2_induct) auto
  then show "hm_wf (rt_lanes s0) \<Longrightarrow> hm_wf (rt_lanes s)" by (simp add: hm_wf_def)
  show "list_all (configured_lane instances) (rt_lanes s0) \<Longrightarrow> list_all (configured_lane instances) (rt_lanes s)"
    using assms unfolding lanes_rel_def
    by (induction rule: list_all2_induct) (auto simp: configured_lane_def lane_typed_def)
qed

text \<open>What a start promises, a runtime that moved its ledgers and lanes as the operations do still keeps.\<close>

lemma promises_kept:
  assumes start: "from_config_with_storage_impl open_sqlite vars as_float as_integer env outside sequence config allow_prune = (Inr (Some s), j)"
    and moved: "ledgers_rel s s'" "lanes_rel lane_typed s s'"
  shows "list_all (capital_accounted (cb_accounts config)) (rt_account_ledgers s')
    \<and> hm_wf (rt_lanes s') \<and> list_all (configured_lane (cb_instances config)) (rt_lanes s')"
proof -
  from start obtain u j1 j2 where ok: "validate vars (env_fixed4 env) config = Inr u"
    and started': "from_config_with_journal as_float as_integer env outside sequence config j1 = (Inr (Some s), j2)"
    by (auto simp: from_config_with_storage_impl_def Let_def split: sum.splits if_splits prod.splits)
  note s = started [OF started'] and ids = validated [OF ok]
  obtain s0 where s0: "assemble_runtime as_float as_integer env outside sequence config j1 = Inr s0" "lanes_rel lane_typed s0 s"
    using s(5) by blast
  note first = typed_lanes_configured [OF s0(2)] and built = assembled_lanes [OF s0(1) ids(1)]
  note lanes = typed_lanes_configured [OF moved(2)]
  have "ledgers_declared (cb_accounts config) s'" by (rule declared_moves [OF moved(1) s(3)])
  from declared_accounted [OF this ids(2)] show ?thesis using lanes first built by blast
qed

text \<open>A service that starts from storage accounts for its capital and keeps its lanes, whatever operations follow and in
  whatever order, the errors of the journal and of the providers included: every capital ledger
  belongs to an account of the configuration, is that account's budget moved by steps of the capital machine,
  and has no capital reserved; every lane is one that the configuration asks for, under its own id, and a
  lane that is catching up knows its target.
\<close>

theorem service_keeps_capital_and_lanes:
  "case from_config_with_storage_impl open_sqlite vars as_float as_integer env outside sequence config allow_prune of
     (Inr (Some s), j) \<Rightarrow> (case run_operations env operations s of None \<Rightarrow> True
       | Some s' \<Rightarrow> list_all (capital_accounted (cb_accounts config)) (rt_account_ledgers s')
           \<and> hm_wf (rt_lanes s') \<and> list_all (configured_lane (cb_instances config)) (rt_lanes s'))
   | _ \<Rightarrow> True"
proof -
  have "ledgers_rel s s'" "lanes_rel lane_typed s s'" if "run_operations env operations s = Some s'" for s s'
    using run_ledgers.run_keeps [OF that ledgers_rel_refl] run_typed_lanes.run_keeps [OF that lanes_rel_refl] typed.refl by blast+
  then show ?thesis using promises_kept by (fastforce split: sum.split prod.split option.split)
qed

end
