(* ===== verification/Alpaca.thy ===== *)
theory Alpaca
  imports Web
begin

section \<open>The Alpaca connector (openticker-connectors/src/connectors/alpaca)\<close>

text \<open>
  The remote operations of the Alpaca connector over the requests of the theory Web: the payloads, what
  each becomes, and each operation with its requests in order. \<open>AlpacaDecoders\<close> are the decoders that
  \<open>serde\<close> derives for the payload types; the filled quantity and price of an order go through the decoders
  of \<open>de.rs\<close>, so they are absent or finite and positive. The pages of recent bars are read in a loop that ends only when
  enough bars came or the provider has no further page: it is a \<open>partial_function\<close>, and
  \<open>pages_end\<close> says when it returns.
\<close>

subsection \<open>Payloads\<close>

record AlpacaOrderPayload =
  alo_client_order_id :: string
  alo_symbol :: string
  alo_status :: string
  alo_qty :: f64

record AlpacaPositionPayload =
  alp_symbol :: string
  alp_qty :: f64

record AlpacaAccountPayload =
  ala_cash :: f64
  ala_equity :: f64

record AlpacaAssetPayload =
  als_tradable :: bool
  als_fractionable :: bool

record AlpacaBarPayload =
  alb_timestamp :: timestamp
  alb_open :: f64
  alb_high :: f64
  alb_low :: f64
  alb_close :: f64
  alb_volume :: f64

record AlpacaBarsPayload =
  alr_bars :: "AlpacaBarPayload list option"

record AlpacaHistoricalBarsPayload =
  alh_bars :: "(string, AlpacaBarPayload list) hmap"
  alh_next_page_token :: "string option"

record AlpacaSubmittedOrderPayload =
  alu_id :: string
  alu_client_order_id :: string
  alu_status :: string
  alu_filled_qty :: "f64 option"
  alu_filled_avg_price :: "f64 option"

text \<open>The same order as JSON: what the derived decoder reads before the two numbers are decoded by \<open>de.rs\<close>.\<close>

record AlpacaSubmittedOrderFields =
  alj_id :: string
  alj_client_order_id :: string
  alj_status :: string
  alj_filled_qty :: "Json option"
  alj_filled_avg_price :: "Json option"

record AlpacaDecoders =
  ad_orders :: "string option \<Rightarrow> string + AlpacaOrderPayload list"
  ad_positions :: "string option \<Rightarrow> string + AlpacaPositionPayload list"
  ad_account :: "string option \<Rightarrow> string + AlpacaAccountPayload"
  ad_asset :: "string option \<Rightarrow> string + AlpacaAssetPayload"
  ad_bars :: "string option \<Rightarrow> string + AlpacaBarsPayload"
  ad_historical :: "string option \<Rightarrow> string + AlpacaHistoricalBarsPayload"
  ad_submitted :: "string option \<Rightarrow> string + AlpacaSubmittedOrderFields"

definition alpaca_submitted_order :: "AlpacaDecoders \<Rightarrow> string option \<Rightarrow> string + AlpacaSubmittedOrderPayload" where
  "alpaca_submitted_order dec body =
     (case ad_submitted dec body of Inl error \<Rightarrow> Inl error
      | Inr raw \<Rightarrow>
          (case alpaca_option_f64 (alj_filled_qty raw) of Inl error \<Rightarrow> Inl error
           | Inr filled_qty \<Rightarrow>
               (case alpaca_option_f64 (alj_filled_avg_price raw) of Inl error \<Rightarrow> Inl error
                | Inr filled_avg_price \<Rightarrow> Inr \<lparr>alu_id = alj_id raw, alu_client_order_id = alj_client_order_id raw,
                    alu_status = alj_status raw, alu_filled_qty = filled_qty, alu_filled_avg_price = filled_avg_price\<rparr>)))"

lemma alpaca_fill_decoded:
  "alpaca_submitted_order dec body = Inr payload \<Longrightarrow> alu_filled_qty payload = Some q \<Longrightarrow> is_finite q \<and> \<not> q \<le> f64_epsilon"
  by (auto simp: alpaca_submitted_order_def alpaca_option_f64_def deserialize_option_f64_def
      split: sum.splits option.splits Json.splits if_splits)

subsection \<open>Account and asset (account.rs)\<close>

definition symbol_constraints_from_asset :: "AlpacaAssetPayload \<Rightarrow> ConnectorSymbolConstraints" where
  "symbol_constraints_from_asset asset =
     (let one_unit = (if als_fractionable asset then None else Some 1) in
      \<lparr>csc_fractional_entry_supported = Some (als_fractionable asset), csc_quantity_step = one_unit, csc_min_quantity = one_unit,
       csc_min_notional_usd = None,
       csc_source = Some (''alpaca_asset_metadata(fractionable='' @ (if als_fractionable asset then ''true'' else ''false'') @ '')'')\<rparr>)"

definition alpaca_normalize_orders :: "AlpacaOrderPayload list \<Rightarrow> ConnectorOpenOrder list" where
  "alpaca_normalize_orders = map (\<lambda>order. \<lparr>co_client_order_id = alo_client_order_id order, co_symbol = alo_symbol order,
     co_status = alo_status order, co_quantity = alo_qty order\<rparr>)"

definition alpaca_normalize_positions :: "AlpacaPositionPayload list \<Rightarrow> ConnectorPosition list" where
  "alpaca_normalize_positions = map (\<lambda>position. \<lparr>cp_symbol = alp_symbol position, cp_quantity = alp_qty position\<rparr>)"

definition normalize_account_balances :: "AlpacaAccountPayload \<Rightarrow> ConnectorPrivateBalance list" where
  "normalize_account_balances payload =
     [\<lparr>cb_asset = ''CASH'', cb_free = ala_cash payload, cb_locked = 0\<rparr>, \<lparr>cb_asset = ''EQUITY'', cb_free = ala_equity payload, cb_locked = 0\<rparr>]"

subsection \<open>Bars (bars.rs)\<close>

fun alpaca_timeframe_label :: "Timeframe \<Rightarrow> string" where
  "alpaca_timeframe_label M1 = ''1Min''"
| "alpaca_timeframe_label M5 = ''5Min''"
| "alpaca_timeframe_label M15 = ''15Min''"
| "alpaca_timeframe_label M30 = ''30Min''"
| "alpaca_timeframe_label H1 = ''1Hour''"
| "alpaca_timeframe_label H4 = ''4Hour''"
| "alpaca_timeframe_label D1 = ''1Day''"

definition alpaca_lookback_days :: "Timeframe \<Rightarrow> nat \<Rightarrow> int" where
  "alpaca_lookback_days timeframe limit =
     (let requested_bars = min (int limit + 1) 9223372036854775807;
          seconds_per_bar = max (Timeframe_duration timeframe div 1000000000) 1;
          lookback_seconds = sat_i64 (sat_i64 (seconds_per_bar * requested_bars) * 6) in
      max 30 (min 730 (lookback_seconds div 86400)))"

definition alpaca_recent_bars_lookback_start :: "'w Web \<Rightarrow> timestamp \<Rightarrow> Timeframe \<Rightarrow> nat \<Rightarrow> string" where
  "alpaca_recent_bars_lookback_start web now timeframe limit =
     web_rfc3339 web (now - alpaca_lookback_days timeframe limit * 86400000000000)"

definition historical_alpaca_bars_for_symbol :: "(string, AlpacaBarPayload list) hmap \<Rightarrow> string \<Rightarrow> AlpacaBarPayload list" where
  "historical_alpaca_bars_for_symbol bars symbol = override (hm_get bars symbol) []"

definition alpaca_bar_is_confirmed :: "timestamp \<Rightarrow> Timeframe \<Rightarrow> timestamp \<Rightarrow> bool" where
  "alpaca_bar_is_confirmed time timeframe now \<longleftrightarrow> time + Timeframe_duration timeframe \<le> now"

definition alpaca_bar :: "AlpacaBarPayload \<Rightarrow> OhlcvBar" where
  "alpaca_bar bar = \<lparr>bar_timestamp = alb_timestamp bar, bar_open = alb_open bar, bar_high = alb_high bar, bar_low = alb_low bar,
     bar_close = alb_close bar, bar_volume = alb_volume bar\<rparr>"

definition normalize_recent_alpaca_bars :: "AlpacaBarPayload list \<Rightarrow> Timeframe \<Rightarrow> timestamp \<Rightarrow> nat \<Rightarrow> OhlcvBar list" where
  "normalize_recent_alpaca_bars bars timeframe now limit =
     rev (take limit (filter (\<lambda>bar. alpaca_bar_is_confirmed (bar_timestamp bar) timeframe now) (map alpaca_bar bars)))"

definition normalize_confirmed_alpaca_range_bars ::
    "AlpacaBarPayload list \<Rightarrow> Timeframe \<Rightarrow> timestamp \<Rightarrow> timestamp option \<Rightarrow> nat \<Rightarrow> timestamp \<Rightarrow> OhlcvBar list" where
  "normalize_confirmed_alpaca_range_bars bars timeframe end_at start_after limit now =
     take limit (filter (\<lambda>bar. alpaca_bar_is_confirmed (bar_timestamp bar) timeframe now \<and> bar_timestamp bar \<le> end_at
       \<and> (case start_after of None \<Rightarrow> True | Some start \<Rightarrow> start < bar_timestamp bar)) (map alpaca_bar bars))"

definition latest_confirmed_alpaca_bar :: "AlpacaBarPayload list \<Rightarrow> Timeframe \<Rightarrow> timestamp \<Rightarrow> OhlcvBar option" where
  "latest_confirmed_alpaca_bar bars timeframe now =
     (case normalize_recent_alpaca_bars bars timeframe now 1 of [] \<Rightarrow> None | bar # _ \<Rightarrow> Some bar)"

subsection \<open>Orders (orders.rs)\<close>

definition accepted_order_from_alpaca_payload :: "AlpacaSubmittedOrderPayload \<Rightarrow> OrderSide \<Rightarrow> f64 \<Rightarrow> AcceptedOrder option" where
  "accepted_order_from_alpaca_payload payload side fallback_price =
     (let quantity = override (alu_filled_qty payload) 0 in
      if quantity \<le> f64_epsilon then None
      else Some \<lparr>ao_client_order_id = alu_client_order_id payload, ao_side = side, ao_order_type = Market,
        ao_price = (case alu_filled_avg_price payload of
            Some price \<Rightarrow> if is_finite price \<and> 0 < price then price else f64_max fallback_price 0
          | None \<Rightarrow> f64_max fallback_price 0),
        ao_quantity = quantity, ao_fee_asset = None, ao_fee_amount = None, ao_fee_normalized_usd = None\<rparr>)"

fun alpaca_order_side_label :: "OrderSide \<Rightarrow> string" where
  "alpaca_order_side_label BuySide = ''buy''"
| "alpaca_order_side_label SellSide = ''sell''"

definition alpaca_order_status_is_terminal :: "string \<Rightarrow> bool" where
  "alpaca_order_status_is_terminal status \<longleftrightarrow> status \<in> {''filled'', ''canceled'', ''expired'', ''rejected'', ''suspended'', ''stopped'',
     ''done_for_day'', ''calculated'', ''replaced''}"

subsection \<open>Remote operations (connector.rs)\<close>

definition ALPACA_DATA_BASE_URL :: string where
  "ALPACA_DATA_BASE_URL = ''https://data.alpaca.markets''"

definition trim_end_slashes :: "string \<Rightarrow> string" where
  "trim_end_slashes s = rev (dropWhile (\<lambda>c. c = CHR ''/'') (rev s))"

definition alpaca_reconciliation_base_url :: "ConnectorAccount \<Rightarrow> string" where
  "alpaca_reconciliation_base_url account = trim_end_slashes (override (ca_reconciliation_base_url account)
     (case ca_mode account of Paper \<Rightarrow> ''https://paper-api.alpaca.markets'' | Live \<Rightarrow> ''https://api.alpaca.markets''))"

definition alpaca_headers :: "string \<Rightarrow> string \<Rightarrow> (string \<times> string) list" where
  "alpaca_headers api_key api_secret = [(''APCA-API-KEY-ID'', api_key), (''APCA-API-SECRET-KEY'', api_secret)]"

definition alpaca_get ::
    "'w Web \<Rightarrow> Clock \<Rightarrow> (ConnectorKind \<Rightarrow> string \<Rightarrow> ConnectorError) \<Rightarrow> string \<Rightarrow> (string option \<Rightarrow> string + 'p) \<Rightarrow> string \<Rightarrow> string \<Rightarrow> string
     \<Rightarrow> (string \<times> string) list \<Rightarrow> ('w, 'p) remote_op" where
  "alpaca_get web clock failure operation decode api_key api_secret url query =
     request_json web clock failure Alpaca operation operation decode
       \<lparr>hr_method = ''GET'', hr_url = url, hr_query = query, hr_headers = alpaca_headers api_key api_secret, hr_json = None\<rparr>"

definition alpaca_fetch_remote_snapshot ::
    "'w Web \<Rightarrow> Clock \<Rightarrow> AlpacaDecoders \<Rightarrow> ConnectorAccount \<Rightarrow> ('w, ConnectorAccountSnapshot) remote_op" where
  "alpaca_fetch_remote_snapshot web clock dec account =
     (let base_url = alpaca_reconciliation_base_url account in
      with_credentials web Alpaca account ''alpaca-remote-snapshot'' (\<lambda>api_key api_secret.
      then_do (alpaca_get web clock RemoteSnapshot ''open orders'' (ad_orders dec) api_key api_secret (base_url @ ''/v2/orders'')
        [(''status'', ''open''), (''direction'', ''desc''), (''nested'', ''false''), (''limit'', ''500'')]) (\<lambda>orders_payload.
      then_do (alpaca_get web clock RemoteSnapshot ''positions'' (ad_positions dec) api_key api_secret (base_url @ ''/v2/positions'') []) (\<lambda>positions_payload.
      then_do (alpaca_get web clock RemoteSnapshot ''account'' (ad_account dec) api_key api_secret (base_url @ ''/v2/account'') []) (\<lambda>account_payload.
      ok \<lparr>cs_open_orders = alpaca_normalize_orders orders_payload, cs_positions = alpaca_normalize_positions positions_payload,
          cs_balances = normalize_account_balances account_payload\<rparr>)))))"

definition alpaca_fetch_remote_latest_bar ::
    "'w Web \<Rightarrow> Clock \<Rightarrow> AlpacaDecoders \<Rightarrow> ConnectorAccount \<Rightarrow> string \<Rightarrow> Timeframe \<Rightarrow> ('w, OhlcvBar) remote_op" where
  "alpaca_fetch_remote_latest_bar web clock dec account symbol timeframe =
     with_credentials web Alpaca account ''alpaca-latest-bar'' (\<lambda>api_key api_secret.
     then_do (utc_now web) (\<lambda>now.
     then_do (alpaca_get web clock RemoteSnapshot ''latest bar'' (ad_bars dec) api_key api_secret
         (ALPACA_DATA_BASE_URL @ ''/v2/stocks/'' @ symbol @ ''/bars'')
         [(''timeframe'', alpaca_timeframe_label timeframe), (''feed'', ''iex''), (''adjustment'', ''raw''), (''limit'', ''2''),
          (''sort'', ''desc''), (''start'', alpaca_recent_bars_lookback_start web now timeframe 1)]) (\<lambda>payload.
     case latest_confirmed_alpaca_bar (override (alr_bars payload) []) timeframe now of
       None \<Rightarrow> fail (RemoteSnapshot Alpaca
         (''latest bar response did not include confirmed bar data for `'' @ sanitize_symbol_for_error symbol @ ''`''))
     | Some bar \<Rightarrow> ok bar)))"

definition alpaca_page_query :: "string \<Rightarrow> Timeframe \<Rightarrow> nat \<Rightarrow> string \<Rightarrow> string \<Rightarrow> string \<Rightarrow> (string \<times> string) list" where
  "alpaca_page_query symbol timeframe limit direction start end_text =
     [(''symbols'', symbol), (''timeframe'', alpaca_timeframe_label timeframe), (''feed'', ''iex''), (''adjustment'', ''raw''),
      (''limit'', show_int (int limit)), (''sort'', direction), (''start'', start), (''end'', end_text)]"

partial_function (option) alpaca_pages ::
    "(string option \<Rightarrow> ('w, AlpacaHistoricalBarsPayload) remote_op) \<Rightarrow> string \<Rightarrow> nat \<Rightarrow> AlpacaBarPayload list \<Rightarrow> string option \<Rightarrow> 'w Outside
     \<Rightarrow> ((ConnectorError + AlpacaBarPayload list) \<times> 'w Outside) option" where
  "alpaca_pages fetch symbol requested collected token o' =
     (case fetch token o' of
        (Inl error, o'') \<Rightarrow> Some (Inl error, o'')
      | (Inr payload, o'') \<Rightarrow>
          (let collected = collected @ historical_alpaca_bars_for_symbol (alh_bars payload) symbol in
           if requested \<le> length collected \<or> alh_next_page_token payload = None then Some (Inr collected, o'')
           else alpaca_pages fetch symbol requested collected (alh_next_page_token payload) o''))"

definition alpaca_fetch_page ::
    "'w Web \<Rightarrow> Clock \<Rightarrow> AlpacaDecoders \<Rightarrow> string \<Rightarrow> string \<Rightarrow> (string \<times> string) list \<Rightarrow> string option \<Rightarrow> ('w, AlpacaHistoricalBarsPayload) remote_op" where
  "alpaca_fetch_page web clock dec api_key api_secret query token =
     alpaca_get web clock RemoteSnapshot ''recent bars'' (ad_historical dec) api_key api_secret (ALPACA_DATA_BASE_URL @ ''/v2/stocks/bars'')
       (query @ (case token of None \<Rightarrow> [] | Some page_token \<Rightarrow> [(''page_token'', page_token)]))"

text \<open>The result is \<open>None\<close> when the pages never end.\<close>

definition alpaca_fetch_remote_recent_bars ::
    "'w Web \<Rightarrow> Clock \<Rightarrow> AlpacaDecoders \<Rightarrow> ConnectorAccount \<Rightarrow> string \<Rightarrow> Timeframe \<Rightarrow> nat \<Rightarrow> 'w Outside
     \<Rightarrow> ((ConnectorError + OhlcvBar list) \<times> 'w Outside) option" where
  "alpaca_fetch_remote_recent_bars web clock dec account symbol timeframe limit o' =
     (if limit = 0 then Some (Inr [], o')
      else case with_credentials web Alpaca account ''alpaca-recent-bars'' (\<lambda>api_key api_secret.
          then_do (utc_now web) (\<lambda>now. ok (api_key, api_secret, now))) o' of
        (Inl error, o'') \<Rightarrow> Some (Inl error, o'')
      | (Inr (api_key, api_secret, now), o'') \<Rightarrow>
          (let requested = min (limit + 1) 10000;
               query = alpaca_page_query symbol timeframe requested ''desc'' (alpaca_recent_bars_lookback_start web now timeframe limit)
                 (web_rfc3339 web now) in
           map_option (\<lambda>(r, final). (map_sum id (\<lambda>collected. normalize_recent_alpaca_bars collected timeframe now limit) r, final))
             (alpaca_pages (alpaca_fetch_page web clock dec api_key api_secret query) symbol requested [] None o'')))"

definition alpaca_fetch_remote_latest_confirmed_bar_timestamp ::
    "'w Web \<Rightarrow> Clock \<Rightarrow> AlpacaDecoders \<Rightarrow> ConnectorAccount \<Rightarrow> string \<Rightarrow> Timeframe \<Rightarrow> ('w, timestamp option) remote_op" where
  "alpaca_fetch_remote_latest_confirmed_bar_timestamp web clock dec account symbol timeframe =
     then_do (alpaca_fetch_remote_latest_bar web clock dec account symbol timeframe) (\<lambda>bar. ok (Some (bar_timestamp bar)))"

definition page_of :: "nat \<Rightarrow> timestamp \<Rightarrow> OhlcvBar list \<Rightarrow> ConfirmedBarPage" where
  "page_of requested end_at bars =
     \<lparr>cbp_bars = bars, cbp_exhausted = (bars \<noteq> [] \<and> end_at \<le> bar_timestamp (last bars)) \<or> length bars < requested\<rparr>"

definition alpaca_fetch_remote_confirmed_bars_range ::
    "'w Web \<Rightarrow> Clock \<Rightarrow> AlpacaDecoders \<Rightarrow> ConnectorAccount \<Rightarrow> string \<Rightarrow> Timeframe \<Rightarrow> timestamp option \<Rightarrow> timestamp \<Rightarrow> nat
     \<Rightarrow> ('w, ConfirmedBarPage) remote_op" where
  "alpaca_fetch_remote_confirmed_bars_range web clock dec account symbol timeframe start_after end_at limit =
     (if limit = 0 then ok \<lparr>cbp_bars = [], cbp_exhausted = False\<rparr>
      else if (case start_after of None \<Rightarrow> False | Some start \<Rightarrow> end_at \<le> start) then ok \<lparr>cbp_bars = [], cbp_exhausted = True\<rparr>
      else with_credentials web Alpaca account ''alpaca-confirmed-bars-range'' (\<lambda>api_key api_secret.
        let until = end_at + Timeframe_duration timeframe;
            request_start = (case start_after of None \<Rightarrow> alpaca_recent_bars_lookback_start web until timeframe limit
              | Some time \<Rightarrow> web_rfc3339 web (time + 1000000)) in
        then_do (alpaca_get web clock RemoteSnapshot ''confirmed range'' (ad_historical dec) api_key api_secret
          (ALPACA_DATA_BASE_URL @ ''/v2/stocks/bars'')
          (alpaca_page_query symbol timeframe limit ''asc'' request_start (web_rfc3339 web until))) (\<lambda>payload.
        then_do (utc_now web) (\<lambda>now.
        ok (page_of limit end_at (normalize_confirmed_alpaca_range_bars (historical_alpaca_bars_for_symbol (alh_bars payload) symbol)
          timeframe end_at start_after limit now))))))"

definition alpaca_fetch_remote_symbol_constraints ::
    "'w Web \<Rightarrow> Clock \<Rightarrow> AlpacaDecoders \<Rightarrow> ConnectorAccount \<Rightarrow> string \<Rightarrow> ('w, ConnectorSymbolConstraints) remote_op" where
  "alpaca_fetch_remote_symbol_constraints web clock dec account symbol =
     with_credentials web Alpaca account ''alpaca-symbol-constraints'' (\<lambda>api_key api_secret.
     then_do (alpaca_get web clock RemoteSnapshot ''asset metadata'' (ad_asset dec) api_key api_secret
         (alpaca_reconciliation_base_url account @ ''/v2/assets/'' @ symbol) []) (\<lambda>asset.
     if \<not> als_tradable asset then fail (RemoteSnapshot Alpaca (''asset `'' @ sanitize_symbol_for_error symbol @ ''` is not tradable''))
     else ok (symbol_constraints_from_asset asset)))"

definition alpaca_order_body :: "string \<Rightarrow> f64 \<Rightarrow> OrderSide \<Rightarrow> string \<Rightarrow> Json" where
  "alpaca_order_body symbol quantity side client_order_id =
     JObject [(''symbol'', JString symbol), (''qty'', JString (format_decimal_quantity quantity)),
       (''side'', JString (alpaca_order_side_label side)), (''type'', JString ''market''), (''time_in_force'', JString ''day''),
       (''client_order_id'', JString client_order_id)]"

definition alpaca_submit_remote_order ::
    "'w Web \<Rightarrow> Clock \<Rightarrow> AlpacaDecoders \<Rightarrow> ConnectorAccount \<Rightarrow> ExecutionRequest \<Rightarrow> ('w, AcceptedOrder) remote_op" where
  "alpaca_submit_remote_order web clock dec account request =
     (case paper_submit request of Inl error \<Rightarrow> fail (OrderSubmission Alpaca (execution_error_text error))
      | Inr accepted_stub \<Rightarrow>
          (let side = ao_side accepted_stub; base_url = alpaca_reconciliation_base_url account in
           with_credentials web Alpaca account ''alpaca-submit-order'' (\<lambda>api_key api_secret.
           then_do (request_json web clock OrderSubmission Alpaca ''order submission'' ''submit order'' (alpaca_submitted_order dec)
             \<lparr>hr_method = ''POST'', hr_url = base_url @ ''/v2/orders'', hr_query = [], hr_headers = alpaca_headers api_key api_secret,
              hr_json = Some (alpaca_order_body (er_symbol request) (er_quantity request) side
                (deterministic_remote_client_order_id web Alpaca request))\<rparr>) (\<lambda>order_payload.
           await_order Alpaca alu_client_order_id alu_status alpaca_order_status_is_terminal
             (\<lambda>payload. accepted_order_from_alpaca_payload payload side (er_price request))
             (\<lambda>payload. alpaca_get web clock OrderSubmission ''order status'' (alpaca_submitted_order dec) api_key api_secret
                (base_url @ ''/v2/orders/'' @ alu_id payload) [])
             ORDER_STATUS_POLL_ATTEMPTS order_payload))))"

end
