(* ===== verification/Binance.thy ===== *)
theory Binance
  imports Alpaca
begin

section \<open>The Binance connector (openticker-connectors/src/connectors/binance)\<close>

text \<open>
  The remote operations of the Binance connector over the requests of the theory Web: klines, order
  payloads with their fills and commissions, account snapshots and exchange filters, and each operation
  with its signed or plain requests in order. A kline row is a list of \<open>serde_json\<close> values;
  \<open>BinanceDecoders\<close> are the decoders that \<open>serde\<close> derives for the payload types.
\<close>

subsection \<open>Payloads\<close>

record BinanceSubmittedOrderFillPayload =
  bf_price :: f64
  bf_qty :: f64
  bf_commission :: "f64 option"
  bf_commission_asset :: "string option"

record BinanceSubmittedOrderPayload =
  bo_symbol :: string
  bo_client_order_id :: string
  bo_status :: string
  bo_executed_qty :: f64
  bo_cumulative_quote_qty :: "f64 option"
  bo_fills :: "BinanceSubmittedOrderFillPayload list"

record BinanceOpenOrderPayload =
  bn_client_order_id :: string
  bn_symbol :: string
  bn_status :: string
  bn_orig_qty :: f64

record BinanceBalancePayload =
  bb_asset :: string
  bb_free :: f64
  bb_locked :: f64

record BinanceAccountPayload =
  ba_balances :: "BinanceBalancePayload list"

record BinanceExchangeFilterPayload =
  bx_filter_type :: string
  bx_min_qty :: "string option"
  bx_step_size :: "string option"
  bx_min_notional :: "string option"

record BinanceExchangeSymbolPayload =
  by_symbol :: string
  by_status :: string
  by_filters :: "BinanceExchangeFilterPayload list"

record BinanceExchangeInfoPayload =
  bi_symbols :: "BinanceExchangeSymbolPayload list"

record BinanceDecoders =
  bd_rows :: "string option \<Rightarrow> string + Json list list"
  bd_orders :: "string option \<Rightarrow> string + BinanceOpenOrderPayload list"
  bd_account :: "string option \<Rightarrow> string + BinanceAccountPayload"
  bd_exchange :: "string option \<Rightarrow> string + BinanceExchangeInfoPayload"
  bd_submitted :: "string option \<Rightarrow> string + BinanceSubmittedOrderPayload"

subsection \<open>Klines (klines.rs)\<close>

definition binance_refused :: "string \<Rightarrow> ConnectorError + 'a" where
  "binance_refused detail = Inl (RemoteSnapshot Binance detail)"

fun value_to_i64 :: "Json \<Rightarrow> string \<Rightarrow> ConnectorError + int" where
  "value_to_i64 (JInt n) field = (case json_as_i64 n of
     None \<Rightarrow> binance_refused (''field `'' @ field @ ''` is not an i64-compatible number'') | Some v \<Rightarrow> Inr v)"
| "value_to_i64 (JNumber x) field = binance_refused (''field `'' @ field @ ''` is not an i64-compatible number'')"
| "value_to_i64 (JString raw) field = (case parse_i64 raw of
     None \<Rightarrow> binance_refused (''field `'' @ field @ ''` is not a valid integer: `'' @ raw @ ''`'') | Some v \<Rightarrow> Inr v)"
| "value_to_i64 _ field = binance_refused (''field `'' @ field @ ''` must be string or number'')"

fun value_to_f64 :: "Json \<Rightarrow> string \<Rightarrow> ConnectorError + f64" where
  "value_to_f64 (JInt n) field = Inr (f64_rnd (of_int n))"
| "value_to_f64 (JNumber x) field = Inr x"
| "value_to_f64 (JString raw) field = (case parse_f64 raw of
     None \<Rightarrow> binance_refused (''field `'' @ field @ ''` is not a valid decimal: `'' @ raw @ ''`'') | Some v \<Rightarrow> Inr v)"
| "value_to_f64 _ field = binance_refused (''field `'' @ field @ ''` must be string or number'')"

fun values_to_f64 :: "(Json \<times> string) list \<Rightarrow> ConnectorError + f64 list" where
  "values_to_f64 [] = Inr []"
| "values_to_f64 ((v, field) # rest) =
     (case value_to_f64 v field of Inl e \<Rightarrow> Inl e
      | Inr x \<Rightarrow> (case values_to_f64 rest of Inl e \<Rightarrow> Inl e | Inr xs \<Rightarrow> Inr (x # xs)))"

definition parse_kline_row_with_close_time :: "Clock \<Rightarrow> Json list \<Rightarrow> ConnectorError + OhlcvBar \<times> int" where
  "parse_kline_row_with_close_time clock row =
     (if length row < 6 then binance_refused (''kline row expected at least 6 fields, got '' @ show_int (int (length row)))
      else case value_to_i64 (row ! 0) ''open_time_ms'' of Inl e \<Rightarrow> Inl e
      | Inr open_time_ms \<Rightarrow>
          (case timestamp_of_millis clock open_time_ms of
             None \<Rightarrow> binance_refused (''kline open time `'' @ show_int open_time_ms @ ''` is not a valid timestamp'')
           | Some time \<Rightarrow>
               (case (if 7 \<le> length row then value_to_i64 (row ! 6) ''close_time_ms'' else Inr open_time_ms) of Inl e \<Rightarrow> Inl e
                | Inr close_time_ms \<Rightarrow>
                    (case values_to_f64 [(row ! 1, ''open''), (row ! 2, ''high''), (row ! 3, ''low''), (row ! 4, ''close''), (row ! 5, ''volume'')] of
                       Inl e \<Rightarrow> Inl e
                     | Inr xs \<Rightarrow> Inr (\<lparr>bar_timestamp = time, bar_open = xs ! 0, bar_high = xs ! 1, bar_low = xs ! 2, bar_close = xs ! 3,
                         bar_volume = xs ! 4\<rparr>, close_time_ms)))))"

text \<open>The bars of the rows that pass a test; the first malformed row is the result.\<close>

fun bars_of_rows :: "Clock \<Rightarrow> (OhlcvBar \<Rightarrow> int \<Rightarrow> bool) \<Rightarrow> Json list list \<Rightarrow> ConnectorError + OhlcvBar list" where
  "bars_of_rows clock keep [] = Inr []"
| "bars_of_rows clock keep (row # rows) =
     (case parse_kline_row_with_close_time clock row of Inl e \<Rightarrow> Inl e
      | Inr (bar, close_time_ms) \<Rightarrow>
          (case bars_of_rows clock keep rows of Inl e \<Rightarrow> Inl e
           | Inr bars \<Rightarrow> Inr (if keep bar close_time_ms then bar # bars else bars)))"

definition normalize_recent_binance_klines :: "Clock \<Rightarrow> Json list list \<Rightarrow> nat \<Rightarrow> int \<Rightarrow> ConnectorError + OhlcvBar list" where
  "normalize_recent_binance_klines clock rows limit now_ms =
     map_sum id (\<lambda>bars. drop (length bars - limit) bars) (bars_of_rows clock (\<lambda>_ close_time_ms. close_time_ms < now_ms) rows)"

definition latest_confirmed_binance_bar :: "Clock \<Rightarrow> Json list list \<Rightarrow> int \<Rightarrow> ConnectorError + OhlcvBar option" where
  "latest_confirmed_binance_bar clock rows now_ms =
     map_sum id (\<lambda>bars. case bars of [] \<Rightarrow> None | bar # _ \<Rightarrow> Some bar) (normalize_recent_binance_klines clock rows 1 now_ms)"

fun binance_interval_label :: "Timeframe \<Rightarrow> string" where
  "binance_interval_label M1 = ''1m''"
| "binance_interval_label M5 = ''5m''"
| "binance_interval_label M15 = ''15m''"
| "binance_interval_label M30 = ''30m''"
| "binance_interval_label H1 = ''1h''"
| "binance_interval_label H4 = ''4h''"
| "binance_interval_label D1 = ''1d''"

subsection \<open>Orders (orders.rs)\<close>

definition format_binance_quantity :: "f64 \<Rightarrow> ConnectorError + string" where
  "format_binance_quantity x =
     (if \<not> is_finite x then Inl (OrderSubmission Binance (''order quantity `'' @ show_f64 x @ ''` is not a finite number''))
      else if x \<le> 0 then Inr ''0''
      else let scale = f64_rnd 100000000;
               floored = f64_floor (x * scale + f64_rnd (1 / 1000000)) / scale in
        Inr (trim_decimal (format_fixed 8 floored)))"

definition ends_with :: "string \<Rightarrow> string \<Rightarrow> bool" where
  "ends_with s t \<longleftrightarrow> length t \<le> length s \<and> drop (length s - length t) s = t"

definition usd_quote_asset_from_symbol :: "string \<Rightarrow> string option" where
  "usd_quote_asset_from_symbol symbol = find (ends_with symbol) [''USDT'', ''USDC'', ''FDUSD'', ''BUSD'', ''USD'']"

definition base_asset_from_symbol :: "string \<Rightarrow> string option" where
  "base_asset_from_symbol symbol =
     map_option (\<lambda>quote. take (length symbol - length quote) symbol) (usd_quote_asset_from_symbol symbol)"

definition base_commission :: "string \<Rightarrow> BinanceSubmittedOrderFillPayload \<Rightarrow> f64 option" where
  "base_commission symbol fill =
     (case bf_commission_asset fill of None \<Rightarrow> None
      | Some asset \<Rightarrow> if length asset \<le> length symbol \<and> eq_ignore_ascii_case (take (length asset) symbol) asset
          then bf_commission fill else None)"

definition net_quantity_from_binance_payload :: "BinanceSubmittedOrderPayload \<Rightarrow> OrderSide \<Rightarrow> f64" where
  "net_quantity_from_binance_payload payload side =
     (if side \<noteq> BuySide then f64_max (bo_executed_qty payload) 0
      else f64_max (bo_executed_qty payload - foldl (+) 0 (List.map_filter (base_commission (bo_symbol payload)) (bo_fills payload))) 0)"

record FeeTotals =
  ft_asset :: "string option"
  ft_amount :: f64
  ft_mixed_assets :: bool
  ft_normalized_usd :: f64
  ft_has_normalized :: bool

definition normalized_fee :: "string \<Rightarrow> f64 \<Rightarrow> string \<Rightarrow> f64 \<Rightarrow> f64 option" where
  "normalized_fee symbol fill_price asset commission =
     (if (case usd_quote_asset_from_symbol symbol of None \<Rightarrow> False | Some quote \<Rightarrow> eq_ignore_ascii_case quote asset) then Some commission
      else if (case base_asset_from_symbol symbol of None \<Rightarrow> False | Some base \<Rightarrow> eq_ignore_ascii_case base asset)
        \<and> is_finite fill_price \<and> f64_epsilon < fill_price then Some (commission * fill_price)
      else None)"

definition add_fill_fee :: "string \<Rightarrow> f64 \<Rightarrow> FeeTotals \<Rightarrow> BinanceSubmittedOrderFillPayload \<Rightarrow> FeeTotals" where
  "add_fill_fee symbol fill_price totals fill =
     (case (bf_commission_asset fill, bf_commission fill) of
        (Some asset, Some commission) \<Rightarrow>
          if \<not> (is_finite commission \<and> 0 < commission) then totals
          else \<lparr>ft_asset = (case ft_asset totals of None \<Rightarrow> Some asset | Some existing \<Rightarrow> Some existing),
            ft_amount = ft_amount totals + commission,
            ft_mixed_assets = (ft_mixed_assets totals \<or> (case ft_asset totals of None \<Rightarrow> False | Some existing \<Rightarrow> existing \<noteq> asset)),
            ft_normalized_usd = (case normalized_fee symbol fill_price asset commission of None \<Rightarrow> ft_normalized_usd totals
              | Some fee \<Rightarrow> ft_normalized_usd totals + fee),
            ft_has_normalized = (ft_has_normalized totals \<or> normalized_fee symbol fill_price asset commission \<noteq> None)\<rparr>
      | _ \<Rightarrow> totals)"

definition fee_details_from_binance_payload ::
    "BinanceSubmittedOrderPayload \<Rightarrow> f64 \<Rightarrow> string option \<times> f64 option \<times> f64 option" where
  "fee_details_from_binance_payload payload fill_price =
     (let totals = foldl (add_fill_fee (bo_symbol payload) fill_price)
        \<lparr>ft_asset = None, ft_amount = 0, ft_mixed_assets = False, ft_normalized_usd = 0, ft_has_normalized = False\<rparr> (bo_fills payload) in
      (if ft_mixed_assets totals then None else ft_asset totals,
       if \<not> ft_mixed_assets totals \<and> f64_epsilon < ft_amount totals then Some (ft_amount totals) else None,
       if ft_has_normalized totals then Some (ft_normalized_usd totals) else None))"

definition binance_fill_price :: "BinanceSubmittedOrderPayload \<Rightarrow> f64 \<Rightarrow> f64" where
  "binance_fill_price payload fallback_price =
     (let (notional_sum, qty_sum) = foldl (\<lambda>(n, q) fill. (n + bf_price fill * bf_qty fill, q + bf_qty fill)) (0, 0) (bo_fills payload) in
      if f64_epsilon < qty_sum then notional_sum / qty_sum
      else case bo_cumulative_quote_qty payload of
        Some quote_qty \<Rightarrow> if f64_epsilon < quote_qty then quote_qty / bo_executed_qty payload else f64_max fallback_price 0
      | None \<Rightarrow> f64_max fallback_price 0)"

definition accepted_order_from_binance_payload :: "BinanceSubmittedOrderPayload \<Rightarrow> OrderSide \<Rightarrow> f64 \<Rightarrow> AcceptedOrder option" where
  "accepted_order_from_binance_payload payload side fallback_price =
     (let accepted_quantity = net_quantity_from_binance_payload payload side in
      if accepted_quantity \<le> f64_epsilon then None
      else let fill_price = binance_fill_price payload fallback_price;
               (fee_asset, fee_amount, fee_normalized_usd) = fee_details_from_binance_payload payload fill_price in
        Some \<lparr>ao_client_order_id = bo_client_order_id payload, ao_side = side, ao_order_type = Market, ao_price = fill_price,
          ao_quantity = accepted_quantity, ao_fee_asset = fee_asset, ao_fee_amount = fee_amount,
          ao_fee_normalized_usd = fee_normalized_usd\<rparr>)"

definition binance_order_status_is_terminal :: "string \<Rightarrow> bool" where
  "binance_order_status_is_terminal status \<longleftrightarrow> status \<in> {''FILLED'', ''CANCELED'', ''REJECTED'', ''EXPIRED'', ''EXPIRED_IN_MATCH''}"

fun binance_order_side_label :: "OrderSide \<Rightarrow> string" where
  "binance_order_side_label BuySide = ''BUY''"
| "binance_order_side_label SellSide = ''SELL''"

subsection \<open>Snapshots and exchange filters (snapshot.rs)\<close>

definition parse_positive_decimal :: "string option \<Rightarrow> f64 option" where
  "parse_positive_decimal raw =
     (case Option.bind raw parse_f64 of None \<Rightarrow> None | Some x \<Rightarrow> if is_finite x \<and> 0 < x then Some x else None)"

definition apply_exchange_filter :: "ConnectorSymbolConstraints \<Rightarrow> BinanceExchangeFilterPayload \<Rightarrow> ConnectorSymbolConstraints" where
  "apply_exchange_filter constraints exchange_filter =
     (if bx_filter_type exchange_filter = ''LOT_SIZE'' then
        constraints\<lparr>csc_quantity_step := (case parse_positive_decimal (bx_step_size exchange_filter) of
            None \<Rightarrow> csc_quantity_step constraints | Some v \<Rightarrow> Some v),
          csc_min_quantity := (case parse_positive_decimal (bx_min_qty exchange_filter) of
            None \<Rightarrow> csc_min_quantity constraints | Some v \<Rightarrow> Some v)\<rparr>
      else if bx_filter_type exchange_filter \<in> {''MIN_NOTIONAL'', ''NOTIONAL''} then
        constraints\<lparr>csc_min_notional_usd := (case parse_positive_decimal (bx_min_notional exchange_filter) of
            None \<Rightarrow> csc_min_notional_usd constraints
          | Some v \<Rightarrow> Some (case csc_min_notional_usd constraints of None \<Rightarrow> v | Some current \<Rightarrow> f64_max current v))\<rparr>
      else constraints)"

definition extract_symbol_constraints :: "BinanceExchangeInfoPayload \<Rightarrow> string \<Rightarrow> ConnectorError + ConnectorSymbolConstraints" where
  "extract_symbol_constraints payload symbol =
     (case find (\<lambda>entry. by_symbol entry = symbol) (bi_symbols payload) of
        None \<Rightarrow> binance_refused (''exchangeInfo did not include symbol `'' @ sanitize_symbol_for_error symbol @ ''`'')
      | Some entry \<Rightarrow>
          if \<not> eq_ignore_ascii_case (by_status entry) ''TRADING''
          then binance_refused (''symbol `'' @ sanitize_symbol_for_error symbol @ ''` is not trading (status='' @ by_status entry @ '')'')
          else Inr ((foldl apply_exchange_filter ConnectorSymbolConstraints_default (by_filters entry))\<lparr>csc_source := Some ''binance_exchange_info''\<rparr>))"

definition binance_normalize_orders :: "BinanceOpenOrderPayload list \<Rightarrow> ConnectorOpenOrder list" where
  "binance_normalize_orders = map (\<lambda>order. \<lparr>co_client_order_id = bn_client_order_id order, co_symbol = bn_symbol order,
     co_status = bn_status order, co_quantity = bn_orig_qty order\<rparr>)"

definition is_binance_cash_asset :: "string \<Rightarrow> bool" where
  "is_binance_cash_asset asset \<longleftrightarrow> asset \<in> {''USD'', ''USDT'', ''USDC'', ''BUSD''}"

definition binance_normalize_positions :: "BinanceBalancePayload list \<Rightarrow> ConnectorPosition list" where
  "binance_normalize_positions = List.map_filter (\<lambda>balance.
     if \<bar>bb_free balance + bb_locked balance\<bar> \<le> f64_epsilon \<or> is_binance_cash_asset (bb_asset balance) then None
     else Some \<lparr>cp_symbol = bb_asset balance, cp_quantity = bb_free balance + bb_locked balance\<rparr>)"

definition normalize_balances :: "BinanceBalancePayload list \<Rightarrow> ConnectorPrivateBalance list" where
  "normalize_balances = map (\<lambda>balance. \<lparr>cb_asset = bb_asset balance, cb_free = bb_free balance, cb_locked = bb_locked balance\<rparr>)"

subsection \<open>Remote operations (http.rs, connector.rs)\<close>

definition binance_reconciliation_base_url :: "ConnectorAccount \<Rightarrow> string" where
  "binance_reconciliation_base_url account = trim_end_slashes (override (ca_reconciliation_base_url account)
     (if ca_mode account = Paper \<or> ca_use_demo_mode account then ''https://demo-api.binance.com'' else ''https://api.binance.com''))"

definition binance_request ::
    "'w Web \<Rightarrow> Clock \<Rightarrow> (ConnectorKind \<Rightarrow> string \<Rightarrow> ConnectorError) \<Rightarrow> string \<Rightarrow> string \<Rightarrow> (string option \<Rightarrow> string + 'p) \<Rightarrow> string \<Rightarrow> string
     \<Rightarrow> (string \<times> string) list \<Rightarrow> (string \<times> string) list \<Rightarrow> ('w, 'p) remote_op" where
  "binance_request web clock failure sent operation decode http_method url query headers =
     request_json web clock failure Binance sent operation decode
       \<lparr>hr_method = http_method, hr_url = url, hr_query = query, hr_headers = headers, hr_json = None\<rparr>"

text \<open>A signed request: the query is part of the address, followed by its signature.\<close>

definition signed_request ::
    "'w Web \<Rightarrow> Clock \<Rightarrow> (ConnectorKind \<Rightarrow> string \<Rightarrow> ConnectorError) \<Rightarrow> string \<Rightarrow> string \<Rightarrow> (string option \<Rightarrow> string + 'p) \<Rightarrow> string
     \<Rightarrow> string \<Rightarrow> string \<Rightarrow> string \<Rightarrow> string \<Rightarrow> ('w, 'p) remote_op" where
  "signed_request web clock failure sent operation decode http_method api_key api_secret url query =
     binance_request web clock failure sent operation decode http_method
       (url @ ''?'' @ query @ ''&signature='' @ web_hmac web api_secret query) [] [(''X-MBX-APIKEY'', api_key)]"

definition binance_fetch_remote_snapshot ::
    "'w Web \<Rightarrow> Clock \<Rightarrow> BinanceDecoders \<Rightarrow> ConnectorAccount \<Rightarrow> ('w, ConnectorAccountSnapshot) remote_op" where
  "binance_fetch_remote_snapshot web clock dec account =
     (let base_url = binance_reconciliation_base_url account in
      with_credentials web Binance account ''binance-remote-snapshot'' (\<lambda>api_key api_secret.
      then_do (unix_now_ms clock) (\<lambda>now_ms.
      let query = ''recvWindow=5000&timestamp='' @ show_int now_ms in
      then_do (signed_request web clock RemoteSnapshot ''open orders'' ''open orders'' (bd_orders dec) ''GET'' api_key api_secret
        (base_url @ ''/api/v3/openOrders'') query) (\<lambda>open_orders_payload.
      then_do (signed_request web clock RemoteSnapshot ''account'' ''account'' (bd_account dec) ''GET'' api_key api_secret
        (base_url @ ''/api/v3/account'') query) (\<lambda>account_payload.
      ok \<lparr>cs_open_orders = binance_normalize_orders open_orders_payload,
          cs_positions = binance_normalize_positions (ba_balances account_payload),
          cs_balances = normalize_balances (ba_balances account_payload)\<rparr>)))))"

definition kline_query :: "string \<Rightarrow> Timeframe \<Rightarrow> string \<Rightarrow> (string \<times> string) list" where
  "kline_query symbol timeframe limit =
     [(''symbol'', symbol), (''interval'', binance_interval_label timeframe), (''limit'', limit)]"

definition fetch_klines ::
    "'w Web \<Rightarrow> Clock \<Rightarrow> BinanceDecoders \<Rightarrow> ConnectorAccount \<Rightarrow> string \<Rightarrow> (string \<times> string) list \<Rightarrow> ('w, Json list list) remote_op" where
  "fetch_klines web clock dec account operation query =
     binance_request web clock RemoteSnapshot operation operation (bd_rows dec) ''GET''
       (binance_reconciliation_base_url account @ ''/api/v3/klines'') query []"

definition binance_fetch_remote_latest_bar ::
    "'w Web \<Rightarrow> Clock \<Rightarrow> BinanceDecoders \<Rightarrow> ConnectorAccount \<Rightarrow> string \<Rightarrow> Timeframe \<Rightarrow> ('w, OhlcvBar) remote_op" where
  "binance_fetch_remote_latest_bar web clock dec account symbol timeframe =
     without_credentials web Binance ''binance-latest-bar''
       (then_do (unix_now_ms clock) (\<lambda>now_ms.
        then_do (fetch_klines web clock dec account ''latest kline'' (kline_query symbol timeframe ''2'')) (\<lambda>rows.
        case latest_confirmed_binance_bar clock rows now_ms of Inl e \<Rightarrow> fail e
        | Inr None \<Rightarrow> fail (RemoteSnapshot Binance
            (''latest kline response did not include confirmed data for `'' @ sanitize_symbol_for_error symbol @ ''`''))
        | Inr (Some bar) \<Rightarrow> ok bar)))"

definition binance_fetch_remote_recent_bars ::
    "'w Web \<Rightarrow> Clock \<Rightarrow> BinanceDecoders \<Rightarrow> ConnectorAccount \<Rightarrow> string \<Rightarrow> Timeframe \<Rightarrow> nat \<Rightarrow> ('w, OhlcvBar list) remote_op" where
  "binance_fetch_remote_recent_bars web clock dec account symbol timeframe limit =
     (if limit = 0 then ok []
      else without_credentials web Binance ''binance-recent-bars''
        (then_do (fetch_klines web clock dec account ''recent kline''
            (kline_query symbol timeframe (show_int (int (min (limit + 1) 1000))))) (\<lambda>rows.
         then_do (unix_now_ms clock) (\<lambda>now_ms.
         case normalize_recent_binance_klines clock rows limit now_ms of Inl e \<Rightarrow> fail e | Inr bars \<Rightarrow> ok bars))))"

definition binance_fetch_remote_latest_confirmed_bar_timestamp ::
    "'w Web \<Rightarrow> Clock \<Rightarrow> BinanceDecoders \<Rightarrow> ConnectorAccount \<Rightarrow> string \<Rightarrow> Timeframe \<Rightarrow> ('w, timestamp option) remote_op" where
  "binance_fetch_remote_latest_confirmed_bar_timestamp web clock dec account symbol timeframe =
     then_do (binance_fetch_remote_latest_bar web clock dec account symbol timeframe) (\<lambda>bar. ok (Some (bar_timestamp bar)))"

definition in_range :: "timestamp option \<Rightarrow> timestamp \<Rightarrow> OhlcvBar \<Rightarrow> bool" where
  "in_range start_after end_at bar \<longleftrightarrow> bar_timestamp bar \<le> end_at
     \<and> (case start_after of None \<Rightarrow> True | Some start \<Rightarrow> start < bar_timestamp bar)"

definition binance_range_query :: "string \<Rightarrow> Timeframe \<Rightarrow> nat \<Rightarrow> timestamp option \<Rightarrow> timestamp \<Rightarrow> (string \<times> string) list" where
  "binance_range_query symbol timeframe requested start_after end_at =
     (let timeframe_ms = max (Timeframe_duration timeframe div 1000000) 1 in
      kline_query symbol timeframe (show_int (int requested))
      @ [(''endTime'', show_int (sat_i64 (timestamp_millis end_at + (timeframe_ms - 1))))]
      @ (case start_after of None \<Rightarrow> [] | Some time \<Rightarrow> [(''startTime'', show_int (sat_i64 (timestamp_millis time + 1)))]))"

definition binance_fetch_remote_confirmed_bars_range ::
    "'w Web \<Rightarrow> Clock \<Rightarrow> BinanceDecoders \<Rightarrow> ConnectorAccount \<Rightarrow> string \<Rightarrow> Timeframe \<Rightarrow> timestamp option \<Rightarrow> timestamp \<Rightarrow> nat
     \<Rightarrow> ('w, ConfirmedBarPage) remote_op" where
  "binance_fetch_remote_confirmed_bars_range web clock dec account symbol timeframe start_after end_at limit =
     (if limit = 0 then ok \<lparr>cbp_bars = [], cbp_exhausted = False\<rparr>
      else if (case start_after of None \<Rightarrow> False | Some start \<Rightarrow> end_at \<le> start) then ok \<lparr>cbp_bars = [], cbp_exhausted = True\<rparr>
      else let requested = min limit 1000 in
        without_credentials web Binance ''binance-confirmed-bars-range''
          (then_do (fetch_klines web clock dec account ''confirmed range'' (binance_range_query symbol timeframe requested start_after end_at)) (\<lambda>rows.
           then_do (unix_now_ms clock) (\<lambda>now_ms.
           case bars_of_rows clock (\<lambda>bar close_time_ms. close_time_ms < now_ms \<and> in_range start_after end_at bar) rows of
             Inl e \<Rightarrow> fail e
           | Inr bars \<Rightarrow> ok (page_of requested end_at (sort_key bar_timestamp bars))))))"

definition binance_fetch_remote_symbol_constraints ::
    "'w Web \<Rightarrow> Clock \<Rightarrow> BinanceDecoders \<Rightarrow> ConnectorAccount \<Rightarrow> string \<Rightarrow> ('w, ConnectorSymbolConstraints) remote_op" where
  "binance_fetch_remote_symbol_constraints web clock dec account symbol =
     without_credentials web Binance ''binance-symbol-constraints''
       (then_do (binance_request web clock RemoteSnapshot ''exchangeInfo'' ''exchangeInfo'' (bd_exchange dec) ''GET''
           (binance_reconciliation_base_url account @ ''/api/v3/exchangeInfo'') [(''symbol'', symbol)] []) (\<lambda>payload.
        case extract_symbol_constraints payload symbol of Inl e \<Rightarrow> fail e | Inr constraints \<Rightarrow> ok constraints))"

definition submit_binance_market_order ::
    "'w Web \<Rightarrow> Clock \<Rightarrow> BinanceDecoders \<Rightarrow> string \<Rightarrow> string \<Rightarrow> string \<Rightarrow> string \<Rightarrow> string \<Rightarrow> string \<Rightarrow> string
     \<Rightarrow> ('w, BinanceSubmittedOrderPayload) remote_op" where
  "submit_binance_market_order web clock dec base_url api_key api_secret symbol side quantity client_order_id =
     then_do (unix_now_ms clock) (\<lambda>now_ms.
     signed_request web clock OrderSubmission ''order submission'' ''submit order'' (bd_submitted dec) ''POST'' api_key api_secret
       (base_url @ ''/api/v3/order'')
       (''symbol='' @ symbol @ ''&side='' @ side @ ''&type=MARKET&quantity='' @ quantity @ ''&newClientOrderId='' @ client_order_id
        @ ''&newOrderRespType=FULL&recvWindow=5000&timestamp='' @ show_int now_ms))"

definition fetch_binance_order_status ::
    "'w Web \<Rightarrow> Clock \<Rightarrow> BinanceDecoders \<Rightarrow> string \<Rightarrow> string \<Rightarrow> string \<Rightarrow> string \<Rightarrow> string \<Rightarrow> ('w, BinanceSubmittedOrderPayload) remote_op" where
  "fetch_binance_order_status web clock dec base_url api_key api_secret symbol client_order_id =
     then_do (unix_now_ms clock) (\<lambda>now_ms.
     signed_request web clock OrderSubmission ''order status'' ''order status'' (bd_submitted dec) ''GET'' api_key api_secret
       (base_url @ ''/api/v3/order'')
       (''symbol='' @ symbol @ ''&origClientOrderId='' @ client_order_id @ ''&recvWindow=5000&timestamp='' @ show_int now_ms))"

definition binance_submit_remote_order ::
    "'w Web \<Rightarrow> Clock \<Rightarrow> BinanceDecoders \<Rightarrow> ConnectorAccount \<Rightarrow> ExecutionRequest \<Rightarrow> ('w, AcceptedOrder) remote_op" where
  "binance_submit_remote_order web clock dec account request =
     (case paper_submit request of Inl error \<Rightarrow> fail (OrderSubmission Binance (execution_error_text error))
      | Inr accepted_stub \<Rightarrow>
          (let side = ao_side accepted_stub; base_url = binance_reconciliation_base_url account in
           with_credentials web Binance account ''binance-submit-order'' (\<lambda>api_key api_secret.
           case format_binance_quantity (er_quantity request) of Inl e \<Rightarrow> fail e
           | Inr quantity \<Rightarrow>
               then_do (submit_binance_market_order web clock dec base_url api_key api_secret (er_symbol request)
                 (binance_order_side_label side) quantity (deterministic_remote_client_order_id web Binance request)) (\<lambda>order_payload.
               await_order Binance bo_client_order_id bo_status binance_order_status_is_terminal
                 (\<lambda>payload. accepted_order_from_binance_payload payload side (er_price request))
                 (\<lambda>payload. fetch_binance_order_status web clock dec base_url api_key api_secret (er_symbol request) (bo_client_order_id payload))
                 ORDER_STATUS_POLL_ATTEMPTS order_payload))))"

subsection \<open>Accepted orders\<close>

lemma workflow_result:
  "then_do m k s = (Inr a, s') \<longleftrightarrow> (\<exists>b s1. m s = (Inr b, s1) \<and> k b s1 = (Inr a, s'))"
  by (auto simp: then_do_def split: sum.splits prod.splits)

lemma session_result:
  "with_credentials web kind account operation task o' = (Inr a, o'') \<Longrightarrow> \<exists>k s o1. task k s o1 = (Inr a, o'')"
  "without_credentials web kind operation task' o' = (Inr a, o'') \<Longrightarrow> \<exists>o1. task' o1 = (Inr a, o'')"
  by (fastforce simp: with_credentials_def without_credentials_def workflow_result default_blocking_http_client_def run_in_blocking_thread_def
      split: sum.splits option.splits)+

definition fill_of :: "ExecutionRequest \<Rightarrow> AcceptedOrder \<Rightarrow> bool" where
  "fill_of request accepted \<longleftrightarrow> \<not> ao_quantity accepted \<le> f64_epsilon \<and> ao_order_type accepted = Market
     \<and> (case paper_submit request of Inl _ \<Rightarrow> False | Inr stub \<Rightarrow> ao_side accepted = ao_side stub)"

lemma payload_fill:
  "accepted_order_from_alpaca_payload p side price = Some accepted \<Longrightarrow>
     \<not> ao_quantity accepted \<le> f64_epsilon \<and> ao_order_type accepted = Market \<and> ao_side accepted = side"
  "accepted_order_from_binance_payload q side price = Some accepted \<Longrightarrow>
     \<not> ao_quantity accepted \<le> f64_epsilon \<and> ao_order_type accepted = Market \<and> ao_side accepted = side"
  by (auto simp: accepted_order_from_alpaca_payload_def accepted_order_from_binance_payload_def Let_def split: if_splits prod.splits)

text \<open>A remote order is accepted only for what was filled: when a submission to Alpaca or to Binance succeeds,
  whatever the provider answered in between, the request was executable and the accepted order is a market
  order of its side with a filled quantity above machine epsilon (or not a number, where the provider
  reported none).
\<close>

lemma remote_orders_fill:
  "alpaca_submit_remote_order web clock adec account request o' = (Inr accepted, o'') \<Longrightarrow> fill_of request accepted"
  "binance_submit_remote_order web clock bdec account request o' = (Inr accepted, o'') \<Longrightarrow> fill_of request accepted"
proof -
  assume run: "alpaca_submit_remote_order web clock adec account request o' = (Inr accepted, o'')"
  show "fill_of request accepted"
  proof (cases "paper_submit request")
    case (Inr stub)
    with run show ?thesis
      by (auto simp: alpaca_submit_remote_order_def Let_def fill_of_def workflow_result simp del: await_order.simps
          dest!: session_result(1) await_order_accepts payload_fill(1))
  qed (use run in \<open>simp add: alpaca_submit_remote_order_def\<close>)
next
  assume run: "binance_submit_remote_order web clock bdec account request o' = (Inr accepted, o'')"
  show "fill_of request accepted"
  proof (cases "paper_submit request")
    case (Inr stub)
    with run show ?thesis
      by (auto simp: binance_submit_remote_order_def Let_def fill_of_def workflow_result simp del: await_order.simps
          split: sum.splits dest!: session_result(1) await_order_accepts payload_fill(2))
  qed (use run in \<open>simp add: binance_submit_remote_order_def\<close>)
qed

subsection \<open>Confirmed pages\<close>

lemma kept_rows: "bars_of_rows clock keep rows = Inr bars \<Longrightarrow> bar \<in> set bars \<Longrightarrow> \<exists>close_ms. keep bar close_ms"
  by (induction rows arbitrary: bars) (auto split: sum.splits prod.splits if_splits)

lemma checked_result:
  "(case x of Inl e \<Rightarrow> fail e | Inr b \<Rightarrow> ok (f b)) s = (Inr a, s') \<longleftrightarrow> (\<exists>b. x = Inr b \<and> a = f b \<and> s' = s)"
  by (cases x) auto

text \<open>A page is what its range asks for: bars of the range only, and exhausted when it is short or reaches the end.\<close>

definition page_answers :: "timestamp option \<Rightarrow> timestamp \<Rightarrow> ConfirmedBarPage \<Rightarrow> bool" where
  "page_answers start_after end_at page \<longleftrightarrow> list_all (in_range start_after end_at) (cbp_bars page)
     \<and> (if cbp_bars page = [] then True else bar_timestamp (last (cbp_bars page)) < end_at \<or> cbp_exhausted page)"

lemma page_of_answers: "list_all (in_range start_after end_at) bars \<Longrightarrow> page_answers start_after end_at (page_of n end_at bars)"
  by (auto simp: page_answers_def page_of_def)

text \<open>C17: A page of confirmed bars answers its request: when Alpaca or Binance returns a page, every bar of it
  starts after the requested start and not after the requested end; a page whose last bar reaches the
  end says that it is exhausted; a page of Binance is in the order of time, and a page of Alpaca has at
  most as many bars as requested. A request for no bars, or for an empty range, sends nothing.
\<close>

theorem confirmed_pages_answer_requests:
  "(case alpaca_fetch_remote_confirmed_bars_range web clock adec account symbol timeframe start_after end_at limit o' of
      (Inr page, o'') \<Rightarrow> page_answers start_after end_at page \<and> length (cbp_bars page) \<le> limit
        \<and> (if limit = 0 then o'' = o' else True)
    | _ \<Rightarrow> True)
   \<and> (case binance_fetch_remote_confirmed_bars_range web clock bdec account symbol timeframe start_after end_at limit o' of
      (Inr page, o'') \<Rightarrow> page_answers start_after end_at page \<and> sorted (map bar_timestamp (cbp_bars page))
        \<and> (if limit = 0 then o'' = o' else True)
    | _ \<Rightarrow> True)"
proof (rule conjI)
  have taken: "list_all (in_range start_after end_at) (normalize_confirmed_alpaca_range_bars bars timeframe end_at start_after limit now)"
    "length (normalize_confirmed_alpaca_range_bars bars timeframe end_at start_after limit now) \<le> limit" for bars now
    by (auto simp: normalize_confirmed_alpaca_range_bars_def list_all_iff in_range_def dest: in_set_takeD)
  have "page_answers start_after end_at page \<and> length (cbp_bars page) \<le> limit \<and> (if limit = 0 then o'' = o' else True)"
    if "alpaca_fetch_remote_confirmed_bars_range web clock adec account symbol timeframe start_after end_at limit o' = (Inr page, o'')" for page o''
    using that taken page_of_answers
    by (auto simp: alpaca_fetch_remote_confirmed_bars_range_def Let_def workflow_result utc_now_def page_answers_def [of _ _ "\<lparr>cbp_bars = [], cbp_exhausted = _\<rparr>"]
        split: if_splits dest!: session_result(1)) (simp_all add: page_of_def)
  then show "case alpaca_fetch_remote_confirmed_bars_range web clock adec account symbol timeframe start_after end_at limit o' of
      (Inr page, o'') \<Rightarrow> page_answers start_after end_at page \<and> length (cbp_bars page) \<le> limit \<and> (if limit = 0 then o'' = o' else True)
    | _ \<Rightarrow> True" by (auto split: prod.split sum.split)
next
  have kept: "list_all (in_range start_after end_at) (sort_key bar_timestamp bars)"
    if "bars_of_rows clock (\<lambda>bar close_ms. close_ms < now_ms \<and> in_range start_after end_at bar) rows = Inr bars" for now_ms rows bars
    using kept_rows [OF that] by (auto simp: list_all_iff)
  have "page_answers start_after end_at page \<and> sorted (map bar_timestamp (cbp_bars page)) \<and> (if limit = 0 then o'' = o' else True)"
    if "binance_fetch_remote_confirmed_bars_range web clock bdec account symbol timeframe start_after end_at limit o' = (Inr page, o'')" for page o''
    using that kept page_of_answers
    by (auto simp: binance_fetch_remote_confirmed_bars_range_def Let_def workflow_result page_answers_def [of _ _ "\<lparr>cbp_bars = [], cbp_exhausted = _\<rparr>"]
        checked_result split: if_splits dest!: session_result(2)) (simp_all add: page_of_def)
  then show "case binance_fetch_remote_confirmed_bars_range web clock bdec account symbol timeframe start_after end_at limit o' of
      (Inr page, o'') \<Rightarrow> page_answers start_after end_at page \<and> sorted (map bar_timestamp (cbp_bars page)) \<and> (if limit = 0 then o'' = o' else True)
    | _ \<Rightarrow> True" by (auto split: prod.split sum.split)
qed

subsection \<open>Exchange filters\<close>

definition positive_option :: "f64 option \<Rightarrow> bool" where
  "positive_option x = (case x of None \<Rightarrow> True | Some v \<Rightarrow> is_finite v \<and> 0 < v)"

definition constraints_positive :: "ConnectorSymbolConstraints \<Rightarrow> bool" where
  "constraints_positive c \<longleftrightarrow> positive_option (csc_quantity_step c) \<and> positive_option (csc_min_quantity c) \<and> positive_option (csc_min_notional_usd c)"

lemma filters_positive: "constraints_positive c \<Longrightarrow> constraints_positive (foldl apply_exchange_filter c filters)"
proof (induction filters arbitrary: c)
  case (Cons f filters)
  have parsed: "positive_option (parse_positive_decimal raw)" for raw
    by (auto simp: positive_option_def parse_positive_decimal_def split: option.splits)
  have larger: "is_finite (f64_max a b) \<and> 0 < f64_max a b" if "is_finite a" "0 < a" "is_finite b" "0 < b" for a b
    using that by (auto simp: f64_max_def)
  from parsed [of "bx_step_size f"] parsed [of "bx_min_qty f"] parsed [of "bx_min_notional f"] Cons.prems
  have "constraints_positive (apply_exchange_filter c f)"
    by (auto simp: constraints_positive_def positive_option_def apply_exchange_filter_def larger split: option.splits)
  with Cons.IH show ?case by simp
qed simp

text \<open>The constraints read from the exchange are usable: every step and minimum is a positive number or absent.\<close>

lemma exchange_constraints_usable:
  assumes "extract_symbol_constraints payload symbol = Inr c"
  shows "constraints_positive c"
proof -
  have "constraints_positive ConnectorSymbolConstraints_default"
    by (simp add: constraints_positive_def positive_option_def ConnectorSymbolConstraints_default_def)
  then have "constraints_positive (foldl apply_exchange_filter ConnectorSymbolConstraints_default filters)" for filters
    by (rule filters_positive)
  with assms show ?thesis
    by (auto simp: extract_symbol_constraints_def binance_refused_def constraints_positive_def split: option.splits if_splits)
qed

subsection \<open>The pages of Alpaca\<close>

text \<open>The pages end when every page but the last brings a bar; a provider that hands out empty pages with a
  further token keeps the loop running.\<close>

lemma pages_end:
  assumes "\<And>token o' payload o''. fetch token o' = (Inr payload, o'') \<Longrightarrow>
    historical_alpaca_bars_for_symbol (alh_bars payload) symbol \<noteq> [] \<or> alh_next_page_token payload = None"
  shows "\<exists>r. alpaca_pages fetch symbol requested collected token o' = Some r"
proof (induction "requested - length collected" arbitrary: collected token o' rule: less_induct)
  case less
  show ?case
  proof (cases "fetch token o'")
    case (Pair result o'')
    show ?thesis
    proof (cases result)
      case (Inr payload)
      let ?page = "historical_alpaca_bars_for_symbol (alh_bars payload) symbol"
      show ?thesis
      proof (cases "requested \<le> length (collected @ ?page) \<or> alh_next_page_token payload = None")
        case False
        with assms [of token o' payload o''] Pair Inr have "?page \<noteq> []" by auto
        with False have "requested - length (collected @ ?page) < requested - length collected" by (simp add: diff_less_mono2)
        from less [OF this] False Pair Inr show ?thesis by (subst alpaca_pages.simps) (auto simp: Let_def)
      qed (use Pair Inr in \<open>subst alpaca_pages.simps, auto\<close>)
    qed (use Pair in \<open>subst alpaca_pages.simps, simp\<close>)
  qed
qed

lemma pages_may_not_end:
  assumes "\<And>token o'. fetch token o' = (Inr \<lparr>alh_bars = [], alh_next_page_token = Some next_token\<rparr>, o')" "0 < requested"
  shows "alpaca_pages fetch symbol requested [] token o' = None"
proof -
  have "\<not> (fetch = f \<and> collected = [] \<and> requested = n)" if "alpaca_pages f sym n collected token o' = Some r" for f sym n collected token o' r
  proof (rule alpaca_pages.raw_induct [OF _ that, where P = "\<lambda>f sym n collected token o' r. \<not> (fetch = f \<and> collected = [] \<and> requested = n)"])
    fix pages f sym n collected token o' r
    assume IH: "\<And>f sym n collected token o' r. pages f sym n collected token o' = Some r \<Longrightarrow> \<not> (fetch = f \<and> collected = [] \<and> requested = n)"
      and run: "(case f token o' of (Inl error, o'') \<Rightarrow> Some (Inl error, o'')
        | (Inr payload, o'') \<Rightarrow> (let collected = collected @ historical_alpaca_bars_for_symbol (alh_bars payload) sym in
            if n \<le> length collected \<or> alh_next_page_token payload = None then Some (Inr collected, o'')
            else pages f sym n collected (alh_next_page_token payload) o'')) = Some r"
    show "\<not> (fetch = f \<and> collected = [] \<and> requested = n)"
      using run assms IH [of f sym n "[]" "Some next_token" o' r] by (auto simp: historical_alpaca_bars_for_symbol_def override_def hm_get_def Let_def)
  qed
  then show ?thesis by (metis not_Some_eq)
qed

end
