(* ===== verification/BinanceStream.thy ===== *)
theory BinanceStream
  imports Binance
begin

section \<open>The Binance streams (openticker-connectors/src/connectors/binance/stream.rs)\<close>

text \<open>
  The normalisation of market and account events, and the worker that keeps a market stream connected: a
  state machine driven by commands, connection attempts, messages of the provider and elapsed back-off
  delays. The text of an event is decoded by serde, whose derived decoders are parameters; the requests
  sent on the current connection are kept in the state, so that what the provider was asked for can be
  compared with what the worker holds. The main result is that while the worker streams, the provider was
  asked for exactly the desired subscriptions.
\<close>

subsection \<open>Market events\<close>

record BinanceKlinePayload =
  kp_open_time_ms :: int
  kp_open :: f64
  kp_high :: f64
  kp_low :: f64
  kp_close :: f64
  kp_volume :: f64
  kp_interval :: "string option"
  kp_is_closed :: bool

record BinanceKlineEvent =
  ke_event_type :: string
  ke_symbol :: string
  ke_kline :: BinanceKlinePayload

record BinanceCombinedMarketEvent =
  cm_stream :: "string option"
  cm_data :: BinanceKlineEvent

record BinanceStreamControlEvent =
  sc_result :: "Json option"
  sc_id :: "int option"

record BinanceExecutionReportPayload =
  xr_symbol :: string
  xr_client_order_id :: string
  xr_status :: string
  xr_side :: string
  xr_order_quantity :: f64
  xr_cumulative_filled_quantity :: f64
  xr_last_fill_price :: "f64 option"

text \<open>The decoders serde derives for the structures above; a private balance is decoded as \<open>(asset, free, locked)\<close>.\<close>

record StreamDecoders =
  sd_combined_market :: "string \<Rightarrow> BinanceCombinedMarketEvent option"
  sd_kline :: "string \<Rightarrow> BinanceKlineEvent option"
  sd_control :: "string \<Rightarrow> BinanceStreamControlEvent option"
  sd_combined_private :: "string \<Rightarrow> Json option"
  sd_value :: "string \<Rightarrow> string + Json"
  sd_event_type :: "Json \<Rightarrow> string + string"
  sd_execution_report :: "Json \<Rightarrow> string + BinanceExecutionReportPayload"
  sd_account_position :: "Json \<Rightarrow> string + (string \<times> f64 \<times> f64) list"

definition stream_refused :: "string \<Rightarrow> ConnectorError + 'a" where
  "stream_refused detail = Inl (StreamDecode Binance detail)"

definition normalize_kline_event :: "Clock \<Rightarrow> BinanceKlineEvent \<Rightarrow> ConnectorError + NormalizedBarUpdate option" where
  "normalize_kline_event clock event =
     (if ke_event_type event \<noteq> ''kline'' then Inr None
      else let kline = ke_kline event in
        case timestamp_of_millis clock (kp_open_time_ms kline) of
          None \<Rightarrow> stream_refused (''kline open time `'' @ show_int (kp_open_time_ms kline) @ ''` is not a valid timestamp'')
        | Some time \<Rightarrow> Inr (Some \<lparr>bu_symbol = ke_symbol event, bu_phase = (if kp_is_closed kline then Confirmed else Preview),
            bu_bar = \<lparr>bar_timestamp = time, bar_open = kp_open kline, bar_high = kp_high kline, bar_low = kp_low kline,
              bar_close = kp_close kline, bar_volume = kp_volume kline\<rparr>\<rparr>))"

text \<open>\<open>rsplit\_once\<close>: what follows the last occurrence.\<close>

fun after_last :: "string \<Rightarrow> string \<Rightarrow> string option" where
  "after_last marker [] = (if marker = [] then Some [] else None)"
| "after_last marker (c # s) =
     (case after_last marker s of Some rest \<Rightarrow> Some rest
      | None \<Rightarrow> if take (length marker) (c # s) = marker then Some (drop (length marker) (c # s)) else None)"

definition binance_interval_from_stream_name :: "string \<Rightarrow> string option" where
  "binance_interval_from_stream_name stream_name = after_last ''@kline_'' stream_name"

definition binance_timeframe_from_interval :: "string \<Rightarrow> ConnectorError + Timeframe" where
  "binance_timeframe_from_interval interval =
     (if interval = ''1m'' then Inr M1
      else if interval = ''5m'' then Inr M5
      else if interval = ''15m'' then Inr M15
      else if interval = ''30m'' then Inr M30
      else if interval = ''1h'' then Inr H1
      else if interval = ''4h'' then Inr H4
      else if interval = ''1d'' then Inr D1
      else stream_refused (''unsupported Binance kline interval `'' @ interval @ ''`''))"

definition binance_stream_name :: "ConnectorMarketStreamSubscription \<Rightarrow> string" where
  "binance_stream_name subscription =
     to_ascii_lowercase (ms_symbol subscription) @ ''@kline_'' @ binance_interval_label (ms_timeframe subscription)"

definition normalize_kline_event_with_subscription ::
    "Clock \<Rightarrow> BinanceKlineEvent \<Rightarrow> string option \<Rightarrow> ConnectorError + (ConnectorMarketStreamSubscription \<times> NormalizedBarUpdate) option" where
  "normalize_kline_event_with_subscription clock event stream_name =
     (case (case kp_interval (ke_kline event) of Some interval \<Rightarrow> Some interval
            | None \<Rightarrow> Option.bind stream_name binance_interval_from_stream_name) of
        None \<Rightarrow> stream_refused ''Binance kline payload did not include an interval''
      | Some interval \<Rightarrow>
          (case binance_timeframe_from_interval interval of Inl e \<Rightarrow> Inl e
           | Inr timeframe \<Rightarrow> map_sum id (map_option (\<lambda>update. (\<lparr>ms_symbol = bu_symbol update, ms_timeframe = timeframe\<rparr>, update)))
               (normalize_kline_event clock event)))"

definition normalize_market_data_event :: "Clock \<Rightarrow> StreamDecoders \<Rightarrow> string \<Rightarrow> ConnectorError + NormalizedBarUpdate option" where
  "normalize_market_data_event clock dec payload =
     (if blank payload then Inr None
      else case sd_combined_market dec payload of
        Some combined \<Rightarrow> normalize_kline_event clock (cm_data combined)
      | None \<Rightarrow>
          (case sd_kline dec payload of
             Some raw \<Rightarrow> normalize_kline_event clock raw
           | None \<Rightarrow> stream_refused ''payload did not match Binance kline websocket schema''))"

definition normalize_market_data_event_with_subscription ::
    "Clock \<Rightarrow> StreamDecoders \<Rightarrow> string \<Rightarrow> ConnectorError + (ConnectorMarketStreamSubscription \<times> NormalizedBarUpdate) option" where
  "normalize_market_data_event_with_subscription clock dec payload =
     (if blank payload then Inr None
      else if (case sd_control dec payload of None \<Rightarrow> False | Some control \<Rightarrow> sc_result control \<noteq> None \<or> sc_id control \<noteq> None)
      then Inr None
      else case sd_combined_market dec payload of
        Some combined \<Rightarrow> normalize_kline_event_with_subscription clock (cm_data combined) (cm_stream combined)
      | None \<Rightarrow>
          (case sd_kline dec payload of
             Some raw \<Rightarrow> normalize_kline_event_with_subscription clock raw None
           | None \<Rightarrow> stream_refused ''payload did not match Binance kline websocket schema''))"

subsection \<open>Account events\<close>

datatype ConnectorPrivateStreamEvent = Order NormalizedOrderEvent | Account "ConnectorPrivateBalance list"

definition normalize_private_event_value :: "StreamDecoders \<Rightarrow> Json \<Rightarrow> ConnectorError + ConnectorPrivateStreamEvent option" where
  "normalize_private_event_value dec payload =
     (case sd_event_type dec payload of
        Inl error \<Rightarrow> stream_refused (''payload did not include Binance private event type: '' @ error)
      | Inr event_type \<Rightarrow>
          if event_type = ''executionReport'' then
            (case sd_execution_report dec payload of
               Inl error \<Rightarrow> stream_refused (''payload did not match Binance executionReport schema: '' @ error)
             | Inr event \<Rightarrow> Inr (Some (Order \<lparr>no_symbol = xr_symbol event, no_client_order_id = xr_client_order_id event,
                 no_status = xr_status event, no_side = xr_side event, no_order_quantity = xr_order_quantity event,
                 no_cumulative_filled_quantity = xr_cumulative_filled_quantity event, no_last_fill_price = xr_last_fill_price event\<rparr>)))
          else if event_type = ''outboundAccountPosition'' then
            (case sd_account_position dec payload of
               Inl error \<Rightarrow> stream_refused (''payload did not match Binance outboundAccountPosition schema: '' @ error)
             | Inr balances \<Rightarrow> Inr (Some (Account (map (\<lambda>(asset, free, locked). \<lparr>cb_asset = asset, cb_free = free, cb_locked = locked\<rparr>) balances))))
          else Inr None)"

definition normalize_private_event :: "StreamDecoders \<Rightarrow> string \<Rightarrow> ConnectorError + ConnectorPrivateStreamEvent option" where
  "normalize_private_event dec payload =
     (if blank payload then Inr None
      else case sd_combined_private dec payload of
        Some data \<Rightarrow> normalize_private_event_value dec data
      | None \<Rightarrow>
          (case sd_value dec payload of
             Inl error \<Rightarrow> stream_refused (''failed to decode private stream payload JSON: '' @ error)
           | Inr raw \<Rightarrow> normalize_private_event_value dec raw))"

subsection \<open>The worker of a market stream\<close>

datatype PreviewStreamConnectionState = StreamConnecting | StreamConnected | StreamDisconnected

datatype ConnectorPreviewStreamEvent =
    StreamConnectionState PreviewStreamConnectionState "string option"
  | StreamBarUpdate ConnectorMarketStreamSubscription NormalizedBarUpdate

datatype ConnectorPreviewStreamCommand = ReplaceSubscriptions "ConnectorMarketStreamSubscription list" | Shutdown

definition PREVIEW_STREAM_EVENT_CAPACITY :: nat where
  "PREVIEW_STREAM_EVENT_CAPACITY = 1024"

text \<open>A request to the provider; it is sent as a JSON object with these three members.\<close>

record SubscriptionRequest =
  sr_method :: string
  sr_params :: "string list"
  sr_id :: int

text \<open>
  Where the worker waits: for a command while nothing is desired, for the connection, in the stream with
  the active subscriptions, or in the back-off with its delay in milliseconds. \<open>WorkerStopped\<close> is a worker that
  has returned.
\<close>

datatype WorkerPhase = Idle | Dialing | Streaming "ConnectorMarketStreamSubscription list" | Backoff int | WorkerStopped

record PreviewWorker =
  pw_phase :: WorkerPhase
  pw_desired :: "ConnectorMarketStreamSubscription list"
  pw_reconnect_failures :: int
  pw_request_id :: int
  pw_socket :: "SubscriptionRequest list"
  pw_events :: "ConnectorPreviewStreamEvent list"
  pw_consumer_gone :: bool

definition worker_start :: PreviewWorker where
  "worker_start = \<lparr>pw_phase = Idle, pw_desired = [], pw_reconnect_failures = 0, pw_request_id = 1, pw_socket = [],
     pw_events = [], pw_consumer_gone = False\<rparr>"

definition emit_preview_event :: "ConnectorPreviewStreamEvent \<Rightarrow> PreviewWorker \<Rightarrow> PreviewWorker" where
  "emit_preview_event event s =
     (if pw_consumer_gone s \<or> PREVIEW_STREAM_EVENT_CAPACITY \<le> length (pw_events s) then s
      else s\<lparr>pw_events := pw_events s @ [event]\<rparr>)"

definition emit_disconnected :: "string \<Rightarrow> PreviewWorker \<Rightarrow> PreviewWorker" where
  "emit_disconnected detail = emit_preview_event (StreamConnectionState StreamDisconnected (Some detail))"

text \<open>
  \<open>sent\<close> is the outcome of the socket: \<open>None\<close>, or the text of the error. The identifier is used up in both
  cases; nothing is sent for no subscriptions.
\<close>

definition send_binance_subscription_change ::
    "string option \<Rightarrow> string \<Rightarrow> ConnectorMarketStreamSubscription list \<Rightarrow> PreviewWorker \<Rightarrow> (ConnectorError + unit) \<times> PreviewWorker" where
  "send_binance_subscription_change sent method' subscriptions s =
     (if subscriptions = [] then (Inr (), s)
      else let request = \<lparr>sr_method = method', sr_params = map binance_stream_name subscriptions, sr_id = pw_request_id s\<rparr>;
               s' = s\<lparr>pw_request_id := sat_u64 (pw_request_id s + 1)\<rparr> in
        case sent of
          None \<Rightarrow> (Inr (), s'\<lparr>pw_socket := pw_socket s' @ [request]\<rparr>)
        | Some error \<Rightarrow> (Inl (ConnectorError.PreviewStream Binance
            (''failed to send Binance preview-stream '' @ method' @ '' request: '' @ error)), s'))"

definition next_round :: "PreviewWorker \<Rightarrow> PreviewWorker" where
  "next_round s =
     (if pw_desired s = [] then s\<lparr>pw_phase := Idle\<rparr>
      else (emit_preview_event (StreamConnectionState StreamConnecting None) s)\<lparr>pw_phase := Dialing\<rparr>)"

text \<open>The connection is dropped and the worker waits before the next round.\<close>

definition back_off :: "PreviewWorker \<Rightarrow> PreviewWorker" where
  "back_off s =
     (let failures = min (pw_reconnect_failures s + 1) u32_max in
      s\<lparr>pw_reconnect_failures := failures, pw_socket := [],
        pw_phase := Backoff (reconnect_delay_ms (cd_resilience (descriptor_for Binance)) (max failures 1))\<rparr>)"

definition waiting_command :: "ConnectorPreviewStreamCommand option \<Rightarrow> PreviewWorker \<Rightarrow> PreviewWorker" where
  "waiting_command command s =
     (case command of Some (ReplaceSubscriptions subscriptions) \<Rightarrow> next_round (s\<lparr>pw_desired := subscription_set subscriptions\<rparr>)
      | _ \<Rightarrow> s\<lparr>pw_phase := WorkerStopped\<rparr>)"

definition connected :: "string \<Rightarrow> string option \<Rightarrow> PreviewWorker \<Rightarrow> PreviewWorker" where
  "connected account_id sent s =
     (let s' = emit_preview_event (StreamConnectionState StreamConnected (Some (''account='' @ account_id)))
            (s\<lparr>pw_reconnect_failures := 0, pw_socket := []\<rparr>) in
      case send_binance_subscription_change sent ''SUBSCRIBE'' (pw_desired s') s' of
        (Inl error, s'') \<Rightarrow> back_off (emit_disconnected (connector_error_text error) s'')
      | (Inr _, s'') \<Rightarrow> s''\<lparr>pw_phase := Streaming (pw_desired s'')\<rparr>)"

definition connect_failed :: "string \<Rightarrow> PreviewWorker \<Rightarrow> PreviewWorker" where
  "connect_failed error s = back_off (emit_disconnected (''failed to connect Binance preview stream: '' @ error) s)"

definition replace_active ::
    "string option \<Rightarrow> string option \<Rightarrow> ConnectorMarketStreamSubscription list \<Rightarrow> ConnectorMarketStreamSubscription list
     \<Rightarrow> PreviewWorker \<Rightarrow> PreviewWorker" where
  "replace_active unsubscribed subscribed active subscriptions s =
     (let next' = subscription_set subscriptions;
          to_subscribe = filter (\<lambda>sub. sub \<notin> set active) next';
          to_unsubscribe = filter (\<lambda>sub. sub \<notin> set next') active in
      case send_binance_subscription_change unsubscribed ''UNSUBSCRIBE'' to_unsubscribe s of
        (Inl error, s') \<Rightarrow> back_off ((emit_disconnected (connector_error_text error) s')\<lparr>pw_desired := next'\<rparr>)
      | (Inr _, s') \<Rightarrow>
          (case send_binance_subscription_change subscribed ''SUBSCRIBE'' to_subscribe s' of
             (Inl error, s'') \<Rightarrow> back_off ((emit_disconnected (connector_error_text error) s'')\<lparr>pw_desired := next'\<rparr>)
           | (Inr _, s'') \<Rightarrow>
               if next' = [] then back_off (emit_disconnected ''preview stream idle'' (s''\<lparr>pw_desired := next'\<rparr>))
               else s''\<lparr>pw_desired := next', pw_phase := Streaming next'\<rparr>))"

definition streaming_command ::
    "string option \<Rightarrow> string option \<Rightarrow> ConnectorMarketStreamSubscription list \<Rightarrow> ConnectorPreviewStreamCommand option
     \<Rightarrow> PreviewWorker \<Rightarrow> PreviewWorker" where
  "streaming_command unsubscribed subscribed active command s =
     (case command of
        Some (ReplaceSubscriptions subscriptions) \<Rightarrow> replace_active unsubscribed subscribed active subscriptions s
      | _ \<Rightarrow> s\<lparr>pw_phase := WorkerStopped\<rparr>)"

text \<open>What the socket yields: \<open>CloseFrame\<close> carries the reason where there is one, \<open>OtherFrame\<close> is a binary,
  pong or raw frame, and \<open>StreamEnd\<close> the end of the stream. A ping is answered; a failure to answer is ignored.\<close>

datatype SocketMessage = TextFrame string | PingFrame | CloseFrame "string option" | OtherFrame | SocketError string | StreamEnd

fun socket_message :: "Clock \<Rightarrow> StreamDecoders \<Rightarrow> SocketMessage \<Rightarrow> PreviewWorker \<Rightarrow> PreviewWorker" where
  "socket_message clock dec (TextFrame payload) s =
     (case normalize_market_data_event_with_subscription clock dec payload of
        Inr (Some (subscription, update)) \<Rightarrow> emit_preview_event (StreamBarUpdate subscription update) s
      | Inr None \<Rightarrow> s
      | Inl error \<Rightarrow> back_off (emit_disconnected (connector_error_text error) s))"
| "socket_message clock dec PingFrame s = s"
| "socket_message clock dec (CloseFrame reason) s =
     back_off (emit_disconnected (case reason of None \<Rightarrow> ''Binance preview stream closed''
       | Some reason \<Rightarrow> ''Binance preview stream closed: '' @ reason) s)"
| "socket_message clock dec OtherFrame s = s"
| "socket_message clock dec (SocketError error) s = back_off (emit_disconnected (''Binance preview stream error: '' @ error) s)"
| "socket_message clock dec StreamEnd s = back_off (emit_disconnected ''Binance preview stream ended'' s)"

text \<open>
  One step of the worker or of the consumer of its events. What a command asks for lies in \<open>universe\<close>;
  a command of \<open>None\<close> is the closed channel.
\<close>

fun command_within :: "ConnectorMarketStreamSubscription set \<Rightarrow> ConnectorPreviewStreamCommand option \<Rightarrow> bool" where
  "command_within universe (Some (ReplaceSubscriptions subscriptions)) \<longleftrightarrow> set subscriptions \<subseteq> universe"
| "command_within universe _ \<longleftrightarrow> True"

inductive worker_step :: "ConnectorMarketStreamSubscription set \<Rightarrow> Clock \<Rightarrow> StreamDecoders \<Rightarrow> string \<Rightarrow> PreviewWorker \<Rightarrow> PreviewWorker \<Rightarrow> bool"
  for universe clock dec account_id where
  idle_command: "pw_phase s = Idle \<Longrightarrow> command_within universe command \<Longrightarrow>
    worker_step universe clock dec account_id s (waiting_command command s)"
| dial_ok: "pw_phase s = Dialing \<Longrightarrow> worker_step universe clock dec account_id s (connected account_id sent s)"
| dial_failed: "pw_phase s = Dialing \<Longrightarrow> worker_step universe clock dec account_id s (connect_failed error s)"
| stream_command: "pw_phase s = Streaming active \<Longrightarrow> command_within universe command \<Longrightarrow>
    worker_step universe clock dec account_id s (streaming_command unsubscribed subscribed active command s)"
| stream_message: "pw_phase s = Streaming active \<Longrightarrow>
    worker_step universe clock dec account_id s (socket_message clock dec message s)"
| backoff_command: "pw_phase s = Backoff delay \<Longrightarrow> command_within universe command \<Longrightarrow>
    worker_step universe clock dec account_id s (waiting_command command s)"
| backoff_elapsed: "pw_phase s = Backoff delay \<Longrightarrow> worker_step universe clock dec account_id s (next_round s)"
| consumer_takes: "pw_events s = event # rest \<Longrightarrow> worker_step universe clock dec account_id s (s\<lparr>pw_events := rest\<rparr>)"
| consumer_leaves: "worker_step universe clock dec account_id s (s\<lparr>pw_events := [], pw_consumer_gone := True\<rparr>)"

inductive worker_reachable :: "ConnectorMarketStreamSubscription set \<Rightarrow> Clock \<Rightarrow> StreamDecoders \<Rightarrow> string \<Rightarrow> PreviewWorker \<Rightarrow> bool"
  for universe clock dec account_id where
  worker_starts: "worker_reachable universe clock dec account_id worker_start"
| worker_steps: "worker_reachable universe clock dec account_id s \<Longrightarrow> worker_step universe clock dec account_id s s' \<Longrightarrow>
    worker_reachable universe clock dec account_id s'"

text \<open>The streams the provider serves after a sequence of requests.\<close>

definition serve :: "string set \<Rightarrow> SubscriptionRequest \<Rightarrow> string set" where
  "serve streams request =
     (if sr_method request = ''SUBSCRIBE'' then streams \<union> set (sr_params request)
      else if sr_method request = ''UNSUBSCRIBE'' then streams - set (sr_params request)
      else streams)"

definition served_streams :: "SubscriptionRequest list \<Rightarrow> string set" where
  "served_streams = foldl serve {}"

subsection \<open>Stream names\<close>

text \<open>The label of a timeframe in a stream name gives the timeframe back, whatever the symbol is.\<close>

lemma after_last_append: "after_last marker s = Some rest \<Longrightarrow> after_last marker (prefix' @ s) = Some rest"
  by (induction prefix') auto

lemma interval_of_stream_name:
  "binance_interval_from_stream_name (binance_stream_name sub) = Some (binance_interval_label (ms_timeframe sub))"
proof -
  have "after_last ''@kline_'' (''@kline_'' @ binance_interval_label tf) = Some (binance_interval_label tf)" for tf
    by (cases tf) simp_all
  then show ?thesis
    unfolding binance_interval_from_stream_name_def binance_stream_name_def by (rule after_last_append)
qed

lemma timeframe_of_label: "binance_timeframe_from_interval (binance_interval_label tf) = Inr tf"
  by (cases tf) (simp_all add: binance_timeframe_from_interval_def)

text \<open>The stream name the worker subscribes to determines the timeframe of the updates it delivers: read back
  from the name, the interval is the one of the subscription.\<close>

theorem stream_name_roundtrip:
  "(case binance_interval_from_stream_name (binance_stream_name sub) of
      None \<Rightarrow> stream_refused [] | Some interval \<Rightarrow> binance_timeframe_from_interval interval) = Inr (ms_timeframe sub)"
  by (simp add: interval_of_stream_name timeframe_of_label)

text \<open>Venue symbols have no lower-case letters; on these the stream names are different.\<close>

definition venue_symbols :: "ConnectorMarketStreamSubscription set" where
  "venue_symbols = {sub. list_all (\<lambda>c. \<not> (97 \<le> (of_char c :: nat) \<and> (of_char c :: nat) \<le> 122)) (ms_symbol sub)}"

lemma of_char_ascii_lower:
  "(of_char (ascii_lower c) :: nat) = (if 65 \<le> (of_char c :: nat) \<and> (of_char c :: nat) \<le> 90 then of_char c + 32 else of_char c)"
  by (simp add: ascii_lower_def Let_def)

lemma ascii_lower_inject:
  assumes "ascii_lower c = ascii_lower d"
    and "\<not> (97 \<le> (of_char c :: nat) \<and> (of_char c :: nat) \<le> 122)" "\<not> (97 \<le> (of_char d :: nat) \<and> (of_char d :: nat) \<le> 122)"
  shows "c = d"
proof -
  have "(of_char (ascii_lower c) :: nat) = of_char (ascii_lower d)" using assms(1) by simp
  with assms(2,3) have "(of_char c :: nat) = of_char d"
    unfolding of_char_ascii_lower by (simp only: split: if_splits) linarith+
  then show ?thesis by simp
qed

lemma lowercase_inject:
  assumes "map ascii_lower s = map ascii_lower t"
    and "list_all (\<lambda>c. \<not> (97 \<le> (of_char c :: nat) \<and> (of_char c :: nat) \<le> 122)) s"
    and "list_all (\<lambda>c. \<not> (97 \<le> (of_char c :: nat) \<and> (of_char c :: nat) \<le> 122)) t"
  shows "s = t"
  using assms
proof (induction s arbitrary: t)
  case (Cons c s)
  then obtain d t' where t: "t = d # t'" by (cases t) auto
  with Cons show ?case by (auto intro: ascii_lower_inject)
qed simp

lemma interval_label_inject: "binance_interval_label a = binance_interval_label b \<Longrightarrow> a = b"
  by (metis timeframe_of_label sum.inject(2))

lemma stream_names_inject: "inj_on binance_stream_name venue_symbols"
proof (rule inj_onI)
  fix a b
  assume mem: "a \<in> venue_symbols" "b \<in> venue_symbols" and eq: "binance_stream_name a = binance_stream_name b"
  from eq interval_of_stream_name [of a] interval_of_stream_name [of b]
  have tf: "ms_timeframe a = ms_timeframe b" by (auto intro: interval_label_inject)
  with eq mem have "ms_symbol a = ms_symbol b"
    by (auto simp: binance_stream_name_def to_ascii_lowercase_def venue_symbols_def intro: lowercase_inject)
  with tf show "a = b" by (simp add: ConnectorMarketStreamSubscription.equality)
qed

subsection \<open>The subscriptions of a streaming worker\<close>

definition worker_ok :: "ConnectorMarketStreamSubscription set \<Rightarrow> PreviewWorker \<Rightarrow> bool" where
  "worker_ok universe s \<longleftrightarrow> set (pw_desired s) \<subseteq> universe \<and> length (pw_events s) \<le> PREVIEW_STREAM_EVENT_CAPACITY \<and>
     (case pw_phase s of
        Idle \<Rightarrow> pw_desired s = []
      | Dialing \<Rightarrow> pw_desired s \<noteq> []
      | Streaming active \<Rightarrow> active = pw_desired s \<and> active \<noteq> [] \<and>
          served_streams (pw_socket s) = binance_stream_name ` set (pw_desired s)
      | Backoff delay \<Rightarrow> delay \<le> rp_reconnect_max_backoff_ms (cd_resilience (descriptor_for Binance))
      | WorkerStopped \<Rightarrow> True)"

lemma worker_okD:
  assumes "worker_ok universe s"
  shows "set (pw_desired s) \<subseteq> universe" "length (pw_events s) \<le> PREVIEW_STREAM_EVENT_CAPACITY"
  using assms by (simp_all add: worker_ok_def)

text \<open>Only the events change.\<close>

lemma worker_ok_events:
  assumes "worker_ok universe s" "pw_phase s' = pw_phase s" "pw_desired s' = pw_desired s" "pw_socket s' = pw_socket s"
    and "length (pw_events s') \<le> PREVIEW_STREAM_EVENT_CAPACITY"
  shows "worker_ok universe s'"
  using assms by (simp only: worker_ok_def)

lemma emit_fields [simp]:
  "pw_phase (emit_preview_event e s) = pw_phase s" "pw_desired (emit_preview_event e s) = pw_desired s"
  "pw_socket (emit_preview_event e s) = pw_socket s" "pw_request_id (emit_preview_event e s) = pw_request_id s"
  by (simp_all add: emit_preview_event_def)

lemma emit_within: "length (pw_events s) \<le> PREVIEW_STREAM_EVENT_CAPACITY \<Longrightarrow>
    length (pw_events (emit_preview_event e s)) \<le> PREVIEW_STREAM_EVENT_CAPACITY"
  by (simp add: emit_preview_event_def)

lemma set_subscription_set [simp]: "set (subscription_set subs) = set subs"
  by (simp add: subscription_set_def)

lemma served_snoc: "served_streams (requests @ [request]) = serve (served_streams requests) request"
  by (simp add: served_streams_def)

text \<open>What a request that was sent leaves behind.\<close>

lemma sent_change:
  assumes "send_binance_subscription_change sent method' subs s = (r, s')"
  shows "pw_events s' = pw_events s" "pw_desired s' = pw_desired s"
    and "r = Inr u \<Longrightarrow> method' = ''SUBSCRIBE'' \<Longrightarrow>
      served_streams (pw_socket s') = served_streams (pw_socket s) \<union> binance_stream_name ` set subs"
    and "r = Inr u \<Longrightarrow> method' = ''UNSUBSCRIBE'' \<Longrightarrow>
      served_streams (pw_socket s') = served_streams (pw_socket s) - binance_stream_name ` set subs"
  using assms by (auto simp: send_binance_subscription_change_def Let_def served_snoc serve_def split: if_splits option.splits)

lemma next_round_ok:
  assumes "set (pw_desired s) \<subseteq> universe" "length (pw_events s) \<le> PREVIEW_STREAM_EVENT_CAPACITY"
  shows "worker_ok universe (next_round s)"
  using assms by (simp add: next_round_def worker_ok_def emit_within)

lemma back_off_ok:
  assumes "set (pw_desired s) \<subseteq> universe" "length (pw_events s) \<le> PREVIEW_STREAM_EVENT_CAPACITY"
  shows "worker_ok universe (back_off s)"
  unfolding back_off_def worker_ok_def Let_def using assms reconnect_delay_le_max
  by (auto simp del: descriptor_for.simps)

lemma waiting_command_ok:
  assumes "worker_ok universe s" "command_within universe command"
  shows "worker_ok universe (waiting_command command s)"
proof -
  note okD = worker_okD [OF assms(1)]
  then have "worker_ok universe (s\<lparr>pw_phase := WorkerStopped\<rparr>)" by (simp add: worker_ok_def)
  with okD assms(2) show ?thesis
    by (auto simp: waiting_command_def intro!: next_round_ok split: option.split ConnectorPreviewStreamCommand.split)
qed

lemma connected_ok:
  assumes "worker_ok universe s" "pw_phase s = Dialing"
  shows "worker_ok universe (connected account_id sent s)"
proof -
  define s' where "s' = emit_preview_event (StreamConnectionState StreamConnected (Some (''account='' @ account_id)))
    (s\<lparr>pw_reconnect_failures := 0, pw_socket := []\<rparr>)"
  obtain r s'' where send: "send_binance_subscription_change sent ''SUBSCRIBE'' (pw_desired s') s' = (r, s'')"
    by (cases "send_binance_subscription_change sent ''SUBSCRIBE'' (pw_desired s') s'")
  from assms have within: "set (pw_desired s') \<subseteq> universe" "length (pw_events s') \<le> PREVIEW_STREAM_EVENT_CAPACITY"
    "pw_desired s' \<noteq> []" "served_streams (pw_socket s') = {}"
    by (simp_all add: s'_def worker_ok_def emit_within served_streams_def)
  have outcome: "connected account_id sent s = (case send_binance_subscription_change sent ''SUBSCRIBE'' (pw_desired s') s' of
      (Inl error, s'') \<Rightarrow> back_off (emit_disconnected (connector_error_text error) s'')
    | (Inr _, s'') \<Rightarrow> s''\<lparr>pw_phase := Streaming (pw_desired s'')\<rparr>)"
    by (simp only: connected_def Let_def s'_def)
  show ?thesis
  proof (cases r)
    case (Inl error)
    then have "connected account_id sent s = back_off (emit_disconnected (connector_error_text error) s'')"
      by (simp add: outcome send)
    with within sent_change(1,2) [OF send] show ?thesis
      by (auto simp: emit_disconnected_def emit_within intro!: back_off_ok)
  next
    case (Inr u)
    then have "connected account_id sent s = s''\<lparr>pw_phase := Streaming (pw_desired s'')\<rparr>"
      by (simp add: outcome send)
    with within sent_change(1,2,3) [OF send] Inr show ?thesis by (auto simp: worker_ok_def)
  qed
qed

lemma replaced_streams:
  assumes "inj_on f (A \<union> B)"
  shows "(f ` A - f ` (A - B)) \<union> f ` (B - A) = f ` B"
  using assms by (auto dest: inj_onD)

lemma replace_active_ok:
  assumes "inj_on binance_stream_name universe" "worker_ok universe s" "pw_phase s = Streaming active" "set subscriptions \<subseteq> universe"
  shows "worker_ok universe (replace_active unsubscribed subscribed active subscriptions s)"
proof -
  let ?next = "subscription_set subscriptions"
  let ?add = "filter (\<lambda>sub. sub \<notin> set active) ?next" and ?drop = "filter (\<lambda>sub. sub \<notin> set ?next) active"
  from assms(2,3) have ok: "active = pw_desired s" "set active \<subseteq> universe" "length (pw_events s) \<le> PREVIEW_STREAM_EVENT_CAPACITY"
    "served_streams (pw_socket s) = binance_stream_name ` set active"
    by (auto simp: worker_ok_def)
  obtain r1 s1 where send1: "send_binance_subscription_change unsubscribed ''UNSUBSCRIBE'' ?drop s = (r1, s1)" by fastforce
  obtain r2 s2 where send2: "send_binance_subscription_change subscribed ''SUBSCRIBE'' ?add s1 = (r2, s2)" by fastforce
  note kept = sent_change(1,2) [OF send1] sent_change(1,2) [OF send2]
  have off: "worker_ok universe (back_off ((emit_disconnected detail s')\<lparr>pw_desired := ?next\<rparr>))"
    "worker_ok universe (back_off (emit_disconnected detail (s'\<lparr>pw_desired := ?next\<rparr>)))"
    if "pw_events s' = pw_events s" for detail s'
    using that ok(3) assms(4) emit_within [of "s'\<lparr>pw_desired := ?next\<rparr>"] emit_within [of s']
    by (auto simp: emit_disconnected_def intro!: back_off_ok)
  have served: "served_streams (pw_socket s2) = binance_stream_name ` set ?next" if "r1 = Inr u" "r2 = Inr u'" for u u'
  proof -
    have "inj_on binance_stream_name (set active \<union> set ?next)" using assms(1,4) ok(2) by (auto intro: inj_on_subset)
    moreover have "set ?add = set ?next - set active" "set ?drop = set active - set ?next" by auto
    ultimately show ?thesis
      using replaced_streams sent_change(4) [OF send1 that(1)] sent_change(3) [OF send2 that(2)] ok(4) by simp
  qed
  have outcome: "replace_active unsubscribed subscribed active subscriptions s = (case r1 of
      Inl error \<Rightarrow> back_off ((emit_disconnected (connector_error_text error) s1)\<lparr>pw_desired := ?next\<rparr>)
    | Inr _ \<Rightarrow> (case r2 of
        Inl error \<Rightarrow> back_off ((emit_disconnected (connector_error_text error) s2)\<lparr>pw_desired := ?next\<rparr>)
      | Inr _ \<Rightarrow> if ?next = [] then back_off (emit_disconnected ''preview stream idle'' (s2\<lparr>pw_desired := ?next\<rparr>))
          else s2\<lparr>pw_desired := ?next, pw_phase := Streaming ?next\<rparr>))"
    by (simp only: replace_active_def Let_def send1 send2 prod.case)
  have streaming: "worker_ok universe (s2\<lparr>pw_desired := ?next, pw_phase := Streaming ?next\<rparr>)"
    if "r1 = Inr u" "r2 = Inr u'" "?next \<noteq> []" for u u'
    using served [OF that(1,2)] that(3) kept ok(3) assms(4) by (simp add: worker_ok_def)
  show ?thesis
    unfolding outcome using off [of s1] off [of s2] kept streaming by (auto split: sum.split)
qed

text \<open>Every step keeps the invariant.\<close>

lemma socket_message_ok:
  assumes "worker_ok universe s"
  shows "worker_ok universe (socket_message clock dec message s)"
proof -
  have off: "worker_ok universe (back_off (emit_disconnected detail s))" for detail
    using worker_okD [OF assms] by (auto simp: emit_disconnected_def emit_within intro!: back_off_ok)
  have emits: "worker_ok universe (emit_preview_event e s)" for e
    using worker_okD(2) [OF assms] by (auto intro!: worker_ok_events [OF assms] emit_within)
  show ?thesis by (cases message) (auto simp: off emits assms split: sum.split option.split)
qed

lemma worker_step_ok:
  assumes "worker_step universe clock dec account_id s s'" "inj_on binance_stream_name universe" "worker_ok universe s"
  shows "worker_ok universe s'"
  using assms
proof (induction rule: worker_step.induct)
  case (dial_failed s error)
  from worker_okD [OF dial_failed.prems(2)] show ?case
    by (auto simp: connect_failed_def emit_disconnected_def emit_within intro!: back_off_ok)
next
  case (stream_command s active command unsubscribed subscribed)
  from worker_okD [OF stream_command.prems(2)] have "worker_ok universe (s\<lparr>pw_phase := WorkerStopped\<rparr>)" by (simp add: worker_ok_def)
  with stream_command show ?case
    by (auto simp: streaming_command_def intro!: replace_active_ok split: option.split ConnectorPreviewStreamCommand.split)
next
  case (backoff_elapsed s delay)
  from worker_okD [OF backoff_elapsed.prems(2)] show ?case by (rule next_round_ok)
next
  case (consumer_takes s event rest)
  with worker_okD(2) [OF consumer_takes.prems(2)] show ?case by (auto intro: worker_ok_events [OF consumer_takes.prems(2)])
next
  case (consumer_leaves s)
  from consumer_leaves.prems(2) show ?case by (rule worker_ok_events) simp_all
qed (auto intro: waiting_command_ok connected_ok socket_message_ok)

lemma worker_reachable_ok:
  assumes "worker_reachable universe clock dec account_id s" "inj_on binance_stream_name universe"
  shows "worker_ok universe s"
  using assms(1)
proof induction
  case worker_starts
  show ?case by (simp add: worker_start_def worker_ok_def)
next
  case (worker_steps s s')
  with assms(2) show ?case by (blast intro: worker_step_ok)
qed

text \<open>C18: While the worker streams, the provider serves exactly what the worker wants: on the current connection it was
  asked for the streams of the desired subscriptions and of no others, through every exchange of subscriptions,
  lost connection and reconnection. The symbols are venue symbols, without lower-case letters.\<close>

theorem streaming_serves_desired:
  assumes "worker_reachable venue_symbols clock dec account_id s" "pw_phase s = Streaming active"
  shows "served_streams (pw_socket s) = binance_stream_name ` set (pw_desired s)"
  using worker_reachable_ok [OF assms(1) stream_names_inject] assms(2) by (simp add: worker_ok_def)

text \<open>The events waiting for the consumer stay within the capacity of the channel, and a back-off never
  lasts longer than the policy allows.\<close>

lemma event_queue_bounded:
  assumes "worker_reachable venue_symbols clock dec account_id s"
  shows "length (pw_events s) \<le> PREVIEW_STREAM_EVENT_CAPACITY"
  using worker_reachable_ok [OF assms stream_names_inject] by (simp add: worker_ok_def)

lemma backoff_bounded:
  assumes "worker_reachable venue_symbols clock dec account_id s" "pw_phase s = Backoff delay"
  shows "delay \<le> 30000"
  using worker_reachable_ok [OF assms(1) stream_names_inject] assms(2) by (simp add: worker_ok_def)

definition demo_subscription :: ConnectorMarketStreamSubscription where
  "demo_subscription = \<lparr>ms_symbol = ''BTCUSDT'', ms_timeframe = M1\<rparr>"

definition demo_streaming :: PreviewWorker where
  "demo_streaming = connected ''acct'' None (waiting_command (Some (ReplaceSubscriptions [demo_subscription])) worker_start)"

lemma demo_venue_symbol: "demo_subscription \<in> venue_symbols"
  by (simp add: demo_subscription_def venue_symbols_def)

lemma demo_streaming_reachable: "worker_reachable venue_symbols clock dec ''acct'' demo_streaming"
proof -
  have "worker_step venue_symbols clock dec ''acct'' worker_start
      (waiting_command (Some (ReplaceSubscriptions [demo_subscription])) worker_start)"
    by (rule idle_command) (simp_all add: worker_start_def demo_venue_symbol)
  moreover have "worker_step venue_symbols clock dec ''acct''
      (waiting_command (Some (ReplaceSubscriptions [demo_subscription])) worker_start) demo_streaming"
    unfolding demo_streaming_def
    by (rule dial_ok) (simp add: waiting_command_def next_round_def subscription_set_def)
  ultimately show ?thesis by (blast intro: worker_starts worker_steps)
qed

lemma demo_streaming_phase: "pw_phase demo_streaming = Streaming [demo_subscription]" "pw_desired demo_streaming = [demo_subscription]"
  by (simp_all add: demo_streaming_def connected_def waiting_command_def next_round_def subscription_set_def
      send_binance_subscription_change_def Let_def)

lemma streaming_serves_desired_witness: "served_streams (pw_socket demo_streaming) = {''btcusdt@kline_1m''}"
proof -
  have "binance_stream_name demo_subscription = ''btcusdt@kline_1m''" by code_simp
  with streaming_serves_desired [OF demo_streaming_reachable demo_streaming_phase(1)] show ?thesis
    by (simp add: demo_streaming_phase)
qed

text \<open>Two symbols that differ only in the case of their letters share a stream name: dropping one subscription
  ends the stream of the other, which stays desired. The runtime keeps symbols as they are configured.\<close>

lemma case_variants_share_stream:
  "binance_stream_name \<lparr>ms_symbol = ''BTCUSDT'', ms_timeframe = M1\<rparr> = binance_stream_name \<lparr>ms_symbol = ''btcusdt'', ms_timeframe = M1\<rparr>"
  by code_simp

text \<open>A worker that was shut down does nothing more; only the consumer of its events does.\<close>

inductive_cases worker_stepE: "worker_step universe clock dec account_id s s'"

lemma stopped_stays:
  assumes "worker_step universe clock dec account_id s s'" "pw_phase s = WorkerStopped"
  shows "pw_phase s' = WorkerStopped \<and> pw_socket s' = pw_socket s"
  using assms by (auto elim: worker_stepE)

end
