(* ===== verification/Supervisor.thy ===== *)
theory Supervisor
  imports System BinanceStream
begin

section \<open>The background supervisor (openticker-runtime/src/polling\_supervisor)\<close>

text \<open>
  The two background loops of a running service and what they share with the operator: the polling loop,
  which turns the due streams of the data plane into concurrent fetch tasks (\<open>stream_poll.rs\<close>), and the
  preview loop, which keeps a stream session for every account that wants one and delivers its events
  (\<open>preview.rs\<close>).

  A fetch task is a small state machine whose steps are the sections between two waits: planning under the
  read lock, the fetch without a lock, applying it under the write lock. Steps of different tasks, events
  of the sessions and operations of the operator interleave in any order: this is the relation
  \<open>service_step\<close>. The start of a cycle (take the due streams, plan them, skip throttled accounts) is one
  step. Measured durations, a panic of a blocking fetch and what a session answers are arbitrary inputs
  of the steps. A stream session is known to the preview loop by what it answers and by its events; the
  session of Binance is the worker of the theory of the Binance streams. Warnings are not modelled.

  The lemmas show that a task that runs undisturbed does what a stream poll of the runtime does, that every
  interleaving keeps the budgets, the lanes and the data plane well formed, that the preview workers stay
  within their bound, and that a confirmed bar of a preview stream changes no lane.
\<close>

subsection \<open>Fetch tasks (stream\_poll.rs)\<close>

datatype TaskStage =
    ToPlan "string list"
  | ToFetch "string list" string LanePollPlan nat
  | ToApply "string list" string LanePollPlan nat "GatewayFetchFailure + LanePollExecution"
  | ToFetchBare string string string string Timeframe
  | ToApplyBare "GatewayFetchFailure + OhlcvBar \<times> PendingProviderEvent list"
  | Ended "ServiceError + ProcessBarOutcome LanePollingAdvance"

record PollTask =
  tk_key :: StreamKey
  tk_stage :: TaskStage
  tk_bars :: "(timestamp, OhlcvBar) hmap"
  tk_outcomes :: "ProcessBarOutcome list"

fun task_for_plan :: "StreamKey \<Rightarrow> StreamPollPlan \<Rightarrow> PollTask" where
  "task_for_plan key (BareFetch stream_id account_id kind symbol timeframe) =
     \<lparr>tk_key = key, tk_stage = ToFetchBare stream_id account_id kind symbol timeframe, tk_bars = [], tk_outcomes = []\<rparr>"
| "task_for_plan key (LaneFanOut instance_ids) =
     \<lparr>tk_key = key, tk_stage = ToPlan instance_ids, tk_bars = [], tk_outcomes = []\<rparr>"

definition task_ends :: "PollTask \<Rightarrow> ServiceError + ProcessBarOutcome LanePollingAdvance \<Rightarrow> PollTask" where
  "task_ends task result = task\<lparr>tk_stage := Ended result\<rparr>"

text \<open>The next lane of the stream, or the result when none is left.\<close>

definition plan_next_lane :: "('j, 'w) RuntimeEnv \<Rightarrow> string list \<Rightarrow> PollTask \<Rightarrow> ('v, 'j, 'w) Runtime \<Rightarrow> PollTask \<times> ('v, 'j, 'w) Runtime" where
  "plan_next_lane env instance_ids task s =
     (case instance_ids of
        [] \<Rightarrow> (task_ends task (Inr \<lparr>pa_recorded_bars = bars_in_order (tk_bars task), pa_outcomes = tk_outcomes task\<rparr>), s)
      | instance_id # rest \<Rightarrow>
          (case then_do (runtime_now_ms env) (\<lambda>now_ms. tries (plan_lane_polling instance_id RECOVERY_PAGE_LIMIT now_ms)) s of
             (Inl error, s) \<Rightarrow> (task_ends task (Inl error), s)
           | (Inr plan, s) \<Rightarrow> (task\<lparr>tk_stage := ToFetch rest instance_id plan 0\<rparr>, s)))"

fun plan_account :: "LanePollPlan \<Rightarrow> string" where
  "plan_account (LatestBar t _ _) = pt_account_id t"
| "plan_account (LatestConfirmedTarget t _ _ _ _) = pt_account_id t"
| "plan_account (ConfirmedRange t _ _ _ _ _ _) = pt_account_id t"

definition flush_provider_events ::
    "('j, 'w) RuntimeEnv \<Rightarrow> GatewayFetchFailure \<Rightarrow> PollTask \<Rightarrow> ('v, 'j, 'w) Runtime \<Rightarrow> PollTask \<times> ('v, 'j, 'w) Runtime" where
  "flush_provider_events env failure task s =
     (case append_pending_provider_events env (gff_provider_events failure) s of
        (Inl error, s) \<Rightarrow> (task_ends task (Inl error), s)
      | (Inr _, s) \<Rightarrow> (task_ends task (Inl (gff_error failure)), s))"

definition apply_lane_fetch ::
    "('j, 'w) RuntimeEnv \<Rightarrow> (string \<Rightarrow> CycleTimes) \<Rightarrow> string list \<Rightarrow> string \<Rightarrow> LanePollPlan \<Rightarrow> nat \<Rightarrow> LanePollExecution \<Rightarrow> PollTask
     \<Rightarrow> ('v, 'j, 'w) Runtime \<Rightarrow> PollTask \<times> ('v, 'j, 'w) Runtime" where
  "apply_lane_fetch env spent rest instance_id plan pages execution task s =
     (case apply_lane_poll_plan env (spent instance_id) plan execution s of
        (Inl error, s) \<Rightarrow> (task_ends task (Inl error), s)
      | (Inr outcome, s) \<Rightarrow>
          (task\<lparr>tk_stage := (case lpo_next_plan outcome of None \<Rightarrow> ToPlan rest
               | Some next_plan \<Rightarrow> ToFetch rest instance_id next_plan (if is_recovery_page plan then pages + 1 else pages)),
             tk_bars := insert_bars (pa_recorded_bars (lpo_advance outcome)) (tk_bars task),
             tk_outcomes := tk_outcomes task @ pa_outcomes (lpo_advance outcome)\<rparr>, s))"

definition apply_bare_fetch :: "('j, 'w) RuntimeEnv \<Rightarrow> OhlcvBar \<times> PendingProviderEvent list \<Rightarrow> PollTask
    \<Rightarrow> ('v, 'j, 'w) Runtime \<Rightarrow> PollTask \<times> ('v, 'j, 'w) Runtime" where
  "apply_bare_fetch env execution task s =
     (case apply_bare_fetched_bar env (fst execution) (snd execution) s of (result, s) \<Rightarrow> (task_ends task result, s))"

text \<open>
  One section of a task. \<open>crash\<close> is the described reason when the blocking fetch panicked or was cancelled;
  its effects, if any, are those of no fetch. The first duration is the latency of a fetch, the second the
  wait for the write lock.
\<close>

fun task_step ::
    "('j, 'w) RuntimeEnv \<Rightarrow> (string \<Rightarrow> CycleTimes) \<Rightarrow> int \<times> int \<Rightarrow> string option \<Rightarrow> TaskStage \<Rightarrow> PollTask \<Rightarrow> ('v, 'j, 'w) Runtime \<Rightarrow> DataPlane
     \<Rightarrow> (PollTask \<times> ('v, 'j, 'w) Runtime) \<times> DataPlane" where
  "task_step env spent durations crash (ToPlan instance_ids) task s dp = (plan_next_lane env instance_ids task s, dp)"
| "task_step env spent durations crash (ToFetch rest instance_id plan pages) task s dp =
     (if is_recovery_page plan \<and> max MAX_RECOVERY_PAGES_PER_CYCLE 1 \<le> pages then ((task\<lparr>tk_stage := ToPlan rest\<rparr>, s), dp)
      else case crash of
        Some reason \<Rightarrow> ((task_ends task (Inl (DataConnectorUnavailable instance_id (plan_account plan) reason)), s), dp)
      | None \<Rightarrow>
          (case execute_lane_poll_plan env plan s of
             (execution, s) \<Rightarrow> ((task\<lparr>tk_stage := ToApply rest instance_id plan pages execution\<rparr>, s),
               record_connector_fetch_latency dp (fst durations))))"
| "task_step env spent durations crash (ToApply rest instance_id plan pages execution) task s dp =
     (case execution of
        Inl failure \<Rightarrow> (flush_provider_events env failure task s, dp)
      | Inr execution \<Rightarrow> (apply_lane_fetch env spent rest instance_id plan pages execution task s,
          record_runtime_write_lock_wait dp (snd durations)))"
| "task_step env spent durations crash (ToFetchBare stream_id account_id kind symbol timeframe) task s dp =
     (case crash of
        Some reason \<Rightarrow> ((task_ends task (Inl (DataConnectorUnavailable stream_id account_id reason)), s),
          record_connector_fetch_latency dp (fst durations))
      | None \<Rightarrow>
          (case gateway_fetch_latest_bar_with_events env stream_id account_id kind symbol timeframe s of
             (execution, s) \<Rightarrow> ((task\<lparr>tk_stage := ToApplyBare execution\<rparr>, s), record_connector_fetch_latency dp (fst durations))))"
| "task_step env spent durations crash (ToApplyBare execution) task s dp =
     (case execution of
        Inl failure \<Rightarrow> (flush_provider_events env failure task s, dp)
      | Inr execution \<Rightarrow> (apply_bare_fetch env execution task s, record_runtime_write_lock_wait dp (snd durations)))"
| "task_step env spent durations crash (Ended result) task s dp = ((task, s), dp)"

subsection \<open>Recording results (stream\_poll.rs)\<close>

definition note_stream_error :: "StreamKey \<Rightarrow> string \<Rightarrow> DataPlane \<Rightarrow> DataPlane" where
  "note_stream_error key message dp =
     record_completion (case record_fetch_error dp key message of Inl _ \<Rightarrow> dp | Inr (_, dp') \<Rightarrow> dp') True"

definition record_plan_phase_failure :: "DataPlane \<Rightarrow> StreamKey \<Rightarrow> ServiceError \<Rightarrow> DataPlane" where
  "record_plan_phase_failure dp key error = note_stream_error key (service_error_text error) dp"

fun record_bars :: "StreamKey \<Rightarrow> int \<Rightarrow> OhlcvBar list \<Rightarrow> DataPlane \<Rightarrow> string option \<times> DataPlane" where
  "record_bars key now_ms [] dp = (None, dp)"
| "record_bars key now_ms (bar # bars) dp =
     (case record_fetched_bar dp key now_ms bar of
        Inl (UnknownStream k) \<Rightarrow> (Some (unknown_stream_text k), dp)
      | Inr (_, dp') \<Rightarrow> record_bars key now_ms bars dp')"

definition record_stream_poll_result ::
    "DataPlane \<Rightarrow> StreamKey \<Rightarrow> int \<Rightarrow> ServiceError + ProcessBarOutcome LanePollingAdvance \<Rightarrow> DataPlane" where
  "record_stream_poll_result dp key now_ms advance_result =
     (case advance_result of
        Inr advance \<Rightarrow>
          (case record_bars key now_ms (pa_recorded_bars advance) dp of
             (Some message, dp) \<Rightarrow> note_stream_error key message dp
           | (None, dp) \<Rightarrow> record_completion dp False)
      | Inl error \<Rightarrow> note_stream_error key (service_error_text error) dp)"

subsection \<open>The preview loop (preview.rs)\<close>

definition MAX_ACTIVE_PREVIEW_WORKERS :: nat where
  "MAX_ACTIVE_PREVIEW_WORKERS = 32"

fun map_preview_state :: "PreviewStreamConnectionState \<Rightarrow> StreamPreviewConnectionState" where
  "map_preview_state StreamConnecting = StreamPreviewConnectionState.Connecting"
| "map_preview_state StreamConnected = StreamPreviewConnectionState.Connected"
| "map_preview_state StreamDisconnected = StreamPreviewConnectionState.Disconnected"

definition preview_key :: "string \<Rightarrow> ConnectorMarketStreamSubscription \<Rightarrow> StreamKey" where
  "preview_key account_id subscription =
     \<lparr>sk_account_id = account_id, sk_symbol = ms_symbol subscription, sk_timeframe = ms_timeframe subscription\<rparr>"

definition record_preview_state_for_subscriptions ::
    "string \<Rightarrow> ConnectorMarketStreamSubscription list \<Rightarrow> StreamPreviewConnectionState \<Rightarrow> string option \<Rightarrow> DataPlane \<Rightarrow> DataPlane" where
  "record_preview_state_for_subscriptions account_id subscriptions state' detail dp =
     foldl (\<lambda>dp subscription. case record_preview_connection_state dp (preview_key account_id subscription) state' detail of
         Inl _ \<Rightarrow> dp | Inr (_, dp') \<Rightarrow> dp') dp subscriptions"

abbreviation preview_stopped :: "string \<Rightarrow> ConnectorMarketStreamSubscription list \<Rightarrow> string \<Rightarrow> DataPlane \<Rightarrow> DataPlane" where
  "preview_stopped account_id subscriptions detail \<equiv>
     record_preview_state_for_subscriptions account_id subscriptions StreamPreviewConnectionState.Disconnected (Some detail)"

text \<open>Accounts without a worker, in the order of their ids: those below the bound, and the others.\<close>

definition partition_preview_worker_candidates :: "(string, 'a) hmap \<Rightarrow> string list \<Rightarrow> string list \<times> string list" where
  "partition_preview_worker_candidates workers account_ids =
     (let (admitted, skipped, _) = foldl (\<lambda>(admitted, skipped, projected_active) account_id.
            if hm_get workers account_id \<noteq> None then (admitted, skipped, projected_active)
            else if projected_active < MAX_ACTIVE_PREVIEW_WORKERS then (admitted @ [account_id], skipped, projected_active + 1)
            else (admitted, skipped @ [account_id], projected_active)) ([], [], length workers) account_ids
      in (admitted, skipped))"

text \<open>A session that is started: only Binance has preview streams; the registry answers for the account.\<close>

definition start_preview_stream_session :: "string \<Rightarrow> 'w Gateway \<Rightarrow> GatewayError + PreviewWorker option" where
  "start_preview_stream_session account_id gateway =
     (case fst (lookup (client_unchecked account_id) gateway) of Inl error \<Rightarrow> Inl error
      | Inr client \<Rightarrow> (case cn_kind client of Alpaca \<Rightarrow> Inr None | Binance \<Rightarrow> Inr (Some worker_start)))"

type_synonym preview_workers = "(string, ConnectorMarketStreamSubscription list) hmap"

text \<open>\<open>refused\<close> is the error of the first subscription request, where the new session refuses it.\<close>

definition admit_worker ::
    "string option \<Rightarrow> 'w Gateway \<Rightarrow> (string, ConnectorMarketStreamSubscription list) hmap \<Rightarrow> preview_workers \<times> DataPlane \<Rightarrow> string
     \<Rightarrow> preview_workers \<times> DataPlane" where
  "admit_worker refused gateway desired_by_account state' account_id =
     (let (workers, dp) = state';
          subscriptions = override (hm_get desired_by_account account_id) [] in
      case start_preview_stream_session account_id gateway of
        Inr (Some session) \<Rightarrow>
          (case refused of
             Some error \<Rightarrow> (workers, preview_stopped account_id subscriptions error dp)
           | None \<Rightarrow> (hm_insert account_id subscriptions workers, dp))
      | Inr None \<Rightarrow> (workers, preview_stopped account_id subscriptions ''connector does not support preview streams'' dp)
      | Inl error \<Rightarrow> (workers, preview_stopped account_id subscriptions (gateway_error_text error) dp))"

definition remove_stale_workers ::
    "(string, ConnectorMarketStreamSubscription list) hmap \<Rightarrow> preview_workers \<times> DataPlane \<Rightarrow> preview_workers \<times> DataPlane" where
  "remove_stale_workers desired_by_account state' =
     foldl (\<lambda>(workers, dp) (account_id, subscriptions).
         (hm_remove account_id workers, preview_stopped account_id subscriptions ''preview stream stopped'' dp))
       state' (filter (\<lambda>(account_id, _). hm_get desired_by_account account_id = None) (fst state'))"

text \<open>The first part of an iteration: workers that are no longer wanted stop, missing ones start.\<close>

definition manage_preview_workers ::
    "(string \<Rightarrow> string option) \<Rightarrow> ('v, 'j, 'w) Runtime \<Rightarrow> preview_workers \<times> DataPlane \<Rightarrow> preview_workers \<times> DataPlane" where
  "manage_preview_workers refused s state' =
     (let desired_by_account = effective_preview_streams_by_account s;
          state' = remove_stale_workers desired_by_account state';
          (admitted, _) = partition_preview_worker_candidates (fst state') (map fst desired_by_account) in
      foldl (\<lambda>state' account_id. admit_worker (refused account_id) (rt_gateway s) desired_by_account state' account_id) state' admitted)"

text \<open>The second part, for one worker: new subscriptions are passed on; a worker that refuses them is dropped.\<close>

definition refresh_preview_worker ::
    "string option \<Rightarrow> ConnectorMarketStreamSubscription list \<Rightarrow> string \<Rightarrow> preview_workers \<times> DataPlane \<Rightarrow> preview_workers \<times> DataPlane" where
  "refresh_preview_worker refused desired account_id state' =
     (let (workers, dp) = state' in
      case hm_get workers account_id of
        None \<Rightarrow> state'
      | Some subscriptions \<Rightarrow>
          if subscriptions = desired then state'
          else case refused of
            Some error \<Rightarrow> (hm_remove account_id workers, preview_stopped account_id desired error dp)
          | None \<Rightarrow> (hm_insert account_id desired workers, dp))"

definition preview_session_ended :: "string \<Rightarrow> preview_workers \<times> DataPlane \<Rightarrow> preview_workers \<times> DataPlane" where
  "preview_session_ended account_id state' =
     (let (workers, dp) = state' in
      case hm_get workers account_id of None \<Rightarrow> state'
      | Some subscriptions \<Rightarrow> (hm_remove account_id workers, preview_stopped account_id subscriptions ''preview stream session ended'' dp))"

definition stop_preview_workers :: "preview_workers \<times> DataPlane \<Rightarrow> preview_workers \<times> DataPlane" where
  "stop_preview_workers state' =
     ([], foldl (\<lambda>dp (account_id, subscriptions). preview_stopped account_id subscriptions ''preview stream shutdown'' dp)
        (snd state') (fst state'))"

definition handle_preview_event ::
    "('j, 'w) RuntimeEnv \<Rightarrow> (string \<Rightarrow> CycleTimes) \<Rightarrow> int \<Rightarrow> string \<Rightarrow> ConnectorMarketStreamSubscription list
     \<Rightarrow> ConnectorPreviewStreamEvent \<Rightarrow> ('v, 'j, 'w) Runtime \<Rightarrow> DataPlane \<Rightarrow> ('v, 'j, 'w) Runtime \<times> DataPlane" where
  "handle_preview_event env spent now_ms account_id subscriptions event s dp =
     (case event of
        StreamConnectionState state' detail \<Rightarrow>
          (s, record_preview_state_for_subscriptions account_id subscriptions (map_preview_state state') detail dp)
      | StreamBarUpdate subscription update \<Rightarrow>
          (let key = preview_key account_id subscription;
               dp = (case record_preview_update dp key now_ms (bu_bar update) of Inl _ \<Rightarrow> dp | Inr (_, dp') \<Rightarrow> dp') in
           if bu_phase update = Confirmed then (s, dp)
           else (snd (process_market_stream_update_for_stream env spent key update s), dp)))"

subsection \<open>The service\<close>

record ('v, 'j, 'w) Service =
  sv_runtime :: "('v, 'j, 'w) Runtime"
  sv_plane :: DataPlane
  sv_tasks :: "PollTask list"
  sv_cycle_ms :: int
  sv_workers :: preview_workers

definition throttled_accounts :: "int \<Rightarrow> 'w Gateway \<Rightarrow> string list" where
  "throttled_accounts now_ms gateway =
     map cas_account_id (filter (\<lambda>status. case rs_throttled_until_ms (cas_resilience_state status) of
         None \<Rightarrow> False | Some until_ms \<Rightarrow> now_ms < until_ms) (gw_statuses gateway))"

definition admit_poll :: "('v, 'j, 'w) Service \<Rightarrow> StreamKey \<times> (ServiceError + StreamPollPlan) \<Rightarrow> ('v, 'j, 'w) Service" where
  "admit_poll sv planned =
     (case planned of
        (key, Inl error) \<Rightarrow> sv\<lparr>sv_plane := record_plan_phase_failure (sv_plane sv) key error\<rparr>
      | (key, Inr plan) \<Rightarrow> sv\<lparr>sv_tasks := sv_tasks sv @ [task_for_plan key plan]\<rparr>)"

definition begin_poll_cycle :: "int \<Rightarrow> ('v, 'j, 'w) Service \<Rightarrow> ('v, 'j, 'w) Service" where
  "begin_poll_cycle now_ms sv =
     (let (due_streams, dp) = take_due_streams (sv_plane sv) now_ms;
          plans = map (\<lambda>key. (key, plan_stream_polling key (sv_runtime sv))) due_streams;
          throttled = throttled_accounts now_ms (rt_gateway (sv_runtime sv)) in
      foldl admit_poll (sv\<lparr>sv_plane := dp, sv_cycle_ms := now_ms\<rparr>)
        (filter (\<lambda>(key, _). sk_account_id key \<notin> set throttled) plans))"

definition with_task_step :: "PollTask list \<Rightarrow> PollTask list \<Rightarrow> (PollTask \<times> ('v, 'j, 'w) Runtime) \<times> DataPlane \<Rightarrow> ('v, 'j, 'w) Service \<Rightarrow> ('v, 'j, 'w) Service" where
  "with_task_step before after result sv =
     sv\<lparr>sv_tasks := before @ fst (fst result) # after, sv_runtime := snd (fst result), sv_plane := snd result\<rparr>"

definition with_previews :: "preview_workers \<times> DataPlane \<Rightarrow> ('v, 'j, 'w) Service \<Rightarrow> ('v, 'j, 'w) Service" where
  "with_previews result sv = sv\<lparr>sv_workers := fst result, sv_plane := snd result\<rparr>"

inductive service_step :: "('j, 'w) RuntimeEnv \<Rightarrow> ('v, 'j, 'w) Service \<Rightarrow> ('v, 'j, 'w) Service \<Rightarrow> bool" for env where
  operate: "perform env operation (sv_runtime sv) = Some s' \<Longrightarrow> service_step env sv (sv\<lparr>sv_runtime := s'\<rparr>)"
| restream: "service_step env sv (sv\<lparr>sv_plane := replace_streams (sv_plane sv) (effective_streams_for_dataplane config (sv_runtime sv))\<rparr>)"
| cycle_begins: "sv_tasks sv = [] \<Longrightarrow> service_step env sv (begin_poll_cycle now_ms sv)"
| task_advances: "sv_tasks sv = before @ task # after \<Longrightarrow>
    service_step env sv (with_task_step before after
      (task_step env spent durations crash (tk_stage task) task (sv_runtime sv) (sv_plane sv)) sv)"
| task_recorded: "sv_tasks sv = before @ task # after \<Longrightarrow> tk_stage task = Ended result \<Longrightarrow>
    service_step env sv (sv\<lparr>sv_tasks := before @ after,
      sv_plane := record_stream_poll_result (sv_plane sv) (tk_key task) (sv_cycle_ms sv) result\<rparr>)"
| task_lost: "sv_tasks sv = before @ task # after \<Longrightarrow> service_step env sv (sv\<lparr>sv_tasks := before @ after\<rparr>)"
| cycle_ends: "sv_tasks sv = [] \<Longrightarrow> service_step env sv (sv\<lparr>sv_plane := record_cycle_duration (sv_plane sv) duration\<rparr>)"
| previews_managed: "service_step env sv (with_previews (manage_preview_workers refused (sv_runtime sv) (sv_workers sv, sv_plane sv)) sv)"
| preview_refreshed: "service_step env sv (with_previews (refresh_preview_worker error desired account_id (sv_workers sv, sv_plane sv)) sv)"
| preview_ended: "service_step env sv (with_previews (preview_session_ended account_id (sv_workers sv, sv_plane sv)) sv)"
| previews_stopped: "service_step env sv (with_previews (stop_preview_workers (sv_workers sv, sv_plane sv)) sv)"
| preview_event: "hm_get (sv_workers sv) account_id = Some subscriptions \<Longrightarrow>
    handle_preview_event env spent now_ms account_id subscriptions event (sv_runtime sv) (sv_plane sv) = (s', dp') \<Longrightarrow>
    service_step env sv (sv\<lparr>sv_runtime := s', sv_plane := dp'\<rparr>)"

text \<open>A supervised service: a runtime, the data plane built from its streams, and no tasks or workers yet.\<close>

definition service_start :: "DataPlaneConfig \<Rightarrow> ('v, 'j, 'w) Runtime \<Rightarrow> ('v, 'j, 'w) Service" where
  "service_start config s = \<lparr>sv_runtime = s, sv_plane = DataPlane_new (effective_streams_for_dataplane config s), sv_tasks = [],
     sv_cycle_ms = 0, sv_workers = []\<rparr>"

inductive service_run :: "('j, 'w) RuntimeEnv \<Rightarrow> ('v, 'j, 'w) Service \<Rightarrow> ('v, 'j, 'w) Service \<Rightarrow> bool" for env start where
  run_starts: "service_run env start start"
| run_steps: "service_run env start sv \<Longrightarrow> service_step env sv sv' \<Longrightarrow> service_run env start sv'"

subsection \<open>Every interleaving keeps the runtime\<close>

text \<open>The runtime after a section of a task is that after the operation it performs.\<close>

lemma task_sections:
  "snd (plan_next_lane env ids task s) = (case ids of [] \<Rightarrow> s
     | i # _ \<Rightarrow> snd (then_do (runtime_now_ms env) (\<lambda>now_ms. tries (plan_lane_polling i RECOVERY_PAGE_LIMIT now_ms)) s))"
  "snd (flush_provider_events env failure task s) = snd (append_pending_provider_events env (gff_provider_events failure) s)"
  "snd (apply_lane_fetch env spent rest i plan pages execution task s) = snd (apply_lane_poll_plan env (spent i) plan execution s)"
  "snd (apply_bare_fetch env fetched_bar task s) = snd (apply_bare_fetched_bar env (fst fetched_bar) (snd fetched_bar) s)"
  by (simp_all add: plan_next_lane_def flush_provider_events_def apply_lane_fetch_def apply_bare_fetch_def
      split: list.split prod.split sum.split)

lemma admitted_runtime: "sv_runtime (foldl admit_poll sv plans) = sv_runtime sv"
  by (induction plans arbitrary: sv) (auto simp: admit_poll_def split: prod.split sum.split)

lemma begun_cycle_runtime: "sv_runtime (begin_poll_cycle now_ms sv) = sv_runtime sv"
  by (simp add: begin_poll_cycle_def Let_def admitted_runtime split: prod.split)

context runtime_invariant
begin

lemma poll_facts:
  "preserves I (execute_lane_poll_plan env plan)" "preserves I (append_pending_provider_events env events)"
  "preserves I (apply_lane_poll_plan env spent plan execution)"
  "preserves I (then_do (runtime_now_ms env) (\<lambda>now_ms. tries (plan_lane_polling i limit now_ms)))"
proof -
  note poll = inv_poll
  show "preserves I (execute_lane_poll_plan env plan)" using poll by (simp add: poll_invariant_def)
  show events: "preserves I (append_pending_provider_events env events)" for events by (rule poll_invariant.pending_preserves [OF poll])
  show "preserves I (apply_lane_poll_plan env spent plan execution)"
    unfolding apply_lane_poll_plan_def by (intro invariant_rules events poll_invariant.fetched_preserves [OF poll])
  show "preserves I (then_do (runtime_now_ms env) (\<lambda>now_ms. tries (plan_lane_polling i limit now_ms)))"
    by (intro invariant_rules inv_clock)
qed

text \<open>A bare fetch is the fetch of a lane's latest bar, without the plan around it.\<close>

lemma bare_fetch_preserves: "preserves I (gateway_fetch_latest_bar_with_events env stream_id account_id kind symbol timeframe)"
proof -
  define t where "t = \<lparr>pt_lane_id = stream_id, pt_account_id = account_id, pt_data_connector = kind, pt_symbol = symbol, pt_timeframe = timeframe\<rparr>"
  have "snd (execute_lane_poll_plan env (LatestBar t mode expected) s)
      = snd (gateway_fetch_latest_bar_with_events env stream_id account_id kind symbol timeframe s)" for mode expected s
    by (simp add: t_def fetched_def then_do_def split: prod.split sum.split)
  with poll_facts(1) show ?thesis unfolding preserves_def by metis
qed

lemma task_step_keeps:
  assumes "I s"
  shows "I (snd (fst (task_step env spent durations crash stage task s dp)))"
proof (cases stage)
  case (ToPlan ids)
  then show ?thesis using assms preservesD [OF poll_facts(4) assms] by (simp add: task_sections split: list.split)
next
  case (ToFetch rest i plan pages)
  then show ?thesis using assms preservesD [OF poll_facts(1) assms, of plan] by (auto split: option.split prod.split)
next
  case (ToApply rest i plan pages execution)
  then show ?thesis using preservesD [OF poll_facts(2) assms] preservesD [OF poll_facts(3) assms]
    by (simp add: task_sections split: sum.split)
next
  case (ToFetchBare stream_id account_id kind symbol timeframe)
  then show ?thesis using assms preservesD [OF bare_fetch_preserves assms, of stream_id account_id kind symbol timeframe]
    by (auto split: option.split prod.split)
next
  case (ToApplyBare execution)
  have "preserves I (apply_bare_fetched_bar env bar events)" for bar events
    unfolding apply_bare_fetched_bar_def by (intro invariant_rules poll_facts(2))
  then have "I (snd (apply_bare_fetched_bar env bar events s))" for bar events using assms by (rule preservesD)
  with ToApplyBare show ?thesis using preservesD [OF poll_facts(2) assms] by (simp add: task_sections split: sum.split)
qed (simp add: assms)

lemma preview_event_keeps:
  assumes "handle_preview_event env spent now_ms account_id subscriptions event s dp = (s', dp')" "I s"
  shows "I s'"
  using assms preservesD [OF update_preserves assms(2)]
  by (auto simp: handle_preview_event_def Let_def split: ConnectorPreviewStreamEvent.splits if_splits)

lemma service_step_keeps: "service_step env sv sv' \<Longrightarrow> I (sv_runtime sv) \<Longrightarrow> I (sv_runtime sv')"
  by (induction rule: service_step.induct)
    (auto simp: begun_cycle_runtime with_task_step_def with_previews_def intro: task_step_keeps perform_keeps preview_event_keeps)

lemma service_run_keeps: "service_run env start sv \<Longrightarrow> I (sv_runtime start) \<Longrightarrow> I (sv_runtime sv)"
  by (induction rule: service_run.induct) (auto intro: service_step_keeps)

end


subsection \<open>The data plane and the preview workers\<close>

lemma plane_update_reachable:
  assumes "plane_reachable dp"
  shows "plane_reachable (case record_fetch_error dp key message of Inl _ \<Rightarrow> dp | Inr (_, dp') \<Rightarrow> dp')"
    "plane_reachable (case record_preview_connection_state dp key state' detail of Inl _ \<Rightarrow> dp | Inr (_, dp') \<Rightarrow> dp')"
    "plane_reachable (case record_preview_update dp key now_ms bar of Inl _ \<Rightarrow> dp | Inr (_, dp') \<Rightarrow> dp')"
  using assms by (auto split: sum.split prod.split intro: plane_next step_fetch_error step_preview_state step_preview_update)

lemma note_error_reachable: "plane_reachable dp \<Longrightarrow> plane_reachable (note_stream_error key message dp)"
  unfolding note_stream_error_def by (intro plane_next [OF _ step_completion] plane_update_reachable)

lemma record_bars_reachable: "plane_reachable dp \<Longrightarrow> plane_reachable (snd (record_bars key now_ms bars dp))"
proof (induction bars arbitrary: dp)
  case (Cons bar bars)
  from Cons.prems have "record_fetched_bar dp key now_ms bar = Inr (appended, dp') \<Longrightarrow> plane_reachable dp'" for appended dp'
    by (auto simp: record_fetched_bar_def intro: plane_next step_fetched)
  with Cons show ?case by (auto split: sum.split DataPlaneError.split)
qed simp

lemma poll_result_reachable:
  assumes "plane_reachable dp"
  shows "plane_reachable (record_stream_poll_result dp key now_ms result)"
proof (cases result)
  case (Inr advance)
  obtain message dp' where bars: "record_bars key now_ms (pa_recorded_bars advance) dp = (message, dp')" by fastforce
  with record_bars_reachable [OF assms, of key now_ms "pa_recorded_bars advance"] have "plane_reachable dp'" by simp
  with bars Inr show ?thesis
    by (auto simp: record_stream_poll_result_def split: option.split intro: note_error_reachable plane_next step_completion)
qed (simp add: record_stream_poll_result_def note_error_reachable assms)

lemma preview_state_reachable:
  "plane_reachable dp \<Longrightarrow> plane_reachable (record_preview_state_for_subscriptions account_id subscriptions state' detail dp)"
  unfolding record_preview_state_for_subscriptions_def
  by (induction subscriptions arbitrary: dp) (simp_all add: plane_update_reachable)

lemma task_step_reachable: "plane_reachable dp \<Longrightarrow> plane_reachable (snd (task_step env spent durations crash stage task s dp))"
  by (cases stage) (auto split: option.split sum.split prod.split intro: plane_next step_fetch_latency step_lock_wait)

lemma admitted_reachable: "plane_reachable (sv_plane sv) \<Longrightarrow> plane_reachable (sv_plane (foldl admit_poll sv plans))"
  by (induction plans arbitrary: sv)
    (auto simp: admit_poll_def record_plan_phase_failure_def note_error_reachable split: prod.split sum.split)

lemma stale_reachable:
  assumes "plane_reachable (snd state')"
  shows "plane_reachable (snd (remove_stale_workers desired state'))"
proof -
  have "plane_reachable (snd (foldl (\<lambda>(workers, dp) (account_id, subscriptions).
      (hm_remove account_id workers, preview_stopped account_id subscriptions ''preview stream stopped'' dp)) st gone))"
    if "plane_reachable (snd st)" for gone and st :: "preview_workers \<times> DataPlane"
    using that by (induction gone arbitrary: st) (simp_all add: preview_state_reachable split_beta)
  with assms show ?thesis by (simp add: remove_stale_workers_def)
qed

lemma admit_worker_reachable:
  "plane_reachable (snd state') \<Longrightarrow> plane_reachable (snd (admit_worker refused gateway desired state' account_id))"
  by (auto simp: admit_worker_def Let_def preview_state_reachable split: prod.split sum.split option.split)

lemma admit_workers_reachable:
  "plane_reachable (snd st) \<Longrightarrow>
    plane_reachable (snd (foldl (\<lambda>state' account_id. admit_worker (refused account_id) gateway desired state' account_id) st ids))"
  by (induction ids arbitrary: st) (simp_all add: admit_worker_reachable)

lemma managed_reachable: "plane_reachable (snd state') \<Longrightarrow> plane_reachable (snd (manage_preview_workers refused s state'))"
  by (simp add: manage_preview_workers_def Let_def stale_reachable admit_workers_reachable split: prod.split)

lemma worker_updates_reachable:
  assumes "plane_reachable (snd state')"
  shows "plane_reachable (snd (refresh_preview_worker refused desired account_id state'))"
    "plane_reachable (snd (preview_session_ended account_id state'))" "plane_reachable (snd (stop_preview_workers state'))"
proof -
  show "plane_reachable (snd (refresh_preview_worker refused desired account_id state'))"
    "plane_reachable (snd (preview_session_ended account_id state'))"
    using assms by (auto simp: refresh_preview_worker_def preview_session_ended_def Let_def preview_state_reachable
        split: prod.split option.split)
  have "plane_reachable (foldl (\<lambda>dp (account_id, subscriptions). preview_stopped account_id subscriptions ''preview stream shutdown'' dp) dp ws)"
    if "plane_reachable dp" for dp and ws :: preview_workers
    using that by (induction ws arbitrary: dp) (simp_all add: preview_state_reachable split_beta)
  with assms show "plane_reachable (snd (stop_preview_workers state'))" by (simp add: stop_preview_workers_def)
qed

lemma preview_event_reachable:
  assumes "handle_preview_event env spent now_ms account_id subscriptions event s dp = (s', dp')" "plane_reachable dp"
  shows "plane_reachable dp'"
  using assms plane_update_reachable(3) [OF assms(2)]
  by (auto simp: handle_preview_event_def Let_def preview_state_reachable split: ConnectorPreviewStreamEvent.splits if_splits)

lemma service_plane_reachable: "service_step env sv sv' \<Longrightarrow> plane_reachable (sv_plane sv) \<Longrightarrow> plane_reachable (sv_plane sv')"
proof (induction rule: service_step.induct)
  case (cycle_begins sv now_ms)
  from cycle_begins(2) have "plane_reachable (snd (take_due_streams (sv_plane sv) now_ms))" by (blast intro: plane_next step_due)
  then show ?case by (auto simp: begin_poll_cycle_def Let_def split: prod.split intro!: admitted_reachable)
qed (auto simp: with_task_step_def with_previews_def task_step_reachable poll_result_reachable managed_reachable worker_updates_reachable
    intro: plane_next step_replace step_cycle preview_event_reachable)

text \<open>The preview workers stay within their bound.\<close>

lemma length_hm: "length (hm_remove k m) \<le> length m" "length (hm_insert k v m) \<le> Suc (length m)"
  "hm_get m k \<noteq> None \<Longrightarrow> length (hm_insert k v m) = length m"
  by (induction m) (auto simp: hm_remove_def hm_insert_def hm_get_def AList.delete_eq intro: le_SucI)

lemma candidates_bounded:
  "length workers + length (fst (partition_preview_worker_candidates workers ids)) \<le> max (length workers) MAX_ACTIVE_PREVIEW_WORKERS"
proof -
  have "case foldl (\<lambda>(admitted, skipped, projected_active) account_id.
            if hm_get workers account_id \<noteq> None then (admitted, skipped, projected_active)
            else if projected_active < MAX_ACTIVE_PREVIEW_WORKERS then (admitted @ [account_id], skipped, projected_active + 1)
            else (admitted, skipped @ [account_id], projected_active)) (a, b, length workers + length a) ids of
      (admitted, _, _) \<Rightarrow> length workers + length admitted \<le> max (length workers + length a) MAX_ACTIVE_PREVIEW_WORKERS" for a b
  proof (induction ids arbitrary: a b)
    case (Cons i ids)
    from Cons.IH [of a b] Cons.IH [of "a @ [i]" b] Cons.IH [of a "b @ [i]"] show ?case by (auto split: prod.splits)
  qed simp
  from this [of "[]" "[]"] show ?thesis by (auto simp: partition_preview_worker_candidates_def split: prod.splits)
qed

lemma admitted_workers:
  "length (fst (foldl (\<lambda>state' account_id. admit_worker (refused account_id) gateway desired state' account_id) st ids)) \<le> length (fst st) + length ids"
proof (induction ids arbitrary: st)
  case (Cons i ids)
  have "length (fst (admit_worker (refused i) gateway desired st i)) \<le> Suc (length (fst st))"
    using length_hm(2) by (auto simp: admit_worker_def Let_def split: prod.split sum.split option.split)
  with Cons [of "admit_worker (refused i) gateway desired st i"] show ?case by simp
qed simp

lemma stale_workers: "length (fst (remove_stale_workers desired st)) \<le> length (fst st)"
proof -
  have "length (fst (foldl (\<lambda>(workers, dp) (account_id, subscriptions).
      (hm_remove account_id workers, preview_stopped account_id subscriptions ''preview stream stopped'' dp)) st gone)) \<le> length (fst st)"
    for gone and st :: "preview_workers \<times> DataPlane"
  proof (induction gone arbitrary: st)
    case (Cons g gone)
    from Cons [of "(hm_remove (fst g) (fst st), preview_stopped (fst g) (snd g) ''preview stream stopped'' (snd st))"] length_hm(1) [of "fst g" "fst st"]
    show ?case by (simp add: split_beta)
  qed simp
  then show ?thesis by (simp add: remove_stale_workers_def)
qed

lemma service_workers_bounded:
  "service_step env sv sv' \<Longrightarrow> length (sv_workers sv) \<le> MAX_ACTIVE_PREVIEW_WORKERS \<Longrightarrow> length (sv_workers sv') \<le> MAX_ACTIVE_PREVIEW_WORKERS"
proof (induction rule: service_step.induct)
  case (cycle_begins sv now_ms)
  have "sv_workers (foldl admit_poll sv plans) = sv_workers sv" for sv :: "('c, 'a, 'b) Service" and plans
    by (induction plans arbitrary: sv) (auto simp: admit_poll_def split: prod.split sum.split)
  with cycle_begins show ?case by (simp add: begin_poll_cycle_def Let_def split: prod.split)
next
  case (previews_managed sv refused)
  let ?desired = "effective_preview_streams_by_account (sv_runtime sv)"
  let ?st = "remove_stale_workers ?desired (sv_workers sv, sv_plane sv)"
  obtain admitted skipped where parts: "partition_preview_worker_candidates (fst ?st) (map fst ?desired) = (admitted, skipped)" by fastforce
  from candidates_bounded [of "fst ?st" "map fst ?desired"] parts stale_workers [of ?desired "(sv_workers sv, sv_plane sv)"] previews_managed
  have "length (fst ?st) + length admitted \<le> MAX_ACTIVE_PREVIEW_WORKERS" by simp
  with admitted_workers [of refused "rt_gateway (sv_runtime sv)" ?desired ?st admitted] parts show ?case
    by (simp add: with_previews_def manage_preview_workers_def Let_def)
next
  case (preview_refreshed sv error desired account_id)
  then show ?case using length_hm(1) [of account_id "sv_workers sv"] length_hm(3) [of "sv_workers sv" account_id desired]
    by (auto simp: with_previews_def refresh_preview_worker_def split: option.split)
next
  case (preview_ended sv account_id)
  then show ?case using length_hm(1) [of account_id "sv_workers sv"]
    by (auto simp: with_previews_def preview_session_ended_def split: option.split)
qed (auto simp: with_task_step_def with_previews_def stop_preview_workers_def)

subsection \<open>An undisturbed task is a stream poll\<close>

inductive undisturbed :: "('j, 'w) RuntimeEnv \<Rightarrow> (string \<Rightarrow> CycleTimes) \<Rightarrow> PollTask \<Rightarrow> ('v, 'j, 'w) Runtime \<Rightarrow> PollTask \<Rightarrow> ('v, 'j, 'w) Runtime \<Rightarrow> bool"
  for env spent where
  task_rests: "undisturbed env spent task s task s"
| task_moves: "fst (task_step env spent durations None (tk_stage task) task s dp) = (task', s') \<Longrightarrow>
    undisturbed env spent task' s' task'' s'' \<Longrightarrow> undisturbed env spent task s task'' s''"

lemma undisturbed_trans:
  "undisturbed env spent task s task' s' \<Longrightarrow> undisturbed env spent task' s' task'' s'' \<Longrightarrow> undisturbed env spent task s task'' s''"
  by (induction rule: undisturbed.induct) (auto intro: task_moves)

lemma one_step:
  "fst (task_step env spent durations None (tk_stage task) task s dp) = (task', s') \<Longrightarrow> undisturbed env spent task s task' s'"
  by (auto intro: task_moves task_rests)

lemma insert_bars_append: "insert_bars (xs @ ys) m = insert_bars ys (insert_bars xs m)"
  by (simp add: insert_bars_def)

definition stage_for :: "string list \<Rightarrow> string \<Rightarrow> LanePollPlan option \<Rightarrow> nat \<Rightarrow> TaskStage" where
  "stage_for rest i next_plan pages = (case next_plan of None \<Rightarrow> ToPlan rest | Some plan \<Rightarrow> ToFetch rest i plan pages)"

text \<open>A plan is a fetch and its application, two sections of the task.\<close>

lemma plan_as_sections:
  assumes "poll_plan env (spent i) plan s = (r, s')" "\<not> (is_recovery_page plan \<and> max MAX_RECOVERY_PAGES_PER_CYCLE 1 \<le> pages)"
    and "tk_stage task = ToFetch rest i plan pages"
  shows "undisturbed env spent task s (case r of
      Inl error \<Rightarrow> task\<lparr>tk_stage := Ended (Inl error)\<rparr>
    | Inr outcome \<Rightarrow> task\<lparr>tk_stage := stage_for rest i (lpo_next_plan outcome) (if is_recovery_page plan then pages + 1 else pages),
        tk_bars := insert_bars (pa_recorded_bars (lpo_advance outcome)) (tk_bars task),
        tk_outcomes := tk_outcomes task @ pa_outcomes (lpo_advance outcome)\<rparr>) s'"
proof -
  obtain execution s1 where fetch: "execute_lane_poll_plan env plan s = (execution, s1)" by fastforce
  let ?task = "task\<lparr>tk_stage := ToApply rest i plan pages execution\<rparr>"
  have "undisturbed env spent task s ?task s1"
    using assms(2,3) fetch by (intro one_step) auto
  moreover have "undisturbed env spent ?task s1 (case r of
      Inl error \<Rightarrow> task\<lparr>tk_stage := Ended (Inl error)\<rparr>
    | Inr outcome \<Rightarrow> task\<lparr>tk_stage := stage_for rest i (lpo_next_plan outcome) (if is_recovery_page plan then pages + 1 else pages),
        tk_bars := insert_bars (pa_recorded_bars (lpo_advance outcome)) (tk_bars task),
        tk_outcomes := tk_outcomes task @ pa_outcomes (lpo_advance outcome)\<rparr>) s'"
    using assms(1) fetch
    by (intro one_step) (auto simp: poll_plan_def handle_def then_do_def flush_provider_events_def apply_lane_fetch_def task_ends_def
        stage_for_def split: sum.splits prod.splits option.splits)
  ultimately show ?thesis by (rule undisturbed_trans)
qed

lemma loop_as_sections:
  assumes "poll_run env (spent i) MAX_RECOVERY_PAGES_PER_CYCLE next_plan pages advance s n r"
    and "tk_stage task = stage_for rest i next_plan pages"
    and "tk_bars task = insert_bars (pa_recorded_bars advance) bars" "tk_outcomes task = outcomes @ pa_outcomes advance"
  shows "\<exists>task'. undisturbed env spent task s task' (snd r) \<and> tk_key task' = tk_key task \<and> (case fst r of
      Inl error \<Rightarrow> tk_stage task' = Ended (Inl error)
    | Inr advance' \<Rightarrow> tk_stage task' = ToPlan rest \<and> tk_bars task' = insert_bars (pa_recorded_bars advance') bars \<and>
        tk_outcomes task' = outcomes @ pa_outcomes advance')"
  using assms
proof (induction arbitrary: task rule: poll_run.induct)
  case (run_done pages advance s)
  then show ?case by (intro exI [of _ task]) (simp add: stage_for_def task_rests)
next
  case (run_page_bound plan pages advance s)
  then have "undisturbed env spent task s (task\<lparr>tk_stage := ToPlan rest\<rparr>) s"
    by (intro one_step) (simp add: stage_for_def)
  with run_page_bound show ?case by (intro exI [of _ "task\<lparr>tk_stage := ToPlan rest\<rparr>"]) simp
next
  case (run_failed plan pages s error s' advance)
  with plan_as_sections [where spent = spent and i = i and task = task and rest = rest, OF run_failed.hyps(2,1)]
  show ?case by (intro exI [of _ "task\<lparr>tk_stage := Ended (Inl error)\<rparr>"]) (simp add: stage_for_def)
next
  case (run_next plan pages s outcome s' advance n r)
  let ?task = "task\<lparr>tk_stage := stage_for rest i (lpo_next_plan outcome) (if is_recovery_page plan then pages + 1 else pages),
    tk_bars := insert_bars (pa_recorded_bars (lpo_advance outcome)) (tk_bars task),
    tk_outcomes := tk_outcomes task @ pa_outcomes (lpo_advance outcome)\<rparr>"
  from run_next.prems plan_as_sections [where spent = spent and i = i and task = task and rest = rest, OF run_next.hyps(2,1)]
  have first: "undisturbed env spent task s ?task s'" by (simp add: stage_for_def)
  obtain task' where "undisturbed env spent ?task s' task' (snd r)" "tk_key task' = tk_key ?task" "case fst r of
      Inl error \<Rightarrow> tk_stage task' = Ended (Inl error)
    | Inr advance' \<Rightarrow> tk_stage task' = ToPlan rest \<and> tk_bars task' = insert_bars (pa_recorded_bars advance') bars \<and>
        tk_outcomes task' = outcomes @ pa_outcomes advance'"
    using run_next.IH [of ?task] run_next.prems(2,3) by (auto simp: extend_advance_def insert_bars_append)
  with first show ?case by (intro exI [of _ task']) (auto intro: undisturbed_trans)
qed

lemma lanes_as_sections:
  assumes "fan_out env spent ids bars outcomes s = Some (r, s')"
    and "tk_stage task = ToPlan ids" "tk_bars task = bars" "tk_outcomes task = outcomes"
  shows "\<exists>task'. undisturbed env spent task s task' s' \<and> tk_key task' = tk_key task \<and> tk_stage task' = Ended r"
  using assms
proof (induction ids arbitrary: bars outcomes s task)
  case Nil
  then have "undisturbed env spent task s (task_ends task r) s'"
    by (intro one_step) (auto simp: plan_next_lane_def)
  then show ?case by (intro exI [of _ "task_ends task r"]) (simp add: task_ends_def)
next
  case (Cons i ids)
  obtain planned s1 where plan: "then_do (runtime_now_ms env) (\<lambda>now_ms. tries (plan_lane_polling i RECOVERY_PAGE_LIMIT now_ms)) s = (planned, s1)"
    by fastforce
  show ?case
  proof (cases planned)
    case (Inl error)
    with Cons.prems plan have "undisturbed env spent task s (task_ends task r) s'"
      by (intro one_step) (auto simp: plan_next_lane_def rt_advance_lane_polling_once_def)
    then show ?thesis by (intro exI [of _ "task_ends task r"]) (simp add: task_ends_def)
  next
    case (Inr p)
    let ?task = "task\<lparr>tk_stage := ToFetch ids i p 0\<rparr>"
    from Cons.prems(2) plan Inr have first: "undisturbed env spent task s ?task s1"
      by (intro one_step) (simp add: plan_next_lane_def)
    obtain n res s2 where run: "poll_run env (spent i) MAX_RECOVERY_PAGES_PER_CYCLE (Some p) 0 LanePollingAdvance_default s1 n (res, s2)"
      using poll_run_exists by (metis prod.exhaust)
    with plan Inr have advance: "rt_advance_lane_polling_once env (spent i) i RECOVERY_PAGE_LIMIT MAX_RECOVERY_PAGES_PER_CYCLE s = Some (res, s2)"
      by (simp add: rt_advance_lane_polling_once_def run_is_loop)
    from loop_as_sections [where spent = spent and i = i and task = ?task and rest = ids and bars = bars and outcomes = outcomes, OF run] Cons.prems(3,4)
    obtain task' where lane: "undisturbed env spent ?task s1 task' s2" "tk_key task' = tk_key task" "case res of
        Inl error \<Rightarrow> tk_stage task' = Ended (Inl error)
      | Inr advance' \<Rightarrow> tk_stage task' = ToPlan ids \<and> tk_bars task' = insert_bars (pa_recorded_bars advance') bars \<and>
          tk_outcomes task' = outcomes @ pa_outcomes advance'"
      by (auto simp: stage_for_def LanePollingAdvance_default_def insert_bars_def)
    note so_far = undisturbed_trans [OF first lane(1)]
    show ?thesis
    proof (cases res)
      case (Inl error)
      with Cons.prems(1) advance so_far lane show ?thesis by auto
    next
      case (Inr advance')
      with Cons.prems(1) advance have "fan_out env spent ids (insert_bars (pa_recorded_bars advance') bars) (outcomes @ pa_outcomes advance') s2 = Some (r, s')"
        by simp
      from Cons.IH [OF this, of task'] lane(2,3) Inr so_far show ?thesis by (auto intro: undisturbed_trans)
    qed
  qed
qed

text \<open>C16: A fetch task of the supervisor that is not disturbed by other tasks does exactly what a stream poll of the
  runtime does: it ends with the same result and the same runtime. The sections of the task, with the locks
  released in between, add and lose nothing.\<close>

theorem undisturbed_task_is_stream_poll:
  "case (plan_stream_polling key s, advance_stream_polling_once env spent key s) of
     (Inr plan, Some (result, s')) \<Rightarrow> \<exists>task. undisturbed env spent (task_for_plan key plan) s task s' \<and> tk_key task = key \<and> tk_stage task = Ended result
   | (Inr plan, None) \<Rightarrow> False
   | (Inl error, _) \<Rightarrow> True"
proof (cases "plan_stream_polling key s")
  case (Inr plan)
  obtain result s' where poll: "advance_stream_polling_once env spent key s = Some (result, s')"
    using stream_poll_returns by fastforce
  have "\<exists>task. undisturbed env spent (task_for_plan key plan) s task s' \<and> tk_key task = key \<and> tk_stage task = Ended result"
  proof (cases plan)
    case (LaneFanOut ids)
    with poll Inr have "fan_out env spent ids [] [] s = Some (result, s')"
      by (simp add: advance_stream_polling_once_def apply_lane_fanout_def)
    from lanes_as_sections [OF this, of "task_for_plan key plan"] LaneFanOut show ?thesis by simp
  next
    case (BareFetch stream_id account_id kind symbol timeframe)
    let ?task = "task_for_plan key plan"
    obtain execution s1 where fetch: "gateway_fetch_latest_bar_with_events env stream_id account_id kind symbol timeframe s = (execution, s1)"
      by fastforce
    have "undisturbed env spent ?task s (?task\<lparr>tk_stage := ToApplyBare execution\<rparr>) s1"
      using fetch BareFetch by (intro one_step) auto
    moreover have "undisturbed env spent (?task\<lparr>tk_stage := ToApplyBare execution\<rparr>) s1 (task_ends ?task result) s'"
      using poll Inr BareFetch fetch
      by (intro one_step) (auto simp: advance_stream_polling_once_def fetch_bare_stream_def handle_def then_do_def
          flush_provider_events_def apply_bare_fetch_def task_ends_def split: sum.splits prod.splits)
    ultimately show ?thesis using BareFetch
      by (intro exI [of _ "task_ends ?task result"]) (auto simp: task_ends_def intro: undisturbed_trans)
  qed
  with Inr poll show ?thesis by simp
qed simp

subsection \<open>The supervised service\<close>


text \<open>A confirmed bar that comes over a preview stream is shown but not traded: only the poll delivers it.\<close>

lemma confirmed_preview_not_traded:
  "bu_phase update = Confirmed \<Longrightarrow>
    fst (handle_preview_event env spent now_ms account_id subscriptions (StreamBarUpdate subscription update) s dp) = s"
  by (simp add: handle_preview_event_def Let_def)

text \<open>No fetch is started for an account that is rate limited when the cycle begins.\<close>

lemma admitted_keys:
  "tk_key ` set (sv_tasks (foldl admit_poll sv plans)) \<subseteq> tk_key ` set (sv_tasks sv) \<union> fst ` set plans"
proof (induction plans arbitrary: sv)
  case (Cons planned plans)
  have key: "tk_key (task_for_plan key plan) = key" for key plan by (cases plan) simp_all
  have "tk_key ` set (sv_tasks (admit_poll sv planned)) \<subseteq> insert (fst planned) (tk_key ` set (sv_tasks sv))"
    by (cases planned) (auto simp: admit_poll_def key split: sum.split)
  with Cons [of "admit_poll sv planned"] show ?case by auto
qed simp

lemma throttled_streams_not_polled:
  assumes "task \<in> set (sv_tasks (begin_poll_cycle now_ms sv))" "sv_tasks sv = []"
  shows "sk_account_id (tk_key task) \<notin> set (throttled_accounts now_ms (rt_gateway (sv_runtime sv)))"
proof -
  obtain due dp where due: "take_due_streams (sv_plane sv) now_ms = (due, dp)" by fastforce
  let ?plans = "filter (\<lambda>(key, _). sk_account_id key \<notin> set (throttled_accounts now_ms (rt_gateway (sv_runtime sv))))
    (map (\<lambda>key. (key, plan_stream_polling key (sv_runtime sv))) due)"
  from assms due have "task \<in> set (sv_tasks (foldl admit_poll (sv\<lparr>sv_plane := dp, sv_cycle_ms := now_ms\<rparr>) ?plans))"
    by (simp add: begin_poll_cycle_def Let_def)
  then have "tk_key task \<in> fst ` set ?plans"
    using admitted_keys [of "sv\<lparr>sv_plane := dp, sv_cycle_ms := now_ms\<rparr>" ?plans] assms(2) by auto
  then show ?thesis by auto
qed

end
