(* ===== verification/Providers.thy ===== *)
theory Providers
  imports BinanceStream Gateway
begin

section \<open>The remote connectors behind the gateway\<close>

text \<open>
  The remote side of the connectors, which the gateway and the runtime take as a parameter, built from the
  models of Alpaca and Binance: the connector of an account is chosen by its kind
  (\<open>openticker-connectors/src/registry.rs\<close>). One operation stays a parameter, \<open>recent\<close>: the paging of the
  recent bars of Alpaca, which may not return.

  What a client of the gateway relies on is the locale \<open>provider_contract\<close>; it is interpreted on these
  connectors, and the guarantees of the gateway follow for them, for offline accounts as well as remote ones.
\<close>

definition remote_connectors ::
    "(ConnectorAccount \<Rightarrow> string \<Rightarrow> Timeframe \<Rightarrow> nat \<Rightarrow> ('w Outside, ConnectorError, OhlcvBar list) workflow) \<Rightarrow> 'w Web \<Rightarrow> Clock
     \<Rightarrow> AlpacaDecoders \<Rightarrow> BinanceDecoders \<Rightarrow> StreamDecoders \<Rightarrow> 'w RemoteProvider" where
  "remote_connectors recent web clock adec bdec sdec =
     \<lparr>rem_fetch_snapshot = (\<lambda>account. case ca_kind account of
          Alpaca \<Rightarrow> alpaca_fetch_remote_snapshot web clock adec account
        | Binance \<Rightarrow> binance_fetch_remote_snapshot web clock bdec account),
      rem_fetch_latest_bar = (\<lambda>account. case ca_kind account of
          Alpaca \<Rightarrow> alpaca_fetch_remote_latest_bar web clock adec account
        | Binance \<Rightarrow> binance_fetch_remote_latest_bar web clock bdec account),
      rem_fetch_recent_bars = (\<lambda>account. case ca_kind account of
          Alpaca \<Rightarrow> recent account
        | Binance \<Rightarrow> binance_fetch_remote_recent_bars web clock bdec account),
      rem_fetch_latest_confirmed_bar_timestamp = (\<lambda>account. case ca_kind account of
          Alpaca \<Rightarrow> alpaca_fetch_remote_latest_confirmed_bar_timestamp web clock adec account
        | Binance \<Rightarrow> binance_fetch_remote_latest_confirmed_bar_timestamp web clock bdec account),
      rem_fetch_confirmed_bars_range = (\<lambda>account. case ca_kind account of
          Alpaca \<Rightarrow> alpaca_fetch_remote_confirmed_bars_range web clock adec account
        | Binance \<Rightarrow> binance_fetch_remote_confirmed_bars_range web clock bdec account),
      rem_submit_order = (\<lambda>account. case ca_kind account of
          Alpaca \<Rightarrow> alpaca_submit_remote_order web clock adec account
        | Binance \<Rightarrow> binance_submit_remote_order web clock bdec account),
      rem_fetch_symbol_constraints = (\<lambda>account. case ca_kind account of
          Alpaca \<Rightarrow> alpaca_fetch_remote_symbol_constraints web clock adec account
        | Binance \<Rightarrow> binance_fetch_remote_symbol_constraints web clock bdec account),
      rem_normalize_market_data_event = normalize_market_data_event clock sdec\<rparr>"

subsection \<open>What clients of the gateway rely on\<close>

text \<open>An accepted order executes its request: a market order of the side of the request, for some quantity.\<close>

definition order_executes :: "ExecutionRequest \<Rightarrow> AcceptedOrder \<Rightarrow> bool" where
  "order_executes request accepted \<longleftrightarrow> ao_order_type accepted = Market \<and> \<not> ao_quantity accepted \<le> 0
     \<and> (case paper_submit request of Inl _ \<Rightarrow> False | Inr stub \<Rightarrow> ao_side accepted = ao_side stub)"

lemma epsilon_pos: "x \<le> 0 \<Longrightarrow> x \<le> f64_epsilon"
proof -
  have "(0 :: f64) \<le> f64_epsilon" by code_simp
  then show "x \<le> 0 \<Longrightarrow> x \<le> f64_epsilon" by (rule f64_le_trans [rotated])
qed

lemma fill_executes: "fill_of request accepted \<Longrightarrow> order_executes request accepted"
  by (auto simp: fill_of_def order_executes_def dest: epsilon_pos)

locale provider_contract =
  fixes remote :: "'w RemoteProvider"
  assumes submitted: "rem_submit_order remote account request o' = (Inr accepted, o'') \<Longrightarrow> fill_of request accepted"
    and constrained: "rem_fetch_symbol_constraints remote account symbol o' = (Inr constraints, o'') \<Longrightarrow> constraints_positive constraints"
begin

lemma checked_call_result:
  assumes "checked_call clock account_id call g = (Inr a, g')"
  shows "\<exists>client o1 o2. call client o1 = (Inr a, o2)"
  using assms
  by (fastforce simp: checked_call_def workflow_result track_rate_limit_def handle_def on_outside_def then_do_def fail_def ok_def
      split: sum.splits prod.splits option.splits)

lemma order_of_gateway: "gw_submit_order clock remote account_id request g = (Inr accepted, g') \<Longrightarrow> order_executes request accepted"
  unfolding gw_submit_order_def
  by (drule checked_call_result) (auto simp: cn_submit_order_def stub_submit_order_def order_executes_def paper_submit_def
      dest!: submitted [THEN fill_executes] split: if_splits sum.splits)

lemma unchecked_call_result:
  assumes "unchecked_call clock account_id call g = (Inr a, g')"
  shows "\<exists>client o1 o2. call client o1 = (Inr a, o2)"
  using assms
  by (fastforce simp: unchecked_call_def workflow_result track_rate_limit_def handle_def on_outside_def then_do_def fail_def ok_def
      split: sum.splits prod.splits option.splits)

text \<open>The sanitizing of the gateway drops nothing that a connector reports.\<close>

lemma constraints_of_gateway:
  assumes "gw_fetch_normalized_symbol_constraints_unchecked clock remote account_id symbol g = (Inr normalized, g')"
  shows "\<exists>constraints. constraints_positive constraints \<and> nsc_execution_constraints normalized =
    \<lparr>quantity_step = csc_quantity_step constraints, min_quantity = csc_min_quantity constraints,
     min_notional_usd = csc_min_notional_usd constraints\<rparr>"
proof -
  from assms obtain constraints g1 where fetch: "unchecked_call clock account_id (\<lambda>client. cn_fetch_symbol_constraints remote client symbol) g = (Inr constraints, g1)"
    and normalized: "normalized = normalize_symbol_constraints constraints"
    by (auto simp: gw_fetch_normalized_symbol_constraints_unchecked_def workflow_result ok_def)
  have "constraints_positive ConnectorSymbolConstraints_default"
    by (simp add: constraints_positive_def positive_option_def ConnectorSymbolConstraints_default_def)
  with unchecked_call_result [OF fetch] have "constraints_positive constraints"
    by (auto simp: cn_fetch_symbol_constraints_def ok_def dest: constrained split: if_splits)
  moreover from this have "nsc_execution_constraints normalized =
    \<lparr>quantity_step = csc_quantity_step constraints, min_quantity = csc_min_quantity constraints, min_notional_usd = csc_min_notional_usd constraints\<rparr>"
    unfolding normalized normalize_symbol_constraints_def
    by (auto simp: constraints_positive_def positive_option_def sanitize_positive_constraint_def split: option.splits)
  ultimately show ?thesis by blast
qed

end

subsection \<open>Alpaca and Binance keep the contract\<close>

lemma asset_constraints_positive: "constraints_positive (symbol_constraints_from_asset asset)"
proof -
  have "is_finite (1 :: f64) \<and> (0 :: f64) < 1" by code_simp
  then show ?thesis by (simp add: constraints_positive_def positive_option_def symbol_constraints_from_asset_def Let_def)
qed

interpretation connectors: provider_contract "remote_connectors recent web clock adec bdec sdec" for recent web clock adec bdec sdec
proof unfold_locales
  show "fill_of request accepted"
    if "rem_submit_order (remote_connectors recent web clock adec bdec sdec) account request o' = (Inr accepted, o'')" for account request accepted o' o''
    using that by (auto simp: remote_connectors_def split: ConnectorKind.splits dest: remote_orders_fill)
  show "constraints_positive constraints"
    if "rem_fetch_symbol_constraints (remote_connectors recent web clock adec bdec sdec) account symbol o' = (Inr constraints, o'')"
    for account symbol constraints o' o''
    using that
    by (auto simp: remote_connectors_def alpaca_fetch_remote_symbol_constraints_def binance_fetch_remote_symbol_constraints_def
        workflow_result checked_result asset_constraints_positive
        split: ConnectorKind.splits if_splits dest!: session_result dest: exchange_constraints_usable)
qed

text \<open>C9: An order that the gateway reports as accepted executes its request, with Alpaca, Binance or the offline
  connector behind it and whatever the providers answer: the request was executable, and the accepted order
  is a market order of the request's side whose quantity is positive (or not a number, which the numbers of a
  Binance payload allow and those of an Alpaca payload do not, lemma \<open>alpaca_fill_decoded\<close>). An order that ended without a fill is an error, never an acceptance.\<close>

theorem accepted_orders_execute_requests:
  "case gw_submit_order clock (remote_connectors recent web clock' adec bdec sdec) account_id request g of
     (Inr accepted, _) \<Rightarrow> order_executes request accepted | _ \<Rightarrow> True"
  by (auto dest: connectors.order_of_gateway split: prod.split sum.split)

end
