(* ===== verification/ConfigFiles.thy ===== *)
theory ConfigFiles
  imports Config Workflow
begin

section \<open>Configuration files (openticker-config/src/sources.rs, loading.rs, writing.rs)\<close>

text \<open>
  The configuration lives in TOML files: one global file and a directory each for accounts, risk
  profiles and bots. Reading keeps every parsed value with its file; an update replaces one file
  through a temporary file and a rename.

  Paths are their components (a leading \<open>.\<close> is one, as in the standard library). A disk holds its files
  and directories; every call to it may fail: \<open>dk_faults\<close> names the error of the n-th call, and a failed
  write lets a part of the text through. The TOML library and \<open>dotenvy\<close> are parameters: \<open>Toml\<close> holds the
  decoders of the four kinds of file and the rendering of a changed or a new document.

  The lemmas show that a replaced file has either its old or its new contents, that no other
  configuration file changes, and that what a failed write leaves behind is never read as configuration.
\<close>

subsection \<open>Paths\<close>

record Path =
  path_is_absolute :: bool
  path_components :: "string list"

fun split_slash :: "string \<Rightarrow> string list" where
  "split_slash [] = [[]]"
| "split_slash (c # cs) = (if c = CHR ''/'' then [] # split_slash cs
     else (case split_slash cs of [] \<Rightarrow> [[c]] | part # parts \<Rightarrow> (c # part) # parts))"

definition without_dots :: "string list \<Rightarrow> string list" where
  "without_dots = filter (\<lambda>part. part \<noteq> ''.'')"

definition path_of :: "string \<Rightarrow> Path" where
  "path_of text =
     (let parts = filter (\<lambda>part. part \<noteq> []) (split_slash text); absolute = (take 1 text = ''/'') in
      \<lparr>path_is_absolute = absolute,
       path_components = (case parts of [] \<Rightarrow> []
         | part # rest \<Rightarrow> (if absolute then without_dots [part] else [part]) @ without_dots rest)\<rparr>)"

definition path_text :: "Path \<Rightarrow> string" where
  "path_text path = (if path_is_absolute path then ''/'' else []) @ join ''/'' (path_components path)"

definition path_join :: "Path \<Rightarrow> Path \<Rightarrow> Path" where
  "path_join base path = (if path_is_absolute path then path
     else if path_components base = [] \<and> \<not> path_is_absolute base then path
     else base\<lparr>path_components := path_components base @ without_dots (path_components path)\<rparr>)"

definition path_parent :: "Path \<Rightarrow> Path option" where
  "path_parent path = (if path_components path = [] then None else Some (path\<lparr>path_components := butlast (path_components path)\<rparr>))"

definition file_name :: "Path \<Rightarrow> string option" where
  "file_name path = (if path_components path = [] \<or> last (path_components path) \<in> {''.'', ''..''} then None
     else Some (last (path_components path)))"

definition path_extension :: "Path \<Rightarrow> string option" where
  "path_extension path = (case file_name path of None \<Rightarrow> None
     | Some name \<Rightarrow>
         let after = rev (takeWhile (\<lambda>c. c \<noteq> CHR ''.'') (rev name));
             before = rev (drop (length after + 1) (rev name)) in
         if CHR ''.'' \<notin> set name \<or> before = [] then None else Some after)"

definition components_count :: "Path \<Rightarrow> nat" where
  "components_count path = length (path_components path) + (if path_is_absolute path then 1 else 0)"

subsection \<open>The disk\<close>

record Disk =
  dk_files :: "(Path, string) hmap"
  dk_directories :: "Path list"
  dk_faults :: "nat \<Rightarrow> (string \<times> nat) option"
  dk_calls :: nat

type_synonym 'a io = "(Disk, string, 'a) workflow"

definition not_found :: string where
  "not_found = ''No such file or directory (os error 2)''"

definition is_a_directory :: string where
  "is_a_directory = ''Is a directory (os error 21)''"

text \<open>A call fails with the fault of its turn, after \<open>damage\<close> was done, or runs.\<close>

definition io_call :: "(nat \<Rightarrow> Disk \<Rightarrow> Disk) \<Rightarrow> 'a io \<Rightarrow> 'a io" where
  "io_call damage run d =
     (let d' = d\<lparr>dk_calls := dk_calls d + 1\<rparr> in
      case dk_faults d (dk_calls d) of Some (error, n) \<Rightarrow> (Inl error, damage n d') | None \<Rightarrow> run d')"

definition put_file :: "Path \<Rightarrow> string \<Rightarrow> Disk \<Rightarrow> Disk" where
  "put_file path contents d = d\<lparr>dk_files := hm_insert path contents (dk_files d)\<rparr>"

definition drop_file :: "Path \<Rightarrow> Disk \<Rightarrow> Disk" where
  "drop_file path d = d\<lparr>dk_files := hm_remove path (dk_files d)\<rparr>"

definition fs_is_file :: "Path \<Rightarrow> Disk \<Rightarrow> bool" where
  "fs_is_file path d = (hm_get (dk_files d) path \<noteq> None)"

definition fs_exists :: "Path \<Rightarrow> Disk \<Rightarrow> bool" where
  "fs_exists path d \<longleftrightarrow> fs_is_file path d \<or> path \<in> set (dk_directories d)"

definition read_to_string :: "Path \<Rightarrow> string io" where
  "read_to_string path = io_call (\<lambda>_. id) (tries (\<lambda>d. case hm_get (dk_files d) path of None \<Rightarrow> Inl not_found | Some text \<Rightarrow> Inr text))"

definition read_dir :: "Path \<Rightarrow> Path list io" where
  "read_dir directory = io_call (\<lambda>_. id) (tries (\<lambda>d.
     if directory \<notin> set (dk_directories d) then Inl not_found
     else Inr (filter (\<lambda>path. path_parent path = Some directory) (hm_keys (dk_files d) @ dk_directories d))))"

definition create_file :: "Path \<Rightarrow> unit io" where
  "create_file path = io_call (\<lambda>_. id) (\<lambda>d.
     if path \<in> set (dk_directories d) then (Inl is_a_directory, d)
     else case path_parent path of None \<Rightarrow> (Inl not_found, d)
       | Some parent \<Rightarrow> if parent \<in> set (dk_directories d) then (Inr (), put_file path [] d) else (Inl not_found, d))"

definition write_all :: "Path \<Rightarrow> string \<Rightarrow> unit io" where
  "write_all path contents = io_call (\<lambda>n. put_file path (take n contents)) (updates (put_file path contents))"

definition sync_all :: "unit io" where
  "sync_all = io_call (\<lambda>_. id) (ok ())"

definition rename :: "Path \<Rightarrow> Path \<Rightarrow> unit io" where
  "rename source target = io_call (\<lambda>_. id) (\<lambda>d.
     if target \<in> set (dk_directories d) then (Inl is_a_directory, d)
     else case hm_get (dk_files d) source of None \<Rightarrow> (Inl not_found, d)
       | Some text \<Rightarrow> (Inr (), put_file target text (drop_file source d)))"

definition remove_file :: "Path \<Rightarrow> unit io" where
  "remove_file path = io_call (\<lambda>_. id) (\<lambda>d.
     if fs_is_file path d then (Inr (), drop_file path d) else (Inl not_found, d))"

subsection \<open>Sources (sources.rs)\<close>

record 't SourceFile =
  src_path :: Path
  src_raw :: string
  src_value :: 't

record 'v ConfigSources =
  so_config_dir :: Path
  so_accounts_dir :: Path
  so_risk_dir :: Path
  so_bots_dir :: Path
  so_global :: "GlobalConfig SourceFile"
  so_accounts :: "AccountConfig SourceFile list"
  so_risk_profiles :: "RiskProfileConfig SourceFile list"
  so_instances :: "'v InstanceConfig SourceFile list"

text \<open>What the TOML library does with the four kinds of file: decoding, an updated and a new document.\<close>

record 'v Toml =
  tm_global :: "string \<Rightarrow> string + GlobalConfig"
  tm_account :: "string \<Rightarrow> string + AccountConfig"
  tm_risk_profile :: "string \<Rightarrow> string + RiskProfileConfig"
  tm_instance :: "string \<Rightarrow> string + 'v InstanceConfig"
  tm_updated_global :: "string \<Rightarrow> GlobalConfig \<Rightarrow> ConfigError + string"
  tm_updated_account :: "string \<Rightarrow> AccountConfig \<Rightarrow> ConfigError + string"
  tm_updated_risk_profile :: "string \<Rightarrow> RiskProfileConfig \<Rightarrow> ConfigError + string"
  tm_updated_instance :: "string \<Rightarrow> 'v InstanceConfig \<Rightarrow> ConfigError + string"
  tm_new_instance :: "'v InstanceConfig \<Rightarrow> ConfigError + string"

type_synonym 'a disk_op = "(Disk, ConfigError, 'a) workflow"

definition io_at :: "Path \<Rightarrow> 'a io \<Rightarrow> 'a disk_op" where
  "io_at path m = handle m (\<lambda>source. fail (ConfigIo (path_text path) source)) ok"

definition read_source_file :: "(string \<Rightarrow> string + 't) \<Rightarrow> Path \<Rightarrow> 't SourceFile disk_op" where
  "read_source_file decode path =
     then_do (io_at path (read_to_string path)) (\<lambda>raw.
       case decode raw of Inl source \<Rightarrow> fail (ConfigToml (path_text path) source)
       | Inr v \<Rightarrow> ok \<lparr>src_path = path, src_raw = raw, src_value = v\<rparr>)"

fun read_source_files :: "(string \<Rightarrow> string + 't) \<Rightarrow> Path list \<Rightarrow> 't SourceFile list disk_op" where
  "read_source_files decode [] = ok []"
| "read_source_files decode (path # paths) =
     then_do (read_source_file decode path) (\<lambda>file. then_do (read_source_files decode paths) (\<lambda>files. ok (file # files)))"

definition is_toml :: "Path \<Rightarrow> bool" where
  "is_toml path \<longleftrightarrow> path_extension path = Some ''toml''"

definition read_source_dir :: "(string \<Rightarrow> string + 't) \<Rightarrow> Path \<Rightarrow> 't SourceFile list disk_op" where
  "read_source_dir decode directory =
     then_do (io_at directory (read_dir directory)) (\<lambda>entries.
       read_source_files decode (sort_key path_components (filter is_toml entries)))"

definition GLOBAL_CONFIG_FILE :: string where
  "GLOBAL_CONFIG_FILE = ''openticker.toml''"

definition resolve_config_dir :: "Path \<Rightarrow> Path \<Rightarrow> Disk \<Rightarrow> Path" where
  "resolve_config_dir config_dir configured_dir d =
     (let config_relative = path_join config_dir configured_dir in
      if path_is_absolute configured_dir then configured_dir
      else if fs_exists config_relative d then config_relative
      else case path_parent config_dir of None \<Rightarrow> config_relative
        | Some parent \<Rightarrow>
            let parent_relative = path_join parent configured_dir in
            if fs_exists parent_relative d \<or> components_count configured_dir > 1 then parent_relative else config_relative)"

definition load_sources_from_dir :: "'v Toml \<Rightarrow> Path \<Rightarrow> 'v ConfigSources disk_op" where
  "load_sources_from_dir toml config_dir =
     then_do (read_source_file (tm_global toml) (path_join config_dir (path_of GLOBAL_CONFIG_FILE))) (\<lambda>global.
     then_do (reads (resolve_config_dir config_dir (path_of (svc_bot_dir (gc_service (src_value global)))))) (\<lambda>bots_dir.
     let accounts_dir = path_join config_dir (path_of ''accounts''); risk_dir = path_join config_dir (path_of ''risk'') in
     then_do (read_source_dir (tm_account toml) accounts_dir) (\<lambda>accounts.
     then_do (read_source_dir (tm_risk_profile toml) risk_dir) (\<lambda>risk_profiles.
     then_do (read_source_dir (tm_instance toml) bots_dir) (\<lambda>instances.
     ok \<lparr>so_config_dir = config_dir, so_accounts_dir = accounts_dir, so_risk_dir = risk_dir, so_bots_dir = bots_dir,
       so_global = global, so_accounts = accounts, so_risk_profiles = risk_profiles, so_instances = instances\<rparr>)))))"

definition to_bundle :: "'v ConfigSources \<Rightarrow> 'v ConfigBundle" where
  "to_bundle self = \<lparr>cb_global = src_value (so_global self), cb_accounts = map src_value (so_accounts self),
     cb_risk_profiles = map src_value (so_risk_profiles self), cb_instances = map src_value (so_instances self)\<rparr>"

definition instance_by_id :: "string \<Rightarrow> 'v ConfigSources \<Rightarrow> 'v InstanceConfig SourceFile option" where
  "instance_by_id i self = List.find (\<lambda>file. ic_id (src_value file) = i) (so_instances self)"

subsection \<open>Loading (loading.rs)\<close>

text \<open>Reading an environment file sets variables, also those of the lines before a malformed one.\<close>

datatype DotenvError = DotenvNotFound | DotenvFailure string

type_synonym dotenv_read = "Disk \<Rightarrow> environment \<Rightarrow> (DotenvError + unit) \<times> environment"

definition classify_dotenv_result :: "Path \<Rightarrow> DotenvError + unit \<Rightarrow> check" where
  "classify_dotenv_result path result = (case result of Inr _ \<Rightarrow> Inr () | Inl DotenvNotFound \<Rightarrow> Inr ()
     | Inl (DotenvFailure source) \<Rightarrow> Inl (ConfigDotenv (path_text path) source))"

definition load_dotenv :: "(Path \<Rightarrow> dotenv_read) \<Rightarrow> dotenv_read \<Rightarrow> Path \<Rightarrow> Disk \<Rightarrow> environment \<Rightarrow> check \<times> environment" where
  "load_dotenv from_path dotenv config_dir d vars =
     (let env_in_config_dir = path_join config_dir (path_of ''.env'');
          env_in_project_root = map_option (\<lambda>parent. path_join parent (path_of ''.env'')) (path_parent config_dir) in
      if fs_is_file env_in_config_dir d
      then (case from_path env_in_config_dir d vars of (r, vars') \<Rightarrow> (classify_dotenv_result env_in_config_dir r, vars'))
      else case env_in_project_root of
        Some path \<Rightarrow> (if fs_is_file path d
            then (case from_path path d vars of (r, vars') \<Rightarrow> (classify_dotenv_result path r, vars'))
            else (case dotenv d vars of (r, vars') \<Rightarrow> (classify_dotenv_result (path_of ''.env'') r, vars')))
      | None \<Rightarrow> (case dotenv d vars of (r, vars') \<Rightarrow> (classify_dotenv_result (path_of ''.env'') r, vars')))"

definition load_from_dir ::
    "(Path \<Rightarrow> dotenv_read) \<Rightarrow> dotenv_read \<Rightarrow> (f64 \<Rightarrow> string) \<Rightarrow> 'v Toml \<Rightarrow> Path \<Rightarrow> Disk \<Rightarrow> environment
     \<Rightarrow> (ConfigError + 'v ConfigBundle) \<times> Disk \<times> environment" where
  "load_from_dir from_path dotenv fixed4 toml config_dir d vars =
     (case load_dotenv from_path dotenv config_dir d vars of
        (Inl error, vars') \<Rightarrow> (Inl error, d, vars')
      | (Inr _, vars') \<Rightarrow>
          (case load_sources_from_dir toml config_dir d of
             (Inl error, d') \<Rightarrow> (Inl error, d', vars')
           | (Inr sources, d') \<Rightarrow>
               (case validate vars' fixed4 (to_bundle sources) of Inl error \<Rightarrow> (Inl error, d', vars')
                | Inr _ \<Rightarrow> (Inr (to_bundle sources), d', vars'))))"

subsection \<open>Writing (writing.rs)\<close>

text \<open>\<open>pid\<close> and \<open>seq\<close> are the process id and the number of the write; \<open>let _ =\<close> ignores a failed clean-up.\<close>

definition temp_path_for :: "int \<Rightarrow> int \<Rightarrow> Path \<Rightarrow> string \<Rightarrow> Path" where
  "temp_path_for pid seq path name =
     path\<lparr>path_components := butlast (path_components path) @ [''.'' @ name @ ''.tmp-'' @ show_int pid @ ''-'' @ show_int seq]\<rparr>"

definition write_and_sync :: "Path \<Rightarrow> string \<Rightarrow> unit io" where
  "write_and_sync path contents = then_do (create_file path) (\<lambda>_. then_do (write_all path contents) (\<lambda>_. sync_all))"

definition clean_up :: "Path \<Rightarrow> 'e \<Rightarrow> (Disk, 'e, 'a) workflow" where
  "clean_up path error = handle (remove_file path) (\<lambda>_. fail error) (\<lambda>_. fail error)"

definition write_atomic :: "int \<Rightarrow> int \<Rightarrow> Path \<Rightarrow> string \<Rightarrow> unit disk_op" where
  "write_atomic pid seq path contents =
     (case file_name path of None \<Rightarrow> fail (ConfigIo (path_text path) ''path has no file name'')
      | Some name \<Rightarrow>
          let temp_path = temp_path_for pid seq path name in
          handle (write_and_sync temp_path contents) (\<lambda>source. clean_up temp_path (ConfigIo (path_text temp_path) source)) (\<lambda>_.
          handle (rename temp_path path) (\<lambda>source. clean_up temp_path (ConfigIo (path_text path) source)) ok))"

subsection \<open>Replacing a file\<close>

text \<open>The configuration on a disk: the contents of its TOML files.\<close>

definition toml_file :: "Disk \<Rightarrow> Path \<Rightarrow> string option" where
  "toml_file d path = (if is_toml path then hm_get (dk_files d) path else None)"

lemma file_updates [simp]:
  "hm_get (dk_files (put_file path contents d)) = (hm_get (dk_files d))(path \<mapsto> contents)"
  "hm_get (dk_files (drop_file path d)) = (hm_get (dk_files d))(path := None)"
  "dk_directories (put_file path contents d) = dk_directories d" "dk_directories (drop_file path d) = dk_directories d"
  by (auto simp: put_file_def drop_file_def hm_get_insert hm_get_remove)

lemma dec_digits_no_dot: "0 \<le> n \<Longrightarrow> CHR ''.'' \<notin> set (dec_digits n)"
proof (induction n rule: dec_digits.induct)
  case (1 n)
  have digit: "char_of (48 + k) \<noteq> CHR ''.''" if "0 \<le> k" "k < 10" for k :: int
  proof
    assume "char_of (48 + k) = CHR ''.''"
    then have "of_char (char_of (48 + k) :: char) = (of_char CHR ''.'' :: int)" by simp
    with that show False by (simp add: of_char_of)
  qed
  show ?case
  proof (cases "n < 10")
    case True
    with digit [of n] 1 show ?thesis by (subst dec_digits.simps) auto
  next
    case False
    with 1 digit [of "n mod 10"] show ?thesis by (subst dec_digits.simps) auto
  qed
qed

lemma show_int_no_dot: "CHR ''.'' \<notin> set (show_int n)"
  using dec_digits_no_dot by (auto simp: show_int_def)

lemma extension_of_suffix:
  assumes "path_components path = parts @ [before @ CHR ''.'' # after]" "CHR ''.'' \<notin> set after" "before \<noteq> []"
  shows "path_extension path = (if before @ CHR ''.'' # after = ''..'' then None else Some after)"
proof -
  have "takeWhile (\<lambda>c. c \<noteq> CHR ''.'') (rev after @ CHR ''.'' # rev before) = rev after"
    using assms(2) by (subst takeWhile_append2) auto
  with assms show ?thesis by (auto simp: path_extension_def file_name_def Let_def append_eq_Cons_conv)
qed

lemma temp_not_toml: "\<not> is_toml (temp_path_for pid seq path name)"
proof -
  have "path_extension (temp_path_for pid seq path name) = Some (''tmp-'' @ show_int pid @ ''-'' @ show_int seq)"
    using show_int_no_dot
    by (subst extension_of_suffix [where parts = "butlast (path_components path)" and before = "''.'' @ name"])
      (auto simp: temp_path_for_def)
  then show ?thesis by (simp add: is_toml_def)
qed


lemma toml_updates [simp]:
  "\<not> is_toml path \<Longrightarrow> toml_file (put_file path contents d) = toml_file d"
  "\<not> is_toml path \<Longrightarrow> toml_file (drop_file path d) = toml_file d"
  "toml_file (d\<lparr>dk_calls := n\<rparr>) = toml_file d"
  by (auto simp: toml_file_def fun_eq_iff)

text \<open>What a call to the disk leaves behind depends on its result only: a failed one changes nothing but the
  temporary file.\<close>

definition quiet :: "(Disk, 'e, 'a) workflow \<Rightarrow> bool" where
  "quiet m \<longleftrightarrow> (\<forall>d. toml_file (snd (m d)) = toml_file d)"

lemma quiet_then_do: "quiet m \<Longrightarrow> (\<And>a. quiet (k a)) \<Longrightarrow> quiet (then_do m k)"
  unfolding quiet_def then_do_def by (auto split: prod.split sum.split) (metis snd_conv)+

lemma quiet_handle: "quiet m \<Longrightarrow> (\<And>e. quiet (f e)) \<Longrightarrow> (\<And>a. quiet (k a)) \<Longrightarrow> quiet (handle m f k)"
  unfolding quiet_def handle_def by (auto split: prod.split sum.split) (metis snd_conv)+

lemma quiet_basic: "quiet (ok a)" "quiet (fail e)" "quiet (tries f)" "quiet (reads g)"
  by (simp_all add: quiet_def ok_def fail_def tries_def reads_def)

lemma quiet_files:
  "quiet (read_to_string path)" "quiet (read_dir path)" "quiet sync_all"
  "\<not> is_toml path \<Longrightarrow> quiet (create_file path)" "\<not> is_toml path \<Longrightarrow> quiet (write_all path contents)"
  "\<not> is_toml path \<Longrightarrow> quiet (remove_file path)"
  by (auto simp: read_to_string_def read_dir_def sync_all_def create_file_def write_all_def remove_file_def quiet_def io_call_def Let_def
      updates_def tries_def ok_def split: option.split)

lemmas quiet_rules = quiet_then_do quiet_handle quiet_basic quiet_files

lemma reading_is_quiet: "quiet (read_source_file decode path)" "quiet (read_source_files decode paths)" "quiet (read_source_dir decode directory)"
proof -
  show one: "quiet (read_source_file decode path)" for path
    unfolding read_source_file_def io_at_def by (intro quiet_rules) (auto intro: quiet_rules split: sum.split)
  show files: "quiet (read_source_files decode paths)" for paths
    by (induction paths) (simp_all only: read_source_files.simps, (intro quiet_rules one | assumption)+)
  show "quiet (read_source_dir decode directory)"
    unfolding read_source_dir_def io_at_def by (intro quiet_rules files)
qed

lemma loading_is_quiet: "quiet (load_sources_from_dir toml config_dir)"
  unfolding load_sources_from_dir_def Let_def by (intro quiet_rules reading_is_quiet)

lemma temp_writes_quiet:
  "quiet (write_and_sync (temp_path_for pid seq path name) contents)" "quiet (clean_up (temp_path_for pid seq path name) e)"
  unfolding write_and_sync_def clean_up_def by (intro quiet_rules temp_not_toml)+

text \<open>After a successful write and sync the file holds the contents.\<close>

lemma written: "write_and_sync path contents d = (Inr u, d') \<Longrightarrow> hm_get (dk_files d') path = Some contents"
  by (auto simp: write_and_sync_def then_do_def write_all_def sync_all_def io_call_def updates_def ok_def Let_def
      split: prod.splits sum.splits option.splits)

lemma rename_moves:
  assumes "hm_get (dk_files d) source = Some contents" "\<not> is_toml source"
  shows "case rename source target d of (r, d') \<Rightarrow> toml_file d' = (if r = Inr () \<and> is_toml target
    then (toml_file d)(target \<mapsto> contents) else toml_file d)"
  using assms by (auto simp: rename_def io_call_def Let_def toml_file_def fun_eq_iff split: option.splits)

text \<open>A file is replaced as a whole or not at all: whichever calls to the disk fail, the configuration is as
  before, or the write succeeded and exactly the target has the new contents.\<close>

lemma write_atomic_replaces:
  "case write_atomic pid seq path contents d of (r, d') \<Rightarrow> toml_file d' = (if r = Inr () \<and> is_toml path
     then (toml_file d)(path \<mapsto> contents) else toml_file d)"
proof (cases "file_name path")
  case None
  then show ?thesis by (simp add: write_atomic_def fail_def)
next
  case (Some name)
  let ?temp = "temp_path_for pid seq path name"
  obtain r d1 where first: "write_and_sync ?temp contents d = (r, d1)" by fastforce
  have same: "toml_file d1 = toml_file d" using temp_writes_quiet(1) first by (metis quiet_def snd_conv)
  have failed: "toml_file d' = toml_file d''" if "clean_up ?temp e d'' = (r, d')" for e d' d'' and r :: "ConfigError + unit"
    using temp_writes_quiet(2) that by (metis quiet_def snd_conv)
  have error: "fst (clean_up ?temp e d'') \<noteq> Inr u" for e d'' and u :: unit
    by (auto simp: clean_up_def handle_def fail_def split: prod.split sum.split)
  show ?thesis
  proof (cases r)
    case (Inl source)
    obtain r' :: "ConfigError + unit" and d' where clean: "clean_up ?temp (ConfigIo (path_text ?temp) source) d1 = (r', d')" by fastforce
    with error have "r' \<noteq> Inr ()" by (metis fst_conv)
    with clean Inl first Some failed [OF clean] same show ?thesis by (simp add: write_atomic_def Let_def handle_def)
  next
    case (Inr u)
    obtain r2 d2 where moved: "rename ?temp path d1 = (r2, d2)" by fastforce
    note target = rename_moves [OF written [OF first [unfolded Inr]] temp_not_toml, of path]
    show ?thesis
    proof (cases r2)
      case (Inl source)
      obtain r' :: "ConfigError + unit" and d' where clean: "clean_up ?temp (ConfigIo (path_text path) source) d2 = (r', d')" by fastforce
      with error have "r' \<noteq> Inr ()" by (metis fst_conv)
      with clean Inl Inr first Some moved failed [OF clean] same target show ?thesis
        by (simp add: write_atomic_def Let_def handle_def)
    next
      case (Inr u')
      with \<open>r = Inr u\<close> first Some moved same target show ?thesis by (simp add: write_atomic_def Let_def handle_def ok_def)
    qed
  qed
qed

text \<open>Deleting a file takes it away or changes nothing.\<close>

lemma remove_file_removes:
  "case remove_file path d of (r, d') \<Rightarrow> toml_file d' = (if r = Inr () then (toml_file d)(path := None) else toml_file d)"
  by (auto simp: remove_file_def io_call_def Let_def toml_file_def fun_eq_iff split: option.splits)

text \<open>Every file that is read as configuration of a directory is one of its TOML files.\<close>

lemma source_files_read: "read_source_files decode paths d = (Inr files, d') \<Longrightarrow> map src_path files = paths"
  by (induction paths arbitrary: d files d')
    (auto simp: then_do_def ok_def fail_def read_source_file_def split: prod.splits sum.splits)

lemma source_dir_read: "read_source_dir decode directory d = (Inr files, d') \<Longrightarrow> list_all (\<lambda>file. is_toml (src_path file)) files"
proof -
  assume "read_source_dir decode directory d = (Inr files, d')"
  then obtain entries d1 where "read_source_files decode (sort_key path_components (filter is_toml entries)) d1 = (Inr files, d')"
    by (auto simp: read_source_dir_def then_do_def split: prod.splits sum.splits)
  from source_files_read [OF this] show ?thesis by (metis (no_types, lifting) list.pred_map list.pred_set o_def set_filter set_sort mem_Collect_eq)
qed

end
