(* ===== verification/Reload.thy ===== *)
theory Reload
  imports System ConfigFiles
begin

section \<open>Configuration changes at run time (openticker-http/src/config_ops.rs, config_write_handlers.rs)\<close>

text \<open>
  The service changes its configuration while it runs: a reload reads the managed directory again, a
  write endpoint changes one file, and both swap the runtime for one built from the new bundle. The
  configuration lock excludes other configuration changes only. The running bots are read under a lock
  that is released before the new runtime is built and installed, so a request is two sections: the
  check, and the build with the swap. What the other tasks of the service do with the runtime and the
  data plane in between is the function \<open>rb_meanwhile\<close>, about which nothing is assumed. A request whose new
  runtime cannot even be built because of a panic returns \<open>None\<close>.

  A build opens the journal database, prunes it where the bundle asks for it and writes the boot records,
  also when it fails afterwards. The journals that builds left are kept in \<open>hs_opened_journals\<close>, in order;
  a rejected request does not take these writes back. A write endpoint builds without pruning.

  Parameters, in the record \<open>Rebuild\<close>: what a runtime needs at its start, the TOML and environment
  libraries and the JSON form of a bundle. The clock gives each request its time. The query handle of the
  service shares the state of the runtime, and the status part of a response is a view of it.

  The lemmas show that a request is all or nothing, that no request changes what a running bot is bound
  to, and that the history of reloads is bounded and agrees with the generation.
\<close>

subsection \<open>Change sets (config_ops.rs)\<close>

datatype ReloadTrigger = ManualApi | ConfigWrite | FileWatcher

fun reload_trigger_as_str :: "ReloadTrigger \<Rightarrow> string" where
  "reload_trigger_as_str ManualApi = ''manual_api''"
| "reload_trigger_as_str ConfigWrite = ''config_write''"
| "reload_trigger_as_str FileWatcher = ''file_watcher''"

record ReloadViolation =
  rv_code :: string
  rv_scope :: string
  rv_message :: string

record ConfigReloadStatus =
  crs_at_ms :: int
  crs_trigger :: string
  crs_outcome :: string
  crs_error :: "string option"
  crs_violations :: "ReloadViolation list"
  crs_generation :: u64

datatype ConfigApplyError = NotManaged | LoadFailed ConfigError | ChangeSet "ReloadViolation list" | RuntimeBuild string

definition violation_summary :: "ReloadViolation list \<Rightarrow> string" where
  "violation_summary violations = join ''; '' (map rv_message violations)"

definition violation_if :: "bool \<Rightarrow> string \<Rightarrow> string \<Rightarrow> string \<Rightarrow> ReloadViolation list" where
  "violation_if found code scope message = (if found then [\<lparr>rv_code = code, rv_scope = scope, rv_message = message\<rparr>] else [])"

definition account_settings_differ :: "AccountConfig \<Rightarrow> AccountConfig \<Rightarrow> bool" where
  "account_settings_differ old_account new_account \<longleftrightarrow>
     ac_kind old_account \<noteq> ac_kind new_account \<or> ac_mode old_account \<noteq> ac_mode new_account
     \<or> ac_use_demo_mode old_account \<noteq> ac_use_demo_mode new_account
     \<or> ac_reconciliation_remote_snapshot old_account \<noteq> ac_reconciliation_remote_snapshot new_account
     \<or> execution_remote_submission_enabled old_account \<noteq> execution_remote_submission_enabled new_account
     \<or> ac_reconciliation_base_url old_account \<noteq> ac_reconciliation_base_url new_account"

definition credentials_differ :: "AccountConfig \<Rightarrow> AccountConfig \<Rightarrow> bool" where
  "credentials_differ old_account new_account \<longleftrightarrow>
     ac_api_key_env old_account \<noteq> ac_api_key_env new_account \<or> ac_api_secret_env old_account \<noteq> ac_api_secret_env new_account
     \<or> ac_passphrase_env old_account \<noteq> ac_passphrase_env new_account"

definition account_violations :: "string \<Rightarrow> AccountConfig \<Rightarrow> AccountConfig \<Rightarrow> ReloadViolation list" where
  "account_violations account_id old_account new_account =
     violation_if (account_settings_differ old_account new_account) ''account_settings_changed'' (''account:'' @ account_id)
       (''reload requires restart because connector settings changed for account `'' @ account_id @ ''`'')
     @ violation_if (credentials_differ old_account new_account) ''credentials_changed'' (''account:'' @ account_id)
       (''reload requires restart because credential references changed for account `'' @ account_id @ ''`'')"

definition collect_account_violations :: "'v ConfigBundle \<Rightarrow> 'v ConfigBundle \<Rightarrow> ReloadViolation list" where
  "collect_account_violations current next_bundle =
     (let current_accounts = accounts_by_id (cb_accounts current); next_accounts = accounts_by_id (cb_accounts next_bundle) in
      violation_if (set (hm_keys current_accounts) \<noteq> set (hm_keys next_accounts)) ''account_set_changed'' ''global''
        ''reload requires restart because account set changed''
      @ concat (map (\<lambda>account_id. case (hm_get current_accounts account_id, hm_get next_accounts account_id) of
            (Some old_account, Some new_account) \<Rightarrow> account_violations account_id old_account new_account | _ \<Rightarrow> [])
          (sort (filter (\<lambda>account_id. account_id \<in> set (hm_keys next_accounts)) (hm_keys current_accounts)))))"

definition bindings_differ :: "'v InstanceConfig \<Rightarrow> 'v InstanceConfig \<Rightarrow> bool" where
  "bindings_differ old_instance new_instance \<longleftrightarrow>
     ic_account old_instance \<noteq> ic_account new_instance \<or> ic_data_connector old_instance \<noteq> ic_data_connector new_instance
     \<or> ic_execution_connector old_instance \<noteq> ic_execution_connector new_instance \<or> ic_market old_instance \<noteq> ic_market new_instance"

definition instances_by_id :: "'v ConfigBundle \<Rightarrow> (string, 'v InstanceConfig) hmap" where
  "instances_by_id config = hm_of_list (map (\<lambda>inst. (ic_id inst, inst)) (cb_instances config))"

definition running_instance_violations :: "'v ConfigBundle \<Rightarrow> 'v ConfigBundle \<Rightarrow> string \<Rightarrow> ReloadViolation list" where
  "running_instance_violations current next_bundle instance_id =
     (let scope = ''bot:'' @ instance_id in
      case hm_get (instances_by_id current) instance_id of
        None \<Rightarrow> violation_if True ''running_instance_missing'' scope
          (''running instance `'' @ instance_id @ ''` is missing in current config bundle'')
      | Some old_instance \<Rightarrow>
          (case hm_get (instances_by_id next_bundle) instance_id of
             None \<Rightarrow> violation_if True ''running_instance_removed'' scope
               (''reload requires restart because running instance `'' @ instance_id @ ''` was removed'')
           | Some new_instance \<Rightarrow>
               violation_if (ic_timeframe old_instance \<noteq> ic_timeframe new_instance) ''timeframe_changed_running'' scope
                 (''reload requires restart because timeframe changed for running instance `'' @ instance_id @ ''`'')
               @ violation_if (ic_symbols old_instance \<noteq> ic_symbols new_instance) ''symbols_changed_running'' scope
                 (''reload requires reconciliation because symbols changed for running instance `'' @ instance_id @ ''`'')
               @ violation_if (bindings_differ old_instance new_instance) ''bindings_changed_running'' scope
                 (''reload requires restart because connector or account bindings changed for running instance `'' @ instance_id @ ''`'')))"

definition collect_running_instance_violations :: "'v ConfigBundle \<Rightarrow> 'v ConfigBundle \<Rightarrow> string list \<Rightarrow> ReloadViolation list" where
  "collect_running_instance_violations current next_bundle running_instance_ids =
     concat (map (running_instance_violations current next_bundle) (sort running_instance_ids))"

definition validate_reload_change_set :: "'v ConfigBundle \<Rightarrow> 'v ConfigBundle \<Rightarrow> string list \<Rightarrow> ReloadViolation list" where
  "validate_reload_change_set current next_bundle running_instance_ids =
     violation_if (sc_kind (gc_storage (cb_global current)) \<noteq> sc_kind (gc_storage (cb_global next_bundle))
         \<or> sc_path (gc_storage (cb_global current)) \<noteq> sc_path (gc_storage (cb_global next_bundle))) ''storage_changed'' ''global''
       ''reload requires restart because storage backend configuration changed''
     @ violation_if (svc_bot_dir (gc_service (cb_global current)) \<noteq> svc_bot_dir (gc_service (cb_global next_bundle)))
         ''bot_dir_changed'' ''global'' ''reload requires restart because service.bot_dir changed''
     @ collect_account_violations current next_bundle
     @ collect_running_instance_violations current next_bundle running_instance_ids"

subsection \<open>Applying a bundle (config_ops.rs, state.rs)\<close>

record ('v, 'j, 'w) Rebuild =
  rb_open_sqlite :: "string \<Rightarrow> u64 \<Rightarrow> StorageError + 'j"
  rb_as_float :: "'v \<Rightarrow> f64 option"
  rb_as_integer :: "'v \<Rightarrow> int option"
  rb_env :: "('j, 'w) RuntimeEnv"
  rb_outside :: "'w Outside"
  rb_sequence :: u64
  rb_toml :: "'v Toml"
  rb_from_path :: "Path \<Rightarrow> dotenv_read"
  rb_dotenv :: dotenv_read
  rb_to_value :: "'v ConfigBundle \<Rightarrow> Json option"
  rb_pid :: int
  rb_meanwhile :: "('v, 'j, 'w) Runtime \<times> DataPlane \<Rightarrow> ('v, 'j, 'w) Runtime \<times> DataPlane"

record ('v, 'j, 'w) HttpState =
  hs_runtime :: "('v, 'j, 'w) Runtime"
  hs_config_bundle :: "'v ConfigBundle option"
  hs_config_dir :: "Path option"
  hs_data_plane :: DataPlane
  hs_reload_status :: "ConfigReloadStatus list"
  hs_reload_generation :: u64
  hs_disk :: Disk
  hs_vars :: environment
  hs_opened_journals :: "'j list"

definition RELOAD_STATUS_HISTORY_LIMIT :: nat where
  "RELOAD_STATUS_HISTORY_LIMIT = 20"

definition push_status :: "ConfigReloadStatus list \<Rightarrow> ConfigReloadStatus \<Rightarrow> ConfigReloadStatus list" where
  "push_status history entry = drop (length history + 1 - RELOAD_STATUS_HISTORY_LIMIT) history @ [entry]"

definition record_status ::
    "int \<Rightarrow> ReloadTrigger \<Rightarrow> string \<Rightarrow> string option \<Rightarrow> ReloadViolation list \<Rightarrow> ('v, 'j, 'w) HttpState \<Rightarrow> ('v, 'j, 'w) HttpState" where
  "record_status now_ms trigger outcome error violations h = h\<lparr>hs_reload_status := push_status (hs_reload_status h)
     \<lparr>crs_at_ms = now_ms, crs_trigger = reload_trigger_as_str trigger, crs_outcome = outcome, crs_error = error,
      crs_violations = violations, crs_generation = hs_reload_generation h\<rparr>\<rparr>"

text \<open>The generation is an atomic 64-bit counter, so it wraps.\<close>

definition record_applied :: "int \<Rightarrow> ReloadTrigger \<Rightarrow> ('v, 'j, 'w) HttpState \<Rightarrow> u64 \<times> ('v, 'j, 'w) HttpState" where
  "record_applied now_ms trigger h =
     (let generation = hs_reload_generation h + 1 in
      (generation, h\<lparr>hs_reload_generation := generation, hs_reload_status := push_status (hs_reload_status h)
        \<lparr>crs_at_ms = now_ms, crs_trigger = reload_trigger_as_str trigger, crs_outcome = ''reloaded'', crs_error = None,
         crs_violations = [], crs_generation = generation\<rparr>\<rparr>))"

definition build_runtime ::
    "('v, 'j, 'w) Rebuild \<Rightarrow> environment \<Rightarrow> 'v ConfigBundle \<Rightarrow> ((string + ('v, 'j, 'w) Runtime) \<times> 'j option) option" where
  "build_runtime rb vars bundle =
     (case from_config_with_storage (rb_open_sqlite rb) vars (rb_as_float rb) (rb_as_integer rb) (rb_env rb) (rb_outside rb)
         (rb_sequence rb) bundle of
        (Inl error, opened) \<Rightarrow> Some (Inl (service_error_text error), opened)
      | (Inr None, opened) \<Rightarrow> None
      | (Inr (Some runtime), opened) \<Rightarrow> Some (Inr runtime, opened))"

definition note_journal :: "'j option \<Rightarrow> ('v, 'j, 'w) HttpState \<Rightarrow> ('v, 'j, 'w) HttpState" where
  "note_journal opened h = (case opened of None \<Rightarrow> h | Some j \<Rightarrow> h\<lparr>hs_opened_journals := hs_opened_journals h @ [j]\<rparr>)"

text \<open>What the rest of the service did since the check.\<close>

definition interleaved :: "('v, 'j, 'w) Rebuild \<Rightarrow> ('v, 'j, 'w) HttpState \<Rightarrow> ('v, 'j, 'w) HttpState" where
  "interleaved rb h = (case rb_meanwhile rb (hs_runtime h, hs_data_plane h) of
     (runtime, plane) \<Rightarrow> h\<lparr>hs_runtime := runtime, hs_data_plane := plane\<rparr>)"

definition swap_runtime :: "'v ConfigBundle \<Rightarrow> ('v, 'j, 'w) Runtime \<Rightarrow> ('v, 'j, 'w) HttpState \<Rightarrow> ('v, 'j, 'w) HttpState" where
  "swap_runtime bundle reloaded_runtime h = h\<lparr>hs_runtime := reloaded_runtime,
     hs_data_plane := replace_streams (hs_data_plane h) (effective_streams_for_dataplane (gc_data_plane (cb_global bundle)) reloaded_runtime),
     hs_config_bundle := Some bundle\<rparr>"

definition apply_bundle ::
    "('v, 'j, 'w) Rebuild \<Rightarrow> 'v ConfigBundle \<Rightarrow> ('v, 'j, 'w) Runtime option \<Rightarrow> ('v, 'j, 'w) HttpState
     \<Rightarrow> ((string + unit) \<times> ('v, 'j, 'w) HttpState) option" where
  "apply_bundle rb bundle prebuilt_runtime h =
     (case (case prebuilt_runtime of Some runtime \<Rightarrow> Some (Inr runtime, None) | None \<Rightarrow> build_runtime rb (hs_vars h) bundle) of
        None \<Rightarrow> None
      | Some (Inl message, opened) \<Rightarrow> Some (Inl message, note_journal opened h)
      | Some (Inr reloaded_runtime, opened) \<Rightarrow> Some (Inr (), swap_runtime bundle reloaded_runtime (note_journal opened h)))"

definition apply_bundle_and_record ::
    "('v, 'j, 'w) Rebuild \<Rightarrow> int \<Rightarrow> 'v ConfigBundle \<Rightarrow> ('v, 'j, 'w) Runtime option \<Rightarrow> ReloadTrigger \<Rightarrow> ('v, 'j, 'w) HttpState
     \<Rightarrow> ((ConfigApplyError + u64) \<times> ('v, 'j, 'w) HttpState) option" where
  "apply_bundle_and_record rb now_ms bundle prebuilt_runtime trigger h =
     (case apply_bundle rb bundle prebuilt_runtime h of None \<Rightarrow> None
      | Some (Inl message, h') \<Rightarrow> Some (Inl (RuntimeBuild message),
          record_status now_ms trigger ''failed'' (Some (''config reload failed: '' @ message)) [] h')
      | Some (Inr _, h') \<Rightarrow> Some (case record_applied now_ms trigger h' of (generation, h'') \<Rightarrow> (Inr generation, h'')))"

definition bundles_equal :: "('v, 'j, 'w) Rebuild \<Rightarrow> 'v ConfigBundle \<Rightarrow> 'v ConfigBundle \<Rightarrow> bool" where
  "bundles_equal rb current next_bundle = (case (rb_to_value rb current, rb_to_value rb next_bundle) of
     (Some a, Some b) \<Rightarrow> a = b | _ \<Rightarrow> False)"

definition running_instance_ids :: "('v, 'j, 'w) Rebuild \<Rightarrow> ('v, 'j, 'w) Runtime \<Rightarrow> string list" where
  "running_instance_ids rb s = remdups (map is_id (filter (\<lambda>inst. is_state inst = Running) (list_instances (env_texts (rb_env rb)) s)))"

definition reload_violations :: "('v, 'j, 'w) Rebuild \<Rightarrow> ('v, 'j, 'w) HttpState \<Rightarrow> 'v ConfigBundle \<Rightarrow> ReloadViolation list" where
  "reload_violations rb h bundle = (case hs_config_bundle h of None \<Rightarrow> []
     | Some current \<Rightarrow> validate_reload_change_set current bundle (running_instance_ids rb (hs_runtime h)))"

definition reload_from_disk ::
    "('v, 'j, 'w) Rebuild \<Rightarrow> int \<Rightarrow> ReloadTrigger \<Rightarrow> ('v, 'j, 'w) HttpState
     \<Rightarrow> ((ConfigApplyError + bool) \<times> ('v, 'j, 'w) HttpState) option" where
  "reload_from_disk rb now_ms trigger h =
     (case hs_config_dir h of None \<Rightarrow> Some (Inl NotManaged, h)
      | Some config_dir \<Rightarrow>
          (case load_from_dir (rb_from_path rb) (rb_dotenv rb) (env_fixed4 (rb_env rb)) (rb_toml rb) config_dir (hs_disk h) (hs_vars h) of
             (loaded, d, vars) \<Rightarrow>
               let h' = h\<lparr>hs_disk := d, hs_vars := vars\<rparr> in
               (case loaded of
                  Inl error \<Rightarrow> Some (Inl (LoadFailed error), record_status now_ms trigger ''failed''
                      (Some (''config reload failed: '' @ config_error_text error)) [] h')
                | Inr bundle \<Rightarrow>
                    if (case hs_config_bundle h' of None \<Rightarrow> False | Some current \<Rightarrow> bundles_equal rb current bundle)
                    then Some (Inr False, record_status now_ms trigger ''no_change'' None [] h')
                    else if reload_violations rb h' bundle \<noteq> []
                    then Some (Inl (ChangeSet (reload_violations rb h' bundle)), record_status now_ms trigger ''rejected''
                      (Some (''config reload failed: '' @ violation_summary (reload_violations rb h' bundle))) (reload_violations rb h' bundle) h')
                    else map_option (\<lambda>(r, h''). (map_sum id (\<lambda>_. True) r, h'')) 
                      (apply_bundle_and_record rb now_ms bundle None trigger (interleaved rb h')))))"

subsection \<open>Write requests (config_write_handlers.rs)\<close>

datatype WriteOp = WriteFile Path string | DeleteFile Path

datatype 'v ConfigEntity = GlobalEntity GlobalConfig | BotEntity "'v InstanceConfig" | RiskProfileEntity RiskProfileConfig
  | AccountEntity "EffectiveAccountConfig option"

text \<open>Responses by status code: an error with a text, a conflict (409) with its violations, a success.\<close>

datatype 'v Response = ErrorResponse nat string | ViolationsResponse string "ReloadViolation list"
  | WriteSuccess nat string u64 "'v ConfigEntity option"

definition write_failed :: "string \<Rightarrow> string" where
  "write_failed text = ''config write failed: '' @ text"

definition violations_response :: "ReloadViolation list \<Rightarrow> 'v Response" where
  "violations_response violations = ViolationsResponse (write_failed (violation_summary violations)) violations"

text \<open>A header value is text when its bytes are visible ASCII or tabs.\<close>

definition header_text :: "string \<Rightarrow> string option" where
  "header_text bytes = (if list_all (\<lambda>c. c = CHR 0x09 \<or> 32 \<le> (of_char c :: nat) \<and> (of_char c :: nat) < 127) bytes then Some bytes else None)"

definition check_if_match :: "u64 \<Rightarrow> string option \<Rightarrow> 'v Response option" where
  "check_if_match current if_match =
     (case if_match of None \<Rightarrow> None
      | Some bytes \<Rightarrow>
          (case Option.bind (header_text bytes) (\<lambda>raw. parse_u64 (trim raw)) of
             None \<Rightarrow> Some (ErrorResponse 400 ''invalid If-Match header: expected a config generation number'')
           | Some expected \<Rightarrow>
               if expected \<noteq> uint current then Some (violations_response (violation_if True ''stale_generation'' ''global''
                 (''config write rejected: If-Match generation '' @ show_int expected @ '' does not match current generation '' @ show_int (uint current))))
               else None))"

definition begin_config_write ::
    "('v, 'j, 'w) Rebuild \<Rightarrow> string option \<Rightarrow> ('v, 'j, 'w) HttpState \<Rightarrow> ('v Response + 'v ConfigSources) \<times> ('v, 'j, 'w) HttpState" where
  "begin_config_write rb if_match h =
     (case hs_config_dir h of None \<Rightarrow> (Inl (ErrorResponse 501 ''service was started without a managed config directory''), h)
      | Some config_dir \<Rightarrow>
          (case check_if_match (hs_reload_generation h) if_match of Some rejection \<Rightarrow> (Inl rejection, h)
           | None \<Rightarrow>
               (case load_sources_from_dir (rb_toml rb) config_dir (hs_disk h) of
                  (Inl error, d) \<Rightarrow> (Inl (ErrorResponse 422 (write_failed (config_error_text error))), h\<lparr>hs_disk := d\<rparr>)
                | (Inr sources, d) \<Rightarrow> (Inr sources, h\<lparr>hs_disk := d\<rparr>))))"

definition apply_error_response :: "ConfigApplyError \<Rightarrow> 'v Response" where
  "apply_error_response error = (case error of RuntimeBuild message \<Rightarrow> ErrorResponse 422 (write_failed message)
     | NotManaged \<Rightarrow> ErrorResponse 501 ''service was started without a managed config directory''
     | LoadFailed load_error \<Rightarrow> ErrorResponse 422 (write_failed (config_error_text load_error))
     | ChangeSet violations \<Rightarrow> violations_response violations)"

definition without_prune :: "'v ConfigBundle \<Rightarrow> 'v ConfigBundle" where
  "without_prune bundle = bundle\<lparr>cb_global := (cb_global bundle)\<lparr>gc_storage :=
     (gc_storage (cb_global bundle))\<lparr>sc_prune_removed_bots_on_startup := False\<rparr>\<rparr>\<rparr>"

definition perform_write :: "int \<Rightarrow> int \<Rightarrow> WriteOp \<Rightarrow> Disk \<Rightarrow> (string + unit) \<times> Disk" where
  "perform_write pid seq write_op = (case write_op of
       WriteFile path contents \<Rightarrow> handle (write_atomic pid seq path contents) (\<lambda>error. fail (config_error_text error)) ok
     | DeleteFile path \<Rightarrow> remove_file path)"

definition finish_config_write ::
    "('v, 'j, 'w) Rebuild \<Rightarrow> int \<Rightarrow> int \<Rightarrow> 'v ConfigBundle \<Rightarrow> WriteOp \<Rightarrow> ('v, 'j, 'w) HttpState
     \<Rightarrow> (('v Response + u64) \<times> ('v, 'j, 'w) HttpState) option" where
  "finish_config_write rb now_ms seq candidate write_op h =
     (case validate (hs_vars h) (env_fixed4 (rb_env rb)) candidate of
        Inl error \<Rightarrow> Some (Inl (ErrorResponse 422 (write_failed (config_error_text error))), h)
      | Inr _ \<Rightarrow>
          if reload_violations rb h candidate \<noteq> [] then Some (Inl (violations_response (reload_violations rb h candidate)), h)
          else (case build_runtime rb (hs_vars h) (without_prune candidate) of None \<Rightarrow> None
            | Some (Inl message, opened) \<Rightarrow>
                Some (Inl (ErrorResponse 422 (write_failed message)), note_journal opened (interleaved rb h))
            | Some (Inr prebuilt, opened) \<Rightarrow>
                let h' = note_journal opened (interleaved rb h) in
                (case perform_write (rb_pid rb) seq write_op (hs_disk h') of
                   (Inl message, d) \<Rightarrow> Some (Inl (ErrorResponse 500 (write_failed message)), h'\<lparr>hs_disk := d\<rparr>)
                 | (Inr _, d) \<Rightarrow> map_option (\<lambda>(r, h''). (map_sum apply_error_response id r, h''))
                     (apply_bundle_and_record rb now_ms candidate (Some prebuilt) ConfigWrite (h'\<lparr>hs_disk := d\<rparr>)))))"

text \<open>The end of every handler: the write and its response.\<close>

definition respond ::
    "nat \<Rightarrow> string \<Rightarrow> 'v ConfigEntity option \<Rightarrow> (('v Response + u64) \<times> ('v, 'j, 'w) HttpState) option
     \<Rightarrow> ('v Response \<times> ('v, 'j, 'w) HttpState) option" where
  "respond http_status status_word entity =
     map_option (\<lambda>(r, h). (case r of Inl response \<Rightarrow> response | Inr generation \<Rightarrow> WriteSuccess http_status status_word generation entity, h))"

definition position :: "('a \<Rightarrow> bool) \<Rightarrow> 'a list \<Rightarrow> nat option" where
  "position P xs = (if list_ex P xs then Some (length (takeWhile (\<lambda>x. \<not> P x) xs)) else None)"

definition rejects :: "'v Response \<Rightarrow> ('v, 'j, 'w) HttpState \<Rightarrow> ('v Response \<times> ('v, 'j, 'w) HttpState) option" where
  "rejects response h = Some (response, h)"

definition put_config_global_handler where
  "put_config_global_handler rb now_ms seq if_match body h =
     (case begin_config_write rb if_match h of (Inl response, h') \<Rightarrow> rejects response h'
      | (Inr sources, h') \<Rightarrow>
          (case tm_updated_global (rb_toml rb) (src_raw (so_global sources)) body of
             Inl error \<Rightarrow> rejects (ErrorResponse 422 (write_failed (config_error_text error))) h'
           | Inr contents \<Rightarrow>
               let sources' = sources\<lparr>so_global := (so_global sources)\<lparr>src_value := body\<rparr>\<rparr> in
               respond 200 ''updated'' (Some (GlobalEntity body))
                 (finish_config_write rb now_ms seq (to_bundle sources') (WriteFile (src_path (so_global sources)) contents) h')))"

definition put_config_bot_handler where
  "put_config_bot_handler rb now_ms seq bot_id if_match body h =
     (if ic_id body \<noteq> bot_id
      then rejects (ErrorResponse 422 (write_failed (''body id `'' @ ic_id body @ ''` does not match path id `'' @ bot_id @ ''`''))) h
      else (case begin_config_write rb if_match h of (Inl response, h') \<Rightarrow> rejects response h'
        | (Inr sources, h') \<Rightarrow>
            (case position (\<lambda>file. ic_id (src_value file) = bot_id) (so_instances sources) of
               None \<Rightarrow> rejects (ErrorResponse 404 (''bot `'' @ bot_id @ ''` does not exist in the managed config'')) h'
             | Some index \<Rightarrow>
                 let file = so_instances sources ! index in
                 (case tm_updated_instance (rb_toml rb) (src_raw file) body of
                    Inl error \<Rightarrow> rejects (ErrorResponse 422 (write_failed (config_error_text error))) h'
                  | Inr contents \<Rightarrow>
                      let sources' = sources\<lparr>so_instances := (so_instances sources)[index := file\<lparr>src_value := body\<rparr>]\<rparr> in
                      respond 200 ''updated'' (Some (BotEntity body))
                        (finish_config_write rb now_ms seq (to_bundle sources') (WriteFile (src_path file) contents) h')))))"

definition MAX_BOT_ID_LEN :: nat where
  "MAX_BOT_ID_LEN = 64"

definition is_ascii_alphanumeric :: "char \<Rightarrow> bool" where
  "is_ascii_alphanumeric c \<longleftrightarrow> is_digit c \<or> (let n = of_char c :: nat in 65 \<le> n \<and> n \<le> 90 \<or> 97 \<le> n \<and> n \<le> 122)"

definition bot_id_is_safe_filename :: "string \<Rightarrow> bool" where
  "bot_id_is_safe_filename bot_id \<longleftrightarrow> bot_id \<noteq> [] \<and> length bot_id \<le> MAX_BOT_ID_LEN
     \<and> list_all (\<lambda>c. is_ascii_alphanumeric c \<or> c = CHR ''-'' \<or> c = CHR ''_'') bot_id"

definition create_config_bot_handler where
  "create_config_bot_handler rb now_ms seq if_match body h =
     (if \<not> bot_id_is_safe_filename (ic_id body)
      then rejects (ErrorResponse 422 (write_failed (''bot id `'' @ ic_id body
        @ ''` is not a safe filename (allowed: 1-64 characters of alphanumeric, `-`, `_`)''))) h
      else (case begin_config_write rb if_match h of (Inl response, h') \<Rightarrow> rejects response h'
        | (Inr sources, h') \<Rightarrow>
            let path = path_join (so_bots_dir sources) (path_of (ic_id body @ ''.toml'')) in
            if instance_by_id (ic_id body) sources \<noteq> None \<or> fs_exists path (hs_disk h')
            then rejects (violations_response (violation_if True ''duplicate_bot'' (''bot:'' @ ic_id body)
              (''bot `'' @ ic_id body @ ''` already exists in the managed config''))) h'
            else (case tm_new_instance (rb_toml rb) body of
                Inl error \<Rightarrow> rejects (ErrorResponse 422 (write_failed (config_error_text error))) h'
              | Inr contents \<Rightarrow>
                  let sources' = sources\<lparr>so_instances := so_instances sources @ [\<lparr>src_path = path, src_raw = contents, src_value = body\<rparr>]\<rparr> in
                  respond 201 ''created'' (Some (BotEntity body))
                    (finish_config_write rb now_ms seq (to_bundle sources') (WriteFile path contents) h'))))"

definition delete_config_bot_handler where
  "delete_config_bot_handler rb now_ms seq bot_id if_match h =
     (case begin_config_write rb if_match h of (Inl response, h') \<Rightarrow> rejects response h'
      | (Inr sources, h') \<Rightarrow>
          (case position (\<lambda>file. ic_id (src_value file) = bot_id) (so_instances sources) of
             None \<Rightarrow> rejects (ErrorResponse 404 (''bot `'' @ bot_id @ ''` does not exist in the managed config'')) h'
           | Some index \<Rightarrow>
               let removed = so_instances sources ! index;
                   sources' = sources\<lparr>so_instances := take index (so_instances sources) @ drop (index + 1) (so_instances sources)\<rparr> in
               respond 200 ''deleted'' None
                 (finish_config_write rb now_ms seq (to_bundle sources') (DeleteFile (src_path removed)) h')))"

definition put_config_risk_profile_handler where
  "put_config_risk_profile_handler rb now_ms seq profile_id if_match body h =
     (if rpc_id body \<noteq> profile_id
      then rejects (ErrorResponse 422 (write_failed (''body id `'' @ rpc_id body @ ''` does not match path id `'' @ profile_id @ ''`''))) h
      else (case begin_config_write rb if_match h of (Inl response, h') \<Rightarrow> rejects response h'
        | (Inr sources, h') \<Rightarrow>
            (case position (\<lambda>file. rpc_id (src_value file) = profile_id) (so_risk_profiles sources) of
               None \<Rightarrow> rejects (ErrorResponse 404 (''risk profile `'' @ profile_id @ ''` does not exist in the managed config'')) h'
             | Some index \<Rightarrow>
                 let file = so_risk_profiles sources ! index in
                 (case tm_updated_risk_profile (rb_toml rb) (src_raw file) body of
                    Inl error \<Rightarrow> rejects (ErrorResponse 422 (write_failed (config_error_text error))) h'
                  | Inr contents \<Rightarrow>
                      let sources' = sources\<lparr>so_risk_profiles := (so_risk_profiles sources)[index := file\<lparr>src_value := body\<rparr>]\<rparr> in
                      respond 200 ''updated'' (Some (RiskProfileEntity body))
                        (finish_config_write rb now_ms seq (to_bundle sources') (WriteFile (src_path file) contents) h')))))"

definition put_config_account_handler where
  "put_config_account_handler rb now_ms seq account_id if_match body h =
     (case begin_config_write rb if_match h of (Inl response, h') \<Rightarrow> rejects response h'
      | (Inr sources, h') \<Rightarrow>
          (case position (\<lambda>file. ac_id (src_value file) = account_id) (so_accounts sources) of
             None \<Rightarrow> rejects (ErrorResponse 404 (''account `'' @ account_id @ ''` does not exist in the managed config'')) h'
           | Some index \<Rightarrow>
               let file = so_accounts sources ! index; next_account = into_account body (src_value file) in
               (case tm_updated_account (rb_toml rb) (src_raw file) next_account of
                  Inl error \<Rightarrow> rejects (ErrorResponse 422 (write_failed (config_error_text error))) h'
                | Inr contents \<Rightarrow>
                    let candidate = to_bundle (sources\<lparr>so_accounts := (so_accounts sources)[index := file\<lparr>src_value := next_account\<rparr>]\<rparr>) in
                    respond 200 ''updated''
                      (Some (AccountEntity (List.find (\<lambda>account. ea_id account = account_id) (ef_accounts (effective_config (hs_vars h') candidate)))))
                      (finish_config_write rb now_ms seq candidate (WriteFile (src_path file) contents) h'))))"

text \<open>The write requests of the API.\<close>

datatype 'v ConfigRequest = PutGlobal GlobalConfig | PutBot string "'v InstanceConfig" | CreateBot "'v InstanceConfig"
  | DeleteBot string | PutRiskProfile string RiskProfileConfig | PutAccount string AccountConfigUpdate

fun config_write ::
    "('v, 'j, 'w) Rebuild \<Rightarrow> int \<Rightarrow> int \<Rightarrow> string option \<Rightarrow> 'v ConfigRequest \<Rightarrow> ('v, 'j, 'w) HttpState
     \<Rightarrow> ('v Response \<times> ('v, 'j, 'w) HttpState) option" where
  "config_write rb now_ms seq if_match (PutGlobal body) h = put_config_global_handler rb now_ms seq if_match body h"
| "config_write rb now_ms seq if_match (PutBot bot_id body) h = put_config_bot_handler rb now_ms seq bot_id if_match body h"
| "config_write rb now_ms seq if_match (CreateBot body) h = create_config_bot_handler rb now_ms seq if_match body h"
| "config_write rb now_ms seq if_match (DeleteBot bot_id) h = delete_config_bot_handler rb now_ms seq bot_id if_match h"
| "config_write rb now_ms seq if_match (PutRiskProfile profile_id body) h = put_config_risk_profile_handler rb now_ms seq profile_id if_match body h"
| "config_write rb now_ms seq if_match (PutAccount account_id body) h = put_config_account_handler rb now_ms seq account_id if_match body h"

subsection \<open>Requests as steps\<close>

text \<open>A step is a reload or a write; its result says whether a new configuration was applied.\<close>

datatype 'v ConfigStep = ReloadStep ReloadTrigger | WriteStep "string option" "'v ConfigRequest"

fun config_step ::
    "('v, 'j, 'w) Rebuild \<Rightarrow> int \<Rightarrow> int \<Rightarrow> 'v ConfigStep \<Rightarrow> ('v, 'j, 'w) HttpState \<Rightarrow> (bool \<times> ('v, 'j, 'w) HttpState) option" where
  "config_step rb now_ms seq (ReloadStep trigger) h = map_option (\<lambda>(r, h'). (r = Inr True, h')) (reload_from_disk rb now_ms trigger h)"
| "config_step rb now_ms seq (WriteStep if_match request) h = map_option (\<lambda>(response, h').
     (case response of WriteSuccess _ _ _ _ \<Rightarrow> True | _ \<Rightarrow> False, h')) (config_write rb now_ms seq if_match request h)"

text \<open>
  The service and its configuration files are as before; only the history of reloads and the journals of
  builds may have grown. A request that is not applied leaves the service alone in this sense, or leaves
  it as the tasks that ran since the check made it.
\<close>

definition same_service :: "('v, 'j, 'w) HttpState \<Rightarrow> ('v, 'j, 'w) HttpState \<Rightarrow> bool" where
  "same_service h h' \<longleftrightarrow> hs_runtime h' = hs_runtime h \<and> hs_config_bundle h' = hs_config_bundle h \<and> hs_config_dir h' = hs_config_dir h
     \<and> hs_data_plane h' = hs_data_plane h \<and> hs_reload_generation h' = hs_reload_generation h
     \<and> toml_file (hs_disk h') = toml_file (hs_disk h)"

definition left_alone :: "('v, 'j, 'w) Rebuild \<Rightarrow> ('v, 'j, 'w) HttpState \<Rightarrow> ('v, 'j, 'w) HttpState \<Rightarrow> bool" where
  "left_alone rb h h' \<longleftrightarrow> same_service h h' \<or> same_service (interleaved rb h) h'"

text \<open>The service runs on a new bundle, which is valid and which the change set of the old one allows.\<close>

definition reconfigured :: "('v, 'j, 'w) Rebuild \<Rightarrow> ('v, 'j, 'w) HttpState \<Rightarrow> ('v, 'j, 'w) HttpState \<Rightarrow> bool" where
  "reconfigured rb h h' \<longleftrightarrow> (\<exists>bundle built. hs_config_bundle h' = Some bundle \<and> reload_violations rb h bundle = []
     \<and> validate (hs_vars h') (env_fixed4 (rb_env rb)) bundle = Inr ()
     \<and> cb_accounts built = cb_accounts bundle \<and> cb_instances built = cb_instances bundle
     \<and> (\<exists>opened. build_runtime rb (hs_vars h') built = Some (Inr (hs_runtime h'), opened))
     \<and> hs_reload_generation h' = hs_reload_generation h + 1
     \<and> (\<exists>path contents. toml_file (hs_disk h') = (toml_file (hs_disk h))(path := contents)))"

lemma same_service_refl [simp]: "same_service h h"
  by (simp add: same_service_def)

lemma status_fields [simp]:
  "same_service h (record_status now_ms trigger outcome error violations h') = same_service h h'"
  by (simp add: same_service_def record_status_def)

lemma note_journal_fields [simp]:
  "same_service h (note_journal opened h') = same_service h h'" "hs_disk (note_journal opened h) = hs_disk h"
  "hs_vars (note_journal opened h) = hs_vars h" "hs_reload_generation (note_journal opened h) = hs_reload_generation h"
  "hs_reload_status (note_journal opened h) = hs_reload_status h" "hs_config_bundle (note_journal opened h) = hs_config_bundle h"
  by (auto simp: same_service_def note_journal_def split: option.split)

lemma interleaved_fields [simp]:
  "hs_disk (interleaved rb h) = hs_disk h" "hs_vars (interleaved rb h) = hs_vars h" "hs_reload_status (interleaved rb h) = hs_reload_status h"
  "hs_reload_generation (interleaved rb h) = hs_reload_generation h" "hs_config_bundle (interleaved rb h) = hs_config_bundle h"
  by (simp_all add: interleaved_def split: prod.split)

lemma same_service_trans: "same_service h h1 \<Longrightarrow> same_service h1 h2 \<Longrightarrow> same_service h h2"
  by (simp add: same_service_def)

lemma interleaved_same: "same_service h h1 \<Longrightarrow> same_service (interleaved rb h) (interleaved rb h1)"
  by (simp add: same_service_def interleaved_def split: prod.split)

lemma left_alone_after: "same_service h h1 \<Longrightarrow> left_alone rb h1 h' \<Longrightarrow> left_alone rb h h'"
  unfolding left_alone_def using same_service_trans interleaved_same by blast

lemma left_alone_refl [simp]: "left_alone rb h h" "left_alone rb h (interleaved rb h)"
  by (simp_all add: left_alone_def)

lemma left_alone_fields [simp]:
  "left_alone rb h (record_status now_ms trigger outcome error violations h') = left_alone rb h h'"
  "left_alone rb h (note_journal opened h') = left_alone rb h h'"
  by (simp_all add: left_alone_def)

lemma same_left_alone: "same_service h h' \<Longrightarrow> left_alone rb h h'"
  by (simp add: left_alone_def)

lemma violations_of_same: "same_service h h' \<Longrightarrow> reload_violations rb h' bundle = reload_violations rb h bundle"
  by (auto simp: same_service_def reload_violations_def split: option.split)

lemma reconfigured_after: "reconfigured rb h1 h' \<Longrightarrow> same_service h h1 \<Longrightarrow> reconfigured rb h h'"
  by (auto simp: reconfigured_def violations_of_same) (auto simp: same_service_def)

lemma perform_write_files:
  assumes "perform_write pid seq write_op d = (r, d')"
  shows "case r of Inl _ \<Rightarrow> toml_file d' = toml_file d | Inr _ \<Rightarrow> \<exists>path contents. toml_file d' = (toml_file d)(path := contents)"
proof (cases write_op)
  case (WriteFile path contents)
  from assms WriteFile obtain r' where "write_atomic pid seq path contents d = (r', d')" "isl r' = isl r"
    by (auto simp: perform_write_def handle_def fail_def ok_def split: prod.splits sum.splits)
  with write_atomic_replaces [where pid = pid and seq = seq and path = path and contents = contents and d = d] show ?thesis
    by (cases r; cases r') (auto split: if_splits, metis fun_upd_triv)
next
  case (DeleteFile path)
  with assms remove_file_removes [where path = path and d = d] show ?thesis by (cases r) (auto simp: perform_write_def)
qed

lemma applied_prebuilt:
  assumes "apply_bundle_and_record rb now_ms bundle (Some runtime) trigger h = Some (r, h')"
  shows "r = Inr (hs_reload_generation h + 1)" "hs_config_bundle h' = Some bundle" "hs_runtime h' = runtime"
    "hs_reload_generation h' = hs_reload_generation h + 1" "hs_disk h' = hs_disk h" "hs_vars h' = hs_vars h"
  using assms by (auto simp: apply_bundle_and_record_def apply_bundle_def record_applied_def swap_runtime_def Let_def)

lemma committed_write:
  assumes "perform_write pid seq write_op (hs_disk h1) = (Inr u, d)" and h1: "h1 = note_journal opened (interleaved rb h)"
    and valid: "validate (hs_vars h) (env_fixed4 (rb_env rb)) candidate = Inr v" and allowed: "reload_violations rb h candidate = []"
    and built: "build_runtime rb (hs_vars h) (without_prune candidate) = Some (Inr runtime, opened)"
    and applied: "apply_bundle_and_record rb now_ms candidate (Some runtime) ConfigWrite (h1\<lparr>hs_disk := d\<rparr>) = Some (r', h')"
  shows "isl r' = False \<and> reconfigured rb h h'"
  using applied_prebuilt [OF applied] valid allowed built perform_write_files [OF assms(1)] h1
  unfolding reconfigured_def by (intro conjI exI [of _ candidate] exI [of _ "without_prune candidate"]) (simp_all add: without_prune_def)

lemma finished_write:
  assumes run: "finish_config_write rb now_ms seq candidate write_op h = Some (r, h')"
  shows "case r of Inl response \<Rightarrow> left_alone rb h h' \<and> (\<forall>a b c e. response \<noteq> WriteSuccess a b c e) | Inr _ \<Rightarrow> reconfigured rb h h'"
proof (cases "validate (hs_vars h) (env_fixed4 (rb_env rb)) candidate")
  case (Inl error)
  with assms show ?thesis by (auto simp: finish_config_write_def)
next
  case valid: (Inr u)
  show ?thesis
  proof (cases "reload_violations rb h candidate = []")
    case False
    with assms valid show ?thesis by (auto simp: finish_config_write_def violations_response_def)
  next
    case allowed: True
    consider (refused) message opened where "build_runtime rb (hs_vars h) (without_prune candidate) = Some (Inl message, opened)"
      | (built) runtime opened where "build_runtime rb (hs_vars h) (without_prune candidate) = Some (Inr runtime, opened)"
      using assms valid allowed by (auto simp: finish_config_write_def split: option.splits sum.splits)
    then show ?thesis
    proof cases
      case refused
      with assms valid allowed show ?thesis by (auto simp: finish_config_write_def)
    next
      case built
      let ?h = "note_journal opened (interleaved rb h)"
      obtain w d where write_done: "perform_write (rb_pid rb) seq write_op (hs_disk ?h) = (w, d)" by fastforce
      note files = perform_write_files [OF write_done]
      show ?thesis
      proof (cases w)
        case (Inl message)
        with files have "same_service (interleaved rb h) (?h\<lparr>hs_disk := d\<rparr>)" by (simp add: same_service_def note_journal_def split: option.split)
        with Inl assms valid allowed built write_done show ?thesis
          by (auto simp: finish_config_write_def Let_def left_alone_def)
      next
        case (Inr u')
        with assms valid allowed built write_done obtain r' where
          applied: "apply_bundle_and_record rb now_ms candidate (Some runtime) ConfigWrite (?h\<lparr>hs_disk := d\<rparr>) = Some (r', h')"
          and r: "r = map_sum apply_error_response id r'" by (auto simp: finish_config_write_def Let_def)
        from committed_write [OF write_done [unfolded Inr] refl valid allowed built applied] r show ?thesis by (cases r') auto
      qed
    qed
  qed
qed

lemma begun_write:
  assumes "begin_config_write rb if_match h = (r, h')"
  shows "same_service h h'" "hs_reload_status h' = hs_reload_status h" "r = Inl response \<Longrightarrow> response \<noteq> WriteSuccess a b c e"
proof -
  have "toml_file (snd (load_sources_from_dir toml config_dir d)) = toml_file d" for toml :: "'a Toml" and config_dir d
    using loading_is_quiet by (auto simp: quiet_def)
  with assms show "same_service h h'"
    by (auto simp: begin_config_write_def same_service_def split: option.splits prod.splits sum.splits) (metis snd_conv)+
  show "hs_reload_status h' = hs_reload_status h"
    using assms by (auto simp: begin_config_write_def split: option.splits prod.splits sum.splits)
  show "response \<noteq> WriteSuccess a b c e" if "r = Inl response"
    using assms that by (auto simp: begin_config_write_def check_if_match_def violations_response_def
        split: option.splits prod.splits sum.splits if_splits)
qed

text \<open>Every handler rejects without a change or ends in the common epilogue.\<close>

definition settles :: "('v, 'j, 'w) Rebuild \<Rightarrow> ('v, 'j, 'w) HttpState \<Rightarrow> ('v Response \<times> ('v, 'j, 'w) HttpState) option \<Rightarrow> bool" where
  "settles rb h result = (case result of None \<Rightarrow> True | Some (WriteSuccess _ _ _ _, h') \<Rightarrow> reconfigured rb h h' | Some (_, h') \<Rightarrow> left_alone rb h h')"

lemma rejection_settles:
  "same_service h h' \<Longrightarrow> settles rb h (rejects (ErrorResponse status text) h')"
  "same_service h h' \<Longrightarrow> settles rb h (rejects (violations_response violations) h')"
  by (simp_all add: settles_def rejects_def violations_response_def same_left_alone)

lemma begun_rejection_settles:
  assumes "begin_config_write rb if_match h = (Inl response, h')"
  shows "settles rb h (rejects response h')"
  using same_left_alone [OF begun_write(1) [OF assms], of rb] begun_write(3) [OF assms refl] by (cases response) (auto simp: settles_def rejects_def)

lemma epilogue_settles:
  assumes "same_service h h1"
  shows "settles rb h (respond status word entity (finish_config_write rb now_ms seq candidate write_op h1))"
proof (cases "finish_config_write rb now_ms seq candidate write_op h1")
  case (Some result)
  obtain r h' where result: "result = (r, h')" by fastforce
  show ?thesis
    using left_alone_after [OF assms, of rb h'] finished_write [OF Some [unfolded result]] Some result reconfigured_after [OF _ assms, of rb h']
    by (cases r) (auto simp: settles_def respond_def split: Response.split)
qed (simp add: settles_def respond_def)

lemmas settling = rejection_settles begun_rejection_settles epilogue_settles

lemmas handler_defs = put_config_global_handler_def put_config_bot_handler_def create_config_bot_handler_def delete_config_bot_handler_def
  put_config_risk_profile_handler_def put_config_account_handler_def

lemma write_settles: "settles rb h (config_write rb now_ms seq if_match request h)"
proof -
  obtain r h1 where first: "begin_config_write rb if_match h = (r, h1)" by fastforce
  note same = begun_write(1) [OF first]
  show ?thesis
  proof (cases r)
    case (Inl response)
    with begun_rejection_settles first have "settles rb h (rejects response h1)" by blast
    with first Inl show ?thesis
      by (cases request) (simp_all add: handler_defs settling(1))
  next
    case (Inr sources)
    with first same show ?thesis
      by (cases request) (auto simp: handler_defs Let_def settling split: option.split sum.split)
  qed
qed


lemma loaded:
  assumes "load_from_dir from_path dotenv fixed4 toml config_dir d vars = (r, d', vars')"
  shows "toml_file d' = toml_file d" "r = Inr bundle \<Longrightarrow> validate vars' fixed4 bundle = Inr ()"
proof -
  have "toml_file (snd (load_sources_from_dir toml config_dir d)) = toml_file d" using loading_is_quiet by (auto simp: quiet_def)
  with assms show "toml_file d' = toml_file d"
    by (auto simp: load_from_dir_def split: prod.splits sum.splits)
  show "r = Inr bundle \<Longrightarrow> validate vars' fixed4 bundle = Inr ()"
    using assms by (auto simp: load_from_dir_def split: prod.splits sum.splits)
qed

lemma applied_built:
  assumes "apply_bundle_and_record rb now_ms bundle None trigger h = Some (r, h')"
  shows "case r of Inl _ \<Rightarrow> same_service h h' | Inr generation \<Rightarrow> hs_config_bundle h' = Some bundle \<and> hs_disk h' = hs_disk h \<and> hs_vars h' = hs_vars h
    \<and> hs_reload_generation h' = hs_reload_generation h + 1 \<and> (\<exists>opened. build_runtime rb (hs_vars h) bundle = Some (Inr (hs_runtime h'), opened))"
  using assms by (auto simp: apply_bundle_and_record_def apply_bundle_def record_applied_def swap_runtime_def Let_def
      split: option.splits sum.splits)

lemma reload_settles:
  assumes "reload_from_disk rb now_ms trigger h = Some (r, h')"
  shows "if r = Inr True then reconfigured rb h h' else left_alone rb h h'"
proof (cases "hs_config_dir h")
  case None
  with assms show ?thesis by (auto simp: reload_from_disk_def)
next
  case (Some config_dir)
  obtain res d vars where load: "load_from_dir (rb_from_path rb) (rb_dotenv rb) (env_fixed4 (rb_env rb)) (rb_toml rb) config_dir
    (hs_disk h) (hs_vars h) = (res, d, vars)" by (metis prod_cases3)
  define h1 where "h1 = h\<lparr>hs_disk := d, hs_vars := vars\<rparr>"
  have same: "same_service h h1" using loaded(1) [OF load] by (simp add: h1_def same_service_def)
  show ?thesis
  proof (cases "\<exists>bundle r'. res = Inr bundle \<and> reload_violations rb h1 bundle = []
      \<and> apply_bundle_and_record rb now_ms bundle None trigger (interleaved rb h1) = Some (r', h') \<and> r = map_sum id (\<lambda>_. True) r'")
    case True
    then obtain fresh r' where applied: "res = Inr fresh" "reload_violations rb h1 fresh = []" "r = map_sum id (\<lambda>_. True) r'"
      and run: "apply_bundle_and_record rb now_ms fresh None trigger (interleaved rb h1) = Some (r', h')" by blast
    note built = applied_built [OF run]
    have "reconfigured rb h1 h'" if "r' = Inr generation" for generation
      unfolding reconfigured_def using built that applied loaded(2) [OF load applied(1)]
      by (intro exI [of _ fresh]) (auto simp: h1_def intro: exI [of _ fresh] exI [of _ "toml_file d path" for path] fun_upd_triv [symmetric])
    with built same reconfigured_after [of rb h1 h' h] left_alone_after [OF same, of rb h'] applied(3) show ?thesis
      by (cases r') (auto simp: left_alone_def)
  next
    case False
    with assms Some load same_left_alone [OF same, of rb] show ?thesis
      by (auto simp: reload_from_disk_def Let_def h1_def [symmetric] split: sum.splits if_splits)
  qed
qed

lemma step_settles:
  assumes "config_step rb now_ms seq step h = Some (applied, h')"
  shows "if applied then reconfigured rb h h' else left_alone rb h h'"
proof (cases step)
  case (ReloadStep trigger)
  with assms reload_settles show ?thesis by (fastforce split: if_splits)
next
  case (WriteStep if_match request)
  with assms write_settles [of rb h now_ms seq if_match request] show ?thesis
    by (auto simp: settles_def split: option.splits Response.splits)
qed

text \<open>The build of a write request prunes nothing, so the history of a removed bot survives a write that fails.\<close>

lemma prebuild_never_prunes:
  "from_config_with_storage open_sqlite vars as_float as_integer env outside sequence (without_prune bundle)
   = from_config_with_storage_impl open_sqlite vars as_float as_integer env outside sequence (without_prune bundle) False"
  by (simp add: from_config_with_storage_def from_config_with_storage_impl_def prune_removed_bots_def without_prune_def Let_def
      split: sum.split)

text \<open>A runtime that was built keeps the promises of a start.\<close>

lemma built_promises:
  assumes "build_runtime rb vars bundle = Some (Inr s, opened)"
  shows "list_all (capital_accounted (cb_accounts bundle)) (rt_account_ledgers s)" "list_all (configured_lane (cb_instances bundle)) (rt_lanes s)"
proof -
  from assms obtain j where "from_config_with_storage_impl (rb_open_sqlite rb) vars (rb_as_float rb) (rb_as_integer rb) (rb_env rb) (rb_outside rb)
    (rb_sequence rb) bundle True = (Inr (Some s), j)"
    by (cases "from_config_with_storage (rb_open_sqlite rb) vars (rb_as_float rb) (rb_as_integer rb) (rb_env rb) (rb_outside rb)
      (rb_sequence rb) bundle") (auto simp: build_runtime_def from_config_with_storage_def split: sum.splits option.splits prod.splits)
  from promises_kept [OF this ledgers_rel_refl lanes_rel_refl] show
    "list_all (capital_accounted (cb_accounts bundle)) (rt_account_ledgers s)" "list_all (configured_lane (cb_instances bundle)) (rt_lanes s)"
    using typed.refl by blast+
qed

text \<open>C12: A configuration change is all or nothing. A reload or a write request that is not applied leaves the
  runtime, the active bundle, the data plane, the generation and every configuration file as they were at
  its check, or as the tasks that ran between the check and the end of the request made them, whichever
  calls to the disk failed. One that is applied moves the generation on by one, changes at most one
  configuration file, and the service then runs on a valid bundle, with the lanes it asks for and with
  ledgers that account for the budgets it declares and hold no reservation. The journal is outside this:
  a build that fails has written to it.\<close>

theorem configuration_change_all_or_nothing:
  "case config_step rb now_ms seq step h of None \<Rightarrow> True
   | Some (applied, h') \<Rightarrow>
       if applied then hs_reload_generation h' = hs_reload_generation h + 1
         \<and> (\<exists>path contents. toml_file (hs_disk h') = (toml_file (hs_disk h))(path := contents))
         \<and> (case hs_config_bundle h' of None \<Rightarrow> False
            | Some bundle \<Rightarrow> validate (hs_vars h') (env_fixed4 (rb_env rb)) bundle = Inr ()
                \<and> list_all (capital_accounted (cb_accounts bundle)) (rt_account_ledgers (hs_runtime h'))
                \<and> list_all (configured_lane (cb_instances bundle)) (rt_lanes (hs_runtime h')))
       else left_alone rb h h'"
proof (cases "config_step rb now_ms seq step h")
  case (Some result)
  obtain applied h' where result: "result = (applied, h')" by fastforce
  note settled = step_settles [OF Some [unfolded result]]
  show ?thesis
  proof (cases applied)
    case True
    with settled obtain fresh built opened where new: "hs_config_bundle h' = Some fresh" "validate (hs_vars h') (env_fixed4 (rb_env rb)) fresh = Inr ()"
      "cb_accounts built = cb_accounts fresh" "cb_instances built = cb_instances fresh"
      "hs_reload_generation h' = hs_reload_generation h + 1"
      "\<exists>path contents. toml_file (hs_disk h') = (toml_file (hs_disk h))(path := contents)"
      and built: "build_runtime rb (hs_vars h') built = Some (Inr (hs_runtime h'), opened)"
      unfolding reconfigured_def if_P [OF True] by blast
    from built_promises [OF built] new True Some result show ?thesis by simp
  qed (use settled Some result in simp)
qed simp

text \<open>What a bundle binds a bot to, and the settings of an account that its connector was built with.\<close>

definition keeps_bindings :: "'v ConfigBundle \<Rightarrow> 'v ConfigBundle \<Rightarrow> string \<Rightarrow> bool" where
  "keeps_bindings old new bot_id = (case (hm_get (instances_by_id old) bot_id, hm_get (instances_by_id new) bot_id) of
     (Some a, Some b) \<Rightarrow> ic_timeframe a = ic_timeframe b \<and> ic_symbols a = ic_symbols b \<and> ic_account a = ic_account b
       \<and> ic_data_connector a = ic_data_connector b \<and> ic_execution_connector a = ic_execution_connector b \<and> ic_market a = ic_market b
   | (None, None) \<Rightarrow> True | _ \<Rightarrow> False)"

definition keeps_connector :: "'v ConfigBundle \<Rightarrow> 'v ConfigBundle \<Rightarrow> string \<Rightarrow> bool" where
  "keeps_connector old new account_id = (case (hm_get (accounts_by_id (cb_accounts old)) account_id, hm_get (accounts_by_id (cb_accounts new)) account_id) of
     (Some a, Some b) \<Rightarrow> \<not> account_settings_differ a b \<and> \<not> credentials_differ a b | (None, None) \<Rightarrow> True | _ \<Rightarrow> False)"

lemma hm_keys_get: "k \<in> set (hm_keys m) \<longleftrightarrow> hm_get m k \<noteq> None"
  by (auto simp: hm_keys_def hm_get_def map_of_eq_None_iff)

lemma violation_if_nil [simp]: "violation_if found code scope message = [] \<longleftrightarrow> \<not> found"
  by (simp add: violation_if_def)

lemma accepted_bindings:
  assumes "validate_reload_change_set old new running = []"
  shows "bot_id \<in> set running \<Longrightarrow> keeps_bindings old new bot_id" "keeps_connector old new account_id"
proof -
  show "keeps_bindings old new bot_id" if "bot_id \<in> set running"
    using assms that by (auto simp: validate_reload_change_set_def collect_running_instance_violations_def running_instance_violations_def
        keeps_bindings_def bindings_differ_def Let_def split: option.splits)
  from assms have keys: "set (hm_keys (accounts_by_id (cb_accounts old))) = set (hm_keys (accounts_by_id (cb_accounts new)))"
    by (auto simp: validate_reload_change_set_def collect_account_violations_def Let_def)
  then have "account_id \<in> set (hm_keys (accounts_by_id (cb_accounts old))) \<longleftrightarrow> account_id \<in> set (hm_keys (accounts_by_id (cb_accounts new)))"
    by simp
  then show "keeps_connector old new account_id"
    using assms by (auto simp: validate_reload_change_set_def collect_account_violations_def account_violations_def Let_def
        keeps_connector_def hm_keys_get split: option.splits)
qed

text \<open>C13: No configuration change moves a running bot or rewires an account: after any reload or write request,
  applied or not, a bot that runs at the check of the request has the timeframe, the symbols, the account, the connectors and the market
  it had before, and every account has the connector settings and credentials it had before.\<close>

theorem running_bots_keep_bindings:
  "case (hs_config_bundle h, config_step rb now_ms seq step h) of
     (Some old, Some (applied, h')) \<Rightarrow> (case hs_config_bundle h' of None \<Rightarrow> False
       | Some new \<Rightarrow> list_all (keeps_bindings old new) (running_instance_ids rb (hs_runtime h)) \<and> keeps_connector old new account_id)
   | _ \<Rightarrow> True"
proof -
  have same: "keeps_bindings old old bot_id" "keeps_connector old old account_id" for old :: "'a ConfigBundle" and bot_id
    by (auto simp: keeps_bindings_def keeps_connector_def account_settings_differ_def credentials_differ_def split: option.split)
  have "\<exists>new. hs_config_bundle h' = Some new \<and> list_all (keeps_bindings old new) (running_instance_ids rb (hs_runtime h))
      \<and> keeps_connector old new account_id"
    if old: "hs_config_bundle h = Some old" and step: "config_step rb now_ms seq step h = Some (applied, h')" for old applied h'
  proof (cases applied)
    case True
    with step_settles [OF step] old obtain new where "hs_config_bundle h' = Some new"
      "validate_reload_change_set old new (running_instance_ids rb (hs_runtime h)) = []"
      by (auto simp: reconfigured_def reload_violations_def)
    with accepted_bindings show ?thesis by (auto simp: list_all_iff)
  next
    case False
    with step_settles [OF step] old same show ?thesis by (auto simp: left_alone_def same_service_def list_all_iff)
  qed
  then show ?thesis by (fastforce split: option.split prod.split)
qed

text \<open>The history is bounded, and its newest entry has the current generation.\<close>

definition bookkept :: "('v, 'j, 'w) HttpState \<Rightarrow> bool" where
  "bookkept h \<longleftrightarrow> length (hs_reload_status h) \<le> RELOAD_STATUS_HISTORY_LIMIT
     \<and> (hs_reload_status h \<noteq> [] \<longrightarrow> crs_generation (last (hs_reload_status h)) = hs_reload_generation h)"

lemma pushed: "length (push_status history entry) \<le> RELOAD_STATUS_HISTORY_LIMIT" "last (push_status history entry) = entry"
  by (auto simp: push_status_def RELOAD_STATUS_HISTORY_LIMIT_def)

lemma recorded_bookkept:
  "bookkept (record_status now_ms trigger outcome error violations h)" "record_applied now_ms trigger h = (generation, h') \<Longrightarrow> bookkept h'"
  by (auto simp: bookkept_def record_status_def record_applied_def Let_def pushed)

lemma applied_bookkept:
  "apply_bundle_and_record rb now_ms bundle prebuilt trigger h = Some (r, h') \<Longrightarrow> bookkept h'"
  by (auto simp: apply_bundle_and_record_def recorded_bookkept split: option.splits prod.splits sum.splits)

text \<open>The id of a bot that may be created names one file in the bots directory: it cannot leave it.\<close>

lemma safe_bot_path:
  assumes "bot_id_is_safe_filename bot_id"
  shows "path_of (bot_id @ ''.toml'') = \<lparr>path_is_absolute = False, path_components = [bot_id @ ''.toml'']\<rparr>"
proof -
  have no_slash: "split_slash t = [t]" if "CHR ''/'' \<notin> set t" for t
    using that by (induction t) auto
  from assms have chars: "c \<noteq> CHR ''/'' \<and> c \<noteq> CHR ''.''" if "c \<in> set bot_id" for c
    using that by (auto simp: bot_id_is_safe_filename_def list_all_iff is_ascii_alphanumeric_def is_digit_def Let_def)
  then have "CHR ''/'' \<notin> set (bot_id @ ''.toml'')" by auto
  from no_slash [OF this] chars assms show ?thesis
    by (cases bot_id) (auto simp: path_of_def without_dots_def bot_id_is_safe_filename_def)
qed


lemma finish_bookkept:
  assumes "bookkept h" "finish_config_write rb now_ms seq candidate write_op h = Some (r, h')"
  shows "bookkept h'"
proof -
  have keep: "bookkept (note_journal opened (interleaved rb h))" "bookkept ((note_journal opened (interleaved rb h))\<lparr>hs_disk := d\<rparr>)" for opened d
    using assms(1) by (simp_all add: bookkept_def)
  show ?thesis
    using assms keep by (auto simp: finish_config_write_def Let_def split: sum.splits option.splits prod.splits if_splits dest: applied_bookkept)
qed

lemma respond_bookkept:
  "respond status word entity (finish_config_write rb now_ms seq candidate write_op h) = Some (response, h') \<Longrightarrow> bookkept h \<Longrightarrow> bookkept h'"
  by (auto simp: respond_def dest: finish_bookkept)

lemma write_bookkept:
  assumes "bookkept h" "config_write rb now_ms seq if_match request h = Some (response, h')"
  shows "bookkept h'"
proof -
  obtain r h1 where first: "begin_config_write rb if_match h = (r, h1)" by fastforce
  then have "bookkept h1" using assms(1) begun_write(1,2) [OF first] by (simp add: bookkept_def same_service_def)
  with assms first show ?thesis
    by (cases request) (auto simp: handler_defs rejects_def Let_def split: sum.splits option.splits if_splits dest: respond_bookkept)
qed

lemma reload_bookkept:
  assumes "bookkept h" "reload_from_disk rb now_ms trigger h = Some (r, h')"
  shows "bookkept h'"
  using assms by (auto simp: reload_from_disk_def Let_def recorded_bookkept split: option.splits prod.splits sum.splits if_splits dest: applied_bookkept)

text \<open>Whatever requests the service gets, its history stays bounded and up to date.\<close>

lemma step_bookkept: "bookkept h \<Longrightarrow> config_step rb now_ms seq step h = Some (applied, h') \<Longrightarrow> bookkept h'"
  by (cases step) (auto dest: write_bookkept reload_bookkept)

subsection \<open>The file watcher (config_watcher.rs)\<close>

text \<open>A change of a TOML file that is not hidden starts a batch; the reload comes when the directory was quiet.
  Events are their arrival times with what they touch, in the order of the queue; times are milliseconds.\<close>

datatype EventKind = AccessEvent | CreateEvent | ModifyEvent | RemoveEvent | OtherEvent

record WatchEvent =
  we_kind :: EventKind
  we_paths :: "Path list"

definition CONFIG_WATCH_DEBOUNCE_MS :: nat where
  "CONFIG_WATCH_DEBOUNCE_MS = 500"

definition CONFIG_WATCH_MAX_COALESCE_MS :: nat where
  "CONFIG_WATCH_MAX_COALESCE_MS = 5000"

definition is_relevant_path :: "Path \<Rightarrow> bool" where
  "is_relevant_path path = (case file_name path of None \<Rightarrow> False
     | Some name \<Rightarrow> take 1 name \<noteq> ''.'' \<and> (case path_extension (path_of name) of None \<Rightarrow> False
         | Some extension \<Rightarrow> to_ascii_uppercase extension = ''TOML''))"

definition is_relevant_event :: "WatchEvent \<Rightarrow> bool" where
  "is_relevant_event event \<longleftrightarrow> we_kind event \<in> {CreateEvent, ModifyEvent, RemoveEvent} \<and> list_ex is_relevant_path (we_paths event)"

text \<open>When the batch fires: every received event, relevant or not, begins a new round of the loop.\<close>

fun debounce_to_quiescence :: "nat \<Rightarrow> nat \<Rightarrow> (nat \<times> WatchEvent) list \<Rightarrow> nat" where
  "debounce_to_quiescence batch_started_at now [] =
     min (now + CONFIG_WATCH_DEBOUNCE_MS) (batch_started_at + CONFIG_WATCH_MAX_COALESCE_MS)"
| "debounce_to_quiescence batch_started_at now ((arrived, event) # events) =
     (let fire_at = min (now + CONFIG_WATCH_DEBOUNCE_MS) (batch_started_at + CONFIG_WATCH_MAX_COALESCE_MS) in
      if arrived < fire_at then debounce_to_quiescence batch_started_at (max now arrived) events else fire_at)"

definition trigger_reload :: "('v, 'j, 'w) Rebuild \<Rightarrow> int \<Rightarrow> ('v, 'j, 'w) HttpState \<Rightarrow> ('v, 'j, 'w) HttpState option" where
  "trigger_reload rb now_ms h = map_option snd (reload_from_disk rb now_ms FileWatcher h)"

text \<open>A batch fires after its start and within the hard cap, however many events come.\<close>

lemma batch_fires_in_time:
  "started \<le> now \<Longrightarrow> now < started + CONFIG_WATCH_MAX_COALESCE_MS \<Longrightarrow>
    now < debounce_to_quiescence started now events \<and> debounce_to_quiescence started now events \<le> started + CONFIG_WATCH_MAX_COALESCE_MS"
  by (induction started now events rule: debounce_to_quiescence.induct)
    (fastforce simp: Let_def CONFIG_WATCH_DEBOUNCE_MS_def CONFIG_WATCH_MAX_COALESCE_MS_def)+

text \<open>An irrelevant event defers the reload as a relevant one does.\<close>

lemma noise_defers_reload:
  "debounce_to_quiescence 0 0 [(400, \<lparr>we_kind = AccessEvent, we_paths = []\<rparr>)] = 900" "debounce_to_quiescence 0 0 [] = 500"
  by code_simp+

text \<open>The temporary files of an atomic write are not seen by the watcher.\<close>

lemma temp_files_not_watched: "\<not> is_relevant_path (temp_path_for pid seq path name)"
  by (auto simp: is_relevant_path_def temp_path_for_def file_name_def)

end
