(* ===== verification/Spec2Isabelle.thy ===== *)
theory Spec2Isabelle
  imports Core Risk Ledger Capital Inventory Execution Strategy Signals MarketData DataPlane Portfolio Instance Lane Storage ReadModels
    Config Workflow Trace LaneExecution LaneCycle LaneRecovery Connectors Gateway RuntimeState RuntimeRepo Summaries Accounting
    RuntimeData Processing Polling Reconciliation Lifecycle Startup Dispatch System Supervisor Providers ConfigFiles Reload
begin

text \<open>
  OpenTicker is a trading service: bots are configured in TOML files, every bot has one lane per symbol, and
  a lane turns market bars into signals, signals into decisions, and decisions into orders, with capital
  reserved in the ledger of its account. This development models the service from its arithmetic to its
  background loops and shows what it promises.

  \<^bold>\<open>The parts and how they interact\<close> (paths are under \<open>src/crates/\<close>).

  \<^item> \<open>F64\<close>, \<open>Prelude\<close>, \<open>Workflow\<close>: IEEE binary64 numbers with rounding, order and decimal form; hash maps as
    association lists, text and saturating integers; fallible state-changing code (the \<open>?\<close> operator, loops,
    panics). The locale \<open>finite_map\<close> states what the components use of a hash map.
  \<^item> \<open>Core\<close> (openticker-core), \<open>Risk\<close> (openticker-risk), \<open>Ledger\<close> and \<open>Inventory\<close> (openticker-ledger), \<open>Execution\<close>
    (openticker-execution), \<open>Strategy\<close> (openticker-strategy), \<open>Signals\<close> (openticker-signals), \<open>MarketData\<close>
    (openticker-data), \<open>DataPlane\<close> (openticker-dataplane), \<open>Portfolio\<close> (openticker-portfolio): the pure components.
    A risk decision is a function of limits and context; the ledger is a state machine over reservations and
    open positions by owner path; the data plane keeps bounded, sorted buffers per stream.
  \<^item> \<open>Capital\<close>: the specification of how the service may use a ledger. In a step of its machine the capital of an
    order is taken within the rooms of its bot and its account, and is given back or turned into a fill in the
    same step. The runtime refines it: see \<open>execution_ledger\<close> in \<open>LaneExecution\<close> and \<open>ledgers_moved\<close> in \<open>RuntimeData\<close>.
  \<^item> \<open>Instance\<close> (openticker-instance, openticker-registry), \<open>Lane\<close>, \<open>LaneExecution\<close>, \<open>LaneCycle\<close>, \<open>LaneRecovery\<close>
    (openticker-lane), \<open>Trace\<close> (openticker-trace): a lane is a record, its workflows are written against the
    engine traits of the source, which are records of functions here. The locales \<open>execution_logging\<close>,
    \<open>execution_world\<close>, \<open>execution_ledger\<close>, \<open>execution_invariant\<close> and \<open>cycle_invariant\<close> say what a workflow needs of
    its engine; \<open>Processing\<close> interprets them on the engine of the runtime.
  \<^item> \<open>Storage\<close>, \<open>ReadModels\<close> (openticker-storage): the journal interface with its in-memory implementation, and the
    projections for operators.
  \<^item> \<open>Connectors\<close>, \<open>Web\<close>, \<open>Alpaca\<close>, \<open>Binance\<close>, \<open>BinanceStream\<close> (openticker-connectors), \<open>Gateway\<close>
    (openticker-gateway), \<open>Providers\<close>: the registry and its resilience, the two remote connectors request by
    request, the stream worker as a step relation, and the gateway on top. The locale \<open>provider_contract\<close> is what
    the gateway relies on; it is interpreted on the three connectors of the repository.
  \<^item> \<open>Config\<close>, \<open>ConfigFiles\<close> (openticker-config): the model, the validation, reading and replacing of files.
  \<^item> \<open>RuntimeState\<close>, \<open>RuntimeRepo\<close>, \<open>Summaries\<close>, \<open>Accounting\<close>, \<open>RuntimeData\<close>, \<open>Processing\<close>, \<open>Polling\<close>,
    \<open>Reconciliation\<close>, \<open>Lifecycle\<close>, \<open>Startup\<close>, \<open>Dispatch\<close> (openticker-runtime): the record \<open>Runtime\<close> holds the lanes,
    ledgers, connectors, journal and read models; every public operation is a function on it. The locales
    \<open>quiet_view\<close>, \<open>gateway_free\<close>, \<open>logged_view\<close> and \<open>lane_free\<close> collect what leaves a part of the state alone;
    \<open>lane_moves\<close>, \<open>trading_lanes\<close>, \<open>poll_invariant\<close>, \<open>delivery_invariant\<close> and \<open>manual_close_invariant\<close> carry a
    relation or an invariant through ever larger operations.
  \<^item> \<open>System\<close> puts all operations together (the locale \<open>runtime_invariant\<close>), \<open>Supervisor\<close>
    (polling\_supervisor) adds the background loops as an interleaving of sections between which the
    locks are free, and \<open>Reload\<close> (openticker-http: config\_ops, config\_write\_handlers, config\_watcher)
    exchanges the runtime when the configuration changes.

  \<^bold>\<open>What the theorems show.\<close>

  \<^item> The service as a whole: for every interleaving of operations, fetch tasks and stream events, every ledger is
    the configured budget of its account moved by steps of the capital machine, with no capital left reserved,
    and lanes are those of the configuration (\<open>Supervisor\<close>). What a provider reports as filled is not bounded by
    the budget, in the code as in the theorem. An undisturbed fetch task is a stream poll; a configuration change
    is all or nothing and moves no bot that runs at its check (\<open>Reload\<close>).
  \<^item> Trading: a cycle uses a ledger only as the trading machine does and leaves nothing reserved, no order goes
    out without capital, a failed order returns it, a gated bar moves no position, a completed cycle whose trace
    reads back is not repeated (\<open>Processing\<close>); the kill switch stops trading, a bot starts only when nothing blocks it (\<open>Lifecycle\<close>), a reconciled lane runs
    only when it is safe (\<open>Reconciliation\<close>); a start ends in a settled state (\<open>Startup\<close>).
  \<^item> Market data: polling returns and recovered bars never trade, but for the lone live bar of a lane that is up to date (\<open>Polling\<close>), a stream update is taken once and
    the data plane serves all requests (\<open>Dispatch\<close>), built bars are the candles of the trades (\<open>MarketData\<close>),
    the stream worker serves exactly the desired subscriptions (\<open>BinanceStream\<close>), pages answer their requests
    (\<open>Binance\<close>), an accepted order executes its request (\<open>Providers\<close>), and a rate-limited account is not contacted
    while its throttle stands (\<open>Gateway\<close>).
  \<^item> The components: reservations never overcommit and are returned exactly (\<open>Ledger\<close>), sells account for profit
    (\<open>Inventory\<close>), entries are allowed exactly within the limits (\<open>Risk\<close>), quantities are bounded (\<open>Execution\<close>),
    decisions and averages are exact (\<open>Strategy\<close>, \<open>Signals\<close>), previews leave no trace (\<open>Instance\<close>), fills keep a
    lane consistent unless they leave dust without cost basis (\<open>Lane\<close>), remote orders are classified exactly once
    (\<open>Portfolio\<close>), the read models answer as the journal after a bootstrap (\<open>Storage\<close>, \<open>ReadModels\<close>), a validated bundle
    admits every instance (\<open>Config\<close>), warmup ends (\<open>LaneRecovery\<close>).

  \<^bold>\<open>How the code is modelled.\<close>

  \<^item> \<open>f64\<close> values are exact binary64 numbers with infinities and one NaN; the two zeros are one. Sums are left
    folds, as the iterators compute them. 64-bit integers are words or saturating integers as in the source;
    timestamps are unbounded integers. Texts are ASCII.
  \<^item> A hash map is an association list in an arbitrary order, so a theorem holds for every iteration order.
    Code under a lock is one step; locks are never poisoned. Clock readings and elapsed times are arguments.
  \<^item> A result is a sum, an option \<open>None\<close> next to it is a panic (of \<open>summary_from_bot\<close> on a bot without lanes).
    Loops that the source does not bound are \<open>partial_function (option)\<close>; that they return is a theorem
    (\<open>Polling.polling_terminates\<close>) or fails where it fails in the source (\<open>Binance.pages_may_not_end\<close>). No fuel is
    used: the page and attempt bounds are those of the source.
  \<^item> Parameters stand for what is not in the repository: the HTTP client and the decoders that \<open>serde\<close> derives, the
    TOML, JSON and RFC 3339 libraries, SHA-256 and HMAC, the web socket, environment variables, and the remote
    providers. A disk may fail at every call.

  \<^bold>\<open>Not modelled.\<close> The SQLite journal is SQL over an external database: the runtime is verified against the
  journal interface, with the in-memory journal as its implementation. The queries of the runtime and the HTTP
  handlers other than the configuration requests are views of modelled state; the command line and the dashboard
  are clients of the HTTP API. The merge of a changed value into a TOML document works on the tree of an external
  library and is a parameter of \<open>ConfigFiles\<close>; the operating system's file watch is outside, only the debouncing is
  modelled. Structured logging has no effect on state.

  \<^bold>\<open>Configuration changes and the rest of the service.\<close> The configuration lock excludes only other configuration
  changes. A request is therefore modelled as a check, an arbitrary change of runtime and data plane by the
  other tasks (\<open>rb_meanwhile\<close>), and the build with the swap: a bot that is started after the check is not
  protected, and what the old runtime did since the check is lost with it. A build opens the journal, prunes it
  when a reload asks for that, and writes boot records, also when it fails afterwards, for reloads and for writes;
  \<open>hs_opened_journals\<close> keeps what each build left, and the theorem on configuration changes does not take it back.
\<close>

end
